(* ===== verification/Prelude.thy ===== *)
theory Prelude
  imports Main "HOL-Library.Char_ord" "HOL-Library.List_Lexorder" "HOL-Library.Word"
begin

text \<open>
  Shared vocabulary of the development: Python values as parsed from JSON, dictionaries as
  insertion-ordered association lists, the string operations of the standard library the code
  uses, exceptions as values, and the lemma collections the component proofs share.

  A string is a list of characters; each character stands for one code point below 256, so
  lengths and comparisons are those of Python's code points, and the UTF-8 length of a
  character is one or two bytes.
\<close>

named_theorems dict_simps \<open>facts about dictionary operations\<close>
named_theorems res_simps \<open>facts about exception results\<close>

section \<open>Exceptions as values\<close>

type_synonym ('e, 'a) res = "'e + 'a"

definition ebind :: "'e + 'a \<Rightarrow> ('a \<Rightarrow> 'e + 'b) \<Rightarrow> 'e + 'b" where
  "ebind m f = (case m of Inl e \<Rightarrow> Inl e | Inr x \<Rightarrow> f x)"

lemma ebind_simps [simp]: "ebind (Inl e) f = Inl e" "ebind (Inr x) f = f x"
  by (simp_all add: ebind_def)

lemma ebind_eq_Inr [res_simps]: "ebind m f = Inr y \<longleftrightarrow> (\<exists>x. m = Inr x \<and> f x = Inr y)"
  by (cases m) auto

lemma ebind_eq_Inl [res_simps]:
  "ebind m f = Inl e \<longleftrightarrow> m = Inl e \<or> (\<exists>x. m = Inr x \<and> f x = Inl e)"
  by (cases m) auto

text \<open>A list comprehension whose element expression may raise.\<close>

fun emap :: "('a \<Rightarrow> 'e + 'b) \<Rightarrow> 'a list \<Rightarrow> 'e + 'b list" where
  "emap f [] = Inr []"
| "emap f (x # xs) = ebind (f x) (\<lambda>y. ebind (emap f xs) (\<lambda>ys. Inr (y # ys)))"

lemma emap_Inr_length: "emap f xs = Inr ys \<Longrightarrow> length ys = length xs"
  by (induction xs arbitrary: ys) (auto simp: res_simps)

lemma emap_Inr_iff: "emap f xs = Inr ys \<longleftrightarrow> map f xs = map Inr ys"
proof (induction xs arbitrary: ys)
  case Nil
  then show ?case by auto
next
  case (Cons x xs)
  then show ?case by (cases ys) (auto simp: res_simps)
qed

lemma emap_total: "(\<And>x. x \<in> set xs \<Longrightarrow> f x = Inr (g x)) \<Longrightarrow> emap f xs = Inr (map g xs)"
  by (induction xs) auto

definition is_ok :: "'e + 'a \<Rightarrow> bool" where
  "is_ok r = (case r of Inl _ \<Rightarrow> False | Inr _ \<Rightarrow> True)"

lemma is_ok_simps [simp]: "is_ok (Inr x)" "\<not> is_ok (Inl e)"
  by (simp_all add: is_ok_def)

lemma is_ok_iff: "is_ok r \<longleftrightarrow> (\<exists>x. r = Inr x)"
  by (cases r) auto

section \<open>Dictionaries\<close>

type_synonym ('k, 'v) dict = "('k \<times> 'v) list"

abbreviation dget :: "('k, 'v) dict \<Rightarrow> 'k \<Rightarrow> 'v option" where
  "dget d k \<equiv> map_of d k"

definition dkeys :: "('k, 'v) dict \<Rightarrow> 'k list" where
  "dkeys d = map fst d"

definition dhas :: "('k, 'v) dict \<Rightarrow> 'k \<Rightarrow> bool" where
  "dhas d k \<longleftrightarrow> dget d k \<noteq> None"

text \<open>Assignment keeps the position of an existing key and appends a new one.\<close>

fun dset :: "('k, 'v) dict \<Rightarrow> 'k \<Rightarrow> 'v \<Rightarrow> ('k, 'v) dict" where
  "dset [] k v = [(k, v)]"
| "dset ((k', x) # d) k v = (if k' = k then (k, v) # d else (k', x) # dset d k v)"

fun ddel :: "('k, 'v) dict \<Rightarrow> 'k \<Rightarrow> ('k, 'v) dict" where
  "ddel [] k = []"
| "ddel ((k', x) # d) k = (if k' = k then ddel d k else (k', x) # ddel d k)"

lemma map_of_dset [simp, dict_simps]: "map_of (dset d k v) = (map_of d)(k \<mapsto> v)"
  by (induction d k v rule: dset.induct) auto

lemma map_of_ddel [simp, dict_simps]: "map_of (ddel d k) = (map_of d)(k := None)"
  by (induction d k rule: ddel.induct) auto

lemma dkeys_simps [simp]: "dkeys [] = []" "dkeys ((k, v) # d) = k # dkeys d"
  by (simp_all add: dkeys_def)

lemma dkeys_append [simp]: "dkeys (d @ e) = dkeys d @ dkeys e"
  by (simp add: dkeys_def)

lemma dkeys_dset: "dkeys (dset d k v) = (if k \<in> set (dkeys d) then dkeys d else dkeys d @ [k])"
  by (induction d k v rule: dset.induct) auto

lemma dkeys_ddel: "dkeys (ddel d k) = filter (\<lambda>x. x \<noteq> k) (dkeys d)"
  by (induction d k rule: ddel.induct) auto

lemma set_dkeys_dset [simp]: "set (dkeys (dset d k v)) = insert k (set (dkeys d))"
  by (auto simp: dkeys_dset)

lemma set_dkeys_ddel [simp]: "set (dkeys (ddel d k)) = set (dkeys d) - {k}"
  by (auto simp: dkeys_ddel)

lemma dget_None_iff [dict_simps]: "dget d k = None \<longleftrightarrow> k \<notin> set (dkeys d)"
  by (induction d) auto

lemma dget_Some_dkeys: "dget d k = Some v \<Longrightarrow> k \<in> set (dkeys d)"
  by (metis dget_None_iff option.distinct(1))

lemma distinct_dset [intro]: "distinct (dkeys d) \<Longrightarrow> distinct (dkeys (dset d k v))"
  by (simp add: dkeys_dset)

lemma distinct_ddel [intro]: "distinct (dkeys d) \<Longrightarrow> distinct (dkeys (ddel d k))"
  by (simp add: dkeys_ddel)

lemma ddel_absent: "k \<notin> set (dkeys d) \<Longrightarrow> ddel d k = d"
  by (induction d k rule: ddel.induct) auto

lemma set_dset_subset: "set (dset d k v) \<subseteq> insert (k, v) (set d)"
  by (induction d k v rule: dset.induct) auto

lemma set_ddel_subset: "set (ddel d k) \<subseteq> set d"
  by (induction d k rule: ddel.induct) auto

lemma length_ddel_le: "length (ddel d k) \<le> length d"
  by (induction d k rule: ddel.induct) auto

text \<open>The interface the components use of a dictionary, and its laws.\<close>

locale dict_interface =
  fixes lookup :: "'m \<Rightarrow> 'k \<Rightarrow> 'v option"
    and store :: "'m \<Rightarrow> 'k \<Rightarrow> 'v \<Rightarrow> 'm"
    and remove :: "'m \<Rightarrow> 'k \<Rightarrow> 'm"
  assumes lookup_store: "lookup (store d k v) = (lookup d)(k \<mapsto> v)"
    and lookup_remove: "lookup (remove d k) = (lookup d)(k := None)"
begin

lemma store_same: "lookup (store d k v) k = Some v"
  by (simp add: lookup_store)

lemma store_other: "k \<noteq> k' \<Longrightarrow> lookup (store d k v) k' = lookup d k'"
  by (simp add: lookup_store)

lemma remove_other: "k \<noteq> k' \<Longrightarrow> lookup (remove d k) k' = lookup d k'"
  by (simp add: lookup_remove)

lemma store_preserves:
  assumes "\<And>j w. lookup d j = Some w \<Longrightarrow> P j w" and "P k v" and "lookup (store d k v) j = Some w"
  shows "P j w"
  using assms by (cases "j = k") (auto simp: lookup_store)

lemma remove_preserves:
  assumes "\<And>j w. lookup d j = Some w \<Longrightarrow> P j w" and "lookup (remove d k) j = Some w"
  shows "P j w"
  using assms by (cases "j = k") (auto simp: lookup_remove)

end

interpretation pydict: dict_interface map_of dset ddel
  by unfold_locales simp_all

end
