(* ===== verification/Values.thy ===== *)
theory Values
  imports Complex_Main Prelude
begin

text \<open>
  Python values as the JSON reader produces them (\<open>json.loads\<close>), the type tests and
  equality of the language on them, and the string operations the code uses: \<open>strip\<close>,
  \<open>startswith\<close>, \<open>str(int)\<close>, \<open>shlex.quote\<close>, the worker name pattern and the UTF-8
  length. A float is an exact rational or one of the three non-finite values.
\<close>

section \<open>JSON values\<close>

datatype pyfloat = Fin rat | PosInf | NegInf | NaN

datatype json =
    JNull
  | JBool bool
  | JInt int
  | JFloat pyfloat
  | JStr string
  | JList "json list"
  | JObj "(string \<times> json) list"

type_synonym json_object = "(string \<times> json) list"

definition is_finite :: "pyfloat \<Rightarrow> bool" where
  "is_finite f = (case f of Fin _ \<Rightarrow> True | _ \<Rightarrow> False)"

text \<open>\<open>dict.get(key)\<close>: an absent key reads as \<open>None\<close>.\<close>

definition jget :: "json_object \<Rightarrow> string \<Rightarrow> json" where
  "jget d k = (case dget d k of None \<Rightarrow> JNull | Some v \<Rightarrow> v)"

definition as_obj :: "json \<Rightarrow> json_object option" where
  "as_obj v = (case v of JObj d \<Rightarrow> Some d | _ \<Rightarrow> None)"

definition as_list :: "json \<Rightarrow> json list option" where
  "as_list v = (case v of JList xs \<Rightarrow> Some xs | _ \<Rightarrow> None)"

definition as_str :: "json \<Rightarrow> string option" where
  "as_str v = (case v of JStr s \<Rightarrow> Some s | _ \<Rightarrow> None)"

text \<open>\<open>isinstance(v, str) and v\<close>.\<close>

definition as_nonempty :: "json \<Rightarrow> string option" where
  "as_nonempty v = (case v of JStr s \<Rightarrow> if s = [] then None else Some s | _ \<Rightarrow> None)"

text \<open>\<open>type(v) is int\<close> excludes booleans.\<close>

definition as_int :: "json \<Rightarrow> int option" where
  "as_int v = (case v of JInt i \<Rightarrow> Some i | _ \<Rightarrow> None)"

lemmas as_defs = as_obj_def as_list_def as_str_def as_nonempty_def as_int_def

lemma as_obj_Some [simp]: "as_obj v = Some d \<longleftrightarrow> v = JObj d"
  by (cases v) (auto simp: as_defs)

lemma as_list_Some [simp]: "as_list v = Some xs \<longleftrightarrow> v = JList xs"
  by (cases v) (auto simp: as_defs)

lemma as_str_Some [simp]: "as_str v = Some s \<longleftrightarrow> v = JStr s"
  by (cases v) (auto simp: as_defs)

lemma as_nonempty_Some [simp]: "as_nonempty v = Some s \<longleftrightarrow> v = JStr s \<and> s \<noteq> []"
  by (cases v) (auto simp: as_defs)

lemma as_int_Some [simp]: "as_int v = Some i \<longleftrightarrow> v = JInt i"
  by (cases v) (auto simp: as_defs)

lemma as_eval [simp]:
  "as_obj (JObj d) = Some d" "as_list (JList xs) = Some xs" "as_str (JStr s) = Some s"
  "as_int (JInt i) = Some i" "as_obj JNull = None" "as_obj (JStr s) = None"
  "as_str JNull = None" "as_list JNull = None" "as_nonempty JNull = None"
  by (simp_all add: as_defs)

lemma as_nonempty_JStr [simp]: "as_nonempty (JStr s) = (if s = [] then None else Some s)"
  by (simp add: as_defs)

lemma jget_Some [simp]: "dget d k = Some v \<Longrightarrow> jget d k = v"
  by (simp add: jget_def)

lemma jget_Nil [simp]: "jget [] k = JNull"
  by (simp add: jget_def)

lemma jget_Cons [simp]: "jget ((k', v) # d) k = (if k' = k then v else jget d k)"
  by (simp add: jget_def)

definition jopt :: "string option \<Rightarrow> json" where
  "jopt s = (case s of None \<Rightarrow> JNull | Some x \<Rightarrow> JStr x)"

lemma jopt_simps [simp]: "jopt None = JNull" "jopt (Some s) = JStr s"
  by (simp_all add: jopt_def)

lemma jopt_inject [simp]: "jopt a = jopt b \<longleftrightarrow> a = b"
  by (cases a; cases b) auto

text \<open>\<open>set(value) == {...}\<close> for a dictionary.\<close>

definition has_fields :: "json_object \<Rightarrow> string list \<Rightarrow> bool" where
  "has_fields d fs \<longleftrightarrow> set (dkeys d) = set fs"

section \<open>Equality of Python values\<close>

definition num_val :: "json \<Rightarrow> pyfloat option" where
  "num_val v = (case v of JBool b \<Rightarrow> Some (Fin (if b then 1 else 0))
     | JInt i \<Rightarrow> Some (Fin (of_int i)) | JFloat f \<Rightarrow> Some f | _ \<Rightarrow> None)"

definition num_eq :: "json \<Rightarrow> json \<Rightarrow> bool" where
  "num_eq v w = (case (num_val v, num_val w) of
     (Some a, Some b) \<Rightarrow> a = b \<and> a \<noteq> NaN | _ \<Rightarrow> False)"

text \<open>
  Dictionaries are equal when they hold equal values under the same keys, in any order;
  booleans, integers and floats compare by value (\<open>True == 1\<close>).
\<close>

lemma json_zip_size [termination_simp]:
  "(v, w) \<in> set (zip xs ys) \<Longrightarrow> size v < Suc (size_list size xs)"
  by (drule set_zip_leftD, drule size_list_estimation' [where f = size, OF _ order_refl]) simp

fun py_eq :: "json \<Rightarrow> json \<Rightarrow> bool" where
  "py_eq (JObj a) (JObj b) =
     (length a = length b \<and>
      list_all (\<lambda>kv. case dget b (fst kv) of None \<Rightarrow> False | Some w \<Rightarrow> py_eq (snd kv) w) a)"
| "py_eq (JList xs) (JList ys) =
     (length xs = length ys \<and> list_all (\<lambda>p. py_eq (fst p) (snd p)) (zip xs ys))"
| "py_eq JNull w = (w = JNull)"
| "py_eq (JStr s) w = (w = JStr s)"
| "py_eq v w = num_eq v w"

lemma py_eq_JStr_iff: "py_eq v (JStr s) \<longleftrightarrow> v = JStr s"
  by (cases v) (auto simp: num_eq_def num_val_def)

lemma py_eq_JNull_iff: "py_eq v JNull \<longleftrightarrow> v = JNull"
  by (cases v) (auto simp: num_eq_def num_val_def)

text \<open>\<open>v == n\<close> for an integer constant \<open>n\<close>.\<close>

definition eq_int :: "json \<Rightarrow> int \<Rightarrow> bool" where
  "eq_int v n = num_eq v (JInt n)"

lemma eq_int_JInt [simp]: "eq_int (JInt i) n \<longleftrightarrow> i = n"
  by (auto simp: eq_int_def num_eq_def num_val_def)

text \<open>\<open>bool(v)\<close>: emptiness, zero and \<open>None\<close> are false.\<close>

definition truthy :: "json \<Rightarrow> bool" where
  "truthy v = (case v of JNull \<Rightarrow> False | JBool b \<Rightarrow> b | JInt i \<Rightarrow> i \<noteq> 0
     | JFloat f \<Rightarrow> f \<noteq> Fin 0 | JStr s \<Rightarrow> s \<noteq> [] | JList xs \<Rightarrow> xs \<noteq> [] | JObj d \<Rightarrow> d \<noteq> [])"

text \<open>A list or a dictionary cannot be a member of a set or a key of a dictionary.\<close>

definition hashable :: "json \<Rightarrow> bool" where
  "hashable v = (case v of JList _ \<Rightarrow> False | JObj _ \<Rightarrow> False | _ \<Rightarrow> True)"

section \<open>Strings\<close>

definition codept :: "char \<Rightarrow> nat" where
  "codept c = of_char c"

definition is_space :: "char \<Rightarrow> bool" where
  "is_space c \<longleftrightarrow> codept c \<in> {9,10,11,12,13,28,29,30,31,32,133,160}"

definition py_strip :: "string \<Rightarrow> string" where
  "py_strip s = rev (dropWhile is_space (rev (dropWhile is_space s)))"

definition startswith :: "string \<Rightarrow> string \<Rightarrow> bool" where
  "startswith s p \<longleftrightarrow> take (length p) s = p"

definition utf8_len :: "string \<Rightarrow> nat" where
  "utf8_len s = sum_list (map (\<lambda>c. if codept c < 128 then 1 else 2) s)"

definition is_absolute :: "string \<Rightarrow> bool" where
  "is_absolute p \<longleftrightarrow> startswith p ''/''"

lemma utf8_len_append [simp]: "utf8_len (a @ b) = utf8_len a + utf8_len b"
  by (simp add: utf8_len_def)

lemma utf8_len_ge: "length s \<le> utf8_len s"
  by (induction s) (auto simp: utf8_len_def)

fun show_nat :: "nat \<Rightarrow> string" where
  "show_nat n = (if n < 10 then [char_of (48 + n)]
     else show_nat (n div 10) @ [char_of (48 + n mod 10)])"

declare show_nat.simps [simp del]

definition show_int :: "int \<Rightarrow> string" where
  "show_int i = (if i < 0 then ''-'' @ show_nat (nat (- i)) else show_nat (nat i))"

text \<open>\<open>str(v)\<close>; the text of floats and containers is the parameter \<open>rep\<close>.\<close>

definition py_str :: "(json \<Rightarrow> string) \<Rightarrow> json \<Rightarrow> string" where
  "py_str rep v = (case v of JNull \<Rightarrow> ''None'' | JBool b \<Rightarrow> if b then ''True'' else ''False''
     | JInt i \<Rightarrow> show_int i | JStr s \<Rightarrow> s | _ \<Rightarrow> rep v)"

definition is_alnum :: "char \<Rightarrow> bool" where
  "is_alnum c \<longleftrightarrow> (48 \<le> codept c \<and> codept c \<le> 57) \<or> (65 \<le> codept c \<and> codept c \<le> 90)
     \<or> (97 \<le> codept c \<and> codept c \<le> 122)"

definition worker_name_char :: "char \<Rightarrow> bool" where
  "worker_name_char c \<longleftrightarrow> is_alnum c \<or> c \<in> set ''._-''"

text \<open>\<open>[A-Za-z0-9][A-Za-z0-9._-]{0,127}\<close>, matched against the whole string.\<close>

definition worker_name_re :: "string \<Rightarrow> bool" where
  "worker_name_re s = (case s of [] \<Rightarrow> False
     | c # cs \<Rightarrow> is_alnum c \<and> length cs \<le> 127 \<and> list_all worker_name_char cs)"

text \<open>\<open>shlex.quote\<close>: the characters the standard library leaves unquoted, and the rest.\<close>

definition sh_safe :: "char \<Rightarrow> bool" where
  "sh_safe c \<longleftrightarrow> is_alnum c \<or> c \<in> set ''_@%+=:,./-''"

definition sq :: char where
  "sq = CHR 0x27"

fun sh_escape :: "string \<Rightarrow> string" where
  "sh_escape [] = []"
| "sh_escape (c # cs) =
     (if c = sq then [sq, CHR 0x22, sq, CHR 0x22, sq] @ sh_escape cs else c # sh_escape cs)"

definition shlex_quote :: "string \<Rightarrow> string" where
  "shlex_quote s = (if s = [] then [sq, sq]
     else if list_all sh_safe s then s
     else sq # sh_escape s @ [sq])"

text \<open>
  How a POSIX shell reads one word made of safe characters, single-quoted and double-quoted
  parts: \<open>None\<close> when the text is not one word (an unquoted special character or an open
  quote). The state is the quote the reader is in.
\<close>

fun sh_word :: "char option \<Rightarrow> string \<Rightarrow> string option" where
  "sh_word None [] = Some []"
| "sh_word (Some q) [] = None"
| "sh_word None (c # cs) =
     (if c = sq \<or> c = CHR 0x22 then sh_word (Some c) cs
      else if sh_safe c then map_option ((#) c) (sh_word None cs) else None)"
| "sh_word (Some q) (c # cs) =
     (if c = q then sh_word None cs
      else if q = CHR 0x22 \<and> c \<in> set [CHR 0x5C, CHR 0x24, CHR 0x60] then None
      else map_option ((#) c) (sh_word (Some q) cs))"

lemma sq_not_safe [simp]: "\<not> sh_safe sq" "\<not> sh_safe (CHR 0x22)"
  by (simp_all add: sh_safe_def is_alnum_def codept_def sq_def)

lemma sq_neq [simp]: "sq \<noteq> CHR 0x22" "CHR 0x22 \<noteq> sq"
  by (simp_all add: sq_def)

lemma sh_word_safe: "list_all sh_safe s \<Longrightarrow> sh_word None s = Some s"
  by (induction s) (auto simp: sq_def sh_safe_def is_alnum_def codept_def)

lemma sh_word_escape: "sh_word (Some sq) (sh_escape s @ [sq]) = Some s"
  by (induction s) (auto simp: sq_def)

lemma shlex_quote_word: "sh_word None (shlex_quote s) = Some s"
  by (auto simp: shlex_quote_def sh_word_safe sh_word_escape)

end
