(* ===== verification/Faults.thy ===== *)
theory Faults
  imports Values
begin

text \<open>
  The exceptions of the package as one datatype, with the class tests its \<open>except\<close>
  clauses make, and the public facade fault of \<open>commands.py\<close> with its strict constructor
  and its dictionary form.
\<close>

section \<open>The facade fault codes\<close>

datatype facade_code =
    INVALID_PARAMS | TURN_ACTIVE | TURN_NOT_ACTIVE | REGISTRY_ERROR | CODEX_PROTOCOL_ERROR
  | CODEX_FAILURE | WORKER_NAME_EXISTS | WORKER_NOT_FOUND | DAEMON_STOPPED
  | DAEMON_START_FAILED | TIMEOUT_ACTIVE | MODEL_UNAVAILABLE | EFFORT_UNSUPPORTED
  | LIMITS_UNAVAILABLE | INCOMPLETE_COMPLETION | DAEMON_STOP_FAILED | CALLBACK_UNAVAILABLE
  | CALLBACK_TARGET_STALE | CALLBACK_TARGET_NOT_FOUND | CALLBACK_TARGET_AMBIGUOUS
  | CALLBACK_TARGET_UNSAFE | CALLBACK_SEND_FAILED | CALLBACK_PAYLOAD_TOO_LARGE
  | TOOL_VERSION_MISMATCH | ADDRESS_IN_USE | SERVICE_BUSY | LEGACY_NAME_CONFLICT
  | SERVICE_CONFIG_CONFLICT

fun code_value :: "facade_code \<Rightarrow> int" where
  "code_value INVALID_PARAMS = -32602"
| "code_value TURN_ACTIVE = -32004"
| "code_value TURN_NOT_ACTIVE = -32005"
| "code_value REGISTRY_ERROR = -32011"
| "code_value CODEX_PROTOCOL_ERROR = -32015"
| "code_value CODEX_FAILURE = -32020"
| "code_value WORKER_NAME_EXISTS = -32021"
| "code_value WORKER_NOT_FOUND = -32022"
| "code_value DAEMON_STOPPED = -32023"
| "code_value DAEMON_START_FAILED = -32024"
| "code_value TIMEOUT_ACTIVE = -32025"
| "code_value MODEL_UNAVAILABLE = -32026"
| "code_value EFFORT_UNSUPPORTED = -32027"
| "code_value LIMITS_UNAVAILABLE = -32028"
| "code_value INCOMPLETE_COMPLETION = -32029"
| "code_value DAEMON_STOP_FAILED = -32030"
| "code_value CALLBACK_UNAVAILABLE = -32031"
| "code_value CALLBACK_TARGET_STALE = -32032"
| "code_value CALLBACK_TARGET_NOT_FOUND = -32033"
| "code_value CALLBACK_TARGET_AMBIGUOUS = -32034"
| "code_value CALLBACK_TARGET_UNSAFE = -32035"
| "code_value CALLBACK_SEND_FAILED = -32036"
| "code_value CALLBACK_PAYLOAD_TOO_LARGE = -32037"
| "code_value TOOL_VERSION_MISMATCH = -32038"
| "code_value ADDRESS_IN_USE = -32039"
| "code_value SERVICE_BUSY = -32040"
| "code_value LEGACY_NAME_CONFLICT = -32041"
| "code_value SERVICE_CONFIG_CONFLICT = -32042"

fun facade_kind :: "facade_code \<Rightarrow> string" where
  "facade_kind INVALID_PARAMS = ''invalid_params''"
| "facade_kind TURN_ACTIVE = ''turn_active''"
| "facade_kind TURN_NOT_ACTIVE = ''turn_not_active''"
| "facade_kind REGISTRY_ERROR = ''registry_error''"
| "facade_kind CODEX_PROTOCOL_ERROR = ''codex_protocol_error''"
| "facade_kind CODEX_FAILURE = ''codex_failure''"
| "facade_kind WORKER_NAME_EXISTS = ''worker_name_exists''"
| "facade_kind WORKER_NOT_FOUND = ''worker_not_found''"
| "facade_kind DAEMON_STOPPED = ''daemon_stopped''"
| "facade_kind DAEMON_START_FAILED = ''daemon_start_failed''"
| "facade_kind TIMEOUT_ACTIVE = ''timeout_active''"
| "facade_kind MODEL_UNAVAILABLE = ''model_unavailable''"
| "facade_kind EFFORT_UNSUPPORTED = ''effort_unsupported''"
| "facade_kind LIMITS_UNAVAILABLE = ''limits_unavailable''"
| "facade_kind INCOMPLETE_COMPLETION = ''incomplete_completion''"
| "facade_kind DAEMON_STOP_FAILED = ''daemon_stop_failed''"
| "facade_kind CALLBACK_UNAVAILABLE = ''callback_unavailable''"
| "facade_kind CALLBACK_TARGET_STALE = ''callback_target_stale''"
| "facade_kind CALLBACK_TARGET_NOT_FOUND = ''callback_target_not_found''"
| "facade_kind CALLBACK_TARGET_AMBIGUOUS = ''callback_target_ambiguous''"
| "facade_kind CALLBACK_TARGET_UNSAFE = ''callback_target_unsafe''"
| "facade_kind CALLBACK_SEND_FAILED = ''callback_send_failed''"
| "facade_kind CALLBACK_PAYLOAD_TOO_LARGE = ''callback_payload_too_large''"
| "facade_kind TOOL_VERSION_MISMATCH = ''tool_version_mismatch''"
| "facade_kind ADDRESS_IN_USE = ''address_in_use''"
| "facade_kind SERVICE_BUSY = ''service_busy''"
| "facade_kind LEGACY_NAME_CONFLICT = ''legacy_name_conflict''"
| "facade_kind SERVICE_CONFIG_CONFLICT = ''service_config_conflict''"

definition all_codes :: "facade_code list" where
  "all_codes = [INVALID_PARAMS, TURN_ACTIVE, TURN_NOT_ACTIVE, REGISTRY_ERROR,
     CODEX_PROTOCOL_ERROR, CODEX_FAILURE, WORKER_NAME_EXISTS, WORKER_NOT_FOUND,
     DAEMON_STOPPED, DAEMON_START_FAILED, TIMEOUT_ACTIVE, MODEL_UNAVAILABLE,
     EFFORT_UNSUPPORTED, LIMITS_UNAVAILABLE, INCOMPLETE_COMPLETION, DAEMON_STOP_FAILED,
     CALLBACK_UNAVAILABLE, CALLBACK_TARGET_STALE, CALLBACK_TARGET_NOT_FOUND,
     CALLBACK_TARGET_AMBIGUOUS, CALLBACK_TARGET_UNSAFE, CALLBACK_SEND_FAILED,
     CALLBACK_PAYLOAD_TOO_LARGE, TOOL_VERSION_MISMATCH, ADDRESS_IN_USE, SERVICE_BUSY,
     LEGACY_NAME_CONFLICT, SERVICE_CONFIG_CONFLICT]"

text \<open>\<open>FacadeFaultCode(value)\<close>: lookup of the enumeration by value, \<open>None\<close> for ValueError.\<close>

definition code_of_value :: "json \<Rightarrow> facade_code option" where
  "code_of_value v = find (\<lambda>c. eq_int v (code_value c)) all_codes"

lemma code_of_value_roundtrip: "code_of_value (JInt (code_value c)) = Some c"
  by (cases c) (simp_all add: code_of_value_def all_codes_def)

lemma code_of_value_Some: "code_of_value v = Some c \<Longrightarrow> eq_int v (code_value c)"
  by (simp add: code_of_value_def find_Some_iff) blast

section \<open>Exceptions\<close>

record facade_fault =
  ff_code :: facade_code
  ff_message :: string
  ff_kind :: string
  ff_retryable :: bool
  ff_source :: string
  ff_details :: json_object
  ff_known_ids :: json_object
  ff_next_actions :: "json list"

datatype exn =
    ValueError string
  | TypeError string
  | KeyError string
  | OSError string
  | PermissionError string
  | FileNotFoundError string
  | FileExistsError string
  | TimeoutError string
  | RuntimeError string
  | AssertionError string
  | RegistryError string
  | RegistryConflict string
  | LegacyNameConflict string "json list"
  | UnknownSession string
  | SessionDetached string
  | TurnActive string
  | NoTurn string
  | WaitTimeout string "string option"
  | CodexProtocolError string
  | CodexCallError string string "json_object option"
  | RpcFault int string string "string option" "json_object option"
  | ModelSelectionError string "json_object option"
  | ServiceBusyError string
  | FacadeFault facade_fault
  | OwnedTeardownError string
  | MaintenanceTerminationError string
  | LegacyMigrationError string
  | UnsafeCallbackStoreError string
  | UnboundLocalError string
  | FacadeRpcFault facade_fault
  | SocketPathUnsafe string
  | SocketInUse string
  | RecursionError string
  | OverflowError string
  | UnsafePathError string string
  | AttributeError string
  | TimeoutExpired string
  | CliUsageError string
  | ProcessLookupError string

text \<open>\<open>except RegistryError\<close>, \<open>except ValueError\<close> and \<open>except OSError\<close> catch subclasses.\<close>

definition is_registry_error :: "exn \<Rightarrow> bool" where
  "is_registry_error e = (case e of RegistryError _ \<Rightarrow> True | RegistryConflict _ \<Rightarrow> True
     | LegacyNameConflict _ _ \<Rightarrow> True | _ \<Rightarrow> False)"

definition is_value_error :: "exn \<Rightarrow> bool" where
  "is_value_error e = (case e of ValueError _ \<Rightarrow> True | CliUsageError _ \<Rightarrow> True | _ \<Rightarrow> is_registry_error e)"

definition is_os_error :: "exn \<Rightarrow> bool" where
  "is_os_error e = (case e of OSError _ \<Rightarrow> True | PermissionError _ \<Rightarrow> True
     | FileNotFoundError _ \<Rightarrow> True | FileExistsError _ \<Rightarrow> True | TimeoutError _ \<Rightarrow> True
     | ProcessLookupError _ \<Rightarrow> True
     | _ \<Rightarrow> False)"

definition is_rpc_fault :: "exn \<Rightarrow> bool" where
  "is_rpc_fault e = (case e of RpcFault _ _ _ _ _ \<Rightarrow> True | ModelSelectionError _ _ \<Rightarrow> True
     | FacadeRpcFault _ \<Rightarrow> True | _ \<Rightarrow> False)"

lemmas exn_class_defs = is_registry_error_def is_value_error_def is_os_error_def is_rpc_fault_def

text \<open>\<open>str(exc)\<close>.\<close>

definition turn_or_pending :: "string option \<Rightarrow> string" where
  "turn_or_pending t = (case t of None \<Rightarrow> ''pending'' | Some s \<Rightarrow> if s = [] then ''pending'' else s)"

fun exn_str :: "exn \<Rightarrow> string" where
  "exn_str (LegacyNameConflict n _) = ''legacy worker name is conflicted: '' @ n"
| "exn_str (WaitTimeout s t) =
     ''timed out waiting for session '' @ s @ '' turn '' @ turn_or_pending t"
| "exn_str (CodexCallError k m d) = m @ '': '' @ k @
     (case d of None \<Rightarrow> [] | Some det \<Rightarrow>
        (case as_str (jget det ''message'') of None \<Rightarrow> [] | Some t \<Rightarrow> '': '' @ t))"
| "exn_str (RpcFault _ m _ _ _) = m"
| "exn_str (ModelSelectionError m _) = m"
| "exn_str (ServiceBusyError m) = ''service is draining; request blocked: '' @ m"
| "exn_str (FacadeFault f) = ff_message f"
| "exn_str (OwnedTeardownError _) = ''owned service teardown is incomplete''"
| "exn_str (MaintenanceTerminationError _) = ''owned service teardown is incomplete''"
| "exn_str (ValueError m) = m"
| "exn_str (TypeError m) = m"
| "exn_str (KeyError m) = m"
| "exn_str (OSError m) = m"
| "exn_str (PermissionError m) = m"
| "exn_str (FileNotFoundError m) = m"
| "exn_str (FileExistsError m) = m"
| "exn_str (TimeoutError m) = m"
| "exn_str (RuntimeError m) = m"
| "exn_str (AssertionError m) = m"
| "exn_str (RegistryError m) = m"
| "exn_str (RegistryConflict m) = m"
| "exn_str (UnknownSession m) = m"
| "exn_str (SessionDetached m) = m"
| "exn_str (TurnActive m) = m"
| "exn_str (NoTurn m) = m"
| "exn_str (CodexProtocolError m) = m"
| "exn_str (LegacyMigrationError m) = m"
| "exn_str (UnsafeCallbackStoreError m) = m"
| "exn_str (UnboundLocalError m) = m"
| "exn_str (FacadeRpcFault f) = ff_message f"
| "exn_str (SocketPathUnsafe m) = m"
| "exn_str (SocketInUse m) = m"
| "exn_str (RecursionError m) = m"
| "exn_str (OverflowError m) = m"
| "exn_str (UnsafePathError r p) = r @ '': '' @ p"
| "exn_str (AttributeError m) = m"
| "exn_str (TimeoutExpired m) = m"
| "exn_str (CliUsageError m) = m"
| "exn_str (ProcessLookupError m) = m"

text \<open>\<open>type(exc).__name__\<close>.\<close>

fun exn_name :: "exn \<Rightarrow> string" where
  "exn_name (ValueError _) = ''ValueError''"
| "exn_name (TypeError _) = ''TypeError''"
| "exn_name (KeyError _) = ''KeyError''"
| "exn_name (OSError _) = ''OSError''"
| "exn_name (PermissionError _) = ''PermissionError''"
| "exn_name (FileNotFoundError _) = ''FileNotFoundError''"
| "exn_name (FileExistsError _) = ''FileExistsError''"
| "exn_name (TimeoutError _) = ''TimeoutError''"
| "exn_name (RuntimeError _) = ''RuntimeError''"
| "exn_name (AssertionError _) = ''AssertionError''"
| "exn_name (RegistryError _) = ''RegistryError''"
| "exn_name (RegistryConflict _) = ''RegistryConflict''"
| "exn_name (LegacyNameConflict _ _) = ''LegacyNameConflict''"
| "exn_name (UnknownSession _) = ''UnknownSession''"
| "exn_name (SessionDetached _) = ''SessionDetached''"
| "exn_name (TurnActive _) = ''TurnActive''"
| "exn_name (NoTurn _) = ''NoTurn''"
| "exn_name (WaitTimeout _ _) = ''WaitTimeout''"
| "exn_name (CodexProtocolError _) = ''CodexProtocolError''"
| "exn_name (CodexCallError k m _) = (if k = ''transport_error'' \<and> m = ''transport''
     then ''CodexTransportError'' else ''CodexCallError'')"
| "exn_name (RpcFault _ _ _ _ _) = ''RpcFault''"
| "exn_name (ModelSelectionError _ _) = ''ModelSelectionError''"
| "exn_name (ServiceBusyError _) = ''ServiceBusyError''"
| "exn_name (FacadeFault _) = ''FacadeFault''"
| "exn_name (OwnedTeardownError _) = ''OwnedTeardownError''"
| "exn_name (MaintenanceTerminationError _) = ''MaintenanceTerminationError''"
| "exn_name (LegacyMigrationError _) = ''LegacyMigrationError''"
| "exn_name (UnsafeCallbackStoreError _) = ''UnsafeCallbackStoreError''"
| "exn_name (UnboundLocalError _) = ''UnboundLocalError''"
| "exn_name (FacadeRpcFault _) = ''FacadeRpcFault''"
| "exn_name (SocketPathUnsafe _) = ''SocketPathUnsafe''"
| "exn_name (SocketInUse _) = ''SocketInUse''"
| "exn_name (RecursionError _) = ''RecursionError''"
| "exn_name (OverflowError _) = ''OverflowError''"
| "exn_name (UnsafePathError _ _) = ''UnsafePathError''"
| "exn_name (AttributeError _) = ''AttributeError''"
| "exn_name (TimeoutExpired _) = ''TimeoutExpired''"
| "exn_name (CliUsageError _) = ''CliUsageError''"
| "exn_name (ProcessLookupError _) = ''ProcessLookupError''"

section \<open>The facade fault\<close>

text \<open>The messages spell the word with the letter c-cedilla.\<close>

definition invalid_facade :: "string \<Rightarrow> string" where
  "invalid_facade what = ''invalid fa'' @ [CHR 0xE7] @ ''ade fault '' @ what"

definition action_ok :: "json \<Rightarrow> bool" where
  "action_ok a = (case as_obj a of None \<Rightarrow> False
     | Some d \<Rightarrow> has_fields d [''command'', ''reason'']
         \<and> list_all (\<lambda>kv. as_nonempty (snd kv) \<noteq> None) d)"

definition literal_command :: "string \<Rightarrow> bool" where
  "literal_command s \<longleftrightarrow> CHR ''<'' \<notin> set s \<and> CHR ''>'' \<notin> set s"

fun check_actions :: "json list \<Rightarrow> (exn, unit) res" where
  "check_actions [] = Inr ()"
| "check_actions (a # as) =
     (if \<not> action_ok a then Inl (ValueError ''invalid next action'')
      else if \<not> (case a of JObj d \<Rightarrow> (case jget d ''command'' of JStr s \<Rightarrow> literal_command s | _ \<Rightarrow> True)
                 | _ \<Rightarrow> True)
      then Inl (ValueError ''next action command must be literal'')
      else check_actions as)"

definition no_known_ids :: json_object where
  "no_known_ids = [(''name'', JNull), (''session_id'', JNull), (''thread_id'', JNull), (''turn_id'', JNull)]"

definition known_ids_ok :: "json_object \<Rightarrow> bool" where
  "known_ids_ok d \<longleftrightarrow> has_fields d [''name'', ''session_id'', ''thread_id'', ''turn_id'']
     \<and> list_all (\<lambda>kv. snd kv = JNull \<or> as_str (snd kv) \<noteq> None) d"

definition none_or :: "json \<Rightarrow> json \<Rightarrow> json" where
  "none_or v d = (if v = JNull then d else v)"

definition mk_facade_fault ::
  "json \<Rightarrow> json \<Rightarrow> json \<Rightarrow> json \<Rightarrow> json \<Rightarrow> json \<Rightarrow> json \<Rightarrow> json \<Rightarrow> (exn, facade_fault) res" where
  "mk_facade_fault code message kind retryable source details known_ids next_actions =
     (let details' = none_or details (JObj []);
          known' = none_or known_ids (JObj no_known_ids);
          actions' = none_or next_actions (JList [])
      in case code_of_value code of
           None \<Rightarrow> Inl (ValueError (invalid_facade ''code''))
         | Some c \<Rightarrow>
       (case (as_nonempty message, as_nonempty kind) of
          (Some m, Some k) \<Rightarrow>
            if k \<noteq> facade_kind c then Inl (ValueError ''fault code and kind do not match'')
            else (case (retryable, as_nonempty source) of
              (JBool r, Some src) \<Rightarrow>
                (case as_obj details' of
                   None \<Rightarrow> Inl (ValueError ''details must be an object'')
                 | Some dt \<Rightarrow> (case as_obj known' of
                     None \<Rightarrow> Inl (ValueError ''known_ids must be an object'')
                   | Some kn \<Rightarrow>
                     if \<not> known_ids_ok kn then Inl (ValueError ''invalid known_ids'')
                     else (case as_list actions' of
                       None \<Rightarrow> Inl (ValueError ''next_actions must be a list'')
                     | Some acts \<Rightarrow> ebind (check_actions acts) (\<lambda>_.
                         Inr \<lparr>ff_code = c, ff_message = m, ff_kind = k, ff_retryable = r,
                              ff_source = src, ff_details = dt, ff_known_ids = kn,
                              ff_next_actions = acts\<rparr>))))
            | _ \<Rightarrow> Inl (ValueError (invalid_facade ''metadata'')))
        | _ \<Rightarrow> Inl (ValueError ''fault message and kind must be non-empty strings'')))"

text \<open>
  \<open>raise FacadeFault(code, message, kind, details=..., known_ids=..., next_actions=...)\<close> with the
  default source: the exception that leaves the statement, the constructor's own when it refuses.
\<close>

definition facade_exn :: "facade_code \<Rightarrow> string \<Rightarrow> bool \<Rightarrow> string \<Rightarrow> json \<Rightarrow> json \<Rightarrow> json \<Rightarrow> exn" where
  "facade_exn code message retryable source details known_ids next_actions =
     (case mk_facade_fault (JInt (code_value code)) (JStr message) (JStr (facade_kind code)) (JBool retryable)
          (JStr source) details known_ids next_actions of
        Inl e \<Rightarrow> e | Inr f \<Rightarrow> FacadeFault f)"

definition facade_fault_to_dict :: "facade_fault \<Rightarrow> json_object" where
  "facade_fault_to_dict f =
     [(''code'', JInt (code_value (ff_code f))), (''message'', JStr (ff_message f)),
      (''data'', JObj [(''kind'', JStr (ff_kind f)), (''retryable'', JBool (ff_retryable f)),
         (''source'', JStr (ff_source f)), (''details'', JObj (ff_details f)),
         (''known_ids'', JObj (ff_known_ids f)), (''next_actions'', JList (ff_next_actions f))])]"

definition facade_fault_from_dict :: "json \<Rightarrow> (exn, facade_fault) res" where
  "facade_fault_from_dict value = (case as_obj value of
     None \<Rightarrow> Inl (ValueError (invalid_facade ''envelope''))
   | Some v \<Rightarrow> if \<not> has_fields v [''code'', ''message'', ''data'']
       then Inl (ValueError (invalid_facade ''envelope''))
       else (case as_obj (jget v ''data'') of
         None \<Rightarrow> Inl (ValueError (invalid_facade ''envelope''))
       | Some data \<Rightarrow>
         if \<not> has_fields data [''kind'', ''retryable'', ''source'', ''details'', ''known_ids'', ''next_actions'']
         then Inl (ValueError (invalid_facade ''data''))
         else mk_facade_fault (jget v ''code'') (jget v ''message'') (jget data ''kind'')
                (jget data ''retryable'') (jget data ''source'') (jget data ''details'')
                (jget data ''known_ids'') (jget data ''next_actions'')))"

text \<open>What every constructed fault satisfies.\<close>

definition facade_fault_ok :: "facade_fault \<Rightarrow> bool" where
  "facade_fault_ok f \<longleftrightarrow> ff_message f \<noteq> [] \<and> ff_kind f = facade_kind (ff_code f)
     \<and> ff_source f \<noteq> [] \<and> known_ids_ok (ff_known_ids f)
     \<and> check_actions (ff_next_actions f) = Inr ()"

lemma facade_kind_nonempty [simp]: "facade_kind c \<noteq> []"
  by (cases c) simp_all

lemma mk_facade_fault_ok: "mk_facade_fault a b c d e f g h = Inr x \<Longrightarrow> facade_fault_ok x"
  by (auto simp: mk_facade_fault_def Let_def facade_fault_ok_def res_simps
      split: option.splits json.splits if_splits)

lemma mk_facade_fault_build:
  "\<lbrakk>m \<noteq> []; src \<noteq> []; known_ids_ok kn; check_actions acts = Inr ()\<rbrakk> \<Longrightarrow>
   mk_facade_fault (JInt (code_value c)) (JStr m) (JStr (facade_kind c)) (JBool r) (JStr src)
     (JObj dt) (JObj kn) (JList acts) =
   Inr \<lparr>ff_code = c, ff_message = m, ff_kind = facade_kind c, ff_retryable = r,
        ff_source = src, ff_details = dt, ff_known_ids = kn, ff_next_actions = acts\<rparr>"
  by (simp add: mk_facade_fault_def none_or_def code_of_value_roundtrip)

lemma facade_fault_roundtrip:
  assumes "facade_fault_ok f"
  shows "facade_fault_from_dict (JObj (facade_fault_to_dict f)) = Inr f"
proof -
  have "mk_facade_fault (JInt (code_value (ff_code f))) (JStr (ff_message f)) (JStr (ff_kind f))
      (JBool (ff_retryable f)) (JStr (ff_source f)) (JObj (ff_details f)) (JObj (ff_known_ids f))
      (JList (ff_next_actions f)) = Inr f"
    using assms by (simp add: facade_fault_ok_def mk_facade_fault_build)
  then show ?thesis
    by (simp add: facade_fault_from_dict_def facade_fault_to_dict_def has_fields_def)
qed

end
