(* ===== verification/Listener.thy ===== *)
theory Listener
  imports Faults
begin

text \<open>
  \<open>validate_public_listener\<close> of \<open>service_domain.py\<close>, with the parts of \<open>urlsplit\<close> it reads
  (network location, host, port, user information) for a text that starts with \<open>ws://\<close>, and
  \<open>build_attach_view\<close> of \<open>projection.py\<close>. The operating system's numeric address lookup
  (\<open>getaddrinfo\<close> with \<open>AI_NUMERICHOST\<close>) is a parameter: for a host and port it gives, for
  each numeric row, whether the address is the unspecified one; no row for a name.
\<close>

type_synonym numeric_lookup = "string \<Rightarrow> int \<Rightarrow> bool list"

definition DEFAULT_PUBLIC_LISTENER :: string where
  "DEFAULT_PUBLIC_LISTENER = ''ws://127.0.0.1:4500''"

section \<open>Splitting a URL\<close>

text \<open>\<open>s.partition(c)\<close>: the text before the first \<open>c\<close>, whether there is one, and the text after it.\<close>

definition partition_at :: "char \<Rightarrow> string \<Rightarrow> string \<times> bool \<times> string" where
  "partition_at c s = (takeWhile (\<lambda>x. x \<noteq> c) s, c \<in> set s, drop 1 (dropWhile (\<lambda>x. x \<noteq> c) s))"

definition rpartition_last :: "char \<Rightarrow> string \<Rightarrow> string" where
  "rpartition_last c s = rev (takeWhile (\<lambda>x. x \<noteq> c) (rev s))"

definition url_delim :: "char \<Rightarrow> bool" where
  "url_delim c \<longleftrightarrow> c \<in> set ''/?#''"

definition url_rest :: "string \<Rightarrow> string" where
  "url_rest s = drop 5 s"

definition url_netloc :: "string \<Rightarrow> string" where
  "url_netloc s = takeWhile (\<lambda>c. \<not> url_delim c) (url_rest s)"

definition url_tail :: "string \<Rightarrow> string" where
  "url_tail s = dropWhile (\<lambda>c. \<not> url_delim c) (url_rest s)"

text \<open>
  The path, query and fragment are all empty exactly when the tail is empty or holds only
  the delimiters of an empty query and an empty fragment.
\<close>

definition url_tail_empty :: "string \<Rightarrow> bool" where
  "url_tail_empty t \<longleftrightarrow> t \<in> {[], ''?'', ''#'', ''?#''}"

definition brackets_ok :: "string \<Rightarrow> bool" where
  "brackets_ok n \<longleftrightarrow> (CHR ''['' \<in> set n) = (CHR '']'' \<in> set n)"

definition host_port :: "string \<Rightarrow> string \<times> string option" where
  "host_port netloc =
     (let hostinfo = rpartition_last CHR ''@'' netloc;
          (_, have_br, bracketed) = partition_at CHR ''['' hostinfo
      in if have_br then
           (let (hostname, _, after) = partition_at CHR '']'' bracketed;
                (_, have_port, port) = partition_at CHR '':'' after
            in (hostname, if have_port then Some port else None))
         else
           (let (hostname, have_port, port) = partition_at CHR '':'' hostinfo
            in (hostname, if have_port then Some port else None)))"

definition is_digit :: "char \<Rightarrow> bool" where
  "is_digit c \<longleftrightarrow> 48 \<le> codept c \<and> codept c \<le> 57"

definition parse_digits :: "string \<Rightarrow> int" where
  "parse_digits s = foldl (\<lambda>a c. 10 * a + (int (codept c) - 48)) 0 s"

text \<open>\<open>parsed.port\<close>: absent, a number up to 65535, or ValueError.\<close>

definition url_port :: "string option \<Rightarrow> (exn, int option) res" where
  "url_port p = (case p of None \<Rightarrow> Inr None
     | Some s \<Rightarrow> if s \<noteq> [] \<and> list_all is_digit s \<and> parse_digits s \<le> 65535
         then Inr (Some (parse_digits s)) else Inl (ValueError ''listener must contain a valid port''))"

definition to_lower :: "char \<Rightarrow> char" where
  "to_lower c = (if 65 \<le> codept c \<and> codept c \<le> 90 \<or> 192 \<le> codept c \<and> codept c \<le> 222 \<and> codept c \<noteq> 215
     then char_of (codept c + 32) else c)"

text \<open>\<open>parsed.hostname\<close>: lower case up to a zone identifier.\<close>

definition url_hostname :: "string \<Rightarrow> string" where
  "url_hostname h = (let (name, zone, rest) = partition_at CHR ''%'' h
     in map to_lower name @ (if zone then CHR ''%'' # rest else []))"

definition is_control :: "char \<Rightarrow> bool" where
  "is_control c \<longleftrightarrow> codept c < 32 \<or> codept c = 127"

section \<open>The public listener\<close>

definition validate_public_listener :: "numeric_lookup \<Rightarrow> json \<Rightarrow> (exn, string) res" where
  "validate_public_listener lookup value = (case as_nonempty value of
     None \<Rightarrow> Inl (ValueError ''listener must be ws://HOST:PORT'')
   | Some v \<Rightarrow>
     if v \<noteq> py_strip v \<or> list_ex is_control v \<or> \<not> startswith v ''ws://''
     then Inl (ValueError ''listener must be ws://HOST:PORT'')
     else if \<not> brackets_ok (url_netloc v)
     then Inl (ValueError ''listener must contain a valid port'')
     else (let netloc = url_netloc v; (hostname, ptext) = host_port netloc in
       ebind (url_port ptext) (\<lambda>port.
         if CHR ''@'' \<in> set netloc \<or> hostname = [] \<or> \<not> url_tail_empty (url_tail v)
         then Inl (ValueError ''listener must be a connectable ws://HOST:PORT'')
         else (case port of
           None \<Rightarrow> Inl (ValueError ''listener must be a connectable ws://HOST:PORT'')
         | Some p \<Rightarrow>
           if p < 1 then Inl (ValueError ''listener must be a connectable ws://HOST:PORT'')
           else (let host = url_hostname hostname in
             if host = ''*'' then Inl (ValueError ''listener host must be connectable'')
             else (let rows = lookup host p in
               if list_ex (\<lambda>unspecified. unspecified) rows
               then Inl (ValueError ''listener host must not be unspecified'')
               else if rows = [] \<and> list_ex (\<lambda>c. c \<in> set ''/@?#'') host
               then Inl (ValueError ''listener host is invalid'')
               else Inr v))))))"

lemma validate_public_listener_value:
  "validate_public_listener lookup value = Inr v \<Longrightarrow> value = JStr v \<and> v \<noteq> []"
  by (auto simp: validate_public_listener_def Let_def res_simps
      split: option.splits if_splits prod.splits)

lemma parse_digits_nonneg: "list_all is_digit s \<Longrightarrow> 0 \<le> a \<Longrightarrow>
  0 \<le> foldl (\<lambda>a c. 10 * a + (int (codept c) - 48)) a s"
  by (induction s arbitrary: a) (auto simp: is_digit_def)

text \<open>What an accepted listener is made of.\<close>

lemma validate_public_listener_sound:
  assumes "validate_public_listener lookup value = Inr v"
  shows "startswith v ''ws://''" "CHR ''@'' \<notin> set (url_netloc v)"
    "\<exists>h p t. host_port (url_netloc v) = (h, Some t) \<and> h \<noteq> [] \<and> list_all is_digit t
       \<and> p = parse_digits t \<and> 1 \<le> p \<and> p \<le> 65535
       \<and> \<not> list_ex (\<lambda>u. u) (lookup (url_hostname h) p)"
    "url_tail_empty (url_tail v)"
  using assms
  by (auto simp: validate_public_listener_def url_port_def Let_def res_simps
      split: option.splits if_splits prod.splits)

section \<open>The attach view\<close>

record attach_view =
  av_listener :: string
  av_thread_id :: string
  av_attach_command :: string
  av_resume_command :: string

definition attach_view_to_dict :: "attach_view \<Rightarrow> json_object" where
  "attach_view_to_dict a =
     [(''listener'', JStr (av_listener a)), (''thread_id'', JStr (av_thread_id a)),
      (''attach_command'', JStr (av_attach_command a)),
      (''resume_command'', JStr (av_resume_command a))]"

definition build_attach_view :: "numeric_lookup \<Rightarrow> string \<Rightarrow> json \<Rightarrow> (exn, attach_view) res" where
  "build_attach_view lookup listener thread_id =
     ebind (validate_public_listener lookup (JStr listener)) (\<lambda>validated.
       case as_nonempty thread_id of
         None \<Rightarrow> Inl (ValueError ''thread_id must be non-empty'')
       | Some tid \<Rightarrow>
         let remote = shlex_quote validated; thread = shlex_quote tid in
         Inr \<lparr>av_listener = validated, av_thread_id = tid,
              av_attach_command = ''codex --remote '' @ remote,
              av_resume_command = ''codex --remote '' @ remote @ '' resume '' @ thread\<rparr>)"

text \<open>
  The model's stand-in for an attach view of a listener that was validated when its owner was
  built and a non-empty thread: the view the constructor gives.
\<close>

lemma build_attach_view_ok:
  "is_ok (build_attach_view lookup listener (JStr tid)) \<longleftrightarrow>
     is_ok (validate_public_listener lookup (JStr listener)) \<and> tid \<noteq> []"
  by (cases "validate_public_listener lookup (JStr listener)")
     (auto simp: build_attach_view_def Let_def)

lemma build_attach_view_fields:
  "build_attach_view lookup listener tid = Inr a \<Longrightarrow>
     av_listener a = listener \<and> tid = JStr (av_thread_id a) \<and> av_thread_id a \<noteq> []
     \<and> av_resume_command a = ''codex --remote '' @ shlex_quote listener @ '' resume ''
         @ shlex_quote (av_thread_id a)"
proof -
  assume b: "build_attach_view lookup listener tid = Inr a"
  then obtain v where v: "validate_public_listener lookup (JStr listener) = Inr v"
    by (auto simp: build_attach_view_def res_simps)
  from validate_public_listener_value [OF v] have "v = listener" by simp
  with b v show ?thesis
    by (cases "as_nonempty tid") (auto simp: build_attach_view_def Let_def)
qed

end
