(* ===== verification/Models.thy ===== *)
theory Models
  imports Listener
begin

text \<open>
  The wire and domain models of \<open>models.py\<close>: validators of thread configuration and recovery
  commands, error details, items, turn snapshots, events, the active-thread inventory, the
  worker impact split, maintenance results and session records, each with the checks of its
  constructor and its dictionary form. A frozen dataclass is a record; its
  \<open>__post_init__\<close> is the check of the \<open>mk_\<close> function, which takes the arguments as parsed
  values and raises as the constructor does.
\<close>

section \<open>Configuration and recovery commands\<close>

fun config_value_ok :: "json \<Rightarrow> bool" where
  "config_value_ok (JStr _) = True"
| "config_value_ok (JBool _) = True"
| "config_value_ok (JInt _) = True"
| "config_value_ok (JFloat f) = is_finite f"
| "config_value_ok (JList xs) = list_all config_value_ok xs"
| "config_value_ok (JObj d) =
     (list_all (\<lambda>kv. fst kv \<noteq> []) d \<and> list_all (\<lambda>kv. config_value_ok (snd kv)) d)"
| "config_value_ok JNull = False"

definition validate_config_value :: "json \<Rightarrow> (exn, unit) res" where
  "validate_config_value v = (if config_value_ok v then Inr ()
     else Inl (ValueError ''config values must be finite JSON values without null''))"

fun validate_config_items :: "json_object \<Rightarrow> (exn, unit) res" where
  "validate_config_items [] = Inr ()"
| "validate_config_items ((key, v) # rest) =
     (if key = [] \<or> key \<noteq> py_strip key
      then Inl (ValueError ''config keys must be non-empty strings without surrounding whitespace'')
      else ebind (validate_config_value v) (\<lambda>_. validate_config_items rest))"

definition validate_thread_config :: "json \<Rightarrow> (exn, unit) res" where
  "validate_thread_config config = (case config of
     JNull \<Rightarrow> Inr ()
   | JObj d \<Rightarrow> if d = [] then Inl (ValueError ''config must be null or a non-empty object'')
       else validate_config_items d
   | _ \<Rightarrow> Inl (ValueError ''config must be null or a non-empty object''))"

lemma validate_config_items_ok:
  "validate_config_items d = Inr () \<longleftrightarrow>
     list_all (\<lambda>kv. fst kv \<noteq> [] \<and> fst kv = py_strip (fst kv) \<and> config_value_ok (snd kv)) d"
  by (induction d rule: validate_config_items.induct)
     (auto simp: res_simps validate_config_value_def)

definition recovery_command_ok :: "string \<Rightarrow> bool" where
  "recovery_command_ok c \<longleftrightarrow> py_strip c \<noteq> [] \<and> CHR ''<'' \<notin> set c \<and> CHR ''>'' \<notin> set c
     \<and> (startswith c ''codex-worker '' \<or> startswith c ''codex '')"

definition validate_recovery_command :: "string \<Rightarrow> (exn, unit) res" where
  "validate_recovery_command c = (if recovery_command_ok c then Inr ()
     else Inl (ValueError ''recovery action must be a literal public command''))"

section \<open>Error details\<close>

record error_detail =
  ed_kind :: string
  ed_recovery :: "string option"
  ed_details :: "json_object option"

definition next_actions_ok :: "json_object \<Rightarrow> bool" where
  "next_actions_ok d = (case dget d ''next_actions'' of None \<Rightarrow> True
     | Some actions \<Rightarrow> (case as_list actions of None \<Rightarrow> False
         | Some as \<Rightarrow> list_all (\<lambda>a. case as_str a of None \<Rightarrow> False | Some c \<Rightarrow> recovery_command_ok c) as))"

definition error_detail_ok :: "error_detail \<Rightarrow> bool" where
  "error_detail_ok e \<longleftrightarrow>
     (case ed_recovery e of None \<Rightarrow> True | Some c \<Rightarrow> recovery_command_ok c)
   \<and> (case ed_details e of None \<Rightarrow> True | Some d \<Rightarrow> next_actions_ok d)"

definition mk_error_detail ::
  "string \<Rightarrow> string option \<Rightarrow> json_object option \<Rightarrow> (exn, error_detail) res" where
  "mk_error_detail kind recovery details =
     (let e = \<lparr>ed_kind = kind, ed_recovery = recovery, ed_details = details\<rparr> in
      if (case recovery of None \<Rightarrow> True | Some c \<Rightarrow> recovery_command_ok c)
      then (case details of None \<Rightarrow> Inr e
        | Some d \<Rightarrow> (case dget d ''next_actions'' of None \<Rightarrow> Inr e
            | Some actions \<Rightarrow> (case as_list actions of
                None \<Rightarrow> Inl (ValueError ''next_actions must contain literal public commands'')
              | Some as \<Rightarrow>
                if list_ex (\<lambda>a. as_str a = None) as
                then Inl (ValueError ''next_actions must contain literal public commands'')
                else if next_actions_ok d then Inr e
                else Inl (ValueError ''recovery action must be a literal public command''))))
      else Inl (ValueError ''recovery action must be a literal public command''))"

lemma mk_error_detail_Inr:
  "mk_error_detail k r d = Inr e \<longleftrightarrow>
     e = \<lparr>ed_kind = k, ed_recovery = r, ed_details = d\<rparr> \<and> error_detail_ok e"
proof (cases d)
  case None
  then show ?thesis
    by (auto simp: mk_error_detail_def error_detail_ok_def Let_def)
next
  case (Some o1)
  show ?thesis
  proof (cases "dget o1 ''next_actions''")
    case None
    with Some show ?thesis
      by (auto simp: mk_error_detail_def error_detail_ok_def next_actions_ok_def Let_def)
  next
    case (Some a)
    with \<open>d = Some o1\<close> show ?thesis
      by (cases "as_list a")
         (auto simp: mk_error_detail_def error_detail_ok_def Let_def next_actions_ok_def
           list_ex_iff list_all_iff split: option.splits)
  qed
qed

definition error_detail_to_dict :: "error_detail \<Rightarrow> json_object" where
  "error_detail_to_dict e = [(''kind'', JStr (ed_kind e))]
     @ (case ed_recovery e of None \<Rightarrow> [] | Some r \<Rightarrow> [(''recovery'', JStr r)])
     @ (case ed_details e of None \<Rightarrow> [] | Some d \<Rightarrow> [(''details'', JObj d)])"

definition error_detail_from_dict :: "json \<Rightarrow> (exn, error_detail) res" where
  "error_detail_from_dict value = (case as_obj value of
     None \<Rightarrow> Inl (ValueError ''invalid error detail'')
   | Some v \<Rightarrow> (case jget v ''kind'' of
       JStr kind \<Rightarrow> (case jget v ''recovery'' of
           JNull \<Rightarrow> (case jget v ''details'' of
               JNull \<Rightarrow> mk_error_detail kind None None
             | JObj d \<Rightarrow> mk_error_detail kind None (Some d)
             | _ \<Rightarrow> Inl (ValueError ''invalid error details''))
         | JStr r \<Rightarrow> (case jget v ''details'' of
               JNull \<Rightarrow> mk_error_detail kind (Some r) None
             | JObj d \<Rightarrow> mk_error_detail kind (Some r) (Some d)
             | _ \<Rightarrow> Inl (ValueError ''invalid error details''))
         | _ \<Rightarrow> Inl (ValueError ''invalid error recovery''))
     | _ \<Rightarrow> Inl (ValueError ''invalid error detail'')))"

lemma error_detail_roundtrip:
  "error_detail_ok e \<Longrightarrow> error_detail_from_dict (JObj (error_detail_to_dict e)) = Inr e"
  by (cases e; cases "ed_recovery e"; cases "ed_details e")
     (auto simp: error_detail_from_dict_def error_detail_to_dict_def mk_error_detail_Inr)

section \<open>Items, turns and events\<close>

record item_record =
  item_id :: string
  item_type :: string
  item_data :: json_object

definition item_to_dict :: "item_record \<Rightarrow> json_object" where
  "item_to_dict i = [(''item_id'', JStr (item_id i)), (''type'', JStr (item_type i)),
     (''data'', JObj (item_data i))]"

definition item_from_dict :: "json \<Rightarrow> (exn, item_record) res" where
  "item_from_dict value = (case as_obj value of
     None \<Rightarrow> Inl (ValueError ''invalid item record'')
   | Some v \<Rightarrow> (case (as_str (jget v ''item_id''), as_str (jget v ''type''), as_obj (jget v ''data'')) of
       (Some i, Some t, Some d) \<Rightarrow> Inr \<lparr>item_id = i, item_type = t, item_data = d\<rparr>
     | _ \<Rightarrow> Inl (ValueError ''invalid item record'')))"

lemma item_roundtrip [simp]: "item_from_dict (JObj (item_to_dict i)) = Inr i"
  by (simp add: item_from_dict_def item_to_dict_def)

record turn_snapshot =
  ts_turn_id :: string
  ts_status :: string
  ts_error :: "error_detail option"
  ts_items :: "item_record list"

definition snapshot_ok :: "turn_snapshot \<Rightarrow> bool" where
  "snapshot_ok s = (case ts_error s of None \<Rightarrow> True | Some e \<Rightarrow> error_detail_ok e)"

definition opt_error_dict :: "error_detail option \<Rightarrow> json" where
  "opt_error_dict e = (case e of None \<Rightarrow> JNull | Some d \<Rightarrow> JObj (error_detail_to_dict d))"

definition turn_snapshot_to_dict :: "turn_snapshot \<Rightarrow> json_object" where
  "turn_snapshot_to_dict s =
     [(''turn_id'', JStr (ts_turn_id s)), (''status'', JStr (ts_status s)),
      (''error'', opt_error_dict (ts_error s)),
      (''items'', JList (map (\<lambda>i. JObj (item_to_dict i)) (ts_items s)))]"

text \<open>
  \<open>copy_turn_snapshot\<close> rebuilds the error and every item from their dictionaries. In a model
  of values it is the identity on every snapshot whose error was constructed; the other
  components rely on \<open>copy_turn_snapshot_id\<close> and pass snapshots on directly.
\<close>

definition copy_turn_snapshot :: "turn_snapshot \<Rightarrow> (exn, turn_snapshot) res" where
  "copy_turn_snapshot s =
     ebind (case ts_error s of None \<Rightarrow> Inr None
            | Some e \<Rightarrow> ebind (error_detail_from_dict (JObj (error_detail_to_dict e))) (\<lambda>e'. Inr (Some e')))
       (\<lambda>error. ebind (emap (\<lambda>i. item_from_dict (JObj (item_to_dict i))) (ts_items s))
       (\<lambda>items. Inr \<lparr>ts_turn_id = ts_turn_id s, ts_status = ts_status s,
                      ts_error = error, ts_items = items\<rparr>))"

lemma copy_turn_snapshot_id: "snapshot_ok s \<Longrightarrow> copy_turn_snapshot s = Inr s"
  using emap_total [of "ts_items s" "\<lambda>i. item_from_dict (JObj (item_to_dict i))" "\<lambda>i. i"]
  by (cases s; cases "ts_error s")
     (auto simp: copy_turn_snapshot_def snapshot_ok_def error_detail_roundtrip)

record event_record =
  ev_cursor :: int
  ev_event :: string
  ev_session_id :: string
  ev_thread_id :: string
  ev_turn_id :: "string option"
  ev_item :: "item_record option"
  ev_error :: "error_detail option"

record event_page =
  page_events :: "event_record list"
  page_next_cursor :: int
  page_truncated :: bool

record runtime_status =
  rs_attached :: bool
  rs_active_turn_id :: "string option"
  rs_latest_turn :: "turn_snapshot option"

definition event_to_dict :: "event_record \<Rightarrow> json_object" where
  "event_to_dict e =
     [(''cursor'', JInt (ev_cursor e)), (''event'', JStr (ev_event e)),
      (''session_id'', JStr (ev_session_id e)), (''thread_id'', JStr (ev_thread_id e)),
      (''turn_id'', jopt (ev_turn_id e)),
      (''item'', case ev_item e of None \<Rightarrow> JNull | Some i \<Rightarrow> JObj (item_to_dict i)),
      (''error'', opt_error_dict (ev_error e))]"

definition event_page_to_dict :: "event_page \<Rightarrow> json_object" where
  "event_page_to_dict p =
     [(''events'', JList (map (\<lambda>e. JObj (event_to_dict e)) (page_events p))),
      (''next_cursor'', JInt (page_next_cursor p)), (''truncated'', JBool (page_truncated p))]"

definition opt_turn_dict :: "turn_snapshot option \<Rightarrow> json" where
  "opt_turn_dict t = (case t of None \<Rightarrow> JNull | Some s \<Rightarrow> JObj (turn_snapshot_to_dict s))"

definition runtime_status_to_dict :: "runtime_status \<Rightarrow> json_object" where
  "runtime_status_to_dict r =
     [(''attached'', JBool (rs_attached r)), (''active_turn_id'', jopt (rs_active_turn_id r)),
      (''latest_turn'', opt_turn_dict (rs_latest_turn r))]"

section \<open>Selectors\<close>

record identifier_selector =
  sel_session_id :: "string option"
  sel_thread_id :: "string option"

definition mk_selector :: "string option \<Rightarrow> string option \<Rightarrow> (exn, identifier_selector) res" where
  "mk_selector s t = (if (s = None) = (t = None)
     then Inl (ValueError ''exactly one of session_id or thread_id is required'')
     else Inr \<lparr>sel_session_id = s, sel_thread_id = t\<rparr>)"

definition selector_is_session :: "identifier_selector \<Rightarrow> bool" where
  "selector_is_session s \<longleftrightarrow> sel_session_id s \<noteq> None"

end
