(* ===== verification/Records.thy ===== *)
theory Records
  imports Models
begin

text \<open>
  Durable session records and the JSON-RPC fault of \<open>models.py\<close>: the versioned dictionary
  form of a session record, the fault constructor (which validates its error detail before it
  can be raised) and the response envelope.
\<close>

section \<open>Session records\<close>

record session_record =
  sr_session_id :: string
  sr_thread_id :: string
  sr_cwd :: string
  sr_created_at :: string
  sr_updated_at :: string
  sr_name :: "string option"
  sr_model :: "string option"
  sr_effort :: "string option"
  sr_tier :: "string option"
  sr_access :: "string option"
  sr_config :: "json_object option"

definition common_policy_complete :: "session_record \<Rightarrow> bool" where
  "common_policy_complete r \<longleftrightarrow> sr_name r \<noteq> None \<and> sr_model r \<noteq> None
     \<and> sr_effort r \<noteq> None \<and> sr_access r \<noteq> None"

definition opt_obj :: "json_object option \<Rightarrow> json" where
  "opt_obj d = (case d of None \<Rightarrow> JNull | Some x \<Rightarrow> JObj x)"

definition session_to_dict :: "session_record \<Rightarrow> json_object" where
  "session_to_dict r =
     [(''session_id'', JStr (sr_session_id r)), (''thread_id'', JStr (sr_thread_id r)),
      (''cwd'', JStr (sr_cwd r)), (''created_at'', JStr (sr_created_at r)),
      (''updated_at'', JStr (sr_updated_at r)), (''name'', jopt (sr_name r)),
      (''model'', jopt (sr_model r)), (''effort'', jopt (sr_effort r)),
      (''tier'', jopt (sr_tier r)), (''access'', jopt (sr_access r)),
      (''config'', opt_obj (sr_config r))]"

definition v1_fields :: "string list" where
  "v1_fields = [''session_id'', ''thread_id'', ''cwd'', ''created_at'', ''updated_at'',
     ''name'', ''model'', ''effort'']"

definition v2_fields :: "string list" where
  "v2_fields = v1_fields @ [''tier'', ''access'']"

definition v3_fields :: "string list" where
  "v3_fields = v2_fields @ [''config'']"

definition required_fields :: "string list" where
  "required_fields = [''session_id'', ''thread_id'', ''cwd'', ''created_at'', ''updated_at'']"

definition annotation_fields :: "string list" where
  "annotation_fields = [''name'', ''model'', ''effort'', ''tier'', ''access'']"

definition str_or_null :: "json \<Rightarrow> bool" where
  "str_or_null v \<longleftrightarrow> v = JNull \<or> as_str v \<noteq> None"

text \<open>\<open>value in (None, "a", "b")\<close>.\<close>

definition one_of_or_null :: "json \<Rightarrow> string list \<Rightarrow> bool" where
  "one_of_or_null v ss \<longleftrightarrow> v = JNull \<or> list_ex (\<lambda>s. v = JStr s) ss"

definition tier_ok :: "json \<Rightarrow> bool" where
  "tier_ok v \<longleftrightarrow> one_of_or_null v [''medium'', ''very-smart'']"

definition access_ok :: "json \<Rightarrow> bool" where
  "access_ok v \<longleftrightarrow> one_of_or_null v [''full'', ''read_only'']"

definition name_ok :: "json \<Rightarrow> bool" where
  "name_ok v = (case v of JNull \<Rightarrow> True | JStr s \<Rightarrow> worker_name_re s | _ \<Rightarrow> False)"

definition build_session :: "json_object \<Rightarrow> session_record" where
  "build_session v =
     (let s = (\<lambda>k. case as_str (jget v k) of None \<Rightarrow> [] | Some x \<Rightarrow> x) in
      \<lparr>sr_session_id = s ''session_id'', sr_thread_id = s ''thread_id'', sr_cwd = s ''cwd'',
       sr_created_at = s ''created_at'', sr_updated_at = s ''updated_at'',
       sr_name = as_str (jget v ''name''), sr_model = as_str (jget v ''model''),
       sr_effort = as_str (jget v ''effort''), sr_tier = as_str (jget v ''tier''),
       sr_access = as_str (jget v ''access''), sr_config = as_obj (jget v ''config'')\<rparr>)"

definition session_from_dict :: "json \<Rightarrow> (exn, session_record) res" where
  "session_from_dict value = (case as_obj value of
     None \<Rightarrow> Inl (ValueError ''invalid session record'')
   | Some v \<Rightarrow>
     if \<not> (has_fields v v1_fields \<or> has_fields v v2_fields \<or> has_fields v v3_fields)
     then Inl (ValueError ''invalid session record'')
     else if list_ex (\<lambda>k. as_str (jget v k) = None) required_fields
     then Inl (ValueError ''invalid session record field'')
     else if list_ex (\<lambda>k. \<not> str_or_null (jget v k)) annotation_fields
     then Inl (ValueError ''invalid session annotation'')
     else if \<not> name_ok (jget v ''name'') then Inl (ValueError ''invalid worker name'')
     else if \<not> tier_ok (jget v ''tier'') \<or> \<not> access_ok (jget v ''access'')
     then Inl (ValueError ''invalid common policy'')
     else ebind (validate_thread_config (jget v ''config'')) (\<lambda>_. Inr (build_session v)))"

text \<open>What every record read from a dictionary satisfies.\<close>

definition session_record_ok :: "session_record \<Rightarrow> bool" where
  "session_record_ok r \<longleftrightarrow>
     (case sr_name r of None \<Rightarrow> True | Some n \<Rightarrow> worker_name_re n)
   \<and> tier_ok (jopt (sr_tier r)) \<and> access_ok (jopt (sr_access r))
   \<and> validate_thread_config (opt_obj (sr_config r)) = Inr ()"

lemma jget_session_to_dict [simp]:
  "jget (session_to_dict r) ''session_id'' = JStr (sr_session_id r)"
  "jget (session_to_dict r) ''thread_id'' = JStr (sr_thread_id r)"
  "jget (session_to_dict r) ''cwd'' = JStr (sr_cwd r)"
  "jget (session_to_dict r) ''created_at'' = JStr (sr_created_at r)"
  "jget (session_to_dict r) ''updated_at'' = JStr (sr_updated_at r)"
  "jget (session_to_dict r) ''name'' = jopt (sr_name r)"
  "jget (session_to_dict r) ''model'' = jopt (sr_model r)"
  "jget (session_to_dict r) ''effort'' = jopt (sr_effort r)"
  "jget (session_to_dict r) ''tier'' = jopt (sr_tier r)"
  "jget (session_to_dict r) ''access'' = jopt (sr_access r)"
  "jget (session_to_dict r) ''config'' = opt_obj (sr_config r)"
  by (simp_all add: session_to_dict_def)

lemma has_fields_session_to_dict: "has_fields (session_to_dict r) v3_fields"
  by (simp add: has_fields_def session_to_dict_def v3_fields_def v2_fields_def v1_fields_def)

lemma as_str_jopt [simp]: "as_str (jopt s) = s"
  by (cases s) simp_all

lemma as_obj_opt_obj [simp]: "as_obj (opt_obj d) = d"
  by (cases d) (simp_all add: opt_obj_def)

lemma str_or_null_jopt [simp]: "str_or_null (jopt s)"
  by (cases s) (simp_all add: str_or_null_def)

lemma name_ok_jopt [simp]:
  "name_ok (jopt n) = (case n of None \<Rightarrow> True | Some x \<Rightarrow> worker_name_re x)"
  by (cases n) (simp_all add: name_ok_def)

lemma build_session_to_dict: "build_session (session_to_dict r) = r"
  by (cases r) (simp add: build_session_def)

lemma session_roundtrip:
  assumes "session_record_ok r"
  shows "session_from_dict (JObj (session_to_dict r)) = Inr r"
proof -
  from assms have n: "name_ok (jopt (sr_name r))"
    and t: "tier_ok (jopt (sr_tier r))" and a: "access_ok (jopt (sr_access r))"
    and c: "validate_thread_config (opt_obj (sr_config r)) = Inr ()"
    by (simp_all add: session_record_ok_def)
  have "\<not> list_ex (\<lambda>k. as_str (jget (session_to_dict r) k) = None) required_fields"
    by (simp add: required_fields_def)
  moreover have "\<not> list_ex (\<lambda>k. \<not> str_or_null (jget (session_to_dict r) k)) annotation_fields"
    by (simp add: annotation_fields_def)
  ultimately show ?thesis
    using n t a c by (simp add: session_from_dict_def has_fields_session_to_dict
        build_session_to_dict del: name_ok_jopt)
qed

lemma session_from_dict_ok:
  assumes "session_from_dict v = Inr r"
  shows "session_record_ok r"
proof -
  from assms obtain d where v: "v = JObj d"
    and n: "name_ok (jget d ''name'')" and t: "tier_ok (jget d ''tier'')"
    and a: "access_ok (jget d ''access'')" and r: "r = build_session d"
    and c: "validate_thread_config (jget d ''config'') = Inr ()"
    by (auto simp: session_from_dict_def res_simps split: option.splits if_splits)
  have n': "case sr_name r of None \<Rightarrow> True | Some n \<Rightarrow> worker_name_re n"
    using n by (cases "jget d ''name''") (simp_all add: r build_session_def name_ok_def as_defs)
  have t': "jopt (sr_tier r) = jget d ''tier''"
    using t by (cases "jget d ''tier''")
      (simp_all add: r build_session_def tier_ok_def one_of_or_null_def as_defs)
  have a': "jopt (sr_access r) = jget d ''access''"
    using a by (cases "jget d ''access''")
      (simp_all add: r build_session_def access_ok_def one_of_or_null_def as_defs)
  have c': "opt_obj (sr_config r) = jget d ''config''"
    using c by (cases "jget d ''config''")
      (simp_all add: r build_session_def validate_thread_config_def opt_obj_def as_defs)
  show ?thesis
    using n' t t' a a' c c' by (simp add: session_record_ok_def)
qed

text \<open>A version 1 dictionary reads as a record with no tier, access or configuration.\<close>

lemma dget_absent_field: "has_fields d fs \<Longrightarrow> k \<notin> set fs \<Longrightarrow> jget d k = JNull"
  by (simp add: has_fields_def jget_def) (metis dget_None_iff option.simps(4))

lemma session_from_dict_v1:
  assumes "session_from_dict (JObj d) = Inr r" and "has_fields d v1_fields"
  shows "sr_tier r = None \<and> sr_access r = None \<and> sr_config r = None"
proof -
  have "jget d ''tier'' = JNull" "jget d ''access'' = JNull" "jget d ''config'' = JNull"
    by (rule dget_absent_field [OF assms(2)], simp add: v1_fields_def)+
  then show ?thesis
    using assms(1)
    by (auto simp: session_from_dict_def res_simps build_session_def split: if_splits)
qed

section \<open>RPC faults\<close>

text \<open>\<open>_fault(code, message, kind, recovery, details)\<close>: the exception that constructing and
  raising the fault gives, a ValueError when its error detail is refused.\<close>

definition mk_rpc_fault ::
  "int \<Rightarrow> string \<Rightarrow> string \<Rightarrow> string option \<Rightarrow> json_object option \<Rightarrow> exn" where
  "mk_rpc_fault code message kind recovery details =
     (case mk_error_detail kind recovery details of
        Inl e \<Rightarrow> e
      | Inr _ \<Rightarrow> RpcFault code message kind recovery details)"

lemma mk_rpc_fault_plain [simp]: "mk_rpc_fault c m k None None = RpcFault c m k None None"
  by (simp add: mk_rpc_fault_def mk_error_detail_def)

lemma mk_rpc_fault_details:
  "dget d ''next_actions'' = None \<Longrightarrow>
     mk_rpc_fault c m k None (Some d) = RpcFault c m k None (Some d)"
  by (simp add: mk_rpc_fault_def mk_error_detail_def)

definition rpc_fault_to_dict ::
  "int \<Rightarrow> string \<Rightarrow> string \<Rightarrow> string option \<Rightarrow> json_object option \<Rightarrow> json_object" where
  "rpc_fault_to_dict code message kind recovery details =
     [(''code'', JInt code), (''message'', JStr message),
      (''data'', JObj (error_detail_to_dict
         \<lparr>ed_kind = kind, ed_recovery = recovery, ed_details = details\<rparr>))]"

text \<open>The dictionary of a raised fault, whichever subclass it is.\<close>

definition fault_dict :: "exn \<Rightarrow> json_object option" where
  "fault_dict e = (case e of
     RpcFault c m k r d \<Rightarrow> Some (rpc_fault_to_dict c m k r d)
   | ModelSelectionError m d \<Rightarrow>
       Some (rpc_fault_to_dict (-32010) m ''invalid_model_selection'' None d)
   | FacadeRpcFault f \<Rightarrow> Some (facade_fault_to_dict f)
   | _ \<Rightarrow> None)"

definition rpc_response ::
  "json \<Rightarrow> json_object option \<Rightarrow> json_object option \<Rightarrow> (exn, json_object) res" where
  "rpc_response request_id result fault =
     (if (result = None) = (fault = None)
      then Inl (ValueError ''exactly one of result or fault is required'')
      else (let response = [(''jsonrpc'', JStr ''2.0''), (''id'', request_id)] in
        case fault of
          Some f \<Rightarrow> Inr (dset response ''error'' (JObj f))
        | None \<Rightarrow> (case result of
            Some r \<Rightarrow> Inr (dset response ''result'' (JObj r))
          | None \<Rightarrow> Inl (ValueError ''exactly one of result or fault is required''))))"

definition session_result :: "session_record \<Rightarrow> bool \<Rightarrow> json_object" where
  "session_result r attached =
     [(''session'', JObj (session_to_dict r)), (''attached'', JBool attached)]"

end
