(* ===== verification/Runtime.thy ===== *)
theory Runtime
  imports Records
begin

text \<open>
  \<open>runtime.py\<close>: the live state of each session, driven by Codex notifications. A session's
  fields are those of \<open>_SessionRuntime\<close> without its condition variable; the store holds the
  sessions by identifier and the index from threads to sessions. Each critical section of the
  code (the statements under one acquisition of the condition) is one definition, and a method
  with several sections is their composition. Publishing a terminal turn to the observers
  happens between two sections; a section that decides to publish returns the snapshot.

  Copies of snapshots are the identity (\<open>copy_turn_snapshot_id\<close> in Models).
\<close>

section \<open>State\<close>

record session_runtime =
  rt_record :: session_record
  rt_attached :: bool
  rt_active :: "string option"
  rt_start_pending :: bool
  rt_awaiting :: bool
  rt_observed :: "string option"
  rt_latest :: "turn_snapshot option"
  rt_terminals :: "(string, turn_snapshot) dict"
  rt_published :: "string list"
  rt_publishing :: "string set"
  rt_next_cursor :: int
  rt_events :: "event_record list"
  rt_items :: "(string, item_record list) dict"

definition new_session :: "session_record \<Rightarrow> session_runtime" where
  "new_session record = \<lparr>rt_record = record, rt_attached = True, rt_active = None,
     rt_start_pending = False, rt_awaiting = False, rt_observed = None, rt_latest = None,
     rt_terminals = [], rt_published = [], rt_publishing = {}, rt_next_cursor = 1,
     rt_events = [], rt_items = []\<rparr>"

record runtime_store =
  event_limit :: nat
  sessions :: "(string, session_runtime) dict"
  thread_sessions :: "(string, string) dict"
  observers :: "nat list"

definition mk_runtime_store :: "json \<Rightarrow> (exn, runtime_store) res" where
  "mk_runtime_store limit = (case as_int limit of
     None \<Rightarrow> Inl (ValueError ''event_limit must be a positive integer'')
   | Some n \<Rightarrow> if n \<le> 0 then Inl (ValueError ''event_limit must be a positive integer'')
       else Inr \<lparr>event_limit = nat n, sessions = [], thread_sessions = [], observers = []\<rparr>)"

definition add_terminal_observer :: "runtime_store \<Rightarrow> nat \<Rightarrow> runtime_store" where
  "add_terminal_observer st obs =
     (if obs \<in> set (observers st) then st else st\<lparr>observers := observers st @ [obs]\<rparr>)"

definition get_session :: "runtime_store \<Rightarrow> string \<Rightarrow> (exn, session_runtime) res" where
  "get_session st sid = (case dget (sessions st) sid of
     None \<Rightarrow> Inl (UnknownSession (''unknown runtime session: '' @ sid))
   | Some r \<Rightarrow> Inr r)"

definition put_session :: "runtime_store \<Rightarrow> string \<Rightarrow> session_runtime \<Rightarrow> runtime_store" where
  "put_session st sid r = st\<lparr>sessions := dset (sessions st) sid r\<rparr>"

definition by_thread :: "runtime_store \<Rightarrow> json \<Rightarrow> (string \<times> session_runtime) option" where
  "by_thread st tid = (case as_str tid of None \<Rightarrow> None
     | Some t \<Rightarrow> (case dget (thread_sessions st) t of None \<Rightarrow> None
         | Some sid \<Rightarrow> (case dget (sessions st) sid of None \<Rightarrow> None
             | Some r \<Rightarrow> Some (sid, r))))"

section \<open>Terminal retention\<close>

definition first_removable :: "string set \<Rightarrow> (string, turn_snapshot) dict \<Rightarrow> string option" where
  "first_removable publishing ts = find (\<lambda>k. k \<notin> publishing) (dkeys ts)"

lemma first_removable_Some:
  "first_removable p ts = Some k \<Longrightarrow> k \<in> set (dkeys ts) \<and> k \<notin> p"
  by (auto simp: first_removable_def find_Some_iff)

lemma length_ddel_less: "k \<in> set (dkeys d) \<Longrightarrow> length (ddel d k) < length d"
proof (induction d k rule: ddel.induct)
  case (2 k' x d k)
  then show ?case using length_ddel_le [of d k] by (auto simp: less_Suc_eq_le)
qed simp

function trim_dict ::
  "nat \<Rightarrow> string set \<Rightarrow> (string, turn_snapshot) dict \<Rightarrow> (string, turn_snapshot) dict" where
  "trim_dict limit publishing ts =
     (if limit < length ts then
        (case first_removable publishing ts of
           None \<Rightarrow> ts
         | Some k \<Rightarrow> trim_dict limit publishing (ddel ts k))
      else ts)"
  by pat_completeness auto
termination
  by (relation "measure (\<lambda>(limit, p, ts). length ts)")
     (auto dest!: first_removable_Some intro: length_ddel_less)

declare trim_dict.simps [simp del]

definition trim_terminals :: "nat \<Rightarrow> session_runtime \<Rightarrow> session_runtime" where
  "trim_terminals limit r =
     r\<lparr>rt_terminals := trim_dict limit (rt_publishing r) (rt_terminals r)\<rparr>"

definition retain_terminal :: "nat \<Rightarrow> session_runtime \<Rightarrow> turn_snapshot \<Rightarrow> bool \<Rightarrow> session_runtime" where
  "retain_terminal limit r snapshot publishing =
     (let tid = ts_turn_id snapshot;
          r1 = r\<lparr>rt_terminals := ddel (rt_terminals r) tid @ [(tid, snapshot)]\<rparr>;
          r2 = (if publishing then r1\<lparr>rt_publishing := insert tid (rt_publishing r1)\<rparr> else r1)
      in trim_terminals limit r2)"

definition mark_terminal_published :: "nat \<Rightarrow> session_runtime \<Rightarrow> string \<Rightarrow> bool \<times> session_runtime" where
  "mark_terminal_published limit r tid =
     (if tid \<in> set (rt_published r)
      then (False, r\<lparr>rt_published := removeAll tid (rt_published r) @ [tid]\<rparr>)
      else (let p = rt_published r @ [tid]
            in (True, r\<lparr>rt_published := drop (length p - limit) p\<rparr>)))"

text \<open>After the observers have been called: discard the mark, then trim.\<close>

definition finish_publish :: "nat \<Rightarrow> session_runtime \<Rightarrow> string \<Rightarrow> session_runtime" where
  "finish_publish limit r tid =
     trim_terminals limit (r\<lparr>rt_publishing := rt_publishing r - {tid}\<rparr>)"

definition append_event :: "nat \<Rightarrow> session_runtime \<Rightarrow> string \<Rightarrow> string option \<Rightarrow>
    item_record option \<Rightarrow> error_detail option \<Rightarrow> session_runtime" where
  "append_event limit r event turn_id item error =
     (let e = \<lparr>ev_cursor = rt_next_cursor r, ev_event = event,
               ev_session_id = sr_session_id (rt_record r),
               ev_thread_id = sr_thread_id (rt_record r),
               ev_turn_id = turn_id, ev_item = item, ev_error = error\<rparr>;
          es = rt_events r @ [e]
      in r\<lparr>rt_next_cursor := rt_next_cursor r + 1,
           rt_events := drop (length es - limit) es\<rparr>)"

section \<open>Attachment\<close>

definition attach :: "runtime_store \<Rightarrow> session_record \<Rightarrow> (exn, runtime_store) res" where
  "attach st record =
     (let sid = sr_session_id record; tid = sr_thread_id record in
      if (case dget (thread_sessions st) tid of None \<Rightarrow> False | Some owner \<Rightarrow> owner \<noteq> sid)
      then Inl (CodexProtocolError ''thread is already attached to another session'')
      else (case dget (sessions st) sid of
        None \<Rightarrow> Inr (st\<lparr>sessions := dset (sessions st) sid (new_session record),
                       thread_sessions := dset (thread_sessions st) tid sid\<rparr>)
      | Some r \<Rightarrow>
          if sr_thread_id (rt_record r) \<noteq> tid
          then Inl (CodexProtocolError ''session attachment changed thread identity'')
          else Inr (put_session st sid (r\<lparr>rt_record := record, rt_attached := True\<rparr>))))"

definition detach_one ::
  "nat \<Rightarrow> session_runtime \<Rightarrow> error_detail \<Rightarrow> session_runtime \<times> turn_snapshot option" where
  "detach_one limit r reason =
     (let lost = rt_active r;
          r1 = r\<lparr>rt_attached := False, rt_active := None, rt_start_pending := False,
                 rt_awaiting := False, rt_observed := None\<rparr>;
          (r2, terminal) = (case lost of None \<Rightarrow> (r1, None)
            | Some tid \<Rightarrow>
                let items = (case dget (rt_items r1) tid of None \<Rightarrow> [] | Some xs \<Rightarrow> xs);
                    snap = \<lparr>ts_turn_id = tid, ts_status = ''failed'',
                            ts_error = Some reason, ts_items = items\<rparr>
                in (retain_terminal limit (r1\<lparr>rt_items := ddel (rt_items r1) tid,
                      rt_latest := Some snap\<rparr>) snap True, Some snap))
      in (append_event limit (r2\<lparr>rt_items := []\<rparr>) ''transport_error'' lost None (Some reason),
          terminal))"

type_synonym publication = "string \<times> turn_snapshot"

definition publication_of :: "session_runtime \<Rightarrow> turn_snapshot option \<Rightarrow> publication list" where
  "publication_of r t = (case t of None \<Rightarrow> [] | Some s \<Rightarrow> [(sr_session_id (rt_record r), s)])"

fun detach_sessions :: "nat \<Rightarrow> (string, session_runtime) dict \<Rightarrow> error_detail \<Rightarrow>
    (string, session_runtime) dict \<times> publication list" where
  "detach_sessions limit [] reason = ([], [])"
| "detach_sessions limit ((sid, r) # rest) reason =
     (let (r1, terminal) = detach_one limit r reason;
          r2 = (case terminal of None \<Rightarrow> r1 | Some s \<Rightarrow> finish_publish limit r1 (ts_turn_id s));
          (rest', pubs) = detach_sessions limit rest reason
      in ((sid, r2) # rest', publication_of r1 terminal @ pubs))"

definition detach_all :: "runtime_store \<Rightarrow> error_detail \<Rightarrow> runtime_store \<times> publication list" where
  "detach_all st reason =
     (let (ss, pubs) = detach_sessions (event_limit st) (sessions st) reason
      in (st\<lparr>sessions := ss\<rparr>, pubs))"

section \<open>Notifications\<close>

definition message_thread_id :: "json_object \<Rightarrow> json" where
  "message_thread_id message = (case as_obj (jget message ''params'') of
     None \<Rightarrow> JNull
   | Some params \<Rightarrow> (case as_str (jget params ''threadId'') of
       Some t \<Rightarrow> JStr t
     | None \<Rightarrow> (case as_obj (jget params ''turn'') of
         None \<Rightarrow> JNull
       | Some turn \<Rightarrow> (case as_str (jget turn ''threadId'') of None \<Rightarrow> JNull | Some t \<Rightarrow> JStr t))))"

definition turn_error :: "string \<Rightarrow> json \<Rightarrow> (exn, error_detail option) res" where
  "turn_error status value =
     (if status \<noteq> ''failed'' \<and> value = JNull then Inr None
      else ebind (mk_error_detail ''codex_turn_failed'' None (as_obj value)) (\<lambda>e. Inr (Some e)))"

definition notify_started :: "nat \<Rightarrow> session_runtime \<Rightarrow> json_object \<Rightarrow> session_runtime" where
  "notify_started limit r params = (case as_obj (jget params ''turn'') of
     None \<Rightarrow> r
   | Some turn \<Rightarrow> (case as_str (jget turn ''id'') of
       None \<Rightarrow> r
     | Some tid \<Rightarrow>
       if tid \<in> set (rt_published r) \<and> \<not> rt_awaiting r then r
       else (let r1 = r\<lparr>rt_start_pending := False, rt_active := Some tid\<rparr>;
                 r2 = (if rt_awaiting r1 then r1\<lparr>rt_observed := Some tid\<rparr> else r1)
             in append_event limit r2 ''turn_started'' (Some tid) None None)))"

definition belongs_to_pending :: "session_runtime \<Rightarrow> string \<Rightarrow> bool" where
  "belongs_to_pending r tid \<longleftrightarrow> rt_awaiting r
     \<and> (rt_observed r = None \<or> rt_observed r = Some tid)
     \<and> (rt_active r = None \<or> rt_active r = Some tid)"

definition commit_completed :: "nat \<Rightarrow> session_runtime \<Rightarrow> string \<Rightarrow> string \<Rightarrow>
    error_detail option \<Rightarrow> session_runtime \<times> turn_snapshot option" where
  "commit_completed limit r tid status error =
     (let r1 = (if belongs_to_pending r tid
                then r\<lparr>rt_observed := Some tid, rt_start_pending := False\<rparr> else r);
          r2 = (if rt_active r1 = Some tid then r1\<lparr>rt_active := None\<rparr> else r1);
          items = (case dget (rt_items r2) tid of None \<Rightarrow> [] | Some xs \<Rightarrow> xs);
          snap = \<lparr>ts_turn_id = tid, ts_status = status, ts_error = error, ts_items = items\<rparr>;
          r3 = r2\<lparr>rt_items := ddel (rt_items r2) tid, rt_latest := Some snap\<rparr>;
          (should_publish, r4) = mark_terminal_published limit r3 tid;
          r5 = retain_terminal limit r4 snap should_publish
      in (append_event limit r5 ''turn_completed'' (Some tid) None error,
          if should_publish then Some snap else None))"

definition notify_completed :: "nat \<Rightarrow> session_runtime \<Rightarrow> json_object \<Rightarrow>
    (exn, session_runtime \<times> turn_snapshot option) res" where
  "notify_completed limit r params = (case as_obj (jget params ''turn'') of
     None \<Rightarrow> Inr (r, None)
   | Some turn \<Rightarrow> (case as_str (jget turn ''id'') of
       None \<Rightarrow> Inr (r, None)
     | Some tid \<Rightarrow>
       if tid \<in> set (rt_published r) \<and> rt_active r \<noteq> Some tid then Inr (r, None)
       else (let status = (case as_str (jget turn ''status'') of None \<Rightarrow> ''unknown'' | Some s \<Rightarrow> s)
             in ebind (turn_error status (jget turn ''error''))
                  (\<lambda>error. Inr (commit_completed limit r tid status error)))))"

definition without_id_type :: "json_object \<Rightarrow> json_object" where
  "without_id_type d = filter (\<lambda>kv. fst kv \<noteq> ''id'' \<and> fst kv \<noteq> ''type'') d"

definition item_is_current :: "session_runtime \<Rightarrow> string \<Rightarrow> bool" where
  "item_is_current r tid \<longleftrightarrow> rt_active r = Some tid
     \<or> rt_awaiting r \<and> rt_observed r = Some tid
       \<and> (case rt_latest r of None \<Rightarrow> True | Some s \<Rightarrow> ts_turn_id s \<noteq> tid)"

definition notify_item :: "nat \<Rightarrow> session_runtime \<Rightarrow> json_object \<Rightarrow> session_runtime" where
  "notify_item limit r params = (case as_obj (jget params ''item'') of
     None \<Rightarrow> r
   | Some item \<Rightarrow> (case (as_str (jget item ''id''), as_str (jget item ''type'')) of
       (Some i, Some t) \<Rightarrow>
         (let rec = \<lparr>item_id = i, item_type = t, item_data = without_id_type item\<rparr>;
              turn_id = as_str (jget params ''turnId'');
              r1 = (case turn_id of None \<Rightarrow> r
                | Some tid \<Rightarrow> if item_is_current r tid
                    then r\<lparr>rt_items := dset (rt_items r) tid
                           ((case dget (rt_items r) tid of None \<Rightarrow> [] | Some xs \<Rightarrow> xs) @ [rec])\<rparr>
                    else r)
          in append_event limit r1 ''item_completed'' turn_id (Some rec) None)
     | _ \<Rightarrow> r))"

definition notify_approval ::
  "(json \<Rightarrow> string) \<Rightarrow> nat \<Rightarrow> session_runtime \<Rightarrow> json_object \<Rightarrow> session_runtime" where
  "notify_approval rep limit r params =
     (let method = (case as_str (jget params ''approvalMethod'') of
            None \<Rightarrow> ''unknown_approval'' | Some m \<Rightarrow> m);
          request_id = jget params ''requestId'';
          rec = \<lparr>item_id = (if request_id = JNull then ''unknown'' else py_str rep request_id),
                 item_type = method, item_data = [(''decision'', JStr ''decline'')]\<rparr>
      in append_event limit r ''approval_declined'' (as_str (jget params ''turnId'')) (Some rec) None)"

text \<open>The critical section of \<open>on_notification\<close> for one session's message.\<close>

definition notify_session :: "(json \<Rightarrow> string) \<Rightarrow> nat \<Rightarrow> session_runtime \<Rightarrow> string \<Rightarrow> json_object \<Rightarrow>
    (exn, session_runtime \<times> turn_snapshot option) res" where
  "notify_session rep limit r method params =
     (if method = ''turn/started'' then Inr (notify_started limit r params, None)
      else if method = ''turn/completed'' then notify_completed limit r params
      else if method = ''item/completed'' then Inr (notify_item limit r params, None)
      else Inr (notify_approval rep limit r params, None))"

definition session_methods :: "string list" where
  "session_methods = [''turn/started'', ''turn/completed'', ''item/completed'', ''approval/declined'']"

definition transport_reason :: "json_object \<Rightarrow> (exn, error_detail) res" where
  "transport_reason message =
     (let params = (case as_obj (jget message ''params'') of None \<Rightarrow> [] | Some p \<Rightarrow> p)
      in mk_error_detail ''transport_error'' None (as_obj (jget params ''details'')))"

text \<open>The store after the section, and the snapshot to publish with its session.\<close>

definition notify_commit :: "(json \<Rightarrow> string) \<Rightarrow> runtime_store \<Rightarrow> json_object \<Rightarrow>
    (exn, runtime_store \<times> publication list) res" where
  "notify_commit rep st message = (case as_str (jget message ''method'') of
     None \<Rightarrow> Inr (st, [])
   | Some method \<Rightarrow>
     if method \<notin> set session_methods then Inr (st, [])
     else (case by_thread st (message_thread_id message) of
       None \<Rightarrow> Inr (st, [])
     | Some (sid, r) \<Rightarrow> (case as_obj (jget message ''params'') of
         None \<Rightarrow> Inr (st, [])
       | Some params \<Rightarrow> ebind (notify_session rep (event_limit st) r method params)
           (\<lambda>(r', terminal). Inr (put_session st sid r', publication_of r' terminal)))))"

definition finish_publications :: "runtime_store \<Rightarrow> publication list \<Rightarrow> runtime_store" where
  "finish_publications st pubs = fold (\<lambda>(sid, s) st'. case dget (sessions st') sid of
     None \<Rightarrow> st'
   | Some r \<Rightarrow> put_session st' sid (finish_publish (event_limit st') r (ts_turn_id s))) pubs st"

definition on_notification :: "(json \<Rightarrow> string) \<Rightarrow> runtime_store \<Rightarrow> json \<Rightarrow>
    (exn, runtime_store \<times> publication list) res" where
  "on_notification rep st msg = (case as_obj msg of
     None \<Rightarrow> Inr (st, [])
   | Some message \<Rightarrow>
     if jget message ''method'' = JStr ''transport/error''
     then ebind (transport_reason message) (\<lambda>reason. Inr (detach_all st reason))
     else ebind (notify_commit rep st message)
       (\<lambda>(st', pubs). Inr (finish_publications st' pubs, pubs)))"

end
