(* ===== verification/RuntimeOps.thy ===== *)
theory RuntimeOps
  imports Runtime
begin

text \<open>
  The rest of \<open>runtime.py\<close>: reconciliation with an authoritative thread read, the start
  reservation protocol, waiting, event paging, live narration, and the interleaving of all
  critical sections as a run of actions.

  Time is an integer count of clock ticks; a wait is described by what its loop sees each time
  it holds the condition (the clock and the session), ending when the loop returns or raises.
\<close>

section \<open>Authoritative turns\<close>

definition provider_status :: "json \<Rightarrow> (exn, string option) res" where
  "provider_status v =
     (if \<not> hashable v then Inl (TypeError ''unhashable type'')
      else Inr (case v of JStr s \<Rightarrow>
          if s = ''inProgress'' then Some ''in_progress''
          else if s \<in> {''completed'', ''failed'', ''interrupted''} then Some s else None
        | _ \<Rightarrow> None))"

definition authoritative_item :: "json \<Rightarrow> (exn, item_record) res" where
  "authoritative_item v = (case as_obj v of
     None \<Rightarrow> Inl (CodexProtocolError ''authoritative turn item is malformed'')
   | Some d \<Rightarrow> (case (as_nonempty (jget d ''id''), as_nonempty (jget d ''type'')) of
       (Some i, Some t) \<Rightarrow> Inr \<lparr>item_id = i, item_type = t, item_data = without_id_type d\<rparr>
     | _ \<Rightarrow> Inl (CodexProtocolError ''authoritative turn item is malformed'')))"

definition take_last :: "nat \<Rightarrow> 'a list \<Rightarrow> 'a list" where
  "take_last n xs = drop (length xs - n) xs"

text \<open>\<open>turn.get("items", [])\<close>: the default applies only to an absent key.\<close>

definition items_or_default :: "json_object \<Rightarrow> json" where
  "items_or_default d = (case dget d ''items'' of None \<Rightarrow> JList [] | Some v \<Rightarrow> v)"

definition snapshot_from_turn :: "nat \<Rightarrow> json \<Rightarrow> (exn, turn_snapshot) res" where
  "snapshot_from_turn limit turn = (case as_obj turn of
     None \<Rightarrow> Inl (CodexProtocolError ''authoritative turn is malformed'')
   | Some d \<Rightarrow>
     if \<not> dhas d ''id'' \<or> \<not> dhas d ''status''
     then Inl (CodexProtocolError ''authoritative turn is malformed'')
     else (case as_nonempty (jget d ''id'') of
       None \<Rightarrow> Inl (CodexProtocolError ''authoritative turn identity or status is malformed'')
     | Some tid \<Rightarrow> ebind (provider_status (jget d ''status'')) (\<lambda>status.
         case status of
           None \<Rightarrow> Inl (CodexProtocolError ''authoritative turn identity or status is malformed'')
         | Some st \<Rightarrow> (case as_list (items_or_default d) of
             None \<Rightarrow> Inl (CodexProtocolError ''authoritative turn items are malformed'')
           | Some raw \<Rightarrow> ebind (emap authoritative_item raw) (\<lambda>items.
               if jget d ''error'' \<noteq> JNull \<and> as_obj (jget d ''error'') = None
               then Inl (CodexProtocolError ''authoritative turn error is malformed'')
               else ebind (turn_error (case as_str (jget d ''status'') of None \<Rightarrow> [] | Some s \<Rightarrow> s)
                            (jget d ''error''))
                 (\<lambda>error. Inr \<lparr>ts_turn_id = tid, ts_status = st, ts_error = error,
                                ts_items = take_last limit items\<rparr>))))))"

section \<open>Reconciling a thread\<close>

definition nonempty_flags :: "json \<Rightarrow> bool" where
  "nonempty_flags v = (case as_list v of None \<Rightarrow> False
     | Some fs \<Rightarrow> list_all (\<lambda>f. as_nonempty f \<noteq> None) fs)"

definition check_thread_status :: "json \<Rightarrow> (exn, bool) res" where
  "check_thread_status v = (case as_obj v of
     None \<Rightarrow> Inl (CodexProtocolError ''authoritative thread status is malformed'')
   | Some status \<Rightarrow>
     if jget status ''type'' = JStr ''active'' then
       (if has_fields status [''type'', ''activeFlags''] \<and> nonempty_flags (jget status ''activeFlags'')
        then Inr True
        else Inl (CodexProtocolError ''authoritative active status is malformed''))
     else if jget status ''type'' \<in> {JStr ''idle'', JStr ''notLoaded'', JStr ''systemError''} then
       (if has_fields status [''type''] then Inr False
        else Inl (CodexProtocolError ''authoritative inactive status is malformed''))
     else Inl (CodexProtocolError ''authoritative thread status type is unknown''))"

definition in_progress :: "turn_snapshot \<Rightarrow> bool" where
  "in_progress s \<longleftrightarrow> ts_status s = ''in_progress''"

definition reconcile_section ::
  "nat \<Rightarrow> session_runtime \<Rightarrow> turn_snapshot list \<Rightarrow> session_runtime \<times> turn_snapshot option" where
  "reconcile_section limit r snapshots =
     (let active = filter in_progress snapshots;
          latest_terminal = find (\<lambda>s. \<not> in_progress s) (rev snapshots);
          r1 = r\<lparr>rt_attached := True,
                 rt_active := (case active of [] \<Rightarrow> None | a # _ \<Rightarrow> Some (ts_turn_id a)),
                 rt_items := (case active of [] \<Rightarrow> [] | a # _ \<Rightarrow> [(ts_turn_id a, ts_items a)])\<rparr>;
          r2 = (case active of [] \<Rightarrow> r1
                | a # _ \<Rightarrow> if rt_awaiting r1 then r1\<lparr>rt_observed := Some (ts_turn_id a)\<rparr> else r1)
      in case latest_terminal of
           None \<Rightarrow> (r2, None)
         | Some t \<Rightarrow>
             (let r3 = r2\<lparr>rt_latest := Some t\<rparr>;
                  (should_publish, r4) = mark_terminal_published limit r3 (ts_turn_id t)
              in (retain_terminal limit r4 t should_publish,
                  if should_publish then Some t else None)))"

definition status_of :: "session_runtime \<Rightarrow> runtime_status" where
  "status_of r = \<lparr>rs_attached = rt_attached r, rs_active_turn_id = rt_active r,
                  rs_latest_turn = rt_latest r\<rparr>"

definition reconcile_commit :: "runtime_store \<Rightarrow> json \<Rightarrow>
    (exn, runtime_store \<times> runtime_status \<times> publication list) res" where
  "reconcile_commit st thread = (case as_obj thread of
     None \<Rightarrow> Inl (CodexProtocolError ''authoritative thread is malformed'')
   | Some th \<Rightarrow> (case by_thread st (jget th ''id'') of
       None \<Rightarrow> Inl (CodexProtocolError ''authoritative thread is not attached'')
     | Some (sid, r) \<Rightarrow> ebind (check_thread_status (jget th ''status'')) (\<lambda>is_active.
         case as_list (jget th ''turns'') of
           None \<Rightarrow> Inl (CodexProtocolError ''authoritative thread turns are malformed'')
         | Some raw \<Rightarrow> ebind (emap (snapshot_from_turn (event_limit st)) raw) (\<lambda>snapshots.
             if is_active \<and> length (filter in_progress snapshots) \<noteq> 1
             then Inl (CodexProtocolError ''active thread must identify exactly one active turn'')
             else if \<not> is_active \<and> filter in_progress snapshots \<noteq> []
             then Inl (CodexProtocolError ''inactive thread contains an active turn'')
             else (let (r', terminal) = reconcile_section (event_limit st) r snapshots
                   in Inr (put_session st sid r', status_of r', publication_of r' terminal))))))"

definition reconcile_thread :: "runtime_store \<Rightarrow> json \<Rightarrow>
    (exn, runtime_store \<times> runtime_status \<times> publication list) res" where
  "reconcile_thread st thread = ebind (reconcile_commit st thread)
     (\<lambda>(st', status, pubs). Inr (finish_publications st' pubs, status, pubs))"

definition status :: "runtime_store \<Rightarrow> string \<Rightarrow> (exn, runtime_status) res" where
  "status st sid = ebind (get_session st sid) (\<lambda>r. Inr (status_of r))"

section \<open>The start reservation\<close>

definition require_attached :: "session_runtime \<Rightarrow> (exn, unit) res" where
  "require_attached r = (if rt_attached r then Inr ()
     else Inl (SessionDetached (''session is detached: '' @ sr_session_id (rt_record r))))"

definition start_busy :: "session_runtime \<Rightarrow> bool" where
  "start_busy r \<longleftrightarrow> rt_start_pending r \<or> rt_awaiting r \<or> rt_active r \<noteq> None"

definition reserve_start :: "runtime_store \<Rightarrow> string \<Rightarrow> (exn, runtime_store) res" where
  "reserve_start st sid = ebind (get_session st sid) (\<lambda>r.
     ebind (require_attached r) (\<lambda>_.
       if start_busy r then Inl (TurnActive ''session already has an active or pending turn'')
       else Inr (put_session st sid
         (r\<lparr>rt_start_pending := True, rt_awaiting := True, rt_observed := None\<rparr>))))"

definition cancel_start :: "runtime_store \<Rightarrow> string \<Rightarrow> (exn, runtime_store) res" where
  "cancel_start st sid = ebind (get_session st sid) (\<lambda>r.
     Inr (put_session st sid
       (r\<lparr>rt_start_pending := False, rt_awaiting := False, rt_observed := None\<rparr>)))"

text \<open>
  The section writes the session even when it raises afterwards, so the result carries the
  store beside the outcome.
\<close>

definition reconcile_start :: "runtime_store \<Rightarrow> string \<Rightarrow> json \<Rightarrow> runtime_store \<times> (exn, unit) res" where
  "reconcile_start st sid returned = (case get_session st sid of
     Inl e \<Rightarrow> (st, Inl e)
   | Inr r \<Rightarrow> (case as_nonempty returned of
       None \<Rightarrow> (st, Inl (CodexProtocolError ''turn/start response omitted its turn id''))
     | Some tid \<Rightarrow>
       if \<not> rt_awaiting r
       then (st, Inl (CodexProtocolError ''turn/start response has no reservation''))
       else (let r1 = r\<lparr>rt_awaiting := False, rt_start_pending := False, rt_observed := None\<rparr> in
         case rt_observed r of
           Some observed \<Rightarrow>
             if observed \<noteq> tid
             then (put_session st sid r1, Inl (CodexProtocolError
               (''turn/start response id '' @ tid @ '' mismatches notification id '' @ observed)))
             else (put_session st sid r1, Inr ())
         | None \<Rightarrow>
             if rt_active r1 \<noteq> None \<and> rt_active r1 \<noteq> Some tid
             then (put_session st sid r1,
               Inl (CodexProtocolError ''turn/start response mismatches active turn''))
             else (put_session st sid (r1\<lparr>rt_active := Some tid\<rparr>), Inr ()))))"

definition require_idle :: "runtime_store \<Rightarrow> string \<Rightarrow> (exn, unit) res" where
  "require_idle st sid = ebind (get_session st sid) (\<lambda>r.
     ebind (require_attached r) (\<lambda>_.
       if start_busy r then Inl (TurnActive ''session has an active or pending turn'')
       else Inr ()))"

section \<open>Snapshots, waiting, events\<close>

definition terminal_snapshot :: "runtime_store \<Rightarrow> string \<Rightarrow> string \<Rightarrow> (exn, turn_snapshot option) res" where
  "terminal_snapshot st sid tid =
     ebind (get_session st sid) (\<lambda>r. Inr (dget (rt_terminals r) tid))"

definition release_terminal_snapshot :: "runtime_store \<Rightarrow> string \<Rightarrow> string \<Rightarrow> (exn, runtime_store) res" where
  "release_terminal_snapshot st sid tid = ebind (get_session st sid) (\<lambda>r.
     Inr (put_session st sid (r\<lparr>rt_terminals := ddel (rt_terminals r) tid\<rparr>)))"

definition wait_blocked :: "session_runtime \<Rightarrow> string option \<Rightarrow> bool" where
  "wait_blocked r turn_id \<longleftrightarrow>
     (if turn_id = None then rt_start_pending r else False)
     \<or> rt_active r \<noteq> None \<and> (turn_id = None \<or> rt_active r = turn_id)"

definition wait_result :: "string \<Rightarrow> session_runtime \<Rightarrow> string option \<Rightarrow> (exn, turn_snapshot) res" where
  "wait_result sid r turn_id =
     (case (case turn_id of None \<Rightarrow> rt_latest r | Some t \<Rightarrow> dget (rt_terminals r) t) of
        None \<Rightarrow> Inl (NoTurn (''session has no terminal turn: '' @ sid))
      | Some s \<Rightarrow> Inr s)"

text \<open>
  The loop of \<open>wait\<close> over the successive observations of the clock and the session;
  \<open>None\<close> while it is still waiting after the last of them.
\<close>

fun wait_loop :: "string \<Rightarrow> int option \<Rightarrow> string option \<Rightarrow> (int \<times> session_runtime) list \<Rightarrow>
    (exn, turn_snapshot) res option" where
  "wait_loop sid deadline turn_id [] = None"
| "wait_loop sid deadline turn_id ((now, r) # later) =
     (if wait_blocked r turn_id then
        (case deadline of
           None \<Rightarrow> wait_loop sid deadline turn_id later
         | Some d \<Rightarrow> if d - now \<le> 0 then Some (Inl (WaitTimeout sid (rt_active r)))
             else wait_loop sid deadline turn_id later)
      else Some (wait_result sid r turn_id))"

definition wait :: "runtime_store \<Rightarrow> string \<Rightarrow> int option \<Rightarrow> string option \<Rightarrow> int \<Rightarrow>
    (int \<times> session_runtime) list \<Rightarrow> (exn, turn_snapshot) res option" where
  "wait st sid timeout turn_id start observations = (case get_session st sid of
     Inl e \<Rightarrow> Some (Inl e)
   | Inr _ \<Rightarrow>
     (case timeout of
        Some t \<Rightarrow> if t < 0 then Some (Inl (ValueError ''timeout must be non-negative''))
          else wait_loop sid (Some (start + t)) turn_id observations
      | None \<Rightarrow> wait_loop sid None turn_id observations))"

definition page_of :: "event_record list \<Rightarrow> int \<Rightarrow> nat \<Rightarrow> event_page" where
  "page_of retained after limit =
     (let selected = take limit (filter (\<lambda>e. after < ev_cursor e) retained)
      in \<lparr>page_events = selected,
          page_next_cursor = (if selected = [] then after else ev_cursor (last selected)),
          page_truncated = (case retained of [] \<Rightarrow> False | e # _ \<Rightarrow> after < ev_cursor e - 1)\<rparr>)"

definition events :: "runtime_store \<Rightarrow> string \<Rightarrow> json \<Rightarrow> json \<Rightarrow> (exn, event_page) res" where
  "events st sid after limit = (case as_int after of
     None \<Rightarrow> Inl (ValueError ''after must be a non-negative integer'')
   | Some a \<Rightarrow> if a < 0 then Inl (ValueError ''after must be a non-negative integer'')
     else (case as_int limit of
       None \<Rightarrow> Inl (ValueError ''limit must be a positive integer'')
     | Some l \<Rightarrow> if l \<le> 0 then Inl (ValueError ''limit must be a positive integer'')
       else ebind (get_session st sid) (\<lambda>r. Inr (page_of (rt_events r) a (nat l)))))"

definition agent_messages :: "runtime_store \<Rightarrow> string \<Rightarrow> json \<Rightarrow>
    (exn, item_record list \<times> bool \<times> int option) res" where
  "agent_messages st sid tail = (case as_int tail of
     None \<Rightarrow> Inl (ValueError ''tail must be a positive integer'')
   | Some n \<Rightarrow> if n \<le> 0 then Inl (ValueError ''tail must be a positive integer'')
     else ebind (get_session st sid) (\<lambda>r.
       let items = (case rt_active r of
             Some tid \<Rightarrow> (case dget (rt_items r) tid of None \<Rightarrow> [] | Some xs \<Rightarrow> xs)
           | None \<Rightarrow> (case rt_latest r of None \<Rightarrow> [] | Some s \<Rightarrow> ts_items s));
           agents = filter (\<lambda>i. item_type i = ''agentMessage'') items;
           cursor = (if rt_events r = [] then None else Some (ev_cursor (last (rt_events r))))
       in Inr (take_last (nat n) agents, nat n < length agents, cursor)))"

section \<open>Interleaved critical sections\<close>

text \<open>
  Every acquisition of a session's condition is one action; any thread may run next. A finish
  follows the publication it belongs to, a detach of one session is one iteration of
  \<open>detach_all\<close>. An action that raises leaves the store as the code does.
\<close>

datatype action =
    Attach session_record
  | Notify json_object
  | Finish string string
  | DetachOne string error_detail
  | Reconcile json
  | Reserve string
  | Cancel string
  | Started string json
  | Release string string

fun exec :: "(json \<Rightarrow> string) \<Rightarrow> runtime_store \<Rightarrow> action \<Rightarrow> runtime_store \<times> publication list" where
  "exec rep st (Attach record) = (case attach st record of Inl _ \<Rightarrow> (st, []) | Inr st' \<Rightarrow> (st', []))"
| "exec rep st (Notify message) =
     (case notify_commit rep st message of Inl _ \<Rightarrow> (st, []) | Inr (st', pubs) \<Rightarrow> (st', pubs))"
| "exec rep st (Finish sid tid) = (case dget (sessions st) sid of
     None \<Rightarrow> (st, []) | Some r \<Rightarrow> (put_session st sid (finish_publish (event_limit st) r tid), []))"
| "exec rep st (DetachOne sid reason) = (case dget (sessions st) sid of
     None \<Rightarrow> (st, [])
   | Some r \<Rightarrow> (let (r', terminal) = detach_one (event_limit st) r reason
                in (put_session st sid r', publication_of r' terminal)))"
| "exec rep st (Reconcile thread) = (case reconcile_commit st thread of
     Inl _ \<Rightarrow> (st, []) | Inr (st', _, pubs) \<Rightarrow> (st', pubs))"
| "exec rep st (Reserve sid) = (case reserve_start st sid of Inl _ \<Rightarrow> (st, []) | Inr st' \<Rightarrow> (st', []))"
| "exec rep st (Cancel sid) = (case cancel_start st sid of Inl _ \<Rightarrow> (st, []) | Inr st' \<Rightarrow> (st', []))"
| "exec rep st (Started sid returned) = (fst (reconcile_start st sid returned), [])"
| "exec rep st (Release sid tid) = (case release_terminal_snapshot st sid tid of
     Inl _ \<Rightarrow> (st, []) | Inr st' \<Rightarrow> (st', []))"

fun run :: "(json \<Rightarrow> string) \<Rightarrow> runtime_store \<Rightarrow> action list \<Rightarrow> runtime_store \<times> publication list" where
  "run rep st [] = (st, [])"
| "run rep st (a # as) =
     (let (st', pubs) = exec rep st a; (st'', pubs') = run rep st' as in (st'', pubs @ pubs'))"

end
