(* ===== verification/RuntimeInv.thy ===== *)
theory RuntimeInv
  imports RuntimeOps
begin

text \<open>
  The invariant of the runtime store and its preservation by every critical section. The
  sections of one session are the rules of the step relation \<open>sess_step\<close>; \<open>exec_step\<close> shows
  that an action of the store is one of its steps on one session, a fresh attachment, or
  nothing. Each clause of the invariant is a predicate of its own with its update lemmas.
\<close>

named_theorems rt_simps \<open>updates of a session runtime\<close>

section \<open>The clauses of the session invariant\<close>

definition terminals_ok :: "nat \<Rightarrow> session_runtime \<Rightarrow> bool" where
  "terminals_ok L r \<longleftrightarrow> distinct (dkeys (rt_terminals r))
     \<and> (\<forall>(k, s) \<in> set (rt_terminals r). ts_turn_id s = k)
     \<and> (length (rt_terminals r) \<le> L \<or> set (dkeys (rt_terminals r)) \<subseteq> rt_publishing r)"

definition published_ok :: "nat \<Rightarrow> session_runtime \<Rightarrow> bool" where
  "published_ok L r \<longleftrightarrow> distinct (rt_published r) \<and> length (rt_published r) \<le> L"

definition events_ok :: "nat \<Rightarrow> session_runtime \<Rightarrow> bool" where
  "events_ok L r \<longleftrightarrow> length (rt_events r) \<le> L
     \<and> int (length (rt_events r)) < rt_next_cursor r
     \<and> (rt_events r = [] \<longrightarrow> rt_next_cursor r = 1)
     \<and> map ev_cursor (rt_events r)
         = [rt_next_cursor r - int (length (rt_events r)) .. rt_next_cursor r - 1]
     \<and> (\<forall>e \<in> set (rt_events r). ev_session_id e = sr_session_id (rt_record r)
          \<and> ev_thread_id e = sr_thread_id (rt_record r))"

definition start_ok :: "session_runtime \<Rightarrow> bool" where
  "start_ok r \<longleftrightarrow> (rt_start_pending r \<longrightarrow> rt_awaiting r)
     \<and> (rt_observed r \<noteq> None \<longrightarrow> rt_awaiting r)"

definition rt_inv :: "nat \<Rightarrow> session_runtime \<Rightarrow> bool" where
  "rt_inv L r \<longleftrightarrow> terminals_ok L r \<and> published_ok L r \<and> events_ok L r \<and> start_ok r"

lemma rt_invI [intro]:
  "terminals_ok L r \<Longrightarrow> published_ok L r \<Longrightarrow> events_ok L r \<Longrightarrow> start_ok r \<Longrightarrow> rt_inv L r"
  by (simp add: rt_inv_def)

lemma rt_invD:
  assumes "rt_inv L r"
  shows "terminals_ok L r" "published_ok L r" "events_ok L r" "start_ok r"
  using assms by (simp_all add: rt_inv_def)

section \<open>Trimming\<close>

lemma trim_dict_filter: "\<exists>P. trim_dict L p ts = filter P ts"
proof (induction L p ts rule: trim_dict.induct)
  case (1 L p ts)
  have del: "ddel ts k = filter (\<lambda>kv. fst kv \<noteq> k) ts" for k
    by (induction ts k rule: ddel.induct) auto
  show ?case
  proof (cases "L < length ts \<and> first_removable p ts \<noteq> None")
    case True
    then obtain k where k: "L < length ts" "first_removable p ts = Some k" by auto
    from 1 [OF k] obtain P where "trim_dict L p (ddel ts k) = filter P (ddel ts k)" by auto
    then show ?thesis using k by (subst trim_dict.simps) (auto simp: del)
  next
    case False
    then have "trim_dict L p ts = filter (\<lambda>_. True) ts"
      by (subst trim_dict.simps) (auto split: option.splits)
    then show ?thesis by blast
  qed
qed

lemma set_trim_dict: "set (trim_dict L p ts) \<subseteq> set ts"
  using trim_dict_filter [of L p ts] by auto

lemma dkeys_filter: "distinct (dkeys d) \<Longrightarrow> distinct (dkeys (filter P d))"
  by (induction d) (auto simp: dkeys_def)

lemma distinct_trim_dict: "distinct (dkeys ts) \<Longrightarrow> distinct (dkeys (trim_dict L p ts))"
  using trim_dict_filter [of L p ts] dkeys_filter by auto

lemma first_removable_None: "first_removable p ts = None \<longleftrightarrow> set (dkeys ts) \<subseteq> p"
  by (auto simp: first_removable_def find_None_iff)

lemma trim_dict_bound:
  "length (trim_dict L p ts) \<le> L \<or> set (dkeys (trim_dict L p ts)) \<subseteq> p"
proof (induction L p ts rule: trim_dict.induct)
  case (1 L p ts)
  show ?case
  proof (cases "L < length ts")
    case len: True
    show ?thesis
    proof (cases "first_removable p ts")
      case None
      then have "set (dkeys ts) \<subseteq> p" by (simp only: first_removable_None)
      with None show ?thesis by (subst (1 2) trim_dict.simps) (simp add: len)
    next
      case (Some k)
      then show ?thesis using 1 [OF len Some] by (subst (1 2) trim_dict.simps) (simp add: len)
    qed
  next
    case False
    then show ?thesis by (subst (1 2) trim_dict.simps) simp
  qed
qed

lemma trim_dict_keeps_publishing:
  "k \<in> p \<Longrightarrow> map_of (trim_dict L p ts) k = map_of ts k"
proof (induction L p ts rule: trim_dict.induct)
  case (1 L p ts)
  show ?case
  proof (cases "L < length ts \<and> first_removable p ts \<noteq> None")
    case True
    then obtain j where j: "L < length ts" "first_removable p ts = Some j" by auto
    with 1 first_removable_Some [OF j(2)] show ?thesis by (subst trim_dict.simps) auto
  next
    case False
    then show ?thesis by (subst trim_dict.simps) (auto split: option.splits)
  qed
qed

lemma trim_dict_small: "length ts \<le> L \<Longrightarrow> trim_dict L p ts = ts"
  by (subst trim_dict.simps) simp

section \<open>Updates of the clauses\<close>

lemma terminals_ok_cong:
  "rt_terminals r = rt_terminals q \<Longrightarrow> rt_publishing q \<subseteq> rt_publishing r
     \<Longrightarrow> terminals_ok L q \<Longrightarrow> terminals_ok L r"
  by (auto simp: terminals_ok_def)

lemma terminals_ok_trim:
  assumes "distinct (dkeys (rt_terminals r))" "\<forall>(k, s) \<in> set (rt_terminals r). ts_turn_id s = k"
  shows "terminals_ok L (trim_terminals L r)"
  using assms set_trim_dict [of L "rt_publishing r" "rt_terminals r"]
    trim_dict_bound [of L "rt_publishing r" "rt_terminals r"]
  by (auto simp: terminals_ok_def trim_terminals_def distinct_trim_dict)

lemma terminals_ok_finish:
  "terminals_ok L r \<Longrightarrow> terminals_ok L (finish_publish L r tid)"
  unfolding finish_publish_def by (rule terminals_ok_trim) (auto simp: terminals_ok_def)

lemma terminals_ok_retain:
  "terminals_ok L r \<Longrightarrow> terminals_ok L (retain_terminal L r s pub)"
  unfolding retain_terminal_def Let_def
  by (rule terminals_ok_trim)
     (use set_ddel_subset [of "rt_terminals r" "ts_turn_id s"] in
       \<open>auto simp: terminals_ok_def dkeys_ddel\<close>)

lemma terminals_ok_release:
  assumes "terminals_ok L r"
  shows "terminals_ok L (r\<lparr>rt_terminals := ddel (rt_terminals r) tid\<rparr>)"
  using assms set_ddel_subset [of "rt_terminals r" tid] length_ddel_le [of "rt_terminals r" tid]
  by (auto simp: terminals_ok_def dkeys_ddel)

lemma published_ok_mark:
  assumes "published_ok L r"
  shows "published_ok L (snd (mark_terminal_published L r tid))"
proof (cases "tid \<in> set (rt_published r)")
  case True
  then have "length (removeAll tid (rt_published r)) < length (rt_published r)"
    by (simp add: length_removeAll_less)
  with True assms show ?thesis
    by (auto simp: mark_terminal_published_def published_ok_def distinct_removeAll)
next
  case False
  with assms have "distinct (rt_published r @ [tid])" by (simp add: published_ok_def)
  then have "distinct (drop n (rt_published r @ [tid]))" for n by (rule distinct_drop)
  with False show ?thesis
    by (simp add: mark_terminal_published_def published_ok_def Let_def del: drop_append)
qed

lemma drop_upto: "drop n [i..j] = [i + int n..j]"
proof (induction n arbitrary: i)
  case (Suc n)
  show ?case
  proof (cases "i \<le> j")
    case True
    then show ?thesis using Suc [of "i + 1"] by (simp add: upto_rec1 [of i j] algebra_simps)
  qed simp
qed simp

lemma events_ok_append:
  assumes ok: "events_ok L r" and L: "0 < L"
  shows "events_ok L (append_event L r ev tid it er)"
proof -
  let ?n = "length (rt_events r)" and ?c = "rt_next_cursor r"
  let ?e = "\<lparr>ev_cursor = ?c, ev_event = ev, ev_session_id = sr_session_id (rt_record r),
    ev_thread_id = sr_thread_id (rt_record r), ev_turn_id = tid, ev_item = it, ev_error = er\<rparr>"
  let ?es = "rt_events r @ [?e]"
  have "map ev_cursor ?es = [?c - int ?n..?c]"
    using ok by (simp add: events_ok_def upto_rec2 [of "?c - int ?n" ?c])
  then have cur: "map ev_cursor (drop d ?es) = [?c - int ?n + int d..?c]" for d
    by (simp only: drop_map [symmetric] drop_upto)
  have sub: "set (drop d ?es) \<subseteq> set ?es" for d by (rule set_drop_subset)
  have own: "\<forall>e \<in> set ?es. ev_session_id e = sr_session_id (rt_record r)
      \<and> ev_thread_id e = sr_thread_id (rt_record r)"
    using ok by (auto simp: events_ok_def)
  have len: "length (drop (Suc ?n - L) ?es) = min L (Suc ?n)" using L by simp
  then have ne: "drop (Suc ?n - L) ?es \<noteq> []" using L by (metis list.size(3) min_def nat.distinct(1) neq0_conv)
  show ?thesis
    unfolding events_ok_def append_event_def Let_def
    using ok own sub [of "Suc ?n - L"] cur [of "Suc ?n - L"] len ne
    by (auto simp: events_ok_def min_def algebra_simps simp del: drop_append)
qed


section \<open>What each primitive leaves alone\<close>

lemma trim_fields [simp]:
  "rt_record (trim_terminals L r) = rt_record r" "rt_attached (trim_terminals L r) = rt_attached r"
  "rt_active (trim_terminals L r) = rt_active r" "rt_awaiting (trim_terminals L r) = rt_awaiting r"
  "rt_start_pending (trim_terminals L r) = rt_start_pending r"
  "rt_observed (trim_terminals L r) = rt_observed r" "rt_latest (trim_terminals L r) = rt_latest r"
  "rt_published (trim_terminals L r) = rt_published r" "rt_items (trim_terminals L r) = rt_items r"
  "rt_publishing (trim_terminals L r) = rt_publishing r"
  "rt_events (trim_terminals L r) = rt_events r"
  "rt_next_cursor (trim_terminals L r) = rt_next_cursor r"
  by (simp_all add: trim_terminals_def)

lemma retain_fields [simp]:
  "rt_record (retain_terminal L r s p) = rt_record r"
  "rt_attached (retain_terminal L r s p) = rt_attached r"
  "rt_active (retain_terminal L r s p) = rt_active r"
  "rt_awaiting (retain_terminal L r s p) = rt_awaiting r"
  "rt_start_pending (retain_terminal L r s p) = rt_start_pending r"
  "rt_observed (retain_terminal L r s p) = rt_observed r"
  "rt_latest (retain_terminal L r s p) = rt_latest r"
  "rt_published (retain_terminal L r s p) = rt_published r"
  "rt_items (retain_terminal L r s p) = rt_items r"
  "rt_events (retain_terminal L r s p) = rt_events r"
  "rt_next_cursor (retain_terminal L r s p) = rt_next_cursor r"
  by (simp_all add: retain_terminal_def Let_def)

lemma finish_fields [simp]:
  "rt_record (finish_publish L r t) = rt_record r"
  "rt_attached (finish_publish L r t) = rt_attached r"
  "rt_active (finish_publish L r t) = rt_active r"
  "rt_awaiting (finish_publish L r t) = rt_awaiting r"
  "rt_start_pending (finish_publish L r t) = rt_start_pending r"
  "rt_observed (finish_publish L r t) = rt_observed r"
  "rt_latest (finish_publish L r t) = rt_latest r"
  "rt_published (finish_publish L r t) = rt_published r"
  "rt_items (finish_publish L r t) = rt_items r"
  "rt_events (finish_publish L r t) = rt_events r"
  "rt_next_cursor (finish_publish L r t) = rt_next_cursor r"
  by (simp_all add: finish_publish_def)

lemma mark_fields [simp]:
  "rt_record (snd (mark_terminal_published L r t)) = rt_record r"
  "rt_attached (snd (mark_terminal_published L r t)) = rt_attached r"
  "rt_active (snd (mark_terminal_published L r t)) = rt_active r"
  "rt_awaiting (snd (mark_terminal_published L r t)) = rt_awaiting r"
  "rt_start_pending (snd (mark_terminal_published L r t)) = rt_start_pending r"
  "rt_observed (snd (mark_terminal_published L r t)) = rt_observed r"
  "rt_latest (snd (mark_terminal_published L r t)) = rt_latest r"
  "rt_terminals (snd (mark_terminal_published L r t)) = rt_terminals r"
  "rt_publishing (snd (mark_terminal_published L r t)) = rt_publishing r"
  "rt_items (snd (mark_terminal_published L r t)) = rt_items r"
  "rt_events (snd (mark_terminal_published L r t)) = rt_events r"
  "rt_next_cursor (snd (mark_terminal_published L r t)) = rt_next_cursor r"
  by (simp_all add: mark_terminal_published_def Let_def)

lemma append_event_fields [simp]:
  "rt_record (append_event L r ev t i e) = rt_record r"
  "rt_attached (append_event L r ev t i e) = rt_attached r"
  "rt_active (append_event L r ev t i e) = rt_active r"
  "rt_awaiting (append_event L r ev t i e) = rt_awaiting r"
  "rt_start_pending (append_event L r ev t i e) = rt_start_pending r"
  "rt_observed (append_event L r ev t i e) = rt_observed r"
  "rt_latest (append_event L r ev t i e) = rt_latest r"
  "rt_terminals (append_event L r ev t i e) = rt_terminals r"
  "rt_publishing (append_event L r ev t i e) = rt_publishing r"
  "rt_published (append_event L r ev t i e) = rt_published r"
  "rt_items (append_event L r ev t i e) = rt_items r"
  by (simp_all add: append_event_def Let_def)

text \<open>The clauses read few fields, so an update of the others keeps them.\<close>

lemma published_ok_cong: "rt_published r = rt_published q \<Longrightarrow> published_ok L q \<Longrightarrow> published_ok L r"
  by (simp add: published_ok_def)

lemma events_ok_cong:
  "rt_events r = rt_events q \<Longrightarrow> rt_next_cursor r = rt_next_cursor q
     \<Longrightarrow> sr_session_id (rt_record r) = sr_session_id (rt_record q)
     \<Longrightarrow> sr_thread_id (rt_record r) = sr_thread_id (rt_record q)
     \<Longrightarrow> events_ok L q \<Longrightarrow> events_ok L r"
  by (simp add: events_ok_def)

lemma terminals_ok_append [simp]: "terminals_ok L (append_event L r ev t i e) = terminals_ok L r"
  by (simp add: terminals_ok_def)

lemma published_ok_append [simp]: "published_ok L (append_event L r ev t i e) = published_ok L r"
  by (simp add: published_ok_def)

section \<open>Sections of one session as a step relation\<close>

definition same_session :: "session_runtime \<Rightarrow> session_runtime \<Rightarrow> bool" where
  "same_session r r' \<longleftrightarrow> sr_session_id (rt_record r') = sr_session_id (rt_record r)
     \<and> sr_thread_id (rt_record r') = sr_thread_id (rt_record r)"

inductive sess_step :: "(json \<Rightarrow> string) \<Rightarrow> nat \<Rightarrow> action \<Rightarrow> session_runtime \<Rightarrow> session_runtime \<Rightarrow>
    turn_snapshot option \<Rightarrow> bool" for rep L where
  reattach: "sr_session_id record = sr_session_id (rt_record r)
      \<Longrightarrow> sr_thread_id record = sr_thread_id (rt_record r)
      \<Longrightarrow> sess_step rep L (Attach record) r (r\<lparr>rt_record := record, rt_attached := True\<rparr>) None"
| notified: "notify_session rep L r method params = Inr (r', t) \<Longrightarrow> sess_step rep L (Notify m) r r' t"
| finished: "sess_step rep L (Finish (sr_session_id (rt_record r)) tid) r (finish_publish L r tid) None"
| detached: "detach_one L r reason = (r', t) \<Longrightarrow> sess_step rep L (DetachOne (sr_session_id (rt_record r)) reason) r r' t"
| reconciled: "reconcile_section L r snapshots = (r', t)
      \<Longrightarrow> length (filter in_progress snapshots) \<le> 1 \<Longrightarrow> sess_step rep L (Reconcile th) r r' t"
| reserved: "rt_attached r \<Longrightarrow> \<not> start_busy r
      \<Longrightarrow> sess_step rep L (Reserve (sr_session_id (rt_record r))) r
            (r\<lparr>rt_start_pending := True, rt_awaiting := True, rt_observed := None\<rparr>) None"
| cancelled: "sess_step rep L (Cancel (sr_session_id (rt_record r))) r
            (r\<lparr>rt_start_pending := False, rt_awaiting := False, rt_observed := None\<rparr>) None"
| settled: "rt_awaiting r \<Longrightarrow> sess_step rep L (Started (sr_session_id (rt_record r)) v) r
            (r\<lparr>rt_awaiting := False, rt_start_pending := False, rt_observed := None\<rparr>) None"
| bound: "rt_awaiting r \<Longrightarrow> rt_active r \<in> {None, Some tid} \<Longrightarrow> sess_step rep L (Started (sr_session_id (rt_record r)) v) r
            (r\<lparr>rt_awaiting := False, rt_start_pending := False, rt_observed := None,
               rt_active := Some tid\<rparr>) None"
| released: "sess_step rep L (Release (sr_session_id (rt_record r)) tid) r (r\<lparr>rt_terminals := ddel (rt_terminals r) tid\<rparr>) None"

inductive_cases sess_stepE: "sess_step rep L a r r' t"

section \<open>Every section preserves the session invariant\<close>

lemma rt_inv_new: "rt_inv L (new_session record)"
  by (simp add: rt_inv_def new_session_def terminals_ok_def published_ok_def events_ok_def start_ok_def)

lemma rt_inv_frame:
  assumes "rt_inv L q" "rt_terminals r = rt_terminals q" "rt_publishing r = rt_publishing q"
    "rt_published r = rt_published q" "rt_events r = rt_events q"
    "rt_next_cursor r = rt_next_cursor q" "same_session q r" "start_ok r"
  shows "rt_inv L r"
  using assms by (auto simp: rt_inv_def terminals_ok_def published_ok_def events_ok_def same_session_def)

lemma rt_inv_append: "rt_inv L r \<Longrightarrow> 0 < L \<Longrightarrow> rt_inv L (append_event L r ev t i e)"
  by (simp add: rt_inv_def events_ok_append start_ok_def)

lemma rt_inv_retain:
  assumes "rt_inv L r" shows "rt_inv L (retain_terminal L r s p)"
  using assms terminals_ok_retain [of L r s p]
  by (auto simp: rt_inv_def published_ok_def events_ok_def start_ok_def)

lemma rt_inv_mark:
  assumes "rt_inv L r" shows "rt_inv L (snd (mark_terminal_published L r t))"
  using assms published_ok_mark [of L r t]
  by (auto simp: rt_inv_def terminals_ok_def events_ok_def start_ok_def)

lemma rt_inv_finish:
  assumes "rt_inv L r" shows "rt_inv L (finish_publish L r t)"
  using assms terminals_ok_finish [of L r t]
  by (auto simp: rt_inv_def published_ok_def events_ok_def start_ok_def)

lemmas rt_inv_intros = rt_inv_append rt_inv_retain rt_inv_mark rt_inv_finish

lemma rt_inv_start: "rt_inv L r \<Longrightarrow> start_ok r"
  by (simp add: rt_inv_def)

lemma rt_inv_started:
  assumes inv: "rt_inv L r" and L: "0 < L"
  shows "rt_inv L (notify_started L r params)"
proof -
  have a: "rt_inv L (r\<lparr>rt_start_pending := False, rt_active := Some t, rt_observed := Some t\<rparr>)"
    if "rt_awaiting r" for t
    using that by (intro rt_inv_frame [OF inv]) (auto simp: start_ok_def same_session_def)
  have b: "rt_inv L (r\<lparr>rt_start_pending := False, rt_active := Some t\<rparr>)"
    if "\<not> rt_awaiting r" for t
    using that rt_inv_start [OF inv]
    by (intro rt_inv_frame [OF inv]) (auto simp: start_ok_def same_session_def)
  show ?thesis
    by (auto simp: notify_started_def Let_def inv L a b split: option.splits intro!: rt_inv_append)
qed

lemma rt_inv_commit:
  assumes inv: "rt_inv L r" and L: "0 < L" and eq: "commit_completed L r tid st er = (r', t)"
  shows "rt_inv L r'"
proof -
  define r1 where "r1 = (if belongs_to_pending r tid
                then r\<lparr>rt_observed := Some tid, rt_start_pending := False\<rparr> else r)"
  define r2 where "r2 = (if rt_active r1 = Some tid then r1\<lparr>rt_active := None\<rparr> else r1)"
  have "start_ok r1"
    using rt_inv_start [OF inv] by (auto simp: r1_def start_ok_def belongs_to_pending_def)
  then have r2: "rt_inv L (r2\<lparr>rt_items := x, rt_latest := y\<rparr>)" for x y
    by (intro rt_inv_frame [OF inv]) (auto simp: r1_def r2_def start_ok_def same_session_def)
  from eq show ?thesis
    unfolding commit_completed_def r1_def [symmetric] Let_def r2_def [symmetric]
    by (auto split: prod.splits intro!: rt_inv_append rt_inv_retain L)
       (metis r2 rt_inv_mark snd_conv)
qed

lemma rt_inv_item:
  assumes inv: "rt_inv L r" and L: "0 < L" shows "rt_inv L (notify_item L r params)"
proof -
  have "rt_inv L (r\<lparr>rt_items := x\<rparr>)" for x
    using rt_inv_start [OF inv]
    by (intro rt_inv_frame [OF inv]) (auto simp: start_ok_def same_session_def)
  then show ?thesis
    by (auto simp: notify_item_def Let_def inv L split: option.splits intro!: rt_inv_append)
qed

lemma notify_session_cases:
  assumes "notify_session rep L r method params = Inr (r', t)"
  obtains "r' = notify_started L r params" "t = None"
  | "r' = r" "t = None"
  | tid st er where "commit_completed L r tid st er = (r', t)"
      "tid \<notin> set (rt_published r) \<or> rt_active r = Some tid"
  | "r' = notify_item L r params" "t = None"
  | "r' = notify_approval rep L r params" "t = None"
  using assms
  by (auto simp: notify_session_def notify_completed_def res_simps Let_def
      split: if_splits option.splits)

lemma rt_inv_notify:
  assumes inv: "rt_inv L r" and L: "0 < L" and eq: "notify_session rep L r method params = Inr (r', t)"
  shows "rt_inv L r'"
  using eq
proof (cases rule: notify_session_cases)
  case 5
  with inv L show ?thesis by (auto simp: notify_approval_def Let_def intro!: rt_inv_append)
qed (use inv L in \<open>auto intro: rt_inv_started rt_inv_commit rt_inv_item\<close>)

lemma rt_inv_detach:
  assumes inv: "rt_inv L r" and L: "0 < L" and eq: "detach_one L r reason = (r', t)"
  shows "rt_inv L r'"
proof -
  define r1 where "r1 = r\<lparr>rt_attached := False, rt_active := None, rt_start_pending := False,
                 rt_awaiting := False, rt_observed := None\<rparr>"
  have u: "rt_inv L (q\<lparr>rt_items := x\<rparr>)" if "rt_inv L q" for q x
    using rt_inv_start [OF that]
    by (intro rt_inv_frame [OF that]) (auto simp: start_ok_def same_session_def)
  have r1: "rt_inv L (r1\<lparr>rt_items := x, rt_latest := y\<rparr>)" "rt_inv L r1" for x y
    by (intro rt_inv_frame [OF inv]; auto simp: r1_def start_ok_def same_session_def)+
  from eq r1 L show ?thesis
    unfolding detach_one_def r1_def [symmetric] Let_def
    by (auto split: option.splits intro!: rt_inv_append u rt_inv_retain)
qed

lemma rt_inv_reconcile:
  assumes inv: "rt_inv L r" and eq: "reconcile_section L r snaps = (r', t)"
  shows "rt_inv L r'"
proof -
  define a where "a = filter in_progress snaps"
  define r1 where "r1 = r\<lparr>rt_attached := True,
                 rt_active := (case a of [] \<Rightarrow> None | a # _ \<Rightarrow> Some (ts_turn_id a)),
                 rt_items := (case a of [] \<Rightarrow> [] | a # _ \<Rightarrow> [(ts_turn_id a, ts_items a)])\<rparr>"
  define r2 where "r2 = (case a of [] \<Rightarrow> r1
                | a # _ \<Rightarrow> if rt_awaiting r1 then r1\<lparr>rt_observed := Some (ts_turn_id a)\<rparr> else r1)"
  have r2: "rt_inv L r2" "rt_inv L (r2\<lparr>rt_latest := y\<rparr>)" for y
    using rt_inv_start [OF inv]
    by (intro rt_inv_frame [OF inv];
        auto simp: r1_def r2_def start_ok_def same_session_def split: list.splits)+
  have fold: "reconcile_section L r snaps = (case find (\<lambda>s. \<not> in_progress s) (rev snaps) of
      None \<Rightarrow> (r2, None)
    | Some t \<Rightarrow> (case mark_terminal_published L (r2\<lparr>rt_latest := Some t\<rparr>) (ts_turn_id t) of
        (p, q) \<Rightarrow> (retain_terminal L q t p, if p then Some t else None)))"
    unfolding reconcile_section_def Let_def r2_def r1_def a_def by (rule refl)
  show ?thesis
  proof (cases "find (\<lambda>s. \<not> in_progress s) (rev snaps)")
    case None
    with eq fold r2 show ?thesis by simp
  next
    case (Some s)
    have "rt_inv L (snd (mark_terminal_published L (r2\<lparr>rt_latest := Some s\<rparr>) (ts_turn_id s)))"
      by (rule rt_inv_mark [OF r2(2)])
    with eq fold Some show ?thesis by (auto split: prod.splits intro: rt_inv_retain)
  qed
qed

theorem sess_step_inv:
  assumes "sess_step rep L a r r' t" "rt_inv L r" "0 < L"
  shows "rt_inv L r'"
  using assms(1)
proof cases
  case notified
  with assms show ?thesis by (auto intro: rt_inv_notify)
next
  case finished
  with assms show ?thesis by (auto intro: rt_inv_finish)
next
  case detached
  with assms show ?thesis by (auto intro: rt_inv_detach)
next
  case reconciled
  with assms show ?thesis by (auto intro: rt_inv_reconcile)
next
  case released
  with assms(2) terminals_ok_release show ?thesis
    by (auto simp: rt_inv_def published_ok_def events_ok_def start_ok_def)
qed (use rt_inv_start [OF assms(2)] in
      \<open>auto intro!: rt_inv_frame [OF assms(2)] simp: start_ok_def same_session_def\<close>)

lemma same_session_refl [simp]: "same_session r r"
  by (simp add: same_session_def)

lemma same_sessionI: "rt_record r' = rt_record r \<Longrightarrow> same_session r r'"
  by (simp add: same_session_def)

lemma commit_record: "commit_completed L r tid st er = (r', t) \<Longrightarrow> rt_record r' = rt_record r"
  by (auto simp: commit_completed_def Let_def split_beta)

lemma reconcile_section_split:
  "reconcile_section L r snaps =
    (let a = filter in_progress snaps;
         r1 = r\<lparr>rt_attached := True,
                 rt_active := (case a of [] \<Rightarrow> None | a # _ \<Rightarrow> Some (ts_turn_id a)),
                 rt_items := (case a of [] \<Rightarrow> [] | a # _ \<Rightarrow> [(ts_turn_id a, ts_items a)])\<rparr>;
         r2 = (case a of [] \<Rightarrow> r1
                | a # _ \<Rightarrow> if rt_awaiting r1 then r1\<lparr>rt_observed := Some (ts_turn_id a)\<rparr> else r1)
     in case find (\<lambda>s. \<not> in_progress s) (rev snaps) of
          None \<Rightarrow> (r2, None)
        | Some t \<Rightarrow> (retain_terminal L (snd (mark_terminal_published L (r2\<lparr>rt_latest := Some t\<rparr>) (ts_turn_id t)))
              t (fst (mark_terminal_published L (r2\<lparr>rt_latest := Some t\<rparr>) (ts_turn_id t))),
            if fst (mark_terminal_published L (r2\<lparr>rt_latest := Some t\<rparr>) (ts_turn_id t)) then Some t else None))"
  by (auto simp: reconcile_section_def Let_def split: prod.splits option.splits)

lemma reconcile_record: "reconcile_section L r snaps = (r', t) \<Longrightarrow> rt_record r' = rt_record r"
  by (auto simp: reconcile_section_split Let_def split: option.splits list.splits)

lemma detach_record: "detach_one L r reason = (r', t) \<Longrightarrow> rt_record r' = rt_record r"
  by (auto simp: detach_one_def Let_def split: option.splits)

lemma notify_record:
  assumes "notify_session rep L r method params = Inr (r', t)" shows "rt_record r' = rt_record r"
  using assms
proof (cases rule: notify_session_cases)
  case 3
  then show ?thesis by (blast intro: commit_record)
qed (auto simp: notify_started_def notify_item_def notify_approval_def Let_def split: option.splits)

theorem sess_step_same: "sess_step rep L a r r' t \<Longrightarrow> same_session r r'"
  by (induction rule: sess_step.induct)
     (auto simp: same_session_def dest: notify_record detach_record reconcile_record)

section \<open>The store\<close>

definition store_inv :: "runtime_store \<Rightarrow> bool" where
  "store_inv st \<longleftrightarrow> 0 < event_limit st
     \<and> (\<forall>sid r. dget (sessions st) sid = Some r \<longrightarrow> rt_inv (event_limit st) r
          \<and> sr_session_id (rt_record r) = sid
          \<and> dget (thread_sessions st) (sr_thread_id (rt_record r)) = Some sid)
     \<and> (\<forall>tid sid. dget (thread_sessions st) tid = Some sid \<longrightarrow>
          (\<exists>r. dget (sessions st) sid = Some r \<and> sr_thread_id (rt_record r) = tid))"

lemma store_invD:
  assumes "store_inv st" "dget (sessions st) sid = Some r"
  shows "0 < event_limit st" "rt_inv (event_limit st) r" "sr_session_id (rt_record r) = sid"
    "dget (thread_sessions st) (sr_thread_id (rt_record r)) = Some sid"
  using assms by (auto simp: store_inv_def)

lemma store_inv_thread:
  assumes "store_inv st" "dget (thread_sessions st) tid = Some sid"
  obtains r where "dget (sessions st) sid = Some r" "sr_thread_id (rt_record r) = tid"
  using assms unfolding store_inv_def by blast

lemma mk_runtime_store_inv: "mk_runtime_store limit = Inr st \<Longrightarrow> store_inv st"
  by (auto simp: mk_runtime_store_def store_inv_def split: option.splits if_splits)

lemma put_session_fields [simp]:
  "event_limit (put_session st sid r) = event_limit st"
  "thread_sessions (put_session st sid r) = thread_sessions st"
  "map_of (sessions (put_session st sid r)) = (map_of (sessions st))(sid \<mapsto> r)"
  by (simp_all add: put_session_def)

lemma store_inv_put:
  assumes "store_inv st" "dget (sessions st) sid = Some r" "rt_inv (event_limit st) r'"
    "same_session r r'"
  shows "store_inv (put_session st sid r')"
  unfolding store_inv_def
proof (intro conjI allI impI)
  note old = store_invD [OF assms(1,2)]
  show "0 < event_limit (put_session st sid r')" using old(1) by simp
  fix j q
  assume q: "map_of (sessions (put_session st sid r')) j = Some q"
  show "rt_inv (event_limit (put_session st sid r')) q"
    "sr_session_id (rt_record q) = j"
    "map_of (thread_sessions (put_session st sid r')) (sr_thread_id (rt_record q)) = Some j"
    using q old assms(3,4) store_invD [OF assms(1), of j]
    by (cases "j = sid"; simp add: same_session_def)+
next
  fix t j
  assume "map_of (thread_sessions (put_session st sid r')) t = Some j"
  then obtain q where "map_of (sessions st) j = Some q" "sr_thread_id (rt_record q) = t"
    using store_inv_thread [OF assms(1)] by auto
  then show "\<exists>q. map_of (sessions (put_session st sid r')) j = Some q
      \<and> sr_thread_id (rt_record q) = t"
    using assms(2,4) by (cases "j = sid") (auto simp: same_session_def)
qed

lemma get_session_Inr [res_simps]: "get_session st sid = Inr r \<longleftrightarrow> dget (sessions st) sid = Some r"
  by (simp add: get_session_def split: option.splits)

lemma by_thread_Some [res_simps]:
  "by_thread st tid = Some (sid, r) \<longleftrightarrow>
    (\<exists>t. tid = JStr t \<and> dget (thread_sessions st) t = Some sid \<and> dget (sessions st) sid = Some r)"
  by (auto simp: by_thread_def split: option.splits)

text \<open>An action is a step of one session, an attachment of a new one, or nothing.\<close>

definition fresh_attach :: "runtime_store \<Rightarrow> session_record \<Rightarrow> runtime_store" where
  "fresh_attach st record = st\<lparr>
     sessions := dset (sessions st) (sr_session_id record) (new_session record),
     thread_sessions := dset (thread_sessions st) (sr_thread_id record) (sr_session_id record)\<rparr>"

definition session_moves :: "(json \<Rightarrow> string) \<Rightarrow> action \<Rightarrow> runtime_store \<Rightarrow> runtime_store \<Rightarrow>
    publication list \<Rightarrow> bool" where
  "session_moves rep a st st' pubs \<longleftrightarrow> (\<exists>sid r r' t. dget (sessions st) sid = Some r
     \<and> sess_step rep (event_limit st) a r r' t \<and> st' = put_session st sid r'
     \<and> pubs = publication_of r' t)"

lemma session_movesI:
  "dget (sessions st) sid = Some r \<Longrightarrow> sess_step rep (event_limit st) a r r' t
    \<Longrightarrow> st' = put_session st sid r' \<Longrightarrow> pubs = publication_of r' t
    \<Longrightarrow> session_moves rep a st st' pubs"
  by (auto simp: session_moves_def)

lemma publication_of_None [simp]: "publication_of r None = []"
  by (simp add: publication_of_def)

lemma reconcile_commitE:
  assumes "reconcile_commit st thread = Inr (st', s, pubs)"
  obtains sid r snaps r' t where "dget (sessions st) sid = Some r"
    "length (filter in_progress snaps) \<le> 1"
    "reconcile_section (event_limit st) r snaps = (r', t)"
    "st' = put_session st sid r'" "pubs = publication_of r' t"
proof -
  from assms obtain th sid r b raw snaps where th: "thread = JObj th"
    and bt: "by_thread st (jget th ''id'') = Some (sid, r)"
    and c: "check_thread_status (jget th ''status'') = Inr b" and raw: "jget th ''turns'' = JList raw"
    and s: "emap (snapshot_from_turn (event_limit st)) raw = Inr snaps"
    by (auto simp: reconcile_commit_def res_simps split: option.splits)
  from assms th bt c raw s have "length (filter in_progress snaps) \<le> 1"
    and "(case reconcile_section (event_limit st) r snaps of (r', t) \<Rightarrow>
       (put_session st sid r', status_of r', publication_of r' t)) = (st', s, pubs)"
    by (auto simp: reconcile_commit_def Let_def split: if_splits prod.splits)
  with bt show thesis
    by (auto simp: res_simps split: prod.splits intro: that)
qed

lemma reconcile_commit_moves:
  assumes "reconcile_commit st thread = Inr (st', s, pubs)"
  shows "session_moves rep (Reconcile thread) st st' pubs"
proof -
  obtain sid r snaps r' t where
    "dget (sessions st) sid = Some r" "length (filter in_progress snaps) \<le> 1"
    "reconcile_section (event_limit st) r snaps = (r', t)"
    "st' = put_session st sid r'" "pubs = publication_of r' t"
    by (rule reconcile_commitE [OF assms])
  then show ?thesis by (blast intro: session_movesI sess_step.reconciled)
qed

lemma notify_commit_moves:
  assumes "notify_commit rep st msg = Inr (st', pubs)"
  shows "(st' = st \<and> pubs = []) \<or> session_moves rep (Notify msg) st st' pubs"
proof -
  have move: "session_moves rep (Notify msg) st (put_session st sid r') (publication_of r' t)"
    if "dget (sessions st) sid = Some r" "notify_session rep (event_limit st) r m p = Inr (r', t)"
    for sid r m p r' t
    using that by (blast intro: session_movesI sess_step.notified)
  from assms show ?thesis
    by (auto simp: notify_commit_def res_simps split: option.splits if_splits dest: move)
qed

lemma reconcile_start_moves:
  assumes inv: "store_inv st"
  shows "fst (reconcile_start st sid v) = st \<or> session_moves rep (Started sid v) st (fst (reconcile_start st sid v)) []"
proof (cases "dget (sessions st) sid")
  case None
  then show ?thesis by (simp add: reconcile_start_def get_session_def)
next
  case (Some r)
  then have g: "get_session st sid = Inr r" by (simp add: get_session_def)
  note id = store_invD(3) [OF inv Some]
  have settled: "rt_awaiting r \<Longrightarrow> session_moves rep (Started sid v) st (put_session st sid
      (r\<lparr>rt_awaiting := False, rt_start_pending := False, rt_observed := None\<rparr>)) []"
    by (rule session_movesI [OF Some sess_step.settled [of r rep "event_limit st" v, unfolded id]]) auto
  have bound: "rt_awaiting r \<Longrightarrow> rt_active r \<in> {None, Some tid} \<Longrightarrow>
     session_moves rep (Started sid v) st (put_session st sid (r\<lparr>rt_awaiting := False, rt_start_pending := False,
       rt_observed := None, rt_active := Some tid\<rparr>)) []" for tid
    by (rule session_movesI [OF Some sess_step.bound [of r tid rep "event_limit st" v, unfolded id]]) auto
  show ?thesis
    using settled bound by (auto simp: reconcile_start_def g Let_def split: option.splits)
qed

lemma finish_moves:
  assumes "store_inv st" "dget (sessions st) sid = Some r"
  shows "session_moves rep (Finish sid tid) st
    (put_session st sid (finish_publish (event_limit st) r tid)) []"
  using sess_step.finished [of rep "event_limit st" r tid] store_invD(3) [OF assms]
  by (auto intro: session_movesI assms(2))

lemma detach_moves:
  assumes "store_inv st" "dget (sessions st) sid = Some r"
    and "detach_one (event_limit st) r reason = (r', t)"
  shows "session_moves rep (DetachOne sid reason) st (put_session st sid r') (publication_of r' t)"
  using sess_step.detached [OF assms(3), of rep] store_invD(3) [OF assms(1,2)]
  by (auto intro: session_movesI assms(2))

lemma reserve_moves:
  assumes "store_inv st" "reserve_start st sid = Inr st'"
  shows "session_moves rep (Reserve sid) st st' []"
proof -
  from assms(2) obtain r where r: "dget (sessions st) sid = Some r" "rt_attached r" "\<not> start_busy r"
    "st' = put_session st sid (r\<lparr>rt_start_pending := True, rt_awaiting := True, rt_observed := None\<rparr>)"
    by (auto simp: reserve_start_def res_simps require_attached_def split: if_splits)
  show ?thesis
    using sess_step.reserved [OF r(2,3), of rep "event_limit st"] store_invD(3) [OF assms(1) r(1)] r(4)
    by (auto intro: session_movesI r(1))
qed

lemma cancel_moves:
  assumes "store_inv st" "cancel_start st sid = Inr st'"
  shows "session_moves rep (Cancel sid) st st' []"
proof -
  from assms(2) obtain r where r: "dget (sessions st) sid = Some r"
    "st' = put_session st sid (r\<lparr>rt_start_pending := False, rt_awaiting := False, rt_observed := None\<rparr>)"
    by (auto simp: cancel_start_def res_simps)
  show ?thesis
    using sess_step.cancelled [of rep "event_limit st" r] store_invD(3) [OF assms(1) r(1)] r(2)
    by (auto intro: session_movesI r(1))
qed

lemma release_moves:
  assumes "store_inv st" "release_terminal_snapshot st sid tid = Inr st'"
  shows "session_moves rep (Release sid tid) st st' []"
proof -
  from assms(2) obtain r where r: "dget (sessions st) sid = Some r"
    "st' = put_session st sid (r\<lparr>rt_terminals := ddel (rt_terminals r) tid\<rparr>)"
    by (auto simp: release_terminal_snapshot_def res_simps)
  show ?thesis
    using sess_step.released [of rep "event_limit st" r tid] store_invD(3) [OF assms(1) r(1)] r(2)
    by (auto intro: session_movesI r(1))
qed

lemma exec_step:
  assumes inv: "store_inv st" and "exec rep st a = (st', pubs)"
  shows "(st' = st \<and> pubs = []) \<or> session_moves rep a st st' pubs
    \<or> (\<exists>record. a = Attach record \<and> st' = fresh_attach st record \<and> pubs = []
          \<and> dget (sessions st) (sr_session_id record) = None
          \<and> dget (thread_sessions st) (sr_thread_id record) \<in> {None, Some (sr_session_id record)})"
proof (cases a)
  case (Attach rc)
  have move: "session_moves rep (Attach rc) st (put_session st sid (r\<lparr>rt_record := rc, rt_attached := True\<rparr>)) []"
    if "dget (sessions st) sid = Some r" "sr_session_id rc = sid"
      "sr_thread_id (rt_record r) = sr_thread_id rc" for sid r
    using that store_invD(3) [OF inv that(1)]
    by (intro session_movesI [OF that(1) sess_step.reattach [of rc]]) auto
  from Attach assms(2) show ?thesis
    by (auto simp: attach_def Let_def fresh_attach_def split: option.splits if_splits intro: move)
next
  case (Notify m)
  with assms show ?thesis
    by (auto simp: split: sum.splits dest: notify_commit_moves)
next
  case (Finish sid tid)
  with assms show ?thesis by (auto split: option.splits intro: finish_moves)
next
  case (DetachOne sid reason)
  with assms show ?thesis by (auto split: option.splits prod.splits intro: detach_moves)
next
  case (Reconcile th)
  with assms show ?thesis by (auto split: sum.splits prod.splits dest: reconcile_commit_moves)
next
  case (Reserve sid)
  with assms show ?thesis by (auto split: sum.splits dest: reserve_moves)
next
  case (Cancel sid)
  with assms show ?thesis by (auto split: sum.splits dest: cancel_moves)
next
  case (Started sid v)
  with assms reconcile_start_moves [OF inv, of sid v rep] show ?thesis by auto
next
  case (Release sid tid)
  with assms show ?thesis by (auto split: sum.splits dest: release_moves)
qed


lemma new_session_record [simp]: "rt_record (new_session rc) = rc"
  by (simp add: new_session_def)

lemma store_inv_fresh:
  assumes "store_inv st" "dget (sessions st) (sr_session_id rc) = None"
    "dget (thread_sessions st) (sr_thread_id rc) \<in> {None, Some (sr_session_id rc)}"
  shows "store_inv (fresh_attach st rc)"
proof -
  have none: "dget (thread_sessions st) (sr_thread_id rc) = None"
    using assms(2,3) store_inv_thread [OF assms(1), of "sr_thread_id rc" "sr_session_id rc"] by fastforce
  have lim: "0 < event_limit st" using assms(1) by (simp add: store_inv_def)
  show ?thesis
    unfolding store_inv_def
  proof (intro conjI [of "0 < _"] conjI [of "\<forall>x y. _ x y"] allI impI)
    show "0 < event_limit (fresh_attach st rc)" using lim by (simp add: fresh_attach_def)
    fix j q
    assume q: "map_of (sessions (fresh_attach st rc)) j = Some q"
    show "rt_inv (event_limit (fresh_attach st rc)) q \<and> sr_session_id (rt_record q) = j
      \<and> map_of (thread_sessions (fresh_attach st rc)) (sr_thread_id (rt_record q)) = Some j"
    proof (cases "j = sr_session_id rc")
      case True
      with q show ?thesis by (auto simp: fresh_attach_def rt_inv_new)
    next
      case False
      with q have "map_of (sessions st) j = Some q" by (simp add: fresh_attach_def)
      from store_invD [OF assms(1) this] none False show ?thesis
        by (auto simp: fresh_attach_def)
    qed
  next
    fix t j
    assume t: "map_of (thread_sessions (fresh_attach st rc)) t = Some j"
    show "\<exists>q. map_of (sessions (fresh_attach st rc)) j = Some q \<and> sr_thread_id (rt_record q) = t"
    proof (cases "t = sr_thread_id rc")
      case True
      with t show ?thesis by (auto simp: fresh_attach_def)
    next
      case False
      with t have "map_of (thread_sessions st) t = Some j" by (simp add: fresh_attach_def)
      then obtain q where "map_of (sessions st) j = Some q" "sr_thread_id (rt_record q) = t"
        by (rule store_inv_thread [OF assms(1)])
      with assms(2) show ?thesis by (cases "j = sr_session_id rc") (auto simp: fresh_attach_def)
    qed
  qed
qed

lemma session_moves_inv:
  assumes inv: "store_inv st" and "session_moves rep a st st' pubs" shows "store_inv st'"
proof -
  from assms(2) obtain sid r r' t where r: "dget (sessions st) sid = Some r"
    and step: "sess_step rep (event_limit st) a r r' t" and st': "st' = put_session st sid r'"
    by (auto simp: session_moves_def)
  show ?thesis
    unfolding st' using sess_step_inv [OF step] sess_step_same [OF step] store_invD [OF inv r]
    by (intro store_inv_put [OF inv r]) simp_all
qed

lemma exec_inv:
  assumes "store_inv st" "exec rep st a = (st', pubs)" shows "store_inv st'"
  using exec_step [OF assms] assms(1) session_moves_inv store_inv_fresh by metis

lemma run_inv: "store_inv st \<Longrightarrow> run rep st as = (st', pubs) \<Longrightarrow> store_inv st'"
  by (induction as arbitrary: st pubs) (auto split: prod.splits dest: exec_inv)

end
