(* ===== verification/RuntimeProps.thy ===== *)
theory RuntimeProps
  imports RuntimeInv
begin

text \<open>
  The properties of the runtime store: the invariant over every interleaving, the exclusive
  start reservation, the orders of start notification and response, terminal publication,
  waiting and event paging.
\<close>

section \<open>Small facts about runs\<close>

lemma run_append:
  "run rep st (as @ bs) =
     (let (st1, p1) = run rep st as; (st2, p2) = run rep st1 bs in (st2, p1 @ p2))"
  by (induction as arbitrary: st) (auto simp: split_beta Let_def)

lemma run_induct_inv:
  assumes "run rep st as = (st', pubs)" "P st qs"
    and step: "\<And>a st qs st' pubs. a \<in> set as \<Longrightarrow> P st qs \<Longrightarrow> exec rep st a = (st', pubs)
      \<Longrightarrow> P st' (qs @ pubs)"
  shows "P st' (qs @ pubs)"
  using assms
proof (induction as arbitrary: st st' qs pubs)
  case (Cons a as)
  obtain st1 p1 where e: "exec rep st a = (st1, p1)" by (cases "exec rep st a")
  obtain st2 p2 where r: "run rep st1 as = (st2, p2)" by (cases "run rep st1 as")
  have "P st1 (qs @ p1)" by (rule Cons.prems(3) [OF _ Cons.prems(2) e]) simp
  then have "P st2 ((qs @ p1) @ p2)"
    by (rule Cons.IH [OF r]) (rule Cons.prems(3), simp_all)
  then show ?case using Cons.prems(1) e r by simp
qed simp

lemma exec_limit: "store_inv st \<Longrightarrow> exec rep st a = (st', pubs) \<Longrightarrow> event_limit st' = event_limit st"
  using exec_step [of st rep a st' pubs] by (auto simp: session_moves_def fresh_attach_def)

section \<open>Which actions can touch a session's fields\<close>

text \<open>The session an action is addressed to directly, for the actions that name one.\<close>

definition ends_reservation :: "string \<Rightarrow> action \<Rightarrow> bool" where
  "ends_reservation sid a = (case a of Cancel s \<Rightarrow> s = sid | Started s _ \<Rightarrow> s = sid
     | DetachOne s _ \<Rightarrow> s = sid | _ \<Rightarrow> False)"

definition is_detach :: "action \<Rightarrow> bool" where
  "is_detach a = (case a of DetachOne _ _ \<Rightarrow> True | _ \<Rightarrow> False)"

lemma mark_published:
  "fst (mark_terminal_published L r t) = (t \<notin> set (rt_published r))"
  "rt_published (snd (mark_terminal_published L r t)) =
     (if t \<in> set (rt_published r) then removeAll t (rt_published r) @ [t]
      else drop (Suc (length (rt_published r)) - L) (rt_published r @ [t]))"
  by (simp_all add: mark_terminal_published_def Let_def)

lemma commit_fields:
  assumes "commit_completed L r tid st er = (r', t)"
  shows "rt_attached r' = rt_attached r" "rt_awaiting r' = rt_awaiting r"
    "rt_active r' = (if rt_active r = Some tid then None else rt_active r)"
    "rt_observed r' = (if belongs_to_pending r tid then Some tid else rt_observed r)"
    "rt_start_pending r' = (\<not> belongs_to_pending r tid \<and> rt_start_pending r)"
    "rt_published r' = (if tid \<in> set (rt_published r) then removeAll tid (rt_published r) @ [tid]
      else drop (Suc (length (rt_published r)) - L) (rt_published r @ [tid]))"
    "t \<noteq> None \<longleftrightarrow> tid \<notin> set (rt_published r)" "t = Some s \<Longrightarrow> ts_turn_id s = tid"
  using assms
  by (cases "belongs_to_pending r tid"; cases "rt_active r = Some tid";
      auto simp: commit_completed_def Let_def split_beta mark_published split: if_splits)+

lemma notify_awaiting:
  assumes "notify_session rep L r method params = Inr (r', t)"
  shows "rt_awaiting r' = rt_awaiting r \<and> rt_attached r' = rt_attached r"
  using assms
proof (cases rule: notify_session_cases)
  case 3
  then show ?thesis by (simp add: commit_fields)
qed (auto simp: notify_started_def notify_item_def notify_approval_def Let_def split: option.splits)

lemma reconcile_awaiting:
  "reconcile_section L r snaps = (r', t) \<Longrightarrow> rt_awaiting r' = rt_awaiting r \<and> rt_attached r'"
  by (auto simp: reconcile_section_split Let_def split: option.splits list.splits if_splits)

lemma sess_step_awaiting:
  assumes "sess_step rep L a r r' t" "rt_awaiting r" "rt_attached r"
    "\<not> ends_reservation (sr_session_id (rt_record r)) a"
  shows "rt_awaiting r' \<and> rt_attached r'"
  using assms
  by (induction rule: sess_step.induct)
     (auto simp: ends_reservation_def dest: notify_awaiting reconcile_awaiting)

text \<open>A predicate of one session, kept by its own steps, is kept by every action.\<close>

lemma exec_keeps:
  assumes inv: "store_inv st" and r: "dget (sessions st) sid = Some r" "Q r"
    and e: "exec rep st a = (st', pubs)"
    and keep: "\<And>r r' t. sr_session_id (rt_record r) = sid \<Longrightarrow> rt_inv (event_limit st) r \<Longrightarrow>
      sess_step rep (event_limit st) a r r' t \<Longrightarrow> Q r \<Longrightarrow> Q r'"
  obtains r' where "dget (sessions st') sid = Some r'" "Q r'"
proof -
  consider (same) "st' = st" | (moves) "session_moves rep a st st' pubs"
    | (fresh) rc where "st' = fresh_attach st rc" "dget (sessions st) (sr_session_id rc) = None"
    using exec_step [OF inv e] by auto
  then show thesis
  proof cases
    case moves
    then obtain s q q' t where q: "dget (sessions st) s = Some q"
      and step: "sess_step rep (event_limit st) a q q' t" and st': "st' = put_session st s q'"
      by (auto simp: session_moves_def)
    show thesis
    proof (cases "s = sid")
      case True
      with q r st' have "dget (sessions st') sid = Some q'" "q = r" by auto
      moreover have "Q q'"
        using keep [OF _ _ step] store_invD [OF inv q] r(2) \<open>q = r\<close> True by simp
      ultimately show thesis using that by blast
    next
      case False
      with q r st' show thesis by (intro that [of r]) auto
    qed
  next
    case (fresh rc)
    with r show thesis by (intro that [of r]) (auto simp: fresh_attach_def)
  qed (use r that in auto)
qed

lemma run_keeps:
  assumes "store_inv st" "dget (sessions st) sid = Some r" "Q r" "run rep st as = (st', pubs)"
    and keep: "\<And>a r r' t. a \<in> set as \<Longrightarrow> sr_session_id (rt_record r) = sid \<Longrightarrow>
      rt_inv (event_limit st) r \<Longrightarrow> sess_step rep (event_limit st) a r r' t \<Longrightarrow> Q r \<Longrightarrow> Q r'"
  obtains r' where "dget (sessions st') sid = Some r'" "Q r'"
proof -
  have "\<exists>r'. dget (sessions st') sid = Some r' \<and> Q r'"
    using assms
  proof (induction as arbitrary: st r pubs)
    case (Cons a as)
    obtain st1 p1 where e: "exec rep st a = (st1, p1)" by (cases "exec rep st a")
    obtain p2 where run: "run rep st1 as = (st', p2)"
      using Cons.prems(4) e by (auto split: prod.splits)
    have lim: "event_limit st1 = event_limit st" by (rule exec_limit [OF Cons.prems(1) e])
    obtain r1 where r1: "dget (sessions st1) sid = Some r1" "Q r1"
      by (rule exec_keeps [where Q = Q, OF Cons.prems(1-3) e])
         (use Cons.prems(5) [of a] in \<open>simp; blast\<close>)
    show ?case
      by (rule Cons.IH [OF exec_inv [OF Cons.prems(1) e] r1 run])
         (use Cons.prems(5) in \<open>simp add: lim; blast\<close>)
  qed auto
  then show thesis using that by blast
qed

lemma store_inv_reserve:
  "store_inv st \<Longrightarrow> reserve_start st sid = Inr st' \<Longrightarrow> store_inv st'"
  by (metis session_moves_inv reserve_moves)

text \<open>
  a start reservation is exclusive. Once \<open>reserve_start\<close> has succeeded for a session, a
  second \<open>reserve_start\<close> raises \<open>TurnActive\<close> however other threads interleave, until the
  reservation is cancelled, answered, or the transport is lost.
\<close>

text \<open>
  C1. Once reserve_start has succeeded for a session, a second one raises TurnActive under any interleaving of the store's other critical sections, until the reservation is cancelled, answered or the transport is lost.
\<close>

theorem reserve_start_exclusive:
  assumes "store_inv st" "reserve_start st sid = Inr st1" "run rep st1 as = (st2, pubs)"
    "\<forall>a \<in> set as. \<not> ends_reservation sid a"
  shows "reserve_start st2 sid = Inl (TurnActive ''session already has an active or pending turn'')"
proof -
  from assms(2) obtain r1 where r1: "dget (sessions st1) sid = Some r1" "rt_awaiting r1 \<and> rt_attached r1"
    by (auto simp: reserve_start_def res_simps require_attached_def split: if_splits)
  obtain r2 where "dget (sessions st2) sid = Some r2" "rt_awaiting r2 \<and> rt_attached r2"
    by (rule run_keeps [where Q = "\<lambda>r. rt_awaiting r \<and> rt_attached r",
          OF store_inv_reserve [OF assms(1,2)] r1 assms(3)])
       (use assms(4) sess_step_awaiting in blast)
  then show ?thesis
    by (simp add: reserve_start_def get_session_def require_attached_def start_busy_def)
qed

section \<open>Publication\<close>

definition pub_ids :: "string \<Rightarrow> publication list \<Rightarrow> string list" where
  "pub_ids sid pubs = map (\<lambda>p. ts_turn_id (snd p)) (filter (\<lambda>p. fst p = sid) pubs)"

lemma pub_ids_append [simp]: "pub_ids sid (ps @ qs) = pub_ids sid ps @ pub_ids sid qs"
  by (simp add: pub_ids_def)

lemma pub_ids_publication:
  "pub_ids sid (publication_of r t) = (case t of None \<Rightarrow> []
     | Some s \<Rightarrow> if sr_session_id (rt_record r) = sid then [ts_turn_id s] else [])"
  by (simp add: pub_ids_def publication_of_def split: option.splits)

lemma pub_ids_Nil [simp]: "pub_ids sid [] = []"
  by (simp add: pub_ids_def)

definition pub_effect :: "nat \<Rightarrow> string list \<Rightarrow> string list \<Rightarrow> turn_snapshot option \<Rightarrow> bool" where
  "pub_effect L p p' t = (case t of
      None \<Rightarrow> set p' = set p
    | Some s \<Rightarrow> ts_turn_id s \<notin> set p \<and> p' = drop (Suc (length p) - L) (p @ [ts_turn_id s]))"

lemma reconcile_effect:
  "reconcile_section L r snaps = (r', t) \<Longrightarrow> pub_effect L (rt_published r) (rt_published r') t"
  by (auto simp: pub_effect_def reconcile_section_split Let_def mark_published
      split: option.splits list.splits if_splits)

lemma notify_effect:
  assumes "notify_session rep L r method params = Inr (r', t)"
  shows "pub_effect L (rt_published r) (rt_published r') t"
  using assms
proof (cases rule: notify_session_cases)
  case (3 tid st er)
  note f = commit_fields [OF 3(1)]
  show ?thesis
  proof (cases t)
    case None
    with f(6,7) show ?thesis by (auto simp: pub_effect_def)
  next
    case (Some s)
    with f(6-8) show ?thesis by (simp add: pub_effect_def)
  qed
qed (auto simp: pub_effect_def notify_started_def notify_item_def notify_approval_def Let_def
      split: option.splits)

lemma sess_step_effect:
  "sess_step rep L a r r' t \<Longrightarrow> \<not> is_detach a \<Longrightarrow> pub_effect L (rt_published r) (rt_published r') t"
  by (induction rule: sess_step.induct)
     (auto simp: notify_effect reconcile_effect is_detach_def, auto simp: pub_effect_def)

definition pubs_match :: "string \<Rightarrow> runtime_store \<Rightarrow> publication list \<Rightarrow> bool" where
  "pubs_match sid st qs \<longleftrightarrow> (length (pub_ids sid qs) \<le> event_limit st \<longrightarrow>
     distinct (pub_ids sid qs)
     \<and> (case dget (sessions st) sid of
          None \<Rightarrow> pub_ids sid qs = []
        | Some r \<Rightarrow> set (rt_published r) = set (pub_ids sid qs)))"

lemma pubs_match_exec:
  assumes inv: "store_inv st" and m: "pubs_match sid st qs"
    and e: "exec rep st a = (st', pubs)" and d: "\<not> is_detach a"
  shows "pubs_match sid st' (qs @ pubs)"
proof -
  consider (same) "st' = st" "pubs = []" | (moves) "session_moves rep a st st' pubs"
    | (fresh) rc where "st' = fresh_attach st rc" "pubs = []" "dget (sessions st) (sr_session_id rc) = None"
    using exec_step [OF inv e] by auto
  then show ?thesis
  proof cases
    case same
    with m show ?thesis by simp
  next
    case fresh
    with m show ?thesis
      by (cases "sid = sr_session_id rc") (auto simp: pubs_match_def fresh_attach_def new_session_def)
  next
    case moves
    then obtain s r r' t where r: "dget (sessions st) s = Some r"
      and step: "sess_step rep (event_limit st) a r r' t"
      and eq: "st' = put_session st s r'" "pubs = publication_of r' t"
      by (auto simp: session_moves_def)
    have id: "sr_session_id (rt_record r') = s"
      using sess_step_same [OF step] store_invD(3) [OF inv r] by (simp add: same_session_def)
    have eff: "pub_effect (event_limit st) (rt_published r) (rt_published r') t"
      using sess_step_effect [OF step d] .
    have pok: "distinct (rt_published r)"
      using store_invD(2) [OF inv r] by (simp add: rt_inv_def published_ok_def)
    show ?thesis
    proof (cases "s = sid")
      case False
      with m id eq show ?thesis
        by (auto simp: pubs_match_def pub_ids_publication split: option.splits)
    next
      case s: True
      show ?thesis
      proof (cases t)
        case None
        with m eq eff s r show ?thesis by (simp add: pubs_match_def pub_effect_def)
      next
        case (Some u)
        have len: "length (rt_published r) < event_limit st"
          if "Suc (length (pub_ids sid qs)) \<le> event_limit st"
        proof -
          from that m s r have "distinct (pub_ids sid qs)" "set (rt_published r) = set (pub_ids sid qs)"
            by (auto simp: pubs_match_def)
          then have "length (rt_published r) = length (pub_ids sid qs)"
            using pok by (metis distinct_card)
          with that show ?thesis by simp
        qed
        have ids: "pub_ids sid (qs @ pubs) = pub_ids sid qs @ [ts_turn_id u]"
          using eq Some id s by (simp add: pub_ids_publication)
        have new: "ts_turn_id u \<notin> set (rt_published r)"
          "rt_published r' = drop (Suc (length (rt_published r)) - event_limit st)
             (rt_published r @ [ts_turn_id u])"
          using eff Some by (simp_all add: pub_effect_def)
        have g: "map_of (sessions st') sid = Some r'" "event_limit st' = event_limit st"
          using eq s by simp_all
        show ?thesis
          unfolding pubs_match_def ids g
        proof (intro impI)
          assume le: "length (pub_ids sid qs @ [ts_turn_id u]) \<le> event_limit st"
          then have "distinct (pub_ids sid qs)" "set (rt_published r) = set (pub_ids sid qs)"
            using m s r by (auto simp: pubs_match_def)
          moreover have "rt_published r' = rt_published r @ [ts_turn_id u]"
            using new(2) len le by simp
          ultimately show "distinct (pub_ids sid qs @ [ts_turn_id u]) \<and> (case Some r' of
              None \<Rightarrow> pub_ids sid qs @ [ts_turn_id u] = []
            | Some q \<Rightarrow> set (rt_published q) = set (pub_ids sid qs @ [ts_turn_id u]))"
            using new(1) by simp
        qed
      qed
    qed
  qed
qed


section \<open>Snapshots that are being published\<close>

definition held :: "string \<Rightarrow> session_runtime \<Rightarrow> bool" where
  "held tid r \<longleftrightarrow> tid \<in> rt_publishing r \<and> dget (rt_terminals r) tid \<noteq> None"

definition drops :: "string \<Rightarrow> string \<Rightarrow> action \<Rightarrow> bool" where
  "drops sid tid a \<longleftrightarrow> a = Finish sid tid \<or> a = Release sid tid"

lemma held_retain: "held tid r \<Longrightarrow> held tid (retain_terminal L r s p)"
  by (cases "tid = ts_turn_id s")
     (auto simp: held_def retain_terminal_def trim_terminals_def Let_def trim_dict_keeps_publishing
       map_add_def)

lemma held_retain_self: "held (ts_turn_id s) (retain_terminal L r s True)"
  by (auto simp: held_def retain_terminal_def trim_terminals_def Let_def trim_dict_keeps_publishing)

lemma held_cong:
  "rt_publishing q = rt_publishing r \<Longrightarrow> rt_terminals q = rt_terminals r \<Longrightarrow> held tid q = held tid r"
  by (simp add: held_def)

lemma held_append [simp]: "held tid (append_event L r ev t i e) = held tid r"
  by (rule held_cong) simp_all

lemma held_mark [simp]: "held tid (snd (mark_terminal_published L r t)) = held tid r"
  by (rule held_cong) simp_all

lemma held_finish: "held tid r \<Longrightarrow> tid \<noteq> t \<Longrightarrow> held tid (finish_publish L r t)"
  by (auto simp: held_def finish_publish_def trim_terminals_def trim_dict_keeps_publishing)

text \<open>The terminal part of a commit, with the fields the retention reads.\<close>

lemma commit_shape:
  obtains q where "rt_terminals q = rt_terminals r" "rt_publishing q = rt_publishing r"
    "rt_published q = rt_published r"
    "commit_completed L r tid st er = (let snap = \<lparr>ts_turn_id = tid, ts_status = st, ts_error = er,
        ts_items = (case dget (rt_items r) tid of None \<Rightarrow> [] | Some xs \<Rightarrow> xs)\<rparr>
      in (append_event L (retain_terminal L (snd (mark_terminal_published L q tid)) snap
            (tid \<notin> set (rt_published r))) ''turn_completed'' (Some tid) None er,
          if tid \<notin> set (rt_published r) then Some snap else None))"
proof -
  define r1 where "r1 = (if belongs_to_pending r tid
                then r\<lparr>rt_observed := Some tid, rt_start_pending := False\<rparr> else r)"
  define r2 where "r2 = (if rt_active r1 = Some tid then r1\<lparr>rt_active := None\<rparr> else r1)"
  let ?snap = "\<lparr>ts_turn_id = tid, ts_status = st, ts_error = er,
        ts_items = (case dget (rt_items r2) tid of None \<Rightarrow> [] | Some xs \<Rightarrow> xs)\<rparr>"
  define q where "q = r2\<lparr>rt_items := ddel (rt_items r2) tid, rt_latest := Some ?snap\<rparr>"
  have same: "rt_terminals q = rt_terminals r" "rt_publishing q = rt_publishing r"
    "rt_published q = rt_published r" "rt_items r2 = rt_items r" "rt_published r2 = rt_published r"
    by (simp_all add: q_def r2_def r1_def)
  show thesis
    by (rule that [of q], (rule same)+)
       (simp add: commit_completed_def Let_def split_beta r1_def [symmetric] r2_def [symmetric]
         q_def [symmetric] mark_published same(1-3,5); simp add: q_def same)
qed


lemma commit_held:
  assumes "commit_completed L r tid st er = (r', t)"
  shows "held k r \<Longrightarrow> held k r'" "t = Some s \<Longrightarrow> held (ts_turn_id s) r'"
proof -
  obtain q where q: "rt_terminals q = rt_terminals r" "rt_publishing q = rt_publishing r"
    "commit_completed L r tid st er = (let snap = \<lparr>ts_turn_id = tid, ts_status = st, ts_error = er,
        ts_items = (case dget (rt_items r) tid of None \<Rightarrow> [] | Some xs \<Rightarrow> xs)\<rparr>
      in (append_event L (retain_terminal L (snd (mark_terminal_published L q tid)) snap
            (tid \<notin> set (rt_published r))) ''turn_completed'' (Some tid) None er,
          if tid \<notin> set (rt_published r) then Some snap else None))"
    by (rule commit_shape [of r L tid st er])
  have "held k r = held k q" by (rule held_cong [symmetric]) (simp_all add: q)
  with assms q(3) show "held k r \<Longrightarrow> held k r'"
    by (auto simp: Let_def intro!: held_retain)
  show "t = Some s \<Longrightarrow> held (ts_turn_id s) r'"
    using assms q(3) held_retain_self
    by (auto simp: Let_def split: if_splits) (metis turn_snapshot.select_convs(1))
qed

lemma notify_held:
  assumes "notify_session rep L r method params = Inr (r', t)"
  shows "held k r \<Longrightarrow> held k r'" "t = Some s \<Longrightarrow> held (ts_turn_id s) r'"
proof -
  show "held k r \<Longrightarrow> held k r'"
    using assms
  proof (cases rule: notify_session_cases)
    case 3
    then show "held k r \<Longrightarrow> held k r'" by (blast intro: commit_held(1))
  qed (auto simp: notify_started_def notify_item_def notify_approval_def Let_def held_def
        split: option.splits)
  show "t = Some s \<Longrightarrow> held (ts_turn_id s) r'"
    using assms by (cases rule: notify_session_cases) (auto intro: commit_held(2))
qed

lemma reconcile_held:
  assumes "reconcile_section L r snaps = (r', t)" shows "held k r \<Longrightarrow> held k r'"
  using assms
  by (auto simp: reconcile_section_split Let_def split: option.splits list.splits if_splits
      intro!: held_retain) (auto simp: held_def)

lemma detach_held:
  assumes "detach_one L r reason = (r', t)" shows "held k r \<Longrightarrow> held k r'"
proof -
  have u: "held k (q\<lparr>rt_items := x\<rparr>) = held k q" for q x by (simp add: held_def)
  show "held k r \<Longrightarrow> held k r'"
    using assms by (auto simp: detach_one_def Let_def u split: option.splits intro!: held_retain)
      (auto simp: held_def)
qed

lemma sess_step_held:
  assumes "sess_step rep L a r r' t" "held k r" "\<not> drops (sr_session_id (rt_record r)) k a"
  shows "held k r'"
  using assms
  by (induction rule: sess_step.induct)
     (auto intro: notify_held(1) reconcile_held detach_held held_finish simp: drops_def,
      auto simp: held_def)

lemma notify_commitE:
  assumes "notify_commit rep st m = Inr (st', [(sid, s)])" "store_inv st"
  obtains r r' mname ps where "dget (sessions st) sid = Some r" "st' = put_session st sid r'"
    "notify_session rep (event_limit st) r mname ps = Inr (r', Some s)"
proof -
  from assms(1) obtain j r r' t mname ps where r: "dget (sessions st) j = Some r"
    "notify_session rep (event_limit st) r mname ps = Inr (r', t)"
    "st' = put_session st j r'" "publication_of r' t = [(sid, s)]"
    by (auto simp: notify_commit_def res_simps split: option.splits if_splits)
  then have "sid = j" "t = Some s"
    using notify_record [OF r(2)] store_invD(3) [OF assms(2) r(1)]
    by (auto simp: publication_of_def split: option.splits)
  with r show thesis by (intro that) auto
qed

text \<open>
  The snapshot of a turn being published stays retrievable until the publication finishes or it is released, whatever else is retained meanwhile.
\<close>

theorem publishing_snapshot_available:
  assumes "store_inv st" "notify_commit rep st m = Inr (st1, [(sid, s)])"
    "run rep st1 as = (st2, pubs)" "\<forall>a \<in> set as. \<not> drops sid (ts_turn_id s) a"
  shows "\<exists>s'. terminal_snapshot st2 sid (ts_turn_id s) = Inr (Some s') \<and> ts_turn_id s' = ts_turn_id s"
proof -
  obtain r r' mname ps where r: "st1 = put_session st sid r'"
    "notify_session rep (event_limit st) r mname ps = Inr (r', Some s)"
    by (rule notify_commitE [OF assms(2,1)])
  have inv1: "store_inv st1"
    using notify_commit_moves [OF assms(2)] assms(1) session_moves_inv by blast
  have r1: "dget (sessions st1) sid = Some r'" "held (ts_turn_id s) r'"
    using r notify_held(2) by simp_all
  obtain r2 where r2: "dget (sessions st2) sid = Some r2" "held (ts_turn_id s) r2"
    by (rule run_keeps [where Q = "held (ts_turn_id s)", OF inv1 r1 assms(3)])
       (use assms(4) sess_step_held in blast)
  have inv2: "store_inv st2" by (rule run_inv [OF inv1 assms(3)])
  from r2(2) obtain s' where s': "dget (rt_terminals r2) (ts_turn_id s) = Some s'"
    by (auto simp: held_def)
  have "terminals_ok (event_limit st2) r2"
    using store_invD(2) [OF inv2 r2(1)] by (simp add: rt_inv_def)
  with map_of_SomeD [OF s'] have "ts_turn_id s' = ts_turn_id s" by (auto simp: terminals_ok_def)
  with r2(1) s' show ?thesis by (simp add: terminal_snapshot_def get_session_def)
qed

section \<open>Notifications and the response of a start\<close>

definition turn_message :: "string \<Rightarrow> string \<Rightarrow> string \<Rightarrow> json_object" where
  "turn_message method thread tid = [(''method'', JStr method), (''params'', JObj
     [(''threadId'', JStr thread), (''turn'', JObj [(''id'', JStr tid), (''status'', JStr ''completed'')])])]"

lemma turn_message_commit:
  assumes "store_inv st" "dget (sessions st) sid = Some r"
  shows "notify_commit rep st (turn_message ''turn/started'' (sr_thread_id (rt_record r)) tid) =
      Inr (put_session st sid (notify_started (event_limit st) r
        [(''threadId'', JStr (sr_thread_id (rt_record r))),
         (''turn'', JObj [(''id'', JStr tid), (''status'', JStr ''completed'')])]), [])"
    "notify_commit rep st (turn_message ''turn/completed'' (sr_thread_id (rt_record r)) tid) =
      ebind (notify_completed (event_limit st) r
        [(''threadId'', JStr (sr_thread_id (rt_record r))),
         (''turn'', JObj [(''id'', JStr tid), (''status'', JStr ''completed'')])])
      (\<lambda>(r', t). Inr (put_session st sid r', publication_of r' t))"
  using assms store_invD(4) [OF assms]
  by (simp_all add: notify_commit_def turn_message_def session_methods_def message_thread_id_def
      jget_def by_thread_def notify_session_def)

lemma notify_started_turn:
  "notify_started L r [(''threadId'', x), (''turn'', JObj [(''id'', JStr tid), y])] =
    (if tid \<in> set (rt_published r) \<and> \<not> rt_awaiting r then r
     else append_event L (if rt_awaiting r
       then r\<lparr>rt_start_pending := False, rt_active := Some tid, rt_observed := Some tid\<rparr>
       else r\<lparr>rt_start_pending := False, rt_active := Some tid\<rparr>) ''turn_started'' (Some tid) None None)"
  by (simp add: notify_started_def jget_def Let_def)

lemma notify_completed_turn:
  "notify_completed L r [(''threadId'', x), (''turn'', JObj [(''id'', JStr tid), (''status'', JStr ''completed'')])] =
    (if tid \<in> set (rt_published r) \<and> rt_active r \<noteq> Some tid then Inr (r, None)
     else Inr (commit_completed L r tid ''completed'' None))"
  by (simp add: notify_completed_def jget_def turn_error_def)

lemma dset_dset: "dset (dset d k v) k w = dset d k w"
  by (induction d k v rule: dset.induct) auto

lemma put_put [simp]: "put_session (put_session st sid a) sid b = put_session st sid b"
  by (simp add: put_session_def dset_dset)

text \<open>
  the response of \<open>turn/start\<close> and the \<open>turn/started\<close> notification may arrive in either
  order. From a reserved start with nothing active, both orders accept the response and leave
  the same session state.
\<close>

text \<open>
  The turn/start response and the turn/started notification leave the same session state in either order, and both are accepted.
\<close>

theorem start_order_irrelevant:
  fixes st :: runtime_store
  defines "msg \<equiv> turn_message ''turn/started''"
  assumes inv: "store_inv st" and r: "dget (sessions st) sid = Some r"
    and pending: "rt_awaiting r" "rt_observed r = None" "rt_active r = None"
    and new: "tid \<notin> set (rt_published r)" "tid \<noteq> []"
  shows "run rep st [Notify (msg (sr_thread_id (rt_record r)) tid), Started sid (JStr tid)]
       = run rep st [Started sid (JStr tid), Notify (msg (sr_thread_id (rt_record r)) tid)]
    \<and> snd (reconcile_start st sid (JStr tid)) = Inr ()
    \<and> (\<exists>r'. dget (sessions (fst (run rep st [Started sid (JStr tid)]))) sid = Some r'
          \<and> rt_active r' = Some tid \<and> \<not> rt_awaiting r')"
proof -
  have g: "get_session st sid = Inr r" using r by (simp add: get_session_def)
  let ?r1 = "r\<lparr>rt_awaiting := False, rt_start_pending := False, rt_observed := None, rt_active := Some tid\<rparr>"
  have resp: "reconcile_start st sid (JStr tid) = (put_session st sid ?r1, Inr ())"
    using pending new by (simp add: reconcile_start_def g Let_def)
  have th: "sr_thread_id (rt_record r) = sr_thread_id (rt_record ?r1)" by simp
  have inv1: "store_inv (put_session st sid ?r1)"
    using reconcile_start_moves [OF inv, of sid "JStr tid" undefined] inv resp session_moves_inv
    by (metis fst_conv)
  have r1: "dget (sessions (put_session st sid ?r1)) sid = Some ?r1" by simp
  show ?thesis
    using pending new
    by (simp add: msg_def turn_message_commit(1) [OF inv r] notify_started_turn resp
        turn_message_commit(1) [OF inv1 r1, simplified])
       (cases r; simp add: reconcile_start_def get_session_def Let_def append_event_def)
qed


text \<open>terminal before response.\<close>

theorem terminal_before_response:
  fixes st :: runtime_store
  assumes inv: "store_inv st" and r: "dget (sessions st) sid = Some r"
    and pending: "rt_awaiting r" "rt_observed r = None" "rt_active r = None"
    and new: "tid \<notin> set (rt_published r)" "tid \<noteq> []"
    and run: "run rep st [Notify (turn_message ''turn/completed'' (sr_thread_id (rt_record r)) tid),
                          Started sid (JStr tid)] = (st', pubs)"
  shows "require_idle st' sid = (if rt_attached r then Inr () else require_attached r)
    \<and> map (ts_turn_id \<circ> snd) pubs = [tid]
    \<and> wait st' sid None (Some tid) now [(now, the (dget (sessions st') sid))]
        = Some (Inr (snd (hd pubs)))"
proof -
  obtain r1 t where c: "commit_completed (event_limit st) r tid ''completed'' None = (r1, t)"
    by (cases "commit_completed (event_limit st) r tid ''completed'' None")
  note f = commit_fields [OF c]
  obtain s where s: "t = Some s" "ts_turn_id s = tid" using f(7,8) new by auto
  have bel: "belongs_to_pending r tid" using pending by (simp add: belongs_to_pending_def)
  have rec: "rt_record r1 = rt_record r" by (rule commit_record [OF c])
  have tm: "dget (rt_terminals r1) tid = Some s"
  proof -
    obtain q where "rt_publishing q = rt_publishing r"
      "commit_completed (event_limit st) r tid ''completed'' None
        = (let snap = \<lparr>ts_turn_id = tid, ts_status = ''completed'', ts_error = None,
        ts_items = (case dget (rt_items r) tid of None \<Rightarrow> [] | Some xs \<Rightarrow> xs)\<rparr>
      in (append_event (event_limit st) (retain_terminal (event_limit st)
            (snd (mark_terminal_published (event_limit st) q tid)) snap
            (tid \<notin> set (rt_published r))) ''turn_completed'' (Some tid) None None,
          if tid \<notin> set (rt_published r) then Some snap else None))"
      by (rule commit_shape [of r "event_limit st" tid "''completed''" None])
    with c s new show ?thesis
      by (auto simp: Let_def retain_terminal_def trim_terminals_def trim_dict_keeps_publishing map_add_def)
  qed
  let ?r2 = "r1\<lparr>rt_awaiting := False, rt_start_pending := False, rt_observed := None\<rparr>"
  have "run rep st [Notify (turn_message ''turn/completed'' (sr_thread_id (rt_record r)) tid),
                    Started sid (JStr tid)] = (put_session st sid ?r2, publication_of r1 t)"
    using pending new bel f
    by (simp add: turn_message_commit(2) [OF inv r] notify_completed_turn c reconcile_start_def
        get_session_def Let_def)
  with run have eq: "st' = put_session st sid ?r2" "pubs = [(sr_session_id (rt_record r), s)]"
    using s rec by (simp_all add: publication_of_def)
  show ?thesis
    using eq f(1-3) pending s tm rec
    by (simp add: require_idle_def get_session_def require_attached_def start_busy_def wait_def
        wait_blocked_def wait_result_def)
qed

text \<open>
  A delayed start notification of a finished turn, while another start awaits.
\<close>

theorem delayed_start_resurrects_while_awaiting:
  assumes inv: "store_inv st" and r: "dget (sessions st) sid = Some r"
    and pending: "rt_awaiting r" "old \<in> set (rt_published r)" "old \<noteq> tid" "tid \<noteq> []"
    and run: "run rep st [Notify (turn_message ''turn/started'' (sr_thread_id (rt_record r)) old)] = (st', pubs)"
  shows "status st' sid = Inr \<lparr>rs_attached = rt_attached r, rs_active_turn_id = Some old,
      rs_latest_turn = rt_latest r\<rparr>
    \<and> snd (reconcile_start st' sid (JStr tid)) = Inl (CodexProtocolError
        (''turn/start response id '' @ tid @ '' mismatches notification id '' @ old))"
proof -
  from run pending have "st' = put_session st sid (append_event (event_limit st)
      (r\<lparr>rt_start_pending := False, rt_active := Some old, rt_observed := Some old\<rparr>)
      ''turn_started'' (Some old) None None)"
    by (simp add: turn_message_commit(1) [OF inv r] notify_started_turn)
  with pending show ?thesis
    by (simp add: status_def status_of_def get_session_def reconcile_start_def Let_def)
qed

text \<open>a delayed start notification, with no start awaited.\<close>

lemma settled_turn_stays_settled_section:
  assumes "notify_session rep L r method params = Inr (r', t)" "\<not> rt_awaiting r"
    "tid \<in> set (rt_published r)" "rt_active r \<noteq> Some tid"
  shows "rt_active r' \<noteq> Some tid"
  using assms(1)
proof (cases rule: notify_session_cases)
  case 3
  with assms show ?thesis by (simp add: commit_fields(3))
qed (use assms in \<open>auto simp: notify_started_def notify_item_def notify_approval_def Let_def
      split: option.splits\<close>)

section \<open>Reconciliation\<close>

text \<open>
  What reconcile_thread changes of a session and what it publishes, from the authoritative thread.
\<close>

theorem reconcile_thread_outcome:
  assumes inv: "store_inv st" and ok: "reconcile_thread st thread = Inr (st', view, pubs)"
  shows "\<exists>sid r r'. dget (sessions st) sid = Some r \<and> dget (sessions st') sid = Some r'
    \<and> rt_attached r' \<and> view = status_of r'
    \<and> rt_events r' = rt_events r \<and> rt_next_cursor r' = rt_next_cursor r
    \<and> rt_awaiting r' = rt_awaiting r
    \<and> (\<forall>s. s \<noteq> sid \<longrightarrow> dget (sessions st') s = dget (sessions st) s)
    \<and> (case thread of JObj th \<Rightarrow> jget th ''id'' = JStr (sr_thread_id (rt_record r))
          \<and> (rt_active r' \<noteq> None \<longleftrightarrow> (\<exists>status. jget th ''status'' = JObj status
                \<and> jget status ''type'' = JStr ''active''))
        | _ \<Rightarrow> False)
    \<and> (pubs = [] \<or> (\<exists>s. pubs = [(sid, s)] \<and> rt_latest r' = Some s
          \<and> ts_turn_id s \<notin> set (rt_published r) \<and> ts_status s \<noteq> ''in_progress''))"
proof -
  have check: "b \<longleftrightarrow> (\<exists>status. v = JObj status \<and> jget status ''type'' = JStr ''active'')"
    if "check_thread_status v = Inr b" for v b
    using that by (auto simp: check_thread_status_def split: option.splits if_splits)
  from ok obtain st1 where ok1: "reconcile_commit st thread = Inr (st1, view, pubs)"
    and st': "st' = finish_publications st1 pubs"
    by (auto simp: reconcile_thread_def res_simps)
  from ok1 obtain th sid r b raw snaps where th: "thread = JObj th"
    and bt: "by_thread st (jget th ''id'') = Some (sid, r)"
    and c: "check_thread_status (jget th ''status'') = Inr b" and raw: "jget th ''turns'' = JList raw"
    and s: "emap (snapshot_from_turn (event_limit st)) raw = Inr snaps"
    by (auto simp: reconcile_commit_def res_simps split: option.splits)
  obtain r1 t where sec: "reconcile_section (event_limit st) r snaps = (r1, t)"
    by (cases "reconcile_section (event_limit st) r snaps")
  from ok1 th bt c raw s sec have b: "b \<longleftrightarrow> filter in_progress snaps \<noteq> []"
    and st1: "st1 = put_session st sid r1" "view = status_of r1" "pubs = publication_of r1 t"
    by (auto simp: reconcile_commit_def Let_def split: if_splits)
  from bt have r: "dget (sessions st) sid = Some r"
    "jget th ''id'' = JStr (sr_thread_id (rt_record r))"
    by (auto simp: res_simps elim!: store_inv_thread [OF inv])
  have fields: "rt_attached r1" "rt_events r1 = rt_events r" "rt_next_cursor r1 = rt_next_cursor r"
    "rt_awaiting r1 = rt_awaiting r" "rt_active r1 \<noteq> None \<longleftrightarrow> filter in_progress snaps \<noteq> []"
    "\<And>s. t = Some s \<Longrightarrow> rt_latest r1 = Some s \<and> ts_turn_id s \<notin> set (rt_published r)
       \<and> ts_status s \<noteq> ''in_progress''"
    using sec by (auto simp: reconcile_section_split Let_def mark_published find_Some_iff in_progress_def
        split: option.splits list.splits if_splits)
  have id: "sr_session_id (rt_record r1) = sid"
    using reconcile_record [OF sec] store_invD(3) [OF inv r(1)] by simp
  let ?r2 = "case t of None \<Rightarrow> r1 | Some s \<Rightarrow> finish_publish (event_limit st) r1 (ts_turn_id s)"
  have st2: "st' = put_session st sid ?r2"
    using st' st1 id by (cases t) (simp_all add: finish_publications_def publication_of_def)
  have "rt_attached ?r2 \<and> view = status_of ?r2 \<and> rt_events ?r2 = rt_events r
    \<and> rt_next_cursor ?r2 = rt_next_cursor r \<and> rt_awaiting ?r2 = rt_awaiting r
    \<and> rt_active ?r2 = rt_active r1 \<and> rt_latest ?r2 = rt_latest r1"
    using fields st1(2) by (cases t) (simp_all add: status_of_def)
  moreover have "pubs = [] \<or> (\<exists>s. pubs = [(sid, s)] \<and> rt_latest r1 = Some s
          \<and> ts_turn_id s \<notin> set (rt_published r) \<and> ts_status s \<noteq> ''in_progress'')"
    using st1(3) fields(6) id by (cases t) (simp_all add: publication_of_def)
  ultimately show ?thesis
    using r th st2 check [OF c] b fields(5)
    by (intro exI [of _ sid] exI [of _ r] exI [of _ ?r2]) (simp del: jget_def)
qed

section \<open>Waiting\<close>

text \<open>
  A wait for a turn returns the retained terminal snapshot of that turn, observed while the turn was not active.
\<close>

theorem wait_returns_requested_turn:
  assumes "wait st sid timeout (Some tid) now obs = Some (Inr s)"
    "\<forall>(_, r) \<in> set obs. rt_inv L r"
  shows "ts_turn_id s = tid \<and> (\<exists>(_, r) \<in> set obs. rt_active r \<noteq> Some tid
    \<and> dget (rt_terminals r) tid = Some s)"
proof -
  have loop: "wait_loop sid d (Some tid) obs = Some (Inr s) \<Longrightarrow> \<exists>(_, r) \<in> set obs.
      rt_active r \<noteq> Some tid \<and> dget (rt_terminals r) tid = Some s" for d
    by (induction sid d "Some tid" obs rule: wait_loop.induct)
       (auto simp: wait_blocked_def wait_result_def split: if_splits option.splits)
  then obtain u r where r: "(u, r) \<in> set obs" "rt_active r \<noteq> Some tid"
    "dget (rt_terminals r) tid = Some s"
    using assms(1) by (fastforce simp: wait_def split: sum.splits option.splits if_splits)
  with assms(2) have "terminals_ok L r" by (auto simp: rt_inv_def)
  with map_of_SomeD [OF r(3)] have "ts_turn_id s = tid" by (auto simp: terminals_ok_def)
  with r show ?thesis by auto
qed

text \<open>
  A wait with a timeout has returned or raised at the first observation at or after its deadline.
\<close>

theorem wait_ends_by_deadline:
  assumes "(t, r) \<in> set obs" "start + d \<le> t"
  shows "wait st sid (Some d) turn_id start obs \<noteq> None"
proof -
  have "wait_loop sid (Some (start + d)) turn_id obs \<noteq> None"
    using assms by (induction obs) (auto split: option.splits)
  then show ?thesis by (auto simp: wait_def split: sum.splits)
qed

section \<open>Paging through the retained events\<close>

text \<open>A client that asks for the next page from the returned cursor until a page is empty.\<close>

fun read_pages :: "nat \<Rightarrow> runtime_store \<Rightarrow> string \<Rightarrow> int \<Rightarrow> int \<Rightarrow> event_record list" where
  "read_pages 0 st sid after limit = []"
| "read_pages (Suc n) st sid after limit = (case events st sid (JInt after) (JInt limit) of
     Inl _ \<Rightarrow> []
   | Inr p \<Rightarrow> (if page_events p = [] then []
               else page_events p @ read_pages n st sid (page_next_cursor p) limit))"

lemma events_ok_cursors:
  assumes "events_ok L r"
  shows "sorted_wrt (\<lambda>e f. ev_cursor e < ev_cursor f) (rt_events r)"
    "e \<in> set (rt_events r) \<Longrightarrow> 0 < ev_cursor e"
proof -
  have m: "map ev_cursor (rt_events r)
      = [rt_next_cursor r - int (length (rt_events r)) .. rt_next_cursor r - 1]"
    and n: "int (length (rt_events r)) < rt_next_cursor r"
    using assms by (simp_all add: events_ok_def)
  have "sorted_wrt (<) [i..j]" for i j :: int by simp
  then have "sorted_wrt (<) (map ev_cursor (rt_events r))" unfolding m .
  then show "sorted_wrt (\<lambda>e f. ev_cursor e < ev_cursor f) (rt_events r)"
    by (simp add: sorted_wrt_map)
  assume "e \<in> set (rt_events r)"
  then have "ev_cursor e \<in> set (map ev_cursor (rt_events r))" by simp
  then show "0 < ev_cursor e" unfolding m using n by auto
qed

lemma filter_after_take:
  assumes "sorted_wrt (\<lambda>e f. ev_cursor e < ev_cursor f) xs" "0 < n" "xs \<noteq> []"
  shows "filter (\<lambda>e. ev_cursor (last (take n xs)) < ev_cursor e) xs = drop n xs"
  using assms
proof (induction xs arbitrary: n)
  case (Cons x xs)
  show ?case
  proof (cases "n = 1 \<or> xs = []")
    case True
    have "filter (\<lambda>e. ev_cursor x < ev_cursor e) xs = xs"
      using Cons.prems(1) by (simp add: filter_id_conv)
    with True Cons.prems show ?thesis by (auto simp: neq_Nil_conv)
  next
    case False
    then obtain m where n: "n = Suc m" "0 < m" "xs \<noteq> []" using Cons.prems by (cases n) auto
    then have l: "last (take n (x # xs)) = last (take m xs)" by simp
    have "last (take m xs) \<in> set (take m xs)" by (rule last_in_set) (use n in auto)
    then have "last (take m xs) \<in> set xs" by (rule in_set_takeD)
    with Cons.prems(1) have "ev_cursor x < ev_cursor (last (take m xs))" by simp
    then show ?thesis using Cons.IH [of m] Cons.prems(1) n l by auto
  qed
qed simp


lemma read_pages_filter:
  assumes ok: "events_ok L r" and r: "dget (sessions st) sid = Some r" and l: "0 < l"
  shows "0 \<le> after \<Longrightarrow> length (filter (\<lambda>e. after < ev_cursor e) (rt_events r)) < n
    \<Longrightarrow> read_pages n st sid after l = filter (\<lambda>e. after < ev_cursor e) (rt_events r)"
proof (induction n arbitrary: after)
  case (Suc n)
  let ?xs = "filter (\<lambda>e. after < ev_cursor e) (rt_events r)"
  have ev: "events st sid (JInt after) (JInt l) = Inr (page_of (rt_events r) after (nat l))"
    using Suc.prems l by (simp add: events_def get_session_def r)
  show ?case
  proof (cases "?xs = []")
    case True
    then show ?thesis by (simp add: ev page_of_def Let_def)
  next
    case False
    let ?c = "ev_cursor (last (take (nat l) ?xs))"
    have sorted: "sorted_wrt (\<lambda>e f. ev_cursor e < ev_cursor f) ?xs"
      by (rule sorted_wrt_filter) (rule events_ok_cursors(1) [OF ok])
    have nx: "page_next_cursor (page_of (rt_events r) after (nat l)) = ?c"
      "page_events (page_of (rt_events r) after (nat l)) = take (nat l) ?xs" "take (nat l) ?xs \<noteq> []"
      using False l by (auto simp: page_of_def Let_def)
    have "last (take (nat l) ?xs) \<in> set (take (nat l) ?xs)" by (rule last_in_set) (rule nx(3))
    then have mem: "last (take (nat l) ?xs) \<in> set ?xs" by (rule in_set_takeD)
    then have c: "after < ?c" by simp
    have rest: "filter (\<lambda>e. ?c < ev_cursor e) (rt_events r) = drop (nat l) ?xs"
    proof -
      have "filter (\<lambda>e. ?c < ev_cursor e) (rt_events r) = filter (\<lambda>e. ?c < ev_cursor e) ?xs"
        unfolding filter_filter by (rule filter_cong) (use c in auto)
      also have "\<dots> = drop (nat l) ?xs"
        by (rule filter_after_take [OF sorted _ False]) (use l in simp)
      finally show ?thesis .
    qed
    have "0 < length ?xs" "0 < nat l" using False l by simp_all
    then have "length (drop (nat l) ?xs) < n" unfolding length_drop using Suc.prems(2) by linarith
    then have "read_pages n st sid ?c l = drop (nat l) ?xs"
      using Suc.IH [of ?c] Suc.prems(1) c rest by simp
    then show ?thesis using nx by (simp add: ev)
  qed
qed simp

text \<open>
  Paging through the retained events from the returned cursors reads each retained event after the cursor once, in order; truncation is reported exactly when an event was dropped.
\<close>

theorem paging_loses_nothing:
  assumes "store_inv st" "dget (sessions st) sid = Some r" "0 \<le> after" "0 < limit"
  shows "read_pages (Suc (event_limit st)) st sid after limit
      = filter (\<lambda>e. after < ev_cursor e) (rt_events r)
    \<and> (\<exists>p. events st sid (JInt after) (JInt limit) = Inr p
        \<and> (page_truncated p \<longleftrightarrow> (\<exists>c. after < c \<and> 0 < c \<and> c < rt_next_cursor r
              \<and> c \<notin> ev_cursor ` set (rt_events r))))"
proof -
  have ok: "events_ok (event_limit st) r"
    using store_invD(2) [OF assms(1,2)] by (simp add: rt_inv_def)
  let ?n = "int (length (rt_events r))" and ?c = "rt_next_cursor r"
  have cur: "map ev_cursor (rt_events r) = [?c - ?n .. ?c - 1]" and n: "?n < ?c"
    and one: "rt_events r = [] \<longrightarrow> ?c = 1" and len: "length (rt_events r) \<le> event_limit st"
    using ok by (simp_all add: events_ok_def)
  have set: "ev_cursor ` set (rt_events r) = {?c - ?n .. ?c - 1}"
    using arg_cong [OF cur, of set] by simp
  have hd: "ev_cursor (hd (rt_events r)) = ?c - ?n" if "rt_events r \<noteq> []"
    using that cur n by (cases "rt_events r") (auto simp: upto_rec1)
  have "length (filter (\<lambda>e. after < ev_cursor e) (rt_events r)) < Suc (event_limit st)"
    using len by (meson le_imp_less_Suc le_trans length_filter_le)
  note a = read_pages_filter [OF ok assms(2,4,3) this]
  have ev: "events st sid (JInt after) (JInt limit) = Inr (page_of (rt_events r) after (nat limit))"
    using assms(3,4) by (simp add: events_def get_session_def assms(2))
  have "page_truncated (page_of (rt_events r) after (nat limit)) \<longleftrightarrow>
      (\<exists>c. after < c \<and> 0 < c \<and> c < ?c \<and> c \<notin> ev_cursor ` set (rt_events r))"
  proof (cases "rt_events r")
    case Nil
    then show ?thesis using one by (auto simp: page_of_def Let_def)
  next
    case (Cons e es)
    then have e: "ev_cursor e = ?c - ?n" using hd by simp
    have "page_truncated (page_of (rt_events r) after (nat limit)) \<longleftrightarrow> after < ?c - ?n - 1"
      using Cons e by (simp add: page_of_def Let_def)
    also have "\<dots> \<longleftrightarrow> (\<exists>c. after < c \<and> 0 < c \<and> c < ?c \<and> c \<notin> {?c - ?n .. ?c - 1})"
    proof
      assume "after < ?c - ?n - 1"
      with assms(3) n show "\<exists>c. after < c \<and> 0 < c \<and> c < ?c \<and> c \<notin> {?c - ?n .. ?c - 1}"
        by (intro exI [of _ "?c - ?n - 1"]) auto
    qed auto
    finally show ?thesis unfolding set .
  qed
  with a ev show ?thesis by blast
qed

section \<open>A notification whose error detail is refused\<close>

definition completed_with_actions :: "string \<Rightarrow> string \<Rightarrow> json_object" where
  "completed_with_actions thread tid = [(''method'', JStr ''turn/completed''), (''params'', JObj
     [(''threadId'', JStr thread), (''turn'', JObj [(''id'', JStr tid), (''status'', JStr ''failed''),
        (''error'', JObj [(''next_actions'', JStr ''retry'')])])])]"

text \<open>
  A turn/completed notification with a malformed next_actions raises before it changes anything, so the turn stays active.
\<close>

theorem refused_error_detail_leaves_turn_active:
  assumes inv: "store_inv st" and r: "dget (sessions st) sid = Some r"
    and act: "rt_active r = Some tid"
  shows "(\<exists>m. on_notification rep st (JObj (completed_with_actions (sr_thread_id (rt_record r)) tid))
            = Inl (ValueError m))
    \<and> run rep st [Notify (completed_with_actions (sr_thread_id (rt_record r)) tid)] = (st, [])
    \<and> require_idle st sid \<noteq> Inr ()"
proof -
  obtain m where "mk_error_detail ''codex_turn_failed'' None (Some [(''next_actions'', JStr ''retry'')])
      = Inl (ValueError m)"
    by (auto simp: mk_error_detail_def as_list_def)
  then have "notify_commit rep st (completed_with_actions (sr_thread_id (rt_record r)) tid)
      = Inl (ValueError m)"
    using r store_invD(4) [OF inv r] act
    by (simp add: notify_commit_def completed_with_actions_def session_methods_def jget_def
        message_thread_id_def by_thread_def notify_session_def notify_completed_def turn_error_def)
  then show ?thesis
    using act r
    by (auto simp: on_notification_def completed_with_actions_def jget_def require_idle_def
        get_session_def require_attached_def start_busy_def)
qed

end
