(* ===== verification/RuntimeWitness.thy ===== *)
theory RuntimeWitness
  imports RuntimeProps
begin

text \<open>
  The properties of RuntimeProps at concrete stores: one worker attached to an empty store,
  then notifications, a reservation and waits on it.
\<close>

definition demo_worker :: session_record where
  "demo_worker = \<lparr>sr_session_id = ''s'', sr_thread_id = ''t'', sr_cwd = ''/w'', sr_created_at = ''n'',
     sr_updated_at = ''n'', sr_name = None, sr_model = None, sr_effort = None, sr_tier = None,
     sr_access = None, sr_config = None\<rparr>"

abbreviation no_rep :: "json \<Rightarrow> string" where
  "no_rep \<equiv> \<lambda>_. []"

definition empty_store :: runtime_store where
  "empty_store = \<lparr>event_limit = 4, sessions = [], thread_sessions = [], observers = []\<rparr>"

definition demo_store :: runtime_store where
  "demo_store = \<lparr>event_limit = 4, sessions = [(''s'', new_session demo_worker)],
     thread_sessions = [(''t'', ''s'')], observers = []\<rparr>"

lemma empty_store: "mk_runtime_store (JInt 4) = Inr empty_store"
  by (simp add: mk_runtime_store_def empty_store_def as_int_def)

lemma demo_attach: "run no_rep empty_store [Attach demo_worker] = (demo_store, [])"
  by (simp add: attach_def demo_store_def empty_store_def demo_worker_def Let_def)

lemma demo_inv: "store_inv demo_store"
  by (rule run_inv [OF mk_runtime_store_inv [OF empty_store] demo_attach])

text \<open>The reservation, a notification in between, and the second reservation.\<close>

definition reserved_store :: runtime_store where
  "reserved_store = put_session demo_store ''s''
     ((new_session demo_worker)\<lparr>rt_start_pending := True, rt_awaiting := True, rt_observed := None\<rparr>)"

lemma demo_reserve: "reserve_start demo_store ''s'' = Inr reserved_store"
  by (simp add: reserve_start_def get_session_def demo_store_def reserved_store_def require_attached_def
      start_busy_def new_session_def)

lemma reserved_inv: "store_inv reserved_store"
  by (rule store_inv_reserve [OF demo_inv demo_reserve])

definition reserved_session :: session_runtime where
  "reserved_session = (new_session demo_worker)\<lparr>rt_start_pending := True, rt_awaiting := True, rt_observed := None\<rparr>"

lemma reserved_session: "dget (sessions reserved_store) ''s'' = Some reserved_session"
  by (simp add: reserved_store_def reserved_session_def demo_store_def put_session_def)

lemma reserved_fields [simp]:
  "rt_awaiting reserved_session" "rt_observed reserved_session = None" "rt_active reserved_session = None"
  "rt_published reserved_session = []" "rt_attached reserved_session" "rt_latest reserved_session = None"
  "sr_thread_id (rt_record reserved_session) = ''t''"
  by (simp_all add: reserved_session_def new_session_def demo_worker_def)

lemma reserve_start_exclusive_witness:
  "reserve_start (fst (run no_rep reserved_store
      [Notify (turn_message ''turn/started'' ''t'' ''u''), Notify (turn_message ''turn/completed'' ''t'' ''u'')])) ''s''
    = Inl (TurnActive ''session already has an active or pending turn'')"
  by (rule reserve_start_exclusive [OF demo_inv demo_reserve prod.collapse [symmetric]])
     (simp add: ends_reservation_def)

abbreviation demo_actions :: "action list" where
  "demo_actions \<equiv> [Attach demo_worker, Notify (turn_message ''turn/completed'' ''t'' ''u''),
     Notify (turn_message ''turn/completed'' ''t'' ''u''), Notify (turn_message ''turn/completed'' ''t'' ''v'')]"

lemma demo_published: "pub_ids ''s'' (snd (run no_rep empty_store demo_actions)) = [''u'', ''v'']"
  by code_simp


lemma start_order_irrelevant_witness:
  "snd (reconcile_start reserved_store ''s'' (JStr ''u'')) = Inr ()"
  using start_order_irrelevant [OF reserved_inv reserved_session, of "''u''" no_rep] by simp

lemma terminal_before_response_witness:
  "require_idle (fst (run no_rep reserved_store [Notify (turn_message ''turn/completed'' ''t'' ''u''),
     Started ''s'' (JStr ''u'')])) ''s'' = Inr ()"
  using terminal_before_response [OF reserved_inv reserved_session, of "''u''" no_rep, OF _ _ _ _ _ prod.collapse [symmetric]]
  by simp

lemma wait_ends_by_deadline_witness:
  "wait demo_store ''s'' (Some 5) None 10 [(12, reserved_session), (15, reserved_session)] \<noteq> None"
  by (rule wait_ends_by_deadline [where t = 15 and r = reserved_session]) simp_all

lemma paging_loses_nothing_witness:
  "read_pages 5 demo_store ''s'' 0 1 = []"
  using paging_loses_nothing [OF demo_inv, of "''s''" "new_session demo_worker" 0 1]
  by (simp add: demo_store_def new_session_def eval_nat_numeral)

text \<open>A first publication, kept while another turn ends.\<close>

abbreviation completed_u :: json_object where
  "completed_u \<equiv> turn_message ''turn/completed'' ''t'' ''u''"

definition snapshot_u :: turn_snapshot where
  "snapshot_u = \<lparr>ts_turn_id = ''u'', ts_status = ''completed'', ts_error = None, ts_items = []\<rparr>"

lemma demo_commit: "\<exists>st1. notify_commit no_rep demo_store completed_u = Inr (st1, [(''s'', snapshot_u)])"
proof -
  have "(case notify_commit no_rep demo_store completed_u of Inr (_, p) \<Rightarrow> p = [(''s'', snapshot_u)] | _ \<Rightarrow> False)"
    by code_simp
  then show ?thesis by (auto split: sum.splits)
qed

lemma publishing_snapshot_available_witness:
  "\<exists>st1 s'. notify_commit no_rep demo_store completed_u = Inr (st1, [(''s'', snapshot_u)])
    \<and> terminal_snapshot (fst (run no_rep st1 [Notify (turn_message ''turn/completed'' ''t'' ''v'')])) ''s'' ''u'' = Inr (Some s')
    \<and> ts_turn_id s' = ''u''"
proof -
  obtain st1 where st1: "notify_commit no_rep demo_store completed_u = Inr (st1, [(''s'', snapshot_u)])"
    using demo_commit by blast
  show ?thesis
    using publishing_snapshot_available [OF demo_inv st1 prod.collapse [symmetric],
        of "[Notify (turn_message ''turn/completed'' ''t'' ''v'')]"] st1
    by (simp add: drops_def snapshot_u_def)
qed

text \<open>A session whose turn \<open>old\<close> is published while another start awaits its response.\<close>

definition old_session :: session_runtime where
  "old_session = reserved_session\<lparr>rt_published := [''old'']\<rparr>"

definition old_store :: runtime_store where
  "old_store = put_session reserved_store ''s'' old_session"

lemma old_inv: "store_inv old_store"
  by (simp add: store_inv_def old_store_def reserved_store_def old_session_def reserved_session_def demo_store_def
      put_session_def new_session_def demo_worker_def rt_inv_def terminals_ok_def published_ok_def events_ok_def
      start_ok_def)

lemma delayed_start_resurrects_while_awaiting_witness:
  "status (fst (run no_rep old_store [Notify (turn_message ''turn/started'' ''t'' ''old'')])) ''s''
    = Inr \<lparr>rs_attached = True, rs_active_turn_id = Some ''old'', rs_latest_turn = None\<rparr>"
  using delayed_start_resurrects_while_awaiting [OF old_inv, of "''s''" old_session "''old''" "''u''" no_rep,
      OF _ _ _ _ _ prod.collapse [symmetric]]
  by (simp add: old_store_def old_session_def put_session_def)

text \<open>A running turn.\<close>

definition active_session :: session_runtime where
  "active_session = (new_session demo_worker)\<lparr>rt_active := Some ''u''\<rparr>"

definition active_store :: runtime_store where
  "active_store = put_session demo_store ''s'' active_session"

lemma active_inv: "store_inv active_store"
  by (simp add: store_inv_def active_store_def active_session_def demo_store_def
      put_session_def new_session_def demo_worker_def rt_inv_def terminals_ok_def published_ok_def events_ok_def
      start_ok_def)

lemma refused_error_detail_leaves_turn_active_witness:
  "require_idle (fst (run no_rep active_store [Notify (completed_with_actions ''t'' ''u'')])) ''s'' \<noteq> Inr ()"
  using refused_error_detail_leaves_turn_active [OF active_inv, of "''s''" active_session "''u''" no_rep]
  by (simp add: active_store_def active_session_def put_session_def demo_store_def new_session_def demo_worker_def)

text \<open>A wait that finds the terminal turn at its second look.\<close>

definition finished_session :: session_runtime where
  "finished_session = (new_session demo_worker)\<lparr>rt_terminals := [(''u'', snapshot_u)], rt_latest := Some snapshot_u\<rparr>"

lemma finished_inv: "rt_inv 4 finished_session" "rt_inv 4 active_session"
  by (simp_all add: finished_session_def active_session_def snapshot_u_def
      new_session_def demo_worker_def rt_inv_def terminals_ok_def published_ok_def events_ok_def start_ok_def)

lemma wait_returns_requested_turn_witness:
  "wait demo_store ''s'' (Some 5) (Some ''u'') 10 [(11, active_session), (13, finished_session)] = Some (Inr snapshot_u)
    \<and> (\<exists>(_, r) \<in> {(11::int, active_session), (13, finished_session)}. rt_active r \<noteq> Some ''u''
        \<and> dget (rt_terminals r) ''u'' = Some snapshot_u)"
proof -
  have w: "wait demo_store ''s'' (Some 5) (Some ''u'') 10 [(11, active_session), (13, finished_session)] = Some (Inr snapshot_u)"
    by (simp add: wait_def get_session_def demo_store_def wait_blocked_def wait_result_def active_session_def
        finished_session_def new_session_def)
  show ?thesis using wait_returns_requested_turn [OF w, of 4] w finished_inv by simp
qed

text \<open>An idle thread, read back with one finished turn.\<close>

definition idle_thread :: json where
  "idle_thread = JObj [(''id'', JStr ''t''), (''status'', JObj [(''type'', JStr ''idle'')]),
     (''turns'', JList [JObj [(''id'', JStr ''u''), (''status'', JStr ''completed''), (''items'', JList []),
       (''error'', JNull)]])]"

lemma idle_reconciles: "\<exists>x. reconcile_thread demo_store idle_thread = Inr x"
proof -
  have "(case reconcile_thread demo_store idle_thread of Inr _ \<Rightarrow> True | _ \<Rightarrow> False)"
    by code_simp
  then show ?thesis by (auto split: sum.splits)
qed

lemma reconcile_thread_outcome_witness:
  "\<exists>st view pubs r. reconcile_thread demo_store idle_thread = Inr (st, view, pubs)
     \<and> dget (sessions st) ''s'' = Some r \<and> rt_attached r \<and> view = status_of r"
proof -
  obtain st view pubs where x: "reconcile_thread demo_store idle_thread = Inr (st, view, pubs)"
    using idle_reconciles by (metis prod_cases3)
  show ?thesis using reconcile_thread_outcome [OF demo_inv x] x
    by (auto simp: demo_store_def split: if_splits)
qed

end
