(* ===== verification/Gate.thy ===== *)
theory Gate
  imports Faults
begin

text \<open>
  \<open>websocket_gateway.ServiceMaintenanceGate\<close>: the gate that keeps mutations out of a
  maintenance drain. The operations of one acquisition of its condition are definitions; a
  \<open>with\<close> block over \<open>mutation\<close> is \<open>enter_mutation\<close> before the body and \<open>exit_mutation\<close>
  after it, a drain is \<open>drain_begin\<close>, \<open>drain_issue\<close> and \<open>drain_end\<close>. Waiting on the condition is
  an operation that is not enabled yet (\<open>None\<close>). All threads together are the step relation
  \<open>gate_step\<close>.

  A lease is identified by its serial number; the identity of the gate's token is \<open>gate_token\<close>.
\<close>

section \<open>State and operations\<close>

record drain_lease =
  lease_id :: nat
  lease_token :: nat
  lease_forced :: bool

record gate =
  gate_token :: nat
  draining :: bool
  active_mutations :: int
  current_lease :: "nat option"
  live_leases :: "nat set"
  next_lease :: nat

definition new_gate :: "nat \<Rightarrow> gate" where
  "new_gate token = \<lparr>gate_token = token, draining = False, active_mutations = 0,
     current_lease = None, live_leases = {}, next_lease = 0\<rparr>"

definition enter_mutation :: "gate \<Rightarrow> string \<Rightarrow> (exn, gate) res" where
  "enter_mutation g method =
     (if method = [] then Inl (ValueError ''mutation method must be non-empty'')
      else if draining g then Inl (ServiceBusyError method)
      else Inr (g\<lparr>active_mutations := active_mutations g + 1\<rparr>))"

definition exit_mutation :: "gate \<Rightarrow> gate \<times> (exn, unit) res" where
  "exit_mutation g =
     (let g' = g\<lparr>active_mutations := active_mutations g - 1\<rparr> in
      if active_mutations g' < 0
      then (g', Inl (AssertionError ''maintenance mutation accounting underflow''))
      else (g', Inr ()))"

text \<open>The first wait of \<open>drain\<close> ends when no other drain is in progress.\<close>

definition drain_begin :: "gate \<Rightarrow> gate option" where
  "drain_begin g = (if draining g then None else Some (g\<lparr>draining := True\<rparr>))"

text \<open>The second wait ends when no mutation is active; a forced drain does not wait.\<close>

definition drain_issue :: "gate \<Rightarrow> bool \<Rightarrow> (drain_lease \<times> gate) option" where
  "drain_issue g force =
     (if active_mutations g \<noteq> 0 \<and> \<not> force then None
      else (let l = \<lparr>lease_id = next_lease g, lease_token = gate_token g, lease_forced = force\<rparr>
            in Some (l, g\<lparr>current_lease := Some (lease_id l),
                          live_leases := insert (lease_id l) (live_leases g),
                          next_lease := Suc (next_lease g)\<rparr>)))"

definition drain_end :: "gate \<Rightarrow> drain_lease \<Rightarrow> gate" where
  "drain_end g l =
     (let g1 = (if current_lease g = Some (lease_id l) then g\<lparr>current_lease := None\<rparr> else g)
      in g1\<lparr>live_leases := live_leases g1 - {lease_id l}, draining := False\<rparr>)"

definition authorize :: "gate \<Rightarrow> drain_lease \<Rightarrow> (exn, unit) res" where
  "authorize g l =
     (if lease_token l \<noteq> gate_token g \<or> lease_id l \<notin> live_leases g
         \<or> current_lease g \<noteq> Some (lease_id l) \<or> \<not> draining g
         \<or> active_mutations g \<noteq> 0 \<and> \<not> lease_forced l
      then Inl (PermissionError ''a live drain lease from this maintenance gate is required'')
      else Inr ())"

section \<open>A gate as an interface\<close>

text \<open>
  What a caller of \<open>with gate.mutation(method)\<close> relies on: entering is refused while draining
  and counts one, leaving a counted mutation succeeds and gives the count back.
\<close>

locale mutation_gate =
  fixes enter :: "'g \<Rightarrow> string \<Rightarrow> exn + 'g"
    and leave :: "'g \<Rightarrow> 'g \<times> (exn + unit)"
    and count :: "'g \<Rightarrow> int"
    and closed :: "'g \<Rightarrow> bool"
  assumes enter_ok: "enter g m = Inr g' \<Longrightarrow> \<not> closed g \<and> \<not> closed g' \<and> count g' = count g + 1"
    and enter_open: "\<not> closed g \<Longrightarrow> m \<noteq> [] \<Longrightarrow> \<exists>g'. enter g m = Inr g'"
    and enter_closed: "closed g \<Longrightarrow> m \<noteq> [] \<Longrightarrow> enter g m = Inl (ServiceBusyError m)"
    and leave_ok: "0 < count g \<Longrightarrow>
      \<exists>g'. leave g = (g', Inr ()) \<and> count g' = count g - 1 \<and> closed g' = closed g"
begin

text \<open>Leaving \<open>n\<close> counted mutations one after the other.\<close>

fun leave_many :: "nat \<Rightarrow> 'g \<Rightarrow> 'g \<times> (exn + unit)" where
  "leave_many 0 g = (g, Inr ())"
| "leave_many (Suc n) g = (case leave g of (g', Inl e) \<Rightarrow> (g', Inl e)
     | (g', Inr _) \<Rightarrow> leave_many n g')"

lemma leave_many_ok:
  "int n \<le> count g \<Longrightarrow>
     \<exists>g'. leave_many n g = (g', Inr ()) \<and> count g' = count g - int n \<and> closed g' = closed g"
proof (induction n arbitrary: g)
  case (Suc n)
  then have "0 < count g" by simp
  from leave_ok [OF this] obtain g1 where g1: "leave g = (g1, Inr ())"
    "count g1 = count g - 1" "closed g1 = closed g" by blast
  with Suc.IH [of g1] Suc.prems show ?case by auto
qed simp

text \<open>A bracketed body that restores the count leaves the gate as it found it.\<close>

lemma bracket_ok:
  assumes "enter g m = Inr g1" "count g2 = count g1" "0 \<le> count g"
  shows "\<exists>g3. leave g2 = (g3, Inr ()) \<and> count g3 = count g \<and> closed g3 = closed g2"
  using enter_ok [OF assms(1)] leave_ok [of g2] assms(2,3) by auto

end

interpretation mg: mutation_gate enter_mutation exit_mutation active_mutations draining
  by unfold_locales
     (auto simp: enter_mutation_def exit_mutation_def Let_def split: if_splits)

text \<open>\<open>with gate.mutation(method): body\<close> for a body over the gate and a state of its own.\<close>

definition with_mutation :: "gate \<Rightarrow> string \<Rightarrow> (gate \<Rightarrow> gate \<times> 's \<times> (exn, 'a) res) \<Rightarrow>
    's \<Rightarrow> gate \<times> 's \<times> (exn, 'a) res" where
  "with_mutation g method body s = (case enter_mutation g method of
     Inl e \<Rightarrow> (g, s, Inl e)
   | Inr g1 \<Rightarrow> (let (g2, s', r) = body g1; (g3, left) = exit_mutation g2
       in (g3, s', case left of Inl e \<Rightarrow> Inl e | Inr _ \<Rightarrow> r)))"

section \<open>All threads: the step relation\<close>

text \<open>
  Beside the gate, \<open>mutators\<close> counts the bodies of \<open>with mutation\<close> that are running and
  \<open>drainer\<close> is the thread between the two ends of a drain, if any; other drains wait at
  \<open>drain_begin\<close>. \<open>issued\<close> are the leases handed out so far.
\<close>

datatype drain_phase = Idle | Waiting bool | Holding drain_lease

record gate_system =
  gs_gate :: gate
  mutators :: nat
  drainer :: drain_phase
  issued :: "drain_lease list"

inductive gate_step :: "gate_system \<Rightarrow> gate_system \<Rightarrow> bool" where
  step_enter: "enter_mutation (gs_gate s) m = Inr g
    \<Longrightarrow> gate_step s (s\<lparr>gs_gate := g, mutators := Suc (mutators s)\<rparr>)"
| step_exit: "mutators s = Suc n \<Longrightarrow> exit_mutation (gs_gate s) = (g, r)
    \<Longrightarrow> gate_step s (s\<lparr>gs_gate := g, mutators := n\<rparr>)"
| step_begin: "drain_begin (gs_gate s) = Some g
    \<Longrightarrow> gate_step s (s\<lparr>gs_gate := g, drainer := Waiting force\<rparr>)"
| step_issue: "drainer s = Waiting force \<Longrightarrow> drain_issue (gs_gate s) force = Some (l, g)
    \<Longrightarrow> gate_step s (s\<lparr>gs_gate := g, drainer := Holding l, issued := l # issued s\<rparr>)"
| step_abandon: "drainer s = Holding l
    \<Longrightarrow> gate_step s (s\<lparr>gs_gate := drain_end (gs_gate s) l, drainer := Idle\<rparr>)"

inductive_cases gate_stepE: "gate_step s s'"

definition initial_system :: "nat \<Rightarrow> gate_system" where
  "initial_system token = \<lparr>gs_gate = new_gate token, mutators = 0, drainer = Idle, issued = []\<rparr>"

definition gate_reachable :: "nat \<Rightarrow> gate_system \<Rightarrow> bool" where
  "gate_reachable token s \<longleftrightarrow> gate_step\<^sup>*\<^sup>* (initial_system token) s"

lemma gate_reachable_induct [consumes 1, case_names init step]:
  assumes "gate_reachable token s" "P (initial_system token)"
    "\<And>s s'. gate_reachable token s \<Longrightarrow> P s \<Longrightarrow> gate_step s s' \<Longrightarrow> P s'"
  shows "P s"
proof -
  have "gate_step\<^sup>*\<^sup>* (initial_system token) s" using assms(1) by (simp add: gate_reachable_def)
  then show ?thesis
  proof (induction rule: rtranclp_induct)
    case (step y z)
    then show ?case using assms(3) [of y z] by (simp add: gate_reachable_def)
  qed (rule assms(2))
qed

definition gate_inv :: "nat \<Rightarrow> gate_system \<Rightarrow> bool" where
  "gate_inv token s \<longleftrightarrow> (let g = gs_gate s in
     gate_token g = token \<and> active_mutations g = int (mutators s)
     \<and> (\<forall>l \<in> set (issued s). lease_id l < next_lease g)
     \<and> (case drainer s of
          Idle \<Rightarrow> \<not> draining g \<and> current_lease g = None \<and> live_leases g = {}
        | Waiting force \<Rightarrow> draining g \<and> current_lease g = None \<and> live_leases g = {}
        | Holding l \<Rightarrow> draining g \<and> current_lease g = Some (lease_id l)
            \<and> live_leases g = {lease_id l} \<and> lease_token l = token \<and> l \<in> set (issued s)
            \<and> (\<not> lease_forced l \<longrightarrow> mutators s = 0)))
     \<and> distinct (map lease_id (issued s))"

lemmas gate_defs = enter_mutation_def exit_mutation_def drain_begin_def drain_issue_def
  drain_end_def Let_def

lemma gate_inv_init: "gate_inv token (initial_system token)"
  by (simp add: gate_inv_def initial_system_def new_gate_def)

lemma gate_inv_step:
  assumes "gate_inv token s" "gate_step s s'" shows "gate_inv token s'"
  using assms(2)
proof cases
  case (step_enter m g)
  with assms(1) show ?thesis
    by (auto simp: gate_inv_def gate_defs split: if_splits drain_phase.splits)
next
  case (step_exit n g r)
  with assms(1) show ?thesis
    by (auto simp: gate_inv_def gate_defs split: if_splits drain_phase.splits)
next
  case (step_begin g force)
  with assms(1) show ?thesis
    by (auto simp: gate_inv_def gate_defs split: if_splits drain_phase.splits)
next
  case (step_issue force l g)
  with assms(1) show ?thesis
    by (auto simp: gate_inv_def gate_defs split: if_splits)
next
  case (step_abandon l)
  with assms(1) show ?thesis
    by (auto simp: gate_inv_def gate_defs)
qed

lemma gate_reachable_inv: "gate_reachable token s \<Longrightarrow> gate_inv token s"
  by (induction rule: gate_reachable_induct) (auto intro: gate_inv_init gate_inv_step)

text \<open>
  C19. No lost mutation and no second maintainer. In every reachable state the counter is the
  number of running mutation bodies, so leaving one never underflows; while a lease is held
  no mutation can enter, and, unless the drain was forced, none is running.
\<close>

theorem gate_excludes_mutations:
  assumes "gate_reachable token s"
  shows "active_mutations (gs_gate s) = int (mutators s)
    \<and> (0 < mutators s \<longrightarrow> snd (exit_mutation (gs_gate s)) = Inr ())
    \<and> (\<forall>l. drainer s = Holding l \<longrightarrow> authorize (gs_gate s) l = Inr ()
          \<and> (\<forall>m. m \<noteq> [] \<longrightarrow> enter_mutation (gs_gate s) m = Inl (ServiceBusyError m))
          \<and> (\<not> lease_forced l \<longrightarrow> mutators s = 0))"
  using gate_reachable_inv [OF assms]
  by (auto simp: gate_inv_def Let_def exit_mutation_def authorize_def enter_mutation_def)

text \<open>
  A lease authorizes only while it is held. A lease issued by the gate whose drain has ended,
  or that was superseded by a later drain, is refused.
\<close>

theorem stale_lease_refused:
  assumes "gate_reachable token s" "l \<in> set (issued s)" "drainer s \<noteq> Holding l"
  shows "authorize (gs_gate s) l = Inl (PermissionError
    ''a live drain lease from this maintenance gate is required'')"
proof -
  have inv: "gate_inv token s" by (rule gate_reachable_inv [OF assms(1)])
  show ?thesis
  proof (cases "drainer s")
    case (Holding k)
    with inv have k: "k \<in> set (issued s)" "current_lease (gs_gate s) = Some (lease_id k)"
      "distinct (map lease_id (issued s))"
      by (auto simp: gate_inv_def Let_def)
    have "k \<noteq> l" using Holding assms(3) by auto
    then have "lease_id k \<noteq> lease_id l" using k assms(2) by (metis distinct_map inj_on_eq_iff)
    with k(2) show ?thesis by (simp add: authorize_def)
  qed (use inv in \<open>auto simp: gate_inv_def Let_def authorize_def\<close>)
qed

text \<open>
  a drain is never starved by the mutations that were running when it began: from any
  reachable waiting state, leaving the running mutations, and nothing else, issues its lease.
\<close>

inductive mutators_leave :: "gate_system \<Rightarrow> gate_system \<Rightarrow> bool" where
  "mutators s = Suc n \<Longrightarrow> exit_mutation (gs_gate s) = (g, Inr ())
    \<Longrightarrow> mutators_leave s (s\<lparr>gs_gate := g, mutators := n\<rparr>)"

text \<open>
  From any reachable waiting state, leaving the running mutations, and nothing else, issues the drain's lease.
\<close>

theorem drain_reaches_lease:
  assumes "gate_reachable token s" "drainer s = Waiting force"
  shows "\<exists>t l g. mutators_leave\<^sup>*\<^sup>* s t \<and> mutators t = 0 \<and> drainer t = Waiting force
    \<and> drain_issue (gs_gate t) force = Some (l, g) \<and> authorize g l = Inr ()
    \<and> (force \<longrightarrow> drain_issue (gs_gate s) True \<noteq> None)"
proof -
  have "\<exists>t. mutators_leave\<^sup>*\<^sup>* s t \<and> mutators t = 0 \<and> drainer t = Waiting force \<and> gate_inv token t"
    if "gate_inv token s" "drainer s = Waiting force" for s
    using that
  proof (induction "mutators s" arbitrary: s)
    case (Suc n)
    obtain g where g: "exit_mutation (gs_gate s) = (g, Inr ())"
      using Suc.hyps(2) [symmetric] Suc.prems by (simp add: gate_inv_def exit_mutation_def Let_def)
    let ?t = "s\<lparr>gs_gate := g, mutators := n\<rparr>"
    have step: "mutators_leave s ?t" using Suc.hyps(2) g by (intro mutators_leave.intros) auto
    have "gate_inv token ?t"
      by (rule gate_inv_step [OF Suc.prems(1)], rule step_exit) (use Suc.hyps(2) g in auto)
    then obtain t where "mutators_leave\<^sup>*\<^sup>* ?t t" "mutators t = 0" "drainer t = Waiting force"
      "gate_inv token t"
      using Suc.hyps(1) [of ?t] Suc.prems by auto
    with step show ?case by (meson converse_rtranclp_into_rtranclp)
  qed auto
  from this [OF gate_reachable_inv [OF assms(1)] assms(2)]
  obtain t where t: "mutators_leave\<^sup>*\<^sup>* s t" "mutators t = 0" "drainer t = Waiting force"
    "gate_inv token t" by blast
  then show ?thesis
    by (intro exI [of _ t])
       (auto simp: gate_inv_def Let_def drain_issue_def authorize_def)
qed

end
