(* ===== verification/Transport.thy ===== *)
theory Transport
  imports Models
begin

text \<open>
  \<open>websocket_transport.py\<close>: the convenience methods of \<open>CodexMethodAdapter\<close> over a call, and
  \<open>CodexConnection\<close>: correlation of responses, the retry of reads, dispatch of incoming
  messages, the approval queue, and the failure of the transport. Each statement sequence
  under the state lock is one definition over \<open>conn\<close>; \<open>conn_exec\<close> interleaves the threads.

  Parameters: the JSON encoder and the socket's send, the notification observer and the
  approval handler (record \<open>conn_env\<close>), and the JSON reader of received frames. The identity of
  a waiter's queue is its request number; \<open>c_mail\<close> holds what was put into the queues, \<open>c_sent\<close>
  the messages handed to the socket and \<open>c_emitted\<close> those passed to the observer.
\<close>

section \<open>Constants\<close>

definition MAX_FRAME_BYTES :: nat where "MAX_FRAME_BYTES = 4 * 1024 * 1024"
definition MAX_INCOMING_QUEUE :: nat where "MAX_INCOMING_QUEUE = 16"
definition MAX_READ_RETRIES :: nat where "MAX_READ_RETRIES = 2"
definition MAX_INITIALIZE_RECONNECTS :: nat where "MAX_INITIALIZE_RECONNECTS = 1"
definition OVERLOAD_CODE :: int where "OVERLOAD_CODE = -32001"

definition IDEMPOTENT_READ_METHODS :: "string list" where
  "IDEMPOTENT_READ_METHODS = [''account/rateLimits/read'', ''account/read'', ''account/usage/read'',
     ''account/workspaceMessages/read'', ''app/list'', ''app/read'', ''config/read'',
     ''configRequirements/read'', ''experimentalFeature/list'', ''hooks/list'',
     ''mcpServer/resource/read'', ''mcpServerStatus/list'', ''model/list'',
     ''modelProvider/capabilities/read'', ''permissionProfile/list'', ''plugin/list'',
     ''plugin/read'', ''plugin/share/list'', ''plugin/skill/read'', ''skills/list'',
     ''thread/goal/get'', ''thread/list'', ''thread/loaded/list'', ''thread/read'',
     ''thread/turns/list'']"

definition APPROVAL_METHODS :: "string list" where
  "APPROVAL_METHODS = [''item/commandExecution/requestApproval'', ''item/fileChange/requestApproval'',
     ''item/tool/requestUserInput'', ''item/permissions/requestApproval'']"

section \<open>Errors of a call\<close>

definition transport_error_of :: "json_object \<Rightarrow> exn" where
  "transport_error_of details = CodexCallError ''transport_error'' ''transport'' (Some details)"

definition error_from_response :: "(json \<Rightarrow> string) \<Rightarrow> string \<Rightarrow> json \<Rightarrow> exn" where
  "error_from_response rep method error =
     (let details = (case as_obj error of Some d \<Rightarrow> d
            | None \<Rightarrow> [(''message'', JStr (py_str rep error))]);
          kind = (if eq_int (jget details ''code'') OVERLOAD_CODE
                  then ''upstream_busy'' else ''upstream_error'')
      in CodexCallError kind method (Some details))"

definition protocol_error :: "string \<Rightarrow> string \<Rightarrow> exn" where
  "protocol_error method message =
     CodexCallError ''protocol_error'' method (Some [(''message'', JStr message)])"

section \<open>Approvals\<close>

definition file_or_command :: "string \<Rightarrow> bool" where
  "file_or_command m \<longleftrightarrow> m \<in> {''item/commandExecution/requestApproval'',
     ''item/fileChange/requestApproval''}"

definition default_approval_response :: "string \<Rightarrow> json_object" where
  "default_approval_response method =
     (if file_or_command method then [(''decision'', JStr ''decline'')]
      else if method = ''item/tool/requestUserInput'' then [(''answers'', JObj [])]
      else if method = ''item/permissions/requestApproval'' then [(''permissions'', JObj [])]
      else [])"

definition is_decline :: "string \<Rightarrow> json_object \<Rightarrow> bool" where
  "is_decline method result =
     (if file_or_command method
      then jget result ''decision'' \<in> {JStr ''decline'', JStr ''cancel''}
      else if method = ''item/tool/requestUserInput'' then \<not> truthy (jget result ''answers'')
      else if method = ''item/permissions/requestApproval'' then \<not> truthy (jget result ''permissions'')
      else True)"

lemma default_is_decline: "is_decline m (default_approval_response m)"
  by (simp add: is_decline_def default_approval_response_def truthy_def)

section \<open>Convenience methods\<close>

type_synonym codex_call = "string \<Rightarrow> json_object \<Rightarrow> (exn, json_object) res"

definition opt_field :: "string \<Rightarrow> json option \<Rightarrow> json_object" where
  "opt_field k v = (case v of None \<Rightarrow> [] | Some x \<Rightarrow> [(k, x)])"

definition list_models :: "codex_call \<Rightarrow> (exn, json_object list) res" where
  "list_models call = ebind (call ''model/list'' []) (\<lambda>r.
     let data = (case dget r ''data'' of None \<Rightarrow> JList [] | Some v \<Rightarrow> v);
         bad = protocol_error ''model/list'' ''data must be a list''
     in case as_list data of None \<Rightarrow> Inl bad
        | Some xs \<Rightarrow> if list_ex (\<lambda>v. as_obj v = None) xs then Inl bad
                     else Inr (map (\<lambda>v. the (as_obj v)) xs))"

definition start_thread :: "codex_call \<Rightarrow> string \<Rightarrow> string option \<Rightarrow> string \<Rightarrow> bool option \<Rightarrow>
    json_object option \<Rightarrow> (exn, json_object) res" where
  "start_thread call cwd model sandbox fallback config = call ''thread/start''
     ([(''cwd'', JStr cwd), (''approvalPolicy'', JStr ''never''), (''sandbox'', JStr sandbox),
       (''serviceName'', JStr ''superdev_codex_worker'')]
      @ opt_field ''model'' (map_option JStr model)
      @ opt_field ''allowProviderModelFallback'' (map_option JBool fallback)
      @ opt_field ''config'' (map_option JObj config))"

definition resume_thread :: "codex_call \<Rightarrow> string \<Rightarrow> string \<Rightarrow> string \<Rightarrow> json_object option \<Rightarrow>
    (exn, json_object) res" where
  "resume_thread call thread_id approval_policy sandbox config = call ''thread/resume''
     ([(''threadId'', JStr thread_id), (''approvalPolicy'', JStr approval_policy),
       (''sandbox'', JStr sandbox)] @ opt_field ''config'' (map_option JObj config))"

definition text_input :: "string \<Rightarrow> json" where
  "text_input prompt = JList [JObj [(''type'', JStr ''text''), (''text'', JStr prompt)]]"

definition start_turn :: "codex_call \<Rightarrow> string \<Rightarrow> string \<Rightarrow> string option \<Rightarrow> string option \<Rightarrow>
    json_object option \<Rightarrow> json_object option \<Rightarrow> (exn, string) res" where
  "start_turn call thread_id prompt model effort sandbox_policy output_schema =
     ebind (call ''turn/start''
       ([(''threadId'', JStr thread_id), (''input'', text_input prompt)]
        @ opt_field ''model'' (map_option JStr model)
        @ opt_field ''effort'' (map_option JStr effort)
        @ opt_field ''sandboxPolicy'' (map_option JObj sandbox_policy)
        @ opt_field ''outputSchema'' (map_option JObj output_schema)))
     (\<lambda>result. case as_obj (jget result ''turn'') of
        None \<Rightarrow> Inl (protocol_error ''turn/start'' ''missing turn id'')
      | Some turn \<Rightarrow> (case as_str (jget turn ''id'') of
          None \<Rightarrow> Inl (protocol_error ''turn/start'' ''missing turn id'')
        | Some i \<Rightarrow> Inr i))"

definition steer :: "codex_call \<Rightarrow> string \<Rightarrow> string \<Rightarrow> string \<Rightarrow> (exn, string) res" where
  "steer call thread_id turn_id prompt =
     ebind (call ''turn/steer'' [(''threadId'', JStr thread_id), (''expectedTurnId'', JStr turn_id),
        (''input'', text_input prompt)])
     (\<lambda>result. case as_str (jget result ''turnId'') of
        None \<Rightarrow> Inl (protocol_error ''turn/steer'' ''missing turn id'')
      | Some i \<Rightarrow> Inr i)"

definition interrupt :: "codex_call \<Rightarrow> string \<Rightarrow> string \<Rightarrow> (exn, unit) res" where
  "interrupt call thread_id turn_id =
     ebind (call ''turn/interrupt'' [(''threadId'', JStr thread_id), (''turnId'', JStr turn_id)])
       (\<lambda>_. Inr ())"

section \<open>Envelopes\<close>

text \<open>\<open>isinstance(v, (int, str)) and not isinstance(v, bool)\<close>.\<close>

definition is_request_id :: "json \<Rightarrow> bool" where
  "is_request_id v = (case v of JInt _ \<Rightarrow> True | JStr _ \<Rightarrow> True | _ \<Rightarrow> False)"

definition version_ok :: "json_object \<Rightarrow> bool" where
  "version_ok m \<longleftrightarrow> (\<not> dhas m ''jsonrpc'' \<or> jget m ''jsonrpc'' = JStr ''2.0'')"

definition is_jsonrpc_response_envelope :: "json \<Rightarrow> bool" where
  "is_jsonrpc_response_envelope value = (case as_obj value of
     None \<Rightarrow> False
   | Some m \<Rightarrow> \<not> dhas m ''method'' \<and> is_request_id (jget m ''id'') \<and> version_ok m
       \<and> (dhas m ''result'' \<noteq> dhas m ''error'')
       \<and> (dhas m ''error'' \<longrightarrow> as_obj (jget m ''error'') \<noteq> None))"

section \<open>Connection state\<close>

datatype reply = Message json_object | Broken exn

record conn =
  c_closed :: bool
  c_close_error :: "exn option"
  c_socket :: "nat option"
  c_next_id :: int
  c_pending :: "int list"
  c_mail :: "(int, reply) dict"
  c_approvals :: "json_object option list"
  c_diagnostics :: "string list"
  c_sent :: "json_object list"
  c_emitted :: "json_object list"

definition new_conn :: conn where
  "new_conn = \<lparr>c_closed = False, c_close_error = None, c_socket = None, c_next_id = 1,
     c_pending = [], c_mail = [], c_approvals = [], c_diagnostics = [], c_sent = [],
     c_emitted = []\<rparr>"

record conn_env =
  dumps :: "json_object \<Rightarrow> string option"
  send_raises :: "json_object \<Rightarrow> string option"
  observer_raises :: "json_object \<Rightarrow> bool"
  approval_handler :: "(json_object \<Rightarrow> json option) option"
  repr :: "json \<Rightarrow> string"

definition emit_notification :: "conn_env \<Rightarrow> conn \<Rightarrow> json_object \<Rightarrow> conn" where
  "emit_notification env c m =
     (let c1 = c\<lparr>c_emitted := c_emitted c @ [m]\<rparr>
      in if observer_raises env m
         then c1\<lparr>c_diagnostics := c_diagnostics c1 @ [''notification observer raised'']\<rparr> else c1)"

definition error_details :: "exn \<Rightarrow> json" where
  "error_details e = (case e of CodexCallError _ _ (Some d) \<Rightarrow> JObj d | _ \<Rightarrow> JNull)"

definition fail_transport :: "conn_env \<Rightarrow> conn \<Rightarrow> exn \<Rightarrow> conn" where
  "fail_transport env c error =
     (if c_closed c then c
      else (let c1 = c\<lparr>c_closed := True, c_close_error := Some error, c_pending := [],
                       c_socket := None,
                       c_mail := fold (\<lambda>i mail. if dhas mail i then mail else dset mail i (Broken error))
                                   (c_pending c) (c_mail c)\<rparr>;
                c2 = (if length (c_approvals c1) < MAX_INCOMING_QUEUE
                      then c1\<lparr>c_approvals := c_approvals c1 @ [None]\<rparr> else c1)
            in emit_notification env c2 [(''method'', JStr ''transport/error''),
                 (''params'', JObj [(''kind'', JStr ''transport_error''),
                                    (''details'', error_details error)])]))"

definition require_open :: "conn \<Rightarrow> (exn, unit) res" where
  "require_open c =
     (if c_closed c then (case c_close_error c of Some e \<Rightarrow> Inl e
        | None \<Rightarrow> Inl (transport_error_of [(''message'', JStr ''connection is closed'')]))
      else if c_socket c = None
      then Inl (transport_error_of [(''message'', JStr ''connection is unavailable'')])
      else Inr ())"

definition message_method :: "json_object \<Rightarrow> string" where
  "message_method m = (case as_str (jget m ''method'') of None \<Rightarrow> ''transport'' | Some s \<Rightarrow> s)"

definition send_message :: "conn_env \<Rightarrow> conn \<Rightarrow> json_object \<Rightarrow> conn \<times> (exn, unit) res" where
  "send_message env c m = (case dumps env m of
     None \<Rightarrow> (c, Inl (protocol_error (message_method m)
                        ''message contains a value outside strict JSON''))
   | Some encoded \<Rightarrow>
     if MAX_FRAME_BYTES < utf8_len encoded
     then (c, Inl (CodexCallError ''frame_too_large'' (message_method m) None))
     else (case require_open c of
       Inl e \<Rightarrow> (c, Inl e)
     | Inr _ \<Rightarrow>
       (let c1 = c\<lparr>c_sent := c_sent c @ [m]\<rparr> in
        case send_raises env m of
          None \<Rightarrow> (c1, Inr ())
        | Some name \<Rightarrow>
          (let error = transport_error_of [(''message'', JStr ''Codex WebSocket send failed''),
                                           (''error'', JStr name)]
           in (fail_transport env c1 error, Inl error)))))"

section \<open>Calls\<close>

definition request_message :: "string \<Rightarrow> int \<Rightarrow> json_object \<Rightarrow> json_object" where
  "request_message method i params =
     [(''method'', JStr method), (''id'', JInt i), (''params'', JObj params)]"

text \<open>The part of \<open>_call_once\<close> before it waits, and the part after.\<close>

definition call_begin ::
  "conn_env \<Rightarrow> conn \<Rightarrow> string \<Rightarrow> json_object \<Rightarrow> conn \<times> (exn, int) res" where
  "call_begin env c method params =
     (let i = c_next_id c; c1 = c\<lparr>c_next_id := i + 1\<rparr> in
      case require_open c1 of
        Inl e \<Rightarrow> (c1, Inl e)
      | Inr _ \<Rightarrow>
        (case send_message env (c1\<lparr>c_pending := c_pending c1 @ [i]\<rparr>) (request_message method i params) of
           (c2, Inl e) \<Rightarrow> (c2\<lparr>c_pending := removeAll i (c_pending c2), c_mail := ddel (c_mail c2) i\<rparr>, Inl e)
         | (c2, Inr _) \<Rightarrow> (c2, Inr i)))"

definition call_finish ::
  "conn_env \<Rightarrow> conn \<Rightarrow> int \<Rightarrow> string \<Rightarrow> conn \<times> (exn, json_object) res" where
  "call_finish env c i method = (case dget (c_mail c) i of
     None \<Rightarrow> (c\<lparr>c_pending := removeAll i (c_pending c)\<rparr>, Inl (CodexCallError ''timeout'' method None))
   | Some m \<Rightarrow> (c\<lparr>c_mail := ddel (c_mail c) i\<rparr>, case m of
       Broken e \<Rightarrow> Inl e
     | Message d \<Rightarrow>
         if dhas d ''error'' then Inl (error_from_response (repr env) method (jget d ''error''))
         else (case as_obj (jget d ''result'') of
           None \<Rightarrow> Inl (protocol_error method ''result must be an object'')
         | Some r \<Rightarrow> Inr r)))"

section \<open>Incoming messages\<close>

definition queue_server_request :: "conn_env \<Rightarrow> conn \<Rightarrow> json_object \<Rightarrow> conn" where
  "queue_server_request env c m =
     (if length (c_approvals c) < MAX_INCOMING_QUEUE
      then c\<lparr>c_approvals := c_approvals c @ [Some m]\<rparr>
      else fail_transport env c (transport_error_of
        [(''message'', JStr ''Codex approval queue exceeded limit'')]))"

definition deliver :: "conn \<Rightarrow> json \<Rightarrow> json_object \<Rightarrow> conn" where
  "deliver c request_id m = (case as_int request_id of
     None \<Rightarrow> c
   | Some i \<Rightarrow> if i \<in> set (c_pending c)
       then c\<lparr>c_pending := removeAll i (c_pending c), c_mail := dset (c_mail c) i (Message m)\<rparr>
       else c)"

definition dispatch :: "conn_env \<Rightarrow> conn \<Rightarrow> json_object \<Rightarrow> conn \<times> (exn, unit) res" where
  "dispatch env c m =
     (if dhas m ''id'' \<and> \<not> is_request_id (jget m ''id'')
      then (c, Inl (ValueError ''JSON-RPC id must be an integer or string''))
      else if is_jsonrpc_response_envelope (JObj m) then (deliver c (jget m ''id'') m, Inr ())
      else if dhas m ''id'' \<and> as_str (jget m ''method'') \<noteq> None then
        (if \<not> version_ok m \<or> dhas m ''result'' \<or> dhas m ''error''
         then (c, Inl (ValueError ''malformed JSON-RPC server request''))
         else (queue_server_request env c m, Inr ()))
      else if dhas m ''id'' then (c, Inl (ValueError ''malformed JSON-RPC response envelope''))
      else if as_str (jget m ''method'') \<noteq> None then (emit_notification env c m, Inr ())
      else (c, Inr ()))"

text \<open>
  One frame of the read loop: \<open>None\<close> is a frame that is not text. Anything the loop raises
  fails the transport, unless this reader's socket was already replaced or closed. The
  result tells whether the loop goes on.
\<close>

definition accept_frame :: "conn_env \<Rightarrow> (string \<Rightarrow> json option) \<Rightarrow> conn \<Rightarrow> string option \<Rightarrow>
    conn \<times> (exn, unit) res" where
  "accept_frame env loads c frame = (case frame of
     None \<Rightarrow> (c, Inl (ValueError ''Codex WebSocket frame must be text''))
   | Some text \<Rightarrow>
     if MAX_FRAME_BYTES < utf8_len text
     then (c, Inl (ValueError ''Codex WebSocket frame exceeded limit''))
     else (case loads text of
       None \<Rightarrow> (c, Inl (ValueError ''invalid JSON from Codex''))
     | Some v \<Rightarrow> (case as_obj v of
         None \<Rightarrow> (c, Inl (ValueError ''non-object JSON from Codex''))
       | Some m \<Rightarrow> dispatch env c m)))"

definition read_frame :: "conn_env \<Rightarrow> (string \<Rightarrow> json option) \<Rightarrow> conn \<Rightarrow> nat \<Rightarrow> string option \<Rightarrow>
    conn \<times> bool" where
  "read_frame env loads c k frame = (case accept_frame env loads c frame of
     (c1, Inr _) \<Rightarrow> (c1, True)
   | (c1, Inl e) \<Rightarrow>
       if c_socket c1 \<noteq> Some k \<or> c_closed c1 then (c1, False)
       else (fail_transport env c1 (transport_error_of
               [(''message'', JStr ''Codex WebSocket receive failed''),
                (''error'', JStr (exn_name e))]), False))"

section \<open>Approval requests\<close>

definition approval_result :: "conn_env \<Rightarrow> json_object \<Rightarrow> string \<Rightarrow> json_object \<times> bool" where
  "approval_result env m method = (case approval_handler env of
     None \<Rightarrow> (default_approval_response method, False)
   | Some handler \<Rightarrow> (case handler m of
       None \<Rightarrow> (default_approval_response method, True)
     | Some candidate \<Rightarrow> (case as_obj candidate of
         None \<Rightarrow> (default_approval_response method, False)
       | Some r \<Rightarrow> (r, False))))"

definition declined_message :: "json_object \<Rightarrow> string \<Rightarrow> json_object" where
  "declined_message m method =
     (let params = (case as_obj (jget m ''params'') of None \<Rightarrow> [] | Some p \<Rightarrow> p)
      in [(''method'', JStr ''approval/declined''), (''params'', JObj
            [(''threadId'', jget params ''threadId''), (''turnId'', jget params ''turnId''),
             (''requestId'', jget m ''id''), (''approvalMethod'', JStr method),
             (''decision'', JStr ''decline'')])])"

definition handle_server_request :: "conn_env \<Rightarrow> conn \<Rightarrow> json_object \<Rightarrow> conn \<times> (exn, unit) res" where
  "handle_server_request env c m = (case as_str (jget m ''method'') of
     None \<Rightarrow> (c, Inr ())
   | Some method \<Rightarrow>
     (let (result, raised) = approval_result env m method;
          c1 = (if raised then c\<lparr>c_diagnostics := c_diagnostics c
                  @ [''approval handler raised; request declined'']\<rparr> else c);
          (c2, sent) = send_message env c1 [(''id'', jget m ''id''), (''result'', JObj result)]
      in case sent of
           Inl e \<Rightarrow> (c2, Inl e)
         | Inr _ \<Rightarrow> (if method \<in> set APPROVAL_METHODS \<and> is_decline method result
                      then emit_notification env c2 (declined_message m method) else c2, Inr ())))"

text \<open>One turn of the approval loop; the result tells whether the loop goes on.\<close>

definition approval_turn :: "conn_env \<Rightarrow> conn \<Rightarrow> conn \<times> bool" where
  "approval_turn env c = (case c_approvals c of
     [] \<Rightarrow> (c, True)
   | None # rest \<Rightarrow> (c\<lparr>c_approvals := rest\<rparr>, False)
   | Some m # rest \<Rightarrow>
     (let c1 = c\<lparr>c_approvals := rest\<rparr> in
      if c_closed c1 then (c1, False)
      else (case handle_server_request env c1 m of
        (c2, Inr _) \<Rightarrow> (c2, True)
      | (c2, Inl e) \<Rightarrow> (if c_closed c2 then c2
          else fail_transport env c2 (transport_error_of
            [(''message'', JStr ''Codex approval response failed''), (''error'', JStr (exn_name e))]),
          False))))"

section \<open>Opening, notifying, closing\<close>

definition open_transport :: "conn \<Rightarrow> nat \<Rightarrow> conn \<times> (exn, unit) res" where
  "open_transport c k =
     (if c_closed c then (c, Inl (transport_error_of [(''message'', JStr ''connection is closed'')]))
      else (c\<lparr>c_socket := Some k\<rparr>, Inr ()))"

definition retire_transport :: "conn \<Rightarrow> conn" where
  "retire_transport c = c\<lparr>c_socket := None\<rparr>"

definition notify :: "conn_env \<Rightarrow> conn \<Rightarrow> string \<Rightarrow> json_object \<Rightarrow> conn \<times> (exn, unit) res" where
  "notify env c method params =
     send_message env c [(''method'', JStr method), (''params'', JObj params)]"

definition close_conn :: "conn_env \<Rightarrow> conn \<Rightarrow> conn" where
  "close_conn env c =
     fail_transport env c (transport_error_of [(''message'', JStr ''connection closed'')])"


section \<open>The retry of a call\<close>

text \<open>
  \<open>replies\<close> says what arrives for the attempt while it waits: a message (built from the
  request number), a failure of the transport, or nothing before the timeout.
\<close>

datatype arrival = Answer "int \<Rightarrow> json_object" | Loss exn | Silence

definition arrive :: "conn_env \<Rightarrow> conn \<Rightarrow> int \<Rightarrow> arrival \<Rightarrow> conn" where
  "arrive env c i a = (case a of
     Answer f \<Rightarrow> fst (dispatch env c (f i))
   | Loss e \<Rightarrow> fail_transport env c e
   | Silence \<Rightarrow> c)"

definition call_once :: "conn_env \<Rightarrow> conn \<Rightarrow> string \<Rightarrow> json_object \<Rightarrow> arrival \<Rightarrow>
    conn \<times> (exn, json_object) res" where
  "call_once env c method params a = (case call_begin env c method params of
     (c1, Inl e) \<Rightarrow> (c1, Inl e)
   | (c1, Inr i) \<Rightarrow> call_finish env (arrive env c1 i a) i method)"

definition is_busy :: "exn \<Rightarrow> bool" where
  "is_busy e = (case e of CodexCallError k _ _ \<Rightarrow> k = ''upstream_busy'' | _ \<Rightarrow> False)"

text \<open>\<open>call_attempts env c method params replies attempt left\<close>: \<open>left\<close> attempts remain.\<close>

fun call_attempts :: "conn_env \<Rightarrow> conn \<Rightarrow> string \<Rightarrow> json_object \<Rightarrow> (nat \<Rightarrow> arrival) \<Rightarrow> nat \<Rightarrow> nat \<Rightarrow>
    conn \<times> (exn, json_object) res" where
  "call_attempts env c method params replies attempt 0 =
     (c, Inl (AssertionError ''unreachable read retry''))"
| "call_attempts env c method params replies attempt (Suc left) =
     (case call_once env c method params (replies attempt) of
        (c1, Inr r) \<Rightarrow> (c1, Inr r)
      | (c1, Inl e) \<Rightarrow>
          if \<not> is_busy e \<or> left = 0 then (c1, Inl e)
          else call_attempts env c1 method params replies (Suc attempt) left)"

definition attempts_for :: "string \<Rightarrow> nat" where
  "attempts_for method =
     (if method \<in> set IDEMPOTENT_READ_METHODS then MAX_READ_RETRIES + 1 else 1)"

definition call :: "conn_env \<Rightarrow> conn \<Rightarrow> string \<Rightarrow> json_object \<Rightarrow> (nat \<Rightarrow> arrival) \<Rightarrow>
    conn \<times> (exn, json_object) res" where
  "call env c method params replies =
     (if method = [] then (c, Inl (ValueError ''method must be non-empty''))
      else call_attempts env c method params replies 0 (attempts_for method))"

definition initialize_params :: json_object where
  "initialize_params = [(''clientInfo'', JObj [(''name'', JStr ''superdev_codex_worker''),
      (''title'', JStr ''Superdev Codex Worker''), (''version'', JStr ''0.1.0'')]),
     (''capabilities'', JObj [(''experimentalApi'', JBool True),
      (''optOutNotificationMethods'', JList (map JStr [''item/agentMessage/delta'',
         ''item/reasoning/textDelta'', ''item/reasoning/summaryTextDelta'',
         ''item/commandExecution/outputDelta'']))])]"

text \<open>\<open>connects k\<close> is the exception the connection factory raises on attempt \<open>k\<close>, if any.\<close>

fun initialize_attempts :: "conn_env \<Rightarrow> (nat \<Rightarrow> exn option) \<Rightarrow> (nat \<Rightarrow> arrival) \<Rightarrow> conn \<Rightarrow> nat \<Rightarrow> nat \<Rightarrow>
    conn \<times> (exn, unit) res" where
  "initialize_attempts env connects replies c attempt 0 = (c, Inr ())"
| "initialize_attempts env connects replies c attempt (Suc left) = (case connects attempt of
     Some e \<Rightarrow> (c, Inl e)
   | None \<Rightarrow> (case open_transport c attempt of
       (c1, Inl e) \<Rightarrow> (c1, Inl e)
     | (c1, Inr _) \<Rightarrow> (case call_once env c1 ''initialize'' initialize_params (replies attempt) of
         (c2, Inr _) \<Rightarrow> notify env c2 ''initialized'' []
       | (c2, Inl e) \<Rightarrow>
           if \<not> is_busy e \<or> MAX_INITIALIZE_RECONNECTS \<le> attempt then (c2, Inl e)
           else initialize_attempts env connects replies (retire_transport c2) (Suc attempt) left)))"

definition open_connection :: "conn_env \<Rightarrow> (nat \<Rightarrow> exn option) \<Rightarrow> (nat \<Rightarrow> arrival) \<Rightarrow>
    conn \<times> (exn, unit) res" where
  "open_connection env connects replies =
     (case initialize_attempts env connects replies new_conn 0 (MAX_INITIALIZE_RECONNECTS + 1) of
        (c, Inl e) \<Rightarrow> (close_conn env c, Inl e)
      | (c, Inr u) \<Rightarrow> (c, Inr u))"

section \<open>Interleaved threads\<close>

datatype conn_action =
    Begin string json_object
  | End int string
  | Incoming nat "string option"
  | ApprovalTurn
  | Notice string json_object
  | Open nat
  | Retire
  | Close

fun conn_exec :: "conn_env \<Rightarrow> (string \<Rightarrow> json option) \<Rightarrow> conn \<Rightarrow> conn_action \<Rightarrow> conn" where
  "conn_exec env loads c (Begin method params) = fst (call_begin env c method params)"
| "conn_exec env loads c (End i method) = fst (call_finish env c i method)"
| "conn_exec env loads c (Incoming k frame) = fst (read_frame env loads c k frame)"
| "conn_exec env loads c ApprovalTurn = fst (approval_turn env c)"
| "conn_exec env loads c (Notice method params) = fst (notify env c method params)"
| "conn_exec env loads c (Open k) = fst (open_transport c k)"
| "conn_exec env loads c Retire = retire_transport c"
| "conn_exec env loads c Close = close_conn env c"

definition conn_run :: "conn_env \<Rightarrow> (string \<Rightarrow> json option) \<Rightarrow> conn \<Rightarrow> conn_action list \<Rightarrow> conn" where
  "conn_run env loads c as = fold (\<lambda>a c. conn_exec env loads c a) as c"

section \<open>The invariant of the connection\<close>

definition conn_inv :: "conn \<Rightarrow> bool" where
  "conn_inv c \<longleftrightarrow> (c_closed c \<longrightarrow> c_pending c = [] \<and> c_socket c = None)
     \<and> (c_closed c \<longleftrightarrow> c_close_error c \<noteq> None)
     \<and> distinct (c_pending c) \<and> (\<forall>i \<in> set (c_pending c). i < c_next_id c)
     \<and> (\<forall>i \<in> set (dkeys (c_mail c)). i < c_next_id c)
     \<and> set (c_pending c) \<inter> set (dkeys (c_mail c)) = {}
     \<and> (\<forall>i m. dget (c_mail c) i = Some (Message m) \<longrightarrow> jget m ''id'' = JInt i)
     \<and> length (c_approvals c) \<le> MAX_INCOMING_QUEUE"

lemma conn_inv_new: "conn_inv new_conn"
  by (simp add: conn_inv_def new_conn_def)

lemma emit_fields [simp]:
  "c_closed (emit_notification env c m) = c_closed c"
  "c_close_error (emit_notification env c m) = c_close_error c"
  "c_socket (emit_notification env c m) = c_socket c"
  "c_next_id (emit_notification env c m) = c_next_id c"
  "c_pending (emit_notification env c m) = c_pending c"
  "c_mail (emit_notification env c m) = c_mail c"
  "c_approvals (emit_notification env c m) = c_approvals c"
  "c_sent (emit_notification env c m) = c_sent c"
  "c_emitted (emit_notification env c m) = c_emitted c @ [m]"
  by (simp_all add: emit_notification_def Let_def)

lemma conn_inv_cong:
  assumes "conn_inv c" "c_closed c' = c_closed c" "c_close_error c' = c_close_error c"
    "c_socket c' = c_socket c \<or> c_socket c' = None" "c_next_id c' = c_next_id c"
    "c_pending c' = c_pending c" "c_mail c' = c_mail c"
    "length (c_approvals c') \<le> MAX_INCOMING_QUEUE"
  shows "conn_inv c'"
  using assms by (auto simp: conn_inv_def)

lemma conn_inv_emit: "conn_inv c \<Longrightarrow> conn_inv (emit_notification env c m)"
  by (rule conn_inv_cong [where c = c]) (simp_all add: conn_inv_def)

text \<open>The mail after a failure: every waiter has an answer, earlier ones keep theirs.\<close>

lemma broken_mail:
  "map_of (fold (\<lambda>i mail. if dhas mail i then mail else dset mail i (Broken e)) is mail) j =
     (case dget mail j of Some m \<Rightarrow> Some m | None \<Rightarrow> if j \<in> set is then Some (Broken e) else None)"
  by (induction "is" arbitrary: mail) (auto simp: dhas_def split: option.splits)

lemma fail_transport_fields:
  "\<not> c_closed c \<Longrightarrow> c_closed (fail_transport env c e)"
  "\<not> c_closed c \<Longrightarrow> c_pending (fail_transport env c e) = []"
  "\<not> c_closed c \<Longrightarrow> c_socket (fail_transport env c e) = None"
  "\<not> c_closed c \<Longrightarrow> c_close_error (fail_transport env c e) = Some e"
  "c_next_id (fail_transport env c e) = c_next_id c"
  "\<not> c_closed c \<Longrightarrow> dget (c_mail (fail_transport env c e)) j =
     (case dget (c_mail c) j of Some m \<Rightarrow> Some m
      | None \<Rightarrow> if j \<in> set (c_pending c) then Some (Broken e) else None)"
  "c_sent (fail_transport env c e) = c_sent c"
  by (auto simp: fail_transport_def Let_def broken_mail)

lemma dkeys_dget: "i \<in> set (dkeys d) \<longleftrightarrow> dget d i \<noteq> None"
  by (simp add: dget_None_iff)

lemma conn_inv_fail:
  assumes "conn_inv c" shows "conn_inv (fail_transport env c e)"
proof (cases "c_closed c")
  case False
  have "length (c_approvals (fail_transport env c e)) \<le> MAX_INCOMING_QUEUE"
    using assms by (auto simp: fail_transport_def conn_inv_def Let_def)
  with False assms show ?thesis
    by (auto simp: conn_inv_def fail_transport_fields dkeys_dget split: option.splits if_splits)
qed (use assms in \<open>simp add: fail_transport_def\<close>)

lemma send_message_cases:
  obtains (same) "fst (send_message env c m) = c" "\<exists>e. snd (send_message env c m) = Inl e"
  | (sent) "fst (send_message env c m) = c\<lparr>c_sent := c_sent c @ [m]\<rparr>"
      "snd (send_message env c m) = Inr ()" "require_open c = Inr ()"
  | (failed) e where "fst (send_message env c m) = fail_transport env (c\<lparr>c_sent := c_sent c @ [m]\<rparr>) e"
      "snd (send_message env c m) = Inl e" "require_open c = Inr ()"
proof (cases "\<exists>t. dumps env m = Some t \<and> \<not> MAX_FRAME_BYTES < utf8_len t \<and> require_open c = Inr ()")
  case True
  then obtain t where t: "dumps env m = Some t" "\<not> MAX_FRAME_BYTES < utf8_len t"
    "require_open c = Inr ()" by blast
  show thesis
  proof (cases "send_raises env m")
    case None
    with t show thesis by (intro sent) (simp_all add: send_message_def)
  next
    case (Some name)
    with t show thesis by (intro failed) (simp_all add: send_message_def Let_def)
  qed
next
  case False
  then show thesis
    by (intro same) (auto simp: send_message_def split: option.split sum.split)
qed

lemma conn_inv_sent: "conn_inv c \<Longrightarrow> conn_inv (c\<lparr>c_sent := x\<rparr>)"
  by (simp add: conn_inv_def)

lemma conn_inv_send:
  assumes "conn_inv c" shows "conn_inv (fst (send_message env c m))"
  by (cases rule: send_message_cases [of env c m])
     (use assms in \<open>auto intro: conn_inv_fail conn_inv_sent\<close>)

lemma require_open_ok: "require_open c = Inr () \<longleftrightarrow> \<not> c_closed c \<and> c_socket c \<noteq> None"
  by (auto simp: require_open_def split: option.splits)

lemma conn_inv_call_begin:
  assumes "conn_inv c" shows "conn_inv (fst (call_begin env c method params))"
proof -
  let ?i = "c_next_id c" let ?c1 = "c\<lparr>c_next_id := ?i + 1\<rparr>"
  let ?c2 = "?c1\<lparr>c_pending := c_pending ?c1 @ [?i]\<rparr>"
  have c1: "conn_inv ?c1" using assms by (fastforce simp: conn_inv_def)
  have drop: "conn_inv (q\<lparr>c_pending := removeAll ?i (c_pending q), c_mail := ddel (c_mail q) ?i\<rparr>)"
    if "conn_inv q" for q
    using that by (auto simp: conn_inv_def distinct_removeAll)
  show ?thesis
  proof (cases "require_open ?c1")
    case (Inr u)
    then have "conn_inv ?c2"
      using assms by (fastforce simp: conn_inv_def require_open_ok)
    from conn_inv_send [OF this, of env "request_message method ?i params"]
    have c2: "conn_inv (fst (send_message env ?c2 (request_message method ?i params)))" .
    obtain q r where q: "send_message env ?c2 (request_message method ?i params) = (q, r)"
      by fastforce
    with c2 have "conn_inv q" by simp
    with drop [of q] Inr q show ?thesis
      by (cases r) (simp_all add: call_begin_def Let_def)
  qed (use c1 in \<open>simp add: call_begin_def Let_def\<close>)
qed

lemma conn_inv_call_finish:
  assumes "conn_inv c" shows "conn_inv (fst (call_finish env c i method))"
  using assms by (auto simp: call_finish_def conn_inv_def distinct_removeAll split: option.splits)

lemma conn_inv_deliver:
  assumes "conn_inv c" "jget m ''id'' = v" shows "conn_inv (deliver c v m)"
  using assms by (auto simp: deliver_def conn_inv_def distinct_removeAll split: option.splits)

lemma conn_inv_dispatch:
  assumes "conn_inv c" shows "conn_inv (fst (dispatch env c m))"
  using assms
  by (auto simp: dispatch_def queue_server_request_def conn_inv_deliver conn_inv_emit conn_inv_fail
      intro: conn_inv_cong [where c = c])

lemma conn_inv_accept:
  assumes "conn_inv c" shows "conn_inv (fst (accept_frame env loads c frame))"
  using conn_inv_dispatch [OF assms, of env] assms
  by (auto simp: accept_frame_def split: option.splits)

lemma conn_inv_read:
  assumes "conn_inv c" shows "conn_inv (fst (read_frame env loads c k frame))"
  using conn_inv_accept [OF assms, of env loads frame]
  by (auto simp: read_frame_def intro: conn_inv_fail split: prod.splits sum.splits)

lemma conn_inv_diagnostics [simp]: "conn_inv (c\<lparr>c_diagnostics := x\<rparr>) = conn_inv c"
  by (simp add: conn_inv_def)

lemma conn_inv_handle:
  assumes "conn_inv c" shows "conn_inv (fst (handle_server_request env c m))"
proof (cases "as_str (jget m ''method'')")
  case (Some mname)
  obtain result raised where "approval_result env m mname = (result, raised)"
    by (cases "approval_result env m mname")
  with Some assms show ?thesis
    by (cases raised)
       (simp_all add: handle_server_request_def Let_def split_beta conn_inv_emit conn_inv_send
         split: sum.split)
qed (use assms in \<open>simp add: handle_server_request_def\<close>)

lemma conn_inv_approval_turn:
  assumes "conn_inv c" shows "conn_inv (fst (approval_turn env c))"
proof (cases "c_approvals c")
  case (Cons a rest)
  have rest: "conn_inv (c\<lparr>c_approvals := rest\<rparr>)"
    using assms Cons by (auto simp: conn_inv_def)
  show ?thesis
  proof (cases a)
    case (Some m)
    have "conn_inv (fst (handle_server_request env (c\<lparr>c_approvals := rest\<rparr>) m))"
      by (rule conn_inv_handle [OF rest])
    with Some Cons rest show ?thesis
      by (auto simp: approval_turn_def Let_def split_beta intro: conn_inv_fail split: sum.splits)
  qed (use Cons rest in \<open>simp add: approval_turn_def\<close>)
qed (use assms in \<open>simp add: approval_turn_def\<close>)

lemma conn_inv_exec:
  assumes "conn_inv c" shows "conn_inv (conn_exec env loads c a)"
proof (cases a)
  case (Open k)
  with assms show ?thesis by (auto simp: open_transport_def conn_inv_def)
next
  case Retire
  with assms show ?thesis by (auto simp: retire_transport_def conn_inv_def)
qed (use assms in \<open>auto simp: notify_def close_conn_def intro: conn_inv_call_begin
    conn_inv_call_finish conn_inv_read conn_inv_approval_turn conn_inv_send conn_inv_fail\<close>)

lemma conn_inv_run: "conn_inv c \<Longrightarrow> conn_inv (conn_run env loads c as)"
  unfolding conn_run_def by (induction as arbitrary: c) (auto intro: conn_inv_exec)

section \<open>Properties of the connection\<close>

definition waited :: "int \<Rightarrow> conn \<Rightarrow> bool" where
  "waited i c \<longleftrightarrow> i < c_next_id c \<and> (i \<in> set (c_pending c) \<or> dget (c_mail c) i \<noteq> None)"

lemma waited_cong:
  "c_next_id c' = c_next_id c \<Longrightarrow> c_pending c' = c_pending c \<Longrightarrow> c_mail c' = c_mail c
     \<Longrightarrow> waited i c' = waited i c"
  by (simp add: waited_def)

lemma waited_emit [simp]: "waited i (emit_notification env c m) = waited i c"
  by (rule waited_cong) simp_all

lemma waited_fail: "waited i c \<Longrightarrow> waited i (fail_transport env c e)"
  by (cases "c_closed c")
     (auto simp: waited_def fail_transport_fields(2,5,6) split: option.splits, simp_all add: fail_transport_def)

lemma waited_send: "waited i c \<Longrightarrow> waited i (fst (send_message env c m))"
  by (cases rule: send_message_cases [of env c m])
     (auto simp: waited_fail waited_cong [of "c\<lparr>c_sent := c_sent c @ [m]\<rparr>" c])

lemma waited_begin:
  assumes "waited i c" shows "waited i (fst (call_begin env c method params))"
proof -
  let ?k = "c_next_id c" let ?c1 = "c\<lparr>c_next_id := ?k + 1\<rparr>"
  let ?c2 = "?c1\<lparr>c_pending := c_pending ?c1 @ [?k]\<rparr>"
  have ik: "i \<noteq> ?k" and c2: "waited i ?c1" "waited i ?c2" using assms by (auto simp: waited_def)
  obtain q r where q: "send_message env ?c2 (request_message method ?k params) = (q, r)" by fastforce
  with waited_send [OF c2(2), of env "request_message method ?k params"] have w: "waited i q" by simp
  then have "waited i (q\<lparr>c_pending := removeAll ?k (c_pending q), c_mail := ddel (c_mail q) ?k\<rparr>)"
    using ik by (auto simp: waited_def)
  with w c2 q show ?thesis
    by (cases "require_open ?c1"; cases r) (simp_all add: call_begin_def Let_def)
qed

lemma waited_finish: "waited i c \<Longrightarrow> i \<noteq> j \<Longrightarrow> waited i (fst (call_finish env c j method))"
  by (auto simp: waited_def call_finish_def split: option.splits)

lemma waited_dispatch: "waited i c \<Longrightarrow> waited i (fst (dispatch env c m))"
  by (auto simp: dispatch_def queue_server_request_def deliver_def waited_fail split: option.splits)
     (auto simp: waited_def)

lemma waited_read:
  assumes "waited i c" shows "waited i (fst (read_frame env loads c k frame))"
proof -
  have "waited i (fst (accept_frame env loads c frame))"
    using assms by (auto simp: accept_frame_def waited_dispatch split: option.splits)
  then show ?thesis
    by (auto simp: read_frame_def waited_fail split: prod.splits sum.splits)
qed

lemma waited_handle:
  assumes "waited i c" shows "waited i (fst (handle_server_request env c m))"
proof (cases "as_str (jget m ''method'')")
  case (Some mname)
  obtain result raised where "approval_result env m mname = (result, raised)"
    by (cases "approval_result env m mname")
  moreover have "waited i (c\<lparr>c_diagnostics := x\<rparr>)" for x using assms by (simp add: waited_def)
  ultimately show ?thesis using Some assms
    by (cases raised)
       (simp_all add: handle_server_request_def Let_def split_beta waited_send split: sum.split)
qed (use assms in \<open>simp add: handle_server_request_def\<close>)

lemma waited_approval:
  assumes "waited i c" shows "waited i (fst (approval_turn env c))"
proof (cases "c_approvals c")
  case (Cons a rest)
  have rest: "waited i (c\<lparr>c_approvals := rest\<rparr>)" using assms by (simp add: waited_def)
  show ?thesis
  proof (cases a)
    case (Some m)
    obtain q r where q: "handle_server_request env (c\<lparr>c_approvals := rest\<rparr>) m = (q, r)" by fastforce
    with waited_handle [OF rest, of env m] have "waited i q" by simp
    with Some Cons rest q show ?thesis
      by (cases r) (simp_all add: approval_turn_def Let_def waited_fail)
  qed (use Cons rest in \<open>simp add: approval_turn_def\<close>)
qed (use assms in \<open>simp add: approval_turn_def\<close>)

lemma waited_exec:
  assumes "waited i c" "\<forall>method. a \<noteq> End i method" shows "waited i (conn_exec env loads c a)"
proof (cases a)
  case (Open k)
  with assms show ?thesis by (auto simp: open_transport_def waited_def)
next
  case Retire
  with assms show ?thesis by (auto simp: retire_transport_def waited_def)
qed (use assms in \<open>auto simp: notify_def close_conn_def waited_begin waited_finish waited_read
    waited_approval waited_send waited_fail\<close>)

lemma call_begin_waited:
  assumes "call_begin env c method params = (c1, Inr i)" shows "waited i c1"
proof -
  let ?k = "c_next_id c" let ?c1 = "c\<lparr>c_next_id := ?k + 1\<rparr>"
  let ?c2 = "?c1\<lparr>c_pending := c_pending ?c1 @ [?k]\<rparr>"
  have "send_message env ?c2 (request_message method ?k params) = (c1, Inr ())" "i = ?k"
    using assms by (auto simp: call_begin_def Let_def split: sum.splits prod.splits)
  moreover have "waited ?k ?c2" by (simp add: waited_def)
  ultimately show ?thesis using waited_send by (metis fst_conv)
qed

text \<open>
  C36. No call is left waiting on a closed connection.
\<close>

theorem closed_connection_wakes_every_call:
  assumes "conn_inv c" "call_begin env c method params = (c1, Inr i)"
    "\<forall>a \<in> set as. \<forall>m. a \<noteq> End i m" "c_closed (conn_run env loads c1 as)"
  shows "dget (c_mail (conn_run env loads c1 as)) i \<noteq> None"
proof -
  have keep: "waited i (conn_run env loads c1 as)" if "waited i c1" for c1
    using that assms(3) unfolding conn_run_def
    by (induction as arbitrary: c1) (auto intro: waited_exec)
  have "waited i (conn_run env loads c1 as)" by (rule call_begin_waited [OF assms(2), THEN keep])
  moreover have "conn_inv (conn_run env loads c1 as)"
    using conn_inv_call_begin [OF assms(1), of env "method" params] assms(2) by (simp add: conn_inv_run)
  ultimately show ?thesis using assms(4) by (auto simp: waited_def conn_inv_def)
qed

text \<open>
  Responses are correlated by request number.
\<close>

theorem call_gets_its_own_response:
  assumes "call_finish env (conn_run env loads new_conn as) i method = (c', Inr r)"
  shows "\<exists>m. dget (c_mail (conn_run env loads new_conn as)) i = Some (Message m)
    \<and> jget m ''id'' = JInt i \<and> jget m ''result'' = JObj r \<and> \<not> dhas m ''error''
    \<and> dget (c_mail c') i = None"
proof -
  have "conn_inv (conn_run env loads new_conn as)" by (rule conn_inv_run [OF conn_inv_new])
  with assms show ?thesis
    by (auto simp: call_finish_def conn_inv_def split: option.splits reply.splits if_splits)
qed

section \<open>Frames sent by a call\<close>

lemma dispatch_sent [simp]: "c_sent (fst (dispatch env c m)) = c_sent c"
  by (auto simp: dispatch_def queue_server_request_def deliver_def fail_transport_fields
      split: option.splits)

lemma arrive_sent [simp]: "c_sent (arrive env c i a) = c_sent c"
  by (cases a) (simp_all add: arrive_def fail_transport_fields)

lemma finish_sent [simp]: "c_sent (fst (call_finish env c i method)) = c_sent c"
  by (auto simp: call_finish_def split: option.splits)

lemma send_sent:
  "c_sent (fst (send_message env c m)) \<in> {c_sent c, c_sent c @ [m]}"
  by (cases rule: send_message_cases [of env c m]) (auto simp: fail_transport_fields)

lemma begin_sent:
  "c_sent (fst (call_begin env c method params)) \<in>
     {c_sent c, c_sent c @ [request_message method (c_next_id c) params]}"
proof -
  let ?k = "c_next_id c" let ?c1 = "c\<lparr>c_next_id := ?k + 1\<rparr>"
  let ?c2 = "?c1\<lparr>c_pending := c_pending ?c1 @ [?k]\<rparr>"
  obtain q r where q: "send_message env ?c2 (request_message method ?k params) = (q, r)" by fastforce
  with send_sent [of env ?c2 "request_message method ?k params"] show ?thesis
    by (cases "require_open ?c1"; cases r) (simp_all add: call_begin_def Let_def)
qed

lemma once_sent:
  "\<exists>ms. c_sent (fst (call_once env c method params a)) = c_sent c @ ms \<and> length ms \<le> 1
     \<and> (\<forall>m \<in> set ms. \<exists>i. m = request_message method i params)"
proof -
  obtain q r where q: "call_begin env c method params = (q, r)" by fastforce
  with begin_sent [of env c "method" params]
  have s: "c_sent q = c_sent c \<or> c_sent q = c_sent c @ [request_message method (c_next_id c) params]"
    by simp
  have "c_sent (fst (call_once env c method params a)) = c_sent q"
    using q by (cases r) (simp_all add: call_once_def)
  with s show ?thesis by auto
qed

lemma attempts_sent:
  "\<exists>ms. c_sent (fst (call_attempts env c method params replies k n)) = c_sent c @ ms
     \<and> length ms \<le> n \<and> (\<forall>m \<in> set ms. \<exists>i. m = request_message method i params)"
proof (induction n arbitrary: c k)
  case (Suc n)
  obtain q r where q: "call_once env c method params (replies k) = (q, r)" by fastforce
  with once_sent [of env c "method" params "replies k"] obtain ms where
    ms: "c_sent q = c_sent c @ ms" "length ms \<le> 1"
      "\<forall>m \<in> set ms. \<exists>i. m = request_message method i params" by auto
  from Suc.IH [of q "Suc k"] obtain ns where
    ns: "c_sent (fst (call_attempts env q method params replies (Suc k) n)) = c_sent q @ ns"
      "length ns \<le> n" "\<forall>m \<in> set ns. \<exists>i. m = request_message method i params" by blast
  show ?case
  proof (cases "\<exists>e. r = Inl e \<and> is_busy e \<and> n \<noteq> 0")
    case True
    with q ms ns show ?thesis by (intro exI [of _ "ms @ ns"]) auto
  next
    case False
    with q ms show ?thesis by (intro exI [of _ ms]) (auto split: sum.splits)
  qed
qed simp


text \<open>
  With nobody to ask, an approval request is answered with a refusal and reported.
\<close>

theorem unattended_approval_is_declined:
  assumes "jget m ''method'' = JStr method" "method \<in> set APPROVAL_METHODS"
    "\<forall>h. approval_handler env = Some h \<longrightarrow> h m \<in> {None, Some JNull}"
    "handle_server_request env c m = (c', Inr ())"
  shows "\<exists>r. c_sent c' = c_sent c @ [[(''id'', jget m ''id''), (''result'', JObj r)]]
    \<and> is_decline method r \<and> c_emitted c' = c_emitted c @ [declined_message m method]"
proof -
  have "fst (approval_result env m method) = default_approval_response method"
    using assms(3) by (cases "approval_handler env") (auto simp: approval_result_def)
  then obtain raised where r: "approval_result env m method = (default_approval_response method, raised)"
    by (metis prod.collapse)
  define c1 where "c1 = (if raised then c\<lparr>c_diagnostics := c_diagnostics c
                  @ [''approval handler raised; request declined'']\<rparr> else c)"
  let ?a = "[(''id'', jget m ''id''), (''result'', JObj (default_approval_response method))]"
  have ok: "snd (send_message env c1 ?a) = Inr ()"
    using assms(1,4) r by (auto simp: handle_server_request_def c1_def Let_def split_beta split: sum.splits)
  have "fst (send_message env c1 ?a) = c1\<lparr>c_sent := c_sent c1 @ [?a]\<rparr>"
    using ok by (cases rule: send_message_cases [of env c1 ?a]) auto
  then have "c' = emit_notification env (c1\<lparr>c_sent := c_sent c1 @ [?a]\<rparr>) (declined_message m method)"
    using assms(1,2,4) r ok default_is_decline [of "method"]
    by (auto simp: handle_server_request_def c1_def Let_def split_beta split: sum.splits if_splits)
  moreover have "c_sent c1 = c_sent c" "c_emitted c1 = c_emitted c" by (simp_all add: c1_def)
  ultimately show ?thesis
    by (intro exI [of _ "default_approval_response method"]) (simp add: default_is_decline)
qed

end
