(* ===== verification/Gateway.thy ===== *)
theory Gateway
  imports Gate Transport Listener
begin

text \<open>
  \<open>websocket_gateway.WebSocketGateway\<close>: one public frontend bridged to one private backend,
  with the accounting that ties every forwarded mutation to the maintenance gate. A bridge
  holds the pending requests (\<open>True\<close> for one that holds a mutation of the gate, \<open>False\<close> for a
  read) and what was handed to each side. The JSON reader and the outcome of each send are
  parameters; a send that raises ends the pump that called it.
\<close>

section \<open>Frames\<close>

definition DRAIN_ALLOWED_REQUESTS :: "string list" where
  "DRAIN_ALLOWED_REQUESTS = [''thread/list'', ''thread/read'', ''turn/interrupt'']"

datatype frame_class = RESPONSE | ALLOWED | BLOCKED

definition classify_frontend_frame :: "json \<Rightarrow> frame_class" where
  "classify_frontend_frame value =
     (if is_jsonrpc_response_envelope value then RESPONSE
      else (case as_obj value of
        None \<Rightarrow> BLOCKED
      | Some m \<Rightarrow> (case as_str (jget m ''method'') of
          None \<Rightarrow> BLOCKED
        | Some method \<Rightarrow> if method \<in> set DRAIN_ALLOWED_REQUESTS then ALLOWED else BLOCKED)))"

datatype request_key = IntKey int | StrKey string

definition request_key_of :: "json \<Rightarrow> request_key option" where
  "request_key_of v = (case v of JInt i \<Rightarrow> Some (IntKey i) | JStr s \<Rightarrow> Some (StrKey s) | _ \<Rightarrow> None)"

definition fault_frame :: "json \<Rightarrow> string \<Rightarrow> int \<Rightarrow> string option \<Rightarrow> json_object" where
  "fault_frame request_id kind code method =
     (let busy = (kind = ''service_busy'');
          data = [(''kind'', JStr kind), (''retryable'', JBool busy)]
            @ (case method of None \<Rightarrow> [] | Some m \<Rightarrow> [(''method'', JStr m)])
      in [(''id'', if request_key_of request_id \<noteq> None then request_id else JNull),
          (''error'', JObj [(''code'', JInt code),
             (''message'', JStr (if busy then ''service is draining'' else ''invalid request'')),
             (''data'', JObj data)])])"

section \<open>The bridge\<close>

datatype front_frame = Relayed string | Refused json_object

record bridge =
  b_pending :: "(request_key, bool) dict"
  b_closed :: bool
  to_backend :: "string list"
  to_frontend :: "front_frame list"

definition new_bridge :: bridge where
  "new_bridge = \<lparr>b_pending = [], b_closed = False, to_backend = [], to_frontend = []\<rparr>"

definition mk_gateway :: "numeric_lookup \<Rightarrow> json \<Rightarrow> json \<Rightarrow> (exn, string \<times> string) res" where
  "mk_gateway lookup listener endpoint =
     ebind (validate_public_listener lookup listener) (\<lambda>l.
       case as_str endpoint of
         None \<Rightarrow> Inl (ValueError ''private endpoint must be unix://'')
       | Some e \<Rightarrow> if startswith e ''unix://'' then Inr (l, e)
                   else Inl (ValueError ''private endpoint must be unix://''))"

definition send_fault :: "bridge \<Rightarrow> json \<Rightarrow> string \<Rightarrow> int \<Rightarrow> string option \<Rightarrow> bridge" where
  "send_fault b request_id kind code method =
     b\<lparr>to_frontend := to_frontend b @ [Refused (fault_frame request_id kind code method)]\<rparr>"

definition invalid_request :: "bridge \<Rightarrow> json \<Rightarrow> bridge" where
  "invalid_request b request_id = send_fault b request_id ''invalid_request'' (-32600) None"

definition relay :: "bridge \<Rightarrow> string \<Rightarrow> bridge" where
  "relay b text = b\<lparr>to_backend := to_backend b @ [text]\<rparr>"

text \<open>
  Forwarding a request that needs no mutation of the gate, and one that does. \<open>sent\<close> tells
  whether the send to the backend succeeds. The result also tells whether the pump goes on.
\<close>

definition forward_read :: "gate \<Rightarrow> bridge \<Rightarrow> string \<Rightarrow> request_key option \<Rightarrow> bool \<Rightarrow>
    gate \<times> bridge \<times> bool" where
  "forward_read g b text key sent =
     (let b1 = (case key of None \<Rightarrow> b | Some k \<Rightarrow> b\<lparr>b_pending := dset (b_pending b) k False\<rparr>)
      in if sent then (g, relay b1 text, True)
         else (g, (case key of None \<Rightarrow> b1
                   | Some k \<Rightarrow> if dget (b_pending b1) k = Some False
                       then b1\<lparr>b_pending := ddel (b_pending b1) k\<rparr> else b1), False))"

definition forward_mutation :: "gate \<Rightarrow> bridge \<Rightarrow> string \<Rightarrow> json \<Rightarrow> string \<Rightarrow> request_key option \<Rightarrow> bool \<Rightarrow>
    gate \<times> bridge \<times> bool" where
  "forward_mutation g b text request_id method key sent = (case enter_mutation g method of
     Inl _ \<Rightarrow> (g, send_fault b request_id ''service_busy'' (-32040) (Some method), True)
   | Inr g1 \<Rightarrow>
     (case key of
        None \<Rightarrow> if sent then (fst (exit_mutation g1), relay b text, True)
                else (fst (exit_mutation g1), b, False)
      | Some k \<Rightarrow>
          (let b1 = b\<lparr>b_pending := dset (b_pending b) k True\<rparr>
           in if sent then (g1, relay b1 text, True)
              else (fst (exit_mutation g1), b1\<lparr>b_pending := ddel (b_pending b1) k\<rparr>, False))))"

text \<open>One frame of the frontend pump; \<open>None\<close> is a frame that is not text.\<close>

definition forward_frontend :: "(string \<Rightarrow> json option) \<Rightarrow> gate \<Rightarrow> bridge \<Rightarrow> string option \<Rightarrow> bool \<Rightarrow>
    gate \<times> bridge \<times> bool" where
  "forward_frontend loads g b frame sent = (case frame of
     None \<Rightarrow> (g, invalid_request b JNull, True)
   | Some text \<Rightarrow>
     if MAX_FRAME_BYTES < utf8_len text then (g, invalid_request b JNull, True)
     else (case loads text of
       None \<Rightarrow> (g, invalid_request b JNull, True)
     | Some v \<Rightarrow> (case as_obj v of
         None \<Rightarrow> (g, invalid_request b JNull, True)
       | Some m \<Rightarrow>
         if dhas m ''id'' \<and> request_key_of (jget m ''id'') = None
         then (g, invalid_request b JNull, True)
         else if classify_frontend_frame v = RESPONSE
         then (if sent then (g, relay b text, True) else (g, b, False))
         else (case as_nonempty (jget m ''method'') of
           None \<Rightarrow> (g, invalid_request b (jget m ''id''), True)
         | Some method \<Rightarrow>
           (let key = (if dhas m ''id'' then request_key_of (jget m ''id'') else None)
            in if (case key of None \<Rightarrow> False | Some k \<Rightarrow> dhas (b_pending b) k)
               then (g, invalid_request b (jget m ''id''), True)
               else if classify_frontend_frame v = ALLOWED
               then forward_read g b text key sent
               else forward_mutation g b text (jget m ''id'') method key sent)))))"

text \<open>One frame of the backend pump: a response gives back what its request holds.\<close>

definition pump_backend :: "(string \<Rightarrow> json option) \<Rightarrow> gate \<Rightarrow> bridge \<Rightarrow> string option \<Rightarrow> bool \<Rightarrow>
    gate \<times> bridge \<times> bool" where
  "pump_backend loads g b frame sent = (case frame of
     None \<Rightarrow> (g, b, False)
   | Some text \<Rightarrow>
     if MAX_FRAME_BYTES < utf8_len text then (g, b, False)
     else (case loads text of
       None \<Rightarrow> (g, b, False)
     | Some v \<Rightarrow>
       (let key = (if classify_frontend_frame v = RESPONSE
                   then (case as_obj v of None \<Rightarrow> None | Some m \<Rightarrow> request_key_of (jget m ''id''))
                   else None);
            (g1, b1) = (case key of
               None \<Rightarrow> (g, b)
             | Some k \<Rightarrow> (case dget (b_pending b) k of
                 None \<Rightarrow> (g, b)
               | Some mutation \<Rightarrow>
                   (if mutation then fst (exit_mutation g) else g,
                    b\<lparr>b_pending := ddel (b_pending b) k\<rparr>)))
        in if sent then (g1, b1\<lparr>to_frontend := to_frontend b1 @ [Relayed text]\<rparr>, True)
           else (g1, b1, False))))"

fun leave_all :: "nat \<Rightarrow> gate \<Rightarrow> gate \<times> (exn, unit) res" where
  "leave_all 0 g = (g, Inr ())"
| "leave_all (Suc n) g = (case exit_mutation g of (g', Inl e) \<Rightarrow> (g', Inl e)
     | (g', Inr _) \<Rightarrow> leave_all n g')"

definition held_mutations :: "bridge \<Rightarrow> nat" where
  "held_mutations b = length (filter snd (b_pending b))"

definition close_bridge :: "gate \<Rightarrow> bridge \<Rightarrow> gate \<times> bridge \<times> (exn, unit) res" where
  "close_bridge g b =
     (if b_closed b then (g, b, Inr ())
      else (let b1 = b\<lparr>b_closed := True, b_pending := []\<rparr>;
                (g1, r) = leave_all (held_mutations b) g
            in (g1, b1, r)))"

section \<open>Accounting\<close>

lemma leave_all_eq: "leave_all n g = mg.leave_many n g"
  by (induction n arbitrary: g) (auto split: prod.splits sum.splits)

lemma exit_active [simp]: "active_mutations (fst (exit_mutation g)) = active_mutations g - 1"
  by (simp add: exit_mutation_def Let_def)

lemma held_dset:
  "distinct (dkeys (b_pending b)) \<Longrightarrow> \<not> dhas (b_pending b) k \<Longrightarrow>
     held_mutations (b\<lparr>b_pending := dset (b_pending b) k v\<rparr>) = held_mutations b + (if v then 1 else 0)"
proof -
  have "\<not> dhas d k \<Longrightarrow> dset d k v = d @ [(k, v)]" for d
    by (induction d k v rule: dset.induct) (auto simp: dhas_def split: if_splits)
  then show "\<not> dhas (b_pending b) k \<Longrightarrow> ?thesis" by (simp add: held_mutations_def)
qed

lemma held_ddel:
  assumes "distinct (dkeys (b_pending b))" "dget (b_pending b) k = Some v"
  shows "held_mutations b = held_mutations (b\<lparr>b_pending := ddel (b_pending b) k\<rparr>) + (if v then 1 else 0)"
proof -
  have "distinct (dkeys d) \<Longrightarrow> dget d k = Some v \<Longrightarrow>
      length (filter snd d) = length (filter snd (ddel d k)) + (if v then 1 else 0)" for d
    by (induction d k rule: ddel.induct) (auto simp: ddel_absent split: if_splits)
  with assms show ?thesis by (simp add: held_mutations_def)
qed

text \<open>Actions of the pumps and the closing of a bridge, as a run.\<close>

datatype bridge_action = FromFrontend "string option" bool | FromBackend "string option" bool | CloseBridge

fun bridge_exec :: "(string \<Rightarrow> json option) \<Rightarrow> gate \<times> bridge \<Rightarrow> bridge_action \<Rightarrow> gate \<times> bridge" where
  "bridge_exec loads (g, b) (FromFrontend frame sent) =
     (case forward_frontend loads g b frame sent of (g', b', _) \<Rightarrow> (g', b'))"
| "bridge_exec loads (g, b) (FromBackend frame sent) =
     (case pump_backend loads g b frame sent of (g', b', _) \<Rightarrow> (g', b'))"
| "bridge_exec loads (g, b) CloseBridge = (case close_bridge g b of (g', b', _) \<Rightarrow> (g', b'))"

definition bridge_run :: "(string \<Rightarrow> json option) \<Rightarrow> gate \<times> bridge \<Rightarrow> bridge_action list \<Rightarrow> gate \<times> bridge" where
  "bridge_run loads gb as = foldl (bridge_exec loads) gb as"

definition accounted :: "int \<Rightarrow> gate \<times> bridge \<Rightarrow> bool" where
  "accounted others gb \<longleftrightarrow> (case gb of (g, b) \<Rightarrow>
     active_mutations g = others + int (held_mutations b) \<and> distinct (dkeys (b_pending b)))"

lemma held_relay [simp]: "held_mutations (relay b t) = held_mutations b"
  "b_pending (relay b t) = b_pending b" "b_closed (relay b t) = b_closed b"
  by (simp_all add: held_mutations_def relay_def)

lemma held_fault [simp]: "held_mutations (send_fault b i k c m) = held_mutations b"
  "b_pending (send_fault b i k c m) = b_pending b"
  "held_mutations (invalid_request b i) = held_mutations b"
  "b_pending (invalid_request b i) = b_pending b"
  by (simp_all add: held_mutations_def send_fault_def invalid_request_def)

lemma held_frontend [simp]: "held_mutations (b\<lparr>to_frontend := x\<rparr>) = held_mutations b"
  by (simp add: held_mutations_def)

lemma ddel_dset_new: "\<not> dhas d k \<Longrightarrow> ddel (dset d k v) k = d"
  by (induction d k v rule: dset.induct) (auto simp: dhas_def split: if_splits)

lemma accounted_read:
  assumes "accounted n (g, b)" "case key of None \<Rightarrow> True | Some k \<Rightarrow> \<not> dhas (b_pending b) k"
    "forward_read g b text key sent = (g', b', go)"
  shows "accounted n (g', b')"
  using assms
  by (cases key; cases sent)
     (auto simp: accounted_def forward_read_def held_dset ddel_dset_new)

lemma accounted_mutation:
  assumes "accounted n (g, b)" "case key of None \<Rightarrow> True | Some k \<Rightarrow> \<not> dhas (b_pending b) k"
    "forward_mutation g b text i method key sent = (g', b', go)"
  shows "accounted n (g', b')"
proof (cases "enter_mutation g method")
  case (Inl e)
  with assms show ?thesis by (auto simp: accounted_def forward_mutation_def)
next
  case (Inr g1)
  with mg.enter_ok have "active_mutations g1 = active_mutations g + 1" by blast
  with Inr assms show ?thesis
    by (cases key; cases sent)
       (auto simp: accounted_def forward_mutation_def held_dset ddel_dset_new Let_def)
qed

lemma accounted_out [simp]:
  "accounted n (g, invalid_request b i) = accounted n (g, b)"
  "accounted n (g, relay b t) = accounted n (g, b)"
  by (simp_all add: accounted_def)

lemma accounted_forward:
  assumes "accounted n (g, b)" "forward_frontend loads g b frame sent = (g', b', go)"
  shows "accounted n (g', b')"
  using assms
  by (auto simp: forward_frontend_def Let_def dhas_def split: option.splits if_splits
      intro: accounted_read accounted_mutation
        accounted_read [where key = "Some k" for k, simplified dhas_def, simplified]
        accounted_mutation [where key = "Some k" for k, simplified dhas_def, simplified])

lemma accounted_backend:
  assumes "accounted n (g, b)" "pump_backend loads g b frame sent = (g', b', go)"
  shows "accounted n (g', b')"
proof -
  have del: "accounted n (if v then fst (exit_mutation g) else g, b\<lparr>b_pending := ddel (b_pending b) k\<rparr>)"
    if "dget (b_pending b) k = Some v" for k v
    using held_ddel [OF _ that] assms(1) by (auto simp: accounted_def)
  have front: "accounted n (h, c) \<Longrightarrow> accounted n (h, c\<lparr>to_frontend := x\<rparr>)" for h c x
    by (simp add: accounted_def)
  show ?thesis
    using assms(2) del [of _ True, simplified] del [of _ False, simplified] assms(1)
    by (auto simp: pump_backend_def Let_def split: option.splits if_splits intro!: front)
qed

lemma accounted_close:
  assumes "accounted n (g, b)" "0 \<le> n" "close_bridge g b = (g', b', r)"
  shows "accounted n (g', b') \<and> r = Inr ()"
proof (cases "b_closed b")
  case False
  have "int (held_mutations b) \<le> active_mutations g" using assms(1,2) by (simp add: accounted_def)
  from mg.leave_many_ok [OF this] obtain h where
    "leave_all (held_mutations b) g = (h, Inr ())"
    "active_mutations h = active_mutations g - int (held_mutations b)"
    by (auto simp: leave_all_eq)
  with False assms show ?thesis
    by (auto simp: accounted_def close_bridge_def Let_def held_mutations_def)
qed (use assms in \<open>simp add: close_bridge_def\<close>)

lemma accounted_run:
  "accounted n gb \<Longrightarrow> 0 \<le> n \<Longrightarrow> accounted n (bridge_run loads gb as)"
proof (induction as arbitrary: gb)
  case (Cons a as)
  obtain g b where gb: "gb = (g, b)" by (cases gb)
  have "accounted n (bridge_exec loads gb a)"
    using Cons.prems gb
    by (cases a) (auto split: prod.split intro: accounted_forward accounted_backend
        dest: accounted_close)
  then show ?case using Cons by (simp add: bridge_run_def)
qed (simp add: bridge_run_def)


text \<open>
  while the gate drains, the only frames a frontend gets through are responses and the
  requests allowed during a drain; every other request is answered with a retryable
  \<open>service_busy\<close> and changes neither the gate nor the pending requests.
\<close>

text \<open>
  While the gate drains, a request that is not allowed is answered with a retryable service_busy and changes neither the gate nor the pending requests.
\<close>

theorem drain_blocks_frontend_mutations:
  assumes "draining g" "loads text = Some (JObj m)" "utf8_len text \<le> MAX_FRAME_BYTES"
    "classify_frontend_frame (JObj m) = BLOCKED" "jget m ''method'' = JStr method" "method \<noteq> []"
    "dhas m ''id'' \<longrightarrow> (\<exists>k. request_key_of (jget m ''id'') = Some k \<and> \<not> dhas (b_pending b) k)"
  shows "forward_frontend loads g b (Some text) sent =
    (g, b\<lparr>to_frontend := to_frontend b @ [Refused (fault_frame (jget m ''id'') ''service_busy''
          (-32040) (Some method))]\<rparr>, True)"
  using assms
  by (auto simp: forward_frontend_def forward_mutation_def enter_mutation_def send_fault_def)

text \<open>
  A frame forwarded after the bridge was closed keeps its mutation: the later close does
  nothing, so the gate never gets it back from this bridge.
\<close>

theorem forward_after_close_keeps_mutation:
  assumes "\<not> draining g" "b_closed b" "loads text = Some (JObj m)" "utf8_len text \<le> MAX_FRAME_BYTES"
    "classify_frontend_frame (JObj m) = BLOCKED" "jget m ''method'' = JStr method" "method \<noteq> []"
    "request_key_of (jget m ''id'') = Some k" "\<not> dhas (b_pending b) k"
  shows "\<exists>g1 b1. forward_frontend loads g b (Some text) True = (g1, b1, True)
    \<and> active_mutations g1 = active_mutations g + 1 \<and> close_bridge g1 b1 = (g1, b1, Inr ())"
  using assms
  by (cases "dhas m ''id''")
     (auto simp: forward_frontend_def forward_mutation_def enter_mutation_def close_bridge_def Let_def
       dhas_def jget_def request_key_of_def)

end
