(* ===== verification/Inventory.thy ===== *)
theory Inventory
  imports Listener
begin

text \<open>
  The maintenance part of \<open>models.py\<close>: an active thread with its optional worker, the active
  inventory, the split of workers into active and idle, and the result of a stop or restart,
  with the checks of their constructors and their dictionary forms.
\<close>

section \<open>Active threads\<close>

record active_item =
  ai_thread_id :: string
  ai_origin :: string
  ai_worker :: "string option"
  ai_session_id :: "string option"
  ai_turn_id :: string
  ai_flags :: "string list"

definition opt_check :: "json \<Rightarrow> (string \<Rightarrow> bool) \<Rightarrow> bool" where
  "opt_check v ok \<longleftrightarrow> v = JNull \<or> (case as_str v of None \<Rightarrow> False | Some s \<Rightarrow> ok s)"

text \<open>The constructor, over the values \<open>from_dict\<close> passes; an origin that cannot be hashed raises TypeError.\<close>

definition mk_active_item ::
  "json \<Rightarrow> json \<Rightarrow> json \<Rightarrow> json \<Rightarrow> json \<Rightarrow> json \<Rightarrow> (exn, active_item) res" where
  "mk_active_item thread_id origin worker session_id turn_id flags =
     (case as_nonempty thread_id of
        None \<Rightarrow> Inl (ValueError ''active thread_id must be non-empty'')
      | Some th \<Rightarrow>
        if \<not> hashable origin then Inl (TypeError ''unhashable type'')
        else if origin \<notin> {JStr ''worker'', JStr ''unmapped_tui''}
        then Inl (ValueError ''active origin is invalid'')
        else if \<not> opt_check worker worker_name_re
        then Inl (ValueError ''active worker must be non-empty when present'')
        else if \<not> opt_check session_id (\<lambda>s. s \<noteq> [])
        then Inl (ValueError ''active session_id must be non-empty when present'')
        else (case as_nonempty turn_id of
          None \<Rightarrow> Inl (ValueError ''active turn_id must be non-empty'')
        | Some tid \<Rightarrow> (case as_list flags of
            None \<Rightarrow> Inl (ValueError ''active flags must be non-empty strings'')
          | Some fs \<Rightarrow>
            if list_ex (\<lambda>f. as_nonempty f = None) fs
            then Inl (ValueError ''active flags must be non-empty strings'')
            else if origin = JStr ''unmapped_tui'' \<and> (worker \<noteq> JNull \<or> session_id \<noteq> JNull)
            then Inl (ValueError ''unmapped TUI activity cannot carry worker identity'')
            else if origin = JStr ''worker'' \<and> session_id = JNull
            then Inl (ValueError ''worker activity requires session identity'')
            else Inr \<lparr>ai_thread_id = th, ai_origin = the (as_str origin), ai_worker = as_str worker,
                       ai_session_id = as_str session_id, ai_turn_id = tid,
                       ai_flags = map (\<lambda>f. the (as_str f)) fs\<rparr>)))"

definition active_item_to_dict :: "active_item \<Rightarrow> json_object" where
  "active_item_to_dict i =
     [(''thread_id'', JStr (ai_thread_id i)), (''origin'', JStr (ai_origin i)),
      (''worker'', jopt (ai_worker i)), (''session_id'', jopt (ai_session_id i)),
      (''turn_id'', JStr (ai_turn_id i)), (''active_flags'', JList (map JStr (ai_flags i)))]"

definition active_item_from_dict :: "json \<Rightarrow> (exn, active_item) res" where
  "active_item_from_dict value = (case as_obj value of
     None \<Rightarrow> Inl (ValueError ''invalid ActiveThreadItem fields'')
   | Some v \<Rightarrow>
     if \<not> has_fields v [''thread_id'', ''origin'', ''worker'', ''session_id'', ''turn_id'', ''active_flags'']
     then Inl (ValueError ''invalid ActiveThreadItem fields'')
     else mk_active_item (jget v ''thread_id'') (jget v ''origin'') (jget v ''worker'')
            (jget v ''session_id'') (jget v ''turn_id'') (jget v ''active_flags''))"

definition active_item_ok :: "active_item \<Rightarrow> bool" where
  "active_item_ok i \<longleftrightarrow> ai_thread_id i \<noteq> [] \<and> ai_turn_id i \<noteq> []
     \<and> ai_origin i \<in> {''worker'', ''unmapped_tui''}
     \<and> (case ai_worker i of None \<Rightarrow> True | Some w \<Rightarrow> worker_name_re w)
     \<and> ai_session_id i \<noteq> Some [] \<and> list_all (\<lambda>f. f \<noteq> []) (ai_flags i)
     \<and> (ai_origin i = ''unmapped_tui'' \<longrightarrow> ai_worker i = None \<and> ai_session_id i = None)
     \<and> (ai_origin i = ''worker'' \<longrightarrow> ai_session_id i \<noteq> None)"

lemma active_item_roundtrip:
  assumes "active_item_ok i"
  shows "active_item_from_dict (JObj (active_item_to_dict i)) = Inr i"
proof -
  have fields: "has_fields (active_item_to_dict i)
      [''thread_id'', ''origin'', ''worker'', ''session_id'', ''turn_id'', ''active_flags'']"
    by (simp add: active_item_to_dict_def has_fields_def)
  have opt: "opt_check (jopt s) ok = (case s of None \<Rightarrow> True | Some x \<Rightarrow> ok x)" for s ok
    by (cases s) (simp_all add: opt_check_def)
  have str: "as_str (jopt s) = s" "jopt s = JNull \<longleftrightarrow> s = None" for s by (cases s; simp)+
  have fs: "list_ex (\<lambda>f. as_nonempty f = None) (map JStr (ai_flags i)) = False"
    "map (\<lambda>f. the (as_str f)) (map JStr (ai_flags i)) = ai_flags i"
    using assms by (auto simp: active_item_ok_def list_ex_iff list_all_iff comp_def)
  show ?thesis
    using assms fields
    by (cases i) (auto simp: active_item_from_dict_def mk_active_item_def opt str fs hashable_def
        active_item_ok_def active_item_to_dict_def list_ex_iff list_all_iff comp_def
        split: option.splits)
qed

section \<open>The inventory\<close>

definition mk_inventory :: "active_item list \<Rightarrow> (exn, active_item list) res" where
  "mk_inventory items = (if distinct (map ai_thread_id items) then Inr items
     else Inl (ValueError ''inventory thread IDs must be unique''))"

definition inventory_to_dict :: "active_item list \<Rightarrow> json_object" where
  "inventory_to_dict items = [(''items'', JList (map (\<lambda>i. JObj (active_item_to_dict i)) items))]"

definition inventory_from_dict :: "json \<Rightarrow> (exn, active_item list) res" where
  "inventory_from_dict value = (case as_obj value of
     None \<Rightarrow> Inl (ValueError ''invalid ActiveInventory fields'')
   | Some v \<Rightarrow>
     if \<not> has_fields v [''items''] then Inl (ValueError ''invalid ActiveInventory fields'')
     else (case as_list (jget v ''items'') of
       None \<Rightarrow> Inl (ValueError ''invalid ActiveInventory fields'')
     | Some xs \<Rightarrow> ebind (emap active_item_from_dict xs) mk_inventory))"

definition inventory_ok :: "active_item list \<Rightarrow> bool" where
  "inventory_ok items \<longleftrightarrow> list_all active_item_ok items \<and> distinct (map ai_thread_id items)"

lemma inventory_roundtrip:
  assumes "inventory_ok items"
  shows "inventory_from_dict (JObj (inventory_to_dict items)) = Inr items"
proof -
  have "emap active_item_from_dict (map (\<lambda>i. JObj (active_item_to_dict i)) items) = Inr items"
    using assms active_item_roundtrip
    by (auto simp: emap_Inr_iff inventory_ok_def list_all_iff)
  then show ?thesis
    using assms
    by (simp add: inventory_from_dict_def inventory_to_dict_def has_fields_def mk_inventory_def
        inventory_ok_def)
qed

section \<open>Worker impact\<close>

record worker_impact =
  wi_active :: "string list"
  wi_idle :: "string list"

definition empty_impact :: worker_impact where
  "empty_impact = \<lparr>wi_active = [], wi_idle = []\<rparr>"

text \<open>\<open>list(values) == sorted(set(values))\<close>.\<close>

definition sorted_unique :: "string list \<Rightarrow> bool" where
  "sorted_unique xs \<longleftrightarrow> xs = sort (remdups xs)"

lemma sorted_unique_iff: "sorted_unique xs \<longleftrightarrow> sorted_wrt (<) xs"
proof
  assume "sorted_unique xs"
  then have "sorted xs" "distinct xs" unfolding sorted_unique_def
    by (metis sorted_sort, metis distinct_remdups distinct_sort)
  then show "sorted_wrt (<) xs" by (simp add: strict_sorted_iff)
next
  assume "sorted_wrt (<) xs"
  then show "sorted_unique xs"
    by (simp add: strict_sorted_iff sorted_unique_def distinct_remdups_id sorted_sort_id)
qed

definition mk_impact :: "string list \<Rightarrow> string list \<Rightarrow> (exn, worker_impact) res" where
  "mk_impact active idle =
     (if list_ex (\<lambda>s. s = []) active
      then Inl (ValueError ''worker impact names must be non-empty strings'')
      else if \<not> sorted_unique active
      then Inl (ValueError ''worker impact names must be unique and sorted'')
      else if list_ex (\<lambda>s. s = []) idle
      then Inl (ValueError ''worker impact names must be non-empty strings'')
      else if \<not> sorted_unique idle
      then Inl (ValueError ''worker impact names must be unique and sorted'')
      else if list_ex (\<lambda>s. s \<in> set idle) active
      then Inl (ValueError ''active and idle worker names must be disjoint'')
      else Inr \<lparr>wi_active = active, wi_idle = idle\<rparr>)"

definition impact_to_dict :: "worker_impact \<Rightarrow> json_object" where
  "impact_to_dict w =
     [(''active_names'', JList (map JStr (wi_active w))),
      (''idle_names'', JList (map JStr (wi_idle w))),
      (''active_count'', JInt (int (length (wi_active w)))),
      (''idle_count'', JInt (int (length (wi_idle w)))),
      (''total_count'', JInt (int (length (wi_active w)) + int (length (wi_idle w))))]"

definition strings_of :: "json \<Rightarrow> (exn, string list) res" where
  "strings_of v = (case as_list v of
     None \<Rightarrow> Inl (ValueError ''worker impact names must be non-empty strings'')
   | Some xs \<Rightarrow> if list_ex (\<lambda>x. as_nonempty x = None) xs
       then Inl (ValueError ''worker impact names must be non-empty strings'')
       else Inr (map (\<lambda>x. the (as_str x)) xs))"

definition impact_from_dict :: "json \<Rightarrow> (exn, worker_impact) res" where
  "impact_from_dict value = (case as_obj value of
     None \<Rightarrow> Inl (ValueError ''invalid WorkerImpact fields'')
   | Some v \<Rightarrow>
     if \<not> has_fields v [''active_names'', ''idle_names'', ''active_count'', ''idle_count'', ''total_count'']
     then Inl (ValueError ''invalid WorkerImpact fields'')
     else ebind (strings_of (jget v ''active_names'')) (\<lambda>active.
       if \<not> sorted_unique active
       then Inl (ValueError ''worker impact names must be unique and sorted'')
       else ebind (strings_of (jget v ''idle_names'')) (\<lambda>idle.
       ebind (mk_impact active idle) (\<lambda>w.
         if py_eq (JObj (impact_to_dict w)) (JObj v) then Inr w
         else Inl (ValueError ''worker impact counts do not match names'')))))"

definition impact_ok :: "worker_impact \<Rightarrow> bool" where
  "impact_ok w \<longleftrightarrow> sorted_wrt (<) (wi_active w) \<and> sorted_wrt (<) (wi_idle w)
     \<and> [] \<notin> set (wi_active w) \<and> [] \<notin> set (wi_idle w) \<and> set (wi_active w) \<inter> set (wi_idle w) = {}"

lemma mk_impact_Inr [res_simps]:
  "mk_impact a i = Inr w \<longleftrightarrow> w = \<lparr>wi_active = a, wi_idle = i\<rparr> \<and> impact_ok w"
  by (auto simp: mk_impact_def impact_ok_def sorted_unique_iff list_ex_iff)

lemma py_eq_refl_strs: "py_eq (JList (map JStr xs)) (JList (map JStr xs))"
  by (induction xs) auto

lemma impact_roundtrip:
  assumes "impact_ok w" shows "impact_from_dict (JObj (impact_to_dict w)) = Inr w"
proof -
  have strs: "strings_of (JList (map JStr xs)) = Inr xs" if "[] \<notin> set xs" for xs
    using that by (auto simp: strings_of_def list_ex_iff comp_def)
  have f: "has_fields (impact_to_dict w)
     [''active_names'', ''idle_names'', ''active_count'', ''idle_count'', ''total_count'']"
    by (simp add: has_fields_def impact_to_dict_def)
  have mk: "mk_impact (wi_active w) (wi_idle w) = Inr w" using assms by (simp add: mk_impact_Inr)
  have eq: "py_eq (JObj (impact_to_dict w)) (JObj (impact_to_dict w))"
    using py_eq_refl_strs by (simp add: impact_to_dict_def num_eq_def num_val_def)
  have get: "jget (impact_to_dict w) ''active_names'' = JList (map JStr (wi_active w))"
    "jget (impact_to_dict w) ''idle_names'' = JList (map JStr (wi_idle w))"
    by (simp_all add: impact_to_dict_def)
  have ok: "[] \<notin> set (wi_active w)" "[] \<notin> set (wi_idle w)" "sorted_unique (wi_active w)"
    using assms by (simp_all add: impact_ok_def sorted_unique_iff)
  show ?thesis
    by (simp add: impact_from_dict_def f get strs ok mk eq del: py_eq.simps)
qed


section \<open>Maintenance results\<close>

text \<open>
  \<open>mr_impact\<close> is \<open>None\<close> for an unavailable impact (inventory and workers both absent, with the
  one admitted reason), else the inventory and the workers.
\<close>

record maintenance_result =
  mr_action :: string
  mr_status :: string
  mr_forced :: bool
  mr_listener :: "string option"
  mr_impact :: "(active_item list \<times> worker_impact) option"

definition maintenance_ok :: "numeric_lookup \<Rightarrow> maintenance_result \<Rightarrow> (exn, unit) res" where
  "maintenance_ok lookup m =
     (if mr_action m \<notin> {''stop'', ''restart''}
      then Inl (ValueError ''maintenance action is invalid'')
      else if mr_status m \<notin> {''refused'', ''completed''}
      then Inl (ValueError ''maintenance status is invalid'')
      else if mr_listener m = Some []
      then Inl (ValueError ''maintenance listener must be non-empty when present'')
      else if (mr_action m = ''stop'') \<noteq> (mr_listener m = None)
      then Inl (ValueError ''only restart maintenance carries a listener'')
      else ebind (case mr_listener m of None \<Rightarrow> Inr ()
          | Some l \<Rightarrow> ebind (validate_public_listener lookup (JStr l)) (\<lambda>_. Inr ())) (\<lambda>_.
        if mr_impact m = None \<and> mr_status m = ''completed'' \<and> \<not> mr_forced m
        then Inl (ValueError ''unavailable maintenance completion must be forced'')
        else if mr_status m = ''refused'' \<and> mr_forced m
        then Inl (ValueError ''maintenance refusal cannot be forced'')
        else if mr_status m = ''refused'' \<and> (case mr_impact m of None \<Rightarrow> False | Some (items, _) \<Rightarrow> items = [])
        then Inl (ValueError ''maintenance refusal requires active or unavailable impact'')
        else if mr_status m = ''completed'' \<and> \<not> mr_forced m
             \<and> (case mr_impact m of None \<Rightarrow> False | Some (items, _) \<Rightarrow> items \<noteq> [])
        then Inl (ValueError ''active maintenance completion must be forced'')
        else Inr ()))"

definition mk_maintenance :: "numeric_lookup \<Rightarrow> string \<Rightarrow> string \<Rightarrow> bool \<Rightarrow> string option \<Rightarrow>
    (active_item list \<times> worker_impact) option \<Rightarrow> (exn, maintenance_result) res" where
  "mk_maintenance lookup action status forced listener impact =
     (let m = \<lparr>mr_action = action, mr_status = status, mr_forced = forced,
               mr_listener = listener, mr_impact = impact\<rparr>
      in ebind (maintenance_ok lookup m) (\<lambda>_. Inr m))"

definition unavailable_impact :: json_object where
  "unavailable_impact = [(''availability'', JStr ''unavailable''),
     (''reason'', JStr ''upstream_inventory_unavailable'')]"

definition maintenance_to_dict :: "maintenance_result \<Rightarrow> json_object" where
  "maintenance_to_dict m =
     [(''action'', JStr (mr_action m)), (''status'', JStr (mr_status m)),
      (''forced'', JBool (mr_forced m)), (''listener'', jopt (mr_listener m)),
      (''inventory'', JObj (case mr_impact m of None \<Rightarrow> unavailable_impact
         | Some (items, _) \<Rightarrow> inventory_to_dict items)),
      (''workers'', JObj (case mr_impact m of None \<Rightarrow> unavailable_impact
         | Some (_, w) \<Rightarrow> impact_to_dict w)),
      (''durable_state'', JStr ''preserved'')]"

definition maintenance_fields :: "string list" where
  "maintenance_fields = [''action'', ''status'', ''forced'', ''listener'', ''inventory'',
     ''workers'', ''durable_state'']"

text \<open>
  The scalar arguments the constructor checks first, in its order: the action and the status
  by membership, the flag by type, the listener as text.
\<close>

definition maintenance_scalars :: "json_object \<Rightarrow> (exn, string \<times> string \<times> bool \<times> string option) res" where
  "maintenance_scalars v =
     (if jget v ''action'' \<notin> {JStr ''stop'', JStr ''restart''}
      then Inl (ValueError ''maintenance action is invalid'')
      else if jget v ''status'' \<notin> {JStr ''refused'', JStr ''completed''}
      then Inl (ValueError ''maintenance status is invalid'')
      else (case jget v ''forced'' of
        JBool f \<Rightarrow>
          if \<not> opt_check (jget v ''listener'') (\<lambda>s. s \<noteq> [])
          then Inl (ValueError ''maintenance listener must be non-empty when present'')
          else Inr (the (as_str (jget v ''action'')), the (as_str (jget v ''status'')), f,
                    as_str (jget v ''listener''))
      | _ \<Rightarrow> Inl (ValueError ''maintenance forced must be bool'')))"

definition maintenance_from_dict :: "numeric_lookup \<Rightarrow> json \<Rightarrow> (exn, maintenance_result) res" where
  "maintenance_from_dict lookup value = (case as_obj value of
     None \<Rightarrow> Inl (ValueError ''invalid MaintenanceResult fields'')
   | Some v \<Rightarrow>
     if \<not> has_fields v maintenance_fields
     then Inl (ValueError ''invalid MaintenanceResult fields'')
     else if jget v ''durable_state'' \<noteq> JStr ''preserved''
     then Inl (ValueError ''maintenance must preserve durable state'')
     else (let iu = py_eq (jget v ''inventory'') (JObj unavailable_impact);
               wu = py_eq (jget v ''workers'') (JObj unavailable_impact)
       in if iu \<or> wu then
            (if iu \<noteq> wu then Inl (ValueError ''maintenance unavailable impact must be consistent'')
             else ebind (maintenance_scalars v) (\<lambda>(a, s, f, l). mk_maintenance lookup a s f l None))
          else ebind (inventory_from_dict (jget v ''inventory'')) (\<lambda>items.
               ebind (impact_from_dict (jget v ''workers'')) (\<lambda>w.
               ebind (maintenance_scalars v) (\<lambda>(a, s, f, l).
                 mk_maintenance lookup a s f l (Some (items, w)))))))"

definition impact_parts_ok :: "maintenance_result \<Rightarrow> bool" where
  "impact_parts_ok m = (case mr_impact m of None \<Rightarrow> True
     | Some (items, w) \<Rightarrow> inventory_ok items \<and> impact_ok w)"

lemma mk_maintenance_Inr [res_simps]:
  "mk_maintenance lookup a s f l i = Inr m \<longleftrightarrow>
     m = \<lparr>mr_action = a, mr_status = s, mr_forced = f, mr_listener = l, mr_impact = i\<rparr>
     \<and> maintenance_ok lookup m = Inr ()"
  by (auto simp: mk_maintenance_def Let_def res_simps)

text \<open>
  A maintenance result survives its dictionary form, and no result can hide active work:
  a completed one with active threads, or with an unknown impact, was forced, and one that
  was refused names active threads or an unknown impact.
\<close>

theorem maintenance_result_sound:
  assumes ok: "maintenance_ok lookup m = Inr ()" and parts: "impact_parts_ok m"
  shows "maintenance_from_dict lookup (JObj (maintenance_to_dict m)) = Inr m
    \<and> (mr_status m = ''completed'' \<and> (case mr_impact m of None \<Rightarrow> True | Some (items, _) \<Rightarrow> items \<noteq> [])
         \<longrightarrow> mr_forced m)
    \<and> (mr_status m = ''refused'' \<longrightarrow> \<not> mr_forced m
         \<and> (case mr_impact m of None \<Rightarrow> True | Some (items, _) \<Rightarrow> items \<noteq> []))"
proof -
  have fields: "has_fields (maintenance_to_dict m) maintenance_fields"
    by (simp add: has_fields_def maintenance_to_dict_def maintenance_fields_def)
  have facts: "mr_action m \<in> {''stop'', ''restart''}" "mr_status m \<in> {''refused'', ''completed''}"
    "mr_listener m \<noteq> Some []"
    using ok by (auto simp: maintenance_ok_def split: if_splits)
  have scal: "maintenance_scalars (maintenance_to_dict m)
      = Inr (mr_action m, mr_status m, mr_forced m, mr_listener m)"
    using facts by (cases "mr_listener m")
      (auto simp: maintenance_scalars_def maintenance_to_dict_def opt_check_def)
  have mk: "mk_maintenance lookup (mr_action m) (mr_status m) (mr_forced m) (mr_listener m) (mr_impact m)
      = Inr m"
    using ok by (simp add: mk_maintenance_Inr)
  have not_un: "\<not> py_eq (JObj (inventory_to_dict items)) (JObj unavailable_impact)"
    "\<not> py_eq (JObj (impact_to_dict w)) (JObj unavailable_impact)" for items w
    by (simp_all add: inventory_to_dict_def impact_to_dict_def unavailable_impact_def)
  have un: "py_eq (JObj unavailable_impact) (JObj unavailable_impact)"
    by (simp add: unavailable_impact_def)
  have get: "jget (maintenance_to_dict m) ''inventory'' = JObj (case mr_impact m of
        None \<Rightarrow> unavailable_impact | Some (items, _) \<Rightarrow> inventory_to_dict items)"
    "jget (maintenance_to_dict m) ''workers'' = JObj (case mr_impact m of
        None \<Rightarrow> unavailable_impact | Some (_, w) \<Rightarrow> impact_to_dict w)"
    "jget (maintenance_to_dict m) ''durable_state'' = JStr ''preserved''"
    by (simp_all add: maintenance_to_dict_def)
  have trip: "maintenance_from_dict lookup (JObj (maintenance_to_dict m)) = Inr m"
  proof (cases "mr_impact m")
    case None
    with scal mk un fields get show ?thesis
      by (simp add: maintenance_from_dict_def Let_def del: py_eq.simps)
  next
    case (Some p)
    obtain items w where p: "p = (items, w)" by (cases p)
    with parts Some have "inventory_ok items" "impact_ok w" by (simp_all add: impact_parts_ok_def)
    with Some p scal mk not_un fields get show ?thesis
      by (simp add: maintenance_from_dict_def Let_def inventory_roundtrip impact_roundtrip
          del: py_eq.simps)
  qed
  have "mr_status m = ''completed'' \<Longrightarrow>
      (case mr_impact m of None \<Rightarrow> True | Some (items, _) \<Rightarrow> items \<noteq> []) \<Longrightarrow> mr_forced m"
    using ok by (cases "mr_impact m") (auto simp: maintenance_ok_def res_simps split: if_splits)
  moreover have "mr_status m = ''refused'' \<Longrightarrow> \<not> mr_forced m
      \<and> (case mr_impact m of None \<Rightarrow> True | Some (items, _) \<Rightarrow> items \<noteq> [])"
    using ok by (cases "mr_impact m") (auto simp: maintenance_ok_def res_simps split: if_splits)
  ultimately show ?thesis using trip by simp
qed

end
