(* ===== verification/ServiceWitness.thy ===== *)
theory ServiceWitness
  imports Gateway Inventory
begin

text \<open>
  The properties of the maintenance gate, of the connection, of the gateway's bridge and of
  the maintenance results at concrete inputs.
\<close>

section \<open>Gate\<close>

definition draining_gate :: gate where
  "draining_gate = (new_gate 7)\<lparr>draining := True\<rparr>"

definition drained :: gate_system where
  "drained = \<lparr>gs_gate = draining_gate\<lparr>next_lease := 1, current_lease := Some 0, live_leases := {0}\<rparr>, mutators = 0,
     drainer = Holding \<lparr>lease_id = 0, lease_token = 7, lease_forced = False\<rparr>,
     issued = [\<lparr>lease_id = 0, lease_token = 7, lease_forced = False\<rparr>]\<rparr>"

definition waiting_drain :: gate_system where
  "waiting_drain = \<lparr>gs_gate = draining_gate, mutators = 0, drainer = Waiting False, issued = []\<rparr>"

lemma waiting_drain_reachable: "gate_reachable 7 waiting_drain"
proof -
  have "gate_step (initial_system 7) ((initial_system 7)\<lparr>gs_gate := draining_gate, drainer := Waiting False\<rparr>)"
    by (rule step_begin) (simp add: initial_system_def drain_begin_def new_gate_def draining_gate_def)
  also have "(initial_system 7)\<lparr>gs_gate := draining_gate, drainer := Waiting False\<rparr> = waiting_drain"
    by (simp add: initial_system_def waiting_drain_def)
  finally show ?thesis by (simp add: gate_reachable_def r_into_rtranclp)
qed

lemma drained_reachable: "gate_reachable 7 drained"
proof -
  let ?l = "\<lparr>lease_id = 0, lease_token = 7, lease_forced = False\<rparr>"
  let ?g = "draining_gate\<lparr>next_lease := 1, current_lease := Some 0, live_leases := {0}\<rparr>"
  have "gate_step waiting_drain (waiting_drain\<lparr>gs_gate := ?g, drainer := Holding ?l, issued := ?l # issued waiting_drain\<rparr>)"
    by (rule step_issue [where force = False])
       (simp_all add: waiting_drain_def drain_issue_def new_gate_def draining_gate_def Let_def)
  also have "waiting_drain\<lparr>gs_gate := ?g, drainer := Holding ?l, issued := ?l # issued waiting_drain\<rparr> = drained"
    by (simp add: waiting_drain_def drained_def)
  finally show ?thesis using waiting_drain_reachable by (auto simp: gate_reachable_def)
qed

lemma ended_reachable:
  "gate_reachable 7 (drained\<lparr>gs_gate := drain_end (gs_gate drained) (hd (issued drained)), drainer := Idle\<rparr>)"
proof -
  have "gate_step drained (drained\<lparr>gs_gate := drain_end (gs_gate drained) (hd (issued drained)), drainer := Idle\<rparr>)"
    by (rule step_abandon) (simp add: drained_def)
  then show ?thesis using drained_reachable by (auto simp: gate_reachable_def)
qed

lemma gate_excludes_mutations_witness:
  "enter_mutation (gs_gate drained) ''turn/start'' = Inl (ServiceBusyError ''turn/start'')
    \<and> authorize (gs_gate drained) (hd (issued drained)) = Inr ()"
  using gate_excludes_mutations [OF drained_reachable] by (simp add: drained_def)

lemma stale_lease_refused_witness:
  "authorize (drain_end (gs_gate drained) (hd (issued drained))) (hd (issued drained))
    = Inl (PermissionError ''a live drain lease from this maintenance gate is required'')"
  using stale_lease_refused [OF ended_reachable, of "hd (issued drained)"] by (simp add: drained_def)

lemma drain_reaches_lease_witness:
  "\<exists>t l g. mutators_leave\<^sup>*\<^sup>* waiting_drain t \<and> drain_issue (gs_gate t) False = Some (l, g) \<and> authorize g l = Inr ()"
  using drain_reaches_lease [OF waiting_drain_reachable, of False] by (auto simp: waiting_drain_def)

section \<open>Connection\<close>

definition demo_env :: conn_env where
  "demo_env = \<lparr>dumps = \<lambda>_. Some ''{}'', send_raises = \<lambda>_. None, observer_raises = \<lambda>_. False,
     approval_handler = None, repr = \<lambda>_. []\<rparr>"

definition open_conn :: conn where
  "open_conn = new_conn\<lparr>c_socket := Some 0\<rparr>"

definition called_conn :: conn where
  "called_conn = open_conn\<lparr>c_next_id := 2, c_pending := [1], c_sent := [request_message ''thread/read'' 1 []]\<rparr>"

lemma open_conn_inv: "conn_inv open_conn"
  by (simp add: conn_inv_def open_conn_def new_conn_def)

lemma demo_begin: "call_begin demo_env open_conn ''thread/read'' [] = (called_conn, Inr 1)"
  by (simp add: call_begin_def require_open_def send_message_def demo_env_def open_conn_def new_conn_def
      called_conn_def Let_def MAX_FRAME_BYTES_def utf8_len_def)

lemma closed_connection_wakes_every_call_witness:
  "dget (c_mail (conn_run demo_env (\<lambda>_. None) called_conn [Incoming 0 None, Close])) 1 \<noteq> None"
proof (rule closed_connection_wakes_every_call [OF open_conn_inv demo_begin])
  show "c_closed (conn_run demo_env (\<lambda>_. None) called_conn [Incoming 0 None, Close])"
    by (simp add: conn_run_def close_conn_def fail_transport_def Let_def emit_notification_def)
qed simp

definition demo_answer :: json_object where
  "demo_answer = [(''id'', JInt 1), (''result'', JObj [])]"

abbreviation demo_calls :: "conn_action list" where
  "demo_calls \<equiv> [Open 0, Begin ''thread/read'' [], Incoming 0 (Some ''x'')]"

lemma small_frames [simp]:
  "utf8_len ''x'' \<le> MAX_FRAME_BYTES" "utf8_len ''{}'' \<le> MAX_FRAME_BYTES"
  "\<not> MAX_FRAME_BYTES < utf8_len ''x''" "\<not> MAX_FRAME_BYTES < utf8_len ''{}''"
  by (simp_all add: utf8_len_def MAX_FRAME_BYTES_def)

lemma demo_send: "require_open c = Inr () \<Longrightarrow> send_message demo_env c m = (c\<lparr>c_sent := c_sent c @ [m]\<rparr>, Inr ())"
  by (simp add: send_message_def demo_env_def Let_def)

lemma demo_response [simp]: "is_jsonrpc_response_envelope (JObj demo_answer)" "is_request_id (jget demo_answer ''id'')"
  by code_simp+

lemma demo_finish: "\<exists>c. call_finish demo_env (conn_run demo_env (\<lambda>_. Some (JObj demo_answer)) new_conn demo_calls) 1 ''thread/read'' = (c, Inr [])"
proof -
  have answered: "conn_run demo_env (\<lambda>_. Some (JObj demo_answer)) new_conn demo_calls
      = called_conn\<lparr>c_pending := [], c_mail := [(1, Message demo_answer)]\<rparr>"
    using demo_begin
    by (simp add: conn_run_def open_transport_def open_conn_def [symmetric] read_frame_def accept_frame_def
        dispatch_def deliver_def demo_answer_def [symmetric] new_conn_def)
       (simp add: new_conn_def open_conn_def called_conn_def demo_answer_def dhas_def)
  show ?thesis unfolding call_finish_def answered by (simp add: demo_answer_def dhas_def)
qed

lemma call_gets_its_own_response_witness:
  "\<exists>m. dget (c_mail (conn_run demo_env (\<lambda>_. Some (JObj demo_answer)) new_conn demo_calls)) 1 = Some (Message m)
     \<and> jget m ''id'' = JInt 1"
  using demo_finish call_gets_its_own_response by blast


definition approval_request :: json_object where
  "approval_request = [(''id'', JInt 9), (''method'', JStr ''item/commandExecution/requestApproval'')]"

lemma demo_approval: "snd (handle_server_request demo_env open_conn approval_request) = Inr ()"
proof -
  have "require_open open_conn = Inr ()" by (simp add: require_open_def open_conn_def new_conn_def)
  then show ?thesis
    by (simp add: handle_server_request_def approval_request_def Let_def split_beta approval_result_def demo_send)
       (simp add: demo_env_def)
qed

lemma unattended_approval_is_declined_witness:
  "\<exists>r. c_sent (fst (handle_server_request demo_env open_conn approval_request))
      = c_sent open_conn @ [[(''id'', JInt 9), (''result'', JObj r)]]
    \<and> is_decline ''item/commandExecution/requestApproval'' r"
  using unattended_approval_is_declined [of approval_request "''item/commandExecution/requestApproval''" demo_env open_conn
      "fst (handle_server_request demo_env open_conn approval_request)"] demo_approval
  by (auto simp: approval_request_def APPROVAL_METHODS_def demo_env_def prod_eq_iff)

section \<open>Bridge\<close>

definition start_frame :: json_object where
  "start_frame = [(''id'', JInt 3), (''method'', JStr ''turn/start'')]"

abbreviation start_loads :: "string \<Rightarrow> json option" where
  "start_loads \<equiv> \<lambda>_. Some (JObj start_frame)"

lemma classify_start: "classify_frontend_frame (JObj start_frame) = BLOCKED"
  by code_simp

lemma start_frame_fields [simp]:
  "jget start_frame ''id'' = JInt 3" "jget start_frame ''method'' = JStr ''turn/start''" "dhas start_frame ''id''"
  by (simp_all add: start_frame_def dhas_def)

lemma start_forwarded:
  "let gb = bridge_run start_loads (new_gate 0, new_bridge) [FromFrontend (Some ''x'') True] in
    held_mutations (snd gb) = 1 \<and> \<not> b_closed (snd gb)"
  by (simp add: bridge_run_def forward_frontend_def classify_start forward_mutation_def enter_mutation_def new_gate_def
      Let_def relay_def held_mutations_def new_bridge_def request_key_of_def dhas_def [of "[]"])


lemma drain_blocks_frontend_mutations_witness:
  "forward_frontend start_loads draining_gate new_bridge (Some ''x'') True =
    (draining_gate, new_bridge\<lparr>to_frontend := [Refused (fault_frame (JInt 3) ''service_busy'' (-32040) (Some ''turn/start''))]\<rparr>, True)"
proof -
  show ?thesis
    using drain_blocks_frontend_mutations [of draining_gate start_loads "''x''" start_frame "''turn/start''" new_bridge True] classify_start
    by (simp add: draining_gate_def request_key_of_def new_bridge_def dhas_def)
qed

lemma forward_after_close_keeps_mutation_witness:
  "\<exists>g1 b1. forward_frontend start_loads (new_gate 0) (new_bridge\<lparr>b_closed := True\<rparr>) (Some ''x'') True = (g1, b1, True)
    \<and> active_mutations g1 = 1 \<and> close_bridge g1 b1 = (g1, b1, Inr ())"
proof -
  obtain k where k: "request_key_of (JInt 3) = Some k" by (simp add: request_key_of_def)
  show ?thesis
    using forward_after_close_keeps_mutation [of "new_gate 0" "new_bridge\<lparr>b_closed := True\<rparr>" start_loads "''x''"
        start_frame "''turn/start''" k] classify_start k
    by (simp add: new_gate_def new_bridge_def dhas_def)
qed

section \<open>Maintenance results\<close>

definition forced_stop :: maintenance_result where
  "forced_stop = \<lparr>mr_action = ''stop'', mr_status = ''completed'', mr_forced = True, mr_listener = None, mr_impact = None\<rparr>"

lemma maintenance_result_sound_witness:
  "maintenance_from_dict (\<lambda>_ _. []) (JObj (maintenance_to_dict forced_stop)) = Inr forced_stop"
  using maintenance_result_sound [of "\<lambda>_ _. []" forced_stop]
  by (simp add: forced_stop_def maintenance_ok_def impact_parts_ok_def)

end
