(* ===== verification/Strict.thy ===== *)
theory Strict
  imports Listener
begin

text \<open>
  \<open>commands.StrictModel\<close>: serialisation of the frozen dataclasses of the facade. A model value
  is represented by the dictionary its \<open>to_dict\<close> gives, the fields in declaration order; a
  class is an annotation \<open>AModel\<close> with its name, the adjustment its own \<open>from_dict\<close> makes to
  the dictionary before the generic one runs, its fields and the checks of its constructor.
  \<open>load\<close> is \<open>_load\<close>; building a model from field values is loading that dictionary.

  The environment of the checks (\<open>model_env\<close>) has the file system's path resolution and
  directory test and the numeric lookup of hosts.
\<close>

section \<open>Environment\<close>

record model_env =
  resolve_path :: "string \<Rightarrow> string option"
  is_directory :: "string \<Rightarrow> bool"
  host_lookup :: numeric_lookup

definition validate_worker_name :: "json \<Rightarrow> (exn, unit) res" where
  "validate_worker_name v = (case as_str v of
     Some s \<Rightarrow> if worker_name_re s then Inr ()
       else Inl (ValueError ''name must match [A-Za-z0-9][A-Za-z0-9._-]{0,127}'')
   | None \<Rightarrow> Inl (ValueError ''name must match [A-Za-z0-9][A-Za-z0-9._-]{0,127}''))"

definition validate_prompt :: "json \<Rightarrow> (exn, unit) res" where
  "validate_prompt v = (if as_nonempty v = None
     then Inl (ValueError ''prompt must be a non-empty string'') else Inr ())"

definition validate_canonical_cwd :: "model_env \<Rightarrow> json \<Rightarrow> (exn, unit) res" where
  "validate_canonical_cwd env v = (case as_nonempty v of
     None \<Rightarrow> Inl (ValueError ''cwd must be an absolute existing directory'')
   | Some s \<Rightarrow>
     if \<not> is_absolute s then Inl (ValueError ''cwd must be an absolute existing directory'')
     else (case resolve_path env s of
       None \<Rightarrow> Inl (ValueError ''cwd must be an absolute existing directory'')
     | Some p \<Rightarrow> if is_directory env p then Inr ()
                 else Inl (ValueError ''cwd must be a canonical existing directory'')))"

section \<open>UUIDs\<close>

text \<open>
  \<open>uuid.UUID(hex)\<close>: the text without \<open>urn:\<close>, \<open>uuid:\<close>, surrounding braces and hyphens has 32
  characters and reads as an integer of at most 128 bits in base 16, by the rules of
  \<open>int(text, 16)\<close> (surrounding space, a sign, a \<open>0x\<close> prefix and single underscores between
  digits are accepted).
\<close>

fun remove_all_sub :: "nat \<Rightarrow> string \<Rightarrow> string \<Rightarrow> string" where
  "remove_all_sub 0 p s = s"
| "remove_all_sub (Suc n) p [] = []"
| "remove_all_sub (Suc n) p (c # cs) =
     (if startswith (c # cs) p then remove_all_sub n p (drop (length p) (c # cs))
      else c # remove_all_sub n p cs)"

definition py_remove :: "string \<Rightarrow> string \<Rightarrow> string" where
  "py_remove p s = remove_all_sub (length s) p s"

definition strip_chars :: "char list \<Rightarrow> string \<Rightarrow> string" where
  "strip_chars cs s = rev (dropWhile (\<lambda>c. c \<in> set cs) (rev (dropWhile (\<lambda>c. c \<in> set cs) s)))"

definition hex_value :: "char \<Rightarrow> int option" where
  "hex_value c = (let n = int (codept c) in
     if 48 \<le> n \<and> n \<le> 57 then Some (n - 48)
     else if 65 \<le> n \<and> n \<le> 70 then Some (n - 55)
     else if 97 \<le> n \<and> n \<le> 102 then Some (n - 87) else None)"

text \<open>Digits with single underscores between them; the flag tells that a digit came last.\<close>

fun hex_digits :: "bool \<Rightarrow> int \<Rightarrow> string \<Rightarrow> int option" where
  "hex_digits digit a [] = (if digit then Some a else None)"
| "hex_digits digit a (c # cs) =
     (if c = CHR ''_'' then (if digit then hex_digits False a cs else None)
      else (case hex_value c of None \<Rightarrow> None | Some v \<Rightarrow> hex_digits True (16 * a + v) cs))"

definition parse_int16 :: "string \<Rightarrow> int option" where
  "parse_int16 s =
     (let t = py_strip s;
          (neg, u) = (case t of c # cs \<Rightarrow> if c = CHR ''-'' then (True, cs)
             else if c = CHR ''+'' then (False, cs) else (False, t) | [] \<Rightarrow> (False, []));
          body = (if startswith u ''0x'' \<or> startswith u ''0X''
                  then (let r = drop 2 u in if startswith r ''_'' then drop 1 r else r) else u)
      in map_option (\<lambda>n. if neg then - n else n) (hex_digits False 0 body))"

definition uuid_ok :: "string \<Rightarrow> bool" where
  "uuid_ok s =
     (let h = py_remove ''-'' (strip_chars ''{}'' (py_remove ''uuid:'' (py_remove ''urn:'' s)))
      in length h = 32 \<and> (case parse_int16 h of None \<Rightarrow> False | Some n \<Rightarrow> 0 \<le> n \<and> n < 2 ^ 128))"

section \<open>Annotations and loading\<close>

datatype ann =
    AStr
  | AInt
  | ABool
  | AFloat
  | AAny
  | AOpt ann
  | AList ann
  | ADict ann
  | AEnum "string list"
  | AModel string "json_object \<Rightarrow> json_object" "(string \<times> ann) list"
      "json_object \<Rightarrow> (exn, unit) res"

definition invalid :: "string \<Rightarrow> exn" where
  "invalid field = ValueError (''invalid '' @ field)"

definition is_value_or_type :: "exn \<Rightarrow> bool" where
  "is_value_or_type e = (is_value_error e \<or> (case e of TypeError _ \<Rightarrow> True | _ \<Rightarrow> False))"

lemma ann_field_size [termination_simp]:
  "(k, a) \<in> set fs \<Longrightarrow> size a < Suc (size_list (size_prod (\<lambda>x. 0) size) fs)"
  by (drule size_list_estimation' [where f = "size_prod (\<lambda>x. 0) size", OF _ order_refl]) simp

fun load :: "ann \<Rightarrow> json \<Rightarrow> string \<Rightarrow> (exn, json) res"
  and load_fields :: "(string \<times> ann) list \<Rightarrow> json_object \<Rightarrow> (exn, json_object) res" where
  "load AStr v f = (case v of JStr _ \<Rightarrow> Inr v | _ \<Rightarrow> Inl (invalid f))"
| "load AInt v f = (case v of JInt _ \<Rightarrow> Inr v | _ \<Rightarrow> Inl (invalid f))"
| "load ABool v f = (case v of JBool _ \<Rightarrow> Inr v | _ \<Rightarrow> Inl (invalid f))"
| "load AFloat v f = (case v of JFloat _ \<Rightarrow> Inr v | _ \<Rightarrow> Inl (invalid f))"
| "load AAny v f = Inr v"
| "load (AOpt a) v f = (if v = JNull then Inr JNull
     else (case load a v f of
        Inr w \<Rightarrow> Inr w
      | Inl e \<Rightarrow> if is_value_or_type e then Inl (invalid f) else Inl e))"
| "load (AList a) v f = (case as_list v of
     None \<Rightarrow> Inl (ValueError (f @ '' must be a list''))
   | Some xs \<Rightarrow> ebind (emap (\<lambda>x. load a x f) xs) (\<lambda>ys. Inr (JList ys)))"
| "load (ADict a) v f = (case as_obj v of
     None \<Rightarrow> Inl (ValueError (f @ '' must be an object''))
   | Some d \<Rightarrow> ebind (emap (\<lambda>kv. ebind (load a (snd kv) f) (\<lambda>w. Inr (fst kv, w))) d)
       (\<lambda>e. Inr (JObj e)))"
| "load (AEnum vs) v f = (case v of
     JStr s \<Rightarrow> if s \<in> set vs then Inr v else Inl (invalid f) | _ \<Rightarrow> Inl (invalid f))"
| "load (AModel name prep fs contract) v f = (case as_obj v of
     None \<Rightarrow> Inl (ValueError (''invalid '' @ name @ '' fields''))
   | Some d0 \<Rightarrow> (let d = prep d0 in
       if \<not> has_fields d (map fst fs) then Inl (ValueError (''invalid '' @ name @ '' fields''))
       else ebind (load_fields fs d) (\<lambda>m. ebind (contract m) (\<lambda>_. Inr (JObj m)))))"
| "load_fields [] d = Inr []"
| "load_fields ((k, a) # fs) d =
     ebind (load a (jget d k) k) (\<lambda>v. ebind (load_fields fs d) (\<lambda>m. Inr ((k, v) # m)))"

definition from_dict :: "ann \<Rightarrow> json \<Rightarrow> (exn, json) res" where
  "from_dict m v = load m v []"

text \<open>Building an instance from its field values runs the same checks.\<close>

definition build :: "ann \<Rightarrow> json_object \<Rightarrow> (exn, json) res" where
  "build m d = load m (JObj d) []"

text \<open>A class without a \<open>from_dict\<close> of its own.\<close>

definition plain :: "json_object \<Rightarrow> json_object" where
  "plain d = d"

section \<open>Loading is idempotent\<close>

text \<open>
  A well-formed annotation: field names are distinct, and the adjustment leaves a dictionary
  with exactly the declared fields alone.
\<close>

fun ann_ok :: "ann \<Rightarrow> bool" where
  "ann_ok (AOpt a) = ann_ok a"
| "ann_ok (AList a) = ann_ok a"
| "ann_ok (ADict a) = ann_ok a"
| "ann_ok (AModel name prep fs contract) =
     (distinct (map fst fs) \<and> list_all (\<lambda>kv. ann_ok (snd kv)) fs
      \<and> (\<forall>d. map fst d = map fst fs \<longrightarrow> prep d = d))"
| "ann_ok _ = True"

lemma load_fields_keys: "load_fields fs d = Inr m \<Longrightarrow> map fst m = map fst fs"
  by (induction fs arbitrary: m) (auto simp: res_simps)

lemma load_fields_frame:
  "k \<notin> set (map fst fs) \<Longrightarrow> load_fields fs ((k, v) # d) = load_fields fs d"
proof (induction fs)
  case (Cons x fs)
  then show ?case by (cases x) simp
qed simp

lemma emap_idem:
  assumes "emap f xs = Inr ys" "\<And>x y. x \<in> set xs \<Longrightarrow> f x = Inr y \<Longrightarrow> g y = Inr y"
  shows "emap g ys = Inr ys"
proof -
  have "map f xs = map Inr ys" using assms(1) by (simp add: emap_Inr_iff)
  then have "length xs = length ys" "\<And>i. i < length xs \<Longrightarrow> f (xs ! i) = Inr (ys ! i)"
    by (metis length_map, metis length_map nth_map)
  then have "\<forall>i < length ys. g (ys ! i) = Inr (ys ! i)" using assms(2) nth_mem by metis
  then show ?thesis by (simp add: emap_Inr_iff list_eq_iff_nth_eq)
qed

lemma load_idem:
  "load a v f = Inr w \<Longrightarrow> ann_ok a \<Longrightarrow> load a w f' = Inr w"
  "load_fields fs d = Inr m \<Longrightarrow> distinct (map fst fs) \<Longrightarrow> list_all (\<lambda>kv. ann_ok (snd kv)) fs
     \<Longrightarrow> load_fields fs m = Inr m"
proof (induction a v f and fs d arbitrary: w f' and m rule: load_load_fields.induct)
  case (6 a v f)
  then show ?case
    by (cases "v = JNull") (auto split: sum.splits if_splits)
next
  case (7 a v f)
  then obtain xs ys where v: "v = JList xs" and e: "emap (\<lambda>x. load a x f) xs = Inr ys" and w: "w = JList ys"
    by (auto simp: res_simps split: option.splits)
  have "emap (\<lambda>x. load a x f') ys = Inr ys"
    by (rule emap_idem [OF e]) (use 7 v in auto)
  with w show ?case by simp
next
  case (8 a v f)
  then obtain d e where v: "v = JObj d"
    and e: "emap (\<lambda>kv. ebind (load a (snd kv) f) (\<lambda>w. Inr (fst kv, w))) d = Inr e" and w: "w = JObj e"
    by (auto simp: res_simps split: option.splits)
  have "emap (\<lambda>kv. ebind (load a (snd kv) f') (\<lambda>w. Inr (fst kv, w))) e = Inr e"
    by (rule emap_idem [OF e]) (use 8 v in \<open>auto simp: res_simps\<close>)
  with w show ?case by simp
next
  case (10 name prep fs contract v f)
  then obtain d0 m where v: "v = JObj d0" and hf: "has_fields (prep d0) (map fst fs)"
    and m: "load_fields fs (prep d0) = Inr m" and c: "contract m = Inr ()" and w: "w = JObj m"
    by (auto simp: res_simps Let_def split: option.splits if_splits)
  have "load_fields fs m = Inr m" using 10 v hf m by auto
  moreover have keys: "map fst m = map fst fs" by (rule load_fields_keys [OF m])
  moreover have "prep m = m" using 10(3) keys by auto
  moreover have "has_fields m (map fst fs)" using keys by (simp add: has_fields_def dkeys_def)
  ultimately show ?case using w c by (simp add: Let_def)
next
  case (12 k a fs d)
  then obtain x m' where x: "load a (jget d k) k = Inr x" "load_fields fs d = Inr m'"
    "m = (k, x) # m'"
    by (auto simp: res_simps)
  have "load_fields fs m' = Inr m'" "load a x k = Inr x" using 12 x by auto
  moreover have "load_fields fs ((k, x) # m') = load_fields fs m'"
    by (rule load_fields_frame) (use 12 in auto)
  ultimately show ?case using x by simp
qed (auto split: json.splits if_splits)

theorem strict_model_roundtrip:
  "from_dict m v = Inr w \<Longrightarrow> ann_ok m \<Longrightarrow> from_dict m w = Inr w"
  unfolding from_dict_def by (rule load_idem(1))

text \<open>Reading one field of a loaded model.\<close>

lemma load_fields_get:
  "load_fields fs d = Inr m \<Longrightarrow> (k, a) \<in> set fs \<Longrightarrow> distinct (map fst fs) \<Longrightarrow>
     load a (jget d k) k = Inr (jget m k)"
  by (induction fs arbitrary: m) (force simp: res_simps)+

section \<open>Checks\<close>

definition check :: "bool \<Rightarrow> string \<Rightarrow> (exn, unit) res" where
  "check ok message = (if ok then Inr () else Inl (ValueError message))"

lemma check_Inr [simp, res_simps]: "check ok m = Inr u \<longleftrightarrow> ok"
  by (simp add: check_def)

fun checks :: "(exn, unit) res list \<Rightarrow> (exn, unit) res" where
  "checks [] = Inr ()"
| "checks (c # cs) = ebind c (\<lambda>_. checks cs)"

lemma checks_Inr [res_simps]: "checks cs = Inr u \<longleftrightarrow> (\<forall>c \<in> set cs. c = Inr ())"
  by (induction cs) (auto simp: res_simps)

definition literal :: "json_object \<Rightarrow> string \<Rightarrow> string list \<Rightarrow> (exn, unit) res" where
  "literal m field choices = check (\<exists>s \<in> set choices. jget m field = JStr s) (''invalid '' @ field)"

definition positive :: "json \<Rightarrow> string \<Rightarrow> (exn, unit) res" where
  "positive v name = check (case as_int v of None \<Rightarrow> False | Some i \<Rightarrow> 0 < i)
     (name @ '' must be a positive integer'')"

definition nonneg :: "json \<Rightarrow> string \<Rightarrow> (exn, unit) res" where
  "nonneg v message = check (case as_int v of None \<Rightarrow> False | Some i \<Rightarrow> 0 \<le> i) message"

definition when_present :: "json \<Rightarrow> (json \<Rightarrow> (exn, unit) res) \<Rightarrow> (exn, unit) res" where
  "when_present v c = (if v = JNull then Inr () else c v)"

definition nonempty_str :: "json \<Rightarrow> string \<Rightarrow> (exn, unit) res" where
  "nonempty_str v message = check (as_nonempty v \<noteq> None) message"

definition uuid_field :: "json \<Rightarrow> string \<Rightarrow> (exn, unit) res" where
  "uuid_field v message = check (case as_str v of None \<Rightarrow> False | Some s \<Rightarrow> uuid_ok s) message"

definition absolute_field :: "json \<Rightarrow> string \<Rightarrow> (exn, unit) res" where
  "absolute_field v message = check (case as_str v of None \<Rightarrow> False | Some s \<Rightarrow> is_absolute s) message"

definition forget :: "('e, 'a) res \<Rightarrow> ('e, unit) res" where
  "forget r = ebind r (\<lambda>_. Inr ())"

end
