(* ===== verification/Commands.thy ===== *)
theory Commands
  imports Strict Inventory Faults Models
begin

text \<open>
  The request, view and response classes of \<open>commands.py\<close> as annotations of \<open>Strict\<close>: the
  fields in declaration order with their types, the literals of \<open>_LITERALS\<close>, the checks of
  \<open>_check_contract\<close> and of each class's own \<open>__post_init__\<close>, in the order they run. A class
  whose checks read the file system or hosts takes the environment.
\<close>

section \<open>Enumerations\<close>

definition Tier :: ann where "Tier = AEnum [''medium'', ''very-smart'']"
definition AccessMode :: ann where "AccessMode = AEnum [''full'', ''read_only'']"
definition InstanceSource :: ann where
  "InstanceSource = AEnum [''flag'', ''environment'', ''claude_session'', ''default'']"
definition CompletionSelection :: ann where
  "CompletionSelection = AEnum [''explicit_final'', ''terminal_fallback'', ''live'']"
definition MetricAvailability :: ann where
  "MetricAvailability = AEnum [''measured'', ''reported'', ''derived'', ''unavailable'']"
definition CallbackState :: ann where
  "CallbackState = AEnum [''enabled'', ''disabled'', ''unavailable'']"
definition CallbackAttemptState :: ann where
  "CallbackAttemptState = AEnum [''pending'', ''written'', ''failed'']"
definition MessagePriority :: ann where "MessagePriority = AEnum [''now'', ''next'']"

abbreviation json_dict :: ann where "json_dict \<equiv> ADict AAny"

definition no_checks :: "json_object \<Rightarrow> (exn, unit) res" where
  "no_checks m = Inr ()"

section \<open>Requests\<close>

definition validate_turn_options :: "json_object \<Rightarrow> (exn, unit) res" where
  "validate_turn_options m =
     check (case jget m ''timeout'' of JNull \<Rightarrow> True
       | JInt i \<Rightarrow> 0 \<le> i
       | JFloat f \<Rightarrow> (case f of Fin q \<Rightarrow> 0 \<le> q | _ \<Rightarrow> False)
       | _ \<Rightarrow> False) ''timeout must be finite and non-negative''"

definition name_check :: "json_object \<Rightarrow> (exn, unit) res" where
  "name_check m = validate_worker_name (jget m ''name'')"

definition listener_check :: "model_env \<Rightarrow> json_object \<Rightarrow> (exn, unit) res" where
  "listener_check env m = forget (validate_public_listener (host_lookup env) (jget m ''listener''))"

definition capture_route :: "string list" where
  "capture_route = [''target_socket'', ''child_token'', ''claude_session_id'', ''claude_pid'',
     ''claude_proc_start'']"

definition is_hex_lower :: "char \<Rightarrow> bool" where
  "is_hex_lower c \<longleftrightarrow> (48 \<le> codept c \<and> codept c \<le> 57) \<or> (97 \<le> codept c \<and> codept c \<le> 102)"

definition capture_checks :: "json_object \<Rightarrow> (exn, unit) res" where
  "capture_checks m =
     (let absent = list_all (\<lambda>k. jget m k = JNull) capture_route;
          present = list_all (\<lambda>k. jget m k \<noteq> JNull) capture_route
      in checks ([absolute_field (jget m ''claude_config_dir'') ''claude_config_dir must be absolute'',
           check (absent \<or> present) ''callback capture identity must be fully populated or fully absent'']
         @ (if \<not> present then [] else
            [absolute_field (jget m ''target_socket'') ''target_socket must be absolute'',
             check (case as_str (jget m ''child_token'') of None \<Rightarrow> False
                    | Some s \<Rightarrow> length s = 32 \<and> list_all is_hex_lower s)
               ''child_token must be 32 lowercase hexadecimal characters'',
             check (truthy (jget m ''claude_session_id'') \<and> truthy (jget m ''claude_proc_start''))
               ''callback capture identity strings must be non-empty'',
             check (case as_int (jget m ''claude_pid'') of None \<Rightarrow> False | Some i \<Rightarrow> 0 < i)
               ''claude_pid must be positive''])))"

definition CallbackCapture :: ann where
  "CallbackCapture = AModel ''CallbackCapture'' plain
     [(''target_socket'', AOpt AStr), (''child_token'', AOpt AStr), (''claude_session_id'', AOpt AStr),
      (''claude_pid'', AOpt AInt), (''claude_proc_start'', AOpt AStr), (''claude_config_dir'', AStr)]
     capture_checks"

definition start_worker_fields :: "(string \<times> ann) list" where
  "start_worker_fields =
     [(''name'', AStr), (''prompt'', AStr), (''cwd'', AStr), (''tier'', AOpt Tier),
      (''model'', AOpt AStr), (''effort'', AStr), (''access'', AccessMode), (''goal'', AOpt AStr),
      (''token_budget'', AOpt AInt), (''output_schema'', AOpt json_dict), (''timeout'', AOpt AFloat),
      (''no_callback'', ABool), (''callback_capture'', AOpt CallbackCapture),
      (''config'', AOpt json_dict)]"

definition goal_text_ok :: "json \<Rightarrow> bool" where
  "goal_text_ok v = (case as_nonempty v of None \<Rightarrow> False | Some s \<Rightarrow> length s \<le> 4000)"

definition start_worker_checks :: "model_env \<Rightarrow> json_object \<Rightarrow> (exn, unit) res" where
  "start_worker_checks env m = checks
     [check (\<not> (jget m ''no_callback'' = JBool True \<and> jget m ''callback_capture'' \<noteq> JNull))
        ''no_callback requires callback_capture to be null'',
      name_check m, validate_prompt (jget m ''prompt''), validate_canonical_cwd env (jget m ''cwd''),
      validate_thread_config (jget m ''config''),
      when_present (jget m ''model'') (\<lambda>v. nonempty_str v ''model must be a non-empty string''),
      check ((jget m ''tier'' = JNull) \<noteq> (jget m ''model'' = JNull))
        ''exactly one of tier or model is required'',
      nonempty_str (jget m ''effort'') ''effort must be a non-empty string'',
      when_present (jget m ''goal'') (\<lambda>v. check (goal_text_ok v)
        ''goal must be a non-empty string of at most 4000 characters''),
      when_present (jget m ''token_budget'') (\<lambda>v. positive v ''token_budget''),
      check (\<not> (jget m ''token_budget'' \<noteq> JNull \<and> jget m ''goal'' = JNull))
        ''--token-budget requires --goal'',
      validate_turn_options m]"

text \<open>Its own \<open>from_dict\<close> fills in the three later fields of older dictionaries.\<close>

definition start_worker_prep :: "json_object \<Rightarrow> json_object" where
  "start_worker_prep d =
     (let all = map fst start_worker_fields;
          newer = [''no_callback'', ''callback_capture'', ''config'']
      in if has_fields d (filter (\<lambda>k. k \<notin> set newer) all)
         then d @ [(''no_callback'', JBool False), (''callback_capture'', JNull), (''config'', JNull)]
         else if has_fields d (filter (\<lambda>k. k \<noteq> ''config'') all)
         then d @ [(''config'', JNull)] else d)"

definition StartWorkerRequest :: "model_env \<Rightarrow> ann" where
  "StartWorkerRequest env = AModel ''StartWorkerRequest'' start_worker_prep start_worker_fields
     (start_worker_checks env)"

definition RunWorkerRequest :: ann where
  "RunWorkerRequest = AModel ''RunWorkerRequest'' plain
     [(''name'', AStr), (''prompt'', AStr), (''output_schema'', AOpt json_dict), (''timeout'', AOpt AFloat)]
     (\<lambda>m. checks [name_check m, validate_prompt (jget m ''prompt''), validate_turn_options m])"

definition WorkerStatusRequest :: ann where
  "WorkerStatusRequest = AModel ''WorkerStatusRequest'' plain [(''name'', AStr)] name_check"

definition MessageWorkerRequest :: ann where
  "MessageWorkerRequest = AModel ''MessageWorkerRequest'' plain
     [(''name'', AStr), (''message'', AStr), (''priority'', MessagePriority), (''cc_agent_name'', AOpt AStr)]
     (\<lambda>m. checks [nonempty_str (jget m ''message'') ''message must be a non-empty string'',
        when_present (jget m ''cc_agent_name'') (\<lambda>v. nonempty_str v ''cc_agent_name must be a non-empty string''),
        name_check m])"

definition tail_request :: "string \<Rightarrow> ann" where
  "tail_request name = AModel name plain [(''name'', AStr), (''tail'', AInt)]
     (\<lambda>m. checks [name_check m, positive (jget m ''tail'') ''tail''])"

definition WorkerMessagesRequest :: ann where
  "WorkerMessagesRequest = tail_request ''WorkerMessagesRequest''"
definition WorkerHistoryRequest :: ann where
  "WorkerHistoryRequest = tail_request ''WorkerHistoryRequest''"

definition SteerWorkerRequest :: ann where
  "SteerWorkerRequest = AModel ''SteerWorkerRequest'' plain [(''name'', AStr), (''prompt'', AStr)]
     (\<lambda>m. checks [name_check m, validate_prompt (jget m ''prompt'')])"

definition InterruptWorkerRequest :: ann where
  "InterruptWorkerRequest = AModel ''InterruptWorkerRequest'' plain [(''name'', AStr)] name_check"

definition goal_statuses :: "string list" where
  "goal_statuses = [''active'', ''paused'', ''blocked'', ''usageLimited'', ''budgetLimited'', ''complete'']"

definition goal_set_checks :: "json_object \<Rightarrow> (exn, unit) res" where
  "goal_set_checks m = checks
     [name_check m,
      check (\<not> (jget m ''objective'' = JNull \<and> jget m ''status'' = JNull \<and> jget m ''token_budget'' = JNull))
        ''goal set requires at least one change'',
      when_present (jget m ''objective'') (\<lambda>v. check (goal_text_ok v)
        ''objective must be a non-empty string of at most 4000 characters''),
      when_present (jget m ''status'') (\<lambda>v. check (\<exists>s \<in> set goal_statuses. v = JStr s) ''invalid goal status''),
      when_present (jget m ''token_budget'') (\<lambda>v. positive v ''token_budget'')]"

definition GoalSetRequest :: ann where
  "GoalSetRequest = AModel ''GoalSetRequest'' plain
     [(''name'', AStr), (''objective'', AOpt AStr), (''status'', AOpt AStr), (''token_budget'', AOpt AInt)]
     goal_set_checks"

definition GoalShowRequest :: ann where
  "GoalShowRequest = AModel ''GoalShowRequest'' plain [(''name'', AStr)] name_check"
definition LimitsRequest :: ann where
  "LimitsRequest = AModel ''LimitsRequest'' plain [] no_checks"
definition DaemonStatusRequest :: ann where
  "DaemonStatusRequest = AModel ''DaemonStatusRequest'' plain [] no_checks"
definition DaemonStopRequest :: ann where
  "DaemonStopRequest = AModel ''DaemonStopRequest'' plain [] no_checks"
definition StatusServiceRequest :: ann where
  "StatusServiceRequest = AModel ''StatusServiceRequest'' plain [] no_checks"
definition MigrationStatusRequest :: ann where
  "MigrationStatusRequest = AModel ''MigrationStatusRequest'' plain [] no_checks"

definition StartServiceRequest :: "model_env \<Rightarrow> ann" where
  "StartServiceRequest env = AModel ''StartServiceRequest'' plain [(''listener'', AOpt AStr)]
     (\<lambda>m. when_present (jget m ''listener'') (\<lambda>_. listener_check env m))"

definition StopServiceRequest :: ann where
  "StopServiceRequest = AModel ''StopServiceRequest'' plain [(''force'', ABool)] no_checks"

definition RestartServiceRequest :: "model_env \<Rightarrow> ann" where
  "RestartServiceRequest env = AModel ''RestartServiceRequest'' plain
     [(''listener'', AOpt AStr), (''force'', ABool)]
     (\<lambda>m. when_present (jget m ''listener'') (\<lambda>_. listener_check env m))"

definition ResolveLegacyConflictRequest :: ann where
  "ResolveLegacyConflictRequest = AModel ''ResolveLegacyConflictRequest'' plain
     [(''name'', AStr), (''thread_id'', AStr), (''as_name'', AOpt AStr)]
     (\<lambda>m. checks [name_check m, nonempty_str (jget m ''thread_id'') ''thread_id must be non-empty'',
        when_present (jget m ''as_name'') validate_worker_name])"

section \<open>Service domain models\<close>

definition truthy_fields :: "json_object \<Rightarrow> string list \<Rightarrow> string \<Rightarrow> (exn, unit) res" where
  "truthy_fields m ks message = check (list_all (\<lambda>k. truthy (jget m k)) ks) message"

definition AttachView :: "model_env \<Rightarrow> ann" where
  "AttachView env = AModel ''AttachView'' plain
     [(''listener'', AStr), (''thread_id'', AStr), (''attach_command'', AStr), (''resume_command'', AStr)]
     (\<lambda>m. checks [listener_check env m,
        truthy_fields m [''thread_id'', ''attach_command'', ''resume_command'']
          ''attach identity and commands must be non-empty''])"

definition version_text_ok :: "json \<Rightarrow> bool" where
  "version_text_ok v = (case as_nonempty v of None \<Rightarrow> False | Some s \<Rightarrow> \<not> list_ex is_space s)"

definition ServiceConfig :: "model_env \<Rightarrow> ann" where
  "ServiceConfig env = AModel ''ServiceConfig'' plain
     [(''listener'', AStr), (''worker_version'', AStr), (''generation_id'', AStr)]
     (\<lambda>m. checks [listener_check env m,
        check (version_text_ok (jget m ''worker_version'')) ''worker_version must be a non-empty exact version'',
        uuid_field (jget m ''generation_id'') ''generation_id must be a UUID''])"

definition digest_ok :: "json \<Rightarrow> bool" where
  "digest_ok v = (case as_str v of None \<Rightarrow> False | Some s \<Rightarrow> length s = 64 \<and> list_all is_hex_lower s)"

definition legacy_source_checks :: "json_object \<Rightarrow> (exn, unit) res list" where
  "legacy_source_checks m =
     [absolute_field (jget m ''source_path'') ''source_path must be absolute'',
      check (digest_ok (jget m ''source_digest'')) ''source_digest must be lowercase sha256'',
      when_present (jget m ''name'') validate_worker_name,
      uuid_field (jget m ''session_id'') ''session_id must be a UUID'']"

definition legacy_candidate_checks :: "json_object \<Rightarrow> (exn, unit) res" where
  "legacy_candidate_checks m = checks (legacy_source_checks m @
     [check (truthy (jget m ''thread_id'') \<and> (case as_str (jget m ''cwd'') of None \<Rightarrow> False | Some s \<Rightarrow> is_absolute s))
        ''candidate thread and cwd must be valid'',
      truthy_fields m [''created_at'', ''updated_at''] ''candidate timestamps must be non-empty'',
      check (jget m ''tier'' \<in> {JNull, JStr ''medium'', JStr ''very-smart''}) ''candidate tier is invalid'',
      check (jget m ''access'' \<in> {JNull, JStr ''full'', JStr ''read_only''}) ''candidate access is invalid''])"

definition LegacyCandidate :: ann where
  "LegacyCandidate = AModel ''LegacyCandidate'' plain
     [(''source_path'', AStr), (''source_digest'', AStr), (''name'', AOpt AStr), (''session_id'', AStr),
      (''thread_id'', AStr), (''cwd'', AStr), (''created_at'', AStr), (''updated_at'', AStr),
      (''model'', AOpt AStr), (''effort'', AOpt AStr), (''tier'', AOpt AStr), (''access'', AOpt AStr)]
     legacy_candidate_checks"

definition objects_of :: "json \<Rightarrow> json_object list" where
  "objects_of v = (case as_list v of None \<Rightarrow> []
     | Some xs \<Rightarrow> map (\<lambda>x. case as_obj x of None \<Rightarrow> [] | Some d \<Rightarrow> d) xs)"

definition strings_in :: "json \<Rightarrow> string list" where
  "strings_in v = (case as_list v of None \<Rightarrow> []
     | Some xs \<Rightarrow> map (\<lambda>x. case as_str x of None \<Rightarrow> [] | Some s \<Rightarrow> s) xs)"

definition field_str :: "json_object \<Rightarrow> string \<Rightarrow> string" where
  "field_str m k = (case as_str (jget m k) of None \<Rightarrow> [] | Some s \<Rightarrow> s)"

definition legacy_conflict_checks :: "json_object \<Rightarrow> (exn, unit) res" where
  "legacy_conflict_checks m =
     (let cs = objects_of (jget m ''candidates'') in checks
        [name_check m,
         check (cs \<noteq> []) ''legacy conflict requires candidates'',
         check (list_all (\<lambda>c. jget c ''name'' = jget m ''name'') cs) ''legacy conflict candidate name mismatch'',
         check (strings_in (jget m ''source_digests'') = sort (remdups (map (\<lambda>c. field_str c ''source_digest'') cs)))
           ''legacy conflict source digests must be complete and sorted''])"

definition LegacyConflict :: ann where
  "LegacyConflict = AModel ''LegacyConflict'' plain
     [(''name'', AStr), (''candidates'', AList LegacyCandidate), (''source_digests'', AList AStr)]
     legacy_conflict_checks"

definition MigrationSourceView :: ann where
  "MigrationSourceView = AModel ''MigrationSourceView'' plain
     [(''source_path'', AStr), (''source_digest'', AStr), (''name'', AOpt AStr), (''session_id'', AStr),
      (''thread_id'', AStr), (''outcome'', AEnum [''imported'', ''deduplicated'', ''conflicted''])]
     (\<lambda>m. checks (legacy_source_checks m @ [nonempty_str (jget m ''thread_id'') ''thread_id must be non-empty'']))"

definition count_outcomes :: "json_object \<Rightarrow> string \<Rightarrow> int" where
  "count_outcomes m outcome =
     int (length (filter (\<lambda>s. jget s ''outcome'' = JStr outcome) (objects_of (jget m ''sources''))))"

definition migration_status_checks :: "json_object \<Rightarrow> (exn, unit) res" where
  "migration_status_checks m =
     (let names = map (\<lambda>c. field_str c ''name'') (objects_of (jget m ''conflicts'')) in checks
        [check (list_all (\<lambda>k. case as_int (jget m k) of None \<Rightarrow> False | Some i \<Rightarrow> 0 \<le> i)
            [''imported_count'', ''deduplicated_count'', ''conflict_count''])
           ''migration counts must be non-negative integers'',
         check ((jget m ''ready'' = JBool True) = (jget m ''status'' = JStr ''complete''))
           ''migration readiness requires a complete ledger'',
         check (jget m ''conflict_count'' = JInt (int (length names))) ''conflict_count must match conflicts'',
         check (jget m ''imported_count'' = JInt (count_outcomes m ''imported''))
           ''imported_count must match source outcomes'',
         check (jget m ''deduplicated_count'' = JInt (count_outcomes m ''deduplicated''))
           ''deduplicated_count must match source outcomes'',
         check (sorted names \<and> distinct names) ''migration conflicts must be uniquely sorted''])"

definition MigrationStatusView :: ann where
  "MigrationStatusView = AModel ''MigrationStatusView'' plain
     [(''status'', AEnum [''incomplete'', ''complete'']), (''ready'', ABool), (''imported_count'', AInt),
      (''deduplicated_count'', AInt), (''conflict_count'', AInt), (''sources'', AList MigrationSourceView),
      (''conflicts'', AList LegacyConflict)]
     migration_status_checks"

definition MigrationResolveView :: "model_env \<Rightarrow> ann" where
  "MigrationResolveView env = AModel ''MigrationResolveView'' plain
     [(''name'', AStr), (''session_id'', AStr), (''thread_id'', AStr), (''attach'', AttachView env)]
     (\<lambda>m. checks [name_check m, uuid_field (jget m ''session_id'') ''session_id must be a UUID'',
        check (case as_obj (jget m ''attach'') of None \<Rightarrow> False
          | Some a \<Rightarrow> jget a ''thread_id'' = jget m ''thread_id'')
          ''resolved thread and attach identity must match''])"


section \<open>Views and responses\<close>

definition worker_view_fields :: "(string \<times> ann) list" where
  "worker_view_fields =
     [(''name'', AStr), (''session_id'', AStr), (''thread_id'', AStr), (''cwd'', AStr),
      (''tier'', AOpt Tier), (''model'', AStr), (''effort'', AStr), (''access'', AccessMode),
      (''attach'', AOpt json_dict), (''config'', AOpt json_dict)]"

definition worker_view_prep :: "json_object \<Rightarrow> json_object" where
  "worker_view_prep d0 =
     (let d = filter (\<lambda>kv. fst kv \<noteq> ''instance'') d0;
          all = map fst worker_view_fields
      in if has_fields d (filter (\<lambda>k. k \<noteq> ''attach'' \<and> k \<noteq> ''config'') all)
         then [(''attach'', JNull), (''config'', JNull)] @ d
         else if has_fields d (filter (\<lambda>k. k \<noteq> ''config'') all)
         then (''config'', JNull) # d else d)"

definition worker_view_checks :: "model_env \<Rightarrow> json_object \<Rightarrow> (exn, unit) res" where
  "worker_view_checks env m = checks
     [validate_thread_config (jget m ''config''),
      truthy_fields m [''session_id'', ''thread_id'', ''model'', ''effort'']
        ''worker identity and configuration strings must be non-empty'',
      uuid_field (jget m ''session_id'') ''session_id must be a UUID'',
      name_check m, validate_canonical_cwd env (jget m ''cwd''),
      when_present (jget m ''attach'') (\<lambda>v. forget (from_dict (AttachView env) v))]"

definition WorkerView :: "model_env \<Rightarrow> ann" where
  "WorkerView env = AModel ''WorkerView'' worker_view_prep worker_view_fields (worker_view_checks env)"

definition turn_statuses :: "string list" where
  "turn_statuses = [''in_progress'', ''completed'', ''failed'', ''interrupted'']"

definition TurnView :: ann where
  "TurnView = AModel ''TurnView'' plain
     [(''turn_id'', AStr), (''status'', AStr), (''error'', AOpt json_dict)]
     (\<lambda>m. literal m ''status'' turn_statuses)"

definition AgentMessageView :: ann where
  "AgentMessageView = AModel ''AgentMessageView'' plain
     [(''type'', AStr), (''item_id'', AStr), (''phase'', AOpt AStr), (''selection'', CompletionSelection),
      (''text'', AStr)]
     (\<lambda>m. checks [literal m ''type'' [''agent_message''],
        when_present (jget m ''phase'') (\<lambda>_. literal m ''phase'' [''commentary'', ''final_answer''])])"

definition MetricEvidence :: ann where
  "MetricEvidence = AModel ''MetricEvidence'' plain
     [(''value'', AAny), (''source'', AStr), (''availability'', MetricAvailability)]
     (\<lambda>m. truthy_fields m [''source''] ''metric source must be non-empty'')"

definition RecoveryView :: ann where
  "RecoveryView = AModel ''RecoveryView'' plain
     [(''status'', AStr), (''messages'', AStr), (''interrupt'', AStr), (''raw_resume'', AOpt AStr)]
     (\<lambda>m. truthy_fields m [''status'', ''messages'', ''interrupt''] ''recovery commands must be non-empty'')"

definition CompletionResponse :: "model_env \<Rightarrow> ann" where
  "CompletionResponse env = AModel ''CompletionResponse'' plain
     [(''worker'', WorkerView env), (''turn'', TurnView), (''messages'', AList AgentMessageView),
      (''structured_output'', AAny), (''metrics'', ADict MetricEvidence), (''recovery'', RecoveryView)]
     no_checks"

definition attempt_fields :: "(string \<times> ann) list" where
  "attempt_fields =
     [(''event_id'', AStr), (''state'', CallbackAttemptState), (''reason'', AOpt AStr),
      (''attempted_at'', AOpt AStr), (''attempt_count'', AInt), (''turn_id'', AOpt AStr)]"

definition attempt_prep :: "json_object \<Rightarrow> json_object" where
  "attempt_prep d = (if has_fields d (filter (\<lambda>k. k \<noteq> ''turn_id'') (map fst attempt_fields))
     then d @ [(''turn_id'', JNull)] else d)"

definition CallbackAttemptView :: ann where
  "CallbackAttemptView = AModel ''CallbackAttemptView'' attempt_prep attempt_fields
     (\<lambda>m. checks
        [nonempty_str (jget m ''event_id'') ''event_id must be a non-empty string'',
         when_present (jget m ''reason'') (\<lambda>v. nonempty_str v ''reason must be a non-empty string''),
         when_present (jget m ''attempted_at'') (\<lambda>v. nonempty_str v ''attempted_at must be a non-empty string''),
         nonneg (jget m ''attempt_count'') ''attempt_count must be non-negative''])"

definition CallbackStatusView :: ann where
  "CallbackStatusView = AModel ''CallbackStatusView'' plain
     [(''state'', CallbackState), (''pending_terminal_count'', AInt),
      (''last_terminal_attempt'', AOpt CallbackAttemptView)]
     (\<lambda>m. nonneg (jget m ''pending_terminal_count'') ''pending_terminal_count must be non-negative'')"

definition CallbackSendResponse :: "model_env \<Rightarrow> ann" where
  "CallbackSendResponse env = AModel ''CallbackSendResponse'' plain
     [(''worker'', WorkerView env), (''event_id'', AStr), (''attempt'', CallbackAttemptView)]
     (\<lambda>m. nonempty_str (jget m ''event_id'') ''event_id must be a non-empty string'')"

definition unavailable_callback :: json where
  "unavailable_callback = JObj [(''state'', JStr ''unavailable''), (''pending_terminal_count'', JInt 0),
     (''last_terminal_attempt'', JNull)]"

definition status_response_fields :: "model_env \<Rightarrow> (string \<times> ann) list" where
  "status_response_fields env =
     [(''worker'', WorkerView env), (''daemon_status'', AStr), (''attached'', ABool),
      (''active_turn_id'', AOpt AStr), (''latest_turn'', AOpt TurnView), (''callback'', CallbackStatusView)]"

definition status_response_prep :: "json_object \<Rightarrow> json_object" where
  "status_response_prep d = (if dhas d ''callback'' then d else d @ [(''callback'', unavailable_callback)])"

definition WorkerStatusResponse :: "model_env \<Rightarrow> ann" where
  "WorkerStatusResponse env = AModel ''WorkerStatusResponse'' status_response_prep
     (status_response_fields env) (\<lambda>m. literal m ''daemon_status'' [''ready''])"

definition tail_counts :: "json_object \<Rightarrow> (exn, unit) res list" where
  "tail_counts m = [positive (jget m ''requested_tail'') ''requested_tail'',
     nonneg (jget m ''returned'') ''returned must be non-negative'']"

definition WorkerMessagesResponse :: "model_env \<Rightarrow> ann" where
  "WorkerMessagesResponse env = AModel ''WorkerMessagesResponse'' plain
     [(''worker'', WorkerView env), (''messages'', AList AgentMessageView), (''requested_tail'', AInt),
      (''returned'', AInt), (''truncated'', ABool), (''latest_cursor'', AOpt AInt)]
     (\<lambda>m. checks (tail_counts m @
        [when_present (jget m ''latest_cursor'') (\<lambda>v. nonneg v ''latest_cursor must be non-negative'')]))"

definition HistoryTurnView :: ann where
  "HistoryTurnView = AModel ''HistoryTurnView'' plain
     [(''turn_id'', AStr), (''status'', AStr), (''started_at'', AOpt AInt), (''completed_at'', AOpt AInt),
      (''messages'', AList AgentMessageView), (''error'', AOpt json_dict)] no_checks"

definition WorkerHistoryResponse :: "model_env \<Rightarrow> ann" where
  "WorkerHistoryResponse env = AModel ''WorkerHistoryResponse'' plain
     [(''worker'', WorkerView env), (''turns'', AList HistoryTurnView), (''requested_tail'', AInt),
      (''returned'', AInt), (''older_available'', ABool)] (\<lambda>m. checks (tail_counts m))"

definition ControlResponse :: "model_env \<Rightarrow> ann" where
  "ControlResponse env = AModel ''ControlResponse'' plain
     [(''worker'', WorkerView env), (''action'', AStr), (''accepted'', ABool), (''turn_id'', AStr),
      (''status'', AStr)]
     (\<lambda>m. checks [literal m ''action'' [''steer'', ''interrupt''],
        literal m ''status'' [''in_progress'', ''interrupted''],
        check (jget m ''accepted'' = JBool True) ''accepted must be true''])"

definition GoalView :: ann where
  "GoalView = AModel ''GoalView'' plain
     [(''thread_id'', AStr), (''objective'', AStr), (''status'', AStr), (''token_budget'', AOpt AInt),
      (''tokens_used'', AInt), (''time_used_seconds'', AInt), (''created_at'', AInt), (''updated_at'', AInt)]
     (\<lambda>m. checks [literal m ''status'' goal_statuses,
        truthy_fields m [''thread_id'', ''objective''] ''goal identity fields must be non-empty'',
        when_present (jget m ''token_budget'') (\<lambda>v. positive v ''token_budget''),
        check (list_all (\<lambda>k. case as_int (jget m k) of None \<Rightarrow> False | Some i \<Rightarrow> 0 \<le> i)
          [''tokens_used'', ''time_used_seconds'', ''created_at'', ''updated_at''])
          ''goal usage and timestamps must be non-negative''])"

definition GoalResponse :: "model_env \<Rightarrow> ann" where
  "GoalResponse env = AModel ''GoalResponse'' plain
     [(''worker'', WorkerView env), (''availability'', AStr), (''goal'', AOpt GoalView)]
     (\<lambda>m. checks [literal m ''availability'' [''present'', ''absent''],
        check ((jget m ''availability'' = JStr ''present'') = (jget m ''goal'' \<noteq> JNull))
          ''goal availability does not match goal''])"

definition LimitsResponse :: ann where
  "LimitsResponse = AModel ''LimitsResponse'' plain
     [(''availability'', AStr), (''rate_limits'', json_dict)] (\<lambda>m. literal m ''availability'' [''available''])"

definition InstanceView :: ann where
  "InstanceView = AModel ''InstanceView'' plain
     [(''instance'', AStr), (''source'', InstanceSource), (''durable_dir'', AStr), (''socket_path'', AStr),
      (''log_path'', AStr)]
     (\<lambda>m. checks (truthy_fields m [''instance''] ''instance must be non-empty''
        # map (\<lambda>k. absolute_field (jget m k) (k @ '' must be absolute''))
            [''durable_dir'', ''socket_path'', ''log_path'']))"

definition service_states :: "string list" where
  "service_states = [''stopped'', ''starting'', ''ready'', ''stopping'', ''failed'']"

definition daemon_counts :: "json_object \<Rightarrow> (exn, unit) res list" where
  "daemon_counts m = nonneg (jget m ''worker_count'') ''worker_count must be non-negative''
     # map (\<lambda>k. when_present (jget m k) (\<lambda>v. check (case as_int v of None \<Rightarrow> False | Some i \<Rightarrow> 0 < i)
         ''pid must be positive'')) [''daemon_pid'', ''codex_pid'']"

definition DaemonStatusResponse :: ann where
  "DaemonStatusResponse = AModel ''DaemonStatusResponse'' plain
     [(''instance'', InstanceView), (''status'', AStr), (''daemon_pid'', AOpt AInt), (''codex_pid'', AOpt AInt),
      (''worker_count'', AInt), (''readiness'', AOpt json_dict), (''last_error'', AOpt json_dict)]
     (\<lambda>m. checks (literal m ''status'' service_states # daemon_counts m))"

definition DaemonStopResponse :: ann where
  "DaemonStopResponse = AModel ''DaemonStopResponse'' plain
     [(''instance'', InstanceView), (''status_before'', AStr), (''status_after'', AStr),
      (''daemon_pid'', AOpt AInt), (''codex_pid'', AOpt AInt), (''durable_state'', AStr), (''worker_count'', AInt)]
     (\<lambda>m. checks ([literal m ''status_before'' service_states, literal m ''status_after'' [''stopped''],
        literal m ''durable_state'' [''preserved'']] @ daemon_counts m))"

section \<open>Service responses\<close>

definition expected_count :: "json_object \<Rightarrow> (exn, int) res" where
  "expected_count m =
     (if jget m ''source'' = JStr ''codex-worker registry''
      then ebind (impact_from_dict (jget m ''basis''))
             (\<lambda>w. Inr (int (length (wi_active w)) + int (length (wi_idle w))))
      else if jget m ''source'' = JStr ''codex app-server inventory''
      then ebind (inventory_from_dict (jget m ''basis'')) (\<lambda>items. Inr (int (length items)))
      else Inl (ValueError ''unsupported count evidence source''))"

definition CountEvidence :: ann where
  "CountEvidence = AModel ''CountEvidence'' plain
     [(''value'', AInt), (''source'', AStr), (''availability'', MetricAvailability), (''basis'', json_dict)]
     (\<lambda>m. ebind (expected_count m) (\<lambda>expected.
        check (jget m ''availability'' = JStr ''derived'' \<and> jget m ''value'' = JInt expected)
          ''count evidence does not match its reconstructable basis''))"

definition sub_field :: "json_object \<Rightarrow> string \<Rightarrow> string \<Rightarrow> json" where
  "sub_field m k k' = (case as_obj (jget m k) of None \<Rightarrow> JNull | Some d \<Rightarrow> jget d k')"

definition service_status_checks :: "model_env \<Rightarrow> json_object \<Rightarrow> (exn, unit) res" where
  "service_status_checks env m =
     (let pid = jget m ''pid''; app = jget m ''app_server_pid''; st = jget m ''status'';
          active = sub_field m ''active_turn_count'' ''value''
      in ebind (checks
        [literal m ''status'' service_states, literal m ''exposure'' [''loopback'', ''non_loopback''],
         literal m ''auth'' [''none''], literal m ''durable_state'' [''preserved''],
         listener_check env m,
         truthy_fields m [''service_version'', ''attach_command'']
           ''service version and attach command must be non-empty'',
         check (list_all (\<lambda>v. v = JNull \<or> (case as_int v of None \<Rightarrow> False | Some i \<Rightarrow> 0 < i)) [pid, app])
           ''service pids must be positive when present'',
         check (sub_field m ''worker_count'' ''source'' = JStr ''codex-worker registry''
              \<and> sub_field m ''active_turn_count'' ''source'' = JStr ''codex app-server inventory'')
           ''service count sources are invalid'']) (\<lambda>_.
       ebind (from_dict MigrationStatusView (jget m ''migration'')) (\<lambda>migration.
       let ready = (case as_obj migration of None \<Rightarrow> False | Some d \<Rightarrow> jget d ''ready'' = JBool True) in checks
        [check (st \<in> {JStr ''ready'', JStr ''stopping'', JStr ''stopped''}) ''invalid service status'',
         check (jget m ''attach_command'' = JStr (''codex --remote '' @ shlex_quote (field_str m ''listener'')))
           ''service attach command does not match listener'',
         check (\<not> (st = JStr ''ready'' \<and> (pid = JNull \<or> app = JNull \<or> \<not> ready)))
           ''ready service requires processes and complete migration'',
         check (\<not> (st = JStr ''stopped'' \<and> (pid \<noteq> JNull \<or> app \<noteq> JNull \<or> active \<noteq> JInt 0)))
           ''stopped service cannot report live processes or activity'',
         check (\<not> (st = JStr ''stopping'' \<and> (pid = JNull \<or> active \<noteq> JInt 0)))
           ''stopping service requires daemon identity and no activity''])))"

definition ServiceStatusResponse :: "model_env \<Rightarrow> ann" where
  "ServiceStatusResponse env = AModel ''ServiceStatusResponse'' plain
     [(''status'', AStr), (''service_version'', AStr), (''pid'', AOpt AInt), (''app_server_pid'', AOpt AInt),
      (''listener'', AStr), (''exposure'', AStr), (''auth'', AStr), (''attach_command'', AStr),
      (''worker_count'', CountEvidence), (''active_turn_count'', CountEvidence), (''migration'', json_dict),
      (''durable_state'', AStr)]
     (service_status_checks env)"

definition ServiceReadinessResponse :: "model_env \<Rightarrow> ann" where
  "ServiceReadinessResponse env = AModel ''ServiceReadinessResponse'' plain
     [(''status'', AStr), (''service_version'', AStr), (''pid'', AInt), (''app_server_pid'', AInt),
      (''listener'', AStr), (''migration_ready'', ABool)]
     (\<lambda>m. checks [listener_check env m,
        check (jget m ''status'' = JStr ''ready'' \<and> truthy (jget m ''service_version''))
          ''readiness requires an exact ready status and version'',
        check (list_all (\<lambda>k. case as_int (jget m k) of None \<Rightarrow> False | Some i \<Rightarrow> 0 < i)
            [''pid'', ''app_server_pid'']) ''readiness pids must be positive'',
        check (jget m ''migration_ready'' = JBool True) ''readiness requires completed migration''])"

definition RestartServiceResponse :: "model_env \<Rightarrow> ann" where
  "RestartServiceResponse env = AModel ''RestartServiceResponse'' plain
     [(''maintenance'', json_dict), (''service'', ServiceStatusResponse env)]
     (\<lambda>m. ebind (maintenance_from_dict (host_lookup env) (jget m ''maintenance'')) (\<lambda>impact.
        check (mr_action impact = ''restart'' \<and> mr_status impact = ''completed'')
          ''restart response requires completed restart impact''))"

definition migration_projection :: "json_object \<Rightarrow> json_object" where
  "migration_projection m = map (\<lambda>k. (k, jget m k))
     [''status'', ''ready'', ''imported_count'', ''deduplicated_count'', ''conflict_count'', ''sources'', ''conflicts'']"

definition MigrationStatusResponse :: ann where
  "MigrationStatusResponse = AModel ''MigrationStatusResponse'' plain
     [(''status'', AStr), (''ready'', ABool), (''imported_count'', AInt), (''deduplicated_count'', AInt),
      (''conflict_count'', AInt), (''sources'', AList json_dict), (''conflicts'', AList json_dict),
      (''resolution_actions'', AList json_dict)]
     (\<lambda>m. ebind (from_dict MigrationStatusView (JObj (migration_projection m))) (\<lambda>_.
        check (list_all (\<lambda>a. has_fields a [''command'', ''reason''] \<and> list_all (\<lambda>kv. as_nonempty (snd kv) \<noteq> None) a)
          (objects_of (jget m ''resolution_actions''))) ''invalid migration resolution action''))"

text \<open>\<open>MigrationStatusResponse.from_status\<close>, for a loaded status view.\<close>

definition resolution_action :: "string \<Rightarrow> string \<Rightarrow> json" where
  "resolution_action name thread = JObj
     [(''command'', JStr (''codex-worker migration resolve --name '' @ shlex_quote name
         @ '' --thread '' @ shlex_quote thread)),
      (''reason'', JStr ''Select this preserved legacy thread for the global name'')]"

definition response_from_status :: "json_object \<Rightarrow> (exn, json) res" where
  "response_from_status status = build MigrationStatusResponse (migration_projection status @
     [(''resolution_actions'', JList (concat (map (\<lambda>c. map (\<lambda>k. resolution_action (field_str c ''name'')
         (field_str k ''thread_id'')) (objects_of (jget c ''candidates'')))
       (objects_of (jget status ''conflicts'')))))])"

section \<open>Round trip of every class\<close>

definition all_models :: "model_env \<Rightarrow> ann list" where
  "all_models env = [CallbackCapture, StartWorkerRequest env, RunWorkerRequest, WorkerStatusRequest,
     MessageWorkerRequest, WorkerMessagesRequest, WorkerHistoryRequest, SteerWorkerRequest,
     InterruptWorkerRequest, GoalSetRequest, GoalShowRequest, LimitsRequest, DaemonStatusRequest,
     DaemonStopRequest, StatusServiceRequest, MigrationStatusRequest, StartServiceRequest env,
     StopServiceRequest, RestartServiceRequest env, ResolveLegacyConflictRequest, AttachView env,
     ServiceConfig env, LegacyCandidate, LegacyConflict, MigrationSourceView, MigrationStatusView,
     MigrationResolveView env, WorkerView env, TurnView, AgentMessageView, MetricEvidence, RecoveryView,
     CompletionResponse env, CallbackAttemptView, CallbackStatusView, CallbackSendResponse env,
     WorkerStatusResponse env, WorkerMessagesResponse env, HistoryTurnView, WorkerHistoryResponse env,
     ControlResponse env, GoalView, GoalResponse env, LimitsResponse, InstanceView,
     DaemonStatusResponse, DaemonStopResponse, CountEvidence, ServiceStatusResponse env,
     ServiceReadinessResponse env, RestartServiceResponse env, MigrationStatusResponse]"

lemma has_fields_keys: "map fst d = ks \<Longrightarrow> has_fields d fs \<longleftrightarrow> set ks = set fs"
  by (simp add: has_fields_def dkeys_def)

lemma has_fields_filter:
  "map fst d = ks \<Longrightarrow> k \<in> set ks \<Longrightarrow> \<not> P k \<Longrightarrow> \<not> has_fields d (filter P ks)"
  by (auto simp: has_fields_keys)

lemma prep_start:
  assumes "map fst d = map fst start_worker_fields" shows "start_worker_prep d = d"
proof -
  have "''config'' \<in> set (map fst start_worker_fields)" by (simp add: start_worker_fields_def)
  note absent = has_fields_filter [OF assms this]
  show ?thesis unfolding start_worker_prep_def Let_def by (subst if_not_P, rule absent, simp)+ simp
qed

lemma prep_attempt:
  assumes "map fst d = map fst attempt_fields" shows "attempt_prep d = d"
proof -
  have "''turn_id'' \<in> set (map fst attempt_fields)" by (simp add: attempt_fields_def)
  note absent = has_fields_filter [OF assms this]
  show ?thesis unfolding attempt_prep_def by (subst if_not_P, rule absent, simp) simp
qed

lemma prep_status: "map fst d = map fst (status_response_fields env) \<Longrightarrow> status_response_prep d = d"
  by (auto simp: status_response_prep_def dhas_def dget_None_iff dkeys_def status_response_fields_def)

lemma prep_worker:
  assumes "map fst d = map fst worker_view_fields" shows "worker_view_prep d = d"
proof -
  have "fst kv \<noteq> ''instance''" if "kv \<in> set d" for kv
  proof -
    have "fst kv \<in> set (map fst worker_view_fields)" using that assms by (metis image_eqI list.set_map)
    then show ?thesis by (auto simp: worker_view_fields_def)
  qed
  then have "filter (\<lambda>kv. fst kv \<noteq> ''instance'') d = d" by (simp add: filter_id_conv)
  then have same: "filter (\<lambda>kv. fst kv \<noteq> ''instance'') d = d" .
  have "''config'' \<in> set (map fst worker_view_fields)" by (simp add: worker_view_fields_def)
  note absent = has_fields_filter [OF assms this]
  show ?thesis
    unfolding worker_view_prep_def Let_def same by (subst if_not_P, rule absent, simp)+ simp
qed

lemmas model_defs = CallbackCapture_def RunWorkerRequest_def
  WorkerStatusRequest_def MessageWorkerRequest_def WorkerMessagesRequest_def
  WorkerHistoryRequest_def tail_request_def SteerWorkerRequest_def InterruptWorkerRequest_def
  GoalSetRequest_def GoalShowRequest_def LimitsRequest_def DaemonStatusRequest_def
  DaemonStopRequest_def StatusServiceRequest_def MigrationStatusRequest_def
  StartServiceRequest_def StopServiceRequest_def RestartServiceRequest_def
  ResolveLegacyConflictRequest_def AttachView_def ServiceConfig_def LegacyCandidate_def
  LegacyConflict_def MigrationSourceView_def MigrationStatusView_def MigrationResolveView_def
  TurnView_def AgentMessageView_def MetricEvidence_def RecoveryView_def
  CompletionResponse_def CallbackSendResponse_def
  WorkerMessagesResponse_def HistoryTurnView_def
  WorkerHistoryResponse_def ControlResponse_def GoalView_def GoalResponse_def LimitsResponse_def
  InstanceView_def DaemonStatusResponse_def DaemonStopResponse_def CountEvidence_def
  ServiceStatusResponse_def ServiceReadinessResponse_def RestartServiceResponse_def
  MigrationStatusResponse_def

lemmas enum_defs = Tier_def AccessMode_def InstanceSource_def CompletionSelection_def
  MetricAvailability_def CallbackState_def CallbackAttemptState_def MessagePriority_def

lemma worker_view_ok [simp]: "ann_ok (WorkerView env)"
proof -
  have "distinct (map fst worker_view_fields)" "list_all (\<lambda>kv. ann_ok (snd kv)) worker_view_fields"
    by (simp_all add: worker_view_fields_def enum_defs)
  then show ?thesis using prep_worker by (simp add: WorkerView_def)
qed

lemma start_request_ok [simp]: "ann_ok (StartWorkerRequest env)"
proof -
  have "distinct (map fst start_worker_fields)" "list_all (\<lambda>kv. ann_ok (snd kv)) start_worker_fields"
    by (simp_all add: start_worker_fields_def enum_defs CallbackCapture_def plain_def)
  then show ?thesis using prep_start by (simp add: StartWorkerRequest_def)
qed

lemma attempt_ok [simp]: "ann_ok CallbackAttemptView"
proof -
  have "distinct (map fst attempt_fields)" "list_all (\<lambda>kv. ann_ok (snd kv)) attempt_fields"
    by (simp_all add: attempt_fields_def enum_defs)
  then show ?thesis using prep_attempt by (simp add: CallbackAttemptView_def)
qed

lemma callback_status_ok [simp]: "ann_ok CallbackStatusView"
  using attempt_ok by (simp add: CallbackStatusView_def plain_def enum_defs)

lemma status_response_ok [simp]: "ann_ok (WorkerStatusResponse env)"
proof -
  have "distinct (map fst (status_response_fields env))"
    "list_all (\<lambda>kv. ann_ok (snd kv)) (status_response_fields env)"
    using worker_view_ok [of env] callback_status_ok
    by (simp_all add: status_response_fields_def TurnView_def plain_def)
  then show ?thesis using prep_status by (simp add: WorkerStatusResponse_def)
qed

lemma all_models_ok: "m \<in> set (all_models env) \<Longrightarrow> ann_ok m"
proof -
  have "list_all ann_ok (all_models env)"
    unfolding all_models_def list.pred_inject
    by (intro conjI TrueI; simp add: model_defs enum_defs plain_def)
  then show "m \<in> set (all_models env) \<Longrightarrow> ann_ok m" by (simp add: list_all_iff)
qed


end
