(* ===== verification/Registry.thy ===== *)
theory Registry
  imports Records Commands
begin

text \<open>
  \<open>registry.SessionRegistry\<close>: the durable list of session records. The registry keeps its
  records in memory and in one file that every change rewrites and replaces. The file is
  modelled by the JSON value in it; the file system's path resolution is the environment's,
  and the outcome of writing the file is a parameter: it succeeds, fails before the new file
  replaces the old one, or fails afterwards (syncing the directory). Clock readings and fresh
  identifiers are arguments.
\<close>

section \<open>Reading one record\<close>

definition fields_of_version :: "int \<Rightarrow> string list" where
  "fields_of_version v = (if v = 1 then v1_fields else if v = 2 then v2_fields else v3_fields)"

definition with_defaults :: "json_object \<Rightarrow> string \<Rightarrow> json_object" where
  "with_defaults data cwd =
     (let d1 = (if dhas data ''tier'' then data else data @ [(''tier'', JNull)]);
          d2 = (if dhas d1 ''access'' then d1 else d1 @ [(''access'', JNull)])
      in dset d2 ''cwd'' (JStr cwd))"

definition as_registry_error :: "('e, 'a) res \<Rightarrow> ('e \<Rightarrow> string) \<Rightarrow> (exn, 'a) res" where
  "as_registry_error r text = (case r of Inl e \<Rightarrow> Inl (RegistryError (text e)) | Inr x \<Rightarrow> Inr x)"

definition registry_record :: "model_env \<Rightarrow> json \<Rightarrow> int \<Rightarrow> (exn, session_record) res" where
  "registry_record env value version = (case as_obj value of
     None \<Rightarrow> Inl (RegistryError ''session record must be an object'')
   | Some data \<Rightarrow>
     if \<not> has_fields data (fields_of_version version)
     then Inl (RegistryError ''session record has incorrect fields'')
     else if list_ex (\<lambda>k. as_nonempty (jget data k) = None) required_fields
     then Inl (RegistryError ''session record required fields must be strings'')
     else if list_ex (\<lambda>k. \<not> str_or_null (jget data k)) annotation_fields
     then Inl (RegistryError ''session annotations must be strings or null'')
     else if \<not> name_ok (jget data ''name'') then Inl (RegistryError ''worker name is invalid'')
     else if \<not> (tier_ok (jget data ''tier'') \<and> access_ok (jget data ''access''))
     then Inl (RegistryError ''common policy is invalid'')
     else if \<not> is_absolute (field_str data ''cwd'') then Inl (RegistryError ''cwd must be absolute'')
     else if \<not> uuid_ok (field_str data ''session_id'') then Inl (RegistryError ''session_id must be a UUID'')
     else (case resolve_path env (field_str data ''cwd'') of
       None \<Rightarrow> Inl (RegistryError ''cwd must be an existing directory'')
     | Some cwd \<Rightarrow>
       if \<not> is_directory env cwd then Inl (RegistryError ''cwd must be absolute'')
       else ebind (as_registry_error (validate_thread_config (jget data ''config'')) exn_str) (\<lambda>_.
         as_registry_error (session_from_dict (JObj (with_defaults data cwd))) exn_str)))"

section \<open>The file\<close>

definition schema_version :: int where "schema_version = 3"

definition identifiers_unique :: "session_record list \<Rightarrow> bool" where
  "identifiers_unique rs \<longleftrightarrow> distinct (map sr_session_id rs) \<and> distinct (map sr_thread_id rs)
     \<and> distinct (List.map_filter sr_name rs)"

definition duplicate_error :: exn where
  "duplicate_error = RegistryConflict ''duplicate session, thread, or worker name identifier''"

definition encode_registry :: "session_record list \<Rightarrow> json" where
  "encode_registry rs = JObj [(''schema_version'', JInt schema_version),
     (''sessions'', JList (map (\<lambda>r. JObj (session_to_dict r)) rs))]"

definition schema_error :: "string \<Rightarrow> string \<Rightarrow> exn" where
  "schema_error prefix path = RegistryError (prefix @ '' at '' @ path @ ''; expected schema versions 1, 2, or 3'')"

text \<open>\<open>_decode\<close> of the bytes: \<open>payload\<close> is \<open>None\<close> when they are not UTF-8 JSON.\<close>

definition decode_registry :: "model_env \<Rightarrow> string \<Rightarrow> json option \<Rightarrow> (exn, session_record list) res" where
  "decode_registry env path payload = (case payload of
     None \<Rightarrow> Inl (schema_error ''invalid registry JSON'' path)
   | Some v \<Rightarrow> (case as_obj v of
       None \<Rightarrow> Inl (schema_error ''unsupported registry schema'' path)
     | Some d \<Rightarrow> (case (as_int (jget d ''schema_version''), as_list (jget d ''sessions'')) of
         (Some version, Some items) \<Rightarrow>
           if \<not> has_fields d [''schema_version'', ''sessions''] \<or> version \<notin> {1, 2, 3}
           then Inl (schema_error ''unsupported registry schema'' path)
           else (case emap (\<lambda>item. registry_record env item version) items of
             Inl e \<Rightarrow> Inl (RegistryError (''invalid registry record at '' @ path
               @ ''; expected schema versions 1, 2, or 3: '' @ exn_str e))
           | Inr records \<Rightarrow> if identifiers_unique records then Inr records else Inl duplicate_error)
       | _ \<Rightarrow> Inl (schema_error ''unsupported registry schema'' path))))"

section \<open>State and saving\<close>

record registry =
  reg_path :: string
  reg_records :: "session_record list"
  reg_file :: "json option"

datatype write_outcome = Written | FailsBefore exn | FailsAfter exn

definition write_error :: "string \<Rightarrow> exn \<Rightarrow> exn" where
  "write_error path e = (case e of
     PermissionError _ \<Rightarrow> RegistryError (''registry write permission denied at '' @ path) | _ \<Rightarrow> e)"

definition save_locked :: "registry \<Rightarrow> session_record list \<Rightarrow> write_outcome \<Rightarrow> registry \<times> (exn, unit) res" where
  "save_locked reg rs w = (case w of
     Written \<Rightarrow> (reg\<lparr>reg_file := Some (encode_registry rs)\<rparr>, Inr ())
   | FailsBefore e \<Rightarrow> (reg, Inl (write_error (reg_path reg) e))
   | FailsAfter e \<Rightarrow> (reg\<lparr>reg_file := Some (encode_registry rs)\<rparr>, Inl (write_error (reg_path reg) e)))"

text \<open>Publish: write the file, then make the records current.\<close>

definition publish :: "registry \<Rightarrow> session_record list \<Rightarrow> write_outcome \<Rightarrow> registry \<times> (exn, unit) res" where
  "publish reg rs w = (case save_locked reg rs w of
     (reg', Inl e) \<Rightarrow> (reg', Inl e)
   | (reg', Inr _) \<Rightarrow> (reg'\<lparr>reg_records := rs\<rparr>, Inr ()))"

text \<open>
  \<open>_load\<close>: the state of the path, whether hardening its mode succeeds, its bytes. An absent or
  empty file is written as an empty registry.
\<close>

datatype path_state = Absent | NotOwned | Regular "json option option"

definition reading_error :: "string \<Rightarrow> exn \<Rightarrow> exn" where
  "reading_error path e = (if is_os_error e \<or> is_value_error e \<or> (case e of TypeError _ \<Rightarrow> True | _ \<Rightarrow> False)
     then schema_error ''invalid registry JSON'' path else e)"

definition load_registry :: "model_env \<Rightarrow> string \<Rightarrow> path_state \<Rightarrow> bool \<Rightarrow> write_outcome \<Rightarrow>
    registry \<times> (exn, unit) res" where
  "load_registry env path state hardened w =
     (let empty = \<lparr>reg_path = path, reg_records = [], reg_file = None\<rparr> in case state of
        Absent \<Rightarrow> publish empty [] w
      | NotOwned \<Rightarrow> (empty, Inl (RegistryError ''registry must be an owner-owned regular file''))
      | Regular content \<Rightarrow>
        if \<not> hardened then (empty, Inl (RegistryError ''registry permissions could not be hardened''))
        else (case content of
          None \<Rightarrow> (case publish empty [] w of
            (reg, Inl e) \<Rightarrow> (reg, Inl (reading_error path e))
          | (reg, Inr _) \<Rightarrow> (reg, Inr ()))
        | Some payload \<Rightarrow> (case decode_registry env path payload of
            Inl e \<Rightarrow> (empty\<lparr>reg_file := payload\<rparr>, Inl e)
          | Inr rs \<Rightarrow> (\<lparr>reg_path = path, reg_records = rs, reg_file = payload\<rparr>, Inr ()))))"

text \<open>\<open>read_existing\<close> loads without writing; \<open>private\<close>: the mode is 0600 already.\<close>

definition read_existing :: "model_env \<Rightarrow> string \<Rightarrow> path_state \<Rightarrow> bool \<Rightarrow> (exn, registry) res" where
  "read_existing env path state private = (case state of
     Absent \<Rightarrow> Inl (FileNotFoundError path)
   | NotOwned \<Rightarrow> Inl (RegistryError ''registry must be an owner-owned mode-0600 regular file'')
   | Regular content \<Rightarrow>
     if \<not> private then Inl (RegistryError ''registry must be an owner-owned mode-0600 regular file'')
     else (case content of
       None \<Rightarrow> Inl (RegistryError ''existing registry must not be empty'')
     | Some payload \<Rightarrow> ebind (decode_registry env path payload) (\<lambda>rs.
         Inr \<lparr>reg_path = path, reg_records = rs, reg_file = payload\<rparr>)))"

section \<open>Operations\<close>

definition list_records :: "registry \<Rightarrow> session_record list" where
  "list_records reg = reg_records reg"

definition replace_all :: "model_env \<Rightarrow> registry \<Rightarrow> session_record list \<Rightarrow> write_outcome \<Rightarrow>
    registry \<times> (exn, unit) res" where
  "replace_all env reg rs w =
     (case emap (\<lambda>r. registry_record env (JObj (session_to_dict r)) schema_version) rs of
        Inl e \<Rightarrow> (reg, Inl e)
      | Inr validated \<Rightarrow>
          if identifiers_unique validated then publish reg validated w else (reg, Inl duplicate_error))"

definition publish_snapshot :: "model_env \<Rightarrow> string \<Rightarrow> path_state \<Rightarrow> bool \<Rightarrow> session_record list \<Rightarrow>
    write_outcome \<Rightarrow> registry \<times> (exn, unit) res" where
  "publish_snapshot env path state private rs w =
     (let fresh = \<lparr>reg_path = path, reg_records = [],
                   reg_file = (case state of Regular (Some payload) \<Rightarrow> payload | _ \<Rightarrow> None)\<rparr>
      in case state of
        Absent \<Rightarrow> replace_all env fresh rs w
      | NotOwned \<Rightarrow> (fresh, Inl (RegistryError ''registry must be an owner-owned mode-0600 regular file''))
      | Regular _ \<Rightarrow> if private then replace_all env fresh rs w
          else (fresh, Inl (RegistryError ''registry must be an owner-owned mode-0600 regular file'')))"

definition selector_matches :: "identifier_selector \<Rightarrow> session_record \<Rightarrow> bool" where
  "selector_matches sel r = (if selector_is_session sel
     then sel_session_id sel = Some (sr_session_id r) else sel_thread_id sel = Some (sr_thread_id r))"

definition try_resolve :: "registry \<Rightarrow> identifier_selector \<Rightarrow> (exn, session_record option) res" where
  "try_resolve reg sel = (case filter (selector_matches sel) (reg_records reg) of
     [] \<Rightarrow> Inr None
   | [r] \<Rightarrow> Inr (Some r)
   | _ \<Rightarrow> Inl (RegistryConflict ''identifier resolves ambiguously''))"

definition resolve :: "registry \<Rightarrow> identifier_selector \<Rightarrow> (exn, session_record) res" where
  "resolve reg sel = ebind (try_resolve reg sel) (\<lambda>m. case m of
     None \<Rightarrow> Inl (RegistryError ''unknown session'') | Some r \<Rightarrow> Inr r)"

record creation =
  cr_thread_id :: string
  cr_cwd :: string
  cr_name :: "string option"
  cr_tier :: "string option"
  cr_model :: "string option"
  cr_effort :: "string option"
  cr_access :: "string option"
  cr_session_id :: "string option"
  cr_config :: "json_object option"

definition collides :: "session_record \<Rightarrow> string \<Rightarrow> string \<Rightarrow> string option \<Rightarrow> bool" where
  "collides r sid tid name \<longleftrightarrow> sr_session_id r = sid \<or> sr_thread_id r = tid
     \<or> name \<noteq> None \<and> sr_name r = name"

definition empty_option :: "string option \<Rightarrow> bool" where
  "empty_option s \<longleftrightarrow> s = Some []"

fun label_check :: "(string \<times> string option) list \<Rightarrow> (exn, unit) res" where
  "label_check [] = Inr ()"
| "label_check ((label, v) # rest) = (if empty_option v
     then Inl (RegistryError (label @ '' must be a non-empty string or null'')) else label_check rest)"

text \<open>The checks of \<open>_create\<close> before it takes the lock: the canonical directory and the identifier.\<close>

definition creation_checks :: "model_env \<Rightarrow> creation \<Rightarrow> string \<Rightarrow> (exn, string \<times> string) res" where
  "creation_checks env c fresh =
     (if cr_thread_id c = [] then Inl (RegistryError ''thread_id must be a non-empty string'')
      else if cr_cwd c = [] then Inl (RegistryError ''cwd must be a non-empty string'')
      else if \<not> is_absolute (cr_cwd c) then Inl (RegistryError ''cwd must be absolute'')
      else (case resolve_path env (cr_cwd c) of
        None \<Rightarrow> Inl (RegistryError ''cwd must be an existing directory'')
      | Some cwd \<Rightarrow>
        if \<not> is_directory env cwd then Inl (RegistryError ''cwd must be an existing directory'')
        else ebind (label_check [(''name'', cr_name c), (''tier'', cr_tier c), (''model'', cr_model c),
               (''effort'', cr_effort c), (''access'', cr_access c)]) (\<lambda>_.
          if \<not> name_ok (jopt (cr_name c))
          then Inl (RegistryError ''name must match [A-Za-z0-9][A-Za-z0-9._-]{0,127}'')
          else if \<not> (tier_ok (jopt (cr_tier c)) \<and> access_ok (jopt (cr_access c)))
          then Inl (RegistryError ''common policy is invalid'')
          else ebind (as_registry_error (validate_thread_config (opt_obj (cr_config c))) exn_str) (\<lambda>_.
            if empty_option (cr_session_id c) then Inl (RegistryError ''session_id must be a non-empty UUID'')
            else (let sid = (case cr_session_id c of None \<Rightarrow> fresh | Some s \<Rightarrow> s)
                  in if uuid_ok sid then Inr (cwd, sid)
                     else Inl (RegistryError ''session_id must be a UUID''))))))"

definition create :: "model_env \<Rightarrow> registry \<Rightarrow> creation \<Rightarrow> string \<Rightarrow> string \<Rightarrow> write_outcome \<Rightarrow>
    registry \<times> (exn, session_record) res" where
  "create env reg c fresh now w = (case creation_checks env c fresh of
     Inl e \<Rightarrow> (reg, Inl e)
   | Inr (cwd, sid) \<Rightarrow>
     if list_ex (\<lambda>r. collides r sid (cr_thread_id c) (cr_name c)) (reg_records reg)
     then (reg, Inl duplicate_error)
     else (let r = \<lparr>sr_session_id = sid, sr_thread_id = cr_thread_id c, sr_cwd = cwd,
                    sr_created_at = now, sr_updated_at = now, sr_name = cr_name c, sr_model = cr_model c,
                    sr_effort = cr_effort c, sr_tier = cr_tier c, sr_access = cr_access c,
                    sr_config = cr_config c\<rparr>
           in case publish reg (reg_records reg @ [r]) w of
                (reg', Inl e) \<Rightarrow> (reg', Inl e)
              | (reg', Inr _) \<Rightarrow> (reg', Inr r)))"

definition update_annotations :: "registry \<Rightarrow> string \<Rightarrow> string option \<Rightarrow> string option \<Rightarrow> string \<Rightarrow>
    write_outcome \<Rightarrow> registry \<times> (exn, session_record) res" where
  "update_annotations reg sid model effort now w =
     (if sid = [] then (reg, Inl (RegistryError ''session_id must be a non-empty UUID''))
      else (case label_check [(''model'', model), (''effort'', effort)] of
        Inl e \<Rightarrow> (reg, Inl e)
      | Inr _ \<Rightarrow> (case resolve reg \<lparr>sel_session_id = Some sid, sel_thread_id = None\<rparr> of
          Inl e \<Rightarrow> (reg, Inl e)
        | Inr current \<Rightarrow>
          (let updated = current\<lparr>sr_updated_at := now, sr_model := model, sr_effort := effort\<rparr>;
               rs = map (\<lambda>r. if sr_session_id r = sid then updated else r) (reg_records reg)
           in case publish reg rs w of
                (reg', Inl e) \<Rightarrow> (reg', Inl e)
              | (reg', Inr _) \<Rightarrow> (reg', Inr updated)))))"

section \<open>Names and the migration ledger\<close>

text \<open>
  The ledger as \<open>_migration_conflict\<close> finds it: absent, not an owner's private file or not
  readable JSON, or a JSON value.
\<close>

datatype ledger_state = NoLedger | Unreadable | Ledger json

definition ledger_status :: "json \<Rightarrow> (exn, json_object) res" where
  "ledger_status payload = (case as_obj payload of
     None \<Rightarrow> Inl (ValueError ''invalid migration ledger'')
   | Some d \<Rightarrow>
     if \<not> has_fields d [''version'', ''status'', ''resolutions''] \<or> \<not> eq_int (jget d ''version'') 1
        \<or> as_list (jget d ''resolutions'') = None
     then Inl (ValueError ''invalid migration ledger'')
     else ebind (from_dict MigrationStatusView (jget d ''status'')) (\<lambda>s.
       case as_obj s of None \<Rightarrow> Inl (ValueError ''invalid migration ledger'') | Some m \<Rightarrow> Inr m))"

definition candidate_view :: "json_object \<Rightarrow> json" where
  "candidate_view c = JObj (map (\<lambda>k. (k, jget c k))
     [''source_path'', ''source_digest'', ''session_id'', ''thread_id''])"

definition migration_conflict :: "ledger_state \<Rightarrow> string \<Rightarrow> (exn, json list option) res" where
  "migration_conflict ledger name = (case ledger of
     NoLedger \<Rightarrow> Inr None
   | Unreadable \<Rightarrow> Inl (RegistryError ''invalid migration ledger'')
   | Ledger payload \<Rightarrow> (case ledger_status payload of
       Inl _ \<Rightarrow> Inl (RegistryError ''invalid migration ledger'')
     | Inr status \<Rightarrow>
         Inr (map_option (\<lambda>c. map candidate_view (objects_of (jget c ''candidates'')))
           (find (\<lambda>c. jget c ''name'' = JStr name) (objects_of (jget status ''conflicts''))))))"

definition resolve_name :: "registry \<Rightarrow> ledger_state \<Rightarrow> string \<Rightarrow> (exn, session_record) res" where
  "resolve_name reg ledger name =
     (if name = [] then Inl (RegistryError ''name must be a non-empty string'')
      else ebind (migration_conflict ledger name) (\<lambda>conflict. case conflict of
        Some candidates \<Rightarrow> Inl (LegacyNameConflict name candidates)
      | None \<Rightarrow> (case filter (\<lambda>r. sr_name r = Some name) (reg_records reg) of
          [] \<Rightarrow> Inl (RegistryError ''unknown worker name'')
        | [r] \<Rightarrow> Inr r
        | _ \<Rightarrow> Inl (RegistryConflict ''worker name resolves ambiguously''))))"


section \<open>Invariant\<close>

text \<open>
  What the code relies on of strict path resolution: its result is absolute and resolves to
  itself.
\<close>

definition resolution_canonical :: "model_env \<Rightarrow> bool" where
  "resolution_canonical env \<longleftrightarrow> (\<forall>p q. resolve_path env p = Some q \<longrightarrow>
     q \<noteq> [] \<and> is_absolute q \<and> resolve_path env q = Some q)"

definition record_valid :: "model_env \<Rightarrow> session_record \<Rightarrow> bool" where
  "record_valid env r \<longleftrightarrow> sr_session_id r \<noteq> [] \<and> sr_thread_id r \<noteq> [] \<and> sr_cwd r \<noteq> []
     \<and> sr_created_at r \<noteq> [] \<and> sr_updated_at r \<noteq> [] \<and> is_absolute (sr_cwd r)
     \<and> uuid_ok (sr_session_id r) \<and> resolve_path env (sr_cwd r) = Some (sr_cwd r)
     \<and> is_directory env (sr_cwd r) \<and> session_record_ok r"

lemma session_ok_parts:
  "session_record_ok r \<Longrightarrow> name_ok (jopt (sr_name r)) \<and> tier_ok (jopt (sr_tier r))
     \<and> access_ok (jopt (sr_access r)) \<and> validate_thread_config (opt_obj (sr_config r)) = Inr ()"
  by (simp add: session_record_ok_def)

lemma fields_latest: "fields_of_version schema_version = v3_fields"
  by (simp add: fields_of_version_def schema_version_def)

lemma with_defaults_same:
  "with_defaults (session_to_dict r) (sr_cwd r) = session_to_dict r"
  by (simp add: with_defaults_def session_to_dict_def dhas_def)

lemma registry_record_valid:
  assumes "record_valid env r"
  shows "registry_record env (JObj (session_to_dict r)) schema_version = Inr r"
proof -
  note ok = session_ok_parts [of r]
  have req: "\<not> list_ex (\<lambda>k. as_nonempty (jget (session_to_dict r) k) = None) required_fields"
    using assms by (simp add: required_fields_def session_to_dict_def record_valid_def)
  have ann: "\<not> list_ex (\<lambda>k. \<not> str_or_null (jget (session_to_dict r) k)) annotation_fields"
    by (simp add: annotation_fields_def session_to_dict_def)
  have get: "jget (session_to_dict r) ''name'' = jopt (sr_name r)"
    "jget (session_to_dict r) ''tier'' = jopt (sr_tier r)"
    "jget (session_to_dict r) ''access'' = jopt (sr_access r)"
    "jget (session_to_dict r) ''config'' = opt_obj (sr_config r)"
    "field_str (session_to_dict r) ''cwd'' = sr_cwd r"
    "field_str (session_to_dict r) ''session_id'' = sr_session_id r"
    by (simp_all add: session_to_dict_def field_str_def)
  show ?thesis
    using assms ok req ann
    unfolding registry_record_def as_registry_error_def
    by (simp add: has_fields_session_to_dict fields_latest get with_defaults_same record_valid_def
        session_roundtrip del: name_ok_jopt)
qed

definition reg_inv :: "model_env \<Rightarrow> registry \<Rightarrow> bool" where
  "reg_inv env reg \<longleftrightarrow> identifiers_unique (reg_records reg)
     \<and> list_all (record_valid env) (reg_records reg)"

definition in_sync :: "registry \<Rightarrow> bool" where
  "in_sync reg \<longleftrightarrow> reg_file reg = Some (encode_registry (reg_records reg))"

lemma decode_encode:
  assumes "identifiers_unique rs" "list_all (record_valid env) rs"
  shows "decode_registry env path (Some (encode_registry rs)) = Inr rs"
proof -
  have "emap (\<lambda>item. registry_record env item schema_version) (map (\<lambda>r. JObj (session_to_dict r)) rs) = Inr rs"
    using assms(2) registry_record_valid by (auto simp: emap_Inr_iff list_all_iff)
  then show ?thesis
    using assms(1) by (simp add: decode_registry_def encode_registry_def has_fields_def schema_version_def)
qed

lemma publish_cases:
  obtains "w = Written" "publish reg rs w = (reg\<lparr>reg_file := Some (encode_registry rs), reg_records := rs\<rparr>, Inr ())"
  | e where "w = FailsBefore e" "publish reg rs w = (reg, Inl (write_error (reg_path reg) e))"
  | e where "w = FailsAfter e" "publish reg rs w = (reg\<lparr>reg_file := Some (encode_registry rs)\<rparr>,
      Inl (write_error (reg_path reg) e))"
  by (cases w) (simp_all add: publish_def save_locked_def)

lemma publish_inv:
  assumes "reg_inv env reg" "identifiers_unique rs" "list_all (record_valid env) rs"
  shows "reg_inv env (fst (publish reg rs w))"
    "in_sync reg \<Longrightarrow> (\<forall>e. w \<noteq> FailsAfter e) \<Longrightarrow> in_sync (fst (publish reg rs w))"
  using assms by (cases w; simp add: publish_def save_locked_def reg_inv_def in_sync_def)+

lemma creation_checks_valid:
  assumes "resolution_canonical env" "creation_checks env c fresh = Inr (cwd, sid)" "now \<noteq> []"
  shows "record_valid env \<lparr>sr_session_id = sid, sr_thread_id = cr_thread_id c, sr_cwd = cwd,
      sr_created_at = now, sr_updated_at = now, sr_name = cr_name c, sr_model = cr_model c,
      sr_effort = cr_effort c, sr_tier = cr_tier c, sr_access = cr_access c, sr_config = cr_config c\<rparr>"
proof -
  have facts: "cr_thread_id c \<noteq> []" "resolve_path env (cr_cwd c) = Some cwd" "is_directory env cwd"
    "name_ok (jopt (cr_name c))" "tier_ok (jopt (cr_tier c))" "access_ok (jopt (cr_access c))"
    "validate_thread_config (opt_obj (cr_config c)) = Inr ()" "uuid_ok sid"
    using assms(2)
    by (auto simp: creation_checks_def res_simps as_registry_error_def Let_def simp del: name_ok_jopt
        split: if_splits option.splits sum.splits)
  have "\<not> uuid_ok []" by (simp add: uuid_ok_def py_remove_def strip_chars_def)
  then have "sid \<noteq> []" using facts(8) by auto
  then show ?thesis
    using facts assms(1,3) by (auto simp: record_valid_def resolution_canonical_def session_record_ok_def)
qed

lemma unique_snoc:
  assumes "identifiers_unique rs" "\<not> list_ex (\<lambda>q. collides q (sr_session_id r) (sr_thread_id r) (sr_name r)) rs"
  shows "identifiers_unique (rs @ [r])"
proof -
  have "the (sr_name r) \<notin> set (List.map_filter sr_name rs)" if "sr_name r \<noteq> None"
    using assms(2) that
    by (auto simp: collides_def list_ex_iff List.map_filter_def split: option.splits)
  moreover have "List.map_filter sr_name (rs @ [r]) = List.map_filter sr_name rs
      @ (case sr_name r of None \<Rightarrow> [] | Some n \<Rightarrow> [n])"
    by (simp add: List.map_filter_def split: option.splits)
  moreover have "sr_session_id r \<notin> sr_session_id ` set rs" "sr_thread_id r \<notin> sr_thread_id ` set rs"
    using assms(2) by (auto simp: collides_def list_ex_iff)
  ultimately show ?thesis
    using assms(1) by (auto simp: identifiers_unique_def split: option.splits)
qed


lemma unique_by_id:
  "identifiers_unique rs \<Longrightarrow> r \<in> set rs \<Longrightarrow> q \<in> set rs \<Longrightarrow> sr_session_id r = sr_session_id q \<Longrightarrow> r = q"
  by (auto simp: identifiers_unique_def distinct_map inj_on_def)

lemma create_cases:
  assumes "create env reg c fresh now w = (reg', res)"
  obtains (refused) e where "reg' = reg" "res = Inl e"
  | (tried) cwd sid r where "creation_checks env c fresh = Inr (cwd, sid)"
      "r = \<lparr>sr_session_id = sid, sr_thread_id = cr_thread_id c, sr_cwd = cwd,
         sr_created_at = now, sr_updated_at = now, sr_name = cr_name c, sr_model = cr_model c,
         sr_effort = cr_effort c, sr_tier = cr_tier c, sr_access = cr_access c, sr_config = cr_config c\<rparr>"
      "\<not> list_ex (\<lambda>r. collides r sid (cr_thread_id c) (cr_name c)) (reg_records reg)"
      "reg' = fst (publish reg (reg_records reg @ [r]) w)"
      "res = (case snd (publish reg (reg_records reg @ [r]) w) of Inl e \<Rightarrow> Inl e | Inr _ \<Rightarrow> Inr r)"
  using assms
  by (auto simp: create_def Let_def split: sum.splits prod.splits if_splits)

lemma create_inv:
  assumes "reg_inv env reg" "resolution_canonical env" "now \<noteq> []"
    "create env reg c fresh now w = (reg', res)"
  shows "reg_inv env reg'"
  using assms(4)
proof (cases rule: create_cases)
  case (tried cwd sid r)
  have "record_valid env r"
    unfolding tried(2) by (rule creation_checks_valid [OF assms(2) tried(1) assms(3)])
  moreover have "identifiers_unique (reg_records reg @ [r])"
    using assms(1) tried(2,3) by (intro unique_snoc) (auto simp: reg_inv_def)
  moreover have "list_all (record_valid env) (reg_records reg)"
    using assms(1) by (simp add: reg_inv_def)
  ultimately have "reg_inv env (fst (publish reg (reg_records reg @ [r]) w))"
    by (intro publish_inv(1) assms(1)) simp_all
  then show ?thesis by (simp only: tried(4))
qed (use assms in simp)

lemma map_update_unique:
  assumes "\<And>r. sr_session_id (f r) = sr_session_id r \<and> sr_thread_id (f r) = sr_thread_id r \<and> sr_name (f r) = sr_name r"
  shows "identifiers_unique (map f rs) = identifiers_unique rs"
proof -
  have "map sr_session_id (map f rs) = map sr_session_id rs" "map sr_thread_id (map f rs) = map sr_thread_id rs"
    using assms by simp_all
  moreover have "List.map_filter sr_name (map f rs) = List.map_filter sr_name rs"
    using assms by (induction rs) (auto simp: List.map_filter_simps split: option.split)
  ultimately show ?thesis by (simp only: identifiers_unique_def)
qed

definition annotate :: "string \<Rightarrow> string option \<Rightarrow> string option \<Rightarrow> string \<Rightarrow> session_record \<Rightarrow> session_record" where
  "annotate sid model effort now r = (if sr_session_id r = sid
     then r\<lparr>sr_updated_at := now, sr_model := model, sr_effort := effort\<rparr> else r)"

lemma try_resolve_Some:
  assumes "try_resolve reg sel = Inr (Some r)"
  shows "r \<in> set (reg_records reg)" "selector_matches sel r"
proof -
  have "filter (selector_matches sel) (reg_records reg) = [r]"
    using assms by (auto simp: try_resolve_def split: list.splits)
  then have "r \<in> set (filter (selector_matches sel) (reg_records reg))" by simp
  then show "r \<in> set (reg_records reg)" "selector_matches sel r" by auto
qed

lemma update_cases:
  assumes "update_annotations reg sid model effort now w = (reg', res)" "reg_inv env reg"
  obtains (refused) e where "reg' = reg" "res = Inl e"
  | (tried) current where "current \<in> set (reg_records reg)" "sr_session_id current = sid"
      "reg' = fst (publish reg (map (annotate sid model effort now) (reg_records reg)) w)"
      "res = (case snd (publish reg (map (annotate sid model effort now) (reg_records reg)) w) of
         Inl e \<Rightarrow> Inl e | Inr _ \<Rightarrow> Inr (annotate sid model effort now current))"
proof (cases "\<exists>current. sid \<noteq> [] \<and> label_check [(''model'', model), (''effort'', effort)] = Inr ()
    \<and> resolve reg \<lparr>sel_session_id = Some sid, sel_thread_id = None\<rparr> = Inr current")
  case True
  then obtain current where c: "sid \<noteq> []" "label_check [(''model'', model), (''effort'', effort)] = Inr ()"
    "resolve reg \<lparr>sel_session_id = Some sid, sel_thread_id = None\<rparr> = Inr current" by blast
  then have "try_resolve reg \<lparr>sel_session_id = Some sid, sel_thread_id = None\<rparr> = Inr (Some current)"
    by (auto simp: resolve_def res_simps split: option.splits)
  note m = try_resolve_Some [OF this]
  then have sid: "sr_session_id current = sid" by (simp add: selector_matches_def selector_is_session_def)
  have e: "map (\<lambda>r. if sr_session_id r = sid
      then current\<lparr>sr_updated_at := now, sr_model := model, sr_effort := effort\<rparr> else r) (reg_records reg)
    = map (annotate sid model effort now) (reg_records reg)"
  proof (rule map_cong [OF refl])
    fix r assume "r \<in> set (reg_records reg)"
    then show "(if sr_session_id r = sid
      then current\<lparr>sr_updated_at := now, sr_model := model, sr_effort := effort\<rparr> else r)
      = annotate sid model effort now r"
      using unique_by_id [of "reg_records reg" r current] assms(2) m(1) sid
      by (auto simp: annotate_def reg_inv_def)
  qed
  have cur: "annotate sid model effort now current
      = current\<lparr>sr_updated_at := now, sr_model := model, sr_effort := effort\<rparr>"
    by (simp add: annotate_def sid)
  obtain p q where pq: "publish reg (map (annotate sid model effort now) (reg_records reg)) w = (p, q)"
    by fastforce
  have "update_annotations reg sid model effort now w = (case (p, q) of
      (reg', Inl e) \<Rightarrow> (reg', Inl e) | (reg', Inr _) \<Rightarrow> (reg', Inr (annotate sid model effort now current)))"
    using c(1) unfolding update_annotations_def Let_def c(2,3) sum.case e pq cur by (simp only: if_False)
  then have r: "(reg', res) = (case q of Inl e \<Rightarrow> (p, Inl e)
      | Inr _ \<Rightarrow> (p, Inr (annotate sid model effort now current)))"
    unfolding assms(1) prod.case .
  show thesis
  proof (rule tried [OF m(1) sid])
    show "reg' = fst (publish reg (map (annotate sid model effort now) (reg_records reg)) w)"
      unfolding pq fst_conv using r by (cases q) simp_all
    show "res = (case snd (publish reg (map (annotate sid model effort now) (reg_records reg)) w) of
         Inl e \<Rightarrow> Inl e | Inr _ \<Rightarrow> Inr (annotate sid model effort now current))"
      unfolding pq snd_conv using r by (cases q) simp_all
  qed
next
  case False
  then consider "sid = []" | e where "sid \<noteq> []" "label_check [(''model'', model), (''effort'', effort)] = Inl e"
    | e where "sid \<noteq> []" "label_check [(''model'', model), (''effort'', effort)] = Inr ()"
        "resolve reg \<lparr>sel_session_id = Some sid, sel_thread_id = None\<rparr> = Inl e"
    by (cases "label_check [(''model'', model), (''effort'', effort)]";
        cases "resolve reg \<lparr>sel_session_id = Some sid, sel_thread_id = None\<rparr>") auto
  then have "\<exists>e. update_annotations reg sid model effort now w = (reg, Inl e)"
    by cases (simp_all add: update_annotations_def del: label_check.simps)
  then show thesis using assms(1) refused by auto
qed

lemma update_inv:
  assumes "reg_inv env reg" "now \<noteq> []" "update_annotations reg sid model effort now w = (reg', res)"
  shows "reg_inv env reg'"
  using assms(3,1)
proof (cases rule: update_cases)
  case (tried current)
  have "identifiers_unique (map (annotate sid model effort now) (reg_records reg))"
    using assms(1) by (subst map_update_unique) (auto simp: annotate_def reg_inv_def)
  moreover have "record_valid env (annotate sid model effort now r)" if "record_valid env r" for r
    using that assms(2) by (auto simp: record_valid_def annotate_def session_record_ok_def)
  then have "list_all (record_valid env) (map (annotate sid model effort now) (reg_records reg))"
    using assms(1) by (auto simp: reg_inv_def list_all_iff)
  ultimately have "reg_inv env (fst (publish reg (map (annotate sid model effort now) (reg_records reg)) w))"
    by (intro publish_inv(1) assms(1))
  then show ?thesis by (simp only: tried(3))
qed (use assms in simp)

section \<open>Runs of operations\<close>

datatype reg_action =
    RCreate creation string string
  | RAnnotate string "string option" "string option" string
  | RReplace "session_record list"

definition reg_exec :: "model_env \<Rightarrow> reg_action \<times> write_outcome \<Rightarrow> registry \<Rightarrow> registry" where
  "reg_exec env aw reg = (case aw of
     (RCreate c fresh now, w) \<Rightarrow> fst (create env reg c fresh now w)
   | (RAnnotate sid model effort now, w) \<Rightarrow> fst (update_annotations reg sid model effort now w)
   | (RReplace rs, w) \<Rightarrow> fst (replace_all env reg rs w))"

definition clock_ok :: "reg_action \<Rightarrow> bool" where
  "clock_ok a = (case a of RCreate _ _ now \<Rightarrow> now \<noteq> [] | RAnnotate _ _ _ now \<Rightarrow> now \<noteq> [] | RReplace _ \<Rightarrow> True)"

definition fails_after :: "write_outcome \<Rightarrow> bool" where
  "fails_after w = (case w of FailsAfter _ \<Rightarrow> True | _ \<Rightarrow> False)"

definition reg_run :: "model_env \<Rightarrow> (reg_action \<times> write_outcome) list \<Rightarrow> registry \<Rightarrow> registry" where
  "reg_run env aws reg = fold (reg_exec env) aws reg"

lemma field_str_nonempty:
  assumes "\<not> list_ex (\<lambda>k. as_nonempty (jget data k) = None) required_fields" "k \<in> set required_fields"
  shows "jget data k = JStr (field_str data k)" "field_str data k \<noteq> []"
proof -
  from assms obtain s where "as_nonempty (jget data k) = Some s" by (auto simp: list_ex_iff)
  then show "jget data k = JStr (field_str data k)" "field_str data k \<noteq> []"
    by (auto simp: field_str_def as_str_def)
qed

lemma jget_dset: "jget (dset d k v) k' = (if k = k' then v else jget d k')"
  by (simp add: jget_def)

lemma jget_append_JNull: "\<not> dhas d k \<Longrightarrow> jget (d @ [(k, JNull)]) k' = jget d k'"
  by (auto simp: jget_def dhas_def map_add_def split: option.splits)

lemma jget_with_defaults:
  "jget (with_defaults data cwd) k = (if k = ''cwd'' then JStr cwd else jget data k)"
  by (simp add: with_defaults_def Let_def jget_dset jget_append_JNull)

lemma registry_record_sound:
  assumes "resolution_canonical env" "registry_record env v ver = Inr r"
  shows "record_valid env r"
proof -
  obtain data cwd where d: "\<not> list_ex (\<lambda>k. as_nonempty (jget data k) = None) required_fields"
    "uuid_ok (field_str data ''session_id'')" "resolve_path env (field_str data ''cwd'') = Some cwd"
    "is_directory env cwd" "session_from_dict (JObj (with_defaults data cwd)) = Inr r"
    using assms(2)
    by (auto simp: registry_record_def as_registry_error_def res_simps split: option.splits if_splits sum.splits)
  have r: "r = build_session (with_defaults data cwd)"
    using d(5) by (auto simp: session_from_dict_def res_simps split: if_splits)
  have c: "cwd \<noteq> []" "is_absolute cwd" "resolve_path env cwd = Some cwd"
    using assms(1) d(3) unfolding resolution_canonical_def by blast+
  note f = field_str_nonempty [OF d(1)]
  have "jget data k = JStr (field_str data k) \<and> field_str data k \<noteq> []" if "k \<in> set required_fields" for k
    using f that by blast
  then have "\<forall>k \<in> set required_fields. jget data k = JStr (field_str data k) \<and> field_str data k \<noteq> []" by blast
  then show ?thesis
    using d c session_from_dict_ok [OF d(5)]
    by (simp add: record_valid_def r build_session_def jget_with_defaults required_fields_def)
qed

lemma replace_cases:
  assumes "resolution_canonical env" "replace_all env reg rs w = (reg', res)"
  obtains (refused) e where "reg' = reg" "res = Inl e"
  | (tried) vs where "identifiers_unique vs" "list_all (record_valid env) vs" "publish reg vs w = (reg', res)"
proof (cases "emap (\<lambda>r. registry_record env (JObj (session_to_dict r)) schema_version) rs")
  case (Inl e)
  then show thesis using assms(2) refused by (auto simp: replace_all_def)
next
  case (Inr vs)
  then have m: "map (\<lambda>r. registry_record env (JObj (session_to_dict r)) schema_version) rs = map Inr vs"
    by (simp add: emap_Inr_iff)
  have "record_valid env v" if "v \<in> set vs" for v
  proof -
    from that have "Inr v \<in> set (map (\<lambda>r. registry_record env (JObj (session_to_dict r)) schema_version) rs)"
      unfolding m by simp
    then show ?thesis using registry_record_sound [OF assms(1)] by auto
  qed
  with Inr assms(2) show thesis
    by (cases "identifiers_unique vs") (auto simp: replace_all_def list_all_iff intro: refused tried)
qed

text \<open>Every change is refused, or is one publication of a valid list of records.\<close>

lemma exec_publishes:
  assumes "reg_inv env reg" "resolution_canonical env" "clock_ok a"
  obtains "reg_exec env (a, w) reg = reg"
  | rs where "identifiers_unique rs" "list_all (record_valid env) rs"
      "reg_exec env (a, w) reg = fst (publish reg rs w)"
proof (cases a)
  case (RCreate c fresh now)
  obtain reg' res where x: "create env reg c fresh now w = (reg', res)" by fastforce
  then show thesis
  proof (cases rule: create_cases)
    case refused
    then show thesis using that(1) x RCreate by (simp add: reg_exec_def)
  next
    case (tried cwd sid r)
    have "list_all (record_valid env) (reg_records reg @ [r])"
      using creation_checks_valid [OF assms(2) tried(1), of now] assms(1,3) RCreate tried(2)
      by (simp add: reg_inv_def clock_ok_def)
    moreover have "identifiers_unique (reg_records reg @ [r])"
      using assms(1) tried(2,3) by (intro unique_snoc) (auto simp: reg_inv_def)
    moreover have "reg_exec env (a, w) reg = fst (publish reg (reg_records reg @ [r]) w)"
      using x tried(4) RCreate by (simp add: reg_exec_def)
    ultimately show thesis by (intro that(2))
  qed
next
  case (RAnnotate sid model effort now)
  obtain reg' res where x: "update_annotations reg sid model effort now w = (reg', res)" by fastforce
  from x assms(1) show thesis
  proof (cases rule: update_cases)
    case refused
    then show thesis using that(1) x RAnnotate by (simp add: reg_exec_def)
  next
    case (tried current)
    have "identifiers_unique (map (annotate sid model effort now) (reg_records reg))"
      using assms(1) by (subst map_update_unique) (auto simp: annotate_def reg_inv_def)
    moreover have "record_valid env (annotate sid model effort now r)" if "record_valid env r" for r
      using that assms(3) RAnnotate
      by (auto simp: record_valid_def annotate_def session_record_ok_def clock_ok_def)
    then have "list_all (record_valid env) (map (annotate sid model effort now) (reg_records reg))"
      using assms(1) by (auto simp: reg_inv_def list_all_iff)
    moreover have "reg_exec env (a, w) reg
        = fst (publish reg (map (annotate sid model effort now) (reg_records reg)) w)"
      using x tried(3) RAnnotate by (simp add: reg_exec_def)
    ultimately show thesis by (intro that(2))
  qed
next
  case (RReplace rs)
  obtain reg' res where x: "replace_all env reg rs w = (reg', res)" by fastforce
  from assms(2) x show thesis
  proof (cases rule: replace_cases)
    case refused
    then show thesis using that(1) x RReplace by (simp add: reg_exec_def)
  next
    case (tried vs)
    then have "reg_exec env (a, w) reg = fst (publish reg vs w)"
      using x RReplace by (simp add: reg_exec_def)
    with tried(1,2) show thesis by (rule that(2))
  qed
qed

lemma exec_reg_inv:
  assumes "reg_inv env reg" "resolution_canonical env" "clock_ok a"
  shows "reg_inv env (reg_exec env (a, w) reg)"
  using assms
proof (cases rule: exec_publishes [where w = w])
  case (2 rs)
  then show ?thesis using publish_inv(1) [OF assms(1) 2(1,2)] by simp
qed (use assms in simp)

lemma exec_in_sync:
  assumes "reg_inv env reg" "resolution_canonical env" "clock_ok a" "in_sync reg" "\<not> fails_after w"
  shows "in_sync (reg_exec env (a, w) reg)"
  using assms(1-3)
proof (cases rule: exec_publishes [where w = w])
  case (2 rs)
  have "\<forall>e. w \<noteq> FailsAfter e" using assms(5) by (auto simp: fails_after_def)
  then show ?thesis using publish_inv(2) [OF assms(1) 2(1,2) assms(4)] 2(3) by simp
qed (use assms in simp)

lemma reg_run_inv:
  assumes "resolution_canonical env" "\<forall>(a, w) \<in> set aws. clock_ok a" "reg_inv env reg"
  shows "reg_inv env (reg_run env aws reg)"
  using assms(2,3)
proof (induction aws arbitrary: reg)
  case (Cons aw aws)
  obtain a w where aw: "aw = (a, w)" by fastforce
  with Cons.prems have "reg_inv env (reg_exec env aw reg)"
    using exec_reg_inv [OF _ assms(1)] by simp
  with Cons show ?case by (simp add: reg_run_def)
qed (simp add: reg_run_def)

lemma reg_run_in_sync:
  assumes "resolution_canonical env" "\<forall>(a, w) \<in> set aws. clock_ok a \<and> \<not> fails_after w"
    "reg_inv env reg" "in_sync reg"
  shows "in_sync (reg_run env aws reg)"
  using assms(2-)
proof (induction aws arbitrary: reg)
  case (Cons aw aws)
  obtain a w where aw: "aw = (a, w)" by fastforce
  with Cons.prems have "reg_inv env (reg_exec env aw reg)" "in_sync (reg_exec env aw reg)"
    using exec_reg_inv [OF _ assms(1)] exec_in_sync [OF _ assms(1)] by auto
  with Cons show ?case by (simp add: reg_run_def)
qed (simp add: reg_run_def)

lemma reg_path_run [simp]: "reg_path (reg_run env aws reg) = reg_path reg"
proof (induction aws arbitrary: reg)
  case (Cons aw aws)
  have "reg_path (fst (publish r rs w)) = reg_path r" for r rs w
    by (cases w) (simp_all add: publish_def save_locked_def)
  then have "reg_path (reg_exec env aw reg) = reg_path reg"
    by (auto simp: reg_exec_def create_def update_annotations_def replace_all_def Let_def split_beta
        split: reg_action.splits sum.splits)
  with Cons show ?case by (simp add: reg_run_def)
qed (simp add: reg_run_def)

section \<open>Properties\<close>

definition reloads :: "model_env \<Rightarrow> registry \<Rightarrow> bool" where
  "reloads env reg \<longleftrightarrow> decode_registry env (reg_path reg) (reg_file reg) = Inr (reg_records reg)"

lemma decode_sound:
  assumes "resolution_canonical env" "decode_registry env path payload = Inr rs"
  shows "identifiers_unique rs" "list_all (record_valid env) rs"
proof -
  obtain items version where i: "emap (\<lambda>item. registry_record env item version) items = Inr rs" "identifiers_unique rs"
    using assms(2) by (auto simp: decode_registry_def split: option.splits if_splits sum.splits)
  show "identifiers_unique rs" by fact
  have m: "map (\<lambda>item. registry_record env item version) items = map Inr rs"
    using i(1) by (simp add: emap_Inr_iff)
  have "record_valid env v" if "v \<in> set rs" for v
  proof -
    from that have "Inr v \<in> set (map (\<lambda>item. registry_record env item version) items)"
      unfolding m by simp
    then show ?thesis using registry_record_sound [OF assms(1)] by auto
  qed
  then show "list_all (record_valid env) rs" by (simp add: list_all_iff)
qed

lemma load_reloads:
  assumes "resolution_canonical env" "load_registry env path state h w = (reg, Inr ())"
  shows "reg_inv env reg" "reloads env reg" "reg_path reg = path"
proof -
  have e: "decode_registry env path (Some (encode_registry [])) = Inr []"
    by (rule decode_encode) (simp_all add: identifiers_unique_def List.map_filter_simps)
  have "reg_inv env reg \<and> reloads env reg \<and> reg_path reg = path"
  proof (cases state)
    case Absent
    then show ?thesis using assms(2) e
      by (cases w) (auto simp: load_registry_def publish_def save_locked_def reloads_def reg_inv_def
          identifiers_unique_def List.map_filter_simps)
  next
    case NotOwned
    then show ?thesis using assms(2) by (simp add: load_registry_def)
  next
    case (Regular content)
    then have h: h using assms(2) by (cases h) (simp_all add: load_registry_def)
    show ?thesis
    proof (cases content)
      case None
      then show ?thesis using assms(2) e Regular h
        by (cases w) (auto simp: load_registry_def publish_def save_locked_def reloads_def reg_inv_def
            identifiers_unique_def List.map_filter_simps)
    next
      case (Some payload)
      then show ?thesis using assms(2) Regular h decode_sound [OF assms(1), of path payload]
        by (auto simp: load_registry_def reloads_def reg_inv_def split: sum.splits)
    qed
  qed
  then show "reg_inv env reg" "reloads env reg" "reg_path reg = path" by simp_all
qed

lemma exec_reloads:
  assumes "reg_inv env reg" "resolution_canonical env" "clock_ok a" "reloads env reg" "\<not> fails_after w"
  shows "reloads env (reg_exec env (a, w) reg)"
  using assms(1-3)
proof (cases rule: exec_publishes [where w = w])
  case (2 rs)
  then show ?thesis using assms(4,5) decode_encode [OF 2(1,2), of "reg_path reg"]
    by (cases w) (simp_all add: publish_def save_locked_def reloads_def fails_after_def)
qed (use assms in simp)

lemma reg_run_reloads:
  assumes "resolution_canonical env" "\<forall>(a, w) \<in> set aws. clock_ok a \<and> \<not> fails_after w"
    "reg_inv env reg" "reloads env reg"
  shows "reloads env (reg_run env aws reg)"
  using assms(2-)
proof (induction aws arbitrary: reg)
  case (Cons aw aws)
  obtain a w where aw: "aw = (a, w)" by fastforce
  with Cons.prems have "reg_inv env (reg_exec env aw reg)" "reloads env (reg_exec env aw reg)"
    using exec_reg_inv [OF _ assms(1)] exec_reloads [OF _ assms(1)] by auto
  with Cons show ?case by (simp add: reg_run_def)
qed (simp add: reg_run_def)

text \<open>
  C2. A registry is loaded from any state of its file (including
  schema versions 1 and 2) and goes through any sequence of creations, annotation updates and
  replacements, each of whose writes succeeds or fails before the file is replaced. Then its
  records are valid and have distinct identifiers, and loading the file it leaves yields exactly
  the records it holds in memory.
\<close>

theorem registry_survives_restart:
  assumes "resolution_canonical env" "load_registry env path state h w0 = (reg, Inr ())"
    and "\<forall>(a, w) \<in> set aws. clock_ok a \<and> \<not> fails_after w"
  shows "reg_inv env (reg_run env aws reg)
    \<and> load_registry env path (Regular (Some (reg_file (reg_run env aws reg)))) True w
      = (reg_run env aws reg, Inr ())"
proof -
  note l = load_reloads [OF assms(1,2)]
  let ?r = "reg_run env aws reg"
  have "\<forall>(a, w) \<in> set aws. clock_ok a" using assms(3) by auto
  then have i: "reg_inv env ?r" by (intro reg_run_inv assms(1) l(1))
  have r: "decode_registry env path (reg_file ?r) = Inr (reg_records ?r)"
    using reg_run_reloads [OF assms(1,3) l(1,2)] l(3) by (simp add: reloads_def)
  have "\<lparr>reg_path = path, reg_records = reg_records ?r, reg_file = reg_file ?r\<rparr> = ?r"
    using reg_path_run [of env aws reg] l(3) by (cases ?r) simp
  with i r show ?thesis by (simp add: load_registry_def)
qed

text \<open>
  A creation, an annotation update or a replacement that
  raises leaves the records in memory as they were, and the file too unless the failure came
  after the new file was in place.
\<close>

theorem failed_change_keeps_records:
  assumes "reg_inv env reg" "resolution_canonical env"
    and "create env reg c fresh now w = (reg', Inl e)
      \<or> update_annotations reg sid model effort now w = (reg', Inl e)
      \<or> replace_all env reg rs w = (reg', Inl e)"
  shows "reg_records reg' = reg_records reg \<and> (reg_file reg' = reg_file reg \<or> fails_after w)"
proof -
  have p: "reg_records q = reg_records reg \<and> (reg_file q = reg_file reg \<or> fails_after w)"
    if "publish reg xs w = (q, Inl e')" for xs q e'
    using that by (cases w) (auto simp: publish_def save_locked_def fails_after_def)
  have p': "reg_records (fst (publish reg xs w)) = reg_records reg
      \<and> (reg_file (fst (publish reg xs w)) = reg_file reg \<or> fails_after w)"
    if "(case snd (publish reg xs w) of Inl e \<Rightarrow> Inl e | Inr _ \<Rightarrow> Inr y) = (Inl e :: (exn, session_record) res)" for xs y
    using p that by (cases "publish reg xs w") (auto split: sum.splits)
  from assms(3) consider "create env reg c fresh now w = (reg', Inl e)"
    | "update_annotations reg sid model effort now w = (reg', Inl e)"
    | "replace_all env reg rs w = (reg', Inl e)" by blast
  then show ?thesis
  proof cases
    case 1
    then show ?thesis by (cases rule: create_cases) (use p' in auto)
  next
    case 2
    from 2 assms(1) show ?thesis by (cases rule: update_cases) (use p' in auto)
  next
    case 3
    from assms(2) 3 show ?thesis by (cases rule: replace_cases) (use p in auto)
  qed
qed

text \<open>
  After a successful creation the new record is found by its
  session, by its thread and by its name, and every selector that found a record before still
  finds the same one.
\<close>

theorem created_worker_resolves:
  assumes "create env reg c fresh now w = (reg', Inr r)"
  shows "resolve reg' \<lparr>sel_session_id = Some (sr_session_id r), sel_thread_id = None\<rparr> = Inr r
    \<and> resolve reg' \<lparr>sel_session_id = None, sel_thread_id = Some (sr_thread_id r)\<rparr> = Inr r
    \<and> (\<forall>n. sr_name r = Some n \<longrightarrow> n \<noteq> [] \<longrightarrow> resolve_name reg' NoLedger n = Inr r)
    \<and> (\<forall>sel q. resolve reg sel = Inr q \<longrightarrow> resolve reg' sel = Inr q)"
  using assms
proof (cases rule: create_cases)
  case (tried cwd sid q)
  have q: "q = r" and w: "reg_records reg' = reg_records reg @ [r]"
    using tried(4,5) by (cases w; auto simp: publish_def save_locked_def)+
  have fresh: "sr_session_id x \<noteq> sr_session_id r \<and> sr_thread_id x \<noteq> sr_thread_id r
      \<and> (sr_name r \<noteq> None \<longrightarrow> sr_name x \<noteq> sr_name r)" if "x \<in> set (reg_records reg)" for x
    using tried(2,3) q that by (auto simp: collides_def list_ex_iff)
  have n: "filter P (reg_records reg) = []" if "\<And>x. x \<in> set (reg_records reg) \<Longrightarrow> \<not> P x" for P
    using that by (simp add: filter_empty_conv)
  have old: "resolve reg' sel = Inr x" if "resolve reg sel = Inr x" for sel x
  proof -
    have "filter (selector_matches sel) (reg_records reg) = [x]"
      using that by (auto simp: resolve_def try_resolve_def res_simps split: list.splits option.splits)
    moreover from this have "x \<in> set (filter (selector_matches sel) (reg_records reg))" by simp
    then have "x \<in> set (reg_records reg)" "selector_matches sel x" by simp_all
    then have "\<not> selector_matches sel r"
      using fresh by (auto simp: selector_matches_def split: if_splits)
    ultimately show ?thesis by (simp add: resolve_def try_resolve_def w)
  qed
  have find: "resolve reg' sel = Inr r"
    if "selector_matches sel r" "\<And>x. x \<in> set (reg_records reg) \<Longrightarrow> \<not> selector_matches sel x" for sel
    using that n [of "selector_matches sel"] by (simp add: resolve_def try_resolve_def w)
  have "resolve_name reg' NoLedger m = Inr r" if "sr_name r = Some m" "m \<noteq> []" for m
    using that n [of "\<lambda>x. sr_name x = Some m"] fresh by (simp add: resolve_name_def migration_conflict_def w)
  moreover have "resolve reg' \<lparr>sel_session_id = Some (sr_session_id r), sel_thread_id = None\<rparr> = Inr r"
    by (rule find) (use fresh in \<open>force simp: selector_matches_def selector_is_session_def\<close>)+
  moreover have "resolve reg' \<lparr>sel_session_id = None, sel_thread_id = Some (sr_thread_id r)\<rparr> = Inr r"
    by (rule find) (use fresh in \<open>force simp: selector_matches_def selector_is_session_def\<close>)+
  ultimately show ?thesis using old by blast
qed simp

text \<open>
  A creation whose write fails when the directory is synced,
  after the file was replaced, raises and leaves memory without the record, while the file
  has it: a restart brings the worker back.
\<close>

theorem interrupted_sync_diverges:
  assumes "reg_inv env reg" "resolution_canonical env" "now \<noteq> []"
    and "create env reg c fresh now Written = (reg1, Inr r)"
  shows "create env reg c fresh now (FailsAfter x) = (reg\<lparr>reg_file := Some (encode_registry (reg_records reg @ [r]))\<rparr>, Inl (write_error (reg_path reg) x))
    \<and> decode_registry env (reg_path reg) (Some (encode_registry (reg_records reg @ [r])))
      = Inr (reg_records reg @ [r])"
  using assms(4)
proof (cases rule: create_cases)
  case (tried cwd sid q)
  then have q: "q = r" by (simp add: publish_def save_locked_def)
  have v: "list_all (record_valid env) (reg_records reg @ [r])"
    using creation_checks_valid [OF assms(2) tried(1) assms(3)] assms(1) tried(2) q by (simp add: reg_inv_def)
  have u: "identifiers_unique (reg_records reg @ [r])"
    using assms(1) tried(2,3) q by (intro unique_snoc) (auto simp: reg_inv_def)
  have "create env reg c fresh now (FailsAfter x)
      = (reg\<lparr>reg_file := Some (encode_registry (reg_records reg @ [r]))\<rparr>, Inl (write_error (reg_path reg) x))"
    using tried(1-3) q by (simp add: create_def publish_def save_locked_def)
  with decode_encode [OF u v] show ?thesis by simp
qed simp

text \<open>
  While the migration ledger lists a name as conflicted, looking
  the name up is refused with the candidates of the conflict, whatever the registry holds.
\<close>

theorem conflicted_name_refused:
  assumes "name \<noteq> []" "ledger_status payload = Inr status"
    and "find (\<lambda>c. jget c ''name'' = JStr name) (objects_of (jget status ''conflicts'')) = Some c"
  shows "resolve_name reg (Ledger payload) name
    = Inl (LegacyNameConflict name (map candidate_view (objects_of (jget c ''candidates''))))"
  using assms by (simp add: resolve_name_def migration_conflict_def)
end
