(* ===== verification/CallbackStore.thy ===== *)
theory CallbackStore
  imports Registry
begin

text \<open>
  \<open>callback_domain.py\<close> and \<open>callback_store.py\<close>: callback events, bindings and outbox entries with
  the checks of their constructors and their dictionary forms, and the store that reads its
  one file before every operation and rewrites it after every change. The file is modelled by
  the JSON value in it. Writing sorts the keys of the dictionary of bindings and of the
  outbox (their order is the order in which entries are listed); the order of keys inside a
  record, on which nothing depends, is not modelled.

  Each operation takes the outcome of its layout checks and of the writes it may make
  (\<open>store_io\<close>). The rendering of a completion as JSON text and the SHA-256 digest are
  parameters of \<open>publish_artifact\<close>.
\<close>

section \<open>Callback events\<close>

fun json_finite :: "json \<Rightarrow> bool" where
  "json_finite (JFloat f) = is_finite f"
| "json_finite (JList xs) = list_all json_finite xs"
| "json_finite (JObj d) = list_all (\<lambda>kv. json_finite (snd kv)) d"
| "json_finite _ = True"

record callback_event =
  ce_schema :: string
  ce_event :: string
  ce_event_id :: string
  ce_emitted_at :: string
  ce_priority :: string
  ce_worker :: json
  ce_payload :: json_object

definition nonempty :: "json \<Rightarrow> string \<Rightarrow> (exn, string) res" where
  "nonempty v name = (case as_nonempty v of
     None \<Rightarrow> Inl (ValueError (name @ '' must be a non-empty string'')) | Some s \<Rightarrow> Inr s)"

text \<open>\<open>value not in {...}\<close> for a set of strings: a list or dictionary is not hashable.\<close>

definition member_of :: "json \<Rightarrow> string list \<Rightarrow> string \<Rightarrow> (exn, string) res" where
  "member_of v choices message =
     (if \<not> hashable v then Inl (TypeError ''unhashable type'')
      else (case as_str v of
        Some s \<Rightarrow> if s \<in> set choices then Inr s else Inl (ValueError message)
      | None \<Rightarrow> Inl (ValueError message)))"

definition callback_schema :: string where
  "callback_schema = ''codex-worker.claude-callback/v1''"

definition event_kinds :: "string list" where
  "event_kinds = [''turn_terminal'', ''turn_terminal_reference'', ''worker_message'']"

definition priorities :: "string list" where
  "priorities = [''now'', ''next'', ''later'']"

definition mk_callback_event :: "json \<Rightarrow> json \<Rightarrow> json \<Rightarrow> json \<Rightarrow> json \<Rightarrow> json \<Rightarrow> json \<Rightarrow>
    (exn, callback_event) res" where
  "mk_callback_event schema event event_id emitted_at priority worker payload =
     (if schema \<noteq> JStr callback_schema then Inl (ValueError ''unsupported callback schema'')
      else ebind (member_of event event_kinds ''unsupported callback event'') (\<lambda>ev.
        ebind (nonempty event_id ''event_id'') (\<lambda>i.
        ebind (nonempty emitted_at ''emitted_at'') (\<lambda>tm.
        ebind (member_of priority priorities ''unsupported callback priority'') (\<lambda>p.
          case (as_obj worker, as_obj payload) of
            (Some _, Some pl) \<Rightarrow>
              if json_finite payload
              then Inr \<lparr>ce_schema = callback_schema, ce_event = ev, ce_event_id = i, ce_emitted_at = tm,
                        ce_priority = p, ce_worker = worker, ce_payload = pl\<rparr>
              else Inl (ValueError ''payload must be JSON-compatible'')
          | _ \<Rightarrow> Inl (ValueError ''invalid callback event''))))))"

definition event_dict :: "callback_event \<Rightarrow> json_object" where
  "event_dict e = [(''schema'', JStr (ce_schema e)), (''event'', JStr (ce_event e)),
     (''event_id'', JStr (ce_event_id e)), (''emitted_at'', JStr (ce_emitted_at e)),
     (''priority'', JStr (ce_priority e)), (''worker'', ce_worker e), (''payload'', JObj (ce_payload e))]"

definition event_from_dict :: "model_env \<Rightarrow> json \<Rightarrow> (exn, callback_event) res" where
  "event_from_dict env v = (case as_obj v of
     None \<Rightarrow> Inl (ValueError ''malformed callback event'')
   | Some d \<Rightarrow>
     if \<not> has_fields d [''schema'', ''event'', ''event_id'', ''emitted_at'', ''priority'', ''worker'', ''payload'']
     then Inl (ValueError ''malformed callback event'')
     else ebind (from_dict (WorkerView env) (jget d ''worker'')) (\<lambda>w.
       mk_callback_event (jget d ''schema'') (jget d ''event'') (jget d ''event_id'')
         (jget d ''emitted_at'') (jget d ''priority'') w (jget d ''payload'')))"

definition event_session :: "callback_event \<Rightarrow> json" where
  "event_session e = (case as_obj (ce_worker e) of None \<Rightarrow> JNull | Some w \<Rightarrow> jget w ''session_id'')"

definition sub_obj :: "json \<Rightarrow> string \<Rightarrow> json" where
  "sub_obj v k = (case as_obj v of None \<Rightarrow> JNull | Some d \<Rightarrow> jget d k)"

definition terminal_turn_id :: "callback_event option \<Rightarrow> string option" where
  "terminal_turn_id oe = (case oe of None \<Rightarrow> None
   | Some e \<Rightarrow>
     if ce_event e = ''turn_terminal_reference'' then as_nonempty (jget (ce_payload e) ''turn_id'')
     else if ce_event e = ''turn_terminal''
     then as_nonempty (sub_obj (sub_obj (jget (ce_payload e) ''completion'') ''turn'') ''turn_id'')
     else None)"

section \<open>Bindings\<close>

datatype callback_state = Enabled | Disabled | Unavailable

fun callback_state_value :: "callback_state \<Rightarrow> string" where
  "callback_state_value Enabled = ''enabled''"
| "callback_state_value Disabled = ''disabled''"
| "callback_state_value Unavailable = ''unavailable''"

definition callback_state_of :: "json \<Rightarrow> (exn, callback_state) res" where
  "callback_state_of v =
     (if v = JStr ''enabled'' then Inr Enabled
      else if v = JStr ''disabled'' then Inr Disabled
      else if v = JStr ''unavailable'' then Inr Unavailable
      else Inl (ValueError ''not a valid CallbackState''))"

text \<open>
  The route fields keep whatever JSON value the record has, as the constructor only checks
  some of them; \<open>JNull\<close> is \<open>None\<close>.
\<close>

record binding =
  cb_session_id :: string
  cb_state :: callback_state
  cb_target_socket :: json
  cb_child_token :: json
  cb_claude_session_id :: json
  cb_claude_pid :: json
  cb_claude_proc_start :: json
  cb_claude_config_dir :: json
  cb_captured_at :: string
  cb_last_attempt :: json

definition hex_set :: string where
  "hex_set = ''0123456789abcdef''"

text \<open>\<open>char not in "0123456789abcdef"\<close>: any substring is in, and only a string may be asked for.\<close>

definition substring_of :: "string \<Rightarrow> string \<Rightarrow> bool" where
  "substring_of p s \<longleftrightarrow> list_ex (\<lambda>i. startswith (drop i s) p) [0..<Suc (length s)]"

fun hex_elements :: "json list \<Rightarrow> (exn, unit) res" where
  "hex_elements [] = Inr ()"
| "hex_elements (v # vs) = (case as_str v of
     None \<Rightarrow> Inl (TypeError ''in <string> requires string as left operand'')
   | Some s \<Rightarrow> if substring_of s hex_set then hex_elements vs
       else Inl (ValueError ''child_token must be lowercase hexadecimal''))"

definition token_elements :: "json \<Rightarrow> (exn, json list) res" where
  "token_elements v = (case v of
     JStr s \<Rightarrow> Inr (map (\<lambda>c. JStr [c]) s)
   | JList xs \<Rightarrow> Inr xs
   | JObj d \<Rightarrow> Inr (map (\<lambda>kv. JStr (fst kv)) d)
   | _ \<Rightarrow> Inl (TypeError ''object has no len()''))"

definition token_check :: "json \<Rightarrow> (exn, unit) res" where
  "token_check v = (if v = JNull then Inr () else ebind (token_elements v) (\<lambda>xs.
     if length xs \<noteq> 32 then Inl (ValueError ''child_token must be lowercase hexadecimal'')
     else hex_elements xs))"

definition socket_check :: "json \<Rightarrow> (exn, unit) res" where
  "socket_check v = (if v = JNull then Inr () else (case as_str v of
     None \<Rightarrow> Inl (TypeError ''expected str, bytes or os.PathLike object'')
   | Some p \<Rightarrow> check (is_absolute p) ''target_socket must be absolute''))"

definition route_of :: "binding \<Rightarrow> json list" where
  "route_of b = [cb_target_socket b, cb_child_token b, cb_claude_session_id b, cb_claude_pid b,
     cb_claude_proc_start b]"

definition binding_checks :: "binding \<Rightarrow> (exn, unit) res" where
  "binding_checks b = checks
     [check (cb_session_id b \<noteq> []) ''session_id must be a non-empty string'',
      check (cb_captured_at b \<noteq> []) ''captured_at must be a non-empty string'',
      (if cb_state b = Enabled
       then check (\<not> list_ex (\<lambda>v. v = JNull) (route_of b) \<and> cb_claude_config_dir b \<noteq> JNull)
         ''enabled callback binding requires a complete capture''
       else if list_ex (\<lambda>v. v \<noteq> JNull) (route_of b)
       then Inl (ValueError ''non-enabled callback binding cannot retain a route'')
       else check (\<not> (cb_state b = Disabled \<and> cb_claude_config_dir b \<noteq> JNull))
         ''disabled callback binding cannot retain a resolver root''),
      when_present (cb_claude_config_dir b) (\<lambda>v. absolute_field v ''claude_config_dir must be absolute when present''),
      socket_check (cb_target_socket b), token_check (cb_child_token b),
      when_present (cb_claude_pid b) (\<lambda>v. check (case as_int v of None \<Rightarrow> False | Some i \<Rightarrow> 0 < i)
        ''claude_pid must be positive'')]"

definition binding_dict :: "binding \<Rightarrow> json_object" where
  "binding_dict b = [(''session_id'', JStr (cb_session_id b)), (''state'', JStr (callback_state_value (cb_state b))),
     (''target_socket'', cb_target_socket b), (''child_token'', cb_child_token b),
     (''claude_session_id'', cb_claude_session_id b), (''claude_pid'', cb_claude_pid b),
     (''claude_proc_start'', cb_claude_proc_start b), (''claude_config_dir'', cb_claude_config_dir b),
     (''captured_at'', JStr (cb_captured_at b)), (''last_terminal_attempt'', cb_last_attempt b)]"

definition binding_fields :: "string list" where
  "binding_fields = [''session_id'', ''state'', ''target_socket'', ''child_token'', ''claude_session_id'',
     ''claude_pid'', ''claude_proc_start'', ''claude_config_dir'', ''captured_at'', ''last_terminal_attempt'']"

definition attempt_from_json :: "json \<Rightarrow> (exn, json) res" where
  "attempt_from_json v = (if v = JNull then Inr JNull else from_dict CallbackAttemptView v)"

definition binding_from_dict :: "json \<Rightarrow> (exn, binding option) res" where
  "binding_from_dict v = (if v = JNull then Inr None else (case as_obj v of
     None \<Rightarrow> Inl (ValueError ''malformed callback binding'')
   | Some d \<Rightarrow>
     if \<not> has_fields d binding_fields then Inl (ValueError ''malformed callback binding'')
     else ebind (attempt_from_json (jget d ''last_terminal_attempt'')) (\<lambda>attempt.
       ebind (callback_state_of (jget d ''state'')) (\<lambda>state.
       ebind (nonempty (jget d ''session_id'') ''session_id'') (\<lambda>sid.
       ebind (nonempty (jget d ''captured_at'') ''captured_at'') (\<lambda>tm.
         let b = \<lparr>cb_session_id = sid, cb_state = state, cb_target_socket = jget d ''target_socket'',
                  cb_child_token = jget d ''child_token'', cb_claude_session_id = jget d ''claude_session_id'',
                  cb_claude_pid = jget d ''claude_pid'', cb_claude_proc_start = jget d ''claude_proc_start'',
                  cb_claude_config_dir = jget d ''claude_config_dir'', cb_captured_at = tm,
                  cb_last_attempt = attempt\<rparr>
         in ebind (binding_checks b) (\<lambda>_. Inr (Some b))))))))"

definition binding_ok :: "binding \<Rightarrow> bool" where
  "binding_ok b \<longleftrightarrow> binding_checks b = Inr () \<and> attempt_from_json (cb_last_attempt b) = Inr (cb_last_attempt b)"

section \<open>Outbox entries\<close>

datatype outbox_state = Pending | Delivered

fun outbox_state_value :: "outbox_state \<Rightarrow> string" where
  "outbox_state_value Pending = ''pending''"
| "outbox_state_value Delivered = ''written''"

definition outbox_state_of :: "json \<Rightarrow> (exn, outbox_state) res" where
  "outbox_state_of v =
     (if v = JStr ''pending'' then Inr Pending
      else if v = JStr ''written'' then Inr Delivered
      else Inl (ValueError ''not a valid CallbackOutboxState''))"

record outbox_entry =
  en_event_id :: string
  en_session_id :: string
  en_event :: "callback_event option"
  en_state :: outbox_state
  en_attempts :: int
  en_last_error :: "string option"

definition entry_checks :: "outbox_entry \<Rightarrow> (exn, unit) res" where
  "entry_checks e = checks
     [check (en_event_id e \<noteq> []) ''event_id must be a non-empty string'',
      check (en_session_id e \<noteq> []) ''session_id must be a non-empty string'',
      check (0 \<le> en_attempts e) ''invalid callback outbox entry'',
      check (\<not> (en_state e = Pending \<and> en_event e = None)) ''pending callback entry requires its event'',
      check (case en_event e of None \<Rightarrow> True
        | Some ev \<Rightarrow> ce_event_id ev = en_event_id e \<and> event_session ev = JStr (en_session_id e))
        ''callback event identity does not match outbox entry'']"

definition entry_dict :: "outbox_entry \<Rightarrow> json_object" where
  "entry_dict e = [(''event_id'', JStr (en_event_id e)), (''session_id'', JStr (en_session_id e)),
     (''event'', case en_event e of None \<Rightarrow> JNull | Some ev \<Rightarrow> JObj (event_dict ev)),
     (''state'', JStr (outbox_state_value (en_state e))), (''attempt_count'', JInt (en_attempts e)),
     (''last_error'', jopt (en_last_error e))]"

definition entry_fields :: "string list" where
  "entry_fields = [''event_id'', ''session_id'', ''event'', ''state'', ''attempt_count'', ''last_error'']"

definition event_from_json :: "model_env \<Rightarrow> json \<Rightarrow> (exn, callback_event option) res" where
  "event_from_json env v = (if v = JNull then Inr None
     else ebind (event_from_dict env v) (\<lambda>e. Inr (Some e)))"

definition entry_from_dict :: "model_env \<Rightarrow> json \<Rightarrow> (exn, outbox_entry) res" where
  "entry_from_dict env v = (case as_obj v of
     None \<Rightarrow> Inl (ValueError ''malformed callback outbox entry'')
   | Some d \<Rightarrow>
     if \<not> has_fields d entry_fields then Inl (ValueError ''malformed callback outbox entry'')
     else ebind (event_from_json env (jget d ''event'')) (\<lambda>ev.
       ebind (outbox_state_of (jget d ''state'')) (\<lambda>state.
       ebind (nonempty (jget d ''event_id'') ''event_id'') (\<lambda>i.
       ebind (nonempty (jget d ''session_id'') ''session_id'') (\<lambda>sid.
         case as_int (jget d ''attempt_count'') of
           None \<Rightarrow> Inl (ValueError ''invalid callback outbox entry'')
         | Some n \<Rightarrow>
           if n < 0 then Inl (ValueError ''invalid callback outbox entry'')
           else if \<not> str_or_null (jget d ''last_error'') then Inl (ValueError ''last_error must be a string'')
           else (let e = \<lparr>en_event_id = i, en_session_id = sid, en_event = ev, en_state = state,
                          en_attempts = n, en_last_error = as_str (jget d ''last_error'')\<rparr>
                 in ebind (entry_checks e) (\<lambda>_. Inr e)))))))"

definition event_ok :: "model_env \<Rightarrow> callback_event \<Rightarrow> bool" where
  "event_ok env ev \<longleftrightarrow> event_from_dict env (JObj (event_dict ev)) = Inr ev"

definition entry_ok :: "model_env \<Rightarrow> outbox_entry \<Rightarrow> bool" where
  "entry_ok env e \<longleftrightarrow> entry_checks e = Inr () \<and> (\<forall>ev \<in> set_option (en_event e). event_ok env ev)"

section \<open>Round trips of the records\<close>

lemma as_nonempty_some: "nonempty v n = Inr s \<longleftrightarrow> v = JStr s \<and> s \<noteq> []"
  by (cases v) (auto simp: nonempty_def as_nonempty_def)

lemma nonempty_JStr [simp]: "s \<noteq> [] \<Longrightarrow> nonempty (JStr s) n = Inr s"
  by (simp add: nonempty_def)

lemma callback_state_roundtrip [simp]: "callback_state_of (JStr (callback_state_value s)) = Inr s"
  by (cases s) (simp_all add: callback_state_of_def)

lemma outbox_state_roundtrip [simp]: "outbox_state_of (JStr (outbox_state_value s)) = Inr s"
  by (cases s) (simp_all add: outbox_state_of_def)

lemma binding_checks_strings:
  "binding_checks b = Inr () \<Longrightarrow> cb_session_id b \<noteq> [] \<and> cb_captured_at b \<noteq> []"
  unfolding binding_checks_def checks_Inr by simp

lemma has_binding_fields: "has_fields (binding_dict b) binding_fields"
  by (simp add: has_fields_def dkeys_def binding_dict_def binding_fields_def)

lemma binding_roundtrip:
  assumes "binding_ok b"
  shows "binding_from_dict (JObj (binding_dict b)) = Inr (Some b)"
proof -
  have g: "jget (binding_dict b) ''session_id'' = JStr (cb_session_id b)"
    "jget (binding_dict b) ''state'' = JStr (callback_state_value (cb_state b))"
    "jget (binding_dict b) ''target_socket'' = cb_target_socket b"
    "jget (binding_dict b) ''child_token'' = cb_child_token b"
    "jget (binding_dict b) ''claude_session_id'' = cb_claude_session_id b"
    "jget (binding_dict b) ''claude_pid'' = cb_claude_pid b"
    "jget (binding_dict b) ''claude_proc_start'' = cb_claude_proc_start b"
    "jget (binding_dict b) ''claude_config_dir'' = cb_claude_config_dir b"
    "jget (binding_dict b) ''captured_at'' = JStr (cb_captured_at b)"
    "jget (binding_dict b) ''last_terminal_attempt'' = cb_last_attempt b"
    by (simp_all add: binding_dict_def)
  have same: "\<lparr>cb_session_id = cb_session_id b, cb_state = cb_state b, cb_target_socket = cb_target_socket b,
      cb_child_token = cb_child_token b, cb_claude_session_id = cb_claude_session_id b,
      cb_claude_pid = cb_claude_pid b, cb_claude_proc_start = cb_claude_proc_start b,
      cb_claude_config_dir = cb_claude_config_dir b, cb_captured_at = cb_captured_at b,
      cb_last_attempt = cb_last_attempt b\<rparr> = b"
    by simp
  show ?thesis
    using assms binding_checks_strings [of b] has_binding_fields [of b]
    by (simp add: binding_from_dict_def binding_ok_def g Let_def same)
qed

lemma attempt_from_json_idem: "attempt_from_json v = Inr w \<Longrightarrow> attempt_from_json w = Inr w"
  using load_idem(1) [of CallbackAttemptView v "[]" w "[]"] attempt_ok
  by (auto simp: attempt_from_json_def from_dict_def split: if_splits)

lemma binding_from_dict_ok:
  assumes "binding_from_dict v = Inr (Some b)"
  shows "binding_ok b"
  using assms attempt_from_json_idem
  by (auto simp: binding_from_dict_def binding_ok_def res_simps Let_def split: if_splits option.splits)

lemma entry_roundtrip:
  assumes "entry_ok env e"
  shows "entry_from_dict env (JObj (entry_dict e)) = Inr e"
proof -
  have g: "jget (entry_dict e) ''event_id'' = JStr (en_event_id e)"
    "jget (entry_dict e) ''session_id'' = JStr (en_session_id e)"
    "jget (entry_dict e) ''event'' = (case en_event e of None \<Rightarrow> JNull | Some ev \<Rightarrow> JObj (event_dict ev))"
    "jget (entry_dict e) ''state'' = JStr (outbox_state_value (en_state e))"
    "jget (entry_dict e) ''attempt_count'' = JInt (en_attempts e)"
    "jget (entry_dict e) ''last_error'' = jopt (en_last_error e)"
    by (simp_all add: entry_dict_def)
  have h: "has_fields (entry_dict e) entry_fields"
    by (simp add: has_fields_def dkeys_def entry_dict_def entry_fields_def)
  have c: "en_event_id e \<noteq> []" "en_session_id e \<noteq> []" "0 \<le> en_attempts e" "entry_checks e = Inr ()"
    using assms unfolding entry_ok_def entry_checks_def checks_Inr by simp_all
  have "event_from_json env (case en_event e of None \<Rightarrow> JNull | Some ev \<Rightarrow> JObj (event_dict ev)) = Inr (en_event e)"
    using assms by (cases "en_event e") (simp_all add: event_from_json_def entry_ok_def event_ok_def)
  moreover have same: "\<lparr>en_event_id = en_event_id e, en_session_id = en_session_id e, en_event = en_event e,
      en_state = en_state e, en_attempts = en_attempts e, en_last_error = en_last_error e\<rparr> = e"
    by simp
  moreover have "str_or_null (jopt (en_last_error e))"
    by (cases "en_last_error e") (simp_all add: str_or_null_def)
  ultimately show ?thesis
    using c h by (simp add: entry_from_dict_def g Let_def same)
qed

lemma worker_view_reload: "from_dict (WorkerView env) v = Inr w \<Longrightarrow> from_dict (WorkerView env) w = Inr w"
  using load_idem(1) [of "WorkerView env" v "[]" w "[]"] worker_view_ok by (simp add: from_dict_def)

lemma mk_callback_event_Inr:
  "mk_callback_event s k i t p w pl = Inr ev \<longleftrightarrow>
     s = JStr callback_schema \<and> ce_schema ev = callback_schema \<and> k = JStr (ce_event ev) \<and> ce_event ev \<in> set event_kinds
     \<and> i = JStr (ce_event_id ev) \<and> ce_event_id ev \<noteq> [] \<and> t = JStr (ce_emitted_at ev) \<and> ce_emitted_at ev \<noteq> []
     \<and> p = JStr (ce_priority ev) \<and> ce_priority ev \<in> set priorities \<and> w = ce_worker ev \<and> (\<exists>d. w = JObj d)
     \<and> pl = JObj (ce_payload ev) \<and> json_finite pl"
  by (cases ev) (auto simp: mk_callback_event_def res_simps as_nonempty_some member_of_def as_obj_def as_str_def
      hashable_def split: option.splits if_splits json.splits)

lemma event_from_dict_ok:
  assumes "event_from_dict env v = Inr ev"
  shows "event_ok env ev"
proof -
  obtain d w where v: "v = JObj d" "from_dict (WorkerView env) (jget d ''worker'') = Inr w"
    "mk_callback_event (jget d ''schema'') (jget d ''event'') (jget d ''event_id'') (jget d ''emitted_at'')
       (jget d ''priority'') w (jget d ''payload'') = Inr ev"
    using assms by (auto simp: event_from_dict_def res_simps split: option.splits if_splits)
  have m: "ce_worker ev = w" and e: "mk_callback_event (JStr (ce_schema ev)) (JStr (ce_event ev)) (JStr (ce_event_id ev))
      (JStr (ce_emitted_at ev)) (JStr (ce_priority ev)) w (JObj (ce_payload ev)) = Inr ev"
    using v(3) by (auto simp: mk_callback_event_Inr)
  have h: "has_fields (event_dict ev) [''schema'', ''event'', ''event_id'', ''emitted_at'', ''priority'', ''worker'', ''payload'']"
    by (simp add: has_fields_def dkeys_def event_dict_def)
  show ?thesis
    using e h worker_view_reload [OF v(2)] m
    by (simp add: event_ok_def event_from_dict_def) (simp add: event_dict_def)
qed

lemma entry_from_dict_ok:
  assumes "entry_from_dict env v = Inr e"
  shows "entry_ok env e"
  using assms
  by (auto simp: entry_from_dict_def entry_ok_def event_from_json_def res_simps Let_def
      split: option.splits if_splits intro: event_from_dict_ok)

section \<open>The store\<close>

record cb_state =
  st_version :: json
  st_bindings :: json_object
  st_outbox :: json_object

datatype store_file = EmptyFile | Garbage | Content json

record store_io =
  io_layout :: "exn option"
  io_first :: write_outcome
  io_write :: write_outcome

definition empty_state :: cb_state where
  "empty_state = \<lparr>st_version = JInt 1, st_bindings = [], st_outbox = []\<rparr>"

definition state_json :: "cb_state \<Rightarrow> json" where
  "state_json st = JObj [(''bindings'', JObj (sort_key fst (st_bindings st))),
     (''outbox'', JObj (sort_key fst (st_outbox st))), (''version'', st_version st)]"

definition write_state :: "store_file \<Rightarrow> cb_state \<Rightarrow> write_outcome \<Rightarrow> store_file \<times> (exn, unit) res" where
  "write_state file st w = (case w of
     FailsBefore e \<Rightarrow> (file, Inl e)
   | Written \<Rightarrow>
       if json_finite (state_json st) then (Content (state_json st), Inr ())
       else (file, Inl (ValueError ''Out of range float values are not JSON compliant''))
   | FailsAfter e \<Rightarrow>
       if json_finite (state_json st) then (Content (state_json st), Inl e)
       else (file, Inl (ValueError ''Out of range float values are not JSON compliant'')))"

definition check_binding_item :: "string \<times> json \<Rightarrow> (exn, unit) res" where
  "check_binding_item kv = ebind (binding_from_dict (snd kv)) (\<lambda>ob. case ob of
     None \<Rightarrow> Inl (ValueError ''callback binding key does not match its record'')
   | Some b \<Rightarrow> check (cb_session_id b = fst kv) ''callback binding key does not match its record'')"

definition check_entry_item :: "model_env \<Rightarrow> string \<times> json \<Rightarrow> (exn, unit) res" where
  "check_entry_item env kv = ebind (entry_from_dict env (snd kv)) (\<lambda>e.
     check (en_event_id e = fst kv) ''callback outbox key does not match its record'')"

definition decode_state :: "model_env \<Rightarrow> json \<Rightarrow> (exn, cb_state) res" where
  "decode_state env v = (case as_obj v of
     None \<Rightarrow> Inl (ValueError ''malformed callback state'')
   | Some d \<Rightarrow>
     if \<not> has_fields d [''version'', ''bindings'', ''outbox''] \<or> \<not> eq_int (jget d ''version'') 1
     then Inl (ValueError ''malformed callback state'')
     else (case (as_obj (jget d ''bindings''), as_obj (jget d ''outbox'')) of
       (Some bs, Some os) \<Rightarrow>
         ebind (checks (map check_binding_item bs)) (\<lambda>_.
           ebind (checks (map (check_entry_item env) os)) (\<lambda>_.
             Inr \<lparr>st_version = jget d ''version'', st_bindings = bs, st_outbox = os\<rparr>))
     | _ \<Rightarrow> Inl (ValueError ''malformed callback state'')))"

definition load_state :: "model_env \<Rightarrow> store_io \<Rightarrow> store_file \<Rightarrow> store_file \<times> (exn, cb_state) res" where
  "load_state env io file = (case io_layout io of
     Some e \<Rightarrow> (file, Inl e)
   | None \<Rightarrow> (case file of
       EmptyFile \<Rightarrow> (case write_state file empty_state (io_first io) of
         (file', Inl e) \<Rightarrow> (file', Inl e) | (file', Inr _) \<Rightarrow> (file', Inr empty_state))
     | Garbage \<Rightarrow> (file, Inl (ValueError ''malformed callback state''))
     | Content v \<Rightarrow> (file, decode_state env v)))"

text \<open>An operation: load, then either raise, return without writing, or write a new state and return.\<close>

datatype 'a decision = Refuse exn | Answer 'a | Update cb_state 'a

definition transact :: "model_env \<Rightarrow> store_io \<Rightarrow> store_file \<Rightarrow> (cb_state \<Rightarrow> 'a decision) \<Rightarrow>
    store_file \<times> (exn, 'a) res" where
  "transact env io file f = (case load_state env io file of
     (file', Inl e) \<Rightarrow> (file', Inl e)
   | (file', Inr st) \<Rightarrow> (case f st of
       Refuse e \<Rightarrow> (file', Inl e)
     | Answer x \<Rightarrow> (file', Inr x)
     | Update st' x \<Rightarrow> (case write_state file' st' (io_write io) of
         (file'', Inl e) \<Rightarrow> (file'', Inl e) | (file'', Inr _) \<Rightarrow> (file'', Inr x))))"

definition deciding :: "(exn, 'a) res \<Rightarrow> ('a \<Rightarrow> 'b decision) \<Rightarrow> 'b decision" where
  "deciding r f = (case r of Inl e \<Rightarrow> Refuse e | Inr x \<Rightarrow> f x)"

section \<open>Operations\<close>

definition stored_binding :: "cb_state \<Rightarrow> string \<Rightarrow> (exn, binding option) res" where
  "stored_binding st sid = binding_from_dict (jget (st_bindings st) sid)"

definition stored_entry :: "model_env \<Rightarrow> cb_state \<Rightarrow> string \<Rightarrow> (exn, outbox_entry) res" where
  "stored_entry env st i = entry_from_dict env (jget (st_outbox st) i)"

definition put_binding :: "cb_state \<Rightarrow> binding \<Rightarrow> cb_state" where
  "put_binding st b = st\<lparr>st_bindings := dset (st_bindings st) (cb_session_id b) (JObj (binding_dict b))\<rparr>"

definition put_entry :: "cb_state \<Rightarrow> outbox_entry \<Rightarrow> cb_state" where
  "put_entry st e = st\<lparr>st_outbox := dset (st_outbox st) (en_event_id e) (JObj (entry_dict e))\<rparr>"

text \<open>\<open>==\<close> of two bindings; the free route fields compare as Python values.\<close>

definition binding_eq :: "binding \<Rightarrow> binding \<Rightarrow> bool" where
  "binding_eq a b \<longleftrightarrow> cb_session_id a = cb_session_id b \<and> cb_state a = cb_state b
     \<and> list_all (\<lambda>p. py_eq (fst p) (snd p)) (zip (route_of a) (route_of b))
     \<and> py_eq (cb_claude_config_dir a) (cb_claude_config_dir b) \<and> cb_captured_at a = cb_captured_at b
     \<and> py_eq (cb_last_attempt a) (cb_last_attempt b)"

definition bind :: "model_env \<Rightarrow> store_io \<Rightarrow> store_file \<Rightarrow> binding \<Rightarrow> store_file \<times> (exn, binding) res" where
  "bind env io file b = transact env io file (\<lambda>st.
     deciding (stored_binding st (cb_session_id b)) (\<lambda>existing. case existing of
       None \<Rightarrow> Update (put_binding st b) b
     | Some x \<Rightarrow> if binding_eq x b then Answer b else Refuse (ValueError ''callback binding is immutable'')))"

definition binding_of :: "model_env \<Rightarrow> store_io \<Rightarrow> store_file \<Rightarrow> string \<Rightarrow> store_file \<times> (exn, binding option) res" where
  "binding_of env io file sid = transact env io file (\<lambda>st. deciding (stored_binding st sid) Answer)"

definition enqueue_terminal :: "model_env \<Rightarrow> store_io \<Rightarrow> store_file \<Rightarrow> string \<Rightarrow> callback_event \<Rightarrow>
    store_file \<times> (exn, outbox_entry option) res" where
  "enqueue_terminal env io file sid ev = transact env io file (\<lambda>st.
     if \<not> dhas (st_bindings st) sid then Refuse (ValueError ''callback binding not found'')
     else if jget (st_outbox st) (ce_event_id ev) \<noteq> JNull
     then deciding (stored_entry env st (ce_event_id ev)) (\<lambda>e.
       if en_session_id e \<noteq> sid then Refuse (ValueError ''callback event id belongs to another session'')
       else Answer (if en_state e = Pending then Some e else None))
     else (let e = \<lparr>en_event_id = ce_event_id ev, en_session_id = sid, en_event = Some ev,
                    en_state = Pending, en_attempts = 0, en_last_error = None\<rparr>
           in deciding (entry_checks e) (\<lambda>_. Update (put_entry st e) (Some e))))"

definition all_entries :: "model_env \<Rightarrow> cb_state \<Rightarrow> (exn, outbox_entry list) res" where
  "all_entries env st = emap (\<lambda>kv. entry_from_dict env (snd kv)) (st_outbox st)"

definition pending :: "model_env \<Rightarrow> store_io \<Rightarrow> store_file \<Rightarrow> string option \<Rightarrow>
    store_file \<times> (exn, outbox_entry list) res" where
  "pending env io file sid = transact env io file (\<lambda>st. deciding (all_entries env st) (\<lambda>es.
     Answer (filter (\<lambda>e. en_state e = Pending \<and> (sid = None \<or> sid = Some (en_session_id e))) es)))"

definition mk_attempt :: "string \<Rightarrow> string \<Rightarrow> string option \<Rightarrow> string \<Rightarrow> int \<Rightarrow> string option \<Rightarrow> (exn, json) res" where
  "mk_attempt event_id state reason attempted_at count turn_id = build CallbackAttemptView
     [(''event_id'', JStr event_id), (''state'', JStr state), (''reason'', jopt reason),
      (''attempted_at'', JStr attempted_at), (''attempt_count'', JInt count), (''turn_id'', jopt turn_id)]"

definition set_attempt :: "cb_state \<Rightarrow> string \<Rightarrow> json \<Rightarrow> (exn, cb_state) res" where
  "set_attempt st sid attempt =
     (if \<not> dhas (st_bindings st) sid then Inl (KeyError sid)
      else ebind (stored_binding st sid) (\<lambda>ob. case ob of
        None \<Rightarrow> Inl (TypeError ''NoneType object has no attribute session_id'')
      | Some b \<Rightarrow> (let b' = b\<lparr>cb_last_attempt := attempt\<rparr> in
          ebind (binding_checks b') (\<lambda>_. Inr (st\<lparr>st_bindings := dset (st_bindings st) sid (JObj (binding_dict b'))\<rparr>)))))"

definition record_failed :: "model_env \<Rightarrow> store_io \<Rightarrow> store_file \<Rightarrow> string \<Rightarrow> string \<Rightarrow> string \<Rightarrow>
    store_file \<times> (exn, outbox_entry) res" where
  "record_failed env io file i error tm =
     (if error = [] then (file, Inl (ValueError ''error must be a non-empty string''))
      else if tm = [] then (file, Inl (ValueError ''attempted_at must be a non-empty string''))
      else transact env io file (\<lambda>st. deciding (stored_entry env st i) (\<lambda>e.
        if en_state e \<noteq> Pending then Answer e
        else (let e' = e\<lparr>en_attempts := en_attempts e + 1, en_last_error := Some error\<rparr> in
          deciding (entry_checks e') (\<lambda>_.
          deciding (mk_attempt i ''failed'' (Some error) tm (en_attempts e') (terminal_turn_id (en_event e'))) (\<lambda>a.
          deciding (set_attempt (st\<lparr>st_outbox := dset (st_outbox st) i (JObj (entry_dict e'))\<rparr>) (en_session_id e') a)
            (\<lambda>st'. Update st' e')))))))"

definition record_written :: "model_env \<Rightarrow> store_io \<Rightarrow> store_file \<Rightarrow> string \<Rightarrow> string \<Rightarrow>
    store_file \<times> (exn, outbox_entry) res" where
  "record_written env io file i tm =
     (if tm = [] then (file, Inl (ValueError ''attempted_at must be a non-empty string''))
      else transact env io file (\<lambda>st. deciding (stored_entry env st i) (\<lambda>e.
        if en_state e = Delivered then Answer e
        else (let e' = e\<lparr>en_event := None, en_state := Delivered, en_attempts := en_attempts e + 1,
                         en_last_error := None\<rparr> in
          deciding (entry_checks e') (\<lambda>_.
          deciding (mk_attempt i ''written'' None tm (en_attempts e') (terminal_turn_id (en_event e))) (\<lambda>a.
          deciding (set_attempt (st\<lparr>st_outbox := dset (st_outbox st) i (JObj (entry_dict e'))\<rparr>) (en_session_id e') a)
            (\<lambda>st'. Update st' e')))))))"

definition previous_attempts :: "binding \<Rightarrow> string \<Rightarrow> int" where
  "previous_attempts b i = (case as_obj (cb_last_attempt b) of
     None \<Rightarrow> 0
   | Some d \<Rightarrow> if jget d ''event_id'' = JStr i
       then (case as_int (jget d ''attempt_count'') of None \<Rightarrow> 0 | Some n \<Rightarrow> n) else 0)"

definition record_terminal_fault :: "model_env \<Rightarrow> store_io \<Rightarrow> store_file \<Rightarrow> string \<Rightarrow> string \<Rightarrow> string \<Rightarrow> string \<Rightarrow>
    string option \<Rightarrow> store_file \<times> (exn, json) res" where
  "record_terminal_fault env io file sid i error tm turn_id =
     (case checks [check (sid \<noteq> []) ''session_id must be a non-empty string'',
          check (i \<noteq> []) ''event_id must be a non-empty string'',
          check (error \<noteq> []) ''error must be a non-empty string'',
          check (tm \<noteq> []) ''attempted_at must be a non-empty string''] of
        Inl e \<Rightarrow> (file, Inl e)
      | Inr _ \<Rightarrow> transact env io file (\<lambda>st. deciding (stored_binding st sid) (\<lambda>ob. case ob of
          None \<Rightarrow> Refuse (ValueError ''callback binding not found'')
        | Some b \<Rightarrow> deciding (mk_attempt i ''failed'' (Some error) tm (previous_attempts b i + 1) turn_id) (\<lambda>a.
            deciding (set_attempt st sid a) (\<lambda>st'. Update st' a)))))"

definition status_view :: "model_env \<Rightarrow> store_io \<Rightarrow> store_file \<Rightarrow> string \<Rightarrow> store_file \<times> (exn, json) res" where
  "status_view env io file sid = transact env io file (\<lambda>st. deciding (stored_binding st sid) (\<lambda>ob. case ob of
     None \<Rightarrow> Refuse (ValueError ''callback binding not found'')
   | Some b \<Rightarrow> deciding (all_entries env st) (\<lambda>es.
       deciding (build CallbackStatusView
         [(''state'', JStr (callback_state_value (cb_state b))),
          (''pending_terminal_count'', JInt (int (length (filter (\<lambda>e. en_session_id e = sid \<and> en_state e = Pending) es)))),
          (''last_terminal_attempt'', cb_last_attempt b)]) Answer)))"

section \<open>Snapshots\<close>

record store_snapshot =
  sn_bindings :: "binding list"
  sn_outbox :: "outbox_entry list"

definition mk_snapshot :: "binding list \<Rightarrow> outbox_entry list \<Rightarrow> (exn, store_snapshot) res" where
  "mk_snapshot bs es =
     (if distinct (map cb_session_id bs) \<and> distinct (map en_event_id es)
      then Inr \<lparr>sn_bindings = bs, sn_outbox = es\<rparr>
      else Inl (ValueError ''duplicate callback snapshot key''))"

definition binding_some :: "(exn, binding option) res \<Rightarrow> (exn, binding) res" where
  "binding_some r = ebind r (\<lambda>ob. case ob of
     None \<Rightarrow> Inl (ValueError ''invalid callback store snapshot'') | Some b \<Rightarrow> Inr b)"

definition snapshot_from_state :: "model_env \<Rightarrow> cb_state \<Rightarrow> (exn, store_snapshot) res" where
  "snapshot_from_state env st =
     ebind (emap (\<lambda>kv. binding_some (binding_from_dict (snd kv))) (sort_key fst (st_bindings st))) (\<lambda>bs.
     ebind (emap (\<lambda>kv. entry_from_dict env (snd kv)) (sort_key fst (st_outbox st))) (\<lambda>es. mk_snapshot bs es))"

definition snapshot :: "model_env \<Rightarrow> store_io \<Rightarrow> store_file \<Rightarrow> store_file \<times> (exn, store_snapshot) res" where
  "snapshot env io file = transact env io file (\<lambda>st. deciding (snapshot_from_state env st) Answer)"

definition read_existing_store :: "model_env \<Rightarrow> exn option \<Rightarrow> store_file \<Rightarrow> (exn, store_snapshot) res" where
  "read_existing_store env unsafe file = (case unsafe of
     Some e \<Rightarrow> Inl e
   | None \<Rightarrow> (case file of
       EmptyFile \<Rightarrow> Inl (ValueError ''existing callback state must not be empty'')
     | Garbage \<Rightarrow> Inl (ValueError ''malformed callback state'')
     | Content v \<Rightarrow> ebind (decode_state env v) (snapshot_from_state env)))"

fun place_entries :: "cb_state \<Rightarrow> outbox_entry list \<Rightarrow> (exn, cb_state) res" where
  "place_entries st [] = Inr st"
| "place_entries st (e # es) =
     (if \<not> dhas (st_bindings st) (en_session_id e)
      then Inl (ValueError ''callback outbox session has no binding'')
      else place_entries (put_entry st e) es)"

definition replace_snapshot :: "store_file \<Rightarrow> store_snapshot \<Rightarrow> write_outcome \<Rightarrow> store_file \<times> (exn, unit) res" where
  "replace_snapshot file sn w =
     (case place_entries (fold (\<lambda>b st. put_binding st b) (sort_key cb_session_id (sn_bindings sn)) empty_state)
        (sort_key en_event_id (sn_outbox sn)) of
        Inl e \<Rightarrow> (file, Inl e)
      | Inr st \<Rightarrow> write_state file st w)"

section \<open>Artifacts\<close>

definition artifact_char :: "char \<Rightarrow> bool" where
  "artifact_char c \<longleftrightarrow> is_alnum c \<or> c \<in> set ''._-''"

definition safe_artifact_id :: "string \<Rightarrow> (exn, unit) res" where
  "safe_artifact_id i = checks [check (i \<noteq> []) ''event_id must be a non-empty string'',
     check (list_all artifact_char i) ''event_id is unsafe for an artifact path'']"

record artifact =
  af_event_id :: string
  af_sha256 :: string
  af_size :: int

text \<open>
  The artifact directory maps a name to the bytes of its file. \<open>appeared\<close> is the file another
  process puts there between the existence check and the link, which never replaces a file.
\<close>

type_synonym artifact_dir = "(string, string) dict"

definition verify_artifact :: "(string \<Rightarrow> string) \<Rightarrow> string \<Rightarrow> string \<Rightarrow> (exn, unit) res" where
  "verify_artifact sha256 bytes payload =
     check (length bytes = length payload \<and> sha256 bytes = sha256 payload)
       ''callback artifact collision or tampering''"

definition publish_artifact :: "(json \<Rightarrow> string) \<Rightarrow> (string \<Rightarrow> string) \<Rightarrow> artifact_dir \<Rightarrow> string \<Rightarrow> json \<Rightarrow>
    string option \<Rightarrow> write_outcome \<Rightarrow> artifact_dir \<times> (exn, artifact) res" where
  "publish_artifact render sha256 dir i completion appeared w =
     (case safe_artifact_id i of
        Inl e \<Rightarrow> (dir, Inl e)
      | Inr _ \<Rightarrow>
        if \<not> json_finite completion
        then (dir, Inl (ValueError ''Out of range float values are not JSON compliant''))
        else (let payload = render completion @ ''\<newline>'';
                  target = i @ ''.json'';
                  done = \<lparr>af_event_id = i, af_sha256 = sha256 payload, af_size = int (length payload)\<rparr>
              in case w of
                   FailsBefore e \<Rightarrow> (dir, Inl e)
                 | _ \<Rightarrow> (case dget dir target of
                     Some bytes \<Rightarrow> (dir, ebind (verify_artifact sha256 bytes payload) (\<lambda>_. Inr done))
                   | None \<Rightarrow> (case appeared of
                       Some bytes \<Rightarrow> (dset dir target bytes, ebind (verify_artifact sha256 bytes payload) (\<lambda>_. Inr done))
                     | None \<Rightarrow> (dset dir target payload,
                         case w of FailsAfter e \<Rightarrow> Inl e | _ \<Rightarrow> Inr done)))))"

section \<open>What a file means\<close>

definition valid_state :: "model_env \<Rightarrow> cb_state \<Rightarrow> bool" where
  "valid_state env st \<longleftrightarrow> distinct (dkeys (st_bindings st)) \<and> distinct (dkeys (st_outbox st))
     \<and> eq_int (st_version st) 1 \<and> (\<forall>kv \<in> set (st_bindings st). check_binding_item kv = Inr ())
     \<and> (\<forall>kv \<in> set (st_outbox st). check_entry_item env kv = Inr ())"

definition file_state :: "model_env \<Rightarrow> store_file \<Rightarrow> cb_state option" where
  "file_state env file = (case file of EmptyFile \<Rightarrow> Some empty_state | Garbage \<Rightarrow> None
     | Content v \<Rightarrow> (case decode_state env v of Inl _ \<Rightarrow> None | Inr st \<Rightarrow> Some st))"

definition file_ok :: "model_env \<Rightarrow> store_file \<Rightarrow> bool" where
  "file_ok env file \<longleftrightarrow> (case file_state env file of None \<Rightarrow> False | Some st \<Rightarrow> valid_state env st)"

text \<open>The bindings and the outbox of a state as finite maps of typed records.\<close>

definition bindings_of :: "cb_state \<Rightarrow> string \<Rightarrow> binding option" where
  "bindings_of st i = (case dget (st_bindings st) i of None \<Rightarrow> None
     | Some v \<Rightarrow> (case binding_from_dict v of Inl _ \<Rightarrow> None | Inr ob \<Rightarrow> ob))"

definition outbox_of :: "model_env \<Rightarrow> cb_state \<Rightarrow> string \<Rightarrow> outbox_entry option" where
  "outbox_of env st i = (case dget (st_outbox st) i of None \<Rightarrow> None
     | Some v \<Rightarrow> (case entry_from_dict env v of Inl _ \<Rightarrow> None | Inr e \<Rightarrow> Some e))"

type_synonym store_view = "(string \<Rightarrow> binding option) \<times> (string \<Rightarrow> outbox_entry option)"

definition state_view :: "model_env \<Rightarrow> cb_state \<Rightarrow> store_view" where
  "state_view env st = (bindings_of st, outbox_of env st)"

definition view_of :: "model_env \<Rightarrow> store_file \<Rightarrow> store_view" where
  "view_of env file = (case file_state env file of None \<Rightarrow> (\<lambda>_. None, \<lambda>_. None) | Some st \<Rightarrow> state_view env st)"

lemma distinct_sort_keys: "distinct (dkeys d) \<Longrightarrow> distinct (dkeys (sort_key fst d))"
  by (simp add: dkeys_def distinct_map)

lemma map_of_sort_key: "distinct (dkeys d) \<Longrightarrow> map_of (sort_key fst d) = map_of d"
  using distinct_sort_keys [of d] by (subst map_of_inject_set) (simp_all add: dkeys_def)

definition sorted_state :: "cb_state \<Rightarrow> cb_state" where
  "sorted_state st = \<lparr>st_version = st_version st, st_bindings = sort_key fst (st_bindings st),
     st_outbox = sort_key fst (st_outbox st)\<rparr>"

lemma decode_state_json:
  assumes "valid_state env st"
  shows "decode_state env (state_json st) = Inr (sorted_state st)" "valid_state env (sorted_state st)"
    "state_view env (sorted_state st) = state_view env st"
proof -
  have a: "checks (map check_binding_item (sort_key fst (st_bindings st))) = Inr ()"
    "checks (map (check_entry_item env) (sort_key fst (st_outbox st))) = Inr ()"
    using assms by (auto simp: checks_Inr valid_state_def)
  have h: "has_fields [(''bindings'', b), (''outbox'', e), (''version'', v)] [''version'', ''bindings'', ''outbox'']"
    for b e v :: json
    by (auto simp: has_fields_def dkeys_def)
  show "decode_state env (state_json st) = Inr (sorted_state st)"
    using assms a h by (simp add: decode_state_def state_json_def sorted_state_def valid_state_def)
  show "valid_state env (sorted_state st)"
    using assms distinct_sort_keys by (auto simp: valid_state_def sorted_state_def)
  show "state_view env (sorted_state st) = state_view env st"
    using assms by (auto simp: state_view_def bindings_of_def [abs_def] outbox_of_def [abs_def] sorted_state_def
        map_of_sort_key valid_state_def)
qed

lemma valid_empty: "valid_state env empty_state"
  by (simp add: valid_state_def empty_state_def)

lemma sorted_empty: "sorted_state empty_state = empty_state"
  by (simp add: sorted_state_def empty_state_def)

lemma file_ok_content: "valid_state env st \<Longrightarrow> file_ok env (Content (state_json st))
    \<and> view_of env (Content (state_json st)) = state_view env st"
  using decode_state_json [of env st] by (simp add: file_ok_def file_state_def view_of_def)

lemma write_cases:
  assumes "write_state file st w = (file', r)"
  obtains "file' = file" "\<exists>e. r = Inl e" | "file' = Content (state_json st)"
  using assms by (cases w) (auto simp: write_state_def split: if_splits)

text \<open>The file after an operation shows the state it loaded or the one the operation decided on.\<close>

lemma transact_view:
  assumes "file_ok env file" "transact env io file f = (file', r)"
    "\<And>st st' x. file_state env file = Some st \<Longrightarrow> valid_state env st \<Longrightarrow> f st = Update st' x \<Longrightarrow> valid_state env st'"
  obtains (same) "file_ok env file'" "view_of env file' = view_of env file"
  | (new) st st' x where "file_state env file = Some st" "valid_state env st" "f st = Update st' x"
      "file_ok env file'" "view_of env file' = state_view env st'"
proof -
  obtain st where st: "file_state env file = Some st" "valid_state env st"
    using assms(1) by (auto simp: file_ok_def split: option.splits)
  then have v: "view_of env file = state_view env st" by (simp add: view_of_def)
  obtain file1 r1 where l: "load_state env io file = (file1, r1)" by fastforce
  have l1: "file_ok env file1 \<and> view_of env file1 = view_of env file \<and> (\<forall>st1. r1 = Inr st1 \<longrightarrow> st1 = st)"
  proof (cases "file")
    case EmptyFile
    then have "st = empty_state" using st by (simp add: file_state_def)
    moreover obtain f2 r2 where w: "write_state file empty_state (io_first io) = (f2, r2)" by fastforce
    ultimately show ?thesis
      using l assms(1) EmptyFile valid_empty [of env] v file_ok_content [OF valid_empty]
      by (cases rule: write_cases [OF w]; cases "io_layout io"; cases r2) (auto simp: load_state_def)
  next
    case Garbage
    then show ?thesis using st by (simp add: file_state_def)
  next
    case (Content x)
    then show ?thesis using l st assms(1)
      by (cases "io_layout io") (auto simp: load_state_def file_state_def split: sum.splits)
  qed
  show thesis
  proof (cases r1)
    case (Inl e)
    then have "file' = file1" using assms(2) l by (simp add: transact_def)
    then show thesis using l1 by (intro same) simp_all
  next
    case (Inr st1)
    then have r1: "r1 = Inr st" using l1 by simp
    show thesis
    proof (cases "f st")
      case (Update st' x)
      have ok: "valid_state env st'" using assms(3) st Update by blast
      obtain f3 r3 where w: "write_state file1 st' (io_write io) = (f3, r3)" by fastforce
      then have "file' = f3" using assms(2) l r1 Update by (auto simp: transact_def split: sum.splits)
      with w show thesis
        using new [OF st Update] same l1 file_ok_content [OF ok] by (cases rule: write_cases [OF w]) auto
    next
      case (Refuse e)
      then have "file' = file1" using assms(2) l r1 by (simp add: transact_def)
      then show thesis using l1 by (intro same) simp_all
    next
      case (Answer x)
      then have "file' = file1" using assms(2) l r1 by (simp add: transact_def)
      then show thesis using l1 by (intro same) simp_all
    qed
  qed
qed

section \<open>Operations as moves of the abstract store\<close>

datatype store_op =
    OpBind binding
  | OpEnqueue string callback_event
  | OpFailed string string string
  | OpWritten string string
  | OpFault string string string string "string option"

definition store_exec :: "model_env \<Rightarrow> store_op \<times> store_io \<Rightarrow> store_file \<Rightarrow> store_file" where
  "store_exec env oi file = (case oi of
     (OpBind b, io) \<Rightarrow> fst (bind env io file b)
   | (OpEnqueue sid ev, io) \<Rightarrow> fst (enqueue_terminal env io file sid ev)
   | (OpFailed i error tm, io) \<Rightarrow> fst (record_failed env io file i error tm)
   | (OpWritten i tm, io) \<Rightarrow> fst (record_written env io file i tm)
   | (OpFault sid i error tm turn, io) \<Rightarrow> fst (record_terminal_fault env io file sid i error tm turn))"

text \<open>The arguments were built by the constructors of their classes.\<close>

definition op_ok :: "model_env \<Rightarrow> store_op \<Rightarrow> bool" where
  "op_ok env a = (case a of OpBind b \<Rightarrow> binding_ok b | OpEnqueue _ ev \<Rightarrow> event_ok env ev | _ \<Rightarrow> True)"

inductive store_move :: "store_op \<Rightarrow> store_view \<Rightarrow> store_view \<Rightarrow> bool" where
  stay: "store_move a v v"
| bound: "bm (cb_session_id b) = None \<Longrightarrow> store_move (OpBind b) (bm, om) (bm(cb_session_id b \<mapsto> b), om)"
| enqueued: "bm sid \<noteq> None \<Longrightarrow> om (ce_event_id ev) = None \<Longrightarrow> event_session ev = JStr sid \<Longrightarrow>
    store_move (OpEnqueue sid ev) (bm, om) (bm, om(ce_event_id ev \<mapsto>
      \<lparr>en_event_id = ce_event_id ev, en_session_id = sid, en_event = Some ev, en_state = Pending,
       en_attempts = 0, en_last_error = None\<rparr>))"
| failed: "om i = Some e \<Longrightarrow> en_state e = Pending \<Longrightarrow> bm (en_session_id e) = Some b \<Longrightarrow>
    mk_attempt i ''failed'' (Some error) tm (en_attempts e + 1) (terminal_turn_id (en_event e)) = Inr a \<Longrightarrow>
    store_move (OpFailed i error tm) (bm, om)
      (bm(en_session_id e \<mapsto> b\<lparr>cb_last_attempt := a\<rparr>),
       om(i \<mapsto> e\<lparr>en_attempts := en_attempts e + 1, en_last_error := Some error\<rparr>))"
| delivered: "om i = Some e \<Longrightarrow> en_state e = Pending \<Longrightarrow> bm (en_session_id e) = Some b \<Longrightarrow>
    mk_attempt i ''written'' None tm (en_attempts e + 1) (terminal_turn_id (en_event e)) = Inr a \<Longrightarrow>
    store_move (OpWritten i tm) (bm, om)
      (bm(en_session_id e \<mapsto> b\<lparr>cb_last_attempt := a\<rparr>),
       om(i \<mapsto> e\<lparr>en_event := None, en_state := Delivered, en_attempts := en_attempts e + 1,
                 en_last_error := None\<rparr>))"
| faulted: "bm sid = Some b \<Longrightarrow>
    mk_attempt i ''failed'' (Some error) tm (previous_attempts b i + 1) turn = Inr a \<Longrightarrow>
    store_move (OpFault sid i error tm turn) (bm, om) (bm(sid \<mapsto> b\<lparr>cb_last_attempt := a\<rparr>), om)"

lemma stored_binding_valid:
  assumes "valid_state env st"
  shows "stored_binding st sid = Inr (bindings_of st sid)"
    "bindings_of st sid = Some b \<Longrightarrow> binding_ok b \<and> cb_session_id b = sid"
    "dhas (st_bindings st) sid \<Longrightarrow> bindings_of st sid \<noteq> None"
proof -
  have item: "\<exists>b. binding_from_dict v = Inr (Some b) \<and> cb_session_id b = sid"
    if "dget (st_bindings st) sid = Some v" for v
  proof -
    have "(sid, v) \<in> set (st_bindings st)" using that by (rule map_of_SomeD)
    then have "check_binding_item (sid, v) = Inr ()" using assms by (auto simp: valid_state_def)
    then show ?thesis by (auto simp: check_binding_item_def res_simps split: option.splits)
  qed
  show "stored_binding st sid = Inr (bindings_of st sid)"
    using item by (cases "dget (st_bindings st) sid")
      (auto simp: stored_binding_def bindings_of_def jget_def binding_from_dict_def)
  show "binding_ok b \<and> cb_session_id b = sid" if "bindings_of st sid = Some b"
    using that item binding_from_dict_ok
    by (auto simp: bindings_of_def split: option.splits sum.splits)
  show "bindings_of st sid \<noteq> None" if "dhas (st_bindings st) sid"
    using that item by (auto simp: bindings_of_def dhas_def)
qed

lemma stored_entry_valid:
  assumes "valid_state env st"
  shows "stored_entry env st i = Inr e \<Longrightarrow> outbox_of env st i = Some e \<and> en_event_id e = i \<and> entry_ok env e"
    "jget (st_outbox st) i = JNull \<Longrightarrow> outbox_of env st i = None"
    "outbox_of env st i = Some e \<Longrightarrow> stored_entry env st i = Inr e"
proof -
  have item: "\<exists>e. entry_from_dict env v = Inr e \<and> en_event_id e = i"
    if "dget (st_outbox st) i = Some v" for v
  proof -
    have "(i, v) \<in> set (st_outbox st)" using that by (rule map_of_SomeD)
    then have "check_entry_item env (i, v) = Inr ()" using assms by (auto simp: valid_state_def)
    then show ?thesis by (auto simp: check_entry_item_def res_simps)
  qed
  have null: "entry_from_dict env JNull = Inl (ValueError ''malformed callback outbox entry'')"
    by (simp add: entry_from_dict_def)
  show "outbox_of env st i = Some e \<and> en_event_id e = i \<and> entry_ok env e" if "stored_entry env st i = Inr e"
    using that item entry_from_dict_ok null
    by (cases "dget (st_outbox st) i") (auto simp: stored_entry_def outbox_of_def jget_def)
  show "outbox_of env st i = None" if "jget (st_outbox st) i = JNull"
    using that item null by (cases "dget (st_outbox st) i") (auto simp: outbox_of_def jget_def)
  show "stored_entry env st i = Inr e" if "outbox_of env st i = Some e"
    using that by (cases "dget (st_outbox st) i")
      (auto simp: stored_entry_def outbox_of_def jget_def split: sum.splits)
qed

lemma put_binding_valid:
  assumes "valid_state env st" "binding_ok b"
  shows "valid_state env (put_binding st b)"
    "state_view env (put_binding st b) = ((bindings_of st)(cb_session_id b \<mapsto> b), outbox_of env st)"
proof -
  have c: "check_binding_item (cb_session_id b, JObj (binding_dict b)) = Inr ()"
    using binding_roundtrip [OF assms(2)] by (simp add: check_binding_item_def)
  show "valid_state env (put_binding st b)"
    using assms(1) c by (auto simp: valid_state_def put_binding_def dest!: subsetD [OF set_dset_subset])
  show "state_view env (put_binding st b) = ((bindings_of st)(cb_session_id b \<mapsto> b), outbox_of env st)"
    using binding_roundtrip [OF assms(2)]
    by (auto simp: state_view_def put_binding_def bindings_of_def [abs_def] outbox_of_def [abs_def])
qed

lemma put_entry_valid:
  assumes "valid_state env st" "entry_ok env e"
  shows "valid_state env (put_entry st e)"
    "state_view env (put_entry st e) = (bindings_of st, (outbox_of env st)(en_event_id e \<mapsto> e))"
proof -
  have c: "check_entry_item env (en_event_id e, JObj (entry_dict e)) = Inr ()"
    using entry_roundtrip [OF assms(2)] by (simp add: check_entry_item_def)
  show "valid_state env (put_entry st e)"
    using assms(1) c by (auto simp: valid_state_def put_entry_def dest!: subsetD [OF set_dset_subset])
  show "state_view env (put_entry st e) = (bindings_of st, (outbox_of env st)(en_event_id e \<mapsto> e))"
    using entry_roundtrip [OF assms(2)]
    by (auto simp: state_view_def put_entry_def bindings_of_def [abs_def] outbox_of_def [abs_def])
qed

lemma mk_attempt_loaded: "mk_attempt i s r tm n t = Inr a \<Longrightarrow> attempt_from_json a = Inr a"
proof -
  assume "mk_attempt i s r tm n t = Inr a"
  then obtain d where d: "load CallbackAttemptView (JObj d) [] = Inr a" by (auto simp: mk_attempt_def build_def)
  then have "load CallbackAttemptView a [] = Inr a" using load_idem(1) attempt_ok by blast
  moreover have "load CallbackAttemptView (JObj d) [] \<noteq> Inr JNull"
    by (simp add: CallbackAttemptView_def Let_def ebind_eq_Inr del: checks.simps)
  ultimately show ?thesis using d by (auto simp: attempt_from_json_def from_dict_def)
qed

lemma set_attempt_put:
  assumes "valid_state env st" "set_attempt st sid a = Inr st'" "attempt_from_json a = Inr a"
  obtains b where "bindings_of st sid = Some b" "binding_ok (b\<lparr>cb_last_attempt := a\<rparr>)"
    "cb_session_id b = sid" "st' = put_binding st (b\<lparr>cb_last_attempt := a\<rparr>)"
proof -
  obtain b where b: "bindings_of st sid = Some b" "binding_checks (b\<lparr>cb_last_attempt := a\<rparr>) = Inr ()"
    "st' = st\<lparr>st_bindings := dset (st_bindings st) sid (JObj (binding_dict (b\<lparr>cb_last_attempt := a\<rparr>)))\<rparr>"
    using assms(2) stored_binding_valid(1) [OF assms(1)]
    by (auto simp: set_attempt_def res_simps Let_def split: if_splits option.splits)
  then have "cb_session_id b = sid" using stored_binding_valid(2) [OF assms(1)] by blast
  with b assms(3) show thesis by (intro that [of b]) (simp_all add: binding_ok_def put_binding_def)
qed

lemma transact_move:
  assumes "file_ok env file"
    "\<And>st st' x. valid_state env st \<Longrightarrow> f st = Update st' x \<Longrightarrow>
       valid_state env st' \<and> store_move a (state_view env st) (state_view env st')"
  shows "file_ok env (fst (transact env io file f))
    \<and> store_move a (view_of env file) (view_of env (fst (transact env io file f)))"
proof -
  obtain file' r where t: "transact env io file f = (file', r)" by fastforce
  show ?thesis
  proof (rule transact_view [OF assms(1) t])
    show "valid_state env st'" if "file_state env file = Some st" "valid_state env st" "f st = Update st' x" for st st' x
      using assms(2) [OF that(2,3)] by simp
  next
    assume "file_ok env file'" "view_of env file' = view_of env file"
    then show ?thesis using t by (simp add: store_move.stay)
  next
    fix st st' x
    assume n: "file_state env file = Some st" "valid_state env st" "f st = Update st' x" "file_ok env file'"
      "view_of env file' = state_view env st'"
    then show ?thesis using t assms(2) [OF n(2,3)] by (simp add: view_of_def)
  qed
qed

lemma deciding_Update: "deciding r f = Update st x \<longleftrightarrow> (\<exists>y. r = Inr y \<and> f y = Update st x)"
  by (cases r) (simp_all add: deciding_def)

lemma bind_move:
  assumes "file_ok env file" "binding_ok b"
  shows "file_ok env (fst (bind env io file b))
    \<and> store_move (OpBind b) (view_of env file) (view_of env (fst (bind env io file b)))"
  unfolding bind_def
proof (rule transact_move [OF assms(1)])
  fix st st' x
  assume v: "valid_state env st" and u: "deciding (stored_binding st (cb_session_id b)) (\<lambda>existing. case existing of
       None \<Rightarrow> Update (put_binding st b) b
     | Some x \<Rightarrow> if binding_eq x b then Answer b else Refuse (ValueError ''callback binding is immutable'')) = Update st' x"
  have n: "bindings_of st (cb_session_id b) = None" "st' = put_binding st b"
    using u stored_binding_valid(1) [OF v] by (auto simp: deciding_Update split: option.splits if_splits)
  show "valid_state env st' \<and> store_move (OpBind b) (state_view env st) (state_view env st')"
    using put_binding_valid [OF v assms(2)] store_move.bound [of "bindings_of st" b "outbox_of env st", OF n(1)] n(2) by (simp add: state_view_def)
qed

lemma enqueue_move:
  assumes "file_ok env file" "event_ok env ev"
  shows "file_ok env (fst (enqueue_terminal env io file sid ev))
    \<and> store_move (OpEnqueue sid ev) (view_of env file) (view_of env (fst (enqueue_terminal env io file sid ev)))"
  unfolding enqueue_terminal_def
proof (rule transact_move [OF assms(1)])
  let ?e = "\<lparr>en_event_id = ce_event_id ev, en_session_id = sid, en_event = Some ev,
     en_state = Pending, en_attempts = 0, en_last_error = None\<rparr>"
  fix st st' x
  assume v: "valid_state env st" and u: "(if \<not> dhas (st_bindings st) sid then Refuse (ValueError ''callback binding not found'')
     else if jget (st_outbox st) (ce_event_id ev) \<noteq> JNull
     then deciding (stored_entry env st (ce_event_id ev)) (\<lambda>e.
       if en_session_id e \<noteq> sid then Refuse (ValueError ''callback event id belongs to another session'')
       else Answer (if en_state e = Pending then Some e else None))
     else (let e = ?e in deciding (entry_checks e) (\<lambda>_. Update (put_entry st e) (Some e)))) = Update st' x"
  have u': "dhas (st_bindings st) sid" "jget (st_outbox st) (ce_event_id ev) = JNull"
    "entry_checks ?e = Inr ()" "st' = put_entry st ?e"
    using u by (auto simp: deciding_Update Let_def split: if_splits)
  have ok: "entry_ok env ?e" using u'(3) assms(2) by (simp add: entry_ok_def)
  have "event_session ev = JStr sid" using u'(3) unfolding entry_checks_def checks_Inr by simp
  then have "store_move (OpEnqueue sid ev) (bindings_of st, outbox_of env st)
      (bindings_of st, (outbox_of env st)(ce_event_id ev \<mapsto> ?e))"
    using stored_binding_valid(3) [OF v u'(1)] stored_entry_valid(2) [OF v u'(2)] by (intro store_move.enqueued)
  then show "valid_state env st' \<and> store_move (OpEnqueue sid ev) (state_view env st) (state_view env st')"
    using put_entry_valid [OF v ok] u'(4) by (simp add: state_view_def)
qed

text \<open>The common end of \<open>record_failed\<close> and \<open>record_written\<close>: store the entry, then the attempt.\<close>

lemma settle_state:
  assumes v: "valid_state env st" and e: "entry_ok env e'" "en_event_id e' = i"
    and s: "set_attempt (st\<lparr>st_outbox := dset (st_outbox st) i (JObj (entry_dict e'))\<rparr>) (en_session_id e') a = Inr st'"
    and a: "attempt_from_json a = Inr a"
  obtains b where "bindings_of st (en_session_id e') = Some b" "valid_state env st'"
    "state_view env st' = ((bindings_of st)(en_session_id e' \<mapsto> b\<lparr>cb_last_attempt := a\<rparr>),
       (outbox_of env st)(i \<mapsto> e'))"
proof -
  have p: "st\<lparr>st_outbox := dset (st_outbox st) i (JObj (entry_dict e'))\<rparr> = put_entry st e'"
    using e(2) by (simp add: put_entry_def)
  note pe = put_entry_valid [OF v e(1)]
  have bs: "bindings_of (put_entry st e') = bindings_of st" using pe(2) by (simp add: state_view_def)
  obtain b where b: "bindings_of (put_entry st e') (en_session_id e') = Some b"
    "binding_ok (b\<lparr>cb_last_attempt := a\<rparr>)" "cb_session_id b = en_session_id e'"
    "st' = put_binding (put_entry st e') (b\<lparr>cb_last_attempt := a\<rparr>)"
    using set_attempt_put [OF pe(1) s [unfolded p] a] by blast
  note pb = put_binding_valid [OF pe(1) b(2)]
  show thesis
    using b pb pe(2) e(2) bs by (intro that [of b]) (simp_all add: state_view_def)
qed

lemma failed_move:
  assumes "file_ok env file"
  shows "file_ok env (fst (record_failed env io file i error tm))
    \<and> store_move (OpFailed i error tm) (view_of env file) (view_of env (fst (record_failed env io file i error tm)))"
proof (cases "error = [] \<or> tm = []")
  case True
  then show ?thesis using assms by (auto simp: record_failed_def intro: store_move.stay)
next
  case False
  let ?f = "\<lambda>st. deciding (stored_entry env st i) (\<lambda>e.
        if en_state e \<noteq> Pending then Answer e
        else (let e' = e\<lparr>en_attempts := en_attempts e + 1, en_last_error := Some error\<rparr> in
          deciding (entry_checks e') (\<lambda>_.
          deciding (mk_attempt i ''failed'' (Some error) tm (en_attempts e') (terminal_turn_id (en_event e'))) (\<lambda>a.
          deciding (set_attempt (st\<lparr>st_outbox := dset (st_outbox st) i (JObj (entry_dict e'))\<rparr>) (en_session_id e') a)
            (\<lambda>st'. Update st' e')))))"
  have "file_ok env (fst (transact env io file ?f))
    \<and> store_move (OpFailed i error tm) (view_of env file) (view_of env (fst (transact env io file ?f)))"
  proof (rule transact_move [OF assms])
    fix st st' x assume v: "valid_state env st" and u: "?f st = Update st' x"
    obtain e where e: "stored_entry env st i = Inr e" "en_state e = Pending"
      using u by (auto simp: deciding_Update Let_def split: if_splits)
    let ?e = "e\<lparr>en_attempts := en_attempts e + 1, en_last_error := Some error\<rparr>"
    obtain a where d: "entry_checks ?e = Inr ()"
      "mk_attempt i ''failed'' (Some error) tm (en_attempts e + 1) (terminal_turn_id (en_event e)) = Inr a"
      "set_attempt (st\<lparr>st_outbox := dset (st_outbox st) i (JObj (entry_dict ?e))\<rparr>) (en_session_id ?e) a = Inr st'"
      using u e by (auto simp: deciding_Update Let_def)
    note s = stored_entry_valid(1) [OF v e(1)]
    then have "entry_ok env ?e" "en_event_id ?e = i" using d(1) by (simp_all add: entry_ok_def)
    then obtain b where b: "bindings_of st (en_session_id ?e) = Some b" "valid_state env st'"
      "state_view env st' = ((bindings_of st)(en_session_id ?e \<mapsto> b\<lparr>cb_last_attempt := a\<rparr>), (outbox_of env st)(i \<mapsto> ?e))"
      using settle_state [OF v _ _ d(3) mk_attempt_loaded [OF d(2)]] by blast
    have "store_move (OpFailed i error tm) (bindings_of st, outbox_of env st)
        ((bindings_of st)(en_session_id e \<mapsto> b\<lparr>cb_last_attempt := a\<rparr>), (outbox_of env st)(i \<mapsto> ?e))"
      using s e(2) b(1) d(2) by (intro store_move.failed) simp_all
    then show "valid_state env st' \<and> store_move (OpFailed i error tm) (state_view env st) (state_view env st')"
      using b by (simp add: state_view_def)
  qed
  then show ?thesis using False by (simp add: record_failed_def)
qed

lemma written_move:
  assumes "file_ok env file"
  shows "file_ok env (fst (record_written env io file i tm))
    \<and> store_move (OpWritten i tm) (view_of env file) (view_of env (fst (record_written env io file i tm)))"
proof (cases "tm = []")
  case True
  then show ?thesis using assms by (auto simp: record_written_def intro: store_move.stay)
next
  case False
  let ?f = "\<lambda>st. deciding (stored_entry env st i) (\<lambda>e.
        if en_state e = Delivered then Answer e
        else (let e' = e\<lparr>en_event := None, en_state := Delivered, en_attempts := en_attempts e + 1,
                         en_last_error := None\<rparr> in
          deciding (entry_checks e') (\<lambda>_.
          deciding (mk_attempt i ''written'' None tm (en_attempts e') (terminal_turn_id (en_event e))) (\<lambda>a.
          deciding (set_attempt (st\<lparr>st_outbox := dset (st_outbox st) i (JObj (entry_dict e'))\<rparr>) (en_session_id e') a)
            (\<lambda>st'. Update st' e')))))"
  have "file_ok env (fst (transact env io file ?f))
    \<and> store_move (OpWritten i tm) (view_of env file) (view_of env (fst (transact env io file ?f)))"
  proof (rule transact_move [OF assms])
    fix st st' x assume v: "valid_state env st" and u: "?f st = Update st' x"
    obtain e where e: "stored_entry env st i = Inr e" "en_state e \<noteq> Delivered"
      using u by (auto simp: deciding_Update Let_def split: if_splits)
    let ?e = "e\<lparr>en_event := None, en_state := Delivered, en_attempts := en_attempts e + 1, en_last_error := None\<rparr>"
    obtain a where d: "entry_checks ?e = Inr ()"
      "mk_attempt i ''written'' None tm (en_attempts e + 1) (terminal_turn_id (en_event e)) = Inr a"
      "set_attempt (st\<lparr>st_outbox := dset (st_outbox st) i (JObj (entry_dict ?e))\<rparr>) (en_session_id ?e) a = Inr st'"
      using u e by (auto simp: deciding_Update Let_def)
    note s = stored_entry_valid(1) [OF v e(1)]
    then have "entry_ok env ?e" "en_event_id ?e = i" using d(1) by (simp_all add: entry_ok_def)
    then obtain b where b: "bindings_of st (en_session_id ?e) = Some b" "valid_state env st'"
      "state_view env st' = ((bindings_of st)(en_session_id ?e \<mapsto> b\<lparr>cb_last_attempt := a\<rparr>), (outbox_of env st)(i \<mapsto> ?e))"
      using settle_state [OF v _ _ d(3) mk_attempt_loaded [OF d(2)]] by blast
    have "en_state e = Pending" using e(2) by (cases "en_state e") simp_all
    then have "store_move (OpWritten i tm) (bindings_of st, outbox_of env st)
        ((bindings_of st)(en_session_id e \<mapsto> b\<lparr>cb_last_attempt := a\<rparr>), (outbox_of env st)(i \<mapsto> ?e))"
      using s b(1) d(2) by (intro store_move.delivered) simp_all
    then show "valid_state env st' \<and> store_move (OpWritten i tm) (state_view env st) (state_view env st')"
      using b by (simp add: state_view_def)
  qed
  then show ?thesis using False by (simp add: record_written_def)
qed

lemma fault_move:
  assumes "file_ok env file"
  shows "file_ok env (fst (record_terminal_fault env io file sid i error tm turn))
    \<and> store_move (OpFault sid i error tm turn) (view_of env file)
        (view_of env (fst (record_terminal_fault env io file sid i error tm turn)))"
proof -
  let ?f = "\<lambda>st. deciding (stored_binding st sid) (\<lambda>ob. case ob of
          None \<Rightarrow> Refuse (ValueError ''callback binding not found'')
        | Some b \<Rightarrow> deciding (mk_attempt i ''failed'' (Some error) tm (previous_attempts b i + 1) turn) (\<lambda>a.
            deciding (set_attempt st sid a) (\<lambda>st'. Update st' a)))"
  have "file_ok env (fst (transact env io file ?f))
    \<and> store_move (OpFault sid i error tm turn) (view_of env file) (view_of env (fst (transact env io file ?f)))"
  proof (rule transact_move [OF assms])
    fix st st' x assume v: "valid_state env st" and u: "?f st = Update st' x"
    obtain b a where b: "bindings_of st sid = Some b"
      and a: "mk_attempt i ''failed'' (Some error) tm (previous_attempts b i + 1) turn = Inr a"
      and s: "set_attempt st sid a = Inr st'"
      using u stored_binding_valid(1) [OF v] by (auto simp: deciding_Update split: option.splits)
    obtain b' where b': "bindings_of st sid = Some b'" "binding_ok (b'\<lparr>cb_last_attempt := a\<rparr>)"
      "cb_session_id b' = sid" "st' = put_binding st (b'\<lparr>cb_last_attempt := a\<rparr>)"
      using set_attempt_put [OF v s mk_attempt_loaded [OF a]] by blast
    show "valid_state env st' \<and> store_move (OpFault sid i error tm turn) (state_view env st) (state_view env st')"
      using put_binding_valid [OF v b'(2)] b b' store_move.faulted [of "bindings_of st" sid b i error tm turn a "outbox_of env st"] a
      by (simp add: state_view_def)
  qed
  moreover have "record_terminal_fault env io file sid i error tm turn = transact env io file ?f
      \<or> fst (record_terminal_fault env io file sid i error tm turn) = file"
    unfolding record_terminal_fault_def
    by (cases "checks [check (sid \<noteq> []) ''session_id must be a non-empty string'',
          check (i \<noteq> []) ''event_id must be a non-empty string'',
          check (error \<noteq> []) ''error must be a non-empty string'',
          check (tm \<noteq> []) ''attempted_at must be a non-empty string'']") (simp_all del: checks.simps)
  ultimately show ?thesis using assms by (auto intro: store_move.stay)
qed

lemma exec_refines:
  assumes "file_ok env file" "op_ok env a"
  shows "file_ok env (store_exec env (a, io) file)
    \<and> store_move a (view_of env file) (view_of env (store_exec env (a, io) file))"
  using assms bind_move enqueue_move failed_move written_move fault_move
  by (cases a) (simp_all add: store_exec_def op_ok_def)
end
