(* ===== verification/CallbackProps.thy ===== *)
theory CallbackProps
  imports CallbackStore
begin

text \<open>
  What the callback store promises over any sequence of operations, proved on the abstract
  store (\<open>store_move\<close>) and carried to the code's operations by \<open>exec_refines\<close>. The
  interface \<open>durable_outbox\<close> states the part the dispatcher relies on.
\<close>

section \<open>Paths\<close>

inductive op_path :: "('op \<Rightarrow> 's \<Rightarrow> 's \<Rightarrow> bool) \<Rightarrow> 'op list \<Rightarrow> 's \<Rightarrow> 's \<Rightarrow> bool" for R where
  finished: "op_path R [] s s"
| more: "R a s s' \<Longrightarrow> op_path R as s' s'' \<Longrightarrow> op_path R (a # as) s s''"

inductive_cases op_path_NilE: "op_path R [] s t"
inductive_cases op_path_ConsE: "op_path R (a # as) s t"

locale durable_outbox =
  fixes step :: "'op \<Rightarrow> 's \<Rightarrow> 's \<Rightarrow> bool"
    and waiting :: "'s \<Rightarrow> 'i \<Rightarrow> 'v option"
    and settled :: "'s \<Rightarrow> 'i \<Rightarrow> bool"
    and acks :: "'op \<Rightarrow> 'i \<Rightarrow> bool"
  assumes waiting_kept: "step a s s' \<Longrightarrow> waiting s i = Some v \<Longrightarrow> \<not> acks a i \<Longrightarrow> waiting s' i = Some v"
    and waiting_next: "step a s s' \<Longrightarrow> waiting s i = Some v \<Longrightarrow> waiting s' i = Some v \<or> settled s' i"
    and settled_kept: "step a s s' \<Longrightarrow> settled s i \<Longrightarrow> settled s' i"
    and settled_idle: "settled s i \<Longrightarrow> waiting s i = None"
begin

lemma waits_until_ack:
  "op_path step as s s' \<Longrightarrow> waiting s i = Some v \<Longrightarrow> \<forall>a \<in> set as. \<not> acks a i \<Longrightarrow> waiting s' i = Some v"
  by (induction rule: op_path.induct) (auto dest: waiting_kept)

lemma stays_settled: "op_path step as s s' \<Longrightarrow> settled s i \<Longrightarrow> settled s' i"
  by (induction rule: op_path.induct) (auto dest: settled_kept)

lemma waits_or_settles:
  "op_path step as s s' \<Longrightarrow> waiting s i = Some v \<Longrightarrow> waiting s' i = Some v \<or> settled s' i"
  by (induction rule: op_path.induct) (auto dest: waiting_next stays_settled)

lemma never_waits_again: "op_path step as s s' \<Longrightarrow> settled s i \<Longrightarrow> waiting s' i = None"
  by (rule settled_idle, rule stays_settled)

end

definition waiting_event :: "store_view \<Rightarrow> string \<Rightarrow> callback_event option" where
  "waiting_event v i = (case snd v i of Some e \<Rightarrow> if en_state e = Pending then en_event e else None | None \<Rightarrow> None)"

definition settled_entry :: "store_view \<Rightarrow> string \<Rightarrow> bool" where
  "settled_entry v i \<longleftrightarrow> (case snd v i of Some e \<Rightarrow> en_state e = Delivered | None \<Rightarrow> False)"

definition acknowledges :: "store_op \<Rightarrow> string \<Rightarrow> bool" where
  "acknowledges a i \<longleftrightarrow> (case a of OpWritten j _ \<Rightarrow> i = j | _ \<Rightarrow> False)"

interpretation outbox: durable_outbox store_move waiting_event settled_entry acknowledges
proof
  show "waiting_event s' i = Some v" if "store_move a s s'" "waiting_event s i = Some v" "\<not> acknowledges a i"
    for a s s' i v
    using that by (cases rule: store_move.cases)
      (auto simp: waiting_event_def acknowledges_def split: option.splits if_splits)
  show "waiting_event s' i = Some v \<or> settled_entry s' i"
    if "store_move a s s'" "waiting_event s i = Some v" for a s s' i v
    using that by (cases rule: store_move.cases)
      (auto simp: waiting_event_def settled_entry_def split: option.splits if_splits)
  show "settled_entry s' i" if "store_move a s s'" "settled_entry s i" for a s s' i
    using that by (cases rule: store_move.cases) (auto simp: settled_entry_def split: option.splits)
  show "waiting_event s i = None" if "settled_entry s i" for s i
    using that by (auto simp: waiting_event_def settled_entry_def split: option.splits)
qed

section \<open>Runs of the store\<close>

definition store_run :: "model_env \<Rightarrow> (store_op \<times> store_io) list \<Rightarrow> store_file \<Rightarrow> store_file" where
  "store_run env as file = fold (store_exec env) as file"

lemma run_path:
  assumes "file_ok env file" "\<forall>(a, io) \<in> set as. op_ok env a"
  shows "file_ok env (store_run env as file)
    \<and> op_path store_move (map fst as) (view_of env file) (view_of env (store_run env as file))"
  using assms
proof (induction as arbitrary: "file")
  case Nil
  then show ?case by (simp add: store_run_def op_path.finished)
next
  case (Cons x as)
  obtain a io where x: "x = (a, io)" by fastforce
  with Cons.prems have r: "file_ok env (store_exec env x file)"
    "store_move a (view_of env file) (view_of env (store_exec env x file))"
    using exec_refines by auto
  with Cons show ?case by (auto simp: store_run_def x intro: op_path.more)
qed

lemma outbox_of_Some:
  "outbox_of env st i = Some e \<longleftrightarrow> (\<exists>v. dget (st_outbox st) i = Some v \<and> entry_from_dict env v = Inr e)"
proof (cases "dget (st_outbox st) i")
  case (Some v)
  then show ?thesis by (cases "entry_from_dict env v") (simp_all add: outbox_of_def)
qed (simp add: outbox_of_def)

lemma loaded_state:
  assumes "load_state env io file = (file', Inr st1)" "file_state env file = Some st"
  shows "st1 = st"
  using assms by (cases "file"; cases "io_layout io")
    (auto simp: load_state_def file_state_def split: prod.splits sum.splits)

lemma pending_lists:
  assumes "file_ok env file" "pending env io file None = (file', Inr es)"
  shows "e \<in> set es \<longleftrightarrow> (\<exists>i. snd (view_of env file) i = Some e) \<and> en_state e = Pending"
proof -
  obtain st where st: "file_state env file = Some st" "valid_state env st"
    using assms(1) by (auto simp: file_ok_def split: option.splits)
  obtain st1 es1 where l: "load_state env io file = (file', Inr st1)" "all_entries env st1 = Inr es1"
    and es: "es = filter (\<lambda>e. en_state e = Pending) es1"
    using assms(2) by (auto simp: pending_def transact_def deciding_def split: prod.splits sum.splits)
  have m: "map (\<lambda>kv. entry_from_dict env (snd kv)) (st_outbox st) = map Inr es1"
    using l(2) loaded_state [OF l(1) st(1)] by (simp add: all_entries_def emap_Inr_iff)
  have "e \<in> set es1 \<longleftrightarrow> (\<exists>i. outbox_of env st i = Some e)"
  proof
    assume "e \<in> set es1"
    then have "Inr e \<in> set (map (\<lambda>kv. entry_from_dict env (snd kv)) (st_outbox st))" unfolding m by simp
    then obtain i v where "(i, v) \<in> set (st_outbox st)" "entry_from_dict env v = Inr e" by auto
    then show "\<exists>i. outbox_of env st i = Some e"
      using st(2) by (auto simp: outbox_of_Some valid_state_def dkeys_def)
  next
    assume "\<exists>i. outbox_of env st i = Some e"
    then obtain i v where "dget (st_outbox st) i = Some v" "entry_from_dict env v = Inr e"
      by (auto simp: outbox_of_Some)
    then have "Inr e \<in> set (map (\<lambda>kv. entry_from_dict env (snd kv)) (st_outbox st))"
      by (force dest: map_of_SomeD)
    then show "e \<in> set es1" unfolding m by auto
  qed
  then show ?thesis using es st by (simp add: view_of_def state_view_def)
qed

lemma transact_result:
  assumes "file_ok env file" "transact env io file f = (file', Inr x)"
  obtains (answered) st where "file_state env file = Some st" "valid_state env st" "f st = Answer x"
      "view_of env file' = state_view env st"
  | (updated) st st' where "file_state env file = Some st" "valid_state env st" "f st = Update st' x"
      "file' = Content (state_json st')"
proof -
  obtain st where st: "file_state env file = Some st" "valid_state env st"
    using assms(1) by (auto simp: file_ok_def split: option.splits)
  obtain file1 st1 where l: "load_state env io file = (file1, Inr st1)"
    and f: "f st1 = Answer x \<and> file' = file1 \<or>
      (\<exists>st'. f st1 = Update st' x \<and> write_state file1 st' (io_write io) = (file', Inr ()))"
    using assms(2) unfolding transact_def by (auto split: prod.splits sum.splits decision.splits)
  have s1: "st1 = st" by (rule loaded_state [OF l st(1)])
  from f show thesis
  proof
    assume a: "f st1 = Answer x \<and> file' = file1"
    have "view_of env file1 = state_view env st"
      using l st by (cases "file"; cases "io_layout io"; cases "io_first io")
        (auto simp: load_state_def write_state_def file_state_def view_of_def sorted_empty
          decode_state_json [OF valid_empty] split: prod.splits sum.splits if_splits)
    with a st s1 show thesis by (intro answered) simp_all
  next
    assume "\<exists>st'. f st1 = Update st' x \<and> write_state file1 st' (io_write io) = (file', Inr ())"
    then obtain st' where u: "f st1 = Update st' x" "write_state file1 st' (io_write io) = (file', Inr ())"
      by blast
    then have "file' = Content (state_json st')"
      by (cases "io_write io") (auto simp: write_state_def split: if_splits)
    with u(1) st s1 show thesis by (intro updated) simp_all
  qed
qed

lemma enqueue_view:
  assumes "file_ok env file" "event_ok env ev" "enqueue_terminal env io file sid ev = (file', Inr (Some e))"
  shows "snd (view_of env file') (en_event_id e) = Some e \<and> en_state e = Pending
    \<and> en_event_id e = ce_event_id ev \<and> en_event e \<noteq> None"
  using assms(1) assms(3) [unfolded enqueue_terminal_def]
proof (cases rule: transact_result)
  case (answered st)
  then have e: "stored_entry env st (ce_event_id ev) = Inr e" "en_state e = Pending"
    by (auto simp: deciding_def Let_def split: if_splits sum.splits)
  note s = stored_entry_valid(1) [OF answered(2) e(1)]
  then have "en_event e \<noteq> None" using e(2) unfolding entry_ok_def entry_checks_def checks_Inr by simp
  then show ?thesis using s e(2) answered(4) by (simp add: state_view_def)
next
  case (updated st st')
  then have e: "e = \<lparr>en_event_id = ce_event_id ev, en_session_id = sid, en_event = Some ev, en_state = Pending,
      en_attempts = 0, en_last_error = None\<rparr>" "entry_checks e = Inr ()" "st' = put_entry st e"
    by (auto simp: deciding_Update Let_def split: if_splits)
  have ok: "entry_ok env e" using e(2) assms(2) by (simp add: e(1) entry_ok_def)
  show ?thesis
    using file_ok_content [OF put_entry_valid(1) [OF updated(2) ok]] put_entry_valid(2) [OF updated(2) ok]
      e(1,3) updated(4) by simp
qed

lemma written_view:
  assumes "file_ok env file" "record_written env io file i tm = (file', Inr e)"
  shows "settled_entry (view_of env file') i"
proof -
  have "tm \<noteq> []" using assms(2) by (auto simp: record_written_def)
  then have "transact env io file (\<lambda>st. deciding (stored_entry env st i) (\<lambda>e.
        if en_state e = Delivered then Answer e
        else (let e' = e\<lparr>en_event := None, en_state := Delivered, en_attempts := en_attempts e + 1,
                         en_last_error := None\<rparr> in
          deciding (entry_checks e') (\<lambda>_.
          deciding (mk_attempt i ''written'' None tm (en_attempts e') (terminal_turn_id (en_event e))) (\<lambda>a.
          deciding (set_attempt (st\<lparr>st_outbox := dset (st_outbox st) i (JObj (entry_dict e'))\<rparr>) (en_session_id e') a)
            (\<lambda>st'. Update st' e')))))) = (file', Inr e)"
    using assms(2) by (simp add: record_written_def)
  from assms(1) this show ?thesis
  proof (cases rule: transact_result)
    case (answered st)
    then have "stored_entry env st i = Inr e" "en_state e = Delivered"
      by (auto simp: deciding_def Let_def split: if_splits sum.splits)
    then show ?thesis
      using stored_entry_valid(1) [OF answered(2)] answered(4) by (simp add: settled_entry_def state_view_def)
  next
    case (updated st st')
    obtain e0 where e0: "stored_entry env st i = Inr e0" "en_state e0 \<noteq> Delivered"
      "e = e0\<lparr>en_event := None, en_state := Delivered, en_attempts := en_attempts e0 + 1, en_last_error := None\<rparr>"
      using updated(3) by (auto simp: deciding_Update Let_def split: if_splits)
    obtain a where d: "entry_checks e = Inr ()"
      "mk_attempt i ''written'' None tm (en_attempts e) (terminal_turn_id (en_event e0)) = Inr a"
      "set_attempt (st\<lparr>st_outbox := dset (st_outbox st) i (JObj (entry_dict e))\<rparr>) (en_session_id e) a = Inr st'"
      using updated(3) e0 by (auto simp: deciding_Update Let_def)
    have "entry_ok env e" "en_event_id e = i"
      using stored_entry_valid(1) [OF updated(2) e0(1)] d(1) e0(3) by (simp_all add: entry_ok_def)
    then obtain b where "valid_state env st'" "state_view env st' =
        ((bindings_of st)(en_session_id e \<mapsto> b\<lparr>cb_last_attempt := a\<rparr>), (outbox_of env st)(i \<mapsto> e))"
      using settle_state [OF updated(2) _ _ d(3) mk_attempt_loaded [OF d(2)]] by blast
    then show ?thesis using file_ok_content [of env st'] updated(4) e0(3) by (simp add: settled_entry_def)
  qed
qed

lemma view_event_id:
  assumes "file_ok env file" "snd (view_of env file) i = Some e"
  shows "en_event_id e = i"
proof -
  obtain st where st: "file_state env file = Some st" "valid_state env st"
    using assms(1) by (auto simp: file_ok_def split: option.splits)
  then have "stored_entry env st i = Inr e"
    using assms(2) stored_entry_valid(3) [OF st(2)] by (simp add: view_of_def state_view_def)
  then show ?thesis using stored_entry_valid(1) [OF st(2)] by blast
qed


text \<open>
  Once \<open>enqueue_terminal\<close> has returned an entry, every later
  listing of the pending entries has an entry with the same event, after any sequence of
  operations with any write failures in which no delivery of that event is recorded.
\<close>

text \<open>
  C20. Once enqueue_terminal has returned an entry, every later listing of the pending entries has the same event until its delivery is recorded.
\<close>

theorem callback_kept_until_written:
  assumes "file_ok env file" "event_ok env ev" "enqueue_terminal env io file sid ev = (file1, Inr (Some e))"
    and "\<forall>(a, io) \<in> set as. op_ok env a \<and> \<not> acknowledges a (en_event_id e)"
    and "pending env io' (store_run env as file1) None = (file2, Inr es)"
  shows "\<exists>e' \<in> set es. en_event_id e' = en_event_id e \<and> en_event e' = en_event e"
proof -
  have ok1: "file_ok env file1"
    using enqueue_move [OF assms(1,2), of io sid] assms(3) by simp
  note v = enqueue_view [OF assms(1-3)]
  have ops: "\<forall>(a, io) \<in> set as. op_ok env a" using assms(4) by auto
  note r = run_path [OF ok1 ops]
  have "en_event e \<noteq> None" using v by simp
  then obtain ev' where ev': "en_event e = Some ev'" by blast
  then have w: "waiting_event (view_of env file1) (en_event_id e) = Some ev'"
    unfolding waiting_event_def conjunct1 [OF v] using v by simp
  have "\<forall>a \<in> set (map fst as). \<not> acknowledges a (en_event_id e)" using assms(4) by auto
  then have "waiting_event (view_of env (store_run env as file1)) (en_event_id e) = Some ev'"
    using outbox.waits_until_ack [OF conjunct2 [OF r] w] by blast
  then obtain e' where e': "snd (view_of env (store_run env as file1)) (en_event_id e) = Some e'"
    "en_state e' = Pending" "en_event e' = Some ev'"
    by (auto simp: waiting_event_def split: option.splits if_splits)
  have "en_event_id e' = en_event_id e" using view_event_id [OF conjunct1 [OF r] e'(1)] .
  moreover have "e' \<in> set es"
    using pending_lists [OF conjunct1 [OF r] assms(5)] e' by blast
  ultimately show ?thesis using e'(3) ev' by auto
qed

text \<open>
  Once a delivery is recorded, no sequence of operations
  with any write failures makes the event pending again.
\<close>

theorem delivered_callback_never_resent:
  assumes "file_ok env file" "record_written env io file i tm = (file1, Inr e)"
    and "\<forall>(a, io) \<in> set as. op_ok env a"
    and "pending env io' (store_run env as file1) None = (file2, Inr es)"
  shows "\<forall>e' \<in> set es. en_event_id e' \<noteq> i"
proof -
  have ok1: "file_ok env file1" using written_move [OF assms(1), of io i tm] assms(2) by simp
  note r = run_path [OF ok1 assms(3)]
  have s: "settled_entry (view_of env (store_run env as file1)) i"
    using outbox.stays_settled [OF conjunct2 [OF r] written_view [OF assms(1,2)]] .
  show ?thesis
  proof (rule ballI, rule notI)
    fix e' assume "e' \<in> set es" "en_event_id e' = i"
    then obtain j where j: "snd (view_of env (store_run env as file1)) j = Some e'" "en_state e' = Pending"
      using pending_lists [OF conjunct1 [OF r] assms(4)] by blast
    then have "j = i" using view_event_id [OF conjunct1 [OF r]] \<open>en_event_id e' = i\<close> by blast
    with j s show False by (simp add: settled_entry_def)
  qed
qed


definition same_route :: "binding \<Rightarrow> binding \<Rightarrow> bool" where
  "same_route a b \<longleftrightarrow> b = a\<lparr>cb_last_attempt := cb_last_attempt b\<rparr>"

lemma same_route_trans: "same_route a b \<Longrightarrow> same_route b c \<Longrightarrow> same_route a c"
  unfolding same_route_def by (metis binding.surjective binding.update_convs(10) binding.select_convs(10))

lemma move_route:
  assumes "store_move a v v'" "fst v sid = Some b"
  shows "\<exists>b'. fst v' sid = Some b' \<and> same_route b b'"
  using assms by (cases rule: store_move.cases) (auto simp: same_route_def)

lemma path_route:
  assumes "op_path store_move as v v'" "fst v sid = Some b"
  shows "\<exists>b'. fst v' sid = Some b' \<and> same_route b b'"
  using assms
proof (induction arbitrary: b rule: op_path.induct)
  case (finished s)
  then show ?case by (auto simp: same_route_def)
next
  case (more a s s' as s'')
  then obtain b1 where "fst s' sid = Some b1" "same_route b b1" using move_route by blast
  with more.IH [of b1] show ?case using same_route_trans by blast
qed

text \<open>
  The capture bound to a session never changes: after any
  sequence of operations the session's binding has the same route, state, resolver root and
  capture time, and differs at most in its last terminal attempt.
\<close>

theorem callback_route_immutable:
  assumes "file_ok env file" "binding_of env io file sid = (file1, Inr (Some b))"
    and "\<forall>(a, io) \<in> set as. op_ok env a"
    and "binding_of env io' (store_run env as file1) sid = (file2, Inr ob)"
  shows "\<exists>b'. ob = Some b' \<and> b' = b\<lparr>cb_last_attempt := cb_last_attempt b'\<rparr>"
proof -
  have look: "fst (view_of env f) sid = y" "fst (view_of env f') sid = y" "file_ok env f'"
    if "file_ok env f" "binding_of env i f sid = (f', Inr y)" for f f' i y
  proof -
    have ff: "fst (view_of env f) sid = y \<and> fst (view_of env f') sid = y"
      using that(1) that(2) [unfolded binding_of_def]
    proof (cases rule: transact_result)
      case (answered st)
      then show ?thesis
        using stored_binding_valid(1) [OF answered(2)] by (simp add: deciding_def view_of_def state_view_def)
    next
      case (updated st st')
      then show ?thesis by (auto simp: deciding_Update)
    qed
    then show "fst (view_of env f) sid = y" "fst (view_of env f') sid = y" by simp_all
    show "file_ok env f'"
      by (rule transact_view [OF that(1) that(2) [unfolded binding_of_def]]) (auto simp: deciding_Update)
  qed
  note l1 = look [OF assms(1,2)]
  note r = run_path [OF l1(3) assms(3)]
  obtain b' where b': "fst (view_of env (store_run env as file1)) sid = Some b'" "same_route b b'"
    using path_route [OF conjunct2 [OF r] l1(2)] by blast
  have "ob = Some b'" using look(1) [OF conjunct1 [OF r] assms(4)] b'(1) by simp
  with b'(2) show ?thesis by (auto simp: same_route_def)
qed

text \<open>
  A pending event holds its worker, whose directory is
  checked every time the store is read: when one pending worker's directory no longer exists,
  every operation of the store on every session raises and changes nothing.
\<close>

theorem missing_directory_blocks_callbacks:
  assumes "(i, JObj d) \<in> set outbox" "jget d ''event'' = JObj e" "jget e ''worker'' = JObj w"
    and "jget w ''cwd'' = JStr cwd" "resolve_path env cwd = None"
    and "io_layout io = None"
  shows "\<exists>x. transact env io (Content (JObj [(''bindings'', JObj bs), (''outbox'', JObj outbox), (''version'', JInt 1)])) f
    = (Content (JObj [(''bindings'', JObj bs), (''outbox'', JObj outbox), (''version'', JInt 1)]), Inl x)"
proof -
  let ?v = "JObj [(''bindings'', JObj bs), (''outbox'', JObj outbox), (''version'', JInt 1)]"
  have w: "from_dict (WorkerView env) (JObj w) \<noteq> Inr m" for m
  proof
    assume l: "from_dict (WorkerView env) (JObj w) = Inr m"
    then obtain x where x: "load_fields worker_view_fields (worker_view_prep w) = Inr x" "worker_view_checks env x = Inr ()"
      by (auto simp: from_dict_def WorkerView_def Let_def res_simps split: if_splits)
    have "load AStr (jget (worker_view_prep w) ''cwd'') ''cwd'' = Inr (jget x ''cwd'')"
      by (rule load_fields_get [OF x(1)]) (simp_all add: worker_view_fields_def)
    moreover have "jget (worker_view_prep w) ''cwd'' = JStr cwd"
    proof -
      have "dget (filter (\<lambda>kv. fst kv \<noteq> ''instance'') w) ''cwd'' = dget w ''cwd''"
        by (induction w) auto
      then have "jget (filter (\<lambda>kv. fst kv \<noteq> ''instance'') w) ''cwd'' = JStr cwd"
        using assms(4) by (simp add: jget_def)
      then show ?thesis by (simp add: worker_view_prep_def Let_def)
    qed
    ultimately have "jget x ''cwd'' = JStr cwd" by simp
    moreover have "validate_canonical_cwd env (jget x ''cwd'') = Inr ()"
      using x(2) unfolding worker_view_checks_def checks_Inr by simp
    ultimately show False
      using assms(5) by (auto simp: validate_canonical_cwd_def split: option.splits if_splits)
  qed
  have "check_entry_item env (i, JObj d) \<noteq> Inr ()"
    using w assms(2,3)
    by (auto simp: check_entry_item_def entry_from_dict_def event_from_json_def event_from_dict_def res_simps
        split: if_splits)
  then have "checks (map (check_entry_item env) outbox) \<noteq> Inr ()"
    using assms(1) by (auto simp: checks_Inr)
  then have "decode_state env ?v \<noteq> Inr st" for st
    by (auto simp: decode_state_def res_simps)
  then obtain x where "decode_state env ?v = Inl x" by (cases "decode_state env ?v") auto
  then show ?thesis using assms(6) by (simp add: transact_def load_state_def)
qed

text \<open>
  When \<open>publish_artifact\<close> returns, the file at the artifact's
  name has the size and the digest the descriptor states, also when another process created it
  meanwhile; and publishing never changes the contents of a file that exists.
\<close>

text \<open>
  When publish_artifact returns, the file has the size and digest its descriptor states; publishing never changes a file that exists.
\<close>

theorem artifact_matches_digest:
  assumes "publish_artifact render sha256 dir i completion appeared w = (dir', r)"
  shows "(\<forall>af. r = Inr af \<longrightarrow> (\<exists>bytes. dget dir' (i @ ''.json'') = Some bytes \<and> sha256 bytes = af_sha256 af
      \<and> int (length bytes) = af_size af \<and> af_event_id af = i))
    \<and> (\<forall>name bytes. dget dir name = Some bytes \<longrightarrow> dget dir' name = Some bytes)"
  using assms
  by (auto simp: publish_artifact_def Let_def verify_artifact_def res_simps
      split: sum.splits if_splits option.splits write_outcome.splits)

section \<open>Copying a store\<close>

lemma fold_put_bindings:
  assumes "valid_state env st" "\<forall>b \<in> set bs. binding_ok b" "distinct (map cb_session_id bs)"
  shows "valid_state env (fold (\<lambda>b st. put_binding st b) bs st)
    \<and> outbox_of env (fold (\<lambda>b st. put_binding st b) bs st) = outbox_of env st
    \<and> (\<forall>i. bindings_of (fold (\<lambda>b st. put_binding st b) bs st) i =
        (case find (\<lambda>b. cb_session_id b = i) bs of Some b \<Rightarrow> Some b | None \<Rightarrow> bindings_of st i))"
  using assms
proof (induction bs arbitrary: st)
  case (Cons b bs)
  have ok: "binding_ok b" using Cons.prems(2) by simp
  note p = put_binding_valid [OF Cons.prems(1) ok]
  have "find (\<lambda>x. cb_session_id x = cb_session_id b) bs = None"
    using Cons.prems(3) by (auto simp: find_None_iff image_iff)
  with Cons.IH [OF p(1)] Cons.prems p(2) show ?case by (auto simp: state_view_def split: option.splits)
qed simp

lemma place_entries_view:
  assumes "valid_state env st" "\<forall>e \<in> set es. entry_ok env e" "distinct (map en_event_id es)"
    and "place_entries st es = Inr st'"
  shows "valid_state env st' \<and> bindings_of st' = bindings_of st
    \<and> (\<forall>i. outbox_of env st' i = (case find (\<lambda>e. en_event_id e = i) es of Some e \<Rightarrow> Some e | None \<Rightarrow> outbox_of env st i))"
  using assms
proof (induction es arbitrary: st)
  case (Cons e es)
  have ok: "entry_ok env e" using Cons.prems(2) by simp
  note p = put_entry_valid [OF Cons.prems(1) ok]
  have "find (\<lambda>x. en_event_id x = en_event_id e) es = None"
    using Cons.prems(3) by (auto simp: find_None_iff image_iff)
  with Cons.IH [OF p(1)] Cons.prems p(2) show ?case
    by (auto simp: state_view_def split: option.splits if_splits)
qed simp

lemma find_unique:
  assumes "distinct (map f xs)" "x \<in> set xs"
  shows "find (\<lambda>y. f y = f x) xs = Some x"
  using assms by (induction xs) (auto simp: image_iff)

lemma binding_some_Inr: "Inr x = binding_some r \<longleftrightarrow> r = Inr (Some x)"
  by (cases r) (auto simp: binding_some_def split: option.splits)

lemma snapshot_contents:
  assumes "valid_state env st" "snapshot_from_state env st = Inr sn"
  shows "\<And>b. b \<in> set (sn_bindings sn) \<longleftrightarrow> bindings_of st (cb_session_id b) = Some b"
    "\<And>e. e \<in> set (sn_outbox sn) \<longleftrightarrow> outbox_of env st (en_event_id e) = Some e"
    "distinct (map cb_session_id (sn_bindings sn))" "distinct (map en_event_id (sn_outbox sn))"
proof -
  have b: "map (\<lambda>kv. binding_some (binding_from_dict (snd kv))) (sort_key fst (st_bindings st)) = map Inr (sn_bindings sn)"
    and e: "map (\<lambda>kv. entry_from_dict env (snd kv)) (sort_key fst (st_outbox st)) = map Inr (sn_outbox sn)"
    and d: "distinct (map cb_session_id (sn_bindings sn))" "distinct (map en_event_id (sn_outbox sn))"
    using assms(2) by (auto simp: snapshot_from_state_def res_simps emap_Inr_iff mk_snapshot_def split: if_splits)
  show "distinct (map cb_session_id (sn_bindings sn))" "distinct (map en_event_id (sn_outbox sn))" by fact+
  have lookup: "dget (st_bindings st) k = Some v \<longleftrightarrow> (k, v) \<in> set (st_bindings st)"
    "dget (st_outbox st) k = Some v \<longleftrightarrow> (k, v) \<in> set (st_outbox st)" for k v
    using assms(1) by (simp_all add: valid_state_def dkeys_def)
  show "x \<in> set (sn_bindings sn) \<longleftrightarrow> bindings_of st (cb_session_id x) = Some x" for x
  proof -
    have "x \<in> set (sn_bindings sn) \<longleftrightarrow> Inr x \<in> set (map Inr (sn_bindings sn) :: (exn, binding) res list)" by auto
    also have "\<dots> \<longleftrightarrow> (\<exists>k v. (k, v) \<in> set (st_bindings st) \<and> binding_from_dict v = Inr (Some x))"
      unfolding b [symmetric]
      by (force simp: binding_some_Inr image_iff)
    also have "\<dots> \<longleftrightarrow> (\<exists>v. (cb_session_id x, v) \<in> set (st_bindings st) \<and> binding_from_dict v = Inr (Some x))"
    proof
      assume "\<exists>k v. (k, v) \<in> set (st_bindings st) \<and> binding_from_dict v = Inr (Some x)"
      then obtain k v where kv: "(k, v) \<in> set (st_bindings st)" "binding_from_dict v = Inr (Some x)" by blast
      then have "bindings_of st k = Some x" by (simp add: bindings_of_def lookup(1) [THEN iffD2])
      with stored_binding_valid(2) [OF assms(1)] kv show
        "\<exists>v. (cb_session_id x, v) \<in> set (st_bindings st) \<and> binding_from_dict v = Inr (Some x)" by blast
    qed blast
    also have "\<dots> \<longleftrightarrow> bindings_of st (cb_session_id x) = Some x"
      unfolding lookup(1) [symmetric] by (auto simp: bindings_of_def split: option.splits sum.splits)
    finally show ?thesis .
  qed
  show "x \<in> set (sn_outbox sn) \<longleftrightarrow> outbox_of env st (en_event_id x) = Some x" for x
  proof -
    have "x \<in> set (sn_outbox sn) \<longleftrightarrow> Inr x \<in> set (map Inr (sn_outbox sn) :: (exn, outbox_entry) res list)" by auto
    also have "\<dots> \<longleftrightarrow> (\<exists>k v. (k, v) \<in> set (st_outbox st) \<and> entry_from_dict env v = Inr x)"
      unfolding e [symmetric] by (force simp: image_iff)
    also have "\<dots> \<longleftrightarrow> (\<exists>v. (en_event_id x, v) \<in> set (st_outbox st) \<and> entry_from_dict env v = Inr x)"
    proof
      assume "\<exists>k v. (k, v) \<in> set (st_outbox st) \<and> entry_from_dict env v = Inr x"
      then obtain k v where kv: "(k, v) \<in> set (st_outbox st)" "entry_from_dict env v = Inr x" by blast
      then have "check_entry_item env (k, v) = Inr ()" using assms(1) by (auto simp: valid_state_def)
      with kv show "\<exists>v. (en_event_id x, v) \<in> set (st_outbox st) \<and> entry_from_dict env v = Inr x"
        by (auto simp: check_entry_item_def)
    qed blast
    also have "\<dots> \<longleftrightarrow> outbox_of env st (en_event_id x) = Some x"
      unfolding lookup(2) [symmetric] by (simp add: outbox_of_Some)
    finally show ?thesis .
  qed
qed

text \<open>
  Publishing the snapshot of one store as another store gives a
  file that decodes and shows the same bindings and the same outbox.
\<close>

theorem snapshot_copies_store:
  assumes "file_ok env file" "snapshot env io file = (file1, Inr sn)"
    and "replace_snapshot other sn Written = (file2, Inr ())"
  shows "file_ok env file2 \<and> view_of env file2 = view_of env file"
  using assms(1) assms(2) [unfolded snapshot_def]
proof (cases rule: transact_result)
  case (updated st st')
  then show ?thesis by (auto simp: deciding_Update)
next
  case (answered st)
  then have sn: "snapshot_from_state env st = Inr sn" by (auto simp: deciding_def split: sum.splits)
  note c = snapshot_contents [OF answered(2) sn]
  define bs where "bs = sort_key cb_session_id (sn_bindings sn)"
  define es where "es = sort_key en_event_id (sn_outbox sn)"
  have bs: "set bs = set (sn_bindings sn)" "distinct (map cb_session_id bs)"
    using c(3) by (simp_all add: bs_def distinct_map)
  have bok: "\<forall>b \<in> set bs. binding_ok b"
  proof
    fix b assume "b \<in> set bs"
    then have "bindings_of st (cb_session_id b) = Some b" using c(1) bs(1) by blast
    then show "binding_ok b" using stored_binding_valid(2) [OF answered(2)] by blast
  qed
  have es: "set es = set (sn_outbox sn)" "distinct (map en_event_id es)"
    using c(4) by (simp_all add: es_def distinct_map)
  have eok: "\<forall>e \<in> set es. entry_ok env e"
  proof
    fix e assume "e \<in> set es"
    then have "outbox_of env st (en_event_id e) = Some e" using c(2) es(1) by blast
    then have "stored_entry env st (en_event_id e) = Inr e" by (rule stored_entry_valid(3) [OF answered(2)])
    then show "entry_ok env e" using stored_entry_valid(1) [OF answered(2)] by blast
  qed
  obtain st2 where p: "place_entries (fold (\<lambda>b st. put_binding st b) bs empty_state) es = Inr st2"
    and w: "file2 = Content (state_json st2)"
    using assms(3) by (auto simp: replace_snapshot_def bs_def es_def write_state_def split: sum.splits if_splits)
  note fb = fold_put_bindings [OF valid_empty [of env] bok bs(2)]
  note fe = place_entries_view [OF conjunct1 [OF fb] eok es(2) p]
  have "bindings_of st2 i = bindings_of st i" for i
  proof (cases "find (\<lambda>b. cb_session_id b = i) bs")
    case None
    have "bindings_of st i \<noteq> Some b" for b
    proof
      assume b: "bindings_of st i = Some b"
      then have "cb_session_id b = i" using stored_binding_valid(2) [OF answered(2)] by blast
      with b None show False using c(1) bs(1) by (auto simp: find_None_iff)
    qed
    then have "bindings_of st i = None" by (cases "bindings_of st i") auto
    moreover have "bindings_of empty_state i = None" by (simp add: bindings_of_def empty_state_def)
    ultimately show ?thesis using None fb fe by simp
  next
    case (Some b)
    then have "b \<in> set bs" "cb_session_id b = i" by (auto simp: find_Some_iff)
    then show ?thesis using Some fb fe c(1) bs(1) by auto
  qed
  moreover have "outbox_of env st2 i = outbox_of env st i" for i
  proof (cases "find (\<lambda>e. en_event_id e = i) es")
    case None
    have "outbox_of env st i \<noteq> Some e" for e
    proof
      assume e: "outbox_of env st i = Some e"
      then have "en_event_id e = i" using stored_entry_valid(1,3) [OF answered(2)] by blast
      with e None show False using c(2) es(1) by (auto simp: find_None_iff)
    qed
    then have "outbox_of env st i = None" by (cases "outbox_of env st i") auto
    moreover have "outbox_of env (fold (\<lambda>b st. put_binding st b) bs empty_state) i = None"
      using fb by (simp add: outbox_of_def empty_state_def)
    ultimately show ?thesis using None fe by simp
  next
    case (Some e)
    then have "e \<in> set es" "en_event_id e = i" by (auto simp: find_Some_iff)
    then show ?thesis using Some fe c(2) es(1) by auto
  qed
  ultimately have "state_view env st2 = state_view env st" by (auto simp: state_view_def)
  then show ?thesis
    using w file_ok_content [OF conjunct1 [OF fe]] answered(1) by (simp add: view_of_def)
qed
end
