(* ===== verification/Typing.thy ===== *)
theory Typing
  imports Commands
begin

text \<open>
  What the annotation-driven loader promises: the values it returns are exactly those that have
  the annotated shape, defined here without reference to how they were loaded.
\<close>

section \<open>Typed values\<close>

fun typed :: "ann \<Rightarrow> json \<Rightarrow> bool"
  and typed_fields :: "(string \<times> ann) list \<Rightarrow> json_object \<Rightarrow> bool" where
  "typed AStr v \<longleftrightarrow> as_str v \<noteq> None"
| "typed AInt v \<longleftrightarrow> (case v of JInt _ \<Rightarrow> True | _ \<Rightarrow> False)"
| "typed ABool v \<longleftrightarrow> (case v of JBool _ \<Rightarrow> True | _ \<Rightarrow> False)"
| "typed AFloat v \<longleftrightarrow> (case v of JFloat _ \<Rightarrow> True | _ \<Rightarrow> False)"
| "typed AAny v \<longleftrightarrow> True"
| "typed (AOpt a) v \<longleftrightarrow> v = JNull \<or> typed a v"
| "typed (AList a) v \<longleftrightarrow> (case v of JList xs \<Rightarrow> list_all (typed a) xs | _ \<Rightarrow> False)"
| "typed (ADict a) v \<longleftrightarrow> (case v of JObj d \<Rightarrow> list_all (\<lambda>kv. typed a (snd kv)) d | _ \<Rightarrow> False)"
| "typed (AEnum vs) v \<longleftrightarrow> (case v of JStr s \<Rightarrow> s \<in> set vs | _ \<Rightarrow> False)"
| "typed (AModel name prep fs contract) v \<longleftrightarrow> (case v of JObj d \<Rightarrow> typed_fields fs d \<and> contract d = Inr () | _ \<Rightarrow> False)"
| "typed_fields [] d \<longleftrightarrow> d = []"
| "typed_fields ((k, a) # fs) d \<longleftrightarrow> (case d of [] \<Rightarrow> False | (k', v) # d' \<Rightarrow> k' = k \<and> typed a v \<and> typed_fields fs d')"

lemma typed_fields_keys: "typed_fields fs d \<Longrightarrow> map fst d = map fst fs"
  by (induction fs arbitrary: d) (auto split: list.splits)

lemma emap_results: "emap f xs = Inr ys \<Longrightarrow> (\<And>x y. x \<in> set xs \<Longrightarrow> f x = Inr y \<Longrightarrow> P y) \<Longrightarrow> list_all P ys"
  by (induction xs arbitrary: ys) (fastforce simp: res_simps)+

lemma loaded_typed:
  "load a v f = Inr w \<Longrightarrow> typed a w"
  "load_fields fs d = Inr m \<Longrightarrow> typed_fields fs m"
proof (induction a v f and fs d arbitrary: w and m rule: load_load_fields.induct)
  case (6 a v f)
  then show ?case by (auto split: sum.splits if_splits)
next
  case (7 a v f)
  then obtain xs ys where v: "as_list v = Some xs" and e: "emap (\<lambda>x. load a x f) xs = Inr ys" and w: "w = JList ys"
    by (auto simp: res_simps split: option.splits)
  have "list_all (typed a) ys" by (rule emap_results [OF e]) (use 7 v in auto)
  with w show ?case by simp
next
  case (8 a v f)
  then obtain d e where v: "as_obj v = Some d"
    and e: "emap (\<lambda>kv. ebind (load a (snd kv) f) (\<lambda>w. Inr (fst kv, w))) d = Inr e" and w: "w = JObj e"
    by (auto simp: res_simps split: option.splits)
  have "list_all (\<lambda>kv. typed a (snd kv)) e" by (rule emap_results [OF e]) (use 8 v in \<open>auto simp: res_simps\<close>)
  with w show ?case by simp
next
  case (10 name prep fs contract v f)
  then show ?case by (auto simp: res_simps Let_def split: option.splits if_splits)
next
  case (12 k a fs d)
  then show ?case by (auto simp: res_simps)
qed (auto split: json.splits if_splits)

lemma emap_same: "(\<And>x. x \<in> set xs \<Longrightarrow> f x = Inr x) \<Longrightarrow> emap f xs = Inr xs"
  by (induction xs) auto

lemma typed_loads:
  "typed a w \<Longrightarrow> ann_ok a \<Longrightarrow> load a w f = Inr w"
  "typed_fields fs d \<Longrightarrow> distinct (map fst fs) \<Longrightarrow> list_all (\<lambda>kv. ann_ok (snd kv)) fs \<Longrightarrow> load_fields fs d = Inr d"
proof (induction a w and fs d arbitrary: f and rule: typed_typed_fields.induct)
  case (1 v)
  then show ?case by (cases v) simp_all
next
  case (6 a v)
  then show ?case by auto
next
  case (7 a v)
  then obtain xs where v: "v = JList xs" "list_all (typed a) xs" by (cases v) auto
  have "emap (\<lambda>x. load a x f) xs = Inr xs" by (rule emap_same) (use 7 v in \<open>auto simp: list_all_iff\<close>)
  with v show ?case by simp
next
  case (8 a v)
  then obtain d where v: "v = JObj d" "list_all (\<lambda>kv. typed a (snd kv)) d" by (cases v) auto
  have "emap (\<lambda>kv. ebind (load a (snd kv) f) (\<lambda>w. Inr (fst kv, w))) d = Inr d"
    by (rule emap_same) (use 8 v in \<open>auto simp: list_all_iff\<close>)
  with v show ?case by simp
next
  case (10 name prep fs contract v)
  then obtain d where v: "v = JObj d" "typed_fields fs d" "contract d = Inr ()" by (cases v) auto
  then have k: "map fst d = map fst fs" by (simp add: typed_fields_keys)
  then have "prep d = d" "has_fields d (map fst fs)" using 10(3) by (auto simp: has_fields_def dkeys_def)
  moreover have "load_fields fs d = Inr d" using 10 v by auto
  ultimately show ?case using v by (simp add: Let_def)
next
  case (12 k a fs d)
  then obtain v d' where d: "d = (k, v) # d'" "typed a v" "typed_fields fs d'" by (cases d) auto
  have "load_fields fs d' = Inr d'" "load a v k = Inr v" using 12 d by auto
  moreover have "load_fields fs ((k, v) # d') = load_fields fs d'" by (rule load_fields_frame) (use 12 in auto)
  ultimately show ?case using d by simp
qed (auto split: json.splits)


end
