(* ===== verification/StateWitness.thy ===== *)
theory StateWitness
  imports Registry CallbackProps Typing
begin

text \<open>
  The properties of the facade's classes, the registry and the callback store at concrete
  inputs: one directory, one worker, one binding and one terminal event.
\<close>

section \<open>Facade classes\<close>

definition demo_model_env :: model_env where
  "demo_model_env = \<lparr>resolve_path = \<lambda>p. if p = ''/w'' then Some p else None, is_directory = \<lambda>_. True,
     host_lookup = \<lambda>_ _. []\<rparr>"

lemma demo_env_fields [simp]:
  "resolve_path demo_model_env p = (if p = ''/w'' then Some p else None)" "is_directory demo_model_env p"
  by (simp_all add: demo_model_env_def)

lemma demo_canonical: "resolution_canonical demo_model_env"
  by (simp add: resolution_canonical_def is_absolute_def startswith_def)

abbreviation demo_turn :: json_object where
  "demo_turn \<equiv> [(''turn_id'', JStr ''u''), (''status'', JStr ''completed''), (''error'', JNull)]"

lemma demo_turn_loads: "from_dict TurnView (JObj demo_turn) = Inr (JObj demo_turn)"
  by code_simp



section \<open>Registry\<close>

definition demo_creation :: creation where
  "demo_creation = \<lparr>cr_thread_id = ''t'', cr_cwd = ''/w'', cr_name = Some ''n'', cr_tier = None, cr_model = None,
     cr_effort = None, cr_access = None, cr_session_id = None, cr_config = None\<rparr>"

abbreviation demo_uuid :: string where
  "demo_uuid \<equiv> ''00000000000000000000000000000001''"

definition demo_record :: session_record where
  "demo_record = \<lparr>sr_session_id = demo_uuid, sr_thread_id = ''t'', sr_cwd = ''/w'', sr_created_at = ''now'',
     sr_updated_at = ''now'', sr_name = Some ''n'', sr_model = None, sr_effort = None, sr_tier = None,
     sr_access = None, sr_config = None\<rparr>"

definition empty_registry :: registry where
  "empty_registry = \<lparr>reg_path = ''/r'', reg_records = [], reg_file = Some (encode_registry [])\<rparr>"

lemma demo_uuid_ok: "uuid_ok demo_uuid"
  by code_simp

lemma demo_name_ok: "name_ok (JStr ''n'')"
  by code_simp

lemma demo_checks: "creation_checks demo_model_env demo_creation demo_uuid = Inr (''/w'', demo_uuid)"
  using demo_uuid_ok demo_name_ok
  by (simp add: creation_checks_def demo_creation_def is_absolute_def startswith_def empty_option_def tier_ok_def
      access_ok_def validate_thread_config_def as_registry_error_def opt_obj_def one_of_or_null_def)

lemma demo_created: "create demo_model_env empty_registry demo_creation demo_uuid ''now'' Written
    = (empty_registry\<lparr>reg_records := [demo_record], reg_file := Some (encode_registry [demo_record])\<rparr>, Inr demo_record)"
  using demo_checks
  by (simp add: create_def empty_registry_def publish_def save_locked_def demo_record_def demo_creation_def Let_def)

lemma demo_load: "load_registry demo_model_env ''/r'' Absent True Written = (empty_registry, Inr ())"
  by (simp add: load_registry_def publish_def save_locked_def empty_registry_def Let_def)

lemma empty_reg_inv: "reg_inv demo_model_env empty_registry"
  by (simp add: reg_inv_def empty_registry_def identifiers_unique_def)

lemma registry_survives_restart_witness:
  "let reg = reg_run demo_model_env [(RCreate demo_creation demo_uuid ''now'', Written),
         (RAnnotate demo_uuid (Some ''m'') None ''later'', FailsBefore (OSError ''full''))] empty_registry
   in load_registry demo_model_env ''/r'' (Regular (Some (reg_file reg))) True Written = (reg, Inr ())"
  unfolding Let_def
  using registry_survives_restart [OF demo_canonical demo_load, of "[(RCreate demo_creation demo_uuid ''now'', Written),
         (RAnnotate demo_uuid (Some ''m'') None ''later'', FailsBefore (OSError ''full''))]" Written]
  by (simp add: clock_ok_def fails_after_def)

lemma failed_change_keeps_records_witness:
  "reg_records (fst (create demo_model_env empty_registry demo_creation demo_uuid ''now'' (FailsAfter (OSError ''sync'')))) = []"
proof -
  have "create demo_model_env empty_registry demo_creation demo_uuid ''now'' (FailsAfter (OSError ''sync''))
      = (empty_registry\<lparr>reg_file := Some (encode_registry [demo_record])\<rparr>, Inl (OSError ''sync''))"
    using demo_checks
    by (simp add: create_def empty_registry_def publish_def save_locked_def demo_record_def demo_creation_def Let_def
        write_error_def)
  then show ?thesis
    using failed_change_keeps_records [OF empty_reg_inv demo_canonical, of demo_creation demo_uuid "''now''"
        "FailsAfter (OSError ''sync'')"] by (simp add: empty_registry_def)
qed

lemma created_worker_resolves_witness:
  "resolve (fst (create demo_model_env empty_registry demo_creation demo_uuid ''now'' Written))
     \<lparr>sel_session_id = None, sel_thread_id = Some ''t''\<rparr> = Inr demo_record"
  using created_worker_resolves [OF demo_created] demo_created by (simp add: demo_record_def)

lemma interrupted_sync_diverges_witness:
  "decode_registry demo_model_env ''/r'' (Some (encode_registry [demo_record])) = Inr [demo_record]"
  using interrupted_sync_diverges [OF empty_reg_inv demo_canonical _ demo_created]
  by (simp add: empty_registry_def)


text \<open>A ledger with one unresolved conflict.\<close>

definition demo_digest :: string where
  "demo_digest = ''0000000000000000000000000000000000000000000000000000000000000000''"

definition demo_candidate :: json_object where
  "demo_candidate = [(''source_path'', JStr ''/p''), (''source_digest'', JStr demo_digest), (''name'', JStr ''n''),
     (''session_id'', JStr demo_uuid), (''thread_id'', JStr ''t''), (''cwd'', JStr ''/w''), (''created_at'', JStr ''a''),
     (''updated_at'', JStr ''b''), (''model'', JNull), (''effort'', JNull), (''tier'', JNull), (''access'', JNull)]"

definition demo_conflict :: json_object where
  "demo_conflict = [(''name'', JStr ''n''), (''candidates'', JList [JObj demo_candidate]),
     (''source_digests'', JList [JStr demo_digest])]"

definition demo_ledger_status :: json_object where
  "demo_ledger_status = [(''status'', JStr ''incomplete''), (''ready'', JBool False), (''imported_count'', JInt 0),
     (''deduplicated_count'', JInt 0), (''conflict_count'', JInt 1), (''sources'', JList []),
     (''conflicts'', JList [JObj demo_conflict])]"

definition demo_ledger :: json where
  "demo_ledger = JObj [(''version'', JInt 1), (''status'', JObj demo_ledger_status), (''resolutions'', JList [])]"

lemma demo_ledger_loads: "ledger_status demo_ledger = Inr demo_ledger_status"
  by code_simp

lemma conflicted_name_refused_witness:
  "resolve_name empty_registry (Ledger demo_ledger) ''n'' = Inl (LegacyNameConflict ''n'' [candidate_view demo_candidate])"
proof -
  have 1: "find (\<lambda>c. jget c ''name'' = JStr ''n'') (objects_of (jget demo_ledger_status ''conflicts'')) = Some demo_conflict"
    by code_simp
  have 2: "objects_of (jget demo_conflict ''candidates'') = [demo_candidate]" by code_simp
  show ?thesis using conflicted_name_refused [OF _ demo_ledger_loads 1, of empty_registry] 2 by simp
qed

section \<open>Callback store\<close>

definition demo_binding :: binding where
  "demo_binding = \<lparr>cb_session_id = demo_uuid, cb_state = Disabled, cb_target_socket = JNull, cb_child_token = JNull,
     cb_claude_session_id = JNull, cb_claude_pid = JNull, cb_claude_proc_start = JNull, cb_claude_config_dir = JNull,
     cb_captured_at = ''now'', cb_last_attempt = JNull\<rparr>"

definition demo_view :: json where
  "demo_view = JObj [(''name'', JStr ''n''), (''session_id'', JStr demo_uuid), (''thread_id'', JStr ''t''), (''cwd'', JStr ''/w''),
     (''tier'', JNull), (''model'', JStr ''m''), (''effort'', JStr ''e''), (''access'', JStr ''full''), (''attach'', JNull),
     (''config'', JNull)]"

definition demo_event :: callback_event where
  "demo_event = \<lparr>ce_schema = callback_schema, ce_event = ''worker_message'', ce_event_id = ''i'', ce_emitted_at = ''now'',
     ce_priority = ''next'', ce_worker = demo_view, ce_payload = []\<rparr>"

definition demo_io :: store_io where
  "demo_io = \<lparr>io_layout = None, io_first = Written, io_write = Written\<rparr>"

definition bound_file :: store_file where
  "bound_file = fst (bind demo_model_env demo_io EmptyFile demo_binding)"

definition queued_file :: store_file where
  "queued_file = fst (enqueue_terminal demo_model_env demo_io bound_file demo_uuid demo_event)"

definition demo_entry :: outbox_entry where
  "demo_entry = \<lparr>en_event_id = ''i'', en_session_id = demo_uuid, en_event = Some demo_event, en_state = Pending,
     en_attempts = 0, en_last_error = None\<rparr>"

definition written_file :: store_file where
  "written_file = fst (record_written demo_model_env demo_io queued_file ''i'' ''later'')"

lemma demo_event_ok: "event_ok demo_model_env demo_event"
  unfolding event_ok_def by code_simp

lemma demo_binding_ok: "binding_ok demo_binding"
  unfolding binding_ok_def by code_simp

lemma demo_enqueue: "enqueue_terminal demo_model_env demo_io bound_file demo_uuid demo_event = (queued_file, Inr (Some demo_entry))"
proof -
  have "snd (enqueue_terminal demo_model_env demo_io bound_file demo_uuid demo_event) = Inr (Some demo_entry)"
    by code_simp
  then show ?thesis by (simp add: queued_file_def prod_eq_iff)
qed


lemma returned: "isl (snd p) = False \<Longrightarrow> \<exists>f x. p = (f, Inr x)"
  by (cases p; cases "snd p") auto

lemma store_ok_run: "\<forall>(a, io) \<in> set as. op_ok env a \<Longrightarrow> file_ok env file \<Longrightarrow> file_ok env (store_run env as file)"
  using run_path by blast

lemma empty_ok: "file_ok demo_model_env EmptyFile"
  by (simp add: file_ok_def file_state_def valid_empty)

lemma bound_ok: "file_ok demo_model_env bound_file"
  using store_ok_run [of "[(OpBind demo_binding, demo_io)]", OF _ empty_ok] demo_binding_ok
  by (simp add: store_run_def store_exec_def bound_file_def op_ok_def)

lemma queued_ok: "file_ok demo_model_env queued_file"
  using store_ok_run [of "[(OpEnqueue demo_uuid demo_event, demo_io)]", OF _ bound_ok] demo_event_ok
  by (simp add: store_run_def store_exec_def queued_file_def op_ok_def)


abbreviation failing_ops :: "(store_op \<times> store_io) list" where
  "failing_ops \<equiv> [(OpFailed ''i'' ''peer'' ''later'', demo_io)]"

definition failed_file :: store_file where
  "failed_file = store_run demo_model_env failing_ops queued_file"

lemma listed_after_failure: "map en_event_id (projr (snd (pending demo_model_env demo_io failed_file None))) = [''i'']
    \<and> isl (snd (pending demo_model_env demo_io failed_file None)) = False"
  by code_simp

lemma callback_kept_until_written_witness:
  "\<exists>es e. snd (pending demo_model_env demo_io failed_file None) = Inr es \<and> e \<in> set es \<and> en_event e = Some demo_event"
proof -
  obtain f es where p: "pending demo_model_env demo_io failed_file None = (f, Inr es)"
    using listed_after_failure returned by blast
  then show ?thesis
    using callback_kept_until_written [OF bound_ok demo_event_ok demo_enqueue, of failing_ops demo_io f es]
    by (auto simp: op_ok_def acknowledges_def failed_file_def demo_entry_def)
qed

lemma demo_written: "isl (snd (record_written demo_model_env demo_io queued_file ''i'' ''later'')) = False"
  by code_simp

lemma nothing_pending: "snd (pending demo_model_env demo_io (store_run demo_model_env failing_ops written_file) None) = Inr []"
  by code_simp

lemma delivered_callback_never_resent_witness:
  "\<exists>es. snd (pending demo_model_env demo_io (store_run demo_model_env failing_ops written_file) None) = Inr es
     \<and> (\<forall>e \<in> set es. en_event_id e \<noteq> ''i'')"
proof -
  obtain e where e: "record_written demo_model_env demo_io queued_file ''i'' ''later'' = (written_file, Inr e)"
    using returned [OF demo_written] by (auto simp: written_file_def)
  obtain f where f: "pending demo_model_env demo_io (store_run demo_model_env failing_ops written_file) None = (f, Inr [])"
    using nothing_pending by (metis prod.collapse)
  show ?thesis
    using delivered_callback_never_resent [OF queued_ok e _ f] f by (simp add: op_ok_def)
qed

lemma demo_bindings:
  "snd (binding_of demo_model_env demo_io bound_file demo_uuid) = Inr (Some demo_binding)"
  "isl (snd (binding_of demo_model_env demo_io (store_run demo_model_env
      [(OpFault demo_uuid ''i'' ''err'' ''later'' None, demo_io)] (fst (binding_of demo_model_env demo_io bound_file demo_uuid))) demo_uuid)) = False"
  by code_simp+

lemma callback_route_immutable_witness:
  "\<exists>b. snd (binding_of demo_model_env demo_io (store_run demo_model_env
      [(OpFault demo_uuid ''i'' ''err'' ''later'' None, demo_io)] (fst (binding_of demo_model_env demo_io bound_file demo_uuid))) demo_uuid)
    = Inr (Some b) \<and> b = demo_binding\<lparr>cb_last_attempt := cb_last_attempt b\<rparr>"
proof -
  let ?f = "fst (binding_of demo_model_env demo_io bound_file demo_uuid)"
  let ?r = "store_run demo_model_env [(OpFault demo_uuid ''i'' ''err'' ''later'' None, demo_io)] ?f"
  have 1: "binding_of demo_model_env demo_io bound_file demo_uuid = (?f, Inr (Some demo_binding))"
    using demo_bindings(1) by (simp add: prod_eq_iff)
  obtain f2 ob where 2: "binding_of demo_model_env demo_io ?r demo_uuid = (f2, Inr ob)"
    using returned [OF demo_bindings(2)] by blast
  show ?thesis using callback_route_immutable [OF bound_ok 1 _ 2] 2 by (auto simp: op_ok_def)
qed

definition gone_worker :: json_object where
  "gone_worker = [(''cwd'', JStr ''/gone'')]"

definition gone_entry :: json_object where
  "gone_entry = [(''event'', JObj [(''worker'', JObj gone_worker)])]"

lemma missing_directory_blocks_callbacks_witness:
  "\<exists>x. snd (transact demo_model_env demo_io (Content (JObj [(''bindings'', JObj []), (''outbox'', JObj [(''i'', JObj gone_entry)]),
     (''version'', JInt 1)])) (\<lambda>_. Answer ())) = Inl x"
  using missing_directory_blocks_callbacks [of "''i''" gone_entry "[(''i'', JObj gone_entry)]" "[(''worker'', JObj gone_worker)]"
      gone_worker "''/gone''" demo_model_env demo_io "[]" "\<lambda>_. Answer ()"]
  by (auto simp: gone_entry_def gone_worker_def demo_io_def)

lemma artifact_matches_digest_witness:
  "\<exists>dir af. publish_artifact (\<lambda>_. ''{}'') (\<lambda>_. demo_digest) [] ''i'' (JObj []) None Written = (dir, Inr af)
     \<and> (\<exists>bytes. dget dir ''i.json'' = Some bytes \<and> int (length bytes) = af_size af)"
proof -
  have "isl (snd (publish_artifact (\<lambda>_. ''{}'') (\<lambda>_. demo_digest) [] ''i'' (JObj []) None Written)) = False"
    by code_simp
  then obtain dir af where p: "publish_artifact (\<lambda>_. ''{}'') (\<lambda>_. demo_digest) [] ''i'' (JObj []) None Written = (dir, Inr af)"
    using returned by blast
  show ?thesis using artifact_matches_digest [OF p] p by auto
qed

definition demo_snapshot :: store_snapshot where
  "demo_snapshot = \<lparr>sn_bindings = [demo_binding], sn_outbox = [demo_entry]\<rparr>"

lemma demo_snapshots:
  "snapshot demo_model_env demo_io queued_file = (queued_file, Inr demo_snapshot)"
  "isl (snd (replace_snapshot EmptyFile demo_snapshot Written)) = False"
  by code_simp+

lemma snapshot_copies_store_witness:
  "view_of demo_model_env (fst (replace_snapshot EmptyFile demo_snapshot Written)) = view_of demo_model_env queued_file"
proof -
  obtain f u where f: "replace_snapshot EmptyFile demo_snapshot Written = (f, Inr u)"
    using returned [OF demo_snapshots(2)] by blast
  then show ?thesis using snapshot_copies_store [OF queued_ok demo_snapshots(1), of EmptyFile f] by simp
qed

end
