(* ===== verification/Projection.thy ===== *)
theory Projection
  imports CallbackStore Models
begin

text \<open>
  \<open>projection.py\<close>: the pure projections from Codex items to the public result models. A view
  is the dictionary of its strict model (\<open>Commands\<close>), built with its checks. The JSON reader of
  a final message's text is the parameter \<open>loads\<close>.
\<close>

section \<open>Messages\<close>

definition agent_view :: "item_record \<Rightarrow> (exn, json) res" where
  "agent_view item =
     (case (as_str (jget (item_data item) ''text''), jget (item_data item) ''phase'') of
        (Some text, phase) \<Rightarrow>
          if phase \<in> {JNull, JStr ''commentary'', JStr ''final_answer''}
          then build AgentMessageView [(''type'', JStr ''agent_message''), (''item_id'', JStr (item_id item)),
             (''phase'', phase), (''selection'', JStr ''live''), (''text'', JStr text)]
          else Inl (ValueError ''malformed Codex agent message'')
      | (None, _) \<Rightarrow> Inl (ValueError ''malformed Codex agent message''))"

text \<open>\<open>dataclasses.replace(view, selection=...)\<close>.\<close>

definition with_selection :: "string \<Rightarrow> json \<Rightarrow> (exn, json) res" where
  "with_selection selection view = (case as_obj view of
     None \<Rightarrow> Inl (TypeError ''replace() should be called on dataclass instances'')
   | Some d \<Rightarrow> build AgentMessageView (dset d ''selection'' (JStr selection)))"

definition is_final :: "json \<Rightarrow> bool" where
  "is_final view \<longleftrightarrow> sub_obj view ''phase'' = JStr ''final_answer''"

definition select_completion_messages :: "item_record list \<Rightarrow> bool \<Rightarrow> (exn, json list) res" where
  "select_completion_messages items terminal =
     ebind (emap agent_view (filter (\<lambda>i. item_type i = ''agentMessage'') items)) (\<lambda>agents.
       if \<not> terminal then emap (with_selection ''live'') agents
       else (let finals = filter is_final agents in
         if finals \<noteq> [] then emap (with_selection ''explicit_final'') finals
         else if agents \<noteq> [] then emap (with_selection ''terminal_fallback'') [last agents]
         else Inr []))"

section \<open>Metrics\<close>

definition count_item :: "(string, int) dict \<Rightarrow> string \<Rightarrow> (string, int) dict" where
  "count_item counts t = dset counts t ((case dget counts t of None \<Rightarrow> 0 | Some n \<Rightarrow> n) + 1)"

record tally =
  ta_counts :: "(string, int) dict"
  ta_commands :: int
  ta_duration :: int
  ta_have_duration :: bool
  ta_usage :: "json_object option"

definition tally_item :: "item_record \<Rightarrow> tally \<Rightarrow> tally" where
  "tally_item item t =
     (let t1 = t\<lparr>ta_counts := count_item (ta_counts t) (item_type item)\<rparr>;
          t2 = (if item_type item = ''commandExecution''
                then (let t' = t1\<lparr>ta_commands := ta_commands t1 + 1\<rparr>
                      in case as_int (jget (item_data item) ''durationMs'') of
                           Some n \<Rightarrow> if 0 \<le> n then t'\<lparr>ta_duration := ta_duration t' + n, ta_have_duration := True\<rparr> else t'
                         | None \<Rightarrow> t')
                else t1)
      in (case (ta_usage t2, as_obj (jget (item_data item) ''tokenUsage'')) of
            (None, Some u) \<Rightarrow> t2\<lparr>ta_usage := Some u\<rparr> | _ \<Rightarrow> t2))"

definition tally_items :: "item_record list \<Rightarrow> tally" where
  "tally_items items = fold tally_item items
     \<lparr>ta_counts = [], ta_commands = 0, ta_duration = 0, ta_have_duration = False, ta_usage = None\<rparr>"

definition metric :: "json \<Rightarrow> string \<Rightarrow> string \<Rightarrow> (exn, json) res" where
  "metric value source availability = build MetricEvidence
     [(''value'', value), (''source'', JStr source), (''availability'', JStr availability)]"

definition derive_metrics :: "item_record list \<Rightarrow> json \<Rightarrow> (exn, json) res" where
  "derive_metrics items duration =
     (let t = tally_items items in
      ebind (metric duration ''codex-worker'' ''measured'') (\<lambda>wall.
      ebind (metric (JObj (map (\<lambda>kv. (fst kv, JInt (snd kv))) (ta_counts t))) ''codex-worker'' ''derived'') (\<lambda>counts.
      ebind (metric (JInt (ta_commands t)) ''codex-worker'' ''derived'') (\<lambda>commands.
      ebind (metric (if ta_have_duration t then JInt (ta_duration t) else JNull) ''codex''
         (if ta_have_duration t then ''derived'' else ''unavailable'')) (\<lambda>ms.
      ebind (metric (opt_obj (ta_usage t)) ''codex''
         (if ta_usage t = None then ''unavailable'' else ''reported'')) (\<lambda>usage.
        Inr (JObj [(''wall_duration_seconds'', wall), (''item_counts'', counts), (''command_count'', commands),
          (''command_duration_ms'', ms), (''token_usage'', usage)])))))))"

section \<open>Completions\<close>

definition incomplete :: "string \<Rightarrow> json list \<Rightarrow> string \<Rightarrow> exn" where
  "incomplete turn_id messages reason = facade_exn INCOMPLETE_COMPLETION ''Codex completion is incomplete'' False
     ''codex-worker'' (JObj [(''turn_id'', JStr turn_id), (''messages'', JList messages), (''parse_reason'', JStr reason)])
     JNull JNull"

definition structured :: "(string \<Rightarrow> json option) \<Rightarrow> turn_snapshot \<Rightarrow> json list \<Rightarrow> json option \<Rightarrow> (exn, json) res" where
  "structured loads turn messages schema = (case schema of
     None \<Rightarrow> Inr JNull
   | Some _ \<Rightarrow>
     if messages = [] then Inl (incomplete (ts_turn_id turn) messages ''no_agent_message'')
     else (case as_str (sub_obj (last messages) ''text'') of
        None \<Rightarrow> Inl (incomplete (ts_turn_id turn) messages ''invalid_json'')
      | Some text \<Rightarrow> (case loads text of
          None \<Rightarrow> Inl (incomplete (ts_turn_id turn) messages ''invalid_json'')
        | Some v \<Rightarrow> Inr v)))"

definition default_recovery :: json where
  "default_recovery = JObj [(''status'', JStr ''status''), (''messages'', JStr ''messages''),
     (''interrupt'', JStr ''interrupt''), (''raw_resume'', JNull)]"

definition project_completion :: "model_env \<Rightarrow> (string \<Rightarrow> json option) \<Rightarrow> json \<Rightarrow> turn_snapshot \<Rightarrow> json option \<Rightarrow>
    json \<Rightarrow> json option \<Rightarrow> (exn, json) res" where
  "project_completion env loads worker turn schema duration recovery =
     ebind (select_completion_messages (ts_items turn) (ts_status turn \<noteq> ''in_progress'')) (\<lambda>messages.
       if ts_status turn = ''completed'' \<and> messages = []
       then Inl (incomplete (ts_turn_id turn) messages ''no_agent_message'')
       else ebind (structured loads turn messages schema) (\<lambda>output.
         ebind (build TurnView [(''turn_id'', JStr (ts_turn_id turn)), (''status'', JStr (ts_status turn)),
             (''error'', opt_error_dict (ts_error turn))]) (\<lambda>tv.
         ebind (derive_metrics (ts_items turn) duration) (\<lambda>metrics.
           build (CompletionResponse env) [(''worker'', worker), (''turn'', tv), (''messages'', JList messages),
             (''structured_output'', output), (''metrics'', metrics),
             (''recovery'', case recovery of None \<Rightarrow> default_recovery | Some r \<Rightarrow> r)]))))"

section \<open>History\<close>

definition history_item :: "json \<Rightarrow> (exn, item_record) res" where
  "history_item v = (case as_obj v of
     None \<Rightarrow> Inl (ValueError ''malformed Codex history item'')
   | Some d \<Rightarrow> (case (as_nonempty (jget d ''id''), as_nonempty (jget d ''type'')) of
       (Some i, Some t) \<Rightarrow> Inr \<lparr>item_id = i, item_type = t,
          item_data = filter (\<lambda>kv. fst kv \<noteq> ''id'' \<and> fst kv \<noteq> ''type'') d\<rparr>
     | _ \<Rightarrow> Inl (ValueError ''malformed Codex history item'')))"

definition timestamp_ok :: "json \<Rightarrow> bool" where
  "timestamp_ok v \<longleftrightarrow> v = JNull \<or> (case as_int v of None \<Rightarrow> False | Some n \<Rightarrow> 0 \<le> n)"

definition history_statuses :: "string list" where
  "history_statuses = [''inProgress'', ''completed'', ''failed'', ''interrupted'']"

definition project_history_turn :: "json \<Rightarrow> (exn, json) res" where
  "project_history_turn v = (case as_obj v of
     None \<Rightarrow> Inl (ValueError ''malformed Codex history turn'')
   | Some turn \<Rightarrow> (case (as_str (jget turn ''id''), as_str (jget turn ''status'')) of
       (Some i, Some st) \<Rightarrow>
         if st \<notin> set history_statuses then Inl (ValueError ''malformed Codex history turn'')
         else (case (if dhas turn ''items'' then as_list (jget turn ''items'') else Some []) of
           None \<Rightarrow> Inl (ValueError ''malformed Codex history items'')
         | Some items \<Rightarrow> ebind (emap history_item items) (\<lambda>records.
             if \<not> (timestamp_ok (jget turn ''startedAt'') \<and> timestamp_ok (jget turn ''completedAt''))
             then Inl (ValueError ''malformed Codex history timestamp'')
             else if jget turn ''error'' \<noteq> JNull \<and> as_obj (jget turn ''error'') = None
             then Inl (ValueError ''malformed Codex history error'')
             else ebind (select_completion_messages records (st \<noteq> ''inProgress'')) (\<lambda>messages.
               build HistoryTurnView [(''turn_id'', JStr i),
                 (''status'', JStr (if st = ''inProgress'' then ''in_progress'' else st)),
                 (''started_at'', jget turn ''startedAt''), (''completed_at'', jget turn ''completedAt''),
                 (''messages'', JList messages), (''error'', jget turn ''error'')])))
     | _ \<Rightarrow> Inl (ValueError ''malformed Codex history turn'')))"

definition chronological_history_pages :: "'a list list \<Rightarrow> 'a list" where
  "chronological_history_pages pages = rev (concat pages)"

definition build_worker_message_event :: "json \<Rightarrow> string \<Rightarrow> string \<Rightarrow> string \<Rightarrow> string \<Rightarrow> (exn, callback_event) res" where
  "build_worker_message_event worker message priority event_id emitted_at =
     mk_callback_event (JStr callback_schema) (JStr ''worker_message'') (JStr event_id) (JStr emitted_at)
       (JStr priority) worker (JObj [(''message'', JStr message)])"

section \<open>What a completion shows\<close>

definition agent_items :: "item_record list \<Rightarrow> item_record list" where
  "agent_items items = filter (\<lambda>i. item_type i = ''agentMessage'') items"

definition final_items :: "item_record list \<Rightarrow> item_record list" where
  "final_items items = filter (\<lambda>i. jget (item_data i) ''phase'' = JStr ''final_answer'') (agent_items items)"

text \<open>The items shown and the reason they are shown, from the items alone.\<close>

definition shown_items :: "item_record list \<Rightarrow> bool \<Rightarrow> item_record list \<times> string" where
  "shown_items items terminal =
     (if \<not> terminal then (agent_items items, ''live'')
      else if final_items items \<noteq> [] then (final_items items, ''explicit_final'')
      else (if agent_items items = [] then [] else [last (agent_items items)], ''terminal_fallback''))"

definition shown_view :: "string \<Rightarrow> item_record \<Rightarrow> json" where
  "shown_view selection i = JObj [(''type'', JStr ''agent_message''), (''item_id'', JStr (item_id i)),
     (''phase'', jget (item_data i) ''phase''), (''selection'', JStr selection),
     (''text'', jget (item_data i) ''text'')]"

definition selections :: "string list" where
  "selections = [''explicit_final'', ''terminal_fallback'', ''live'']"

definition narration_ok :: "item_record \<Rightarrow> bool" where
  "narration_ok i \<longleftrightarrow> as_str (jget (item_data i) ''text'') \<noteq> None
     \<and> jget (item_data i) ''phase'' \<in> {JNull, JStr ''commentary'', JStr ''final_answer''}"

lemma build_agent_view:
  assumes "phase \<in> {JNull, JStr ''commentary'', JStr ''final_answer''}" "s \<in> set selections"
  shows "build AgentMessageView [(''type'', JStr ''agent_message''), (''item_id'', JStr i),
      (''phase'', phase), (''selection'', JStr s), (''text'', JStr t)]
    = Inr (JObj [(''type'', JStr ''agent_message''), (''item_id'', JStr i),
      (''phase'', phase), (''selection'', JStr s), (''text'', JStr t)])"
  using assms by (auto simp: build_def AgentMessageView_def plain_def has_fields_def dkeys_def CompletionSelection_def
      selections_def literal_def check_def when_present_def)

lemma agent_view_eq:
  "agent_view i = (if narration_ok i then Inr (shown_view ''live'' i) else Inl (ValueError ''malformed Codex agent message''))"
proof (cases "as_str (jget (item_data i) ''text'')")
  case None
  then show ?thesis by (simp add: agent_view_def narration_ok_def)
next
  case (Some t)
  then have "jget (item_data i) ''text'' = JStr t" by (simp add: as_str_def split: json.splits)
  with Some show ?thesis
    using build_agent_view [of "jget (item_data i) ''phase''" "''live''" "item_id i" t]
    by (simp add: agent_view_def narration_ok_def shown_view_def selections_def)
qed

lemma with_selection_view:
  assumes "narration_ok i" "s \<in> set selections"
  shows "with_selection s (shown_view ''live'' i) = Inr (shown_view s i)"
proof -
  obtain t where "jget (item_data i) ''text'' = JStr t"
    using assms(1) by (auto simp: narration_ok_def as_str_def split: json.splits)
  then show ?thesis
    using build_agent_view [of "jget (item_data i) ''phase''" s "item_id i" t] assms
    by (simp add: with_selection_def shown_view_def narration_ok_def)
qed

lemma emap_const: "(\<And>x. x \<in> set xs \<Longrightarrow> f (g x) = Inr (h x)) \<Longrightarrow> emap f (map g xs) = Inr (map h xs)"
  by (induction xs) auto

lemma emap_guard:
  "emap (\<lambda>x. if P x then Inr (g x) else Inl e) xs = (if list_all P xs then Inr (map g xs) else Inl e)"
  by (induction xs) auto

text \<open>
  While a turn runs, every agent message is shown, in
  order; once it is terminal, exactly its final answers, or, without any, its last message.
  The selection tells which of the three it was, and one malformed message refuses the lot.
\<close>

theorem completion_shows_final_answers:
  "select_completion_messages items terminal =
     (if list_all narration_ok (agent_items items)
      then Inr (map (shown_view (snd (shown_items items terminal))) (fst (shown_items items terminal)))
      else Inl (ValueError ''malformed Codex agent message''))"
proof (cases "list_all narration_ok (agent_items items)")
  case True
  let ?as = "agent_items items"
  have ok: "narration_ok i" if "i \<in> set ?as" for i using True that by (simp add: list_all_iff)
  have views: "emap agent_view ?as = Inr (map (shown_view ''live'') ?as)"
    using True by (simp add: agent_view_eq [abs_def] emap_guard)
  have fin: "filter is_final (map (shown_view ''live'') ?as) = map (shown_view ''live'') (final_items items)"
    by (simp add: filter_map comp_def is_final_def sub_obj_def shown_view_def final_items_def)
  have sel: "emap (with_selection s) (map (shown_view ''live'') xs) = Inr (map (shown_view s) xs)"
    if "s \<in> set selections" "set xs \<subseteq> set ?as" for s xs
    using that with_selection_view ok by (intro emap_const) blast
  have sub: "set (final_items items) \<subseteq> set ?as" by (auto simp: final_items_def)
  have e: "select_completion_messages items terminal = (if \<not> terminal
      then emap (with_selection ''live'') (map (shown_view ''live'') ?as)
      else if final_items items \<noteq> [] then emap (with_selection ''explicit_final'') (map (shown_view ''live'') (final_items items))
      else if ?as \<noteq> [] then emap (with_selection ''terminal_fallback'') (map (shown_view ''live'') [last ?as])
      else Inr [])"
    unfolding select_completion_messages_def agent_items_def [symmetric] views
    by (simp add: fin Let_def last_map)
  show ?thesis
    unfolding e using True sel [of "''live''" ?as] sel [of "''explicit_final''", OF _ sub]
      sel [of "''terminal_fallback''" "[last ?as]"]
    by (simp add: selections_def shown_items_def)
next
  case False
  then show ?thesis
    by (simp add: select_completion_messages_def agent_view_eq [abs_def] emap_guard agent_items_def [symmetric])
qed

lemma build_completion_fields:
  assumes "build (CompletionResponse env) d = Inr c" "d = [(''worker'', a), (''turn'', b), (''messages'', JList ms),
      (''structured_output'', out), (''metrics'', m), (''recovery'', r)]"
  shows "\<exists>c'. c = JObj c' \<and> jget c' ''structured_output'' = out
    \<and> (\<exists>ms'. jget c' ''messages'' = JList ms' \<and> length ms' = length ms)"
proof -
  obtain c' where c': "c = JObj c'" "load_fields [(''worker'', WorkerView env), (''turn'', TurnView), (''messages'', AList AgentMessageView),
      (''structured_output'', AAny), (''metrics'', ADict MetricEvidence), (''recovery'', RecoveryView)] d = Inr c'"
    using assms(1) by (auto simp: build_def CompletionResponse_def plain_def Let_def ebind_eq_Inr split: if_splits)
  have "load AAny (jget d ''structured_output'') ''structured_output'' = Inr (jget c' ''structured_output'')"
    "load (AList AgentMessageView) (jget d ''messages'') ''messages'' = Inr (jget c' ''messages'')"
    by (rule load_fields_get [OF c'(2)]; simp)+
  moreover have "jget d ''structured_output'' = out" "jget d ''messages'' = JList ms"
    by (simp_all add: assms(2))
  ultimately show ?thesis using c'(1) by (auto simp: ebind_eq_Inr dest!: emap_Inr_length sym [of "JList _"])
qed

text \<open>
  A projection of a completed turn that returns shows at least
  one message, and one with an output schema has the JSON value of the text of its last
  message; a completed turn without agent messages raises the incomplete-completion fault.
\<close>

theorem completed_turn_has_message:
  assumes "ts_status turn = ''completed''"
  shows "(agent_items (ts_items turn) = [] \<longrightarrow> project_completion env loads worker turn schema duration recovery
      = Inl (incomplete (ts_turn_id turn) [] ''no_agent_message''))
    \<and> (\<forall>c. project_completion env loads worker turn schema duration recovery = Inr c \<longrightarrow>
        (\<exists>ms. sub_obj c ''messages'' = JList ms \<and> ms \<noteq> [])
        \<and> (schema \<noteq> None \<longrightarrow> (\<exists>body. jget (item_data (last (fst (shown_items (ts_items turn) True)))) ''text'' = JStr body
             \<and> loads body = Some (sub_obj c ''structured_output''))))"
proof -
  let ?shown = "shown_items (ts_items turn) True"
  note sel = completion_shows_final_answers [of "ts_items turn" True]
  have ne: "fst ?shown \<noteq> [] \<longleftrightarrow> agent_items (ts_items turn) \<noteq> []"
    by (auto simp: shown_items_def final_items_def)
  show ?thesis
  proof (intro conjI impI allI)
    assume "agent_items (ts_items turn) = []"
    then show "project_completion env loads worker turn schema duration recovery
        = Inl (incomplete (ts_turn_id turn) [] ''no_agent_message'')"
      using sel assms by (simp add: project_completion_def shown_items_def final_items_def)
  next
    fix c assume p: "project_completion env loads worker turn schema duration recovery = Inr c"
    obtain ms where m: "select_completion_messages (ts_items turn) True = Inr ms" "ms \<noteq> []"
      using p assms by (auto simp: project_completion_def ebind_eq_Inr split: if_splits)
    then obtain out tv metrics where o: "structured loads turn ms schema = Inr out"
      "build (CompletionResponse env) [(''worker'', worker), (''turn'', tv), (''messages'', JList ms),
         (''structured_output'', out), (''metrics'', metrics),
         (''recovery'', case recovery of None \<Rightarrow> default_recovery | Some r \<Rightarrow> r)] = Inr c"
      using p assms by (auto simp: project_completion_def ebind_eq_Inr)
    obtain c' ms' where c': "c = JObj c'" "jget c' ''structured_output'' = out"
      "jget c' ''messages'' = JList ms'" "length ms' = length ms"
      using build_completion_fields [OF o(2) refl] by blast
    show "\<exists>ms. sub_obj c ''messages'' = JList ms \<and> ms \<noteq> []"
      using c' m(2) by (auto simp: sub_obj_def)
    assume "schema \<noteq> None"
    then obtain body where t: "as_str (sub_obj (last ms) ''text'') = Some body" "loads body = Some out"
      using o(1) m(2) by (auto simp: structured_def split: option.splits)
    have ms: "ms = map (shown_view (snd ?shown)) (fst ?shown)"
      using m(1) sel by (simp split: if_splits)
    then have "sub_obj (last ms) ''text'' = jget (item_data (last (fst ?shown))) ''text''"
      using m(2) by (simp add: last_map sub_obj_def shown_view_def)
    then show "\<exists>body. jget (item_data (last (fst ?shown))) ''text'' = JStr body
        \<and> loads body = Some (sub_obj c ''structured_output'')"
      using t c' by (auto simp: sub_obj_def as_str_def split: json.splits)
  qed
qed

section \<open>Metrics\<close>

lemma sum_dset:
  fixes d :: "(string, int) dict"
  assumes "distinct (dkeys d)"
  shows "sum_list (map snd (dset d k v)) = sum_list (map snd d) - (case dget d k of None \<Rightarrow> 0 | Some n \<Rightarrow> n) + v"
  using assms by (induction d k v rule: dset.induct) (auto simp: dget_None_iff split: option.splits)

lemma tally_step:
  assumes "distinct (dkeys (ta_counts t))"
  shows "distinct (dkeys (ta_counts (tally_item i t)))"
    "sum_list (map snd (ta_counts (tally_item i t))) = sum_list (map snd (ta_counts t)) + 1"
    "dget (ta_counts (tally_item i t)) k = (if k = item_type i
       then Some ((case dget (ta_counts t) k of None \<Rightarrow> 0 | Some n \<Rightarrow> n) + 1) else dget (ta_counts t) k)"
    "ta_commands (tally_item i t) = ta_commands t + (if item_type i = ''commandExecution'' then 1 else 0)"
    "ta_have_duration (tally_item i t) \<longleftrightarrow> ta_have_duration t \<or> item_type i = ''commandExecution''
       \<and> (\<exists>n\<ge>0. jget (item_data i) ''durationMs'' = JInt n)"
proof -
  have c: "ta_counts (tally_item i t) = count_item (ta_counts t) (item_type i)"
    by (auto simp: tally_item_def Let_def split: option.splits)
  show "distinct (dkeys (ta_counts (tally_item i t)))" using assms by (auto simp: c count_item_def)
  show "sum_list (map snd (ta_counts (tally_item i t))) = sum_list (map snd (ta_counts t)) + 1"
    using assms by (simp add: c count_item_def sum_dset split: option.splits)
  show "dget (ta_counts (tally_item i t)) k = (if k = item_type i
       then Some ((case dget (ta_counts t) k of None \<Rightarrow> 0 | Some n \<Rightarrow> n) + 1) else dget (ta_counts t) k)"
    by (simp add: c count_item_def)
  show "ta_commands (tally_item i t) = ta_commands t + (if item_type i = ''commandExecution'' then 1 else 0)"
    by (auto simp: tally_item_def Let_def split: option.splits)
  show "ta_have_duration (tally_item i t) \<longleftrightarrow> ta_have_duration t \<or> item_type i = ''commandExecution''
       \<and> (\<exists>n\<ge>0. jget (item_data i) ''durationMs'' = JInt n)"
    by (auto simp: tally_item_def Let_def as_int_def split: option.splits json.splits)
qed

text \<open>
  The item counts of a completion add up to its items, each type's
  count is the number of items of the type, and the command count is the count of command items.
\<close>

theorem metrics_count_every_item:
  "sum_list (map snd (ta_counts (tally_items items))) = int (length items)
    \<and> (case dget (ta_counts (tally_items items)) t of None \<Rightarrow> 0 | Some n \<Rightarrow> n)
        = int (length (filter (\<lambda>i. item_type i = t) items))
    \<and> ta_commands (tally_items items) = int (length (filter (\<lambda>i. item_type i = ''commandExecution'') items))"
proof -
  let ?z = "\<lparr>ta_counts = [], ta_commands = 0, ta_duration = 0, ta_have_duration = False, ta_usage = None\<rparr> :: tally"
  have "distinct (dkeys (ta_counts (fold tally_item items z)))
    \<and> sum_list (map snd (ta_counts (fold tally_item items z))) = sum_list (map snd (ta_counts z)) + int (length items)
    \<and> (case dget (ta_counts (fold tally_item items z)) t of None \<Rightarrow> 0 | Some n \<Rightarrow> n)
        = (case dget (ta_counts z) t of None \<Rightarrow> 0 | Some n \<Rightarrow> n) + int (length (filter (\<lambda>i. item_type i = t) items))
    \<and> ta_commands (fold tally_item items z)
        = ta_commands z + int (length (filter (\<lambda>i. item_type i = ''commandExecution'') items))"
    if "distinct (dkeys (ta_counts z))" for z
    using that
  proof (induction items arbitrary: z)
    case (Cons i items)
    note s = tally_step [OF Cons.prems, of i]
    show ?case using Cons.IH [OF s(1)] s by simp
  qed simp
  from this [of ?z] show ?thesis by (simp add: tally_items_def)
qed

text \<open>History pages, newest first, are shown oldest first.\<close>

lemma history_is_chronological: "chronological_history_pages pages = concat (map rev (rev pages))"
  by (simp add: chronological_history_pages_def rev_concat rev_map)

end
