(* ===== verification/Dispatcher.thy ===== *)
theory Dispatcher
  imports Projection CallbackProps
begin

text \<open>
  \<open>callback_dispatcher.py\<close>: from a terminal turn to a durable outbox entry. The dispatcher's
  dictionaries and sets are the fields of \<open>dispatcher\<close>; each block of statements under its
  condition is one definition. The composed methods (\<open>process_terminal\<close>, \<open>completion_for\<close>,
  \<open>run_iteration\<close>) run their sections in order over a \<open>world\<close>: the dispatcher, the callback
  store's file, the artifact directory, the diagnostics and the entries handed to the
  transport. Copies of snapshots are the identity (\<open>copy_turn_snapshot_id\<close> in Models). A section
  that would wait for another thread's claim is \<open>None\<close>.

  The injected parts are parameters (record \<open>dispatch_env\<close>): the projector, the transport's
  encoder and sender, the digest, the rendering of an artifact, the clocks.
\<close>

section \<open>Events\<close>

definition terminal_statuses :: "string list" where
  "terminal_statuses = [''completed'', ''failed'', ''interrupted'']"

definition terminal_event_id :: "(string \<Rightarrow> string) \<Rightarrow> string \<Rightarrow> string \<Rightarrow> string \<Rightarrow> string" where
  "terminal_event_id sha256 sid tid kind = ''terminal-'' @ sha256 (sid @ [CHR 0x00] @ tid @ [CHR 0x00] @ kind)"

definition text_of :: "json \<Rightarrow> string" where
  "text_of v = (case as_str v of None \<Rightarrow> [] | Some s \<Rightarrow> s)"

definition build_terminal_event :: "(string \<Rightarrow> string) \<Rightarrow> json \<Rightarrow> string \<Rightarrow> string \<Rightarrow> json \<Rightarrow> (exn, callback_event) res" where
  "build_terminal_event sha256 completion emitted_at kind artifact =
     (let turn = sub_obj completion ''turn'';
          worker = sub_obj completion ''worker'';
          tid = text_of (sub_obj turn ''turn_id'')
      in if text_of (sub_obj turn ''status'') \<notin> set terminal_statuses
         then Inl (ValueError ''callback requires a terminal completion'')
         else if kind \<notin> {''turn_terminal'', ''turn_terminal_reference''}
         then Inl (ValueError ''unsupported terminal callback kind'')
         else if kind = ''turn_terminal_reference'' \<and> as_obj artifact = None
         then Inl (ValueError ''terminal reference requires an artifact descriptor'')
         else mk_callback_event (JStr callback_schema) (JStr kind)
                (JStr (terminal_event_id sha256 (text_of (sub_obj worker ''session_id'')) tid kind))
                (JStr emitted_at) (JStr ''next'') worker
                (if kind = ''turn_terminal'' then JObj [(''completion'', completion)]
                 else JObj [(''artifact'', artifact), (''turn_id'', JStr tid)]))"

section \<open>State\<close>

type_synonym turn_key = "string \<times> string"

record turn_context =
  cx_worker :: json
  cx_schema :: "json option"
  cx_started_at :: rat
  cx_recovery :: json

record dispatcher =
  d_contexts :: "(turn_key, turn_context) dict"
  d_snapshots :: "(turn_key, turn_snapshot) dict"
  d_completions :: "(turn_key, json) dict"
  d_errors :: "(turn_key, exn) dict"
  d_projecting :: "turn_key list"
  d_persisting :: "turn_key list"
  d_processing :: "turn_key list"
  d_done :: "turn_key list"
  d_abandoned :: "turn_key list"
  d_client_done :: "turn_key list"
  d_started :: bool
  d_stopping :: bool
  d_alive :: bool

definition new_dispatcher :: dispatcher where
  "new_dispatcher = \<lparr>d_contexts = [], d_snapshots = [], d_completions = [], d_errors = [], d_projecting = [],
     d_persisting = [], d_processing = [], d_done = [], d_abandoned = [], d_client_done = [],
     d_started = False, d_stopping = False, d_alive = False\<rparr>"

definition add_key :: "turn_key \<Rightarrow> turn_key list \<Rightarrow> turn_key list" where
  "add_key k ks = (if k \<in> set ks then ks else ks @ [k])"

record dispatch_env =
  de_model :: model_env
  de_project :: "turn_context \<Rightarrow> turn_snapshot \<Rightarrow> rat \<Rightarrow> (exn, json) res"
  de_encode :: "binding \<Rightarrow> callback_event \<Rightarrow> (exn, string) res"
  de_send :: "binding option \<Rightarrow> callback_event \<Rightarrow> (exn, json) res"
  de_sha256 :: "string \<Rightarrow> string"
  de_render :: "json \<Rightarrow> string"
  de_monotonic :: rat
  de_now :: string
  de_io :: store_io
  de_artifact_dir :: string
  de_artifact :: "string option \<times> write_outcome"

record world =
  w_dispatcher :: dispatcher
  w_file :: store_file
  w_artifacts :: artifact_dir
  w_losses :: "json list"
  w_sent :: "callback_event list"

abbreviation on_dispatcher :: "(dispatcher \<Rightarrow> dispatcher) \<Rightarrow> world \<Rightarrow> world" where
  "on_dispatcher f w \<equiv> w\<lparr>w_dispatcher := f (w_dispatcher w)\<rparr>"

section \<open>Sections under the condition\<close>

text \<open>\<open>_cleanup\<close>: forget a turn once both sides are finished with it and nobody processes it.\<close>

definition cleanup :: "turn_key \<Rightarrow> dispatcher \<Rightarrow> dispatcher" where
  "cleanup k d =
     (if (k \<notin> set (d_done d) \<and> k \<notin> set (d_abandoned d)) \<or> k \<notin> set (d_client_done d) \<or> k \<in> set (d_processing d)
      then d
      else d\<lparr>d_contexts := ddel (d_contexts d) k, d_snapshots := ddel (d_snapshots d) k,
             d_completions := ddel (d_completions d) k, d_errors := ddel (d_errors d) k,
             d_projecting := removeAll k (d_projecting d), d_persisting := removeAll k (d_persisting d),
             d_processing := removeAll k (d_processing d), d_done := removeAll k (d_done d),
             d_abandoned := removeAll k (d_abandoned d), d_client_done := removeAll k (d_client_done d)\<rparr>)"

definition isolated :: "model_env \<Rightarrow> turn_context \<Rightarrow> (exn, turn_context) res" where
  "isolated env c = ebind (from_dict (WorkerView env) (cx_worker c)) (\<lambda>w.
     ebind (from_dict RecoveryView (cx_recovery c)) (\<lambda>r. Inr (c\<lparr>cx_worker := w, cx_recovery := r\<rparr>)))"

text \<open>Equality of two contexts; the schema, a free JSON value, compares as Python values do.\<close>

definition context_eq :: "turn_context \<Rightarrow> turn_context \<Rightarrow> bool" where
  "context_eq a b \<longleftrightarrow> py_eq (cx_worker a) (cx_worker b) \<and> cx_started_at a = cx_started_at b
     \<and> py_eq (cx_recovery a) (cx_recovery b)
     \<and> (case (cx_schema a, cx_schema b) of (None, None) \<Rightarrow> True | (Some x, Some y) \<Rightarrow> py_eq x y | _ \<Rightarrow> False)"

definition register_context :: "turn_key \<Rightarrow> turn_context \<Rightarrow> dispatcher \<Rightarrow> (exn, dispatcher) res" where
  "register_context k c d = (case dget (d_contexts d) k of
     Some old \<Rightarrow> if context_eq old c then Inr (d\<lparr>d_contexts := dset (d_contexts d) k c\<rparr>)
       else Inl (ValueError ''terminal projection context is immutable'')
   | None \<Rightarrow> Inr (d\<lparr>d_contexts := dset (d_contexts d) k c\<rparr>))"

definition handoff :: "string \<Rightarrow> turn_snapshot \<Rightarrow> dispatcher \<Rightarrow> dispatcher" where
  "handoff sid s d =
     (if ts_status s \<notin> set terminal_statuses then d
      else if dhas (d_snapshots d) (sid, ts_turn_id s) then d
      else d\<lparr>d_snapshots := dset (d_snapshots d) (sid, ts_turn_id s) s\<rparr>)"

definition ready_keys :: "dispatcher \<Rightarrow> turn_key list" where
  "ready_keys d = filter (\<lambda>k. dhas (d_contexts d) k \<and> k \<notin> set (d_processing d) \<and> k \<notin> set (d_done d)
     \<and> k \<notin> set (d_abandoned d)) (dkeys (d_snapshots d))"

definition ready_key :: "dispatcher \<Rightarrow> turn_key option" where
  "ready_key d = (case ready_keys d of [] \<Rightarrow> None | k # _ \<Rightarrow> Some k)"

definition finish_processing :: "turn_key \<Rightarrow> dispatcher \<Rightarrow> dispatcher" where
  "finish_processing k d = cleanup k (d\<lparr>d_processing := removeAll k (d_processing d)\<rparr>)"

definition client_finish :: "turn_key \<Rightarrow> dispatcher \<Rightarrow> dispatcher" where
  "client_finish k d = cleanup k (d\<lparr>d_client_done := add_key k (d_client_done d)\<rparr>)"

text \<open>\<open>observe_turn\<close> and \<open>_on_terminal\<close>; \<open>late\<close> is what the runtime already retains of the turn.\<close>

definition observe_turn :: "model_env \<Rightarrow> string \<Rightarrow> string \<Rightarrow> turn_context \<Rightarrow> turn_snapshot option \<Rightarrow> dispatcher \<Rightarrow>
    dispatcher \<times> (exn, unit) res" where
  "observe_turn env sid tid c late d = (case isolated env c of
     Inl e \<Rightarrow> (d, Inl e)
   | Inr i \<Rightarrow> (case register_context (sid, tid) i d of
       Inl e \<Rightarrow> (d, Inl e)
     | Inr d1 \<Rightarrow> (case late of None \<Rightarrow> (d1, Inr ()) | Some s \<Rightarrow> (handoff sid s d1, Inr ()))))"

text \<open>The flag tells that the runtime's snapshot of the turn is released.\<close>

definition on_terminal :: "string \<Rightarrow> turn_snapshot \<Rightarrow> dispatcher \<Rightarrow> dispatcher \<times> bool" where
  "on_terminal sid s d =
     (if \<not> dhas (d_contexts d) (sid, ts_turn_id s) then (d, False)
      else (handoff sid s d, (sid, ts_turn_id s) \<in> set (d_client_done d)))"

definition abandon_completion :: "turn_key \<Rightarrow> dispatcher \<Rightarrow> dispatcher" where
  "abandon_completion k d = client_finish k d"

definition tracked_turns :: "dispatcher \<Rightarrow> turn_key list" where
  "tracked_turns d = remdups (dkeys (d_contexts d) @ dkeys (d_snapshots d) @ dkeys (d_completions d)
     @ dkeys (d_errors d) @ d_projecting d @ d_persisting d @ d_abandoned d @ d_processing d)"

definition worker_available :: "dispatcher \<Rightarrow> bool" where
  "worker_available d \<longleftrightarrow> d_started d \<and> \<not> d_stopping d \<and> d_alive d"

section \<open>Projection\<close>

definition project_once :: "dispatch_env \<Rightarrow> turn_key \<Rightarrow> turn_context \<Rightarrow> turn_snapshot \<Rightarrow> dispatcher \<Rightarrow>
    (dispatcher \<times> (exn, json) res) option" where
  "project_once env k c s d =
     (case dget (d_completions d) k of
        Some done \<Rightarrow> Some (d, from_dict (CompletionResponse (de_model env)) done)
      | None \<Rightarrow> (case dget (d_errors d) k of
          Some e \<Rightarrow> Some (d, Inl e)
        | None \<Rightarrow>
          if k \<in> set (d_projecting d) then None
          else (case ebind (de_project env c s (max 0 (de_monotonic env - cx_started_at c)))
                  (from_dict (CompletionResponse (de_model env))) of
              Inl e \<Rightarrow> Some (d\<lparr>d_errors := dset (d_errors d) k e\<rparr>, Inl e)
            | Inr done \<Rightarrow> Some (d\<lparr>d_completions := dset (d_completions d) k done\<rparr>,
                from_dict (CompletionResponse (de_model env)) done))))"

section \<open>Persistence\<close>

definition artifact_json :: "artifact \<Rightarrow> string \<Rightarrow> json" where
  "artifact_json af path = JObj [(''path'', JStr path), (''sha256'', JStr (af_sha256 af)), (''size_bytes'', JInt (af_size af))]"

definition is_too_large :: "exn \<Rightarrow> bool" where
  "is_too_large e = (case e of FacadeFault f \<Rightarrow> ff_code f = CALLBACK_PAYLOAD_TOO_LARGE | _ \<Rightarrow> False)"

definition artifact_path :: "dispatch_env \<Rightarrow> string \<Rightarrow> string" where
  "artifact_path env i = de_artifact_dir env @ ''/'' @ i @ ''.json''"

text \<open>
  The event to enqueue: the completion itself when it fits, otherwise a reference to the
  artifact it is published as.
\<close>

definition choose_event :: "dispatch_env \<Rightarrow> binding \<Rightarrow> json \<Rightarrow> artifact_dir \<Rightarrow> artifact_dir \<times> (exn, callback_event) res" where
  "choose_event env b completion arts =
     (case build_terminal_event (de_sha256 env) completion (de_now env) ''turn_terminal'' JNull of
        Inl e \<Rightarrow> (arts, Inl e)
      | Inr ev \<Rightarrow> (case de_encode env b ev of
          Inr _ \<Rightarrow> (arts, Inr ev)
        | Inl e \<Rightarrow>
          if \<not> is_too_large e then (arts, Inl e)
          else (let rid = terminal_event_id (de_sha256 env)
                      (text_of (sub_obj (sub_obj completion ''worker'') ''session_id''))
                      (text_of (sub_obj (sub_obj completion ''turn'') ''turn_id'')) ''turn_terminal_reference''
                in case publish_artifact (de_render env) (de_sha256 env) arts rid completion
                        (fst (de_artifact env)) (snd (de_artifact env)) of
                     (arts', Inl e') \<Rightarrow> (arts', Inl e')
                   | (arts', Inr af) \<Rightarrow> (arts',
                       ebind (build_terminal_event (de_sha256 env) completion (de_now env) ''turn_terminal_reference''
                         (artifact_json af (artifact_path env rid))) (\<lambda>ev'.
                         ebind (de_encode env b ev') (\<lambda>_. Inr ev'))))))"

definition persist_completion :: "dispatch_env \<Rightarrow> turn_context \<Rightarrow> json \<Rightarrow> world \<Rightarrow> world \<times> (exn, unit) res" where
  "persist_completion env c completion w =
     (let sid = text_of (sub_obj (cx_worker c) ''session_id'') in
      case binding_of (de_model env) (de_io env) (w_file w) sid of
        (f1, Inl e) \<Rightarrow> (w\<lparr>w_file := f1\<rparr>, Inl e)
      | (f1, Inr None) \<Rightarrow> (w\<lparr>w_file := f1\<rparr>, Inr ())
      | (f1, Inr (Some b)) \<Rightarrow>
          if cb_state b \<noteq> Enabled then (w\<lparr>w_file := f1\<rparr>, Inr ())
          else (case choose_event env b completion (w_artifacts w) of
            (arts, Inl e) \<Rightarrow> (w\<lparr>w_file := f1, w_artifacts := arts\<rparr>, Inl e)
          | (arts, Inr ev) \<Rightarrow> (case enqueue_terminal (de_model env) (de_io env) f1 sid ev of
              (f2, r) \<Rightarrow> (w\<lparr>w_file := f2, w_artifacts := arts\<rparr>, ebind r (\<lambda>_. Inr ())))))"

definition fault_reason :: "exn \<Rightarrow> string" where
  "fault_reason e = (case e of FacadeFault f \<Rightarrow> ff_kind f | _ \<Rightarrow> exn_name e)"

definition record_fault_once :: "dispatch_env \<Rightarrow> string \<Rightarrow> string \<Rightarrow> string \<Rightarrow> string option \<Rightarrow> world \<Rightarrow>
    world \<times> bool \<times> string option" where
  "record_fault_once env sid i reason tid w =
     (case record_terminal_fault (de_model env) (de_io env) (w_file w) sid i reason (de_now env) tid of
        (f, Inl e) \<Rightarrow> (w\<lparr>w_file := f\<rparr>, False, Some (exn_name e))
      | (f, Inr _) \<Rightarrow> (w\<lparr>w_file := f\<rparr>, True, None))"

definition loss_record :: "string \<Rightarrow> string \<Rightarrow> string \<Rightarrow> string option \<Rightarrow> json" where
  "loss_record sid i enqueue_error fault_error = JObj [(''kind'', JStr ''terminal_callback_persistence_lost''),
     (''session_id'', JStr sid), (''event_id'', JStr i), (''enqueue_error'', JStr enqueue_error),
     (''fault_error'', jopt fault_error)]"

definition event_id_of :: "dispatch_env \<Rightarrow> turn_key \<Rightarrow> string" where
  "event_id_of env k = terminal_event_id (de_sha256 env) (fst k) (snd k) ''turn_terminal''"

text \<open>\<open>_persist_once\<close>: the flag is its result.\<close>

definition persist_once :: "dispatch_env \<Rightarrow> turn_key \<Rightarrow> turn_context \<Rightarrow> json \<Rightarrow> world \<Rightarrow> (world \<times> bool) option" where
  "persist_once env k c completion w0 =
     (let d = w_dispatcher w0 in
      if k \<in> set (d_done d) \<or> k \<in> set (d_abandoned d) then Some (w0, True)
      else if k \<in> set (d_persisting d) then None
      else Some (case persist_completion env c completion w0 of
          (w, Inr _) \<Rightarrow> (on_dispatcher (\<lambda>d. cleanup k (d\<lparr>d_done := add_key k (d_done d)\<rparr>)) w, True)
        | (w, Inl e) \<Rightarrow> (case record_fault_once env (fst k) (event_id_of env k) (fault_reason e) (Some (snd k)) w of
            (w', recorded, fault_error) \<Rightarrow>
              (if recorded \<and> d_stopping (w_dispatcher w')
               then (on_dispatcher (\<lambda>d. cleanup k (d\<lparr>d_done := add_key k (d_done d)\<rparr>)) w', True)
               else if d_stopping (w_dispatcher w')
               then ((on_dispatcher (\<lambda>d. cleanup k (d\<lparr>d_abandoned := add_key k (d_abandoned d)\<rparr>)) w')
                       \<lparr>w_losses := w_losses w' @ [loss_record (fst k) (event_id_of env k) (exn_name e) fault_error]\<rparr>, True)
               else (w', False)))))"

definition persist_fallback_once :: "dispatch_env \<Rightarrow> turn_key \<Rightarrow> turn_context \<Rightarrow> json \<Rightarrow> world \<Rightarrow> world" where
  "persist_fallback_once env k c completion w0 =
     (let d = w_dispatcher w0 in
      if k \<in> set (d_done d) \<or> k \<in> set (d_abandoned d) \<or> k \<in> set (d_persisting d) then w0
      else (case persist_completion env c completion w0 of
          (w, Inr _) \<Rightarrow> on_dispatcher (\<lambda>d. cleanup k (d\<lparr>d_done := add_key k (d_done d)\<rparr>)) w
        | (w, Inl e) \<Rightarrow> (case record_fault_once env (fst k) (event_id_of env k) (fault_reason e) (Some (snd k)) w of
            (w', recorded, fault_error) \<Rightarrow>
              (if recorded then on_dispatcher (\<lambda>d. cleanup k (d\<lparr>d_done := add_key k (d_done d)\<rparr>)) w'
               else (on_dispatcher (\<lambda>d. cleanup k (d\<lparr>d_abandoned := add_key k (d_abandoned d)\<rparr>)) w')
                       \<lparr>w_losses := w_losses w' @ [loss_record (fst k) (event_id_of env k) (exn_name e) fault_error]\<rparr>))))"

definition durable_fault_once :: "dispatch_env \<Rightarrow> turn_key \<Rightarrow> string \<Rightarrow> world \<Rightarrow> world option" where
  "durable_fault_once env k reason w0 =
     (let d = w_dispatcher w0 in
      if k \<in> set (d_done d) then Some w0
      else if k \<in> set (d_persisting d) then None
      else Some (case record_fault_once env (fst k) (event_id_of env k) reason (Some (snd k)) w0 of
        (w, recorded, fault_error) \<Rightarrow>
          (if recorded then on_dispatcher (\<lambda>d. cleanup k (d\<lparr>d_done := add_key k (d_done d)\<rparr>)) w
           else if d_stopping (w_dispatcher w)
           then (on_dispatcher (\<lambda>d. cleanup k (d\<lparr>d_abandoned := add_key k (d_abandoned d)\<rparr>)) w)
                  \<lparr>w_losses := w_losses w @ [loss_record (fst k) (event_id_of env k) reason fault_error]\<rparr>
           else w)))"

section \<open>Methods\<close>

definition process_terminal :: "dispatch_env \<Rightarrow> turn_key \<Rightarrow> turn_context \<Rightarrow> turn_snapshot \<Rightarrow> world \<Rightarrow> world option" where
  "process_terminal env k c s w =
     (case project_once env k c s (w_dispatcher w) of
        None \<Rightarrow> None
      | Some (d, Inl e) \<Rightarrow>
          map_option (on_dispatcher (finish_processing k)) (durable_fault_once env k (exn_name e) (w\<lparr>w_dispatcher := d\<rparr>))
      | Some (d, Inr completion) \<Rightarrow> (case persist_once env k c completion (w\<lparr>w_dispatcher := d\<rparr>) of
          None \<Rightarrow> None
        | Some (w', True) \<Rightarrow> Some (on_dispatcher (finish_processing k) w')
        | Some (w', False) \<Rightarrow> Some (on_dispatcher (\<lambda>d. d\<lparr>d_processing := removeAll k (d_processing d)\<rparr>) w')))"

definition attempt_entry :: "dispatch_env \<Rightarrow> outbox_entry \<Rightarrow> world \<Rightarrow> world \<times> (exn, unit) res" where
  "attempt_entry env e w = (case en_event e of
     None \<Rightarrow> (w, Inr ())
   | Some ev \<Rightarrow> (case binding_of (de_model env) (de_io env) (w_file w) (en_session_id e) of
       (f1, Inl x) \<Rightarrow> (w\<lparr>w_file := f1\<rparr>, Inl x)
     | (f1, Inr ob) \<Rightarrow>
       (let w1 = w\<lparr>w_file := f1, w_sent := w_sent w @ [ev]\<rparr> in
        case de_send env ob ev of
          Inl x \<Rightarrow> (w1\<lparr>w_file := fst (record_failed (de_model env) (de_io env) f1 (en_event_id e) (fault_reason x) (de_now env))\<rparr>, Inr ())
        | Inr a \<Rightarrow> (w1\<lparr>w_file := fst (record_written (de_model env) (de_io env) f1 (en_event_id e)
              (case as_nonempty (sub_obj a ''attempted_at'') of None \<Rightarrow> de_now env | Some t \<Rightarrow> t))\<rparr>, Inr ()))))"

fun attempt_all :: "dispatch_env \<Rightarrow> outbox_entry list \<Rightarrow> world \<Rightarrow> world \<times> (exn, unit) res" where
  "attempt_all env [] w = (w, Inr ())"
| "attempt_all env (e # es) w =
     (if d_stopping (w_dispatcher w) then (w, Inr ())
      else (case attempt_entry env e w of
        (w', Inl x) \<Rightarrow> (w', Inl x) | (w', Inr _) \<Rightarrow> attempt_all env es w'))"

text \<open>One iteration of \<open>_run\<close>; the result \<open>Inr False\<close> ends the loop, an exception kills the thread.\<close>

definition run_iteration :: "dispatch_env \<Rightarrow> world \<Rightarrow> (world \<times> (exn, bool) res) option" where
  "run_iteration env w =
     (let d = w_dispatcher w in case ready_key d of
        Some k \<Rightarrow> (case (dget (d_contexts d) k, dget (d_snapshots d) k) of
          (Some c, Some s) \<Rightarrow> map_option (\<lambda>w'. (w', Inr True))
            (process_terminal env k c s (w\<lparr>w_dispatcher := d\<lparr>d_processing := add_key k (d_processing d)\<rparr>\<rparr>))
        | _ \<Rightarrow> Some (w, Inl (KeyError ''context'')))
      | None \<Rightarrow>
        if d_stopping d then Some (w, Inr False)
        else (case pending (de_model env) (de_io env) (w_file w) None of
          (f, Inl _) \<Rightarrow> Some (w\<lparr>w_file := f\<rparr>, Inr True)
        | (f, Inr es) \<Rightarrow> (case attempt_all env es (w\<lparr>w_file := f\<rparr>) of
            (w', Inl x) \<Rightarrow> Some (w', Inl x) | (w', Inr _) \<Rightarrow> Some (w', Inr True))))"

definition completion_for :: "dispatch_env \<Rightarrow> string \<Rightarrow> string \<Rightarrow> turn_snapshot \<Rightarrow> world \<Rightarrow>
    (world \<times> (exn, json) res) option" where
  "completion_for env sid tid s w0 =
     (let k = (sid, tid); w = on_dispatcher (handoff sid s) w0; d = w_dispatcher w in
      case (dget (d_contexts d) k, dget (d_snapshots d) k) of
        (Some c, Some snap) \<Rightarrow> (case project_once env k c snap d of
            None \<Rightarrow> None
          | Some (d1, Inl e) \<Rightarrow> map_option (\<lambda>w'. (on_dispatcher (client_finish k) w', Inl e))
              (durable_fault_once env k (exn_name e) (w\<lparr>w_dispatcher := d1\<rparr>))
          | Some (d1, Inr completion) \<Rightarrow>
              (let busy = worker_available d1 \<or> (d_stopping d1 \<and> d_alive d1);
                   w1 = w\<lparr>w_dispatcher := client_finish k d1\<rparr>;
                   w2 = (if busy then w1 else on_dispatcher (cleanup k) (persist_fallback_once env k c completion w1))
               in Some (w2, from_dict (CompletionResponse (de_model env)) completion)))
      | _ \<Rightarrow> Some (w, Inl (KeyError sid)))"

text \<open>\<open>start\<close>, and the parts of \<open>shutdown\<close>; \<open>n\<close> turns are drained before the deadline.\<close>

definition start_dispatcher :: "dispatch_env \<Rightarrow> world \<Rightarrow> world \<times> (exn, unit) res" where
  "start_dispatcher env w = (case pending (de_model env) (de_io env) (w_file w) None of
     (f, Inl e) \<Rightarrow> (w\<lparr>w_file := f\<rparr>, Inl e)
   | (f, Inr _) \<Rightarrow>
       (if d_started (w_dispatcher w) then (w\<lparr>w_file := f\<rparr>, Inr ())
        else (on_dispatcher (\<lambda>d. d\<lparr>d_started := True, d_stopping := False, d_alive := True\<rparr>) (w\<lparr>w_file := f\<rparr>), Inr ())))"

fun drain_ready :: "nat \<Rightarrow> dispatch_env \<Rightarrow> world \<Rightarrow> world option" where
  "drain_ready 0 env w = Some w"
| "drain_ready (Suc n) env w = (let d = w_dispatcher w in case ready_key d of
     None \<Rightarrow> Some w
   | Some k \<Rightarrow> (case (dget (d_contexts d) k, dget (d_snapshots d) k) of
       (Some c, Some s) \<Rightarrow>
         Option.bind (process_terminal env k c s (w\<lparr>w_dispatcher := d\<lparr>d_processing := add_key k (d_processing d)\<rparr>\<rparr>))
           (drain_ready n env)
     | _ \<Rightarrow> Some w))"

definition shutdown_dispatcher :: "nat \<Rightarrow> dispatch_env \<Rightarrow> world \<Rightarrow> world option" where
  "shutdown_dispatcher n env w =
     (let w1 = on_dispatcher (\<lambda>d. d\<lparr>d_stopping := True\<rparr>) w in
      if d_alive (w_dispatcher w1) then Some w1
      else map_option (on_dispatcher (\<lambda>d. d\<lparr>d_started := False\<rparr>)) (drain_ready n env w1))"

end
