(* ===== verification/DispatchProps.thy ===== *)
theory DispatchProps
  imports Dispatcher
begin

text \<open>
  Properties of the terminal callback dispatcher: what being done with a turn means, that
  finished turns are forgotten, and how one result that cannot be encoded holds up the rest.
\<close>

section \<open>Calls of the store\<close>

lemma binding_result:
  assumes "file_ok env file" "binding_of env io file sid = (file', r)"
  shows "file_ok env file'" "view_of env file' = view_of env file"
    "r = Inr ob \<Longrightarrow> fst (view_of env file) sid = ob"
proof -
  have "file_ok env file' \<and> view_of env file' = view_of env file"
    by (rule transact_view [OF assms(1) assms(2) [unfolded binding_of_def]]) (auto simp: deciding_Update)
  then show "file_ok env file'" "view_of env file' = view_of env file" by simp_all
  show "fst (view_of env file) sid = ob" if "r = Inr ob"
    using assms(1) assms(2) [unfolded binding_of_def that]
  proof (cases rule: transact_result)
    case (answered st)
    then show ?thesis
      using stored_binding_valid(1) [OF answered(2)] by (simp add: deciding_def view_of_def state_view_def)
  next
    case (updated st st')
    then show ?thesis by (auto simp: deciding_Update)
  qed
qed

lemma fault_result:
  assumes "file_ok env file" "record_terminal_fault env io file sid i error tm turn = (file', r)"
  shows "file_ok env file'" "snd (view_of env file') = snd (view_of env file)"
    "fst (view_of env file) s = Some b \<Longrightarrow> \<exists>b'. fst (view_of env file') s = Some b' \<and> same_route b b'"
proof -
  have m: "file_ok env file' \<and> store_move (OpFault sid i error tm turn) (view_of env file) (view_of env file')"
    using fault_move [OF assms(1), of io sid i error tm turn] assms(2) by simp
  then show "file_ok env file'" by simp
  show "snd (view_of env file') = snd (view_of env file)"
    using conjunct2 [OF m] by (cases rule: store_move.cases) simp_all
  show "\<exists>b'. fst (view_of env file') s = Some b' \<and> same_route b b'" if "fst (view_of env file) s = Some b"
    using move_route [OF conjunct2 [OF m] that] .
qed

lemma enqueue_result:
  assumes "file_ok env file" "event_ok env ev" "enqueue_terminal env io file sid ev = (file', Inr r)"
  shows "file_ok env file' \<and> (\<exists>e. snd (view_of env file') (ce_event_id ev) = Some e \<and> en_session_id e = sid)"
proof
  show "file_ok env file'" using enqueue_move [OF assms(1,2), of io sid] assms(3) by simp
  from assms(1) assms(3) [unfolded enqueue_terminal_def]
  show "\<exists>e. snd (view_of env file') (ce_event_id ev) = Some e \<and> en_session_id e = sid"
  proof (cases rule: transact_result)
    case (answered st)
    then obtain e where e: "stored_entry env st (ce_event_id ev) = Inr e" "en_session_id e = sid"
      by (auto simp: deciding_def Let_def split: if_splits sum.splits)
    then show ?thesis
      using stored_entry_valid(1) [OF answered(2) e(1)] answered(4) by (simp add: state_view_def)
  next
    case (updated st st')
    define e where "e = \<lparr>en_event_id = ce_event_id ev, en_session_id = sid, en_event = Some ev,
       en_state = Pending, en_attempts = 0, en_last_error = None\<rparr>"
    have e: "en_event_id e = ce_event_id ev" "en_session_id e = sid" "en_event e = Some ev"
      "entry_checks e = Inr ()" "st' = put_entry st e"
      using updated(3) by (auto simp: deciding_Update Let_def e_def split: if_splits)
    have ok: "entry_ok env e" using e(3,4) assms(2) by (simp add: entry_ok_def)
    show ?thesis
      using file_ok_content [OF put_entry_valid(1) [OF updated(2) ok]] put_entry_valid(2) [OF updated(2) ok]
        e(1,2,5) updated(4) by simp
  qed
qed

section \<open>Done means durable\<close>

lemma terminal_event_Inr:
  assumes "build_terminal_event sha completion tm kind artifact = Inr ev"
  shows "ce_event_id ev = terminal_event_id sha (text_of (sub_obj (sub_obj completion ''worker'') ''session_id''))
      (text_of (sub_obj (sub_obj completion ''turn'') ''turn_id'')) kind"
    "kind \<in> {''turn_terminal'', ''turn_terminal_reference''}"
    "kind = ''turn_terminal'' \<Longrightarrow> json_finite completion"
  using assms by (auto simp: build_terminal_event_def Let_def mk_callback_event_Inr split: if_splits)

lemma callback_event_ok:
  assumes "mk_callback_event (JStr callback_schema) a b c d w pl = Inr ev" "from_dict (WorkerView env) w = Inr w"
  shows "event_ok env ev"
proof -
  have h: "has_fields (event_dict ev) [''schema'', ''event'', ''event_id'', ''emitted_at'', ''priority'', ''worker'', ''payload'']"
    by (simp add: has_fields_def dkeys_def event_dict_def)
  have e: "mk_callback_event (JStr (ce_schema ev)) (JStr (ce_event ev)) (JStr (ce_event_id ev))
      (JStr (ce_emitted_at ev)) (JStr (ce_priority ev)) w (JObj (ce_payload ev)) = Inr ev" "ce_worker ev = w"
    using assms(1) by (auto simp: mk_callback_event_Inr)
  show ?thesis
    using e h assms(2) by (simp add: event_ok_def event_from_dict_def) (simp add: event_dict_def)
qed

lemma terminal_event_ok:
  assumes "build_terminal_event sha completion tm kind artifact = Inr ev"
    "from_dict (WorkerView env) (sub_obj completion ''worker'') = Inr (sub_obj completion ''worker'')"
  shows "event_ok env ev"
  using assms(1) callback_event_ok [OF _ assms(2)]
  by (auto simp: build_terminal_event_def Let_def split: if_splits)

lemma completion_worker:
  assumes "from_dict (CompletionResponse env) v = Inr c"
  shows "from_dict (WorkerView env) (sub_obj c ''worker'') = Inr (sub_obj c ''worker'')"
proof -
  obtain d c' where c': "c = JObj c'" "load_fields [(''worker'', WorkerView env), (''turn'', TurnView), (''messages'', AList AgentMessageView),
      (''structured_output'', AAny), (''metrics'', ADict MetricEvidence), (''recovery'', RecoveryView)] d = Inr c'"
    using assms by (auto simp: from_dict_def CompletionResponse_def plain_def Let_def ebind_eq_Inr
        simp del: load_fields.simps split: if_splits option.splits)
  have "load (WorkerView env) (jget d ''worker'') ''worker'' = Inr (jget c' ''worker'')"
    by (rule load_fields_get [OF c'(2)]; simp)
  then have "load (WorkerView env) (jget c' ''worker'') [] = Inr (jget c' ''worker'')"
    using load_idem(1) worker_view_ok by blast
  then show ?thesis by (simp add: c'(1) sub_obj_def from_dict_def)
qed

lemma choose_event_Inr:
  assumes "choose_event env b completion arts = (arts', Inr ev)"
    "from_dict (WorkerView m) (sub_obj completion ''worker'') = Inr (sub_obj completion ''worker'')"
  obtains kind art where "build_terminal_event (de_sha256 env) completion (de_now env) kind art = Inr ev"
  using assms(1)
  by (auto simp: choose_event_def Let_def ebind_eq_Inr split: sum.splits if_splits prod.splits)


definition enabled_binding :: "model_env \<Rightarrow> store_file \<Rightarrow> string \<Rightarrow> bool" where
  "enabled_binding m file sid \<longleftrightarrow> (case fst (view_of m file) sid of None \<Rightarrow> False | Some b \<Rightarrow> cb_state b = Enabled)"

definition terminal_ids :: "dispatch_env \<Rightarrow> json \<Rightarrow> string set" where
  "terminal_ids env completion = (\<lambda>kind. terminal_event_id (de_sha256 env)
       (text_of (sub_obj (sub_obj completion ''worker'') ''session_id''))
       (text_of (sub_obj (sub_obj completion ''turn'') ''turn_id'')) kind)
     ` {''turn_terminal'', ''turn_terminal_reference''}"

lemma persist_completion_durable:
  assumes "file_ok (de_model env) (w_file w)" "from_dict (CompletionResponse (de_model env)) v = Inr completion"
    and "persist_completion env c completion w = (w', Inr ())" "sid = text_of (sub_obj (cx_worker c) ''session_id'')"
  shows "file_ok (de_model env) (w_file w') \<and> w_dispatcher w' = w_dispatcher w \<and> w_sent w' = w_sent w
    \<and> (enabled_binding (de_model env) (w_file w) sid \<longrightarrow>
        (\<exists>i \<in> terminal_ids env completion. \<exists>e. snd (view_of (de_model env) (w_file w')) i = Some e \<and> en_session_id e = sid))"
proof -
  let ?m = "de_model env"
  obtain f1 r where b: "binding_of ?m (de_io env) (w_file w) sid = (f1, r)" by fastforce
  note br = binding_result [OF assms(1) b]
  obtain ob where r: "r = Inr ob" using assms(3,4) b by (cases r) (simp_all add: persist_completion_def)
  show ?thesis
  proof (cases "\<exists>x. ob = Some x \<and> cb_state x = Enabled")
    case False
    then have "w' = w\<lparr>w_file := f1\<rparr>"
      using assms(3,4) b r by (auto simp: persist_completion_def split: option.splits if_splits)
    then show ?thesis using br(1) br(3) [OF r] False by (auto simp: enabled_binding_def split: option.splits)
  next
    case True
    then obtain x where x: "ob = Some x" "cb_state x = Enabled" by blast
    obtain arts q where q: "choose_event env x completion (w_artifacts w) = (arts, q)" by fastforce
    obtain ev where ev: "q = Inr ev"
      using assms(3,4) b r x q by (cases q) (simp_all add: persist_completion_def)
    obtain f2 r2 where e: "enqueue_terminal ?m (de_io env) f1 sid ev = (f2, r2)" by fastforce
    obtain r' where r2: "r2 = Inr r'" and w': "w' = w\<lparr>w_file := f2, w_artifacts := arts\<rparr>"
      using assms(3,4) b r x q ev e by (cases r2) (simp_all add: persist_completion_def)
    obtain kind art where k: "build_terminal_event (de_sha256 env) completion (de_now env) kind art = Inr ev"
      by (rule choose_event_Inr [OF q [unfolded ev] completion_worker [OF assms(2)]])
    have "event_ok ?m ev" by (rule terminal_event_ok [OF k completion_worker [OF assms(2)]])
    from enqueue_result [OF br(1) this e [unfolded r2]] terminal_event_Inr(1,2) [OF k]
    show ?thesis by (auto simp: w' terminal_ids_def)
  qed
qed


section \<open>Finished turns are forgotten\<close>

definition both_finished :: "turn_key \<Rightarrow> dispatcher \<Rightarrow> bool" where
  "both_finished k d \<longleftrightarrow> (k \<in> set (d_done d) \<or> k \<in> set (d_abandoned d)) \<and> k \<in> set (d_client_done d)"

definition tidy :: "dispatcher \<Rightarrow> bool" where
  "tidy d \<longleftrightarrow> (\<forall>k. both_finished k d \<longrightarrow> k \<in> set (d_processing d))"

definition tidy_except :: "turn_key \<Rightarrow> dispatcher \<Rightarrow> bool" where
  "tidy_except k d \<longleftrightarrow> (\<forall>j. j \<noteq> k \<longrightarrow> both_finished j d \<longrightarrow> j \<in> set (d_processing d))"

lemma tidy_cleanup: "tidy_except k d \<Longrightarrow> tidy (cleanup k d)"
  by (auto simp: tidy_def tidy_except_def both_finished_def cleanup_def)

lemma cleanup_processing: "set (d_processing (cleanup k d)) = set (d_processing d)"
  by (auto simp: cleanup_def)

lemma tidy_mono:
  "tidy d \<Longrightarrow> set (d_done e) \<subseteq> insert k (set (d_done d)) \<Longrightarrow> set (d_abandoned e) \<subseteq> insert k (set (d_abandoned d))
    \<Longrightarrow> set (d_client_done e) \<subseteq> insert k (set (d_client_done d)) \<Longrightarrow> set (d_processing d) - {k} \<subseteq> set (d_processing e)
    \<Longrightarrow> tidy_except k e"
  by (fastforce simp: tidy_def tidy_except_def both_finished_def)

lemma set_add_key [simp]: "set (add_key k ks) = insert k (set ks)"
  by (auto simp: add_key_def)

lemma tidy_done: "tidy d \<Longrightarrow> tidy (cleanup k (d\<lparr>d_done := add_key k (d_done d)\<rparr>))"
  by (rule tidy_cleanup, rule tidy_mono [where k = k]) auto

lemma tidy_abandoned: "tidy d \<Longrightarrow> tidy (cleanup k (d\<lparr>d_abandoned := add_key k (d_abandoned d)\<rparr>))"
  by (rule tidy_cleanup, rule tidy_mono [where k = k]) auto

lemma tidy_client: "tidy d \<Longrightarrow> tidy (client_finish k d)"
  unfolding client_finish_def by (rule tidy_cleanup, rule tidy_mono [where k = k]) auto

lemma tidy_finish: "tidy d \<Longrightarrow> tidy (finish_processing k d)"
  unfolding finish_processing_def by (rule tidy_cleanup, rule tidy_mono [where k = k]) auto

lemma tidy_cleanup_again: "tidy d \<Longrightarrow> tidy (cleanup k d)"
  by (rule tidy_cleanup, rule tidy_mono [where k = k]) auto

lemma processing_sections [simp]:
  "set (d_processing (finish_processing k d)) = set (d_processing d) - {k}"
  "set (d_processing (client_finish k d)) = set (d_processing d)"
  by (auto simp: finish_processing_def client_finish_def cleanup_processing)

lemma tidy_same:
  "tidy d \<Longrightarrow> d_done e = d_done d \<Longrightarrow> d_abandoned e = d_abandoned d \<Longrightarrow> d_client_done e = d_client_done d
    \<Longrightarrow> set (d_processing d) \<subseteq> set (d_processing e) \<Longrightarrow> tidy e"
  by (auto simp: tidy_def both_finished_def)

lemma project_once_same:
  "project_once env k c s d = Some (d', r) \<Longrightarrow> d_done d' = d_done d \<and> d_abandoned d' = d_abandoned d
    \<and> d_client_done d' = d_client_done d \<and> d_processing d' = d_processing d"
  by (auto simp: project_once_def split: option.splits if_splits sum.splits)

lemma persist_completion_dispatcher:
  "w_dispatcher (fst (persist_completion env c completion w)) = w_dispatcher w"
  by (auto simp: persist_completion_def Let_def split: prod.splits sum.splits option.splits if_splits)

lemma record_fault_dispatcher: "w_dispatcher (fst (record_fault_once env sid i reason tid w)) = w_dispatcher w"
  by (auto simp: record_fault_once_def split: prod.splits sum.splits)

lemma persist_completion_sent: "w_sent (fst (persist_completion env c completion w)) = w_sent w"
  by (auto simp: persist_completion_def Let_def split: prod.splits sum.splits option.splits if_splits)

lemma record_fault_sent: "w_sent (fst (record_fault_once env sid i reason tid w)) = w_sent w"
  by (auto simp: record_fault_once_def split: prod.splits sum.splits)

lemma ready_key_Some: "ready_key d = Some k \<Longrightarrow> k \<in> set (ready_keys d) \<and> k \<notin> set (d_processing d) \<and> k \<notin> set (d_done d)
    \<and> k \<notin> set (d_abandoned d)"
  by (auto simp: ready_key_def ready_keys_def split: list.splits dest!: arg_cong [where f = set])

definition keeps_tidy :: "world \<Rightarrow> world \<Rightarrow> bool" where
  "keeps_tidy w w' \<longleftrightarrow> (tidy (w_dispatcher w) \<longrightarrow> tidy (w_dispatcher w'))
     \<and> set (d_processing (w_dispatcher w')) = set (d_processing (w_dispatcher w))"

lemma persist_once_tidy:
  assumes "persist_once env k c completion w = Some (w', b)"
  shows "keeps_tidy w w'" "\<not> b \<Longrightarrow> w_dispatcher w' = w_dispatcher w \<and> k \<notin> set (d_done (w_dispatcher w))
    \<and> k \<notin> set (d_abandoned (w_dispatcher w))"
proof -
  have *: "keeps_tidy w w' \<and> (\<not> b \<longrightarrow> w_dispatcher w' = w_dispatcher w \<and> k \<notin> set (d_done (w_dispatcher w))
      \<and> k \<notin> set (d_abandoned (w_dispatcher w)))"
  proof (cases "k \<in> set (d_done (w_dispatcher w)) \<or> k \<in> set (d_abandoned (w_dispatcher w)) \<or> k \<in> set (d_persisting (w_dispatcher w))")
    case True
    then show ?thesis using assms by (auto simp: persist_once_def Let_def keeps_tidy_def split: if_splits)
  next
    case False
    obtain w1 r where p: "persist_completion env c completion w = (w1, r)" by fastforce
    then have d1: "w_dispatcher w1 = w_dispatcher w" using persist_completion_dispatcher by (metis fst_conv)
    show ?thesis
    proof (cases r)
      case (Inr u)
      then show ?thesis using assms False p d1
        by (auto simp: persist_once_def Let_def keeps_tidy_def cleanup_processing tidy_done)
    next
      case (Inl e)
      obtain w2 rec fe where f: "record_fault_once env (fst k) (event_id_of env k) (fault_reason e) (Some (snd k)) w1 = (w2, rec, fe)"
        by (cases "record_fault_once env (fst k) (event_id_of env k) (fault_reason e) (Some (snd k)) w1") auto
      then have d2: "w_dispatcher w2 = w_dispatcher w" using record_fault_dispatcher d1 by (metis fst_conv)
      then show ?thesis using assms False p Inl f
        by (auto simp: persist_once_def Let_def keeps_tidy_def cleanup_processing tidy_done tidy_abandoned split: if_splits)
    qed
  qed
  then show "keeps_tidy w w'" by simp
  from * show "\<not> b \<Longrightarrow> w_dispatcher w' = w_dispatcher w \<and> k \<notin> set (d_done (w_dispatcher w))
    \<and> k \<notin> set (d_abandoned (w_dispatcher w))" by simp
qed

lemma durable_fault_tidy: "durable_fault_once env k reason w = Some w' \<Longrightarrow> keeps_tidy w w'"
  using record_fault_dispatcher [of env "fst k" "event_id_of env k" reason "Some (snd k)" w]
  by (cases "record_fault_once env (fst k) (event_id_of env k) reason (Some (snd k)) w")
     (auto simp: durable_fault_once_def Let_def keeps_tidy_def cleanup_processing tidy_done tidy_abandoned split: if_splits)

lemma fallback_tidy: "keeps_tidy w (persist_fallback_once env k c completion w)"
proof -
  obtain w1 r where p: "persist_completion env c completion w = (w1, r)" by fastforce
  then have d1: "w_dispatcher w1 = w_dispatcher w" using persist_completion_dispatcher by (metis fst_conv)
  show ?thesis
  proof (cases r)
    case (Inr u)
    then show ?thesis using p d1
      by (auto simp: persist_fallback_once_def Let_def keeps_tidy_def cleanup_processing tidy_done)
  next
    case (Inl e)
    obtain w2 rec fe where f: "record_fault_once env (fst k) (event_id_of env k) (fault_reason e) (Some (snd k)) w1 = (w2, rec, fe)"
      by (cases "record_fault_once env (fst k) (event_id_of env k) (fault_reason e) (Some (snd k)) w1") auto
    then have "w_dispatcher w2 = w_dispatcher w" using record_fault_dispatcher d1 by (metis fst_conv)
    then show ?thesis using p Inl f
      by (auto simp: persist_fallback_once_def Let_def keeps_tidy_def cleanup_processing tidy_done tidy_abandoned)
  qed
qed

text \<open>Processing a turn claims it, and gives the claim back.\<close>

lemma process_terminal_tidy:
  assumes "process_terminal env k c s (w\<lparr>w_dispatcher := (w_dispatcher w)\<lparr>d_processing := add_key k (d_processing (w_dispatcher w))\<rparr>\<rparr>) = Some w'"
    and "tidy (w_dispatcher w)"
  shows "tidy (w_dispatcher w') \<and> set (d_processing (w_dispatcher w')) = set (d_processing (w_dispatcher w)) - {k}"
proof -
  let ?d = "(w_dispatcher w)\<lparr>d_processing := add_key k (d_processing (w_dispatcher w))\<rparr>"
  let ?w = "w\<lparr>w_dispatcher := ?d\<rparr>"
  have t: "tidy ?d" by (rule tidy_same [OF assms(2)]) auto
  obtain d1 r where p: "project_once env k c s ?d = Some (d1, r)"
    using assms(1) by (auto simp: process_terminal_def split: option.splits)
  note same = project_once_same [OF p]
  have t1: "tidy d1" by (rule tidy_same [OF t]) (use same in auto)
  have s1: "set (d_processing d1) = insert k (set (d_processing (w_dispatcher w)))" using same by simp
  show ?thesis
  proof (cases r)
    case (Inl e)
    obtain w2 where w2: "durable_fault_once env k (exn_name e) (?w\<lparr>w_dispatcher := d1\<rparr>) = Some w2"
      "w' = on_dispatcher (finish_processing k) w2"
      using assms(1) p Inl by (auto simp: process_terminal_def)
    then show ?thesis using durable_fault_tidy [OF w2(1)] t1 s1 by (simp add: keeps_tidy_def tidy_finish)
  next
    case (Inr completion)
    obtain w2 b where w2: "persist_once env k c completion (?w\<lparr>w_dispatcher := d1\<rparr>) = Some (w2, b)"
      "w' = (if b then on_dispatcher (finish_processing k) w2
             else on_dispatcher (\<lambda>d. d\<lparr>d_processing := removeAll k (d_processing d)\<rparr>) w2)"
      using assms(1) p Inr by (auto simp: process_terminal_def split: option.splits bool.splits)
    note k = persist_once_tidy [OF w2(1)]
    show ?thesis
    proof (cases b)
      case True
      then show ?thesis using k(1) w2(2) t1 s1 by (simp add: keeps_tidy_def tidy_finish)
    next
      case False
      then have "w_dispatcher w2 = d1" "k \<notin> set (d_done d1)" "k \<notin> set (d_abandoned d1)" using k(2) by simp_all
      then show ?thesis using w2(2) t1 s1 False by (auto simp: tidy_def both_finished_def)
    qed
  qed
qed

datatype dispatch_action =
    AObserve string string turn_context "turn_snapshot option"
  | ATerminal string turn_snapshot
  | AComplete string string turn_snapshot
  | AAbandon turn_key
  | AIterate
  | AStart
  | AShutdown nat

text \<open>A call that would wait for another thread changes nothing yet.\<close>

definition dispatch_exec :: "dispatch_env \<times> dispatch_action \<Rightarrow> world \<Rightarrow> world" where
  "dispatch_exec ea w = (case ea of
     (env, AObserve sid tid c late) \<Rightarrow> on_dispatcher (\<lambda>d. fst (observe_turn (de_model env) sid tid c late d)) w
   | (env, ATerminal sid s) \<Rightarrow> on_dispatcher (\<lambda>d. fst (on_terminal sid s d)) w
   | (env, AComplete sid tid s) \<Rightarrow> (case completion_for env sid tid s w of None \<Rightarrow> w | Some (w', _) \<Rightarrow> w')
   | (env, AAbandon k) \<Rightarrow> on_dispatcher (abandon_completion k) w
   | (env, AIterate) \<Rightarrow> (case run_iteration env w of None \<Rightarrow> w | Some (w', _) \<Rightarrow> w')
   | (env, AStart) \<Rightarrow> fst (start_dispatcher env w)
   | (env, AShutdown n) \<Rightarrow> (case shutdown_dispatcher n env w of None \<Rightarrow> w | Some w' \<Rightarrow> w'))"

definition idle_tidy :: "world \<Rightarrow> bool" where
  "idle_tidy w \<longleftrightarrow> tidy (w_dispatcher w) \<and> d_processing (w_dispatcher w) = []"

lemma handoff_same [simp]:
  "d_done (handoff sid s d) = d_done d" "d_abandoned (handoff sid s d) = d_abandoned d"
  "d_client_done (handoff sid s d) = d_client_done d" "d_processing (handoff sid s d) = d_processing d"
  by (simp_all add: handoff_def)

lemma idle_process:
  "process_terminal env k c s (w\<lparr>w_dispatcher := (w_dispatcher w)\<lparr>d_processing := add_key k (d_processing (w_dispatcher w))\<rparr>\<rparr>) = Some w'
    \<Longrightarrow> idle_tidy w \<Longrightarrow> idle_tidy w'"
  using process_terminal_tidy [of env k c s w w'] by (auto simp: idle_tidy_def)

lemma attempt_dispatcher: "w_dispatcher (fst (attempt_entry env e w)) = w_dispatcher w"
  by (auto simp: attempt_entry_def Let_def split: option.splits prod.splits sum.splits)

lemma attempt_all_dispatcher: "w_dispatcher (fst (attempt_all env es w)) = w_dispatcher w"
proof (induction es arbitrary: w)
  case (Cons e es)
  obtain w1 r where a: "attempt_entry env e w = (w1, r)" by fastforce
  then have "w_dispatcher w1 = w_dispatcher w" using attempt_dispatcher by (metis fst_conv)
  then show ?case using Cons.IH [of w1] a by (cases r) simp_all
qed simp

lemma idle_iteration:
  assumes "run_iteration env w = Some (w', r)" "idle_tidy w"
  shows "idle_tidy w'"
proof (cases "ready_key (w_dispatcher w)")
  case (Some k)
  show ?thesis
    using assms(1) Some idle_process [of env k _ _ w] assms(2)
    by (auto simp: run_iteration_def Let_def split: option.splits)
next
  case None
  obtain f p where p: "pending (de_model env) (de_io env) (w_file w) None = (f, p)" by fastforce
  show ?thesis
  proof (cases p)
    case (Inl e)
    then show ?thesis using assms None p by (auto simp: run_iteration_def Let_def idle_tidy_def split: if_splits)
  next
    case (Inr es)
    obtain w1 q where q: "attempt_all env es (w\<lparr>w_file := f\<rparr>) = (w1, q)" by fastforce
    then have "w_dispatcher w1 = w_dispatcher w"
      using attempt_all_dispatcher [of env es "w\<lparr>w_file := f\<rparr>"] by simp
    then show ?thesis using assms None p Inr q
      by (cases q) (auto simp: run_iteration_def Let_def idle_tidy_def split: if_splits)
  qed
qed

lemma idle_drain: "drain_ready n env w = Some w' \<Longrightarrow> idle_tidy w \<Longrightarrow> idle_tidy w'"
proof (induction n arbitrary: w)
  case (Suc n)
  show ?case
  proof (cases "ready_key (w_dispatcher w)")
    case None
    then show ?thesis using Suc.prems by (simp add: Let_def)
  next
    case (Some k)
    show ?thesis
      using Suc Some idle_process [of env k _ _ w] Suc.prems(2)
      by (auto simp: Let_def bind_eq_Some_conv split: option.splits)
  qed
qed simp

lemma idle_completion:
  assumes "completion_for env sid tid s w0 = Some (w', r)" "idle_tidy w0"
  shows "idle_tidy w'"
proof -
  let ?k = "(sid, tid)"
  let ?w = "on_dispatcher (handoff sid s) w0"
  have t: "idle_tidy ?w" using assms(2) by (auto simp: idle_tidy_def tidy_def both_finished_def simp del: split_paired_All split_paired_Ex)
  show ?thesis
  proof (cases "dget (d_contexts (w_dispatcher ?w)) ?k = None \<or> dget (d_snapshots (w_dispatcher ?w)) ?k = None")
    case True
    then have "w' = ?w" using assms(1) by (auto simp: completion_for_def Let_def split: option.splits)
    then show ?thesis using t by simp
  next
    case False
    then obtain c snap where cs: "dget (d_contexts (w_dispatcher ?w)) ?k = Some c"
      "dget (d_snapshots (w_dispatcher ?w)) ?k = Some snap" by auto
    obtain d1 q where p: "project_once env ?k c snap (w_dispatcher ?w) = Some (d1, q)"
      using assms(1) cs by (auto simp: completion_for_def Let_def split: option.splits)
    note same = project_once_same [OF p]
    have t1: "idle_tidy (?w\<lparr>w_dispatcher := d1\<rparr>)"
      using t same tidy_same [of "w_dispatcher ?w" d1] by (simp add: idle_tidy_def)
    show ?thesis
    proof (cases q)
      case (Inl e)
      then obtain w2 where w2: "durable_fault_once env ?k (exn_name e) (?w\<lparr>w_dispatcher := d1\<rparr>) = Some w2"
        "w' = on_dispatcher (client_finish ?k) w2"
        using assms(1) cs p by (auto simp: completion_for_def Let_def)
      then show ?thesis using durable_fault_tidy [OF w2(1)] t1
        by (auto simp: keeps_tidy_def idle_tidy_def tidy_client simp flip: set_empty)
    next
      case (Inr completion)
      let ?w1 = "?w\<lparr>w_dispatcher := client_finish ?k d1\<rparr>"
      have t2: "idle_tidy ?w1" using t1 by (auto simp: idle_tidy_def tidy_client simp flip: set_empty)
      then have t3: "idle_tidy (on_dispatcher (cleanup ?k) (persist_fallback_once env ?k c completion ?w1))"
        using fallback_tidy [of ?w1 env ?k c completion]
        by (auto simp: keeps_tidy_def idle_tidy_def tidy_cleanup_again cleanup_processing simp flip: set_empty)
      have "w' = ?w1 \<or> w' = on_dispatcher (cleanup ?k) (persist_fallback_once env ?k c completion ?w1)"
        using assms(1) cs p Inr by (auto simp: completion_for_def Let_def split: if_splits)
      then show ?thesis using t2 t3 by blast
    qed
  qed
qed

lemma idle_exec: "idle_tidy w \<Longrightarrow> idle_tidy (dispatch_exec (env, a) w)"
proof (cases a)
  case (AObserve sid tid c late)
  assume "idle_tidy w"
  then show ?thesis using AObserve
    by (auto simp: dispatch_exec_def observe_turn_def register_context_def idle_tidy_def tidy_def both_finished_def
        simp del: split_paired_All split_paired_Ex split: sum.splits option.splits if_splits)
next
  case (ATerminal sid s)
  assume "idle_tidy w"
  then show ?thesis using ATerminal
    by (auto simp: dispatch_exec_def on_terminal_def idle_tidy_def tidy_def both_finished_def simp del: split_paired_All split_paired_Ex)
next
  case (AComplete sid tid s)
  assume "idle_tidy w"
  then show ?thesis using AComplete idle_completion
    by (auto simp: dispatch_exec_def split: option.splits)
next
  case (AAbandon k)
  assume "idle_tidy w"
  then show ?thesis using AAbandon
    by (auto simp: dispatch_exec_def abandon_completion_def idle_tidy_def tidy_client simp flip: set_empty)
next
  case AIterate
  assume "idle_tidy w"
  then show ?thesis using AIterate idle_iteration
    by (auto simp: dispatch_exec_def split: option.splits)
next
  case AStart
  assume "idle_tidy w"
  then show ?thesis using AStart
    by (auto simp: dispatch_exec_def start_dispatcher_def idle_tidy_def tidy_def both_finished_def simp del: split_paired_All split_paired_Ex split: prod.splits sum.splits)
next
  case (AShutdown n)
  assume i: "idle_tidy w"
  let ?w1 = "on_dispatcher (\<lambda>d. d\<lparr>d_stopping := True\<rparr>) w"
  have i1: "idle_tidy ?w1" using i tidy_same [of "w_dispatcher w" "w_dispatcher ?w1"] by (simp add: idle_tidy_def)
  show ?thesis
  proof (cases "d_alive (w_dispatcher w)")
    case True
    then show ?thesis using i1 AShutdown by (simp add: dispatch_exec_def shutdown_dispatcher_def Let_def)
  next
    case False
    then show ?thesis using i i1 idle_drain [OF _ i1, of n env] AShutdown
      by (cases "drain_ready n env ?w1")
         (auto simp: dispatch_exec_def shutdown_dispatcher_def Let_def idle_tidy_def tidy_def both_finished_def simp del: split_paired_All split_paired_Ex)
  qed
qed

text \<open>
  After any sequence of calls and worker iterations, with any
  failures, no turn is kept whose client has its completion and whose callback is done or
  given up.
\<close>

theorem finished_turns_are_forgotten:
  assumes "w_dispatcher w = new_dispatcher"
  shows "let d = w_dispatcher (fold dispatch_exec as w) in
    d_processing d = [] \<and> (set (d_client_done d) \<inter> (set (d_done d) \<union> set (d_abandoned d)) = {})"
proof -
  have "idle_tidy w" by (simp add: idle_tidy_def assms new_dispatcher_def tidy_def both_finished_def del: split_paired_All split_paired_Ex)
  then have "idle_tidy (fold dispatch_exec as w)"
  proof (induction as arbitrary: w)
    case (Cons ea as)
    then show ?case using idle_exec [of w "fst ea" "snd ea"] by simp
  qed simp
  then show ?thesis by (auto simp: Let_def idle_tidy_def tidy_def both_finished_def simp del: split_paired_All split_paired_Ex)
qed


text \<open>
  While the first ready turn's callback cannot be made
  durable, an iteration of the worker only tries it again: it stays the first ready turn, and
  no pending callback of any session is handed to the transport.
\<close>

theorem failing_terminal_holds_back_delivery:
  assumes "ready_key (w_dispatcher w) = Some k"
    and "dget (d_contexts (w_dispatcher w)) k = Some c" "dget (d_snapshots (w_dispatcher w)) k = Some s"
    and "dget (d_completions (w_dispatcher w)) k = Some v"
    and "from_dict (CompletionResponse (de_model env)) v = Inr completion"
    and "\<And>u. w_file u = w_file w \<Longrightarrow> w_artifacts u = w_artifacts w
      \<Longrightarrow> \<exists>u' e. persist_completion env c completion u = (u', Inl e)"
    and "\<not> d_stopping (w_dispatcher w)" "k \<notin> set (d_persisting (w_dispatcher w))"
  shows "\<exists>w'. run_iteration env w = Some (w', Inr True) \<and> w_dispatcher w' = w_dispatcher w \<and> w_sent w' = w_sent w"
proof -
  let ?d = "(w_dispatcher w)\<lparr>d_processing := add_key k (d_processing (w_dispatcher w))\<rparr>"
  let ?w = "w\<lparr>w_dispatcher := ?d\<rparr>"
  have k: "k \<notin> set (d_processing (w_dispatcher w))" "k \<notin> set (d_done (w_dispatcher w))"
    "k \<notin> set (d_abandoned (w_dispatcher w))"
    using assms(1) ready_key_Some [of "w_dispatcher w" k] by simp_all
  obtain u e where u: "persist_completion env c completion ?w = (u, Inl e)" using assms(6) [of ?w] by auto
  obtain u2 b fe where u2: "record_fault_once env (fst k) (event_id_of env k) (fault_reason e) (Some (snd k)) u = (u2, b, fe)"
    by (cases "record_fault_once env (fst k) (event_id_of env k) (fault_reason e) (Some (snd k)) u") auto
  have d: "w_dispatcher u2 = ?d" "w_sent u2 = w_sent w"
    using persist_completion_dispatcher [of env c completion ?w] record_fault_dispatcher
      [of env "fst k" "event_id_of env k" "fault_reason e" "Some (snd k)" u]
      persist_completion_sent [of env c completion ?w] record_fault_sent
      [of env "fst k" "event_id_of env k" "fault_reason e" "Some (snd k)" u] u u2 by simp_all
  have q: "project_once env k c s ?d = Some (?d, Inr completion)" using assms(4,5) by (simp add: project_once_def)
  have r: "persist_once env k c completion ?w = Some (u2, False)"
    using k assms(7,8) u u2 d by (simp add: persist_once_def Let_def)
  have "run_iteration env w = Some (on_dispatcher (\<lambda>d. d\<lparr>d_processing := removeAll k (d_processing d)\<rparr>) u2, Inr True)"
    using assms(1,2,3) q r by (simp add: run_iteration_def Let_def process_terminal_def)
  moreover have "w_dispatcher (on_dispatcher (\<lambda>d. d\<lparr>d_processing := removeAll k (d_processing d)\<rparr>) u2) = w_dispatcher w"
    using d k by (simp add: add_key_def)
  ultimately show ?thesis using d(2) by simp
qed

end
