(* ===== verification/DispatchWitness.thy ===== *)
theory DispatchWitness
  imports StateWitness DispatchProps
begin

text \<open>
  The properties of the projection and of the callback dispatcher at concrete inputs: one
  completed turn with one agent message, projected, queued for an enabled binding, and the
  same turn with a structured output that is not a finite number.
\<close>

definition answer_item :: item_record where
  "answer_item = \<lparr>item_id = ''i'', item_type = ''agentMessage'', item_data = [(''text'', JStr ''NaN''), (''phase'', JStr ''final_answer'')]\<rparr>"

definition answered_turn :: turn_snapshot where
  "answered_turn = \<lparr>ts_turn_id = ''u'', ts_status = ''completed'', ts_error = None, ts_items = [answer_item]\<rparr>"

definition nan_loads :: "string \<Rightarrow> json option" where
  "nan_loads s = Some (JFloat NaN)"

definition plain_completion :: json where
  "plain_completion = projr (project_completion demo_model_env nan_loads demo_view answered_turn None (JFloat (Fin 1)) None)"

definition nan_completion :: json where
  "nan_completion = projr (project_completion demo_model_env nan_loads demo_view answered_turn (Some (JObj [])) (JFloat (Fin 1)) None)"

lemma demo_completions:
  "isl (project_completion demo_model_env nan_loads demo_view answered_turn None (JFloat (Fin 1)) None) = False"
  "isl (project_completion demo_model_env nan_loads demo_view answered_turn (Some (JObj [])) (JFloat (Fin 1)) None) = False"
  by code_simp+

lemma completed_turn_has_message_witness:
  "\<exists>ms. sub_obj nan_completion ''messages'' = JList ms \<and> ms \<noteq> []"
proof -
  have "project_completion demo_model_env nan_loads demo_view answered_turn (Some (JObj [])) (JFloat (Fin 1)) None = Inr nan_completion"
    using demo_completions(2) by (simp add: nan_completion_def)
  then show ?thesis
    using completed_turn_has_message [of answered_turn demo_model_env nan_loads demo_view "Some (JObj [])" "JFloat (Fin 1)" None]
    by (simp add: answered_turn_def)
qed


section \<open>Dispatcher\<close>

definition routed_binding :: binding where
  "routed_binding = demo_binding\<lparr>cb_state := Enabled, cb_target_socket := JStr ''/s'',
     cb_child_token := JStr ''0123456789abcdef0123456789abcdef'', cb_claude_session_id := JStr ''c'', cb_claude_pid := JInt 5,
     cb_claude_proc_start := JStr ''p'', cb_claude_config_dir := JStr ''/c''\<rparr>"

definition routed_file :: store_file where
  "routed_file = fst (bind demo_model_env demo_io EmptyFile routed_binding)"

definition demo_dispatch :: dispatch_env where
  "demo_dispatch = \<lparr>de_model = demo_model_env, de_project = \<lambda>_ _ _. Inl (ValueError ''not called''),
     de_encode = \<lambda>_ _. Inr ''{}'', de_send = \<lambda>_ _. Inl (OSError ''gone''), de_sha256 = \<lambda>_. demo_digest,
     de_render = \<lambda>_. ''{}'', de_monotonic = 0, de_now = ''later'', de_io = demo_io, de_artifact_dir = ''/a'',
     de_artifact = (None, Written)\<rparr>"

definition demo_context :: turn_context where
  "demo_context = \<lparr>cx_worker = demo_view, cx_schema = Some (JObj []), cx_started_at = 0, cx_recovery = default_recovery\<rparr>"

abbreviation demo_key :: turn_key where
  "demo_key \<equiv> (demo_uuid, ''u'')"

definition demo_world :: "json \<Rightarrow> world" where
  "demo_world completion = \<lparr>w_dispatcher = new_dispatcher\<lparr>d_contexts := [(demo_key, demo_context)],
       d_snapshots := [(demo_key, answered_turn)], d_completions := [(demo_key, completion)]\<rparr>,
     w_file = routed_file, w_artifacts = [], w_losses = [], w_sent = []\<rparr>"

lemma demo_dispatch_fields [simp]:
  "de_model demo_dispatch = demo_model_env" "de_io demo_dispatch = demo_io"
  by (simp_all add: demo_dispatch_def)

lemma routed_ok: "file_ok demo_model_env routed_file"
proof -
  have "binding_ok routed_binding" unfolding binding_ok_def by code_simp
  then show ?thesis
    using store_ok_run [of "[(OpBind routed_binding, demo_io)]", OF _ empty_ok]
    by (simp add: store_run_def store_exec_def routed_file_def op_ok_def)
qed

lemma plain_completion_loads: "from_dict (CompletionResponse demo_model_env) plain_completion = Inr plain_completion"
  by code_simp

lemma nan_completion_loads: "from_dict (CompletionResponse demo_model_env) nan_completion = Inr nan_completion"
  by code_simp

lemma routed_found: "binding_of demo_model_env demo_io routed_file demo_uuid = (routed_file, Inr (Some routed_binding))"
  by code_simp

lemma worker_session: "text_of (sub_obj (cx_worker demo_context) ''session_id'') = demo_uuid"
  by code_simp

lemma nan_refused: "isl (snd (choose_event demo_dispatch routed_binding nan_completion []))"
  by code_simp

lemma nan_never_stored:
  assumes "w_file w = routed_file" "w_artifacts w = []"
  shows "\<exists>w' e. persist_completion demo_dispatch demo_context nan_completion w = (w', Inl e)"
proof -
  obtain arts e where "choose_event demo_dispatch routed_binding nan_completion [] = (arts, Inl e)"
    using nan_refused by (cases "choose_event demo_dispatch routed_binding nan_completion []") (auto simp: isl_def)
  moreover have "cb_state routed_binding = Enabled" by (simp add: routed_binding_def)
  ultimately show ?thesis
    using assms routed_found worker_session by (simp add: persist_completion_def Let_def)
qed

lemma demo_world_fields [simp]:
  "w_file (demo_world c) = routed_file" "w_artifacts (demo_world c) = []" "w_sent (demo_world c) = []"
  "ready_key (w_dispatcher (demo_world c)) = Some demo_key" "\<not> d_stopping (w_dispatcher (demo_world c))"
  "d_persisting (w_dispatcher (demo_world c)) = []" "d_done (w_dispatcher (demo_world c)) = []"
  "d_abandoned (w_dispatcher (demo_world c)) = []" "dget (d_contexts (w_dispatcher (demo_world c))) demo_key = Some demo_context"
  "dget (d_snapshots (w_dispatcher (demo_world c))) demo_key = Some answered_turn"
  "dget (d_completions (w_dispatcher (demo_world c))) demo_key = Some c"
  by (simp_all add: demo_world_def new_dispatcher_def ready_key_def ready_keys_def dhas_def)

lemma failing_terminal_holds_back_delivery_witness:
  "\<exists>w. run_iteration demo_dispatch (demo_world nan_completion) = Some (w, Inr True)
    \<and> w_dispatcher w = w_dispatcher (demo_world nan_completion) \<and> w_sent w = []"
  using failing_terminal_holds_back_delivery [of "demo_world nan_completion" demo_key demo_context answered_turn
      nan_completion demo_dispatch nan_completion] nan_completion_loads nan_never_stored
  by simp

lemma plain_stored:
  "(case persist_once demo_dispatch demo_key demo_context plain_completion (demo_world plain_completion) of
     Some (_, b) \<Rightarrow> b | None \<Rightarrow> False)"
  by code_simp


lemma finished_turns_are_forgotten_witness:
  "d_processing (w_dispatcher (fold dispatch_exec [(demo_dispatch, ATerminal demo_uuid answered_turn), (demo_dispatch, AIterate)]
     ((demo_world plain_completion)\<lparr>w_dispatcher := new_dispatcher\<rparr>))) = []"
  using finished_turns_are_forgotten [of "(demo_world plain_completion)\<lparr>w_dispatcher := new_dispatcher\<rparr>"
      "[(demo_dispatch, ATerminal demo_uuid answered_turn), (demo_dispatch, AIterate)]"]
  by (simp add: Let_def)

end
