(* ===== verification/Acts.thy ===== *)
theory Acts
  imports Faults
begin

text \<open>
  Statements that may raise and that change a state: an act maps the state before to its
  outcome and the state after, also when it raises. \<open>attempt\<close> is a \<open>try\<close> statement with a handler,
  \<open>finally\<close> one with a clean-up that always runs.
\<close>

type_synonym ('s, 'a) act = "'s \<Rightarrow> (exn, 'a) res \<times> 's"

definition ret :: "'a \<Rightarrow> ('s, 'a) act" where
  "ret x s = (Inr x, s)"

definition raise :: "exn \<Rightarrow> ('s, 'a) act" where
  "raise e s = (Inl e, s)"

definition andthen :: "('s, 'a) act \<Rightarrow> ('a \<Rightarrow> ('s, 'b) act) \<Rightarrow> ('s, 'b) act" where
  "andthen m f s = (case m s of (Inl e, s') \<Rightarrow> (Inl e, s') | (Inr x, s') \<Rightarrow> f x s')"

definition lift :: "(exn, 'a) res \<Rightarrow> ('s, 'a) act" where
  "lift r s = (r, s)"

definition guard :: "bool \<Rightarrow> exn \<Rightarrow> ('s, unit) act" where
  "guard ok e s = (if ok then (Inr (), s) else (Inl e, s))"

definition observe :: "('s \<Rightarrow> 'a) \<Rightarrow> ('s, 'a) act" where
  "observe f s = (Inr (f s), s)"

definition modify :: "('s \<Rightarrow> 's) \<Rightarrow> ('s, unit) act" where
  "modify f s = (Inr (), f s)"

definition attempt :: "('s, 'a) act \<Rightarrow> (exn \<Rightarrow> ('s, 'a) act) \<Rightarrow> ('s, 'a) act" where
  "attempt m h s = (case m s of (Inl e, s') \<Rightarrow> h e s' | (Inr x, s') \<Rightarrow> (Inr x, s'))"

definition always :: "('s, 'a) act \<Rightarrow> ('s \<Rightarrow> 's) \<Rightarrow> ('s, 'a) act" where
  "always m f s = (case m s of (r, s') \<Rightarrow> (r, f s'))"

fun each :: "('x \<Rightarrow> ('s, 'a) act) \<Rightarrow> 'x list \<Rightarrow> ('s, 'a list) act" where
  "each f [] = ret []"
| "each f (x # xs) = andthen (f x) (\<lambda>y. andthen (each f xs) (\<lambda>ys. ret (y # ys)))"

named_theorems act_defs \<open>the meaning of the statements\<close>

lemmas [act_defs] = ret_def raise_def andthen_def lift_def guard_def observe_def modify_def attempt_def always_def

section \<open>Postconditions\<close>

text \<open>
  \<open>hoare P m Q E\<close>: from a state with \<open>P\<close>, a normal return satisfies \<open>Q\<close> and a raise \<open>E\<close>. The rules
  follow the statements.
\<close>

definition hoare :: "('s \<Rightarrow> bool) \<Rightarrow> ('s, 'a) act \<Rightarrow> ('a \<Rightarrow> 's \<Rightarrow> bool) \<Rightarrow> (exn \<Rightarrow> 's \<Rightarrow> bool) \<Rightarrow> bool" where
  "hoare P m Q E \<longleftrightarrow> (\<forall>s. P s \<longrightarrow> (case m s of (Inr x, s') \<Rightarrow> Q x s' | (Inl e, s') \<Rightarrow> E e s'))"

lemma hoareD: "hoare P m Q E \<Longrightarrow> P s \<Longrightarrow> m s = (Inr x, s') \<Longrightarrow> Q x s'"
  "hoare P m Q E \<Longrightarrow> P s \<Longrightarrow> m s = (Inl e, s') \<Longrightarrow> E e s'"
  by (fastforce simp: hoare_def)+

lemma hoareI:
  assumes "\<And>s x s'. P s \<Longrightarrow> m s = (Inr x, s') \<Longrightarrow> Q x s'" "\<And>s e s'. P s \<Longrightarrow> m s = (Inl e, s') \<Longrightarrow> E e s'"
  shows "hoare P m Q E"
  using assms by (auto simp: hoare_def split: prod.splits sum.splits)

lemma hoare_weaken:
  "hoare P' m Q' E' \<Longrightarrow> (\<And>s. P s \<Longrightarrow> P' s) \<Longrightarrow> (\<And>x s. Q' x s \<Longrightarrow> Q x s) \<Longrightarrow> (\<And>e s. E' e s \<Longrightarrow> E e s)
    \<Longrightarrow> hoare P m Q E"
  by (fastforce simp: hoare_def split: prod.splits sum.splits)

lemma hoare_andthen:
  "hoare P m R E \<Longrightarrow> (\<And>x. hoare (R x) (f x) Q E) \<Longrightarrow> hoare P (andthen m f) Q E"
  by (fastforce simp: hoare_def andthen_def split: prod.splits sum.splits)

lemma hoare_attempt:
  "hoare P m Q E' \<Longrightarrow> (\<And>e. hoare (E' e) (h e) Q E) \<Longrightarrow> hoare P (attempt m h) Q E"
  by (fastforce simp: hoare_def attempt_def split: prod.splits sum.splits)

lemma hoare_always:
  "hoare P m (\<lambda>x s. Q x (f s)) (\<lambda>e s. E e (f s)) \<Longrightarrow> hoare P (always m f) Q E"
  by (fastforce simp: hoare_def always_def split: prod.splits sum.splits)

lemma hoare_basic [intro]:
  "(\<And>s. P s \<Longrightarrow> Q x s) \<Longrightarrow> hoare P (ret x) Q E"
  "(\<And>s. P s \<Longrightarrow> E e s) \<Longrightarrow> hoare P (raise e) Q E"
  "(\<And>s. P s \<Longrightarrow> Q (g s) s) \<Longrightarrow> hoare P (observe g) Q E"
  "(\<And>s. P s \<Longrightarrow> Q () (u s)) \<Longrightarrow> hoare P (modify u) Q E"
  "(\<And>s. P s \<Longrightarrow> ok \<Longrightarrow> Q () s) \<Longrightarrow> (\<And>s. P s \<Longrightarrow> \<not> ok \<Longrightarrow> E e s) \<Longrightarrow> hoare P (guard ok e) Q E"
  by (auto simp: hoare_def ret_def raise_def observe_def modify_def guard_def)

lemma hoare_lift:
  "(\<And>s x. P s \<Longrightarrow> r = Inr x \<Longrightarrow> Q x s) \<Longrightarrow> (\<And>s e. P s \<Longrightarrow> r = Inl e \<Longrightarrow> E e s) \<Longrightarrow> hoare P (lift r) Q E"
  by (cases r) (auto simp: hoare_def lift_def)

lemma hoare_each:
  assumes "\<And>x. x \<in> set xs \<Longrightarrow> hoare I (f x) (\<lambda>y s. I s) E"
  shows "hoare I (each f xs) (\<lambda>ys s. I s) E"
  using assms
proof (induction xs)
  case (Cons x xs)
  show ?case
    unfolding each.simps
    by (rule hoare_andthen, rule Cons.prems, simp, rule hoare_andthen, rule Cons.IH, rule Cons.prems)
      (auto simp: hoare_def ret_def)
qed (simp add: hoare_def ret_def)

section \<open>Frames\<close>

text \<open>
  \<open>keeps R m\<close>: the state after \<open>m\<close>, however it ends, is related to the state before. For a
  reflexive and transitive relation it follows the statements.
\<close>

definition keeps :: "('s \<Rightarrow> 's \<Rightarrow> bool) \<Rightarrow> ('s, 'a) act \<Rightarrow> bool" where
  "keeps R m \<longleftrightarrow> (\<forall>s. R s (snd (m s)))"

lemma keepsD: "keeps R m \<Longrightarrow> m s = (r, s') \<Longrightarrow> R s s'"
  by (metis keeps_def snd_conv)

lemma keepsI: "(\<And>s r s'. m s = (r, s') \<Longrightarrow> R s s') \<Longrightarrow> keeps R m"
  by (simp add: keeps_def) (metis prod.collapse)

locale frame_relation =
  fixes R :: "'s \<Rightarrow> 's \<Rightarrow> bool"
  assumes frame_refl: "R s s" and frame_trans: "R s t \<Longrightarrow> R t u \<Longrightarrow> R s u"
begin

lemma basic: "keeps R (ret x)" "keeps R (raise e)" "keeps R (guard b e)" "keeps R (lift r)"
  "keeps R (observe f)"
  by (simp_all add: keeps_def act_defs frame_refl)

lemma sequence: "keeps R m \<Longrightarrow> (\<And>x. keeps R (f x)) \<Longrightarrow> keeps R (andthen m f)"
  by (auto simp: keeps_def andthen_def split: prod.splits sum.splits) (metis frame_trans snd_conv)+

lemma handler: "keeps R m \<Longrightarrow> (\<And>e. keeps R (h e)) \<Longrightarrow> keeps R (attempt m h)"
  by (auto simp: keeps_def attempt_def split: prod.splits sum.splits) (metis frame_trans snd_conv)+

lemma loop: "(\<And>x. keeps R (f x)) \<Longrightarrow> keeps R (each f xs)"
  by (induction xs) (auto intro!: basic sequence)

lemma branch: "(b \<Longrightarrow> keeps R m) \<Longrightarrow> (\<not> b \<Longrightarrow> keeps R n) \<Longrightarrow> keeps R (if b then m else n)"
  by simp

lemma option_cases:
  "(x = None \<Longrightarrow> keeps R m) \<Longrightarrow> (\<And>y. x = Some y \<Longrightarrow> keeps R (n y)) \<Longrightarrow> keeps R (case x of None \<Rightarrow> m | Some y \<Rightarrow> n y)"
  by (cases x) auto

lemma pair_cases: "(\<And>x y. p = (x, y) \<Longrightarrow> keeps R (m x y)) \<Longrightarrow> keeps R (case p of (x, y) \<Rightarrow> m x y)"
  by (cases p) auto

lemmas rules = basic sequence handler loop branch option_cases pair_cases

end

end
