(* ===== verification/Paths.thy ===== *)
theory Paths
  imports Acts
begin

text \<open>
  Paths as \<open>pathlib\<close> and \<open>os.path\<close> treat them on a POSIX system, what \<open>lstat\<close> tells of one, and
  \<open>path_security.py\<close>: which directories above a path may be trusted.
\<close>

unbundle bit_operations_syntax

section \<open>Path strings\<close>

fun split_on :: "char \<Rightarrow> string \<Rightarrow> string list" where
  "split_on c [] = [[]]"
| "split_on c (x # xs) = (if x = c then [] # split_on c xs
     else (case split_on c xs of [] \<Rightarrow> [[x]] | p # ps \<Rightarrow> (x # p) # ps))"

fun join_with :: "string \<Rightarrow> string list \<Rightarrow> string" where
  "join_with s [] = []"
| "join_with s [p] = p"
| "join_with s (p # q # ps) = p @ s @ join_with s (q # ps)"

definition slash :: char where
  "slash = CHR 0x2F"

text \<open>The anchor: exactly two leading slashes are kept, any other number is one.\<close>

definition path_anchor :: "string \<Rightarrow> string" where
  "path_anchor p = (if \<not> is_absolute p then []
     else if startswith p ''//'' \<and> \<not> startswith p ''///'' then ''//'' else ''/'')"

text \<open>\<open>Path(p).parts\<close> without the anchor.\<close>

definition path_parts :: "string \<Rightarrow> string list" where
  "path_parts p = filter (\<lambda>c. c \<noteq> [] \<and> c \<noteq> ''.'') (split_on slash p)"

definition of_parts :: "string \<Rightarrow> string list \<Rightarrow> string" where
  "of_parts anchor ps = (let s = anchor @ join_with [slash] ps in if s = [] then ''.'' else s)"

text \<open>\<open>str(Path(p))\<close>, its name and its parent.\<close>

definition posix_path :: "string \<Rightarrow> string" where
  "posix_path p = of_parts (path_anchor p) (path_parts p)"

definition path_name :: "string \<Rightarrow> string" where
  "path_name p = (case rev (path_parts p) of [] \<Rightarrow> [] | c # _ \<Rightarrow> c)"

definition path_parent :: "string \<Rightarrow> string" where
  "path_parent p = of_parts (path_anchor p) (butlast (path_parts p))"

definition path_join :: "string \<Rightarrow> string \<Rightarrow> string" where
  "path_join p c = (if is_absolute c then posix_path c
     else of_parts (path_anchor p) (path_parts p @ path_parts c))"

text \<open>\<open>os.path.abspath\<close>: dots are collapsed without looking at the file system.\<close>

fun collapse :: "bool \<Rightarrow> string list \<Rightarrow> string list \<Rightarrow> string list" where
  "collapse rooted acc [] = rev acc"
| "collapse rooted acc (c # cs) =
     (if c = ''..'' then (case acc of
        [] \<Rightarrow> collapse rooted (if rooted then [] else [c]) cs
      | a # rest \<Rightarrow> if a = ''..'' then collapse rooted (c # acc) cs else collapse rooted rest cs)
      else collapse rooted (c # acc) cs)"

definition abspath :: "string \<Rightarrow> string \<Rightarrow> string" where
  "abspath cwd p =
     (let q = (if is_absolute p then p else cwd @ [slash] @ p)
      in of_parts (path_anchor q) (collapse (is_absolute q) [] (path_parts q)))"

section \<open>File metadata\<close>

datatype file_kind = DirectoryKind | RegularKind | SocketKind | LinkKind | OtherKind

type_synonym file_mode = "12 word"

record file_meta =
  fm_kind :: file_kind
  fm_mode :: file_mode
  fm_uid :: int
  fm_id :: "int \<times> int"

text \<open>One look at the file system: \<open>None\<close> is an OSError.\<close>

record fs_look =
  fs_lstat :: "string \<Rightarrow> file_meta option"
  fs_stat :: "string \<Rightarrow> file_meta option"

definition shared_bits :: file_mode where
  "shared_bits = 0x12"

definition sticky_bit :: file_mode where
  "sticky_bit = 0x200"

definition others_write :: "file_meta \<Rightarrow> bool" where
  "others_write m \<longleftrightarrow> fm_mode m AND shared_bits \<noteq> 0"

definition sticky :: "file_meta \<Rightarrow> bool" where
  "sticky m \<longleftrightarrow> fm_mode m AND sticky_bit \<noteq> 0"

section \<open>Unsafe ancestors\<close>

definition child_of :: "string \<Rightarrow> string \<Rightarrow> string" where
  "child_of current c = (if current \<noteq> [] \<and> last current = slash then current @ c else current @ [slash] @ c)"

text \<open>What the walk sees of one component; a link is followed only directly below the root, owned by root.\<close>

definition seen_meta :: "fs_look \<Rightarrow> string \<Rightarrow> string \<Rightarrow> string \<Rightarrow> file_meta option" where
  "seen_meta fs anchor parent current = (case fs_lstat fs current of
     None \<Rightarrow> None
   | Some m \<Rightarrow>
       if fm_kind m = LinkKind
       then (if parent \<noteq> anchor \<or> fm_uid m \<noteq> 0 then None else fs_stat fs current)
       else Some m)"

fun ancestor_walk :: "fs_look \<Rightarrow> int \<Rightarrow> string \<Rightarrow> string \<Rightarrow> string list \<Rightarrow> bool \<Rightarrow> bool \<Rightarrow> string option" where
  "ancestor_walk fs uid anchor parent [] controlled shared = None"
| "ancestor_walk fs uid anchor parent (c # cs) controlled shared =
     (let current = child_of parent c in case seen_meta fs anchor parent current of
        None \<Rightarrow> Some current
      | Some m \<Rightarrow>
          if fm_kind m \<noteq> DirectoryKind \<or> others_write m \<and> \<not> sticky m then Some current
          else if fm_uid m = uid then ancestor_walk fs uid anchor current cs True shared
          else if sticky m \<and> others_write m then ancestor_walk fs uid anchor current cs False True
          else if fm_uid m \<noteq> 0 \<or> controlled \<or> shared then Some current
          else ancestor_walk fs uid anchor current cs controlled shared)"

definition unsafe_ancestor :: "fs_look \<Rightarrow> int \<Rightarrow> string \<Rightarrow> string \<Rightarrow> string option" where
  "unsafe_ancestor fs uid cwd path =
     (let a = abspath cwd path
      in ancestor_walk fs uid (path_anchor a) (path_anchor a) (path_parts a) False False)"

section \<open>What an accepted path looks like\<close>

text \<open>
  The metadata of the successive ancestors, and the classes the policy puts a directory in:
  the user's own, one others may write to that is sticky, and a plain one of root's.
\<close>

fun ancestor_metas :: "fs_look \<Rightarrow> string \<Rightarrow> string \<Rightarrow> string list \<Rightarrow> file_meta option list" where
  "ancestor_metas fs anchor parent [] = []"
| "ancestor_metas fs anchor parent (c # cs) =
     seen_meta fs anchor parent (child_of parent c) # ancestor_metas fs anchor (child_of parent c) cs"

definition guarded_directory :: "file_meta \<Rightarrow> bool" where
  "guarded_directory m \<longleftrightarrow> fm_kind m = DirectoryKind \<and> (others_write m \<longrightarrow> sticky m)"

definition own_directory :: "int \<Rightarrow> file_meta \<Rightarrow> bool" where
  "own_directory uid m \<longleftrightarrow> guarded_directory m \<and> fm_uid m = uid"

definition shared_directory :: "file_meta \<Rightarrow> bool" where
  "shared_directory m \<longleftrightarrow> guarded_directory m \<and> others_write m"

definition root_directory :: "int \<Rightarrow> file_meta \<Rightarrow> bool" where
  "root_directory uid m \<longleftrightarrow> guarded_directory m \<and> fm_uid m = 0 \<and> fm_uid m \<noteq> uid \<and> \<not> others_write m"

lemma walk_accepts_late:
  "controlled \<or> shared \<Longrightarrow> ancestor_walk fs uid anchor parent cs controlled shared = None \<longleftrightarrow>
     list_all (\<lambda>om. \<exists>m. om = Some m \<and> (own_directory uid m \<or> shared_directory m)) (ancestor_metas fs anchor parent cs)"
proof (induction cs arbitrary: parent controlled shared)
  case (Cons c cs)
  show ?case
  proof (cases "seen_meta fs anchor parent (child_of parent c)")
    case (Some m)
    then show ?thesis
      using Cons.IH [of True shared "child_of parent c"] Cons.IH [of False True "child_of parent c"] Cons.prems
      by (auto simp: Let_def own_directory_def shared_directory_def guarded_directory_def)
  qed (simp add: Let_def)
qed simp

lemma split_some:
  "(\<exists>roots rest. Some m # oms = map Some roots @ map Some rest \<and> list_all P roots \<and> list_all Q rest) \<longleftrightarrow>
     P m \<and> (\<exists>roots rest. oms = map Some roots @ map Some rest \<and> list_all P roots \<and> list_all Q rest)
     \<or> Q m \<and> (\<exists>rest. oms = map Some rest \<and> list_all Q rest)"
  (is "?lhs \<longleftrightarrow> ?rhs")
proof
  assume ?lhs
  then obtain roots rest where eq: "Some m # oms = map Some roots @ map Some rest"
    and all: "list_all P roots" "list_all Q rest" by blast
  show ?rhs
  proof (cases roots)
    case Nil
    with eq all show ?thesis by (cases rest) auto
  next
    case (Cons r rs)
    with eq all have "P m" "oms = map Some rs @ map Some rest" "list_all P rs" by simp_all
    with all(2) show ?thesis by blast
  qed
next
  assume ?rhs
  then show ?lhs
  proof (elim disjE conjE exE)
    fix roots rest
    assume "P m" "oms = map Some roots @ map Some rest" "list_all P roots" "list_all Q rest"
    then show ?lhs by (intro exI [of _ "m # roots"] exI [of _ rest]) simp
  next
    fix rest
    assume "Q m" "oms = map Some rest" "list_all Q rest"
    then show ?lhs by (intro exI [of _ "[]"] exI [of _ "m # rest"]) simp
  qed
qed

lemma all_some:
  "list_all (\<lambda>om. \<exists>m. om = Some m \<and> Q m) oms \<longleftrightarrow> (\<exists>rest. oms = map Some rest \<and> list_all Q rest)"
proof (induction oms)
  case (Cons om oms)
  have "om # oms = map Some rest \<longleftrightarrow> (\<exists>m rs. rest = m # rs \<and> om = Some m \<and> oms = map Some rs)" for rest
    by (cases rest) auto
  then show ?case using Cons by auto
qed simp

lemma walk_step:
  assumes "seen_meta fs anchor parent (child_of parent c) = Some m"
  shows "ancestor_walk fs uid anchor parent (c # cs) False False = None \<longleftrightarrow>
    (if own_directory uid m then ancestor_walk fs uid anchor (child_of parent c) cs True False = None
     else if shared_directory m then ancestor_walk fs uid anchor (child_of parent c) cs False True = None
     else root_directory uid m \<and> ancestor_walk fs uid anchor (child_of parent c) cs False False = None)"
  using assms by (auto simp: Let_def own_directory_def shared_directory_def root_directory_def guarded_directory_def)

lemma walk_accepts:
  "ancestor_walk fs uid anchor parent cs False False = None \<longleftrightarrow>
     (\<exists>roots rest. ancestor_metas fs anchor parent cs = map Some roots @ map Some rest
        \<and> list_all (root_directory uid) roots
        \<and> list_all (\<lambda>m. own_directory uid m \<or> shared_directory m) rest)"
proof (induction cs arbitrary: parent)
  case (Cons c cs)
  let ?p = "child_of parent c"
  show ?case
  proof (cases "seen_meta fs anchor parent ?p")
    case (Some m)
    have "\<not> (root_directory uid m \<and> (own_directory uid m \<or> shared_directory m))"
      by (auto simp: root_directory_def own_directory_def shared_directory_def)
    then show ?thesis
      unfolding walk_step [OF Some] ancestor_metas.simps Some split_some
        walk_accepts_late [of True False, simplified, unfolded all_some]
        walk_accepts_late [of False True, simplified, unfolded all_some] Cons.IH
      by argo
  qed (auto simp: Let_def Cons_eq_append_conv Cons_eq_map_conv)
qed simp

text \<open>
  A path is accepted exactly when its ancestors can all be looked at and are directories
  that others may write to only under a sticky bit, first plain ones of root, then, down to the
  path itself, only the user's own and shared sticky ones.
\<close>

theorem accepted_ancestors:
  "unsafe_ancestor fs uid cwd path = None \<longleftrightarrow>
     (\<exists>roots rest. ancestor_metas fs (path_anchor (abspath cwd path)) (path_anchor (abspath cwd path))
            (path_parts (abspath cwd path)) = map Some roots @ map Some rest
        \<and> list_all (root_directory uid) roots
        \<and> list_all (\<lambda>m. own_directory uid m \<or> shared_directory m) rest)"
  by (simp add: unsafe_ancestor_def Let_def walk_accepts)

text \<open>
  the policy names root-owned sticky directories; a sticky directory of any other user is
  accepted too, although its owner can replace what is in it.
\<close>

theorem foreign_sticky_accepted:
  assumes "path_parts (abspath cwd path) = [a]" "path_anchor (abspath cwd path) = ''/''"
    and "fs_lstat fs (''/'' @ a) = Some m" "fm_kind m = DirectoryKind" "fm_mode m = 0x3FF" "fm_uid m \<noteq> 0"
  shows "unsafe_ancestor fs uid cwd path = None"
  using assms
  by (simp add: unsafe_ancestor_def Let_def seen_meta_def child_of_def slash_def others_write_def sticky_def
      shared_bits_def sticky_bit_def)

end
