(* ===== verification/ClaudeTransport.thy ===== *)
theory ClaudeTransport
  imports Paths CallbackStore
begin

text \<open>
  \<open>claude_transport.py\<close>: resolving the inbox socket of a Claude session, encoding one callback
  as a user line, and writing it. The host answers every system call by the moment it is made:
  the clock of the state counts the calls, so the file system may change between two looks.
  The state also counts the open sockets and keeps what was written to them.

  Parameters of the host: the file system, \<open>ps\<close>, \<open>strptime\<close> with the local time zone, JSON text
  (\<open>json.loads\<close>, and \<open>json.dumps\<close> with sorted keys, compact separators and no NaN), the digests. Creating a socket succeeds.
\<close>

section \<open>The host\<close>

record claude_host =
  ch_look :: "nat \<Rightarrow> fs_look"
  ch_read :: "nat \<Rightarrow> string \<Rightarrow> string option"
  ch_resolve :: "nat \<Rightarrow> string \<Rightarrow> string option"
  ch_glob :: "nat \<Rightarrow> string \<Rightarrow> string list option"
  ch_present :: "nat \<Rightarrow> string \<Rightarrow> bool"
  ch_connect :: "nat \<Rightarrow> string \<Rightarrow> bool"
  ch_shutdown :: "nat \<Rightarrow> string \<Rightarrow> bool"
  ch_write :: "nat \<Rightarrow> string \<Rightarrow> bool"
  ch_ps :: "nat \<Rightarrow> int \<Rightarrow> string option"
  ch_registry_time :: "string \<Rightarrow> int option"
  ch_process_time :: "string \<Rightarrow> int option"
  ch_uid :: int
  ch_cwd :: string
  ch_home :: string
  ch_loads :: "string \<Rightarrow> json option"
  ch_dumps :: "json \<Rightarrow> string option"
  ch_uuid5 :: "string \<Rightarrow> string"
  ch_sha256 :: "string \<Rightarrow> string"
  ch_now :: string

record link_state =
  ls_clock :: nat
  ls_open :: nat
  ls_sent :: "(string \<times> string) list"

type_synonym 'a link_act = "(link_state, 'a) act"

text \<open>A system call: its answer at the present moment.\<close>

definition syscall :: "(nat \<Rightarrow> 'a) \<Rightarrow> 'a link_act" where
  "syscall f s = (Inr (f (ls_clock s)), s\<lparr>ls_clock := Suc (ls_clock s)\<rparr>)"

definition claude_fault :: "facade_code \<Rightarrow> string \<Rightarrow> exn" where
  "claude_fault c m = facade_exn c m False ''codex-worker'' JNull JNull JNull"

definition retryable_fault :: "facade_code \<Rightarrow> string \<Rightarrow> exn" where
  "retryable_fault c m = facade_exn c m True ''codex-worker'' JNull JNull JNull"

definition fault_is :: "facade_code \<Rightarrow> exn \<Rightarrow> bool" where
  "fault_is c e = (case e of FacadeFault f \<Rightarrow> ff_code f = c | _ \<Rightarrow> False)"

section \<open>Pure checks\<close>

definition text_of_json :: "json \<Rightarrow> string" where
  "text_of_json v = (case as_str v of None \<Rightarrow> [] | Some s \<Rightarrow> s)"

definition MAX_USER_LINE_UTF16_UNITS :: nat where
  "MAX_USER_LINE_UTF16_UNITS = 1048576"

definition same_process_start :: "claude_host \<Rightarrow> string \<Rightarrow> string option \<Rightarrow> bool" where
  "same_process_start h registry ps = (case ps of
     None \<Rightarrow> False
   | Some p \<Rightarrow> registry = p \<or>
       (case (ch_registry_time h (py_strip registry), ch_process_time h (py_strip p)) of
          (Some a, Some b) \<Rightarrow> a = b | _ \<Rightarrow> False))"

definition is_hex32 :: "json \<Rightarrow> bool" where
  "is_hex32 v = (case as_str v of None \<Rightarrow> False | Some s \<Rightarrow> length s = 32 \<and> list_all (\<lambda>c. c \<in> set hex_set) s)"

definition pid_socket_basename_matches :: "json \<Rightarrow> json \<Rightarrow> bool" where
  "pid_socket_basename_matches path pid = (case (as_str path, as_int pid) of
     (Some p, Some n) \<Rightarrow> 0 < n \<and> path_name p = show_int n @ ''.sock'' | _ \<Rightarrow> False)"

text \<open>An idle interactive session without an inbox is skipped; any other record must be complete.\<close>

definition without_inbox :: "json_object \<Rightarrow> bool" where
  "without_inbox r \<longleftrightarrow> jget r ''messagingSocketPath'' = JNull \<and> jget r ''kind'' = JStr ''interactive''
     \<and> jget r ''status'' = JStr ''idle''
     \<and> (case as_int (jget r ''pid'') of None \<Rightarrow> False | Some n \<Rightarrow> 0 < n)
     \<and> list_all (\<lambda>k. as_nonempty (jget r k) \<noteq> None) [''sessionId'', ''procStart'']"

definition inbox_record_ok :: "json_object \<Rightarrow> bool" where
  "inbox_record_ok r \<longleftrightarrow>
     list_all (dhas r) [''pid'', ''sessionId'', ''messagingSocketPath'', ''procStart'']
     \<and> (case as_int (jget r ''pid'') of None \<Rightarrow> False | Some n \<Rightarrow> 0 < n)
     \<and> list_all (\<lambda>k. as_nonempty (jget r k) \<noteq> None) [''sessionId'', ''messagingSocketPath'', ''procStart'']
     \<and> (case as_str (jget r ''messagingSocketPath'') of None \<Rightarrow> False | Some p \<Rightarrow> is_absolute p)
     \<and> pid_socket_basename_matches (jget r ''messagingSocketPath'') (jget r ''pid'')
     \<and> (dhas r ''name'' \<and> jget r ''name'' \<noteq> JNull \<longrightarrow> as_nonempty (jget r ''name'') \<noteq> None)"

definition matches_capture :: "json_object \<Rightarrow> json_object \<Rightarrow> bool" where
  "matches_capture r capture \<longleftrightarrow> jget r ''sessionId'' = jget capture ''claude_session_id''
     \<and> jget r ''pid'' = jget capture ''claude_pid'' \<and> jget r ''procStart'' = jget capture ''claude_proc_start''
     \<and> jget r ''messagingSocketPath'' = jget capture ''target_socket''"

section \<open>Directories and files\<close>

definition trusted_at :: "claude_host \<Rightarrow> nat \<Rightarrow> string \<Rightarrow> bool" where
  "trusted_at h t path \<longleftrightarrow> unsafe_ancestor (ch_look h t) (ch_uid h) (ch_cwd h) path = None"

definition safe_directory :: "claude_host \<Rightarrow> string \<Rightarrow> file_mode option \<Rightarrow> unit link_act" where
  "safe_directory h path exact =
     andthen (syscall (\<lambda>t. fs_lstat (ch_look h t) path)) (\<lambda>om. case om of
       None \<Rightarrow> raise (claude_fault CALLBACK_TARGET_UNSAFE ''Claude callback directory is unavailable'')
     | Some m \<Rightarrow>
       (let unsafe = claude_fault CALLBACK_TARGET_UNSAFE ''Claude callback directory is unsafe'' in
        andthen (guard (fm_kind m = DirectoryKind \<and> fm_uid m = ch_uid h \<and> \<not> others_write m
            \<and> (exact = None \<or> exact = Some (fm_mode m))) unsafe) (\<lambda>_.
        andthen (syscall (\<lambda>t. trusted_at h t path)) (\<lambda>ok. guard ok unsafe))))"

definition safe_config_root :: "claude_host \<Rightarrow> string \<Rightarrow> string link_act" where
  "safe_config_root h value =
     (let path = posix_path value;
          bad = claude_fault CALLBACK_TARGET_UNSAFE ''Claude callback config root is not canonical'' in
      andthen (guard (is_absolute path \<and> abspath (ch_cwd h) path = path) bad) (\<lambda>_.
      andthen (syscall (\<lambda>t. ch_resolve h t path)) (\<lambda>oc. case oc of
        None \<Rightarrow> raise (claude_fault CALLBACK_TARGET_UNSAFE ''Claude callback config root is unavailable'')
      | Some canonical \<Rightarrow>
        andthen (guard (canonical = path) bad) (\<lambda>_.
        andthen (safe_directory h path None) (\<lambda>_.
        andthen (safe_directory h (path_join path ''sessions'') (Some 0x1C0)) (\<lambda>_. ret canonical))))))"

definition safe_file :: "claude_host \<Rightarrow> string \<Rightarrow> file_mode \<Rightarrow> string link_act" where
  "safe_file h path mode =
     (let unsafe = claude_fault CALLBACK_TARGET_UNSAFE ''Claude callback metadata file is unsafe'' in
      andthen (syscall (\<lambda>t. fs_lstat (ch_look h t) path)) (\<lambda>before. case before of
        None \<Rightarrow> raise unsafe
      | Some m \<Rightarrow>
        andthen (guard (fm_kind m = RegularKind \<and> fm_uid m = ch_uid h \<and> fm_mode m = mode) unsafe) (\<lambda>_.
        andthen (syscall (\<lambda>t. trusted_at h t (path_parent path))) (\<lambda>ok.
        andthen (guard ok unsafe) (\<lambda>_.
        andthen (syscall (\<lambda>t. ch_read h t path)) (\<lambda>data. case data of
          None \<Rightarrow> raise unsafe
        | Some bytes \<Rightarrow>
          andthen (syscall (\<lambda>t. fs_lstat (ch_look h t) path)) (\<lambda>after. case after of
            None \<Rightarrow> raise unsafe
          | Some m' \<Rightarrow> andthen (guard (fm_id m = fm_id m') unsafe) (\<lambda>_. ret bytes))))))))"

definition record_of_file :: "claude_host \<Rightarrow> string \<Rightarrow> json_object option link_act" where
  "record_of_file h path =
     andthen (safe_file h path 0x1A4) (\<lambda>raw. case ch_loads h raw of
       None \<Rightarrow> raise (claude_fault CALLBACK_TARGET_UNSAFE ''Claude callback registry contains malformed JSON'')
     | Some v \<Rightarrow> (case as_obj v of
         None \<Rightarrow> raise (claude_fault CALLBACK_TARGET_UNSAFE ''Claude callback registry contains a malformed record'')
       | Some r \<Rightarrow> if without_inbox r then ret None
           else if inbox_record_ok r then ret (Some r)
           else raise (claude_fault CALLBACK_TARGET_UNSAFE ''Claude callback registry contains a malformed record'')))"

definition claude_records :: "claude_host \<Rightarrow> string \<Rightarrow> json_object list link_act" where
  "claude_records h base =
     andthen (syscall (\<lambda>t. ch_glob h t (path_join base ''sessions''))) (\<lambda>paths. case paths of
       None \<Rightarrow> raise (claude_fault CALLBACK_TARGET_UNSAFE ''Claude callback registry cannot be scanned'')
     | Some ps \<Rightarrow> andthen (each (record_of_file h) ps) (\<lambda>rs. ret (List.map_filter (\<lambda>r. r) rs)))"

section \<open>Sockets\<close>

definition socket_meta_ok :: "claude_host \<Rightarrow> string \<Rightarrow> file_meta \<Rightarrow> bool" where
  "socket_meta_ok h path m \<longleftrightarrow> is_absolute path \<and> fm_mode m = 0x180 \<and> fm_kind m = SocketKind \<and> fm_uid m = ch_uid h"

definition socket_metadata :: "claude_host \<Rightarrow> string \<Rightarrow> file_meta link_act" where
  "socket_metadata h path =
     andthen (syscall (\<lambda>t. fs_lstat (ch_look h t) path)) (\<lambda>om. case om of
       None \<Rightarrow> raise (claude_fault CALLBACK_TARGET_STALE ''Claude callback socket is unavailable'')
     | Some m \<Rightarrow>
       (let unsafe = claude_fault CALLBACK_TARGET_UNSAFE ''Claude callback socket is unsafe'' in
        andthen (guard (socket_meta_ok h path m) unsafe) (\<lambda>_.
        andthen (syscall (\<lambda>t. trusted_at h t (path_parent path))) (\<lambda>ok.
        andthen (guard ok unsafe) (\<lambda>_. ret m)))))"

definition open_socket :: "link_state \<Rightarrow> link_state" where
  "open_socket s = s\<lparr>ls_open := Suc (ls_open s)\<rparr>"

definition close_socket :: "link_state \<Rightarrow> link_state" where
  "close_socket s = s\<lparr>ls_open := ls_open s - 1\<rparr>"

definition open_verified_socket :: "claude_host \<Rightarrow> string \<Rightarrow> unit link_act" where
  "open_verified_socket h value =
     (let path = posix_path value in
      andthen (socket_metadata h path) (\<lambda>before.
      andthen (modify open_socket) (\<lambda>_.
      attempt
        (andthen (syscall (\<lambda>t. ch_connect h t path)) (\<lambda>connected.
         andthen (guard connected (claude_fault CALLBACK_TARGET_STALE ''Claude callback socket is not live'')) (\<lambda>_.
         andthen (socket_metadata h path) (\<lambda>after.
           guard (fm_id before = fm_id after)
             (claude_fault CALLBACK_TARGET_STALE ''Claude callback socket identity changed during connect'')))))
        (\<lambda>e. andthen (modify close_socket) (\<lambda>_. raise e)))))"

definition safe_live_socket :: "claude_host \<Rightarrow> string \<Rightarrow> unit link_act" where
  "safe_live_socket h value =
     andthen (open_verified_socket h value) (\<lambda>_.
       always (andthen (syscall (\<lambda>t. ch_shutdown h t (posix_path value))) (\<lambda>ok. guard ok (OSError ''shutdown'')))
         close_socket)"


section \<open>A capture\<close>

definition validate_capture :: "claude_host \<Rightarrow> json_object \<Rightarrow> unit link_act" where
  "validate_capture h c =
     andthen (safe_config_root h (text_of_json (jget c ''claude_config_dir''))) (\<lambda>base.
     andthen (guard (JStr base = jget c ''claude_config_dir'')
       (claude_fault CALLBACK_TARGET_UNSAFE ''Claude callback config root is not canonical'')) (\<lambda>_.
     if jget c ''target_socket'' = JNull then ret ()
     else
       andthen (guard (pid_socket_basename_matches (jget c ''target_socket'') (jget c ''claude_pid''))
         (claude_fault CALLBACK_TARGET_STALE ''Captured Claude callback socket does not match its PID'')) (\<lambda>_.
       andthen (claude_records h base) (\<lambda>rs.
         let stale = claude_fault CALLBACK_TARGET_STALE
               ''Captured Claude callback target no longer matches its live identity'' in
         andthen (guard (length (filter (\<lambda>r. matches_capture r c) rs) = 1) stale) (\<lambda>_.
         andthen (syscall (\<lambda>t. ch_ps h t (case as_int (jget c ''claude_pid'') of None \<Rightarrow> 0 | Some n \<Rightarrow> n))) (\<lambda>ps.
         andthen (guard (same_process_start h (text_of_json (jget c ''claude_proc_start'')) ps) stale) (\<lambda>_.
           safe_live_socket h (text_of_json (jget c ''target_socket'')))))))))"

section \<open>The user line\<close>

definition user_envelope :: "claude_host \<Rightarrow> binding \<Rightarrow> callback_event \<Rightarrow> string \<Rightarrow> json" where
  "user_envelope h b ev content = JObj
     ([(''type'', JStr ''user''),
       (''message'', JObj [(''role'', JStr ''user''), (''content'', JStr content)]),
       (''uuid'', JStr (ch_uuid5 h (ce_event_id ev))), (''msg_id'', JStr (ce_event_id ev)),
       (''from_mode'', JStr ''bypass''), (''priority'', JStr (ce_priority ev))]
      @ (case as_str (cb_target_socket b) of None \<Rightarrow> [] | Some t \<Rightarrow> [(''from'', JStr (''uds:'' @ t))]))"

definition not_serializable :: exn where
  "not_serializable = claude_fault CALLBACK_SEND_FAILED ''Callback event cannot be serialized''"

definition encode_user_line :: "claude_host \<Rightarrow> binding \<Rightarrow> callback_event \<Rightarrow> (exn, string) res" where
  "encode_user_line h b ev = (case ch_dumps h (JObj (event_dict ev)) of
     None \<Rightarrow> Inl not_serializable
   | Some content \<Rightarrow> (case ch_dumps h (user_envelope h b ev content) of
       None \<Rightarrow> Inl not_serializable
     | Some line \<Rightarrow> if MAX_USER_LINE_UTF16_UNITS < length line
         then Inl (claude_fault CALLBACK_PAYLOAD_TOO_LARGE ''Claude callback payload exceeds the measured user-line limit'')
         else Inr line))"

section \<open>Named targets\<close>

text \<open>A named record is live when its process still runs and its socket answers; only a stale socket is skipped.\<close>

definition live_record :: "claude_host \<Rightarrow> json_object \<Rightarrow> json_object option link_act" where
  "live_record h r =
     andthen (syscall (\<lambda>t. ch_ps h t (case as_int (jget r ''pid'') of None \<Rightarrow> 0 | Some n \<Rightarrow> n))) (\<lambda>ps.
       if \<not> same_process_start h (text_of_json (jget r ''procStart'')) ps then ret None
       else attempt (andthen (safe_live_socket h (text_of_json (jget r ''messagingSocketPath''))) (\<lambda>_. ret (Some r)))
         (\<lambda>e. if fault_is CALLBACK_TARGET_STALE e then ret None else raise e))"

definition peer_key_path :: "claude_host \<Rightarrow> string \<Rightarrow> json_object \<Rightarrow> string" where
  "peer_key_path h base r = path_join (path_join base ''sessions'')
     ((case as_int (jget r ''pid'') of None \<Rightarrow> [] | Some n \<Rightarrow> show_int n) @ ''.''
       @ ch_sha256 h (abspath (ch_cwd h) (text_of_json (jget r ''messagingSocketPath''))) @ ''.key'')"

definition resolve_override :: "claude_host \<Rightarrow> string \<Rightarrow> string \<Rightarrow> (string \<times> string) link_act" where
  "resolve_override h base name =
     andthen (claude_records h base) (\<lambda>rs.
     andthen (each (live_record h) (filter (\<lambda>r. jget r ''name'' = JStr name) rs)) (\<lambda>found.
       case List.map_filter (\<lambda>r. r) found of
         [] \<Rightarrow> raise (claude_fault CALLBACK_TARGET_NOT_FOUND ''Named live Claude callback target was not found'')
       | [r] \<Rightarrow>
           andthen (safe_file h (peer_key_path h base r) 0x180) (\<lambda>raw. case ch_loads h raw of
             None \<Rightarrow> raise (claude_fault CALLBACK_TARGET_UNSAFE ''Claude callback peer key is malformed'')
           | Some v \<Rightarrow>
             (let key = (case as_obj v of None \<Rightarrow> [] | Some k \<Rightarrow> k) in
              andthen (guard (as_obj v \<noteq> None \<and> is_hex32 (jget key ''peerToken'') \<and> jget key ''procStart'' = jget r ''procStart'')
                (claude_fault CALLBACK_TARGET_UNSAFE ''Claude callback peer key does not match the target'')) (\<lambda>_.
              ret (text_of_json (jget r ''messagingSocketPath''), text_of_json (jget key ''peerToken'')))))
       | _ \<Rightarrow> raise (claude_fault CALLBACK_TARGET_AMBIGUOUS ''Named live Claude callback target is ambiguous'')))"

section \<open>Sending\<close>

definition capture_of_binding :: "binding \<Rightarrow> (exn, json) res" where
  "capture_of_binding b = build CallbackCapture
     [(''target_socket'', cb_target_socket b), (''child_token'', cb_child_token b),
      (''claude_session_id'', cb_claude_session_id b), (''claude_pid'', cb_claude_pid b),
      (''claude_proc_start'', cb_claude_proc_start b), (''claude_config_dir'', cb_claude_config_dir b)]"

definition choose_target :: "claude_host \<Rightarrow> binding \<Rightarrow> string option \<Rightarrow> (string \<times> string) link_act" where
  "choose_target h b name = (case name of
     None \<Rightarrow>
       andthen (guard (cb_state b = Enabled)
         (claude_fault CALLBACK_UNAVAILABLE ''No default Claude callback target is available'')) (\<lambda>_.
       andthen (lift (capture_of_binding b)) (\<lambda>c. case as_obj c of
         None \<Rightarrow> raise (TypeError ''callback capture'')
       | Some m \<Rightarrow> andthen (validate_capture h m) (\<lambda>_.
           ret (text_of_json (cb_target_socket b), text_of_json (cb_child_token b)))))
   | Some n \<Rightarrow>
       andthen (guard (cb_claude_config_dir b \<noteq> JNull)
         (claude_fault CALLBACK_UNAVAILABLE ''No captured Claude config root is available for an override'')) (\<lambda>_.
       andthen (safe_config_root h (text_of_json (cb_claude_config_dir b))) (\<lambda>base. resolve_override h base n)))"

definition auth_line :: "claude_host \<Rightarrow> string \<Rightarrow> (exn, string) res" where
  "auth_line h token = (case ch_dumps h (JObj [(''type'', JStr ''auth''), (''token'', JStr token)]) of
     None \<Rightarrow> Inl (ValueError ''auth'') | Some s \<Rightarrow> Inr s)"

definition write_payload :: "claude_host \<Rightarrow> string \<Rightarrow> string \<Rightarrow> unit link_act" where
  "write_payload h target payload =
     andthen (open_verified_socket h target) (\<lambda>_.
       always (andthen (syscall (\<lambda>t. ch_write h t (posix_path target))) (\<lambda>ok.
         andthen (modify (\<lambda>s. s\<lparr>ls_sent := ls_sent s @ [(posix_path target, payload)]\<rparr>)) (\<lambda>_.
           guard ok (retryable_fault CALLBACK_SEND_FAILED ''Claude callback socket write failed'')))) close_socket)"

definition claude_send :: "claude_host \<Rightarrow> binding \<Rightarrow> callback_event \<Rightarrow> string option \<Rightarrow> json link_act" where
  "claude_send h b ev name =
     andthen (guard (cb_state b \<noteq> Disabled)
       (claude_fault CALLBACK_UNAVAILABLE ''Callbacks were disabled when this worker started'')) (\<lambda>_.
     andthen (choose_target h b name) (\<lambda>tt. case tt of (target, token) \<Rightarrow>
     andthen (lift (encode_user_line h b ev)) (\<lambda>line.
     andthen (lift (auth_line h token)) (\<lambda>auth.
     andthen (write_payload h target (auth @ ''\<newline>'' @ line @ ''\<newline>'')) (\<lambda>_.
       lift (mk_attempt (ce_event_id ev) ''written'' None (ch_now h) 1 None))))))"


section \<open>The ambient capture\<close>

text \<open>\<open>int(s)\<close> of a string: digits with single underscores between them.\<close>

fun dec_digits :: "bool \<Rightarrow> int \<Rightarrow> string \<Rightarrow> int option" where
  "dec_digits digit a [] = (if digit then Some a else None)"
| "dec_digits digit a (c # cs) =
     (if c = CHR ''_'' then (if digit then dec_digits False a cs else None)
      else if is_digit c then dec_digits True (10 * a + (int (codept c) - 48)) cs else None)"

definition py_int :: "string \<Rightarrow> int option" where
  "py_int s = (case py_strip s of
     [] \<Rightarrow> None
   | c # cs \<Rightarrow> if c = CHR ''-'' then map_option uminus (dec_digits False 0 cs)
       else if c = CHR ''+'' then dec_digits False 0 cs else dec_digits False 0 (c # cs))"

definition env_value :: "(string, string) dict \<Rightarrow> string \<Rightarrow> string" where
  "env_value env k = (case dget env k of None \<Rightarrow> [] | Some v \<Rightarrow> v)"

definition mk_capture :: "json \<Rightarrow> json \<Rightarrow> json \<Rightarrow> json \<Rightarrow> json \<Rightarrow> string \<Rightarrow> (exn, json) res" where
  "mk_capture target token session pid start base = build CallbackCapture
     [(''target_socket'', target), (''child_token'', token), (''claude_session_id'', session),
      (''claude_pid'', pid), (''claude_proc_start'', start), (''claude_config_dir'', JStr base)]"

definition ambient_route :: "claude_host \<Rightarrow> (string, string) dict \<Rightarrow> string \<Rightarrow> json \<Rightarrow> json link_act" where
  "ambient_route h env base root_only =
     (let target = env_value env ''CLAUDE_CODE_MESSAGING_SOCKET''; token = env_value env ''CLAUDE_CODE_MESSAGING_TOKEN'';
          session = env_value env ''CLAUDE_CODE_SESSION_ID'' in
      case py_int (env_value env ''CLAUDE_PID'') of
        None \<Rightarrow> raise (claude_fault CALLBACK_TARGET_UNSAFE ''Ambient Claude PID is malformed'')
      | Some pid \<Rightarrow>
        andthen (guard (0 < pid \<and> is_hex32 (JStr token) \<and> is_absolute target)
          (claude_fault CALLBACK_TARGET_UNSAFE ''Ambient Claude callback credentials are malformed'')) (\<lambda>_.
        andthen (claude_records h base) (\<lambda>rs.
          case filter (\<lambda>r. jget r ''sessionId'' = JStr session \<and> jget r ''pid'' = JInt pid
              \<and> jget r ''messagingSocketPath'' = JStr target) rs of
            [] \<Rightarrow> ret root_only
          | [r] \<Rightarrow>
              andthen (lift (mk_capture (JStr target) (JStr token) (JStr session) (JInt pid) (jget r ''procStart'') base)) (\<lambda>c.
                case as_obj c of None \<Rightarrow> raise (TypeError ''callback capture'')
                | Some m \<Rightarrow> andthen (validate_capture h m) (\<lambda>_. ret c))
          | _ \<Rightarrow> raise (claude_fault CALLBACK_TARGET_AMBIGUOUS ''Ambient Claude callback identity is ambiguous''))))"

text \<open>\<open>None\<close> is returned as \<open>JNull\<close>. An absent default directory is no error.\<close>

definition capture_from_env :: "claude_host \<Rightarrow> (string, string) dict \<Rightarrow> json link_act" where
  "capture_from_env h env =
     (let explicit_root = env_value env ''CLAUDE_CONFIG_DIR'';
          raw_root = (if explicit_root \<noteq> [] then explicit_root else ch_home h @ ''/.claude'') in
      andthen (attempt (andthen (safe_config_root h raw_root) (\<lambda>base. ret (Some base)))
          (\<lambda>e. if explicit_root \<noteq> [] then raise e
               else andthen (syscall (\<lambda>t. ch_present h t (posix_path raw_root))) (\<lambda>present.
                 if present then raise e else ret None))) (\<lambda>found. case found of
        None \<Rightarrow> ret JNull
      | Some base \<Rightarrow>
        andthen (lift (mk_capture JNull JNull JNull JNull JNull base)) (\<lambda>root_only.
          if list_all (\<lambda>k. env_value env k \<noteq> [])
              [''CLAUDE_CODE_MESSAGING_SOCKET'', ''CLAUDE_CODE_MESSAGING_TOKEN'', ''CLAUDE_CODE_SESSION_ID'', ''CLAUDE_PID'']
          then ambient_route h env base root_only else ret root_only)))"

section \<open>What the acts leave of the state\<close>

text \<open>The parts of the state the looks never change: open sockets and what was written.\<close>

definition link_same :: "link_state \<Rightarrow> link_state \<Rightarrow> bool" where
  "link_same s s' \<longleftrightarrow> ls_open s' = ls_open s \<and> ls_sent s' = ls_sent s \<and> ls_clock s \<le> ls_clock s'"

definition quiet :: "'a link_act \<Rightarrow> bool" where
  "quiet m \<longleftrightarrow> keeps link_same m"

named_theorems quiet_rules \<open>acts that neither open sockets nor write\<close>

lemma quietD: "quiet m \<Longrightarrow> m s = (r, s') \<Longrightarrow> ls_open s' = ls_open s \<and> ls_sent s' = ls_sent s \<and> ls_clock s \<le> ls_clock s'"
  using keepsD [of link_same m s r s'] by (simp add: quiet_def link_same_def)

interpretation same: frame_relation link_same
  by unfold_locales (auto simp: link_same_def)

lemma quiet_basic [quiet_rules]:
  "quiet (ret x)" "quiet (raise e)" "quiet (guard b e)" "quiet (lift r)" "quiet (syscall f)"
  by (simp_all add: quiet_def same.basic) (simp add: keeps_def link_same_def syscall_def)

lemma quiet_statements [quiet_rules]:
  "quiet m \<Longrightarrow> (\<And>x. quiet (f x)) \<Longrightarrow> quiet (andthen m f)"
  "quiet m \<Longrightarrow> (\<And>e. quiet (g e)) \<Longrightarrow> quiet (attempt m g)"
  "(\<And>x. quiet (f x)) \<Longrightarrow> quiet (each f xs)"
  "quiet m \<Longrightarrow> quiet n \<Longrightarrow> quiet (if b then m else n)"
  unfolding quiet_def by (auto intro: same.rules)

lemma quiet_directory [quiet_rules]: "quiet (safe_directory h p m)"
  by (auto simp: safe_directory_def Let_def intro!: quiet_rules split: option.split)

lemma quiet_root [quiet_rules]: "quiet (safe_config_root h v)"
  by (auto simp: safe_config_root_def Let_def intro!: quiet_rules split: option.split)

lemma quiet_file [quiet_rules]: "quiet (safe_file h p mode)"
  unfolding safe_file_def Let_def by (intro quiet_rules | simp split: option.split | intro conjI allI impI)+

lemma quiet_record [quiet_rules]: "quiet (record_of_file h p)"
  unfolding record_of_file_def by (intro quiet_rules | simp split: option.split | intro conjI allI impI)+

lemma quiet_records [quiet_rules]: "quiet (claude_records h b)"
  unfolding claude_records_def by (intro quiet_rules | simp split: option.split | intro conjI allI impI)+

lemma quiet_metadata [quiet_rules]: "quiet (socket_metadata h p)"
  unfolding socket_metadata_def Let_def by (intro quiet_rules | simp split: option.split | intro conjI allI impI)+

section \<open>A verified socket\<close>

text \<open>What \<open>_socket_metadata\<close> accepts of one moment.\<close>

definition inbox_at :: "claude_host \<Rightarrow> nat \<Rightarrow> string \<Rightarrow> file_meta \<Rightarrow> bool" where
  "inbox_at h t path m \<longleftrightarrow> fs_lstat (ch_look h t) path = Some m \<and> socket_meta_ok h path m
     \<and> trusted_at h (Suc t) (path_parent path)"

lemma socket_metadata_seen:
  "socket_metadata h path s = (Inr m, s') \<Longrightarrow> inbox_at h (ls_clock s) path m \<and> ls_clock s < ls_clock s'"
  by (auto simp: socket_metadata_def act_defs syscall_def Let_def inbox_at_def split: option.splits if_splits)

text \<open>The socket is the same inbox before and after connecting.\<close>

definition verified_inbox :: "claude_host \<Rightarrow> nat \<Rightarrow> string \<Rightarrow> bool" where
  "verified_inbox h t path \<longleftrightarrow> (\<exists>t1 t2 m1 m2. t \<le> t1 \<and> t1 < t2 \<and> inbox_at h t1 path m1 \<and> inbox_at h t2 path m2
     \<and> fm_id m1 = fm_id m2)"

lemma open_verified:
  assumes "open_verified_socket h v s = (r, s')"
  shows "ls_sent s' = ls_sent s \<and> ls_clock s \<le> ls_clock s'" "r = Inr () \<Longrightarrow> ls_open s' = Suc (ls_open s) \<and> verified_inbox h (ls_clock s) (posix_path v)"
    "r = Inl e \<Longrightarrow> ls_open s' = ls_open s"
proof -
  let ?p = "posix_path v"
  obtain q s1 where q: "socket_metadata h ?p s = (q, s1)" by fastforce
  note same = quietD [OF quiet_metadata q]
  have "(ls_sent s' = ls_sent s \<and> ls_clock s \<le> ls_clock s') \<and> (r = Inr () \<longrightarrow> ls_open s' = Suc (ls_open s) \<and> verified_inbox h (ls_clock s) ?p)
      \<and> ((\<exists>e. r = Inl e) \<longrightarrow> ls_open s' = ls_open s)"
  proof (cases q)
    case (Inl e)
    then show ?thesis using assms q same by (auto simp: open_verified_socket_def Let_def act_defs)
  next
    case (Inr m)
    let ?s2 = "(open_socket s1)\<lparr>ls_clock := Suc (ls_clock s1)\<rparr>"
    obtain q2 s3 where q2: "socket_metadata h ?p ?s2 = (q2, s3)" by fastforce
    note same2 = quietD [OF quiet_metadata q2]
    have m: "inbox_at h (ls_clock s) ?p m" "ls_clock s < ls_clock s1" using socket_metadata_seen q Inr by auto
    have m2: "q2 = Inr m2 \<Longrightarrow> inbox_at h (Suc (ls_clock s1)) ?p m2" for m2
      using socket_metadata_seen q2 by (fastforce simp: open_socket_def)
    have "verified_inbox h (ls_clock s) ?p" if "q2 = Inr m2" "fm_id m = fm_id m2" for m2
      unfolding verified_inbox_def using m m2 [OF that(1)] that(2)
      by (intro exI [of _ "ls_clock s"] exI [of _ "Suc (ls_clock s1)"] exI [of _ m] exI [of _ m2]) simp
    then show ?thesis
      using assms q Inr q2 same same2
      by (cases "ch_connect h (ls_clock s1) ?p"; cases q2)
         (auto simp: open_verified_socket_def Let_def act_defs syscall_def open_socket_def close_socket_def
          split: if_splits)
  qed
  then show "ls_sent s' = ls_sent s \<and> ls_clock s \<le> ls_clock s'" "r = Inr () \<Longrightarrow> ls_open s' = Suc (ls_open s) \<and> verified_inbox h (ls_clock s) ?p"
    "r = Inl e \<Longrightarrow> ls_open s' = ls_open s" by blast+
qed

lemma quiet_live_socket [quiet_rules]: "quiet (safe_live_socket h v)"
proof -
  have "link_same s (snd (safe_live_socket h v s))" for s
  proof (cases "open_verified_socket h v s")
    case (Pair r s')
    note o = open_verified [OF Pair]
    show ?thesis
      using o Pair by (cases r)
        (auto simp: safe_live_socket_def act_defs syscall_def close_socket_def link_same_def split: prod.splits if_splits)
  qed
  then show ?thesis by (simp add: quiet_def keeps_def)
qed

lemma quiet_capture [quiet_rules]: "quiet (validate_capture h c)"
  unfolding validate_capture_def Let_def by (intro quiet_rules | simp split: option.split | intro conjI allI impI)+

lemma quiet_live_record [quiet_rules]: "quiet (live_record h r)"
  unfolding live_record_def by (intro quiet_rules)

lemma quiet_override [quiet_rules]: "quiet (resolve_override h b n)"
  unfolding resolve_override_def Let_def
  by (intro quiet_rules | simp split: option.split list.split | intro conjI allI impI)+

lemma quiet_target [quiet_rules]: "quiet (choose_target h b n)"
  unfolding choose_target_def by (intro quiet_rules | simp split: option.split | intro conjI allI impI)+


section \<open>One callback, one verified inbox\<close>

lemma write_payload_effect:
  assumes "write_payload h target payload s = (r, s')"
  shows "ls_open s' = ls_open s \<and> (\<exists>ps. ls_sent s' = ls_sent s @ ps
      \<and> (ps = [] \<and> r \<noteq> Inr () \<or> ps = [(posix_path target, payload)] \<and> verified_inbox h (ls_clock s) (posix_path target)))"
proof (cases "open_verified_socket h target s")
  case (Pair q s1)
  note o = open_verified [OF Pair]
  show ?thesis
    using o Pair assms by (cases q)
      (auto simp: write_payload_def act_defs syscall_def close_socket_def split: prod.splits if_splits)
qed

lemma verified_later: "verified_inbox h t p \<Longrightarrow> t' \<le> t \<Longrightarrow> verified_inbox h t' p"
  by (auto simp: verified_inbox_def) (meson order_trans)

lemma lift_same: "lift r s = (q, s') \<longleftrightarrow> q = r \<and> s' = s"
  by (auto simp: lift_def)


end
