(* ===== verification/ClaudeWitness.thy ===== *)
theory ClaudeWitness
  imports DispatchWitness ClaudeTransport
begin

text \<open>
  The properties of the path policy and of the Claude transport at concrete inputs: a user with
  a private inbox under \<open>/c\<close>, and a temporary directory of another user.
\<close>

definition demo_meta :: "string \<Rightarrow> file_meta option" where
  "demo_meta p = map_of
     [(''/c'', \<lparr>fm_kind = DirectoryKind, fm_mode = 0x1C0, fm_uid = 7, fm_id = (1, 1)\<rparr>),
      (''/c/sessions'', \<lparr>fm_kind = DirectoryKind, fm_mode = 0x1C0, fm_uid = 7, fm_id = (1, 2)\<rparr>),
      (''/c/sessions/5.json'', \<lparr>fm_kind = RegularKind, fm_mode = 0x1A4, fm_uid = 7, fm_id = (1, 3)\<rparr>),
      (''/c/5.sock'', \<lparr>fm_kind = SocketKind, fm_mode = 0x180, fm_uid = 7, fm_id = (1, 4)\<rparr>),
      (''/t'', \<lparr>fm_kind = DirectoryKind, fm_mode = 0x3FF, fm_uid = 9, fm_id = (1, 5)\<rparr>)] p"

definition demo_look :: fs_look where
  "demo_look = \<lparr>fs_lstat = demo_meta, fs_stat = demo_meta\<rparr>"

lemma foreign_sticky_accepted_witness: "unsafe_ancestor demo_look 7 ''/'' ''/t'' = None"
  by (rule foreign_sticky_accepted [of _ _ "''t''" _
        "\<lparr>fm_kind = DirectoryKind, fm_mode = 0x3FF, fm_uid = 9, fm_id = (1, 5)\<rparr>"]) code_simp+

definition inbox_record :: json where
  "inbox_record = JObj [(''pid'', JInt 5), (''sessionId'', JStr ''c''), (''messagingSocketPath'', JStr ''/c/5.sock''),
     (''procStart'', JStr ''p'')]"

definition demo_host :: claude_host where
  "demo_host = \<lparr>ch_look = \<lambda>_. demo_look, ch_read = \<lambda>_ _. Some ''{}'', ch_resolve = \<lambda>_ p. Some p,
     ch_glob = \<lambda>_ _. Some [''/c/sessions/5.json''], ch_present = \<lambda>_ _. True, ch_connect = \<lambda>_ _. True,
     ch_shutdown = \<lambda>_ _. True, ch_write = \<lambda>_ _. True, ch_ps = \<lambda>_ _. Some ''p'', ch_registry_time = \<lambda>_. None,
     ch_process_time = \<lambda>_. None, ch_uid = 7, ch_cwd = ''/'', ch_home = ''/h'', ch_loads = \<lambda>_. Some inbox_record,
     ch_dumps = \<lambda>_. Some ''{}'', ch_uuid5 = \<lambda>_. ''u'', ch_sha256 = \<lambda>_. ''s'', ch_now = ''now''\<rparr>"

definition inbox_binding :: binding where
  "inbox_binding = routed_binding\<lparr>cb_target_socket := JStr ''/c/5.sock''\<rparr>"

definition idle_link :: link_state where
  "idle_link = \<lparr>ls_clock = 0, ls_open = 0, ls_sent = []\<rparr>"

definition demo_token :: string where
  "demo_token = ''0123456789abcdef0123456789abcdef''"

definition ready_link :: link_state where
  "ready_link = \<lparr>ls_clock = 17, ls_open = 0, ls_sent = []\<rparr>"

lemma demo_target: "choose_target demo_host inbox_binding None idle_link = (Inr (''/c/5.sock'', demo_token), ready_link)"
  by code_simp

lemma demo_lines: "encode_user_line demo_host inbox_binding demo_event = Inr ''{}''" "auth_line demo_host demo_token = Inr ''{}''"
  by (simp_all add: encode_user_line_def auth_line_def demo_host_def MAX_USER_LINE_UTF16_UNITS_def)

lemma demo_write: "fst (write_payload demo_host ''/c/5.sock'' (''{}'' @ ''\<newline>'' @ ''{}'' @ ''\<newline>'') ready_link) = Inr ()"
  by code_simp

lemma demo_attempt: "isl (mk_attempt (ce_event_id demo_event) ''written'' None (ch_now demo_host) 1 None) = False"
  by code_simp

lemma demo_inbox_send: "is_ok (fst (claude_send demo_host inbox_binding demo_event None idle_link))"
proof -
  obtain s2 where w: "write_payload demo_host ''/c/5.sock'' (''{}'' @ ''\<newline>'' @ ''{}'' @ ''\<newline>'') ready_link = (Inr (), s2)"
    using demo_write by (metis prod.collapse)
  obtain a where a: "mk_attempt (ce_event_id demo_event) ''written'' None (ch_now demo_host) 1 None = Inr a"
    using demo_attempt by (metis sum.collapse(2))
  have "cb_state inbox_binding \<noteq> Disabled" by code_simp
  then show ?thesis
    using w a by (simp add: claude_send_def act_defs demo_target demo_lines)
qed


end
