(* ===== verification/Broker.thy ===== *)
theory Broker
  imports Acts Gate Registry Transport Projection RuntimeOps
begin

text \<open>
  \<open>broker.py\<close>, \<open>NativeCodexProxy\<close> and \<open>WorkerBroker\<close>: the operations that join the Codex
  connection, the worker registry, the runtime store and the maintenance gate. An operation is
  an act over these four and is cut into sections: each access to one of them, under that
  component's own lock, is one section, and before every section the other threads may change
  all of them (\<open>meanwhile\<close>). The clock of the state counts the sections; what a section gets from
  outside (the answer of Codex, a fresh identifier, the time, the outcome of a write) is given
  by its moment. The state also records the requests made of Codex, with their moments.

  Codex is the method adapter of \<open>Transport\<close> over an arbitrary call. Arguments have the types of
  their annotations; times are ticks.
\<close>

section \<open>The surroundings\<close>

record broker_env =
  be_model :: model_env
  be_codex :: "nat \<Rightarrow> codex_call"
  be_codex_shutdown :: "nat \<Rightarrow> (exn, unit) res"
  be_codex_pid :: json
  be_codex_running :: "nat \<Rightarrow> bool"
  be_gate :: "nat \<Rightarrow> gate \<Rightarrow> gate"
  be_registry :: "nat \<Rightarrow> registry \<Rightarrow> registry"
  be_runtime :: "nat \<Rightarrow> runtime_store \<Rightarrow> runtime_store"
  be_monotonic :: "nat \<Rightarrow> int"
  be_uuid :: "nat \<Rightarrow> string"
  be_now :: "nat \<Rightarrow> string"
  be_write :: "nat \<Rightarrow> write_outcome"
  be_listener :: string
  be_joined :: "nat \<Rightarrow> bool"
  be_stopping :: "nat \<Rightarrow> bool"
  be_terminate :: "nat \<Rightarrow> drain_lease \<Rightarrow> (exn, unit) res"

record broker_state =
  bk_gate :: gate
  bk_registry :: registry
  bk_runtime :: runtime_store
  bk_clock :: nat
  bk_calls :: "(string \<times> nat) list"
  bk_terminations :: "(drain_lease \<times> gate) list"

type_synonym 'a broker_act = "(broker_state, 'a) act"

definition meanwhile :: "broker_env \<Rightarrow> unit broker_act" where
  "meanwhile e s = (Inr (), s\<lparr>bk_gate := be_gate e (bk_clock s) (bk_gate s),
     bk_registry := be_registry e (bk_clock s) (bk_registry s),
     bk_runtime := be_runtime e (bk_clock s) (bk_runtime s), bk_clock := Suc (bk_clock s)\<rparr>)"

definition on_runtime :: "broker_env \<Rightarrow> (runtime_store \<Rightarrow> runtime_store \<times> (exn, 'a) res) \<Rightarrow> 'a broker_act" where
  "on_runtime e f = andthen (meanwhile e) (\<lambda>_ s.
     case f (bk_runtime s) of (st, r) \<Rightarrow> (r, s\<lparr>bk_runtime := st\<rparr>))"

definition update_runtime :: "broker_env \<Rightarrow> (runtime_store \<Rightarrow> (exn, runtime_store) res) \<Rightarrow> unit broker_act" where
  "update_runtime e f = on_runtime e (\<lambda>st. case f st of Inl x \<Rightarrow> (st, Inl x) | Inr st' \<Rightarrow> (st', Inr ()))"

definition read_runtime :: "broker_env \<Rightarrow> (runtime_store \<Rightarrow> (exn, 'a) res) \<Rightarrow> 'a broker_act" where
  "read_runtime e f = on_runtime e (\<lambda>st. (st, f st))"

definition on_registry :: "broker_env \<Rightarrow> (nat \<Rightarrow> registry \<Rightarrow> registry \<times> (exn, 'a) res) \<Rightarrow> 'a broker_act" where
  "on_registry e f = andthen (meanwhile e) (\<lambda>_ s.
     case f (bk_clock s) (bk_registry s) of (reg, r) \<Rightarrow> (r, s\<lparr>bk_registry := reg\<rparr>))"

definition read_registry :: "broker_env \<Rightarrow> (registry \<Rightarrow> (exn, 'a) res) \<Rightarrow> 'a broker_act" where
  "read_registry e f = on_registry e (\<lambda>t reg. (reg, f reg))"

definition on_gate :: "broker_env \<Rightarrow> (gate \<Rightarrow> gate \<times> (exn, 'a) res) \<Rightarrow> 'a broker_act" where
  "on_gate e f = andthen (meanwhile e) (\<lambda>_ s. case f (bk_gate s) of (g, r) \<Rightarrow> (r, s\<lparr>bk_gate := g\<rparr>))"

text \<open>A request of Codex: recorded under its name with its moment, and answered by the call of that moment.\<close>

definition codex :: "broker_env \<Rightarrow> string \<Rightarrow> (codex_call \<Rightarrow> (exn, 'a) res) \<Rightarrow> 'a broker_act" where
  "codex e name f = andthen (meanwhile e) (\<lambda>_ s.
     (f (be_codex e (bk_clock s)), s\<lparr>bk_calls := bk_calls s @ [(name, bk_clock s)]\<rparr>))"

text \<open>\<open>with self._gate.mutation(...)\<close>: leaving runs whatever the body does.\<close>

definition enter_gate :: "broker_env \<Rightarrow> string \<Rightarrow> unit broker_act" where
  "enter_gate e name = on_gate e (\<lambda>g. case enter_mutation g name of Inl x \<Rightarrow> (g, Inl x) | Inr g' \<Rightarrow> (g', Inr ()))"

definition with_mutation :: "broker_env \<Rightarrow> string \<Rightarrow> 'a broker_act \<Rightarrow> 'a broker_act" where
  "with_mutation e name m = andthen (enter_gate e name) (\<lambda>_ s.
     case m s of (r, s') \<Rightarrow> (case on_gate e exit_mutation s' of
       (Inl x, s'') \<Rightarrow> (Inl x, s'') | (Inr _, s'') \<Rightarrow> (r, s'')))"

section \<open>Native calls\<close>

definition native_error :: "string \<Rightarrow> string \<Rightarrow> exn" where
  "native_error name message = CodexCallError ''protocol_error'' name (Some [(''message'', JStr message)])"

definition goal_fields :: "string list" where
  "goal_fields = [''threadId'', ''objective'', ''status'', ''tokenBudget'', ''tokensUsed'', ''timeUsedSeconds'',
     ''createdAt'', ''updatedAt'']"

definition goal_statuses :: "string list" where
  "goal_statuses = [''active'', ''paused'', ''blocked'', ''usageLimited'', ''budgetLimited'', ''complete'']"

definition positive_or_null :: "json \<Rightarrow> bool" where
  "positive_or_null v \<longleftrightarrow> v = JNull \<or> (case as_int v of None \<Rightarrow> False | Some n \<Rightarrow> 0 < n)"

definition counter_ok :: "json \<Rightarrow> bool" where
  "counter_ok v = (case as_int v of None \<Rightarrow> False | Some n \<Rightarrow> 0 \<le> n)"

definition goal_values_ok :: "json_object \<Rightarrow> bool" where
  "goal_values_ok g \<longleftrightarrow> list_all (\<lambda>k. as_nonempty (jget g k) \<noteq> None) [''threadId'', ''objective'']
     \<and> list_ex (\<lambda>s. jget g ''status'' = JStr s) goal_statuses
     \<and> positive_or_null (jget g ''tokenBudget'')
     \<and> list_all (\<lambda>k. counter_ok (jget g k)) [''tokensUsed'', ''timeUsedSeconds'', ''createdAt'', ''updatedAt'']"

definition check_goal :: "string \<Rightarrow> json_object \<Rightarrow> bool \<Rightarrow> (exn, json_object) res" where
  "check_goal name result allow_absent =
     (if \<not> has_fields result [''goal''] then Inl (native_error name ''unexpected goal response fields'')
      else if jget result ''goal'' = JNull \<and> allow_absent then Inr result
      else (case as_obj (jget result ''goal'') of
        None \<Rightarrow> Inl (native_error name ''malformed goal'')
      | Some g \<Rightarrow> if \<not> has_fields g goal_fields then Inl (native_error name ''malformed goal'')
          else if \<not> goal_values_ok g then Inl (native_error name ''malformed goal fields'') else Inr result))"

definition native_goal_set :: "codex_call \<Rightarrow> string \<Rightarrow> string option \<Rightarrow> string option \<Rightarrow> int option \<Rightarrow> (exn, json_object) res" where
  "native_goal_set cx thread_id objective goal_status budget =
     ebind (cx ''thread/goal/set'' ([(''threadId'', JStr thread_id)]
       @ opt_field ''objective'' (map_option JStr objective) @ opt_field ''status'' (map_option JStr goal_status)
       @ opt_field ''tokenBudget'' (map_option JInt budget)))
     (\<lambda>result. check_goal ''thread/goal/set'' result False)"

definition native_goal_get :: "codex_call \<Rightarrow> string \<Rightarrow> (exn, json_object) res" where
  "native_goal_get cx thread_id = ebind (cx ''thread/goal/get'' [(''threadId'', JStr thread_id)])
     (\<lambda>result. check_goal ''thread/goal/get'' result True)"

fun check_turns :: "json list \<Rightarrow> (exn, unit) res" where
  "check_turns [] = Inr ()"
| "check_turns (t # ts) = (case project_history_turn t of
     Inl x \<Rightarrow> Inl (if is_value_error x then native_error ''thread/turns/list'' (exn_str x) else x)
   | Inr _ \<Rightarrow> check_turns ts)"

definition native_turns_list :: "codex_call \<Rightarrow> string \<Rightarrow> string option \<Rightarrow> int option \<Rightarrow> (exn, json_object) res" where
  "native_turns_list cx thread_id cursor limit =
     ebind (cx ''thread/turns/list'' ([(''threadId'', JStr thread_id), (''sortDirection'', JStr ''desc''),
         (''itemsView'', JStr ''full'')]
       @ opt_field ''cursor'' (map_option JStr cursor) @ opt_field ''limit'' (map_option JInt limit)))
     (\<lambda>result. if \<not> has_fields result [''data'', ''nextCursor'', ''backwardsCursor'']
          \<or> as_list (jget result ''data'') = None
          \<or> \<not> list_all (\<lambda>k. str_or_null (jget result k)) [''nextCursor'', ''backwardsCursor'']
        then Inl (native_error ''thread/turns/list'' ''malformed turn page'')
        else ebind (check_turns (case as_list (jget result ''data'') of None \<Rightarrow> [] | Some ts \<Rightarrow> ts)) (\<lambda>_.
          Inr [(''turns'', jget result ''data''), (''nextCursor'', jget result ''nextCursor'')]))"

definition native_rate_limits :: "codex_call \<Rightarrow> (exn, json_object) res" where
  "native_rate_limits cx = ebind (cx ''account/rateLimits/read'' []) (\<lambda>result.
     if as_obj (jget result ''rateLimits'') = None
     then Inl (native_error ''account/rateLimits/read'' ''malformed rate limits'') else Inr result)"

section \<open>Faults\<close>

definition attach_json :: "broker_env \<Rightarrow> string \<Rightarrow> (exn, json) res" where
  "attach_json e tid = ebind (build_attach_view (host_lookup (be_model e)) (be_listener e) (JStr tid))
     (\<lambda>a. Inr (JObj (attach_view_to_dict a)))"

definition identity_details :: "broker_env \<Rightarrow> string \<Rightarrow> string \<Rightarrow> string option \<Rightarrow> json_object option \<Rightarrow>
    (exn, json_object) res" where
  "identity_details e sid tid turn_id details = ebind (attach_json e tid) (\<lambda>a.
     let d = dset (dset (dset (case details of None \<Rightarrow> [] | Some d \<Rightarrow> d) ''session_id'' (JStr sid))
           ''thread_id'' (JStr tid)) ''attach'' a
     in Inr (case turn_id of None \<Rightarrow> d | Some t \<Rightarrow> dset d ''turn_id'' (JStr t)))"

text \<open>A fault whose details are computed first: the exception that leaves the expression.\<close>

definition fault_with :: "(exn, json_object) res \<Rightarrow> (json_object \<Rightarrow> exn) \<Rightarrow> exn" where
  "fault_with details f = (case details of Inl x \<Rightarrow> x | Inr d \<Rightarrow> f d)"

definition codex_fault :: "exn \<Rightarrow> exn" where
  "codex_fault x = (case x of
     CodexCallError kind name d \<Rightarrow>
       if kind = ''protocol_error''
       then mk_rpc_fault (-32015) ''Codex response violates the expected protocol'' ''codex_protocol_error'' None
              (Some [(''method'', JStr name), (''details'', opt_obj d)])
       else mk_rpc_fault (-32020) ''Codex operation failed'' ''codex_failure'' None
              (Some [(''method'', JStr name), (''kind'', JStr kind), (''details'', opt_obj d)])
   | _ \<Rightarrow> x)"

definition fault_parts :: "exn \<Rightarrow> (int \<times> string \<times> string \<times> string option \<times> json_object option) option" where
  "fault_parts x = (case x of
     RpcFault c m k r d \<Rightarrow> Some (c, m, k, r, d)
   | ModelSelectionError m d \<Rightarrow> Some (-32010, m, ''invalid_model_selection'', None, d)
   | FacadeRpcFault f \<Rightarrow> Some (code_value (ff_code f), ff_message f, ff_kind f, None, None)
   | _ \<Rightarrow> None)"

definition with_identity :: "broker_env \<Rightarrow> exn \<Rightarrow> session_record \<Rightarrow> string option \<Rightarrow> exn" where
  "with_identity e fault rec turn_id = (case fault_parts fault of
     None \<Rightarrow> fault
   | Some (c, m, k, r, d) \<Rightarrow>
       fault_with (identity_details e (sr_session_id rec) (sr_thread_id rec) turn_id d)
         (\<lambda>d'. mk_rpc_fault c m k r (Some d')))"

definition session_command :: "string \<Rightarrow> string \<Rightarrow> string" where
  "session_command verb sid = ''codex-worker '' @ verb @ '' --session '' @ shlex_quote sid"

definition wait_fault :: "string \<Rightarrow> string \<Rightarrow> string option \<Rightarrow> exn" where
  "wait_fault session_id waiting turn_id =
     mk_rpc_fault (-32006) ''timed out waiting for turn; work remains active'' ''wait_timeout''
       (Some (session_command ''turn status'' session_id))
       (Some [(''session_id'', JStr waiting), (''turn_id'', jopt turn_id), (''active'', JBool True),
          (''next_actions'', JList (map JStr [session_command ''turn status'' session_id,
             session_command ''turn wait'' session_id @ '' --timeout 30'',
             session_command ''turn interrupt'' session_id]))])"

definition lower_fault :: "exn \<Rightarrow> session_record option \<Rightarrow> exn" where
  "lower_fault x rec = (case x of
     CodexCallError _ _ _ \<Rightarrow> codex_fault x
   | CodexProtocolError m \<Rightarrow> mk_rpc_fault (-32015) ''Codex protocol state is inconsistent'' ''codex_protocol_error''
       None (Some [(''reason'', JStr m)])
   | TurnActive _ \<Rightarrow> mk_rpc_fault (-32004) ''session already has an active turn'' ''turn_active'' None None
   | SessionDetached _ \<Rightarrow> mk_rpc_fault (-32003) ''session is detached'' ''session_detached''
       (map_option (\<lambda>r. session_command ''session resume'' (sr_session_id r)) rec) None
   | WaitTimeout sid turn_id \<Rightarrow> wait_fault (case rec of None \<Rightarrow> sid | Some r \<Rightarrow> sr_session_id r) sid turn_id
   | NoTurn _ \<Rightarrow> mk_rpc_fault (-32007) ''session has no terminal turn'' ''no_turn'' None None
   | UnknownSession m \<Rightarrow> mk_rpc_fault (-32602) m ''invalid_params'' None None
   | _ \<Rightarrow> if is_value_error x then mk_rpc_fault (-32602) (exn_str x) ''invalid_params'' None None
       else mk_rpc_fault (-32020) ''broker operation failed'' ''broker_error'' None (Some [(''reason'', JStr (exn_str x))]))"

definition from_lower :: "broker_env \<Rightarrow> exn \<Rightarrow> session_record option \<Rightarrow> string option \<Rightarrow> exn" where
  "from_lower e x rec turn_id = (case rec of None \<Rightarrow> lower_fault x rec
     | Some r \<Rightarrow> with_identity e (lower_fault x rec) r
         (case x of WaitTimeout _ t \<Rightarrow> t | _ \<Rightarrow> turn_id))"

definition post_registry_fault :: "broker_env \<Rightarrow> string \<Rightarrow> string \<Rightarrow> string \<Rightarrow> string option \<Rightarrow> exn \<Rightarrow> exn" where
  "post_registry_fault e operation sid tid turn_id x =
     fault_with (ebind (attach_json e tid) (\<lambda>a. Inr [(''operation'', JStr operation),
         (''durable_state'', JStr ''not_persisted''), (''session_id'', JStr sid), (''thread_id'', JStr tid),
         (''reason'', JStr (exn_str x)), (''attach'', a)]))
       (\<lambda>d. case turn_id of
          None \<Rightarrow> mk_rpc_fault (-32011) ''Codex thread exists but its session identity was not persisted''
            ''registry_error'' (Some (''codex-worker session resume --thread '' @ shlex_quote tid)) (Some d)
        | Some t \<Rightarrow> mk_rpc_fault (-32011) ''Codex turn started but its session annotations were not persisted''
            ''registry_error'' (Some (session_command ''turn status'' sid)) (Some (dset d ''turn_id'' (JStr t))))"

definition registry_fault :: "exn \<Rightarrow> exn" where
  "registry_fault x = mk_rpc_fault (-32011) ''could not read session registry'' ''registry_error'' None
     (Some [(''reason'', JStr (exn_str x))])"

definition unknown_session :: "identifier_selector \<Rightarrow> exn" where
  "unknown_session sel = (case sel_thread_id sel of
     Some t \<Rightarrow> mk_rpc_fault (-32001) (''unknown raw thread; recover it with session resume --thread '' @ t)
       ''unknown_session'' (Some (''codex-worker session resume --thread '' @ shlex_quote t)) (Some [(''thread_id'', JStr t)])
   | None \<Rightarrow> mk_rpc_fault (-32001) ''unknown session'' ''unknown_session'' (Some ''codex-worker session list'')
       (Some [(''session_id'', jopt (sel_session_id sel))]))"

definition detached_fault :: "broker_env \<Rightarrow> session_record \<Rightarrow> string option \<Rightarrow> exn" where
  "detached_fault e rec turn_id =
     fault_with (identity_details e (sr_session_id rec) (sr_thread_id rec) turn_id None)
       (\<lambda>d. mk_rpc_fault (-32003) ''session is detached'' ''session_detached''
          (Some (session_command ''session resume'' (sr_session_id rec))) (Some d))"

definition turn_not_active :: "broker_env \<Rightarrow> session_record \<Rightarrow> turn_snapshot option \<Rightarrow> string option \<Rightarrow> exn" where
  "turn_not_active e rec latest turn_id =
     fault_with (ebind (attach_json e (sr_thread_id rec)) (\<lambda>a.
         Inr [(''session_id'', JStr (sr_session_id rec)), (''thread_id'', JStr (sr_thread_id rec)),
           (''turn_id'', jopt turn_id), (''latest_turn'', opt_turn_dict latest), (''attach'', a)]))
       (\<lambda>d. mk_rpc_fault (-32005) ''turn is not active'' ''turn_not_active'' None (Some d))"

text \<open>A \<open>try\<close> statement whose handler takes the exceptions of a class.\<close>

definition handling :: "'a broker_act \<Rightarrow> (exn \<Rightarrow> exn option) \<Rightarrow> 'a broker_act" where
  "handling m h = attempt m (\<lambda>x. raise (case h x of None \<Rightarrow> x | Some y \<Rightarrow> y))"

definition is_codex_error :: "exn \<Rightarrow> bool" where
  "is_codex_error x = (case x of CodexCallError _ _ _ \<Rightarrow> True | _ \<Rightarrow> False)"

definition is_protocol_state_error :: "exn \<Rightarrow> bool" where
  "is_protocol_state_error x = (case x of CodexProtocolError _ \<Rightarrow> True | _ \<Rightarrow> False)"

definition codex_handler :: "exn \<Rightarrow> exn option" where
  "codex_handler x = (if is_codex_error x then Some (codex_fault x) else None)"

definition registry_handler :: "exn \<Rightarrow> exn option" where
  "registry_handler x = (if is_registry_error x then Some (registry_fault x) else None)"

end
