(* ===== verification/BrokerOps.thy ===== *)
theory BrokerOps
  imports Broker
begin

text \<open>
  \<open>broker.py\<close>: the operations of \<open>WorkerBroker\<close> on sessions and turns. A \<open>try\<close> statement whose
  handler reads a variable the body assigns is split at the assignment, so that each part's
  handler sees what was assigned.
\<close>

section \<open>Live models\<close>

record live_model =
  lm_id :: string
  lm_default :: bool
  lm_efforts :: "string list"

definition live_model_json :: "live_model \<Rightarrow> json" where
  "live_model_json m = JObj [(''id'', JStr (lm_id m)), (''is_default'', JBool (lm_default m)),
     (''supported_efforts'', JList (map JStr (lm_efforts m)))]"

definition get_or :: "json_object \<Rightarrow> string \<Rightarrow> json \<Rightarrow> json" where
  "get_or d k v = (case dget d k of None \<Rightarrow> v | Some x \<Rightarrow> x)"

definition model_list_fault :: "string \<Rightarrow> exn" where
  "model_list_fault message = mk_rpc_fault (-32015) message ''codex_protocol_error'' None None"

definition effort_of :: "json \<Rightarrow> (exn, string) res" where
  "effort_of item = (case as_nonempty (case item of JObj d \<Rightarrow> jget d ''reasoningEffort'' | _ \<Rightarrow> item) of
     None \<Rightarrow> Inl (model_list_fault ''Codex model efforts are malformed'') | Some s \<Rightarrow> Inr s)"

definition efforts_of :: "json_object \<Rightarrow> (exn, string list) res" where
  "efforts_of raw = (case as_list (get_or raw ''supported_efforts'' (get_or raw ''supportedReasoningEfforts'' (JList []))) of
     None \<Rightarrow> Inl (model_list_fault ''Codex model efforts are malformed'')
   | Some xs \<Rightarrow> ebind (emap effort_of xs) (\<lambda>es.
       if distinct es then Inr es else Inl (model_list_fault ''Codex model efforts are duplicated'')))"

fun normalize_models :: "string list \<Rightarrow> json list \<Rightarrow> (exn, live_model list) res" where
  "normalize_models seen [] = Inr []"
| "normalize_models seen (raw # rest) = (case as_obj raw of
     None \<Rightarrow> Inl (model_list_fault ''Codex model list is malformed'')
   | Some d \<Rightarrow> (case as_nonempty (jget d ''id'') of
       None \<Rightarrow> Inl (model_list_fault ''Codex model list is malformed'')
     | Some i \<Rightarrow>
       if i \<in> set seen then Inl (model_list_fault ''Codex model list contains duplicate IDs'')
       else ebind (efforts_of d) (\<lambda>es. case get_or d ''is_default'' (get_or d ''isDefault'' (JBool False)) of
           JBool b \<Rightarrow> ebind (normalize_models (i # seen) rest) (\<lambda>ms. Inr (\<lparr>lm_id = i, lm_default = b, lm_efforts = es\<rparr> # ms))
         | _ \<Rightarrow> Inl (model_list_fault ''Codex model default flag is malformed''))))"

definition live_models :: "broker_env \<Rightarrow> live_model list broker_act" where
  "live_models e = andthen (handling (codex e ''model/list'' list_models) codex_handler) (\<lambda>raw.
     lift (normalize_models [] (map JObj raw)))"

definition model_list :: "broker_env \<Rightarrow> json_object broker_act" where
  "model_list e = andthen (live_models e) (\<lambda>ms. ret [(''models'', JList (map live_model_json ms))])"

text \<open>The choice among the live models, the part of \<open>_validate_model_effort\<close> after the discovery.\<close>

definition select_model :: "live_model list \<Rightarrow> string option \<Rightarrow> string option \<Rightarrow> (exn, live_model option) res" where
  "select_model models model effort = (case model of
     Some m \<Rightarrow> (case find (\<lambda>x. lm_id x = m) models of
         None \<Rightarrow> Inl (ModelSelectionError ''model is not available from live discovery'' (Some [(''model'', JStr m)]))
       | Some x \<Rightarrow> Inr (Some x))
   | None \<Rightarrow> (case effort of
         None \<Rightarrow> Inr None
       | Some ef \<Rightarrow> (case filter lm_default models of
           [x] \<Rightarrow> Inr (Some x)
         | [] \<Rightarrow> Inl (ModelSelectionError ''effort requires an explicit model when no default is advertised''
                  (Some [(''effort'', JStr ef)]))
         | _ \<Rightarrow> Inl (ModelSelectionError ''live model list has multiple defaults'' None))))"

definition check_effort :: "live_model option \<Rightarrow> string option \<Rightarrow> (exn, string option) res" where
  "check_effort selected effort = (case (selected, effort) of
     (Some x, Some ef) \<Rightarrow> if ef \<in> set (lm_efforts x) then Inr (Some (lm_id x))
       else Inl (ModelSelectionError ''effort is not supported by selected live model''
         (Some [(''model'', JStr (lm_id x)), (''effort'', JStr ef), (''supported_efforts'', JList (map JStr (lm_efforts x)))]))
   | _ \<Rightarrow> Inr (map_option lm_id selected))"

definition validate_model_effort :: "broker_env \<Rightarrow> string option \<Rightarrow> string option \<Rightarrow> string option broker_act" where
  "validate_model_effort e model effort =
     andthen (guard (model \<noteq> Some []) (ModelSelectionError ''model must be a non-empty string'' (Some [(''model'', jopt model)]))) (\<lambda>_.
     andthen (guard (effort \<noteq> Some []) (ModelSelectionError ''effort must be a non-empty string'' (Some [(''effort'', jopt effort)]))) (\<lambda>_.
     andthen (live_models e) (\<lambda>models.
       lift (ebind (select_model models model effort) (\<lambda>x. check_effort x effort)))))"

section \<open>Directories and identities\<close>

definition canonical_cwd :: "broker_env \<Rightarrow> string \<Rightarrow> string \<Rightarrow> (exn, string) res" where
  "canonical_cwd e cwd label =
     (let bad = (\<lambda>m. mk_rpc_fault (-32602) (label @ m) ''invalid_params'' None None) in
      if cwd = [] then Inl (bad '' must be a non-empty path'')
      else if \<not> is_absolute cwd then Inl (bad '' must be absolute'')
      else (case resolve_path (be_model e) cwd of
        None \<Rightarrow> Inl (bad '' must be an existing directory'')
      | Some c \<Rightarrow> if is_directory (be_model e) c then Inr c else Inl (bad '' must be an existing directory'')))"

definition upstream_cwd :: "broker_env \<Rightarrow> json \<Rightarrow> string \<Rightarrow> (exn, string) res" where
  "upstream_cwd e value label =
     (let bad = (\<lambda>m. mk_rpc_fault (-32015) (label @ m) ''codex_protocol_error'' None None) in
      case as_nonempty value of
        None \<Rightarrow> Inl (bad '' is missing or malformed'')
      | Some cwd \<Rightarrow>
        if \<not> is_absolute cwd then Inl (bad '' must be absolute'')
        else (case resolve_path (be_model e) cwd of
          None \<Rightarrow> Inl (bad '' must be an existing directory'')
        | Some c \<Rightarrow> if is_directory (be_model e) c then Inr c else Inl (bad '' must be an existing directory'')))"

definition resume_identity :: "broker_env \<Rightarrow> json \<Rightarrow> (exn, string \<times> string) res" where
  "resume_identity e response =
     (let bad = (\<lambda>m. mk_rpc_fault (-32015) m ''codex_protocol_error'' None None) in
      case as_obj response of
        None \<Rightarrow> Inl (bad ''Codex thread response is malformed'')
      | Some r \<Rightarrow> (case as_obj (jget r ''thread'') of
          None \<Rightarrow> Inl (bad ''Codex thread response omitted its ID'')
        | Some th \<Rightarrow> (case as_nonempty (jget th ''id'') of
            None \<Rightarrow> Inl (bad ''Codex thread response omitted its ID'')
          | Some tid \<Rightarrow> ebind (upstream_cwd e (jget th ''cwd'') ''Codex thread.cwd'') (\<lambda>cwd.
              if jget r ''cwd'' = JNull then Inr (tid, cwd)
              else ebind (upstream_cwd e (jget r ''cwd'') ''Codex response cwd'') (\<lambda>cwd'.
                if cwd' \<noteq> cwd then Inl (bad ''Codex response has conflicting working directories'')
                else Inr (tid, cwd))))))"

definition string_annotation :: "json_object \<Rightarrow> string \<Rightarrow> string option" where
  "string_annotation response key = as_nonempty (jget response key)"

section \<open>Sessions\<close>

datatype access_mode = FullAccess | ReadOnlyAccess

definition access_value :: "access_mode \<Rightarrow> string" where
  "access_value a = (case a of FullAccess \<Rightarrow> ''full'' | ReadOnlyAccess \<Rightarrow> ''read_only'')"

text \<open>\<open>AccessMode(s) if s else AccessMode.FULL\<close>.\<close>

definition access_of :: "string option \<Rightarrow> (exn, access_mode) res" where
  "access_of s = (case s of
     None \<Rightarrow> Inr FullAccess
   | Some v \<Rightarrow> if v = [] \<or> v = ''full'' then Inr FullAccess else if v = ''read_only'' then Inr ReadOnlyAccess
       else Inl (ValueError (v @ '' is not a valid AccessMode'')))"

datatype annotation_policy = LegacyMutable | PreserveWorkerPolicy

record start_spec =
  sp_cwd :: string
  sp_name :: "string option"
  sp_model :: "string option"
  sp_access :: "access_mode option"
  sp_tier :: "string option"
  sp_effort :: "string option"
  sp_policy :: annotation_policy
  sp_config :: "json_object option"

definition thread_sandbox :: "access_mode option \<Rightarrow> string" where
  "thread_sandbox a = (if a = Some FullAccess then ''danger-full-access'' else ''read-only'')"

definition turn_sandbox :: "access_mode \<Rightarrow> json_object" where
  "turn_sandbox a = (if a = FullAccess then [(''type'', JStr ''dangerFullAccess'')]
     else [(''type'', JStr ''readOnly''), (''networkAccess'', JBool False)])"

definition fresh_id :: "broker_env \<Rightarrow> string broker_act" where
  "fresh_id e = andthen (meanwhile e) (\<lambda>_ s. (Inr (be_uuid e (bk_clock s)), s))"

definition attached_result :: "broker_env \<Rightarrow> session_record \<Rightarrow> (exn, json_object) res" where
  "attached_result e rec = ebind (attach_json e (sr_thread_id rec)) (\<lambda>a. Inr (dset (session_result rec True) ''attach'' a))"

definition start_checks :: "broker_env \<Rightarrow> start_spec \<Rightarrow> string broker_act" where
  "start_checks e sp =
     andthen (lift (canonical_cwd e (sp_cwd sp) ''declared cwd'')) (\<lambda>cwd.
     andthen (validate_model_effort e (sp_model sp) None) (\<lambda>_.
     andthen (if sp_policy sp = PreserveWorkerPolicy
         then andthen (guard (sp_name sp \<noteq> None \<and> sp_model sp \<noteq> None \<and> sp_effort sp \<noteq> None \<and> sp_access sp \<noteq> None)
             (mk_rpc_fault (-32602) ''common worker start requires name, model, effort, and access'' ''invalid_params'' None None)) (\<lambda>_.
           andthen (validate_model_effort e (sp_model sp) (sp_effort sp)) (\<lambda>_. ret ()))
         else guard (sp_config sp = None)
             (mk_rpc_fault (-32602) ''config is a named-worker creation policy'' ''invalid_params'' None None)) (\<lambda>_.
       ret cwd)))"

text \<open>\<open>create_worker\<close> for a common worker, \<open>create\<close> for a legacy session.\<close>

definition creation_of :: "start_spec \<Rightarrow> string \<Rightarrow> string \<Rightarrow> string \<Rightarrow> creation" where
  "creation_of sp tid cwd sid = (if sp_policy sp = PreserveWorkerPolicy
     then \<lparr>cr_thread_id = tid, cr_cwd = cwd, cr_name = sp_name sp, cr_tier = sp_tier sp, cr_model = sp_model sp,
        cr_effort = sp_effort sp, cr_access = map_option access_value (sp_access sp), cr_session_id = Some sid,
        cr_config = sp_config sp\<rparr>
     else \<lparr>cr_thread_id = tid, cr_cwd = cwd, cr_name = sp_name sp, cr_tier = None, cr_model = sp_model sp,
        cr_effort = None, cr_access = None, cr_session_id = Some sid, cr_config = None\<rparr>)"

definition create_record :: "broker_env \<Rightarrow> creation \<Rightarrow> session_record broker_act" where
  "create_record e c = on_registry e (\<lambda>t reg. create (be_model e) reg c (be_uuid e t) (be_now e t) (be_write e t))"

text \<open>The handlers of the upstream \<open>try\<close>; \<open>tid\<close> is \<open>None\<close> while the thread identifier is unbound.\<close>

definition start_handler :: "broker_env \<Rightarrow> string \<Rightarrow> string \<Rightarrow> string option \<Rightarrow> exn \<Rightarrow> exn option" where
  "start_handler e operation sid tid x =
     (if is_rpc_fault x then None
      else if is_codex_error x then Some (codex_fault x)
      else if is_registry_error x \<or> is_os_error x then Some (case tid of
          None \<Rightarrow> UnboundLocalError ''thread_id''
        | Some t \<Rightarrow> post_registry_fault e operation sid t None x)
      else None)"

definition start_upstream :: "broker_env \<Rightarrow> start_spec \<Rightarrow> string \<Rightarrow> string \<Rightarrow> session_record broker_act" where
  "start_upstream e sp cwd sid =
     andthen (handling (andthen (codex e ''thread/start'' (\<lambda>cx. start_thread cx cwd (sp_model sp) (thread_sandbox (sp_access sp))
           (Some False) (sp_config sp))) (\<lambda>response. lift (resume_identity e (JObj response))))
         (start_handler e ''session_start'' sid None)) (\<lambda>(tid, returned).
     handling (andthen (guard (returned = cwd) (fault_with
           (identity_details e sid tid None (Some [(''expected_cwd'', JStr cwd), (''returned_cwd'', JStr returned)]))
           (\<lambda>d. mk_rpc_fault (-32014) ''Codex returned a different working directory'' ''session_cwd_mismatch'' None (Some d)))) (\<lambda>_.
         create_record e (creation_of sp tid cwd sid)))
       (start_handler e ''session_start'' sid (Some tid)))"

definition start_authoritatively :: "broker_env \<Rightarrow> start_spec \<Rightarrow> json_object broker_act" where
  "start_authoritatively e sp =
     andthen (start_checks e sp) (\<lambda>cwd.
     andthen (fresh_id e) (\<lambda>sid.
     andthen (start_upstream e sp cwd sid) (\<lambda>rec.
     andthen (update_runtime e (\<lambda>st. attach st rec)) (\<lambda>_.
       lift (attached_result e rec)))))"

definition start_session :: "broker_env \<Rightarrow> start_spec \<Rightarrow> json_object broker_act" where
  "start_session e sp = with_mutation e ''thread/start'' (start_authoritatively e sp)"

definition different_thread :: exn where
  "different_thread = mk_rpc_fault (-32015) ''Codex resume returned a different thread'' ''codex_protocol_error'' None None"

definition resume_authoritatively :: "broker_env \<Rightarrow> string \<Rightarrow> access_mode \<Rightarrow> json_object option \<Rightarrow> json_object broker_act" where
  "resume_authoritatively e tid access config = handling
     (andthen (codex e ''thread/resume'' (\<lambda>cx. resume_thread cx tid ''never'' (thread_sandbox (Some access)) config)) (\<lambda>response.
      andthen (lift (resume_identity e (JObj response))) (\<lambda>(returned, _).
      andthen (guard (returned = tid) different_thread) (\<lambda>_. ret response))))
     (\<lambda>x. if is_rpc_fault x then None else codex_handler x)"

definition resume_session :: "broker_env \<Rightarrow> string \<Rightarrow> access_mode \<Rightarrow> json_object option \<Rightarrow> json_object broker_act" where
  "resume_session e tid access config = with_mutation e ''thread/resume'' (resume_authoritatively e tid access config)"

definition mismatched_thread :: "string \<Rightarrow> string \<Rightarrow> exn" where
  "mismatched_thread expected returned = mk_rpc_fault (-32015) ''Codex resume returned a different thread'' ''codex_protocol_error''
     None (Some [(''expected_thread_id'', JStr expected), (''returned_thread_id'', JStr returned)])"

definition resume_existing :: "broker_env \<Rightarrow> session_record \<Rightarrow> json_object broker_act" where
  "resume_existing e rec = handling
     (andthen (lift (access_of (sr_access rec))) (\<lambda>access.
      andthen (resume_authoritatively e (sr_thread_id rec) access (sr_config rec)) (\<lambda>response.
      andthen (lift (resume_identity e (JObj response))) (\<lambda>(tid, returned).
      andthen (guard (tid = sr_thread_id rec) (mismatched_thread (sr_thread_id rec) tid)) (\<lambda>_.
      andthen (guard (returned = sr_cwd rec)
          (mk_rpc_fault (-32014) ''Codex resume working directory does not match the session'' ''session_cwd_mismatch'' None
            (Some [(''expected_cwd'', JStr (sr_cwd rec)), (''returned_cwd'', JStr returned)]))) (\<lambda>_.
      andthen (update_runtime e (\<lambda>st. attach st rec)) (\<lambda>_. lift (attached_result e rec))))))))
     (\<lambda>x. if is_rpc_fault x then Some (with_identity e x rec None)
          else if is_codex_error x \<or> is_protocol_state_error x then Some (from_lower e x (Some rec) None) else None)"

definition recover_handler :: "broker_env \<Rightarrow> string \<Rightarrow> string \<Rightarrow> exn \<Rightarrow> exn option" where
  "recover_handler e sid tid x = (case fault_parts x of
     Some (c, m, k, r, d) \<Rightarrow> Some (fault_with (identity_details e sid tid None d) (\<lambda>d'. mk_rpc_fault c m k r (Some d')))
   | None \<Rightarrow> if is_codex_error x \<or> is_protocol_state_error x then Some (from_lower e x None None)
       else if is_registry_error x \<or> is_os_error x then Some (post_registry_fault e ''session_resume'' sid tid None x)
       else None)"

definition recover_thread :: "broker_env \<Rightarrow> string \<Rightarrow> string option \<Rightarrow> json_object broker_act" where
  "recover_thread e tid name =
     andthen (fresh_id e) (\<lambda>sid.
     andthen (handling
       (andthen (resume_authoritatively e tid FullAccess None) (\<lambda>response.
        andthen (lift (resume_identity e (JObj response))) (\<lambda>(returned, cwd).
        andthen (guard (returned = tid) (mismatched_thread tid returned)) (\<lambda>_.
          create_record e \<lparr>cr_thread_id = returned, cr_cwd = cwd, cr_name = name, cr_tier = None,
            cr_model = string_annotation response ''model'', cr_effort = string_annotation response ''reasoningEffort'',
            cr_access = None, cr_session_id = Some sid, cr_config = None\<rparr>))))
       (recover_handler e sid tid)) (\<lambda>rec.
     andthen (update_runtime e (\<lambda>st. attach st rec)) (\<lambda>_. lift (attached_result e rec))))"

definition look_up :: "broker_env \<Rightarrow> identifier_selector \<Rightarrow> session_record option broker_act" where
  "look_up e sel = handling (read_registry e (\<lambda>reg. try_resolve reg sel)) registry_handler"

definition session_resume_authoritatively :: "broker_env \<Rightarrow> identifier_selector \<Rightarrow> string option \<Rightarrow> json_object broker_act" where
  "session_resume_authoritatively e sel name =
     andthen (look_up e sel) (\<lambda>existing. case existing of
       Some rec \<Rightarrow> andthen (guard (name = None)
           (mk_rpc_fault (-32602) ''--name is only valid for raw thread recovery'' ''invalid_params'' None None)) (\<lambda>_.
         resume_existing e rec)
     | None \<Rightarrow> (case sel_thread_id sel of
         None \<Rightarrow> raise (unknown_session sel)
       | Some tid \<Rightarrow> recover_thread e tid name))"

definition session_resume :: "broker_env \<Rightarrow> identifier_selector \<Rightarrow> string option \<Rightarrow> json_object broker_act" where
  "session_resume e sel name = with_mutation e ''thread/resume'' (session_resume_authoritatively e sel name)"

end
