(* ===== verification/BrokerTurns.thy ===== *)
theory BrokerTurns
  imports BrokerOps
begin

text \<open>
  \<open>broker.py\<close>: turns of a session (start, status, history, wait, events, steer, interrupt),
  the views of sessions, goals and shutdown.
\<close>

section \<open>Looking up a session\<close>

definition detached_status :: runtime_status where
  "detached_status = \<lparr>rs_attached = False, rs_active_turn_id = None, rs_latest_turn = None\<rparr>"

definition status_or_detached :: "broker_env \<Rightarrow> session_record \<Rightarrow> runtime_status broker_act" where
  "status_or_detached e rec = attempt (read_runtime e (\<lambda>st. status st (sr_session_id rec)))
     (\<lambda>x. case x of UnknownSession _ \<Rightarrow> ret detached_status | _ \<Rightarrow> raise x)"

definition resolve_session :: "broker_env \<Rightarrow> identifier_selector \<Rightarrow> bool \<Rightarrow> session_record broker_act" where
  "resolve_session e sel must_attach = andthen (look_up e sel) (\<lambda>found. case found of
     None \<Rightarrow> raise (unknown_session sel)
   | Some rec \<Rightarrow> if must_attach
       then andthen (status_or_detached e rec) (\<lambda>st.
         andthen (guard (rs_attached st) (detached_fault e rec None)) (\<lambda>_. ret rec))
       else ret rec)"

definition by_session :: "string \<Rightarrow> identifier_selector" where
  "by_session sid = \<lparr>sel_session_id = Some sid, sel_thread_id = None\<rparr>"

definition with_attach :: "broker_env \<Rightarrow> session_record \<Rightarrow> json_object \<Rightarrow> json_object broker_act" where
  "with_attach e rec d = lift (ebind (attach_json e (sr_thread_id rec)) (\<lambda>a. Inr (dset d ''attach'' a)))"

section \<open>Starting a turn\<close>

record turn_spec =
  tp_session_id :: string
  tp_prompt :: string
  tp_model :: "string option"
  tp_effort :: "string option"
  tp_access :: access_mode
  tp_schema :: "json_object option"

definition empty_prompt :: exn where
  "empty_prompt = mk_rpc_fault (-32602) ''prompt must be a non-empty string'' ''invalid_params'' None None"

definition turn_handler :: "broker_env \<Rightarrow> session_record \<Rightarrow> string option \<Rightarrow> exn \<Rightarrow> exn option" where
  "turn_handler e rec turn_id x = (case x of
     CodexCallError _ _ _ \<Rightarrow> Some (from_lower e x (Some rec) turn_id)
   | CodexProtocolError _ \<Rightarrow> Some (from_lower e x (Some rec) turn_id)
   | TurnActive _ \<Rightarrow> Some (from_lower e x (Some rec) turn_id)
   | SessionDetached _ \<Rightarrow> Some (from_lower e x (Some rec) turn_id)
   | UnknownSession _ \<Rightarrow> Some (from_lower e x (Some rec) turn_id)
   | _ \<Rightarrow> None)"

text \<open>\<open>except BaseException: cancel_start; raise\<close>.\<close>

definition or_cancel :: "broker_env \<Rightarrow> string \<Rightarrow> 'a broker_act \<Rightarrow> 'a broker_act" where
  "or_cancel e sid m = attempt m (\<lambda>x. andthen (update_runtime e (\<lambda>st. cancel_start st sid)) (\<lambda>_. raise x))"

definition request_turn :: "broker_env \<Rightarrow> session_record \<Rightarrow> turn_spec \<Rightarrow> string option \<Rightarrow> string broker_act" where
  "request_turn e rec tp model =
     codex e ''turn/start'' (\<lambda>cx. Transport.start_turn cx (sr_thread_id rec) (tp_prompt tp) model (tp_effort tp)
       (Some (turn_sandbox (tp_access tp))) (tp_schema tp))"

definition reserved_turn :: "broker_env \<Rightarrow> session_record \<Rightarrow> turn_spec \<Rightarrow> string option \<Rightarrow> string broker_act" where
  "reserved_turn e rec tp model =
     (let sid = sr_session_id rec in
      andthen (handling (update_runtime e (\<lambda>st. reserve_start st sid)) (turn_handler e rec None)) (\<lambda>_.
      andthen (handling (or_cancel e sid (request_turn e rec tp model)) (turn_handler e rec None)) (\<lambda>tid.
      andthen (handling (or_cancel e sid (on_runtime e (\<lambda>st. reconcile_start st sid (JStr tid))))
          (turn_handler e rec (Some tid))) (\<lambda>_.
        ret tid))))"

text \<open>\<open>a or b\<close> for optional text.\<close>

definition or_else :: "string option \<Rightarrow> string option \<Rightarrow> string option" where
  "or_else a b = (if a = None \<or> a = Some [] then b else a)"

definition annotate_turn :: "broker_env \<Rightarrow> session_record \<Rightarrow> turn_spec \<Rightarrow> string option \<Rightarrow> string \<Rightarrow> unit broker_act" where
  "annotate_turn e rec tp effective tid =
     (if common_policy_complete rec then ret ()
      else handling (andthen (on_registry e (\<lambda>t reg. update_annotations reg (sr_session_id rec)
            (if tp_effort tp \<noteq> None then effective else or_else (tp_model tp) (sr_model rec))
            (or_else (tp_effort tp) (sr_effort rec)) (be_now e t) (be_write e t))) (\<lambda>_. ret ()))
        (\<lambda>x. if is_registry_error x \<or> is_os_error x
           then Some (post_registry_fault e ''turn_start_annotations'' (sr_session_id rec) (sr_thread_id rec) (Some tid) x)
           else None))"

definition start_turn_authoritatively :: "broker_env \<Rightarrow> turn_spec \<Rightarrow> json_object broker_act" where
  "start_turn_authoritatively e tp =
     andthen (resolve_session e (by_session (tp_session_id tp)) True) (\<lambda>rec.
     andthen (guard (tp_prompt tp \<noteq> []) empty_prompt) (\<lambda>_.
     andthen (validate_model_effort e
         (if tp_model tp \<noteq> None \<or> tp_effort tp = None then tp_model tp else sr_model rec) (tp_effort tp)) (\<lambda>effective.
     andthen (reserved_turn e rec tp (if tp_effort tp \<noteq> None then effective else tp_model tp)) (\<lambda>tid.
     andthen (annotate_turn e rec tp effective tid) (\<lambda>_.
       with_attach e rec [(''session_id'', JStr (sr_session_id rec)), (''thread_id'', JStr (sr_thread_id rec)),
         (''turn_id'', JStr tid), (''status'', JStr ''in_progress'')])))))"

definition start_turn :: "broker_env \<Rightarrow> turn_spec \<Rightarrow> json_object broker_act" where
  "start_turn e tp = with_mutation e ''turn/start'' (start_turn_authoritatively e tp)"

definition turn_start :: "broker_env \<Rightarrow> identifier_selector \<Rightarrow> string \<Rightarrow> string option \<Rightarrow> string option \<Rightarrow> json_object broker_act" where
  "turn_start e sel prompt model effort =
     andthen (resolve_session e sel True) (\<lambda>rec.
     andthen (lift (access_of (sr_access rec))) (\<lambda>access.
       start_turn e \<lparr>tp_session_id = sr_session_id rec, tp_prompt = prompt, tp_model = model, tp_effort = effort,
         tp_access = access, tp_schema = None\<rparr>))"

section \<open>Reading turns\<close>

definition reconcile_from_upstream :: "broker_env \<Rightarrow> session_record \<Rightarrow> unit broker_act" where
  "reconcile_from_upstream e rec = handling
     (andthen (codex e ''thread/read'' (\<lambda>cx. ebind (cx ''thread/read''
           [(''threadId'', JStr (sr_thread_id rec)), (''includeTurns'', JBool True)]) (\<lambda>result.
         if has_fields result [''thread''] \<and> (case as_obj (jget result ''thread'') of None \<Rightarrow> False
             | Some th \<Rightarrow> jget th ''id'' = JStr (sr_thread_id rec))
         then Inr (jget result ''thread'')
         else Inl (native_error ''thread/read'' ''malformed authoritative thread response'')))) (\<lambda>thread.
      update_runtime e (\<lambda>st. ebind (reconcile_thread st thread) (\<lambda>(st', _, _). Inr st'))))
     (\<lambda>x. if is_codex_error x \<or> is_protocol_state_error x then Some (from_lower e x (Some rec) None) else None)"

definition turn_status :: "broker_env \<Rightarrow> identifier_selector \<Rightarrow> json_object broker_act" where
  "turn_status e sel =
     andthen (resolve_session e sel False) (\<lambda>rec.
     andthen (status_or_detached e rec) (\<lambda>first.
     andthen (if rs_attached first
         then andthen (reconcile_from_upstream e rec) (\<lambda>_. status_or_detached e rec) else ret first) (\<lambda>st.
       with_attach e rec [(''session_id'', JStr (sr_session_id rec)), (''thread_id'', JStr (sr_thread_id rec)),
         (''attached'', JBool (rs_attached st)), (''active_turn_id'', jopt (rs_active_turn_id st)),
         (''latest_turn'', opt_turn_dict (rs_latest_turn st))])))"

definition turn_history :: "broker_env \<Rightarrow> identifier_selector \<Rightarrow> string option \<Rightarrow> int option \<Rightarrow> json_object broker_act" where
  "turn_history e sel cursor limit =
     andthen (resolve_session e sel False) (\<lambda>rec.
     andthen (status_or_detached e rec) (\<lambda>st.
     andthen (if rs_attached st then reconcile_from_upstream e rec else ret ()) (\<lambda>_.
     andthen (handling (codex e ''thread/turns/list'' (\<lambda>cx. native_turns_list cx (sr_thread_id rec) cursor limit))
         (\<lambda>x. if is_codex_error x then Some (from_lower e x (Some rec) None) else None)) (\<lambda>page.
       with_attach e rec [(''session_id'', JStr (sr_session_id rec)), (''thread_id'', JStr (sr_thread_id rec)),
         (''turns'', jget page ''turns''), (''nextCursor'', jget page ''nextCursor'')]))))"

text \<open>
  What a waiting thread sees of the session in the next \<open>n\<close> moments; sessions are never removed, so
  the default is never used. \<open>None\<close>: the wait has not returned within the moments watched.
\<close>

fun watch :: "broker_env \<Rightarrow> nat \<Rightarrow> string \<Rightarrow> broker_state \<Rightarrow> (int \<times> session_runtime) list" where
  "watch e 0 sid s = []"
| "watch e (Suc n) sid s = (let s' = snd (meanwhile e s) in
     (case dget (sessions (bk_runtime s')) sid of None \<Rightarrow> [] | Some r \<Rightarrow> [(be_monotonic e (bk_clock s'), r)])
     @ watch e n sid s')"

fun wait_moments :: "broker_env \<Rightarrow> nat \<Rightarrow> unit broker_act" where
  "wait_moments e 0 = ret ()"
| "wait_moments e (Suc n) = andthen (meanwhile e) (\<lambda>_. wait_moments e n)"

definition wait_handler :: "broker_env \<Rightarrow> session_record \<Rightarrow> exn \<Rightarrow> exn option" where
  "wait_handler e rec x = (case x of
     WaitTimeout _ _ \<Rightarrow> Some (from_lower e x (Some rec) None)
   | NoTurn _ \<Rightarrow> Some (from_lower e x (Some rec) None)
   | SessionDetached _ \<Rightarrow> Some (from_lower e x (Some rec) None)
   | UnknownSession _ \<Rightarrow> Some (from_lower e x (Some rec) None)
   | _ \<Rightarrow> if is_value_error x then Some (from_lower e x (Some rec) None) else None)"

definition turn_wait :: "broker_env \<Rightarrow> nat \<Rightarrow> identifier_selector \<Rightarrow> int \<Rightarrow> json_object option broker_act" where
  "turn_wait e n sel timeout =
     andthen (resolve_session e sel True) (\<lambda>rec. handling
       (andthen (observe (\<lambda>s. wait (bk_runtime s) (sr_session_id rec) (Some timeout) None (be_monotonic e (bk_clock s))
           (watch e n (sr_session_id rec) s))) (\<lambda>outcome.
        andthen (wait_moments e n) (\<lambda>_. case outcome of
          None \<Rightarrow> ret None
        | Some (Inl x) \<Rightarrow> raise x
        | Some (Inr t) \<Rightarrow> andthen (with_attach e rec [(''session_id'', JStr (sr_session_id rec)),
             (''thread_id'', JStr (sr_thread_id rec)), (''turn'', JObj (turn_snapshot_to_dict t))]) (\<lambda>d. ret (Some d)))))
       (wait_handler e rec))"

definition turn_events :: "broker_env \<Rightarrow> identifier_selector \<Rightarrow> int \<Rightarrow> int \<Rightarrow> json_object broker_act" where
  "turn_events e sel after limit =
     andthen (resolve_session e sel False) (\<lambda>rec. handling
       (andthen (read_runtime e (\<lambda>st. events st (sr_session_id rec) (JInt after) (JInt limit))) (\<lambda>page.
         with_attach e rec (event_page_to_dict page)))
       (\<lambda>x. case x of UnknownSession _ \<Rightarrow> Some (from_lower e x (Some rec) None)
          | _ \<Rightarrow> if is_value_error x then Some (from_lower e x (Some rec) None) else None))"

section \<open>Controlling a turn\<close>

definition active_turn_or_fault :: "broker_env \<Rightarrow> session_record \<Rightarrow> string option \<Rightarrow> string broker_act" where
  "active_turn_or_fault e rec expected =
     andthen (status_or_detached e rec) (\<lambda>st.
     andthen (guard (rs_attached st) (detached_fault e rec expected)) (\<lambda>_.
       case rs_active_turn_id st of
         Some t \<Rightarrow> if expected = None \<or> expected = Some t then ret t
           else raise (turn_not_active e rec (rs_latest_turn st) expected)
       | None \<Rightarrow> raise (turn_not_active e rec (rs_latest_turn st)
           (if expected \<noteq> None then expected else map_option ts_turn_id (rs_latest_turn st)))))"

definition is_upstream_turn_not_active :: "exn \<Rightarrow> bool" where
  "is_upstream_turn_not_active x = (case x of
     CodexCallError kind name (Some d) \<Rightarrow> kind = ''upstream_error'' \<and> eq_int (jget d ''code'') (-32600)
       \<and> jget d ''message'' = (if name = ''turn/steer'' then JStr ''no active turn to steer''
            else if name = ''turn/interrupt'' then JStr ''no active turn to interrupt'' else JNull)
   | _ \<Rightarrow> False)"

definition control_race :: "broker_env \<Rightarrow> session_record \<Rightarrow> string \<Rightarrow> exn \<Rightarrow> 'a broker_act" where
  "control_race e rec expected x =
     andthen (status_or_detached e rec) (\<lambda>st.
       raise (if is_upstream_turn_not_active x then turn_not_active e rec (rs_latest_turn st) (Some expected)
         else with_identity e (codex_fault x) rec (Some expected)))"

definition controlling :: "broker_env \<Rightarrow> session_record \<Rightarrow> string \<Rightarrow> 'a broker_act \<Rightarrow> 'a broker_act" where
  "controlling e rec turn_id m = attempt m (\<lambda>x. if is_codex_error x then control_race e rec turn_id x else raise x)"

definition accepted :: "broker_env \<Rightarrow> session_record \<Rightarrow> string \<Rightarrow> json_object broker_act" where
  "accepted e rec turn_id = with_attach e rec [(''session_id'', JStr (sr_session_id rec)),
     (''thread_id'', JStr (sr_thread_id rec)), (''turn_id'', JStr turn_id), (''accepted'', JBool True)]"

definition turn_steer_authoritatively :: "broker_env \<Rightarrow> identifier_selector \<Rightarrow> string \<Rightarrow> string option \<Rightarrow> json_object broker_act" where
  "turn_steer_authoritatively e sel prompt expected =
     andthen (guard (prompt \<noteq> []) empty_prompt) (\<lambda>_.
     andthen (resolve_session e sel True) (\<lambda>rec.
     andthen (active_turn_or_fault e rec expected) (\<lambda>tid.
     andthen (controlling e rec tid (codex e ''turn/steer'' (\<lambda>cx. steer cx (sr_thread_id rec) tid prompt))) (\<lambda>returned.
     andthen (guard (returned = tid) (fault_with (identity_details e (sr_session_id rec) (sr_thread_id rec) (Some tid)
           (Some [(''expected_turn_id'', JStr tid), (''returned_turn_id'', JStr returned)]))
         (\<lambda>d. mk_rpc_fault (-32015) ''Codex steer returned a different turn'' ''codex_protocol_error'' None (Some d)))) (\<lambda>_.
       accepted e rec tid)))))"

definition turn_steer :: "broker_env \<Rightarrow> identifier_selector \<Rightarrow> string \<Rightarrow> string option \<Rightarrow> json_object broker_act" where
  "turn_steer e sel prompt expected = with_mutation e ''turn/steer'' (turn_steer_authoritatively e sel prompt expected)"

definition turn_interrupt_authoritatively :: "broker_env \<Rightarrow> identifier_selector \<Rightarrow> string option \<Rightarrow> json_object broker_act" where
  "turn_interrupt_authoritatively e sel expected =
     andthen (resolve_session e sel True) (\<lambda>rec.
     andthen (active_turn_or_fault e rec expected) (\<lambda>tid.
     andthen (controlling e rec tid (codex e ''turn/interrupt'' (\<lambda>cx. interrupt cx (sr_thread_id rec) tid))) (\<lambda>_.
       accepted e rec tid)))"

definition turn_interrupt :: "broker_env \<Rightarrow> identifier_selector \<Rightarrow> string option \<Rightarrow> json_object broker_act" where
  "turn_interrupt e sel expected = with_mutation e ''turn/interrupt'' (turn_interrupt_authoritatively e sel expected)"

definition shutdown_codex :: "broker_env \<Rightarrow> json_object broker_act" where
  "shutdown_codex e = with_mutation e ''shutdown''
     (andthen (handling (andthen (meanwhile e) (\<lambda>_ s. (be_codex_shutdown e (bk_clock s), s))) codex_handler) (\<lambda>_.
       ret [(''accepted'', JBool True)]))"

definition goal_set :: "broker_env \<Rightarrow> string \<Rightarrow> string option \<Rightarrow> string option \<Rightarrow> int option \<Rightarrow> json_object broker_act" where
  "goal_set e tid objective goal_status budget = with_mutation e ''thread/goal/set''
     (codex e ''thread/goal/set'' (\<lambda>cx. native_goal_set cx tid objective goal_status budget))"

definition goal_get :: "broker_env \<Rightarrow> string \<Rightarrow> json_object broker_act" where
  "goal_get e tid = codex e ''thread/goal/get'' (\<lambda>cx. native_goal_get cx tid)"

section \<open>Views\<close>

definition session_view :: "broker_env \<Rightarrow> session_record \<Rightarrow> (runtime_status \<Rightarrow> string \<times> json) \<Rightarrow> json_object broker_act" where
  "session_view e rec latest = andthen (status_or_detached e rec) (\<lambda>st.
     with_attach e rec [(''session'', JObj (session_to_dict rec)), (''attached'', JBool (rs_attached st)),
       (''active_turn_id'', jopt (rs_active_turn_id st)), latest st])"

definition session_list :: "broker_env \<Rightarrow> json_object broker_act" where
  "session_list e =
     andthen (handling (read_registry e (\<lambda>reg. Inr (list_records reg))) registry_handler) (\<lambda>rs.
     andthen (each (\<lambda>rec. session_view e rec (\<lambda>st. (''latest_turn_status'',
         case rs_latest_turn st of None \<Rightarrow> JNull | Some t \<Rightarrow> JStr (ts_status t)))) rs) (\<lambda>views.
       ret [(''sessions'', JList (map JObj views))]))"

definition session_show :: "broker_env \<Rightarrow> identifier_selector \<Rightarrow> json_object broker_act" where
  "session_show e sel = andthen (resolve_session e sel False) (\<lambda>rec.
     session_view e rec (\<lambda>st. (''latest_turn'', opt_turn_dict (rs_latest_turn st))))"

definition session_start :: "broker_env \<Rightarrow> string \<Rightarrow> string option \<Rightarrow> string option \<Rightarrow> json_object broker_act" where
  "session_start e cwd name model = start_session e \<lparr>sp_cwd = cwd, sp_name = name, sp_model = model,
     sp_access = Some FullAccess, sp_tier = None, sp_effort = None, sp_policy = LegacyMutable, sp_config = None\<rparr>"

definition daemon_status :: "broker_env \<Rightarrow> string \<Rightarrow> string \<Rightarrow> int \<Rightarrow> string \<Rightarrow> json_object broker_act" where
  "daemon_status e socket_path state_path pid version =
     andthen (read_registry e (\<lambda>reg. Inr (list_records reg))) (\<lambda>rs.
     andthen (observe bk_clock) (\<lambda>t.
       ret [(''ready'', JBool (be_codex_running e t)), (''daemon_pid'', JInt pid), (''codex_pid'', be_codex_pid e),
         (''socket_path'', JStr socket_path), (''state_path'', JStr state_path), (''session_count'', JInt (int (length rs))),
         (''worker_names'', JList (map JStr (sort (List.map_filter sr_name rs)))), (''worker_version'', JStr version)]))"

end
