(* ===== verification/BrokerProps.thy ===== *)
theory BrokerProps
  imports BrokerTurns RuntimeInv
begin

text \<open>
  Properties of the operations of \<open>WorkerBroker\<close>. What the other threads may do between two
  sections is a hypothesis: a relation the changes of \<open>be_runtime\<close>, \<open>be_registry\<close> and \<open>be_gate\<close>
  respect.
\<close>

section \<open>Frames of the sections\<close>

text \<open>Requests of the names \<open>N\<close> are appended, nothing is torn down, the clock does not run back.\<close>

definition log_within :: "string set \<Rightarrow> broker_state \<Rightarrow> broker_state \<Rightarrow> bool" where
  "log_within N s s' \<longleftrightarrow> (\<exists>cs. bk_calls s' = bk_calls s @ cs \<and> fst ` set cs \<subseteq> N) \<and> bk_terminations s' = bk_terminations s
     \<and> bk_clock s \<le> bk_clock s'"

interpretation logs: frame_relation "log_within N" for N
  by unfold_locales (auto simp: log_within_def image_Un)

lemma logs_wider:
  assumes "keeps (log_within M) m" "M \<subseteq> N"
  shows "keeps (log_within N) m"
proof (rule keepsI)
  show "m s = (r, s') \<Longrightarrow> log_within N s s'" for s r s'
    using keepsD [OF assms(1), of s r s'] assms(2) by (auto simp: log_within_def)
qed

named_theorems log_rules \<open>acts that only append to the requests\<close>

lemma logs_meanwhile [log_rules]: "keeps (log_within N) (meanwhile e)"
  by (simp add: keeps_def log_within_def meanwhile_def)

lemma logs_section:
  assumes "\<And>x s. log_within N s (snd (f x s))"
  shows "keeps (log_within N) (andthen (meanwhile e) f)"
  by (rule logs.sequence [OF logs_meanwhile]) (simp add: keeps_def assms)

lemma logs_sections [log_rules]:
  "keeps (log_within N) (on_runtime e g)" "keeps (log_within N) (on_registry e h)" "keeps (log_within N) (on_gate e k)"
  unfolding on_runtime_def on_registry_def on_gate_def
  by (rule logs_section; simp add: log_within_def split: prod.split)+

lemma logs_codex [log_rules]: "name \<in> N \<Longrightarrow> keeps (log_within N) (codex e name c)"
  unfolding codex_def by (rule logs_section) (simp add: log_within_def)

lemma logs_reads [log_rules]:
  "keeps (log_within N) (update_runtime e u)" "keeps (log_within N) (read_runtime e f)"
  "keeps (log_within N) (read_registry e g)" "keeps (log_within N) (enter_gate e name)"
  unfolding update_runtime_def read_runtime_def read_registry_def enter_gate_def by (rule log_rules)+

lemma logs_handling [log_rules]: "keeps (log_within N) m \<Longrightarrow> keeps (log_within N) (handling m h)"
  unfolding handling_def by (rule logs.handler) (auto intro: logs.rules)

lemma logs_cancel [log_rules]: "keeps (log_within N) m \<Longrightarrow> keeps (log_within N) (or_cancel e sid m)"
  unfolding or_cancel_def by (auto intro!: logs.rules log_rules)

lemma logs_lookups [log_rules]:
  "''model/list'' \<in> N \<Longrightarrow> keeps (log_within N) (live_models e)" "keeps (log_within N) (look_up e sel)"
  "keeps (log_within N) (status_or_detached e rec)"
  "keeps (log_within N) (fresh_id e)" "keeps (log_within N) (create_record e c)" "keeps (log_within N) (with_attach e rec d)"
proof -
  show "keeps (log_within N) (live_models e)" if "''model/list'' \<in> N"
    unfolding live_models_def using that by (intro logs.rules log_rules)
  show "keeps (log_within N) (look_up e sel)" unfolding look_up_def by (intro log_rules)
  show "keeps (log_within N) (status_or_detached e rec)" unfolding status_or_detached_def
    by (rule logs.handler, rule log_rules) (auto intro: logs.rules split: exn.split)
  show "keeps (log_within N) (fresh_id e)" unfolding fresh_id_def by (rule logs_section) (simp add: log_within_def)
  show "keeps (log_within N) (create_record e c)" unfolding create_record_def by (intro log_rules)
  show "keeps (log_within N) (with_attach e rec d)" unfolding with_attach_def by (intro logs.rules)
qed

lemma logs_validate [log_rules]: "''model/list'' \<in> N \<Longrightarrow> keeps (log_within N) (validate_model_effort e m ef)"
  unfolding validate_model_effort_def by (intro logs.rules log_rules)

lemma logs_resolve [log_rules]: "keeps (log_within N) (resolve_session e sel b)"
  unfolding resolve_session_def by (intro logs.rules log_rules)

lemma logs_checks [log_rules]: "keeps (log_within {''model/list''}) (start_checks e sp)"
  unfolding start_checks_def by (intro logs.rules log_rules) simp_all

section \<open>The reservation of a turn\<close>

text \<open>The session is known and no start is pending or awaits its response.\<close>

definition free_session :: "string \<Rightarrow> runtime_store \<Rightarrow> bool" where
  "free_session sid st \<longleftrightarrow> (case dget (sessions st) sid of None \<Rightarrow> False
     | Some r \<Rightarrow> \<not> rt_start_pending r \<and> \<not> rt_awaiting r)"

definition known_session :: "string \<Rightarrow> runtime_store \<Rightarrow> bool" where
  "known_session sid st \<longleftrightarrow> dget (sessions st) sid \<noteq> None"

lemma free_known: "free_session sid st \<Longrightarrow> known_session sid st"
  by (auto simp: free_session_def known_session_def split: option.splits)

text \<open>A condition on the runtime the other threads leave alone.\<close>

definition untouched :: "broker_env \<Rightarrow> (runtime_store \<Rightarrow> bool) \<Rightarrow> bool" where
  "untouched e P \<longleftrightarrow> (\<forall>t st. P st \<longrightarrow> P (be_runtime e t st))"

text \<open>The other threads may do anything to a session whose turn is being started here but reserve it.\<close>

definition alone_on :: "broker_env \<Rightarrow> string \<Rightarrow> bool" where
  "alone_on e sid \<longleftrightarrow> untouched e (known_session sid) \<and> untouched e (free_session sid)"

abbreviation holds_runtime :: "(runtime_store \<Rightarrow> bool) \<Rightarrow> broker_state \<Rightarrow> bool" where
  "holds_runtime P s \<equiv> P (bk_runtime s)"

text \<open>A section on the runtime, from such a condition.\<close>

lemma hoare_runtime:
  assumes "untouched e P"
    and "\<And>st st' x. P st \<Longrightarrow> f st = (st', Inr x) \<Longrightarrow> Q x st'" "\<And>st st' x. P st \<Longrightarrow> f st = (st', Inl x) \<Longrightarrow> E x st'"
  shows "hoare (holds_runtime P) (on_runtime e f) (\<lambda>x. holds_runtime (Q x)) (\<lambda>x. holds_runtime (E x))"
  using assms(1)
  by (auto simp: hoare_def on_runtime_def andthen_def meanwhile_def untouched_def
      dest: assms(2,3) split: prod.splits sum.splits)

text \<open>An act that leaves the runtime to the other threads.\<close>

definition spares_runtime :: "broker_env \<Rightarrow> 'a broker_act \<Rightarrow> bool" where
  "spares_runtime e m \<longleftrightarrow> (\<forall>P. untouched e P \<longrightarrow>
     hoare (holds_runtime P) m (\<lambda>_. holds_runtime P) (\<lambda>_. holds_runtime P))"

named_theorems spare_rules \<open>acts that do not write the runtime\<close>

lemma spares_basic [spare_rules]:
  "spares_runtime e (ret x)" "spares_runtime e (raise y)" "spares_runtime e (guard b y)" "spares_runtime e (lift r)"
  "spares_runtime e (observe f)" "spares_runtime e (meanwhile e)"
  by (auto simp: spares_runtime_def hoare_def act_defs meanwhile_def untouched_def split: sum.split)

lemma spares_statements [spare_rules]:
  "spares_runtime e m \<Longrightarrow> (\<And>x. spares_runtime e (f x)) \<Longrightarrow> spares_runtime e (andthen m f)"
  "spares_runtime e m \<Longrightarrow> (\<And>x. spares_runtime e (h x)) \<Longrightarrow> spares_runtime e (attempt m h)"
  "spares_runtime e m \<Longrightarrow> spares_runtime e n \<Longrightarrow> spares_runtime e (if b then m else n)"
  unfolding spares_runtime_def by (auto intro!: hoare_andthen hoare_attempt)

lemma spares_option [spare_rules]:
  "spares_runtime e m \<Longrightarrow> (\<And>y. spares_runtime e (n y)) \<Longrightarrow> spares_runtime e (case x of None \<Rightarrow> m | Some y \<Rightarrow> n y)"
  by (cases x) auto

lemma spares_sections [spare_rules]:
  "spares_runtime e (on_registry e f)" "spares_runtime e (codex e name c)" "spares_runtime e (read_runtime e g)"
  by (auto simp: spares_runtime_def hoare_def on_registry_def codex_def read_runtime_def on_runtime_def andthen_def
      meanwhile_def untouched_def split: prod.splits sum.splits)

lemma spares_handling [spare_rules]: "spares_runtime e m \<Longrightarrow> spares_runtime e (handling m h)"
  unfolding handling_def by (intro spare_rules)

lemma spares_lookups [spare_rules]:
  "spares_runtime e (look_up e sel)" "spares_runtime e (live_models e)" "spares_runtime e (status_or_detached e rec)"
  "spares_runtime e (with_attach e rec d)" "spares_runtime e (annotate_turn e rec tp ef tid)"
proof -
  show "spares_runtime e (look_up e sel)" unfolding look_up_def read_registry_def by (intro spare_rules)
  show "spares_runtime e (live_models e)" unfolding live_models_def by (intro spare_rules)
  show "spares_runtime e (with_attach e rec d)" unfolding with_attach_def by (intro spare_rules)
  show "spares_runtime e (annotate_turn e rec tp ef tid)" unfolding annotate_turn_def by (intro spare_rules)
  have "spares_runtime e (case x of UnknownSession _ \<Rightarrow> ret detached_status | _ \<Rightarrow> raise x)" for x
    by (cases x) (auto intro: spare_rules)
  then show "spares_runtime e (status_or_detached e rec)" unfolding status_or_detached_def by (intro spare_rules)
qed

lemma spares_composed [spare_rules]:
  "spares_runtime e (validate_model_effort e m ef)" "spares_runtime e (resolve_session e sel b)"
  unfolding validate_model_effort_def resolve_session_def by (intro spare_rules)+

lemma spares_hoare: "spares_runtime e m \<Longrightarrow> untouched e P \<Longrightarrow>
    hoare (holds_runtime P) m (\<lambda>_. holds_runtime P) (\<lambda>_. holds_runtime P)"
  unfolding spares_runtime_def by blast

lemma cancel_frees: "known_session sid st \<Longrightarrow> \<exists>st'. cancel_start st sid = Inr st' \<and> free_session sid st'"
  by (auto simp: cancel_start_def get_session_def put_session_def free_session_def known_session_def)

lemma reserve_known: "known_session sid st \<Longrightarrow> reserve_start st sid = Inr st' \<Longrightarrow> known_session sid st'"
  by (auto simp: reserve_start_def res_simps put_session_def known_session_def split: if_splits)

lemma reconcile_frees:
  assumes "known_session sid st" "reconcile_start st sid v = (st', r)"
  shows "known_session sid st'" "r = Inr () \<Longrightarrow> free_session sid st'"
  using assms
  by (auto simp: reconcile_start_def get_session_def put_session_def known_session_def free_session_def Let_def
      split: option.splits if_splits)

lemma hoare_handling: "hoare P m Q (\<lambda>_. E) \<Longrightarrow> hoare P (handling m h) Q (\<lambda>_. E)"
  unfolding handling_def by (rule hoare_attempt) (auto simp: hoare_def raise_def)

lemma hoare_or_cancel:
  assumes "untouched e (known_session sid)" "hoare P m Q (\<lambda>_. holds_runtime (known_session sid))"
  shows "hoare P (or_cancel e sid m) Q (\<lambda>_. holds_runtime (free_session sid))"
  unfolding or_cancel_def
proof (rule hoare_attempt [OF assms(2)], rule hoare_andthen)
  fix x
  show "hoare (holds_runtime (known_session sid)) (update_runtime e (\<lambda>st. cancel_start st sid))
      (\<lambda>_. holds_runtime (free_session sid)) (\<lambda>_. holds_runtime (free_session sid))"
    unfolding update_runtime_def
    by (rule hoare_runtime [OF assms(1)]) (drule cancel_frees, force)+
  show "hoare (holds_runtime (free_session sid)) (raise x) Q (\<lambda>_. holds_runtime (free_session sid))"
    by (simp add: hoare_def raise_def)
qed

lemma reserved_turn_frees:
  assumes "alone_on e (sr_session_id rec)"
  shows "hoare (holds_runtime (free_session (sr_session_id rec))) (reserved_turn e rec tp m)
    (\<lambda>_. holds_runtime (free_session (sr_session_id rec))) (\<lambda>_. holds_runtime (free_session (sr_session_id rec)))"
  (is "hoare ?F _ (\<lambda>_. ?F) _")
proof -
  let ?sid = "sr_session_id rec"
  let ?K = "holds_runtime (known_session ?sid)"
  have free: "untouched e (free_session ?sid)" and known: "untouched e (known_session ?sid)"
    using assms by (auto simp: alone_on_def)
  have 1: "hoare ?F (handling (update_runtime e (\<lambda>st. reserve_start st ?sid)) h) (\<lambda>_. ?K) (\<lambda>_. ?F)" for h
    unfolding update_runtime_def
    by (rule hoare_handling, rule hoare_runtime [OF free]) (auto dest: reserve_known free_known split: sum.splits)
  have 2: "hoare ?K (handling (or_cancel e ?sid (request_turn e rec tp m)) h) (\<lambda>_. ?K) (\<lambda>_. ?F)" for h
    unfolding request_turn_def
    by (rule hoare_handling, rule hoare_or_cancel [OF known], rule spares_hoare [OF _ known]) (intro spare_rules)
  have 3: "hoare ?K (handling (or_cancel e ?sid (on_runtime e (\<lambda>st. reconcile_start st ?sid v))) h) (\<lambda>_. ?F) (\<lambda>_. ?F)" for h v
    by (rule hoare_handling, rule hoare_or_cancel [OF known], rule hoare_runtime [OF known])
      (auto dest: reconcile_frees)
  show ?thesis
    unfolding reserved_turn_def Let_def
    by (rule hoare_andthen [OF 1], rule hoare_andthen [OF 2], rule hoare_andthen [OF 3]) (auto simp: hoare_def ret_def)
qed

lemma hoare_andthen_fact:
  "hoare P m (\<lambda>_. I) E \<Longrightarrow> (\<And>s x s'. m s = (Inr x, s') \<Longrightarrow> R x) \<Longrightarrow> (\<And>x. R x \<Longrightarrow> hoare I (f x) Q E)
    \<Longrightarrow> hoare P (andthen m f) Q E"
  by (fastforce simp: hoare_def andthen_def split: prod.splits sum.splits)

lemma hoare_invariant:
  "hoare I m (\<lambda>_. I) E \<Longrightarrow> (\<And>x. hoare I (f x) (\<lambda>_. I) E) \<Longrightarrow> hoare I (andthen m f) (\<lambda>_. I) E"
  by (rule hoare_andthen)

lemma look_up_matches: "look_up e sel s = (Inr (Some rec), s') \<Longrightarrow> selector_matches sel rec"
  by (auto simp: look_up_def handling_def act_defs read_registry_def on_registry_def try_resolve_def
      split: prod.splits sum.splits list.splits option.splits) (metis filter_eq_Cons_iff)

lemma resolve_matches: "resolve_session e sel b s = (Inr rec, s') \<Longrightarrow> selector_matches sel rec"
  by (auto simp: resolve_session_def act_defs split: prod.splits sum.splits option.splits if_splits dest: look_up_matches)

lemma start_turn_frees:
  assumes "alone_on e (tp_session_id tp)"
  shows "hoare (holds_runtime (free_session (tp_session_id tp))) (start_turn_authoritatively e tp)
    (\<lambda>_. holds_runtime (free_session (tp_session_id tp))) (\<lambda>_. holds_runtime (free_session (tp_session_id tp)))"
  (is "hoare ?F _ _ _")
proof -
  have free: "untouched e (free_session (tp_session_id tp))" using assms by (simp add: alone_on_def)
  note keep = spares_hoare [OF _ free]
  have sid: "resolve_session e (by_session (tp_session_id tp)) True s = (Inr rec, s') \<Longrightarrow> sr_session_id rec = tp_session_id tp"
    for s rec s' by (drule resolve_matches) (simp add: selector_matches_def by_session_def selector_is_session_def)
  have rest: "hoare ?F (andthen (guard (tp_prompt tp \<noteq> []) empty_prompt) (\<lambda>_.
      andthen (validate_model_effort e m (tp_effort tp)) (\<lambda>ef. andthen (reserved_turn e rec tp (g ef)) (\<lambda>tid.
      andthen (annotate_turn e rec tp ef tid) (\<lambda>_. with_attach e rec (d tid)))))) (\<lambda>_. ?F) (\<lambda>_. ?F)"
    if "sr_session_id rec = tp_session_id tp" for rec m g d
  proof -
    have "hoare ?F (reserved_turn e rec tp m) (\<lambda>_. ?F) (\<lambda>_. ?F)" for m
      using reserved_turn_frees [of e rec tp m] assms that by simp
    then show ?thesis by (intro hoare_invariant; (assumption | intro keep spare_rules)?)
  qed
  show ?thesis
    unfolding start_turn_authoritatively_def
    by (rule hoare_andthen_fact [OF keep sid rest]) (intro spare_rules)
qed

text \<open>
  C5. Starting a turn leaves no reservation behind, however it ends: when a session has no pending
  start before, and only this thread reserves it meanwhile, it has none after, whatever Codex
  answers or raises, whatever notifications arrive between the sections, and also when the
  response is refused.
\<close>

theorem no_reservation_left_behind:
  assumes "start_turn e tp s = (r, s')" "alone_on e (tp_session_id tp)"
    and "free_session (tp_session_id tp) (bk_runtime s)"
  shows "free_session (tp_session_id tp) (bk_runtime s')"
proof -
  let ?F = "holds_runtime (free_session (tp_session_id tp))"
  have free: "untouched e (free_session (tp_session_id tp))" using assms(2) by (simp add: alone_on_def)
  have gates: "spares_runtime e (on_gate e f)" for f :: "gate \<Rightarrow> gate \<times> (exn, unit) res"
    by (auto simp: spares_runtime_def hoare_def on_gate_def andthen_def meanwhile_def untouched_def
        split: prod.splits sum.splits)
  obtain q s1 where 1: "enter_gate e ''turn/start'' s = (q, s1)" by fastforce
  obtain b s2 where 2: "start_turn_authoritatively e tp s1 = (b, s2)" by fastforce
  obtain x s3 where 3: "on_gate e exit_mutation s2 = (x, s3)" by fastforce
  have "?F s1"
    using spares_hoare [OF gates free] 1 assms(3) unfolding enter_gate_def by (cases q) (blast dest: hoareD)+
  moreover from this have "?F s2"
    using start_turn_frees [OF assms(2)] 2 by (cases b) (blast dest: hoareD)+
  moreover from this have "?F s3"
    using spares_hoare [OF gates free] 3 by (cases x) (blast dest: hoareD)+
  ultimately show ?thesis
    using assms(1) 1 2 3 by (cases q; cases x) (auto simp: start_turn_def with_mutation_def andthen_def)
qed

text \<open>Every section of another thread but a reservation of the session satisfies the hypothesis.\<close>

abbreviation idle :: "session_runtime \<Rightarrow> bool" where
  "idle r \<equiv> \<not> rt_start_pending r \<and> \<not> rt_awaiting r"

lemma idle_marked: "mark_terminal_published L r tid = (b, r') \<Longrightarrow> idle r' = idle r"
  by (auto simp: mark_terminal_published_def Let_def split: if_splits)

lemma idle_committed: "idle r \<Longrightarrow> commit_completed L r tid st er = (r', t) \<Longrightarrow> idle r'"
  by (auto simp: commit_completed_def Let_def split: prod.splits if_splits dest!: idle_marked)

lemma idle_notified: "idle r \<Longrightarrow> notify_session rep L r m p = Inr (r', t) \<Longrightarrow> idle r'"
  by (erule notify_session_cases)
    (auto simp: notify_started_def notify_item_def notify_approval_def Let_def
      split: option.splits if_splits dest: idle_committed [OF conjI])

lemma idle_reconciled: "idle r \<Longrightarrow> reconcile_section L r snaps = (r', t) \<Longrightarrow> idle r'"
  by (auto simp: reconcile_section_def mark_terminal_published_def Let_def split: option.splits list.splits prod.splits if_splits)

lemma idle_detached: "detach_one L r reason = (r', t) \<Longrightarrow> idle r'"
  by (auto simp: detach_one_def Let_def split: option.splits prod.splits)

lemma free_put: "free_session sid st \<Longrightarrow> (sid' = sid \<Longrightarrow> idle r) \<Longrightarrow> free_session sid (put_session st sid' r)"
  by (auto simp: free_session_def put_session_def)

lemma free_idle: "free_session sid st \<Longrightarrow> dget (sessions st) sid = Some r \<Longrightarrow> idle r"
  by (simp add: free_session_def)

lemma other_sections_leave:
  assumes free: "free_session sid st" and other: "a \<noteq> Reserve sid"
  shows "free_session sid (fst (exec rep st a))"
proof (cases a)
  case (Attach rc)
  show ?thesis
    using free Attach by (auto simp: attach_def Let_def free_session_def put_session_def new_session_def split: option.splits)
next
  case (Notify m)
  have "free_session sid st'" if "notify_commit rep st m = Inr (st', pubs)" for st' pubs
    using that free by (auto simp: notify_commit_def res_simps split: option.splits if_splits
        intro!: free_put dest: idle_notified [OF free_idle])
  then show ?thesis using free Notify by (auto split: sum.splits)
next
  case (Finish sid' tid)
  then show ?thesis using free by (auto split: option.splits intro!: free_put dest: free_idle)
next
  case (DetachOne sid' reason)
  then show ?thesis using free by (auto split: option.splits prod.splits intro!: free_put dest: idle_detached)
next
  case (Reconcile th)
  have "free_session sid st'" if "reconcile_commit st th = Inr (st', q, pubs)" for st' q pubs
    using reconcile_commitE [OF that] free free_put idle_reconciled free_idle by metis
  then show ?thesis using free Reconcile by (auto split: sum.splits prod.splits)
next
  case (Reserve sid')
  then show ?thesis
    using free other by (auto simp: reserve_start_def res_simps split: sum.splits if_splits intro!: free_put)
next
  case (Cancel sid')
  then show ?thesis using free by (auto simp: cancel_start_def res_simps split: sum.splits intro!: free_put)
next
  case (Started sid' v)
  have "free_session sid (put_session st sid' r')" if "dget (sessions st) sid' = Some r" "idle r \<Longrightarrow> idle r'" for r r'
    using that free by (auto intro!: free_put dest: free_idle)
  then show ?thesis
    using free Started by (auto simp: reconcile_start_def get_session_def Let_def split: option.splits)
next
  case (Release sid' tid)
  then show ?thesis
    using free by (auto simp: release_terminal_snapshot_def res_simps split: sum.splits intro!: free_put dest: free_idle)
qed

end
