(* ===== verification/SessionProps.thy ===== *)
theory SessionProps
  imports BrokerProps
begin

text \<open>
  What starting a session promises: the model chosen among the live ones, and that a thread
  Codex has created is never lost.
\<close>

section \<open>The choice of a model\<close>

lemma normalize_ids: "normalize_models seen raw = Inr ms \<Longrightarrow> distinct (map lm_id ms) \<and> set (map lm_id ms) \<inter> set seen = {}"
proof (induction seen raw arbitrary: ms rule: normalize_models.induct)
  case (2 seen raw rest)
  from "2.prems" obtain d where 1: "as_obj raw = Some d" by (cases "as_obj raw") simp_all
  with "2.prems" obtain i where 2: "as_nonempty (jget d ''id'') = Some i" by (cases "as_nonempty (jget d ''id'')") simp_all
  with 1 "2.prems" have 3: "i \<notin> set seen" by (cases "i \<in> set seen") simp_all
  with 1 2 "2.prems" obtain es where 4: "efforts_of d = Inr es" by (cases "efforts_of d") simp_all
  let ?flag = "get_or d ''is_default'' (get_or d ''isDefault'' (JBool False))"
  from 1 2 3 4 "2.prems" obtain b where 5: "?flag = JBool b" by (cases ?flag) simp_all
  with 1 2 3 4 "2.prems" obtain ms' where 6: "normalize_models (i # seen) rest = Inr ms'"
    "ms = \<lparr>lm_id = i, lm_default = b, lm_efforts = es\<rparr> # ms'" by (auto simp: res_simps)
  note d = 1 2 3 4 5 6
  then show ?case using "2.IH" [OF d(1-3,5,6)] d(3,7) by auto
qed simp

text \<open>The specification: the named model, or the only default when just an effort is given, with the effort supported.\<close>

definition chosen_model :: "live_model list \<Rightarrow> string option \<Rightarrow> string option \<Rightarrow> string option \<Rightarrow> bool" where
  "chosen_model ms model effort choice = (case choice of
     None \<Rightarrow> model = None \<and> effort = None
   | Some i \<Rightarrow> \<exists>m \<in> set ms. lm_id m = i \<and> (\<forall>ef. effort = Some ef \<longrightarrow> ef \<in> set (lm_efforts m))
       \<and> (case model of Some n \<Rightarrow> n = i | None \<Rightarrow> effort \<noteq> None \<and> (\<forall>m' \<in> set ms. lm_default m' \<longleftrightarrow> m' = m)))"

lemma distinct_single: "distinct xs \<Longrightarrow> set xs = {m} \<Longrightarrow> xs = [m]"
  by (cases xs; cases "tl xs") auto

lemma single_default:
  assumes "distinct (map lm_id ms)"
  shows "filter lm_default ms = [m] \<longleftrightarrow> m \<in> set ms \<and> (\<forall>m' \<in> set ms. lm_default m' \<longleftrightarrow> m' = m)"
proof
  assume f: "filter lm_default ms = [m]"
  then have "set (filter lm_default ms) = {m}" by simp
  then show "m \<in> set ms \<and> (\<forall>m' \<in> set ms. lm_default m' \<longleftrightarrow> m' = m)" by auto
next
  assume m: "m \<in> set ms \<and> (\<forall>m' \<in> set ms. lm_default m' \<longleftrightarrow> m' = m)"
  then have "set (filter lm_default ms) = {m}" by auto
  moreover have "distinct (filter lm_default ms)" using assms by (simp add: distinct_map)
  ultimately show "filter lm_default ms = [m]" by (rule distinct_single [rotated])
qed

lemma find_by_id:
  assumes "distinct (map lm_id ms)"
  shows "find (\<lambda>x. lm_id x = i) ms = Some m \<longleftrightarrow> m \<in> set ms \<and> lm_id m = i"
  using assms by (induction ms) (auto simp: image_iff)

lemma selection_meets_spec:
  assumes "distinct (map lm_id ms)"
  shows "ebind (select_model ms model effort) (\<lambda>x. check_effort x effort) = Inr choice \<longleftrightarrow> chosen_model ms model effort choice"
proof (cases model)
  case (Some n)
  show ?thesis
  proof (cases "find (\<lambda>x. lm_id x = n) ms")
    case None
    then have "\<forall>m \<in> set ms. lm_id m \<noteq> n" "select_model ms model effort
        = Inl (ModelSelectionError ''model is not available from live discovery'' (Some [(''model'', JStr n)]))"
      using Some by (simp_all add: select_model_def) (simp add: find_None_iff)
    then show ?thesis using Some by (cases choice) (auto simp: chosen_model_def)
  next
    case found: (Some m)
    then have m: "m \<in> set ms" "lm_id m = n" using find_by_id [OF assms] by auto
    have only: "m' = m" if "m' \<in> set ms" "lm_id m' = n" for m'
      using assms m that by (metis distinct_map inj_onD)
    have "chosen_model ms model effort (Some i) \<longleftrightarrow> i = n \<and> (\<forall>ef. effort = Some ef \<longrightarrow> ef \<in> set (lm_efforts m))" for i
      unfolding chosen_model_def Some option.case using m only by metis
    moreover have "\<not> chosen_model ms model effort None" by (simp add: chosen_model_def Some)
    moreover have "select_model ms model effort = Inr (Some m)" using Some found by (simp add: select_model_def)
    ultimately show ?thesis using m
      by (cases effort; cases choice) (auto simp: check_effort_def)
  qed
next
  case None
  show ?thesis
  proof (cases effort)
    case ef: None
    then show ?thesis using None by (cases choice) (auto simp: select_model_def check_effort_def chosen_model_def)
  next
    case ef: (Some v)
    show ?thesis
    proof (cases "\<exists>m. filter lm_default ms = [m]")
      case True
      then obtain m where m: "filter lm_default ms = [m]" by blast
      then show ?thesis using None ef single_default [OF assms, of m]
        by (cases choice) (auto simp: select_model_def check_effort_def chosen_model_def)
    next
      case False
      then have "\<not> (\<exists>i. chosen_model ms None effort (Some i))" "\<not> chosen_model ms None effort None"
        using single_default [OF assms] ef by (auto simp: chosen_model_def)
      moreover have "\<not> is_ok (select_model ms None effort)"
        using False ef by (auto simp: select_model_def split: list.splits)
      ultimately show ?thesis using None
        by (cases choice; cases "select_model ms None effort") auto
    qed
  qed
qed

text \<open>
  A model and an effort are accepted exactly when the live list of Codex has them: the named
  model with the effort among its own, or, for an effort alone, the one advertised default; and
  what is returned is the identifier of that model.
\<close>

theorem model_choice_is_live:
  assumes "list_models (be_codex e (Suc (bk_clock s))) = Inr raw" "normalize_models [] (map JObj raw) = Inr ms"
    and "model \<noteq> Some []" "effort \<noteq> Some []"
  shows "fst (validate_model_effort e model effort s) = Inr choice \<longleftrightarrow> chosen_model ms model effort choice"
proof -
  have "fst (validate_model_effort e model effort s) = ebind (select_model ms model effort) (\<lambda>x. check_effort x effort)"
    using assms by (simp add: validate_model_effort_def live_models_def handling_def codex_def meanwhile_def act_defs)
  then show ?thesis using selection_meets_spec normalize_ids [OF assms(2)] by simp
qed

section \<open>A started thread is never lost\<close>

definition names_thread :: "string \<Rightarrow> exn \<Rightarrow> bool" where
  "names_thread tid x = (case x of RpcFault _ _ _ _ (Some d) \<Rightarrow> jget d ''thread_id'' = JStr tid | _ \<Rightarrow> False)"

definition has_thread :: "string \<Rightarrow> registry \<Rightarrow> bool" where
  "has_thread tid reg \<longleftrightarrow> (\<exists>rec \<in> set (reg_records reg). sr_thread_id rec = tid)"

definition new_calls :: "broker_state \<Rightarrow> broker_state \<Rightarrow> (string \<times> nat) list" where
  "new_calls s s' = drop (length (bk_calls s)) (bk_calls s')"

text \<open>The surroundings: write failures are OSErrors, other threads never drop a record, the listener is valid.\<close>

definition records_kept :: "broker_env \<Rightarrow> bool" where
  "records_kept e \<longleftrightarrow> (\<forall>t reg. set (reg_records reg) \<subseteq> set (reg_records (be_registry e t reg)))"

definition write_fails_as_os :: "write_outcome \<Rightarrow> bool" where
  "write_fails_as_os w = (case w of Written \<Rightarrow> True | FailsBefore x \<Rightarrow> is_os_error x | FailsAfter x \<Rightarrow> is_os_error x)"

definition sound_surroundings :: "broker_env \<Rightarrow> bool" where
  "sound_surroundings e \<longleftrightarrow> (\<forall>t. write_fails_as_os (be_write e t)) \<and> records_kept e
     \<and> is_ok (validate_public_listener (host_lookup (be_model e)) (JStr (be_listener e)))"

lemma set_sh_escape: "set (sh_escape s) \<subseteq> set s \<union> {sq, CHR 0x22}"
  by (induction s) auto

lemma literal_quote: "literal_command s \<Longrightarrow> literal_command (shlex_quote s)"
  using set_sh_escape [of s] by (auto simp: literal_command_def shlex_quote_def sq_def)

lemma resume_command_ok:
  assumes "literal_command tid"
  shows "recovery_command_ok (''codex-worker session resume --thread '' @ shlex_quote tid)"
proof -
  have "dropWhile is_space (''codex-worker session resume --thread '' @ q) = ''codex-worker session resume --thread '' @ q" for q
    by (simp add: is_space_def codept_def)
  moreover have "dropWhile is_space (rev (''codex-worker session resume --thread '' @ q)) \<noteq> []" for q
    by (auto simp: is_space_def codept_def dropWhile_append)
  ultimately have "py_strip (''codex-worker session resume --thread '' @ q) \<noteq> []" for q
    unfolding py_strip_def by (metis rev_is_Nil_conv)
  then show ?thesis
    using literal_quote [OF assms] by (auto simp: recovery_command_ok_def literal_command_def startswith_def)
qed

lemma attach_ok: "sound_surroundings e \<Longrightarrow> tid \<noteq> [] \<Longrightarrow> \<exists>a. attach_json e tid = Inr a"
  using build_attach_view_ok [of "host_lookup (be_model e)" "be_listener e" tid]
  by (auto simp: sound_surroundings_def attach_json_def is_ok_iff)

lemma identity_details_thread:
  "sound_surroundings e \<Longrightarrow> tid \<noteq> [] \<Longrightarrow> dget d ''next_actions'' = None \<Longrightarrow>
    \<exists>d'. identity_details e sid tid None (Some d) = Inr d' \<and> jget d' ''thread_id'' = JStr tid \<and> dget d' ''next_actions'' = None"
  using attach_ok [of e tid] by (auto simp: identity_details_def Let_def jget_def)

lemma identity_of_response: "resume_identity e v = Inr (tid, cwd) \<Longrightarrow> tid \<noteq> []"
  by (auto simp: resume_identity_def res_simps Let_def split: option.splits if_splits)

lemma post_fault_names:
  assumes "sound_surroundings e" "tid \<noteq> []" "literal_command tid"
  shows "names_thread tid (post_registry_fault e op sid tid None x)"
proof -
  obtain a where "attach_json e tid = Inr a" using attach_ok [OF assms(1,2)] by blast
  then show ?thesis
    using resume_command_ok [OF assms(3)]
    by (simp add: post_registry_fault_def fault_with_def mk_rpc_fault_def mk_error_detail_def names_thread_def)
qed

lemma creation_error: "creation_checks env c fresh = Inl x \<Longrightarrow> is_registry_error x"
proof -
  have "label_check ls = Inl x \<Longrightarrow> is_registry_error x" for ls
    by (induction ls rule: label_check.induct) (auto simp: is_registry_error_def split: if_splits)
  then show "creation_checks env c fresh = Inl x \<Longrightarrow> is_registry_error x"
    by (auto simp: creation_checks_def res_simps Let_def as_registry_error_def is_registry_error_def
        split: if_splits option.splits sum.splits)
qed

lemma create_error:
  assumes "create env reg c fresh now w = (reg', Inl x)" "write_fails_as_os w"
  shows "is_registry_error x \<or> is_os_error x"
proof (cases "creation_checks env c fresh")
  case (Inl y)
  then show ?thesis using assms(1) creation_error by (auto simp: create_def)
next
  case (Inr p)
  then show ?thesis using assms
    by (auto simp: create_def publish_def save_locked_def duplicate_error_def write_error_def write_fails_as_os_def
        Let_def is_registry_error_def is_os_error_def split: prod.splits write_outcome.splits if_splits sum.splits exn.splits)
qed

lemma create_stores: "create env reg c fresh now w = (reg', Inr rec) \<Longrightarrow> sr_thread_id rec = cr_thread_id c \<and> has_thread (cr_thread_id c) reg'"
  by (auto simp: create_def publish_def save_locked_def has_thread_def Let_def
      split: sum.splits prod.splits write_outcome.splits if_splits)

text \<open>One round of \<open>start_upstream\<close>: a single request, and what became of the thread Codex answered with.\<close>

lemma start_upstream_outcome:
  assumes u: "start_upstream e sp cwd sid s = (u, s')" and ok: "sound_surroundings e"
  defines "t \<equiv> Suc (bk_clock s)"
  shows "bk_calls s' = bk_calls s @ [(''thread/start'', t)]"
    and "\<lbrakk>start_thread (be_codex e t) cwd (sp_model sp) (thread_sandbox (sp_access sp)) (Some False) (sp_config sp) = Inr response;
      resume_identity e (JObj response) = Inr (tid, returned); literal_command tid\<rbrakk>
      \<Longrightarrow> (case u of Inr rec \<Rightarrow> sr_thread_id rec = tid \<and> has_thread tid (bk_registry s') | Inl x \<Rightarrow> names_thread tid x)"
proof -
  let ?answer = "start_thread (be_codex e t) cwd (sp_model sp) (thread_sandbox (sp_access sp)) (Some False) (sp_config sp)"
  show "bk_calls s' = bk_calls s @ [(''thread/start'', t)]"
    using u unfolding t_def
    by (auto simp: start_upstream_def handling_def act_defs codex_def meanwhile_def create_record_def on_registry_def
        split: prod.splits sum.splits if_splits)
  assume answer: "?answer = Inr response" and id: "resume_identity e (JObj response) = Inr (tid, returned)" and lit: "literal_command tid"
  have tid: "tid \<noteq> []" using identity_of_response [OF id] .
  obtain d where d: "identity_details e sid tid None (Some [(''expected_cwd'', JStr cwd), (''returned_cwd'', JStr returned)]) = Inr d"
    "jget d ''thread_id'' = JStr tid" "dget d ''next_actions'' = None"
    using identity_details_thread [OF ok tid, of "[(''expected_cwd'', JStr cwd), (''returned_cwd'', JStr returned)]"] by auto
  let ?s2 = "\<lparr>bk_gate = be_gate e (bk_clock s) (bk_gate s), bk_registry = be_registry e (bk_clock s) (bk_registry s),
      bk_runtime = be_runtime e (bk_clock s) (bk_runtime s), bk_clock = t,
      bk_calls = bk_calls s @ [(''thread/start'', t)], bk_terminations = bk_terminations s\<rparr>"
  have first: "handling (andthen (codex e ''thread/start'' (\<lambda>cx. start_thread cx cwd (sp_model sp) (thread_sandbox (sp_access sp))
      (Some False) (sp_config sp))) (\<lambda>response. lift (resume_identity e (JObj response))))
      (start_handler e ''session_start'' sid None) s = (Inr (tid, returned), ?s2)"
    using answer id unfolding t_def by (simp add: handling_def act_defs codex_def meanwhile_def)
  have u': "handling (andthen (guard (returned = cwd) (mk_rpc_fault (-32014) ''Codex returned a different working directory''
        ''session_cwd_mismatch'' None (Some d))) (\<lambda>_. create_record e (creation_of sp tid cwd sid)))
      (start_handler e ''session_start'' sid (Some tid)) ?s2 = (u, s')"
    using u first unfolding start_upstream_def by (subst (asm) andthen_def) (simp add: fault_with_def d(1))
  show "case u of Inr rec \<Rightarrow> sr_thread_id rec = tid \<and> has_thread tid (bk_registry s') | Inl x \<Rightarrow> names_thread tid x"
  proof (cases "returned = cwd")
    case False
    then show ?thesis using u' d
      by (auto simp: handling_def act_defs start_handler_def is_rpc_fault_def mk_rpc_fault_details names_thread_def)
  next
    case True
    obtain q s3 where c: "create_record e (creation_of sp tid cwd sid) ?s2 = (q, s3)" by fastforce
    have "write_fails_as_os (be_write e k)" for k using ok by (simp add: sound_surroundings_def)
    then have "(\<forall>x. q = Inl x \<longrightarrow> is_registry_error x \<or> is_os_error x)
        \<and> (\<forall>rec. q = Inr rec \<longrightarrow> sr_thread_id rec = tid \<and> has_thread tid (bk_registry s3))"
      using c by (auto simp: create_record_def on_registry_def act_defs meanwhile_def creation_of_def
          split: prod.splits if_splits dest!: create_stores create_error)
    moreover have "is_registry_error x \<or> is_os_error x \<Longrightarrow> \<not> is_rpc_fault x \<and> \<not> is_codex_error x" for x
      by (cases x) (simp_all add: exn_class_defs is_codex_error_def)
    ultimately show ?thesis
      using u' c True post_fault_names [OF ok tid lit]
      by (cases q) (auto simp: handling_def act_defs start_handler_def)
  qed
qed

text \<open>Every section keeps the records of the others, the creation included.\<close>

definition registry_grows :: "string \<Rightarrow> broker_state \<Rightarrow> broker_state \<Rightarrow> bool" where
  "registry_grows tid s s' \<longleftrightarrow> has_thread tid (bk_registry s) \<longrightarrow> has_thread tid (bk_registry s')"

lemma attach_keeps_registry:
  assumes "sound_surroundings e"
  shows "keeps (registry_grows tid) (update_runtime e f)"
  using assms
  by (fastforce simp: keeps_def registry_grows_def update_runtime_def on_runtime_def andthen_def meanwhile_def
      sound_surroundings_def records_kept_def has_thread_def split: prod.splits sum.splits)


end
