(* ===== verification/Maintenance.thy ===== *)
theory Maintenance
  imports BrokerTurns Inventory
begin

text \<open>
  \<open>broker.py\<close>: the inventory of active threads and \<open>MaintenanceCoordinator\<close>, with
  \<open>ServiceLifecycle.terminate_owned\<close> of \<open>service.py\<close>, which asks the gate to authorize the lease
  before the resources are torn down. Loops that wait or page take a bound on their rounds and
  give \<open>None\<close> when they have not ended within it.
\<close>

section \<open>Inventory pages\<close>

definition inventory_error :: "string \<Rightarrow> string \<Rightarrow> exn" where
  "inventory_error name message = CodexCallError ''protocol_error'' name (Some [(''message'', JStr message)])"

definition inventory_timeout :: "string \<Rightarrow> exn" where
  "inventory_timeout name = CodexCallError ''timeout'' name None"

definition page_shape_ok :: "json_object \<Rightarrow> bool" where
  "page_shape_ok r \<longleftrightarrow> has_fields r [''data'', ''nextCursor'', ''backwardsCursor'']
     \<and> as_list (jget r ''data'') \<noteq> None
     \<and> (jget r ''nextCursor'' = JNull \<or> as_nonempty (jget r ''nextCursor'') \<noteq> None)
     \<and> (jget r ''backwardsCursor'' = JNull \<or> as_str (jget r ''backwardsCursor'') \<noteq> None)"

text \<open>One thread of a page: its identifier, and its flags when it is active.\<close>

definition thread_entry :: "json \<Rightarrow> (exn, string \<times> string list option) res" where
  "thread_entry v = (case as_obj v of
     None \<Rightarrow> Inl (inventory_error ''thread/list'' ''malformed thread inventory item'')
   | Some th \<Rightarrow> (case (as_nonempty (jget th ''id''), as_obj (jget th ''status'')) of
       (Some i, Some st) \<Rightarrow>
         if jget st ''type'' = JStr ''active'' then
           (if has_fields st [''type'', ''activeFlags''] \<and> nonempty_flags (jget st ''activeFlags'')
            then Inr (i, Some (List.map_filter as_str (case as_list (jget st ''activeFlags'') of None \<Rightarrow> [] | Some fs \<Rightarrow> fs)))
            else Inl (inventory_error ''thread/list'' ''malformed active thread status''))
         else if jget st ''type'' \<in> {JStr ''idle'', JStr ''notLoaded'', JStr ''systemError''} then
           (if has_fields st [''type''] then Inr (i, None)
            else Inl (inventory_error ''thread/list'' ''malformed inactive thread status''))
         else Inl (inventory_error ''thread/list'' ''unknown thread status'')
     | _ \<Rightarrow> Inl (inventory_error ''thread/list'' ''malformed thread inventory item'')))"

definition read_page :: "json_object \<Rightarrow> (exn, (string \<times> string list option) list) res" where
  "read_page r = (if \<not> page_shape_ok r then Inl (inventory_error ''thread/list'' ''malformed thread inventory page'')
     else emap thread_entry (case as_list (jget r ''data'') of None \<Rightarrow> [] | Some xs \<Rightarrow> xs))"

type_synonym active_threads = "(string, string list) dict"

text \<open>\<open>active.setdefault(thread_id, flags)\<close> for the active threads of a page.\<close>

fun note_active :: "active_threads \<Rightarrow> (string \<times> string list option) list \<Rightarrow> active_threads" where
  "note_active active [] = active"
| "note_active active ((i, None) # rest) = note_active active rest"
| "note_active active ((i, Some flags) # rest) =
     note_active (if dhas active i then active else active @ [(i, flags)]) rest"

definition list_call :: "string option \<Rightarrow> codex_call \<Rightarrow> (exn, json_object \<times> (string \<times> string list option) list) res" where
  "list_call cursor cx = ebind (cx ''thread/list'' ([(''sourceKinds'', JList [])] @ opt_field ''cursor'' (map_option JStr cursor)))
     (\<lambda>r. ebind (read_page r) (\<lambda>entries. Inr (r, entries)))"

fun inventory_pages :: "broker_env \<Rightarrow> nat \<Rightarrow> int \<Rightarrow> string option \<Rightarrow> string list \<Rightarrow> active_threads \<Rightarrow>
    active_threads option broker_act" where
  "inventory_pages e 0 deadline cursor seen active = ret None"
| "inventory_pages e (Suc n) deadline cursor seen active =
     andthen (observe bk_clock) (\<lambda>t.
     andthen (guard (be_monotonic e t < deadline) (inventory_timeout ''thread/list'')) (\<lambda>_.
     andthen (codex e ''thread/list'' (list_call cursor)) (\<lambda>(r, entries).
       let active' = note_active active entries in
       case as_str (jget r ''nextCursor'') of
         None \<Rightarrow> ret (Some active')
       | Some next_cursor \<Rightarrow>
           andthen (guard (next_cursor \<notin> set seen \<and> cursor \<noteq> Some next_cursor)
             (inventory_error ''thread/list'' ''thread inventory cursor did not progress'')) (\<lambda>_.
           inventory_pages e n deadline (Some next_cursor) (next_cursor # seen) active'))))"

section \<open>Active turns\<close>

definition objects_in :: "json \<Rightarrow> json_object list" where
  "objects_in v = (case as_list v of None \<Rightarrow> [] | Some xs \<Rightarrow> List.map_filter as_obj xs)"

definition active_turn_of :: "string \<Rightarrow> json_object \<Rightarrow> (exn, string) res" where
  "active_turn_of tid result =
     (let ambiguous = inventory_error ''thread/read'' ''active inventory turn identity is ambiguous'' in
      case as_obj (jget result ''thread'') of
        None \<Rightarrow> Inl ambiguous
      | Some th \<Rightarrow> (case filter (\<lambda>t. jget t ''status'' = JStr ''inProgress'') (objects_in (jget th ''turns'')) of
          [turn] \<Rightarrow> (case (as_obj (jget th ''status''), as_nonempty (jget turn ''id'')) of
            (Some st, Some i) \<Rightarrow> if jget th ''id'' = JStr tid \<and> jget st ''type'' = JStr ''active'' then Inr i else Inl ambiguous
          | _ \<Rightarrow> Inl ambiguous)
        | _ \<Rightarrow> Inl ambiguous))"

definition inventory_turn_id :: "broker_env \<Rightarrow> string \<Rightarrow> string broker_act" where
  "inventory_turn_id e tid = handling (codex e ''thread/read'' (\<lambda>cx.
     ebind (cx ''thread/read'' [(''threadId'', JStr tid), (''includeTurns'', JBool True)]) (active_turn_of tid))) codex_handler"

text \<open>\<open>by_thread\<close> keeps the last record of a thread, as a dictionary comprehension does.\<close>

definition record_of_thread :: "session_record list \<Rightarrow> string \<Rightarrow> session_record option" where
  "record_of_thread rs tid = find (\<lambda>r. sr_thread_id r = tid) (rev rs)"

definition active_entry :: "broker_env \<Rightarrow> int \<Rightarrow> session_record list \<Rightarrow> string \<times> string list \<Rightarrow> active_item broker_act" where
  "active_entry e deadline rs entry =
     andthen (observe bk_clock) (\<lambda>t.
     andthen (guard (be_monotonic e t < deadline) (codex_fault (inventory_timeout ''thread/read''))) (\<lambda>_.
     andthen (inventory_turn_id e (fst entry)) (\<lambda>turn_id.
       let flags = JList (map JStr (snd entry)) in
       lift (case record_of_thread rs (fst entry) of
         None \<Rightarrow> mk_active_item (JStr (fst entry)) (JStr ''unmapped_tui'') JNull JNull (JStr turn_id) flags
       | Some r \<Rightarrow> mk_active_item (JStr (fst entry)) (JStr ''worker'') (jopt (sr_name r)) (JStr (sr_session_id r))
           (JStr turn_id) flags))))"

definition list_active_threads :: "broker_env \<Rightarrow> nat \<Rightarrow> int \<Rightarrow> active_item list option broker_act" where
  "list_active_threads e n timeout =
     andthen (guard (0 < timeout) (ValueError ''inventory timeout must be positive'')) (\<lambda>_.
     andthen (observe bk_clock) (\<lambda>t0.
     let deadline = be_monotonic e t0 + timeout in
     andthen (handling (read_registry e (\<lambda>reg. Inr (list_records reg))) registry_handler) (\<lambda>rs.
     andthen (handling (inventory_pages e n deadline None [] []) codex_handler) (\<lambda>pages. case pages of
       None \<Rightarrow> ret None
     | Some active \<Rightarrow> andthen (each (active_entry e deadline rs) active) (\<lambda>items.
         andthen (lift (mk_inventory items)) (\<lambda>inv. ret (Some inv)))))))"

section \<open>The drain\<close>

text \<open>Waiting on the gate's condition: at most \<open>n\<close> looks, each after the other threads had their turn.\<close>

fun await_gate :: "broker_env \<Rightarrow> nat \<Rightarrow> (gate \<Rightarrow> ('a \<times> gate) option) \<Rightarrow> 'a option broker_act" where
  "await_gate e 0 f = ret None"
| "await_gate e (Suc n) f = andthen (on_gate e (\<lambda>g. case f g of None \<Rightarrow> (g, Inr None) | Some (x, g') \<Rightarrow> (g', Inr (Some x))))
     (\<lambda>got. case got of None \<Rightarrow> await_gate e n f | Some x \<Rightarrow> ret (Some x))"

definition with_drain :: "broker_env \<Rightarrow> nat \<Rightarrow> bool \<Rightarrow> (drain_lease \<Rightarrow> 'a option broker_act) \<Rightarrow> 'a option broker_act" where
  "with_drain e n force body =
     andthen (await_gate e n (\<lambda>g. map_option (\<lambda>g'. ((), g')) (drain_begin g))) (\<lambda>began. case began of
       None \<Rightarrow> ret None
     | Some _ \<Rightarrow> andthen (await_gate e n (\<lambda>g. drain_issue g force)) (\<lambda>issued. case issued of
         None \<Rightarrow> ret None
       | Some lease \<Rightarrow> (\<lambda>s. case body lease s of (r, s') \<Rightarrow>
           (case on_gate e (\<lambda>g. (drain_end g lease, Inr ())) s' of (_, s'') \<Rightarrow> (r, s'')))))"

section \<open>The coordinator\<close>

definition FORCE_INVENTORY_TIMEOUT :: int where
  "FORCE_INVENTORY_TIMEOUT = 2000"

definition INVENTORY_TIMEOUT :: int where
  "INVENTORY_TIMEOUT = 120000"

text \<open>The teardown runs only after the gate authorized the lease; the state records the lease and the gate then.\<close>

definition terminate_owned :: "broker_env \<Rightarrow> drain_lease \<Rightarrow> unit broker_act" where
  "terminate_owned e lease =
     andthen (on_gate e (\<lambda>g. (g, authorize g lease))) (\<lambda>_ s.
       (be_terminate e (bk_clock s) lease, s\<lparr>bk_terminations := bk_terminations s @ [(lease, bk_gate s)]\<rparr>))"

definition tear_down :: "broker_env \<Rightarrow> drain_lease \<Rightarrow> unit broker_act" where
  "tear_down e lease = handling (terminate_owned e lease)
     (\<lambda>x. case x of OwnedTeardownError cause \<Rightarrow> Some (MaintenanceTerminationError cause) | _ \<Rightarrow> None)"

text \<open>
  The forced inventory runs in a thread of its own and is given up when that thread is still
  alive after the timeout.
\<close>

definition bounded_force_inventory :: "broker_env \<Rightarrow> nat \<Rightarrow> active_item list broker_act" where
  "bounded_force_inventory e n s =
     (let timed_out = mk_rpc_fault (-32020) ''forced maintenance inventory timed out'' ''codex_failure'' None
            (Some [(''reason'', JStr ''inventory_timeout'')]);
          (r, s') = list_active_threads e n FORCE_INVENTORY_TIMEOUT s
      in (if \<not> be_joined e (bk_clock s') then Inl timed_out
          else (case r of Inl x \<Rightarrow> Inl x | Inr None \<Rightarrow> Inl timed_out | Inr (Some items) \<Rightarrow> Inr items), s'))"

definition maintenance_inventory :: "broker_env \<Rightarrow> nat \<Rightarrow> bool \<Rightarrow> active_item list option broker_act" where
  "maintenance_inventory e n force = (if force
     then andthen (bounded_force_inventory e n) (\<lambda>items. ret (Some items))
     else list_active_threads e n INVENTORY_TIMEOUT)"

definition worker_names :: "session_record list \<Rightarrow> string list" where
  "worker_names rs = List.map_filter sr_name rs"

definition sorted_names :: "string list \<Rightarrow> string list" where
  "sorted_names ns = sort (remdups ns)"

definition result_of :: "broker_env \<Rightarrow> string \<Rightarrow> string \<Rightarrow> bool \<Rightarrow> string option \<Rightarrow>
    (active_item list \<times> worker_impact) option \<Rightarrow> maintenance_result option broker_act" where
  "result_of e action outcome forced listener impact =
     lift (ebind (mk_maintenance (host_lookup (be_model e)) action outcome forced listener impact) (\<lambda>m. Inr (Some m)))"

text \<open>What follows once the inventory is known.\<close>

definition maintain_known :: "broker_env \<Rightarrow> string \<Rightarrow> string option \<Rightarrow> bool \<Rightarrow> drain_lease \<Rightarrow> active_item list \<Rightarrow>
    maintenance_result option broker_act" where
  "maintain_known e action listener force lease items =
     andthen (read_registry e (\<lambda>reg. Inr (list_records reg))) (\<lambda>rs.
       let active = List.map_filter ai_worker items;
           idle = filter (\<lambda>n. n \<notin> set active) (worker_names rs) in
     andthen (lift (mk_impact (sorted_names active) (sorted_names idle))) (\<lambda>workers.
       if items \<noteq> [] \<and> \<not> force then result_of e action ''refused'' False listener (Some (items, workers))
       else andthen (tear_down e lease) (\<lambda>_.
         result_of e action ''completed'' force listener (Some (items, workers)))))"

definition maintain_stopping :: "broker_env \<Rightarrow> string \<Rightarrow> string option \<Rightarrow> bool \<Rightarrow> drain_lease \<Rightarrow>
    maintenance_result option broker_act" where
  "maintain_stopping e action listener force lease =
     andthen (read_registry e (\<lambda>reg. Inr (list_records reg))) (\<lambda>rs.
     andthen (tear_down e lease) (\<lambda>_.
     andthen (lift (mk_impact [] (sort (worker_names rs)))) (\<lambda>workers.
       result_of e action ''completed'' force listener (Some ([], workers)))))"

definition maintain_unknown :: "broker_env \<Rightarrow> string \<Rightarrow> string option \<Rightarrow> bool \<Rightarrow> drain_lease \<Rightarrow>
    maintenance_result option broker_act" where
  "maintain_unknown e action listener force lease =
     (if force then andthen (tear_down e lease) (\<lambda>_. result_of e action ''completed'' True listener None)
      else result_of e action ''refused'' False listener None)"

definition maintain_drained :: "broker_env \<Rightarrow> nat \<Rightarrow> string \<Rightarrow> string option \<Rightarrow> bool \<Rightarrow> drain_lease \<Rightarrow>
    maintenance_result option broker_act" where
  "maintain_drained e n action listener force lease =
     andthen (if force then on_gate e (\<lambda>g. (g, Inr (active_mutations g))) else ret 0) (\<lambda>running.
       if force \<and> running \<noteq> 0 then maintain_unknown e action listener True lease
       else andthen (observe bk_clock) (\<lambda>t.
         if be_stopping e t then maintain_stopping e action listener force lease
         else andthen (attempt (andthen (maintenance_inventory e n force) (\<lambda>known. ret (Some known)))
             (\<lambda>x. if is_rpc_fault x then ret None else raise x)) (\<lambda>inventory. case inventory of
           None \<Rightarrow> maintain_unknown e action listener force lease
         | Some None \<Rightarrow> ret None
         | Some (Some items) \<Rightarrow> maintain_known e action listener force lease items)))"

definition maintain :: "broker_env \<Rightarrow> nat \<Rightarrow> string \<Rightarrow> string option \<Rightarrow> bool \<Rightarrow> maintenance_result option broker_act" where
  "maintain e n action listener force = with_drain e n force (maintain_drained e n action listener force)"

definition stop_service :: "broker_env \<Rightarrow> nat \<Rightarrow> bool \<Rightarrow> maintenance_result option broker_act" where
  "stop_service e n force = maintain e n ''stop'' None force"

definition restart_service :: "broker_env \<Rightarrow> nat \<Rightarrow> string \<Rightarrow> bool \<Rightarrow> maintenance_result option broker_act" where
  "restart_service e n listener force =
     andthen (lift (validate_public_listener (host_lookup (be_model e)) (JStr listener))) (\<lambda>validated.
       maintain e n ''restart'' (Some validated) force)"

end
