(* ===== verification/MaintenanceProps.thy ===== *)
theory MaintenanceProps
  imports Maintenance BrokerProps
begin

text \<open>
  The inventory is complete and ends; maintenance that is not forced never tears the service
  down while a thread is active or may be.
\<close>

section \<open>Complete inventories\<close>

definition active_ids :: "(string \<times> string list option) list \<Rightarrow> string set" where
  "active_ids entries = {i. \<exists>flags. (i, Some flags) \<in> set entries}"

text \<open>
  The pages of one inventory between two moments: each is the answer to a request with the
  cursor of the page before, the first without one, and the last has no next cursor.
\<close>

inductive inventory_chain :: "broker_env \<Rightarrow> nat \<Rightarrow> string option \<Rightarrow> (string \<times> string list option) list list \<Rightarrow> nat \<Rightarrow> bool"
  for e where
  last_page: "t < t' \<Longrightarrow> list_call c (be_codex e t') = Inr (r, es) \<Longrightarrow> as_str (jget r ''nextCursor'') = None
    \<Longrightarrow> t' \<le> u \<Longrightarrow> inventory_chain e t c [es] u"
| next_page: "t < t' \<Longrightarrow> list_call c (be_codex e t') = Inr (r, es) \<Longrightarrow> as_str (jget r ''nextCursor'') = Some c'
    \<Longrightarrow> inventory_chain e t' (Some c') pages u \<Longrightarrow> inventory_chain e t c (es # pages) u"

lemma chain_later: "inventory_chain e t c pages u \<Longrightarrow> u \<le> v \<Longrightarrow> inventory_chain e t c pages v"
  by (induction rule: inventory_chain.induct) (auto intro: inventory_chain.intros)

lemma chain_earlier: "inventory_chain e t c pages u \<Longrightarrow> t' \<le> t \<Longrightarrow> inventory_chain e t' c pages u"
  by (cases rule: inventory_chain.cases) (blast intro: inventory_chain.intros le_less_trans)+

lemma note_active_keys: "dhas (note_active active es) i \<longleftrightarrow> dhas active i \<or> i \<in> active_ids es"
proof (induction active es rule: note_active.induct)
  case (3 active j flags rest)
  then show ?case by (auto simp: active_ids_def dhas_def map_add_def split: option.splits)
qed (auto simp: active_ids_def)

lemma note_active_distinct: "distinct (dkeys active) \<Longrightarrow> distinct (dkeys (note_active active es))"
  by (induction active es rule: note_active.induct) (auto simp: dkeys_def dhas_def map_of_eq_None_iff)

lemma dhas_keys: "dhas d k \<longleftrightarrow> k \<in> set (dkeys d)"
  by (simp add: dhas_def dkeys_def map_of_eq_None_iff)

text \<open>One round of the loop.\<close>

lemma pages_round:
  assumes "inventory_pages e (Suc n) deadline c seen active s = (r, s')"
  obtains x where "r = Inl x" "log_within {''thread/list''} s s'"
  | res es s1 where "list_call c (be_codex e (Suc (bk_clock s))) = Inr (res, es)" "bk_clock s1 = Suc (bk_clock s)"
      "be_monotonic e (bk_clock s) < deadline" "log_within {''thread/list''} s s1"
      "case as_str (jget res ''nextCursor'') of
         None \<Rightarrow> r = Inr (Some (note_active active es)) \<and> s' = s1
       | Some c' \<Rightarrow> c' \<notin> set seen \<and> inventory_pages e n deadline (Some c') (c' # seen) (note_active active es) s1 = (r, s')"
proof (cases "be_monotonic e (bk_clock s) < deadline")
  case False
  then have "r = Inl (inventory_timeout ''thread/list'')" "s' = s" using assms by (auto simp: act_defs)
  then show ?thesis by (intro that(1)) (auto simp: log_within_def)
next
  case now: True
  let ?s1 = "snd (codex e ''thread/list'' (list_call c) s)"
  have s1: "bk_clock ?s1 = Suc (bk_clock s)" "log_within {''thread/list''} s ?s1"
    by (auto simp: codex_def andthen_def meanwhile_def log_within_def)
  have answer: "fst (codex e ''thread/list'' (list_call c) s) = list_call c (be_codex e (Suc (bk_clock s)))"
    by (simp add: codex_def andthen_def meanwhile_def)
  show ?thesis
  proof (cases "list_call c (be_codex e (Suc (bk_clock s)))")
    case (Inl x)
    then have "r = Inl x" "s' = ?s1"
      using assms now answer by (auto simp: act_defs split: prod.splits)
    then show ?thesis using s1 by (intro that(1)) auto
  next
    case (Inr p)
    then obtain res es where p: "list_call c (be_codex e (Suc (bk_clock s))) = Inr (res, es)" by (cases p) auto
    show ?thesis
    proof (cases "as_str (jget res ''nextCursor'')")
      case None
      then show ?thesis using assms now answer p s1
        by (intro that(2) [OF p s1(1) now s1(2)]) (auto simp: act_defs split: prod.splits)
    next
      case (Some c')
      show ?thesis
      proof (cases "c' \<notin> set seen \<and> c \<noteq> Some c'")
        case True
        then show ?thesis using assms now answer p s1 Some
          by (intro that(2) [OF p s1(1) now s1(2)]) (auto simp: act_defs split: prod.splits)
      next
        case False
        then have "r = Inl (inventory_error ''thread/list'' ''thread inventory cursor did not progress'')" "s' = ?s1"
          using assms now answer p Some by (auto simp: act_defs split: prod.splits)
        then show ?thesis using s1 by (intro that(1)) auto
      qed
    qed
  qed
qed

lemma pages_log: "keeps (log_within {''thread/list''}) (inventory_pages e n deadline c seen active)"
proof (rule keepsI)
  show "inventory_pages e n deadline c seen active s = (r, s') \<Longrightarrow> log_within {''thread/list''} s s'" for s r s'
  proof (induction n arbitrary: c seen active s)
    case (Suc n)
    show ?case
      by (rule pages_round [OF Suc.prems], assumption)
        (auto split: option.splits dest!: Suc.IH intro: logs.frame_trans)
  qed (simp add: ret_def logs.frame_refl)
qed

lemma pages_complete:
  assumes "inventory_pages e n deadline c seen active s = (Inr (Some found), s')"
  shows "\<exists>pages. inventory_chain e (bk_clock s) c pages (bk_clock s')
    \<and> (\<forall>i. dhas found i \<longleftrightarrow> dhas active i \<or> i \<in> active_ids (concat pages))
    \<and> (distinct (dkeys active) \<longrightarrow> distinct (dkeys found))"
  using assms
proof (induction n arbitrary: c seen active s)
  case (Suc n)
  show ?case
  proof (rule pages_round [OF Suc.prems])
    fix res es s1
    assume a: "list_call c (be_codex e (Suc (bk_clock s))) = Inr (res, es)" "bk_clock s1 = Suc (bk_clock s)"
      and following: "case as_str (jget res ''nextCursor'') of
         None \<Rightarrow> Inr (Some found) = (Inr (Some (note_active active es)) :: (exn, active_threads option) res) \<and> s' = s1
       | Some c' \<Rightarrow> c' \<notin> set seen \<and> inventory_pages e n deadline (Some c') (c' # seen) (note_active active es) s1 = (Inr (Some found), s')"
    show ?case
    proof (cases "as_str (jget res ''nextCursor'')")
      case None
      then have "inventory_chain e (bk_clock s) c [es] (bk_clock s')"
        using a following by (intro last_page [of _ "Suc (bk_clock s)"]) auto
      then show ?thesis using None following by (intro exI [of _ "[es]"]) (auto simp: note_active_keys note_active_distinct)
    next
      case (Some c')
      then obtain pages where p: "inventory_chain e (bk_clock s1) (Some c') pages (bk_clock s')"
        "\<forall>i. dhas found i \<longleftrightarrow> dhas (note_active active es) i \<or> i \<in> active_ids (concat pages)"
        "distinct (dkeys (note_active active es)) \<longrightarrow> distinct (dkeys found)"
        using Suc.IH [of "Some c'" "c' # seen" "note_active active es" s1] following by auto
      have "inventory_chain e (bk_clock s) c (es # pages) (bk_clock s')"
        using a Some p(1) by (intro next_page [of _ "Suc (bk_clock s)"]) auto
      moreover have "active_ids (es @ xs) = active_ids es \<union> active_ids xs" for xs by (auto simp: active_ids_def)
      ultimately show ?thesis
        using p note_active_distinct by (intro exI [of _ "es # pages"]) (auto simp: note_active_keys)
    qed
  qed simp
qed (simp add: ret_def)

lemma pages_bound:
  assumes "inventory_pages e n deadline c seen active s = (Inr None, s')"
    and "\<And>t. T \<le> t \<Longrightarrow> deadline \<le> be_monotonic e t" "bk_clock s \<le> T"
  shows "bk_clock s + n \<le> T"
  using assms(1,3)
proof (induction n arbitrary: c seen active s)
  case (Suc n)
  show ?case
  proof (rule pages_round [OF Suc.prems(1)])
    fix res es s1
    assume a: "bk_clock s1 = Suc (bk_clock s)" "be_monotonic e (bk_clock s) < deadline"
      and following: "case as_str (jget res ''nextCursor'') of
         None \<Rightarrow> Inr None = (Inr (Some (note_active active es)) :: (exn, active_threads option) res) \<and> s' = s1
       | Some c' \<Rightarrow> c' \<notin> set seen \<and> inventory_pages e n deadline (Some c') (c' # seen) (note_active active es) s1 = (Inr None, s')"
    have "bk_clock s < T" using a(2) assms(2) [of "bk_clock s"] by (cases "T \<le> bk_clock s") auto
    then show ?case using Suc.IH [of _ _ _ s1] following a(1) by (auto split: option.splits)
  qed simp
qed simp

section \<open>The items of an inventory\<close>

lemma logs_turn_id: "keeps (log_within {''thread/read''}) (inventory_turn_id e tid)"
  unfolding inventory_turn_id_def by (intro log_rules) simp

lemma logs_entry: "keeps (log_within {''thread/read''}) (active_entry e deadline rs entry)"
  unfolding active_entry_def Let_def by (intro logs.rules logs_turn_id)

lemma mk_active_item_thread: "mk_active_item (JStr i) a b c d f = Inr item \<Longrightarrow> ai_thread_id item = i"
  by (auto simp: mk_active_item_def split: option.splits if_splits)

lemma active_entry_thread: "active_entry e deadline rs entry s = (Inr item, s') \<Longrightarrow> ai_thread_id item = fst entry"
  by (auto simp: active_entry_def act_defs Let_def split: prod.splits sum.splits if_splits option.splits
      dest: mk_active_item_thread)

lemma each_threads: "each (active_entry e deadline rs) active s = (Inr items, s') \<Longrightarrow> map ai_thread_id items = dkeys active"
proof (induction active arbitrary: s items)
  case (Cons entry active)
  then show ?case
    by (auto simp: andthen_def ret_def dkeys_def split: prod.splits sum.splits dest: active_entry_thread)
qed (simp add: ret_def dkeys_def)

lemma inventory_log: "keeps (log_within {''thread/list'', ''thread/read''}) (list_active_threads e n timeout)"
  unfolding list_active_threads_def Let_def
  by (intro logs.rules log_rules logs_wider [OF pages_log] logs_wider [OF logs_entry]) simp_all

lemma inventory_run:
  "0 < timeout \<Longrightarrow> list_active_threads e n timeout s =
     (case inventory_pages e n (be_monotonic e (bk_clock s) + timeout) None [] [] (snd (meanwhile e s)) of
        (Inl x, s2) \<Rightarrow> (Inl (case codex_handler x of None \<Rightarrow> x | Some y \<Rightarrow> y), s2)
      | (Inr None, s2) \<Rightarrow> (Inr None, s2)
      | (Inr (Some active), s2) \<Rightarrow>
          andthen (each (active_entry e (be_monotonic e (bk_clock s) + timeout) (reg_records (bk_registry (snd (meanwhile e s))))) active)
            (\<lambda>items. andthen (lift (mk_inventory items)) (\<lambda>inv. ret (Some inv))) s2)"
  by (auto simp: list_active_threads_def handling_def act_defs read_registry_def on_registry_def list_records_def Let_def
      meanwhile_def split: prod.split sum.split option.split)

lemma inventory_facts:
  assumes "list_active_threads e n timeout s = (r, s')"
  shows "r = Inr (Some items) \<Longrightarrow> distinct (map ai_thread_id items) \<and> (\<exists>pages. inventory_chain e (bk_clock s) None pages (bk_clock s')
            \<and> set (map ai_thread_id items) = active_ids (concat pages))"
    and "\<lbrakk>\<forall>t \<ge> T. be_monotonic e (bk_clock s) + timeout \<le> be_monotonic e t; bk_clock s < T; T < bk_clock s + n\<rbrakk> \<Longrightarrow> r \<noteq> Inr None"
proof -
  let ?deadline = "be_monotonic e (bk_clock s) + timeout"
  let ?s1 = "snd (meanwhile e s)"
  have c1: "bk_clock ?s1 = Suc (bk_clock s)" by (simp add: meanwhile_def)
  obtain p s2 where p: "inventory_pages e n ?deadline None [] [] ?s1 = (p, s2)" by fastforce
  have run: "0 < timeout \<Longrightarrow> (case p of Inl x \<Rightarrow> (Inl (case codex_handler x of None \<Rightarrow> x | Some y \<Rightarrow> y), s2)
    | Inr None \<Rightarrow> (Inr None, s2)
    | Inr (Some active) \<Rightarrow> andthen (each (active_entry e ?deadline (reg_records (bk_registry ?s1))) active) (\<lambda>items.
        andthen (lift (mk_inventory items)) (\<lambda>inv. ret (Some inv))) s2) = (r, s')"
    using assms by (simp add: inventory_run p split: sum.splits option.splits)
  have positive: "0 < timeout" if "is_ok r"
    using assms that by (cases "0 < timeout") (auto simp: list_active_threads_def act_defs)
  show "distinct (map ai_thread_id items) \<and> (\<exists>pages. inventory_chain e (bk_clock s) None pages (bk_clock s')
      \<and> set (map ai_thread_id items) = active_ids (concat pages))" if r: "r = Inr (Some items)"
  proof -
    note run = run [OF positive]
    obtain active where a: "p = Inr (Some active)" using run r by (auto split: sum.splits option.splits)
    obtain pages where pages: "inventory_chain e (bk_clock ?s1) None pages (bk_clock s2)"
      "\<forall>i. dhas active i \<longleftrightarrow> i \<in> active_ids (concat pages)" "distinct (dkeys active)"
      using pages_complete [of e n ?deadline None "[]" "[]" ?s1 active s2] p a by (auto simp: dhas_def dkeys_def)
    obtain i s3 where i: "each (active_entry e ?deadline (reg_records (bk_registry ?s1))) active s2 = (i, s3)" by fastforce
    then have "i = Inr items" "s' = s3" using run r a by (auto simp: act_defs mk_inventory_def split: sum.splits if_splits)
    then have "map ai_thread_id items = dkeys active" "bk_clock s2 \<le> bk_clock s'"
      using each_threads i keepsD [OF logs.loop [OF logs_entry] i] by (auto simp: log_within_def)
    moreover have "set (dkeys active) = active_ids (concat pages)" using pages(2) by (auto simp: dhas_keys)
    ultimately show ?thesis
      using pages chain_later [OF chain_earlier [OF pages(1)], of "bk_clock s" "bk_clock s'"] c1
      by (intro conjI exI [of _ pages]) auto
  qed
  show "r \<noteq> Inr None" if "\<forall>t \<ge> T. ?deadline \<le> be_monotonic e t" "bk_clock s < T" "T < bk_clock s + n"
  proof
    assume r: "r = Inr None"
    then have "p = Inr None" using run [OF positive] by (auto simp: act_defs split: sum.splits option.splits prod.splits)
    then show False using pages_bound [of e n ?deadline None "[]" "[]" ?s1 s2 T] p c1 that by auto
  qed
qed

text \<open>
  C38. An inventory that is returned is complete: it lists each thread once, and exactly the threads
  some page of a whole chain of pages shows active; the pages were asked for during the
  operation, from the first to one without a next cursor. It ends within as many pages as
  moments pass until its deadline, whatever cursors Codex invents.
\<close>

theorem inventory_is_complete:
  assumes "list_active_threads e n timeout s = (r, s')"
  shows "(\<forall>items. r = Inr (Some items) \<longrightarrow> distinct (map ai_thread_id items)
      \<and> (\<exists>pages. inventory_chain e (bk_clock s) None pages (bk_clock s')
            \<and> set (map ai_thread_id items) = active_ids (concat pages)))
    \<and> ((\<forall>t \<ge> T. be_monotonic e (bk_clock s) + timeout \<le> be_monotonic e t) \<and> bk_clock s < T \<and> T < bk_clock s + n
        \<longrightarrow> r \<noteq> Inr None)"
  using inventory_facts [OF assms] by blast

section \<open>Maintenance that is not forced\<close>

text \<open>A teardown is recorded only with a lease the gate authorized at that moment.\<close>

definition tears_down :: "broker_state \<Rightarrow> broker_state \<Rightarrow> drain_lease \<Rightarrow> bool" where
  "tears_down s s' lease \<longleftrightarrow> bk_clock s \<le> bk_clock s' \<and> (bk_terminations s' = bk_terminations s
     \<or> (\<exists>g. bk_terminations s' = bk_terminations s @ [(lease, g)] \<and> authorize g lease = Inr ()))"

lemma tear_down_effect: "tear_down e lease s = (r, s') \<Longrightarrow> tears_down s s' lease"
  by (auto simp: tear_down_def handling_def terminate_owned_def on_gate_def act_defs meanwhile_def tears_down_def
      split: prod.splits sum.splits)

lemma quiet_then_tear_down:
  "log_within N s s1 \<Longrightarrow> tears_down s1 s2 lease \<Longrightarrow> log_within M s2 s3 \<Longrightarrow> tears_down s s3 lease"
  by (auto simp: log_within_def tears_down_def)

lemma logs_result: "keeps (log_within {}) (result_of e a st f l i)"
  unfolding result_of_def by (intro logs.rules)

lemma tears_down_after:
  assumes "keeps (log_within {}) m" "\<And>x. keeps (log_within {}) (f x)"
    and "andthen m (\<lambda>x. andthen (tear_down e lease) (\<lambda>_. f x)) s = (r, s')"
  shows "tears_down s s' lease"
proof -
  obtain q s1 where q: "m s = (q, s1)" by fastforce
  note l1 = keepsD [OF assms(1) q]
  show ?thesis
  proof (cases q)
    case (Inl x)
    then show ?thesis using assms(3) q l1 by (auto simp: andthen_def log_within_def tears_down_def)
  next
    case (Inr x)
    obtain w s2 where w: "tear_down e lease s1 = (w, s2)" by fastforce
    show ?thesis
    proof (cases w)
      case (Inl y)
      then show ?thesis using assms(3) q Inr w tear_down_effect [OF w] quiet_then_tear_down [OF l1 _ logs.frame_refl]
        by (auto simp: andthen_def)
    next
      case y: (Inr y)
      then have "f x s2 = (r, s')" using assms(3) q Inr w by (simp add: andthen_def)
      then show ?thesis
        using quiet_then_tear_down [OF l1 tear_down_effect [OF w]] keepsD [OF assms(2)] by blast
    qed
  qed
qed

lemma tears_down_quiet: "log_within N s s' \<Longrightarrow> tears_down s s' lease"
  by (auto simp: log_within_def tears_down_def)

text \<open>Why a teardown that is not forced was right: the service was stopping, or no page showed an active thread.\<close>

definition idle_shown :: "broker_env \<Rightarrow> broker_state \<Rightarrow> broker_state \<Rightarrow> bool" where
  "idle_shown e s s' \<longleftrightarrow> (\<exists>t. bk_clock s \<le> t \<and> t \<le> bk_clock s' \<and> be_stopping e t)
     \<or> (\<exists>pages t u. bk_clock s \<le> t \<and> u \<le> bk_clock s' \<and> inventory_chain e t None pages u \<and> active_ids (concat pages) = {})"

lemma idle_shown_wider:
  "idle_shown e s1 s2 \<Longrightarrow> bk_clock s \<le> bk_clock s1 \<Longrightarrow> bk_clock s2 \<le> bk_clock s' \<Longrightarrow> idle_shown e s s'"
  unfolding idle_shown_def by (meson order_trans)

lemma stopping_tears_down:
  assumes "maintain_stopping e action listener False lease s = (r, s')"
  shows "tears_down s s' lease"
  using assms unfolding maintain_stopping_def read_registry_def
  by (rule tears_down_after [rotated 2]) (intro logs.rules log_rules logs_result)+

lemma result_status: "result_of e a st f l i s = (Inr (Some m), s') \<Longrightarrow> mr_status m = st \<and> s' = s"
  by (auto simp: result_of_def lift_def res_simps)

lemma unknown_refuses:
  "maintain_unknown e action listener False lease s = (r, s') \<Longrightarrow> log_within {} s s'"
  unfolding maintain_unknown_def using keepsD [OF logs_result] by simp

lemma known_tears_down:
  assumes "maintain_known e action listener False lease items s = (r, s')"
  shows "tears_down s s' lease" "items \<noteq> [] \<Longrightarrow> bk_terminations s' = bk_terminations s"
    "r = Inr (Some m) \<Longrightarrow> mr_status m = ''refused'' \<Longrightarrow> bk_terminations s' = bk_terminations s"
proof -
  let ?s1 = "snd (meanwhile e s)"
  let ?rs = "reg_records (bk_registry ?s1)"
  let ?active = "List.map_filter ai_worker items"
  let ?workers = "mk_impact (sorted_names ?active) (sorted_names (filter (\<lambda>n. n \<notin> set ?active) (worker_names ?rs)))"
  have quiet: "log_within {} s ?s1" using keepsD [OF logs_meanwhile] by (metis prod.collapse)
  have run: "(case ?workers of Inl x \<Rightarrow> (Inl x, ?s1) | Inr w \<Rightarrow>
      if items \<noteq> [] then result_of e action ''refused'' False listener (Some (items, w)) ?s1
      else andthen (tear_down e lease) (\<lambda>_. result_of e action ''completed'' False listener (Some (items, w))) ?s1) = (r, s')"
    using assms by (auto simp: maintain_known_def act_defs read_registry_def on_registry_def meanwhile_def list_records_def
        Let_def split: sum.splits if_splits)
  have result: "result_of e a st f l i s1 = (q, s2) \<Longrightarrow> s2 = s1" for a st f l i s1 q s2
    by (simp add: result_of_def lift_def)
  have none: "items \<noteq> [] \<Longrightarrow> s' = ?s1" using run result by (auto split: sum.splits)
  have down: "tears_down ?s1 s' lease"
  proof (cases "s' = ?s1")
    case False
    then obtain w where "andthen (tear_down e lease) (\<lambda>_. result_of e action ''completed'' False listener (Some (items, w))) ?s1 = (r, s')"
      using run none by (auto split: sum.splits if_splits)
    then show ?thesis
      using tears_down_after [of "ret ()" "\<lambda>_. result_of e action ''completed'' False listener (Some (items, w))" e lease ?s1 r s']
        logs_result logs.basic(1) [of "{}" "()"] by (simp add: andthen_def [of "ret ()"] ret_def)
  qed (simp add: tears_down_def)
  show "tears_down s s' lease" using quiet_then_tear_down [OF quiet down logs.frame_refl] .
  show "items \<noteq> [] \<Longrightarrow> bk_terminations s' = bk_terminations s" using none quiet by (simp add: log_within_def)
  show "bk_terminations s' = bk_terminations s" if "r = Inr (Some m)" "mr_status m = ''refused''"
  proof (cases "items = []")
    case True
    have "mr_status m = ''completed''"
      using run True that(1) by (auto simp: andthen_def split: sum.splits prod.splits dest: result_status)
    then show ?thesis using that(2) by simp
  next
    case False
    then show ?thesis using none quiet by (simp add: log_within_def)
  qed
qed

lemma drained_spares:
  assumes "maintain_drained e n action listener False lease s = (r, s')"
  shows "tears_down s s' lease" "bk_terminations s' \<noteq> bk_terminations s \<Longrightarrow> idle_shown e s s'"
    "r = Inr (Some m) \<Longrightarrow> mr_status m = ''refused'' \<Longrightarrow> bk_terminations s' = bk_terminations s"
proof -
  have "tears_down s s' lease \<and> (bk_terminations s' \<noteq> bk_terminations s \<longrightarrow> idle_shown e s s')
      \<and> (r = Inr (Some m) \<and> mr_status m = ''refused'' \<longrightarrow> bk_terminations s' = bk_terminations s)"
  proof (cases "be_stopping e (bk_clock s)")
    case True
    then have run: "maintain_stopping e action listener False lease s = (r, s')"
      using assms by (simp add: maintain_drained_def act_defs)
    have "mr_status m = ''completed''" if "r = Inr (Some m)"
      using run that by (auto simp: maintain_stopping_def andthen_def split: sum.splits prod.splits dest: result_status)
    then show ?thesis using stopping_tears_down [OF run] True by (auto simp: idle_shown_def tears_down_def)
  next
    case False
    obtain i s1 where i: "list_active_threads e n INVENTORY_TIMEOUT s = (i, s1)" by fastforce
    note log = keepsD [OF inventory_log i]
    have run: "(case (case i of Inl x \<Rightarrow> if is_rpc_fault x then Inr None else Inl x | Inr k \<Rightarrow> Inr (Some k)) of
        Inl x \<Rightarrow> (Inl x, s1)
      | Inr None \<Rightarrow> maintain_unknown e action listener False lease s1
      | Inr (Some None) \<Rightarrow> (Inr None, s1)
      | Inr (Some (Some items)) \<Rightarrow> maintain_known e action listener False lease items s1) = (r, s')"
      using assms False i by (auto simp: maintain_drained_def maintenance_inventory_def act_defs split: sum.splits option.splits)
    show ?thesis
    proof (cases "\<exists>items. i = Inr (Some items)")
      case True
      then obtain items where items: "i = Inr (Some items)" by blast
      then have known: "maintain_known e action listener False lease items s1 = (r, s')" using run by simp
      note k = known_tears_down [OF known]
      obtain pages where pages: "inventory_chain e (bk_clock s) None pages (bk_clock s1)"
        "set (map ai_thread_id items) = active_ids (concat pages)"
        using inventory_facts(1) [OF i items] by blast
      have "idle_shown e s s'" if "items = []"
      proof -
        have "active_ids (concat pages) = {}" using pages(2) that by simp
        moreover have "bk_clock s1 \<le> bk_clock s'" using k(1) by (simp add: tears_down_def)
        ultimately show ?thesis unfolding idle_shown_def using pages(1) by blast
      qed
      then show ?thesis
        using k quiet_then_tear_down [OF log k(1) logs.frame_refl] log by (cases "items = []") (auto simp: log_within_def)
    next
      case False
      then have "log_within {''thread/list'', ''thread/read''} s s'"
        using run log unknown_refuses logs_wider
        by (auto split: sum.splits option.splits if_splits dest!: unknown_refuses simp: log_within_def)
      then show ?thesis using tears_down_quiet by (auto simp: log_within_def)
    qed
  qed
  then show "tears_down s s' lease" "bk_terminations s' \<noteq> bk_terminations s \<Longrightarrow> idle_shown e s s'"
    "r = Inr (Some m) \<Longrightarrow> mr_status m = ''refused'' \<Longrightarrow> bk_terminations s' = bk_terminations s" by blast+
qed

lemma logs_await: "keeps (log_within N) (await_gate e n f)"
  by (induction n) (auto intro!: logs.rules log_rules)

lemma issued_unforced: "await_gate e n (\<lambda>g. drain_issue g False) s = (Inr (Some lease), s') \<Longrightarrow> \<not> lease_forced lease"
proof (induction n arbitrary: s)
  case (Suc n)
  then show ?case
    by (auto simp: andthen_def on_gate_def meanwhile_def ret_def drain_issue_def Let_def split: option.splits if_splits prod.splits)
qed (simp add: ret_def)

lemma unforced_spares:
  assumes "maintain e n action listener False s = (r, s')"
  shows "bk_terminations s' = bk_terminations s
      \<or> (\<exists>lease g. bk_terminations s' = bk_terminations s @ [(lease, g)] \<and> authorize g lease = Inr ()
            \<and> active_mutations g = 0 \<and> draining g \<and> idle_shown e s s'
            \<and> (\<forall>m. r = Inr (Some m) \<longrightarrow> mr_status m \<noteq> ''refused''))"
proof -
  obtain b s1 where b: "await_gate e n (\<lambda>g. map_option (\<lambda>g'. ((), g')) (drain_begin g)) s = (b, s1)" by fastforce
  obtain i s2 where i: "await_gate e n (\<lambda>g. drain_issue g False) s1 = (i, s2)" by fastforce
  have log: "log_within {} s s1" "log_within {} s1 s2" using keepsD [OF logs_await b] keepsD [OF logs_await i] by auto
  show ?thesis
  proof (cases "\<exists>lease. b = Inr (Some ()) \<and> i = Inr (Some lease)")
    case False
    then have "s' = s1 \<or> s' = s2"
      using assms b i by (auto simp: maintain_def with_drain_def andthen_def ret_def split: sum.splits option.splits)
    then show ?thesis using log by (auto simp: log_within_def)
  next
    case True
    then obtain lease where lease: "b = Inr (Some ())" "i = Inr (Some lease)" by blast
    obtain q s3 where q: "maintain_drained e n action listener False lease s2 = (q, s3)" by fastforce
    have end_log: "log_within {} s3 s'" and rq: "r = q"
      using assms b i lease q keepsD [OF logs_sections(3)]
      by (auto simp: maintain_def with_drain_def andthen_def split: prod.splits) blast
    note d = drained_spares [OF q]
    have "\<not> lease_forced lease" using issued_unforced i lease by blast
    then have "authorize g lease = Inr () \<Longrightarrow> active_mutations g = 0 \<and> draining g" for g
      by (auto simp: authorize_def split: if_splits)
    moreover have "idle_shown e s2 s3 \<Longrightarrow> idle_shown e s s'"
      by (erule idle_shown_wider) (use log end_log in \<open>auto simp: log_within_def\<close>)
    moreover have "bk_terminations s' = bk_terminations s3" "bk_terminations s2 = bk_terminations s"
      using log end_log by (auto simp: log_within_def)
    ultimately show ?thesis using d rq unfolding tears_down_def by metis
  qed
qed

text \<open>
  C4. Maintenance that is not forced never tears the service down under active work: at most one
  teardown is made, with a lease the gate authorizes while no mutation runs, and only after a
  complete inventory showed no active thread on any page, or when the service was stopping
  anyway. When the result is a refusal nothing was torn down.
\<close>

theorem unforced_maintenance_spares_active_work:
  assumes "maintain e n action listener False s = (r, s')"
  shows "bk_terminations s' = bk_terminations s
      \<or> (\<exists>lease g. bk_terminations s' = bk_terminations s @ [(lease, g)] \<and> authorize g lease = Inr ()
            \<and> active_mutations g = 0 \<and> draining g \<and> idle_shown e s s'
            \<and> (\<forall>m. r = Inr (Some m) \<longrightarrow> mr_status m \<noteq> ''refused''))"
  using assms by (rule unforced_spares)

end
