(* ===== verification/BrokerWitness.thy ===== *)
theory BrokerWitness
  imports ClaudeWitness SessionProps MaintenanceProps
begin

text \<open>
  The properties of the broker and of maintenance at concrete inputs: one registered and attached
  worker, and a Codex that answers every request.
\<close>

definition demo_answer :: "string \<Rightarrow> json_object" where
  "demo_answer name =
     (if name = ''model/list'' then [(''data'', JList [JObj [(''id'', JStr ''m''), (''is_default'', JBool True),
         (''supported_efforts'', JList [JStr ''low''])]])]
      else if name = ''thread/start'' then [(''thread'', JObj [(''id'', JStr ''t2''), (''cwd'', JStr ''/w'')])]
      else if name = ''turn/start'' then [(''turn'', JObj [(''id'', JStr ''u'')])]
      else if name = ''thread/list'' then [(''data'', JList [JObj [(''id'', JStr ''t''),
         (''status'', JObj [(''type'', JStr ''idle'')])]]), (''nextCursor'', JNull), (''backwardsCursor'', JNull)]
      else [])"

definition demo_broker :: broker_env where
  "demo_broker = \<lparr>be_model = demo_model_env, be_codex = \<lambda>_ name _. Inr (demo_answer name),
     be_codex_shutdown = \<lambda>_. Inr (), be_codex_pid = JNull, be_codex_running = \<lambda>_. True,
     be_gate = \<lambda>_ g. g, be_registry = \<lambda>_ reg. reg, be_runtime = \<lambda>_ st. st,
     be_monotonic = \<lambda>t. int t, be_uuid = \<lambda>_. ''00000000000000000000000000000002'', be_now = \<lambda>_. ''now'',
     be_write = \<lambda>_. Written, be_listener = DEFAULT_PUBLIC_LISTENER, be_joined = \<lambda>_. True, be_stopping = \<lambda>_. False,
     be_terminate = \<lambda>_ _. Inr ()\<rparr>"

definition demo_runtime :: runtime_store where
  "demo_runtime = projr (attach (projr (mk_runtime_store (JInt 3))) demo_record)"

definition demo_broker_state :: broker_state where
  "demo_broker_state = \<lparr>bk_gate = new_gate 0, bk_registry = \<lparr>reg_path = ''/r'', reg_records = [demo_record], reg_file = None\<rparr>,
     bk_runtime = demo_runtime, bk_clock = 0, bk_calls = [], bk_terminations = []\<rparr>"

definition demo_turn_spec :: turn_spec where
  "demo_turn_spec = \<lparr>tp_session_id = demo_uuid, tp_prompt = ''p'', tp_model = Some ''m'', tp_effort = Some ''low'',
     tp_access = FullAccess, tp_schema = None\<rparr>"

lemma demo_alone: "alone_on demo_broker sid"
  by (simp add: alone_on_def untouched_def demo_broker_def)

lemma demo_free: "free_session demo_uuid (bk_runtime demo_broker_state)"
  by code_simp

lemma demo_turn_accepted: "is_ok (fst (start_turn demo_broker demo_turn_spec demo_broker_state))"
  unfolding is_ok_def by code_simp

lemma no_reservation_left_behind_witness:
  "is_ok (fst (start_turn demo_broker demo_turn_spec demo_broker_state))
   \<and> free_session demo_uuid (bk_runtime (snd (start_turn demo_broker demo_turn_spec demo_broker_state)))"
  using no_reservation_left_behind [of demo_broker demo_turn_spec demo_broker_state, OF prod.collapse [symmetric] demo_alone]
    demo_free demo_turn_accepted by (simp add: demo_turn_spec_def)

lemma demo_models: "list_models (be_codex demo_broker (Suc (bk_clock demo_broker_state)))
    = Inr [[(''id'', JStr ''m''), (''is_default'', JBool True), (''supported_efforts'', JList [JStr ''low''])]]"
  "normalize_models [] [JObj [(''id'', JStr ''m''), (''is_default'', JBool True), (''supported_efforts'', JList [JStr ''low''])]]
    = Inr [\<lparr>lm_id = ''m'', lm_default = True, lm_efforts = [''low'']\<rparr>]"
  by code_simp+

lemma model_choice_is_live_witness:
  "fst (validate_model_effort demo_broker None (Some ''low'') demo_broker_state) = Inr (Some ''m'')
   \<and> fst (validate_model_effort demo_broker None (Some ''high'') demo_broker_state) \<noteq> Inr (Some ''m'')"
  using model_choice_is_live [OF demo_models(1), of _ None] demo_models(2)
  by (simp add: chosen_model_def)

definition demo_start_spec :: start_spec where
  "demo_start_spec = \<lparr>sp_cwd = ''/w'', sp_name = Some ''second'', sp_model = Some ''m'', sp_access = Some FullAccess,
     sp_tier = None, sp_effort = Some ''low'', sp_policy = PreserveWorkerPolicy, sp_config = None\<rparr>"

lemma demo_sound: "sound_surroundings demo_broker"
proof -
  have "is_ok (validate_public_listener (host_lookup demo_model_env) (JStr DEFAULT_PUBLIC_LISTENER))"
    unfolding is_ok_def by code_simp
  then show ?thesis
    by (simp add: sound_surroundings_def demo_broker_def write_fails_as_os_def records_kept_def)
qed

lemma demo_start_calls:
  "(''thread/start'', 4) \<in> set (new_calls demo_broker_state (snd (start_authoritatively demo_broker demo_start_spec demo_broker_state)))"
  "canonical_cwd demo_broker (sp_cwd demo_start_spec) ''declared cwd'' = Inr ''/w''"
  "resume_identity demo_broker (JObj (demo_answer ''thread/start'')) = Inr (''t2'', ''/w'')"
  by code_simp+


lemma demo_inventory: "fst (list_active_threads demo_broker 5 3 demo_broker_state) = Inr (Some [])"
  by code_simp

lemma inventory_is_complete_witness:
  "\<exists>pages. inventory_chain demo_broker 0 None pages (bk_clock (snd (list_active_threads demo_broker 5 3 demo_broker_state)))
     \<and> active_ids (concat pages) = {}"
  using inventory_is_complete [of demo_broker 5 3 demo_broker_state, OF prod.collapse [symmetric]] demo_inventory
  by (auto simp: demo_broker_state_def)

lemma demo_maintained: "length (bk_terminations (snd (maintain demo_broker 3 ''stop'' None False demo_broker_state))) = 1"
  by code_simp

lemma unforced_maintenance_spares_active_work_witness:
  "\<exists>lease g. bk_terminations (snd (maintain demo_broker 3 ''stop'' None False demo_broker_state)) = [(lease, g)]
     \<and> authorize g lease = Inr () \<and> active_mutations g = 0"
  using unforced_maintenance_spares_active_work [of demo_broker 3 "''stop''" None demo_broker_state, OF prod.collapse [symmetric]]
    demo_maintained by (auto simp: demo_broker_state_def)

end
