(* ===== verification/RpcWire.thy ===== *)
theory RpcWire
  imports Paths Records Commands
begin

text \<open>
  \<open>rpc.py\<close>, the wire: constants and faults, the JSON text of a response line (\<open>json.dumps\<close> with
  ASCII output, compact separators and no NaN), numbers, the validators of parameters, the
  table of raw methods over a broker, and the client's check of a response envelope. The text of
  a finite float is the parameter \<open>rep\<close>.
\<close>

section \<open>JSON text\<close>

lemma emap_cong [fundef_cong]:
  "xs = ys \<Longrightarrow> (\<And>x. x \<in> set ys \<Longrightarrow> f x = g x) \<Longrightarrow> emap f xs = emap g ys"
  by (induction ys arbitrary: xs) auto

definition hex_digit :: "nat \<Rightarrow> char" where
  "hex_digit n = char_of (if n < 10 then 48 + n else 87 + n)"

definition dquote :: char where "dquote = CHR 0x22"
definition backslash :: char where "backslash = CHR 0x5C"

definition json_char :: "char \<Rightarrow> string" where
  "json_char c = (let n = codept c in
     if c = dquote \<or> c = backslash then [backslash, c]
     else if n = 10 then [backslash, CHR ''n''] else if n = 13 then [backslash, CHR ''r'']
     else if n = 9 then [backslash, CHR ''t''] else if n = 12 then [backslash, CHR ''f'']
     else if n = 8 then [backslash, CHR ''b'']
     else if 32 \<le> n \<and> n \<le> 126 then [c]
     else [backslash, CHR ''u'', CHR ''0'', CHR ''0'', hex_digit (n div 16), hex_digit (n mod 16)])"

definition json_string :: "string \<Rightarrow> string" where
  "json_string s = dquote # concat (map json_char s) @ [dquote]"

definition not_compliant :: exn where
  "not_compliant = ValueError ''Out of range float values are not JSON compliant''"

fun json_dumps :: "(rat \<Rightarrow> string) \<Rightarrow> json \<Rightarrow> (exn, string) res" where
  "json_dumps rep JNull = Inr ''null''"
| "json_dumps rep (JBool b) = Inr (if b then ''true'' else ''false'')"
| "json_dumps rep (JInt i) = Inr (show_int i)"
| "json_dumps rep (JFloat f) = (case f of Fin r \<Rightarrow> Inr (rep r) | _ \<Rightarrow> Inl not_compliant)"
| "json_dumps rep (JStr s) = Inr (json_string s)"
| "json_dumps rep (JList xs) = ebind (emap (json_dumps rep) xs) (\<lambda>ts. Inr (''['' @ join_with '','' ts @ '']''))"
| "json_dumps rep (JObj d) = ebind (emap (\<lambda>kv. ebind (json_dumps rep (snd kv)) (\<lambda>t.
     Inr (json_string (fst kv) @ '':'' @ t))) d) (\<lambda>ts. Inr (''{'' @ join_with '','' ts @ ''}''))"

definition newline :: char where "newline = CHR 0x0A"

section \<open>Constants and faults\<close>

definition MAX_REQUEST_BYTES :: int where "MAX_REQUEST_BYTES = 8 * 1024 * 1024"
definition MAX_RESPONSE_BYTES :: int where "MAX_RESPONSE_BYTES = 1024 * 1024"

definition PARSE_ERROR :: exn where "PARSE_ERROR = mk_rpc_fault (-32700) ''Parse error'' ''parse_error'' None None"
definition INVALID_REQUEST :: exn where
  "INVALID_REQUEST = mk_rpc_fault (-32600) ''Invalid Request'' ''invalid_request'' None None"
definition INTERNAL_ERROR :: exn where
  "INTERNAL_ERROR = mk_rpc_fault (-32603) ''Internal error'' ''internal_error'' None None"

definition no_such_method :: "string \<Rightarrow> exn" where
  "no_such_method m = mk_rpc_fault (-32601) ''Method not found'' ''method_not_found'' None (Some [(''method'', JStr m)])"

definition invalid_params_fault :: "string \<Rightarrow> exn" where
  "invalid_params_fault reason = mk_rpc_fault (-32602) ''Invalid params'' ''invalid_params'' None (Some [(''reason'', JStr reason)])"

definition internal_fault :: "string \<Rightarrow> exn" where
  "internal_fault reason = mk_rpc_fault (-32603) ''Internal error'' ''internal_error'' None (Some [(''reason'', JStr reason)])"

definition daemon_unavailable_fault :: "string \<Rightarrow> exn" where
  "daemon_unavailable_fault path = mk_rpc_fault (-32000) ''Codex worker daemon is not available'' ''daemon_unavailable''
     (Some ''codex-worker daemon start'') (Some [(''socket_path'', JStr path)])"

definition socket_endpoint_unsafe_fault :: "string \<Rightarrow> string \<Rightarrow> exn" where
  "socket_endpoint_unsafe_fault path reason = mk_rpc_fault (-32017) ''Codex worker socket endpoint is unsafe'' ''socket_endpoint_unsafe''
     (Some ''codex-worker daemon status'') (Some [(''socket_path'', JStr path), (''reason'', JStr reason)])"

definition protocol_fault :: "string \<Rightarrow> exn" where
  "protocol_fault m = mk_rpc_fault (-32016) m ''daemon_protocol_error'' None None"

definition encode_response :: "(rat \<Rightarrow> string) \<Rightarrow> json \<Rightarrow> json_object option \<Rightarrow> exn option \<Rightarrow> (exn, string) res" where
  "encode_response rep request_id result fault =
     ebind (rpc_response request_id result (case fault of None \<Rightarrow> None | Some x \<Rightarrow> fault_dict x)) (\<lambda>envelope.
     ebind (json_dumps rep (JObj envelope)) (\<lambda>t. Inr (t @ [newline])))"

section \<open>Requests\<close>

definition request_id_of :: "json \<Rightarrow> json" where
  "request_id_of payload = (case payload of
     JObj d \<Rightarrow> (case jget d ''id'' of JStr s \<Rightarrow> JStr s | JInt i \<Rightarrow> JInt i | _ \<Rightarrow> JNull) | _ \<Rightarrow> JNull)"

definition validate_request :: "json \<Rightarrow> (exn, string \<times> json_object) res" where
  "validate_request payload = (case as_obj payload of
     None \<Rightarrow> Inl INVALID_REQUEST
   | Some d \<Rightarrow>
     if \<not> py_eq (jget d ''jsonrpc'') (JStr ''2.0'') then Inl INVALID_REQUEST
     else if as_str (jget d ''id'') = None \<and> as_int (jget d ''id'') = None then Inl INVALID_REQUEST
     else (case as_nonempty (jget d ''method'') of
       None \<Rightarrow> Inl INVALID_REQUEST
     | Some m \<Rightarrow> (case as_obj (jget d ''params'') of
         None \<Rightarrow> Inl (mk_rpc_fault (-32602) ''Invalid params'' ''invalid_params'' None None)
       | Some ps \<Rightarrow> Inr (m, ps))))"

section \<open>Numbers\<close>

text \<open>
  \<open>float(i)\<close>: the nearest double, ties to even; \<open>None\<close> is the OverflowError. Every nonzero
  integer is in the normal range, so the result has 53 significant bits.
\<close>

fun bit_length :: "nat \<Rightarrow> nat" where
  "bit_length n = (if n = 0 then 0 else Suc (bit_length (n div 2)))"

declare bit_length.simps [simp del]

definition round53 :: "nat \<Rightarrow> nat" where
  "round53 n = (let k = bit_length n - 53; q = n div 2 ^ k; r = n mod 2 ^ k in
     (if 2 * r > 2 ^ k \<or> 2 * r = 2 ^ k \<and> odd q then q + 1 else q) * 2 ^ k)"

definition float_of_int :: "int \<Rightarrow> rat option" where
  "float_of_int i = (let m = round53 (nat \<bar>i\<bar>) in
     if bit_length m > 1024 then None else Some (if i < 0 then - of_nat m else of_nat m))"

definition finite_nonnegative_float :: "json \<Rightarrow> string \<Rightarrow> (exn, rat) res" where
  "finite_nonnegative_float v label =
     (let bad = ValueError (label @ '' must be a finite non-negative number'') in
      case v of
        JInt i \<Rightarrow> (case float_of_int i of None \<Rightarrow> Inl (ValueError (label @ '' must be finite''))
          | Some r \<Rightarrow> if r < 0 then Inl bad else Inr r)
      | JFloat f \<Rightarrow> (case f of Fin r \<Rightarrow> if r < 0 then Inl bad else Inr r | _ \<Rightarrow> Inl bad)
      | _ \<Rightarrow> Inl bad)"

text \<open>The bound is \<open>threading.TIMEOUT_MAX\<close>, \<open>None\<close> where it is absent or not a finite number.\<close>

definition bounded_platform_timeout :: "rat option \<Rightarrow> rat \<Rightarrow> rat" where
  "bounded_platform_timeout limit t = (case limit of None \<Rightarrow> t | Some m \<Rightarrow> min t m)"

section \<open>Parameters\<close>

definition expect_params :: "json_object \<Rightarrow> string list \<Rightarrow> string list \<Rightarrow> (exn, unit) res" where
  "expect_params ps allowed required =
     (let unexpected = sort (remdups (filter (\<lambda>k. k \<notin> set allowed) (dkeys ps)));
          missing = filter (\<lambda>k. \<not> dhas ps k) required in
      if unexpected \<noteq> [] then Inl (ValueError (''unexpected params: '' @ join_with '', '' unexpected))
      else if missing \<noteq> [] then Inl (ValueError (''missing params: '' @ join_with '', '' missing)) else Inr ())"

definition must_be_text :: "string \<Rightarrow> exn" where
  "must_be_text key = ValueError (key @ '' must be a non-empty string'')"

definition optional_string :: "json_object \<Rightarrow> string \<Rightarrow> (exn, string option) res" where
  "optional_string ps key = (if jget ps key = JNull then Inr None
     else (case as_nonempty (jget ps key) of None \<Rightarrow> Inl (must_be_text key) | Some s \<Rightarrow> Inr (Some s)))"

definition required_string :: "json_object \<Rightarrow> string \<Rightarrow> (exn, string) res" where
  "required_string ps key = (case as_nonempty (jget ps key) of None \<Rightarrow> Inl (must_be_text key) | Some s \<Rightarrow> Inr s)"

definition selector_of :: "json_object \<Rightarrow> (exn, identifier_selector) res" where
  "selector_of ps = ebind (optional_string ps ''session_id'') (\<lambda>sid.
     ebind (optional_string ps ''thread_id'') (\<lambda>tid. mk_selector sid tid))"

definition number_param :: "json_object \<Rightarrow> string \<Rightarrow> (exn, rat) res" where
  "number_param ps key = (case jget ps key of
     JInt i \<Rightarrow> (case float_of_int i of None \<Rightarrow> Inl (ValueError (key @ '' must be finite'')) | Some r \<Rightarrow> Inr r)
   | JFloat f \<Rightarrow> (case f of Fin r \<Rightarrow> Inr r | _ \<Rightarrow> Inl (ValueError (key @ '' must be finite'')))
   | _ \<Rightarrow> Inl (ValueError (key @ '' must be a number'')))"

definition integer_param :: "json_object \<Rightarrow> string \<Rightarrow> (exn, int) res" where
  "integer_param ps key = (case as_int (jget ps key) of
     None \<Rightarrow> Inl (ValueError (key @ '' must be an integer'')) | Some i \<Rightarrow> Inr i)"

end
