(* ===== verification/Rpc.thy ===== *)
theory Rpc
  imports RpcWire
begin

text \<open>
  \<open>rpc.py\<close>, the server side of a connection: the table of raw methods over a broker, the tables
  of facade methods, \<open>RpcServer.dispatch\<close> and \<open>RpcRequestHandler.handle\<close>. The broker and the
  facades are what the server is given: a record of the broker's methods, and for a facade its
  operation by name. An operation that has not returned within the moments its own model
  watches gives \<open>None\<close>.
\<close>

section \<open>The broker's methods\<close>

record 's rpc_broker =
  rb_daemon_status :: "('s, json_object option) act"
  rb_model_list :: "('s, json_object option) act"
  rb_session_start :: "string \<Rightarrow> string option \<Rightarrow> string option \<Rightarrow> ('s, json_object option) act"
  rb_session_resume :: "identifier_selector \<Rightarrow> string option \<Rightarrow> ('s, json_object option) act"
  rb_session_list :: "('s, json_object option) act"
  rb_session_show :: "identifier_selector \<Rightarrow> ('s, json_object option) act"
  rb_turn_start :: "identifier_selector \<Rightarrow> string \<Rightarrow> string option \<Rightarrow> string option \<Rightarrow> ('s, json_object option) act"
  rb_turn_status :: "identifier_selector \<Rightarrow> ('s, json_object option) act"
  rb_turn_wait :: "identifier_selector \<Rightarrow> rat \<Rightarrow> ('s, json_object option) act"
  rb_turn_events :: "identifier_selector \<Rightarrow> int \<Rightarrow> int \<Rightarrow> ('s, json_object option) act"
  rb_turn_steer :: "identifier_selector \<Rightarrow> string \<Rightarrow> ('s, json_object option) act"
  rb_turn_interrupt :: "identifier_selector \<Rightarrow> ('s, json_object option) act"

type_synonym 's raw_method = "'s rpc_broker \<Rightarrow> json_object \<Rightarrow> ('s, json_object option) act"

definition no_params :: "json_object \<Rightarrow> ('s, json_object option) act \<Rightarrow> ('s, json_object option) act" where
  "no_params ps m = andthen (guard (ps = []) (ValueError ''method does not accept params'')) (\<lambda>_. m)"

definition raw_daemon_status :: "'s raw_method" where
  "raw_daemon_status b ps = no_params ps (rb_daemon_status b)"

definition raw_model_list :: "'s raw_method" where
  "raw_model_list b ps = no_params ps (rb_model_list b)"

definition raw_session_start :: "'s raw_method" where
  "raw_session_start b ps =
     andthen (lift (expect_params ps [''cwd'', ''name'', ''model''] [''cwd''])) (\<lambda>_.
     andthen (lift (required_string ps ''cwd'')) (\<lambda>cwd.
     andthen (lift (optional_string ps ''name'')) (\<lambda>name.
     andthen (lift (optional_string ps ''model'')) (\<lambda>model. rb_session_start b cwd name model))))"

definition raw_session_resume :: "'s raw_method" where
  "raw_session_resume b ps =
     andthen (lift (expect_params ps [''session_id'', ''thread_id'', ''name''] [])) (\<lambda>_.
     andthen (lift (selector_of ps)) (\<lambda>sel.
     andthen (lift (optional_string ps ''name'')) (\<lambda>name. rb_session_resume b sel name)))"

definition raw_session_list :: "'s raw_method" where
  "raw_session_list b ps = no_params ps (rb_session_list b)"

definition raw_session_show :: "'s raw_method" where
  "raw_session_show b ps =
     andthen (lift (expect_params ps [''session_id'', ''thread_id''] [])) (\<lambda>_.
     andthen (lift (selector_of ps)) (\<lambda>sel. rb_session_show b sel))"

definition raw_turn_start :: "'s raw_method" where
  "raw_turn_start b ps =
     andthen (lift (expect_params ps [''session_id'', ''thread_id'', ''prompt'', ''model'', ''effort''] [''prompt''])) (\<lambda>_.
     andthen (lift (selector_of ps)) (\<lambda>sel.
     andthen (lift (required_string ps ''prompt'')) (\<lambda>prompt.
     andthen (lift (optional_string ps ''model'')) (\<lambda>model.
     andthen (lift (optional_string ps ''effort'')) (\<lambda>effort. rb_turn_start b sel prompt model effort)))))"

definition raw_turn_status :: "'s raw_method" where
  "raw_turn_status b ps =
     andthen (lift (expect_params ps [''session_id'', ''thread_id''] [])) (\<lambda>_.
     andthen (lift (selector_of ps)) (\<lambda>sel. rb_turn_status b sel))"

definition raw_turn_wait :: "rat option \<Rightarrow> 's raw_method" where
  "raw_turn_wait limit b ps =
     andthen (lift (expect_params ps [''session_id'', ''thread_id'', ''timeout''] [''timeout''])) (\<lambda>_.
     andthen (lift (number_param ps ''timeout'')) (\<lambda>timeout.
     andthen (guard (\<not> timeout < 0) (ValueError ''timeout must be non-negative'')) (\<lambda>_.
     andthen (lift (selector_of ps)) (\<lambda>sel. rb_turn_wait b sel (bounded_platform_timeout limit timeout)))))"

definition raw_turn_events :: "'s raw_method" where
  "raw_turn_events b ps =
     andthen (lift (expect_params ps [''session_id'', ''thread_id'', ''after'', ''limit''] [''after'', ''limit''])) (\<lambda>_.
     andthen (lift (integer_param ps ''after'')) (\<lambda>after.
     andthen (lift (integer_param ps ''limit'')) (\<lambda>limit.
     andthen (guard (\<not> after < 0) (ValueError ''after must be non-negative'')) (\<lambda>_.
     andthen (guard (\<not> (limit < 1 \<or> limit > 1000)) (ValueError ''limit must be between 1 and 1000'')) (\<lambda>_.
     andthen (lift (selector_of ps)) (\<lambda>sel. rb_turn_events b sel after limit))))))"

definition raw_turn_steer :: "'s raw_method" where
  "raw_turn_steer b ps =
     andthen (lift (expect_params ps [''session_id'', ''thread_id'', ''prompt''] [''prompt''])) (\<lambda>_.
     andthen (lift (selector_of ps)) (\<lambda>sel.
     andthen (lift (required_string ps ''prompt'')) (\<lambda>prompt. rb_turn_steer b sel prompt)))"

definition raw_turn_interrupt :: "'s raw_method" where
  "raw_turn_interrupt b ps =
     andthen (lift (expect_params ps [''session_id'', ''thread_id''] [])) (\<lambda>_.
     andthen (lift (selector_of ps)) (\<lambda>sel. rb_turn_interrupt b sel))"

definition raw_methods :: "rat option \<Rightarrow> (string \<times> 's raw_method) list" where
  "raw_methods limit =
     [(''daemon/status'', raw_daemon_status), (''model/list'', raw_model_list),
      (''session/start'', raw_session_start), (''session/resume'', raw_session_resume),
      (''session/list'', raw_session_list), (''session/show'', raw_session_show),
      (''turn/start'', raw_turn_start), (''turn/status'', raw_turn_status),
      (''turn/wait'', raw_turn_wait limit), (''turn/events'', raw_turn_events),
      (''turn/steer'', raw_turn_steer), (''turn/interrupt'', raw_turn_interrupt)]"

text \<open>The sink with which a client runs the same validators.\<close>

definition validation_broker :: "unit rpc_broker" where
  "validation_broker = \<lparr>rb_daemon_status = ret (Some []), rb_model_list = ret (Some []),
     rb_session_start = (\<lambda>_ _ _. ret (Some [])), rb_session_resume = (\<lambda>_ _. ret (Some [])),
     rb_session_list = ret (Some []), rb_session_show = (\<lambda>_. ret (Some [])),
     rb_turn_start = (\<lambda>_ _ _ _. ret (Some [])), rb_turn_status = (\<lambda>_. ret (Some [])),
     rb_turn_wait = (\<lambda>_ _. ret (Some [])), rb_turn_events = (\<lambda>_ _ _. ret (Some [])),
     rb_turn_steer = (\<lambda>_ _. ret (Some [])), rb_turn_interrupt = (\<lambda>_. ret (Some []))\<rparr>"

definition validate_raw_params :: "rat option \<Rightarrow> string \<Rightarrow> json_object \<Rightarrow> (exn, unit) res" where
  "validate_raw_params limit m ps = (case dget (raw_methods limit) m of
     None \<Rightarrow> Inl (ValueError (''unsupported raw method: '' @ m))
   | Some v \<Rightarrow> forget (fst (v validation_broker ps ())))"

section \<open>Dispatch\<close>

text \<open>What a facade operation returns; an error that is no facade fault is \<open>ErrReply None\<close>.\<close>

datatype facade_reply = OkReply json_object | ErrReply "facade_fault option"

type_synonym 's facade_ops = "string \<Rightarrow> json_object \<Rightarrow> ('s, facade_reply option) act"

definition COMMON_METHODS :: "model_env \<Rightarrow> (string \<times> string \<times> ann) list" where
  "COMMON_METHODS env =
     [(''worker/start'', ''start'', StartWorkerRequest env), (''worker/run'', ''run'', RunWorkerRequest),
      (''worker/message'', ''message'', MessageWorkerRequest), (''worker/status'', ''status'', WorkerStatusRequest),
      (''worker/messages'', ''messages'', WorkerMessagesRequest), (''worker/history'', ''history'', WorkerHistoryRequest),
      (''worker/steer'', ''steer'', SteerWorkerRequest), (''worker/interrupt'', ''interrupt'', InterruptWorkerRequest),
      (''worker/goal/set'', ''goal_set'', GoalSetRequest), (''worker/goal/show'', ''goal_show'', GoalShowRequest),
      (''account/limits'', ''limits'', LimitsRequest)]"

definition SERVICE_METHODS :: "model_env \<Rightarrow> (string \<times> string \<times> ann) list" where
  "SERVICE_METHODS env =
     [(''service/readiness'', ''readiness'', StatusServiceRequest), (''service/status'', ''status'', StatusServiceRequest),
      (''service/stop'', ''stop'', StopServiceRequest), (''service/restart'', ''restart'', RestartServiceRequest env),
      (''migration/status'', ''migration_status'', MigrationStatusRequest),
      (''migration/resolve'', ''migration_resolve'', ResolveLegacyConflictRequest)]"

record 's rpc_server =
  sv_broker :: "'s rpc_broker"
  sv_facade :: "'s facade_ops option"
  sv_service_facade :: "'s facade_ops option"

record rpc_env =
  re_model :: model_env
  re_limit :: "rat option"
  re_float :: "rat \<Rightarrow> string"
  re_loads :: "string \<Rightarrow> (exn, json) res"

definition reply_result :: "facade_reply option \<Rightarrow> (exn, json_object option) res" where
  "reply_result r = (case r of
     None \<Rightarrow> Inr None
   | Some (OkReply d) \<Rightarrow> Inr (Some d)
   | Some (ErrReply (Some f)) \<Rightarrow> Inl (FacadeRpcFault f)
   | Some (ErrReply None) \<Rightarrow> Inl INTERNAL_ERROR)"

definition load_request :: "ann \<Rightarrow> json_object \<Rightarrow> (exn, json_object) res" where
  "load_request a ps = (case from_dict a (JObj ps) of
     Inl x \<Rightarrow> Inl (if is_value_error x then invalid_params_fault (exn_str x) else x)
   | Inr v \<Rightarrow> (case as_obj v of None \<Rightarrow> Inl (TypeError ''request'') | Some d \<Rightarrow> Inr d))"

definition call_facade :: "'s facade_ops option \<Rightarrow> string \<Rightarrow> string \<times> ann \<Rightarrow> json_object \<Rightarrow> ('s, json_object option) act" where
  "call_facade fa m entry ps = (case fa of
     None \<Rightarrow> raise (no_such_method m)
   | Some ops \<Rightarrow> andthen (lift (load_request (snd entry) ps)) (\<lambda>request.
       andthen (ops (fst entry) request) (\<lambda>r. lift (reply_result r))))"

definition dispatch :: "rpc_env \<Rightarrow> 's rpc_server \<Rightarrow> string \<Rightarrow> json_object \<Rightarrow> ('s, json_object option) act" where
  "dispatch env sv m ps = (case dget (COMMON_METHODS (re_model env)) m of
     Some entry \<Rightarrow> call_facade (sv_facade sv) m entry ps
   | None \<Rightarrow> (case dget (SERVICE_METHODS (re_model env)) m of
       Some entry \<Rightarrow> call_facade (sv_service_facade sv) m entry ps
     | None \<Rightarrow> (case dget (raw_methods (re_limit env)) m of
         Some v \<Rightarrow> v (sv_broker sv) ps
       | None \<Rightarrow> raise (no_such_method m))))"

section \<open>The handler of a connection\<close>

text \<open>
  The state around what the operations change: the server's shutdown flag with the number of
  shutdown threads started, the handler's \<open>shutdown_accepted\<close>, the writes attempted and the
  lines that went out whole. \<open>wr\<close> is the outcome of each write, \<open>None\<close> when the line went out.
\<close>

record 's rpc_state =
  rh_inner :: 's
  rh_started :: bool
  rh_shutdowns :: nat
  rh_accepted :: bool
  rh_writes :: nat
  rh_lines :: "string list"

definition inner :: "('s, 'a) act \<Rightarrow> ('s rpc_state, 'a) act" where
  "inner m s = (case m (rh_inner s) of (r, i) \<Rightarrow> (r, s\<lparr>rh_inner := i\<rparr>))"

definition request_shutdown :: "'s rpc_state \<Rightarrow> 's rpc_state" where
  "request_shutdown s = (if rh_started s then s else s\<lparr>rh_started := True, rh_shutdowns := Suc (rh_shutdowns s)\<rparr>)"

definition write_line :: "(nat \<Rightarrow> exn option) \<Rightarrow> string \<Rightarrow> ('s rpc_state, unit) act" where
  "write_line wr payload s = (case wr (rh_writes s) of
     None \<Rightarrow> (Inr (), s\<lparr>rh_writes := Suc (rh_writes s), rh_lines := rh_lines s @ [payload]\<rparr>)
   | Some x \<Rightarrow> (Inl x, s\<lparr>rh_writes := Suc (rh_writes s)\<rparr>))"

definition answer :: "rpc_env \<Rightarrow> (nat \<Rightarrow> exn option) \<Rightarrow> json \<Rightarrow> json_object option \<Rightarrow> exn option \<Rightarrow> ('s rpc_state, unit) act" where
  "answer env wr request_id result fault =
     andthen (lift (encode_response (re_float env) request_id result fault)) (write_line wr)"

definition SHUTDOWN_METHODS :: "string list" where
  "SHUTDOWN_METHODS = [''service/stop'', ''service/restart'']"

text \<open>The inner \<open>try\<close>: dispatching and writing the result; \<open>False\<close> is an operation that has not returned.\<close>

definition serve :: "rpc_env \<Rightarrow> 's rpc_server \<Rightarrow> (nat \<Rightarrow> exn option) \<Rightarrow> json \<Rightarrow> json \<Rightarrow> ('s rpc_state, bool) act" where
  "serve env sv wr request_id payload =
     andthen (lift (validate_request payload)) (\<lambda>(m, ps).
     andthen (inner (dispatch env sv m ps)) (\<lambda>r. case r of
       None \<Rightarrow> ret False
     | Some result \<Rightarrow>
         andthen (modify (\<lambda>s. s\<lparr>rh_accepted := m \<in> set SHUTDOWN_METHODS\<rparr>)) (\<lambda>_.
         andthen (answer env wr request_id (Some result) None) (\<lambda>_. ret True))))"

text \<open>Its handlers.\<close>

definition refuse :: "rpc_env \<Rightarrow> (nat \<Rightarrow> exn option) \<Rightarrow> json \<Rightarrow> exn \<Rightarrow> ('s rpc_state, bool) act" where
  "refuse env wr request_id x =
     andthen (answer env wr request_id None (Some
       (if is_rpc_fault x then x
        else if is_value_error x then invalid_params_fault (exn_str x)
        else internal_fault (exn_name x)))) (\<lambda>_. ret True)"

definition respond :: "rpc_env \<Rightarrow> 's rpc_server \<Rightarrow> (nat \<Rightarrow> exn option) \<Rightarrow> string \<Rightarrow> ('s rpc_state, bool) act" where
  "respond env sv wr raw =
     (if raw = [] \<or> int (length raw) > MAX_REQUEST_BYTES
      then andthen (answer env wr JNull None (Some INVALID_REQUEST)) (\<lambda>_. ret True)
      else (case re_loads env raw of
        Inl x \<Rightarrow> if is_value_or_type x then andthen (answer env wr JNull None (Some PARSE_ERROR)) (\<lambda>_. ret True)
          else raise x
      | Inr payload \<Rightarrow> attempt (serve env sv wr (request_id_of payload) payload) (refuse env wr (request_id_of payload))))"

text \<open>
  The whole handler on what \<open>readline\<close> gave: an OSError ends it quietly, any other exception
  leaves it; the shutdown is requested in the \<open>finally\<close> clause.
\<close>

definition handle :: "rpc_env \<Rightarrow> 's rpc_server \<Rightarrow> (nat \<Rightarrow> exn option) \<Rightarrow> (exn, string) res \<Rightarrow> ('s rpc_state, bool) act" where
  "handle env sv wr input =
     always (attempt (andthen (modify (\<lambda>s. s\<lparr>rh_accepted := False\<rparr>)) (\<lambda>_. andthen (lift input) (respond env sv wr)))
         (\<lambda>x. if is_os_error x then ret True else raise x))
       (\<lambda>s. if rh_accepted s then request_shutdown s else s)"

section \<open>The client's check of a response\<close>

definition error_envelope_ok :: "json \<Rightarrow> bool" where
  "error_envelope_ok v = (case as_obj v of None \<Rightarrow> False | Some e \<Rightarrow>
     as_int (jget e ''code'') \<noteq> None \<and> as_str (jget e ''message'') \<noteq> None
     \<and> (case as_obj (jget e ''data'') of None \<Rightarrow> False | Some d \<Rightarrow> as_str (jget d ''kind'') \<noteq> None))"

definition validate_response_envelope :: "json \<Rightarrow> string \<Rightarrow> (exn, unit) res" where
  "validate_response_envelope response expected_id = (case as_obj response of
     None \<Rightarrow> Inl (protocol_fault ''Daemon returned a non-object response'')
   | Some r \<Rightarrow>
     if \<not> py_eq (jget r ''jsonrpc'') (JStr ''2.0'') then Inl (protocol_fault ''Daemon response has invalid jsonrpc version'')
     else if \<not> py_eq (jget r ''id'') (JStr expected_id) then Inl (protocol_fault ''Daemon response id does not match request'')
     else if dhas r ''result'' = dhas r ''error''
     then Inl (protocol_fault ''Daemon response must contain exactly one of result or error'')
     else if dhas r ''result'' \<and> as_obj (jget r ''result'') = None
     then Inl (protocol_fault ''Daemon response result must be an object'')
     else if dhas r ''error'' \<and> \<not> error_envelope_ok (jget r ''error'')
     then Inl (protocol_fault ''Daemon response error is malformed'')
     else Inr ())"

end
