(* ===== verification/RpcSocket.thy ===== *)
theory RpcSocket
  imports Rpc
begin

text \<open>
  \<open>rpc.py\<close>, the socket: the path checks, the start of \<open>RpcServer\<close> under its lock, its close, the
  probe of a socket that is already there, and the client \<open>rpc_call\<close>. The host answers every
  system call by the moment it is made, so the file system may change between two calls; the
  state keeps the log of the calls with their answers, latest first.
\<close>

unbundle bit_operations_syntax

section \<open>The host\<close>

datatype look = Seen file_meta | Missing | LookFailed string

datatype connection = Accepted | Refused | ConnectFailed

datatype received = Chunk string | RecvFailed

datatype flock = LockTaken | LockHeld | LockFailed

datatype sock_event =
    Looked string look | Connected string connection | Unlinked string | Locked string | Unlocked string
  | Bound string | Chmodded string | Listening string | Sent string | Closed

record rpc_host =
  rp_lstat :: "nat \<Rightarrow> string \<Rightarrow> look"
  rp_connect :: "nat \<Rightarrow> string \<Rightarrow> connection"
  rp_unlink :: "nat \<Rightarrow> bool"
  rp_makedirs :: "nat \<Rightarrow> bool"
  rp_open_lock :: "nat \<Rightarrow> bool"
  rp_fstat :: "nat \<Rightarrow> file_meta option"
  rp_fchmod :: "nat \<Rightarrow> bool"
  rp_flock :: "nat \<Rightarrow> flock"
  rp_bind :: "nat \<Rightarrow> bool"
  rp_chmod :: "nat \<Rightarrow> bool"
  rp_listen :: "nat \<Rightarrow> bool"
  rp_send :: "nat \<Rightarrow> bool"
  rp_recv :: "nat \<Rightarrow> received"
  rp_monotonic :: "nat \<Rightarrow> rat"
  rp_uid :: int

record sock_state =
  so_clock :: nat
  so_log :: "sock_event list"
  so_bound :: "file_meta option"
  so_locked :: bool
  so_open :: nat

type_synonym 'a sock_act = "(sock_state, 'a) act"

definition sys :: "(nat \<Rightarrow> 'a) \<Rightarrow> 'a sock_act" where
  "sys f s = (Inr (f (so_clock s)), s\<lparr>so_clock := Suc (so_clock s)\<rparr>)"

definition note_event :: "sock_event \<Rightarrow> unit sock_act" where
  "note_event e = modify (\<lambda>s. s\<lparr>so_log := e # so_log s\<rparr>)"

text \<open>A call that may fail with an OSError.\<close>

definition sys_ok :: "(nat \<Rightarrow> bool) \<Rightarrow> unit sock_act" where
  "sys_ok f = andthen (sys f) (\<lambda>ok. guard ok (OSError ''system call''))"

definition look_at :: "rpc_host \<Rightarrow> string \<Rightarrow> look sock_act" where
  "look_at h path = andthen (sys (\<lambda>t. rp_lstat h t path)) (\<lambda>l. andthen (note_event (Looked path l)) (\<lambda>_. ret l))"

definition connect_to :: "rpc_host \<Rightarrow> string \<Rightarrow> connection sock_act" where
  "connect_to h path = andthen (sys (\<lambda>t. rp_connect h t path)) (\<lambda>c. andthen (note_event (Connected path c)) (\<lambda>_. ret c))"

text \<open>An unlink is logged when it is made; it may fail.\<close>

definition unlink :: "rpc_host \<Rightarrow> string \<Rightarrow> unit sock_act" where
  "unlink h path = andthen (note_event (Unlinked path)) (\<lambda>_. sys_ok (rp_unlink h))"

text \<open>\<open>os.lstat\<close> where the code catches only a missing file.\<close>

definition lstat :: "rpc_host \<Rightarrow> string \<Rightarrow> file_meta option sock_act" where
  "lstat h path = andthen (look_at h path) (\<lambda>l. case l of
     Seen m \<Rightarrow> ret (Some m) | Missing \<Rightarrow> ret None | LookFailed n \<Rightarrow> raise (OSError n))"

section \<open>Paths\<close>

definition dirname :: "string \<Rightarrow> string" where
  "dirname p = (let head = rev (dropWhile (\<lambda>c. c \<noteq> slash) (rev p)) in
     if list_all (\<lambda>c. c = slash) head then head else rev (dropWhile (\<lambda>c. c = slash) (rev head)))"

definition group_other_bits :: file_mode where
  "group_other_bits = 0x3F"

definition owner_only :: "file_meta \<Rightarrow> bool" where
  "owner_only m \<longleftrightarrow> fm_mode m AND group_other_bits = 0"

definition unsafe_socket_parent_reason :: "rpc_host \<Rightarrow> string \<Rightarrow> string option sock_act" where
  "unsafe_socket_parent_reason h path =
     (let parent = (if dirname path = [] then ''.'' else dirname path) in
      andthen (look_at h parent) (\<lambda>l. ret (case l of
        Missing \<Rightarrow> Some ''could not inspect socket parent: FileNotFoundError''
      | LookFailed n \<Rightarrow> Some (''could not inspect socket parent: '' @ n)
      | Seen m \<Rightarrow>
          if fm_kind m \<noteq> DirectoryKind then Some ''socket parent is not a directory''
          else if others_write m \<and> \<not> sticky m
          then Some ''socket parent is writable by group/other users without sticky-bit protection''
          else None)))"

section \<open>The start lock\<close>

definition lock_path :: "string \<Rightarrow> string" where
  "lock_path path = path @ ''.lock''"

definition own_regular :: "rpc_host \<Rightarrow> file_meta \<Rightarrow> bool" where
  "own_regular h m \<longleftrightarrow> fm_kind m = RegularKind \<and> fm_uid m = rp_uid h"

definition check_lock_file :: "rpc_host \<Rightarrow> file_meta option \<Rightarrow> (exn, unit) res" where
  "check_lock_file h found = (case found of
     None \<Rightarrow> Inr ()
   | Some m \<Rightarrow> if \<not> own_regular h m then Inl (SocketPathUnsafe ''socket lock path must be an owner-owned regular file'')
       else if \<not> owner_only m then Inl (SocketPathUnsafe ''socket lock path must be owner-only'') else Inr ())"

definition fstat :: "rpc_host \<Rightarrow> file_meta sock_act" where
  "fstat h = andthen (sys (rp_fstat h)) (\<lambda>om. case om of None \<Rightarrow> raise (OSError ''fstat'') | Some m \<Rightarrow> ret m)"

text \<open>
  Trying to take the lock until it is taken or the deadline has passed; \<open>None\<close>: not over after
  \<open>n\<close> attempts.
\<close>

fun lock_attempts :: "rpc_host \<Rightarrow> string \<Rightarrow> rat \<Rightarrow> nat \<Rightarrow> unit option sock_act" where
  "lock_attempts h path deadline 0 = ret None"
| "lock_attempts h path deadline (Suc n) =
     andthen (sys (rp_flock h)) (\<lambda>r. case r of
       LockTaken \<Rightarrow> ret (Some ())
     | LockFailed \<Rightarrow> raise (OSError ''flock'')
     | LockHeld \<Rightarrow> andthen (sys (rp_monotonic h)) (\<lambda>now.
         if deadline \<le> now then raise (SocketInUse (''socket startup lock is held: '' @ path))
         else lock_attempts h path deadline n))"

definition START_LOCK_TIMEOUT_SECONDS :: rat where
  "START_LOCK_TIMEOUT_SECONDS = 2"

definition open_socket_fd :: "sock_state \<Rightarrow> sock_state" where
  "open_socket_fd s = s\<lparr>so_open := Suc (so_open s)\<rparr>"

definition close_fd :: "sock_state \<Rightarrow> sock_state" where
  "close_fd s = s\<lparr>so_open := so_open s - 1\<rparr>"

definition harden_lock :: "rpc_host \<Rightarrow> unit sock_act" where
  "harden_lock h =
     andthen (fstat h) (\<lambda>m.
     andthen (guard (own_regular h m) (SocketPathUnsafe ''socket lock path must be an owner-owned regular file'')) (\<lambda>_.
     andthen (sys_ok (rp_fchmod h)) (\<lambda>_.
     andthen (fstat h) (\<lambda>m'.
       guard (fm_mode m' = 0x180) (SocketPathUnsafe ''socket lock path permissions could not be hardened'')))))"

definition acquire_start_lock :: "rpc_host \<Rightarrow> nat \<Rightarrow> string \<Rightarrow> unit option sock_act" where
  "acquire_start_lock h n path =
     (let lock = lock_path path in
      andthen (lstat h lock) (\<lambda>existing.
      andthen (lift (check_lock_file h existing)) (\<lambda>_.
      andthen (sys (rp_open_lock h)) (\<lambda>opened.
      andthen (guard opened (SocketPathUnsafe (''socket lock path is unsafe: '' @ lock))) (\<lambda>_.
      andthen (modify open_socket_fd) (\<lambda>_.
      andthen (attempt
          (andthen (harden_lock h) (\<lambda>_.
           andthen (sys (rp_monotonic h)) (\<lambda>now. lock_attempts h lock (now + START_LOCK_TIMEOUT_SECONDS) n)))
          (\<lambda>x. andthen (modify close_fd) (\<lambda>_. raise x))) (\<lambda>r. case r of
        None \<Rightarrow> ret None
      | Some _ \<Rightarrow> andthen (modify (\<lambda>s. s\<lparr>so_locked := True\<rparr>)) (\<lambda>_.
          andthen (note_event (Locked path)) (\<lambda>_. ret (Some ()))))))))))"

definition release_start_lock :: "string \<Rightarrow> unit sock_act" where
  "release_start_lock path s = (if so_locked s
     then (Inr (), close_fd (s\<lparr>so_locked := False, so_log := Unlocked path # so_log s\<rparr>)) else (Inr (), s))"

section \<open>A socket that is already there\<close>

text \<open>The probe: whoever accepts the connection counts as live, whatever it answers.\<close>

definition socket_accepts_connections :: "rpc_host \<Rightarrow> string \<Rightarrow> bool sock_act" where
  "socket_accepts_connections h path =
     andthen (modify open_socket_fd) (\<lambda>_. always
       (andthen (connect_to h path) (\<lambda>c. case c of
          Refused \<Rightarrow> ret False
        | ConnectFailed \<Rightarrow> raise (SocketInUse (''socket path could not be probed safely: '' @ path))
        | Accepted \<Rightarrow> andthen (sys_ok (rp_send h)) (\<lambda>_. andthen (sys (rp_recv h)) (\<lambda>_. ret True)))) close_fd)"

definition prepare_socket_path :: "rpc_host \<Rightarrow> string \<Rightarrow> unit sock_act" where
  "prepare_socket_path h path =
     andthen (lstat h path) (\<lambda>found. case found of
       None \<Rightarrow> ret ()
     | Some m \<Rightarrow>
         andthen (guard (fm_kind m = SocketKind) (SocketPathUnsafe (''socket path exists and is not a socket: '' @ path))) (\<lambda>_.
         andthen (guard (fm_uid m = rp_uid h) (SocketPathUnsafe (''socket path is not owned by this user: '' @ path))) (\<lambda>_.
         andthen (socket_accepts_connections h path) (\<lambda>live.
         andthen (guard (\<not> live) (SocketInUse (''socket path is already served: '' @ path))) (\<lambda>_.
           unlink h path)))))"

section \<open>Starting and closing the server\<close>

definition unlink_owned_socket :: "rpc_host \<Rightarrow> string \<Rightarrow> unit sock_act" where
  "unlink_owned_socket h path =
     andthen (lstat h path) (\<lambda>found. case found of
       None \<Rightarrow> ret ()
     | Some m \<Rightarrow>
         if fm_kind m \<noteq> SocketKind then ret ()
         else andthen (observe so_bound) (\<lambda>bound. case bound of
           None \<Rightarrow> ret ()
         | Some b \<Rightarrow> if fm_id m \<noteq> fm_id b then ret ()
             else attempt (unlink h path) (\<lambda>x. if is_os_error x then ret () else raise x)))"

definition server_close :: "rpc_host \<Rightarrow> string \<Rightarrow> unit sock_act" where
  "server_close h path = andthen (modify close_fd) (\<lambda>_.
     andthen (note_event Closed) (\<lambda>_. unlink_owned_socket h path))"

definition bound_lstat :: "rpc_host \<Rightarrow> string \<Rightarrow> file_meta sock_act" where
  "bound_lstat h path = andthen (lstat h path) (\<lambda>om. case om of
     None \<Rightarrow> raise (FileNotFoundError path) | Some m \<Rightarrow> ret m)"

definition bind_hardened :: "rpc_host \<Rightarrow> string \<Rightarrow> unit sock_act" where
  "bind_hardened h path =
     andthen (sys_ok (rp_bind h)) (\<lambda>_.
     andthen (note_event (Bound path)) (\<lambda>_.
     andthen (bound_lstat h path) (\<lambda>m.
     andthen (modify (\<lambda>s. s\<lparr>so_bound := Some m\<rparr>)) (\<lambda>_.
     andthen (guard (fm_kind m = SocketKind \<and> fm_uid m = rp_uid h) (SocketPathUnsafe ''bound socket inode is unsafe'')) (\<lambda>_.
     andthen (sys_ok (rp_chmod h)) (\<lambda>_.
     andthen (note_event (Chmodded path)) (\<lambda>_.
     andthen (bound_lstat h path) (\<lambda>m'.
     andthen (guard (fm_id m' = fm_id m \<and> fm_kind m' = SocketKind \<and> fm_uid m' = rp_uid h \<and> fm_mode m' = 0x180)
         (SocketPathUnsafe ''bound socket permissions could not be hardened'')) (\<lambda>_.
     andthen (modify (\<lambda>s. s\<lparr>so_bound := Some m'\<rparr>)) (\<lambda>_.
     andthen (sys_ok (rp_listen h)) (\<lambda>_. note_event (Listening path))))))))))))"

definition open_server :: "rpc_host \<Rightarrow> nat \<Rightarrow> string \<Rightarrow> unit option sock_act" where
  "open_server h n path =
     andthen (acquire_start_lock h n path) (\<lambda>r. case r of
       None \<Rightarrow> ret None
     | Some _ \<Rightarrow> andthen (prepare_socket_path h path) (\<lambda>_.
         andthen (modify open_socket_fd) (\<lambda>_.
         andthen (attempt (bind_hardened h path) (\<lambda>x. andthen (server_close h path) (\<lambda>_. raise x))) (\<lambda>_. ret (Some ())))))"

text \<open>\<open>RpcServer(socket_path, ...)\<close>: the \<open>finally\<close> clause gives the lock back.\<close>

definition start_server :: "rpc_host \<Rightarrow> nat \<Rightarrow> string \<Rightarrow> unit option sock_act" where
  "start_server h n path =
     andthen (guard (path \<noteq> []) (SocketPathUnsafe ''socket_path must be a non-empty string'')) (\<lambda>_.
     andthen (modify (\<lambda>s. s\<lparr>so_bound := None, so_locked := False\<rparr>)) (\<lambda>_.
     andthen (if dirname path = [] then ret () else sys_ok (rp_makedirs h)) (\<lambda>_.
     andthen (unsafe_socket_parent_reason h path) (\<lambda>reason. case reason of
       Some why \<Rightarrow> raise (SocketPathUnsafe why)
     | None \<Rightarrow> always (open_server h n path) (\<lambda>s. snd (release_start_lock path s))))))"

section \<open>The client\<close>

definition check_endpoint :: "rpc_host \<Rightarrow> string \<Rightarrow> file_meta option \<Rightarrow> file_meta \<Rightarrow> (exn, unit) res" where
  "check_endpoint h path expected m =
     (let unsafe = socket_endpoint_unsafe_fault path in
      if (case expected of None \<Rightarrow> False | Some e \<Rightarrow> fm_id m \<noteq> fm_id e) then Inl (unsafe ''socket endpoint changed during connect'')
      else if fm_kind m \<noteq> SocketKind then Inl (unsafe ''path is not an AF_UNIX socket'')
      else if fm_uid m \<noteq> rp_uid h then Inl (unsafe ''socket is not owned by this user'')
      else if \<not> owner_only m then Inl (unsafe ''socket is accessible by group or other users'') else Inr ())"

definition validate_socket_endpoint :: "rpc_host \<Rightarrow> string \<Rightarrow> file_meta option \<Rightarrow> file_meta sock_act" where
  "validate_socket_endpoint h path expected =
     andthen (look_at h path) (\<lambda>l. case l of
       Missing \<Rightarrow> raise (daemon_unavailable_fault path)
     | LookFailed _ \<Rightarrow> raise (socket_endpoint_unsafe_fault path ''could not inspect socket path'')
     | Seen m \<Rightarrow> andthen (lift (check_endpoint h path expected m)) (\<lambda>_.
         andthen (unsafe_socket_parent_reason h path) (\<lambda>reason. case reason of
           Some why \<Rightarrow> raise (socket_endpoint_unsafe_fault path why) | None \<Rightarrow> ret m)))"

text \<open>The loop over \<open>recv\<close>; every chunk is longer than nothing, so the size limit ends it.\<close>

function recv_all :: "rpc_host \<Rightarrow> string \<Rightarrow> string sock_act" where
  "recv_all h got s =
     (if got \<noteq> [] \<and> last got = newline then (Inr got, s)
      else (case sys (rp_recv h) s of
        (Inr (Chunk c), s') \<Rightarrow>
          if c = [] then (Inr got, s')
          else if int (length (got @ c)) > MAX_RESPONSE_BYTES then (Inl (protocol_fault ''Daemon response is too large''), s')
          else recv_all h (got @ c) s'
      | (_, s') \<Rightarrow> (Inl (OSError ''recv''), s')))"
  by pat_completeness auto

termination
  by (relation "measure (\<lambda>(h, got, s). nat (MAX_RESPONSE_BYTES + 1 - int (length got)))") auto

declare recv_all.simps [simp del]

definition unavailable_on_os_error :: "string \<Rightarrow> 'a sock_act \<Rightarrow> 'a sock_act" where
  "unavailable_on_os_error path m = attempt m (\<lambda>x. if is_os_error x then raise (daemon_unavailable_fault path) else raise x)"

definition request_json :: "string \<Rightarrow> json_object \<Rightarrow> json" where
  "request_json m ps = JObj [(''jsonrpc'', JStr ''2.0''), (''id'', JStr ''cli''), (''method'', JStr m), (''params'', JObj ps)]"

definition encode_request :: "rpc_env \<Rightarrow> string \<Rightarrow> json_object \<Rightarrow> (exn, string) res" where
  "encode_request env m ps = ebind (json_dumps (re_float env) (request_json m ps)) (\<lambda>t. Inr (t @ [newline]))"

definition exchange :: "rpc_host \<Rightarrow> rpc_env \<Rightarrow> string \<Rightarrow> file_meta \<Rightarrow> string \<Rightarrow> json_object \<Rightarrow> string sock_act" where
  "exchange h env path expected m ps =
     andthen (connect_to h path) (\<lambda>c.
     andthen (guard (c = Accepted) (daemon_unavailable_fault path)) (\<lambda>_.
     andthen (lift (encode_request env m ps)) (\<lambda>encoded.
       unavailable_on_os_error path
         (andthen (validate_socket_endpoint h path (Some expected)) (\<lambda>_.
          andthen (note_event (Sent encoded)) (\<lambda>_.
          andthen (sys_ok (rp_send h)) (\<lambda>_. recv_all h [])))))))"

definition read_response :: "rpc_env \<Rightarrow> string \<Rightarrow> string \<Rightarrow> (exn, json) res" where
  "read_response env path got =
     (if got = [] then Inl (daemon_unavailable_fault path)
      else (case re_loads env got of
        Inl x \<Rightarrow> Inl (if is_value_or_type x then protocol_fault ''Daemon returned malformed JSON'' else x)
      | Inr response \<Rightarrow> ebind (validate_response_envelope response ''cli'') (\<lambda>_. Inr response)))"

definition rpc_call :: "rpc_host \<Rightarrow> rpc_env \<Rightarrow> string \<Rightarrow> string \<Rightarrow> json_object \<Rightarrow> json option \<Rightarrow> json sock_act" where
  "rpc_call h env path m ps timeout =
     andthen (lift (case timeout of None \<Rightarrow> Inr None
       | Some t \<Rightarrow> ebind (finite_nonnegative_float t ''timeout'') (\<lambda>r. Inr (Some (bounded_platform_timeout (re_limit env) r))))) (\<lambda>_.
     andthen (validate_socket_endpoint h path None) (\<lambda>expected.
     andthen (modify open_socket_fd) (\<lambda>_.
     andthen (always (exchange h env path expected m ps) (\<lambda>s. close_fd (s\<lparr>so_log := Closed # so_log s\<rparr>))) (\<lambda>got.
       lift (read_response env path got)))))"

end
