(* ===== verification/RpcProps.thy ===== *)
theory RpcProps
  imports Rpc
begin

text \<open>
  The server answers every request that it reads with one line that the client's check accepts,
  stops only after a stop or restart that succeeded, and validates raw parameters exactly as a
  client that runs the validators without a server.
\<close>

section \<open>Text\<close>

lemma codept_hex_digit: "n < 16 \<Longrightarrow> 48 \<le> codept (hex_digit n)"
  by (simp add: codept_def hex_digit_def)

lemma json_char_one_line: "newline \<notin> set (json_char c)"
proof -
  have "codept c < 256" by (simp add: codept_def)
  then have "codept c div 16 < 16" "codept c mod 16 < 16" by simp_all
  then have "48 \<le> codept (hex_digit (codept c div 16))" "48 \<le> codept (hex_digit (codept c mod 16))"
    by (simp_all only: codept_hex_digit)
  moreover have "codept newline = 10" by (simp add: codept_def newline_def)
  ultimately have "hex_digit (codept c div 16) \<noteq> newline" "hex_digit (codept c mod 16) \<noteq> newline"
    "codept c \<noteq> 10 \<Longrightarrow> c \<noteq> newline" by auto
  then show ?thesis by (auto simp: json_char_def Let_def backslash_def dquote_def newline_def)
qed

lemma json_string_one_line: "newline \<notin> set (json_string s)"
  using json_char_one_line by (auto simp: json_string_def dquote_def newline_def)

lemma join_one_line: "newline \<notin> set sep \<Longrightarrow> (\<And>t. t \<in> set ts \<Longrightarrow> newline \<notin> set t) \<Longrightarrow> newline \<notin> set (join_with sep ts)"
  by (induction sep ts rule: join_with.induct) auto

lemma join_comma: "(\<And>t. t \<in> set ts \<Longrightarrow> newline \<notin> set t) \<Longrightarrow> newline \<notin> set (join_with '','' ts)"
  by (rule join_one_line) (simp_all add: newline_def)

lemma show_nat_one_line: "newline \<notin> set (show_nat n)"
proof (induction n rule: show_nat.induct)
  case (1 n)
  have "codept (char_of (48 + n mod 10)) \<noteq> codept newline" "n < 10 \<Longrightarrow> codept (char_of (48 + n)) \<noteq> codept newline"
    by (simp_all add: codept_def newline_def)
  then show ?case using 1 by (subst show_nat.simps) auto
qed

lemma json_dumps_one_line:
  "json_dumps rep v = Inr t \<Longrightarrow> (\<And>r. newline \<notin> set (rep r)) \<Longrightarrow> newline \<notin> set t"
proof (induction rep v arbitrary: t rule: json_dumps.induct)
  case (6 rep xs)
  then obtain ts where ts: "map (json_dumps rep) xs = map Inr ts" "t = ''['' @ join_with '','' ts @ '']''"
    by (auto simp: res_simps emap_Inr_iff)
  have "newline \<notin> set u" if "u \<in> set ts" for u
  proof -
    from that ts(1) have "Inr u \<in> set (map (json_dumps rep) xs)" by simp
    then obtain x where "x \<in> set xs" "json_dumps rep x = Inr u" by auto
    with 6 show ?thesis by blast
  qed
  with join_comma have "newline \<notin> set (join_with '','' ts)" by blast
  then show ?case using ts(2) by (simp add: newline_def)
next
  case (7 rep d)
  then obtain ts where ts: "map (\<lambda>kv. ebind (json_dumps rep (snd kv)) (\<lambda>t. Inr (json_string (fst kv) @ '':'' @ t))) d = map Inr ts"
      "t = ''{'' @ join_with '','' ts @ ''}''"
    by (auto simp: res_simps emap_Inr_iff)
  have "newline \<notin> set u" if "u \<in> set ts" for u
  proof -
    from that have "Inr u \<in> set (map Inr ts :: (exn, string) res list)" by simp
    then obtain kv where "kv \<in> set d" "ebind (json_dumps rep (snd kv)) (\<lambda>t. Inr (json_string (fst kv) @ '':'' @ t)) = Inr u"
      unfolding ts(1) [symmetric] by auto
    with 7 json_string_one_line show ?thesis by (fastforce simp: res_simps newline_def)
  qed
  with join_comma have "newline \<notin> set (join_with '','' ts)" by blast
  then show ?case using ts(2) by (simp add: newline_def)
qed (auto simp: show_int_def newline_def json_string_one_line [unfolded newline_def]
    show_nat_one_line [unfolded newline_def] split: pyfloat.splits if_splits)

lemma json_dumps_error: "json_dumps rep v = Inl x \<Longrightarrow> x = not_compliant"
proof (induction rep v rule: json_dumps.induct)
  case (6 rep xs)
  have "emap (json_dumps rep) ys = Inl x \<Longrightarrow> set ys \<subseteq> set xs \<Longrightarrow> x = not_compliant" for ys
    using 6(1) by (induction ys) (auto simp: res_simps)
  with 6 show ?case by (auto simp: res_simps)
next
  case (7 rep d)
  have "emap (\<lambda>kv. ebind (json_dumps rep (snd kv)) (\<lambda>t. Inr (json_string (fst kv) @ '':'' @ t))) e = Inl x
      \<Longrightarrow> set e \<subseteq> set d \<Longrightarrow> x = not_compliant" for e
    using 7(1) by (induction e) (auto simp: res_simps)
  with 7 show ?case by (auto simp: res_simps)
qed (auto split: pyfloat.splits)

section \<open>Response lines\<close>

text \<open>One line that is the answer to the request with this identifier, as its client checks it.\<close>

definition is_answer :: "(rat \<Rightarrow> string) \<Rightarrow> json \<Rightarrow> string \<Rightarrow> bool" where
  "is_answer rep request_id line \<longleftrightarrow> (\<exists>response t. line = t @ [newline] \<and> newline \<notin> set t
     \<and> json_dumps rep (JObj response) = Inr t \<and> jget response ''id'' = request_id
     \<and> (\<forall>i. request_id = JStr i \<longrightarrow> validate_response_envelope (JObj response) i = Inr ()))"

lemma fault_dict_ok: "is_rpc_fault x \<Longrightarrow> \<exists>f. fault_dict x = Some f \<and> error_envelope_ok (JObj f)"
  by (cases x) (auto simp: is_rpc_fault_def fault_dict_def rpc_fault_to_dict_def facade_fault_to_dict_def
      error_envelope_ok_def error_detail_to_dict_def)

lemma rpc_response_simps:
  "rpc_response i (Some r) None = Inr [(''jsonrpc'', JStr ''2.0''), (''id'', i), (''result'', JObj r)]"
  "rpc_response i None (Some f) = Inr [(''jsonrpc'', JStr ''2.0''), (''id'', i), (''error'', JObj f)]"
  by (simp_all add: rpc_response_def)

lemma rpc_response_shape:
  assumes "rpc_response i result fault = Inr envelope"
  obtains r where "result = Some r" "fault = None" "envelope = [(''jsonrpc'', JStr ''2.0''), (''id'', i), (''result'', JObj r)]"
  | f where "result = None" "fault = Some f" "envelope = [(''jsonrpc'', JStr ''2.0''), (''id'', i), (''error'', JObj f)]"
  using assms by (cases result; cases fault) (simp_all add: rpc_response_def)

lemma envelopes_valid:
  "validate_response_envelope (JObj [(''jsonrpc'', JStr ''2.0''), (''id'', JStr i), (''result'', JObj r)]) i = Inr ()"
  "error_envelope_ok (JObj f) \<Longrightarrow>
     validate_response_envelope (JObj [(''jsonrpc'', JStr ''2.0''), (''id'', JStr i), (''error'', JObj f)]) i = Inr ()"
  by (simp_all add: validate_response_envelope_def dhas_def)

lemma encode_is_answer:
  assumes "encode_response rep request_id result fault = Inr line" "\<And>r. newline \<notin> set (rep r)"
    and "\<And>x. fault = Some x \<Longrightarrow> is_rpc_fault x"
  shows "is_answer rep request_id line"
proof -
  obtain envelope t where e: "rpc_response request_id result (case fault of None \<Rightarrow> None | Some x \<Rightarrow> fault_dict x) = Inr envelope"
    and t: "json_dumps rep (JObj envelope) = Inr t" "line = t @ [newline]"
    using assms(1) by (auto simp: encode_response_def res_simps simp del: json_dumps.simps)
  have "jget envelope ''id'' = request_id \<and> (\<forall>i. request_id = JStr i \<longrightarrow> validate_response_envelope (JObj envelope) i = Inr ())"
    using e
  proof (cases rule: rpc_response_shape)
    case (1 r)
    then show ?thesis by (simp add: envelopes_valid)
  next
    case (2 f)
    then obtain x where "fault = Some x" "fault_dict x = Some f" by (cases fault) simp_all
    with assms(3) fault_dict_ok have "error_envelope_ok (JObj f)" by fastforce
    with 2 show ?thesis by (simp add: envelopes_valid)
  qed
  with t json_dumps_one_line [OF t(1) assms(2)] show ?thesis unfolding is_answer_def by blast
qed

lemma encode_error:
  assumes "encode_response rep request_id result fault = Inl x"
    and "result \<noteq> None \<and> fault = None \<or> result = None \<and> (\<exists>y. fault = Some y \<and> is_rpc_fault y)"
  shows "x = not_compliant"
proof -
  have "\<exists>envelope. rpc_response request_id result (case fault of None \<Rightarrow> None | Some x \<Rightarrow> fault_dict x) = Inr envelope"
    using assms(2) fault_dict_ok by (fastforce simp: rpc_response_def Let_def)
  then obtain envelope where "json_dumps rep (JObj envelope) = Inl x"
    using assms(1) by (auto simp: encode_response_def res_simps simp del: json_dumps.simps)
  then show ?thesis by (rule json_dumps_error)
qed

lemma not_compliant_class: "\<not> is_os_error not_compliant" "is_value_error not_compliant" "\<not> is_rpc_fault not_compliant"
  by (simp_all add: not_compliant_def exn_class_defs)

lemma refusal_is_fault:
  "is_rpc_fault (if is_rpc_fault x then x else if is_value_error x then invalid_params_fault (exn_str x) else internal_fault (exn_name x))"
  by (simp add: invalid_params_fault_def internal_fault_def mk_rpc_fault_details) (simp add: is_rpc_fault_def)

section \<open>One answer for each request\<close>

definition answered :: "rpc_env \<Rightarrow> json \<Rightarrow> 's rpc_state \<Rightarrow> 's rpc_state \<Rightarrow> bool" where
  "answered env request_id s s' \<longleftrightarrow> (\<exists>line. rh_lines s' = rh_lines s @ [line] \<and> is_answer (re_float env) request_id line)"

lemma answer_line:
  assumes "answer env (\<lambda>_. None) request_id result fault s = (r, s')" "\<And>r. newline \<notin> set (re_float env r)"
    and "\<And>x. fault = Some x \<Longrightarrow> is_rpc_fault x"
  shows "(r = Inr () \<and> answered env request_id s s') \<or>
    (\<exists>x. r = Inl x \<and> s' = s \<and> encode_response (re_float env) request_id result fault = Inl x)"
proof (cases "encode_response (re_float env) request_id result fault")
  case (Inr line)
  then have "is_answer (re_float env) request_id line" by (rule encode_is_answer [OF _ assms(2,3)])
  with Inr assms(1) show ?thesis by (auto simp: answer_def act_defs write_line_def answered_def)
qed (use assms in \<open>auto simp: answer_def act_defs\<close>)

text \<open>The identifier the response to these bytes carries.\<close>

definition answered_id :: "rpc_env \<Rightarrow> string \<Rightarrow> json" where
  "answered_id env raw = (if raw = [] \<or> int (length raw) > MAX_REQUEST_BYTES then JNull
     else (case re_loads env raw of Inl _ \<Rightarrow> JNull | Inr payload \<Rightarrow> request_id_of payload))"

definition request_of :: "rpc_env \<Rightarrow> string \<Rightarrow> (string \<times> json_object) option" where
  "request_of env raw = (if raw = [] \<or> int (length raw) > MAX_REQUEST_BYTES then None
     else (case re_loads env raw of Inl _ \<Rightarrow> None
       | Inr payload \<Rightarrow> (case validate_request payload of Inl _ \<Rightarrow> None | Inr request \<Rightarrow> Some request)))"

lemma standard_faults [simp]: "is_rpc_fault INVALID_REQUEST" "is_rpc_fault PARSE_ERROR"
  by (simp_all add: INVALID_REQUEST_def PARSE_ERROR_def is_rpc_fault_def)

lemma answer_cases:
  assumes "answer env (\<lambda>_. None) request_id result fault s = (r, s')" "\<And>r. newline \<notin> set (re_float env r)"
    and "result \<noteq> None \<and> fault = None \<or> result = None \<and> (\<exists>y. fault = Some y \<and> is_rpc_fault y)"
  obtains "r = Inr ()" "answered env request_id s s'" | "r = Inl not_compliant" "s' = s"
  using answer_line [OF assms(1,2)] assms(3) encode_error by (metis option.inject option.distinct(1))

lemma refuse_cases:
  assumes "refuse env (\<lambda>_. None) request_id x s = (r, s')" "\<And>r. newline \<notin> set (re_float env r)"
  obtains "r = Inr True" "answered env request_id s s'" | "r = Inl not_compliant" "s' = s"
proof -
  obtain q s1 where a: "answer env (\<lambda>_. None) request_id None (Some (if is_rpc_fault x then x
      else if is_value_error x then invalid_params_fault (exn_str x) else internal_fault (exn_name x))) s = (q, s1)"
    by fastforce
  show ?thesis
    by (rule answer_cases [OF a assms(2)])
      (use assms(1) a refusal_is_fault that in \<open>auto simp: refuse_def act_defs\<close>)
qed

text \<open>The state a handler's \<open>try\<close> starts from, and its \<open>finally\<close>.\<close>

definition fresh :: "'s rpc_state \<Rightarrow> 's rpc_state" where
  "fresh s = s\<lparr>rh_accepted := False\<rparr>"

definition finished :: "'s rpc_state \<Rightarrow> 's rpc_state" where
  "finished s = (if rh_accepted s then request_shutdown s else s)"

lemma frame_simps [simp]: "rh_lines (fresh s) = rh_lines s" "rh_lines (finished s) = rh_lines s"
  "rh_inner (fresh s) = rh_inner s" "rh_accepted (fresh s) = False" "rh_started (fresh s) = rh_started s"
  "rh_shutdowns (fresh s) = rh_shutdowns s"
  by (simp_all add: fresh_def finished_def request_shutdown_def)

lemma handle_readable:
  assumes "respond env sv wr raw (fresh s) = (q, s1)"
  shows "handle env sv wr (Inr raw) s = (case q of
     Inr b \<Rightarrow> (Inr b, finished s1)
   | Inl x \<Rightarrow> if is_os_error x then (Inr True, finished s1) else (Inl x, finished s1))"
  using assms by (cases q) (simp_all add: handle_def act_defs fresh_def finished_def)

lemma inner_lines: "inner m s = (r, s') \<Longrightarrow> rh_lines s' = rh_lines s \<and> rh_accepted s' = rh_accepted s
    \<and> rh_started s' = rh_started s \<and> rh_shutdowns s' = rh_shutdowns s"
  by (auto simp: inner_def split: prod.splits)

lemma inner_result: "inner m s = (r, s') \<Longrightarrow> fst (m (rh_inner s)) = r"
  by (auto simp: inner_def split: prod.splits)

lemma serve_run:
  assumes "validate_request payload = Inr (m, ps)" "inner (dispatch env sv m ps) s = (q, s1)"
  shows "serve env sv wr i payload s = (case q of
     Inl x \<Rightarrow> (Inl x, s1)
   | Inr None \<Rightarrow> (Inr False, s1)
   | Inr (Some result) \<Rightarrow> (case answer env wr i (Some result) None (s1\<lparr>rh_accepted := m \<in> set SHUTDOWN_METHODS\<rparr>) of
       (Inl x, s2) \<Rightarrow> (Inl x, s2) | (Inr _, s2) \<Rightarrow> (Inr True, s2)))"
  using assms by (auto simp: serve_def act_defs split: sum.splits option.splits prod.splits)

lemma serve_cases:
  assumes run: "serve env sv (\<lambda>_. None) i payload s = (r, s')" and texts: "\<And>r. newline \<notin> set (re_float env r)"
  obtains "r = Inr True" "answered env i s s'"
  | "r = Inr False" "rh_lines s' = rh_lines s" "is_ok (validate_request payload)"
  | x where "r = Inl x" "rh_lines s' = rh_lines s"
proof (cases "validate_request payload")
  case (Inl x)
  with run that(3) show ?thesis by (auto simp: serve_def act_defs)
next
  case (Inr request)
  obtain m ps where request: "request = (m, ps)" by fastforce
  obtain q s1 where q: "inner (dispatch env sv m ps) s = (q, s1)" by fastforce
  note step = serve_run [OF Inr [unfolded request] q, of "\<lambda>_. None" i, unfolded run] inner_lines [OF q]
  show ?thesis
  proof (cases q)
    case (Inl x)
    with step that(3) show ?thesis by simp
  next
    case (Inr reply)
    show ?thesis
    proof (cases reply)
      case None
      with \<open>q = _\<close> step that(2) \<open>validate_request payload = _\<close> show ?thesis by simp
    next
      case (Some result)
      obtain u s2 where a: "answer env (\<lambda>_. None) i (Some result) None (s1\<lparr>rh_accepted := m \<in> set SHUTDOWN_METHODS\<rparr>) = (u, s2)"
        by fastforce
      show ?thesis
        by (rule answer_cases [OF a texts])
          (use step Inr Some a that in \<open>auto simp: answered_def\<close>)
    qed
  qed
qed

lemma respond_ok:
  assumes "raw \<noteq> []" "\<not> int (length raw) > MAX_REQUEST_BYTES" "re_loads env raw = Inr payload"
  shows "respond env sv wr raw = attempt (serve env sv wr (request_id_of payload) payload) (refuse env wr (request_id_of payload))"
    "answered_id env raw = request_id_of payload"
    "request_of env raw = (case validate_request payload of Inl _ \<Rightarrow> None | Inr request \<Rightarrow> Some request)"
  using assms by (simp_all add: respond_def answered_id_def request_of_def)

lemma respond_refused:
  assumes "raw = [] \<or> int (length raw) > MAX_REQUEST_BYTES \<or> re_loads env raw = Inl x"
  obtains (answer) y where "respond env sv wr raw = andthen (answer env wr JNull None (Some y)) (\<lambda>_. ret True)"
      "is_rpc_fault y" "answered_id env raw = JNull" "request_of env raw = None"
  | (raise) "respond env sv wr raw = raise x" "re_loads env raw = Inl x" "request_of env raw = None"
  using assms by (cases "raw = [] \<or> int (length raw) > MAX_REQUEST_BYTES"; cases "is_value_or_type x")
    (auto simp: respond_def answered_id_def request_of_def)

lemma respond_cases:
  assumes run: "respond env sv (\<lambda>_. None) raw s = (r, s')" and texts: "\<And>r. newline \<notin> set (re_float env r)"
  obtains "r = Inr True" "answered env (answered_id env raw) s s'"
  | "r = Inr False" "rh_lines s' = rh_lines s" "request_of env raw \<noteq> None"
  | x where "r = Inl x" "rh_lines s' = rh_lines s" "x = not_compliant \<or> re_loads env raw = Inl x"
proof (cases "\<exists>x. raw = [] \<or> int (length raw) > MAX_REQUEST_BYTES \<or> re_loads env raw = Inl x")
  case True
  then obtain x where "raw = [] \<or> int (length raw) > MAX_REQUEST_BYTES \<or> re_loads env raw = Inl x" by blast
  then show ?thesis
  proof (cases rule: respond_refused [where sv = sv and wr = "\<lambda>_. None"])
    case (answer y)
    obtain q s1 where a: "answer env (\<lambda>_. None) JNull None (Some y) s = (q, s1)" by fastforce
    show ?thesis
      by (rule answer_cases [OF a texts]) (use answer run a that in \<open>auto simp: act_defs\<close>)
  qed (use run that in \<open>auto simp: act_defs\<close>)
next
  case False
  then obtain payload where ok: "raw \<noteq> []" "\<not> int (length raw) > MAX_REQUEST_BYTES" "re_loads env raw = Inr payload"
    by (metis sum.exhaust)
  note fine = respond_ok [OF ok]
  obtain q s1 where q: "serve env sv (\<lambda>_. None) (request_id_of payload) payload s = (q, s1)" by fastforce
  have whole: "q = Inr b \<Longrightarrow> r = Inr b \<and> s' = s1" for b
    using run by (simp add: fine attempt_def q)
  show ?thesis
    using q texts
  proof (cases rule: serve_cases)
    case (3 x)
    obtain u s2 where u: "refuse env (\<lambda>_. None) (request_id_of payload) x s1 = (u, s2)" by fastforce
    have whole: "respond env sv (\<lambda>_. None) raw s = (u, s2)"
      by (simp add: fine attempt_def q 3 u)
    show ?thesis
      using u texts
    proof (cases rule: refuse_cases)
      case 1
      with whole run 3 fine that(1) show ?thesis by (auto simp: answered_def)
    next
      case 2
      with whole run 3 that(3) show ?thesis by auto
    qed
  qed (use whole fine that in \<open>auto simp: is_ok_iff\<close>)
qed


section \<open>Shutting down\<close>

lemma answer_frame: "answer env wr i result fault s = (r, s') \<Longrightarrow>
    rh_accepted s' = rh_accepted s \<and> rh_started s' = rh_started s \<and> rh_shutdowns s' = rh_shutdowns s \<and> rh_inner s' = rh_inner s"
  by (auto simp: answer_def act_defs write_line_def split: sum.splits option.splits)

lemma refuse_frame: "refuse env wr i x s = (r, s') \<Longrightarrow>
    rh_accepted s' = rh_accepted s \<and> rh_started s' = rh_started s \<and> rh_shutdowns s' = rh_shutdowns s \<and> rh_inner s' = rh_inner s"
  by (auto simp: refuse_def andthen_def ret_def dest!: answer_frame split: sum.splits prod.splits)

text \<open>A request to stop or restart whose operation returned a result.\<close>

definition accepted_stop :: "rpc_env \<Rightarrow> 's rpc_server \<Rightarrow> string \<Rightarrow> 's \<Rightarrow> bool" where
  "accepted_stop env sv raw i = (case request_of env raw of
     None \<Rightarrow> False
   | Some (m, ps) \<Rightarrow> m \<in> set SHUTDOWN_METHODS \<and> (case fst (dispatch env sv m ps i) of Inr (Some _) \<Rightarrow> True | _ \<Rightarrow> False))"

lemma serve_accepts:
  assumes run: "serve env sv wr i payload s = (r, s')" and start: "\<not> rh_accepted s"
  shows "rh_started s' = rh_started s \<and> rh_shutdowns s' = rh_shutdowns s \<and> rh_accepted s' = (case validate_request payload of
      Inl _ \<Rightarrow> False
    | Inr (m, ps) \<Rightarrow> m \<in> set SHUTDOWN_METHODS \<and> (case fst (dispatch env sv m ps (rh_inner s)) of Inr (Some _) \<Rightarrow> True | _ \<Rightarrow> False))"
proof (cases "validate_request payload")
  case (Inl x)
  with run start show ?thesis by (auto simp: serve_def act_defs)
next
  case (Inr request)
  obtain m ps where request: "request = (m, ps)" by fastforce
  obtain q s1 where q: "inner (dispatch env sv m ps) s = (q, s1)" by fastforce
  note step = serve_run [OF Inr [unfolded request] q, of wr i, unfolded run] inner_lines [OF q]
  note result = inner_result [OF q]
  show ?thesis
  proof (cases "\<exists>found. q = Inr (Some found)")
    case True
    then obtain found where found: "q = Inr (Some found)" by blast
    obtain u s2 where a: "answer env wr i (Some found) None (s1\<lparr>rh_accepted := m \<in> set SHUTDOWN_METHODS\<rparr>) = (u, s2)"
      by fastforce
    from step(1) have "s' = s2" by (simp add: found a split: sum.splits)
    with answer_frame [OF a] step(2) \<open>validate_request payload = _\<close> request result found show ?thesis by simp
  next
    case False
    with step start \<open>validate_request payload = _\<close> request result show ?thesis
      by (auto split: sum.splits option.splits)
  qed
qed

lemma respond_accepts:
  assumes run: "respond env sv wr raw s = (r, s')" and start: "\<not> rh_accepted s"
  shows "rh_started s' = rh_started s \<and> rh_shutdowns s' = rh_shutdowns s
     \<and> rh_accepted s' = accepted_stop env sv raw (rh_inner s)"
proof (cases "\<exists>x. raw = [] \<or> int (length raw) > MAX_REQUEST_BYTES \<or> re_loads env raw = Inl x")
  case True
  then obtain x where "raw = [] \<or> int (length raw) > MAX_REQUEST_BYTES \<or> re_loads env raw = Inl x" by blast
  then show ?thesis
  proof (cases rule: respond_refused [where sv = sv and wr = wr])
    case (answer y)
    obtain q s1 where a: "Rpc.answer env wr JNull None (Some y) s = (q, s1)" by fastforce
    with run answer have "s' = s1" by (auto simp: andthen_def ret_def split: sum.splits)
    with answer_frame [OF a] start answer show ?thesis by (simp add: accepted_stop_def)
  qed (use run start in \<open>auto simp: act_defs accepted_stop_def\<close>)
next
  case False
  then obtain payload where ok: "raw \<noteq> []" "\<not> int (length raw) > MAX_REQUEST_BYTES" "re_loads env raw = Inr payload"
    by (metis sum.exhaust)
  note fine = respond_ok [OF ok]
  obtain q s1 where q: "serve env sv wr (request_id_of payload) payload s = (q, s1)" by fastforce
  have accepts: "rh_accepted s1 = accepted_stop env sv raw (rh_inner s)"
    using serve_accepts [OF q start] by (simp add: accepted_stop_def fine split: sum.splits prod.splits)
  show ?thesis
  proof (cases q)
    case (Inl x)
    obtain u s2 where u: "refuse env wr (request_id_of payload) x s1 = (u, s2)" by fastforce
    have "s' = s2" using run by (simp add: fine attempt_def q Inl u)
    with refuse_frame [OF u] serve_accepts [OF q start] accepts show ?thesis by simp
  next
    case (Inr b)
    have "s' = s1" using run by (simp add: fine attempt_def q Inr)
    with serve_accepts [OF q start] accepts show ?thesis by simp
  qed
qed

lemma shutdown_follows_accepted_stop_lemma:
  assumes "handle env sv wr input s = (r, s')"
  shows "let stop = (case input of Inl _ \<Rightarrow> False | Inr raw \<Rightarrow> accepted_stop env sv raw (rh_inner s)) in
     rh_started s' = (rh_started s \<or> stop)
     \<and> rh_shutdowns s' = rh_shutdowns s + (if stop \<and> \<not> rh_started s then 1 else 0)"
proof (cases input)
  case (Inl x)
  with assms show ?thesis by (auto simp: handle_def act_defs split: if_splits)
next
  case (Inr raw)
  obtain q s1 where q: "respond env sv wr raw (fresh s) = (q, s1)" by fastforce
  have "s' = finished s1"
    using assms handle_readable [OF q] Inr by (auto split: sum.splits if_splits)
  with respond_accepts [OF q] Inr show ?thesis by (auto simp: finished_def request_shutdown_def Let_def)
qed

text \<open>
  A connection starts the server's shutdown exactly when it asked to stop or restart and
  the operation returned a result, whatever the writes of the response do; the shutdown is
  started once, however many connections ask.
\<close>

theorem shutdown_follows_accepted_stop:
  assumes "handle env sv wr input s = (r, s')"
  shows "let stop = (case input of Inl _ \<Rightarrow> False | Inr raw \<Rightarrow> accepted_stop env sv raw (rh_inner s)) in
     rh_started s' = (rh_started s \<or> stop)
     \<and> rh_shutdowns s' = rh_shutdowns s + (if stop \<and> \<not> rh_started s then 1 else 0)"
  using assms by (rule shutdown_follows_accepted_stop_lemma)

section \<open>Raw requests\<close>

text \<open>The one call a raw request makes of the broker.\<close>

datatype broker_request =
    DaemonStatusCall | ModelListCall | SessionStartCall string "string option" "string option"
  | SessionResumeCall identifier_selector "string option" | SessionListCall | SessionShowCall identifier_selector
  | TurnStartCall identifier_selector string "string option" "string option" | TurnStatusCall identifier_selector
  | TurnWaitCall identifier_selector rat | TurnEventsCall identifier_selector int int
  | TurnSteerCall identifier_selector string | TurnInterruptCall identifier_selector

fun perform :: "'s rpc_broker \<Rightarrow> broker_request \<Rightarrow> ('s, json_object option) act" where
  "perform b DaemonStatusCall = rb_daemon_status b"
| "perform b ModelListCall = rb_model_list b"
| "perform b (SessionStartCall cwd name model) = rb_session_start b cwd name model"
| "perform b (SessionResumeCall sel name) = rb_session_resume b sel name"
| "perform b SessionListCall = rb_session_list b"
| "perform b (SessionShowCall sel) = rb_session_show b sel"
| "perform b (TurnStartCall sel prompt model effort) = rb_turn_start b sel prompt model effort"
| "perform b (TurnStatusCall sel) = rb_turn_status b sel"
| "perform b (TurnWaitCall sel t) = rb_turn_wait b sel t"
| "perform b (TurnEventsCall sel after limit) = rb_turn_events b sel after limit"
| "perform b (TurnSteerCall sel prompt) = rb_turn_steer b sel prompt"
| "perform b (TurnInterruptCall sel) = rb_turn_interrupt b sel"

text \<open>
  \<open>reads v p\<close>: whatever the broker and its state, the method \<open>v\<close> with these parameters raises what
  \<open>p\<close> raises and touches nothing, or makes exactly the call \<open>p\<close> reads from them.
\<close>

definition reads :: "'s raw_method \<Rightarrow> json_object \<Rightarrow> (exn, broker_request) res \<Rightarrow> bool" where
  "reads v ps p \<longleftrightarrow> (\<forall>b s. v b ps s = (case p of Inl x \<Rightarrow> (Inl x, s) | Inr call \<Rightarrow> perform b call s))"

definition selecting :: "json_object \<Rightarrow> string list \<Rightarrow> string list \<Rightarrow> (identifier_selector \<Rightarrow> (exn, broker_request) res) \<Rightarrow>
    (exn, broker_request) res" where
  "selecting ps allowed required f = ebind (expect_params ps allowed required) (\<lambda>_. ebind (selector_of ps) f)"

definition bare :: "json_object \<Rightarrow> broker_request \<Rightarrow> (exn, broker_request) res" where
  "bare ps call = (if ps = [] then Inr call else Inl (ValueError ''method does not accept params''))"

definition session_keys :: "string list" where
  "session_keys = [''session_id'', ''thread_id'']"

definition read_raw :: "rat option \<Rightarrow> json_object \<Rightarrow> (string \<times> (exn, broker_request) res) list" where
  "read_raw limit ps =
     [(''daemon/status'', bare ps DaemonStatusCall), (''model/list'', bare ps ModelListCall),
      (''session/start'', ebind (expect_params ps [''cwd'', ''name'', ''model''] [''cwd'']) (\<lambda>_.
         ebind (required_string ps ''cwd'') (\<lambda>cwd. ebind (optional_string ps ''name'') (\<lambda>name.
         ebind (optional_string ps ''model'') (\<lambda>model. Inr (SessionStartCall cwd name model)))))),
      (''session/resume'', selecting ps (session_keys @ [''name'']) [] (\<lambda>sel.
         ebind (optional_string ps ''name'') (\<lambda>name. Inr (SessionResumeCall sel name)))),
      (''session/list'', bare ps SessionListCall),
      (''session/show'', selecting ps session_keys [] (\<lambda>sel. Inr (SessionShowCall sel))),
      (''turn/start'', selecting ps (session_keys @ [''prompt'', ''model'', ''effort'']) [''prompt''] (\<lambda>sel.
         ebind (required_string ps ''prompt'') (\<lambda>prompt. ebind (optional_string ps ''model'') (\<lambda>model.
         ebind (optional_string ps ''effort'') (\<lambda>effort. Inr (TurnStartCall sel prompt model effort)))))),
      (''turn/status'', selecting ps session_keys [] (\<lambda>sel. Inr (TurnStatusCall sel))),
      (''turn/wait'', ebind (expect_params ps (session_keys @ [''timeout'']) [''timeout'']) (\<lambda>_.
         ebind (number_param ps ''timeout'') (\<lambda>timeout.
         if timeout < 0 then Inl (ValueError ''timeout must be non-negative'')
         else ebind (selector_of ps) (\<lambda>sel. Inr (TurnWaitCall sel (bounded_platform_timeout limit timeout)))))),
      (''turn/events'', ebind (expect_params ps (session_keys @ [''after'', ''limit'']) [''after'', ''limit'']) (\<lambda>_.
         ebind (integer_param ps ''after'') (\<lambda>after. ebind (integer_param ps ''limit'') (\<lambda>n.
         if after < 0 then Inl (ValueError ''after must be non-negative'')
         else if n < 1 \<or> 1000 < n then Inl (ValueError ''limit must be between 1 and 1000'')
         else ebind (selector_of ps) (\<lambda>sel. Inr (TurnEventsCall sel after n)))))),
      (''turn/steer'', selecting ps (session_keys @ [''prompt'']) [''prompt''] (\<lambda>sel.
         ebind (required_string ps ''prompt'') (\<lambda>prompt. Inr (TurnSteerCall sel prompt)))),
      (''turn/interrupt'', selecting ps session_keys [] (\<lambda>sel. Inr (TurnInterruptCall sel)))]"

lemmas raw_method_defs = raw_daemon_status_def raw_model_list_def raw_session_start_def raw_session_resume_def
  raw_session_list_def raw_session_show_def raw_turn_start_def raw_turn_status_def raw_turn_wait_def
  raw_turn_events_def raw_turn_steer_def raw_turn_interrupt_def

lemma methods_read: "list_all2 (\<lambda>(m, v) (k, p). m = k \<and> reads v ps p) (raw_methods limit) (read_raw limit ps)"
  unfolding raw_methods_def read_raw_def list_all2_Cons list_all2_Nil prod.case reads_def raw_method_defs
    selecting_def bare_def no_params_def session_keys_def append.simps
  by (intro conjI; simp add: act_defs ebind_def split: sum.splits)

lemma list_all2_map_of:
  "list_all2 (\<lambda>(m, v) (k, p). m = k \<and> R v p) xs ys \<Longrightarrow>
     rel_option R (map_of xs m) (map_of ys m)"
  by (induction rule: list_all2_induct) (auto split: prod.splits)

lemma method_reads:
  "rel_option (\<lambda>v p. reads v ps p) (dget (raw_methods limit) m) (dget (read_raw limit ps) m)"
  by (rule list_all2_map_of [OF methods_read])

lemma validation_reads: "reads v ps p \<Longrightarrow> forget (fst (v validation_broker ps ())) = forget p"
proof -
  assume "reads v ps p"
  then have "v validation_broker ps () = (case p of Inl x \<Rightarrow> (Inl x, ()) | Inr call \<Rightarrow> perform validation_broker call ())"
    by (simp add: reads_def)
  moreover have "perform validation_broker call () = (Inr (Some []), ())" for call
    by (cases call) (simp_all add: validation_broker_def ret_def)
  ultimately show ?thesis by (cases p) (simp_all add: forget_def)
qed

lemma raw_not_facade:
  assumes "dget (read_raw limit ps) m = Some p"
  shows "dget (COMMON_METHODS env) m = None \<and> dget (SERVICE_METHODS env) m = None"
proof -
  have "m \<in> set (map fst (read_raw limit ps))"
    using map_of_SomeD [OF assms] by force
  then have "m \<in> {''daemon/status'', ''model/list'', ''session/start'', ''session/resume'', ''session/list'', ''session/show'',
      ''turn/start'', ''turn/status'', ''turn/wait'', ''turn/events'', ''turn/steer'', ''turn/interrupt''}"
    by (simp add: read_raw_def)
  then show ?thesis by (elim insertE emptyE; simp add: COMMON_METHODS_def SERVICE_METHODS_def)
qed

text \<open>
  Validating raw parameters without a server gives what the server's own validation gives:
  a method outside the table is unsupported; otherwise both refuse with the same error and the
  server touches nothing, or both accept and the server makes exactly the one broker call that
  the parameters describe.
\<close>

theorem raw_validation_is_the_servers:
  "case dget (read_raw (re_limit env) ps) m of
     None \<Rightarrow> validate_raw_params (re_limit env) m ps = Inl (ValueError (''unsupported raw method: '' @ m))
   | Some p \<Rightarrow> validate_raw_params (re_limit env) m ps = forget p
       \<and> dispatch env sv m ps s = (case p of Inl x \<Rightarrow> (Inl x, s) | Inr call \<Rightarrow> perform (sv_broker sv) call s)"
proof -
  have sink: "rel_option (\<lambda>v p. reads v ps p) (dget (raw_methods (re_limit env) :: (string \<times> unit raw_method) list) m)
      (dget (read_raw (re_limit env) ps) m)"
    by (rule method_reads)
  have server: "rel_option (\<lambda>v p. reads v ps p) (dget (raw_methods (re_limit env) :: (string \<times> 'a raw_method) list) m)
      (dget (read_raw (re_limit env) ps) m)"
    by (rule method_reads)
  show ?thesis
  proof (cases "dget (read_raw (re_limit env) ps) m")
    case None
    with sink show ?thesis by (simp add: validate_raw_params_def)
  next
    case (Some p)
    with sink server obtain v w where "dget (raw_methods (re_limit env)) m = Some (v :: unit raw_method)" "reads v ps p"
      and "dget (raw_methods (re_limit env)) m = Some (w :: 'a raw_method)" "reads w ps p"
      by (auto simp: option_rel_Some2)
    with Some raw_not_facade [OF Some] show ?thesis
      by (simp add: validate_raw_params_def dispatch_def reads_def [of w] validation_reads)
  qed
qed

section \<open>Requests without an answer, and answers that blame the caller\<close>

text \<open>
  A request nested so deeply that reading its JSON exhausts the recursion limit gets no
  response at all: the exception is not among those the handler answers.
\<close>

theorem deep_request_gets_no_answer:
  assumes "raw \<noteq> []" "\<not> int (length raw) > MAX_REQUEST_BYTES" "re_loads env raw = Inl (RecursionError m)"
  shows "\<exists>s'. handle env sv wr (Inr raw) s = (Inl (RecursionError m), s') \<and> rh_lines s' = rh_lines s \<and> rh_writes s' = rh_writes s"
  using assms
  by (simp add: handle_def respond_def act_defs is_value_or_type_def exn_class_defs request_shutdown_def)

text \<open>
  When an operation succeeds with a value that has no JSON form (an infinite float that Codex
  wrote as 1e999), the caller is told that its parameters were invalid, after the operation
  took its effect.
\<close>

theorem unserialisable_result_blamed_on_caller:
  assumes "raw \<noteq> []" "\<not> int (length raw) > MAX_REQUEST_BYTES" "re_loads env raw = Inr payload"
    and "validate_request payload = Inr (m, ps)" "dispatch env sv m ps (rh_inner s) = (Inr (Some result), i)"
    and "json_dumps (re_float env) (JObj result) = Inl not_compliant" "json_dumps (re_float env) (request_id_of payload) = Inr t"
  shows "\<exists>s' line. handle env sv (\<lambda>_. None) (Inr raw) s = (Inr True, s') \<and> rh_inner s' = i \<and> rh_lines s' = rh_lines s @ [line]
     \<and> encode_response (re_float env) (request_id_of payload) None (Some (invalid_params_fault (exn_str not_compliant))) = Inr line"
proof -
  let ?fault = "invalid_params_fault (exn_str not_compliant)"
  have dict: "fault_dict ?fault = Some (rpc_fault_to_dict (-32602) ''Invalid params'' ''invalid_params'' None
      (Some [(''reason'', JStr (exn_str not_compliant))]))"
    by (simp add: invalid_params_fault_def mk_rpc_fault_details fault_dict_def)
  obtain line where line: "encode_response (re_float env) (request_id_of payload) None (Some ?fault) = Inr line"
    using assms(7) by (simp add: encode_response_def dict rpc_response_simps rpc_fault_to_dict_def error_detail_to_dict_def)
  have "encode_response (re_float env) (request_id_of payload) (Some result) None = Inl not_compliant"
    using assms(6,7) by (auto simp: encode_response_def rpc_response_simps simp del: json_dumps.simps(7) split: sum.splits)
       (auto simp: ebind_def split: sum.splits)
  with assms line show ?thesis
    by (simp add: handle_def respond_def serve_def refuse_def answer_def act_defs inner_def write_line_def
        not_compliant_class request_shutdown_def)
qed

end
