(* ===== verification/RpcSocketProps.thy ===== *)
theory RpcSocketProps
  imports RpcSocket RpcProps
begin

text \<open>
  The server removes only a dead socket of its user, under the start lock, and the socket it
  bound itself; the client sends its request only to an endpoint it has checked before and
  after connecting, and what it returns is the answer of the server's handler.
\<close>

section \<open>Removing the socket\<close>

definition lock_held :: "string \<Rightarrow> sock_event list \<Rightarrow> bool" where
  "lock_held path past \<longleftrightarrow> (\<exists>newer older. past = newer @ Locked path # older \<and> Unlocked path \<notin> set newer)"

definition bound_here :: "string \<Rightarrow> file_meta \<Rightarrow> sock_event list \<Rightarrow> bool" where
  "bound_here path m past \<longleftrightarrow> (\<exists>m' newer older. past = newer @ Looked path (Seen m') # Bound path # older \<and> fm_id m' = fm_id m)"

text \<open>
  What came right before the removal: a look that showed a socket of the user and a refused
  connection, under the start lock; or a look that showed the inode this server bound.
\<close>

definition removal_ok :: "int \<Rightarrow> string \<Rightarrow> sock_event list \<Rightarrow> bool" where
  "removal_ok uid path past \<longleftrightarrow>
     (\<exists>m older. past = Connected path Refused # Looked path (Seen m) # older \<and> fm_kind m = SocketKind \<and> fm_uid m = uid
        \<and> lock_held path older)
   \<or> (\<exists>m older. past = Looked path (Seen m) # older \<and> fm_kind m = SocketKind \<and> bound_here path m past)"

fun removals_ok :: "int \<Rightarrow> sock_event list \<Rightarrow> bool" where
  "removals_ok uid [] = True"
| "removals_ok uid (Unlinked path # past) = (removal_ok uid path past \<and> removals_ok uid past)"
| "removals_ok uid (e # past) = removals_ok uid past"

definition harmless :: "sock_event \<Rightarrow> bool" where
  "harmless e = (case e of Unlinked _ \<Rightarrow> False | Unlocked _ \<Rightarrow> False | _ \<Rightarrow> True)"

definition quiet_log :: "sock_state \<Rightarrow> sock_state \<Rightarrow> bool" where
  "quiet_log s s' \<longleftrightarrow> (\<exists>evs. so_log s' = evs @ so_log s \<and> list_all harmless evs) \<and> so_bound s' = so_bound s"

interpretation quiet: frame_relation quiet_log
proof unfold_locales
  fix s t u
  show "quiet_log s s" by (simp add: quiet_log_def)
  assume "quiet_log s t" "quiet_log t u"
  then obtain a b where "so_log t = a @ so_log s" "so_log u = b @ so_log t" "list_all harmless a" "list_all harmless b"
      "so_bound t = so_bound s" "so_bound u = so_bound t"
    unfolding quiet_log_def by blast
  then show "quiet_log s u" unfolding quiet_log_def by (intro conjI exI [of _ "b @ a"]) simp_all
qed

lemma quiet_removals: "list_all harmless evs \<Longrightarrow> removals_ok uid (evs @ past) = removals_ok uid past"
proof (induction evs)
  case (Cons e evs)
  then show ?case by (cases e) (simp_all add: harmless_def)
qed simp

lemma quiet_lock: "list_all harmless evs \<Longrightarrow> lock_held path past \<Longrightarrow> lock_held path (evs @ past)"
proof -
  assume evs: "list_all harmless evs" and "lock_held path past"
  then obtain newer older where "past = newer @ Locked path # older" "Unlocked path \<notin> set newer"
    unfolding lock_held_def by blast
  moreover have "Unlocked path \<notin> set evs" using evs by (auto simp: list_all_iff harmless_def)
  ultimately show ?thesis unfolding lock_held_def by (intro exI [of _ "evs @ newer"] exI [of _ older]) auto
qed

lemma quiet_bound: "bound_here path m past \<Longrightarrow> bound_here path m (evs @ past)"
  unfolding bound_here_def by (metis append.assoc)

lemma quiet_steps:
  "keeps quiet_log (modify open_socket_fd)" "keeps quiet_log (modify close_fd)"
  "keeps quiet_log (modify (\<lambda>s. s\<lparr>so_locked := b\<rparr>))"
  "keeps quiet_log (sys f)" "harmless e \<Longrightarrow> keeps quiet_log (note_event e)"
  by (auto simp: keeps_def act_defs sys_def note_event_def quiet_log_def open_socket_fd_def close_fd_def intro: exI [of _ "[]"] exI [of _ "[e]"])

lemma quiet_sys_ok: "keeps quiet_log (sys_ok f)"
  unfolding sys_ok_def by (intro quiet.rules quiet_steps)

lemma quiet_look: "keeps quiet_log (look_at h p)"
  unfolding look_at_def by (intro quiet.rules quiet_steps) (simp_all add: harmless_def)

lemma quiet_lstat: "keeps quiet_log (lstat h p)"
  unfolding lstat_def by (intro quiet.rules quiet_look) (simp split: look.split add: quiet.rules)

lemma quiet_parent: "keeps quiet_log (unsafe_socket_parent_reason h p)"
  unfolding unsafe_socket_parent_reason_def Let_def by (intro quiet.rules quiet_look)

lemma quiet_fstat: "keeps quiet_log (fstat h)"
  unfolding fstat_def by (intro quiet.rules quiet_steps)

lemma quiet_attempts: "keeps quiet_log (lock_attempts h p d n)"
proof (induction n)
  case (Suc n)
  have "keeps quiet_log (case r of LockTaken \<Rightarrow> ret (Some ()) | LockHeld \<Rightarrow> andthen (sys (rp_monotonic h)) (\<lambda>now.
         if d \<le> now then raise (SocketInUse (''socket startup lock is held: '' @ p)) else lock_attempts h p d n)
       | LockFailed \<Rightarrow> raise (OSError ''flock''))" for r
    by (cases r) (simp_all add: quiet.rules quiet_steps Suc)
  then show ?case unfolding lock_attempts.simps by (intro quiet.rules quiet_steps)
qed (simp add: quiet.rules)

lemma quiet_acquire: "keeps quiet_log (acquire_start_lock h n p)"
  unfolding acquire_start_lock_def harden_lock_def Let_def
  by (intro quiet.rules quiet_steps quiet_lstat quiet_sys_ok quiet_fstat quiet_attempts) (simp_all add: harmless_def)

text \<open>What holds of a server's state at every moment.\<close>

definition removals_justified :: "int \<Rightarrow> string \<Rightarrow> sock_state \<Rightarrow> bool" where
  "removals_justified uid path s \<longleftrightarrow> removals_ok uid (so_log s)
     \<and> (case so_bound s of None \<Rightarrow> True | Some b \<Rightarrow> bound_here path b (so_log s))"

lemma quiet_justified: "quiet_log s s' \<Longrightarrow> removals_justified uid path s \<Longrightarrow> removals_justified uid path s'"
  by (auto simp: quiet_log_def removals_justified_def quiet_removals quiet_bound split: option.splits)

lemma quiet_lock_held: "quiet_log s s' \<Longrightarrow> lock_held path (so_log s) \<Longrightarrow> lock_held path (so_log s')"
  by (auto simp: quiet_log_def quiet_lock)

lemma hoare_quiet:
  "keeps quiet_log m \<Longrightarrow> hoare (removals_justified uid path) m (\<lambda>_. removals_justified uid path) (\<lambda>_. removals_justified uid path)"
  by (rule hoareI) (blast dest: keepsD quiet_justified)+

lemma hoare_quiet_locked:
  "keeps quiet_log m \<Longrightarrow> hoare (\<lambda>s. removals_justified uid path s \<and> lock_held path (so_log s)) m
     (\<lambda>_ s. removals_justified uid path s \<and> lock_held path (so_log s)) (\<lambda>_ s. removals_justified uid path s)"
  by (rule hoareI) (blast dest: keepsD quiet_justified quiet_lock_held)+

lemma hoare_skip:
  "(\<And>x. hoare (\<lambda>_. True) (f x) Q (\<lambda>_ _. True)) \<Longrightarrow> hoare (\<lambda>_. True) (andthen m f) Q (\<lambda>_ _. True)"
  by (rule hoare_andthen [where R = "\<lambda>_ _. True"]) (simp_all add: hoare_def split: sum.splits prod.splits)

lemma acquire_locks: "hoare (\<lambda>_. True) (acquire_start_lock h n path) (\<lambda>r s. r = Some () \<longrightarrow> lock_held path (so_log s)) (\<lambda>_ _. True)"
proof -
  have "lock_held path (Locked path # past)" for past
    unfolding lock_held_def by (metis append_Nil empty_iff empty_set)
  then have last: "hoare (\<lambda>_. True) (case r of None \<Rightarrow> ret None | Some (_ :: unit) \<Rightarrow> andthen (modify (\<lambda>s. s\<lparr>so_locked := True\<rparr>)) (\<lambda>_.
      andthen (note_event (Locked path)) (\<lambda>_. ret (Some ())))) (\<lambda>r s. r = Some () \<longrightarrow> lock_held path (so_log s)) (\<lambda>_ _. True)" for r
    by (cases r) (simp_all add: hoare_def act_defs note_event_def)
  show ?thesis unfolding acquire_start_lock_def Let_def by (intro hoare_skip last)
qed

lemmas acquire_holds = hoareD(1) [OF acquire_locks TrueI, THEN mp]

lemma justified_acquire:
  "hoare (removals_justified uid path) (acquire_start_lock h n path)
     (\<lambda>r s. removals_justified uid path s \<and> (r = Some () \<longrightarrow> lock_held path (so_log s))) (\<lambda>_. removals_justified uid path)"
proof (rule hoareI)
  fix s r s'
  assume start: "removals_justified uid path s" and run: "acquire_start_lock h n path s = (Inr r, s')"
  from quiet_justified [OF keepsD [OF quiet_acquire run] start] acquire_holds [of h n path s]
  show "removals_justified uid path s' \<and> (r = Some () \<longrightarrow> lock_held path (so_log s'))" using run by blast
next
  fix s x s'
  assume start: "removals_justified uid path s" and run: "acquire_start_lock h n path s = (Inl x, s')"
  show "removals_justified uid path s'" by (rule quiet_justified [OF keepsD [OF quiet_acquire run] start])
qed

lemma justified_remove:
  assumes "removals_justified uid path s" "removal_ok uid path (so_log s)"
  shows "removals_justified uid path (s\<lparr>so_log := Unlinked path # so_log s\<rparr>)"
proof (cases "so_bound s")
  case (Some b)
  with assms have "bound_here path b (so_log s)" by (simp add: removals_justified_def)
  then have "bound_here path b (Unlinked path # so_log s)" using quiet_bound [of path b "so_log s" "[Unlinked path]"] by simp
  with Some assms show ?thesis by (simp add: removals_justified_def)
qed (use assms in \<open>simp add: removals_justified_def\<close>)

lemma justified_unlink:
  assumes "\<And>s. P s \<Longrightarrow> removals_justified uid path s \<and> removal_ok uid path (so_log s)"
  shows "hoare P (unlink h path) (\<lambda>_. removals_justified uid path) (\<lambda>_. removals_justified uid path)"
  unfolding unlink_def note_event_def
  by (rule hoare_andthen [OF _ hoare_quiet [OF quiet_sys_ok]], rule hoare_basic(4)) (use assms justified_remove in blast)

text \<open>What a look leaves in the log; \<open>G\<close> is a fact about the log before it.\<close>

definition looked :: "int \<Rightarrow> string \<Rightarrow> (sock_event list \<Rightarrow> bool) \<Rightarrow> file_meta \<Rightarrow> sock_state \<Rightarrow> bool" where
  "looked uid path G m s \<longleftrightarrow> removals_justified uid path s \<and> (\<exists>older. so_log s = Looked path (Seen m) # older \<and> G older)"

lemma lstat_looks:
  "hoare (\<lambda>s. removals_justified uid path s \<and> G (so_log s)) (lstat h path)
     (\<lambda>r s. removals_justified uid path s \<and> (case r of None \<Rightarrow> True | Some m \<Rightarrow> looked uid path G m s))
     (\<lambda>_. removals_justified uid path)"
proof (rule hoareI)
  fix s r s'
  assume start: "removals_justified uid path s \<and> G (so_log s)" and run: "lstat h path s = (Inr r, s')"
  have "removals_justified uid path s'" by (rule quiet_justified [OF keepsD [OF quiet_lstat run]]) (use start in simp)
  with run start show "removals_justified uid path s' \<and> (case r of None \<Rightarrow> True | Some m \<Rightarrow> looked uid path G m s')"
    by (auto simp: lstat_def look_at_def act_defs sys_def note_event_def looked_def split: look.splits)
next
  fix s x s'
  assume start: "removals_justified uid path s \<and> G (so_log s)" and run: "lstat h path s = (Inl x, s')"
  show "removals_justified uid path s'" by (rule quiet_justified [OF keepsD [OF quiet_lstat run]]) (use start in simp)
qed

lemma keeps_always: "keeps R m \<Longrightarrow> (\<And>s s'. R s s' \<Longrightarrow> R s (f s')) \<Longrightarrow> keeps R (always m f)"
  by (auto simp: keeps_def always_def split: prod.splits) (metis snd_conv)

lemma quiet_always: "keeps quiet_log m \<Longrightarrow> keeps quiet_log (always m close_fd)"
  by (rule keeps_always) (simp_all add: quiet_log_def close_fd_def)

lemma quiet_probe: "keeps quiet_log (socket_accepts_connections h path)"
proof -
  have inside: "keeps quiet_log (andthen (connect_to h path) (\<lambda>c. case c of
          Refused \<Rightarrow> ret False
        | ConnectFailed \<Rightarrow> raise (SocketInUse (''socket path could not be probed safely: '' @ path))
        | Accepted \<Rightarrow> andthen (sys_ok (rp_send h)) (\<lambda>_. andthen (sys (rp_recv h)) (\<lambda>_. ret True))))"
  proof -
    have "keeps quiet_log (case c of
          Refused \<Rightarrow> ret False
        | ConnectFailed \<Rightarrow> raise (SocketInUse (''socket path could not be probed safely: '' @ path))
        | Accepted \<Rightarrow> andthen (sys_ok (rp_send h)) (\<lambda>_. andthen (sys (rp_recv h)) (\<lambda>_. ret True)))" for c
      by (cases c) (simp_all add: quiet.rules quiet_sys_ok quiet_steps)
    then show ?thesis unfolding connect_to_def by (intro quiet.rules quiet_steps) (simp_all add: harmless_def)
  qed
  show ?thesis
    unfolding socket_accepts_connections_def by (rule quiet.sequence [OF quiet_steps(1) quiet_always [OF inside]])
qed

lemma dead_probe:
  "socket_accepts_connections h path s = (Inr False, s') \<Longrightarrow> so_log s' = Connected path Refused # so_log s"
  by (auto simp: socket_accepts_connections_def connect_to_def sys_ok_def act_defs sys_def note_event_def close_fd_def
      open_socket_fd_def split: connection.splits sum.splits if_splits)

lemma justified_prepare:
  "hoare (\<lambda>s. removals_justified (rp_uid h) path s \<and> lock_held path (so_log s)) (prepare_socket_path h path)
     (\<lambda>_. removals_justified (rp_uid h) path) (\<lambda>_. removals_justified (rp_uid h) path)"
  unfolding prepare_socket_path_def
proof (rule hoare_andthen [OF lstat_looks])
  fix found
  let ?I = "removals_justified (rp_uid h) path"
  show "hoare (\<lambda>s. ?I s \<and> (case found of None \<Rightarrow> True | Some m \<Rightarrow> looked (rp_uid h) path (lock_held path) m s))
      (case found of None \<Rightarrow> ret () | Some m \<Rightarrow>
         andthen (guard (fm_kind m = SocketKind) (SocketPathUnsafe (''socket path exists and is not a socket: '' @ path))) (\<lambda>_.
         andthen (guard (fm_uid m = rp_uid h) (SocketPathUnsafe (''socket path is not owned by this user: '' @ path))) (\<lambda>_.
         andthen (socket_accepts_connections h path) (\<lambda>live.
         andthen (guard (\<not> live) (SocketInUse (''socket path is already served: '' @ path))) (\<lambda>_. unlink h path)))))
      (\<lambda>_. ?I) (\<lambda>_. ?I)"
  proof (cases found)
    case (Some m)
    let ?L = "\<lambda>s. ?I s \<and> looked (rp_uid h) path (lock_held path) m s"
    have probe: "hoare (\<lambda>s. ?L s \<and> fm_kind m = SocketKind \<and> fm_uid m = rp_uid h) (socket_accepts_connections h path)
        (\<lambda>live s. ?I s \<and> (\<not> live \<longrightarrow> removal_ok (rp_uid h) path (so_log s))) (\<lambda>_. ?I)"
    proof (rule hoareI)
      fix s live s'
      assume pre: "?L s \<and> fm_kind m = SocketKind \<and> fm_uid m = rp_uid h" and run: "socket_accepts_connections h path s = (Inr live, s')"
      have "?I s'" by (rule quiet_justified [OF keepsD [OF quiet_probe run]]) (use pre in simp)
      moreover have "removal_ok (rp_uid h) path (so_log s')" if "\<not> live"
        using dead_probe [of h path s s'] pre run that unfolding removal_ok_def looked_def by auto
      ultimately show "?I s' \<and> (\<not> live \<longrightarrow> removal_ok (rp_uid h) path (so_log s'))" by blast
    next
      fix s x s'
      assume pre: "?L s \<and> fm_kind m = SocketKind \<and> fm_uid m = rp_uid h" and run: "socket_accepts_connections h path s = (Inl x, s')"
      show "?I s'" by (rule quiet_justified [OF keepsD [OF quiet_probe run]]) (use pre in simp)
    qed
    have rest: "hoare (\<lambda>s. ?L s \<and> fm_kind m = SocketKind \<and> fm_uid m = rp_uid h)
       (andthen (socket_accepts_connections h path) (\<lambda>live.
         andthen (guard (\<not> live) (SocketInUse (''socket path is already served: '' @ path))) (\<lambda>_. unlink h path)))
       (\<lambda>_. ?I) (\<lambda>_. ?I)"
      by (rule hoare_andthen [OF probe], rule hoare_andthen [where R = "\<lambda>_ s. ?I s \<and> removal_ok (rp_uid h) path (so_log s)"],
          rule hoare_basic(5), simp, simp, rule justified_unlink) simp
    show ?thesis
      unfolding Some option.case
      by (rule hoare_andthen [where R = "\<lambda>_ s. ?L s \<and> fm_kind m = SocketKind"], rule hoare_basic(5), simp, simp,
          rule hoare_andthen [OF _ rest], rule hoare_basic(5)) simp_all
  qed (simp add: hoare_def ret_def)
qed

lemma justified_close:
  "hoare (removals_justified uid path) (server_close h path) (\<lambda>_. removals_justified uid path) (\<lambda>_. removals_justified uid path)"
proof -
  let ?I = "removals_justified uid path"
  have owned: "hoare (\<lambda>s. ?I s \<and> looked uid path (\<lambda>_. True) m s)
     (if fm_kind m \<noteq> SocketKind then ret ()
      else andthen (observe so_bound) (\<lambda>bound. case bound of
         None \<Rightarrow> ret ()
       | Some b \<Rightarrow> if fm_id m \<noteq> fm_id b then ret ()
           else attempt (unlink h path) (\<lambda>x. if is_os_error x then ret () else raise x)))
     (\<lambda>_. ?I) (\<lambda>_. ?I)" (is "hoare ?P (if _ then _ else andthen _ ?rest) _ _") for m
  proof (cases "fm_kind m = SocketKind")
    case True
    let ?Q = "\<lambda>bound s. ?P s \<and> bound = so_bound s"
    have "hoare (?Q bound) (?rest bound) (\<lambda>_. ?I) (\<lambda>_. ?I)" for bound
    proof (cases "\<exists>b. bound = Some b \<and> fm_id m = fm_id b")
      case True
      then obtain b where b: "bound = Some b" "fm_id m = fm_id b" by blast
      have remove: "?I s \<and> removal_ok uid path (so_log s)" if pre: "?Q bound s" for s
      proof -
        from pre b have "bound_here path b (so_log s)" by (simp add: removals_justified_def split: option.splits)
        then have "bound_here path m (so_log s)" using b(2) by (simp add: bound_here_def)
        then show ?thesis using pre \<open>fm_kind m = SocketKind\<close> unfolding looked_def removal_ok_def by blast
      qed
      have "hoare (?Q bound) (attempt (unlink h path) (\<lambda>x. if is_os_error x then ret () else raise x)) (\<lambda>_. ?I) (\<lambda>_. ?I)"
        by (rule hoare_attempt [OF justified_unlink [OF remove]]) (auto simp: hoare_def act_defs)
      then show ?thesis by (simp add: b)
    qed (cases bound; auto simp: hoare_def ret_def)
    then have "hoare ?P (andthen (observe so_bound) ?rest) (\<lambda>_. ?I) (\<lambda>_. ?I)"
      by (intro hoare_andthen [where R = ?Q]) (auto simp: hoare_def observe_def)
    then show ?thesis by (simp add: True)
  qed (simp add: hoare_def ret_def)
  have "hoare ?I (unlink_owned_socket h path) (\<lambda>_. ?I) (\<lambda>_. ?I)"
    unfolding unlink_owned_socket_def
  proof (rule hoare_andthen [OF lstat_looks [where G = "\<lambda>_. True", simplified]])
    fix found
    show "hoare (\<lambda>s. ?I s \<and> (case found of None \<Rightarrow> True | Some m \<Rightarrow> looked uid path (\<lambda>_. True) m s))
       (case found of None \<Rightarrow> ret () | Some m \<Rightarrow> if fm_kind m \<noteq> SocketKind then ret ()
         else andthen (observe so_bound) (\<lambda>bound. case bound of
            None \<Rightarrow> ret ()
          | Some b \<Rightarrow> if fm_id m \<noteq> fm_id b then ret ()
              else attempt (unlink h path) (\<lambda>x. if is_os_error x then ret () else raise x)))
       (\<lambda>_. ?I) (\<lambda>_. ?I)"
      by (cases found) (simp_all only: option.case owned, simp add: hoare_def ret_def)
  qed
  then show ?thesis
    unfolding server_close_def
    by (intro hoare_andthen [OF hoare_quiet [OF quiet_steps(2)]] hoare_andthen [OF hoare_quiet [OF quiet_steps(5)]])
      (simp_all add: harmless_def)
qed

lemma lstat_bound:
  "hoare (\<lambda>s. removals_justified uid path s \<and> G (so_log s)) (bound_lstat h path) (\<lambda>m s. looked uid path G m s)
     (\<lambda>_. removals_justified uid path)"
  unfolding bound_lstat_def
proof (rule hoare_andthen [OF lstat_looks])
  fix om
  show "hoare (\<lambda>s. removals_justified uid path s \<and> (case om of None \<Rightarrow> True | Some m \<Rightarrow> looked uid path G m s))
     (case om of None \<Rightarrow> raise (FileNotFoundError path) | Some m \<Rightarrow> ret m) (\<lambda>m s. looked uid path G m s)
     (\<lambda>_. removals_justified uid path)"
    by (cases om) (simp_all add: hoare_def act_defs)
qed

lemma hoare_quiet_bound:
  "keeps quiet_log a \<Longrightarrow> hoare (\<lambda>s. removals_justified uid path s \<and> bound_here path m (so_log s)) a
     (\<lambda>_ s. removals_justified uid path s \<and> bound_here path m (so_log s)) (\<lambda>_. removals_justified uid path)"
proof (rule hoareI)
  fix s r s'
  assume "keeps quiet_log a" "removals_justified uid path s \<and> bound_here path m (so_log s)" "a s = (Inr r, s')"
  then show "removals_justified uid path s' \<and> bound_here path m (so_log s')"
    by (metis keepsD quiet_bound quiet_justified quiet_log_def)
next
  fix s x s'
  assume "keeps quiet_log a" "removals_justified uid path s \<and> bound_here path m (so_log s)" "a s = (Inl x, s')"
  then show "removals_justified uid path s'" by (metis keepsD quiet_justified)
qed

lemma justified_bind:
  "hoare (removals_justified uid path) (bind_hardened h path) (\<lambda>_. removals_justified uid path) (\<lambda>_. removals_justified uid path)"
proof -
  let ?I = "removals_justified uid path"
  let ?B = "\<lambda>past. \<exists>older. past = Bound path # older"
  let ?J = "\<lambda>m s. ?I s \<and> bound_here path m (so_log s)"
  have logged: "hoare ?I (note_event (Bound path)) (\<lambda>_ s. ?I s \<and> ?B (so_log s)) (\<lambda>_. ?I)"
  proof (rule hoareI)
    fix s r s'
    assume start: "?I s" and run: "note_event (Bound path) s = (Inr r, s')"
    have "?I s'" by (rule quiet_justified [OF keepsD [OF quiet_steps(5) run] start]) (simp add: harmless_def)
    with run show "?I s' \<and> ?B (so_log s')" by (auto simp: note_event_def modify_def)
  qed (simp add: note_event_def modify_def)
  have first: "hoare (\<lambda>s. looked uid path ?B m s) (modify (\<lambda>s. s\<lparr>so_bound := Some m\<rparr>)) (\<lambda>_. ?J m) (\<lambda>_. ?I)" for m
  proof (rule hoare_basic(4))
    fix s
    assume "looked uid path ?B m s"
    then obtain older where log: "so_log s = Looked path (Seen m) # Bound path # older" "?I s" unfolding looked_def by blast
    then have "bound_here path m (so_log s)" unfolding bound_here_def by (metis append_Nil)
    with log show "?J m (s\<lparr>so_bound := Some m\<rparr>)" by (simp add: removals_justified_def)
  qed
  have second: "hoare (\<lambda>s. looked uid path (bound_here path m) m' s \<and> fm_id m' = fm_id m)
      (modify (\<lambda>s. s\<lparr>so_bound := Some m'\<rparr>)) (\<lambda>_. ?I) (\<lambda>_. ?I)" for m m'
  proof (rule hoare_basic(4))
    fix s
    assume pre: "looked uid path (bound_here path m) m' s \<and> fm_id m' = fm_id m"
    then have "bound_here path m (so_log s)" unfolding looked_def using quiet_bound [of path m _ "[Looked path (Seen m')]"] by auto
    with pre show "?I (s\<lparr>so_bound := Some m'\<rparr>)" by (simp add: removals_justified_def looked_def bound_here_def)
  qed
  have finish: "hoare ?I (andthen (sys_ok (rp_listen h)) (\<lambda>_. note_event (Listening path))) (\<lambda>_. ?I) (\<lambda>_. ?I)"
    by (intro hoare_quiet quiet.sequence quiet_sys_ok quiet_steps) (simp add: harmless_def)
  have harden: "hoare (?J m) (andthen (bound_lstat h path) (\<lambda>m'.
     andthen (guard (fm_id m' = fm_id m \<and> fm_kind m' = SocketKind \<and> fm_uid m' = rp_uid h \<and> fm_mode m' = 0x180)
         (SocketPathUnsafe ''bound socket permissions could not be hardened'')) (\<lambda>_.
     andthen (modify (\<lambda>s. s\<lparr>so_bound := Some m'\<rparr>)) (\<lambda>_.
     andthen (sys_ok (rp_listen h)) (\<lambda>_. note_event (Listening path)))))) (\<lambda>_. ?I) (\<lambda>_. ?I)" for m
  proof (rule hoare_andthen [OF lstat_bound])
    fix m'
    show "hoare (\<lambda>s. looked uid path (bound_here path m) m' s)
      (andthen (guard (fm_id m' = fm_id m \<and> fm_kind m' = SocketKind \<and> fm_uid m' = rp_uid h \<and> fm_mode m' = 0x180)
         (SocketPathUnsafe ''bound socket permissions could not be hardened'')) (\<lambda>_.
       andthen (modify (\<lambda>s. s\<lparr>so_bound := Some m'\<rparr>)) (\<lambda>_.
       andthen (sys_ok (rp_listen h)) (\<lambda>_. note_event (Listening path))))) (\<lambda>_. ?I) (\<lambda>_. ?I)"
      by (rule hoare_andthen [OF _ hoare_andthen [OF second finish]], rule hoare_basic(5)) (auto simp: looked_def)
  qed
  have checked: "hoare (?J m) (andthen (guard ok (SocketPathUnsafe ''bound socket inode is unsafe'')) (\<lambda>_.
     andthen (sys_ok (rp_chmod h)) (\<lambda>_. andthen (note_event (Chmodded path)) (\<lambda>_. f m)))) (\<lambda>_. ?I) (\<lambda>_. ?I)"
    if "\<And>m. hoare (?J m) (f m) (\<lambda>_. ?I) (\<lambda>_. ?I)" for m ok and f :: "file_meta \<Rightarrow> unit sock_act"
  proof -
    have "hoare (?J m) (andthen (sys_ok (rp_chmod h)) (\<lambda>_. andthen (note_event (Chmodded path)) (\<lambda>_. f m))) (\<lambda>_. ?I) (\<lambda>_. ?I)"
      by (rule hoare_andthen [OF hoare_quiet_bound [OF quiet_sys_ok] hoare_andthen [OF hoare_quiet_bound [OF quiet_steps(5)] that]])
        (simp add: harmless_def)
    then show ?thesis by (rule hoare_andthen [rotated]) (rule hoare_basic(5), simp_all)
  qed
  show ?thesis
    unfolding bind_hardened_def
    by (rule hoare_andthen [OF hoare_quiet [OF quiet_sys_ok]], rule hoare_andthen [OF logged],
        rule hoare_andthen [OF lstat_bound], rule hoare_andthen [OF first], rule checked [OF harden])
qed

lemma justified_open:
  "hoare (removals_justified (rp_uid h) path) (open_server h n path)
     (\<lambda>_. removals_justified (rp_uid h) path) (\<lambda>_. removals_justified (rp_uid h) path)"
proof -
  let ?I = "removals_justified (rp_uid h) path"
  have bound: "hoare ?I (attempt (bind_hardened h path) (\<lambda>x. andthen (server_close h path) (\<lambda>_. raise x))) (\<lambda>_. ?I) (\<lambda>_. ?I)"
    by (rule hoare_attempt [OF justified_bind], rule hoare_andthen [OF justified_close]) (simp add: hoare_def raise_def)
  have ready: "hoare (\<lambda>s. ?I s \<and> lock_held path (so_log s)) (andthen (prepare_socket_path h path) (\<lambda>_.
     andthen (modify open_socket_fd) (\<lambda>_.
     andthen (attempt (bind_hardened h path) (\<lambda>x. andthen (server_close h path) (\<lambda>_. raise x))) (\<lambda>_. ret (Some ())))))
     (\<lambda>_. ?I) (\<lambda>_. ?I)"
    by (rule hoare_andthen [OF justified_prepare], rule hoare_andthen [OF hoare_quiet [OF quiet_steps(1)]],
        rule hoare_andthen [OF bound]) (simp add: hoare_def ret_def)
  show ?thesis
    unfolding open_server_def
  proof (rule hoare_andthen [OF justified_acquire])
    fix r :: "unit option"
    show "hoare (\<lambda>s. ?I s \<and> (r = Some () \<longrightarrow> lock_held path (so_log s)))
      (case r of None \<Rightarrow> ret None | Some _ \<Rightarrow> andthen (prepare_socket_path h path) (\<lambda>_.
         andthen (modify open_socket_fd) (\<lambda>_.
         andthen (attempt (bind_hardened h path) (\<lambda>x. andthen (server_close h path) (\<lambda>_. raise x))) (\<lambda>_. ret (Some ())))))
      (\<lambda>_. ?I) (\<lambda>_. ?I)"
      using ready by (cases r) (simp_all add: hoare_def ret_def)
  qed
qed

lemma justified_release: "removals_justified uid path s \<Longrightarrow> removals_justified uid path (snd (release_start_lock path s))"
proof -
  have "bound_here path b past \<Longrightarrow> bound_here path b (Unlocked path # past)" for b past
    using quiet_bound [of path b past "[Unlocked path]"] by simp
  then show "removals_justified uid path s \<Longrightarrow> removals_justified uid path (snd (release_start_lock path s))"
    by (auto simp: removals_justified_def release_start_lock_def close_fd_def split: option.splits)
qed

lemma justified_start:
  "hoare (\<lambda>s. removals_ok (rp_uid h) (so_log s)) (start_server h n path)
     (\<lambda>_. removals_justified (rp_uid h) path) (\<lambda>_ s. removals_ok (rp_uid h) (so_log s))"
proof -
  let ?I = "removals_justified (rp_uid h) path"
  let ?E = "\<lambda>s. removals_ok (rp_uid h) (so_log s)"
  have weak: "?I s \<Longrightarrow> ?E s" for s by (simp add: removals_justified_def)
  have inside: "hoare ?I (always (open_server h n path) (\<lambda>s. snd (release_start_lock path s))) (\<lambda>_. ?I) (\<lambda>_. ?E)"
    by (rule hoare_always, rule hoare_weaken [OF justified_open]) (auto intro: justified_release weak)
  have reason: "hoare ?I (case reason of Some why \<Rightarrow> raise (SocketPathUnsafe why)
      | None \<Rightarrow> always (open_server h n path) (\<lambda>s. snd (release_start_lock path s))) (\<lambda>_. ?I) (\<lambda>_. ?E)" for reason
    using inside weak by (cases reason) (simp_all add: hoare_def raise_def)
  have dirs: "hoare ?I (if dirname path = [] then ret () else sys_ok (rp_makedirs h)) (\<lambda>_. ?I) (\<lambda>_. ?E)"
    by (rule hoare_weaken [OF hoare_quiet [where uid = "rp_uid h" and path = path]])
      (simp_all add: quiet.rules quiet_sys_ok weak)
  have parent: "hoare ?I (unsafe_socket_parent_reason h path) (\<lambda>_. ?I) (\<lambda>_. ?E)"
    by (rule hoare_weaken [OF hoare_quiet [OF quiet_parent, where uid = "rp_uid h" and path = path]]) (simp_all add: weak)
  show ?thesis
    unfolding start_server_def
    by (rule hoare_andthen [where R = "\<lambda>_. ?E"], rule hoare_basic(5), simp, simp,
        rule hoare_andthen [where R = "\<lambda>_. ?I"], rule hoare_basic(4), simp add: removals_justified_def,
        rule hoare_andthen [OF dirs], rule hoare_andthen [OF parent], rule reason)
qed

text \<open>
  C30. A server removes the socket path only when the look before showed a socket of its user
  and the connection to it was refused, while it held the start lock, or when the look showed
  the very inode it bound; whatever the file system does between the calls, and however
  starting and closing end.
\<close>

theorem only_dead_or_own_sockets_removed:
  assumes "start_server h n path s = (r, s1)" "server_close h path s1 = (q, s2)" "removals_ok (rp_uid h) (so_log s)"
  shows "removals_ok (rp_uid h) (so_log s1) \<and> (is_ok r \<longrightarrow> removals_ok (rp_uid h) (so_log s2))"
proof (cases r)
  case (Inl x)
  with assms hoareD(2) [OF justified_start] show ?thesis by fastforce
next
  case (Inr u)
  then have i: "removals_justified (rp_uid h) path s1" using assms hoareD(1) [OF justified_start] by blast
  then have "removals_justified (rp_uid h) path s2"
    using hoareD [OF justified_close] assms(2) by (cases q) blast+
  with i show ?thesis by (simp add: removals_justified_def)
qed

section \<open>The client's endpoint\<close>

definition parent_dir :: "string \<Rightarrow> string" where
  "parent_dir path = (if dirname path = [] then ''.'' else dirname path)"

definition trusted_parent :: "look \<Rightarrow> bool" where
  "trusted_parent l = (case l of Seen m \<Rightarrow> fm_kind m = DirectoryKind \<and> \<not> (others_write m \<and> \<not> sticky m) | _ \<Rightarrow> False)"

lemma endpoint_validated:
  assumes "validate_socket_endpoint h path expected s = (Inr m, s')"
  obtains p where "so_log s' = Looked (parent_dir path) p # Looked path (Seen m) # so_log s" "so_open s' = so_open s"
    "so_clock s' = so_clock s + 2" "check_endpoint h path expected m = Inr ()" "trusted_parent p"
  using assms
  by (fastforce simp: validate_socket_endpoint_def unsafe_socket_parent_reason_def look_at_def sys_def note_event_def act_defs
      Let_def parent_dir_def trusted_parent_def split: look.splits option.splits sum.splits if_splits)

text \<open>Steps that send nothing.\<close>

definition unsent :: "sock_state \<Rightarrow> sock_state \<Rightarrow> bool" where
  "unsent s s' \<longleftrightarrow> so_open s' = so_open s \<and> (\<exists>evs. so_log s' = evs @ so_log s \<and> (\<forall>e. Sent e \<notin> set evs))"

interpretation unsent: frame_relation unsent
proof unfold_locales
  fix s t u
  show "unsent s s" by (simp add: unsent_def)
  assume "unsent s t" "unsent t u"
  then obtain a b where "so_log t = a @ so_log s" "so_log u = b @ so_log t" "\<forall>e. Sent e \<notin> set a" "\<forall>e. Sent e \<notin> set b"
      "so_open t = so_open s" "so_open u = so_open t"
    unfolding unsent_def by blast
  then show "unsent s u" unfolding unsent_def by (intro conjI exI [of _ "b @ a"]) simp_all
qed

lemma unsent_steps: "keeps unsent (sys f)" "(\<And>x. e \<noteq> Sent x) \<Longrightarrow> keeps unsent (note_event e)"
  by (auto simp: keeps_def sys_def note_event_def modify_def unsent_def intro: exI [of _ "[e]"])

lemma unsent_endpoint: "keeps unsent (validate_socket_endpoint h path expected)"
proof -
  have look: "keeps unsent (look_at h p)" for p
    unfolding look_at_def by (intro unsent.rules unsent_steps) simp
  have parent: "keeps unsent (unsafe_socket_parent_reason h path)"
    unfolding unsafe_socket_parent_reason_def Let_def by (intro unsent.rules look)
  have "keeps unsent (case l of
       Missing \<Rightarrow> raise (daemon_unavailable_fault path)
     | LookFailed _ \<Rightarrow> raise (socket_endpoint_unsafe_fault path ''could not inspect socket path'')
     | Seen m \<Rightarrow> andthen (lift (check_endpoint h path expected m)) (\<lambda>_.
         andthen (unsafe_socket_parent_reason h path) (\<lambda>reason. case reason of
           Some why \<Rightarrow> raise (socket_endpoint_unsafe_fault path why) | None \<Rightarrow> ret m)))" for l
  proof (cases l)
    case (Seen m)
    then show ?thesis by (simp, intro unsent.rules parent)
  qed (simp_all add: unsent.rules)
  then show ?thesis unfolding validate_socket_endpoint_def by (intro unsent.rules look)
qed

definition tick :: "sock_state \<Rightarrow> sock_state" where
  "tick s = s\<lparr>so_clock := Suc (so_clock s)\<rparr>"

lemma recv_all_step:
  "recv_all h got s = (if got \<noteq> [] \<and> last got = newline then (Inr got, s)
     else (case rp_recv h (so_clock s) of
        RecvFailed \<Rightarrow> (Inl (OSError ''recv''), tick s)
      | Chunk c \<Rightarrow> if c = [] then (Inr got, tick s)
          else if int (length (got @ c)) > MAX_RESPONSE_BYTES then (Inl (protocol_fault ''Daemon response is too large''), tick s)
          else recv_all h (got @ c) (tick s)))"
  by (subst recv_all.simps) (auto simp: sys_def tick_def split: received.splits)

lemma recv_unsent: "recv_all h got s = (r, s') \<Longrightarrow> unsent s s'"
proof (induction "nat (MAX_RESPONSE_BYTES + 1 - int (length got))" arbitrary: got s rule: less_induct)
  case less
  have step: "unsent s (tick s)" by (simp add: unsent_def tick_def)
  show ?case
  proof (cases "\<exists>c. rp_recv h (so_clock s) = Chunk c \<and> c \<noteq> [] \<and> \<not> int (length (got @ c)) > MAX_RESPONSE_BYTES
      \<and> \<not> (got \<noteq> [] \<and> last got = newline)")
    case True
    then obtain c where c: "rp_recv h (so_clock s) = Chunk c" "c \<noteq> []" "\<not> int (length (got @ c)) > MAX_RESPONSE_BYTES"
        "\<not> (got \<noteq> [] \<and> last got = newline)" by blast
    have run: "recv_all h (got @ c) (tick s) = (r, s')"
      using less(2) c by (subst (asm) recv_all_step) (simp split: if_splits)
    have "unsent (tick s) s'" by (rule less(1) [OF _ run]) (use c in auto)
    with step show ?thesis by (rule unsent.frame_trans)
  next
    case False
    with less(2) step unsent.frame_refl show ?thesis
      by (subst (asm) recv_all_step) (auto split: received.splits if_splits)
  qed
qed

text \<open>The request went out: right after the endpoint was looked at, and nothing else was sent.\<close>

definition sent_after :: "rpc_host \<Rightarrow> rpc_env \<Rightarrow> string \<Rightarrow> file_meta \<Rightarrow> string \<Rightarrow> json_object \<Rightarrow> sock_state \<Rightarrow> sock_state \<Rightarrow> bool" where
  "sent_after h env path expected m ps s s' \<longleftrightarrow> so_open s' = so_open s \<and> (\<exists>evs e m' p.
     so_log s' = evs @ Sent e # Looked (parent_dir path) p # Looked path (Seen m') # Connected path Accepted # so_log s
     \<and> (\<forall>x. Sent x \<notin> set evs) \<and> encode_request env m ps = Inr e
     \<and> check_endpoint h path (Some expected) m' = Inr () \<and> trusted_parent p)"

lemma after_connect:
  assumes run: "unavailable_on_os_error path (andthen (validate_socket_endpoint h path (Some expected)) (\<lambda>_.
      andthen (note_event (Sent e)) (\<lambda>_. andthen (sys_ok (rp_send h)) (\<lambda>_. recv_all h [])))) s = (r, s')"
    and enc: "encode_request env m ps = Inr e" and log: "so_log s = Connected path Accepted # so_log s0" "so_open s = so_open s0"
  shows "sent_after h env path expected m ps s0 s' \<or> (\<exists>x. r = Inl x) \<and> unsent s s'"
proof -
  let ?inner = "andthen (validate_socket_endpoint h path (Some expected)) (\<lambda>_.
      andthen (note_event (Sent e)) (\<lambda>_. andthen (sys_ok (rp_send h)) (\<lambda>_. recv_all h [])))"
  obtain q where inner: "?inner s = (q, s')" and fails: "\<And>x. q = Inl x \<Longrightarrow> \<exists>y. r = Inl y"
    using run by (auto simp: unavailable_on_os_error_def attempt_def raise_def split: sum.splits prod.splits if_splits)
  obtain v s1 where v: "validate_socket_endpoint h path (Some expected) s = (v, s1)" by fastforce
  show ?thesis
  proof (cases v)
    case (Inl x)
    with inner v have "q = Inl x" "s' = s1" by (simp_all add: andthen_def)
    with fails keepsD [OF unsent_endpoint v] show ?thesis by blast
  next
    case (Inr m')
    then obtain p where p: "so_log s1 = Looked (parent_dir path) p # Looked path (Seen m') # so_log s" "so_open s1 = so_open s"
        "check_endpoint h path (Some expected) m' = Inr ()" "trusted_parent p"
      using v by (auto elim: endpoint_validated)
    let ?s2 = "s1\<lparr>so_log := Sent e # so_log s1\<rparr>"
    have "unsent ?s2 s'"
    proof (cases "rp_send h (so_clock s1)")
      case True
      then have "recv_all h [] (tick ?s2) = (q, s')"
        using inner v Inr by (simp add: andthen_def note_event_def modify_def sys_ok_def sys_def guard_def tick_def)
      from recv_unsent [OF this] show ?thesis by (simp add: unsent_def tick_def)
    qed (use inner v Inr in \<open>simp add: andthen_def note_event_def modify_def sys_ok_def sys_def guard_def unsent_def, auto\<close>)
    then obtain evs where "so_log s' = evs @ Sent e # so_log s1" "\<forall>x. Sent x \<notin> set evs" "so_open s' = so_open s1"
      unfolding unsent_def by auto
    with p log enc show ?thesis unfolding sent_after_def by auto
  qed
qed

lemma exchange_sends:
  assumes "exchange h env path expected m ps s = (r, s')"
  shows "sent_after h env path expected m ps s s' \<or> (\<exists>x. r = Inl x) \<and> unsent s s'"
proof -
  let ?s = "s\<lparr>so_clock := Suc (so_clock s), so_log := Connected path (rp_connect h (so_clock s) path) # so_log s\<rparr>"
  have c: "connect_to h path s = (Inr (rp_connect h (so_clock s) path), ?s)"
    by (simp add: connect_to_def sys_def note_event_def act_defs)
  have quiet: "unsent s ?s" by (simp add: unsent_def)
  show ?thesis
  proof (cases "rp_connect h (so_clock s) path = Accepted")
    case True
    show ?thesis
    proof (cases "encode_request env m ps")
      case (Inr e)
      have "unavailable_on_os_error path (andthen (validate_socket_endpoint h path (Some expected)) (\<lambda>_.
          andthen (note_event (Sent e)) (\<lambda>_. andthen (sys_ok (rp_send h)) (\<lambda>_. recv_all h [])))) ?s = (r, s')"
        using assms c True Inr unfolding exchange_def by (simp add: andthen_def guard_def lift_def)
      from after_connect [OF this Inr, of s] True quiet show ?thesis
        by (auto intro: unsent.frame_trans)
    next
      case (Inl x)
      have "r = Inl x \<and> s' = ?s"
        using assms c True Inl unfolding exchange_def by (simp add: andthen_def guard_def lift_def)
      with quiet True show ?thesis by simp
    qed
  qed (use assms c quiet in \<open>auto simp: exchange_def andthen_def guard_def\<close>)
qed

text \<open>
  C29. The client sends its request at most once, and only when the socket was the user's own
  private socket below a trusted parent before it connected, was accepted, and the same inode
  looked the same afterwards; a call that returns has sent it, its value is a valid envelope,
  and no descriptor stays open.
\<close>

theorem request_only_to_verified_endpoint:
  assumes "rpc_call h env path m ps timeout s = (r, s')"
  shows "so_open s' = so_open s \<and> (\<exists>evs. so_log s' = evs @ so_log s
     \<and> (\<forall>newer e older. evs = newer @ Sent e # older \<longrightarrow> encode_request env m ps = Inr e \<and> (\<exists>m1 p1 m2 p2.
          older = [Looked (parent_dir path) p2, Looked path (Seen m2), Connected path Accepted,
             Looked (parent_dir path) p1, Looked path (Seen m1)]
          \<and> check_endpoint h path None m1 = Inr () \<and> check_endpoint h path (Some m1) m2 = Inr ()
          \<and> trusted_parent p1 \<and> trusted_parent p2))
     \<and> (\<forall>v. r = Inr v \<longrightarrow> (\<exists>e. Sent e \<in> set evs) \<and> validate_response_envelope v ''cli'' = Inr ()))"
proof -
  let ?check = "case timeout of None \<Rightarrow> Inr None
      | Some t \<Rightarrow> ebind (finite_nonnegative_float t ''timeout'') (\<lambda>r. Inr (Some (bounded_platform_timeout (re_limit env) r)))"
  have silent: ?thesis if run: "unsent s s'" and failed: "\<And>v. r \<noteq> Inr v"
  proof -
    obtain evs where evs: "so_log s' = evs @ so_log s" and none: "\<forall>e. Sent e \<notin> set evs"
      using run unfolding unsent_def by blast
    have "evs \<noteq> newer @ Sent e # older" for newer e older
      using none [THEN spec, of e] by auto
    with evs run failed show ?thesis unfolding unsent_def by (intro conjI exI [of _ evs]) auto
  qed
  show ?thesis
  proof (cases ?check)
    case (Inl x)
    then show ?thesis
      using assms by (intro silent) (auto simp: rpc_call_def andthen_def lift_def unsent.frame_refl)
  next
    case (Inr bound)
    obtain v s1 where v: "validate_socket_endpoint h path None s = (v, s1)" by fastforce
    show ?thesis
    proof (cases v)
      case (Inl x)
      then show ?thesis
        using assms v \<open>?check = _\<close> keepsD [OF unsent_endpoint v]
        by (intro silent) (auto simp: rpc_call_def andthen_def lift_def)
    next
      case (Inr m1)
      then obtain p1 where first: "so_log s1 = Looked (parent_dir path) p1 # Looked path (Seen m1) # so_log s" "so_open s1 = so_open s"
          "check_endpoint h path None m1 = Inr ()" "trusted_parent p1"
        using v by (auto elim: endpoint_validated)
      obtain q s2 where q: "exchange h env path m1 m ps (open_socket_fd s1) = (q, s2)" by fastforce
      have s': "s' = close_fd (s2\<lparr>so_log := Closed # so_log s2\<rparr>)"
        and r: "r = (case q of Inl x \<Rightarrow> Inl x | Inr got \<Rightarrow> read_response env path got)"
        using assms v Inr q \<open>?check = _\<close>
        by (auto simp: rpc_call_def andthen_def lift_def modify_def always_def split: sum.splits)
      have valid: "validate_response_envelope w ''cli'' = Inr ()" if "r = Inr w" for w
        using that r by (auto simp: read_response_def res_simps split: sum.splits if_splits)
      show ?thesis
        using exchange_sends [OF q]
      proof (elim disjE conjE exE)
        assume "sent_after h env path m1 m ps (open_socket_fd s1) s2"
        then obtain evs e m2 p2 where sent: "so_log s2 = evs @ Sent e # Looked (parent_dir path) p2 # Looked path (Seen m2) #
              Connected path Accepted # so_log s1" "\<forall>x. Sent x \<notin> set evs" "encode_request env m ps = Inr e"
            "check_endpoint h path (Some m1) m2 = Inr ()" "trusted_parent p2" "so_open s2 = Suc (so_open s1)"
          unfolding sent_after_def by (auto simp: open_socket_fd_def)
        let ?older = "[Looked (parent_dir path) p2, Looked path (Seen m2), Connected path Accepted,
             Looked (parent_dir path) p1, Looked path (Seen m1)]"
        have unique: "newer = Closed # evs \<and> x = e \<and> older = ?older" if "(Closed # evs) @ Sent e # ?older = newer @ Sent x # older" for newer x older
          using that sent(2) by (auto simp: append_eq_append_conv2 append_eq_Cons_conv Cons_eq_append_conv)
        have only: "encode_request env m ps = Inr x \<and> (\<exists>m1 p1 m2 p2. older = [Looked (parent_dir path) p2, Looked path (Seen m2),
            Connected path Accepted, Looked (parent_dir path) p1, Looked path (Seen m1)]
          \<and> check_endpoint h path None m1 = Inr () \<and> check_endpoint h path (Some m1) m2 = Inr ()
          \<and> trusted_parent p1 \<and> trusted_parent p2)" if "(Closed # evs) @ Sent e # ?older = newer @ Sent x # older" for newer x older
          using unique [OF that] first(3,4) sent(3,4,5) by simp
        have shape: "so_open s' = so_open s" "so_log s' = ((Closed # evs) @ Sent e # ?older) @ so_log s"
            "Sent e \<in> set ((Closed # evs) @ Sent e # ?older)"
          using first(1,2) sent(1,6) by (simp_all add: s' close_fd_def)
        show ?thesis
          by (rule conjI [OF shape(1)], rule exI [of _ "(Closed # evs) @ Sent e # ?older"], rule conjI [OF shape(2)], rule conjI)
            (intro allI impI, rule only, assumption, use shape(3) valid in blast)
      next
        fix x
        assume "q = Inl x" "unsent (open_socket_fd s1) s2"
        moreover from this(2) obtain evs where "so_log s2 = evs @ so_log s1" "\<forall>x. Sent x \<notin> set evs" "so_open s2 = Suc (so_open s1)"
          unfolding unsent_def by (auto simp: open_socket_fd_def)
        ultimately show ?thesis
          using r first
          by (intro silent) (auto simp: s' unsent_def close_fd_def)
      qed
    qed
  qed
qed

section \<open>A call and its answer\<close>

text \<open>What the peer sends arrives in any non-empty pieces, from a moment on.\<close>

definition delivers :: "rpc_host \<Rightarrow> nat \<Rightarrow> string list \<Rightarrow> bool" where
  "delivers h t pieces \<longleftrightarrow> [] \<notin> set pieces \<and> (\<forall>i < length pieces. rp_recv h (t + i) = Chunk (pieces ! i))"

lemma delivers_Cons: "delivers h t (c # cs) \<longleftrightarrow> c \<noteq> [] \<and> rp_recv h t = Chunk c \<and> delivers h (Suc t) cs"
  by (auto simp: delivers_def nth_Cons split: nat.splits)

lemma recv_delivered:
  "\<lbrakk>delivers h (so_clock s) cs; got @ concat cs = t @ [newline]; newline \<notin> set t; int (length t) < MAX_RESPONSE_BYTES\<rbrakk>
     \<Longrightarrow> fst (recv_all h got s) = Inr (t @ [newline])"
proof (induction cs arbitrary: got s)
  case Nil
  then show ?case by (subst recv_all_step) simp
next
  case (Cons c cs)
  then have c: "c \<noteq> []" "rp_recv h (so_clock s) = Chunk c" and rest: "delivers h (so_clock (tick s)) cs"
    by (simp_all add: delivers_Cons tick_def)
  have "\<exists>u. t = got @ u"
  proof (cases "got @ c = t @ [newline]")
    case True
    then show ?thesis using c(1) by (metis append.assoc append_butlast_last_id butlast_append butlast_snoc)
  next
    case False
    then show ?thesis using Cons.prems(2) c(1)
      by (metis append.assoc append_Nil2 butlast_append butlast_snoc concat.simps(2) append_is_Nil_conv)
  qed
  then have open_line: "\<not> (got \<noteq> [] \<and> last got = newline)"
    using Cons.prems(3) by (metis UnI1 last_in_set set_append)
  have "length (got @ c) \<le> length (t @ [newline])"
    using Cons.prems(2) by (metis append.assoc concat.simps(2) length_append le_add1)
  then have "int (length (got @ c)) \<le> MAX_RESPONSE_BYTES" using Cons.prems(4) by simp
  moreover have "fst (recv_all h (got @ c) (tick s)) = Inr (t @ [newline])"
    by (rule Cons.IH [OF rest]) (use Cons.prems in simp_all)
  ultimately show ?case by (subst recv_all_step) (simp add: c open_line)
qed

text \<open>An endpoint that stays in order, with a peer that accepts and reads.\<close>

definition reachable :: "rpc_host \<Rightarrow> string \<Rightarrow> bool" where
  "reachable h path \<longleftrightarrow> (\<exists>m p. check_endpoint h path None m = Inr () \<and> trusted_parent p
     \<and> (\<forall>t. rp_lstat h t path = Seen m \<and> rp_lstat h t (parent_dir path) = p \<and> rp_connect h t path = Accepted \<and> rp_send h t))"

lemma same_endpoint: "check_endpoint h path None m = Inr () \<Longrightarrow> check_endpoint h path (Some m) m = Inr ()"
  by (auto simp: check_endpoint_def Let_def)

lemma parent_accepted: "rp_lstat h (so_clock s) (parent_dir path) = p \<Longrightarrow> trusted_parent p \<Longrightarrow>
    unsafe_socket_parent_reason h path s = (Inr None, (tick s)\<lparr>so_log := Looked (parent_dir path) p # so_log s\<rparr>)"
  by (auto simp: unsafe_socket_parent_reason_def parent_dir_def look_at_def sys_def note_event_def act_defs Let_def tick_def
      trusted_parent_def split: look.splits)

lemma endpoint_accepted:
  assumes "rp_lstat h (so_clock s) path = Seen m" "rp_lstat h (Suc (so_clock s)) (parent_dir path) = p" "trusted_parent p"
    and "check_endpoint h path expected m = Inr ()"
  shows "\<exists>s'. validate_socket_endpoint h path expected s = (Inr m, s') \<and> so_clock s' = so_clock s + 2"
proof -
  let ?s = "(tick s)\<lparr>so_log := Looked path (Seen m) # so_log s\<rparr>"
  have look: "look_at h path s = (Inr (Seen m), ?s)"
    using assms(1) by (simp add: look_at_def sys_def note_event_def act_defs tick_def)
  have "unsafe_socket_parent_reason h path ?s = (Inr None, (tick ?s)\<lparr>so_log := Looked (parent_dir path) p # so_log ?s\<rparr>)"
    by (rule parent_accepted) (use assms in \<open>simp_all add: tick_def\<close>)
  then show ?thesis by (simp add: validate_socket_endpoint_def look andthen_def lift_def ret_def assms(4) tick_def)
qed

lemma exchange_delivers:
  assumes "reachable h path" "delivers h (so_clock s + 4) cs" "concat cs = t @ [newline]" "newline \<notin> set t"
    and "int (length t) < MAX_RESPONSE_BYTES" "encode_request env m ps = Inr e" "\<And>u. rp_lstat h u path = Seen m0"
    and "check_endpoint h path None m0 = Inr ()"
  shows "fst (exchange h env path m0 m ps s) = Inr (t @ [newline])"
proof -
  obtain p where ok: "trusted_parent p" "\<And>u. rp_lstat h u (parent_dir path) = p" "\<And>u. rp_connect h u path = Accepted" "\<And>u. rp_send h u"
    using assms(1) unfolding reachable_def by blast
  let ?s = "(tick s)\<lparr>so_log := Connected path Accepted # so_log s\<rparr>"
  have c: "connect_to h path s = (Inr Accepted, ?s)"
    by (simp add: connect_to_def sys_def note_event_def act_defs ok tick_def)
  obtain s2 where v: "validate_socket_endpoint h path (Some m0) ?s = (Inr m0, s2)" "so_clock s2 = so_clock ?s + 2"
    using endpoint_accepted [of h ?s path m0 p "Some m0"] assms(7,8) ok same_endpoint by blast
  let ?s3 = "(tick s2)\<lparr>so_log := Sent e # so_log s2\<rparr>"
  have "fst (recv_all h [] ?s3) = Inr (t @ [newline])"
    by (rule recv_delivered [of h ?s3 cs]) (use assms v in \<open>simp_all add: tick_def eval_nat_numeral\<close>)
  then obtain s4 where r: "recv_all h [] ?s3 = (Inr (t @ [newline]), s4)" by (metis prod.collapse)
  have "note_event (Sent e) s2 = (Inr (), s2\<lparr>so_log := Sent e # so_log s2\<rparr>)" by (simp add: note_event_def modify_def)
  moreover have "sys_ok (rp_send h) (s2\<lparr>so_log := Sent e # so_log s2\<rparr>) = (Inr (), ?s3)"
    by (simp add: sys_ok_def sys_def andthen_def guard_def ok tick_def)
  ultimately show ?thesis
    by (simp add: exchange_def unavailable_on_os_error_def attempt_def andthen_def c guard_def lift_def assms(6) v r)
qed

definition result_envelope :: "json_object \<Rightarrow> json" where
  "result_envelope result = JObj [(''jsonrpc'', JStr ''2.0''), (''id'', JStr ''cli''), (''result'', JObj result)]"

lemma request_accepted:
  "m \<noteq> [] \<Longrightarrow> validate_request (request_json m ps) = Inr (m, ps)" "request_id_of (request_json m ps) = JStr ''cli''"
  by (simp_all add: validate_request_def request_json_def request_id_of_def)

text \<open>
  When the server reads the client's request and the operation returns a result, the
  handler writes one line, and the client, however that line is cut into pieces on its way,
  returns the envelope with exactly that result.
\<close>

theorem call_returns_the_operations_result:
  assumes "encode_request env m ps = Inr raw" "re_loads env raw = Inr (request_json m ps)" "m \<noteq> []"
    and "int (length raw) \<le> MAX_REQUEST_BYTES" "dispatch env sv m ps (rh_inner ss) = (Inr (Some result), i)"
    and "json_dumps (re_float env) (result_envelope result) = Inr t" "\<And>r. newline \<notin> set (re_float env r)"
    and "re_loads env (t @ [newline]) = Inr (result_envelope result)" "int (length t) < MAX_RESPONSE_BYTES"
    and "reachable h path" "delivers h (so_clock s + 6) pieces" "concat pieces = t @ [newline]"
  shows "\<exists>ss' s'. handle env sv (\<lambda>_. None) (Inr raw) ss = (Inr True, ss') \<and> rh_inner ss' = i
     \<and> rh_lines ss' = rh_lines ss @ [t @ [newline]]
     \<and> rpc_call h env path m ps None s = (Inr (result_envelope result), s')"
proof -
  have raw: "raw \<noteq> []" using assms(1) by (auto simp: encode_request_def res_simps)
  have line: "encode_response (re_float env) (JStr ''cli'') (Some result) None = Inr (t @ [newline])"
    using assms(6) by (simp add: encode_response_def rpc_response_simps result_envelope_def)
  have served: "\<exists>ss'. handle env sv (\<lambda>_. None) (Inr raw) ss = (Inr True, ss') \<and> rh_inner ss' = i \<and> rh_lines ss' = rh_lines ss @ [t @ [newline]]"
    using assms(2-5) raw request_accepted line
    by (simp add: handle_def respond_def serve_def answer_def act_defs inner_def write_line_def request_shutdown_def)
  have one_line: "newline \<notin> set t" by (rule json_dumps_one_line [OF assms(6,7)])
  obtain m0 p where ok: "check_endpoint h path None m0 = Inr ()" "trusted_parent p" "\<And>u. rp_lstat h u path = Seen m0"
      "\<And>u. rp_lstat h u (parent_dir path) = p"
    using assms(10) unfolding reachable_def by blast
  obtain s1 where v: "validate_socket_endpoint h path None s = (Inr m0, s1)" "so_clock s1 = so_clock s + 2"
    using endpoint_accepted [of h s path m0 p None] ok by blast
  have "fst (exchange h env path m0 m ps (open_socket_fd s1)) = Inr (t @ [newline])"
    by (rule exchange_delivers [OF assms(10) _ assms(12) one_line assms(9,1) ok(3,1)])
      (use assms(11) v in \<open>simp add: open_socket_fd_def eval_nat_numeral\<close>)
  then obtain s2 where x: "exchange h env path m0 m ps (open_socket_fd s1) = (Inr (t @ [newline]), s2)" by (metis prod.collapse)
  have "validate_response_envelope (result_envelope result) ''cli'' = Inr ()"
    by (simp add: result_envelope_def envelopes_valid)
  then have "read_response env path (t @ [newline]) = Inr (result_envelope result)"
    using assms(8) by (simp add: read_response_def)
  then have "\<exists>s'. rpc_call h env path m ps None s = (Inr (result_envelope result), s')"
    by (simp add: rpc_call_def andthen_def lift_def v modify_def always_def x)
  with served show ?thesis by blast
qed

end
