(* ===== verification/RpcWitness.thy ===== *)
theory RpcWitness
  imports RpcSocketProps
begin

text \<open>
  The properties of the RPC socket at concrete inputs: a server whose broker lists one model and
  whose service facade stops, and a client that calls it over a socket in order.
\<close>

definition rpc_model :: model_env where
  "rpc_model = \<lparr>resolve_path = Some, is_directory = \<lambda>_. True, host_lookup = \<lambda>_ _. []\<rparr>"

definition rpc_text :: "rat \<Rightarrow> string" where
  "rpc_text r = ''0.5''"

definition list_result :: json_object where
  "list_result = [(''models'', JList [])]"

definition line_text :: "json \<Rightarrow> string" where
  "line_text v = (case json_dumps rpc_text v of Inl _ \<Rightarrow> [] | Inr t \<Rightarrow> t)"

definition list_line :: string where
  "list_line = line_text (request_json ''model/list'' []) @ [newline]"

definition stop_line :: string where
  "stop_line = line_text (request_json ''service/stop'' [(''force'', JBool False)]) @ [newline]"

definition answer_text :: string where
  "answer_text = line_text (result_envelope list_result)"

text \<open>A reader of these lines; a single bracket stands for a text nested beyond the recursion limit.\<close>

definition rpc_loads :: "string \<Rightarrow> (exn, json) res" where
  "rpc_loads raw = (if raw = list_line then Inr (request_json ''model/list'' [])
     else if raw = stop_line then Inr (request_json ''service/stop'' [(''force'', JBool False)])
     else if raw = answer_text @ [newline] then Inr (result_envelope list_result)
     else if raw = ''['' then Inl (RecursionError ''depth'') else Inl (ValueError ''json''))"

definition rpc_demo :: rpc_env where
  "rpc_demo = \<lparr>re_model = rpc_model, re_limit = Some 1000, re_float = rpc_text, re_loads = rpc_loads\<rparr>"

definition rpc_broker_demo :: "json_object \<Rightarrow> unit rpc_broker" where
  "rpc_broker_demo result = validation_broker\<lparr>rb_model_list := ret (Some result)\<rparr>"

definition rpc_server_demo :: "json_object \<Rightarrow> unit rpc_server" where
  "rpc_server_demo result = \<lparr>sv_broker = rpc_broker_demo result, sv_facade = None,
     sv_service_facade = Some (\<lambda>_ _. ret (Some (OkReply [])))\<rparr>"

definition rpc_start :: "unit rpc_state" where
  "rpc_start = \<lparr>rh_inner = (), rh_started = False, rh_shutdowns = 0, rh_accepted = False, rh_writes = 0, rh_lines = []\<rparr>"

lemma rpc_text_one_line: "newline \<notin> set (re_float rpc_demo r)"
  by (simp add: rpc_demo_def rpc_text_def newline_def)

lemma rpc_loads_class: "re_loads rpc_demo raw = Inl x \<Longrightarrow> \<not> is_os_error x"
  by (auto simp: rpc_demo_def rpc_loads_def exn_class_defs split: if_splits)

lemma rpc_lines [simp]: "re_loads rpc_demo list_line = Inr (request_json ''model/list'' [])"
  "re_loads rpc_demo stop_line = Inr (request_json ''service/stop'' [(''force'', JBool False)])"
  "re_loads rpc_demo (answer_text @ [newline]) = Inr (result_envelope list_result)"
  "re_loads rpc_demo ''['' = Inl (RecursionError ''depth'')"
  unfolding rpc_demo_def rpc_loads_def by code_simp+

lemma rpc_sizes: "list_line \<noteq> []" "int (length list_line) \<le> MAX_REQUEST_BYTES" "int (length stop_line) \<le> MAX_REQUEST_BYTES"
  "int (length answer_text) < MAX_RESPONSE_BYTES"
  by code_simp+

lemma list_dispatched: "dispatch rpc_demo (rpc_server_demo result) ''model/list'' [] () = (Inr (Some result), ())"
  by (simp add: dispatch_def COMMON_METHODS_def SERVICE_METHODS_def raw_methods_def raw_model_list_def no_params_def act_defs
      rpc_server_demo_def rpc_broker_demo_def)

lemma answer_dumped: "json_dumps (re_float rpc_demo) (result_envelope list_result) = Inr answer_text"
  by code_simp

lemma list_handled: "handle rpc_demo (rpc_server_demo list_result) (\<lambda>_. None) (Inr list_line) rpc_start
    = (Inr True, rpc_start\<lparr>rh_writes := 1, rh_lines := [answer_text @ [newline]]\<rparr>)"
  by code_simp

lemma rpc_start_lines: "rh_lines rpc_start = []"
  by (simp add: rpc_start_def)


lemma stop_handled: "accepted_stop rpc_demo (rpc_server_demo []) stop_line ()"
  by code_simp

lemma shutdown_follows_accepted_stop_witness:
  "rh_shutdowns (snd (handle rpc_demo (rpc_server_demo []) (\<lambda>_. Some (OSError ''pipe'')) (Inr stop_line) rpc_start)) = 1"
  using shutdown_follows_accepted_stop [where env = rpc_demo and sv = "rpc_server_demo []" and wr = "\<lambda>_. Some (OSError ''pipe'')"
      and input = "Inr stop_line" and s = rpc_start, OF prod.collapse [symmetric]] stop_handled by (simp add: rpc_start_def)

lemma deep_request_gets_no_answer_witness:
  "fst (handle rpc_demo (rpc_server_demo []) (\<lambda>_. None) (Inr ''['') rpc_start) = Inl (RecursionError ''depth'')"
proof -
  have "\<not> int (length ''['') > MAX_REQUEST_BYTES" by (simp add: MAX_REQUEST_BYTES_def)
  then show ?thesis
    using deep_request_gets_no_answer [of "''[''" rpc_demo "''depth''" "rpc_server_demo []" "\<lambda>_. None" rpc_start] by auto
qed

lemma unserialisable_result_blamed_on_caller_witness:
  "\<exists>s' line. handle rpc_demo (rpc_server_demo [(''x'', JFloat PosInf)]) (\<lambda>_. None) (Inr list_line) rpc_start = (Inr True, s')
     \<and> rh_inner s' = () \<and> rh_lines s' = rh_lines rpc_start @ [line]
     \<and> encode_response (re_float rpc_demo) (request_id_of (request_json ''model/list'' [])) None
         (Some (invalid_params_fault (exn_str not_compliant))) = Inr line"
proof (rule unserialisable_result_blamed_on_caller [where ps = "[]" and m = "''model/list''" and result = "[(''x'', JFloat PosInf)]"])
  show "\<not> MAX_REQUEST_BYTES < int (length list_line)" using rpc_sizes by simp
  show "dispatch rpc_demo (rpc_server_demo [(''x'', JFloat PosInf)]) ''model/list'' [] (rh_inner rpc_start) = (Inr (Some [(''x'', JFloat PosInf)]), ())"
    using list_dispatched by simp
  show "json_dumps (re_float rpc_demo) (request_id_of (request_json ''model/list'' [])) = Inr (json_string ''cli'')"
    by (simp add: request_accepted)
qed (simp_all add: rpc_sizes request_accepted)

section \<open>The socket\<close>

definition sock_meta :: file_meta where
  "sock_meta = \<lparr>fm_kind = SocketKind, fm_mode = 0x180, fm_uid = 7, fm_id = (1, 2)\<rparr>"

definition dir_meta :: file_meta where
  "dir_meta = \<lparr>fm_kind = DirectoryKind, fm_mode = 0x1C0, fm_uid = 7, fm_id = (1, 1)\<rparr>"

definition lock_meta :: file_meta where
  "lock_meta = \<lparr>fm_kind = RegularKind, fm_mode = 0x180, fm_uid = 7, fm_id = (1, 3)\<rparr>"

definition sock_host :: "connection \<Rightarrow> rpc_host" where
  "sock_host c = \<lparr>rp_lstat = \<lambda>_ p. if p = ''/d/s'' then Seen sock_meta else if p = ''/d'' then Seen dir_meta else Missing,
     rp_connect = \<lambda>_ _. c, rp_unlink = \<lambda>_. True, rp_makedirs = \<lambda>_. True, rp_open_lock = \<lambda>_. True,
     rp_fstat = \<lambda>_. Some lock_meta, rp_fchmod = \<lambda>_. True, rp_flock = \<lambda>_. LockTaken, rp_bind = \<lambda>_. True, rp_chmod = \<lambda>_. True,
     rp_listen = \<lambda>_. True, rp_send = \<lambda>_. True,
     rp_recv = \<lambda>t. if t = 6 then Chunk (take 5 answer_text) else Chunk (drop 5 answer_text @ [newline]),
     rp_monotonic = \<lambda>t. 0, rp_uid = 7\<rparr>"

definition sock_start :: sock_state where
  "sock_start = \<lparr>so_clock = 0, so_log = [], so_bound = None, so_locked = False, so_open = 0\<rparr>"

abbreviation started_server :: sock_state where
  "started_server \<equiv> snd (start_server (sock_host Refused) 1 ''/d/s'' sock_start)"

lemmas server_steps = start_server_def unsafe_socket_parent_reason_def open_server_def acquire_start_lock_def lstat_def look_at_def
  sys_def sys_ok_def note_event_def act_defs Let_def check_lock_file_def harden_lock_def fstat_def own_regular_def
  prepare_socket_path_def socket_accepts_connections_def connect_to_def unlink_def bind_hardened_def bound_lstat_def
  release_start_lock_def open_socket_fd_def close_fd_def sock_host_def sock_meta_def dir_meta_def lock_meta_def sock_start_def
  dirname_def slash_def lock_path_def others_write_def shared_bits_def sticky_def sticky_bit_def server_close_def unlink_owned_socket_def

lemma server_starts: "fst (start_server (sock_host Refused) 1 ''/d/s'' sock_start) = Inr (Some ())"
  "count_list (so_log (snd (server_close (sock_host Refused) ''/d/s'' started_server))) (Unlinked ''/d/s'') = 2"
  by (simp_all add: server_steps)

lemma only_dead_or_own_sockets_removed_witness:
  "removals_ok 7 (so_log (snd (server_close (sock_host Refused) ''/d/s'' started_server)))
   \<and> count_list (so_log (snd (server_close (sock_host Refused) ''/d/s'' started_server))) (Unlinked ''/d/s'') = 2"
  using only_dead_or_own_sockets_removed [OF prod.collapse [symmetric] prod.collapse [symmetric],
      of "sock_host Refused" sock_start 1 "''/d/s''"] server_starts
  by (simp add: sock_start_def sock_host_def)

lemma sock_reachable: "reachable (sock_host Accepted) ''/d/s''"
  unfolding reachable_def
  by (intro exI [of _ sock_meta] exI [of _ "Seen dir_meta"])
    (simp add: sock_host_def check_endpoint_def sock_meta_def dir_meta_def owner_only_def group_other_bits_def trusted_parent_def
      others_write_def shared_bits_def parent_dir_def dirname_def slash_def)

lemma sock_delivers: "delivers (sock_host Accepted) (so_clock sock_start + 6) [take 5 answer_text, drop 5 answer_text @ [newline]]"
proof -
  have "take 5 answer_text \<noteq> []" by code_simp
  then show ?thesis by (simp add: delivers_Cons sock_host_def sock_start_def) (simp add: delivers_def)
qed

lemma list_encoded: "encode_request rpc_demo ''model/list'' [] = Inr list_line"
  by code_simp

lemma call_returns_the_operations_result_witness:
  "\<exists>ss' s'. handle rpc_demo (rpc_server_demo list_result) (\<lambda>_. None) (Inr list_line) rpc_start = (Inr True, ss') \<and> rh_inner ss' = ()
     \<and> rh_lines ss' = rh_lines rpc_start @ [answer_text @ [newline]]
     \<and> rpc_call (sock_host Accepted) rpc_demo ''/d/s'' ''model/list'' [] None sock_start = (Inr (result_envelope list_result), s')"
  by (rule call_returns_the_operations_result [OF list_encoded _ _ _ _ answer_dumped rpc_text_one_line _ _ sock_reachable sock_delivers])
    (simp_all add: rpc_sizes list_dispatched)

lemma request_only_to_verified_endpoint_witness:
  "so_open (snd (rpc_call (sock_host Accepted) rpc_demo ''/d/s'' ''model/list'' [] None sock_start)) = 0"
  using request_only_to_verified_endpoint [OF prod.collapse [symmetric], of "sock_host Accepted" rpc_demo "''/d/s''" "''model/list''" "[]" None sock_start]
  by (simp add: sock_start_def)

end
