(* ===== verification/Service.thy ===== *)
theory Service
  imports RpcSocket Gate
begin

text \<open>
  \<open>service.py\<close>: \<open>GlobalWorkerService\<close>, which owns the private Codex process, the connection to it
  and the public gateway. The host answers every system call by the moment it is made; the
  state keeps the service's own fields and a log of the calls that matter, newest first. The
  process, the gateway and the connection are what the service's dependencies create.
\<close>

section \<open>The host\<close>

datatype service_event =
    Spawned int
  | PgidRead int int
  | OwnGroupRead int
  | GroupLooked int bool
  | Signalled int int
  | Terminated int
  | Killed int
  | SocketLooked look
  | SocketRemoved
  | DirMade string
  | DirLooked string look
  | GatewayStarted
  | GatewayClosed
  | ConnectionClosed

record service_host =
  sh_uid :: int
  sh_look :: "nat \<Rightarrow> fs_look"
  sh_lstat :: "nat \<Rightarrow> string \<Rightarrow> look"
  sh_mkdir :: "nat \<Rightarrow> bool"
  sh_chmod :: "nat \<Rightarrow> bool"
  sh_socket_present :: "nat \<Rightarrow> bool"
  sh_unlink :: "nat \<Rightarrow> bool"
  sh_create_gateway :: "nat \<Rightarrow> (exn, unit) res"
  sh_start_gateway :: "nat \<Rightarrow> (exn, unit) res"
  sh_gateway_ready :: "nat \<Rightarrow> bool"
  sh_close_gateway :: "nat \<Rightarrow> (exn, unit) res"
  sh_connect :: "nat \<Rightarrow> (exn, unit) res"
  sh_close_connection :: "nat \<Rightarrow> (exn, unit) res"
  sh_spawn :: "nat \<Rightarrow> (exn, int) res"
  sh_exited :: "nat \<Rightarrow> (exn, bool) res"
  sh_wait :: "nat \<Rightarrow> (exn, unit) res"
  sh_terminate :: "nat \<Rightarrow> (exn, unit) res"
  sh_kill :: "nat \<Rightarrow> (exn, unit) res"
  sh_pgid :: "nat \<Rightarrow> int \<Rightarrow> (exn, int) res"
  sh_own_pgid :: "nat \<Rightarrow> int"
  sh_signal :: "nat \<Rightarrow> (exn, unit) res"
  sh_group_exists :: "nat \<Rightarrow> int \<Rightarrow> (exn, bool) res"
  sh_monotonic :: "nat \<Rightarrow> rat"
  sh_loopback :: "string \<Rightarrow> bool option"

record service_state =
  sv_clock :: nat
  sv_log :: "service_event list"
  sv_process :: "int option"
  sv_pgid :: "int option"
  sv_connection :: bool
  sv_gateway :: bool
  sv_socket :: "file_meta option"
  sv_stopping :: bool

record service_config =
  sg_durable_dir :: string
  sg_socket :: string
  sg_listener :: string
  sg_version :: string

type_synonym 'a service_act = "(service_state, 'a) act"

definition new_service :: service_state where
  "new_service = \<lparr>sv_clock = 0, sv_log = [], sv_process = None, sv_pgid = None, sv_connection = False, sv_gateway = False,
     sv_socket = None, sv_stopping = False\<rparr>"

text \<open>A system call that only answers, and one that may raise.\<close>

definition ask :: "(nat \<Rightarrow> 'a) \<Rightarrow> 'a service_act" where
  "ask f s = (Inr (f (sv_clock s)), s\<lparr>sv_clock := Suc (sv_clock s)\<rparr>)"

definition try_call :: "(nat \<Rightarrow> (exn, 'a) res) \<Rightarrow> 'a service_act" where
  "try_call f = andthen (ask f) lift"

definition record_event :: "service_event \<Rightarrow> unit service_act" where
  "record_event e = modify (\<lambda>s. s\<lparr>sv_log := e # sv_log s\<rparr>)"

definition os_call :: "(nat \<Rightarrow> bool) \<Rightarrow> unit service_act" where
  "os_call f = andthen (ask f) (\<lambda>ok. guard ok (OSError ''system call''))"

definition look_of :: "string \<Rightarrow> look \<Rightarrow> file_meta service_act" where
  "look_of path l = (case l of Seen m \<Rightarrow> ret m | Missing \<Rightarrow> raise (FileNotFoundError path) | LookFailed n \<Rightarrow> raise (OSError n))"

section \<open>The private directories\<close>

definition owner_dir_mode :: file_mode where
  "owner_dir_mode = 0x1C0"

definition dir_lstat :: "service_host \<Rightarrow> string \<Rightarrow> look service_act" where
  "dir_lstat h path = andthen (ask (\<lambda>t. sh_lstat h t path)) (\<lambda>l. andthen (record_event (DirLooked path l)) (\<lambda>_. ret l))"

definition check_ancestor :: "service_host \<Rightarrow> string \<Rightarrow> unit service_act" where
  "check_ancestor h path = andthen (ask (\<lambda>t. unsafe_ancestor (sh_look h t) (sh_uid h) [] path)) (\<lambda>unsafe. case unsafe of
     None \<Rightarrow> ret () | Some p \<Rightarrow> raise (PermissionError (''unsafe service directory ancestor: '' @ p)))"

definition make_owner_dir :: "service_host \<Rightarrow> string \<Rightarrow> string \<Rightarrow> unit service_act" where
  "make_owner_dir h parent current =
     andthen (check_ancestor h parent) (\<lambda>_.
     andthen (os_call (sh_mkdir h)) (\<lambda>_.
     andthen (record_event (DirMade current)) (\<lambda>_.
     andthen (dir_lstat h current) (\<lambda>l.
     andthen (look_of current l) (\<lambda>m.
     andthen (guard (fm_uid m = sh_uid h) (PermissionError ''created service directory is not owner-owned'')) (\<lambda>_.
       os_call (sh_chmod h)))))))"

fun ensure_components :: "service_host \<Rightarrow> string \<Rightarrow> string list \<Rightarrow> unit service_act" where
  "ensure_components h parent [] = ret ()"
| "ensure_components h parent (c # cs) =
     (let current = child_of parent c in
      andthen (dir_lstat h current) (\<lambda>l.
      andthen (case l of
          Missing \<Rightarrow> make_owner_dir h parent current
        | LookFailed n \<Rightarrow> raise (OSError n)
        | Seen m \<Rightarrow> andthen (check_ancestor h current) (\<lambda>_.
            guard (fm_kind m = LinkKind \<or> fm_kind m = DirectoryKind)
              (PermissionError ''service directory path must contain only real directories''))) (\<lambda>_.
        ensure_components h current cs)))"

definition ensure_owner_directory :: "service_host \<Rightarrow> string \<Rightarrow> unit service_act" where
  "ensure_owner_directory h path =
     andthen (guard (is_absolute path) (ValueError ''service directory must be absolute'')) (\<lambda>_.
     andthen (ensure_components h (path_anchor path) (path_parts path)) (\<lambda>_.
     andthen (dir_lstat h path) (\<lambda>l.
     andthen (look_of path l) (\<lambda>m.
     andthen (guard (fm_kind m = DirectoryKind \<and> fm_uid m = sh_uid h)
         (PermissionError ''service directory must be a real owner-owned directory'')) (\<lambda>_.
     andthen (os_call (sh_chmod h)) (\<lambda>_.
     andthen (dir_lstat h path) (\<lambda>l'.
     andthen (look_of path l') (\<lambda>m'.
       guard (fm_mode m' = owner_dir_mode) (PermissionError ''service directory must be owner-only'')))))))))"

definition prepare_paths :: "service_host \<Rightarrow> service_config \<Rightarrow> unit service_act" where
  "prepare_paths h c = andthen (ensure_owner_directory h (sg_durable_dir c)) (\<lambda>_.
     ensure_owner_directory h (path_parent (sg_socket c)))"

section \<open>The private socket\<close>

definition check_private_socket :: "service_host \<Rightarrow> file_meta \<Rightarrow> (exn, file_meta) res" where
  "check_private_socket h m =
     (if fm_kind m \<noteq> SocketKind then Inl (PermissionError ''private Codex path is not a Unix socket'')
      else if fm_uid m \<noteq> sh_uid h then Inl (PermissionError ''private Codex socket is not owned by the service user'')
      else if \<not> owner_only m then Inl (PermissionError ''private Codex socket must be owner-only'') else Inr m)"

definition verify_private_socket :: "service_host \<Rightarrow> service_config \<Rightarrow> file_meta service_act" where
  "verify_private_socket h c = andthen (ask (\<lambda>t. sh_lstat h t (sg_socket c))) (\<lambda>l.
     andthen (record_event (SocketLooked l)) (\<lambda>_.
     andthen (look_of (sg_socket c) l) (\<lambda>m. lift (check_private_socket h m))))"

definition PRIVATE_SOCKET_TIMEOUT :: rat where
  "PRIVATE_SOCKET_TIMEOUT = 5"

text \<open>Waiting for the child's socket; \<open>None\<close>: not over after \<open>n\<close> looks.\<close>

fun wait_private_socket :: "service_host \<Rightarrow> service_config \<Rightarrow> rat \<Rightarrow> nat \<Rightarrow> unit option service_act" where
  "wait_private_socket h c deadline 0 = ret None"
| "wait_private_socket h c deadline (Suc n) =
     andthen (ask (sh_socket_present h)) (\<lambda>present.
       if present then andthen (verify_private_socket h c) (\<lambda>m.
         andthen (modify (\<lambda>s. s\<lparr>sv_socket := Some m\<rparr>)) (\<lambda>_. ret (Some ())))
       else andthen (try_call (sh_exited h)) (\<lambda>exited.
         andthen (guard (\<not> exited) (RuntimeError ''Codex exited before creating its private socket'')) (\<lambda>_.
         andthen (ask (sh_monotonic h)) (\<lambda>now.
         andthen (guard (now < deadline) (TimeoutError ''Codex private socket did not become ready'')) (\<lambda>_.
           wait_private_socket h c deadline n)))))"

section \<open>The process\<close>

definition SIGTERM :: int where "SIGTERM = 15"
definition SIGKILL :: int where "SIGKILL = 9"

definition read_pgid :: "service_host \<Rightarrow> int \<Rightarrow> int service_act" where
  "read_pgid h pid = andthen (try_call (\<lambda>t. sh_pgid h t pid)) (\<lambda>g. andthen (record_event (PgidRead pid g)) (\<lambda>_. ret g))"

definition read_own_pgid :: "service_host \<Rightarrow> int service_act" where
  "read_own_pgid h = andthen (ask (sh_own_pgid h)) (\<lambda>g. andthen (record_event (OwnGroupRead g)) (\<lambda>_. ret g))"

definition look_group :: "service_host \<Rightarrow> int \<Rightarrow> bool service_act" where
  "look_group h g = andthen (try_call (\<lambda>t. sh_group_exists h t g)) (\<lambda>b. andthen (record_event (GroupLooked g b)) (\<lambda>_. ret b))"

definition signal_group :: "service_host \<Rightarrow> int \<Rightarrow> int \<Rightarrow> unit service_act" where
  "signal_group h g sig = andthen (record_event (Signalled g sig)) (\<lambda>_. try_call (sh_signal h))"

definition has_exited :: "service_host \<Rightarrow> bool service_act" where
  "has_exited h = attempt (try_call (sh_exited h)) (\<lambda>x. if is_os_error x then ret False else raise x)"

definition is_timeout_expired :: "exn \<Rightarrow> bool" where
  "is_timeout_expired x = (case x of TimeoutExpired _ \<Rightarrow> True | _ \<Rightarrow> False)"

definition terminate_unpinned_process :: "service_host \<Rightarrow> int \<Rightarrow> unit service_act" where
  "terminate_unpinned_process h pid =
     andthen (has_exited h) (\<lambda>exited.
       if exited then try_call (sh_wait h)
       else andthen (record_event (Terminated pid)) (\<lambda>_.
         andthen (try_call (sh_terminate h)) (\<lambda>_.
         attempt (try_call (sh_wait h)) (\<lambda>x. if is_timeout_expired x
           then andthen (record_event (Killed pid)) (\<lambda>_. andthen (try_call (sh_kill h)) (\<lambda>_. try_call (sh_wait h)))
           else raise x))))"

definition pin_process_group :: "service_host \<Rightarrow> int \<Rightarrow> int service_act" where
  "pin_process_group h pid = attempt
     (andthen (read_pgid h pid) (\<lambda>g.
      andthen (read_own_pgid h) (\<lambda>own.
      andthen (guard (1 < pid \<and> g = pid \<and> 1 < g \<and> g \<noteq> own)
          (PermissionError ''Codex process group is not a new owned session'')) (\<lambda>_. ret g))))
     (\<lambda>x. andthen (terminate_unpinned_process h pid) (\<lambda>_. raise x))"

text \<open>Waiting for the group to vanish; the answer is whether it is still there, \<open>None\<close>: not over after \<open>n\<close> looks.\<close>

fun await_group_exit :: "service_host \<Rightarrow> int \<Rightarrow> rat \<Rightarrow> nat \<Rightarrow> unit option service_act" where
  "await_group_exit h g deadline 0 = ret None"
| "await_group_exit h g deadline (Suc n) =
     andthen (look_group h g) (\<lambda>live.
       if \<not> live then ret (Some ())
       else andthen (ask (sh_monotonic h)) (\<lambda>now.
         if deadline \<le> now then ret (Some ())
         else andthen (has_exited h) (\<lambda>_. await_group_exit h g deadline n)))"

definition signal_owned_group :: "service_host \<Rightarrow> nat \<Rightarrow> int \<Rightarrow> int \<Rightarrow> unit option service_act" where
  "signal_owned_group h n pid g =
     andthen (read_pgid h pid) (\<lambda>current.
     andthen (guard (current = g \<and> current = pid) (PermissionError ''Codex process group identity changed'')) (\<lambda>_.
     andthen (signal_group h g SIGTERM) (\<lambda>_.
     andthen (attempt (try_call (sh_wait h)) (\<lambda>x. if is_timeout_expired x then ret () else raise x)) (\<lambda>_.
     andthen (look_group h g) (\<lambda>live.
     andthen (if live then signal_group h g SIGKILL else ret ()) (\<lambda>_.
     andthen (ask (sh_monotonic h)) (\<lambda>now.
     andthen (await_group_exit h g (now + 2) n) (\<lambda>r. case r of
       None \<Rightarrow> ret None
     | Some _ \<Rightarrow> andthen (look_group h g) (\<lambda>still.
         andthen (guard (\<not> still) (RuntimeError ''owned Codex process group remained live'')) (\<lambda>_.
         andthen (try_call (sh_exited h)) (\<lambda>exited.
         andthen (if exited then ret () else try_call (sh_wait h)) (\<lambda>_. ret (Some ()))))))))))))) "

definition terminate_owned_process_group :: "service_host \<Rightarrow> nat \<Rightarrow> int \<Rightarrow> int option \<Rightarrow> unit option service_act" where
  "terminate_owned_process_group h n pid pgid = (case pgid of
     None \<Rightarrow> andthen (terminate_unpinned_process h pid) (\<lambda>_. ret (Some ()))
   | Some g \<Rightarrow>
       andthen (if g \<le> 1 then ret True else andthen (read_own_pgid h) (\<lambda>own. ret (g = own))) (\<lambda>unsafe.
       andthen (guard (\<not> unsafe) (PermissionError ''refusing unsafe Codex process group'')) (\<lambda>_.
       andthen (has_exited h) (\<lambda>exited.
         if exited then andthen (look_group h g) (\<lambda>live.
           andthen (guard (\<not> live) (PermissionError ''refusing to signal a process group after its pinned leader exited'')) (\<lambda>_.
           andthen (try_call (sh_wait h)) (\<lambda>_. ret (Some ()))))
         else signal_owned_group h n pid g))))"

section \<open>Taking the service down\<close>

text \<open>A step whose exception is collected.\<close>

definition collecting :: "unit service_act \<Rightarrow> exn list service_act" where
  "collecting m = attempt (andthen m (\<lambda>_. ret [])) (\<lambda>x. ret [x])"

definition close_gateway :: "service_host \<Rightarrow> unit service_act" where
  "close_gateway h = andthen (record_event GatewayClosed) (\<lambda>_. try_call (sh_close_gateway h))"

definition drop_gateway :: "service_host \<Rightarrow> exn list service_act" where
  "drop_gateway h = andthen (observe sv_gateway) (\<lambda>held. if \<not> held then ret []
     else collecting (andthen (close_gateway h) (\<lambda>_. modify (\<lambda>s. s\<lparr>sv_gateway := False\<rparr>))))"

definition drop_connection :: "service_host \<Rightarrow> exn list service_act" where
  "drop_connection h = andthen (observe sv_connection) (\<lambda>held. if \<not> held then ret []
     else collecting (andthen (record_event ConnectionClosed) (\<lambda>_.
       andthen (try_call (sh_close_connection h)) (\<lambda>_. modify (\<lambda>s. s\<lparr>sv_connection := False\<rparr>)))))"

definition drop_process :: "service_host \<Rightarrow> nat \<Rightarrow> exn list option service_act" where
  "drop_process h n = andthen (observe sv_process) (\<lambda>held. case held of
     None \<Rightarrow> ret (Some [])
   | Some pid \<Rightarrow> andthen (observe sv_pgid) (\<lambda>pgid. attempt
       (andthen (terminate_owned_process_group h n pid pgid) (\<lambda>r. case r of
          None \<Rightarrow> ret None
        | Some _ \<Rightarrow> andthen (modify (\<lambda>s. s\<lparr>sv_process := None, sv_pgid := None\<rparr>)) (\<lambda>_. ret (Some []))))
       (\<lambda>x. ret (Some [x]))))"

definition remove_socket :: "service_host \<Rightarrow> service_config \<Rightarrow> file_meta option \<Rightarrow> unit service_act" where
  "remove_socket h c identity =
     andthen (verify_private_socket h c) (\<lambda>m.
     andthen (guard (case identity of None \<Rightarrow> False | Some i \<Rightarrow> fm_id m = fm_id i)
         (PermissionError ''private Codex socket changed after readiness'')) (\<lambda>_.
     andthen (record_event SocketRemoved) (\<lambda>_.
     andthen (os_call (sh_unlink h)) (\<lambda>_. modify (\<lambda>s. s\<lparr>sv_socket := None\<rparr>)))))"

definition drop_socket :: "service_host \<Rightarrow> service_config \<Rightarrow> file_meta option \<Rightarrow> exn list service_act" where
  "drop_socket h c identity = andthen (ask (sh_socket_present h)) (\<lambda>present.
     if present then collecting (remove_socket h c identity)
     else andthen (modify (\<lambda>s. s\<lparr>sv_socket := None\<rparr>)) (\<lambda>_. ret []))"

definition terminate_resources :: "service_host \<Rightarrow> service_config \<Rightarrow> nat \<Rightarrow> bool \<Rightarrow> unit option service_act" where
  "terminate_resources h c n suppress =
     andthen (modify (\<lambda>s. s\<lparr>sv_stopping := True\<rparr>)) (\<lambda>_.
     andthen (observe sv_socket) (\<lambda>identity.
     andthen (drop_gateway h) (\<lambda>e1.
     andthen (drop_connection h) (\<lambda>e2.
     andthen (drop_process h n) (\<lambda>r. case r of
       None \<Rightarrow> ret None
     | Some e3 \<Rightarrow> andthen (drop_socket h c identity) (\<lambda>e4. case e1 @ e2 @ e3 @ e4 of
         [] \<Rightarrow> ret (Some ())
       | x # _ \<Rightarrow> if suppress then ret (Some ()) else raise (OwnedTeardownError (exn_name x))))))))"

section \<open>Status\<close>

record service_status =
  st_ready :: bool
  st_listener :: string
  st_worker_version :: string
  st_codex_pid :: "int option"
  st_private_socket :: string
  st_exposure :: string
  st_authentication :: string

definition listener_host :: "string \<Rightarrow> string" where
  "listener_host listener = url_hostname (fst (host_port (url_netloc listener)))"

definition listener_exposure :: "service_host \<Rightarrow> service_config \<Rightarrow> string" where
  "listener_exposure h c = (let host = listener_host (sg_listener c) in
     if host = ''localhost'' then ''loopback''
     else if sh_loopback h host = Some True then ''loopback'' else ''non_loopback'')"

definition live_pid :: "service_host \<Rightarrow> int option service_act" where
  "live_pid h = andthen (observe sv_process) (\<lambda>p. case p of
     None \<Rightarrow> ret None
   | Some pid \<Rightarrow> andthen (try_call (sh_exited h)) (\<lambda>exited. ret (if exited then None else Some pid)))"

definition components_ready :: "service_host \<Rightarrow> bool service_act" where
  "components_ready h = andthen (observe sv_stopping) (\<lambda>stopping. if stopping then ret False
     else andthen (live_pid h) (\<lambda>pid. if pid = None then ret False
     else andthen (observe (\<lambda>s. sv_connection s \<and> sv_gateway s)) (\<lambda>held. if \<not> held then ret False
     else ask (sh_gateway_ready h))))"

definition mk_service_status :: "service_status \<Rightarrow> (exn, service_status) res" where
  "mk_service_status v =
     (if st_listener v = [] \<or> st_worker_version v = [] then Inl (ValueError ''listener and worker_version must be non-empty'')
      else if (case st_codex_pid v of None \<Rightarrow> False | Some p \<Rightarrow> p \<le> 0) then Inl (ValueError ''codex_pid must be positive when present'')
      else if \<not> is_absolute (st_private_socket v) then Inl (ValueError ''private_codex_socket must be absolute'') else Inr v)"

definition service_status_of :: "service_host \<Rightarrow> service_config \<Rightarrow> service_status service_act" where
  "service_status_of h c =
     andthen (components_ready h) (\<lambda>ready.
     andthen (live_pid h) (\<lambda>pid.
       lift (mk_service_status \<lparr>st_ready = ready, st_listener = sg_listener c, st_worker_version = sg_version c,
         st_codex_pid = pid, st_private_socket = sg_socket c, st_exposure = listener_exposure h c,
         st_authentication = ''none''\<rparr>)))"

section \<open>Starting\<close>

definition launch :: "service_host \<Rightarrow> service_config \<Rightarrow> nat \<Rightarrow> service_status option service_act" where
  "launch h c n =
     andthen (try_call (sh_start_gateway h)) (\<lambda>_.
     andthen (record_event GatewayStarted) (\<lambda>_.
     andthen (modify (\<lambda>s. s\<lparr>sv_gateway := True\<rparr>)) (\<lambda>_.
     andthen (try_call (sh_spawn h)) (\<lambda>pid.
     andthen (record_event (Spawned pid)) (\<lambda>_.
     andthen (modify (\<lambda>s. s\<lparr>sv_process := Some pid\<rparr>)) (\<lambda>_.
     andthen (pin_process_group h pid) (\<lambda>g.
     andthen (modify (\<lambda>s. s\<lparr>sv_pgid := Some g\<rparr>)) (\<lambda>_.
     andthen (ask (sh_monotonic h)) (\<lambda>now.
     andthen (wait_private_socket h c (now + PRIVATE_SOCKET_TIMEOUT) n) (\<lambda>r. case r of
       None \<Rightarrow> ret None
     | Some _ \<Rightarrow>
         andthen (try_call (sh_connect h)) (\<lambda>_.
         andthen (modify (\<lambda>s. s\<lparr>sv_connection := True\<rparr>)) (\<lambda>_.
         andthen (ask (sh_gateway_ready h)) (\<lambda>ready.
         andthen (if ready then try_call (sh_exited h) else ret True) (\<lambda>lost.
         andthen (guard (\<not> lost) (RuntimeError ''service components did not remain ready'')) (\<lambda>_.
         andthen (service_status_of h c) (\<lambda>v. ret (Some v))))))))))))))))) "

text \<open>\<open>_rollback_start\<close>; \<open>None\<close> while taking the process down is not over.\<close>

definition rollback_start :: "service_host \<Rightarrow> service_config \<Rightarrow> nat \<Rightarrow> unit option service_act" where
  "rollback_start h c n =
     andthen (observe sv_gateway) (\<lambda>held.
     andthen (if held then ret [] else collecting (close_gateway h)) (\<lambda>_.
       terminate_resources h c n True))"

definition service_start :: "service_host \<Rightarrow> service_config \<Rightarrow> nat \<Rightarrow> service_status option service_act" where
  "service_start h c n =
     andthen (service_status_of h c) (\<lambda>v.
       if st_ready v then andthen (service_status_of h c) (\<lambda>w. ret (Some w))
       else andthen (prepare_paths h c) (\<lambda>_.
         andthen (ask (sh_socket_present h)) (\<lambda>present.
         andthen (guard (\<not> present) (FileExistsError ''private Codex socket already exists; refusing to unlink it'')) (\<lambda>_.
         andthen (try_call (sh_create_gateway h)) (\<lambda>_.
           attempt (launch h c n) (\<lambda>x. andthen (rollback_start h c n) (\<lambda>r. case r of
             None \<Rightarrow> ret None | Some _ \<Rightarrow> raise x)))))))"

text \<open>\<open>_ServiceLifecycle.terminate_owned\<close>: only with a live lease of the gate.\<close>

definition lifecycle_terminate :: "service_host \<Rightarrow> service_config \<Rightarrow> nat \<Rightarrow> gate \<Rightarrow> drain_lease \<Rightarrow> unit option service_act" where
  "lifecycle_terminate h c n g lease = andthen (lift (authorize g lease)) (\<lambda>_. terminate_resources h c n False)"

end
