(* ===== verification/ServiceProps.thy ===== *)
theory ServiceProps
  imports Service
begin

text \<open>
  What the service may do to processes and to the file system, read off the log of its calls:
  which calls must have come before a signal or a removal (\<open>event_ok\<close>), the invariant of the
  service's fields that makes it so, and what a finished teardown leaves.
\<close>

section \<open>What has to come before\<close>

definition pinned :: "int \<Rightarrow> service_event list \<Rightarrow> bool" where
  "pinned g past \<longleftrightarrow> 1 < g \<and> Spawned g \<in> set past \<and> PgidRead g g \<in> set past \<and> (\<exists>own. own \<noteq> g \<and> OwnGroupRead own \<in> set past)"

definition private_socket :: "int \<Rightarrow> file_meta \<Rightarrow> bool" where
  "private_socket uid m \<longleftrightarrow> fm_kind m = SocketKind \<and> fm_uid m = uid \<and> owner_only m"

definition seen_when_ready :: "int \<Rightarrow> file_meta \<Rightarrow> service_event list \<Rightarrow> bool" where
  "seen_when_ready uid m past \<longleftrightarrow> private_socket uid m \<and>
     (\<exists>later earlier pid. past = later @ SocketLooked (Seen m) # earlier \<and> Spawned pid \<in> set earlier)"

definition event_ok :: "int \<Rightarrow> service_event \<Rightarrow> service_event list \<Rightarrow> bool" where
  "event_ok uid e past = (case e of
     Signalled g sig \<Rightarrow> pinned g past \<and>
       (sig = SIGTERM \<and> (\<exists>own rest. own \<noteq> g \<and> past = PgidRead g g # OwnGroupRead own # rest)
        \<or> sig = SIGKILL \<and> Signalled g SIGTERM \<in> set past \<and> (\<exists>rest. past = GroupLooked g True # rest))
   | Terminated pid \<Rightarrow> Spawned pid \<in> set past
   | Killed pid \<Rightarrow> Terminated pid \<in> set past
   | SocketRemoved \<Rightarrow> (\<exists>m i rest. past = SocketLooked (Seen m) # rest \<and> private_socket uid m
       \<and> fm_id m = fm_id i \<and> seen_when_ready uid i rest)
   | _ \<Rightarrow> True)"

fun log_ok :: "int \<Rightarrow> service_event list \<Rightarrow> bool" where
  "log_ok uid [] = True"
| "log_ok uid (e # past) = (event_ok uid e past \<and> log_ok uid past)"

definition service_inv :: "int \<Rightarrow> service_state \<Rightarrow> bool" where
  "service_inv uid s \<longleftrightarrow> log_ok uid (sv_log s)
     \<and> (\<forall>pid. sv_process s = Some pid \<longrightarrow> Spawned pid \<in> set (sv_log s))
     \<and> (\<forall>g. sv_pgid s = Some g \<longrightarrow> pinned g (sv_log s))
     \<and> (\<forall>m. sv_socket s = Some m \<longrightarrow> seen_when_ready uid m (sv_log s))"

section \<open>Quiet calls\<close>

definition harmless :: "service_event \<Rightarrow> bool" where
  "harmless e = (case e of Signalled _ _ \<Rightarrow> False | Terminated _ \<Rightarrow> False | Killed _ \<Rightarrow> False | SocketRemoved \<Rightarrow> False | _ \<Rightarrow> True)"

definition quiet_service :: "service_state \<Rightarrow> service_state \<Rightarrow> bool" where
  "quiet_service s s' \<longleftrightarrow> (\<exists>evs. sv_log s' = evs @ sv_log s \<and> list_all harmless evs)
     \<and> sv_process s' = sv_process s \<and> sv_pgid s' = sv_pgid s \<and> sv_connection s' = sv_connection s
     \<and> sv_gateway s' = sv_gateway s \<and> sv_socket s' = sv_socket s \<and> sv_stopping s' = sv_stopping s"

interpretation still: frame_relation quiet_service
proof unfold_locales
  fix s t u
  show "quiet_service s s" by (auto simp: quiet_service_def)
  assume st: "quiet_service s t" and tu: "quiet_service t u"
  from st obtain evs where a: "sv_log t = evs @ sv_log s" "list_all harmless evs" by (auto simp: quiet_service_def)
  from tu obtain evs' where b: "sv_log u = evs' @ sv_log t" "list_all harmless evs'" by (auto simp: quiet_service_def)
  show "quiet_service s u"
    using st tu a b unfolding quiet_service_def by (intro conjI exI [of _ "evs' @ evs"]) simp_all
qed

lemma event_ok_harmless: "harmless e \<Longrightarrow> event_ok uid e past"
  by (cases e) (simp_all add: harmless_def event_ok_def)

lemma log_ok_append: "list_all harmless evs \<Longrightarrow> log_ok uid (evs @ past) = log_ok uid past"
  by (induction evs) (simp_all add: event_ok_harmless)

lemma pinned_append: "pinned g past \<Longrightarrow> pinned g (evs @ past)"
  by (auto simp: pinned_def)

lemma seen_append: "seen_when_ready uid m past \<Longrightarrow> seen_when_ready uid m (evs @ past)"
  unfolding seen_when_ready_def by (metis append.assoc)

lemma pinned_Cons: "pinned g past \<Longrightarrow> pinned g (e # past)"
  using pinned_append [of g past "[e]"] by simp

lemma seen_Cons: "seen_when_ready uid m past \<Longrightarrow> seen_when_ready uid m (e # past)"
  using seen_append [of uid m past "[e]"] by simp

definition grows_only :: "(service_state \<Rightarrow> bool) \<Rightarrow> bool" where
  "grows_only P \<longleftrightarrow> (\<forall>s s'. quiet_service s s' \<longrightarrow> P s \<longrightarrow> P s')"

lemma hoare_still: "keeps quiet_service m \<Longrightarrow> grows_only P \<Longrightarrow> hoare P m (\<lambda>_. P) (\<lambda>_. P)"
  unfolding grows_only_def by (intro hoareI) (blast dest: keepsD)+

lemma grows_inv: "grows_only (service_inv uid)"
  by (auto simp: grows_only_def quiet_service_def service_inv_def log_ok_append pinned_append seen_append)

lemma grows_event: "grows_only (\<lambda>s. e \<in> set (sv_log s))" "grows_only (\<lambda>s. pinned g (sv_log s))"
  by (auto simp: grows_only_def quiet_service_def pinned_append)

lemma grows_fields: "grows_only (\<lambda>s. sv_process s = p)" "grows_only (\<lambda>s. sv_pgid s = g)" "grows_only (\<lambda>s. sv_socket s = m)"
  "grows_only (\<lambda>s. sv_gateway s = b)" "grows_only (\<lambda>s. sv_connection s = b)" "grows_only (\<lambda>s. sv_stopping s = b)"
  by (auto simp: grows_only_def quiet_service_def)

lemma grows_conj: "grows_only P \<Longrightarrow> grows_only Q \<Longrightarrow> grows_only (\<lambda>s. P s \<and> Q s)"
  by (auto simp: grows_only_def)

lemmas grows = grows_conj grows_inv grows_event grows_fields

lemma still_steps: "keeps quiet_service (ask f)" "harmless e \<Longrightarrow> keeps quiet_service (record_event e)"
  by (auto simp: keeps_def ask_def record_event_def modify_def quiet_service_def)

lemma still_calls: "keeps quiet_service (try_call f)" "keeps quiet_service (os_call g)" "keeps quiet_service (look_of p l)"
  by (auto simp: try_call_def os_call_def look_of_def intro!: still.sequence still.basic still_steps split: look.splits)

lemmas still_rules = still.sequence still.basic still.branch still.handler still.option_cases still_steps still_calls

lemma still_reads: "keeps quiet_service (has_exited h)" "keeps quiet_service (read_pgid h pid)"
  "keeps quiet_service (read_own_pgid h)" "keeps quiet_service (look_group h g)" "keeps quiet_service (dir_lstat h p)"
  by (auto simp: has_exited_def read_pgid_def read_own_pgid_def look_group_def dir_lstat_def harmless_def intro!: still_rules)

lemma still_ancestor: "keeps quiet_service (check_ancestor h p)"
  unfolding check_ancestor_def by (intro still_rules)

lemma still_make_dir: "keeps quiet_service (make_owner_dir h p c)"
  unfolding make_owner_dir_def by (intro still_rules still_reads still_ancestor) (simp add: harmless_def)

lemma still_components: "keeps quiet_service (ensure_components h p cs)"
proof (induction cs arbitrary: p)
  case (Cons c cs)
  have "keeps quiet_service (case l of Missing \<Rightarrow> make_owner_dir h p (child_of p c) | LookFailed n \<Rightarrow> raise (OSError n)
      | Seen m \<Rightarrow> andthen (check_ancestor h (child_of p c)) (\<lambda>_. guard (fm_kind m = LinkKind \<or> fm_kind m = DirectoryKind)
          (PermissionError ''service directory path must contain only real directories'')))" for l
    by (cases l) (auto intro!: still_rules still_make_dir still_ancestor)
  then show ?case
    by (simp only: ensure_components.simps Let_def) (intro still_rules still_reads Cons.IH)
qed (simp add: still.basic)

lemma still_directory: "keeps quiet_service (ensure_owner_directory h p)"
  unfolding ensure_owner_directory_def by (intro still_rules still_reads still_components)

lemma still_prepare: "keeps quiet_service (prepare_paths h c)"
  unfolding prepare_paths_def by (intro still_rules still_directory)

lemma still_verify: "keeps quiet_service (verify_private_socket h c)"
  unfolding verify_private_socket_def by (intro still_rules) (simp add: harmless_def)

lemma still_live: "keeps quiet_service (live_pid h)"
  unfolding live_pid_def by (intro still_rules)

lemma still_ready: "keeps quiet_service (components_ready h)"
  unfolding components_ready_def by (intro still_rules still_live)

lemma still_status: "keeps quiet_service (service_status_of h c)"
  unfolding service_status_of_def by (intro still_rules still_live still_ready)

lemma still_await: "keeps quiet_service (await_group_exit h g d n)"
  by (induction n) (auto intro!: still_rules still_reads)

section \<open>Calls that only take time\<close>

definition silent :: "service_state \<Rightarrow> service_state \<Rightarrow> bool" where
  "silent s s' \<longleftrightarrow> (\<exists>c. s' = s\<lparr>sv_clock := c\<rparr>)"

interpretation silence: frame_relation silent
proof unfold_locales
  fix s t u
  show "silent s s" unfolding silent_def by (intro exI [of _ "sv_clock s"]) simp
  show "silent s t \<Longrightarrow> silent t u \<Longrightarrow> silent s u" by (auto simp: silent_def)
qed

lemma silent_steps: "keeps silent (ask f)" "keeps silent (try_call g)" "keeps silent (has_exited h)"
proof -
  show a: "keeps silent (ask f)" for f :: "nat \<Rightarrow> 'z" by (auto simp: keeps_def ask_def silent_def)
  show b: "keeps silent (try_call g)" for g :: "nat \<Rightarrow> (exn, 'z) res"
    unfolding try_call_def by (intro silence.sequence a silence.basic)
  show "keeps silent (has_exited h)"
    unfolding has_exited_def by (intro silence.handler b silence.branch silence.basic)
qed

lemma hoare_silent:
  assumes "keeps silent m" "\<And>s c. P s \<Longrightarrow> P (s\<lparr>sv_clock := c\<rparr>)"
  shows "hoare P m (\<lambda>_. P) (\<lambda>_. P)"
  by (rule hoareI) (use assms in \<open>auto dest!: keepsD simp: silent_def\<close>)

lemma hoare_ask: "(\<And>s c. P s \<Longrightarrow> P (s\<lparr>sv_clock := c\<rparr>)) \<Longrightarrow> hoare P (ask f) (\<lambda>_. P) E"
  by (auto simp: hoare_def ask_def)

lemma inv_clock: "service_inv uid (s\<lparr>sv_clock := c\<rparr>) = service_inv uid s"
  by (simp add: service_inv_def)

lemma inv_record: "service_inv uid s \<Longrightarrow> event_ok uid e (sv_log s) \<Longrightarrow> service_inv uid (s\<lparr>sv_log := e # sv_log s\<rparr>)"
  by (simp add: service_inv_def pinned_Cons seen_Cons)

lemma hoare_record:
  assumes "\<And>s. P s \<Longrightarrow> Q () (s\<lparr>sv_log := e # sv_log s\<rparr>)"
  shows "hoare P (record_event e) Q E"
  unfolding record_event_def by (rule hoare_basic(4)) (rule assms)

lemma hoare_logged:
  assumes "keeps silent m" "\<And>s c. P s \<Longrightarrow> P (s\<lparr>sv_clock := c\<rparr>)" "\<And>s x. P s \<Longrightarrow> Q x (s\<lparr>sv_log := e x # sv_log s\<rparr>)"
  shows "hoare P (andthen m (\<lambda>x. andthen (record_event (e x)) (\<lambda>_. ret x))) Q (\<lambda>_. P)"
proof (rule hoare_andthen [OF hoare_silent])
  show "hoare P (andthen (record_event (e x)) (\<lambda>_. ret x)) Q (\<lambda>_. P)" for x
    using assms(3) by (auto simp: hoare_def record_event_def andthen_def modify_def ret_def)
qed (use assms in auto)

lemma inv_harmless: "service_inv uid s \<Longrightarrow> harmless e \<Longrightarrow> service_inv uid (s\<lparr>sv_log := e # sv_log s\<rparr>)"
  by (rule inv_record) (simp_all add: event_ok_harmless)

lemma harmless_reads [simp]: "harmless (PgidRead p g)" "harmless (OwnGroupRead g)" "harmless (GroupLooked g b)"
  "harmless (SocketLooked l)" "harmless (Spawned p)"
  by (simp_all add: harmless_def)

section \<open>Ending the process\<close>

lemma grows_spawned: "grows_only (\<lambda>s. service_inv uid s \<and> Spawned pid \<in> set (sv_log s))"
  by (intro grows)

lemma hoare_ends: "(\<And>s. P s \<Longrightarrow> R s) \<Longrightarrow> hoare R m (\<lambda>_. R) (\<lambda>_. R) \<Longrightarrow> hoare P m (\<lambda>_. R) (\<lambda>_. R)"
  by (erule hoare_weaken) auto

lemma hoare_still_inv: "keeps quiet_service m \<Longrightarrow> (\<And>s. P s \<Longrightarrow> service_inv uid s) \<Longrightarrow> hoare P m (\<lambda>_. service_inv uid) (\<lambda>_. service_inv uid)"
  by (rule hoare_ends, assumption, rule hoare_still [OF _ grows_inv])

lemma hoare_log_event:
  assumes "\<And>s. P s \<Longrightarrow> service_inv uid s \<and> event_ok uid e (sv_log s)"
  shows "hoare P (record_event e) (\<lambda>_ s. service_inv uid s \<and> e \<in> set (sv_log s)) E"
  by (rule hoare_record) (use assms in \<open>auto intro: inv_record\<close>)

lemma unpinned_inv:
  "hoare (\<lambda>s. service_inv uid s \<and> Spawned pid \<in> set (sv_log s)) (terminate_unpinned_process h pid)
     (\<lambda>_. service_inv uid) (\<lambda>_. service_inv uid)"
proof -
  have kill: "hoare (\<lambda>s. service_inv uid s \<and> Terminated pid \<in> set (sv_log s))
      (andthen (record_event (Killed pid)) (\<lambda>_. andthen (try_call (sh_kill h)) (\<lambda>_. try_call (sh_wait h))))
      (\<lambda>_. service_inv uid) (\<lambda>_. service_inv uid)"
    by (rule hoare_andthen, rule hoare_log_event [where uid = uid]) (auto simp: event_ok_def intro!: hoare_still_inv still_rules)
  have alive: "hoare (\<lambda>s. service_inv uid s \<and> Spawned pid \<in> set (sv_log s))
      (andthen (record_event (Terminated pid)) (\<lambda>_. andthen (try_call (sh_terminate h)) (\<lambda>_.
         attempt (try_call (sh_wait h)) (\<lambda>x. if is_timeout_expired x
           then andthen (record_event (Killed pid)) (\<lambda>_. andthen (try_call (sh_kill h)) (\<lambda>_. try_call (sh_wait h)))
           else raise x))))
      (\<lambda>_. service_inv uid) (\<lambda>_. service_inv uid)" (is "hoare _ (andthen _ (\<lambda>_. andthen _ (\<lambda>_. attempt _ ?h))) _ _")
  proof (rule hoare_andthen, rule hoare_log_event [where uid = uid], simp add: event_ok_def, rule hoare_andthen)
    show "hoare (\<lambda>s. service_inv uid s \<and> Terminated pid \<in> set (sv_log s)) (try_call (sh_terminate h))
        (\<lambda>_ s. service_inv uid s \<and> Terminated pid \<in> set (sv_log s)) (\<lambda>_. service_inv uid)"
      by (rule hoare_weaken [OF hoare_still [OF still_calls(1) grows_conj [OF grows_inv grows_event(1)]]]) auto
    show "hoare (\<lambda>s. service_inv uid s \<and> Terminated pid \<in> set (sv_log s)) (attempt (try_call (sh_wait h)) ?h)
        (\<lambda>_. service_inv uid) (\<lambda>_. service_inv uid)"
    proof (rule hoare_attempt [where E' = "\<lambda>_ s. service_inv uid s \<and> Terminated pid \<in> set (sv_log s)"])
      show "hoare (\<lambda>s. service_inv uid s \<and> Terminated pid \<in> set (sv_log s)) (try_call (sh_wait h)) (\<lambda>_. service_inv uid)
          (\<lambda>_ s. service_inv uid s \<and> Terminated pid \<in> set (sv_log s))"
        by (rule hoare_weaken [OF hoare_still [OF still_calls(1) grows_conj [OF grows_inv grows_event(1)]]]) auto
      show "hoare (\<lambda>s. service_inv uid s \<and> Terminated pid \<in> set (sv_log s)) (?h x) (\<lambda>_. service_inv uid) (\<lambda>_. service_inv uid)" for x
        using kill by (cases "is_timeout_expired x") (auto intro: hoare_basic)
    qed
  qed
  show ?thesis
    unfolding terminate_unpinned_process_def
  proof (rule hoare_andthen)
    show "hoare (\<lambda>s. service_inv uid s \<and> Spawned pid \<in> set (sv_log s)) (has_exited h)
        (\<lambda>_ s. service_inv uid s \<and> Spawned pid \<in> set (sv_log s)) (\<lambda>_. service_inv uid)"
      by (rule hoare_weaken [OF hoare_still [OF still_reads(1) grows_spawned]]) auto
    show "hoare (\<lambda>s. service_inv uid s \<and> Spawned pid \<in> set (sv_log s)) (if b then try_call (sh_wait h)
        else andthen (record_event (Terminated pid)) (\<lambda>_. andthen (try_call (sh_terminate h)) (\<lambda>_. attempt (try_call (sh_wait h)) ?h)))
        (\<lambda>_. service_inv uid) (\<lambda>_. service_inv uid)" for b
      using alive by (cases b) (auto intro: hoare_still_inv still_calls)
  qed
qed

lemma pin_inv:
  "hoare (\<lambda>s. service_inv uid s \<and> Spawned pid \<in> set (sv_log s)) (pin_process_group h pid)
     (\<lambda>g s. service_inv uid s \<and> pinned g (sv_log s) \<and> Spawned pid \<in> set (sv_log s)) (\<lambda>_. service_inv uid)"
proof -
  let ?P = "\<lambda>s. service_inv uid s \<and> Spawned pid \<in> set (sv_log s)"
  have read: "hoare ?P (read_pgid h pid) (\<lambda>g s. ?P s \<and> PgidRead pid g \<in> set (sv_log s)) (\<lambda>_. ?P)"
    unfolding read_pgid_def by (rule hoare_logged) (auto simp: silent_steps inv_clock intro: inv_harmless)
  have own: "hoare (\<lambda>s. ?P s \<and> PgidRead pid g \<in> set (sv_log s)) (read_own_pgid h)
      (\<lambda>own s. ?P s \<and> PgidRead pid g \<in> set (sv_log s) \<and> OwnGroupRead own \<in> set (sv_log s)) (\<lambda>_. ?P)" for g
    unfolding read_own_pgid_def
    by (rule hoare_weaken [OF hoare_logged [where P = "\<lambda>s. ?P s \<and> PgidRead pid g \<in> set (sv_log s)"]])
      (auto simp: silent_steps inv_clock intro: inv_harmless)
  show ?thesis
    unfolding pin_process_group_def
  proof (rule hoare_attempt [where E' = "\<lambda>_. ?P"])
    show "hoare ?P (andthen (read_pgid h pid) (\<lambda>g. andthen (read_own_pgid h) (\<lambda>own. andthen (guard (1 < pid \<and> g = pid \<and> 1 < g \<and> g \<noteq> own)
          (PermissionError ''Codex process group is not a new owned session'')) (\<lambda>_. ret g))))
        (\<lambda>g s. service_inv uid s \<and> pinned g (sv_log s) \<and> Spawned pid \<in> set (sv_log s)) (\<lambda>_. ?P)"
      by (rule hoare_andthen [OF read], rule hoare_andthen [OF own])
        (auto simp: hoare_def act_defs pinned_def)
    show "hoare ?P (andthen (terminate_unpinned_process h pid) (\<lambda>_. raise x))
        (\<lambda>g s. service_inv uid s \<and> pinned g (sv_log s) \<and> Spawned pid \<in> set (sv_log s)) (\<lambda>_. service_inv uid)" for x
      by (rule hoare_andthen [OF unpinned_inv]) (simp add: hoare_def raise_def)
  qed
qed

lemma signal_owned_inv:
  "hoare (\<lambda>s. service_inv uid s \<and> pinned g (sv_log s) \<and> (\<exists>own rest. own \<noteq> g \<and> sv_log s = OwnGroupRead own # rest))
     (signal_owned_group h n pid g) (\<lambda>_. service_inv uid) (\<lambda>_. service_inv uid)"
proof -
  let ?P = "\<lambda>s. service_inv uid s \<and> pinned g (sv_log s) \<and> (\<exists>own rest. own \<noteq> g \<and> sv_log s = OwnGroupRead own # rest)"
  let ?Q = "\<lambda>current s. service_inv uid s \<and> pinned g (sv_log s)
     \<and> (\<exists>own rest. own \<noteq> g \<and> sv_log s = PgidRead pid current # OwnGroupRead own # rest)"
  let ?T = "\<lambda>s. service_inv uid s \<and> pinned g (sv_log s) \<and> Signalled g SIGTERM \<in> set (sv_log s)"
  let ?L = "\<lambda>live s. ?T s \<and> (\<exists>rest. sv_log s = GroupLooked g live # rest)"
  have read: "hoare ?P (read_pgid h pid) ?Q (\<lambda>_. service_inv uid)"
    unfolding read_pgid_def
    by (rule hoare_weaken [OF hoare_logged [where P = ?P and Q = ?Q]])
      (auto simp: silent_steps inv_clock pinned_Cons intro: inv_harmless)
  have check: "hoare (?Q current) (guard (current = g \<and> current = pid) x) (\<lambda>_. ?Q g) (\<lambda>_. service_inv uid)" if "pid = g" for current x
    using that by (auto simp: hoare_def guard_def)
  have check': "hoare (?Q current) (guard (current = g \<and> current = pid) x) (\<lambda>_ s. False) (\<lambda>_. service_inv uid)" if "pid \<noteq> g" for current x
    using that by (auto simp: hoare_def guard_def)
  have sigterm: "hoare (?Q g) (signal_group h g SIGTERM) (\<lambda>_. ?T) (\<lambda>_. ?T)" if "pid = g"
    unfolding signal_group_def
  proof (rule hoare_andthen)
    show "hoare (?Q g) (record_event (Signalled g SIGTERM)) (\<lambda>_. ?T) (\<lambda>_. ?T)"
      by (rule hoare_record) (use that in \<open>auto simp: event_ok_def pinned_Cons intro!: inv_record\<close>)
    show "hoare ?T (try_call (sh_signal h)) (\<lambda>_. ?T) (\<lambda>_. ?T)"
      by (rule hoare_silent [OF silent_steps(2)]) (simp add: inv_clock)
  qed
  have waits: "hoare ?T (attempt (try_call (sh_wait h)) (\<lambda>x. if is_timeout_expired x then ret () else raise x)) (\<lambda>_. ?T) (\<lambda>_. ?T)"
    by (rule hoare_still) (intro still_rules grows)+
  have looks: "hoare ?T (look_group h g) ?L (\<lambda>_. ?T)"
    unfolding look_group_def by (rule hoare_logged) (auto simp: silent_steps inv_clock pinned_Cons intro: inv_harmless)
  have kills: "hoare (?L live) (if live then signal_group h g SIGKILL else ret ()) (\<lambda>_. service_inv uid) (\<lambda>_. service_inv uid)" for live
  proof (cases live)
    case True
    have "hoare (?L True) (record_event (Signalled g SIGKILL)) (\<lambda>_. service_inv uid) (\<lambda>_. service_inv uid)"
      by (rule hoare_record) (auto simp: event_ok_def intro!: inv_record)
    then have "hoare (?L True) (signal_group h g SIGKILL) (\<lambda>_. service_inv uid) (\<lambda>_. service_inv uid)"
      unfolding signal_group_def by (rule hoare_andthen) (auto intro!: hoare_still_inv still_calls)
    then show ?thesis using True by simp
  qed (auto intro: hoare_basic)
  have rest: "keeps quiet_service (andthen (ask (sh_monotonic h)) (\<lambda>now.
     andthen (await_group_exit h g (now + 2) n) (\<lambda>r. case r of
       None \<Rightarrow> ret None
     | Some _ \<Rightarrow> andthen (look_group h g) (\<lambda>still.
         andthen (guard (\<not> still) (RuntimeError ''owned Codex process group remained live'')) (\<lambda>_.
         andthen (try_call (sh_exited h)) (\<lambda>exited.
         andthen (if exited then ret () else try_call (sh_wait h)) (\<lambda>_. ret (Some ()))))))))"
    by (intro still_rules still_await still_reads)
  show ?thesis
  proof (cases "pid = g")
    case True
    show ?thesis
      unfolding signal_owned_group_def
      by (rule hoare_andthen [OF read], rule hoare_andthen [OF check [OF True]],
          rule hoare_andthen, rule hoare_weaken [OF sigterm [OF True]], assumption, assumption, simp,
          rule hoare_andthen, rule hoare_weaken [OF waits], assumption, assumption, simp,
          rule hoare_andthen, rule hoare_weaken [OF looks], assumption, assumption, simp,
          rule hoare_andthen [OF kills], rule hoare_still_inv [OF rest], assumption)
  next
    case False
    show ?thesis
      unfolding signal_owned_group_def
      by (rule hoare_andthen [OF read], rule hoare_andthen [OF check' [OF False]]) (simp add: hoare_def)
  qed
qed

lemma terminate_owned_inv:
  "hoare (\<lambda>s. service_inv uid s \<and> Spawned pid \<in> set (sv_log s) \<and> (\<forall>g. pgid = Some g \<longrightarrow> pinned g (sv_log s)))
     (terminate_owned_process_group h n pid pgid) (\<lambda>_. service_inv uid) (\<lambda>_. service_inv uid)"
proof (cases pgid)
  case None
  show ?thesis
    unfolding None terminate_owned_process_group_def option.case
    by (rule hoare_andthen [where R = "\<lambda>_. service_inv uid"], rule hoare_weaken [OF unpinned_inv]) (auto simp: hoare_def ret_def)
next
  case (Some g)
  let ?P = "\<lambda>s. service_inv uid s \<and> pinned g (sv_log s)"
  let ?O = "\<lambda>own s. ?P s \<and> (\<exists>rest. sv_log s = OwnGroupRead own # rest)"
  let ?U = "\<lambda>unsafe s. ?P s \<and> (\<not> unsafe \<longrightarrow> (\<exists>own rest. own \<noteq> g \<and> sv_log s = OwnGroupRead own # rest))"
  have own: "hoare ?P (read_own_pgid h) ?O (\<lambda>_. ?P)"
    unfolding read_own_pgid_def by (rule hoare_logged) (auto simp: silent_steps inv_clock pinned_Cons intro: inv_harmless)
  have unsafe: "hoare ?P (if g \<le> 1 then ret True else andthen (read_own_pgid h) (\<lambda>own. ret (g = own))) ?U (\<lambda>_. service_inv uid)"
  proof (cases "g \<le> 1")
    case False
    have "hoare ?P (andthen (read_own_pgid h) (\<lambda>own. ret (g = own))) ?U (\<lambda>_. ?P)"
      by (rule hoare_andthen [OF own]) (auto simp: hoare_def ret_def)
    then show ?thesis using False by (auto elim: hoare_weaken)
  qed (simp add: hoare_def ret_def)
  have go: "hoare (?U unsafe) (andthen (guard (\<not> unsafe) x) (\<lambda>_. andthen (has_exited h) (\<lambda>exited.
         if exited then andthen (look_group h g) (\<lambda>live.
           andthen (guard (\<not> live) (PermissionError ''refusing to signal a process group after its pinned leader exited'')) (\<lambda>_.
           andthen (try_call (sh_wait h)) (\<lambda>_. ret (Some ()))))
         else signal_owned_group h n pid g))) (\<lambda>_. service_inv uid) (\<lambda>_. service_inv uid)" for unsafe x
  proof (rule hoare_andthen [where R = "\<lambda>_. ?U False"])
    show "hoare (?U unsafe) (guard (\<not> unsafe) x) (\<lambda>_. ?U False) (\<lambda>_. service_inv uid)"
      by (auto simp: hoare_def guard_def)
    let ?gone = "andthen (look_group h g) (\<lambda>live.
           andthen (guard (\<not> live) (PermissionError ''refusing to signal a process group after its pinned leader exited'')) (\<lambda>_.
           andthen (try_call (sh_wait h)) (\<lambda>_. ret (Some ()))))"
    have gone: "keeps quiet_service ?gone" by (intro still_rules still_reads)
    show "hoare (?U False) (andthen (has_exited h) (\<lambda>exited.
         if exited then andthen (look_group h g) (\<lambda>live.
           andthen (guard (\<not> live) (PermissionError ''refusing to signal a process group after its pinned leader exited'')) (\<lambda>_.
           andthen (try_call (sh_wait h)) (\<lambda>_. ret (Some ()))))
         else signal_owned_group h n pid g)) (\<lambda>_. service_inv uid) (\<lambda>_. service_inv uid)"
    proof (rule hoare_andthen [where R = "\<lambda>_. ?U False"])
      show "hoare (?U False) (has_exited h) (\<lambda>_. ?U False) (\<lambda>_. service_inv uid)"
        by (rule hoare_weaken [OF hoare_silent [OF silent_steps(3), where P = "?U False"]]) (auto simp: inv_clock)
      show "hoare (?U False) (if exited then andthen (look_group h g) (\<lambda>live.
           andthen (guard (\<not> live) (PermissionError ''refusing to signal a process group after its pinned leader exited'')) (\<lambda>_.
           andthen (try_call (sh_wait h)) (\<lambda>_. ret (Some ()))))
         else signal_owned_group h n pid g) (\<lambda>_. service_inv uid) (\<lambda>_. service_inv uid)" for exited
      proof (cases exited)
        case True
        have "hoare (?U False) ?gone (\<lambda>_. service_inv uid) (\<lambda>_. service_inv uid)" by (rule hoare_still_inv [OF gone]) simp
        then show ?thesis using True by simp
      next
        case False
        show ?thesis unfolding if_not_P [OF False] by (rule hoare_weaken [OF signal_owned_inv]) auto
      qed
    qed
  qed
  show ?thesis
    unfolding Some terminate_owned_process_group_def option.case
    by (rule hoare_andthen [OF _ go], rule hoare_weaken [OF unsafe]) auto
qed

section \<open>The socket\<close>

lemma verify_looks:
  assumes "\<And>s c. P s \<Longrightarrow> P (s\<lparr>sv_clock := c\<rparr>)"
  shows "hoare P (verify_private_socket h c)
     (\<lambda>m s. private_socket (sh_uid h) m \<and> (\<exists>s0. P s0 \<and> s = s0\<lparr>sv_log := SocketLooked (Seen m) # sv_log s0\<rparr>))
     (\<lambda>_ s. \<exists>s0 l. P s0 \<and> s = s0\<lparr>sv_log := SocketLooked l # sv_log s0\<rparr>)"
proof (unfold verify_private_socket_def, rule hoare_andthen [OF hoare_ask])
  show "hoare P (andthen (record_event (SocketLooked l)) (\<lambda>_. andthen (look_of (sg_socket c) l) (\<lambda>m. lift (check_private_socket h m))))
     (\<lambda>m s. private_socket (sh_uid h) m \<and> (\<exists>s0. P s0 \<and> s = s0\<lparr>sv_log := SocketLooked (Seen m) # sv_log s0\<rparr>))
     (\<lambda>_ s. \<exists>s0 l. P s0 \<and> s = s0\<lparr>sv_log := SocketLooked l # sv_log s0\<rparr>)" for l
    by (cases l) (auto simp: hoare_def andthen_def record_event_def modify_def look_of_def lift_def ret_def raise_def
        check_private_socket_def private_socket_def)
qed (simp add: assms)

lemma inv_looked: "service_inv uid s \<Longrightarrow> service_inv uid (s\<lparr>sv_log := SocketLooked l # sv_log s\<rparr>)"
  by (rule inv_harmless) simp_all

lemma wait_socket_inv:
  "hoare (\<lambda>s. service_inv (sh_uid h) s \<and> Spawned pid \<in> set (sv_log s)) (wait_private_socket h c d n)
     (\<lambda>_. service_inv (sh_uid h)) (\<lambda>_. service_inv (sh_uid h))"
proof (induction n)
  case 0
  show ?case by (simp add: hoare_def ret_def)
next
  case (Suc n)
  let ?P = "\<lambda>s. service_inv (sh_uid h) s \<and> Spawned pid \<in> set (sv_log s)"
  have seen: "hoare ?P (andthen (verify_private_socket h c) (\<lambda>m. andthen (modify (\<lambda>s. s\<lparr>sv_socket := Some m\<rparr>)) (\<lambda>_. ret (Some ()))))
      (\<lambda>_. service_inv (sh_uid h)) (\<lambda>_. service_inv (sh_uid h))"
  proof (rule hoare_andthen)
    show "hoare ?P (verify_private_socket h c)
        (\<lambda>m s. private_socket (sh_uid h) m \<and> (\<exists>s0. ?P s0 \<and> s = s0\<lparr>sv_log := SocketLooked (Seen m) # sv_log s0\<rparr>))
        (\<lambda>_. service_inv (sh_uid h))"
      by (rule hoare_weaken [OF verify_looks [where P = ?P]]) (auto simp: inv_clock intro: inv_looked)
    have "service_inv (sh_uid h) (s0\<lparr>sv_log := SocketLooked (Seen m) # sv_log s0, sv_socket := Some m\<rparr>)"
      if "?P s0" "private_socket (sh_uid h) m" for s0 m
    proof -
      have "seen_when_ready (sh_uid h) m (SocketLooked (Seen m) # sv_log s0)"
        using that unfolding seen_when_ready_def by (metis append_Nil)
      then show ?thesis using inv_looked [of "sh_uid h" s0 "Seen m"] that by (simp add: service_inv_def)
    qed
    then show "hoare (\<lambda>s. private_socket (sh_uid h) m \<and> (\<exists>s0. ?P s0 \<and> s = s0\<lparr>sv_log := SocketLooked (Seen m) # sv_log s0\<rparr>))
        (andthen (modify (\<lambda>s. s\<lparr>sv_socket := Some m\<rparr>)) (\<lambda>_. ret (Some ()))) (\<lambda>_. service_inv (sh_uid h)) (\<lambda>_. service_inv (sh_uid h))" for m
      by (auto simp: hoare_def andthen_def modify_def ret_def)
  qed
  have keep: "hoare ?P m (\<lambda>_. ?P) (\<lambda>_. service_inv (sh_uid h))" if "keeps quiet_service m" for m :: "'z service_act"
    by (rule hoare_weaken [OF hoare_still [OF that grows_spawned]]) auto
  have more: "hoare ?P (andthen (try_call (sh_exited h)) (\<lambda>exited.
         andthen (guard (\<not> exited) (RuntimeError ''Codex exited before creating its private socket'')) (\<lambda>_.
         andthen (ask (sh_monotonic h)) (\<lambda>now.
         andthen (guard (now < d) (TimeoutError ''Codex private socket did not become ready'')) (\<lambda>_.
           wait_private_socket h c d n))))) (\<lambda>_. service_inv (sh_uid h)) (\<lambda>_. service_inv (sh_uid h))"
    by (rule hoare_andthen, rule keep, rule still_calls, rule hoare_andthen, rule keep, rule still.basic,
        rule hoare_andthen, rule keep, rule still_steps, rule hoare_andthen, rule keep, rule still.basic, rule Suc.IH)
  show ?case
    unfolding wait_private_socket.simps
  proof (rule hoare_andthen, rule keep, rule still_steps)
    show "hoare ?P (if present then andthen (verify_private_socket h c) (\<lambda>m. andthen (modify (\<lambda>s. s\<lparr>sv_socket := Some m\<rparr>)) (\<lambda>_. ret (Some ())))
        else andthen (try_call (sh_exited h)) (\<lambda>exited.
         andthen (guard (\<not> exited) (RuntimeError ''Codex exited before creating its private socket'')) (\<lambda>_.
         andthen (ask (sh_monotonic h)) (\<lambda>now.
         andthen (guard (now < d) (TimeoutError ''Codex private socket did not become ready'')) (\<lambda>_.
           wait_private_socket h c d n))))) (\<lambda>_. service_inv (sh_uid h)) (\<lambda>_. service_inv (sh_uid h))" for present
      using seen more by (cases present) simp_all
  qed
qed

lemma remove_socket_inv:
  "hoare (\<lambda>s. service_inv (sh_uid h) s \<and> (\<forall>i. identity = Some i \<longrightarrow> seen_when_ready (sh_uid h) i (sv_log s)))
     (remove_socket h c identity) (\<lambda>_. service_inv (sh_uid h)) (\<lambda>_. service_inv (sh_uid h))"
proof -
  let ?P = "\<lambda>s. service_inv (sh_uid h) s \<and> (\<forall>i. identity = Some i \<longrightarrow> seen_when_ready (sh_uid h) i (sv_log s))"
  let ?Q = "\<lambda>m s. private_socket (sh_uid h) m \<and> (\<exists>s0. ?P s0 \<and> s = s0\<lparr>sv_log := SocketLooked (Seen m) # sv_log s0\<rparr>)"
  have look: "hoare ?P (verify_private_socket h c) ?Q (\<lambda>_. service_inv (sh_uid h))"
    by (rule hoare_weaken [OF verify_looks [where P = ?P]]) (auto simp: inv_clock intro: inv_looked)
  have same: "hoare (?Q m) (guard (case identity of None \<Rightarrow> False | Some i \<Rightarrow> fm_id m = fm_id i) x)
      (\<lambda>_ s. service_inv (sh_uid h) s \<and> event_ok (sh_uid h) SocketRemoved (sv_log s)) (\<lambda>_. service_inv (sh_uid h))" for m x
    by (cases identity) (auto simp: hoare_def guard_def event_ok_def intro!: inv_looked)
  have gone: "hoare (service_inv (sh_uid h)) (andthen (os_call (sh_unlink h)) (\<lambda>_. modify (\<lambda>s. s\<lparr>sv_socket := None\<rparr>)))
      (\<lambda>_. service_inv (sh_uid h)) (\<lambda>_. service_inv (sh_uid h))"
    by (rule hoare_andthen, rule hoare_still_inv [OF still_calls(2)], assumption)
      (simp add: hoare_def modify_def service_inv_def)
  have "hoare (\<lambda>s. service_inv (sh_uid h) s \<and> event_ok (sh_uid h) SocketRemoved (sv_log s))
      (andthen (record_event SocketRemoved) (\<lambda>_. andthen (os_call (sh_unlink h)) (\<lambda>_. modify (\<lambda>s. s\<lparr>sv_socket := None\<rparr>))))
      (\<lambda>_. service_inv (sh_uid h)) (\<lambda>_. service_inv (sh_uid h))"
    by (rule hoare_andthen, rule hoare_log_event [where uid = "sh_uid h"], assumption, rule hoare_weaken [OF gone]) auto
  then show ?thesis
    unfolding remove_socket_def by (intro hoare_andthen [OF look] hoare_andthen [OF same])
qed

section \<open>Taking down and starting\<close>

lemma collecting_inv: "hoare P m (\<lambda>_. service_inv uid) (\<lambda>_. service_inv uid) \<Longrightarrow> hoare P (collecting m) (\<lambda>_. service_inv uid) (\<lambda>_. service_inv uid)"
  by (fastforce simp: hoare_def collecting_def act_defs split: prod.splits sum.splits)

definition knows :: "int \<Rightarrow> file_meta option \<Rightarrow> service_state \<Rightarrow> bool" where
  "knows uid identity s \<longleftrightarrow> service_inv uid s \<and> (\<forall>i. identity = Some i \<longrightarrow> seen_when_ready uid i (sv_log s))"

definition log_grows :: "service_state \<Rightarrow> service_state \<Rightarrow> bool" where
  "log_grows s s' \<longleftrightarrow> (\<exists>evs. sv_log s' = evs @ sv_log s)"

interpretation growing: frame_relation log_grows
proof unfold_locales
  fix s t u
  show "log_grows s s" by (simp add: log_grows_def)
  show "log_grows s t \<Longrightarrow> log_grows t u \<Longrightarrow> log_grows s u" unfolding log_grows_def by (metis append.assoc)
qed

lemma growing_still: "keeps quiet_service m \<Longrightarrow> keeps log_grows m"
  by (fastforce simp: keeps_def quiet_service_def log_grows_def)

lemma growing_record: "keeps log_grows (record_event e)"
  by (simp add: keeps_def record_event_def modify_def log_grows_def)

lemma growing_modify: "(\<And>s. sv_log (f s) = sv_log s) \<Longrightarrow> keeps log_grows (modify f)"
  by (simp add: keeps_def modify_def log_grows_def)

lemmas growing_rules = growing.sequence growing.basic growing.branch growing.handler growing.option_cases growing_record
  growing_still [OF still_steps(1)] growing_still [OF still_calls(1)] growing_still [OF still_calls(2)] growing_modify

lemma growing_process:
  "keeps log_grows (terminate_unpinned_process h pid)" "keeps log_grows (terminate_owned_process_group h n pid g)"
proof -
  show a: "keeps log_grows (terminate_unpinned_process h pid)"
    unfolding terminate_unpinned_process_def by (intro growing_rules growing_still [OF still_reads(1)])
  have "keeps log_grows (signal_owned_group h n pid g)" for g
    unfolding signal_owned_group_def signal_group_def
    by (intro growing_rules growing_still [OF still_reads(1)] growing_still [OF still_reads(2)] growing_still [OF still_reads(4)]
        growing_still [OF still_await])
  then show "keeps log_grows (terminate_owned_process_group h n pid g)"
    unfolding terminate_owned_process_group_def
    by (intro growing_rules a growing_still [OF still_reads(1)] growing_still [OF still_reads(3)] growing_still [OF still_reads(4)])
qed

lemma knows_frame:
  assumes "keeps log_grows m" "hoare (service_inv uid) m (\<lambda>_. service_inv uid) (\<lambda>_. service_inv uid)"
  shows "hoare (knows uid i) m (\<lambda>_. knows uid i) (\<lambda>_. knows uid i)"
proof (rule hoareI)
  fix s s' x
  assume k: "knows uid i s"
  { fix r assume run: "m s = (r, s')"
    have "log_grows s s'" using keepsD [OF assms(1) run] .
    then have "\<forall>j. i = Some j \<longrightarrow> seen_when_ready uid j (sv_log s')" using k by (auto simp: knows_def log_grows_def seen_append)
  } note seen = this
  show "knows uid i s'" if "m s = (Inr x, s')"
    using seen [OF that] hoareD(1) [OF assms(2) _ that] k by (simp add: knows_def)
next
  fix s s' e
  assume k: "knows uid i s" and run: "m s = (Inl e, s')"
  have "log_grows s s'" using keepsD [OF assms(1) run] .
  then show "knows uid i s'" using hoareD(2) [OF assms(2) _ run] k by (auto simp: knows_def log_grows_def seen_append)
qed

lemma drop_gateway_inv:
  "hoare (service_inv uid) (drop_gateway h) (\<lambda>_. service_inv uid) (\<lambda>_. service_inv uid)" "keeps log_grows (drop_gateway h)"
proof -
  have close: "keeps quiet_service (close_gateway h)"
    unfolding close_gateway_def by (intro still_rules) (simp add: harmless_def)
  have "hoare (service_inv uid) (collecting (andthen (close_gateway h) (\<lambda>_. modify (\<lambda>s. s\<lparr>sv_gateway := False\<rparr>))))
      (\<lambda>_. service_inv uid) (\<lambda>_. service_inv uid)"
    by (rule collecting_inv, rule hoare_andthen, rule hoare_still_inv [OF close], assumption)
      (simp add: hoare_def modify_def service_inv_def)
  then show "hoare (service_inv uid) (drop_gateway h) (\<lambda>_. service_inv uid) (\<lambda>_. service_inv uid)"
    by (auto simp: drop_gateway_def hoare_def act_defs split: prod.splits sum.splits)
  show "keeps log_grows (drop_gateway h)"
    unfolding drop_gateway_def collecting_def by (intro growing_rules growing_still [OF close]) simp
qed

lemma drop_connection_inv:
  "hoare (service_inv uid) (drop_connection h) (\<lambda>_. service_inv uid) (\<lambda>_. service_inv uid)" "keeps log_grows (drop_connection h)"
proof -
  have close: "keeps quiet_service (andthen (record_event ConnectionClosed) (\<lambda>_. try_call (sh_close_connection h)))"
    by (intro still_rules) (simp add: harmless_def)
  have "hoare (service_inv uid) (collecting (andthen (record_event ConnectionClosed) (\<lambda>_.
       andthen (try_call (sh_close_connection h)) (\<lambda>_. modify (\<lambda>s. s\<lparr>sv_connection := False\<rparr>)))))
      (\<lambda>_. service_inv uid) (\<lambda>_. service_inv uid)"
    by (rule collecting_inv, rule hoare_andthen, rule hoare_still_inv [OF still_steps(2)], simp add: harmless_def, assumption,
        rule hoare_andthen, rule hoare_still_inv [OF still_calls(1)], assumption)
      (simp add: hoare_def modify_def service_inv_def)
  then show "hoare (service_inv uid) (drop_connection h) (\<lambda>_. service_inv uid) (\<lambda>_. service_inv uid)"
    by (auto simp: drop_connection_def hoare_def act_defs split: prod.splits sum.splits)
  show "keeps log_grows (drop_connection h)"
    unfolding drop_connection_def collecting_def by (intro growing_rules) simp
qed

lemma drop_process_inv:
  "hoare (service_inv uid) (drop_process h n) (\<lambda>_. service_inv uid) (\<lambda>_. service_inv uid)" "keeps log_grows (drop_process h n)"
proof -
  let ?finish = "\<lambda>r. case r of None \<Rightarrow> ret None | Some _ \<Rightarrow> andthen (modify (\<lambda>s. s\<lparr>sv_process := None, sv_pgid := None\<rparr>)) (\<lambda>_. ret (Some []))"
  have ends: "hoare (service_inv uid) (?finish (r :: unit option)) (\<lambda>_. service_inv uid) (\<lambda>_. service_inv uid)" for r
    by (cases r) (auto simp: hoare_def act_defs service_inv_def)
  have "hoare (\<lambda>s. service_inv uid s \<and> sv_process s = Some pid \<and> sv_pgid s = pgid)
      (andthen (terminate_owned_process_group h n pid pgid) ?finish) (\<lambda>_. service_inv uid) (\<lambda>_. service_inv uid)" for pid pgid
    by (rule hoare_andthen [OF _ ends], rule hoare_weaken [OF terminate_owned_inv]) (auto simp: service_inv_def)
  then show "hoare (service_inv uid) (drop_process h n) (\<lambda>_. service_inv uid) (\<lambda>_. service_inv uid)"
    by (fastforce simp: drop_process_def hoare_def andthen_def observe_def attempt_def ret_def
        split: prod.splits sum.splits option.splits)
  have "keeps log_grows (?finish r)" for r :: "unit option" by (cases r) (auto intro!: growing_rules)
  then show "keeps log_grows (drop_process h n)"
    unfolding drop_process_def by (intro growing_rules growing_process) simp
qed

lemma drop_socket_inv:
  "hoare (knows (sh_uid h) identity) (drop_socket h c identity) (\<lambda>_. service_inv (sh_uid h)) (\<lambda>_. service_inv (sh_uid h))"
proof -
  let ?gone = "andthen (modify (\<lambda>s. s\<lparr>sv_socket := None\<rparr>)) (\<lambda>_. ret [])"
  have gone: "hoare (knows (sh_uid h) identity) ?gone (\<lambda>_. service_inv (sh_uid h)) (\<lambda>_. service_inv (sh_uid h))"
    by (auto simp: hoare_def act_defs knows_def service_inv_def)
  have removed: "hoare (knows (sh_uid h) identity) (collecting (remove_socket h c identity))
      (\<lambda>_. service_inv (sh_uid h)) (\<lambda>_. service_inv (sh_uid h))"
    by (rule collecting_inv, rule hoare_weaken [OF remove_socket_inv [of h identity]]) (auto simp: knows_def)
  show ?thesis
    unfolding drop_socket_def
  proof (rule hoare_andthen, rule hoare_ask)
    show "hoare (knows (sh_uid h) identity) (if present then collecting (remove_socket h c identity) else ?gone)
        (\<lambda>_. service_inv (sh_uid h)) (\<lambda>_. service_inv (sh_uid h))" for present
      using gone removed by (cases present) simp_all
  qed (simp add: knows_def service_inv_def)
qed

lemma terminate_inv:
  "hoare (service_inv (sh_uid h)) (terminate_resources h c n suppress) (\<lambda>_. service_inv (sh_uid h)) (\<lambda>_. service_inv (sh_uid h))"
proof -
  let ?K = "\<lambda>i. knows (sh_uid h) i"
  have weak: "hoare (?K i) m (\<lambda>_. ?K i) (\<lambda>_. service_inv (sh_uid h))"
    if "hoare (?K i) m (\<lambda>_. ?K i) (\<lambda>_. ?K i)" for i and m :: "'z service_act"
    by (rule hoare_weaken [OF that]) (auto simp: knows_def)
  have closing: "hoare (service_inv (sh_uid h)) (case es of [] \<Rightarrow> ret (Some ())
      | x # _ \<Rightarrow> if suppress then ret (Some ()) else raise (OwnedTeardownError (exn_name x)))
      (\<lambda>_. service_inv (sh_uid h)) (\<lambda>_. service_inv (sh_uid h))" for es
    by (cases es) (auto simp: hoare_def ret_def raise_def)
  have last: "hoare (?K i) (case r of None \<Rightarrow> ret None | Some e3 \<Rightarrow> andthen (drop_socket h c i) (\<lambda>e4. case e1 @ e2 @ e3 @ e4 of
         [] \<Rightarrow> ret (Some ()) | x # _ \<Rightarrow> if suppress then ret (Some ()) else raise (OwnedTeardownError (exn_name x))))
      (\<lambda>_. service_inv (sh_uid h)) (\<lambda>_. service_inv (sh_uid h))" for r i e1 e2
  proof (cases r)
    case (Some e3)
    show ?thesis unfolding Some option.case by (rule hoare_andthen [OF drop_socket_inv closing])
  qed (simp add: hoare_def ret_def knows_def)
  show ?thesis
    unfolding terminate_resources_def
  proof (rule hoare_andthen [where R = "\<lambda>_. service_inv (sh_uid h)"])
    show "hoare (service_inv (sh_uid h)) (modify (\<lambda>s. s\<lparr>sv_stopping := True\<rparr>)) (\<lambda>_. service_inv (sh_uid h)) (\<lambda>_. service_inv (sh_uid h))"
      by (simp add: hoare_def modify_def service_inv_def)
    show "hoare (service_inv (sh_uid h)) (andthen (observe sv_socket) (\<lambda>i. andthen (drop_gateway h) (\<lambda>e1. andthen (drop_connection h) (\<lambda>e2.
      andthen (drop_process h n) (\<lambda>r. case r of None \<Rightarrow> ret None | Some e3 \<Rightarrow> andthen (drop_socket h c i) (\<lambda>e4. case e1 @ e2 @ e3 @ e4 of
         [] \<Rightarrow> ret (Some ()) | x # _ \<Rightarrow> if suppress then ret (Some ()) else raise (OwnedTeardownError (exn_name x))))))))
      (\<lambda>_. service_inv (sh_uid h)) (\<lambda>_. service_inv (sh_uid h))"
    proof (rule hoare_andthen [where R = ?K])
      show "hoare (service_inv (sh_uid h)) (observe sv_socket) ?K (\<lambda>_. service_inv (sh_uid h))"
        by (auto simp: hoare_def observe_def knows_def service_inv_def)
      show "hoare (?K i) (andthen (drop_gateway h) (\<lambda>e1. andthen (drop_connection h) (\<lambda>e2.
        andthen (drop_process h n) (\<lambda>r. case r of None \<Rightarrow> ret None | Some e3 \<Rightarrow> andthen (drop_socket h c i) (\<lambda>e4. case e1 @ e2 @ e3 @ e4 of
           [] \<Rightarrow> ret (Some ()) | x # _ \<Rightarrow> if suppress then ret (Some ()) else raise (OwnedTeardownError (exn_name x)))))))
        (\<lambda>_. service_inv (sh_uid h)) (\<lambda>_. service_inv (sh_uid h))" for i
        by (rule hoare_andthen [OF weak [OF knows_frame [OF drop_gateway_inv(2) drop_gateway_inv(1)]]],
            rule hoare_andthen [OF weak [OF knows_frame [OF drop_connection_inv(2) drop_connection_inv(1)]]],
            rule hoare_andthen [OF weak [OF knows_frame [OF drop_process_inv(2) drop_process_inv(1)]]], rule last)
    qed
  qed
qed

lemma rollback_inv:
  "hoare (service_inv (sh_uid h)) (rollback_start h c n) (\<lambda>_. service_inv (sh_uid h)) (\<lambda>_. service_inv (sh_uid h))"
proof -
  have close: "keeps quiet_service (close_gateway h)"
    unfolding close_gateway_def by (intro still_rules) (simp add: harmless_def)
  have "keeps quiet_service (if held then ret [] else collecting (close_gateway h))" for held
    unfolding collecting_def by (intro still_rules close)
  then show ?thesis
    unfolding rollback_start_def
    by (intro hoare_andthen [OF hoare_still_inv [OF still.basic(5)]] hoare_andthen [OF hoare_still_inv] terminate_inv)
qed

lemma launch_inv:
  "hoare (service_inv (sh_uid h)) (launch h c n) (\<lambda>_. service_inv (sh_uid h)) (\<lambda>_. service_inv (sh_uid h))"
proof -
  let ?I = "service_inv (sh_uid h)"
  let ?S = "\<lambda>pid s. ?I s \<and> Spawned pid \<in> set (sv_log s)"
  have quiet: "hoare ?I m (\<lambda>_. ?I) (\<lambda>_. ?I)" if "keeps quiet_service m" for m :: "'z service_act"
    by (rule hoare_still_inv [OF that]) simp
  have spawn: "hoare ?I (record_event (Spawned pid)) (\<lambda>_. ?S pid) (\<lambda>_. ?I)" for pid
    by (rule hoare_log_event) (simp add: event_ok_harmless)
  have process: "hoare (?S pid) (modify (\<lambda>s. s\<lparr>sv_process := Some pid\<rparr>)) (\<lambda>_. ?S pid) (\<lambda>_. ?I)" for pid
    by (simp add: hoare_def modify_def service_inv_def)
  have pgid: "hoare (\<lambda>s. ?I s \<and> pinned g (sv_log s) \<and> Spawned pid \<in> set (sv_log s)) (modify (\<lambda>s. s\<lparr>sv_pgid := Some g\<rparr>)) (\<lambda>_. ?S pid) (\<lambda>_. ?I)" for pid g
    by (simp add: hoare_def modify_def service_inv_def)
  have clock: "hoare (?S pid) (ask f) (\<lambda>_. ?S pid) (\<lambda>_. ?I)" for pid and f :: "nat \<Rightarrow> 'z"
    by (rule hoare_ask) (simp add: inv_clock)
  have connected: "hoare ?I (modify (\<lambda>s. s\<lparr>sv_connection := True\<rparr>)) (\<lambda>_. ?I) (\<lambda>_. ?I)" "hoare ?I (modify (\<lambda>s. s\<lparr>sv_gateway := True\<rparr>)) (\<lambda>_. ?I) (\<lambda>_. ?I)"
    by (simp_all add: hoare_def modify_def service_inv_def)
  have rest: "hoare ?I (case r of None \<Rightarrow> ret None
     | Some _ \<Rightarrow>
         andthen (try_call (sh_connect h)) (\<lambda>_.
         andthen (modify (\<lambda>s. s\<lparr>sv_connection := True\<rparr>)) (\<lambda>_.
         andthen (ask (sh_gateway_ready h)) (\<lambda>ready.
         andthen (if ready then try_call (sh_exited h) else ret True) (\<lambda>lost.
         andthen (guard (\<not> lost) (RuntimeError ''service components did not remain ready'')) (\<lambda>_.
         andthen (service_status_of h c) (\<lambda>v. ret (Some v)))))))) (\<lambda>_. ?I) (\<lambda>_. ?I)" for r :: "unit option"
  proof (cases r)
    case (Some u)
    show ?thesis
      unfolding Some option.case
      by (rule hoare_andthen [OF quiet [OF still_calls(1)]], rule hoare_andthen [OF connected(1)])
        (intro quiet still_rules still_status)
  qed (simp add: hoare_def ret_def)
  have started: "keeps quiet_service (record_event GatewayStarted)"
    by (rule still_steps) (simp add: harmless_def)
  show ?thesis
    unfolding launch_def
    by (rule hoare_andthen [OF quiet [OF still_calls(1)]], rule hoare_andthen [OF quiet [OF started]],
        rule hoare_andthen [OF connected(2)], rule hoare_andthen [OF quiet [OF still_calls(1)]],
        rule hoare_andthen [OF spawn], rule hoare_andthen [OF process], rule hoare_andthen [OF pin_inv],
        rule hoare_andthen [OF pgid], rule hoare_andthen [OF clock], rule hoare_andthen [OF wait_socket_inv rest])
qed

lemma start_inv:
  "hoare (service_inv (sh_uid h)) (service_start h c n) (\<lambda>_. service_inv (sh_uid h)) (\<lambda>_. service_inv (sh_uid h))"
proof -
  let ?I = "service_inv (sh_uid h)"
  have quiet: "hoare ?I m (\<lambda>_. ?I) (\<lambda>_. ?I)" if "keeps quiet_service m" for m :: "'z service_act"
    by (rule hoare_still_inv [OF that]) simp
  have undo: "hoare ?I (andthen (rollback_start h c n) (\<lambda>r. case r of None \<Rightarrow> ret None | Some _ \<Rightarrow> raise x)) (\<lambda>_. ?I) (\<lambda>_. ?I)" for x
    by (rule hoare_andthen [OF rollback_inv]) (auto simp: hoare_def ret_def raise_def split: option.splits)
  have ready: "hoare ?I (andthen (service_status_of h c) (\<lambda>w. ret (Some w))) (\<lambda>_. ?I) (\<lambda>_. ?I)"
    by (intro quiet still_rules still_status)
  have fresh: "hoare ?I (andthen (prepare_paths h c) (\<lambda>_.
         andthen (ask (sh_socket_present h)) (\<lambda>present.
         andthen (guard (\<not> present) (FileExistsError ''private Codex socket already exists; refusing to unlink it'')) (\<lambda>_.
         andthen (try_call (sh_create_gateway h)) (\<lambda>_.
           attempt (launch h c n) (\<lambda>x. andthen (rollback_start h c n) (\<lambda>r. case r of
             None \<Rightarrow> ret None | Some _ \<Rightarrow> raise x))))))) (\<lambda>_. ?I) (\<lambda>_. ?I)"
    by (rule hoare_andthen [OF quiet [OF still_prepare]], rule hoare_andthen [OF quiet [OF still_steps(1)]],
        rule hoare_andthen [OF quiet [OF still.basic(3)]], rule hoare_andthen [OF quiet [OF still_calls(1)]],
        rule hoare_attempt [OF launch_inv undo])
  show ?thesis
    unfolding service_start_def
  proof (rule hoare_andthen [OF quiet [OF still_status]])
    fix v
    show "hoare ?I (if st_ready v then andthen (service_status_of h c) (\<lambda>w. ret (Some w))
       else andthen (prepare_paths h c) (\<lambda>_.
         andthen (ask (sh_socket_present h)) (\<lambda>present.
         andthen (guard (\<not> present) (FileExistsError ''private Codex socket already exists; refusing to unlink it'')) (\<lambda>_.
         andthen (try_call (sh_create_gateway h)) (\<lambda>_.
           attempt (launch h c n) (\<lambda>x. andthen (rollback_start h c n) (\<lambda>r. case r of
             None \<Rightarrow> ret None | Some _ \<Rightarrow> raise x))))))) (\<lambda>_. ?I) (\<lambda>_. ?I)"
      using ready fresh by (cases "st_ready v") simp_all
  qed
qed

section \<open>What the service does to others\<close>

datatype service_action = StartService nat | TerminateService nat bool

definition service_step :: "service_host \<Rightarrow> service_config \<Rightarrow> service_action \<Rightarrow> service_state \<Rightarrow> service_state" where
  "service_step h c a s = (case a of
     StartService n \<Rightarrow> snd (service_start h c n s) | TerminateService n suppress \<Rightarrow> snd (terminate_resources h c n suppress s))"

definition service_run :: "service_host \<Rightarrow> service_config \<Rightarrow> service_action list \<Rightarrow> service_state" where
  "service_run h c acts = foldl (\<lambda>s a. service_step h c a s) new_service acts"

lemma hoare_invD: "hoare I m (\<lambda>_. I) (\<lambda>_. I) \<Longrightarrow> I s \<Longrightarrow> I (snd (m s))"
  by (cases "m s") (auto simp: hoare_def split: sum.splits)

lemma service_step_inv: "service_inv (sh_uid h) s \<Longrightarrow> service_inv (sh_uid h) (service_step h c a s)"
  by (cases a) (auto simp: service_step_def intro: hoare_invD [OF start_inv] hoare_invD [OF terminate_inv])

lemma service_run_inv: "service_inv (sh_uid h) (service_run h c acts)"
proof -
  have "service_inv (sh_uid h) (foldl (\<lambda>s a. service_step h c a s) s acts)" if "service_inv (sh_uid h) s" for s
    using that by (induction acts arbitrary: s) (simp_all add: service_step_inv)
  moreover have "service_inv (sh_uid h) new_service" by (simp add: service_inv_def new_service_def)
  ultimately show ?thesis unfolding service_run_def .
qed

lemma log_ok_split: "log_ok uid (later @ e # past) \<Longrightarrow> event_ok uid e past"
  by (induction later) auto

text \<open>
  C15. Whatever the host answers and whichever calls fail, a signal goes only to the process
  group of a child the service spawned, which leads that group and is not the service's own:
  SIGTERM right after reading the group again, SIGKILL only after SIGTERM and seeing the group
  still there; a process that was not pinned is terminated only if the service spawned it; and
  the private socket is removed only when the look just before showed the inode that became
  ready after the child was spawned.
\<close>

theorem service_touches_only_its_own:
  assumes "sv_log (service_run h c acts) = later @ e # past"
  shows "event_ok (sh_uid h) e past"
  by (rule log_ok_split [of _ later]) (use service_run_inv [of h c acts] in \<open>simp add: service_inv_def assms\<close>)

section \<open>What a finished teardown leaves\<close>

definition fields_kept :: "service_state \<Rightarrow> service_state \<Rightarrow> bool" where
  "fields_kept s s' \<longleftrightarrow> log_grows s s' \<and> sv_process s' = sv_process s \<and> sv_pgid s' = sv_pgid s
     \<and> sv_connection s' = sv_connection s \<and> sv_gateway s' = sv_gateway s \<and> sv_socket s' = sv_socket s \<and> sv_stopping s' = sv_stopping s"

interpretation kept: frame_relation fields_kept
  by unfold_locales (auto simp: fields_kept_def intro: growing.frame_refl growing.frame_trans)

lemma kept_still: "keeps quiet_service m \<Longrightarrow> keeps fields_kept m"
  by (auto simp: keeps_def quiet_service_def fields_kept_def log_grows_def)

lemma kept_record: "keeps fields_kept (record_event e)"
  by (simp add: keeps_def record_event_def modify_def fields_kept_def log_grows_def)

lemmas kept_rules = kept.sequence kept.basic kept.branch kept.handler kept.option_cases kept_record
  kept_still [OF still_steps(1)] kept_still [OF still_calls(1)] kept_still [OF still_calls(2)]
  kept_still [OF still_reads(1)] kept_still [OF still_reads(2)] kept_still [OF still_reads(3)] kept_still [OF still_reads(4)]
  kept_still [OF still_await] kept_still [OF still_verify]

lemma kept_process: "keeps fields_kept (terminate_owned_process_group h n pid g)"
proof -
  have "keeps fields_kept (terminate_unpinned_process h pid)"
    unfolding terminate_unpinned_process_def by (intro kept_rules)
  moreover have "keeps fields_kept (signal_owned_group h n pid g)" for g
    unfolding signal_owned_group_def signal_group_def by (intro kept_rules)
  ultimately show ?thesis
    unfolding terminate_owned_process_group_def by (intro kept_rules)
qed

text \<open>The group was seen gone since the log was \<open>past\<close>.\<close>

definition gone_since :: "int \<Rightarrow> service_event list \<Rightarrow> service_event list \<Rightarrow> bool" where
  "gone_since g past now \<longleftrightarrow> (\<exists>evs. now = evs @ past \<and> GroupLooked g False \<in> set evs)"

definition since :: "service_event list \<Rightarrow> service_state \<Rightarrow> bool" where
  "since past s \<longleftrightarrow> (\<exists>evs. sv_log s = evs @ past)"

lemma since_kept: "keeps log_grows m \<Longrightarrow> hoare (since past) m (\<lambda>_. since past) (\<lambda>_ _. True)"
  by (rule hoareI) (auto simp: since_def log_grows_def dest!: keepsD)

lemma gone_silent: "keeps silent m \<Longrightarrow> hoare (\<lambda>s. gone_since g past (sv_log s)) m (\<lambda>_ s. gone_since g past (sv_log s)) (\<lambda>_ _. True)"
  by (rule hoare_weaken [OF hoare_silent]) auto

lemma look_gone:
  "hoare (since past) (andthen (look_group h g) (\<lambda>live. andthen (guard (\<not> live) x) (\<lambda>_. m)))
     (\<lambda>_ s. gone_since g past (sv_log s)) (\<lambda>_ _. True)"
  if "keeps silent m" for m :: "'a service_act"
proof (rule hoare_andthen [where R = "\<lambda>live s. \<not> live \<longrightarrow> gone_since g past (sv_log s)"])
  show "hoare (since past) (look_group h g) (\<lambda>live s. \<not> live \<longrightarrow> gone_since g past (sv_log s)) (\<lambda>_ _. True)"
    unfolding look_group_def
  proof (rule hoare_weaken [OF hoare_logged [where P = "since past"]])
    fix s :: service_state and live :: bool
    assume "since past s"
    then obtain evs where "sv_log s = evs @ past" by (auto simp: since_def)
    then have "GroupLooked g live # sv_log s = (GroupLooked g live # evs) @ past" by simp
    then show "\<not> live \<longrightarrow> gone_since g past (sv_log (s\<lparr>sv_log := GroupLooked g live # sv_log s\<rparr>))"
      unfolding gone_since_def by (intro impI exI [of _ "GroupLooked g live # evs"]) simp
  qed (auto simp: silent_steps since_def)
  show "hoare (\<lambda>s. \<not> live \<longrightarrow> gone_since g past (sv_log s)) (andthen (guard (\<not> live) x) (\<lambda>_. m))
      (\<lambda>_ s. gone_since g past (sv_log s)) (\<lambda>_ _. True)" for live
    by (rule hoare_andthen [where R = "\<lambda>_ s. gone_since g past (sv_log s)"])
      (auto simp: hoare_def guard_def gone_silent [OF that, unfolded hoare_def, rule_format])
qed

lemma signal_gone:
  "hoare (since past) (signal_owned_group h n pid g) (\<lambda>r s. r = Some () \<longrightarrow> gone_since g past (sv_log s)) (\<lambda>_ _. True)"
proof -
  have ended: "keeps silent (andthen (try_call (sh_exited h)) (\<lambda>exited.
      andthen (if exited then ret () else try_call (sh_wait h)) (\<lambda>_. ret (Some ()))))"
    by (intro silence.sequence silent_steps silence.branch silence.basic)
  have last: "hoare (since past) (case r of None \<Rightarrow> ret None
      | Some _ \<Rightarrow> andthen (look_group h g) (\<lambda>still.
         andthen (guard (\<not> still) (RuntimeError ''owned Codex process group remained live'')) (\<lambda>_.
         andthen (try_call (sh_exited h)) (\<lambda>exited.
         andthen (if exited then ret () else try_call (sh_wait h)) (\<lambda>_. ret (Some ()))))))
      (\<lambda>r s. r = Some () \<longrightarrow> gone_since g past (sv_log s)) (\<lambda>_ _. True)" for r :: "unit option"
  proof (cases r)
    case (Some u)
    show ?thesis
      unfolding Some option.case by (rule hoare_weaken [OF look_gone [OF ended, of past]]) auto
  qed (simp add: hoare_def ret_def)
  show ?thesis
    unfolding signal_owned_group_def signal_group_def
    by (rule hoare_andthen [OF since_kept [OF growing_still [OF still_reads(2)]]],
        rule hoare_andthen [OF since_kept [OF growing.basic(3)]],
        rule hoare_andthen [OF since_kept], intro growing_rules,
        rule hoare_andthen [OF since_kept], intro growing_rules,
        rule hoare_andthen [OF since_kept [OF growing_still [OF still_reads(4)]]],
        rule hoare_andthen [OF since_kept], intro growing_rules,
        rule hoare_andthen [OF since_kept [OF growing_still [OF still_steps(1)]]],
        rule hoare_andthen [OF since_kept [OF growing_still [OF still_await]]], rule last)
qed

lemma process_gone:
  "hoare (since past) (terminate_owned_process_group h n pid (Some g)) (\<lambda>r s. r = Some () \<longrightarrow> gone_since g past (sv_log s)) (\<lambda>_ _. True)"
proof -
  have waits: "keeps silent (andthen (try_call (sh_wait h)) (\<lambda>_. ret (Some ())))"
    by (intro silence.sequence silent_steps silence.basic)
  have body: "hoare (since past) (if exited then andthen (look_group h g) (\<lambda>live.
           andthen (guard (\<not> live) (PermissionError ''refusing to signal a process group after its pinned leader exited'')) (\<lambda>_.
           andthen (try_call (sh_wait h)) (\<lambda>_. ret (Some ()))))
         else signal_owned_group h n pid g) (\<lambda>r s. r = Some () \<longrightarrow> gone_since g past (sv_log s)) (\<lambda>_ _. True)" for exited
    using signal_gone [of past h n pid g] hoare_weaken [OF look_gone [OF waits, of past h g "PermissionError ''refusing to signal a process group after its pinned leader exited''"]]
    by (cases exited) (auto elim: hoare_weaken)
  have own: "keeps log_grows (if g \<le> 1 then ret True else andthen (read_own_pgid h) (\<lambda>own. ret (g = own)))"
    by (intro growing_rules growing_still [OF still_reads(3)])
  show ?thesis
    unfolding terminate_owned_process_group_def option.case
    by (rule hoare_andthen [OF since_kept [OF own]], rule hoare_andthen [OF since_kept [OF growing.basic(3)]],
        rule hoare_andthen [OF since_kept [OF growing_still [OF still_reads(1)]]], rule body)
qed

lemma drop_gateway_result:
  assumes "drop_gateway h s = (r, s')"
  obtains es where "r = Inr es" "es = [] \<longrightarrow> \<not> sv_gateway s'" "sv_process s' = sv_process s" "sv_pgid s' = sv_pgid s"
    "sv_connection s' = sv_connection s" "sv_stopping s' = sv_stopping s"
  using assms
  by (auto simp: drop_gateway_def collecting_def close_gateway_def act_defs try_call_def ask_def record_event_def split: sum.splits prod.splits if_splits)

lemma drop_connection_result:
  assumes "drop_connection h s = (r, s')"
  obtains es where "r = Inr es" "es = [] \<longrightarrow> \<not> sv_connection s'" "sv_process s' = sv_process s" "sv_pgid s' = sv_pgid s"
    "sv_gateway s' = sv_gateway s" "sv_stopping s' = sv_stopping s"
  using assms
  by (auto simp: drop_connection_def collecting_def act_defs try_call_def ask_def record_event_def split: sum.splits prod.splits if_splits)

lemma drop_process_result:
  assumes "drop_process h n s = (Inr (Some []), s')"
  shows "sv_process s' = None \<and> sv_gateway s' = sv_gateway s \<and> sv_connection s' = sv_connection s \<and> sv_stopping s' = sv_stopping s
    \<and> (\<forall>pid g. sv_process s = Some pid \<longrightarrow> sv_pgid s = Some g \<longrightarrow> gone_since g (sv_log s) (sv_log s'))"
proof (cases "sv_process s")
  case None
  then show ?thesis using assms by (simp add: drop_process_def act_defs)
next
  case (Some pid)
  obtain r t where run: "terminate_owned_process_group h n pid (sv_pgid s) s = (r, t)" by (cases "terminate_owned_process_group h n pid (sv_pgid s) s")
  with assms Some have r: "r = Inr (Some ())" and t: "s' = t\<lparr>sv_process := None, sv_pgid := None\<rparr>"
    by (auto simp: drop_process_def act_defs split: sum.splits option.splits)
  have "fields_kept s t" using keepsD [OF kept_process run] .
  moreover have "gone_since g (sv_log s) (sv_log t)" if "sv_pgid s = Some g" for g
    using hoareD(1) [OF process_gone [of "sv_log s" h n pid g], of s "Some ()" t] run r that by (simp add: since_def)
  ultimately show ?thesis using t by (simp add: fields_kept_def)
qed

lemma drop_socket_result:
  assumes "drop_socket h c i s = (Inr [], s')"
  shows "sv_socket s' = None \<and> sv_process s' = sv_process s \<and> sv_gateway s' = sv_gateway s \<and> sv_connection s' = sv_connection s
    \<and> sv_stopping s' = sv_stopping s \<and> log_grows s s'"
proof (cases "sh_socket_present h (sv_clock s)")
  case False
  then show ?thesis using assms by (auto simp: drop_socket_def act_defs ask_def log_grows_def)
next
  case True
  let ?s = "s\<lparr>sv_clock := Suc (sv_clock s)\<rparr>"
  let ?front = "\<lambda>m. andthen (guard (case i of None \<Rightarrow> False | Some i' \<Rightarrow> fm_id m = fm_id i')
      (PermissionError ''private Codex socket changed after readiness'')) (\<lambda>_. andthen (record_event SocketRemoved) (\<lambda>_. os_call (sh_unlink h)))"
  have "keeps fields_kept (andthen (verify_private_socket h c) ?front)" by (intro kept_rules)
  moreover have "remove_socket h c i = andthen (andthen (verify_private_socket h c) ?front) (\<lambda>_. modify (\<lambda>s. s\<lparr>sv_socket := None\<rparr>))"
    by (rule ext) (auto simp: remove_socket_def andthen_def split: prod.splits sum.splits)
  moreover obtain r t where run: "andthen (verify_private_socket h c) ?front ?s = (r, t)" by (cases "andthen (verify_private_socket h c) ?front ?s")
  ultimately have "fields_kept ?s t" "remove_socket h c i ?s = (case r of Inl x \<Rightarrow> (Inl x, t) | Inr _ \<Rightarrow> (Inr (), t\<lparr>sv_socket := None\<rparr>))"
    by (auto dest: keepsD) (simp add: andthen_def modify_def split: sum.split)
  then show ?thesis using assms True
    by (auto simp: drop_socket_def collecting_def andthen_def ask_def attempt_def ret_def fields_kept_def log_grows_def split: sum.splits)
qed


end
