(* ===== verification/Facade.thy ===== *)
theory Facade
  imports Rpc Maintenance Dispatcher
begin

text \<open>
  \<open>facade.py\<close>, \<open>WorkerFacade\<close>: the public operations on named workers over the broker. An
  operation is an act over the broker's state and a state of the optional callback
  components, which the facade knows only through the ports of its dependencies. A request is
  the dictionary its class loads, a reply is what \<open>Ok\<close> or \<open>Err\<close> carries; \<open>None\<close> is an operation
  that has not returned within the moments watched.
\<close>

section \<open>Dependencies\<close>

record 'c store_port =
  cp_bind :: "binding \<Rightarrow> ('c, unit) act"
  cp_binding :: "string \<Rightarrow> ('c, binding option) act"
  cp_status_view :: "string \<Rightarrow> ('c, json) act"

record 'c dispatcher_port =
  dp_now :: "('c, string) act"
  dp_observe :: "string \<Rightarrow> string \<Rightarrow> turn_context \<Rightarrow> ('c, unit) act"
  dp_completion :: "string \<Rightarrow> string \<Rightarrow> turn_snapshot \<Rightarrow> ('c, json option) act"
  dp_abandon :: "string \<Rightarrow> string \<Rightarrow> ('c, unit) act"

record 'c transport_port =
  tp_validate :: "json_object \<Rightarrow> ('c, json_object) act"
  tp_send :: "binding \<Rightarrow> callback_event \<Rightarrow> string option \<Rightarrow> ('c, json) act"

record 'c facade_deps =
  fd_broker :: broker_env
  fd_ledger :: "nat \<Rightarrow> ledger_state"
  fd_clock :: "nat \<Rightarrow> rat"
  fd_event_id :: "nat \<Rightarrow> string"
  fd_utc_now :: "nat \<Rightarrow> string"
  fd_loads :: "string \<Rightarrow> json option"
  fd_float :: "rat \<Rightarrow> string"
  fd_ticks :: "rat \<Rightarrow> int"
  fd_rounds :: nat
  fd_listener :: string
  fd_socket_path :: string
  fd_state_path :: string
  fd_pid :: int
  fd_version :: string
  fd_store :: "'c store_port option"
  fd_dispatcher :: "'c dispatcher_port option"
  fd_transport :: "'c transport_port option"

record 'c facade_state =
  fa_broker :: broker_state
  fa_ports :: 'c

type_synonym ('c, 'a) facade_act = "('c facade_state, 'a) act"

definition on_broker :: "'a broker_act \<Rightarrow> ('c, 'a) facade_act" where
  "on_broker m s = (case m (fa_broker s) of (r, b) \<Rightarrow> (r, s\<lparr>fa_broker := b\<rparr>))"

definition on_port :: "('c, 'a) act \<Rightarrow> ('c, 'a) facade_act" where
  "on_port m s = (case m (fa_ports s) of (r, p) \<Rightarrow> (r, s\<lparr>fa_ports := p\<rparr>))"

text \<open>Something read from outside, such as a clock, by the moment it is read at.\<close>

definition at_moment :: "'c facade_deps \<Rightarrow> (nat \<Rightarrow> 'a) \<Rightarrow> ('c, 'a) facade_act" where
  "at_moment D f = on_broker (andthen (meanwhile (fd_broker D)) (\<lambda>_. observe (\<lambda>b. f (bk_clock b))))"

definition runtime_status_of :: "'c facade_deps \<Rightarrow> string \<Rightarrow> ('c, runtime_status) facade_act" where
  "runtime_status_of D sid = on_broker (read_runtime (fd_broker D) (\<lambda>st. status st sid))"

definition resolve_worker :: "'c facade_deps \<Rightarrow> string \<Rightarrow> ('c, session_record) facade_act" where
  "resolve_worker D name =
     on_broker (on_registry (fd_broker D) (\<lambda>t reg. (reg, resolve_name reg (fd_ledger D t) name)))"

text \<open>\<open>try\<close> with a handler and an \<open>else\<close> branch, whose exceptions the handler does not see.\<close>

definition trying :: "('s, 'a) act \<Rightarrow> (exn \<Rightarrow> ('s, 'b) act) \<Rightarrow> ('a \<Rightarrow> ('s, 'b) act) \<Rightarrow> ('s, 'b) act" where
  "trying m h f s = (case m s of (Inl x, s') \<Rightarrow> h x s' | (Inr a, s') \<Rightarrow> f a s')"

definition is_lost_session :: "exn \<Rightarrow> bool" where
  "is_lost_session x = (case x of UnknownSession _ \<Rightarrow> True | SessionDetached _ \<Rightarrow> True | _ \<Rightarrow> False)"

text \<open>Fields of a request.\<close>

definition opt_text :: "json_object \<Rightarrow> string \<Rightarrow> string option" where
  "opt_text d k = as_str (jget d k)"

definition seconds_of :: "json \<Rightarrow> rat option" where
  "seconds_of v = (case v of JFloat (Fin q) \<Rightarrow> Some q | JInt i \<Rightarrow> Some (of_int i) | _ \<Rightarrow> None)"

section \<open>Faults\<close>

definition mk_fault :: "facade_code \<Rightarrow> string \<Rightarrow> bool \<Rightarrow> json_object \<Rightarrow> json_object \<Rightarrow> json list \<Rightarrow> (exn, facade_fault) res" where
  "mk_fault code message retryable details known actions =
     mk_facade_fault (JInt (code_value code)) (JStr message) (JStr (facade_kind code)) (JBool retryable)
       (JStr ''codex-worker'') (JObj details) (JObj known) (JList actions)"

definition next_action :: "string \<Rightarrow> string \<Rightarrow> json" where
  "next_action command reason = JObj [(''command'', JStr command), (''reason'', JStr reason)]"

definition worker_command :: "string \<Rightarrow> string" where
  "worker_command suffix = ''codex-worker '' @ suffix"

definition raw_resume_command :: "string \<Rightarrow> string \<Rightarrow> string" where
  "raw_resume_command listener tid = ''codex --remote '' @ shlex_quote listener @ '' resume '' @ shlex_quote tid"

definition raw_resume_action :: "'c facade_deps \<Rightarrow> string \<Rightarrow> json" where
  "raw_resume_action D tid = next_action (raw_resume_command (fd_listener D) tid) ''Recover through the advanced raw session path''"

text \<open>\<open>"%s" % name\<close>.\<close>

definition shown_name :: "string option \<Rightarrow> string" where
  "shown_name n = (case n of None \<Rightarrow> ''None'' | Some s \<Rightarrow> s)"

definition facade_attach :: "'c facade_deps \<Rightarrow> string \<Rightarrow> (exn, json) res" where
  "facade_attach D tid = ebind (build_attach_view (host_lookup (be_model (fd_broker D))) (fd_listener D) (JStr tid))
     (\<lambda>a. Inr (JObj (attach_view_to_dict a)))"

definition fault_details :: "'c facade_deps \<Rightarrow> json_object \<Rightarrow> session_record option \<Rightarrow> string option \<Rightarrow> (exn, json_object) res" where
  "fault_details D d rec tid =
     (case (if tid \<noteq> None \<and> tid \<noteq> Some [] then tid else map_option sr_thread_id rec) of
        None \<Rightarrow> Inr d
      | Some t \<Rightarrow> ebind (facade_attach D t) (\<lambda>a. Inr (dset d ''attach'' a)))"

definition known_ids_of :: "session_record option \<Rightarrow> string option \<Rightarrow> string option \<Rightarrow> json_object" where
  "known_ids_of rec name turn_id =
     [(''name'', jopt (if name \<noteq> None \<and> name \<noteq> Some [] then name else case rec of None \<Rightarrow> None | Some r \<Rightarrow> sr_name r)),
      (''session_id'', jopt (map_option sr_session_id rec)),
      (''thread_id'', jopt (map_option sr_thread_id rec)), (''turn_id'', jopt turn_id)]"

definition not_found_fault :: "string \<Rightarrow> (exn, facade_fault) res" where
  "not_found_fault name = mk_fault WORKER_NOT_FOUND ''Worker not found'' False [] (known_ids_of None (Some name) None)
     [next_action (worker_command ''start --help'') ''Review required creation inputs for this absent worker'']"

definition legacy_actions :: "'c facade_deps \<Rightarrow> session_record \<Rightarrow> json list" where
  "legacy_actions D rec =
     [raw_resume_action D (sr_thread_id rec),
      next_action (worker_command (''session show --session '' @ shlex_quote (sr_session_id rec)))
        ''Inspect the preserved raw session without inventing policy'',
      next_action (worker_command ''start --help'') ''Review required creation inputs for an independent worker'']"

definition exists_fault :: "'c facade_deps \<Rightarrow> session_record \<Rightarrow> (exn, facade_fault) res" where
  "exists_fault D rec = ebind (fault_details D [] (Some rec) None) (\<lambda>d.
     mk_fault WORKER_NAME_EXISTS ''Worker name already exists'' False d (known_ids_of (Some rec) None None)
       (if \<not> common_policy_complete rec then legacy_actions D rec
        else [next_action (worker_command (''status --name '' @ shlex_quote (shown_name (sr_name rec))))
                ''Inspect the existing worker before continuing'', raw_resume_action D (sr_thread_id rec)]))"

definition legacy_fault :: "'c facade_deps \<Rightarrow> session_record \<Rightarrow> (exn, facade_fault) res" where
  "legacy_fault D rec = ebind (fault_details D [(''policy_state'', JStr ''incomplete_legacy'')] (Some rec) None) (\<lambda>d.
     mk_fault REGISTRY_ERROR ''Worker policy is incomplete in legacy state'' False d
       (known_ids_of (Some rec) None None) (legacy_actions D rec))"

definition registry_read_fault :: "'c facade_deps \<Rightarrow> exn \<Rightarrow> string option \<Rightarrow> session_record option \<Rightarrow> (exn, facade_fault) res" where
  "registry_read_fault D x name rec = ebind (fault_details D [(''reason'', JStr (exn_str x))] rec None) (\<lambda>d.
     mk_fault REGISTRY_ERROR ''Could not read worker registry'' False d (known_ids_of rec name None) [])"

definition active_turn_actions :: "string \<Rightarrow> string \<Rightarrow> json list" where
  "active_turn_actions name first =
     [next_action (worker_command (''status --name '' @ name)) first,
      next_action (worker_command (''messages --name '' @ name)) ''Read retained narration'',
      next_action (worker_command (''interrupt --name '' @ name)) ''Cancel only if deliberate'']"

definition timeout_fault :: "'c facade_deps \<Rightarrow> session_record \<Rightarrow> string option \<Rightarrow> (exn, facade_fault) res" where
  "timeout_fault D rec turn_id = ebind (fault_details D [] (Some rec) None) (\<lambda>d.
     mk_fault TIMEOUT_ACTIVE ''Timed out while worker turn remains active'' True d
       (known_ids_of (Some rec) None turn_id) (active_turn_actions (shown_name (sr_name rec)) ''Inspect active work''))"

text \<open>Naming a worker without giving its record reads an attribute of \<open>None\<close>.\<close>

definition none_attribute :: "string \<Rightarrow> exn" where
  "none_attribute name = AttributeError (CHR 0x27 # ''NoneType'' @ CHR 0x27 # '' object has no attribute '' @ CHR 0x27 # name @ [CHR 0x27])"

definition stopped_fault :: "'c facade_deps \<Rightarrow> string option \<Rightarrow> session_record option \<Rightarrow> (exn, facade_fault) res" where
  "stopped_fault D name rec = (case (name, rec) of
     (None, _) \<Rightarrow> mk_fault DAEMON_STOPPED ''Worker daemon is stopped'' False [] (known_ids_of None None None)
       [next_action (worker_command ''daemon start'') ''Start the global service without creating a worker'']
   | (Some _, None) \<Rightarrow> Inl (none_attribute ''thread_id'')
   | (Some n, Some r) \<Rightarrow> ebind (fault_details D [] (Some r) None) (\<lambda>d.
       mk_fault DAEMON_STOPPED ''Worker daemon is stopped'' False d (known_ids_of (Some r) (Some n) None)
         [next_action (worker_command ''daemon start'') ''Start the global service without creating a turn'',
          next_action (worker_command (''status --name '' @ shlex_quote n))
            ''Inspect the exact durable worker after service start'', raw_resume_action D (sr_thread_id r)]))"

definition turn_not_active_fault :: "'c facade_deps \<Rightarrow> session_record \<Rightarrow> string option \<Rightarrow> (exn, facade_fault) res" where
  "turn_not_active_fault D rec turn_id = ebind (fault_details D [] (Some rec) None) (\<lambda>d.
     mk_fault TURN_NOT_ACTIVE ''Turn is not active'' False d (known_ids_of (Some rec) None turn_id)
       [next_action (worker_command (''status --name '' @ shown_name (sr_name rec))) ''Inspect the latest turn''])"

text \<open>\<open>LegacyNameConflict.next_actions\<close>.\<close>

definition conflict_actions :: "string \<Rightarrow> json list \<Rightarrow> json list" where
  "conflict_actions name candidates = map (\<lambda>c. next_action
     (''codex-worker migration resolve --name '' @ shlex_quote name @ '' --thread ''
        @ shlex_quote (case as_obj c of None \<Rightarrow> [] | Some d \<Rightarrow> field_str d ''thread_id''))
     ''Select this preserved legacy thread for the global name'') candidates"

definition conflict_fault :: "string \<Rightarrow> json_object \<Rightarrow> json list \<Rightarrow> (exn, facade_fault) res" where
  "conflict_fault name known candidates =
     mk_fault LEGACY_NAME_CONFLICT ''Legacy worker name has multiple preserved threads'' False
       [(''candidates'', JList candidates)] known (conflict_actions name candidates)"

section \<open>The fault of an exception\<close>

definition model_fault :: "'c facade_deps \<Rightarrow> json_object \<Rightarrow> session_record option \<Rightarrow> string option \<Rightarrow> (exn, facade_fault) res" where
  "model_fault D d rec name = ebind (fault_details D d rec None) (\<lambda>d'.
     (let effort = dhas d ''effort'' \<or> dhas d ''supported_efforts'' in
      mk_fault (if effort then EFFORT_UNSUPPORTED else MODEL_UNAVAILABLE)
        (if effort then ''Requested effort is unsupported'' else ''Requested model is unavailable'') False d'
        (known_ids_of rec name None)
        [next_action (worker_command ''model list'') ''Inspect the current live model catalog; no fallback has run'']))"

definition unknown_limits :: json_object where
  "unknown_limits = [(''capacity'', JStr ''unknown''), (''inference'', JStr ''do_not_infer'')]"

fun refine_known :: "json_object \<Rightarrow> json_object \<Rightarrow> string list \<Rightarrow> json_object" where
  "refine_known known d [] = known"
| "refine_known known d (k # ks) =
     refine_known (case as_str (jget d k) of None \<Rightarrow> known | Some v \<Rightarrow> dset known k (JStr v)) d ks"

definition rpc_fault_code :: "int \<Rightarrow> string \<Rightarrow> facade_code" where
  "rpc_fault_code c kind = (case code_of_value (JInt c) of Some code \<Rightarrow> code
     | None \<Rightarrow> if kind = ''session_detached'' then DAEMON_STOPPED else CODEX_FAILURE)"

definition active_turn_of :: "'c facade_deps \<Rightarrow> session_record option \<Rightarrow> ('c, string option) facade_act" where
  "active_turn_of D rec = (case rec of
     None \<Rightarrow> ret None
   | Some r \<Rightarrow> attempt (andthen (runtime_status_of D (sr_session_id r)) (\<lambda>st. ret (rs_active_turn_id st)))
       (\<lambda>x. if is_lost_session x then ret None else raise x))"

definition rpc_fault_of :: "'c facade_deps \<Rightarrow> session_record option \<Rightarrow> string option \<Rightarrow> int \<Rightarrow> string \<Rightarrow> string \<Rightarrow>
    json_object \<Rightarrow> ('c, facade_fault) facade_act" where
  "rpc_fault_of D rec name c message kind d =
     (let code = rpc_fault_code c kind;
          known = refine_known (known_ids_of rec name None) d [''session_id'', ''thread_id'', ''turn_id''];
          tid = as_str (jget known ''thread_id'')
      in if code = TURN_ACTIVE
         then andthen (if jget known ''turn_id'' = JNull then active_turn_of D rec else ret (as_str (jget known ''turn_id''))) (\<lambda>turn.
           lift (ebind (fault_details D d rec tid) (\<lambda>d'.
             mk_fault code message False d' (dset known ''turn_id'' (jopt turn))
               (active_turn_actions (shown_name (as_str (jget known ''name''))) ''Inspect the active turn''))))
         else lift (ebind (fault_details D d rec tid) (\<lambda>d'.
           mk_fault code message False d' known (case tid of None \<Rightarrow> [] | Some t \<Rightarrow> [raw_resume_action D t]))))"

definition codex_fault_of :: "'c facade_deps \<Rightarrow> session_record option \<Rightarrow> string option \<Rightarrow> bool \<Rightarrow> exn \<Rightarrow> string \<Rightarrow> string \<Rightarrow>
    (exn, facade_fault) res" where
  "codex_fault_of D rec name limits x kind m =
     ebind (fault_details D [(''reason'', JStr (exn_str x)), (''method'', JStr m), (''provider_kind'', JStr kind)] rec None) (\<lambda>d.
       if limits then mk_fault LIMITS_UNAVAILABLE ''Codex limits are unavailable'' False
         (dset (dset d ''capacity'' (JStr ''unknown'')) ''inference'' (JStr ''do_not_infer'')) (known_ids_of rec name None) []
       else mk_fault (if kind = ''protocol_error'' then CODEX_PROTOCOL_ERROR else CODEX_FAILURE) ''Codex operation failed''
         False d (known_ids_of rec name None) [])"

text \<open>\<open>_effect_fault\<close>: it raises what it does not answer.\<close>

definition effect_fault :: "'c facade_deps \<Rightarrow> exn \<Rightarrow> session_record option \<Rightarrow> string option \<Rightarrow> bool \<Rightarrow> ('c, facade_fault) facade_act" where
  "effect_fault D x rec name limits = (case x of
     FacadeFault f \<Rightarrow> (case rec of
         None \<Rightarrow> ret f
       | Some r \<Rightarrow> lift (ebind (fault_details D (ff_details f) (Some r) None) (\<lambda>d.
           mk_facade_fault (JInt (code_value (ff_code f))) (JStr (ff_message f)) (JStr (ff_kind f)) (JBool (ff_retryable f))
             (JStr (ff_source f)) (JObj d) (JObj (ff_known_ids f)) (JList (ff_next_actions f)))))
   | WaitTimeout _ t \<Rightarrow> (case rec of None \<Rightarrow> raise (none_attribute ''name'') | Some r \<Rightarrow> lift (timeout_fault D r t))
   | ModelSelectionError _ d \<Rightarrow> lift (model_fault D (case d of None \<Rightarrow> [] | Some d' \<Rightarrow> d') rec name)
   | RpcFault c m k _ d \<Rightarrow>
       if k = ''internal_error'' \<or> k = ''broker_error'' then raise x
       else if limits then lift (mk_fault LIMITS_UNAVAILABLE ''Codex limits are unavailable'' False
         ((''reason'', JStr m) # unknown_limits) (known_ids_of rec name None) [])
       else rpc_fault_of D rec name c m k (case d of None \<Rightarrow> [] | Some d' \<Rightarrow> d')
   | FacadeRpcFault f \<Rightarrow>
       if limits then lift (mk_fault LIMITS_UNAVAILABLE ''Codex limits are unavailable'' False
         ((''reason'', JStr (ff_message f)) # unknown_limits) (known_ids_of rec name None) [])
       else rpc_fault_of D rec name (code_value (ff_code f)) (ff_message f) (ff_kind f) []
   | CodexCallError k m _ \<Rightarrow> lift (codex_fault_of D rec name limits x k m)
   | ServiceBusyError _ \<Rightarrow> lift (ebind (fault_details D [(''reason'', JStr (exn_str x))] rec None) (\<lambda>d.
       mk_fault CODEX_FAILURE ''Codex operation failed'' False d (known_ids_of rec name None) []))
   | _ \<Rightarrow> if is_registry_error x \<or> is_os_error x then lift (registry_read_fault D x name rec) else raise x)"

end
