(* ===== verification/FacadeOps.thy ===== *)
theory FacadeOps
  imports Facade
begin

text \<open>
  The operations of \<open>WorkerFacade\<close>. A method whose handler reads a variable the body assigns
  is split at the assignment (\<open>trying\<close>), as in the broker.
\<close>

section \<open>Replies\<close>

definition ok_reply :: "json \<Rightarrow> facade_reply option" where
  "ok_reply v = Some (OkReply (case as_obj v of None \<Rightarrow> [] | Some d \<Rightarrow> d))"

definition err_reply :: "facade_fault \<Rightarrow> facade_reply option" where
  "err_reply f = Some (ErrReply (Some f))"

type_synonym 'c reply_act = "('c, facade_reply option) facade_act"

definition refuse_with :: "(exn, facade_fault) res \<Rightarrow> 'c reply_act" where
  "refuse_with f = lift (ebind f (\<lambda>x. Inr (err_reply x)))"

text \<open>\<open>except BaseException as exc: return Err(self._effect_fault(exc, record, name))\<close>.\<close>

definition answer_fault :: "'c facade_deps \<Rightarrow> session_record option \<Rightarrow> string option \<Rightarrow> bool \<Rightarrow> exn \<Rightarrow> 'c reply_act" where
  "answer_fault D rec name limits x = andthen (effect_fault D x rec name limits) (\<lambda>f. ret (err_reply f))"

definition reply_with :: "ann \<Rightarrow> json_object \<Rightarrow> 'c reply_act" where
  "reply_with a vs = lift (ebind (build a vs) (\<lambda>v. Inr (ok_reply v)))"

section \<open>Views\<close>

definition enum_value :: "string \<Rightarrow> string list \<Rightarrow> string option \<Rightarrow> (exn, json) res" where
  "enum_value cls values s = (case s of
     None \<Rightarrow> Inl (ValueError (''None is not a valid '' @ cls))
   | Some v \<Rightarrow> if v \<in> set values then Inr (JStr v)
       else Inl (ValueError (CHR 0x27 # v @ CHR 0x27 # '' is not a valid '' @ cls)))"

definition worker_view :: "'c facade_deps \<Rightarrow> session_record \<Rightarrow> (exn, json) res" where
  "worker_view D rec =
     ebind (facade_attach D (sr_thread_id rec)) (\<lambda>attach.
     ebind (if sr_tier rec = None \<or> sr_tier rec = Some [] then Inr JNull
            else enum_value ''Tier'' [''medium'', ''very-smart''] (sr_tier rec)) (\<lambda>tier.
     ebind (enum_value ''AccessMode'' [''full'', ''read_only''] (sr_access rec)) (\<lambda>access.
       build (WorkerView (be_model (fd_broker D)))
         [(''name'', jopt (sr_name rec)), (''session_id'', JStr (sr_session_id rec)),
          (''thread_id'', JStr (sr_thread_id rec)), (''cwd'', JStr (sr_cwd rec)), (''tier'', tier),
          (''model'', jopt (sr_model rec)), (''effort'', jopt (sr_effort rec)), (''access'', access),
          (''attach'', attach), (''config'', opt_obj (sr_config rec))])))"

definition turn_view :: "turn_snapshot option \<Rightarrow> (exn, json) res" where
  "turn_view t = (case t of None \<Rightarrow> Inr JNull
     | Some s \<Rightarrow> build TurnView [(''turn_id'', JStr (ts_turn_id s)), (''status'', JStr (ts_status s)),
         (''error'', opt_error_dict (ts_error s))])"

definition goal_view :: "json_object \<Rightarrow> (exn, json) res" where
  "goal_view g = build GoalView [(''thread_id'', jget g ''threadId''), (''objective'', jget g ''objective''),
     (''status'', jget g ''status''), (''token_budget'', jget g ''tokenBudget''), (''tokens_used'', jget g ''tokensUsed''),
     (''time_used_seconds'', jget g ''timeUsedSeconds''), (''created_at'', jget g ''createdAt''),
     (''updated_at'', jget g ''updatedAt'')]"

definition recovery_view :: "'c facade_deps \<Rightarrow> session_record \<Rightarrow> (exn, json) res" where
  "recovery_view D rec = (let n = shown_name (sr_name rec) in
     build RecoveryView [(''status'', JStr (worker_command (''status --name '' @ n))),
       (''messages'', JStr (worker_command (''messages --name '' @ n))),
       (''interrupt'', JStr (worker_command (''interrupt --name '' @ n))),
       (''raw_resume'', JStr (raw_resume_command (fd_listener D) (sr_thread_id rec)))])"

section \<open>Finding the worker\<close>

definition resolve_policy :: "'c facade_deps \<Rightarrow> string \<Rightarrow> ('c, facade_fault + session_record) facade_act" where
  "resolve_policy D name = trying (resolve_worker D name)
     (\<lambda>x. (case x of
        LegacyNameConflict _ candidates \<Rightarrow> lift (ebind (conflict_fault name (known_ids_of None (Some name) None) candidates) (\<lambda>f. Inr (Inl f)))
      | _ \<Rightarrow> if is_registry_error x
          then lift (ebind (if exn_str x = ''unknown worker name'' then not_found_fault name
                 else registry_read_fault D x (Some name) None) (\<lambda>f. Inr (Inl f)))
          else raise x))
     (\<lambda>rec. if common_policy_complete rec then ret (Inr rec)
        else lift (ebind (legacy_fault D rec) (\<lambda>f. Inr (Inl f))))"

text \<open>
  The frame of the operations on a worker that exists: what the record's resolution raises is
  answered by \<open>early\<close>, what the body raises by \<open>late\<close> with the record.
\<close>

definition with_worker :: "'c facade_deps \<Rightarrow> string \<Rightarrow> (exn \<Rightarrow> 'c reply_act) \<Rightarrow> (session_record \<Rightarrow> exn \<Rightarrow> 'c reply_act) \<Rightarrow>
    (session_record \<Rightarrow> 'c reply_act) \<Rightarrow> 'c reply_act" where
  "with_worker D name early late body = trying (resolve_policy D name) early
     (\<lambda>found. case found of Inl f \<Rightarrow> ret (err_reply f) | Inr rec \<Rightarrow> attempt (body rec) (late rec))"

text \<open>\<open>_attached_fault\<close>.\<close>

definition attached_fault :: "'c facade_deps \<Rightarrow> session_record \<Rightarrow> string \<Rightarrow> ('c, facade_fault option) facade_act" where
  "attached_fault D rec name = attempt
     (andthen (runtime_status_of D (sr_session_id rec)) (\<lambda>st.
        if rs_attached st then ret None else lift (ebind (stopped_fault D (Some name) (Some rec)) (\<lambda>f. Inr (Some f)))))
     (\<lambda>x. if is_lost_session x then lift (ebind (stopped_fault D (Some name) (Some rec)) (\<lambda>f. Inr (Some f))) else raise x)"

section \<open>Running a turn\<close>

definition wait_turn :: "'c facade_deps \<Rightarrow> string \<Rightarrow> rat option \<Rightarrow> string \<Rightarrow> ('c, turn_snapshot option) facade_act" where
  "wait_turn D sid timeout tid = (let e = fd_broker D in on_broker
     (andthen (observe (\<lambda>b. wait (bk_runtime b) sid (map_option (fd_ticks D) timeout) (Some tid)
          (be_monotonic e (bk_clock b)) (watch e (fd_rounds D) sid b))) (\<lambda>outcome.
      andthen (wait_moments e (fd_rounds D)) (\<lambda>_. case outcome of
        None \<Rightarrow> ret None | Some (Inl x) \<Rightarrow> raise x | Some (Inr t) \<Rightarrow> ret (Some t)))))"

text \<open>Registering the turn with the dispatcher: a failure only means that the client projects itself.\<close>

definition observe_projection :: "'c facade_deps \<Rightarrow> string \<Rightarrow> string \<Rightarrow> turn_context \<Rightarrow> ('c, 'c dispatcher_port option) facade_act" where
  "observe_projection D sid tid c = (case fd_dispatcher D of
     None \<Rightarrow> ret None
   | Some p \<Rightarrow> attempt (andthen (on_port (dp_observe p sid tid c)) (\<lambda>_. ret (Some p))) (\<lambda>_. ret None))"

definition start_and_wait :: "'c facade_deps \<Rightarrow> session_record \<Rightarrow> json \<Rightarrow> string \<Rightarrow> json option \<Rightarrow> rat option \<Rightarrow> 'c reply_act" where
  "start_and_wait D rec worker prompt schema timeout =
     (let sid = sr_session_id rec in
      andthen (at_moment D (fd_clock D)) (\<lambda>started.
      andthen (lift (enum_value ''AccessMode'' [''full'', ''read_only''] (sr_access rec))) (\<lambda>access.
      andthen (on_broker (start_turn (fd_broker D) \<lparr>tp_session_id = sid, tp_prompt = prompt, tp_model = sr_model rec,
          tp_effort = sr_effort rec, tp_access = (if access = JStr ''full'' then FullAccess else ReadOnlyAccess),
          tp_schema = (case schema of None \<Rightarrow> None | Some v \<Rightarrow> as_obj v)\<rparr>)) (\<lambda>result.
      (let tid = field_str result ''turn_id'' in
      andthen (if fd_dispatcher D = None then ret None else
          andthen (lift (recovery_view D rec)) (\<lambda>recovery.
            observe_projection D sid tid \<lparr>cx_worker = worker, cx_schema = schema, cx_started_at = started, cx_recovery = recovery\<rparr>)) (\<lambda>projecting.
      trying (wait_turn D sid timeout tid)
        (\<lambda>x. (case x of
           WaitTimeout _ t \<Rightarrow> andthen (case projecting of None \<Rightarrow> ret () | Some p \<Rightarrow> on_port (dp_abandon p sid tid)) (\<lambda>_.
             refuse_with (timeout_fault D rec t))
         | _ \<Rightarrow> raise x))
        (\<lambda>waited. case waited of
           None \<Rightarrow> ret None
         | Some turn \<Rightarrow> (case projecting of
             Some p \<Rightarrow> andthen (on_port (dp_completion p sid tid turn)) (\<lambda>c. ret (case c of None \<Rightarrow> None | Some v \<Rightarrow> ok_reply v))
           | None \<Rightarrow> andthen (at_moment D (fd_clock D)) (\<lambda>ended.
               lift (ebind (recovery_view D rec) (\<lambda>recovery.
                 ebind (project_completion (be_model (fd_broker D)) (fd_loads D) worker turn schema
                   (JFloat (Fin (ended - started))) (Some recovery)) (\<lambda>v. Inr (ok_reply v)))))))))))))"

definition schema_of :: "json_object \<Rightarrow> json option" where
  "schema_of req = (if jget req ''output_schema'' = JNull then None else Some (jget req ''output_schema''))"

text \<open>\<open>run\<close>: a worker whose session is not attached is resumed first.\<close>

definition worker_attached :: "'c facade_deps \<Rightarrow> session_record \<Rightarrow> ('c, bool) facade_act" where
  "worker_attached D rec = attempt (andthen (runtime_status_of D (sr_session_id rec)) (\<lambda>st. ret (rs_attached st)))
     (\<lambda>x. if is_lost_session x then ret False else raise x)"

definition facade_run :: "'c facade_deps \<Rightarrow> json_object \<Rightarrow> 'c reply_act" where
  "facade_run D req = (let name = field_str req ''name'' in
     with_worker D name (answer_fault D None (Some name) False) (\<lambda>rec. answer_fault D (Some rec) (Some name) False) (\<lambda>rec.
       andthen (worker_attached D rec) (\<lambda>attached.
       andthen (if attached then ret () else andthen
           (on_broker (session_resume (fd_broker D) (by_session (sr_session_id rec)) None)) (\<lambda>_. ret ())) (\<lambda>_.
       andthen (lift (worker_view D rec)) (\<lambda>worker.
         start_and_wait D rec worker (field_str req ''prompt'') (schema_of req) (seconds_of (jget req ''timeout'')))))))"

section \<open>Creating a worker\<close>

definition tier_models :: "(string \<times> string) list" where
  "tier_models = [(''medium'', ''gpt-5.6-terra''), (''very-smart'', ''gpt-5.6-sol'')]"

definition requested_model :: "json_object \<Rightarrow> (exn, string) res" where
  "requested_model req = (case opt_text req ''model'' of Some m \<Rightarrow> Inr m
     | None \<Rightarrow> (case dget tier_models (field_str req ''tier'') of None \<Rightarrow> Inl (KeyError (field_str req ''tier'')) | Some m \<Rightarrow> Inr m))"

definition config_overrides :: "'c facade_deps \<Rightarrow> json_object \<Rightarrow> (exn, string list) res" where
  "config_overrides D req = emap (\<lambda>(k, v). ebind (json_dumps (fd_float D) v) (\<lambda>t. Inr (k @ ''='' @ t)))
     (sort_key fst (case as_obj (jget req ''config'') of None \<Rightarrow> [] | Some c \<Rightarrow> c))"

definition option_args :: "string \<Rightarrow> string option \<Rightarrow> string list" where
  "option_args flag v = (case v of None \<Rightarrow> [] | Some x \<Rightarrow> [flag, x])"

definition corrected_start_args :: "'c facade_deps \<Rightarrow> json_object \<Rightarrow> string \<Rightarrow> string list \<Rightarrow> string list" where
  "corrected_start_args D req effort overrides =
     [''start'', ''--name'', shlex_quote (field_str req ''name''), ''--prompt'', shlex_quote (field_str req ''prompt''),
      ''--cwd'', shlex_quote (field_str req ''cwd'')]
     @ (case opt_text req ''model'' of Some m \<Rightarrow> [''--model'', shlex_quote m] | None \<Rightarrow> [''--tier'', field_str req ''tier''])
     @ [''--effort'', shlex_quote effort]
     @ (if jget req ''access'' = JStr ''read_only'' then [''--read-only''] else [])
     @ option_args ''--goal'' (map_option shlex_quote (opt_text req ''goal''))
     @ option_args ''--token-budget'' (map_option show_int (as_int (jget req ''token_budget'')))
     @ concat (map (\<lambda>c. [''--config'', shlex_quote c]) overrides)
     @ option_args ''--timeout'' (map_option (fd_float D) (seconds_of (jget req ''timeout'')))"

definition spans_lines :: "string \<Rightarrow> bool" where
  "spans_lines t \<longleftrightarrow> CHR 0x0D \<in> set t \<or> CHR 0x0A \<in> set t"

definition corrected_start_actions :: "'c facade_deps \<Rightarrow> json_object \<Rightarrow> string list \<Rightarrow> (exn, json list) res" where
  "corrected_start_actions D req supported = (case supported of
     [] \<Rightarrow> Inr []
   | effort # _ \<Rightarrow>
       if jget req ''output_schema'' \<noteq> JNull then Inr []
       else ebind (config_overrides D req) (\<lambda>overrides.
         if list_ex spans_lines ([field_str req ''prompt'', field_str req ''cwd'', field_str req ''model'', field_str req ''goal'',
              effort] @ overrides) then Inr []
         else Inr [next_action (worker_command (join_with '' '' (corrected_start_args D req effort overrides)))
           (''Retry with provider-supported effort '' @ effort @ ''; no fallback has run'')]))"

definition schema_retry :: json where
  "schema_retry = JObj [(''required_option'', JStr ''--output-schema''), (''source'', JStr (''caller'' @ CHR 0x27 # ''s original file'')),
     (''guidance'', JStr ''Retry with the original --output-schema file and one of supported_efforts'')]"

definition raise_fault :: "facade_code \<Rightarrow> string \<Rightarrow> json_object \<Rightarrow> json \<Rightarrow> json list \<Rightarrow> ('s, 'a) act" where
  "raise_fault code message details known actions =
     raise (facade_exn code message False ''codex-worker'' (JObj details) known (JList actions))"

text \<open>\<open>_select_model\<close>.\<close>

definition choose_model :: "'c facade_deps \<Rightarrow> json_object \<Rightarrow> ('c, string) facade_act" where
  "choose_model D req =
     andthen (lift (requested_model req)) (\<lambda>model.
     andthen (on_broker (live_models (fd_broker D))) (\<lambda>models.
       case find (\<lambda>m. lm_id m = model) models of
         None \<Rightarrow> raise_fault MODEL_UNAVAILABLE ''Requested model is unavailable''
           [(''model'', JStr model), (''models'', JList (map live_model_json models))] JNull []
       | Some m \<Rightarrow>
           if field_str req ''effort'' \<in> set (lm_efforts m) then ret model
           else andthen (lift (corrected_start_actions D req (lm_efforts m))) (\<lambda>actions.
             raise_fault EFFORT_UNSUPPORTED ''Requested effort is unsupported''
               ([(''model'', JStr model), (''supported_efforts'', JList (map JStr (lm_efforts m)))]
                @ (if jget req ''output_schema'' = JNull then [] else [(''schema_retry'', schema_retry)]))
               (JObj (known_ids_of None (Some (field_str req ''name'')) None)) actions)))"

text \<open>\<open>_bind_callback\<close>.\<close>

definition callback_binding :: "string \<Rightarrow> bool \<Rightarrow> json_object option \<Rightarrow> string \<Rightarrow> binding" where
  "callback_binding sid disabled capture now =
     (let none = \<lparr>cb_session_id = sid, cb_state = Unavailable, cb_target_socket = JNull, cb_child_token = JNull,
          cb_claude_session_id = JNull, cb_claude_pid = JNull, cb_claude_proc_start = JNull, cb_claude_config_dir = JNull,
          cb_captured_at = now, cb_last_attempt = JNull\<rparr>
      in if disabled then none\<lparr>cb_state := Disabled\<rparr>
         else (case capture of
           None \<Rightarrow> none
         | Some c \<Rightarrow>
             if jget c ''target_socket'' = JNull then none\<lparr>cb_claude_config_dir := jget c ''claude_config_dir''\<rparr>
             else none\<lparr>cb_state := Enabled, cb_target_socket := jget c ''target_socket'', cb_child_token := jget c ''child_token'',
               cb_claude_session_id := jget c ''claude_session_id'', cb_claude_pid := jget c ''claude_pid'',
               cb_claude_proc_start := jget c ''claude_proc_start'', cb_claude_config_dir := jget c ''claude_config_dir''\<rparr>))"

definition bind_callback :: "'c facade_deps \<Rightarrow> session_record \<Rightarrow> bool \<Rightarrow> json_object option \<Rightarrow> ('c, unit) facade_act" where
  "bind_callback D rec disabled capture = (case fd_store D of
     None \<Rightarrow> ret ()
   | Some store \<Rightarrow>
       andthen (case fd_dispatcher D of None \<Rightarrow> ret ''1970-01-01T00:00:00Z'' | Some p \<Rightarrow> on_port (dp_now p)) (\<lambda>now.
       (let b = callback_binding (sr_session_id rec) disabled capture now in
        andthen (lift (binding_checks b)) (\<lambda>_. on_port (cp_bind store b)))))"

definition initial_prompt :: "string \<Rightarrow> session_record \<Rightarrow> string" where
  "initial_prompt prompt rec = prompt @ [newline, newline] @ join_with [newline]
     [''You may broadcast a non-blocking update to Claude and continue working:'',
      ''codex-worker message --name '' @ shlex_quote (shown_name (sr_name rec)) @ '' --message '' @ dquote # ''<prose>'' @ [dquote],
      ''Use --message-file for long text. Optional one-send override: --cc-agent-name <name>.'',
      ''This command does not wait for a reply; Claude may later use steer or run.'']"

definition existing_worker :: "'c facade_deps \<Rightarrow> string \<Rightarrow> ('c, facade_fault + session_record option) facade_act" where
  "existing_worker D name = attempt (andthen (resolve_worker D name) (\<lambda>r. ret (Inr (Some r))))
     (\<lambda>x. if \<not> is_registry_error x then raise x
        else if exn_str x = ''unknown worker name'' then ret (Inr None)
        else lift (ebind (registry_read_fault D x (Some name) None) (\<lambda>f. Inr (Inl f))))"

definition worker_spec :: "json_object \<Rightarrow> string \<Rightarrow> start_spec" where
  "worker_spec req model = \<lparr>sp_cwd = field_str req ''cwd'', sp_name = Some (field_str req ''name''), sp_model = Some model,
     sp_access = Some (if jget req ''access'' = JStr ''read_only'' then ReadOnlyAccess else FullAccess),
     sp_tier = opt_text req ''tier'', sp_effort = Some (field_str req ''effort''), sp_policy = PreserveWorkerPolicy,
     sp_config = as_obj (jget req ''config'')\<rparr>"

definition checked_capture :: "'c facade_deps \<Rightarrow> json_object \<Rightarrow> ('c, json_object option) facade_act" where
  "checked_capture D req = (case as_obj (jget req ''callback_capture'') of
     None \<Rightarrow> ret None
   | Some c \<Rightarrow> (if jget req ''no_callback'' = JBool True then ret (Some c)
       else (case fd_transport D of None \<Rightarrow> ret (Some c)
         | Some p \<Rightarrow> andthen (on_port (tp_validate p c)) (\<lambda>v. ret (Some v)))))"

text \<open>The part of \<open>start\<close> before the record is known.\<close>

definition create_worker :: "'c facade_deps \<Rightarrow> json_object \<Rightarrow> ('c, facade_fault + session_record \<times> json_object option) facade_act" where
  "create_worker D req = (let name = field_str req ''name'' in
     andthen (existing_worker D name) (\<lambda>existing. case existing of
       Inl f \<Rightarrow> ret (Inl f)
     | Inr (Some rec) \<Rightarrow> lift (ebind (exists_fault D rec) (\<lambda>f. Inr (Inl f)))
     | Inr None \<Rightarrow>
         andthen (choose_model D req) (\<lambda>model.
         andthen (checked_capture D req) (\<lambda>capture.
         andthen (on_broker (start_session (fd_broker D) (worker_spec req model))) (\<lambda>_.
         andthen (resolve_worker D name) (\<lambda>rec. ret (Inr (rec, capture))))))))"

definition first_prompt :: "json_object \<Rightarrow> session_record \<Rightarrow> json_object option \<Rightarrow> string" where
  "first_prompt req rec capture = (case capture of
     Some c \<Rightarrow> if jget c ''claude_config_dir'' \<noteq> JNull then initial_prompt (field_str req ''prompt'') rec else field_str req ''prompt''
   | None \<Rightarrow> field_str req ''prompt'')"

definition set_first_goal :: "'c facade_deps \<Rightarrow> json_object \<Rightarrow> session_record \<Rightarrow> ('c, json_object) facade_act" where
  "set_first_goal D req rec = (case opt_text req ''goal'' of
     None \<Rightarrow> ret []
   | Some g \<Rightarrow> on_broker (goal_set (fd_broker D) (sr_thread_id rec) (Some g) (Some ''active'') (as_int (jget req ''token_budget''))))"

definition begin_work :: "'c facade_deps \<Rightarrow> json_object \<Rightarrow> session_record \<Rightarrow> json_object option \<Rightarrow> 'c reply_act" where
  "begin_work D req rec capture =
     andthen (lift (worker_view D rec)) (\<lambda>worker.
     andthen (bind_callback D rec (jget req ''no_callback'' = JBool True) capture) (\<lambda>_.
     trying (set_first_goal D req rec) (answer_fault D (Some rec) (Some (field_str req ''name'')) False) (\<lambda>_.
       start_and_wait D rec worker (first_prompt req rec capture) (schema_of req) (seconds_of (jget req ''timeout'')))))"

definition facade_start :: "'c facade_deps \<Rightarrow> json_object \<Rightarrow> 'c reply_act" where
  "facade_start D req = (let name = field_str req ''name'' in
     trying (create_worker D req) (answer_fault D None (Some name) False)
       (\<lambda>created. case created of
          Inl f \<Rightarrow> ret (err_reply f)
        | Inr (rec, capture) \<Rightarrow> attempt (begin_work D req rec capture) (answer_fault D (Some rec) (Some name) False)))"

end
