(* ===== verification/FacadeQueries.thy ===== *)
theory FacadeQueries
  imports FacadeOps
begin

text \<open>
  The operations of \<open>WorkerFacade\<close> that read a worker or control a turn, and the table by which
  the RPC server finds an operation.
\<close>

section \<open>Messages to the origin\<close>

definition callback_codes :: "facade_code list" where
  "callback_codes = [CALLBACK_UNAVAILABLE, CALLBACK_TARGET_STALE, CALLBACK_TARGET_NOT_FOUND, CALLBACK_TARGET_AMBIGUOUS,
     CALLBACK_TARGET_UNSAFE, CALLBACK_SEND_FAILED, CALLBACK_PAYLOAD_TOO_LARGE]"

fun callback_reason :: "facade_code \<Rightarrow> string" where
  "callback_reason CALLBACK_PAYLOAD_TOO_LARGE = ''Inspect state before retrying with a shorter message''"
| "callback_reason CALLBACK_UNAVAILABLE = ''Inspect callback state; continue work without assuming a callback''"
| "callback_reason CALLBACK_TARGET_STALE = ''Inspect the stale origin and continue recovery through worker results''"
| "callback_reason CALLBACK_TARGET_NOT_FOUND =
     ''Inspect worker state, then verify the exact Claude agent name outside Codex''"
| "callback_reason CALLBACK_TARGET_AMBIGUOUS = ''Inspect worker state, then select or rename a unique Claude room''"
| "callback_reason CALLBACK_TARGET_UNSAFE = ''Inspect worker state without changing or unlinking the rejected endpoint''"
| "callback_reason _ = ''Inspect callback and worker state before continuing''"

definition callback_fault_actions :: "facade_code \<Rightarrow> session_record \<Rightarrow> json list" where
  "callback_fault_actions code rec =
     [next_action (worker_command (''status --name '' @ shlex_quote (shown_name (sr_name rec)))) (callback_reason code)]"

text \<open>What the handler of \<open>message\<close> does with the fault: the callback faults name the worker.\<close>

definition message_fault :: "'c facade_deps \<Rightarrow> session_record option \<Rightarrow> facade_fault \<Rightarrow> (exn, facade_fault) res" where
  "message_fault D rec f = (case rec of
     None \<Rightarrow> Inr f
   | Some r \<Rightarrow> if ff_code f \<notin> set callback_codes then Inr f
       else ebind (fault_details D (ff_details f) (Some r) None) (\<lambda>d.
         mk_facade_fault (JInt (code_value (ff_code f))) (JStr (ff_message f)) (JStr (ff_kind f)) (JBool (ff_retryable f))
           (JStr (ff_source f)) (JObj d) (JObj (known_ids_of (Some r) None None)) (JList (callback_fault_actions (ff_code f) r))))"

definition answer_message_fault :: "'c facade_deps \<Rightarrow> session_record option \<Rightarrow> string \<Rightarrow> exn \<Rightarrow> 'c reply_act" where
  "answer_message_fault D rec name x = andthen (effect_fault D x rec (Some name) False) (\<lambda>f. refuse_with (message_fault D rec f))"

definition callbacks_unavailable :: "string \<Rightarrow> ('s, 'a) act" where
  "callbacks_unavailable message = raise_fault CALLBACK_UNAVAILABLE message [] JNull []"

definition facade_message :: "'c facade_deps \<Rightarrow> json_object \<Rightarrow> 'c reply_act" where
  "facade_message D req = (let name = field_str req ''name'' in
     with_worker D name (answer_message_fault D None name) (\<lambda>rec. answer_message_fault D (Some rec) name) (\<lambda>rec.
       case (fd_store D, fd_transport D) of
         (Some store, Some transport) \<Rightarrow>
           andthen (on_port (cp_binding store (sr_session_id rec))) (\<lambda>found. case found of
             None \<Rightarrow> callbacks_unavailable ''No callback binding is available for this worker''
           | Some b \<Rightarrow>
               andthen (lift (worker_view D rec)) (\<lambda>worker.
               andthen (at_moment D (fd_event_id D)) (\<lambda>event_id.
               andthen (at_moment D (fd_utc_now D)) (\<lambda>now.
               andthen (lift (build_worker_message_event worker (field_str req ''message'') (field_str req ''priority'') event_id now)) (\<lambda>event.
               andthen (on_port (tp_send transport b event (opt_text req ''cc_agent_name''))) (\<lambda>sent.
                 reply_with (CallbackSendResponse (be_model (fd_broker D)))
                   [(''worker'', worker), (''event_id'', JStr (ce_event_id event)), (''attempt'', sent)]))))))
       | _ \<Rightarrow> callbacks_unavailable ''Claude callbacks are unavailable''))"

section \<open>Status, messages and history\<close>

definition callback_status :: "'c facade_deps \<Rightarrow> string \<Rightarrow> ('c, json option) facade_act" where
  "callback_status D sid = (case fd_store D of
     None \<Rightarrow> ret None
   | Some store \<Rightarrow> andthen (on_port (cp_binding store sid)) (\<lambda>found. case found of
       None \<Rightarrow> ret None
     | Some _ \<Rightarrow> andthen (on_port (cp_status_view store sid)) (\<lambda>v. ret (Some v))))"

definition facade_status :: "'c facade_deps \<Rightarrow> json_object \<Rightarrow> 'c reply_act" where
  "facade_status D req = (let name = field_str req ''name'' in
     with_worker D name
       (\<lambda>x. if is_lost_session x then raise (UnboundLocalError ''record'') else answer_fault D None (Some name) False x)
       (\<lambda>rec x. if is_lost_session x then refuse_with (stopped_fault D (Some name) (Some rec)) else answer_fault D None (Some name) False x)
       (\<lambda>rec. andthen (runtime_status_of D (sr_session_id rec)) (\<lambda>st.
          if \<not> rs_attached st then refuse_with (stopped_fault D (Some name) (Some rec))
          else andthen (callback_status D (sr_session_id rec)) (\<lambda>callback.
            andthen (lift (worker_view D rec)) (\<lambda>worker.
            andthen (lift (turn_view (rs_latest_turn st))) (\<lambda>turn.
              reply_with (WorkerStatusResponse (be_model (fd_broker D)))
                ([(''worker'', worker), (''daemon_status'', JStr ''ready''), (''attached'', JBool (rs_attached st)),
                  (''active_turn_id'', jopt (rs_active_turn_id st)), (''latest_turn'', turn)]
                 @ (case callback of None \<Rightarrow> [] | Some c \<Rightarrow> [(''callback'', c)]))))))))"

definition facade_messages :: "'c facade_deps \<Rightarrow> json_object \<Rightarrow> 'c reply_act" where
  "facade_messages D req = (let name = field_str req ''name'' in
     with_worker D name
       (\<lambda>x. if is_lost_session x then refuse_with (stopped_fault D (Some name) None) else answer_fault D None (Some name) False x)
       (\<lambda>rec x. if is_lost_session x then refuse_with (stopped_fault D (Some name) None) else answer_fault D None (Some name) False x)
       (\<lambda>rec. andthen (runtime_status_of D (sr_session_id rec)) (\<lambda>st.
          if \<not> rs_attached st then refuse_with (stopped_fault D (Some name) (Some rec))
          else andthen (on_broker (read_runtime (fd_broker D) (\<lambda>store. agent_messages store (sr_session_id rec) (jget req ''tail'')))) (\<lambda>(items, truncated, cursor).
            andthen (lift (select_completion_messages items False)) (\<lambda>messages.
            andthen (lift (worker_view D rec)) (\<lambda>worker.
              reply_with (WorkerMessagesResponse (be_model (fd_broker D)))
                [(''worker'', worker), (''messages'', JList messages), (''requested_tail'', jget req ''tail''),
                 (''returned'', JInt (int (length messages))), (''truncated'', JBool truncated),
                 (''latest_cursor'', case cursor of None \<Rightarrow> JNull | Some c \<Rightarrow> JInt c)]))))))"

text \<open>
  The loop of \<open>history\<close> over the pages, newest turn first; \<open>None\<close>: not over after \<open>n\<close> pages. A
  cursor that is the last one again is a protocol error.
\<close>

definition no_progress :: "('s, 'a) act" where
  "no_progress = raise_fault CODEX_PROTOCOL_ERROR ''Codex history pagination did not progress'' [] JNull []"

fun history_pages :: "'c facade_deps \<Rightarrow> string \<Rightarrow> int \<Rightarrow> nat \<Rightarrow> json \<Rightarrow> json list list \<Rightarrow>
    ('c, (json list list \<times> json) option) facade_act" where
  "history_pages D sid tail n cursor pages =
     (if tail \<le> int (length (concat pages)) then ret (Some (pages, cursor))
      else (case n of
        0 \<Rightarrow> ret None
      | Suc m \<Rightarrow> andthen (on_broker (turn_history (fd_broker D) (by_session sid) (as_str cursor) (Some tail))) (\<lambda>page.
          (let after = jget page ''nextCursor'' in
           andthen (if cursor \<noteq> JNull \<and> after = cursor then no_progress else ret ()) (\<lambda>_.
           (let pages' = pages @ [case as_list (jget page ''turns'') of None \<Rightarrow> [] | Some ts \<Rightarrow> ts] in
            if after = JNull then ret (Some (pages', after)) else history_pages D sid tail m after pages'))))))"

declare history_pages.simps [simp del]

text \<open>\<open>xs[-tail:]\<close>.\<close>

definition last_of :: "int \<Rightarrow> 'a list \<Rightarrow> 'a list" where
  "last_of tail xs = drop (length xs - nat tail) xs"

definition facade_history :: "'c facade_deps \<Rightarrow> json_object \<Rightarrow> 'c reply_act" where
  "facade_history D req = (let name = field_str req ''name''; tail = (case as_int (jget req ''tail'') of None \<Rightarrow> 0 | Some n \<Rightarrow> n) in
     with_worker D name (answer_fault D None (Some name) False) (\<lambda>rec. answer_fault D None (Some name) False) (\<lambda>rec.
       andthen (attached_fault D rec name) (\<lambda>stopped. case stopped of
         Some f \<Rightarrow> ret (err_reply f)
       | None \<Rightarrow>
         andthen (history_pages D (sr_session_id rec) tail (fd_rounds D) JNull []) (\<lambda>got. case got of
           None \<Rightarrow> ret None
         | Some (pages, cursor) \<Rightarrow>
           andthen (lift (emap project_history_turn (last_of tail (chronological_history_pages pages)))) (\<lambda>turns.
           andthen (lift (worker_view D rec)) (\<lambda>worker.
             reply_with (WorkerHistoryResponse (be_model (fd_broker D)))
               [(''worker'', worker), (''turns'', JList turns), (''requested_tail'', JInt tail),
                (''returned'', JInt (int (length turns))), (''older_available'', JBool (cursor \<noteq> JNull))]))))))"

section \<open>Controlling the active turn\<close>

definition facade_control :: "'c facade_deps \<Rightarrow> bool \<Rightarrow> json_object \<Rightarrow> 'c reply_act" where
  "facade_control D steering req = (let name = field_str req ''name'' in
     with_worker D name (answer_fault D None (Some name) False) (\<lambda>rec. answer_fault D (Some rec) (Some name) False) (\<lambda>rec.
       andthen (runtime_status_of D (sr_session_id rec)) (\<lambda>st.
         if \<not> rs_attached st then refuse_with (stopped_fault D (Some name) (Some rec))
         else (case rs_active_turn_id st of
           None \<Rightarrow> refuse_with (turn_not_active_fault D rec None)
         | Some tid \<Rightarrow>
             andthen (on_broker (if steering then turn_steer (fd_broker D) (by_session (sr_session_id rec)) (field_str req ''prompt'') (Some tid)
                 else turn_interrupt (fd_broker D) (by_session (sr_session_id rec)) (Some tid))) (\<lambda>result.
             andthen (lift (worker_view D rec)) (\<lambda>worker.
               reply_with (ControlResponse (be_model (fd_broker D)))
                 [(''worker'', worker), (''action'', JStr (if steering then ''steer'' else ''interrupt'')),
                  (''accepted'', jget result ''accepted''), (''turn_id'', jget result ''turn_id''),
                  (''status'', JStr (if steering then ''in_progress'' else ''interrupted''))]))))))"

definition facade_steer :: "'c facade_deps \<Rightarrow> json_object \<Rightarrow> 'c reply_act" where
  "facade_steer D req = facade_control D True req"

definition facade_interrupt :: "'c facade_deps \<Rightarrow> json_object \<Rightarrow> 'c reply_act" where
  "facade_interrupt D req = facade_control D False req"

section \<open>Goals and limits\<close>

definition goal_of :: "json_object \<Rightarrow> json_object option" where
  "goal_of result = as_obj (jget result ''goal'')"

text \<open>The handler of \<open>goal_set\<close> reads the record, which is not bound before the worker is found.\<close>

definition facade_goal_set :: "'c facade_deps \<Rightarrow> json_object \<Rightarrow> 'c reply_act" where
  "facade_goal_set D req = (let name = field_str req ''name'' in
     with_worker D name (\<lambda>_. raise (UnboundLocalError ''record'')) (\<lambda>rec. answer_fault D (Some rec) (Some name) False) (\<lambda>rec.
       andthen (attached_fault D rec name) (\<lambda>stopped. case stopped of
         Some f \<Rightarrow> ret (err_reply f)
       | None \<Rightarrow>
         andthen (on_broker (goal_set (fd_broker D) (sr_thread_id rec) (opt_text req ''objective'') (opt_text req ''status'')
             (as_int (jget req ''token_budget'')))) (\<lambda>result.
         andthen (lift (worker_view D rec)) (\<lambda>worker.
         andthen (lift (goal_view (case goal_of result of None \<Rightarrow> [] | Some g \<Rightarrow> g))) (\<lambda>goal.
           reply_with (GoalResponse (be_model (fd_broker D)))
             [(''worker'', worker), (''availability'', JStr ''present''), (''goal'', goal)]))))))"

definition facade_goal_show :: "'c facade_deps \<Rightarrow> json_object \<Rightarrow> 'c reply_act" where
  "facade_goal_show D req = (let name = field_str req ''name'' in
     with_worker D name (answer_fault D None (Some name) False) (\<lambda>rec. answer_fault D None (Some name) False) (\<lambda>rec.
       andthen (attached_fault D rec name) (\<lambda>stopped. case stopped of
         Some f \<Rightarrow> ret (err_reply f)
       | None \<Rightarrow>
         andthen (on_broker (goal_get (fd_broker D) (sr_thread_id rec))) (\<lambda>result.
         andthen (lift (worker_view D rec)) (\<lambda>worker.
         andthen (lift (case goal_of result of None \<Rightarrow> Inr JNull | Some g \<Rightarrow> goal_view g)) (\<lambda>goal.
           reply_with (GoalResponse (be_model (fd_broker D)))
             [(''worker'', worker), (''availability'', JStr (if goal = JNull then ''absent'' else ''present'')), (''goal'', goal)]))))))"

definition facade_limits :: "'c facade_deps \<Rightarrow> json_object \<Rightarrow> 'c reply_act" where
  "facade_limits D req = attempt
     (andthen (on_broker (daemon_status (fd_broker D) (fd_socket_path D) (fd_state_path D) (fd_pid D) (fd_version D))) (\<lambda>daemon.
        if jget daemon ''ready'' \<noteq> JBool True then refuse_with (stopped_fault D None None)
        else andthen (on_broker (codex (fd_broker D) ''account/rateLimits/read'' native_rate_limits)) (\<lambda>limits.
          reply_with LimitsResponse [(''availability'', JStr ''available''), (''rate_limits'', jget limits ''rateLimits'')])))
     (answer_fault D None None True)"

section \<open>The operations by name\<close>

definition worker_operations :: "'c facade_deps \<Rightarrow> (string \<times> (json_object \<Rightarrow> 'c reply_act)) list" where
  "worker_operations D =
     [(''start'', facade_start D), (''run'', facade_run D), (''message'', facade_message D), (''status'', facade_status D),
      (''messages'', facade_messages D), (''history'', facade_history D), (''steer'', facade_steer D),
      (''interrupt'', facade_interrupt D), (''goal_set'', facade_goal_set D), (''goal_show'', facade_goal_show D),
      (''limits'', facade_limits D)]"

definition worker_facade :: "'c facade_deps \<Rightarrow> 'c facade_state facade_ops" where
  "worker_facade D operation req = (case dget (worker_operations D) operation of
     None \<Rightarrow> raise (AttributeError operation) | Some f \<Rightarrow> f req)"

end
