(* ===== verification/ServiceFacade.thy ===== *)
theory ServiceFacade
  imports Facade Service
begin

text \<open>
  \<open>facade.py\<close>, \<open>ServiceFacade\<close>: the public projection of the service's life cycle and of the
  migration. Its state is the broker's with the state of the service and the migrator, known
  through the ports of \<open>ServiceFacadeDeps\<close>.
\<close>

section \<open>Dependencies\<close>

record 'c service_deps =
  sd_broker :: broker_env
  sd_rounds :: nat
  sd_inventory_timeout :: int
  sd_socket_path :: string
  sd_state_path :: string
  sd_pid :: int
  sd_version :: string
  sd_listener :: string
  sd_status :: "('c, service_status) act"
  sd_stopping :: "('c, bool) act"
  sd_scan :: "('c, json_object) act"
  sd_resolve :: "string \<Rightarrow> string \<Rightarrow> string option \<Rightarrow> ('c, session_record) act"

section \<open>Faults\<close>

definition daemon_status_action :: "string \<Rightarrow> json" where
  "daemon_status_action reason = next_action ''codex-worker daemon status'' reason"

text \<open>A fault that names no worker.\<close>

definition service_fault_with :: "facade_code \<Rightarrow> string \<Rightarrow> bool \<Rightarrow> json_object \<Rightarrow> json list \<Rightarrow> (exn, facade_fault) res" where
  "service_fault_with code message retryable details actions =
     mk_facade_fault (JInt (code_value code)) (JStr message) (JStr (facade_kind code)) (JBool retryable)
       (JStr ''codex-worker'') (JObj details) JNull (JList actions)"

definition add_default :: "json_object \<Rightarrow> string \<Rightarrow> json \<Rightarrow> json_object" where
  "add_default d k v = (if dhas d k then d else dset d k v)"

text \<open>\<open>ServiceFacade._fault\<close>.\<close>

definition service_fault :: "exn \<Rightarrow> string \<Rightarrow> (exn, facade_fault) res" where
  "service_fault x reason = (case x of
     FacadeFault f \<Rightarrow> Inr f
   | LegacyNameConflict name candidates \<Rightarrow>
       service_fault_with LEGACY_NAME_CONFLICT ''Legacy worker name has multiple preserved threads'' False
         [(''candidates'', JList candidates)] (conflict_actions name candidates)
   | MaintenanceTerminationError cause \<Rightarrow>
       service_fault_with DAEMON_STOP_FAILED ''Global service teardown is incomplete'' True
         [(''reason'', JStr ''owned_teardown_incomplete''), (''cause'', JStr cause), (''durable_state'', JStr ''preserved'')]
         [daemon_status_action ''Inspect the exact global service state'',
          next_action ''codex-worker daemon stop'' ''Retry the idempotent guarded stop'']
   | RpcFault _ _ kind _ details \<Rightarrow>
       if kind = ''internal_error'' \<or> kind = ''broker_error'' then Inl x
       else service_fault_with CODEX_FAILURE ''Global service operation failed'' False
         (add_default (case details of None \<Rightarrow> [] | Some d \<Rightarrow> d) ''reason'' (JStr reason)) []
   | FacadeRpcFault f \<Rightarrow>
       if ff_kind f = ''internal_error'' \<or> ff_kind f = ''broker_error'' then Inl x
       else service_fault_with CODEX_FAILURE ''Global service operation failed'' False [(''reason'', JStr reason)] []
   | ModelSelectionError _ details \<Rightarrow>
       service_fault_with CODEX_FAILURE ''Global service operation failed'' False
         (add_default (case details of None \<Rightarrow> [] | Some d \<Rightarrow> d) ''reason'' (JStr reason)) []
   | _ \<Rightarrow> if is_os_error x
       then service_fault_with CODEX_FAILURE ''Global service operation failed'' False
         [(''reason'', JStr reason), (''cause'', JStr (exn_name x))] []
       else Inl x)"

type_synonym 'c service_reply = "('c, facade_reply option) facade_act"

definition service_reply_fault :: "(exn, facade_fault) res \<Rightarrow> 'c service_reply" where
  "service_reply_fault f = lift (ebind f (\<lambda>x. Inr (Some (ErrReply (Some x)))))"

definition reporting :: "string \<Rightarrow> 'c service_reply \<Rightarrow> 'c service_reply" where
  "reporting reason m = attempt m (\<lambda>x. service_reply_fault (service_fault x reason))"

definition reply_of :: "(exn, json) res \<Rightarrow> 'c service_reply" where
  "reply_of v = lift (ebind v (\<lambda>w. Inr (Some (OkReply (case as_obj w of None \<Rightarrow> [] | Some d \<Rightarrow> d)))))"

section \<open>Status and readiness\<close>

definition count_evidence :: "int \<Rightarrow> string \<Rightarrow> json_object \<Rightarrow> (exn, json) res" where
  "count_evidence n source basis = build CountEvidence [(''value'', JInt n), (''source'', JStr source),
     (''availability'', JStr ''derived''), (''basis'', JObj basis)]"

definition opt_int :: "int option \<Rightarrow> json" where
  "opt_int v = (case v of None \<Rightarrow> JNull | Some i \<Rightarrow> JInt i)"

definition degraded_fault :: "active_item list \<Rightarrow> (exn, facade_fault) res" where
  "degraded_fault items = service_fault_with CODEX_FAILURE ''Global service components are degraded'' False
     [(''reason'', JStr ''service_degraded''), (''active'', JList (map (\<lambda>i. JObj (active_item_to_dict i)) items)),
      (''durable_state'', JStr ''preserved'')]
     [daemon_status_action ''Reinspect the degraded global service state'']"

definition status_impact :: "json_object \<Rightarrow> active_item list \<Rightarrow> (exn, worker_impact) res" where
  "status_impact daemon items =
     (let all = strings_in (case dget daemon ''worker_names'' of None \<Rightarrow> JList [] | Some v \<Rightarrow> v);
          active = List.map_filter ai_worker items
      in mk_impact (sorted_names active) (sorted_names (filter (\<lambda>n. n \<notin> set active) all)))"

definition status_response :: "'c service_deps \<Rightarrow> service_status \<Rightarrow> json_object \<Rightarrow> active_item list \<Rightarrow> worker_impact \<Rightarrow> json_object \<Rightarrow>
    (exn, json) res" where
  "status_response D sv daemon items workers migration =
     ebind (count_evidence (int (length (wi_active workers) + length (wi_idle workers))) ''codex-worker registry'' (impact_to_dict workers)) (\<lambda>wc.
     ebind (count_evidence (int (length items)) ''codex app-server inventory'' (inventory_to_dict items)) (\<lambda>ac.
       build (ServiceStatusResponse (be_model (sd_broker D)))
         [(''status'', JStr (if st_ready sv then ''ready'' else ''stopping'')), (''service_version'', JStr (st_worker_version sv)),
          (''pid'', case dget daemon ''daemon_pid'' of None \<Rightarrow> JInt (sd_pid D) | Some v \<Rightarrow> v),
          (''app_server_pid'', opt_int (st_codex_pid sv)), (''listener'', JStr (st_listener sv)),
          (''exposure'', JStr (st_exposure sv)), (''auth'', JStr (st_authentication sv)),
          (''attach_command'', JStr (''codex --remote '' @ shlex_quote (st_listener sv))),
          (''worker_count'', wc), (''active_turn_count'', ac), (''migration'', JObj migration),
          (''durable_state'', JStr ''preserved'')]))"

definition service_inventory :: "'c service_deps \<Rightarrow> bool \<Rightarrow> ('c, active_item list option) facade_act" where
  "service_inventory D stopping = (if stopping then ret (Some [])
     else on_broker (list_active_threads (sd_broker D) (sd_rounds D) (sd_inventory_timeout D)))"

definition service_status_reply :: "'c service_deps \<Rightarrow> 'c service_reply" where
  "service_status_reply D = reporting ''service_status_failed''
     (andthen (on_port (sd_status D)) (\<lambda>sv.
      andthen (if st_ready sv then ret False else on_port (sd_stopping D)) (\<lambda>stopping.
      andthen (on_broker (daemon_status (sd_broker D) (sd_socket_path D) (sd_state_path D) (sd_pid D) (sd_version D))) (\<lambda>daemon.
      andthen (service_inventory D stopping) (\<lambda>found. case found of
        None \<Rightarrow> ret None
      | Some items \<Rightarrow>
          andthen (lift (status_impact daemon items)) (\<lambda>workers.
          if \<not> st_ready sv \<and> \<not> stopping then service_reply_fault (degraded_fault items)
          else andthen (on_port (sd_scan D)) (\<lambda>migration.
            reply_of (status_response D sv daemon items workers migration))))))))"

definition service_readiness :: "'c service_deps \<Rightarrow> 'c service_reply" where
  "service_readiness D = reporting ''service_readiness_failed''
     (andthen (on_port (sd_status D)) (\<lambda>sv.
        if \<not> st_ready sv then andthen (on_port (sd_stopping D)) (\<lambda>stopping. service_reply_fault
          (if \<not> stopping then service_fault_with CODEX_FAILURE ''Global service components are degraded'' False
             [(''reason'', JStr ''service_degraded''), (''durable_state'', JStr ''preserved'')]
             [daemon_status_action ''Inspect the degraded global service state'']
           else service_fault_with DAEMON_STOPPED ''Global service is stopping'' False [(''reason'', JStr ''service_stopping'')]
             [daemon_status_action ''Inspect the global service state'']))
        else reply_of (build (ServiceReadinessResponse (be_model (sd_broker D)))
          [(''status'', JStr ''ready''), (''service_version'', JStr (st_worker_version sv)), (''pid'', JInt (sd_pid D)),
           (''app_server_pid'', opt_int (st_codex_pid sv)), (''listener'', JStr (st_listener sv)), (''migration_ready'', JBool True)])))"

section \<open>Stop and restart\<close>

text \<open>\<open>_maintenance_result\<close>.\<close>

definition refusal_fault :: "maintenance_result \<Rightarrow> (exn, facade_fault) res" where
  "refusal_fault m = (case mr_impact m of
     None \<Rightarrow> service_fault_with SERVICE_BUSY ''Global service impact is unavailable'' False
       [(''action'', JStr (mr_action m)),
        (''impact'', JObj [(''availability'', JStr ''unavailable''), (''reason'', JStr ''upstream_inventory_unavailable'')]),
        (''durable_state'', JStr ''preserved'')]
       [daemon_status_action ''Inspect the global service before retrying maintenance'']
   | Some (items, workers) \<Rightarrow> service_fault_with SERVICE_BUSY ''Global service has active work'' False
       [(''action'', JStr (mr_action m)), (''active'', JList (map (\<lambda>i. JObj (active_item_to_dict i)) items)),
        (''workers'', JObj (impact_to_dict workers)), (''durable_state'', JStr ''preserved'')]
       (daemon_status_action ''Inspect every active global thread'' # map (\<lambda>n. next_action
          (''codex-worker status --name '' @ shlex_quote n)
          ''Inspect this exact active worker before retrying maintenance'') (wi_active workers)))"

definition maintenance_reply :: "maintenance_result option \<Rightarrow> 'c service_reply" where
  "maintenance_reply r = (case r of
     None \<Rightarrow> ret None
   | Some m \<Rightarrow> if mr_status m = ''refused'' then service_reply_fault (refusal_fault m)
       else ret (Some (OkReply (maintenance_to_dict m))))"

definition service_stop :: "'c service_deps \<Rightarrow> json_object \<Rightarrow> 'c service_reply" where
  "service_stop D req = reporting ''service_stop_failed''
     (andthen (on_broker (stop_service (sd_broker D) (sd_rounds D) (jget req ''force'' = JBool True))) maintenance_reply)"

definition service_restart :: "'c service_deps \<Rightarrow> json_object \<Rightarrow> 'c service_reply" where
  "service_restart D req = (let wanted = field_str req ''listener'' in reporting ''service_restart_failed''
     (andthen (on_broker (restart_service (sd_broker D) (sd_rounds D) (if wanted = [] then sd_listener D else wanted)
        (jget req ''force'' = JBool True))) maintenance_reply))"

section \<open>Migration\<close>

definition migration_status_reply :: "'c service_deps \<Rightarrow> 'c service_reply" where
  "migration_status_reply D = reporting ''migration_status_failed''
     (andthen (on_port (sd_scan D)) (\<lambda>migration. reply_of (response_from_status migration)))"

definition migration_resolve_reply :: "'c service_deps \<Rightarrow> json_object \<Rightarrow> 'c service_reply" where
  "migration_resolve_reply D req = reporting ''migration_resolve_failed''
     (andthen (on_port (sd_resolve D (field_str req ''name'') (field_str req ''thread_id'') (as_str (jget req ''as_name'')))) (\<lambda>rec.
        reply_of (ebind (build_attach_view (host_lookup (be_model (sd_broker D))) (sd_listener D) (JStr (sr_thread_id rec))) (\<lambda>a.
          build (MigrationResolveView (be_model (sd_broker D)))
            [(''name'', jopt (sr_name rec)), (''session_id'', JStr (sr_session_id rec)),
             (''thread_id'', JStr (sr_thread_id rec)), (''attach'', JObj (attach_view_to_dict a))]))))"

section \<open>The operations by name\<close>

definition service_operations :: "'c service_deps \<Rightarrow> (string \<times> (json_object \<Rightarrow> 'c service_reply)) list" where
  "service_operations D =
     [(''readiness'', \<lambda>_. service_readiness D), (''status'', \<lambda>_. service_status_reply D), (''stop'', service_stop D),
      (''restart'', service_restart D), (''migration_status'', \<lambda>_. migration_status_reply D),
      (''migration_resolve'', migration_resolve_reply D)]"

definition service_facade :: "'c service_deps \<Rightarrow> 'c facade_state facade_ops" where
  "service_facade D operation req = (case dget (service_operations D) operation of
     None \<Rightarrow> raise (AttributeError operation) | Some f \<Rightarrow> f req)"

end
