(* ===== verification/FacadeProps.thy ===== *)
theory FacadeProps
  imports FacadeQueries ServiceFacade MaintenanceProps RpcProps
begin

text \<open>
  What the facades promise: a server that shuts down over RPC was torn down under the
  maintenance rules; and what leaves the facade's operations as an exception.
\<close>

section \<open>A completed maintenance was torn down\<close>

definition torn_down :: "broker_env \<Rightarrow> (drain_lease \<times> gate) list \<Rightarrow> broker_state \<Rightarrow> bool" where
  "torn_down e past s \<longleftrightarrow> (\<exists>lease g t. bk_terminations s = past @ [(lease, g)] \<and> authorize g lease = Inr ()
     \<and> be_terminate e t lease = Inr ())"

definition standing :: "(drain_lease \<times> gate) list \<Rightarrow> broker_state \<Rightarrow> bool" where
  "standing past s \<longleftrightarrow> bk_terminations s = past"

lemma standing_frame: "keeps (log_within N) m \<Longrightarrow> hoare (standing past) m (\<lambda>_. standing past) (\<lambda>_ _. True)"
  by (rule hoareI) (auto simp: standing_def log_within_def dest!: keepsD)

lemma torn_frame: "keeps (log_within N) m \<Longrightarrow> hoare (torn_down e past) m (\<lambda>_. torn_down e past) (\<lambda>_ _. True)"
  by (rule hoareI) (fastforce simp: torn_down_def log_within_def dest!: keepsD)+

lemma tear_down_tears: "hoare (standing past) (tear_down e lease) (\<lambda>_. torn_down e past) (\<lambda>_ _. True)"
proof (rule hoareI)
  fix s x s'
  assume past: "standing past s" and "tear_down e lease s = (Inr x, s')"
  then have run: "terminate_owned e lease s = (Inr x, s')"
    by (auto simp: tear_down_def handling_def attempt_def raise_def split: prod.splits sum.splits)
  let ?s = "snd (meanwhile e s)"
  from run have "authorize (bk_gate ?s) lease = Inr ()" "be_terminate e (bk_clock ?s) lease = Inr ()"
      "bk_terminations s' = bk_terminations s @ [(lease, bk_gate ?s)]"
    by (auto simp: terminate_owned_def on_gate_def act_defs meanwhile_def split: sum.splits)
  then show "torn_down e past s'" using past unfolding torn_down_def standing_def by blast
qed simp

lemma result_of_keeps: "hoare P (result_of e a st f l i) (\<lambda>r s. P s \<and> (\<forall>m. r = Some m \<longrightarrow> mr_status m = st)) (\<lambda>_ _. True)"
  by (rule hoareI) (auto simp: result_of_def lift_def res_simps)

definition completed_torn :: "broker_env \<Rightarrow> (drain_lease \<times> gate) list \<Rightarrow> maintenance_result option \<Rightarrow> broker_state \<Rightarrow> bool" where
  "completed_torn e past r s \<longleftrightarrow> (\<forall>m. r = Some m \<longrightarrow> mr_status m \<noteq> ''refused'' \<longrightarrow> torn_down e past s)"

lemma completes: "hoare (standing past) (andthen (tear_down e lease) (\<lambda>_. result_of e a st f l i)) (completed_torn e past) (\<lambda>_ _. True)"
  by (rule hoare_andthen [OF tear_down_tears], rule hoare_weaken [OF result_of_keeps [where P = "torn_down e past"]])
    (auto simp: completed_torn_def)

lemma refuses: "hoare (standing past) (result_of e a ''refused'' f l i) (completed_torn e past) (\<lambda>_ _. True)"
  by (rule hoare_weaken [OF result_of_keeps]) (auto simp: completed_torn_def)

lemma unknown_completes: "hoare (standing past) (maintain_unknown e a l f lease) (completed_torn e past) (\<lambda>_ _. True)"
  using completes refuses by (cases f) (simp_all add: maintain_unknown_def)

lemma stopping_completes: "hoare (standing past) (maintain_stopping e a l f lease) (completed_torn e past) (\<lambda>_ _. True)"
  unfolding maintain_stopping_def read_registry_def
proof (rule hoare_andthen, rule standing_frame [of "{}"], intro logs.rules log_rules, rule hoare_andthen [OF tear_down_tears])
  show "hoare (torn_down e past) (andthen (lift (mk_impact [] (sort (worker_names rs)))) (\<lambda>workers.
      result_of e a ''completed'' f l (Some ([], workers)))) (completed_torn e past) (\<lambda>_ _. True)" for rs
    by (rule hoare_andthen [OF torn_frame [OF logs.basic(4) [of "{}"]]], rule hoare_weaken [OF result_of_keeps [where P = "torn_down e past"]])
      (auto simp: completed_torn_def)
qed

lemma known_completes: "hoare (standing past) (maintain_known e a l f lease items) (completed_torn e past) (\<lambda>_ _. True)"
  unfolding maintain_known_def read_registry_def Let_def
proof (rule hoare_andthen, rule standing_frame [of "{}"], intro logs.rules log_rules,
    rule hoare_andthen [OF standing_frame [OF logs.basic(4) [of "{}"]]])
  show "hoare (standing past) (if items \<noteq> [] \<and> \<not> f then result_of e a ''refused'' False l (Some (items, workers))
      else andthen (tear_down e lease) (\<lambda>_. result_of e a ''completed'' f l (Some (items, workers))))
      (completed_torn e past) (\<lambda>_ _. True)" for workers
    using completes refuses by (cases "items \<noteq> [] \<and> \<not> f") simp_all
qed

lemma inventory_stands: "hoare (standing past) (maintenance_inventory e n f) (\<lambda>_. standing past) (\<lambda>_. standing past)"
proof -
  have log: "keeps (log_within {''thread/list'', ''thread/read''}) (bounded_force_inventory e n)"
    using inventory_log [of e n FORCE_INVENTORY_TIMEOUT]
    by (auto simp: keeps_def bounded_force_inventory_def Let_def split: prod.splits) (metis snd_conv)
  have "keeps (log_within {''thread/list'', ''thread/read''}) (maintenance_inventory e n f)"
    unfolding maintenance_inventory_def by (intro logs.branch logs.sequence log inventory_log logs.basic)
  then show ?thesis
    by (intro hoareI) (auto simp: standing_def log_within_def dest!: keepsD)
qed

lemma drained_completes: "hoare (standing past) (maintain_drained e n a l f lease) (completed_torn e past) (\<lambda>_ _. True)"
proof -
  have found: "hoare (standing past) (case inventory of None \<Rightarrow> maintain_unknown e a l f lease
      | Some None \<Rightarrow> ret None | Some (Some items) \<Rightarrow> maintain_known e a l f lease items) (completed_torn e past) (\<lambda>_ _. True)" for inventory
    using unknown_completes known_completes
    by (cases inventory rule: option.exhaust, simp, case_tac x2)
      (simp_all add: hoare_def ret_def completed_torn_def)
  have listed: "hoare (standing past) (attempt (andthen (maintenance_inventory e n f) (\<lambda>known. ret (Some known)))
      (\<lambda>x. if is_rpc_fault x then ret None else raise x)) (\<lambda>_. standing past) (\<lambda>_ _. True)"
  proof (rule hoare_attempt)
    show "hoare (standing past) (andthen (maintenance_inventory e n f) (\<lambda>known. ret (Some known))) (\<lambda>_. standing past) (\<lambda>_. standing past)"
      by (rule hoare_andthen [OF inventory_stands]) (simp add: hoare_def ret_def)
    show "hoare (standing past) (if is_rpc_fault x then ret None else raise x) (\<lambda>_. standing past) (\<lambda>_ _. True)" for x
      by (simp add: hoare_def ret_def raise_def)
  qed
  have rest: "hoare (standing past) (if f \<and> running \<noteq> 0 then maintain_unknown e a l True lease
       else andthen (observe bk_clock) (\<lambda>t.
         if be_stopping e t then maintain_stopping e a l f lease
         else andthen (attempt (andthen (maintenance_inventory e n f) (\<lambda>known. ret (Some known)))
             (\<lambda>x. if is_rpc_fault x then ret None else raise x)) (\<lambda>inventory. case inventory of
           None \<Rightarrow> maintain_unknown e a l f lease
         | Some None \<Rightarrow> ret None
         | Some (Some items) \<Rightarrow> maintain_known e a l f lease items))) (completed_torn e past) (\<lambda>_ _. True)" for running :: int
  proof (cases "f \<and> running \<noteq> 0")
    case False
    have "hoare (standing past) (if be_stopping e t then maintain_stopping e a l f lease
         else andthen (attempt (andthen (maintenance_inventory e n f) (\<lambda>known. ret (Some known)))
             (\<lambda>x. if is_rpc_fault x then ret None else raise x)) (\<lambda>inventory. case inventory of
           None \<Rightarrow> maintain_unknown e a l f lease
         | Some None \<Rightarrow> ret None
         | Some (Some items) \<Rightarrow> maintain_known e a l f lease items)) (completed_torn e past) (\<lambda>_ _. True)" for t
      using stopping_completes hoare_andthen [OF listed found] by (cases "be_stopping e t") simp_all
    then show ?thesis
      unfolding if_not_P [OF False] by (rule hoare_andthen [OF standing_frame [OF logs.basic(5) [of "{}"]]])
  qed (simp add: unknown_completes)
  show ?thesis
    unfolding maintain_drained_def
    by (rule hoare_andthen [OF standing_frame [of "{}"] rest]) (intro logs.rules log_rules)
qed

lemma maintain_completes:
  assumes "maintain e n a l f s = (Inr (Some m), s')" "mr_status m \<noteq> ''refused''"
  shows "torn_down e (bk_terminations s) s'"
proof -
  let ?past = "bk_terminations s"
  obtain b s1 where b: "await_gate e n (\<lambda>g. map_option (\<lambda>g'. ((), g')) (drain_begin g)) s = (b, s1)" by fastforce
  obtain i s2 where i: "await_gate e n (\<lambda>g. drain_issue g f) s1 = (i, s2)" by fastforce
  have past: "standing ?past s2"
    using keepsD [OF logs_await [of "{}"] b] keepsD [OF logs_await [of "{}"] i] by (simp add: standing_def log_within_def)
  from assms b i obtain lease where lease: "b = Inr (Some ())" "i = Inr (Some lease)"
    by (auto simp: maintain_def with_drain_def andthen_def ret_def split: sum.splits option.splits)
  obtain q s3 where q: "maintain_drained e n a l f lease s2 = (q, s3)" by fastforce
  have end_log: "log_within {} s3 s'" and "q = Inr (Some m)"
    using assms b i lease q keepsD [OF logs_sections(3)]
    by (auto simp: maintain_def with_drain_def andthen_def split: prod.splits) blast
  then have "torn_down e ?past s3"
    using hoareD(1) [OF drained_completes past, of e n a l f lease "Some m" s3] q assms(2) by (simp add: completed_torn_def)
  then show ?thesis using end_log by (auto simp: torn_down_def log_within_def)
qed

section \<open>A server that shuts down was torn down\<close>

definition same_inner :: "'s rpc_state \<Rightarrow> 's rpc_state \<Rightarrow> bool" where
  "same_inner s s' \<longleftrightarrow> rh_inner s' = rh_inner s"

interpretation around: frame_relation same_inner
  by unfold_locales (simp_all add: same_inner_def)

lemma around_answer: "keeps same_inner (answer env wr i result fault)"
  unfolding answer_def
  by (intro around.sequence around.basic) (auto simp: keeps_def write_line_def same_inner_def split: option.splits)

lemma around_refuse: "keeps same_inner (refuse env wr i x)"
  unfolding refuse_def by (intro around.sequence around.basic around_answer)

lemma serve_inner:
  assumes "validate_request payload = Inr (m, ps)" "serve env sv wr i payload s = (r, s')"
  shows "rh_inner s' = snd (Rpc.dispatch env sv m ps (rh_inner s))"
proof -
  obtain q s1 where q: "inner (Rpc.dispatch env sv m ps) s = (q, s1)" by fastforce
  then have s1: "rh_inner s1 = snd (Rpc.dispatch env sv m ps (rh_inner s))" by (auto simp: inner_def split: prod.splits)
  have "keeps same_inner (case x of None \<Rightarrow> ret False | Some result \<Rightarrow>
      andthen (modify (\<lambda>s. s\<lparr>rh_accepted := m \<in> set SHUTDOWN_METHODS\<rparr>)) (\<lambda>_.
      andthen (answer env wr i (Some result) None) (\<lambda>_. ret True)))" for x
    by (intro around.option_cases around.sequence around.basic around_answer) (simp add: keeps_def modify_def same_inner_def)
  note tail = keepsD [OF this]
  show ?thesis
  proof (cases q)
    case (Inl x)
    then show ?thesis using assms q s1 by (simp add: serve_def andthen_def lift_def)
  next
    case (Inr x)
    then show ?thesis using assms q s1 tail [of x s1] by (simp add: serve_def andthen_def lift_def same_inner_def)
  qed
qed

lemma respond_inner:
  assumes "request_of env raw = Some (m, ps)" "respond env sv wr raw s = (r, s')"
  shows "rh_inner s' = snd (Rpc.dispatch env sv m ps (rh_inner s))"
proof -
  from assms(1) obtain payload where ok: "raw \<noteq> []" "\<not> int (length raw) > MAX_REQUEST_BYTES" "re_loads env raw = Inr payload"
      and valid: "validate_request payload = Inr (m, ps)"
    by (auto simp: request_of_def split: if_splits sum.splits)
  obtain q s1 where q: "serve env sv wr (request_id_of payload) payload s = (q, s1)" by fastforce
  note inner = serve_inner [OF valid q]
  show ?thesis
  proof (cases q)
    case (Inl x)
    then have "refuse env wr (request_id_of payload) x s1 = (r, s')" using assms(2) ok q by (simp add: respond_def attempt_def)
    then show ?thesis using keepsD [OF around_refuse] inner by (fastforce simp: same_inner_def)
  next
    case (Inr b)
    then show ?thesis using assms(2) ok q inner by (simp add: respond_def attempt_def)
  qed
qed

lemma handle_inner:
  assumes "request_of env raw = Some (m, ps)" "handle env sv wr (Inr raw) s = (r, s')"
  shows "rh_inner s' = snd (Rpc.dispatch env sv m ps (rh_inner s))"
proof -
  obtain q s1 where q: "respond env sv wr raw (fresh s) = (q, s1)" by fastforce
  have "s' = finished s1" using handle_readable [OF q] assms(2) by (auto split: sum.splits if_splits)
  then show ?thesis using respond_inner [OF assms(1) q] by (simp add: finished_def request_shutdown_def)
qed

text \<open>The maintenance behind a reply to stop or restart.\<close>

lemma maintenance_reply_result:
  "maintenance_reply r s = (Inr (Some (OkReply d)), s') \<Longrightarrow> s' = s \<and> (\<exists>m. r = Some m \<and> mr_status m \<noteq> ''refused'')"
  by (auto simp: maintenance_reply_def service_reply_fault_def lift_def ret_def res_simps split: option.splits if_splits)

lemma reporting_ok: "reporting reason m s = (Inr (Some (OkReply d)), s') \<Longrightarrow> m s = (Inr (Some (OkReply d)), s')"
  by (auto simp: reporting_def attempt_def service_reply_fault_def lift_def res_simps split: prod.splits sum.splits)

lemma maintained_ok:
  assumes "reporting reason (andthen (on_broker b) maintenance_reply) s = (Inr (Some (OkReply d)), s')"
  shows "\<exists>m. b (fa_broker s) = (Inr (Some m), fa_broker s') \<and> mr_status m \<noteq> ''refused''"
proof -
  obtain q t where q: "b (fa_broker s) = (q, t)" by fastforce
  from reporting_ok [OF assms] q obtain x where x: "q = Inr x" "maintenance_reply x (s\<lparr>fa_broker := t\<rparr>) = (Inr (Some (OkReply d)), s')"
    by (auto simp: andthen_def on_broker_def split: sum.splits)
  from maintenance_reply_result [OF x(2)] q x(1) show ?thesis by auto
qed

definition maintained :: "broker_env \<Rightarrow> nat \<Rightarrow> bool \<Rightarrow> broker_state \<Rightarrow> broker_state \<Rightarrow> bool" where
  "maintained e n force b b' \<longleftrightarrow> (\<exists>action listener m. maintain e n action listener force b = (Inr (Some m), b') \<and> mr_status m \<noteq> ''refused'')"

lemma stop_maintained:
  assumes "service_stop D req s = (Inr (Some (OkReply d)), s')"
  shows "maintained (sd_broker D) (sd_rounds D) (jget req ''force'' = JBool True) (fa_broker s) (fa_broker s')"
  using maintained_ok [OF assms [unfolded service_stop_def]] unfolding stop_service_def maintained_def by blast

lemma restart_maintained:
  assumes "service_restart D req s = (Inr (Some (OkReply d)), s')"
  shows "maintained (sd_broker D) (sd_rounds D) (jget req ''force'' = JBool True) (fa_broker s) (fa_broker s')"
  using maintained_ok [OF assms [unfolded service_restart_def Let_def]]
  unfolding restart_service_def maintained_def by (auto simp: andthen_def lift_def split: sum.splits)

lemma load_request_force:
  assumes "load_request a ps = Inr req" "a = StopServiceRequest \<or> a = RestartServiceRequest env"
  shows "jget req ''force'' = jget ps ''force''"
  using assms
  by (auto simp: load_request_def from_dict_def StopServiceRequest_def RestartServiceRequest_def plain_def Let_def jget_def res_simps
      split: sum.splits option.splits if_splits json.splits)

lemma dispatch_maintained:
  assumes "Rpc.dispatch env sv m ps s = (Inr (Some found), s')" "m \<in> set SHUTDOWN_METHODS"
    and "sv_service_facade sv = Some (service_facade D)"
  shows "maintained (sd_broker D) (sd_rounds D) (jget ps ''force'' = JBool True) (fa_broker s) (fa_broker s')"
proof -
  from assms(2) have m: "m = ''service/stop'' \<or> m = ''service/restart''" by (auto simp: SHUTDOWN_METHODS_def)
  then obtain oper a where entry: "dget (COMMON_METHODS (re_model env)) m = None" "dget (SERVICE_METHODS (re_model env)) m = Some (oper, a)"
      and kind: "oper = ''stop'' \<and> a = StopServiceRequest \<or> oper = ''restart'' \<and> a = RestartServiceRequest (re_model env)"
    by (auto simp: COMMON_METHODS_def SERVICE_METHODS_def)
  with assms(1,3) have "call_facade (Some (service_facade D)) m (oper, a) ps s = (Inr (Some found), s')"
    by (simp add: Rpc.dispatch_def)
  then obtain req d where req: "load_request a ps = Inr req" and oper: "service_facade D oper req s = (Inr (Some (OkReply d)), s')"
    by (auto simp: call_facade_def andthen_def lift_def reply_result_def split: sum.splits prod.splits option.splits facade_reply.splits)
  have force: "jget req ''force'' = jget ps ''force''" using load_request_force [OF req] kind by blast
  from kind show ?thesis
  proof
    assume "oper = ''stop'' \<and> a = StopServiceRequest"
    then show ?thesis using stop_maintained [of D req s d s'] oper force by (simp add: service_facade_def service_operations_def)
  next
    assume "oper = ''restart'' \<and> a = RestartServiceRequest (re_model env)"
    then show ?thesis using restart_maintained [of D req s d s'] oper force by (simp add: service_facade_def service_operations_def)
  qed
qed

text \<open>
  C7. The RPC server asks for its own shutdown only when the request's maintenance tore the
  owned service down with a lease the gate authorized; when the request did not force it, no
  mutation was running, and a complete inventory showed no active thread or the service was
  stopping already.
\<close>

theorem rpc_shutdown_follows_teardown:
  assumes run: "handle env sv wr (Inr raw) s = (r, s')" and request: "request_of env raw = Some (m, ps)"
    and service: "sv_service_facade sv = Some (service_facade D)"
    and shut: "rh_shutdowns s' \<noteq> rh_shutdowns s"
  shows "torn_down (sd_broker D) (bk_terminations (fa_broker (rh_inner s))) (fa_broker (rh_inner s'))
    \<and> (jget ps ''force'' \<noteq> JBool True \<longrightarrow>
        idle_shown (sd_broker D) (fa_broker (rh_inner s)) (fa_broker (rh_inner s'))
        \<and> (\<exists>lease g. bk_terminations (fa_broker (rh_inner s')) = bk_terminations (fa_broker (rh_inner s)) @ [(lease, g)]
             \<and> active_mutations g = 0 \<and> draining g))"
proof -
  let ?b = "fa_broker (rh_inner s)" and ?b' = "fa_broker (rh_inner s')"
  have stop: "accepted_stop env sv raw (rh_inner s)"
    using shutdown_follows_accepted_stop_lemma [OF run] shut by (simp add: Let_def split: if_splits)
  obtain q i where q: "Rpc.dispatch env sv m ps (rh_inner s) = (q, i)" by fastforce
  with stop request obtain found where found: "q = Inr (Some found)" and m: "m \<in> set SHUTDOWN_METHODS"
    by (auto simp: accepted_stop_def split: sum.splits option.splits)
  have "i = rh_inner s'" using handle_inner [OF request run] q by simp
  then have "maintained (sd_broker D) (sd_rounds D) (jget ps ''force'' = JBool True) ?b ?b'"
    using dispatch_maintained [OF q [unfolded found] m service] by simp
  then obtain action listener mr where mr:
      "maintain (sd_broker D) (sd_rounds D) action listener (jget ps ''force'' = JBool True) ?b = (Inr (Some mr), ?b')" "mr_status mr \<noteq> ''refused''"
    unfolding maintained_def by blast
  have torn: "torn_down (sd_broker D) (bk_terminations ?b) ?b'" using maintain_completes [OF mr] .
  moreover have "idle_shown (sd_broker D) ?b ?b' \<and> (\<exists>lease g. bk_terminations ?b' = bk_terminations ?b @ [(lease, g)]
      \<and> active_mutations g = 0 \<and> draining g)" if "jget ps ''force'' \<noteq> JBool True"
    using unforced_spares [of "sd_broker D" "sd_rounds D" action listener ?b "Inr (Some mr)" ?b'] mr that torn
    by (auto simp: torn_down_def)
  ultimately show ?thesis by blast
qed

end
