(* ===== verification/FacadeCalls.thy ===== *)
theory FacadeCalls
  imports FacadeQueries BrokerProps
begin

text \<open>
  The requests of Codex an operation of \<open>WorkerFacade\<close> may make, and what it does for a name that
  stands for no worker it can use.
\<close>

section \<open>Frames of the facade's statements\<close>

definition calls_within :: "string set \<Rightarrow> 'c facade_state \<Rightarrow> 'c facade_state \<Rightarrow> bool" where
  "calls_within N s s' \<longleftrightarrow> log_within N (fa_broker s) (fa_broker s')"

interpretation calls: frame_relation "calls_within N" for N
  by unfold_locales (auto simp: calls_within_def intro: logs.frame_refl logs.frame_trans)

lemma calls_wider:
  assumes "keeps (calls_within M) m" "M \<subseteq> N"
  shows "keeps (calls_within N) m"
proof (rule keepsI)
  show "m s = (r, s') \<Longrightarrow> calls_within N s s'" for s r s'
    using keepsD [OF assms(1), of s r s'] assms(2) by (auto simp: calls_within_def log_within_def)
qed

named_theorems call_rules \<open>acts of the facade that make only certain requests\<close>

lemma calls_broker [call_rules]: "keeps (log_within N) m \<Longrightarrow> keeps (calls_within N) (on_broker m)"
  by (auto simp: keeps_def on_broker_def calls_within_def split: prod.splits) (metis snd_conv)

lemma calls_port [call_rules]: "keeps (calls_within N) (on_port m)"
  by (auto simp: keeps_def on_port_def calls_within_def logs.frame_refl split: prod.splits)

lemma calls_trying [call_rules]:
  assumes "keeps (calls_within N) m" "\<And>x. keeps (calls_within N) (h x)" "\<And>a. keeps (calls_within N) (f a)"
  shows "keeps (calls_within N) (trying m h f)"
proof (rule keepsI)
  fix s r s'
  assume run: "trying m h f s = (r, s')"
  obtain q t where q: "m s = (q, t)" by fastforce
  note first = keepsD [OF assms(1) q]
  show "calls_within N s s'"
    using run q calls.frame_trans [OF first] keepsD [OF assms(2)] keepsD [OF assms(3)]
    by (cases q) (auto simp: trying_def)
qed

lemma calls_refuse [call_rules]: "keeps (calls_within N) (refuse_with f)" "keeps (calls_within N) (reply_with a vs)"
  unfolding refuse_with_def reply_with_def by (rule calls.basic)+

lemma calls_raise [call_rules]: "keeps (calls_within N) (raise_fault c m d k a)"
  unfolding raise_fault_def by (rule calls.basic)

lemma calls_moment [call_rules]: "keeps (calls_within N) (at_moment D f)"
  unfolding at_moment_def by (intro call_rules logs.rules log_rules)

lemma calls_reads [call_rules]:
  "keeps (calls_within N) (runtime_status_of D sid)" "keeps (calls_within N) (resolve_worker D name)"
  unfolding runtime_status_of_def resolve_worker_def by (intro call_rules log_rules)+

lemma calls_active [call_rules]: "keeps (calls_within N) (active_turn_of D rec)"
  unfolding active_turn_of_def by (intro calls.rules call_rules)

lemma calls_fault [call_rules]: "keeps (calls_within N) (effect_fault D x rec name limits)"
proof -
  have rpc: "keeps (calls_within N) (rpc_fault_of D r name c m k d)" for r c m k d
    unfolding rpc_fault_of_def Let_def by (intro calls.rules call_rules)
  show ?thesis
    by (cases x; cases rec; simp add: effect_fault_def rpc calls.basic)
qed

lemma calls_answer [call_rules]: "keeps (calls_within N) (answer_fault D rec name limits x)"
  unfolding answer_fault_def by (intro calls.rules call_rules)

lemma calls_resolve [call_rules]: "keeps (calls_within N) (resolve_policy D name)"
  unfolding resolve_policy_def by (intro call_rules) (auto intro: calls.rules split: exn.split)

lemma calls_with_worker [call_rules]:
  "(\<And>x. keeps (calls_within N) (early x)) \<Longrightarrow> (\<And>rec x. keeps (calls_within N) (late rec x)) \<Longrightarrow>
   (\<And>rec. keeps (calls_within N) (body rec)) \<Longrightarrow> keeps (calls_within N) (with_worker D name early late body)"
  unfolding with_worker_def by (intro call_rules) (auto intro: calls.rules split: sum.split)

lemma calls_attached [call_rules]: "keeps (calls_within N) (attached_fault D rec name)"
  unfolding attached_fault_def by (intro calls.rules call_rules)

section \<open>The broker's operations\<close>

lemma logs_mutation [log_rules]:
  assumes "keeps (log_within N) m"
  shows "keeps (log_within N) (with_mutation e name m)"
proof -
  have "keeps (log_within N) (\<lambda>s. case m s of (r, s') \<Rightarrow> (case on_gate e exit_mutation s' of
       (Inl x, s'') \<Rightarrow> (Inl x, s'') | (Inr _, s'') \<Rightarrow> (r, s'')))"
  proof (rule keepsI)
    fix s r s'
    obtain q t where q: "m s = (q, t)" by fastforce
    obtain u t' where u: "on_gate e exit_mutation t = (u, t')" by fastforce
    assume "(case m s of (r, s') \<Rightarrow> (case on_gate e exit_mutation s' of
       (Inl x, s'') \<Rightarrow> (Inl x, s'') | (Inr _, s'') \<Rightarrow> (r, s''))) = (r, s')"
    then have "s' = t'" using q u by (cases u) auto
    then show "log_within N s s'"
      using logs.frame_trans [OF keepsD [OF assms q] keepsD [OF logs_sections(3) u]] by simp
  qed
  then show ?thesis unfolding with_mutation_def by (intro logs.sequence log_rules)
qed

lemma logs_start_session: "keeps (log_within {''model/list'', ''thread/start''}) (start_session e sp)"
  unfolding start_session_def start_authoritatively_def start_upstream_def
  by (intro log_rules logs.rules logs_wider [OF logs_checks]) simp_all

lemma logs_session_resume: "keeps (log_within {''thread/resume''}) (session_resume e sel name)"
  unfolding session_resume_def session_resume_authoritatively_def resume_existing_def recover_thread_def
    resume_authoritatively_def
  by (intro log_rules logs.rules) simp_all

lemma logs_start_turn: "keeps (log_within {''model/list'', ''turn/start''}) (start_turn e tp)"
  unfolding start_turn_def start_turn_authoritatively_def reserved_turn_def request_turn_def annotate_turn_def Let_def
  by (intro log_rules logs.rules) simp_all

lemma logs_history: "keeps (log_within {''thread/read'', ''thread/turns/list''}) (turn_history e sel c n)"
  unfolding turn_history_def reconcile_from_upstream_def by (intro log_rules logs.rules) simp_all

lemma logs_controlling: "keeps (log_within N) m \<Longrightarrow> keeps (log_within N) (controlling e rec t m)"
  unfolding controlling_def control_race_def by (intro log_rules logs.rules)

lemma logs_active: "keeps (log_within N) (active_turn_or_fault e rec expected)"
  unfolding active_turn_or_fault_def by (intro log_rules logs.rules)

lemma logs_controls:
  "keeps (log_within {''turn/steer''}) (turn_steer e sel prompt expected)"
  "keeps (log_within {''turn/interrupt''}) (turn_interrupt e sel expected)"
  unfolding turn_steer_def turn_steer_authoritatively_def turn_interrupt_def turn_interrupt_authoritatively_def
    accepted_def
  by (intro log_rules logs.rules logs_controlling logs_active; simp)+

lemma logs_goals:
  "keeps (log_within {''thread/goal/set''}) (goal_set e tid ob st b)"
  "keeps (log_within {''thread/goal/get''}) (goal_get e tid)"
  unfolding goal_set_def goal_get_def by (intro log_rules; simp)+

lemma logs_waits: "keeps (log_within N) (wait_moments e n)" "keeps (log_within N) (daemon_status e a b c d)"
  by (induction n) (auto intro!: logs.rules log_rules simp: daemon_status_def)

section \<open>The facade's operations\<close>

text \<open>The methods of Codex an operation may call.\<close>

definition operation_methods :: "string \<Rightarrow> string list" where
  "operation_methods oper = (case dget
     [(''start'', [''model/list'', ''thread/start'', ''thread/goal/set'', ''turn/start'']),
      (''run'', [''thread/resume'', ''model/list'', ''turn/start'']), (''history'', [''thread/read'', ''thread/turns/list'']),
      (''steer'', [''turn/steer'']), (''interrupt'', [''turn/interrupt'']), (''goal_set'', [''thread/goal/set'']),
      (''goal_show'', [''thread/goal/get'']), (''limits'', [''account/rateLimits/read''])] oper of
     None \<Rightarrow> [] | Some ms \<Rightarrow> ms)"

lemma calls_wait: "keeps (calls_within N) (wait_turn D sid timeout tid)"
proof -
  have "keeps (log_within N) (case outcome of None \<Rightarrow> ret None | Some (Inl x) \<Rightarrow> raise x | Some (Inr t) \<Rightarrow> ret (Some t))"
    for outcome :: "(exn, turn_snapshot) res option"
    by (auto intro: logs.rules split: option.split sum.split)
  then show ?thesis unfolding wait_turn_def Let_def
    by (intro call_rules logs.rules logs_waits) (auto intro: logs.rules split: sum.split)
qed

lemma calls_observe: "keeps (calls_within N) (observe_projection D sid tid c)"
  unfolding observe_projection_def by (intro calls.rules call_rules)

lemma calls_start_and_wait: "keeps (calls_within {''model/list'', ''turn/start''}) (start_and_wait D rec worker prompt schema timeout)"
proof -
  let ?N = "{''model/list'', ''turn/start''}"
  have timeout: "keeps (calls_within ?N) (case x of
      WaitTimeout _ t \<Rightarrow> andthen (case projecting of None \<Rightarrow> ret () | Some p \<Rightarrow> on_port (dp_abandon p sid tid)) (\<lambda>_.
        refuse_with (timeout_fault D rec t))
    | _ \<Rightarrow> raise x)" for x projecting sid tid
    by (cases x; simp add: calls.basic; intro calls.rules call_rules)
  show ?thesis unfolding start_and_wait_def Let_def
    by (intro calls.rules call_rules calls_observe calls_wait timeout logs_start_turn)
qed

lemma calls_start: "keeps (calls_within (set (operation_methods ''start''))) (facade_start D req)"
proof -
  let ?N = "set (operation_methods ''start'')"
  have models: "''model/list'' \<in> ?N" by (simp add: operation_methods_def)
  have choose: "keeps (calls_within ?N) (choose_model D r)" for r
    unfolding choose_model_def using models by (intro calls.rules call_rules log_rules)
  have existing: "keeps (calls_within ?N) (existing_worker D name)" for name
    unfolding existing_worker_def by (intro calls.rules call_rules)
  have capture: "keeps (calls_within ?N) (checked_capture D r)" for r
    unfolding checked_capture_def by (intro calls.rules call_rules)
  have session: "keeps (log_within ?N) (start_session (fd_broker D) sp)" for sp
    by (rule logs_wider [OF logs_start_session]) (simp add: operation_methods_def)
  have create: "keeps (calls_within ?N) (create_worker D req)"
    unfolding create_worker_def Let_def
    by (rule calls.sequence [OF existing]) (auto split: sum.split option.split
      intro!: calls.rules call_rules choose capture session)
  have bind: "keeps (calls_within ?N) (bind_callback D rec b c)" for rec b c
    unfolding bind_callback_def Let_def by (intro calls.rules call_rules)
  have goal: "keeps (calls_within ?N) (set_first_goal D r rec)" for r rec
    unfolding set_first_goal_def
    by (intro calls.rules call_rules logs_wider [OF logs_goals(1)]) (simp add: operation_methods_def)
  have turn: "keeps (calls_within ?N) (start_and_wait D rec w p sch tm)" for rec w p sch tm
    by (rule calls_wider [OF calls_start_and_wait]) (simp add: operation_methods_def)
  have work: "keeps (calls_within ?N) (begin_work D req rec c)" for rec c
    unfolding begin_work_def by (intro calls.rules call_rules bind goal turn)
  show ?thesis
    unfolding facade_start_def Let_def
    by (intro call_rules create) (auto split: sum.split intro!: calls.rules call_rules work)
qed

lemma calls_run: "keeps (calls_within (set (operation_methods ''run''))) (facade_run D req)"
proof -
  let ?N = "set (operation_methods ''run'')"
  have turn: "keeps (calls_within ?N) (start_and_wait D rec w p sch tm)" for rec w p sch tm
    by (rule calls_wider [OF calls_start_and_wait]) (simp add: operation_methods_def)
  have resume: "keeps (log_within ?N) (session_resume e sel name)" for e sel name
    by (rule logs_wider [OF logs_session_resume]) (simp add: operation_methods_def)
  have attached: "keeps (calls_within ?N) (worker_attached D rec)" for rec
    unfolding worker_attached_def by (intro calls.rules call_rules)
  show ?thesis
    unfolding facade_run_def Let_def by (intro call_rules calls.rules turn resume attached)
qed

lemma calls_message: "keeps (calls_within N) (facade_message D req)"
proof -
  have answer: "keeps (calls_within N) (answer_message_fault D rec name x)" for rec name x
    unfolding answer_message_fault_def by (intro calls.rules call_rules)
  show ?thesis
    unfolding facade_message_def Let_def callbacks_unavailable_def
    by (intro call_rules answer) (auto split: option.split intro!: calls.rules call_rules)
qed

lemma calls_status: "keeps (calls_within N) (facade_status D req)"
  unfolding facade_status_def Let_def callback_status_def by (intro call_rules calls.rules)

lemma calls_messages: "keeps (calls_within N) (facade_messages D req)"
  unfolding facade_messages_def Let_def by (intro call_rules calls.rules log_rules)

lemma calls_pages: "keeps (calls_within {''thread/read'', ''thread/turns/list''}) (history_pages D sid tail n cursor pages)"
proof (induction n arbitrary: cursor pages)
  case 0
  then show ?case by (simp add: history_pages.simps calls.basic)
next
  case (Suc n)
  show ?case
    unfolding history_pages.simps [of D sid tail "Suc n"] nat.case Let_def no_progress_def
    by (intro calls.rules call_rules logs_history Suc)
qed

lemma calls_history: "keeps (calls_within (set (operation_methods ''history''))) (facade_history D req)"
proof -
  have pages: "keeps (calls_within (set (operation_methods ''history''))) (history_pages D sid tail n c ps)" for sid tail n c ps
    by (rule calls_wider [OF calls_pages]) (simp add: operation_methods_def)
  show ?thesis unfolding facade_history_def Let_def by (intro call_rules calls.rules pages)
qed

lemma calls_control:
  "keeps (calls_within {if steering then ''turn/steer'' else ''turn/interrupt''}) (facade_control D steering req)"
proof -
  have "keeps (log_within {if steering then ''turn/steer'' else ''turn/interrupt''})
      (if steering then turn_steer e sel prompt tid else turn_interrupt e sel tid)" for e sel prompt tid
    using logs_controls by simp
  then show ?thesis unfolding facade_control_def Let_def by (intro call_rules calls.rules)
qed

lemma calls_goals:
  "keeps (calls_within {''thread/goal/set''}) (facade_goal_set D req)" "keeps (calls_within {''thread/goal/get''}) (facade_goal_show D req)"
  unfolding facade_goal_set_def facade_goal_show_def Let_def by (intro call_rules calls.rules logs_goals)+

lemma calls_limits: "keeps (calls_within {''account/rateLimits/read''}) (facade_limits D req)"
  unfolding facade_limits_def by (intro call_rules calls.rules logs_waits log_rules) simp


section \<open>Names that stand for no usable worker\<close>

definition named_operations :: "string list" where
  "named_operations = [''run'', ''message'', ''status'', ''messages'', ''history'', ''steer'', ''interrupt'', ''goal_set'', ''goal_show'']"

text \<open>The name does not resolve to a worker whose policy is complete, and how the facade says so.\<close>

definition unusable_name :: "'c facade_deps \<Rightarrow> string \<Rightarrow> 'c facade_state \<Rightarrow> facade_fault \<Rightarrow> bool" where
  "unusable_name D name s f \<longleftrightarrow> fst (resolve_policy D name s) = Inr (Inl f)"

lemma mk_fault_code: "mk_fault code m r d k a = Inr f \<Longrightarrow> ff_code f = code"
  by (auto simp: mk_fault_def mk_facade_fault_def code_of_value_roundtrip res_simps split: if_splits option.splits)

lemma fault_codes:
  "not_found_fault name = Inr f \<Longrightarrow> ff_code f = WORKER_NOT_FOUND"
  "registry_read_fault D x n r = Inr f \<Longrightarrow> ff_code f = REGISTRY_ERROR"
  "legacy_fault D rec = Inr f \<Longrightarrow> ff_code f = REGISTRY_ERROR"
  "exists_fault D rec = Inr f \<Longrightarrow> ff_code f = WORKER_NAME_EXISTS"
  "conflict_fault name k c = Inr f \<Longrightarrow> ff_code f = LEGACY_NAME_CONFLICT"
  by (auto simp: not_found_fault_def registry_read_fault_def legacy_fault_def exists_fault_def conflict_fault_def res_simps
      split: sum.splits dest!: mk_fault_code)

text \<open>What a read of the registry leaves: the other threads' changes.\<close>

definition untouched_by_us :: "'c facade_deps \<Rightarrow> 'c facade_state \<Rightarrow> 'c facade_state" where
  "untouched_by_us D s = s\<lparr>fa_broker := snd (meanwhile (fd_broker D) (fa_broker s))\<rparr>"

lemma resolve_worker_state: "snd (resolve_worker D name s) = untouched_by_us D s"
  by (simp add: resolve_worker_def on_broker_def on_registry_def andthen_def meanwhile_def untouched_by_us_def)

lemma resolve_policy_unusable:
  assumes "unusable_name D name s f"
  shows "resolve_policy D name s = (Inr (Inl f), untouched_by_us D s)" "ff_code f \<in> {WORKER_NOT_FOUND, REGISTRY_ERROR, LEGACY_NAME_CONFLICT}"
proof -
  obtain q t where q: "resolve_worker D name s = (q, t)" by fastforce
  then have t: "t = untouched_by_us D s" using resolve_worker_state [of D name s] by simp
  have "resolve_policy D name s = (Inr (Inl f), untouched_by_us D s) \<and> ff_code f \<in> {WORKER_NOT_FOUND, REGISTRY_ERROR, LEGACY_NAME_CONFLICT}"
    using assms q t
    by (cases q) (auto simp: unusable_name_def resolve_policy_def trying_def act_defs res_simps
      split: exn.splits sum.splits if_splits dest!: fault_codes)
  then show "resolve_policy D name s = (Inr (Inl f), untouched_by_us D s)"
    "ff_code f \<in> {WORKER_NOT_FOUND, REGISTRY_ERROR, LEGACY_NAME_CONFLICT}" by simp_all
qed

lemma with_worker_unusable:
  "unusable_name D name s f \<Longrightarrow> with_worker D name early late body s = (Inr (err_reply f), untouched_by_us D s)"
  by (drule resolve_policy_unusable(1)) (simp add: with_worker_def trying_def ret_def)


text \<open>
  Starting a worker under a name that is taken answers that the name exists and creates no
  session, binds no callback and starts no turn.
\<close>

theorem taken_name_starts_nothing:
  assumes "fst (resolve_worker D (field_str req ''name'') s) = Inr rec" "exists_fault D rec = Inr f"
  shows "worker_facade D ''start'' req s = (Inr (Some (ErrReply (Some f))), untouched_by_us D s) \<and> ff_code f = WORKER_NAME_EXISTS"
proof -
  have "resolve_worker D (field_str req ''name'') s = (Inr rec, untouched_by_us D s)"
    using assms(1) resolve_worker_state [of D "field_str req ''name''" s] by (metis prod.collapse)
  then show ?thesis
    using assms(2) fault_codes(4) [OF assms(2)]
    by (simp add: worker_facade_def worker_operations_def facade_start_def create_worker_def existing_worker_def
      trying_def act_defs err_reply_def Let_def res_simps)
qed

end
