(* ===== verification/FacadeHistory.thy ===== *)
theory FacadeHistory
  imports FacadeQueries
begin

text \<open>
  What \<open>history\<close> answers, when its loop over the pages ends, and what the reads of a worker do
  when the runtime does not know its session.
\<close>

section \<open>Replies\<close>

lemma build_field:
  assumes "load (AModel name plain fs contract) (JObj d) f = Inr w" "(k, a) \<in> set fs" "distinct (map fst fs)"
  obtains m where "w = JObj m" "load a (jget d k) k = Inr (jget m k)"
  using assms load_fields_get [of fs d] by (auto simp: plain_def Let_def res_simps split: if_splits sum.splits)

lemma load_list: "load (AList a) (JList xs) f = Inr w \<Longrightarrow> \<exists>ys. w = JList ys \<and> length ys = length xs"
  by (auto simp: res_simps emap_Inr_iff dest: map_eq_imp_length_eq)

lemma load_int: "load AInt v f = Inr w \<Longrightarrow> w = v"
  by (auto split: json.splits)

lemma load_bool: "load ABool v f = Inr w \<Longrightarrow> w = v"
  by (auto split: json.splits)

lemma history_reply:
  assumes "build (WorkerHistoryResponse env) [(''worker'', worker), (''turns'', JList turns), (''requested_tail'', JInt tail),
      (''returned'', JInt n), (''older_available'', JBool b)] = Inr w"
  shows "\<exists>m ys. w = JObj m \<and> jget m ''turns'' = JList ys \<and> length ys = length turns
    \<and> jget m ''returned'' = JInt n \<and> jget m ''older_available'' = JBool b"
proof -
  note loaded = assms [unfolded build_def WorkerHistoryResponse_def]
  obtain m where m: "w = JObj m" "load (AList HistoryTurnView) (JList turns) ''turns'' = Inr (jget m ''turns'')"
    by (rule build_field [OF loaded, of "''turns''" "AList HistoryTurnView"]) (simp_all add: jget_def [where k = "''turns''"])
  have returned: "load AInt (JInt n) ''returned'' = Inr (jget m ''returned'')"
    by (rule build_field [OF loaded, of "''returned''" AInt]) (simp_all add: m(1) jget_def [where d = "_ # _"] del: load.simps)
  have older: "load ABool (JBool b) ''older_available'' = Inr (jget m ''older_available'')"
    by (rule build_field [OF loaded, of "''older_available''" ABool]) (simp_all add: m(1) jget_def [where d = "_ # _"] del: load.simps)
  obtain ys where "jget m ''turns'' = JList ys" "length ys = length turns" using load_list [OF m(2)] by blast
  then show ?thesis using m(1) load_int [OF returned] load_bool [OF older] by auto
qed

section \<open>The pages\<close>

lemma pages_cover:
  "history_pages D sid tail n cursor pages s = (Inr (Some (got, c)), s') \<Longrightarrow> tail \<le> int (length (concat got)) \<or> c = JNull"
proof (induction n arbitrary: cursor pages s)
  case 0
  then show ?case by (auto simp: history_pages.simps [of D sid tail 0] ret_def split: if_splits)
next
  case (Suc n)
  then show ?case
    by (auto simp: history_pages.simps [of D sid tail "Suc n"] ret_def andthen_def Let_def split: if_splits prod.splits sum.splits)
qed

lemma length_last_of: "0 \<le> tail \<Longrightarrow> int (length (last_of tail xs)) = min tail (int (length xs))"
  by (auto simp: last_of_def)

section \<open>Runs that answer\<close>

lemma andthen_returns: "andthen m f s = (Inr x, s') \<Longrightarrow> \<exists>y t. m s = (Inr y, t) \<and> f y t = (Inr x, s')"
  by (auto simp: andthen_def split: prod.splits sum.splits)

lemma lift_returns: "lift r s = (Inr x, s') \<Longrightarrow> r = Inr x \<and> s' = s"
  by (simp add: lift_def)

lemma reply_returns: "reply_with a vs s = (Inr x, s') \<Longrightarrow> \<exists>w. build a vs = Inr w \<and> x = ok_reply w"
  by (auto simp: reply_with_def lift_def res_simps)

lemma answer_is_no_ok: "answer_fault D r n l x t \<noteq> (Inr (Some (OkReply d)), s')"
  by (auto simp: answer_fault_def andthen_def ret_def err_reply_def split: prod.splits sum.splits)

lemma with_worker_ok:
  assumes "with_worker D name early late body s = (Inr (Some (OkReply d)), s')"
    and "\<And>x t. early x t \<noteq> (Inr (Some (OkReply d)), s')" "\<And>rec x t. late rec x t \<noteq> (Inr (Some (OkReply d)), s')"
  obtains rec s1 where "body rec s1 = (Inr (Some (OkReply d)), s')"
  using assms by (auto simp: with_worker_def trying_def attempt_def ret_def err_reply_def split: prod.splits sum.splits)

lemma read_int: "(case as_int (JInt n) of None \<Rightarrow> 0 | Some k \<Rightarrow> k) = n"
  by (simp add: as_int_def)

text \<open>
  C40. A history reply holds at most the requested number of turns and says how many; when it
  holds fewer, it says that no older turns are available.
\<close>

theorem history_is_short_only_at_the_end:
  assumes "worker_facade D ''history'' req s = (Inr (Some (OkReply d)), s')" "jget req ''tail'' = JInt tail" "0 < tail"
  shows "\<exists>turns. jget d ''turns'' = JList turns \<and> jget d ''returned'' = JInt (int (length turns))
    \<and> int (length turns) \<le> tail \<and> (int (length turns) < tail \<longrightarrow> jget d ''older_available'' = JBool False)"
proof -
  let ?name = "field_str req ''name''"
  from assms(1) have run: "facade_history D req s = (Inr (Some (OkReply d)), s')"
    by (simp add: worker_facade_def worker_operations_def)
  obtain rec s1 where body: "(andthen (attached_fault D rec ?name) (\<lambda>stopped. case stopped of
         Some f \<Rightarrow> ret (err_reply f)
       | None \<Rightarrow>
         andthen (history_pages D (sr_session_id rec) tail (fd_rounds D) JNull []) (\<lambda>got. case got of
           None \<Rightarrow> ret None
         | Some (pages, cursor) \<Rightarrow>
           andthen (lift (emap project_history_turn (last_of tail (chronological_history_pages pages)))) (\<lambda>turns.
           andthen (lift (worker_view D rec)) (\<lambda>worker.
             reply_with (WorkerHistoryResponse (be_model (fd_broker D)))
               [(''worker'', worker), (''turns'', JList turns), (''requested_tail'', JInt tail),
                (''returned'', JInt (int (length turns))), (''older_available'', JBool (cursor \<noteq> JNull))]))))) s1 = (Inr (Some (OkReply d)), s')"
    using with_worker_ok [OF run [unfolded facade_history_def Let_def assms(2) read_int]] answer_is_no_ok by blast
  from andthen_returns [OF body] obtain s2 where listed: "andthen (history_pages D (sr_session_id rec) tail (fd_rounds D) JNull []) (\<lambda>got. case got of
           None \<Rightarrow> ret None
         | Some (pages, cursor) \<Rightarrow> andthen (lift (emap project_history_turn (last_of tail (chronological_history_pages pages)))) (\<lambda>turns.
           andthen (lift (worker_view D rec)) (\<lambda>worker.
             reply_with (WorkerHistoryResponse (be_model (fd_broker D)))
               [(''worker'', worker), (''turns'', JList turns), (''requested_tail'', JInt tail),
                (''returned'', JInt (int (length turns))), (''older_available'', JBool (cursor \<noteq> JNull))]))) s2 = (Inr (Some (OkReply d)), s')"
    by (fastforce simp: ret_def err_reply_def split: option.splits)
  from andthen_returns [OF listed] obtain pages cursor s3 where
      pages: "history_pages D (sr_session_id rec) tail (fd_rounds D) JNull [] s2 = (Inr (Some (pages, cursor)), s3)"
      and rest: "andthen (lift (emap project_history_turn (last_of tail (chronological_history_pages pages)))) (\<lambda>turns.
           andthen (lift (worker_view D rec)) (\<lambda>worker.
             reply_with (WorkerHistoryResponse (be_model (fd_broker D)))
               [(''worker'', worker), (''turns'', JList turns), (''requested_tail'', JInt tail),
                (''returned'', JInt (int (length turns))), (''older_available'', JBool (cursor \<noteq> JNull))])) s3 = (Inr (Some (OkReply d)), s')"
    by (fastforce simp: ret_def split: option.splits prod.splits)
  from rest obtain turns worker w where turns: "emap project_history_turn (last_of tail (chronological_history_pages pages)) = Inr turns"
      and w: "build (WorkerHistoryResponse (be_model (fd_broker D))) [(''worker'', worker), (''turns'', JList turns), (''requested_tail'', JInt tail),
        (''returned'', JInt (int (length turns))), (''older_available'', JBool (cursor \<noteq> JNull))] = Inr w"
      and d: "ok_reply w = Some (OkReply d)"
    by (auto dest!: andthen_returns lift_returns reply_returns)
  from history_reply [OF w] d obtain ys where ys: "jget d ''turns'' = JList ys" "length ys = length turns"
      "jget d ''returned'' = JInt (int (length turns))" "jget d ''older_available'' = JBool (cursor \<noteq> JNull)"
    by (auto simp: ok_reply_def)
  have "length turns = length (last_of tail (chronological_history_pages pages))"
    using turns by (auto simp: emap_Inr_iff dest: map_eq_imp_length_eq)
  then have "int (length turns) = min tail (int (length (concat pages)))"
    using length_last_of [of tail "chronological_history_pages pages"] assms(3)
    by (simp add: chronological_history_pages_def del: length_concat)
  moreover have "tail \<le> int (length (concat pages)) \<or> cursor = JNull" using pages_cover [OF pages] .
  ultimately show ?thesis using ys by auto
qed

section \<open>The end of the loop\<close>

text \<open>Every page holds a turn or is the last.\<close>

definition pages_advance :: "broker_env \<Rightarrow> bool" where
  "pages_advance e \<longleftrightarrow> (\<forall>t ps r. be_codex e t ''thread/turns/list'' ps = Inr r
     \<longrightarrow> jget r ''data'' \<noteq> JList [] \<or> jget r ''nextCursor'' = JNull)"

lemma turn_history_page:
  assumes "turn_history e sel c limit s = (Inr page, s')" "pages_advance e"
  shows "(\<exists>t ts. as_list (jget page ''turns'') = Some (t # ts)) \<or> jget page ''nextCursor'' = JNull"
proof -
  obtain rec q t where "handling (codex e ''thread/turns/list'' (\<lambda>cx. native_turns_list cx (sr_thread_id rec) c limit)) 
      (\<lambda>x. if is_codex_error x then Some (from_lower e x (Some rec) None) else None) q = (Inr t, s')"
    and page: "ebind (attach_json e (sr_thread_id rec)) (\<lambda>a. Inr (dset [(''session_id'', JStr (sr_session_id rec)), (''thread_id'', JStr (sr_thread_id rec)),
         (''turns'', jget t ''turns''), (''nextCursor'', jget t ''nextCursor'')] ''attach'' a)) = Inr page"
    using assms(1) by (auto simp: turn_history_def with_attach_def lift_def dest!: andthen_returns)
  then obtain k ps r where r: "be_codex e k ''thread/turns/list'' ps = Inr r" and t: "t = [(''turns'', jget r ''data''), (''nextCursor'', jget r ''nextCursor'')]"
      and data: "as_list (jget r ''data'') \<noteq> None"
    by (auto simp: handling_def attempt_def raise_def codex_def andthen_def meanwhile_def native_turns_list_def res_simps
        split: sum.splits prod.splits if_splits)
  have fields: "jget page ''turns'' = jget r ''data''" "jget page ''nextCursor'' = jget r ''nextCursor''"
    using page t by (auto simp: res_simps jget_def split: sum.splits)
  have "jget r ''data'' \<noteq> JList [] \<or> jget r ''nextCursor'' = JNull" using assms(2) r unfolding pages_advance_def by blast
  then show ?thesis using data fields by (cases "jget r ''data''") (auto simp: as_list_def neq_Nil_conv)
qed

lemma history_pages_end:
  assumes "pages_advance (fd_broker D)" "tail \<le> int (length (concat pages)) + int n"
  shows "fst (history_pages D sid tail n cursor pages s) \<noteq> Inr None"
  using assms(2)
proof (induction n arbitrary: cursor pages s)
  case 0
  then show ?case by (simp add: history_pages.simps [of D sid tail 0] ret_def del: length_concat)
next
  case (Suc n)
  show ?case
  proof (cases "tail \<le> int (length (concat pages))")
    case True
    then show ?thesis by (simp add: history_pages.simps [of D sid tail "Suc n"] ret_def del: length_concat)
  next
    case False
    obtain q t where q: "on_broker (turn_history (fd_broker D) (by_session sid) (as_str cursor) (Some tail)) s = (q, t)" by fastforce
    show ?thesis
    proof (cases q)
      case (Inl x)
      then show ?thesis using False q by (simp add: history_pages.simps [of D sid tail "Suc n"] andthen_def del: length_concat)
    next
      case (Inr page)
      let ?ts = "case as_list (jget page ''turns'') of None \<Rightarrow> [] | Some ts \<Rightarrow> ts"
      have "(\<exists>t ts. as_list (jget page ''turns'') = Some (t # ts)) \<or> jget page ''nextCursor'' = JNull"
        using q Inr turn_history_page [OF _ assms(1)] by (fastforce simp: on_broker_def split: prod.splits)
      then have "jget page ''nextCursor'' \<noteq> JNull \<Longrightarrow> tail \<le> int (length (concat (pages @ [?ts]))) + int n"
        using Suc.prems by auto
      then show ?thesis
        using False q Inr Suc.IH [of "pages @ [?ts]"]
        by (auto simp: history_pages.simps [of D sid tail "Suc n"] andthen_def ret_def no_progress_def raise_fault_def raise_def Let_def
            simp del: length_concat concat_append split: prod.splits)
    qed
  qed
qed

text \<open>\<open>returns m\<close>: \<open>m\<close> answers or raises; it never is still at work when the rounds are over.\<close>

definition returns :: "('s, 'a option) act \<Rightarrow> bool" where
  "returns m \<longleftrightarrow> (\<forall>s. fst (m s) \<noteq> Inr None)"

lemma returns_andthen: "(\<And>x. returns (f x)) \<Longrightarrow> returns (andthen m f)"
  by (auto simp: returns_def andthen_def split: prod.splits sum.splits)

lemma returns_after: "returns m \<Longrightarrow> (\<And>x. returns (f x)) \<Longrightarrow> returns (andthen m (\<lambda>r. case r of None \<Rightarrow> ret None | Some x \<Rightarrow> f x))"
  by (auto simp: returns_def andthen_def split: prod.splits sum.splits option.splits) (metis fst_conv)

lemma returns_answer: "returns (answer_fault D r n l x)" "returns (reply_with a vs)" "returns (ret (err_reply f))"
  by (auto simp: returns_def answer_fault_def reply_with_def andthen_def lift_def ret_def err_reply_def ok_reply_def res_simps
      split: prod.splits sum.splits)

lemma returns_with_worker:
  "(\<And>x. returns (early x)) \<Longrightarrow> (\<And>rec x. returns (late rec x)) \<Longrightarrow> (\<And>rec. returns (body rec)) \<Longrightarrow>
    returns (with_worker D name early late body)"
  unfolding returns_def with_worker_def trying_def attempt_def ret_def err_reply_def
  by (fastforce split: prod.splits sum.splits dest: arg_cong [where f = fst])

text \<open>
  While every page that Codex returns holds a turn or is the last, \<open>history\<close> returns: as many
  rounds as turns are asked for are enough.
\<close>

text \<open>
  While every page Codex returns holds a turn or is the last, history returns within as many rounds as turns are asked for.
\<close>

theorem history_returns:
  assumes "pages_advance (fd_broker D)" "jget req ''tail'' = JInt tail" "tail \<le> int (fd_rounds D)"
  shows "fst (worker_facade D ''history'' req s) \<noteq> Inr None"
proof -
  have ends: "returns (history_pages D sid tail (fd_rounds D) JNull [])" for sid
    using history_pages_end [OF assms(1), of tail "[]"] assms(3) by (simp add: returns_def)
  have "returns (facade_history D req)"
    unfolding facade_history_def Let_def assms(2) read_int
  proof (intro returns_with_worker returns_answer)
    fix rec :: session_record
    have listed: "returns (andthen (history_pages D (sr_session_id rec) tail (fd_rounds D) JNull []) (\<lambda>got. case got of
           None \<Rightarrow> ret None | Some (pages, cursor) \<Rightarrow> andthen (f pages) (\<lambda>turns. andthen (g turns) (\<lambda>worker.
             reply_with (WorkerHistoryResponse env) (vs pages cursor turns worker)))))" for f g vs env
      by (rule returns_after [OF ends]) (auto intro!: returns_andthen returns_answer split: prod.split)
    show "returns (andthen (attached_fault D rec (field_str req ''name'')) (\<lambda>stopped. case stopped of
         Some f \<Rightarrow> ret (err_reply f)
       | None \<Rightarrow>
         andthen (history_pages D (sr_session_id rec) tail (fd_rounds D) JNull []) (\<lambda>got. case got of
           None \<Rightarrow> ret None
         | Some (pages, cursor) \<Rightarrow>
           andthen (lift (emap project_history_turn (last_of tail (chronological_history_pages pages)))) (\<lambda>turns.
           andthen (lift (worker_view D rec)) (\<lambda>worker.
             reply_with (WorkerHistoryResponse (be_model (fd_broker D)))
               [(''worker'', worker), (''turns'', JList turns), (''requested_tail'', JInt tail),
                (''returned'', JInt (int (length turns))), (''older_available'', JBool (cursor \<noteq> JNull))])))))"
      by (rule returns_andthen) (auto intro: returns_answer listed split: option.split)
  qed
  then show ?thesis by (simp add: worker_facade_def worker_operations_def returns_def)
qed

section \<open>A session the runtime does not know\<close>

text \<open>
  When the runtime does not know the worker's session, \<open>status\<close> answers that the daemon is
  stopped, and \<open>messages\<close>, whose handler builds the same fault without the record, raises an
  \<open>AttributeError\<close> instead of answering.
\<close>

text \<open>
  When the runtime does not know the worker's session, status answers that the daemon is stopped and messages raises an AttributeError instead of answering.
\<close>

theorem messages_of_unknown_session_crash:
  assumes "resolve_policy D (field_str req ''name'') s = (Inr (Inr rec), s1)"
    and "runtime_status_of D (sr_session_id rec) s1 = (Inl x, s2)" "is_lost_session x"
    and "stopped_fault D (Some (field_str req ''name'')) (Some rec) = Inr f"
  shows "worker_facade D ''messages'' req s = (Inl (none_attribute ''thread_id''), s2)
    \<and> worker_facade D ''status'' req s = (Inr (Some (ErrReply (Some f))), s2)"
proof -
  have "stopped_fault D (Some (field_str req ''name'')) None = Inl (none_attribute ''thread_id'')"
    by (simp add: stopped_fault_def)
  then show ?thesis
    using assms by (simp add: worker_facade_def worker_operations_def facade_messages_def facade_status_def with_worker_def
      trying_def attempt_def andthen_def refuse_with_def lift_def err_reply_def Let_def)
qed

end
