(* ===== verification/FacadeWitness.thy ===== *)
theory FacadeWitness
  imports BrokerWitness FacadeProps FacadeCalls FacadeHistory
begin

text \<open>
  The properties of the facades at concrete inputs: a named worker whose thread is attached, and
  a Codex that lists its turns in pages.
\<close>

section \<open>A worker\<close>

definition named_record :: session_record where
  "named_record = demo_record\<lparr>sr_model := Some ''m'', sr_effort := Some ''low'', sr_access := Some ''full''\<rparr>"

definition turn_json :: "string \<Rightarrow> json" where
  "turn_json i = JObj [(''id'', JStr i), (''status'', JStr ''completed''), (''items'', JList []), (''startedAt'', JNull),
     (''completedAt'', JNull), (''error'', JNull)]"

definition page_json :: "json list \<Rightarrow> json \<Rightarrow> json_object" where
  "page_json turns next = [(''data'', JList turns), (''nextCursor'', next), (''backwardsCursor'', JNull)]"

text \<open>Codex, given the page behind a cursor.\<close>

definition paged_codex :: "(json \<Rightarrow> json_object) \<Rightarrow> codex_call" where
  "paged_codex pages name ps =
     (if name = ''thread/turns/list'' then Inr (pages (jget ps ''cursor''))
      else if name = ''thread/read'' then Inr [(''thread'', JObj [(''id'', JStr ''t''), (''turns'', JList []),
        (''status'', JObj [(''type'', JStr ''idle'')])])]
      else Inr (demo_answer name))"

text \<open>
  The first page holds one turn and the second, the last, two; and two empty pages that point
  to each other.
\<close>

definition flaw_pages :: "json \<Rightarrow> json_object" where
  "flaw_pages cursor = (if cursor = JNull then page_json [turn_json ''c''] (JStr ''p'') else page_json [turn_json ''b'', turn_json ''a''] JNull)"

definition cycle_pages :: "json \<Rightarrow> json_object" where
  "cycle_pages cursor = page_json [] (if cursor = JStr ''x'' then JStr ''y'' else JStr ''x'')"

definition facade_demo :: "(json \<Rightarrow> json_object) \<Rightarrow> nat \<Rightarrow> unit facade_deps" where
  "facade_demo pages n = \<lparr>fd_broker = demo_broker\<lparr>be_codex := \<lambda>_. paged_codex pages\<rparr>, fd_ledger = \<lambda>_. NoLedger, fd_clock = \<lambda>_. 0,
     fd_event_id = \<lambda>_. ''e'', fd_utc_now = \<lambda>_. ''now'', fd_loads = \<lambda>_. None, fd_float = \<lambda>_. ''0.5'', fd_ticks = \<lambda>_. 1,
     fd_rounds = n, fd_listener = DEFAULT_PUBLIC_LISTENER, fd_socket_path = ''/s'', fd_state_path = ''/r'', fd_pid = 1,
     fd_version = ''v'', fd_store = None, fd_dispatcher = None, fd_transport = None\<rparr>"

definition facade_start_state :: "unit facade_state" where
  "facade_start_state = \<lparr>fa_broker = demo_broker_state\<lparr>bk_registry := \<lparr>reg_path = ''/r'', reg_records = [named_record], reg_file = None\<rparr>,
     bk_runtime := projr (attach (projr (mk_runtime_store (JInt 3))) named_record)\<rparr>, fa_ports = ()\<rparr>"

text \<open>The same after a restart of the daemon: the worker is registered, its session is not attached.\<close>

definition unattached_state :: "unit facade_state" where
  "unattached_state = facade_start_state\<lparr>fa_broker := (fa_broker facade_start_state)\<lparr>bk_runtime := projr (mk_runtime_store (JInt 3))\<rparr>\<rparr>"

definition history_demo_request :: json_object where
  "history_demo_request = [(''name'', JStr ''n''), (''tail'', JInt 2)]"

section \<open>History\<close>

abbreviation history_of :: "(json \<Rightarrow> json_object) \<Rightarrow> nat \<Rightarrow> (exn, facade_reply option) res \<times> unit facade_state" where
  "history_of pages n \<equiv> worker_facade (facade_demo pages n) ''history'' history_demo_request facade_start_state"

text \<open>The field \<open>f\<close> of the entries of the list under \<open>k\<close>.\<close>

definition column :: "json_object \<Rightarrow> string \<Rightarrow> string \<Rightarrow> json list" where
  "column d k f = map (\<lambda>v. case v of JObj e \<Rightarrow> jget e f | _ \<Rightarrow> JNull) (case as_list (jget d k) of None \<Rightarrow> [] | Some xs \<Rightarrow> xs)"

definition reply_fields :: "(exn, facade_reply option) res \<Rightarrow> json_object" where
  "reply_fields r = (case r of Inr (Some (OkReply d)) \<Rightarrow> d | _ \<Rightarrow> [])"

text \<open>
  Codex lists the turns c, b and a, the newest first, in two pages of one and two turns. A
  history of two turns answers with b and c and says that no older turn is available, although
  a is: the flag looks at the cursor of the last page alone, not at what the slice to the
  requested length cut off.
\<close>

theorem history_denies_the_turn_it_cut:
  "column (flaw_pages JNull) ''data'' ''id'' @ column (flaw_pages (JStr ''p'')) ''data'' ''id'' = [JStr ''c'', JStr ''b'', JStr ''a'']
   \<and> jget (flaw_pages (JStr ''p'')) ''nextCursor'' = JNull
   \<and> column (reply_fields (fst (history_of flaw_pages 5))) ''turns'' ''turn_id'' = [JStr ''b'', JStr ''c'']
   \<and> jget (reply_fields (fst (history_of flaw_pages 5))) ''older_available'' = JBool False"
  by code_simp

text \<open>The state while \<open>history\<close> walks over the pages.\<close>

definition walked :: "nat \<Rightarrow> (string \<times> nat) list \<Rightarrow> unit facade_state" where
  "walked t cs = facade_start_state\<lparr>fa_broker := (fa_broker facade_start_state)\<lparr>bk_clock := t, bk_calls := cs\<rparr>\<rparr>"

definition page_of :: "json \<Rightarrow> (unit, json_object) facade_act" where
  "page_of cursor = on_broker (turn_history (fd_broker (facade_demo cycle_pages 0)) (by_session demo_uuid) (as_str cursor) (Some 2))"

definition empty_page :: "json \<Rightarrow> unit facade_state \<Rightarrow> (exn, json_object) res \<times> unit facade_state \<Rightarrow> bool" where
  "empty_page after s r = (case r of
     (Inr page, s') \<Rightarrow> jget page ''turns'' = JList [] \<and> jget page ''nextCursor'' = after
       \<and> s' = walked (bk_clock (fa_broker s')) (bk_calls (fa_broker s'))
   | _ \<Rightarrow> False)"

lemma cycle_pages_step:
  "empty_page (JStr ''x'') (walked t cs) (page_of JNull (walked t cs))"
  "empty_page (JStr ''y'') (walked t cs) (page_of (JStr ''x'') (walked t cs))"
  "empty_page (JStr ''x'') (walked t cs) (page_of (JStr ''y'') (walked t cs))"
  by code_simp+

lemma cycle_next:
  assumes "c \<in> {JNull, JStr ''x'', JStr ''y''}"
  obtains page after t' cs' where "page_of c (walked t cs) = (Inr page, walked t' cs')" "jget page ''turns'' = JList []"
    "jget page ''nextCursor'' = after" "after \<in> {JStr ''x'', JStr ''y''}" "after \<noteq> c"
proof -
  obtain after where after: "empty_page after (walked t cs) (page_of c (walked t cs))" "after \<in> {JStr ''x'', JStr ''y''}" "after \<noteq> c"
    using assms cycle_pages_step [of t cs] by auto
  obtain r s' where "page_of c (walked t cs) = (r, s')" by fastforce
  then show thesis using that after by (cases r) (auto simp: empty_page_def)
qed

lemma cycle_goes_on:
  assumes "c \<in> {JNull, JStr ''x'', JStr ''y''}" "concat pages = []"
  shows "fst (history_pages (facade_demo cycle_pages k) demo_uuid 2 n c pages (walked t cs)) = Inr None"
  using assms
proof (induction n arbitrary: c pages t cs)
  case 0
  then show ?case by (simp add: history_pages.simps [of _ _ _ 0] ret_def del: concat_eq_Nil_conv)
next
  case (Suc n)
  have same: "fd_broker (facade_demo cycle_pages k) = fd_broker (facade_demo cycle_pages 0)" by (simp add: facade_demo_def)
  obtain page after t' cs' where page: "page_of c (walked t cs) = (Inr page, walked t' cs')" "jget page ''turns'' = JList []"
      "jget page ''nextCursor'' = after" "after \<in> {JStr ''x'', JStr ''y''}" "after \<noteq> c"
    by (rule cycle_next [OF Suc.prems(1)])
  have empty: "concat (pages @ [[]]) = []" using Suc.prems(2) by simp
  have more: "fst (history_pages (facade_demo cycle_pages k) demo_uuid 2 n after (pages @ [[]]) (walked t' cs')) = Inr None"
    using Suc.IH [OF _ empty] page(4) by blast
  have "after \<noteq> JNull" using page(4) by auto
  then show ?case
    using page more Suc.prems(2)
    by (simp add: history_pages.simps [of _ _ _ "Suc n"] page_of_def [symmetric] same andthen_def ret_def as_list_def Let_def
        del: concat_eq_Nil_conv)
qed

lemma cycle_before_pages:
  "resolve_policy (facade_demo pages n) ''n'' facade_start_state = (Inr (Inr named_record), walked (Suc 0) [])"
  "attached_fault (facade_demo pages n) named_record ''n'' (walked (Suc 0) []) = (Inr None, walked 2 [])"
  by code_simp+

text \<open>
  Codex answers a history with two empty pages that point to each other. The loop compares
  a cursor with the one before only, so it never ends: after any number of rounds the operation
  has not returned.
\<close>

theorem history_can_go_round_for_ever:
  "\<forall>n. fst (history_of cycle_pages n) = Inr None"
proof
  fix n
  let ?D = "facade_demo cycle_pages n"
  have request: "field_str history_demo_request ''name'' = ''n''" "jget history_demo_request ''tail'' = JInt 2"
    by code_simp+
  have "history_of cycle_pages n = facade_history ?D history_demo_request facade_start_state"
    by (simp add: worker_facade_def worker_operations_def)
  moreover have rounds: "fd_rounds ?D = n" "sr_session_id named_record = demo_uuid"
    by (simp_all add: facade_demo_def named_record_def demo_record_def)
  moreover obtain s' where "history_pages ?D demo_uuid 2 n JNull [] (walked 2 []) = (Inr None, s')"
    using cycle_goes_on [of JNull "[]" n n 2 "[]"] by (metis (no_types) concat.simps(1) insertI1 prod.collapse)
  ultimately show "fst (history_of cycle_pages n) = Inr None"
    by (simp add: facade_history_def request read_int Let_def with_worker_def trying_def attempt_def andthen_def
        cycle_before_pages ret_def)
qed

section \<open>Requests for taken and unusable names\<close>

definition absent_request :: json_object where
  "absent_request = [(''name'', JStr ''other''), (''tail'', JInt 2)]"


lemma taken_name_starts_nothing_witness:
  "\<exists>f. worker_facade (facade_demo flaw_pages 1) ''start'' history_demo_request facade_start_state
      = (Inr (Some (ErrReply (Some f))), untouched_by_us (facade_demo flaw_pages 1) facade_start_state) \<and> ff_code f = WORKER_NAME_EXISTS"
proof -
  have "fst (resolve_worker (facade_demo flaw_pages 1) (field_str history_demo_request ''name'') facade_start_state) = Inr named_record"
    by code_simp
  moreover have "is_ok (exists_fault (facade_demo flaw_pages 1) named_record)" unfolding is_ok_def by code_simp
  ultimately show ?thesis using taken_name_starts_nothing by (fastforce simp: is_ok_def split: sum.splits)
qed

lemma history_is_short_only_at_the_end_witness:
  "\<exists>turns. jget (reply_fields (fst (history_of flaw_pages 5))) ''turns'' = JList turns \<and> int (length turns) \<le> 2"
proof -
  obtain r s' where run: "history_of flaw_pages 5 = (r, s')" by fastforce
  have "is_ok (fst (history_of flaw_pages 5)) \<and> (case projr (fst (history_of flaw_pages 5)) of Some (OkReply _) \<Rightarrow> True | _ \<Rightarrow> False)"
    unfolding is_ok_def by code_simp
  then obtain d where "r = Inr (Some (OkReply d))"
    using run by (auto simp: is_ok_def split: sum.splits option.splits facade_reply.splits)
  then show ?thesis
    using history_is_short_only_at_the_end [of _ _ _ d s' 2] run by (fastforce simp: reply_fields_def history_demo_request_def jget_def)
qed

lemma history_returns_witness: "fst (history_of flaw_pages 5) \<noteq> Inr None"
  by (rule history_returns [where tail = 2])
    (auto simp: pages_advance_def facade_demo_def paged_codex_def flaw_pages_def page_json_def jget_def history_demo_request_def)

lemma messages_of_unknown_session_crash_witness:
  "fst (worker_facade (facade_demo flaw_pages 1) ''messages'' history_demo_request unattached_state) = Inl (none_attribute ''thread_id'')"
proof -
  let ?D = "facade_demo flaw_pages 1"
  obtain q s1 where q: "resolve_policy ?D (field_str history_demo_request ''name'') unattached_state = (q, s1)" by fastforce
  obtain w s2 where w: "runtime_status_of ?D (sr_session_id named_record) s1 = (w, s2)" by fastforce
  have "fst (resolve_policy ?D (field_str history_demo_request ''name'') unattached_state) = Inr (Inr named_record)"
    "(case fst (runtime_status_of ?D (sr_session_id named_record)
        (snd (resolve_policy ?D (field_str history_demo_request ''name'') unattached_state))) of Inl x \<Rightarrow> is_lost_session x | Inr _ \<Rightarrow> False)"
    by code_simp+
  then obtain x where "q = Inr (Inr named_record)" "w = Inl x" "is_lost_session x"
    using q w by (auto split: sum.splits)
  moreover have "is_ok (stopped_fault ?D (Some (field_str history_demo_request ''name'')) (Some named_record))"
    unfolding is_ok_def by code_simp
  ultimately show ?thesis
    using messages_of_unknown_session_crash [of ?D history_demo_request unattached_state named_record s1 x s2] q w
    by (auto simp: is_ok_def split: sum.splits)
qed

end
