(* ===== verification/HostWitness.thy ===== *)
theory HostWitness
  imports ServiceProps FacadeWitness RpcWitness
begin

text \<open>
  The properties of the service at a concrete host: a child that leads its own group, whose
  socket appears while the service waits for it, and that leaves when it is told to.
\<close>

definition host_dir :: file_meta where
  "host_dir = \<lparr>fm_kind = DirectoryKind, fm_mode = 0x1C0, fm_uid = 7, fm_id = (1, 1)\<rparr>"

definition host_socket :: file_meta where
  "host_socket = \<lparr>fm_kind = SocketKind, fm_mode = 0x180, fm_uid = 7, fm_id = (1, 2)\<rparr>"

definition host_looks :: fs_look where
  "host_looks = \<lparr>fs_lstat = \<lambda>_. Some host_dir, fs_stat = \<lambda>_. Some host_dir\<rparr>"

definition host_demo :: service_host where
  "host_demo = \<lparr>sh_uid = 7, sh_look = \<lambda>_. host_looks, sh_lstat = \<lambda>_ p. Seen (if p = ''/d/s'' then host_socket else host_dir),
     sh_mkdir = \<lambda>_. True, sh_chmod = \<lambda>_. True, sh_socket_present = \<lambda>t. 15 < t, sh_unlink = \<lambda>_. True,
     sh_create_gateway = \<lambda>_. Inr (), sh_start_gateway = \<lambda>_. Inr (), sh_gateway_ready = \<lambda>_. True, sh_close_gateway = \<lambda>_. Inr (),
     sh_connect = \<lambda>_. Inr (), sh_close_connection = \<lambda>_. Inr (), sh_spawn = \<lambda>_. Inr 10, sh_exited = \<lambda>_. Inr False,
     sh_wait = \<lambda>_. Inr (), sh_terminate = \<lambda>_. Inr (), sh_kill = \<lambda>_. Inr (), sh_pgid = \<lambda>_ pid. Inr pid, sh_own_pgid = \<lambda>_. 5,
     sh_signal = \<lambda>_. Inr (), sh_group_exists = \<lambda>_ _. Inr False, sh_monotonic = \<lambda>_. 0, sh_loopback = \<lambda>_. Some True\<rparr>"

definition host_config :: service_config where
  "host_config = \<lparr>sg_durable_dir = ''/d'', sg_socket = ''/d/s'', sg_listener = ''ws://127.0.0.1:1'', sg_version = ''v''\<rparr>"

text \<open>What a start leaves, and what a teardown then adds to the log.\<close>

definition host_started :: service_state where
  "host_started = \<lparr>sv_clock = 25,
     sv_log = [SocketLooked (Seen host_socket), OwnGroupRead 5, PgidRead 10 10, Spawned 10, GatewayStarted]
       @ replicate 6 (DirLooked ''/d'' (Seen host_dir)),
     sv_process = Some 10, sv_pgid = Some 10, sv_connection = True, sv_gateway = True, sv_socket = Some host_socket,
     sv_stopping = False\<rparr>"

definition teardown_log :: "service_event list" where
  "teardown_log = [SocketRemoved, SocketLooked (Seen host_socket), GroupLooked 10 False, GroupLooked 10 False,
     GroupLooked 10 False, Signalled 10 SIGTERM, PgidRead 10 10, OwnGroupRead 5, ConnectionClosed, GatewayClosed]"

definition host_ready :: "nat \<Rightarrow> service_state" where
  "host_ready t = new_service\<lparr>sv_clock := t, sv_log := replicate 6 (DirLooked ''/d'' (Seen host_dir))\<rparr>"

lemma host_paths: "prepare_paths host_demo host_config new_service
    = (Inr (), host_ready 10)"
  by code_simp

lemma host_launches: "launch host_demo host_config (Suc 0) (host_ready 12)
    = (Inr (Some \<lparr>st_ready = True, st_listener = ''ws://127.0.0.1:1'', st_worker_version = ''v'', st_codex_pid = Some 10,
        st_private_socket = ''/d/s'', st_exposure = ''loopback'', st_authentication = ''none''\<rparr>), host_started)"
  by code_simp

lemma host_status: "service_status_of host_demo host_config new_service
    = (Inr \<lparr>st_ready = False, st_listener = ''ws://127.0.0.1:1'', st_worker_version = ''v'', st_codex_pid = None,
        st_private_socket = ''/d/s'', st_exposure = ''loopback'', st_authentication = ''none''\<rparr>, new_service)"
  by code_simp

lemma host_starts: "snd (service_start host_demo host_config (Suc 0) new_service) = host_started"
proof -
  have "sh_socket_present host_demo 10 = False" "\<And>t. sh_create_gateway host_demo t = Inr ()"
      "\<And>t. sv_clock (host_ready t) = t" "\<And>t t'. (host_ready t)\<lparr>sv_clock := t'\<rparr> = host_ready t'"
    by (simp_all add: host_demo_def host_ready_def)
  then show ?thesis
    by (simp add: service_start_def andthen_def host_status host_paths ask_def try_call_def lift_def guard_def attempt_def host_launches)
qed

text \<open>The states of a teardown.\<close>

definition host_at :: "nat \<Rightarrow> service_event list \<Rightarrow> service_state" where
  "host_at t evs = host_started\<lparr>sv_clock := t, sv_log := evs @ sv_log host_started, sv_stopping := True\<rparr>"

definition host_alone :: "nat \<Rightarrow> service_event list \<Rightarrow> service_state" where
  "host_alone t evs = (host_at t evs)\<lparr>sv_gateway := False, sv_connection := False\<rparr>"

definition host_empty :: "nat \<Rightarrow> service_event list \<Rightarrow> service_state" where
  "host_empty t evs = (host_alone t evs)\<lparr>sv_process := None, sv_pgid := None\<rparr>"

lemma host_drops:
  "drop_gateway host_demo (host_at 25 []) = (Inr [], (host_at 26 (drop 9 teardown_log))\<lparr>sv_gateway := False\<rparr>)"
  "drop_connection host_demo ((host_at 26 (drop 9 teardown_log))\<lparr>sv_gateway := False\<rparr>) = (Inr [], host_alone 27 (drop 8 teardown_log))"
  "drop_process host_demo (Suc 0) (host_alone 27 (drop 8 teardown_log)) = (Inr (Some []), host_empty 38 (drop 2 teardown_log))"
  "drop_socket host_demo host_config (Some host_socket) (host_empty 38 (drop 2 teardown_log))
     = (Inr [], (host_empty 41 teardown_log)\<lparr>sv_socket := None\<rparr>)"
  by code_simp+

lemma host_stops: "terminate_resources host_demo host_config (Suc 0) False host_started
    = (Inr (Some ()), (host_empty 41 teardown_log)\<lparr>sv_socket := None\<rparr>)"
proof -
  have "host_started\<lparr>sv_stopping := True\<rparr> = host_at 25 []" "sv_socket (host_at 25 []) = Some host_socket"
    by (simp_all add: host_at_def host_started_def)
  then show ?thesis
    by (simp add: terminate_resources_def andthen_def modify_def observe_def ret_def host_drops)
qed

lemma host_empty_log: "sv_log (host_empty t evs) = evs @ sv_log host_started"
  by (simp add: host_empty_def host_alone_def host_at_def)

lemma service_touches_only_its_own_witness:
  "ServiceProps.event_ok 7 (Signalled 10 SIGTERM) ([PgidRead 10 10, OwnGroupRead 5, ConnectionClosed, GatewayClosed] @ sv_log host_started)"
proof -
  have "sv_log (service_run host_demo host_config [StartService (Suc 0), TerminateService (Suc 0) False])
      = take 5 teardown_log @ Signalled 10 SIGTERM # ([PgidRead 10 10, OwnGroupRead 5, ConnectionClosed, GatewayClosed] @ sv_log host_started)"
    by (simp add: service_run_def service_step_def host_starts host_stops host_empty_log teardown_log_def)
  moreover have "sh_uid host_demo = 7" by (simp add: host_demo_def)
  ultimately show ?thesis using service_touches_only_its_own by metis
qed


section \<open>A stop over RPC\<close>

text \<open>
  A stop over RPC at a concrete input: the broker is idle, the maintenance tears the owned
  service down, and the server asks for its own shutdown.
\<close>

definition quiet_broker :: "'s rpc_broker" where
  "quiet_broker = \<lparr>rb_daemon_status = ret (Some []), rb_model_list = ret (Some []),
     rb_session_start = (\<lambda>_ _ _. ret (Some [])), rb_session_resume = (\<lambda>_ _. ret (Some [])),
     rb_session_list = ret (Some []), rb_session_show = (\<lambda>_. ret (Some [])),
     rb_turn_start = (\<lambda>_ _ _ _. ret (Some [])), rb_turn_status = (\<lambda>_. ret (Some [])),
     rb_turn_wait = (\<lambda>_ _. ret (Some [])), rb_turn_events = (\<lambda>_ _ _. ret (Some [])),
     rb_turn_steer = (\<lambda>_ _. ret (Some [])), rb_turn_interrupt = (\<lambda>_. ret (Some []))\<rparr>"

definition stopping_deps :: "unit service_deps" where
  "stopping_deps = \<lparr>sd_broker = demo_broker, sd_rounds = 3, sd_inventory_timeout = 3, sd_socket_path = ''/s'', sd_state_path = ''/r'',
     sd_pid = 1, sd_version = ''v'', sd_listener = DEFAULT_PUBLIC_LISTENER, sd_status = raise (RuntimeError ''unused''),
     sd_stopping = ret False, sd_scan = ret [], sd_resolve = (\<lambda>_ _ _. raise (RuntimeError ''unused''))\<rparr>"

definition stopping_server :: "unit facade_state rpc_server" where
  "stopping_server = \<lparr>sv_broker = quiet_broker, sv_facade = None, sv_service_facade = Some (service_facade stopping_deps)\<rparr>"

definition stopping_env :: rpc_env where
  "stopping_env = \<lparr>re_model = demo_model_env, re_limit = Some 1000, re_float = rpc_text,
     re_loads = \<lambda>_. Inr (request_json ''service/stop'' [(''force'', JBool False)])\<rparr>"

definition stopping_start :: "unit facade_state rpc_state" where
  "stopping_start = \<lparr>rh_inner = facade_start_state, rh_started = False, rh_shutdowns = 0, rh_accepted = False, rh_writes = 0, rh_lines = []\<rparr>"

lemma stop_shuts_down: "rh_shutdowns (snd (handle stopping_env stopping_server (\<lambda>_. None) (Inr ''x'') stopping_start)) = 1"
  by code_simp

lemma stop_request: "request_of stopping_env ''x'' = Some (''service/stop'', [(''force'', JBool False)])"
  by code_simp

lemma rpc_shutdown_follows_teardown_witness:
  "\<exists>lease g. bk_terminations (fa_broker (rh_inner (snd (handle stopping_env stopping_server (\<lambda>_. None) (Inr ''x'') stopping_start))))
     = [(lease, g)] \<and> active_mutations g = 0"
proof -
  obtain r s' where run: "handle stopping_env stopping_server (\<lambda>_. None) (Inr ''x'') stopping_start = (r, s')" by fastforce
  have service: "sv_service_facade stopping_server = Some (service_facade stopping_deps)" by (simp add: stopping_server_def)
  have "rh_shutdowns s' \<noteq> rh_shutdowns stopping_start" using stop_shuts_down run by (simp add: stopping_start_def)
  from rpc_shutdown_follows_teardown [OF run stop_request service this] show ?thesis
    using run by (auto simp: jget_def stopping_start_def facade_start_state_def demo_broker_state_def)
qed

end
