(* ===== verification/MigrationSources.thy ===== *)
theory MigrationSources
  imports RpcSocket CallbackStore
begin

text \<open>
  \<open>migration.py\<close>, reading the legacy installations: the directory of instances is found as one
  look at the file system, given with the contents of its files; JSON text and digests are
  functions of the host. \<open>LegacyMigrationError\<close> carries its message, the reason and the path.
\<close>

section \<open>Errors and files\<close>

definition migration_error :: "string \<Rightarrow> exn" where
  "migration_error reason = LegacyMigrationError reason"

definition migration_error_at :: "string \<Rightarrow> string \<Rightarrow> exn" where
  "migration_error_at reason path = LegacyMigrationError (reason @ '': '' @ path)"

definition private_mode :: file_mode where
  "private_mode = 0x180"

definition private_dir_mode :: file_mode where
  "private_dir_mode = 0x1C0"

text \<open>\<open>_owner_regular\<close> and \<open>_owner_directory\<close>.\<close>

definition owner_regular :: "int \<Rightarrow> string \<Rightarrow> look \<Rightarrow> (exn, unit) res" where
  "owner_regular uid path l = (case l of
     Seen m \<Rightarrow> if fm_kind m = RegularKind \<and> fm_uid m = uid \<and> fm_mode m = private_mode then Inr ()
       else Inl (migration_error_at ''unsafe_legacy_file'' path)
   | _ \<Rightarrow> Inl (migration_error_at ''unsafe_legacy_file'' path))"

definition owner_directory :: "int \<Rightarrow> bool \<Rightarrow> string \<Rightarrow> look \<Rightarrow> (exn, unit) res" where
  "owner_directory uid any_private path l = (case l of
     Seen m \<Rightarrow> if fm_kind m = DirectoryKind \<and> fm_uid m = uid
           \<and> (if any_private then \<not> others_write m else fm_mode m = private_dir_mode) then Inr ()
       else Inl (migration_error_at ''unsafe_legacy_directory'' path)
   | _ \<Rightarrow> Inl (migration_error_at ''unsafe_legacy_directory'' path))"

text \<open>
  \<open>_canonical\<close> writes JSON with sorted keys. Texts are compared and never parsed back, and equal
  texts come from values that are equal once their keys are sorted, so the value with sorted
  keys stands for the text.
\<close>

fun sorted_keys :: "json \<Rightarrow> json" where
  "sorted_keys (JObj d) = JObj (sort_key fst (map (\<lambda>kv. (fst kv, sorted_keys (snd kv))) d))"
| "sorted_keys (JList xs) = JList (map sorted_keys xs)"
| "sorted_keys v = v"

definition canonical :: "json \<Rightarrow> (exn, json) res" where
  "canonical v = (if json_finite v then Inr (sorted_keys v)
     else Inl (ValueError ''Out of range float values are not JSON compliant''))"

text \<open>\<open>_record_bytes\<close>; a record that was loaded has a finite configuration.\<close>

definition record_bytes :: "session_record \<Rightarrow> json" where
  "record_bytes r = sorted_keys (JObj (session_to_dict r))"

section \<open>Legacy installations\<close>

record legacy_child =
  lc_path :: string
  lc_link :: bool
  lc_look :: look
  lc_managed :: bool
  lc_registry_look :: look
  lc_raw :: string
  lc_registry :: path_state
  lc_callbacks :: "(exn option \<times> store_file) option"

record legacy_host =
  lh_env :: model_env
  lh_uid :: int
  lh_root :: string
  lh_root_look :: look
  lh_root_link :: bool
  lh_children :: "legacy_child list"
  lh_look :: "string \<Rightarrow> look"
  lh_inside :: "string \<Rightarrow> string \<Rightarrow> bool"
  lh_read :: "string \<Rightarrow> (exn, string) res"
  lh_loads :: "string \<Rightarrow> (exn, json) res"
  lh_render :: "json \<Rightarrow> string"
  lh_sha256 :: "string \<Rightarrow> string"
  lh_artifact_dir :: string

record legacy_source =
  ls_registry_path :: string
  ls_callback_path :: string
  ls_artifact_dir :: string
  ls_digest :: string
  ls_records :: "session_record list"
  ls_callbacks :: store_snapshot

definition empty_snapshot :: store_snapshot where
  "empty_snapshot = \<lparr>sn_bindings = [], sn_outbox = []\<rparr>"

definition check_child :: "legacy_child \<Rightarrow> (exn, unit) res" where
  "check_child c = (if lc_link c then Inl (migration_error_at ''unsafe_legacy_instance'' (lc_path c))
     else (case lc_look c of
       Seen m \<Rightarrow> if fm_kind m = DirectoryKind then Inr () else Inl (migration_error_at ''unsafe_legacy_instance'' (lc_path c))
     | Missing \<Rightarrow> Inl (FileNotFoundError (lc_path c))
     | LookFailed n \<Rightarrow> Inl (OSError n)))"

definition load_source :: "legacy_host \<Rightarrow> legacy_child \<Rightarrow> (exn, legacy_source) res" where
  "load_source h c =
     (let registry_path = child_of (lc_path c) ''registry.json'' in
      if \<not> lc_managed c then Inl (migration_error_at ''unverified_legacy_instance'' (lc_path c))
      else ebind (owner_regular (lh_uid h) registry_path (lc_registry_look c)) (\<lambda>_.
        if lc_raw c = [] then Inl (migration_error_at ''empty_legacy_registry'' registry_path)
        else ebind (read_existing (lh_env h) registry_path (lc_registry c) True) (\<lambda>reg.
          ebind (case lc_callbacks c of None \<Rightarrow> Inr empty_snapshot
             | Some (unsafe, file) \<Rightarrow> read_existing_store (lh_env h) unsafe file) (\<lambda>callbacks.
          Inr \<lparr>ls_registry_path = registry_path, ls_callback_path = child_of (lc_path c) ''callbacks.json'',
            ls_artifact_dir = child_of (lc_path c) ''callback-artifacts'', ls_digest = lh_sha256 h (lc_raw c),
            ls_records = list_records reg, ls_callbacks = callbacks\<rparr>))))"

definition load_sources :: "legacy_host \<Rightarrow> (exn, legacy_source list) res" where
  "load_sources h = (case lh_root_look h of
     Missing \<Rightarrow> if lh_root_link h then Inl (migration_error_at ''unsafe_legacy_root'' (lh_root h)) else Inr []
   | l \<Rightarrow> ebind (owner_directory (lh_uid h) True (lh_root h) l) (\<lambda>_.
       ebind (emap check_child (lh_children h)) (\<lambda>_.
         emap (load_source h) (sort_key lc_path (lh_children h)))))"

section \<open>Projecting callbacks\<close>

definition worker_of_record :: "model_env \<Rightarrow> session_record \<Rightarrow> (exn, json) res" where
  "worker_of_record env r =
     (if sr_name r = None \<or> sr_model r = None \<or> sr_effort r = None \<or> sr_access r = None
      then Inl (migration_error ''callback_worker_policy_is_incomplete'')
      else build (WorkerView env) [(''name'', jopt (sr_name r)), (''session_id'', JStr (sr_session_id r)),
        (''thread_id'', JStr (sr_thread_id r)), (''cwd'', JStr (sr_cwd r)), (''tier'', jopt (sr_tier r)),
        (''model'', jopt (sr_model r)), (''effort'', jopt (sr_effort r)), (''access'', jopt (sr_access r)),
        (''attach'', JNull), (''config'', JNull)])"

definition worker_matches :: "json \<Rightarrow> session_record \<Rightarrow> bool" where
  "worker_matches w r \<longleftrightarrow> sub_obj w ''name'' = jopt (sr_name r) \<and> sub_obj w ''session_id'' = JStr (sr_session_id r)
     \<and> sub_obj w ''thread_id'' = JStr (sr_thread_id r) \<and> sub_obj w ''cwd'' = JStr (sr_cwd r)
     \<and> sub_obj w ''model'' = jopt (sr_model r) \<and> sub_obj w ''effort'' = jopt (sr_effort r)
     \<and> sub_obj w ''tier'' = jopt (sr_tier r) \<and> sub_obj w ''access'' = jopt (sr_access r)"

definition validate_event_worker :: "json \<Rightarrow> session_record \<Rightarrow> (exn, unit) res" where
  "validate_event_worker w r = (if worker_matches w r then Inr ()
     else Inl (migration_error ''callback_worker_does_not_match_registry''))"

text \<open>\<open>except ValueError as exc: raise LegacyMigrationError(reason)\<close>.\<close>

definition value_error_as :: "exn \<Rightarrow> (exn, 'a) res \<Rightarrow> (exn, 'a) res" where
  "value_error_as e r = (case r of Inl x \<Rightarrow> Inl (if is_value_error x then e else x) | Inr v \<Rightarrow> Inr v)"

definition legacy_completion :: "model_env \<Rightarrow> json_object \<Rightarrow> session_record \<Rightarrow> session_record \<Rightarrow> (exn, json) res" where
  "legacy_completion env value r projected = (case as_obj (jget value ''worker'') of
     None \<Rightarrow> Inl (migration_error ''completion_worker_missing'')
   | Some w \<Rightarrow> ebind (value_error_as (migration_error ''completion_worker_invalid'') (from_dict (WorkerView env) (JObj w))) (\<lambda>parsed.
       ebind (validate_event_worker parsed r) (\<lambda>_.
       ebind (worker_of_record env projected) (\<lambda>worker.
         value_error_as (migration_error ''completion_projection_invalid'')
           (from_dict (CompletionResponse env) (JObj (dset value ''worker'' worker)))))))"

text \<open>\<open>_read_legacy_artifact\<close>.\<close>

definition artifact_reference :: "json \<Rightarrow> (exn, string \<times> string \<times> int) res" where
  "artifact_reference v = (case as_obj v of
     None \<Rightarrow> Inl (migration_error ''invalid_legacy_artifact_reference'')
   | Some d \<Rightarrow> (case (as_str (jget d ''path''), as_str (jget d ''sha256''), as_int (jget d ''size_bytes'')) of
       (Some p, Some digest, Some n) \<Rightarrow> if has_fields d [''path'', ''sha256'', ''size_bytes''] then Inr (p, digest, n)
         else Inl (migration_error ''invalid_legacy_artifact_reference'')
     | _ \<Rightarrow> Inl (migration_error ''invalid_legacy_artifact_reference'')))"

definition read_legacy_artifact :: "legacy_host \<Rightarrow> json \<Rightarrow> string \<Rightarrow> session_record \<Rightarrow> session_record \<Rightarrow> (exn, json) res" where
  "read_legacy_artifact h v dir r projected = ebind (artifact_reference v) (\<lambda>(path, digest, n).
     if \<not> is_absolute path then Inl (migration_error_at ''legacy_artifact_path_not_absolute'' path)
     else ebind (owner_directory (lh_uid h) False dir (lh_look h dir)) (\<lambda>_.
       ebind (owner_regular (lh_uid h) path (lh_look h path)) (\<lambda>_.
       if \<not> lh_inside h dir path then Inl (migration_error_at ''legacy_artifact_path_escape'' path)
       else ebind (lh_read h path) (\<lambda>raw.
         if int (length raw) \<noteq> n \<or> lh_sha256 h raw \<noteq> digest
         then Inl (migration_error_at ''legacy_artifact_digest_or_size_mismatch'' path)
         else ebind (value_error_as (migration_error_at ''invalid_legacy_artifact_json'' path) (lh_loads h raw)) (\<lambda>completion.
           case as_obj completion of
             None \<Rightarrow> Inl (migration_error_at ''invalid_legacy_artifact_completion'' path)
           | Some d \<Rightarrow> legacy_completion (lh_env h) d r projected)))))"

definition completion_bytes :: "legacy_host \<Rightarrow> json \<Rightarrow> string" where
  "completion_bytes h completion = lh_render h completion @ [newline]"

definition target_artifact :: "legacy_host \<Rightarrow> string \<Rightarrow> json \<Rightarrow> (exn, artifact) res" where
  "target_artifact h event_id completion =
     (if event_id = [] \<or> \<not> list_all artifact_char event_id then Inl (migration_error ''unsafe_callback_artifact_event_id'')
      else if \<not> json_finite completion then Inl (ValueError ''Out of range float values are not JSON compliant'')
      else (let payload = completion_bytes h completion in
        Inr \<lparr>af_event_id = event_id, af_sha256 = lh_sha256 h payload, af_size = int (length payload)\<rparr>))"

definition target_artifact_path :: "legacy_host \<Rightarrow> artifact \<Rightarrow> string" where
  "target_artifact_path h a = child_of (lh_artifact_dir h) (af_event_id a @ ''.json'')"

text \<open>\<open>_project_entry\<close>: the entry as the global store will hold it, with the artifact to publish.\<close>

type_synonym artifact_pair = "artifact \<times> json"

definition project_payload :: "legacy_host \<Rightarrow> callback_event \<Rightarrow> session_record \<Rightarrow> session_record \<Rightarrow> string \<Rightarrow>
    (exn, json_object \<times> artifact_pair option) res" where
  "project_payload h ev r projected dir =
     (let payload = ce_payload ev in
      if ce_event ev = ''turn_terminal'' then (case as_obj (jget payload ''completion'') of
          None \<Rightarrow> Inl (migration_error ''invalid_terminal_completion'')
        | Some d \<Rightarrow> ebind (legacy_completion (lh_env h) d r projected) (\<lambda>c. Inr (dset payload ''completion'' c, None)))
      else if ce_event ev = ''turn_terminal_reference'' then
        ebind (read_legacy_artifact h (jget payload ''artifact'') dir r projected) (\<lambda>c.
        ebind (target_artifact h (ce_event_id ev) c) (\<lambda>a.
          Inr (dset payload ''artifact'' (JObj [(''path'', JStr (target_artifact_path h a)), (''sha256'', JStr (af_sha256 a)),
            (''size_bytes'', JInt (af_size a))]), Some (a, c))))
      else Inr (payload, None))"

definition project_entry :: "legacy_host \<Rightarrow> outbox_entry \<Rightarrow> session_record \<Rightarrow> string \<Rightarrow> session_record \<Rightarrow>
    (exn, outbox_entry \<times> artifact_pair option) res" where
  "project_entry h e r dir projected = (case en_event e of
     None \<Rightarrow> Inr (e, None)
   | Some ev \<Rightarrow>
       ebind (validate_event_worker (ce_worker ev) r) (\<lambda>_.
       ebind (worker_of_record (lh_env h) projected) (\<lambda>worker.
       ebind (project_payload h ev r projected dir) (\<lambda>(payload, pair).
       ebind (mk_callback_event (JStr (ce_schema ev)) (JStr (ce_event ev)) (JStr (ce_event_id ev)) (JStr (ce_emitted_at ev))
           (JStr (ce_priority ev)) worker (JObj payload)) (\<lambda>ev'.
       (let e' = e\<lparr>en_event := Some ev'\<rparr> in ebind (entry_checks e') (\<lambda>_. Inr (e', pair))))))))"

section \<open>Merging\<close>

text \<open>\<open>==\<close> of two outbox entries.\<close>

definition entry_eq :: "outbox_entry \<Rightarrow> outbox_entry \<Rightarrow> bool" where
  "entry_eq a b \<longleftrightarrow> py_eq (JObj (entry_dict a)) (JObj (entry_dict b))"

definition pair_eq :: "artifact_pair \<Rightarrow> artifact_pair \<Rightarrow> bool" where
  "pair_eq a b \<longleftrightarrow> fst a = fst b \<and> py_eq (snd a) (snd b)"

text \<open>
  Keyed union, later values after earlier ones: a key that is there with an unequal value is a
  collision, otherwise the value is assigned.
\<close>

fun union_by :: "('a \<Rightarrow> string) \<Rightarrow> ('a \<Rightarrow> 'a \<Rightarrow> bool) \<Rightarrow> exn \<Rightarrow> (string, 'a) dict \<Rightarrow> 'a list \<Rightarrow> (exn, (string, 'a) dict) res" where
  "union_by key eq e d [] = Inr d"
| "union_by key eq e d (x # xs) = (case dget d (key x) of
     Some y \<Rightarrow> if eq y x then union_by key eq e (dset d (key x) x) xs else Inl e
   | None \<Rightarrow> union_by key eq e (dset d (key x) x) xs)"

definition sorted_values :: "(string, 'a) dict \<Rightarrow> 'a list" where
  "sorted_values d = map snd (sort_key fst d)"

definition dedup_by :: "('a \<Rightarrow> string) \<Rightarrow> ('a \<Rightarrow> 'a \<Rightarrow> bool) \<Rightarrow> exn \<Rightarrow> 'a list \<Rightarrow> (exn, 'a list) res" where
  "dedup_by key eq e xs = ebind (union_by key eq e [] xs) (\<lambda>d. Inr (sorted_values d))"

definition dedup_bindings :: "binding list \<Rightarrow> (exn, binding list) res" where
  "dedup_bindings = dedup_by cb_session_id binding_eq (migration_error ''callback_binding_conflict_after_planning'')"

definition dedup_entries :: "outbox_entry list \<Rightarrow> (exn, outbox_entry list) res" where
  "dedup_entries = dedup_by en_event_id entry_eq (migration_error ''callback_event_conflict_after_planning'')"

definition dedup_artifacts :: "artifact_pair list \<Rightarrow> (exn, artifact_pair list) res" where
  "dedup_artifacts = dedup_by (\<lambda>p. af_event_id (fst p)) pair_eq (migration_error ''callback_artifact_conflict_after_planning'')"

definition keyed :: "('a \<Rightarrow> string) \<Rightarrow> 'a list \<Rightarrow> (string, 'a) dict" where
  "keyed key xs = fold (\<lambda>x d. dset d (key x) x) xs []"

text \<open>\<open>_merge_callback_snapshots\<close>; no selected session selects every one.\<close>

definition merge_snapshots :: "store_snapshot \<Rightarrow> store_snapshot \<Rightarrow> string list \<Rightarrow> (exn, store_snapshot) res" where
  "merge_snapshots target source selected =
     ebind (union_by cb_session_id binding_eq (migration_error ''global_callback_binding_collision'')
       (keyed cb_session_id (sn_bindings target)) (sn_bindings source)) (\<lambda>bindings.
     ebind (union_by en_event_id entry_eq (migration_error ''global_callback_event_collision'')
       (keyed en_event_id (sn_outbox target))
       (filter (\<lambda>e. selected = [] \<or> en_session_id e \<in> set selected) (sn_outbox source))) (\<lambda>outbox.
       mk_snapshot (sorted_values bindings) (sorted_values outbox)))"

end
