(* ===== verification/MigrationPlan.thy ===== *)
theory MigrationPlan
  imports MigrationSources
begin

text \<open>
  \<open>LegacyMigrator._plan\<close>: what a scan makes of the legacy installations and the global store. A
  record is quarantined when another one claims its name, session or thread with other
  contents, or when its callbacks disagree; the names of the quarantined are the conflicts. The
  sets of the source are lists whose order does not matter.
\<close>

record migration_plan =
  pl_status :: json_object
  pl_records :: "session_record list"
  pl_callbacks :: store_snapshot
  pl_artifacts :: "artifact_pair list"

text \<open>A source record with its candidate.\<close>

record source_item =
  it_candidate :: json_object
  it_record :: session_record
  it_source :: legacy_source

definition object_of :: "(exn, json) res \<Rightarrow> (exn, json_object) res" where
  "object_of r = ebind r (\<lambda>v. case as_obj v of None \<Rightarrow> Inl (TypeError ''object expected'') | Some d \<Rightarrow> Inr d)"

definition candidate_of :: "legacy_source \<Rightarrow> session_record \<Rightarrow> (exn, json_object) res" where
  "candidate_of s r = object_of (build LegacyCandidate
     [(''source_path'', JStr (ls_registry_path s)), (''source_digest'', JStr (ls_digest s)), (''name'', jopt (sr_name r)),
      (''session_id'', JStr (sr_session_id r)), (''thread_id'', JStr (sr_thread_id r)), (''cwd'', JStr (sr_cwd r)),
      (''created_at'', JStr (sr_created_at r)), (''updated_at'', JStr (sr_updated_at r)), (''model'', jopt (sr_model r)),
      (''effort'', jopt (sr_effort r)), (''tier'', jopt (sr_tier r)), (''access'', jopt (sr_access r))])"

definition source_items :: "legacy_source \<Rightarrow> (exn, source_item list) res" where
  "source_items s = emap (\<lambda>r. ebind (candidate_of s r) (\<lambda>c. Inr \<lparr>it_candidate = c, it_record = r, it_source = s\<rparr>)) (ls_records s)"

definition name_text :: "session_record \<Rightarrow> string" where
  "name_text r = (case sr_name r of None \<Rightarrow> [] | Some n \<Rightarrow> n)"

text \<open>A tuple of strings sorts as the list of its components.\<close>

definition item_key :: "source_item \<Rightarrow> string list" where
  "item_key i = [ls_registry_path (it_source i), name_text (it_record i), sr_session_id (it_record i), sr_thread_id (it_record i)]"

definition collect_items :: "legacy_source list \<Rightarrow> (exn, source_item list) res" where
  "collect_items sources = ebind (emap source_items sources) (\<lambda>xss. Inr (sort_key item_key (concat xss)))"

text \<open>The members of a group that holds different values.\<close>

definition clashing :: "('a \<Rightarrow> 'k option) \<Rightarrow> ('a \<Rightarrow> 'v) \<Rightarrow> 'a list \<Rightarrow> 'a list" where
  "clashing key val xs = filter (\<lambda>x. key x \<noteq> None \<and> list_ex (\<lambda>y. key y = key x \<and> val y \<noteq> val x) xs) xs"

definition item_bytes :: "source_item \<Rightarrow> json" where
  "item_bytes i = record_bytes (it_record i)"

definition divergent_names :: "source_item list \<Rightarrow> string list" where
  "divergent_names items = map (name_text \<circ> it_record) (clashing (sr_name \<circ> it_record) item_bytes items)"

definition sessions_of :: "source_item list \<Rightarrow> string list" where
  "sessions_of items = map (sr_session_id \<circ> it_record) items"

definition record_quarantine :: "source_item list \<Rightarrow> string list" where
  "record_quarantine items = sessions_of (clashing (sr_name \<circ> it_record) item_bytes items
     @ clashing (\<lambda>i. Some (sr_session_id (it_record i))) item_bytes items
     @ clashing (\<lambda>i. Some (sr_thread_id (it_record i))) item_bytes items)"

section \<open>Callbacks of the sources\<close>

definition record_in :: "legacy_source \<Rightarrow> string \<Rightarrow> session_record option" where
  "record_in s sid = find (\<lambda>r. sr_session_id r = sid) (rev (ls_records s))"

definition check_source_binding :: "legacy_source \<Rightarrow> binding \<Rightarrow> (exn, unit) res" where
  "check_source_binding s b = (case record_in s (cb_session_id b) of
     None \<Rightarrow> Inl (migration_error_at ''callback_binding_without_registry_record'' (ls_callback_path s)) | Some _ \<Rightarrow> Inr ())"

type_synonym projected_entry = "outbox_entry \<times> artifact_pair option"

definition project_source_entry :: "legacy_host \<Rightarrow> legacy_source \<Rightarrow> outbox_entry \<Rightarrow> (exn, projected_entry) res" where
  "project_source_entry h s e = (case record_in s (en_session_id e) of
     None \<Rightarrow> Inl (migration_error_at ''callback_event_without_registry_record'' (ls_callback_path s))
   | Some r \<Rightarrow> project_entry h e r (ls_artifact_dir s) r)"

definition project_source :: "legacy_host \<Rightarrow> legacy_source \<Rightarrow> (exn, projected_entry list) res" where
  "project_source h s = ebind (emap (check_source_binding s) (sn_bindings (ls_callbacks s))) (\<lambda>_.
     emap (project_source_entry h s) (sn_outbox (ls_callbacks s)))"

definition with_bytes :: "('a \<Rightarrow> json_object) \<Rightarrow> 'a list \<Rightarrow> (exn, ('a \<times> json) list) res" where
  "with_bytes f xs = emap (\<lambda>x. ebind (canonical (JObj (f x))) (\<lambda>b. Inr (x, b))) xs"

definition callback_quarantine :: "(binding \<times> json) list \<Rightarrow> (outbox_entry \<times> json) list \<Rightarrow> string list" where
  "callback_quarantine bs es =
     map (cb_session_id \<circ> fst) (clashing (\<lambda>p. Some (cb_session_id (fst p))) snd bs)
     @ map (en_session_id \<circ> fst) (clashing (\<lambda>p. Some (en_event_id (fst p))) snd es)"

section \<open>Against the global store\<close>

definition shares_identity :: "session_record \<Rightarrow> session_record \<Rightarrow> bool" where
  "shares_identity r t \<longleftrightarrow> sr_session_id t = sr_session_id r \<or> sr_thread_id t = sr_thread_id r
     \<or> (sr_name r \<noteq> None \<and> sr_name t = sr_name r)"

definition collides_with_target :: "session_record list \<Rightarrow> session_record \<Rightarrow> bool" where
  "collides_with_target targets r \<longleftrightarrow> list_ex (\<lambda>t. shares_identity r t \<and> record_bytes t \<noteq> record_bytes r) targets"

definition target_quarantine :: "session_record list \<Rightarrow> source_item list \<Rightarrow> (exn, string list) res" where
  "target_quarantine targets items =
     (let bad = filter (\<lambda>i. collides_with_target targets (it_record i)) items
      in if list_ex (\<lambda>i. sr_name (it_record i) = None) bad then Inl (migration_error ''unnamed_registry_identifier_conflict'')
         else Inr (sessions_of bad))"

text \<open>An existing binding or event whose bytes differ from one of the sources'.\<close>

definition target_differs :: "('a \<Rightarrow> string) \<Rightarrow> ('a \<times> json) list \<Rightarrow> ('a \<times> json) list \<Rightarrow> 'a \<times> json \<Rightarrow> bool" where
  "target_differs key targets xs x \<longleftrightarrow> list_ex (\<lambda>t. key (fst t) = key (fst x)
     \<and> list_ex (\<lambda>y. key (fst y) = key (fst x) \<and> snd t \<noteq> snd y) xs) targets"

definition target_callback_quarantine :: "(binding \<times> json) list \<Rightarrow> (outbox_entry \<times> json) list \<Rightarrow>
    (binding \<times> json) list \<Rightarrow> (outbox_entry \<times> json) list \<Rightarrow> string list" where
  "target_callback_quarantine tbs tes bs es =
     map (cb_session_id \<circ> fst) (filter (target_differs cb_session_id tbs bs) bs)
     @ map (en_session_id \<circ> fst) (filter (target_differs en_event_id tes es) es)"

section \<open>Conflicts and outcomes\<close>

definition in_quarantine :: "string list \<Rightarrow> source_item \<Rightarrow> bool" where
  "in_quarantine quarantine i \<longleftrightarrow> sr_session_id (it_record i) \<in> set quarantine"

definition conflict_names :: "string list \<Rightarrow> source_item list \<Rightarrow> (exn, string list) res" where
  "conflict_names quarantine items =
     (let bad = filter (in_quarantine quarantine) items
      in if list_ex (\<lambda>i. sr_name (it_record i) = None) bad then Inl (migration_error ''unnamed_callback_conflict'')
         else Inr (sort (remdups (divergent_names items @ map (name_text \<circ> it_record) bad))))"

definition conflict_of :: "source_item list \<Rightarrow> string \<Rightarrow> (exn, json) res" where
  "conflict_of items name =
     (let own = sort_key (\<lambda>i. [ls_registry_path (it_source i), sr_session_id (it_record i), sr_thread_id (it_record i)])
            (filter (\<lambda>i. sr_name (it_record i) = Some name) items)
      in build LegacyConflict [(''name'', JStr name), (''candidates'', JList (map (JObj \<circ> it_candidate) own)),
           (''source_digests'', JList (map JStr (sort (remdups (map (ls_digest \<circ> it_source) own)))))])"

datatype migration_outcome = Imported | Deduplicated | Conflicted

fun outcome_value :: "migration_outcome \<Rightarrow> string" where
  "outcome_value Imported = ''imported''"
| "outcome_value Deduplicated = ''deduplicated''"
| "outcome_value Conflicted = ''conflicted''"

definition is_conflicted :: "string list \<Rightarrow> string list \<Rightarrow> source_item \<Rightarrow> bool" where
  "is_conflicted names quarantine i \<longleftrightarrow>
     (case sr_name (it_record i) of None \<Rightarrow> False | Some n \<Rightarrow> n \<in> set names) \<or> in_quarantine quarantine i"

text \<open>The outcome of each source record in order; the first with its contents is imported.\<close>

fun outcomes :: "string list \<Rightarrow> string list \<Rightarrow> json list \<Rightarrow> source_item list \<Rightarrow> migration_outcome list" where
  "outcomes names quarantine seen [] = []"
| "outcomes names quarantine seen (i # rest) =
     (if is_conflicted names quarantine i then Conflicted # outcomes names quarantine seen rest
      else if item_bytes i \<in> set seen then Deduplicated # outcomes names quarantine seen rest
      else Imported # outcomes names quarantine (item_bytes i # seen) rest)"

definition add_record :: "source_item \<Rightarrow> session_record list \<Rightarrow> session_record list" where
  "add_record i rs = (if list_ex (\<lambda>r. record_bytes r = item_bytes i) rs then rs else rs @ [it_record i])"

definition selected_items :: "string list \<Rightarrow> string list \<Rightarrow> source_item list \<Rightarrow> source_item list" where
  "selected_items names quarantine items = filter (\<lambda>i. \<not> is_conflicted names quarantine i) items"

definition merged_records :: "session_record list \<Rightarrow> source_item list \<Rightarrow> session_record list" where
  "merged_records targets selected = fold add_record selected targets"

definition source_view :: "source_item \<times> migration_outcome \<Rightarrow> (exn, json) res" where
  "source_view p = (let r = it_record (fst p) in
     build MigrationSourceView [(''source_path'', JStr (ls_registry_path (it_source (fst p)))),
       (''source_digest'', JStr (ls_digest (it_source (fst p)))), (''name'', jopt (sr_name r)),
       (''session_id'', JStr (sr_session_id r)), (''thread_id'', JStr (sr_thread_id r)),
       (''outcome'', JStr (outcome_value (snd p)))])"

definition status_view_of :: "json list \<Rightarrow> json list \<Rightarrow> int \<Rightarrow> int \<Rightarrow> (exn, json_object) res" where
  "status_view_of sources conflicts imported deduplicated = object_of (build MigrationStatusView
     [(''status'', JStr ''complete''), (''ready'', JBool True), (''imported_count'', JInt imported),
      (''deduplicated_count'', JInt deduplicated), (''conflict_count'', JInt (int (length conflicts))),
      (''sources'', JList sources), (''conflicts'', JList conflicts)])"

definition count_of :: "migration_outcome \<Rightarrow> migration_outcome list \<Rightarrow> int" where
  "count_of x xs = int (length (filter (\<lambda>y. y = x) xs))"

definition record_key :: "session_record \<Rightarrow> string list" where
  "record_key r = [name_text r, sr_session_id r, sr_thread_id r]"

definition sorted_records :: "session_record list \<Rightarrow> session_record list" where
  "sorted_records rs = sort_key record_key rs"

section \<open>The plan\<close>

text \<open>The global store as a plan finds it, \<open>tp_look\<close> being the look at an artifact's path.\<close>

record target_state =
  tp_records :: "(exn, session_record list) res"
  tp_callbacks :: "(exn, store_snapshot) res"
  tp_look :: "string \<Rightarrow> look"
  tp_artifacts :: artifact_dir

definition check_artifact_target :: "legacy_host \<Rightarrow> target_state \<Rightarrow> artifact_pair \<Rightarrow> (exn, unit) res" where
  "check_artifact_target h t p = (let path = target_artifact_path h (fst p) in
     case tp_look t path of
       Missing \<Rightarrow> Inr ()
     | LookFailed n \<Rightarrow> Inl (OSError n)
     | Seen m \<Rightarrow> ebind (owner_regular (lh_uid h) path (Seen m)) (\<lambda>_.
         case dget (tp_artifacts t) (af_event_id (fst p) @ ''.json'') of
           None \<Rightarrow> Inl (FileNotFoundError path)
         | Some raw \<Rightarrow> if raw \<noteq> completion_bytes h (snd p) then Inl (migration_error_at ''global_artifact_collision'' path)
             else Inr ()))"

definition prevalidate_artifacts :: "legacy_host \<Rightarrow> target_state \<Rightarrow> artifact_pair list \<Rightarrow> (exn, unit) res" where
  "prevalidate_artifacts h t ps = forget (emap (check_artifact_target h t) ps)"

definition plan_callbacks :: "legacy_host \<Rightarrow> target_state \<Rightarrow> store_snapshot \<Rightarrow> legacy_source list \<Rightarrow> projected_entry list \<Rightarrow> string list \<Rightarrow>
    (exn, store_snapshot \<times> artifact_pair list) res" where
  "plan_callbacks h t target sources projected selected =
     ebind (dedup_bindings (filter (\<lambda>b. cb_session_id b \<in> set selected) (concat (map (\<lambda>s. sn_bindings (ls_callbacks s)) sources)))) (\<lambda>bs.
     ebind (dedup_entries (filter (\<lambda>e. en_session_id e \<in> set selected) (map fst projected))) (\<lambda>es.
     ebind (mk_snapshot bs es) (\<lambda>snapshot.
     ebind (merge_snapshots target snapshot selected) (\<lambda>merged.
     ebind (dedup_artifacts (List.map_filter snd (filter (\<lambda>p. en_session_id (fst p) \<in> set selected) projected))) (\<lambda>artifacts.
     ebind (prevalidate_artifacts h t artifacts) (\<lambda>_. Inr (merged, artifacts)))))))"

definition plan_quarantine :: "target_state \<Rightarrow> source_item list \<Rightarrow> legacy_source list \<Rightarrow> projected_entry list \<Rightarrow>
    (exn, string list \<times> session_record list \<times> store_snapshot) res" where
  "plan_quarantine t items sources projected =
     ebind (with_bytes binding_dict (concat (map (\<lambda>s. sn_bindings (ls_callbacks s)) sources))) (\<lambda>bs.
     ebind (with_bytes entry_dict (map fst projected)) (\<lambda>es.
     ebind (tp_records t) (\<lambda>targets.
     ebind (target_quarantine targets items) (\<lambda>taken.
     ebind (tp_callbacks t) (\<lambda>callbacks.
     ebind (with_bytes binding_dict (sn_bindings callbacks)) (\<lambda>tbs.
     ebind (with_bytes entry_dict (sn_outbox callbacks)) (\<lambda>tes.
       Inr (record_quarantine items @ callback_quarantine bs es @ taken @ target_callback_quarantine tbs tes bs es,
            targets, callbacks))))))))"

definition plan_migration :: "legacy_host \<Rightarrow> target_state \<Rightarrow> legacy_source list \<Rightarrow> (exn, migration_plan) res" where
  "plan_migration h t sources =
     ebind (collect_items sources) (\<lambda>items.
     ebind (emap (project_source h) sources) (\<lambda>pss.
     (let projected = concat pss in
     ebind (plan_quarantine t items sources projected) (\<lambda>(quarantine, targets, callbacks).
     ebind (conflict_names quarantine items) (\<lambda>names.
     ebind (emap (conflict_of items) names) (\<lambda>conflicts.
     (let selected = selected_items names quarantine items; os = outcomes names quarantine [] items in
     ebind (emap source_view (zip items os)) (\<lambda>views.
     ebind (plan_callbacks h t callbacks sources projected (sessions_of selected)) (\<lambda>(merged, artifacts).
     ebind (status_view_of views conflicts (count_of Imported os) (count_of Deduplicated os)) (\<lambda>st.
       Inr \<lparr>pl_status = st, pl_records = sorted_records (merged_records targets selected), pl_callbacks = merged,
         pl_artifacts = artifacts\<rparr>))))))))))"

end
