(* ===== verification/Migration.thy ===== *)
theory Migration
  imports MigrationPlan Acts Gate
begin

text \<open>
  \<open>migration.py\<close>, the global store on disk: the commit in its fixed order, the ledger, the intent
  of a resolution, \<open>scan_and_apply\<close>, \<open>resolve\<close> and the live coordinator. The host answers every
  write and check by the moment it is made; the disk holds what the files mean.
\<close>

section \<open>The disk\<close>

record resolution =
  rz_name :: string
  rz_thread :: string
  rz_as :: "string option"

text \<open>A file of the migrator: absent, unreadable as JSON, or a JSON value.\<close>

datatype json_file = NoFile | BadFile | JsonFile json

record mig_disk =
  md_registry :: path_state
  md_callbacks :: "store_file option"
  md_artifacts :: artifact_dir
  md_ledger :: json_file
  md_intent :: json_file

datatype mig_file = RegistryFile | CallbackFile | LedgerFile | IntentFile

datatype commit_stage = ArtifactStage | RegistryStage | CallbackStage | LedgerStage

record mig_host =
  mh_legacy :: legacy_host
  mh_registry_path :: string
  mh_callback_path :: string
  mh_ledger_path :: string
  mh_intent_path :: string
  mh_private :: "nat \<Rightarrow> mig_file \<Rightarrow> bool"
  mh_hardened :: "nat \<Rightarrow> bool"
  mh_dangling :: "nat \<Rightarrow> mig_file \<Rightarrow> bool"
  mh_artifact_look :: "nat \<Rightarrow> string \<Rightarrow> look"
  mh_appeared :: "nat \<Rightarrow> string option"
  mh_write :: "nat \<Rightarrow> write_outcome"
  mh_sync :: "nat \<Rightarrow> (exn, unit) res"
  mh_unlink :: "nat \<Rightarrow> (exn, unit) res"
  mh_after :: "nat \<Rightarrow> commit_stage \<Rightarrow> (exn, unit) res"

record mig_state =
  mg_disk :: mig_disk
  mg_clock :: nat

type_synonym 'a mig_act = "(mig_state, 'a) act"

definition moment :: "nat mig_act" where
  "moment s = (Inr (mg_clock s), s\<lparr>mg_clock := Suc (mg_clock s)\<rparr>)"

definition answered_by :: "(nat \<Rightarrow> (exn, 'a) res) \<Rightarrow> 'a mig_act" where
  "answered_by f = andthen moment (\<lambda>t. lift (f t))"

definition disk :: "(mig_disk \<Rightarrow> 'a) \<Rightarrow> 'a mig_act" where
  "disk f = observe (\<lambda>s. f (mg_disk s))"

text \<open>A write: the file after it and its result, from the outcome of the moment.\<close>

definition writing :: "mig_host \<Rightarrow> (write_outcome \<Rightarrow> mig_disk \<Rightarrow> mig_disk \<times> (exn, 'a) res) \<Rightarrow> 'a mig_act" where
  "writing h f = andthen moment (\<lambda>t s. case f (mh_write h t) (mg_disk s) of (d, r) \<Rightarrow> (r, s\<lparr>mg_disk := d\<rparr>))"

definition mig_path :: "mig_host \<Rightarrow> mig_file \<Rightarrow> string" where
  "mig_path h f = (case f of RegistryFile \<Rightarrow> mh_registry_path h | CallbackFile \<Rightarrow> mh_callback_path h
     | LedgerFile \<Rightarrow> mh_ledger_path h | IntentFile \<Rightarrow> mh_intent_path h)"

definition check_private :: "mig_host \<Rightarrow> mig_file \<Rightarrow> unit mig_act" where
  "check_private h f = andthen moment (\<lambda>t.
     guard (mh_private h t f) (migration_error_at ''unsafe_legacy_file'' (mig_path h f)))"

definition refuse_dangling :: "mig_host \<Rightarrow> mig_file \<Rightarrow> string \<Rightarrow> unit mig_act" where
  "refuse_dangling h f reason = andthen moment (\<lambda>t.
     guard (\<not> mh_dangling h t f) (migration_error_at reason (mig_path h f)))"

definition sync :: "mig_host \<Rightarrow> unit mig_act" where
  "sync h = answered_by (mh_sync h)"

section \<open>The ledger and the intent\<close>

definition resolution_json :: "resolution \<Rightarrow> json" where
  "resolution_json r = JObj [(''as_name'', jopt (rz_as r)), (''name'', JStr (rz_name r)), (''thread_id'', JStr (rz_thread r))]"

definition resolution_from :: "string \<Rightarrow> json \<Rightarrow> (exn, resolution) res" where
  "resolution_from message v = (case as_obj v of
     None \<Rightarrow> Inl (ValueError message)
   | Some d \<Rightarrow> (case (as_str (jget d ''name''), as_str (jget d ''thread_id'')) of
       (Some n, Some t) \<Rightarrow> if has_fields d [''name'', ''thread_id'', ''as_name''] \<and> str_or_null (jget d ''as_name'')
         then Inr \<lparr>rz_name = n, rz_thread = t, rz_as = as_str (jget d ''as_name'')\<rparr> else Inl (ValueError message)
     | _ \<Rightarrow> Inl (ValueError message)))"

definition ledger_payload :: "json_object \<Rightarrow> resolution list \<Rightarrow> json" where
  "ledger_payload st rs = JObj [(''resolutions'', JList (map resolution_json rs)), (''status'', JObj st), (''version'', JInt 1)]"

definition ledger_content :: "json \<Rightarrow> (exn, json_object \<times> resolution list) res" where
  "ledger_content v = (case as_obj v of
     None \<Rightarrow> Inl (ValueError ''invalid migration ledger'')
   | Some d \<Rightarrow> (case as_list (jget d ''resolutions'') of
       Some xs \<Rightarrow> if \<not> has_fields d [''version'', ''status'', ''resolutions''] \<or> \<not> eq_int (jget d ''version'') 1
         then Inl (ValueError ''invalid migration ledger'')
         else ebind (emap (resolution_from ''invalid migration resolution'') xs) (\<lambda>rs.
           ebind (object_of (from_dict MigrationStatusView (jget d ''status''))) (\<lambda>st. Inr (st, rs)))
     | None \<Rightarrow> Inl (ValueError ''invalid migration ledger'')))"

definition is_reading_error :: "exn \<Rightarrow> bool" where
  "is_reading_error x \<longleftrightarrow> is_os_error x \<or> is_value_error x \<or> (case x of TypeError _ \<Rightarrow> True | _ \<Rightarrow> False)"

definition reading_as :: "exn \<Rightarrow> (exn, 'a) res \<Rightarrow> (exn, 'a) res" where
  "reading_as e r = (case r of Inl x \<Rightarrow> Inl (if is_reading_error x then e else x) | Inr v \<Rightarrow> Inr v)"

definition parse_file :: "(json \<Rightarrow> (exn, 'a) res) \<Rightarrow> json_file \<Rightarrow> (exn, 'a) res" where
  "parse_file f file = (case file of JsonFile v \<Rightarrow> f v | _ \<Rightarrow> Inl (ValueError ''invalid JSON''))"

definition read_ledger :: "mig_host \<Rightarrow> (json_object \<times> resolution list) option mig_act" where
  "read_ledger h = andthen (disk md_ledger) (\<lambda>file.
     if file = NoFile then andthen (refuse_dangling h LedgerFile ''unsafe_migration_ledger'') (\<lambda>_. ret None)
     else andthen (check_private h LedgerFile) (\<lambda>_.
       lift (ebind (reading_as (migration_error_at ''invalid_migration_ledger'' (mh_ledger_path h)) (parse_file ledger_content file))
         (\<lambda>c. Inr (Some c)))))"

definition need_ledger :: "mig_host \<Rightarrow> (json_object \<times> resolution list) mig_act" where
  "need_ledger h = andthen (read_ledger h) (\<lambda>l. case l of
     None \<Rightarrow> raise (migration_error_at ''migration_ledger_missing'' (mh_ledger_path h)) | Some c \<Rightarrow> ret c)"

text \<open>Writing a JSON file beside its target and replacing the target.\<close>

definition put_file :: "mig_file \<Rightarrow> json_file \<Rightarrow> mig_disk \<Rightarrow> mig_disk" where
  "put_file f v d = (case f of LedgerFile \<Rightarrow> d\<lparr>md_ledger := v\<rparr> | IntentFile \<Rightarrow> d\<lparr>md_intent := v\<rparr> | _ \<Rightarrow> d)"

definition file_on :: "mig_file \<Rightarrow> mig_disk \<Rightarrow> json_file" where
  "file_on f d = (case f of LedgerFile \<Rightarrow> md_ledger d | IntentFile \<Rightarrow> md_intent d | _ \<Rightarrow> NoFile)"

definition replaced :: "mig_file \<Rightarrow> json \<Rightarrow> write_outcome \<Rightarrow> mig_disk \<Rightarrow> mig_disk \<times> (exn, unit) res" where
  "replaced f v w d = (case w of
     Written \<Rightarrow> (put_file f (JsonFile v) d, Inr ())
   | FailsBefore e \<Rightarrow> (d, Inl e)
   | FailsAfter e \<Rightarrow> (put_file f (JsonFile v) d, Inl e))"

definition write_json :: "mig_host \<Rightarrow> mig_file \<Rightarrow> json \<Rightarrow> unit mig_act" where
  "write_json h f v =
     andthen (disk (file_on f)) (\<lambda>file.
     andthen (if file = NoFile then refuse_dangling h f ''unsafe_legacy_file'' else check_private h f) (\<lambda>_.
     andthen (guard (json_finite v) (ValueError ''Out of range float values are not JSON compliant'')) (\<lambda>_.
       writing h (replaced f v))))"

definition write_ledger :: "mig_host \<Rightarrow> json_object \<Rightarrow> resolution list \<Rightarrow> unit mig_act" where
  "write_ledger h st rs = write_json h LedgerFile (ledger_payload st rs)"

definition intent_content :: "json \<Rightarrow> (exn, resolution) res" where
  "intent_content v = (let bad = ValueError ''invalid migration resolution intent'' in case as_obj v of
     None \<Rightarrow> Inl bad
   | Some d \<Rightarrow>
     if \<not> has_fields d [''version'', ''resolution''] \<or> \<not> eq_int (jget d ''version'') 1 then Inl bad
     else ebind (resolution_from ''invalid migration resolution intent'' (jget d ''resolution'')) (\<lambda>r.
       ebind (validate_worker_name (JStr (rz_name r))) (\<lambda>_.
       if rz_thread r = [] then Inl bad
       else ebind (case rz_as r of None \<Rightarrow> Inr () | Some a \<Rightarrow> validate_worker_name (JStr a)) (\<lambda>_. Inr r))))"

definition read_intent :: "mig_host \<Rightarrow> resolution option mig_act" where
  "read_intent h = andthen (disk md_intent) (\<lambda>file.
     if file = NoFile then andthen (refuse_dangling h IntentFile ''unsafe_migration_resolution_intent'') (\<lambda>_. ret None)
     else andthen (check_private h IntentFile) (\<lambda>_.
       lift (ebind (reading_as (migration_error_at ''invalid_migration_resolution_intent'' (mh_intent_path h))
           (parse_file intent_content file)) (\<lambda>r. Inr (Some r)))))"

definition intent_payload :: "resolution \<Rightarrow> json" where
  "intent_payload r = JObj [(''resolution'', resolution_json r), (''version'', JInt 1)]"

definition write_intent :: "mig_host \<Rightarrow> resolution \<Rightarrow> unit mig_act" where
  "write_intent h r = write_json h IntentFile (intent_payload r)"

definition clear_intent :: "mig_host \<Rightarrow> unit mig_act" where
  "clear_intent h = andthen (disk md_intent) (\<lambda>file.
     if file = NoFile then refuse_dangling h IntentFile ''unsafe_migration_resolution_intent''
     else andthen (check_private h IntentFile) (\<lambda>_.
       andthen (answered_by (mh_unlink h)) (\<lambda>_.
       andthen (modify (\<lambda>s. s\<lparr>mg_disk := (mg_disk s)\<lparr>md_intent := NoFile\<rparr>\<rparr>)) (\<lambda>_. sync h))))"

section \<open>The global store\<close>

definition target_records :: "mig_host \<Rightarrow> nat \<Rightarrow> path_state \<Rightarrow> (exn, session_record list) res" where
  "target_records h t f = (case f of
     Absent \<Rightarrow> if mh_dangling h t RegistryFile then Inl (migration_error_at ''unsafe_global_registry'' (mh_registry_path h)) else Inr []
   | _ \<Rightarrow> ebind (read_existing (lh_env (mh_legacy h)) (mh_registry_path h) f (mh_private h t RegistryFile)) (\<lambda>reg.
       Inr (list_records reg)))"

definition target_callbacks :: "mig_host \<Rightarrow> nat \<Rightarrow> store_file option \<Rightarrow> (exn, store_snapshot) res" where
  "target_callbacks h t f = (case f of
     None \<Rightarrow> if mh_dangling h t CallbackFile then Inl (migration_error_at ''unsafe_global_callback_store'' (mh_callback_path h))
       else Inr empty_snapshot
   | Some content \<Rightarrow> read_existing_store (lh_env (mh_legacy h))
       (if mh_private h t CallbackFile then None else Some (UnsafeCallbackStoreError ''callback state'')) content)"

definition target_of :: "mig_host \<Rightarrow> target_state mig_act" where
  "target_of h = andthen (disk (\<lambda>d. d)) (\<lambda>d. andthen moment (\<lambda>t. andthen moment (\<lambda>u. andthen moment (\<lambda>v.
     ret \<lparr>tp_records = target_records h t (md_registry d), tp_callbacks = target_callbacks h u (md_callbacks d),
       tp_look = mh_artifact_look h v, tp_artifacts = md_artifacts d\<rparr>))))"

section \<open>The commit\<close>

definition commit_artifact :: "mig_host \<Rightarrow> artifact_pair \<Rightarrow> unit mig_act" where
  "commit_artifact h p = andthen moment (\<lambda>t.
     andthen (writing h (\<lambda>w d. case publish_artifact (lh_render (mh_legacy h)) (lh_sha256 (mh_legacy h)) (md_artifacts d)
         (af_event_id (fst p)) (snd p) (mh_appeared h t) w of (dir, r) \<Rightarrow> (d\<lparr>md_artifacts := dir\<rparr>, r))) (\<lambda>actual.
       guard (actual = fst p) (migration_error_at ''global_artifact_publication_mismatch''
         (target_artifact_path (mh_legacy h) (fst p)))))"

definition registry_file_after :: "path_state \<Rightarrow> registry \<Rightarrow> path_state" where
  "registry_file_after old reg = (case reg_file reg of None \<Rightarrow> old | Some v \<Rightarrow> Regular (Some (Some v)))"

definition commit_registry :: "mig_host \<Rightarrow> session_record list \<Rightarrow> unit mig_act" where
  "commit_registry h rs = andthen moment (\<lambda>t. writing h (\<lambda>w d.
     if md_registry d = Absent \<and> mh_dangling h t RegistryFile
     then (d, Inl (RegistryError ''registry must be an owner-owned mode-0600 regular file''))
     else (case publish_snapshot (lh_env (mh_legacy h)) (mh_registry_path h) (md_registry d) (mh_private h t RegistryFile) rs w of
       (reg, r) \<Rightarrow> (d\<lparr>md_registry := registry_file_after (md_registry d) reg\<rparr>, r))))"

definition commit_callbacks :: "mig_host \<Rightarrow> store_snapshot \<Rightarrow> unit mig_act" where
  "commit_callbacks h sn = writing h (\<lambda>w d.
     (case replace_snapshot (case md_callbacks d of None \<Rightarrow> EmptyFile | Some f \<Rightarrow> f) sn w of
       (file, r) \<Rightarrow> (d\<lparr>md_callbacks := (if md_callbacks d = None \<and> file = EmptyFile then None else Some file)\<rparr>, r)))"

definition notify_stage :: "mig_host \<Rightarrow> bool \<Rightarrow> commit_stage \<Rightarrow> unit mig_act" where
  "notify_stage h notify stage = (if notify then answered_by (\<lambda>t. mh_after h t stage) else ret ())"

definition commit :: "mig_host \<Rightarrow> migration_plan \<Rightarrow> resolution list \<Rightarrow> bool \<Rightarrow> unit mig_act" where
  "commit h p rs notify =
     andthen (each (commit_artifact h) (pl_artifacts p)) (\<lambda>_.
     andthen (sync h) (\<lambda>_.
     andthen (notify_stage h notify ArtifactStage) (\<lambda>_.
     andthen (commit_registry h (pl_records p)) (\<lambda>_.
     andthen (sync h) (\<lambda>_. andthen (sync h) (\<lambda>_.
     andthen (notify_stage h notify RegistryStage) (\<lambda>_.
     andthen (commit_callbacks h (pl_callbacks p)) (\<lambda>_.
     andthen (sync h) (\<lambda>_. andthen (sync h) (\<lambda>_.
     andthen (notify_stage h notify CallbackStage) (\<lambda>_.
     andthen (write_ledger h (pl_status p) rs) (\<lambda>_.
       notify_stage h notify LedgerStage))))))))))))"

end
