(* ===== verification/MigrationResolve.thy ===== *)
theory MigrationResolve
  imports Migration
begin

text \<open>
  \<open>migration.py\<close>: \<open>scan_and_apply\<close>, the resolution of a conflict with its intent and roll-back, and
  \<open>LiveMigrationCoordinator\<close>, which runs both behind the maintenance gate.
\<close>

section \<open>Resolving: what is chosen\<close>

text \<open>\<open>SessionRegistry(registry_path, migration_path)\<close>: loading hardens the mode and may write.\<close>

definition open_registry :: "mig_host \<Rightarrow> registry mig_act" where
  "open_registry h = andthen moment (\<lambda>t. writing h (\<lambda>w d.
     case load_registry (lh_env (mh_legacy h)) (mh_registry_path h) (md_registry d) (mh_hardened h t) w of
       (reg, Inl e) \<Rightarrow> (d\<lparr>md_registry := registry_file_after (md_registry d) reg\<rparr>, Inl e)
     | (reg, Inr _) \<Rightarrow> (d\<lparr>md_registry := registry_file_after (md_registry d) reg\<rparr>, Inr reg)))"

definition ledger_seen :: "bool \<Rightarrow> json_file \<Rightarrow> ledger_state" where
  "ledger_seen private file = (case file of
     NoFile \<Rightarrow> NoLedger | BadFile \<Rightarrow> Unreadable | JsonFile v \<Rightarrow> if private then Ledger v else Unreadable)"

definition not_found :: exn where
  "not_found = ValueError ''legacy conflict or candidate was not found''"

definition settle_intent :: "mig_host \<Rightarrow> resolution option \<Rightarrow> unit mig_act" where
  "settle_intent h intent = (if intent = None then ret () else clear_intent h)"

text \<open>A resolution that the ledger lists already.\<close>

definition resolved_before :: "mig_host \<Rightarrow> resolution option \<Rightarrow> string \<Rightarrow> string \<Rightarrow> session_record mig_act" where
  "resolved_before h intent target thread = andthen (open_registry h) (\<lambda>reg.
     case filter (\<lambda>r. sr_name r = Some target) (list_records reg) of
       [r] \<Rightarrow> if sr_thread_id r = thread then andthen (settle_intent h intent) (\<lambda>_. ret r) else raise not_found
     | _ \<Rightarrow> raise not_found)"

text \<open>A name that is no conflict.\<close>

definition resolved_by_name :: "mig_host \<Rightarrow> resolution option \<Rightarrow> string \<Rightarrow> string \<Rightarrow> session_record mig_act" where
  "resolved_by_name h intent target thread = andthen (open_registry h) (\<lambda>reg.
     andthen moment (\<lambda>t. andthen (disk md_ledger) (\<lambda>ledger.
     andthen (lift (resolve_name reg (ledger_seen (mh_private h t LedgerFile) ledger) target)) (\<lambda>r.
       if sr_thread_id r \<noteq> thread then raise not_found
       else andthen (settle_intent h intent) (\<lambda>_. ret r)))))"

definition conflict_named :: "json_object \<Rightarrow> string \<Rightarrow> json_object option" where
  "conflict_named status name = find (\<lambda>c. jget c ''name'' = JStr name) (objects_of (jget status ''conflicts''))"

definition candidate_for :: "json_object \<Rightarrow> string \<Rightarrow> (exn, json_object) res" where
  "candidate_for conflict thread =
     (case filter (\<lambda>c. jget c ''thread_id'' = JStr thread) (objects_of (jget conflict ''candidates'')) of
        [c] \<Rightarrow> Inr c
      | _ \<Rightarrow> Inl (ValueError ''legacy conflict thread must identify exactly one candidate''))"

definition source_of :: "json_object \<Rightarrow> legacy_source list \<Rightarrow> (exn, legacy_source) res" where
  "source_of candidate sources =
     (case find (\<lambda>s. JStr (ls_registry_path s) = jget candidate ''source_path''
          \<and> JStr (ls_digest s) = jget candidate ''source_digest'') sources of
        None \<Rightarrow> Inl (migration_error_at ''legacy_source_changed'' (field_str candidate ''source_path''))
      | Some s \<Rightarrow> Inr s)"

definition original_of :: "json_object \<Rightarrow> legacy_source \<Rightarrow> (exn, session_record) res" where
  "original_of candidate source =
     (case find (\<lambda>r. JStr (sr_session_id r) = jget candidate ''session_id''
          \<and> JStr (sr_thread_id r) = jget candidate ''thread_id'') (ls_records source) of
        None \<Rightarrow> Inl (migration_error_at ''legacy_candidate_missing'' (ls_registry_path source))
      | Some r \<Rightarrow> Inr r)"

text \<open>The records with the selected one, unless one of them already is it.\<close>

definition with_selected :: "session_record \<Rightarrow> session_record list \<Rightarrow> (exn, session_record list) res" where
  "with_selected selected current =
     (let matches = filter (\<lambda>r. sr_name r = sr_name selected \<or> sr_session_id r = sr_session_id selected
            \<or> sr_thread_id r = sr_thread_id selected) current
      in if list_ex (\<lambda>r. record_bytes r \<noteq> record_bytes selected) matches
         then Inl (ValueError ''resolved candidate conflicts with the global registry'')
         else Inr (if matches = [] then current @ [selected] else current))"

definition callbacks_for_resolution :: "legacy_host \<Rightarrow> target_state \<Rightarrow> store_snapshot \<Rightarrow> legacy_source \<Rightarrow> session_record \<Rightarrow>
    session_record \<Rightarrow> (exn, store_snapshot \<times> artifact_pair list) res" where
  "callbacks_for_resolution h t target source original selected =
     (let own = filter (\<lambda>b. cb_session_id b = sr_session_id original) (sn_bindings (ls_callbacks source)) in
     ebind (emap (\<lambda>e. project_entry h e original (ls_artifact_dir source) selected)
       (filter (\<lambda>e. en_session_id e = sr_session_id original) (sn_outbox (ls_callbacks source)))) (\<lambda>projected.
     ebind (mk_snapshot own (map fst projected)) (\<lambda>snapshot.
     ebind (merge_snapshots target snapshot [sr_session_id original]) (\<lambda>_.
     ebind (dedup_artifacts (List.map_filter snd projected)) (\<lambda>artifacts.
     ebind (prevalidate_artifacts h t artifacts) (\<lambda>_.
       Inr (snapshot, artifacts)))))))"

section \<open>The status after a resolution\<close>

definition is_source_of :: "json_object \<Rightarrow> json_object \<Rightarrow> bool" where
  "is_source_of candidate view \<longleftrightarrow>
     list_all (\<lambda>k. jget view k = jget candidate k) [''source_path'', ''source_digest'', ''session_id'', ''thread_id'']"

definition import_source :: "json_object \<Rightarrow> json_object \<Rightarrow> (exn, json) res" where
  "import_source candidate view =
     (if \<not> is_source_of candidate view then Inr (JObj view)
      else if jget view ''outcome'' \<noteq> JStr (outcome_value Conflicted)
      then Inl (migration_error ''resolution_source_is_not_conflicted'')
      else build MigrationSourceView (dset view ''outcome'' (JStr (outcome_value Imported))))"

definition remaining_conflict :: "json_object \<Rightarrow> bool \<Rightarrow> json_object \<Rightarrow> (exn, json list) res" where
  "remaining_conflict candidate renamed conflict =
     (if jget conflict ''name'' \<noteq> jget candidate ''name'' then Inr [JObj conflict]
      else if \<not> renamed then Inr []
      else (let rest = filter (\<lambda>c. c \<noteq> candidate) (objects_of (jget conflict ''candidates''))
        in if rest = [] then Inr []
           else ebind (build LegacyConflict [(''name'', jget conflict ''name''), (''candidates'', JList (map JObj rest)),
               (''source_digests'', JList (map JStr (sort (remdups (map (\<lambda>c. field_str c ''source_digest'') rest)))))])
             (\<lambda>c. Inr [c])))"

definition outcome_count :: "migration_outcome \<Rightarrow> json list \<Rightarrow> int" where
  "outcome_count x views = int (length (filter (\<lambda>v. sub_obj v ''outcome'' = JStr (outcome_value x)) views))"

definition status_after_resolution :: "json_object \<Rightarrow> json_object \<Rightarrow> bool \<Rightarrow> (exn, json_object) res" where
  "status_after_resolution status candidate renamed =
     (let views = objects_of (jget status ''sources'') in
     ebind (emap (import_source candidate) views) (\<lambda>sources.
       if \<not> list_ex (is_source_of candidate) views then Inl (migration_error ''resolution_source_missing'')
       else ebind (emap (remaining_conflict candidate renamed) (objects_of (jget status ''conflicts''))) (\<lambda>css.
         status_view_of sources (concat css) (outcome_count Imported sources) (outcome_count Deduplicated sources))))"

section \<open>The resolution\<close>

text \<open>What a resolution will commit, what it falls back to and the record it selects.\<close>

record resolution_plan =
  rp_plan :: migration_plan
  rp_rollback :: migration_plan
  rp_selected :: session_record

definition resolution_plan_of :: "mig_host \<Rightarrow> resolution \<Rightarrow> string \<Rightarrow> json_object \<Rightarrow> json_object \<Rightarrow> target_state \<Rightarrow>
    (exn, resolution_plan) res" where
  "resolution_plan_of h rz target status conflict t =
     (let lh = mh_legacy h in
     ebind (candidate_for conflict (rz_thread rz)) (\<lambda>candidate.
     ebind (load_sources lh) (\<lambda>sources.
     ebind (source_of candidate sources) (\<lambda>source.
     ebind (original_of candidate source) (\<lambda>original.
     (let selected = original\<lparr>sr_name := Some target\<rparr> in
     ebind (tp_records t) (\<lambda>current.
     ebind (with_selected selected current) (\<lambda>records.
     ebind (tp_callbacks t) (\<lambda>callbacks.
     ebind (callbacks_for_resolution lh t callbacks source original selected) (\<lambda>(own, artifacts).
     ebind (merge_snapshots callbacks own []) (\<lambda>merged.
     ebind (status_after_resolution status candidate (rz_as rz \<noteq> None)) (\<lambda>next_status.
       Inr \<lparr>rp_plan = \<lparr>pl_status = next_status, pl_records = sorted_records records, pl_callbacks = merged, pl_artifacts = artifacts\<rparr>,
         rp_rollback = \<lparr>pl_status = status, pl_records = sorted_records current, pl_callbacks = callbacks, pl_artifacts = []\<rparr>,
         rp_selected = selected\<rparr>))))))))))))"

definition roll_back :: "mig_host \<Rightarrow> resolution_plan \<Rightarrow> resolution list \<Rightarrow> exn \<Rightarrow> unit mig_act" where
  "roll_back h rp done_before x =
     andthen (attempt (andthen (commit h (rp_rollback rp) done_before False) (\<lambda>_. clear_intent h))
       (\<lambda>_. raise (migration_error_at ''migration_resolution_recovery_failed'' (mh_intent_path h)))) (\<lambda>_. raise x)"

definition apply_resolution :: "mig_host \<Rightarrow> resolution \<Rightarrow> bool \<Rightarrow> resolution list \<Rightarrow> resolution_plan \<Rightarrow> session_record mig_act" where
  "apply_resolution h rz recovering done_before rp =
     andthen (write_intent h rz) (\<lambda>_.
     andthen (attempt (commit h (rp_plan rp) (done_before @ [rz]) True)
       (\<lambda>x. if recovering then raise x else roll_back h rp done_before x)) (\<lambda>_.
     andthen (clear_intent h) (\<lambda>_. ret (rp_selected rp))))"

definition checked_resolution :: "resolution \<Rightarrow> (exn, unit) res" where
  "checked_resolution rz = ebind (validate_worker_name (JStr (rz_name rz))) (\<lambda>_.
     if rz_thread rz = [] then Inl (ValueError ''thread_id must be non-empty'')
     else (case rz_as rz of None \<Rightarrow> Inr () | Some a \<Rightarrow> forget (validate_worker_name (JStr a))))"

text \<open>\<open>as_name or name\<close>; a checked \<open>as_name\<close> is not empty.\<close>

definition resolution_target :: "resolution \<Rightarrow> string" where
  "resolution_target rz = (case rz_as rz of None \<Rightarrow> rz_name rz | Some a \<Rightarrow> a)"

definition resolve_conflict :: "mig_host \<Rightarrow> resolution \<Rightarrow> session_record mig_act" where
  "resolve_conflict h rz =
     andthen (lift (checked_resolution rz)) (\<lambda>_.
     andthen (read_intent h) (\<lambda>intent.
     if intent \<noteq> None \<and> intent \<noteq> Some rz
     then raise (migration_error_at ''migration_resolution_recovery_required'' (mh_intent_path h))
     else andthen (need_ledger h) (\<lambda>(status, resolutions).
       (let target = resolution_target rz in
        if rz \<in> set resolutions then resolved_before h intent target (rz_thread rz)
        else (case conflict_named status (rz_name rz) of
          None \<Rightarrow> resolved_by_name h intent target (rz_thread rz)
        | Some conflict \<Rightarrow> andthen (target_of h) (\<lambda>t.
            andthen (lift (resolution_plan_of h rz target status conflict t)) (\<lambda>rp.
              apply_resolution h rz (intent \<noteq> None) resolutions rp)))))))"

section \<open>The scan\<close>

text \<open>What the planning may raise, as \<open>scan_and_apply\<close> reports it.\<close>

definition is_planning_error :: "exn \<Rightarrow> bool" where
  "is_planning_error x \<longleftrightarrow> is_os_error x \<or> is_value_error x \<or> (case x of UnsafeCallbackStoreError _ \<Rightarrow> True | _ \<Rightarrow> False)"

definition planning :: "(exn, 'a) res \<Rightarrow> (exn, 'a) res" where
  "planning r = (case r of
     Inl x \<Rightarrow> Inl (if is_planning_error x then migration_error ''legacy_prevalidation_failed'' else x) | Inr p \<Rightarrow> Inr p)"

definition scan_and_apply :: "mig_host \<Rightarrow> json_object mig_act" where
  "scan_and_apply h =
     andthen (read_intent h) (\<lambda>intent.
     andthen (case intent of None \<Rightarrow> ret () | Some rz \<Rightarrow> andthen (resolve_conflict h rz) (\<lambda>_. ret ())) (\<lambda>_.
     andthen (read_ledger h) (\<lambda>ledger. case ledger of
       Some (status, _) \<Rightarrow> ret status
     | None \<Rightarrow> andthen (target_of h) (\<lambda>t.
         andthen (lift (planning (ebind (load_sources (mh_legacy h)) (plan_migration (mh_legacy h) t)))) (\<lambda>p.
         andthen (commit h p [] True) (\<lambda>_. ret (pl_status p)))))))"

definition status_if_stable :: "mig_host \<Rightarrow> json_object option mig_act" where
  "status_if_stable h =
     andthen (read_intent h) (\<lambda>intent.
     if intent \<noteq> None then ret None
     else andthen (read_ledger h) (\<lambda>ledger. ret (map_option fst ledger)))"

section \<open>The live coordinator\<close>

text \<open>
  The gate, the records the live registry holds in memory, and the disk. Both authorities'
  locks are held inside the drain, so only the gate is moved by the other threads, by the moment.
\<close>

record live_state =
  lv_gate :: gate
  lv_records :: "session_record list"
  lv_migration :: mig_state

type_synonym 'a live_act = "(live_state, 'a) act"

fun await_live :: "(nat \<Rightarrow> gate \<Rightarrow> gate) \<Rightarrow> nat \<Rightarrow> (gate \<Rightarrow> ('a \<times> gate) option) \<Rightarrow> 'a option live_act" where
  "await_live others 0 f s = (Inr None, s)"
| "await_live others (Suc n) f s = (case f (lv_gate s) of
     Some (x, g) \<Rightarrow> (Inr (Some x), s\<lparr>lv_gate := g\<rparr>)
   | None \<Rightarrow> await_live others n f (s\<lparr>lv_gate := others n (lv_gate s)\<rparr>))"

definition drained :: "(nat \<Rightarrow> gate \<Rightarrow> gate) \<Rightarrow> nat \<Rightarrow> 'a live_act \<Rightarrow> 'a option live_act" where
  "drained others n body =
     andthen (await_live others n (\<lambda>g. map_option (\<lambda>g'. ((), g')) (drain_begin g))) (\<lambda>began. case began of
       None \<Rightarrow> ret None
     | Some _ \<Rightarrow> andthen (await_live others n (\<lambda>g. drain_issue g False)) (\<lambda>issued. case issued of
         None \<Rightarrow> ret None
       | Some lease \<Rightarrow> always (andthen body (\<lambda>x. ret (Some x))) (\<lambda>s. s\<lparr>lv_gate := drain_end (lv_gate s) lease\<rparr>)))"

definition on_migration :: "'a mig_act \<Rightarrow> 'a live_act" where
  "on_migration m s = (case m (lv_migration s) of (r, g) \<Rightarrow> (r, s\<lparr>lv_migration := g\<rparr>))"

definition refresh_registry :: "mig_host \<Rightarrow> unit live_act" where
  "refresh_registry h = andthen (on_migration (andthen (disk md_registry) (\<lambda>file. andthen moment (\<lambda>t.
       lift (read_existing (lh_env (mh_legacy h)) (mh_registry_path h) file (mh_private h t RegistryFile)))))) (\<lambda>reg.
     modify (\<lambda>s. s\<lparr>lv_records := list_records reg\<rparr>))"

definition live_scan :: "mig_host \<Rightarrow> (nat \<Rightarrow> gate \<Rightarrow> gate) \<Rightarrow> nat \<Rightarrow> json_object option live_act" where
  "live_scan h others n =
     andthen (on_migration (status_if_stable h)) (\<lambda>stable. case stable of
       Some status \<Rightarrow> ret (Some status)
     | None \<Rightarrow> drained others n (andthen (on_migration (scan_and_apply h)) (\<lambda>status.
         andthen (refresh_registry h) (\<lambda>_. ret status))))"

definition live_resolve :: "mig_host \<Rightarrow> (nat \<Rightarrow> gate \<Rightarrow> gate) \<Rightarrow> nat \<Rightarrow> resolution \<Rightarrow> session_record option live_act" where
  "live_resolve h others n rz =
     drained others n (andthen (on_migration (resolve_conflict h rz)) (\<lambda>r.
       andthen (refresh_registry h) (\<lambda>_. ret r)))"

end
