(* ===== verification/MigrationCommit.thy ===== *)
theory MigrationCommit
  imports MigrationResolve
begin

text \<open>
  The commit and the resolution on disk: the ledger is written last, and a resolution that fails
  has either restored what it changed or left its intent.
\<close>

section \<open>What has been written\<close>

definition registry_written :: "mig_host \<Rightarrow> migration_plan \<Rightarrow> mig_disk \<Rightarrow> bool" where
  "registry_written h p d \<longleftrightarrow> (\<exists>rs.
     emap (\<lambda>r. registry_record (lh_env (mh_legacy h)) (JObj (session_to_dict r)) schema_version) (pl_records p) = Inr rs
     \<and> identifiers_unique rs \<and> md_registry d = Regular (Some (Some (encode_registry rs))))"

definition planned_state :: "migration_plan \<Rightarrow> (exn, cb_state) res" where
  "planned_state p = place_entries (fold (\<lambda>b st. put_binding st b) (sort_key cb_session_id (sn_bindings (pl_callbacks p))) empty_state)
     (sort_key en_event_id (sn_outbox (pl_callbacks p)))"

definition callbacks_written :: "migration_plan \<Rightarrow> mig_disk \<Rightarrow> bool" where
  "callbacks_written p d \<longleftrightarrow> (\<exists>st. planned_state p = Inr st \<and> md_callbacks d = Some (Content (state_json st)))"

definition artifact_written :: "mig_host \<Rightarrow> mig_disk \<Rightarrow> artifact_pair \<Rightarrow> bool" where
  "artifact_written h d a \<longleftrightarrow> (\<exists>bytes. dget (md_artifacts d) (af_event_id (fst a) @ ''.json'') = Some bytes
     \<and> lh_sha256 (mh_legacy h) bytes = af_sha256 (fst a) \<and> int (length bytes) = af_size (fst a))"

definition artifacts_written :: "mig_host \<Rightarrow> migration_plan \<Rightarrow> mig_disk \<Rightarrow> bool" where
  "artifacts_written h p d \<longleftrightarrow> (\<forall>a \<in> set (pl_artifacts p). artifact_written h d a)"

definition ledger_written :: "migration_plan \<Rightarrow> resolution list \<Rightarrow> mig_disk \<Rightarrow> bool" where
  "ledger_written p rs d \<longleftrightarrow> md_ledger d = JsonFile (ledger_payload (pl_status p) rs)"

text \<open>
  The fixed order: an authority that changed has its contents planned and those before it written.
  The intent is not touched, and no artifact is replaced.
\<close>

definition in_order :: "mig_host \<Rightarrow> migration_plan \<Rightarrow> resolution list \<Rightarrow> mig_disk \<Rightarrow> mig_disk \<Rightarrow> bool" where
  "in_order h p rs d d' \<longleftrightarrow>
     (md_ledger d' \<noteq> md_ledger d \<longrightarrow> ledger_written p rs d' \<and> callbacks_written p d' \<and> registry_written h p d' \<and> artifacts_written h p d')
   \<and> (md_callbacks d' \<noteq> md_callbacks d \<longrightarrow> callbacks_written p d' \<and> registry_written h p d' \<and> artifacts_written h p d')
   \<and> (md_registry d' \<noteq> md_registry d \<longrightarrow> registry_written h p d' \<and> artifacts_written h p d')
   \<and> md_intent d' = md_intent d
   \<and> (\<forall>k bytes. dget (md_artifacts d) k = Some bytes \<longrightarrow> dget (md_artifacts d') k = Some bytes)"

section \<open>Steps that leave the disk\<close>

text \<open>A step that only asks the host keeps what holds of the disk.\<close>

definition asks :: "'a mig_act \<Rightarrow> bool" where
  "asks m \<longleftrightarrow> keeps (\<lambda>s s'. mg_disk s' = mg_disk s) m"

interpretation same_disk: frame_relation "\<lambda>s s'. mg_disk s' = mg_disk s"
  by unfold_locales auto

lemma asks_basic: "asks moment" "asks (answered_by f)" "asks (sync h)" "asks (notify_stage h b st)" "asks (disk g)"
  "asks (refuse_dangling h fl r)" "asks (check_private h fl)"
  unfolding asks_def answered_by_def sync_def notify_stage_def refuse_dangling_def check_private_def disk_def
  by (auto simp: keeps_def moment_def act_defs)

lemma hoare_asks:
  assumes "asks m" "\<And>s. P s \<Longrightarrow> I (mg_disk s)" "\<And>d. I d \<Longrightarrow> E d"
  shows "hoare P m (\<lambda>_ s. I (mg_disk s)) (\<lambda>_ s. E (mg_disk s))"
proof (rule hoareI)
  fix s x s'
  assume "P s" "m s = (Inr x, s')"
  then show "I (mg_disk s')" using assms(2) keepsD [OF assms(1) [unfolded asks_def]] by metis
next
  fix s e s'
  assume "P s" "m s = (Inl e, s')"
  then show "E (mg_disk s')" using assms(2, 3) keepsD [OF assms(1) [unfolded asks_def]] by metis
qed

lemma hoare_ask_then:
  assumes "asks m" "\<And>d. I d \<Longrightarrow> E d" "\<And>x. hoare (\<lambda>s. I (mg_disk s)) (f x) Q (\<lambda>_ s. E (mg_disk s))"
  shows "hoare (\<lambda>s. I (mg_disk s)) (andthen m f) Q (\<lambda>_ s. E (mg_disk s))"
  by (rule hoare_andthen [OF hoare_asks [where I = I] assms(3)]) (use assms in auto)

lemma hoare_writing:
  assumes "\<And>w d d' x. P d \<Longrightarrow> f w d = (d', Inr x) \<Longrightarrow> Q x d'" "\<And>w d d' e. P d \<Longrightarrow> f w d = (d', Inl e) \<Longrightarrow> E d'"
  shows "hoare (\<lambda>s. P (mg_disk s)) (writing h f) (\<lambda>x s. Q x (mg_disk s)) (\<lambda>_ s. E (mg_disk s))"
  unfolding hoare_def writing_def
  using assms by (fastforce simp: act_defs moment_def split: prod.splits sum.splits)

section \<open>Each stage\<close>

lemma published_artifact:
  assumes "publish_artifact render sha dir i completion appeared w = (dir', r)"
  shows "dget dir k = Some bytes \<Longrightarrow> dget dir' k = Some bytes"
    and "r = Inr a \<Longrightarrow> \<exists>bytes. dget dir' (i @ ''.json'') = Some bytes \<and> sha bytes = af_sha256 a \<and> int (length bytes) = af_size a \<and> af_event_id a = i"
  using assms
  by (auto simp: publish_artifact_def Let_def res_simps verify_artifact_def split: sum.splits if_splits write_outcome.splits option.splits)

text \<open>The disks a commit from \<open>d\<close> goes through.\<close>

definition only_artifacts :: "mig_disk \<Rightarrow> mig_disk \<Rightarrow> bool" where
  "only_artifacts d d' \<longleftrightarrow> md_registry d' = md_registry d \<and> md_callbacks d' = md_callbacks d \<and> md_ledger d' = md_ledger d
     \<and> md_intent d' = md_intent d \<and> (\<forall>k bytes. dget (md_artifacts d) k = Some bytes \<longrightarrow> dget (md_artifacts d') k = Some bytes)"

definition before_callbacks :: "mig_host \<Rightarrow> migration_plan \<Rightarrow> mig_disk \<Rightarrow> mig_disk \<Rightarrow> bool" where
  "before_callbacks h p d d' \<longleftrightarrow> artifacts_written h p d' \<and> registry_written h p d' \<and> md_callbacks d' = md_callbacks d
     \<and> md_ledger d' = md_ledger d \<and> md_intent d' = md_intent d
     \<and> (\<forall>k bytes. dget (md_artifacts d) k = Some bytes \<longrightarrow> dget (md_artifacts d') k = Some bytes)"

definition before_ledger :: "mig_host \<Rightarrow> migration_plan \<Rightarrow> mig_disk \<Rightarrow> mig_disk \<Rightarrow> bool" where
  "before_ledger h p d d' \<longleftrightarrow> artifacts_written h p d' \<and> registry_written h p d' \<and> callbacks_written p d'
     \<and> md_ledger d' = md_ledger d \<and> md_intent d' = md_intent d
     \<and> (\<forall>k bytes. dget (md_artifacts d) k = Some bytes \<longrightarrow> dget (md_artifacts d') k = Some bytes)"

definition committed :: "mig_host \<Rightarrow> migration_plan \<Rightarrow> resolution list \<Rightarrow> mig_disk \<Rightarrow> mig_disk \<Rightarrow> bool" where
  "committed h p rs d d' \<longleftrightarrow> artifacts_written h p d' \<and> registry_written h p d' \<and> callbacks_written p d' \<and> ledger_written p rs d'
     \<and> md_intent d' = md_intent d
     \<and> (\<forall>k bytes. dget (md_artifacts d) k = Some bytes \<longrightarrow> dget (md_artifacts d') k = Some bytes)"

lemmas stage_defs = only_artifacts_def before_callbacks_def before_ledger_def committed_def

lemma stages_in_order:
  "only_artifacts d d' \<Longrightarrow> in_order h p rs d d'" "before_callbacks h p d d' \<Longrightarrow> in_order h p rs d d'"
  "before_ledger h p d d' \<Longrightarrow> in_order h p rs d d'" "committed h p rs d d' \<Longrightarrow> in_order h p rs d d'"
  by (auto simp: in_order_def stage_defs)

lemma written_kept:
  "artifact_written h d a \<Longrightarrow> (\<And>k bytes. dget (md_artifacts d) k = Some bytes \<Longrightarrow> dget (md_artifacts d') k = Some bytes)
     \<Longrightarrow> artifact_written h d' a"
  unfolding artifact_written_def by blast

lemma artifact_stage:
  "hoare (\<lambda>s. only_artifacts d (mg_disk s) \<and> (\<forall>b \<in> set xs. artifact_written h (mg_disk s) b)) (commit_artifact h a)
     (\<lambda>_ s. only_artifacts d (mg_disk s) \<and> (\<forall>b \<in> set (a # xs). artifact_written h (mg_disk s) b)) (\<lambda>_ s. only_artifacts d (mg_disk s))"
  unfolding commit_artifact_def
proof (rule hoare_andthen)
  show "hoare (\<lambda>s. only_artifacts d (mg_disk s) \<and> (\<forall>b \<in> set xs. artifact_written h (mg_disk s) b)) moment
     (\<lambda>_ s. only_artifacts d (mg_disk s) \<and> (\<forall>b \<in> set xs. artifact_written h (mg_disk s) b)) (\<lambda>_ s. only_artifacts d (mg_disk s))"
    by (rule hoare_asks [OF asks_basic(1), where I = "\<lambda>m. only_artifacts d m \<and> (\<forall>b \<in> set xs. artifact_written h m b)" and E = "only_artifacts d"]) auto
next
  fix t
  let ?pub = "\<lambda>w d. case publish_artifact (lh_render (mh_legacy h)) (lh_sha256 (mh_legacy h)) (md_artifacts d)
         (af_event_id (fst a)) (snd a) (mh_appeared h t) w of (dir, r) \<Rightarrow> (d\<lparr>md_artifacts := dir\<rparr>, r)"
  let ?Q = "\<lambda>actual m. only_artifacts d m \<and> (\<forall>b \<in> set xs. artifact_written h m b) \<and> (actual = fst a \<longrightarrow> artifact_written h m a)"
  have "hoare (\<lambda>s. only_artifacts d (mg_disk s) \<and> (\<forall>b \<in> set xs. artifact_written h (mg_disk s) b)) (writing h ?pub)
      (\<lambda>actual s. ?Q actual (mg_disk s)) (\<lambda>_ s. only_artifacts d (mg_disk s))"
  proof (rule hoare_writing [where P = "\<lambda>m. only_artifacts d m \<and> (\<forall>b \<in> set xs. artifact_written h m b)" and E = "only_artifacts d"])
    fix w m m' actual
    assume m: "only_artifacts d m \<and> (\<forall>b \<in> set xs. artifact_written h m b)" and "?pub w m = (m', Inr actual)"
    then obtain dir where pub: "publish_artifact (lh_render (mh_legacy h)) (lh_sha256 (mh_legacy h)) (md_artifacts m)
         (af_event_id (fst a)) (snd a) (mh_appeared h t) w = (dir, Inr actual)" and m': "m' = m\<lparr>md_artifacts := dir\<rparr>"
      by (auto split: prod.splits)
    note P = published_artifact [OF pub]
    show "?Q actual m'" using m P written_kept [of h m _ m'] by (auto simp: m' only_artifacts_def artifact_written_def)
  next
    fix w m m' e
    assume m: "only_artifacts d m \<and> (\<forall>b \<in> set xs. artifact_written h m b)" and "?pub w m = (m', Inl e)"
    then obtain dir where pub: "publish_artifact (lh_render (mh_legacy h)) (lh_sha256 (mh_legacy h)) (md_artifacts m)
         (af_event_id (fst a)) (snd a) (mh_appeared h t) w = (dir, Inl e)" and m': "m' = m\<lparr>md_artifacts := dir\<rparr>"
      by (auto split: prod.splits)
    show "only_artifacts d m'" using m published_artifact(1) [OF pub] by (auto simp: m' only_artifacts_def)
  qed
  then show "hoare (\<lambda>s. only_artifacts d (mg_disk s) \<and> (\<forall>b \<in> set xs. artifact_written h (mg_disk s) b))
     (andthen (writing h ?pub) (\<lambda>actual. guard (actual = fst a) (migration_error_at ''global_artifact_publication_mismatch''
         (target_artifact_path (mh_legacy h) (fst a)))))
     (\<lambda>_ s. only_artifacts d (mg_disk s) \<and> (\<forall>b \<in> set (a # xs). artifact_written h (mg_disk s) b)) (\<lambda>_ s. only_artifacts d (mg_disk s))"
    by (rule hoare_andthen) (auto simp: hoare_def guard_def)
qed

lemma artifacts_stage:
  "hoare (\<lambda>s. only_artifacts d (mg_disk s) \<and> (\<forall>b \<in> set xs. artifact_written h (mg_disk s) b)) (each (commit_artifact h) as)
     (\<lambda>_ s. only_artifacts d (mg_disk s) \<and> (\<forall>b \<in> set as \<union> set xs. artifact_written h (mg_disk s) b)) (\<lambda>_ s. only_artifacts d (mg_disk s))"
proof (induction as arbitrary: xs)
  case (Cons a as)
  show ?case unfolding each.simps
  proof (rule hoare_andthen [OF artifact_stage], rule hoare_andthen)
    show "hoare (\<lambda>s. only_artifacts d (mg_disk s) \<and> (\<forall>b \<in> set (a # xs). artifact_written h (mg_disk s) b)) (each (commit_artifact h) as)
       (\<lambda>_ s. only_artifacts d (mg_disk s) \<and> (\<forall>b \<in> set as \<union> set (a # xs). artifact_written h (mg_disk s) b)) (\<lambda>_ s. only_artifacts d (mg_disk s))"
      by (rule Cons.IH)
  qed (auto simp: hoare_def ret_def)
qed (auto simp: hoare_def ret_def)

lemma registry_publication:
  assumes "publish_snapshot env path fl private rs w = (reg, r)"
  shows "registry_file_after fl reg = fl \<and> r \<noteq> Inr ()
    \<or> (\<exists>vs. emap (\<lambda>r. registry_record env (JObj (session_to_dict r)) schema_version) rs = Inr vs \<and> identifiers_unique vs
        \<and> registry_file_after fl reg = Regular (Some (Some (encode_registry vs))))"
  using assms
  by (auto simp: publish_snapshot_def replace_all_def publish_def save_locked_def registry_file_after_def Let_def
      split: path_state.splits if_splits sum.splits write_outcome.splits option.splits)


lemma registry_stage:
  "hoare (\<lambda>s. only_artifacts d (mg_disk s) \<and> artifacts_written h p (mg_disk s)) (commit_registry h (pl_records p))
     (\<lambda>_ s. before_callbacks h p d (mg_disk s)) (\<lambda>_ s. in_order h p rs d (mg_disk s))"
  unfolding commit_registry_def
proof (rule hoare_andthen)
  show "hoare (\<lambda>s. only_artifacts d (mg_disk s) \<and> artifacts_written h p (mg_disk s)) moment
     (\<lambda>_ s. only_artifacts d (mg_disk s) \<and> artifacts_written h p (mg_disk s)) (\<lambda>_ s. in_order h p rs d (mg_disk s))"
    by (rule hoare_asks [OF asks_basic(1), where I = "\<lambda>m. only_artifacts d m \<and> artifacts_written h p m"])
      (auto intro: stages_in_order)
next
  fix t
  let ?pub = "\<lambda>w d. if md_registry d = Absent \<and> mh_dangling h t RegistryFile
     then (d, Inl (RegistryError ''registry must be an owner-owned mode-0600 regular file''))
     else (case publish_snapshot (lh_env (mh_legacy h)) (mh_registry_path h) (md_registry d) (mh_private h t RegistryFile) (pl_records p) w of
       (reg, r) \<Rightarrow> (d\<lparr>md_registry := registry_file_after (md_registry d) reg\<rparr>, r))"
  have step: "(r = Inr () \<longrightarrow> before_callbacks h p d m') \<and> in_order h p rs d m'"
    if m: "only_artifacts d m \<and> artifacts_written h p m" and w: "?pub w m = (m', r)" for w m m' and r :: "(exn, unit) res"
  proof (cases "md_registry m = Absent \<and> mh_dangling h t RegistryFile")
    case True
    with m w show ?thesis using stages_in_order(1) [of d m] by auto
  next
    case False
    then obtain reg where pub: "publish_snapshot (lh_env (mh_legacy h)) (mh_registry_path h) (md_registry m) (mh_private h t RegistryFile) (pl_records p) w = (reg, r)"
      and m': "m' = m\<lparr>md_registry := registry_file_after (md_registry m) reg\<rparr>"
      using w by (auto split: prod.splits)
    from registry_publication [OF pub] show ?thesis
    proof
      assume "registry_file_after (md_registry m) reg = md_registry m \<and> r \<noteq> Inr ()"
      then show ?thesis using m m' stages_in_order(1) [of d m] by auto
    next
      assume "\<exists>vs. emap (\<lambda>r. registry_record (lh_env (mh_legacy h)) (JObj (session_to_dict r)) schema_version) (pl_records p) = Inr vs
        \<and> identifiers_unique vs \<and> registry_file_after (md_registry m) reg = Regular (Some (Some (encode_registry vs)))"
      then have "registry_written h p m'" by (auto simp: m' registry_written_def)
      then have "before_callbacks h p d m'"
        using m by (auto simp: m' before_callbacks_def only_artifacts_def artifacts_written_def artifact_written_def)
      then show ?thesis using stages_in_order(2) by blast
    qed
  qed
  show "hoare (\<lambda>s. only_artifacts d (mg_disk s) \<and> artifacts_written h p (mg_disk s)) (writing h ?pub)
     (\<lambda>_ s. before_callbacks h p d (mg_disk s)) (\<lambda>_ s. in_order h p rs d (mg_disk s))"
    by (rule hoare_writing [where P = "\<lambda>m. only_artifacts d m \<and> artifacts_written h p m" and Q = "\<lambda>_. before_callbacks h p d" and E = "in_order h p rs d"])
      (drule (1) step, simp)+
qed

lemma callbacks_stage:
  "hoare (\<lambda>s. before_callbacks h p d (mg_disk s)) (commit_callbacks h (pl_callbacks p))
     (\<lambda>_ s. before_ledger h p d (mg_disk s)) (\<lambda>_ s. in_order h p rs d (mg_disk s))"
  unfolding commit_callbacks_def
proof -
  let ?put = "\<lambda>w d. case replace_snapshot (case md_callbacks d of None \<Rightarrow> EmptyFile | Some f \<Rightarrow> f) (pl_callbacks p) w of
       (fl, r) \<Rightarrow> (d\<lparr>md_callbacks := (if md_callbacks d = None \<and> fl = EmptyFile then None else Some fl)\<rparr>, r)"
  have step: "(r = Inr () \<longrightarrow> before_ledger h p d m') \<and> in_order h p rs d m'"
    if m: "before_callbacks h p d m" and w: "?put w m = (m', r)" for w m m' and r :: "(exn, unit) res"
  proof -
    let ?old = "case md_callbacks m of None \<Rightarrow> EmptyFile | Some f \<Rightarrow> f"
    obtain fl where f: "replace_snapshot ?old (pl_callbacks p) w = (fl, r)"
      and m': "m' = m\<lparr>md_callbacks := (if md_callbacks m = None \<and> fl = EmptyFile then None else Some fl)\<rparr>"
      using w by (auto split: prod.splits)
    have "fl = ?old \<and> r \<noteq> Inr () \<or> (\<exists>st. planned_state p = Inr st \<and> fl = Content (state_json st))"
      using f by (auto simp: replace_snapshot_def planned_state_def write_state_def split: sum.splits write_outcome.splits if_splits)
    then show ?thesis
    proof
      assume o: "fl = ?old \<and> r \<noteq> Inr ()"
      then have "m' = m" by (cases "md_callbacks m") (auto simp: m')
      then show ?thesis using o m stages_in_order(2) by blast
    next
      assume "\<exists>st. planned_state p = Inr st \<and> fl = Content (state_json st)"
      then have "callbacks_written p m'" by (auto simp: m' callbacks_written_def)
      then have "before_ledger h p d m'"
        using m by (auto simp: m' stage_defs registry_written_def artifacts_written_def artifact_written_def)
      then show ?thesis using stages_in_order(3) by blast
    qed
  qed
  show "hoare (\<lambda>s. before_callbacks h p d (mg_disk s)) (writing h ?put)
     (\<lambda>_ s. before_ledger h p d (mg_disk s)) (\<lambda>_ s. in_order h p rs d (mg_disk s))"
    by (rule hoare_writing [where P = "before_callbacks h p d" and Q = "\<lambda>_. before_ledger h p d" and E = "in_order h p rs d"])
      (drule (1) step, simp)+
qed

text \<open>Writing a JSON file of the migrator: it holds the value or what it held.\<close>

lemma write_json_stage:
  assumes "\<And>m. P m \<Longrightarrow> Q (put_file f (JsonFile v) m)" "\<And>m. P m \<Longrightarrow> E m" "\<And>m. Q m \<Longrightarrow> E m"
  shows "hoare (\<lambda>s. P (mg_disk s)) (write_json h f v) (\<lambda>_ s. Q (mg_disk s)) (\<lambda>_ s. E (mg_disk s))"
  unfolding write_json_def
proof (rule hoare_andthen, rule hoare_asks [OF asks_basic(5), where I = P])
  fix fl
  show "hoare (\<lambda>s. P (mg_disk s))
     (andthen (if fl = NoFile then refuse_dangling h f ''unsafe_legacy_file'' else check_private h f) (\<lambda>_.
      andthen (guard (json_finite v) (ValueError ''Out of range float values are not JSON compliant'')) (\<lambda>_. writing h (replaced f v))))
     (\<lambda>_ s. Q (mg_disk s)) (\<lambda>_ s. E (mg_disk s))"
  proof (rule hoare_andthen [where R = "\<lambda>_ s. P (mg_disk s)"], rule hoare_asks [where I = P])
    show "asks (if fl = NoFile then refuse_dangling h f ''unsafe_legacy_file'' else check_private h f)"
      using asks_basic(6, 7) by simp
  next
    show "hoare (\<lambda>s. P (mg_disk s)) (andthen (guard (json_finite v) (ValueError ''Out of range float values are not JSON compliant''))
      (\<lambda>_. writing h (replaced f v))) (\<lambda>_ s. Q (mg_disk s)) (\<lambda>_ s. E (mg_disk s))"
    proof (rule hoare_andthen [where R = "\<lambda>_ s. P (mg_disk s)"])
      show "hoare (\<lambda>s. P (mg_disk s)) (writing h (replaced f v)) (\<lambda>_ s. Q (mg_disk s)) (\<lambda>_ s. E (mg_disk s))"
        by (rule hoare_writing [where P = P and Q = "\<lambda>_. Q" and E = E])
          (use assms in \<open>auto simp: replaced_def split: write_outcome.splits\<close>)
    qed (use assms(2) in auto)
  qed (use assms(2) in auto)
qed (use assms(2) in auto)

lemma ledger_stage:
  "hoare (\<lambda>s. before_ledger h p d (mg_disk s)) (write_ledger h (pl_status p) rs)
     (\<lambda>_ s. committed h p rs d (mg_disk s)) (\<lambda>_ s. in_order h p rs d (mg_disk s))"
  unfolding write_ledger_def
proof (rule write_json_stage)
  show "committed h p rs d (put_file LedgerFile (JsonFile (ledger_payload (pl_status p) rs)) m)" if "before_ledger h p d m" for m
    using that by (auto simp: put_file_def stage_defs ledger_written_def registry_written_def callbacks_written_def artifacts_written_def artifact_written_def)
qed (auto intro: stages_in_order)

lemma commit_stages:
  "hoare (\<lambda>s. mg_disk s = d) (commit h p rs notify) (\<lambda>_ s. committed h p rs d (mg_disk s)) (\<lambda>_ s. in_order h p rs d (mg_disk s))"
proof -
  let ?E = "in_order h p rs d"
  let ?S1 = "\<lambda>m. only_artifacts d m \<and> artifacts_written h p m"
  have start: "hoare (\<lambda>s. mg_disk s = d) (each (commit_artifact h) (pl_artifacts p)) (\<lambda>_ s. ?S1 (mg_disk s)) (\<lambda>_ s. ?E (mg_disk s))"
    by (rule hoare_weaken [OF artifacts_stage [where xs = "[]" and d = d]])
      (auto simp: artifacts_written_def intro: stages_in_order(1), simp add: only_artifacts_def)
  note ask = asks_basic(3, 4) and ends = stages_in_order
  note ask1 = hoare_ask_then [where I = ?S1 and E = ?E] and ask2 = hoare_ask_then [where I = "before_callbacks h p d" and E = ?E]
    and ask3 = hoare_ask_then [where I = "before_ledger h p d" and E = ?E]
  have last: "hoare (\<lambda>s. committed h p rs d (mg_disk s)) (notify_stage h notify LedgerStage)
      (\<lambda>_ s. committed h p rs d (mg_disk s)) (\<lambda>_ s. ?E (mg_disk s))"
    by (rule hoare_asks [OF ask(2)]) (auto intro: ends)
  show ?thesis unfolding commit_def
  proof (rule hoare_andthen [OF start], rule ask1 [OF ask(1)], blast intro: ends(1), rule ask1 [OF ask(2)], blast intro: ends(1),
      rule hoare_andthen [OF registry_stage], rule ask2 [OF ask(1) ends(2)], assumption, rule ask2 [OF ask(1) ends(2)], assumption,
      rule ask2 [OF ask(2) ends(2)], assumption, rule hoare_andthen [OF callbacks_stage],
      rule ask3 [OF ask(1) ends(3)], assumption, rule ask3 [OF ask(1) ends(3)], assumption, rule ask3 [OF ask(2) ends(3)], assumption)
    show "hoare (\<lambda>s. before_ledger h p d (mg_disk s)) (andthen (write_ledger h (pl_status p) rs) (\<lambda>_. notify_stage h notify LedgerStage))
       (\<lambda>_ s. committed h p rs d (mg_disk s)) (\<lambda>_ s. ?E (mg_disk s))"
      by (rule hoare_andthen [OF ledger_stage last])
  qed
qed

lemma commit_ordered:
  "commit h p rs notify s = (r, s') \<Longrightarrow>
     in_order h p rs (mg_disk s) (mg_disk s') \<and> (r = Inr () \<longrightarrow> committed h p rs (mg_disk s) (mg_disk s'))"
  using hoareD [OF commit_stages refl, of h p rs notify s _ s'] stages_in_order(4) by (cases r) auto

text \<open>
  C14. Whatever fails during a commit, the callbacks change only after the registry holds the plan, the ledger only after the callbacks do, an artifact is never lost, and a commit that returns has written all of them.
\<close>

theorem commit_in_order:
  "commit h p rs notify s = (r, s') \<Longrightarrow>
     in_order h p rs (mg_disk s) (mg_disk s') \<and> (r = Inr () \<longrightarrow> committed h p rs (mg_disk s) (mg_disk s'))"
  by (rule commit_ordered)

section \<open>Failed resolutions\<close>

text \<open>The authorities hold again what was read from them, and the ledger what it listed.\<close>

definition restored :: "mig_host \<Rightarrow> mig_disk \<Rightarrow> mig_disk \<Rightarrow> bool" where
  "restored h d d' \<longleftrightarrow> (\<exists>t u records callbacks status resolutions.
     target_records h t (md_registry d) = Inr records \<and> target_callbacks h u (md_callbacks d) = Inr callbacks
     \<and> parse_file ledger_content (md_ledger d) = Inr (status, resolutions)
     \<and> committed h \<lparr>pl_status = status, pl_records = sorted_records records, pl_callbacks = callbacks, pl_artifacts = []\<rparr> resolutions
         (d\<lparr>md_intent := md_intent d'\<rparr>) d')"

text \<open>The resolution is complete: the registry, the callbacks and the ledger hold what was planned for it.\<close>

definition completed :: "mig_host \<Rightarrow> resolution \<Rightarrow> mig_disk \<Rightarrow> mig_disk \<Rightarrow> bool" where
  "completed h rz d d' \<longleftrightarrow> (\<exists>p status resolutions. parse_file ledger_content (md_ledger d) = Inr (status, resolutions)
     \<and> committed h p (resolutions @ [rz]) (d\<lparr>md_intent := md_intent d'\<rparr>) d')"

text \<open>Opening a registry that is absent or empty writes an empty one.\<close>

definition opened :: "mig_disk \<Rightarrow> mig_disk \<Rightarrow> bool" where
  "opened d d' \<longleftrightarrow> (md_registry d = Absent \<or> md_registry d = Regular None)
     \<and> d' = d\<lparr>md_registry := Regular (Some (Some (encode_registry [])))\<rparr>"

definition recoverable :: "mig_host \<Rightarrow> resolution \<Rightarrow> mig_disk \<Rightarrow> mig_disk \<Rightarrow> bool" where
  "recoverable h rz d d' \<longleftrightarrow> md_intent d' = JsonFile (intent_payload rz)
     \<or> md_intent d' = NoFile \<and> (d' = d \<or> opened d d' \<or> restored h d d' \<or> completed h rz d d')"

lemma registry_opened:
  "hoare (\<lambda>s. mg_disk s = d) (open_registry h) (\<lambda>_ s. mg_disk s = d \<or> opened d (mg_disk s)) (\<lambda>_ s. mg_disk s = d \<or> opened d (mg_disk s))"
proof -
  have "mg_disk (snd (open_registry h s)) = mg_disk s \<or> opened (mg_disk s) (mg_disk (snd (open_registry h s)))" for s
    by (auto simp: open_registry_def writing_def moment_def act_defs load_registry_def publish_def save_locked_def Let_def
      registry_file_after_def opened_def split: path_state.splits write_outcome.splits option.splits sum.splits if_splits prod.splits)
  then show ?thesis by (auto simp: hoare_def split: prod.splits sum.splits) (metis snd_conv)+
qed


lemma clearing:
  assumes "\<And>m. P m \<Longrightarrow> E m" "\<And>m. P m \<Longrightarrow> E (m\<lparr>md_intent := NoFile\<rparr>)"
  shows "hoare (\<lambda>s. P (mg_disk s)) (clear_intent h) (\<lambda>_ s. md_intent (mg_disk s) = NoFile) (\<lambda>_ s. E (mg_disk s))"
  unfolding clear_intent_def
proof (rule hoare_andthen)
  show "hoare (\<lambda>s. P (mg_disk s)) (disk md_intent) (\<lambda>f s. P (mg_disk s) \<and> md_intent (mg_disk s) = f) (\<lambda>_ s. E (mg_disk s))"
    by (simp add: disk_def hoare_def observe_def)
next
  fix f
  let ?unlink = "andthen (check_private h IntentFile) (\<lambda>_. andthen (answered_by (mh_unlink h)) (\<lambda>_.
       andthen (modify (\<lambda>s. s\<lparr>mg_disk := (mg_disk s)\<lparr>md_intent := NoFile\<rparr>\<rparr>)) (\<lambda>_. sync h)))"
  show "hoare (\<lambda>s. P (mg_disk s) \<and> md_intent (mg_disk s) = f)
      (if f = NoFile then refuse_dangling h IntentFile ''unsafe_migration_resolution_intent'' else ?unlink)
      (\<lambda>_ s. md_intent (mg_disk s) = NoFile) (\<lambda>_ s. E (mg_disk s))"
  proof (cases "f = NoFile")
    case True
    have "hoare (\<lambda>s. P (mg_disk s) \<and> md_intent (mg_disk s) = f) (refuse_dangling h IntentFile ''unsafe_migration_resolution_intent'')
       (\<lambda>_ s. P (mg_disk s) \<and> md_intent (mg_disk s) = f) (\<lambda>_ s. E (mg_disk s))"
      by (rule hoare_asks [OF asks_basic(6), where I = "\<lambda>m. P m \<and> md_intent m = f"]) (use assms(1) in auto)
    then show ?thesis using True by (auto elim: hoare_weaken)
  next
    case False
    let ?Z = "\<lambda>m. md_intent m = NoFile \<and> E m"
    have "hoare (\<lambda>s. ?Z (mg_disk s)) (sync h) (\<lambda>_ s. ?Z (mg_disk s)) (\<lambda>_ s. E (mg_disk s))"
      by (rule hoare_asks [OF asks_basic(3), where I = ?Z]) auto
    then have "hoare (\<lambda>s. ?Z (mg_disk s)) (sync h) (\<lambda>_ s. md_intent (mg_disk s) = NoFile) (\<lambda>_ s. E (mg_disk s))"
      by (rule hoare_weaken) auto
    then have last: "hoare (\<lambda>s. P (mg_disk s)) (andthen (modify (\<lambda>s. s\<lparr>mg_disk := (mg_disk s)\<lparr>md_intent := NoFile\<rparr>\<rparr>)) (\<lambda>_. sync h))
       (\<lambda>_ s. md_intent (mg_disk s) = NoFile) (\<lambda>_ s. E (mg_disk s))"
      by (rule hoare_andthen [rotated]) (use assms(2) in auto)
    have "hoare (\<lambda>s. P (mg_disk s)) ?unlink (\<lambda>_ s. md_intent (mg_disk s) = NoFile) (\<lambda>_ s. E (mg_disk s))"
      by (rule hoare_ask_then [OF asks_basic(7)], rule assms(1), assumption,
        rule hoare_ask_then [OF asks_basic(2)], rule assms(1), assumption, rule last)
    then show ?thesis using False by (auto elim: hoare_weaken)
  qed
qed

lemma rolling_back:
  assumes t: "target_records h t (md_registry d) = Inr records" "target_callbacks h u (md_callbacks d) = Inr callbacks"
    and l: "parse_file ledger_content (md_ledger d) = Inr (status, resolutions)"
    and rp: "rp_rollback rp = \<lparr>pl_status = status, pl_records = sorted_records records, pl_callbacks = callbacks, pl_artifacts = []\<rparr>"
  shows "hoare (\<lambda>s. md_intent (mg_disk s) = JsonFile (intent_payload rz)
        \<and> (\<forall>k bytes. dget (md_artifacts d) k = Some bytes \<longrightarrow> dget (md_artifacts (mg_disk s)) k = Some bytes))
      (roll_back h rp resolutions x) Q (\<lambda>_ s. recoverable h rz d (mg_disk s))"
proof -
  let ?I = "\<lambda>m. md_intent m = JsonFile (intent_payload rz) \<and> (\<forall>k bytes. dget (md_artifacts d) k = Some bytes \<longrightarrow> dget (md_artifacts m) k = Some bytes)"
  let ?C = "\<lambda>m. md_intent m = JsonFile (intent_payload rz) \<and> committed h (rp_rollback rp) resolutions (d\<lparr>md_intent := md_intent m\<rparr>) m"
  let ?R = "recoverable h rz d"
  have CR: "?C m \<Longrightarrow> ?R m" for m by (simp add: recoverable_def)
  have done_intent: "?R (m\<lparr>md_intent := NoFile\<rparr>)" if "?C m" for m
  proof -
    have "committed h (rp_rollback rp) resolutions (d\<lparr>md_intent := NoFile\<rparr>) (m\<lparr>md_intent := NoFile\<rparr>)"
      using that by (auto simp: committed_def registry_written_def callbacks_written_def artifacts_written_def artifact_written_def ledger_written_def)
    then have "restored h d (m\<lparr>md_intent := NoFile\<rparr>)" unfolding restored_def using t l rp by auto
    then show ?thesis by (simp add: recoverable_def)
  qed
  have "hoare (\<lambda>s. ?I (mg_disk s)) (commit h (rp_rollback rp) resolutions False) (\<lambda>_ s. ?C (mg_disk s)) (\<lambda>_ s. ?R (mg_disk s))"
  proof (rule hoareI)
    fix s y s'
    assume s: "?I (mg_disk s)" "commit h (rp_rollback rp) resolutions False s = (Inr y, s')"
    have "committed h (rp_rollback rp) resolutions (mg_disk s) (mg_disk s')" using commit_ordered [OF s(2)] by simp
    with s(1) show "?C (mg_disk s')" by (auto simp: committed_def)
  next
    fix s e s'
    assume s: "?I (mg_disk s)" "commit h (rp_rollback rp) resolutions False s = (Inl e, s')"
    have "in_order h (rp_rollback rp) resolutions (mg_disk s) (mg_disk s')" using commit_ordered [OF s(2)] by simp
    with s(1) show "?R (mg_disk s')" by (auto simp: in_order_def recoverable_def)
  qed
  moreover have "hoare (\<lambda>s. ?C (mg_disk s)) (clear_intent h) (\<lambda>_ s. ?R (mg_disk s)) (\<lambda>_ s. ?R (mg_disk s))"
  proof (rule hoareI)
    fix s y s'
    assume s: "?C (mg_disk s)" "clear_intent h s = (Inr y, s')"
    then have "mg_disk s' = (mg_disk s)\<lparr>md_intent := NoFile\<rparr>"
      by (auto simp: clear_intent_def act_defs disk_def check_private_def answered_by_def sync_def moment_def split: if_splits sum.splits prod.splits)
    then show "?R (mg_disk s')" using done_intent [OF s(1)] by simp
  next
    fix s e s'
    assume s: "?C (mg_disk s)" "clear_intent h s = (Inl e, s')"
    show "?R (mg_disk s')" by (rule hoareD(2) [OF clearing [where P = ?C and E = ?R] s]) (use CR done_intent in blast)+
  qed
  ultimately have "hoare (\<lambda>s. ?I (mg_disk s)) (andthen (commit h (rp_rollback rp) resolutions False) (\<lambda>_. clear_intent h))
      (\<lambda>_ s. ?R (mg_disk s)) (\<lambda>_ s. ?R (mg_disk s))" by (rule hoare_andthen)
  then have "hoare (\<lambda>s. ?I (mg_disk s)) (attempt (andthen (commit h (rp_rollback rp) resolutions False) (\<lambda>_. clear_intent h))
      (\<lambda>_. raise (migration_error_at ''migration_resolution_recovery_failed'' (mh_intent_path h)))) (\<lambda>_ s. ?R (mg_disk s)) (\<lambda>_ s. ?R (mg_disk s))"
    by (rule hoare_attempt) auto
  then show ?thesis unfolding roll_back_def by (rule hoare_andthen) auto
qed


lemma applying:
  assumes t: "target_records h t (md_registry d) = Inr records" "target_callbacks h u (md_callbacks d) = Inr callbacks"
    and l: "parse_file ledger_content (md_ledger d) = Inr (status, resolutions)"
    and rp: "rp_rollback rp = \<lparr>pl_status = status, pl_records = sorted_records records, pl_callbacks = callbacks, pl_artifacts = []\<rparr>"
    and d: "md_intent d = NoFile"
  shows "hoare (\<lambda>s. mg_disk s = d) (apply_resolution h rz False resolutions rp)
      (\<lambda>r s. md_intent (mg_disk s) = NoFile \<and> r = rp_selected rp) (\<lambda>_ s. recoverable h rz d (mg_disk s))"
proof -
  let ?R = "recoverable h rz d"
  let ?d = "d\<lparr>md_intent := JsonFile (intent_payload rz)\<rparr>"
  let ?C = "\<lambda>m. md_intent m = JsonFile (intent_payload rz) \<and> committed h (rp_plan rp) (resolutions @ [rz]) (d\<lparr>md_intent := md_intent m\<rparr>) m"
  have intent: "hoare (\<lambda>s. mg_disk s = d) (write_intent h rz) (\<lambda>_ s. mg_disk s = ?d) (\<lambda>_ s. ?R (mg_disk s))"
    unfolding write_intent_def
    by (rule write_json_stage [where P = "\<lambda>m. m = d" and Q = "\<lambda>m. m = ?d" and E = ?R]) (use d in \<open>auto simp: put_file_def recoverable_def\<close>)
  have commit: "hoare (\<lambda>s. mg_disk s = ?d) (commit h (rp_plan rp) (resolutions @ [rz]) True) (\<lambda>_ s. ?C (mg_disk s))
      (\<lambda>_ s. md_intent (mg_disk s) = JsonFile (intent_payload rz)
        \<and> (\<forall>k bytes. dget (md_artifacts d) k = Some bytes \<longrightarrow> dget (md_artifacts (mg_disk s)) k = Some bytes))"
    by (rule hoare_weaken [OF commit_stages [where d = ?d]]) (auto simp: committed_def in_order_def)
  have whole: "hoare (\<lambda>s. mg_disk s = ?d) (attempt (commit h (rp_plan rp) (resolutions @ [rz]) True)
       (\<lambda>x. if False then raise x else roll_back h rp resolutions x)) (\<lambda>_ s. ?C (mg_disk s)) (\<lambda>_ s. ?R (mg_disk s))"
    by (rule hoare_attempt [OF commit]) (use rolling_back [OF t l rp] in simp)
  have CR: "?C m \<Longrightarrow> ?R m" for m by (simp add: recoverable_def)
  have done_intent: "?R (m\<lparr>md_intent := NoFile\<rparr>)" if "?C m" for m
  proof -
    have "committed h (rp_plan rp) (resolutions @ [rz]) (d\<lparr>md_intent := NoFile\<rparr>) (m\<lparr>md_intent := NoFile\<rparr>)"
      using that by (auto simp: committed_def registry_written_def callbacks_written_def artifacts_written_def artifact_written_def ledger_written_def)
    then have "completed h rz d (m\<lparr>md_intent := NoFile\<rparr>)" unfolding completed_def using l by auto
    then show ?thesis by (simp add: recoverable_def)
  qed
  have clear: "hoare (\<lambda>s. ?C (mg_disk s)) (clear_intent h) (\<lambda>_ s. md_intent (mg_disk s) = NoFile) (\<lambda>_ s. ?R (mg_disk s))"
    by (rule clearing [where P = ?C and E = ?R]) (use CR done_intent in blast)+
  show ?thesis unfolding apply_resolution_def
    by (rule hoare_andthen [OF intent], rule hoare_andthen [OF whole], rule hoare_andthen [OF clear])
      (simp add: hoare_def ret_def)
qed

lemma selected_identity:
  assumes "resolution_plan_of h rz target status conflict t = Inr rp"
  shows "sr_name (rp_selected rp) = Some target" "sr_thread_id (rp_selected rp) = rz_thread rz"
    "\<exists>records callbacks. tp_records t = Inr records \<and> tp_callbacks t = Inr callbacks
      \<and> rp_rollback rp = \<lparr>pl_status = status, pl_records = sorted_records records, pl_callbacks = callbacks, pl_artifacts = []\<rparr>"
proof -
  obtain candidate source original where c: "candidate_for conflict (rz_thread rz) = Inr candidate"
    and o: "original_of candidate source = Inr original" and sel: "rp_selected rp = original\<lparr>sr_name := Some target\<rparr>"
    and rest: "\<exists>records callbacks. tp_records t = Inr records \<and> tp_callbacks t = Inr callbacks
      \<and> rp_rollback rp = \<lparr>pl_status = status, pl_records = sorted_records records, pl_callbacks = callbacks, pl_artifacts = []\<rparr>"
    using assms by (auto simp: resolution_plan_of_def Let_def res_simps)
  have "jget candidate ''thread_id'' = JStr (rz_thread rz)"
    using c by (auto simp: candidate_for_def filter_eq_Cons_iff split: list.splits)
  moreover have "JStr (sr_thread_id original) = jget candidate ''thread_id''"
    using o by (auto simp: original_of_def find_Some_iff split: option.splits)
  ultimately show "sr_thread_id (rp_selected rp) = rz_thread rz" by (simp add: sel)
  show "sr_name (rp_selected rp) = Some target" by (simp add: sel)
  show "\<exists>records callbacks. tp_records t = Inr records \<and> tp_callbacks t = Inr callbacks
      \<and> rp_rollback rp = \<lparr>pl_status = status, pl_records = sorted_records records, pl_callbacks = callbacks, pl_artifacts = []\<rparr>"
    by (rule rest)
qed


lemma reading_intent:
  assumes "read_intent h s = (r, s')"
  shows "mg_disk s' = mg_disk s" "r = Inr x \<Longrightarrow> x = None \<longleftrightarrow> md_intent (mg_disk s) = NoFile"
  using assms
  by (auto simp: read_intent_def disk_def refuse_dangling_def check_private_def moment_def act_defs res_simps
      split: if_splits sum.splits prod.splits)

lemma needing_ledger:
  assumes "need_ledger h s = (r, s')"
  shows "mg_disk s' = mg_disk s" "r = Inr c \<Longrightarrow> parse_file ledger_content (md_ledger (mg_disk s)) = Inr c"
  using assms
  by (auto simp: need_ledger_def read_ledger_def reading_as_def disk_def refuse_dangling_def check_private_def moment_def act_defs res_simps
      split: if_splits sum.splits prod.splits option.splits)

lemma taking_targets:
  assumes "target_of h s = (r, s')"
  shows "mg_disk s' = mg_disk s" "r = Inr t \<Longrightarrow> \<exists>a b. tp_records t = target_records h a (md_registry (mg_disk s))
     \<and> tp_callbacks t = target_callbacks h b (md_callbacks (mg_disk s))"
  using assms by (auto simp: target_of_def disk_def moment_def act_defs)

lemma found_before:
  "hoare (\<lambda>s. mg_disk s = d \<and> md_intent d = NoFile) (resolved_before h None target thread)
     (\<lambda>r s. md_intent (mg_disk s) = NoFile \<and> sr_name r = Some target \<and> sr_thread_id r = thread) (\<lambda>_ s. recoverable h rz d (mg_disk s))"
  "hoare (\<lambda>s. mg_disk s = d \<and> md_intent d = NoFile) (resolved_by_name h None target thread)
     (\<lambda>r s. md_intent (mg_disk s) = NoFile \<and> sr_name r = Some target \<and> sr_thread_id r = thread) (\<lambda>_ s. recoverable h rz d (mg_disk s))"
proof -
  let ?O = "\<lambda>m. md_intent d = NoFile \<and> (m = d \<or> opened d m)"
  have O: "?O m \<Longrightarrow> recoverable h rz d m" "?O m \<Longrightarrow> md_intent m = NoFile" for m by (auto simp: recoverable_def opened_def)
  have open_it: "hoare (\<lambda>s. mg_disk s = d \<and> md_intent d = NoFile) (open_registry h) (\<lambda>_ s. ?O (mg_disk s)) (\<lambda>_ s. recoverable h rz d (mg_disk s))"
    by (rule hoareI) (use hoareD [OF registry_opened refl, of h] O in metis)+
  have pick: "hoare (\<lambda>s. ?O (mg_disk s)) (case filter (\<lambda>r. sr_name r = Some target) rs of
       [r] \<Rightarrow> if sr_thread_id r = thread then andthen (settle_intent h None) (\<lambda>_. ret r) else raise not_found
     | _ \<Rightarrow> raise not_found) (\<lambda>r s. md_intent (mg_disk s) = NoFile \<and> sr_name r = Some target \<and> sr_thread_id r = thread)
       (\<lambda>_ s. recoverable h rz d (mg_disk s))" for rs
    using O by (auto simp: hoare_def settle_intent_def act_defs filter_eq_Cons_iff split: list.splits)
  show "hoare (\<lambda>s. mg_disk s = d \<and> md_intent d = NoFile) (resolved_before h None target thread)
     (\<lambda>r s. md_intent (mg_disk s) = NoFile \<and> sr_name r = Some target \<and> sr_thread_id r = thread) (\<lambda>_ s. recoverable h rz d (mg_disk s))"
    unfolding resolved_before_def by (rule hoare_andthen [OF open_it pick])
  have named: "hoare (\<lambda>s. ?O (mg_disk s)) (andthen (lift (resolve_name reg l target)) (\<lambda>r.
       if sr_thread_id r \<noteq> thread then raise not_found else andthen (settle_intent h None) (\<lambda>_. ret r)))
       (\<lambda>r s. md_intent (mg_disk s) = NoFile \<and> sr_name r = Some target \<and> sr_thread_id r = thread)
       (\<lambda>_ s. recoverable h rz d (mg_disk s))" for reg l
    using O by (auto simp: hoare_def settle_intent_def act_defs resolve_name_def res_simps filter_eq_Cons_iff
        split: sum.splits if_splits option.splits list.splits)
  show "hoare (\<lambda>s. mg_disk s = d \<and> md_intent d = NoFile) (resolved_by_name h None target thread)
     (\<lambda>r s. md_intent (mg_disk s) = NoFile \<and> sr_name r = Some target \<and> sr_thread_id r = thread) (\<lambda>_ s. recoverable h rz d (mg_disk s))"
    unfolding resolved_by_name_def
    by (rule hoare_andthen [OF open_it], rule hoare_ask_then [where I = ?O, OF asks_basic(1) O(1)], assumption,
      rule hoare_ask_then [where I = ?O, OF asks_basic(5) O(1)], assumption, rule named)
qed

text \<open>What holds when a resolution of \<open>rz\<close> that began on disk \<open>d\<close> returns.\<close>

definition resolved_as :: "resolution \<Rightarrow> session_record \<Rightarrow> mig_state \<Rightarrow> bool" where
  "resolved_as rz r s \<longleftrightarrow> md_intent (mg_disk s) = NoFile \<and> sr_name r = Some (resolution_target rz) \<and> sr_thread_id r = rz_thread rz"

definition resolving_from :: "mig_host \<Rightarrow> mig_disk \<Rightarrow> target_state \<Rightarrow> mig_state \<Rightarrow> bool" where
  "resolving_from h d t s \<longleftrightarrow> mg_disk s = d \<and> md_intent d = NoFile
     \<and> (\<exists>a b. tp_records t = target_records h a (md_registry d) \<and> tp_callbacks t = target_callbacks h b (md_callbacks d))"

lemma resolving_conflict:
  assumes l: "parse_file ledger_content (md_ledger d) = Inr (status, resolutions)"
  shows "hoare (\<lambda>s. mg_disk s = d \<and> md_intent d = NoFile)
     (andthen (target_of h) (\<lambda>t. andthen (lift (resolution_plan_of h rz (resolution_target rz) status c t)) (\<lambda>rp.
        apply_resolution h rz False resolutions rp))) (resolved_as rz) (\<lambda>_ s. recoverable h rz d (mg_disk s))"
proof (rule hoare_andthen [where R = "resolving_from h d"])
  show "hoare (\<lambda>s. mg_disk s = d \<and> md_intent d = NoFile) (target_of h) (resolving_from h d) (\<lambda>_ s. recoverable h rz d (mg_disk s))"
  proof (rule hoareI)
    fix s t s'
    assume "mg_disk s = d \<and> md_intent d = NoFile" "target_of h s = (Inr t, s')"
    then show "resolving_from h d t s'" using taking_targets [of h s "Inr t" s'] by (auto simp: resolving_from_def)
  next
    fix s e s'
    assume "mg_disk s = d \<and> md_intent d = NoFile" "target_of h s = (Inl e, s')"
    then show "recoverable h rz d (mg_disk s')" using taking_targets(1) [of h s "Inl e" s'] by (auto simp: recoverable_def)
  qed
  fix t
  show "hoare (resolving_from h d t) (andthen (lift (resolution_plan_of h rz (resolution_target rz) status c t)) (\<lambda>rp.
        apply_resolution h rz False resolutions rp)) (resolved_as rz) (\<lambda>_ s. recoverable h rz d (mg_disk s))"
  proof (cases "resolution_plan_of h rz (resolution_target rz) status c t")
    case (Inl e)
    then show ?thesis by (auto simp: hoare_def act_defs resolving_from_def recoverable_def)
  next
    case (Inr rp)
    note ids = selected_identity [OF Inr]
    have "hoare (resolving_from h d t) (apply_resolution h rz False resolutions rp) (resolved_as rz) (\<lambda>_ s. recoverable h rz d (mg_disk s))"
      unfolding hoare_def
    proof (intro allI impI)
      fix s
      assume "resolving_from h d t s"
      then obtain a b records callbacks where t: "target_records h a (md_registry d) = Inr records" "target_callbacks h b (md_callbacks d) = Inr callbacks"
        and rp: "rp_rollback rp = \<lparr>pl_status = status, pl_records = sorted_records records, pl_callbacks = callbacks, pl_artifacts = []\<rparr>"
        and d: "mg_disk s = d" "md_intent d = NoFile" using ids(3) by (auto simp: resolving_from_def)
      show "case apply_resolution h rz False resolutions rp s of (Inr x, s') \<Rightarrow> resolved_as rz x s'
          | (Inl e, s') \<Rightarrow> recoverable h rz d (mg_disk s')"
        using hoareD [OF applying [OF t l rp d(2), of rz] d(1)] ids(1, 2)
        by (cases "apply_resolution h rz False resolutions rp s"; cases "fst (apply_resolution h rz False resolutions rp s)")
          (simp_all add: resolved_as_def)
    qed
    then show ?thesis unfolding Inr by (simp add: hoare_def act_defs)
  qed
qed

lemma resolving_with_ledger:
  assumes l: "parse_file ledger_content (md_ledger d) = Inr (status, resolutions)"
  shows "hoare (\<lambda>s. mg_disk s = d \<and> md_intent d = NoFile)
     (if rz \<in> set resolutions then resolved_before h None (resolution_target rz) (rz_thread rz)
      else (case conflict_named status (rz_name rz) of
          None \<Rightarrow> resolved_by_name h None (resolution_target rz) (rz_thread rz)
        | Some conflict \<Rightarrow> andthen (target_of h) (\<lambda>t.
            andthen (lift (resolution_plan_of h rz (resolution_target rz) status conflict t)) (\<lambda>rp.
              apply_resolution h rz False resolutions rp)))) (resolved_as rz) (\<lambda>_ s. recoverable h rz d (mg_disk s))"
proof (cases "rz \<in> set resolutions")
  case True
  then show ?thesis using found_before(1) [of d h "resolution_target rz" "rz_thread rz" rz]
    by (simp add: resolved_as_def [abs_def])
next
  case False
  then show ?thesis
  proof (cases "conflict_named status (rz_name rz)")
    case None
    then show ?thesis using False found_before(2) [of d h "resolution_target rz" "rz_thread rz" rz]
      by (simp add: resolved_as_def [abs_def])
  next
    case (Some c)
    then show ?thesis using False resolving_conflict [OF l, of h rz c] by simp
  qed
qed


end
