(* ===== verification/MigrationProps.thy ===== *)
theory MigrationProps
  imports MigrationPlan
begin

text \<open>
  What a plan is: no record is lost, identifiers stay unique, and a commit that stopped halfway is
  planned again to the same end.
\<close>

section \<open>The parts of a plan\<close>

lemma plan_parts:
  assumes "plan_migration h t sources = Inr p"
  obtains items pss quarantine targets callbacks names conflicts views merged artifacts st where
    "collect_items sources = Inr items"
    "emap (project_source h) sources = Inr pss"
    "plan_quarantine t items sources (concat pss) = Inr (quarantine, targets, callbacks)"
    "conflict_names quarantine items = Inr names"
    "emap (conflict_of items) names = Inr conflicts"
    "emap source_view (zip items (outcomes names quarantine [] items)) = Inr views"
    "plan_callbacks h t callbacks sources (concat pss) (sessions_of (selected_items names quarantine items)) = Inr (merged, artifacts)"
    "status_view_of views conflicts (count_of Imported (outcomes names quarantine [] items))
       (count_of Deduplicated (outcomes names quarantine [] items)) = Inr st"
    "p = \<lparr>pl_status = st, pl_records = sorted_records (merged_records targets (selected_items names quarantine items)),
       pl_callbacks = merged, pl_artifacts = artifacts\<rparr>"
  using assms by (auto simp: plan_migration_def Let_def res_simps)

lemma quarantine_parts:
  assumes "plan_quarantine t items sources projected = Inr (quarantine, targets, callbacks)"
  obtains bs es taken tbs tes where
    "with_bytes binding_dict (concat (map (\<lambda>s. sn_bindings (ls_callbacks s)) sources)) = Inr bs"
    "with_bytes entry_dict (map fst projected) = Inr es"
    "tp_records t = Inr targets" "tp_callbacks t = Inr callbacks"
    "target_quarantine targets items = Inr taken"
    "with_bytes binding_dict (sn_bindings callbacks) = Inr tbs"
    "with_bytes entry_dict (sn_outbox callbacks) = Inr tes"
    "quarantine = record_quarantine items @ callback_quarantine bs es @ taken @ target_callback_quarantine tbs tes bs es"
  using assms by (auto simp: plan_quarantine_def res_simps)

section \<open>Items and names\<close>

lemma emap_all: "emap f xs = Inr ys \<Longrightarrow> list_all2 (\<lambda>x y. f x = Inr y) xs ys"
  by (induction xs arbitrary: ys) (auto simp: res_simps)

lemma emap_from: "emap f xs = Inr ys \<Longrightarrow> x \<in> set xs \<Longrightarrow> \<exists>y \<in> set ys. f x = Inr y"
  by (induction xs arbitrary: ys) (auto simp: res_simps)

lemma emap_to: "emap f xs = Inr ys \<Longrightarrow> y \<in> set ys \<Longrightarrow> \<exists>x \<in> set xs. f x = Inr y"
  by (induction xs arbitrary: ys) (auto simp: res_simps)

lemma source_item_cases:
  assumes "source_items s = Inr xs"
  shows "i \<in> set xs \<Longrightarrow> it_record i \<in> set (ls_records s) \<and> it_source i = s \<and> candidate_of s (it_record i) = Inr (it_candidate i)"
    and "r \<in> set (ls_records s) \<Longrightarrow> \<exists>i \<in> set xs. it_record i = r"
proof -
  have e: "emap (\<lambda>r. ebind (candidate_of s r) (\<lambda>c. Inr \<lparr>it_candidate = c, it_record = r, it_source = s\<rparr>)) (ls_records s) = Inr xs"
    using assms by (simp add: source_items_def)
  show "it_record i \<in> set (ls_records s) \<and> it_source i = s \<and> candidate_of s (it_record i) = Inr (it_candidate i)" if "i \<in> set xs"
    using emap_to [OF e that] by (auto simp: res_simps)
  show "\<exists>i \<in> set xs. it_record i = r" if "r \<in> set (ls_records s)"
    using emap_from [OF e that] by (force simp: res_simps)
qed

lemma item_cases:
  assumes "collect_items sources = Inr items"
  shows "i \<in> set items \<Longrightarrow> it_source i \<in> set sources \<and> it_record i \<in> set (ls_records (it_source i))
      \<and> candidate_of (it_source i) (it_record i) = Inr (it_candidate i)"
    and "s \<in> set sources \<Longrightarrow> r \<in> set (ls_records s) \<Longrightarrow> \<exists>i \<in> set items. it_record i = r \<and> it_source i = s"
proof -
  obtain xss where e: "emap source_items sources = Inr xss" and items: "items = sort_key item_key (concat xss)"
    using assms by (auto simp: collect_items_def res_simps)
  show "it_source i \<in> set sources \<and> it_record i \<in> set (ls_records (it_source i))
      \<and> candidate_of (it_source i) (it_record i) = Inr (it_candidate i)" if "i \<in> set items"
  proof -
    have "i \<in> set (concat xss)" using that items by simp
    then obtain xs where "xs \<in> set xss" "i \<in> set xs" by auto
    then show ?thesis using emap_to [OF e, of xs] source_item_cases(1) by blast
  qed
  show "\<exists>i \<in> set items. it_record i = r \<and> it_source i = s" if s: "s \<in> set sources" and r: "r \<in> set (ls_records s)"
  proof -
    obtain xs where xs: "xs \<in> set xss" "source_items s = Inr xs" using emap_from [OF e s] by blast
    obtain i where "i \<in> set xs" "it_record i = r" using source_item_cases(2) [OF xs(2) r] by blast
    moreover have "it_source i = s" using source_item_cases(1) [OF xs(2)] calculation by blast
    ultimately show ?thesis using xs(1) items by auto
  qed
qed

section \<open>Records of a plan\<close>

lemma add_record_keeps: "set rs \<subseteq> set (add_record i rs)"
  by (auto simp: add_record_def)

lemma merged_keeps: "set targets \<subseteq> set (merged_records targets xs)"
  unfolding merged_records_def by (induction xs arbitrary: targets) (use add_record_keeps in fastforce)+

lemma merged_has: "i \<in> set xs \<Longrightarrow> \<exists>r \<in> set (merged_records targets xs). record_bytes r = item_bytes i"
proof (induction xs arbitrary: targets)
  case (Cons j xs)
  show ?case
  proof (cases "i = j")
    case True
    have "\<exists>r \<in> set (add_record i targets). record_bytes r = item_bytes i"
      by (auto simp: add_record_def list_ex_iff item_bytes_def)
    then show ?thesis using merged_keeps [of "add_record i targets" xs] True by (auto simp: merged_records_def)
  next
    case False
    with Cons show ?thesis by (auto simp: merged_records_def)
  qed
qed simp

lemma merged_from: "r \<in> set (merged_records targets xs) \<Longrightarrow> r \<in> set targets \<or> (\<exists>i \<in> set xs. it_record i = r)"
  unfolding merged_records_def
  by (induction xs arbitrary: targets) (fastforce simp: add_record_def split: if_splits)+

text \<open>
  What holds between any two records of the merge when it holds of the targets, of a target and
  a selected record that is none of them, and of two selected records with different contents.
\<close>

lemma merged_pairwise:
  assumes "sorted_wrt P targets" "\<And>x y. P x y \<Longrightarrow> P y x"
    "\<And>r i. r \<in> set targets \<Longrightarrow> i \<in> set xs \<Longrightarrow> record_bytes r \<noteq> item_bytes i \<Longrightarrow> P r (it_record i)"
    "\<And>i j. i \<in> set xs \<Longrightarrow> j \<in> set xs \<Longrightarrow> item_bytes i \<noteq> item_bytes j \<Longrightarrow> P (it_record i) (it_record j)"
  shows "sorted_wrt P (merged_records targets xs)"
  using assms
proof (induction xs arbitrary: targets)
  case Nil
  then show ?case by (simp add: merged_records_def)
next
  case (Cons i xs)
  have "sorted_wrt P (merged_records (add_record i targets) xs)"
  proof (rule Cons.IH)
    show "sorted_wrt P (add_record i targets)"
      using Cons.prems by (auto simp: add_record_def list_ex_iff sorted_wrt_append)
    show "P r (it_record j)" if "r \<in> set (add_record i targets)" "j \<in> set xs" "record_bytes r \<noteq> item_bytes j" for r j
      using that Cons.prems by (auto simp: add_record_def item_bytes_def split: if_splits)
  qed (use Cons.prems in auto)
  then show ?case by (simp add: merged_records_def)
qed


section \<open>The views of a plan\<close>

lemma legacy_models_ok: "ann_ok LegacyCandidate" "ann_ok LegacyConflict" "ann_ok MigrationSourceView" "ann_ok MigrationStatusView"
  by (simp_all add: LegacyCandidate_def LegacyConflict_def MigrationSourceView_def MigrationStatusView_def plain_def)

text \<open>A field of a built model is the loaded value it was built from.\<close>

lemma built_field:
  assumes "load (AModel n plain fs contract) (JObj d) f = Inr (JObj m)" "(k, a) \<in> set fs" "distinct (map fst fs)"
  shows "load a (jget d k) k = Inr (jget m k)"
  by (rule load_fields_get [OF _ assms(2, 3)]) (use assms(1) in \<open>auto simp: plain_def res_simps split: if_splits\<close>)

lemma candidate_fields:
  assumes "candidate_of s r = Inr c"
  shows "jget c ''source_path'' = JStr (ls_registry_path s)" "jget c ''source_digest'' = JStr (ls_digest s)"
    "jget c ''session_id'' = JStr (sr_session_id r)" "jget c ''thread_id'' = JStr (sr_thread_id r)"
    "jget c ''name'' = jopt (sr_name r)" "load LegacyCandidate (JObj c) f = Inr (JObj c)"
proof -
  obtain d where d: "jget d ''source_path'' = JStr (ls_registry_path s)" "jget d ''source_digest'' = JStr (ls_digest s)"
      "jget d ''session_id'' = JStr (sr_session_id r)" "jget d ''thread_id'' = JStr (sr_thread_id r)"
      "jget d ''name'' = jopt (sr_name r)"
    and "build LegacyCandidate d = Inr (JObj c)"
  proof (rule that)
    let ?d = "[(''source_path'', JStr (ls_registry_path s)), (''source_digest'', JStr (ls_digest s)), (''name'', jopt (sr_name r)),
      (''session_id'', JStr (sr_session_id r)), (''thread_id'', JStr (sr_thread_id r)), (''cwd'', JStr (sr_cwd r)),
      (''created_at'', JStr (sr_created_at r)), (''updated_at'', JStr (sr_updated_at r)), (''model'', jopt (sr_model r)),
      (''effort'', jopt (sr_effort r)), (''tier'', jopt (sr_tier r)), (''access'', jopt (sr_access r))]"
    show "build LegacyCandidate ?d = Inr (JObj c)"
      using assms by (auto simp: candidate_of_def object_of_def res_simps split: option.splits json.splits)
    show "jget ?d ''source_path'' = JStr (ls_registry_path s)" "jget ?d ''source_digest'' = JStr (ls_digest s)"
      "jget ?d ''session_id'' = JStr (sr_session_id r)" "jget ?d ''thread_id'' = JStr (sr_thread_id r)"
      "jget ?d ''name'' = jopt (sr_name r)" by simp_all
  qed
  then have b: "load LegacyCandidate (JObj d) [] = Inr (JObj c)" by (simp add: build_def)
  show "load LegacyCandidate (JObj c) f = Inr (JObj c)" by (rule load_idem(1) [OF b legacy_models_ok(1)])
  note field = built_field [OF b [unfolded LegacyCandidate_def]]
  show "jget c ''source_path'' = JStr (ls_registry_path s)" using field [of "''source_path''" AStr] d by simp
  show "jget c ''source_digest'' = JStr (ls_digest s)" using field [of "''source_digest''" AStr] d by simp
  show "jget c ''session_id'' = JStr (sr_session_id r)" using field [of "''session_id''" AStr] d by simp
  show "jget c ''thread_id'' = JStr (sr_thread_id r)" using field [of "''thread_id''" AStr] d by simp
  show "jget c ''name'' = jopt (sr_name r)" using field [of "''name''" "AOpt AStr"] d by (cases "sr_name r") simp_all
qed

lemma built_loads: "build m d = Inr v \<Longrightarrow> ann_ok m \<Longrightarrow> load m v f = Inr v"
  unfolding build_def by (rule load_idem(1))

lemma model_is_object: "load (AModel n prep fs contract) v f = Inr w \<Longrightarrow> \<exists>m. w = JObj m"
  by (auto simp: res_simps Let_def split: option.splits if_splits)

lemma conflict_view:
  assumes b: "conflict_of items n = Inr c" and items: "\<And>i. i \<in> set items \<Longrightarrow> load LegacyCandidate (JObj (it_candidate i)) ''candidates'' = Inr (JObj (it_candidate i))"
  obtains d where "c = JObj d" "jget d ''name'' = JStr n" "load LegacyConflict c f = Inr c"
    "\<And>i. i \<in> set items \<Longrightarrow> sr_name (it_record i) = Some n \<Longrightarrow> it_candidate i \<in> set (objects_of (jget d ''candidates''))"
proof -
  define own where "own = sort_key (\<lambda>i. [ls_registry_path (it_source i), sr_session_id (it_record i), sr_thread_id (it_record i)])
            (filter (\<lambda>i. sr_name (it_record i) = Some n) items)"
  let ?d = "[(''name'', JStr n), (''candidates'', JList (map (JObj \<circ> it_candidate) own)),
           (''source_digests'', JList (map JStr (sort (remdups (map (ls_digest \<circ> it_source) own)))))]"
  have b': "build LegacyConflict ?d = Inr c" using b by (simp add: conflict_of_def own_def Let_def)
  then obtain d where c: "c = JObj d" using model_is_object unfolding build_def LegacyConflict_def by blast
  have l: "load LegacyConflict (JObj ?d) [] = Inr (JObj d)" using b' by (simp add: build_def c)
  note field = built_field [OF l [unfolded LegacyConflict_def]]
  have name: "jget d ''name'' = JStr n" using field [of "''name''" AStr] by simp
  have "emap (\<lambda>x. load LegacyCandidate x ''candidates'') (map (JObj \<circ> it_candidate) own) = Inr (map (JObj \<circ> it_candidate) own)"
    unfolding emap_Inr_iff using items by (auto simp: own_def)
  then have "jget d ''candidates'' = JList (map (JObj \<circ> it_candidate) own)"
    using field [of "''candidates''" "AList LegacyCandidate"] by simp
  then have "i \<in> set items \<Longrightarrow> sr_name (it_record i) = Some n \<Longrightarrow> it_candidate i \<in> set (objects_of (jget d ''candidates''))" for i
    by (auto simp: objects_of_def own_def)
  with that c name built_loads [OF b' legacy_models_ok(2)] show thesis by blast
qed

lemma status_conflicts:
  assumes "status_view_of views conflicts a b = Inr st" "\<And>c. c \<in> set conflicts \<Longrightarrow> load LegacyConflict c ''conflicts'' = Inr c"
  shows "jget st ''conflicts'' = JList conflicts"
proof -
  let ?d = "[(''status'', JStr ''complete''), (''ready'', JBool True), (''imported_count'', JInt a),
      (''deduplicated_count'', JInt b), (''conflict_count'', JInt (int (length conflicts))),
      (''sources'', JList views), (''conflicts'', JList conflicts)]"
  have "build MigrationStatusView ?d = Inr (JObj st)"
    using assms(1) by (auto simp: status_view_of_def object_of_def res_simps split: option.splits json.splits)
  then have l: "load MigrationStatusView (JObj ?d) [] = Inr (JObj st)" by (simp add: build_def)
  have "emap (\<lambda>x. load LegacyConflict x ''conflicts'') conflicts = Inr conflicts"
    unfolding emap_Inr_iff using assms(2) by simp
  then show ?thesis
    using built_field [OF l [unfolded MigrationStatusView_def], of "''conflicts''" "AList LegacyConflict"] by simp
qed


section \<open>Nothing is lost\<close>

text \<open>A conflict of the status lists the record of the source as a candidate under its name.\<close>

definition listed_as_candidate :: "json_object \<Rightarrow> legacy_source \<Rightarrow> session_record \<Rightarrow> bool" where
  "listed_as_candidate status s r \<longleftrightarrow>
     (\<exists>c \<in> set (objects_of (jget status ''conflicts'')). jget c ''name'' = jopt (sr_name r) \<and> sr_name r \<noteq> None
        \<and> (\<exists>k \<in> set (objects_of (jget c ''candidates'')).
            jget k ''source_path'' = JStr (ls_registry_path s) \<and> jget k ''source_digest'' = JStr (ls_digest s)
            \<and> jget k ''session_id'' = JStr (sr_session_id r) \<and> jget k ''thread_id'' = JStr (sr_thread_id r)))"

lemma conflicted_name:
  assumes "conflict_names quarantine items = Inr names" "i \<in> set items" "is_conflicted names quarantine i"
  shows "\<exists>n. sr_name (it_record i) = Some n \<and> n \<in> set names"
proof -
  have names: "set names = set (divergent_names items) \<union> name_text ` it_record ` set (filter (in_quarantine quarantine) items)"
    and named: "\<And>j. j \<in> set items \<Longrightarrow> in_quarantine quarantine j \<Longrightarrow> sr_name (it_record j) \<noteq> None"
    using assms(1) by (auto simp: conflict_names_def Let_def list_ex_iff image_comp split: if_splits)
  show ?thesis using assms(2, 3) named [OF assms(2)]
    by (auto simp: is_conflicted_def names name_text_def image_iff split: option.splits)
qed

lemma conflicted_is_listed:
  assumes items: "collect_items sources = Inr items" and names: "conflict_names quarantine items = Inr names"
    and conflicts: "emap (conflict_of items) names = Inr conflicts" and st: "status_view_of views conflicts a b = Inr st"
    and i: "i \<in> set items" "is_conflicted names quarantine i"
  shows "listed_as_candidate st (it_source i) (it_record i)"
proof -
  note item = item_cases(1) [OF items]
  have loads: "j \<in> set items \<Longrightarrow> load LegacyCandidate (JObj (it_candidate j)) ''candidates'' = Inr (JObj (it_candidate j))" for j
    using item candidate_fields(6) by blast
  obtain n where n: "sr_name (it_record i) = Some n" "n \<in> set names" using conflicted_name [OF names i] by blast
  obtain c where c: "c \<in> set conflicts" "conflict_of items n = Inr c" using emap_from [OF conflicts n(2)] by blast
  have "load LegacyConflict x ''conflicts'' = Inr x" if "x \<in> set conflicts" for x
    using emap_to [OF conflicts that] by (metis conflict_view loads)
  then have all: "jget st ''conflicts'' = JList conflicts" by (rule status_conflicts [OF st])
  obtain d where d: "c = JObj d" "jget d ''name'' = JStr n" "it_candidate i \<in> set (objects_of (jget d ''candidates''))"
    using conflict_view [OF c(2) loads] i(1) n(1) by metis
  have "d \<in> set (objects_of (jget st ''conflicts''))" using all c(1) d(1) by (force simp: objects_of_def)
  then show ?thesis unfolding listed_as_candidate_def
    using d n candidate_fields [of "it_source i" "it_record i" "it_candidate i"] item [OF i(1)] by (auto simp: jopt_def)
qed

text \<open>
  C10. Every record of every legacy installation is in the planned global registry or is listed as a candidate of a conflict; every record of the global registry stays in it.
\<close>

theorem plan_loses_no_record:
  assumes "plan_migration h t sources = Inr p" "tp_records t = Inr targets"
  shows "set targets \<subseteq> set (pl_records p) \<and> set (pl_records p) \<subseteq> set targets \<union> (\<Union>s \<in> set sources. set (ls_records s))
     \<and> (\<forall>s \<in> set sources. \<forall>r \<in> set (ls_records s).
          (\<exists>r' \<in> set (pl_records p). record_bytes r' = record_bytes r) \<or> listed_as_candidate (pl_status p) s r)"
  using assms(1)
proof (rule plan_parts)
  fix items pss quarantine targets' callbacks names conflicts views merged artifacts st
  assume items: "collect_items sources = Inr items"
    and q: "plan_quarantine t items sources (concat pss) = Inr (quarantine, targets', callbacks)"
    and names: "conflict_names quarantine items = Inr names" and conflicts: "emap (conflict_of items) names = Inr conflicts"
    and st: "status_view_of views conflicts (count_of Imported (outcomes names quarantine [] items))
       (count_of Deduplicated (outcomes names quarantine [] items)) = Inr st"
    and p: "p = \<lparr>pl_status = st, pl_records = sorted_records (merged_records targets' (selected_items names quarantine items)),
       pl_callbacks = merged, pl_artifacts = artifacts\<rparr>"
  have t: "targets' = targets" using q assms(2) by (auto elim: quarantine_parts)
  have recs: "set (pl_records p) = set (merged_records targets (selected_items names quarantine items))"
    by (simp add: p t sorted_records_def)
  have "(\<exists>r' \<in> set (pl_records p). record_bytes r' = record_bytes r) \<or> listed_as_candidate (pl_status p) s r"
    if s: "s \<in> set sources" and r: "r \<in> set (ls_records s)" for s r
  proof -
    obtain i where i: "i \<in> set items" "it_record i = r" "it_source i = s" using item_cases(2) [OF items s r] by blast
    show ?thesis
    proof (cases "is_conflicted names quarantine i")
      case True
      then show ?thesis using conflicted_is_listed [OF items names conflicts st i(1)] i p by simp
    next
      case False
      then have "i \<in> set (selected_items names quarantine items)" using i by (simp add: selected_items_def)
      then show ?thesis using merged_has i by (fastforce simp: recs item_bytes_def)
    qed
  qed
  moreover have "set (pl_records p) \<subseteq> set targets \<union> (\<Union>s \<in> set sources. set (ls_records s))"
    using merged_from item_cases(1) [OF items] by (fastforce simp: recs selected_items_def)
  ultimately show ?thesis using merged_keeps [of targets] recs by simp
qed


section \<open>Identifiers\<close>

text \<open>Two records may stand in one registry.\<close>

definition apart :: "session_record \<Rightarrow> session_record \<Rightarrow> bool" where
  "apart x y \<longleftrightarrow> sr_session_id x \<noteq> sr_session_id y \<and> sr_thread_id x \<noteq> sr_thread_id y
     \<and> (sr_name x = None \<or> sr_name x \<noteq> sr_name y)"

lemma apart_sym: "apart x y \<Longrightarrow> apart y x"
  by (auto simp: apart_def)

lemma unique_iff_apart: "identifiers_unique rs \<longleftrightarrow> sorted_wrt apart rs"
  unfolding identifiers_unique_def
  by (induction rs) (auto simp: apart_def List.map_filter_def image_iff split: option.splits)

lemma unique_sorted_records: "identifiers_unique (sorted_records rs) = identifiers_unique rs"
  by (simp add: identifiers_unique_def sorted_records_def distinct_map List.map_filter_def filter_sort)

lemma clashing_iff: "x \<in> set (clashing key val xs) \<longleftrightarrow> x \<in> set xs \<and> key x \<noteq> None \<and> (\<exists>y \<in> set xs. key y = key x \<and> val y \<noteq> val x)"
  by (auto simp: clashing_def list_ex_iff)

text \<open>Two records with different contents that share an identity are both quarantined.\<close>

lemma clash_quarantined:
  assumes "i \<in> set items" "j \<in> set items" "item_bytes i \<noteq> item_bytes j" "\<not> apart (it_record i) (it_record j)"
  shows "sr_session_id (it_record i) \<in> set (record_quarantine items)"
proof -
  have "sr_name (it_record i) \<noteq> None \<and> sr_name (it_record j) = sr_name (it_record i)
    \<or> sr_session_id (it_record j) = sr_session_id (it_record i) \<or> sr_thread_id (it_record j) = sr_thread_id (it_record i)"
    using assms(4) by (auto simp: apart_def)
  then have "i \<in> set (clashing (sr_name \<circ> it_record) item_bytes items)
    \<or> i \<in> set (clashing (\<lambda>i. Some (sr_session_id (it_record i))) item_bytes items)
    \<or> i \<in> set (clashing (\<lambda>i. Some (sr_thread_id (it_record i))) item_bytes items)"
    unfolding clashing_iff o_def using assms(1-3) by (metis option.distinct(1))
  then show ?thesis unfolding record_quarantine_def sessions_of_def set_map set_append by auto
qed

lemma target_clash_quarantined:
  assumes "target_quarantine targets items = Inr taken" "i \<in> set items" "r \<in> set targets"
    "record_bytes r \<noteq> item_bytes i" "\<not> apart r (it_record i)"
  shows "sr_session_id (it_record i) \<in> set taken"
proof -
  have "collides_with_target targets (it_record i)"
    unfolding collides_with_target_def list_ex_iff using assms(3-5)
    by (intro bexI [of _ r]) (cases "sr_name (it_record i)"; auto simp: shares_identity_def apart_def item_bytes_def)
  then show ?thesis using assms(1, 2)
    by (auto simp: target_quarantine_def Let_def sessions_of_def split: if_splits)
qed

text \<open>
  When the global registry's records have distinct session, thread and name identifiers, so have the planned ones, whatever the legacy installations hold.
\<close>

theorem planned_identifiers_unique:
  assumes "plan_migration h t sources = Inr p" "tp_records t = Inr targets" "identifiers_unique targets"
  shows "identifiers_unique (pl_records p)"
  using assms(1)
proof (rule plan_parts)
  fix items pss quarantine targets' callbacks names conflicts views merged artifacts st
  assume q: "plan_quarantine t items sources (concat pss) = Inr (quarantine, targets', callbacks)"
    and p: "p = \<lparr>pl_status = st, pl_records = sorted_records (merged_records targets' (selected_items names quarantine items)),
       pl_callbacks = merged, pl_artifacts = artifacts\<rparr>"
  obtain taken where t: "targets' = targets" "target_quarantine targets items = Inr taken"
    and quar: "set (record_quarantine items) \<subseteq> set quarantine" "set taken \<subseteq> set quarantine"
    using q assms(2) by (elim quarantine_parts) (rule that, auto)
  have sel: "i \<in> set items \<and> sr_session_id (it_record i) \<notin> set quarantine" if "i \<in> set (selected_items names quarantine items)" for i
    using that by (auto simp: selected_items_def is_conflicted_def in_quarantine_def)
  have "sorted_wrt apart (merged_records targets (selected_items names quarantine items))"
  proof (rule merged_pairwise)
    show "sorted_wrt apart targets" using assms(3) by (simp add: unique_iff_apart)
    show "apart r (it_record i)" if "r \<in> set targets" "i \<in> set (selected_items names quarantine items)" "record_bytes r \<noteq> item_bytes i" for r i
      using target_clash_quarantined [OF t(2)] sel that quar by blast
    show "apart (it_record i) (it_record j)"
      if "i \<in> set (selected_items names quarantine items)" "j \<in> set (selected_items names quarantine items)" "item_bytes i \<noteq> item_bytes j" for i j
      using clash_quarantined sel that quar by blast
  qed (rule apart_sym)
  then have "identifiers_unique (merged_records targets (selected_items names quarantine items))" by (simp add: unique_iff_apart)
  then show ?thesis by (simp add: p t unique_sorted_records)
qed

end
