(* ===== verification/MigrationRepair.thy ===== *)
theory MigrationRepair
  imports MigrationProps
begin

text \<open>
  A commit that stopped after any of its stages leaves a store from which the same plan is made
  again: keyed unions are stable, and what the plan added clashes with nothing it selected.
\<close>

section \<open>Keyed unions\<close>

lemma dset_same: "dget d k = Some v \<Longrightarrow> dset d k v = d"
  by (induction d k v rule: dset.induct) (auto split: if_splits)

definition by_key :: "('a \<Rightarrow> string) \<Rightarrow> 'a list \<Rightarrow> (string, 'a) dict" where
  "by_key key xs = map (\<lambda>x. (key x, x)) xs"

lemma dkeys_by_key [simp]: "dkeys (by_key key xs) = map key xs"
  by (simp add: by_key_def dkeys_def)

lemma by_key_lookup: "distinct (map key xs) \<Longrightarrow> dget (by_key key xs) k = Some x \<longleftrightarrow> x \<in> set xs \<and> key x = k"
  by (subst map_of_eq_Some_iff) (auto simp: by_key_def o_def)

lemma keyed_map: "map_of (fold (\<lambda>x d. dset d (key x) x) xs d) = map_of d ++ map_of (rev (by_key key xs))"
  by (induction xs arbitrary: d) (auto simp: by_key_def map_add_def fun_eq_iff split: option.splits)

lemma keyed_distinct_keys: "distinct (dkeys d) \<Longrightarrow> distinct (dkeys (fold (\<lambda>x d. dset d (key x) x) xs d))"
  by (induction xs arbitrary: d) auto

lemma keyed_facts:
  assumes "distinct (map key xs)"
  shows "map_of (keyed key xs) = map_of (by_key key xs)" "distinct (dkeys (keyed key xs))"
proof -
  have "map_of (rev (by_key key xs)) = map_of (by_key key xs)"
    using assms by (intro map_of_inject_set [THEN iffD2]) (auto simp: by_key_def rev_map o_def simp flip: rev_map)
  then show "map_of (keyed key xs) = map_of (by_key key xs)" by (simp add: keyed_def keyed_map)
  show "distinct (dkeys (keyed key xs))" unfolding keyed_def by (rule keyed_distinct_keys) simp
qed

lemma union_by_facts:
  assumes "union_by key eq e d xs = Inr d'" "distinct (map key xs)"
  shows "map_of d' = map_of d ++ map_of (by_key key xs)" "distinct (dkeys d) \<Longrightarrow> distinct (dkeys d')"
proof -
  have "map_of d' = map_of d ++ map_of (by_key key xs) \<and> (distinct (dkeys d) \<longrightarrow> distinct (dkeys d'))"
    using assms
  proof (induction xs arbitrary: d)
    case (Cons x xs)
    then have u: "union_by key eq e (dset d (key x) x) xs = Inr d'" by (auto split: option.splits if_splits)
    have "key x \<notin> dom (map_of (by_key key xs))" using Cons.prems(2) by (simp add: dom_map_of_conv_image_fst by_key_def image_comp)
    moreover have "map_of (by_key key (x # xs)) = (map_of (by_key key xs))(key x \<mapsto> x)" by (simp add: by_key_def)
    ultimately show ?case using Cons.IH [OF u] Cons.prems(2)
      by (auto simp: map_add_def fun_eq_iff dom_def split: option.splits)
  qed (simp add: by_key_def)
  then show "map_of d' = map_of d ++ map_of (by_key key xs)" "distinct (dkeys d) \<Longrightarrow> distinct (dkeys d')" by auto
qed

lemma union_by_again:
  "(\<And>x. x \<in> set xs \<Longrightarrow> dget d (key x) = Some x \<and> eq x x) \<Longrightarrow> union_by key eq e d xs = Inr d"
  by (induction xs) (auto simp: dset_same)

lemma sorted_values_unique:
  assumes "map_of d = map_of d'" "distinct (dkeys d)" "distinct (dkeys d')"
  shows "sorted_values d = sorted_values d'"
proof -
  have "set d = set d'" using assms by (simp add: map_of_inject_set dkeys_def)
  moreover have "distinct (map fst (sort_key fst d))" "distinct (map fst (sort_key fst d'))"
    using assms(2, 3) by (simp_all add: dkeys_def distinct_map)
  moreover have "inj_on fst (set d \<union> set d')"
    using assms(2) \<open>set d = set d'\<close> by (simp add: dkeys_def distinct_map)
  ultimately have "sort_key fst d = sort_key fst d'"
    by (intro map_sorted_distinct_set_unique [where f = fst]) auto
  then show ?thesis by (simp add: sorted_values_def)
qed

lemma set_sorted_values: "set (sorted_values d) = snd ` set d"
  by (simp add: sorted_values_def)

text \<open>A dictionary whose values know their keys is found again from its values.\<close>

lemma keyed_values:
  assumes "distinct (dkeys d)" "\<And>k x. dget d k = Some x \<Longrightarrow> key x = k"
  shows "distinct (map key (sorted_values d))" "map_of (keyed key (sorted_values d)) = map_of d"
proof -
  have own: "key x = k" if "(k, x) \<in> set d" for k x using that assms by (simp add: dkeys_def)
  then have "map key (sorted_values d) = dkeys (sort_key fst d)" by (auto simp: sorted_values_def dkeys_def)
  then show dist: "distinct (map key (sorted_values d))" using distinct_sort_keys [OF assms(1)] by simp
  have "by_key key (sorted_values d) = sort_key fst d"
    unfolding by_key_def sorted_values_def map_map by (rule map_idI) (use own in auto)
  then show "map_of (keyed key (sorted_values d)) = map_of d"
    using keyed_facts(1) [OF dist] map_of_sort_key [OF assms(1)] by simp
qed

text \<open>The union of two keyed lists: what it holds, and that joining the second once more changes nothing.\<close>

lemma union_of_lists:
  assumes u: "union_by key eq e (keyed key ts) xs = Inr d" and ts: "distinct (map key ts)" and xs: "distinct (map key xs)"
  shows "v \<in> set (sorted_values d) \<longleftrightarrow> v \<in> set xs \<or> v \<in> set ts \<and> key v \<notin> key ` set xs"
    and "distinct (map key (sorted_values d))"
    and "(\<And>x. x \<in> set xs \<Longrightarrow> eq x x) \<Longrightarrow>
      \<exists>d'. union_by key eq e (keyed key (sorted_values d)) xs = Inr d' \<and> sorted_values d' = sorted_values d"
proof -
  note facts = union_by_facts [OF u xs]
  have m: "map_of d = map_of (by_key key ts) ++ map_of (by_key key xs)"
    using facts(1) keyed_facts(1) [OF ts] by simp
  have dist: "distinct (dkeys d)" using facts(2) keyed_facts(2) [OF ts] by blast
  have look: "dget d k = Some v \<longleftrightarrow> (v \<in> set xs \<and> key v = k) \<or> (k \<notin> key ` set xs \<and> v \<in> set ts \<and> key v = k)" for k v
    using by_key_lookup [OF xs] by_key_lookup [OF ts]
    by (auto simp: m map_add_Some_iff map_of_eq_None_iff by_key_def image_image)
  then have own: "dget d k = Some x \<Longrightarrow> key x = k" for k x by blast
  have "v \<in> set (sorted_values d) \<longleftrightarrow> dget d (key v) = Some v"
    using dist own by (force simp: set_sorted_values dkeys_def image_iff)
  then show "v \<in> set (sorted_values d) \<longleftrightarrow> v \<in> set xs \<or> v \<in> set ts \<and> key v \<notin> key ` set xs" using look by auto
  note again = keyed_values [OF dist own]
  show "distinct (map key (sorted_values d))" by (rule again(1))
  show "\<exists>d'. union_by key eq e (keyed key (sorted_values d)) xs = Inr d' \<and> sorted_values d' = sorted_values d"
    if "\<And>x. x \<in> set xs \<Longrightarrow> eq x x"
  proof (intro exI conjI)
    show "union_by key eq e (keyed key (sorted_values d)) xs = Inr (keyed key (sorted_values d))"
      by (rule union_by_again) (use that look again(2) in auto)
    show "sorted_values (keyed key (sorted_values d)) = sorted_values d"
      by (rule sorted_values_unique [OF again(2) keyed_facts(2) [OF again(1)] dist])
  qed
qed


section \<open>Equal to itself\<close>

text \<open>What \<open>json.loads\<close> returns, NaN apart: the keys of a dictionary are distinct.\<close>

fun proper :: "json \<Rightarrow> bool" where
  "proper (JObj d) \<longleftrightarrow> distinct (dkeys d) \<and> list_all (\<lambda>kv. proper (snd kv)) d"
| "proper (JList xs) \<longleftrightarrow> list_all proper xs"
| "proper (JFloat f) \<longleftrightarrow> f \<noteq> NaN"
| "proper _ \<longleftrightarrow> True"

lemma proper_equal: "proper v \<Longrightarrow> py_eq v v"
proof (induction v rule: proper.induct)
  case (1 d)
  have "dget d (fst kv) = Some (snd kv)" if "kv \<in> set d" for kv
    using that 1(2) by (intro map_of_is_SomeI) (simp_all add: dkeys_def)
  then show ?case using 1 by (auto simp: list_all_iff)
next
  case (2 xs)
  then show ?case by (auto simp: list_all_iff set_zip)
next
  case (3 f)
  then show ?case by (cases f) (auto simp: num_eq_def num_val_def)
qed (auto simp: num_eq_def num_val_def)

definition proper_snapshot :: "store_snapshot \<Rightarrow> bool" where
  "proper_snapshot sn \<longleftrightarrow> (\<forall>b \<in> set (sn_bindings sn). proper (JObj (binding_dict b)))
     \<and> (\<forall>e \<in> set (sn_outbox sn). proper (JObj (entry_dict e)))"

lemma proper_entry: "proper (JObj (entry_dict e)) \<Longrightarrow> entry_eq e e"
  unfolding entry_eq_def by (rule proper_equal)

lemma proper_binding: "proper (JObj (binding_dict b)) \<Longrightarrow> binding_eq b b"
  by (auto simp: binding_dict_def binding_eq_def route_of_def intro!: proper_equal)


section \<open>Merging again\<close>

definition keyed_snapshot :: "store_snapshot \<Rightarrow> bool" where
  "keyed_snapshot sn \<longleftrightarrow> distinct (map cb_session_id (sn_bindings sn)) \<and> distinct (map en_event_id (sn_outbox sn))"

definition taken_entries :: "string list \<Rightarrow> store_snapshot \<Rightarrow> outbox_entry list" where
  "taken_entries selected sn = filter (\<lambda>e. selected = [] \<or> en_session_id e \<in> set selected) (sn_outbox sn)"

lemma merge_facts:
  assumes m: "merge_snapshots target source selected = Inr merged" and t: "keyed_snapshot target" and s: "keyed_snapshot source"
  shows "b \<in> set (sn_bindings merged) \<longleftrightarrow> b \<in> set (sn_bindings source)
      \<or> b \<in> set (sn_bindings target) \<and> cb_session_id b \<notin> cb_session_id ` set (sn_bindings source)"
    and "e \<in> set (sn_outbox merged) \<longleftrightarrow> e \<in> set (taken_entries selected source)
      \<or> e \<in> set (sn_outbox target) \<and> en_event_id e \<notin> en_event_id ` set (taken_entries selected source)"
    and "keyed_snapshot merged"
    and "proper_snapshot merged \<Longrightarrow> merge_snapshots merged source selected = Inr merged"
proof -
  let ?be = "migration_error ''global_callback_binding_collision''" and ?ee = "migration_error ''global_callback_event_collision''"
  have ts: "distinct (map cb_session_id (sn_bindings target))" "distinct (map en_event_id (sn_outbox target))"
    and ss: "distinct (map cb_session_id (sn_bindings source))" "distinct (map en_event_id (taken_entries selected source))"
    using t s by (auto simp: keyed_snapshot_def taken_entries_def distinct_map_filter)
  obtain bs es where bs: "union_by cb_session_id binding_eq ?be (keyed cb_session_id (sn_bindings target)) (sn_bindings source) = Inr bs"
    and es: "union_by en_event_id entry_eq ?ee (keyed en_event_id (sn_outbox target)) (taken_entries selected source) = Inr es"
    and snap: "mk_snapshot (sorted_values bs) (sorted_values es) = Inr merged"
    using m by (auto simp: merge_snapshots_def taken_entries_def res_simps)
  then have parts: "merged = \<lparr>sn_bindings = sorted_values bs, sn_outbox = sorted_values es\<rparr>"
    by (auto simp: mk_snapshot_def split: if_splits)
  note B = union_of_lists [OF bs ts(1) ss(1)] and E = union_of_lists [OF es ts(2) ss(2)]
  show B': "b \<in> set (sn_bindings merged) \<longleftrightarrow> b \<in> set (sn_bindings source)
      \<or> b \<in> set (sn_bindings target) \<and> cb_session_id b \<notin> cb_session_id ` set (sn_bindings source)" for b
    using B(1) by (simp add: parts)
  show E': "e \<in> set (sn_outbox merged) \<longleftrightarrow> e \<in> set (taken_entries selected source)
      \<or> e \<in> set (sn_outbox target) \<and> en_event_id e \<notin> en_event_id ` set (taken_entries selected source)" for e
    using E(1) by (simp add: parts)
  show "keyed_snapshot merged" using B(2) E(2) by (simp add: keyed_snapshot_def parts)
  assume proper: "proper_snapshot merged"
  have "binding_eq x x" if "x \<in> set (sn_bindings source)" for x
    using that proper B' proper_binding by (auto simp: proper_snapshot_def)
  then obtain bs' where bs': "union_by cb_session_id binding_eq ?be (keyed cb_session_id (sn_bindings merged)) (sn_bindings source) = Inr bs'"
    "sorted_values bs' = sorted_values bs" using B(3) by (auto simp: parts)
  have "entry_eq x x" if "x \<in> set (taken_entries selected source)" for x
    using that proper E' proper_entry by (auto simp: proper_snapshot_def)
  then obtain es' where es': "union_by en_event_id entry_eq ?ee (keyed en_event_id (sn_outbox merged)) (taken_entries selected source) = Inr es'"
    "sorted_values es' = sorted_values es" using E(3) by (auto simp: parts)
  show "merge_snapshots merged source selected = Inr merged"
    using bs' es' snap by (simp add: merge_snapshots_def taken_entries_def)
qed


section \<open>Resuming a plan\<close>

text \<open>
  The global store after a commit of \<open>p\<close> that stopped somewhere: each authority is as it was or
  as the plan wrote it, and the artifacts that exist have the planned contents.
\<close>

definition artifact_there :: "legacy_host \<Rightarrow> target_state \<Rightarrow> artifact_pair \<Rightarrow> bool" where
  "artifact_there h t a \<longleftrightarrow> (\<exists>m. tp_look t (target_artifact_path h (fst a)) = Seen m
     \<and> owner_regular (lh_uid h) (target_artifact_path h (fst a)) (Seen m) = Inr ()
     \<and> dget (tp_artifacts t) (af_event_id (fst a) @ ''.json'') = Some (completion_bytes h (snd a)))"

definition partly_committed :: "legacy_host \<Rightarrow> migration_plan \<Rightarrow> target_state \<Rightarrow> target_state \<Rightarrow> bool" where
  "partly_committed h p t t' \<longleftrightarrow>
     (tp_records t' = tp_records t \<or> tp_records t' = Inr (pl_records p))
   \<and> (tp_callbacks t' = tp_callbacks t \<or> tp_callbacks t' = Inr (pl_callbacks p))
   \<and> (\<forall>a \<in> set (pl_artifacts p). tp_look t' (target_artifact_path h (fst a)) = Missing \<or> artifact_there h t' a)"

lemma artifacts_pass:
  assumes "\<forall>a \<in> set artifacts. tp_look t (target_artifact_path h (fst a)) = Missing \<or> artifact_there h t a"
  shows "prevalidate_artifacts h t artifacts = Inr ()"
proof -
  have "check_artifact_target h t a = Inr ()" if "a \<in> set artifacts" for a
    using assms that by (auto simp: check_artifact_target_def artifact_there_def Let_def)
  then have "emap (check_artifact_target h t) artifacts = Inr (map (\<lambda>_. ()) artifacts)" by (rule emap_total)
  then show ?thesis by (simp add: prevalidate_artifacts_def forget_def)
qed

text \<open>The records: a source record collides with the planned ones exactly when it did with the targets.\<close>

lemma collides_again:
  assumes quar: "set (record_quarantine items) \<subseteq> set quarantine" and i: "i \<in> set items"
    and rs: "set rs = set (merged_records targets (selected_items names quarantine items))"
  shows "collides_with_target rs (it_record i) = collides_with_target targets (it_record i)"
proof
  assume "collides_with_target rs (it_record i)"
  then obtain r where r: "r \<in> set rs" "shares_identity (it_record i) r" "record_bytes r \<noteq> item_bytes i"
    by (auto simp: collides_with_target_def list_ex_iff item_bytes_def)
  have "r \<in> set targets"
  proof (rule ccontr)
    assume "r \<notin> set targets"
    then obtain j where j: "j \<in> set (selected_items names quarantine items)" "it_record j = r"
      using r(1) rs merged_from by blast
    then have sel: "j \<in> set items" "sr_session_id (it_record j) \<notin> set quarantine"
      by (auto simp: selected_items_def is_conflicted_def in_quarantine_def)
    have "\<not> apart (it_record j) (it_record i)"
      using r(2) j(2) by (auto simp: shares_identity_def apart_def)
    then have "sr_session_id (it_record j) \<in> set (record_quarantine items)"
      using clash_quarantined [OF sel(1) i] r(3) j(2) by (auto simp: item_bytes_def)
    with sel(2) quar show False by blast
  qed
  with r show "collides_with_target targets (it_record i)"
    by (auto simp: collides_with_target_def list_ex_iff item_bytes_def)
next
  assume "collides_with_target targets (it_record i)"
  then show "collides_with_target rs (it_record i)"
    using merged_keeps [of targets] rs by (fastforce simp: collides_with_target_def list_ex_iff)
qed

lemma target_quarantine_again:
  assumes "set (record_quarantine items) \<subseteq> set quarantine"
    "set rs = set (merged_records targets (selected_items names quarantine items))"
  shows "target_quarantine rs items = target_quarantine targets items"
proof -
  have "filter (\<lambda>i. collides_with_target rs (it_record i)) items = filter (\<lambda>i. collides_with_target targets (it_record i)) items"
    by (rule filter_cong) (use collides_again [OF assms(1) _ assms(2)] in auto)
  then show ?thesis by (simp add: target_quarantine_def)
qed

lemma merged_again:
  assumes "set rs = set (merged_records targets xs)"
  shows "merged_records rs xs = rs"
proof -
  have "fold add_record ys rs = rs" if "set ys \<subseteq> set xs" for ys
    using that
  proof (induction ys)
    case (Cons i ys)
    then have "\<exists>r \<in> set rs. record_bytes r = item_bytes i" using merged_has [of i xs targets] assms by auto
    then have "add_record i rs = rs" by (auto simp: add_record_def list_ex_iff)
    with Cons show ?case by simp
  qed simp
  then show ?thesis by (simp add: merged_records_def)
qed

lemma sorted_records_again: "sorted_records (sorted_records rs) = sorted_records rs"
  unfolding sorted_records_def by (rule sort_key_id_if_sorted) simp


section \<open>Callbacks of a plan\<close>

lemma with_bytes_iff:
  "with_bytes f xs = Inr ps \<longleftrightarrow> list_all (\<lambda>x. json_finite (JObj (f x))) xs \<and> ps = map (\<lambda>x. (x, sorted_keys (JObj (f x)))) xs"
proof (induction xs arbitrary: ps)
  case (Cons x xs)
  have c: "with_bytes f (x # xs) = ebind (canonical (JObj (f x))) (\<lambda>b. ebind (with_bytes f xs) (\<lambda>ps. Inr ((x, b) # ps)))"
    by (auto simp: with_bytes_def canonical_def)
  show ?case unfolding c by (auto simp: res_simps canonical_def Cons.IH simp del: json_finite.simps)
qed (auto simp: with_bytes_def)

lemma union_by_values:
  "union_by key eq e d xs = Inr d' \<Longrightarrow> distinct (dkeys d) \<Longrightarrow> (\<And>k x. (k, x) \<in> set d \<Longrightarrow> key x = k) \<Longrightarrow>
     distinct (dkeys d') \<and> (\<forall>k x. (k, x) \<in> set d' \<longrightarrow> key x = k \<and> (x \<in> set xs \<or> (k, x) \<in> set d))
     \<and> set (dkeys d') = set (dkeys d) \<union> key ` set xs"
proof (induction xs arbitrary: d)
  case (Cons x xs)
  have u: "union_by key eq e (dset d (key x) x) xs = Inr d'" using Cons.prems(1) by (auto split: option.splits if_splits)
  have own: "(k, y) \<in> set (dset d (key x) x) \<Longrightarrow> key y = k" for k y using set_dset_subset Cons.prems(3) by fastforce
  have "distinct (dkeys (dset d (key x) x))" using Cons.prems(2) by blast
  note ih = Cons.IH [OF u this own]
  have "key y = k \<and> (y \<in> set (x # xs) \<or> (k, y) \<in> set d)" if "(k, y) \<in> set d'" for k y
    using ih that set_dset_subset [of d "key x" x] by auto
  with ih show ?case by (simp add: set_eq_iff)
qed auto

lemma dedup_facts:
  assumes "dedup_by key eq e xs = Inr ys"
  shows "set ys \<subseteq> set xs" "distinct (map key ys)" "key ` set ys = key ` set xs"
proof -
  obtain d where u: "union_by key eq e [] xs = Inr d" and ys: "ys = sorted_values d"
    using assms by (auto simp: dedup_by_def res_simps)
  have d: "distinct (dkeys d)" "\<And>k x. (k, x) \<in> set d \<Longrightarrow> key x = k \<and> x \<in> set xs" "set (dkeys d) = key ` set xs"
    using union_by_values [OF u] by auto
  show "set ys \<subseteq> set xs" using d(2) by (auto simp: ys set_sorted_values)
  show "distinct (map key ys)" unfolding ys by (rule keyed_values(1) [OF d(1)]) (use d in \<open>auto dest: map_of_SomeD\<close>)
  show "key ` set ys = key ` set xs"
  proof -
    have "key ` snd ` set d = fst ` set d" using d(2) by (force simp: image_iff)
    then show ?thesis using d(3) by (simp add: ys set_sorted_values dkeys_def)
  qed
qed

text \<open>A source value differs from the merged values exactly when it differed from the target's.\<close>

lemma differs_again:
  assumes new: "\<And>v. v \<in> set new \<Longrightarrow> v \<in> set old \<or> v \<in> set xs \<and> sess (fst v) \<notin> Q"
    and kept: "\<And>v. v \<in> set old \<Longrightarrow> v \<in> set new \<or> (\<exists>z \<in> set xs. key (fst z) = key (fst v) \<and> sess (fst z) \<notin> Q)"
    and clash: "\<And>x y. x \<in> set xs \<Longrightarrow> y \<in> set xs \<Longrightarrow> key (fst x) = key (fst y) \<Longrightarrow> snd x \<noteq> snd y \<Longrightarrow> sess (fst x) \<in> Q"
    and taken: "\<And>z. z \<in> set xs \<Longrightarrow> target_differs key old xs z \<Longrightarrow> sess (fst z) \<in> Q"
  shows "target_differs key new xs x = target_differs key old xs x"
proof
  assume "target_differs key new xs x"
  then obtain v y where v: "v \<in> set new" "key (fst v) = key (fst x)" "y \<in> set xs" "key (fst y) = key (fst x)" "snd v \<noteq> snd y"
    by (auto simp: target_differs_def list_ex_iff)
  then have "v \<in> set old" using new [OF v(1)] clash [of v y] by auto
  with v show "target_differs key old xs x" by (auto simp: target_differs_def list_ex_iff)
next
  assume d: "target_differs key old xs x"
  then obtain v y where v: "v \<in> set old" "key (fst v) = key (fst x)" "y \<in> set xs" "key (fst y) = key (fst x)" "snd v \<noteq> snd y"
    by (auto simp: target_differs_def list_ex_iff)
  have "v \<in> set new"
  proof (rule ccontr)
    assume "v \<notin> set new"
    then obtain z where z: "z \<in> set xs" "key (fst z) = key (fst v)" "sess (fst z) \<notin> Q" using kept [OF v(1)] by blast
    then have "target_differs key old xs z" using v by (auto simp: target_differs_def list_ex_iff)
    with taken z show False by blast
  qed
  with v show "target_differs key new xs x" by (auto simp: target_differs_def list_ex_iff)
qed

lemma callback_clash:
  "x \<in> set bs \<Longrightarrow> y \<in> set bs \<Longrightarrow> cb_session_id (fst x) = cb_session_id (fst y) \<Longrightarrow> snd x \<noteq> snd y \<Longrightarrow>
     cb_session_id (fst x) \<in> set (callback_quarantine bs es)"
  "u \<in> set es \<Longrightarrow> v \<in> set es \<Longrightarrow> en_event_id (fst u) = en_event_id (fst v) \<Longrightarrow> snd u \<noteq> snd v \<Longrightarrow>
     en_session_id (fst u) \<in> set (callback_quarantine bs es)"
proof -
  assume a: "x \<in> set bs" "y \<in> set bs" "cb_session_id (fst x) = cb_session_id (fst y)" "snd x \<noteq> snd y"
  then have "x \<in> set (clashing (\<lambda>p. Some (cb_session_id (fst p))) snd bs)" by (auto simp: clashing_iff)
  then show "cb_session_id (fst x) \<in> set (callback_quarantine bs es)" by (auto simp: callback_quarantine_def)
next
  assume a: "u \<in> set es" "v \<in> set es" "en_event_id (fst u) = en_event_id (fst v)" "snd u \<noteq> snd v"
  then have "u \<in> set (clashing (\<lambda>p. Some (en_event_id (fst p))) snd es)" by (auto simp: clashing_iff)
  then show "en_session_id (fst u) \<in> set (callback_quarantine bs es)" by (auto simp: callback_quarantine_def)
qed


text \<open>What a plan merges: values of the selected sessions of the sources over those of the targets.\<close>

definition merged_from_selected :: "legacy_source list \<Rightarrow> projected_entry list \<Rightarrow> string list \<Rightarrow> store_snapshot \<Rightarrow> store_snapshot \<Rightarrow>
    store_snapshot \<Rightarrow> bool" where
  "merged_from_selected sources projected selected callbacks shot merged \<longleftrightarrow>
     (\<forall>b \<in> set (sn_bindings shot).
        b \<in> set (concat (map (\<lambda>s. sn_bindings (ls_callbacks s)) sources)) \<and> cb_session_id b \<in> set selected)
   \<and> (\<forall>e \<in> set (sn_outbox shot). e \<in> set (map fst projected) \<and> en_session_id e \<in> set selected)
   \<and> (\<forall>b. b \<in> set (sn_bindings merged) \<longleftrightarrow> b \<in> set (sn_bindings shot)
        \<or> b \<in> set (sn_bindings callbacks) \<and> cb_session_id b \<notin> cb_session_id ` set (sn_bindings shot))
   \<and> (\<forall>e. e \<in> set (sn_outbox merged) \<longleftrightarrow> e \<in> set (sn_outbox shot)
        \<or> e \<in> set (sn_outbox callbacks) \<and> en_event_id e \<notin> en_event_id ` set (sn_outbox shot))"

lemma planned_callbacks:
  assumes pc: "plan_callbacks h t callbacks sources projected selected = Inr (merged, artifacts)"
    and keyed: "keyed_snapshot callbacks"
  obtains shot where "merged_from_selected sources projected selected callbacks shot merged"
    "\<And>t' cs. cs = callbacks \<or> cs = merged \<Longrightarrow> proper_snapshot merged \<Longrightarrow> prevalidate_artifacts h t' artifacts = Inr ()
      \<Longrightarrow> plan_callbacks h t' cs sources projected selected = Inr (merged, artifacts)"
proof -
  let ?own = "filter (\<lambda>b. cb_session_id b \<in> set selected) (concat (map (\<lambda>s. sn_bindings (ls_callbacks s)) sources))"
  let ?es = "filter (\<lambda>e. en_session_id e \<in> set selected) (map fst projected)"
  obtain bs es shot where bs: "dedup_bindings ?own = Inr bs" and es: "dedup_entries ?es = Inr es"
    and snap: "mk_snapshot bs es = Inr shot" and m: "merge_snapshots callbacks shot selected = Inr merged"
    and art: "dedup_artifacts (List.map_filter snd (filter (\<lambda>p. en_session_id (fst p) \<in> set selected) projected)) = Inr artifacts"
    using pc unfolding plan_callbacks_def by (auto simp only: res_simps prod.inject sum.inject)
  have parts: "shot = \<lparr>sn_bindings = bs, sn_outbox = es\<rparr>" using snap by (auto simp: mk_snapshot_def split: if_splits)
  note B = dedup_facts [OF bs [unfolded dedup_bindings_def]] and E = dedup_facts [OF es [unfolded dedup_entries_def]]
  have ks: "keyed_snapshot shot" using B(2) E(2) by (simp add: keyed_snapshot_def parts)
  have taken: "taken_entries selected shot = sn_outbox shot"
    unfolding taken_entries_def by (rule filter_True) (use E(1) in \<open>auto simp: parts\<close>)
  note M = merge_facts [OF m keyed ks, unfolded taken]
  show thesis
  proof (rule that [of shot])
    show "merged_from_selected sources projected selected callbacks shot merged"
      unfolding merged_from_selected_def using M(1, 2) B(1) E(1) by (auto simp: parts)
    show "plan_callbacks h t' cs sources projected selected = Inr (merged, artifacts)"
      if "cs = callbacks \<or> cs = merged" "proper_snapshot merged" "prevalidate_artifacts h t' artifacts = Inr ()" for t' cs
    proof -
      have "merge_snapshots cs shot selected = Inr merged" using that(1) m M(4) [OF that(2)] by blast
      then show ?thesis using bs es snap art that(3) by (simp add: plan_callbacks_def)
    qed
  qed
qed

lemma selected_not_quarantined:
  "s \<in> set (sessions_of (selected_items names quarantine items)) \<Longrightarrow> s \<notin> set quarantine"
  by (auto simp: sessions_of_def selected_items_def is_conflicted_def in_quarantine_def)

text \<open>The quarantine of a plan that is made again.\<close>

lemma quarantine_again:
  assumes q: "plan_quarantine t items sources projected = Inr (quarantine, targets, callbacks)"
    and pc: "plan_callbacks h t callbacks sources projected (sessions_of (selected_items names quarantine items)) = Inr (merged, artifacts)"
    and keyed: "keyed_snapshot callbacks"
    and rs: "tp_records t' = Inr rs" "rs = targets \<or> set rs = set (merged_records targets (selected_items names quarantine items))"
    and cs: "tp_callbacks t' = Inr cs" "cs = callbacks \<or> cs = merged"
  shows "plan_quarantine t' items sources projected = Inr (quarantine, rs, cs)"
  using q
proof (rule quarantine_parts)
  fix bs es taken tbs tes
  assume bs: "with_bytes binding_dict (concat (map (\<lambda>s. sn_bindings (ls_callbacks s)) sources)) = Inr bs"
    and es: "with_bytes entry_dict (map fst projected) = Inr es"
    and taken: "target_quarantine targets items = Inr taken"
    and tbs: "with_bytes binding_dict (sn_bindings callbacks) = Inr tbs" and tes: "with_bytes entry_dict (sn_outbox callbacks) = Inr tes"
    and quar: "quarantine = record_quarantine items @ callback_quarantine bs es @ taken @ target_callback_quarantine tbs tes bs es"
  define selected where "selected = sessions_of (selected_items names quarantine items)"
  have free: "s \<in> set selected \<Longrightarrow> s \<notin> set quarantine" for s unfolding selected_def by (rule selected_not_quarantined)
  have taken': "target_quarantine rs items = Inr taken"
    using rs(2) target_quarantine_again [of items quarantine rs targets names] taken quar by auto
  obtain shot where "merged_from_selected sources projected selected callbacks shot merged"
    by (rule planned_callbacks [OF pc [folded selected_def] keyed])
  note parts = this [unfolded merged_from_selected_def]
  note S = parts [THEN conjunct1, rule_format] parts [THEN conjunct2, THEN conjunct1, rule_format]
  note M = parts [THEN conjunct2, THEN conjunct2, THEN conjunct1, rule_format] parts [THEN conjunct2, THEN conjunct2, THEN conjunct2, rule_format]
  have bs': "bs = map (\<lambda>b. (b, sorted_keys (JObj (binding_dict b)))) (concat (map (\<lambda>s. sn_bindings (ls_callbacks s)) sources))"
    and es': "es = map (\<lambda>e. (e, sorted_keys (JObj (entry_dict e)))) (map fst projected)"
    and tbs': "tbs = map (\<lambda>b. (b, sorted_keys (JObj (binding_dict b)))) (sn_bindings callbacks)"
    and tes': "tes = map (\<lambda>e. (e, sorted_keys (JObj (entry_dict e)))) (sn_outbox callbacks)"
    using bs es tbs tes by (simp_all add: with_bytes_iff)
  have same: "plan_quarantine t' items sources projected = Inr (quarantine, rs, cs)"
    if nbs: "with_bytes binding_dict (sn_bindings cs) = Inr nbs" and nes: "with_bytes entry_dict (sn_outbox cs) = Inr nes"
      and eqs: "target_callback_quarantine nbs nes bs es = target_callback_quarantine tbs tes bs es" for nbs nes
    using bs es rs(1) taken' cs(1) nbs nes eqs by (simp add: plan_quarantine_def quar)
  show ?thesis
  proof (cases "cs = callbacks")
    case True
    then show ?thesis using same tbs tes by blast
  next
    case False
    then have cm: "cs = merged" using cs(2) by blast
    let ?nbs = "map (\<lambda>b. (b, sorted_keys (JObj (binding_dict b)))) (sn_bindings merged)"
    let ?nes = "map (\<lambda>e. (e, sorted_keys (JObj (entry_dict e)))) (sn_outbox merged)"
    have "json_finite (JObj (binding_dict b))" if "b \<in> set (sn_bindings merged)" for b
      using that bs tbs M(1) [of b] S(1) [of b] unfolding with_bytes_iff list_all_iff by blast
    then have nbs: "with_bytes binding_dict (sn_bindings cs) = Inr ?nbs"
      by (simp add: with_bytes_iff list_all_iff cm del: json_finite.simps sorted_keys.simps)
    have "json_finite (JObj (entry_dict e))" if "e \<in> set (sn_outbox merged)" for e
      using that es tes M(2) [of e] S(2) [of e] unfolding with_bytes_iff list_all_iff by blast
    then have nes: "with_bytes entry_dict (sn_outbox cs) = Inr ?nes"
      by (simp add: with_bytes_iff list_all_iff cm del: json_finite.simps sorted_keys.simps)
    have B: "target_differs cb_session_id ?nbs bs x = target_differs cb_session_id tbs bs x" for x
    proof (rule differs_again [where Q = "set quarantine" and sess = cb_session_id])
      show "v \<in> set tbs \<or> v \<in> set bs \<and> cb_session_id (fst v) \<notin> set quarantine" if "v \<in> set ?nbs" for v
        using that M(1) S(1) free by (auto simp: bs' tbs')
      show "v \<in> set ?nbs \<or> (\<exists>z \<in> set bs. cb_session_id (fst z) = cb_session_id (fst v) \<and> cb_session_id (fst z) \<notin> set quarantine)"
        if "v \<in> set tbs" for v
      proof (cases "cb_session_id (fst v) \<in> cb_session_id ` set (sn_bindings shot)")
        case True
        then obtain b where "b \<in> set (sn_bindings shot)" "cb_session_id b = cb_session_id (fst v)" by auto
        then show ?thesis using S(1) [of b] free by (auto simp: bs')
      next
        case False
        then show ?thesis using that M(1) by (auto simp: tbs')
      qed
      show "cb_session_id (fst u) \<in> set quarantine"
        if "u \<in> set bs" "y \<in> set bs" "cb_session_id (fst u) = cb_session_id (fst y)" "snd u \<noteq> snd y" for u y
        using callback_clash(1) [OF that] by (simp add: quar)
      show "cb_session_id (fst z) \<in> set quarantine" if "z \<in> set bs" "target_differs cb_session_id tbs bs z" for z
        using that by (auto simp: quar target_callback_quarantine_def)
    qed
    have E: "target_differs en_event_id ?nes es x = target_differs en_event_id tes es x" for x
    proof (rule differs_again [where Q = "set quarantine" and sess = en_session_id])
      show "v \<in> set tes \<or> v \<in> set es \<and> en_session_id (fst v) \<notin> set quarantine" if "v \<in> set ?nes" for v
      proof -
        obtain e where e: "v = (e, sorted_keys (JObj (entry_dict e)))" "e \<in> set (sn_outbox merged)"
          using \<open>v \<in> set ?nes\<close> unfolding set_map by blast
        show ?thesis
        proof (cases "e \<in> set (sn_outbox shot)")
          case True
          then have sel: "e \<in> set (map fst projected)" "en_session_id e \<notin> set quarantine"
            using S(2) [of e] free [of "en_session_id e"] by simp_all
          have "v \<in> (\<lambda>e. (e, sorted_keys (JObj (entry_dict e)))) ` set (map fst projected)" 
            using sel(1) unfolding e(1) by (rule imageI)
          then have "v \<in> set es" by (simp only: es' set_map [of _ "map fst projected"])
          then show ?thesis using sel(2) by (simp add: e(1))
        next
          case False
          then show ?thesis using e M(2) by (auto simp: tes' simp del: sorted_keys.simps)
        qed
      qed
      show "v \<in> set ?nes \<or> (\<exists>z \<in> set es. en_event_id (fst z) = en_event_id (fst v) \<and> en_session_id (fst z) \<notin> set quarantine)"
        if "v \<in> set tes" for v
      proof (cases "en_event_id (fst v) \<in> en_event_id ` set (sn_outbox shot)")
        case True
        then obtain e where "e \<in> set (sn_outbox shot)" "en_event_id e = en_event_id (fst v)" by auto
        then show ?thesis using S(2) [of e] free by (auto simp: es')
      next
        case False
        then show ?thesis using that M(2) by (auto simp: tes')
      qed
      show "en_session_id (fst u) \<in> set quarantine"
        if "u \<in> set es" "y \<in> set es" "en_event_id (fst u) = en_event_id (fst y)" "snd u \<noteq> snd y" for u y
        using callback_clash(2) [OF that] by (simp add: quar)
      show "en_session_id (fst z) \<in> set quarantine" if "z \<in> set es" "target_differs en_event_id tes es z" for z
        using that by (auto simp: quar target_callback_quarantine_def)
    qed
    have "target_callback_quarantine ?nbs ?nes bs es = target_callback_quarantine tbs tes bs es"
      unfolding target_callback_quarantine_def ext [of "target_differs cb_session_id ?nbs bs", OF B]
        ext [of "target_differs en_event_id ?nes es", OF E] by (rule refl)
    with nbs nes show ?thesis by (rule same)
  qed
qed


end
