(* ===== verification/MigrationLive.thy ===== *)
theory MigrationLive
  imports MigrationCommit MigrationRepair
begin

text \<open>
  Scans and the live coordinator: a scan that returned is stable, and the coordinator touches the
  store only inside a drain in which no mutation runs.
\<close>

section \<open>A resolution that returns leaves no intent\<close>

definition intent_clear :: "mig_state \<Rightarrow> bool" where
  "intent_clear s \<longleftrightarrow> md_intent (mg_disk s) = NoFile"

lemma clear_clears: "hoare P (clear_intent h) (\<lambda>_. intent_clear) (\<lambda>_ _. True)"
  by (rule hoare_weaken [OF clearing [where P = "\<lambda>_. True" and E = "\<lambda>_. True"]]) (auto simp: intent_clear_def)

lemma settle_clears:
  "hoare (\<lambda>s. intent = None \<longrightarrow> intent_clear s) (settle_intent h intent) (\<lambda>_. intent_clear) (\<lambda>_ _. True)"
  using clear_clears by (cases intent) (auto simp: settle_intent_def)

lemma open_keeps_intent:
  "hoare (\<lambda>s. intent = None \<longrightarrow> intent_clear s) (open_registry h) (\<lambda>_ s. intent = None \<longrightarrow> intent_clear s) (\<lambda>_ _. True)"
proof (rule hoareI)
  fix s x s'
  assume "intent = None \<longrightarrow> intent_clear s" "open_registry h s = (Inr x, s')"
  then show "intent = None \<longrightarrow> intent_clear s'"
    using hoareD(1) [OF registry_opened refl, of h s x s'] by (auto simp: opened_def intent_clear_def)
qed simp

lemma found_clears:
  "hoare (\<lambda>s. intent = None \<longrightarrow> intent_clear s) (resolved_before h intent target thread) (\<lambda>_. intent_clear) (\<lambda>_ _. True)"
  "hoare (\<lambda>s. intent = None \<longrightarrow> intent_clear s) (resolved_by_name h intent target thread) (\<lambda>_. intent_clear) (\<lambda>_ _. True)"
proof -
  let ?I = "\<lambda>s. intent = None \<longrightarrow> intent_clear s"
  have settle: "hoare ?I (andthen (settle_intent h intent) (\<lambda>_. ret r)) (\<lambda>_. intent_clear) (\<lambda>_ _. True)" for r :: session_record
    by (rule hoare_andthen [OF settle_clears]) (simp add: hoare_def ret_def)
  have stop: "hoare ?I (raise e) Q (\<lambda>_ _. True)" for e :: exn and Q :: "session_record \<Rightarrow> mig_state \<Rightarrow> bool"
    by (simp add: hoare_def raise_def)
  show "hoare ?I (resolved_before h intent target thread) (\<lambda>_. intent_clear) (\<lambda>_ _. True)"
    unfolding resolved_before_def
    by (rule hoare_andthen [OF open_keeps_intent]) (use settle stop in \<open>simp split: list.split\<close>)
  have look: "hoare ?I m (\<lambda>_. ?I) (\<lambda>_ _. True)" if "asks m" for m :: "'x mig_act"
    using hoare_asks [OF that, where I = "\<lambda>d. intent = None \<longrightarrow> md_intent d = NoFile" and E = "\<lambda>_. True"]
    by (simp add: intent_clear_def)
  have named: "hoare ?I (andthen (lift found) (\<lambda>r. if sr_thread_id r \<noteq> thread then raise not_found
       else andthen (settle_intent h intent) (\<lambda>_. ret r))) (\<lambda>_. intent_clear) (\<lambda>_ _. True)" for found :: "(exn, session_record) res"
  proof (rule hoare_andthen [where R = "\<lambda>_. ?I"])
    show "hoare ?I (lift found) (\<lambda>_. ?I) (\<lambda>_ _. True)" by (rule hoare_lift) auto
    fix r :: session_record
    show "hoare ?I (if sr_thread_id r \<noteq> thread then raise not_found else andthen (settle_intent h intent) (\<lambda>_. ret r))
      (\<lambda>_. intent_clear) (\<lambda>_ _. True)"
      using settle [of r] stop [of not_found "\<lambda>_. intent_clear"] by (cases "sr_thread_id r = thread") simp_all
  qed
  show "hoare ?I (resolved_by_name h intent target thread) (\<lambda>_. intent_clear) (\<lambda>_ _. True)"
    unfolding resolved_by_name_def
    by (rule hoare_andthen [OF open_keeps_intent], rule hoare_andthen [OF look [OF asks_basic(1)]],
      rule hoare_andthen [OF look [OF asks_basic(5)]], rule named)
qed

lemma apply_clears: "hoare P (apply_resolution h rz recovering resolutions rp) (\<lambda>_. intent_clear) (\<lambda>_ _. True)"
  unfolding apply_resolution_def
proof (rule hoare_andthen [where R = "\<lambda>_ _. True"], simp add: hoare_def split: prod.split sum.split,
    rule hoare_andthen [where R = "\<lambda>_ _. True"], simp add: hoare_def split: prod.split sum.split)
  show "hoare (\<lambda>_. True) (andthen (clear_intent h) (\<lambda>_. ret (rp_selected rp))) (\<lambda>_. intent_clear) (\<lambda>_ _. True)"
    by (rule hoare_andthen [OF clear_clears]) (simp add: hoare_def ret_def)
qed

lemma resolve_clears: "hoare (\<lambda>_. True) (resolve_conflict h rz) (\<lambda>_. intent_clear) (\<lambda>_ _. True)"
  unfolding resolve_conflict_def
proof (rule hoare_andthen [where R = "\<lambda>_ _. True"], simp add: hoare_def split: prod.split sum.split,
    rule hoare_andthen [where R = "\<lambda>intent s. intent = None \<longrightarrow> intent_clear s"])
  show "hoare (\<lambda>_. True) (read_intent h) (\<lambda>intent s. intent = None \<longrightarrow> intent_clear s) (\<lambda>_ _. True)"
  proof (rule hoareI)
    fix s x s'
    assume "read_intent h s = (Inr x, s')"
    then show "x = None \<longrightarrow> intent_clear s'" using reading_intent [of h s "Inr x" s'] by (auto simp: intent_clear_def)
  qed simp
next
  fix intent :: "resolution option"
  let ?I = "\<lambda>s. intent = None \<longrightarrow> intent_clear s"
  let ?body = "\<lambda>(status, resolutions).
       (let target = resolution_target rz in
        if rz \<in> set resolutions then resolved_before h intent target (rz_thread rz)
        else (case conflict_named status (rz_name rz) of
          None \<Rightarrow> resolved_by_name h intent target (rz_thread rz)
        | Some conflict \<Rightarrow> andthen (target_of h) (\<lambda>t.
            andthen (lift (resolution_plan_of h rz target status conflict t)) (\<lambda>rp.
              apply_resolution h rz (intent \<noteq> None) resolutions rp))))"
  have ledger: "hoare ?I (need_ledger h) (\<lambda>_. ?I) (\<lambda>_ _. True)"
  proof (rule hoareI)
    fix s x s'
    assume "?I s" "need_ledger h s = (Inr x, s')"
    then show "?I s'" using needing_ledger(1) [of h s "Inr x" s'] by (auto simp: intent_clear_def)
  qed simp
  have any: "hoare P m (\<lambda>_ _. True) (\<lambda>_ _. True)" for P :: "mig_state \<Rightarrow> bool" and m :: "'x mig_act"
    by (simp add: hoare_def split: prod.split sum.split)
  have "hoare ?I (andthen (target_of h) (\<lambda>t. andthen (lift (resolution_plan_of h rz target status c t)) (\<lambda>rp.
      apply_resolution h rz (intent \<noteq> None) resolutions rp))) (\<lambda>_. intent_clear) (\<lambda>_ _. True)" for target status c resolutions
    by (rule hoare_andthen [OF any], rule hoare_andthen [OF any apply_clears])
  then have "hoare ?I (?body c) (\<lambda>_. intent_clear) (\<lambda>_ _. True)" for c
    using found_clears by (cases c) (simp add: Let_def split: option.split)
  then have "hoare ?I (andthen (need_ledger h) ?body) (\<lambda>_. intent_clear) (\<lambda>_ _. True)" by (rule hoare_andthen [OF ledger])
  then show "hoare ?I (if intent \<noteq> None \<and> intent \<noteq> Some rz
     then raise (migration_error_at ''migration_resolution_recovery_required'' (mh_intent_path h))
     else andthen (need_ledger h) ?body) (\<lambda>_. intent_clear) (\<lambda>_ _. True)"
    by (cases "intent \<noteq> None \<and> intent \<noteq> Some rz") (auto simp: hoare_def raise_def)
qed


section \<open>A scan that returned is stable\<close>

text \<open>The ledger on disk means a status.\<close>

definition ledger_says :: "mig_disk \<Rightarrow> json_object \<Rightarrow> bool" where
  "ledger_says d st \<longleftrightarrow> (\<exists>rs. md_ledger d \<noteq> NoFile \<and> parse_file ledger_content (md_ledger d) = Inr (st, rs))"

lemma planned_status_loads:
  assumes "plan_migration h t sources = Inr p"
  shows "from_dict MigrationStatusView (JObj (pl_status p)) = Inr (JObj (pl_status p))"
proof -
  obtain views conflicts a b where "status_view_of views conflicts a b = Inr (pl_status p)"
    using assms by (elim plan_parts) simp
  then obtain d where "build MigrationStatusView d = Inr (JObj (pl_status p))"
    by (auto simp: status_view_of_def object_of_def res_simps split: option.splits json.splits)
  then show ?thesis unfolding from_dict_def by (rule built_loads [OF _ legacy_models_ok(4)])
qed

lemma written_ledger_says:
  assumes "from_dict MigrationStatusView (JObj (pl_status p)) = Inr (JObj (pl_status p))" "ledger_written p [] d"
  shows "ledger_says d (pl_status p)"
  using assms by (simp add: ledger_says_def ledger_written_def parse_file_def ledger_content_def ledger_payload_def has_fields_def
      object_of_def insert_commute)

lemma reading_ledger:
  assumes "read_ledger h s = (r, s')"
  shows "mg_disk s' = mg_disk s" "r = Inr (Some (st, rs)) \<Longrightarrow> ledger_says (mg_disk s) st"
  using assms
  by (auto simp: read_ledger_def reading_as_def disk_def refuse_dangling_def check_private_def moment_def act_defs res_simps ledger_says_def
      split: if_splits sum.splits prod.splits)

lemma scan_settles:
  "hoare (\<lambda>_. True) (scan_and_apply h) (\<lambda>st s. intent_clear s \<and> ledger_says (mg_disk s) st) (\<lambda>_ _. True)"
  unfolding scan_and_apply_def
proof (rule hoare_andthen [where R = "\<lambda>intent s. intent = None \<longrightarrow> intent_clear s"])
  show "hoare (\<lambda>_. True) (read_intent h) (\<lambda>intent s. intent = None \<longrightarrow> intent_clear s) (\<lambda>_ _. True)"
  proof (rule hoareI)
    fix s x s'
    assume "read_intent h s = (Inr x, s')"
    then show "x = None \<longrightarrow> intent_clear s'" using reading_intent [of h s "Inr x" s'] by (auto simp: intent_clear_def)
  qed simp
next
  fix intent :: "resolution option"
  have "hoare (\<lambda>s. intent = None \<longrightarrow> intent_clear s) (case intent of None \<Rightarrow> ret () | Some rz \<Rightarrow> andthen (resolve_conflict h rz) (\<lambda>_. ret ()))
      (\<lambda>_. intent_clear) (\<lambda>_ _. True)"
  proof (cases intent)
    case None
    then show ?thesis by (simp add: hoare_def ret_def)
  next
    case (Some rz)
    have "hoare (\<lambda>_. True) (andthen (resolve_conflict h rz) (\<lambda>_. ret ())) (\<lambda>_. intent_clear) (\<lambda>_ _. True)"
      by (rule hoare_andthen [OF resolve_clears]) (simp add: hoare_def ret_def)
    with Some show ?thesis by simp
  qed
  moreover have "hoare intent_clear (andthen (read_ledger h) (\<lambda>ledger. case ledger of
       Some (status, _) \<Rightarrow> ret status
     | None \<Rightarrow> andthen (target_of h) (\<lambda>t.
         andthen (lift (planning (ebind (load_sources (mh_legacy h)) (plan_migration (mh_legacy h) t)))) (\<lambda>p.
         andthen (commit h p [] True) (\<lambda>_. ret (pl_status p))))))
     (\<lambda>st s. intent_clear s \<and> ledger_says (mg_disk s) st) (\<lambda>_ _. True)"
  proof (rule hoare_andthen [where R = "\<lambda>l s. intent_clear s \<and> (\<forall>st rs. l = Some (st, rs) \<longrightarrow> ledger_says (mg_disk s) st)"])
    show "hoare intent_clear (read_ledger h) (\<lambda>l s. intent_clear s \<and> (\<forall>st rs. l = Some (st, rs) \<longrightarrow> ledger_says (mg_disk s) st)) (\<lambda>_ _. True)"
    proof (rule hoareI)
      fix s l s'
      assume "intent_clear s" "read_ledger h s = (Inr l, s')"
      then show "intent_clear s' \<and> (\<forall>st rs. l = Some (st, rs) \<longrightarrow> ledger_says (mg_disk s') st)"
        using reading_ledger [of h s "Inr l" s'] by (auto simp: intent_clear_def)
    qed simp
  next
    fix l :: "(json_object \<times> resolution list) option"
    have commit: "hoare intent_clear (andthen (commit h p [] True) (\<lambda>_. ret (pl_status p)))
        (\<lambda>st s. intent_clear s \<and> ledger_says (mg_disk s) st) (\<lambda>_ _. True)"
      if p: "planning (ebind (load_sources (mh_legacy h)) (plan_migration (mh_legacy h) t)) = Inr p" for t p
    proof -
      have loads: "from_dict MigrationStatusView (JObj (pl_status p)) = Inr (JObj (pl_status p))"
        using p planned_status_loads by (auto simp: planning_def res_simps split: sum.splits)
      have "hoare intent_clear (commit h p [] True) (\<lambda>_ s. intent_clear s \<and> ledger_says (mg_disk s) (pl_status p)) (\<lambda>_ _. True)"
      proof (rule hoareI)
        fix s x s'
        assume "intent_clear s" "commit h p [] True s = (Inr x, s')"
        then show "intent_clear s' \<and> ledger_says (mg_disk s') (pl_status p)"
          using commit_ordered [of h p "[]" True s "Inr x" s'] written_ledger_says [OF loads]
          by (auto simp: committed_def intent_clear_def)
      qed simp
      then show ?thesis by (rule hoare_andthen) (simp add: hoare_def ret_def)
    qed
    have plan: "hoare intent_clear (andthen (lift (planning (ebind (load_sources (mh_legacy h)) (plan_migration (mh_legacy h) t)))) (\<lambda>p.
         andthen (commit h p [] True) (\<lambda>_. ret (pl_status p)))) (\<lambda>st s. intent_clear s \<and> ledger_says (mg_disk s) st) (\<lambda>_ _. True)" for t
      using commit [of t] by (cases "planning (ebind (load_sources (mh_legacy h)) (plan_migration (mh_legacy h) t))")
        (simp_all add: hoare_def act_defs)
    have "hoare intent_clear (target_of h) (\<lambda>_. intent_clear) (\<lambda>_ _. True)"
      by (rule hoareI) (use taking_targets(1) in \<open>fastforce simp: intent_clear_def\<close>)+
    then have fresh: "hoare intent_clear (andthen (target_of h) (\<lambda>t.
         andthen (lift (planning (ebind (load_sources (mh_legacy h)) (plan_migration (mh_legacy h) t)))) (\<lambda>p.
         andthen (commit h p [] True) (\<lambda>_. ret (pl_status p))))) (\<lambda>st s. intent_clear s \<and> ledger_says (mg_disk s) st) (\<lambda>_ _. True)"
      using plan by (rule hoare_andthen)
    show "hoare (\<lambda>s. intent_clear s \<and> (\<forall>st rs. l = Some (st, rs) \<longrightarrow> ledger_says (mg_disk s) st)) (case l of
       Some (status, _) \<Rightarrow> ret status
     | None \<Rightarrow> andthen (target_of h) (\<lambda>t.
         andthen (lift (planning (ebind (load_sources (mh_legacy h)) (plan_migration (mh_legacy h) t)))) (\<lambda>p.
         andthen (commit h p [] True) (\<lambda>_. ret (pl_status p))))) (\<lambda>st s. intent_clear s \<and> ledger_says (mg_disk s) st) (\<lambda>_ _. True)"
    proof (cases l)
      case None
      then show ?thesis using fresh by simp
    next
      case (Some c)
      then show ?thesis by (cases c) (simp add: hoare_def ret_def)
    qed
  qed
  ultimately show "hoare (\<lambda>s. intent = None \<longrightarrow> intent_clear s) (andthen
       (case intent of None \<Rightarrow> ret () | Some rz \<Rightarrow> andthen (resolve_conflict h rz) (\<lambda>_. ret ())) (\<lambda>_.
     andthen (read_ledger h) (\<lambda>ledger. case ledger of
       Some (status, _) \<Rightarrow> ret status
     | None \<Rightarrow> andthen (target_of h) (\<lambda>t.
         andthen (lift (planning (ebind (load_sources (mh_legacy h)) (plan_migration (mh_legacy h) t)))) (\<lambda>p.
         andthen (commit h p [] True) (\<lambda>_. ret (pl_status p)))))))
     (\<lambda>st s. intent_clear s \<and> ledger_says (mg_disk s) st) (\<lambda>_ _. True)"
    by (rule hoare_andthen)
qed

text \<open>
  The status a scan returns is what the ledger on disk says afterwards: asking again, or scanning again, returns it and changes nothing.
\<close>

theorem scan_is_stable:
  assumes "scan_and_apply h s = (Inr st, s')"
    and "\<forall>t \<ge> mg_clock s'. mh_private h t LedgerFile \<and> \<not> mh_dangling h t IntentFile"
  shows "\<exists>s1 s2. status_if_stable h s' = (Inr (Some st), s1) \<and> scan_and_apply h s' = (Inr st, s2)
    \<and> mg_disk s1 = mg_disk s' \<and> mg_disk s2 = mg_disk s'"
proof -
  have "md_intent (mg_disk s') = NoFile" and l: "ledger_says (mg_disk s') st"
    using hoareD(1) [OF scan_settles TrueI assms(1)] by (auto simp: intent_clear_def)
  then have i: "read_intent h s' = (Inr None, s'\<lparr>mg_clock := Suc (mg_clock s')\<rparr>)"
    using assms(2) by (simp add: read_intent_def disk_def refuse_dangling_def moment_def act_defs)
  obtain rs where "read_ledger h (s'\<lparr>mg_clock := Suc (mg_clock s')\<rparr>) = (Inr (Some (st, rs)), s'\<lparr>mg_clock := Suc (Suc (mg_clock s'))\<rparr>)"
    using l assms(2) by (auto simp: ledger_says_def read_ledger_def disk_def check_private_def reading_as_def moment_def act_defs)
  with i show ?thesis by (simp add: status_if_stable_def scan_and_apply_def act_defs)
qed


section \<open>The coordinator\<close>

lemma await_live_frame:
  assumes "await_live others n f s = (r, s')"
  shows "lv_migration s' = lv_migration s \<and> lv_records s' = lv_records s \<and> (\<exists>x. r = Inr x)"
  using assms by (induction n arbitrary: s) (auto split: option.splits prod.splits)

lemma await_live_got:
  assumes "await_live others n f s = (Inr (Some x), s')" "Q (lv_gate s)" "\<And>t g. Q g \<Longrightarrow> Q (others t g)"
  shows "\<exists>g. Q g \<and> f g = Some (x, lv_gate s')"
  using assms(1, 2) by (induction n arbitrary: s) (use assms(3) in \<open>auto split: option.splits prod.splits\<close>)

text \<open>What \<open>drained\<close> runs and where: nothing, or the body from a gate that authorizes the lease.\<close>

lemma drained_cases:
  assumes run: "drained others n body s = (r, s')" and honest: "\<And>t g. draining g \<Longrightarrow> draining (others t g)"
  obtains "r = Inr None" "lv_migration s' = lv_migration s" "lv_records s' = lv_records s"
  | lease s1 x s2 where "lv_migration s1 = lv_migration s" "lv_records s1 = lv_records s" "authorize (lv_gate s1) lease = Inr ()"
      "active_mutations (lv_gate s1) = 0" "body s1 = (x, s2)" "s' = s2\<lparr>lv_gate := drain_end (lv_gate s2) lease\<rparr>"
      "r = (case x of Inl e \<Rightarrow> Inl e | Inr y \<Rightarrow> Inr (Some y))"
proof -
  let ?starts = "\<lambda>g. map_option (\<lambda>g'. ((), g')) (drain_begin g)" and ?issue = "\<lambda>g. drain_issue g False"
  obtain a sa where A: "await_live others n ?starts s = (a, sa)" by (cases "await_live others n ?starts s")
  obtain b sb where B: "await_live others n ?issue sa = (b, sb)" by (cases "await_live others n ?issue sa")
  note FA = await_live_frame [OF A] and FB = await_live_frame [OF B]
  show thesis
  proof (cases "a = Inr (Some ()) \<and> (\<exists>l. b = Inr (Some l))")
    case False
    have "a = Inr None \<or> a = Inr (Some ()) \<and> b = Inr None" using False FA FB by auto
    then have "r = Inr None \<and> (s' = sa \<or> s' = sb)" using run A B by (auto simp: drained_def act_defs)
    then show thesis using that(1) FA FB by auto
  next
    case True
    then obtain l where a: "a = Inr (Some ())" and b: "b = Inr (Some l)" by blast
    have "\<exists>g. True \<and> ?starts g = Some ((), lv_gate sa)" by (rule await_live_got [OF A [unfolded a], where Q = "\<lambda>_. True"]) auto
    then obtain g0 where "lv_gate sa = g0\<lparr>draining := True\<rparr>" by (auto simp: drain_begin_def split: if_splits dest: sym)
    then have "draining (lv_gate sa)" by simp
    then obtain g where g: "draining g" "?issue g = Some (l, lv_gate sb)"
      using await_live_got [OF B [unfolded b], where Q = draining] honest by blast
    then have "lv_gate sb = g\<lparr>current_lease := Some (lease_id l), live_leases := insert (lease_id l) (live_leases g), next_lease := Suc (next_lease g)\<rparr>"
      "active_mutations g = 0" "lease_token l = gate_token g"
      by (auto simp: drain_issue_def Let_def split: if_splits)
    then have gate: "authorize (lv_gate sb) l = Inr ()" "active_mutations (lv_gate sb) = 0"
      using g(1) by (simp_all add: authorize_def)
    obtain x s2 where body: "body sb = (x, s2)" by (cases "body sb")
    have "r = (case x of Inl e \<Rightarrow> Inl e | Inr y \<Rightarrow> Inr (Some y)) \<and> s' = s2\<lparr>lv_gate := drain_end (lv_gate s2) l\<rparr>"
      using run A B body by (auto simp: a b drained_def act_defs split: sum.splits)
    with FA FB gate body show thesis by (intro that(2) [of sb l x s2]) auto
  qed
qed

lemma refreshing:
  assumes "refresh_registry h s = (r, s')"
  shows "lv_gate s' = lv_gate s \<and> (case r of Inl _ \<Rightarrow> lv_records s' = lv_records s
     | Inr _ \<Rightarrow> \<exists>reg private. read_existing (lh_env (mh_legacy h)) (mh_registry_path h) (md_registry (mg_disk (lv_migration s'))) private = Inr reg
         \<and> lv_records s' = list_records reg)"
  using assms by (auto simp: refresh_registry_def on_migration_def disk_def moment_def act_defs split: sum.splits prod.splits) blast

text \<open>
  C27. A live resolution runs while the gate is drained with an authorized lease and no mutation is running, gives the lease back however it ends, and the live registry afterwards holds the records on disk, or what it held when the resolution raised.
\<close>

theorem live_resolution_is_serialized:
  assumes "live_resolve h others n rz s = (r, s')" and "\<forall>t g. draining g \<longrightarrow> draining (others t g)"
  shows "r = Inr None \<and> lv_migration s' = lv_migration s \<and> lv_records s' = lv_records s
   \<or> (\<exists>lease (s1 :: live_state) answer m. lv_migration s1 = lv_migration s \<and> authorize (lv_gate s1) lease = Inr () \<and> active_mutations (lv_gate s1) = 0
        \<and> lv_gate s' = drain_end (lv_gate s1) lease \<and> resolve_conflict h rz (lv_migration s1) = (answer, m)
        \<and> (case r of
             Inl _ \<Rightarrow> lv_records s' = lv_records s
           | Inr found \<Rightarrow> answer = Inr (the found) \<and> found \<noteq> None \<and> (\<exists>reg private.
               read_existing (lh_env (mh_legacy h)) (mh_registry_path h) (md_registry (mg_disk (lv_migration s'))) private = Inr reg
               \<and> lv_records s' = list_records reg)))"
proof -
  let ?body = "andthen (on_migration (resolve_conflict h rz)) (\<lambda>r. andthen (refresh_registry h) (\<lambda>_. ret r))"
  have run: "drained others n ?body s = (r, s')" using assms(1) by (simp add: live_resolve_def)
  have honest: "draining g \<Longrightarrow> draining (others t g)" for t g using assms(2) by blast
  show ?thesis
  proof (rule drained_cases [OF run honest])
    fix lease s1 x s2
    assume S: "lv_migration s1 = lv_migration s" "lv_records s1 = lv_records s" "authorize (lv_gate s1) lease = Inr ()"
      "active_mutations (lv_gate s1) = 0" and body: "?body s1 = (x, s2)"
      and s': "s' = s2\<lparr>lv_gate := drain_end (lv_gate s2) lease\<rparr>" and r: "r = (case x of Inl e \<Rightarrow> Inl e | Inr y \<Rightarrow> Inr (Some y))"
    obtain answer m where R: "resolve_conflict h rz (lv_migration s1) = (answer, m)" by (cases "resolve_conflict h rz (lv_migration s1)")
    obtain u s3 where F: "refresh_registry h (s1\<lparr>lv_migration := m\<rparr>) = (u, s3)" by (cases "refresh_registry h (s1\<lparr>lv_migration := m\<rparr>)")
    note F' = refreshing [OF F]
    have "lv_gate s2 = lv_gate s1 \<and> (case x of Inl _ \<Rightarrow> lv_records s2 = lv_records s | Inr found \<Rightarrow> answer = Inr found
       \<and> (\<exists>reg private. read_existing (lh_env (mh_legacy h)) (mh_registry_path h) (md_registry (mg_disk (lv_migration s2))) private = Inr reg
           \<and> lv_records s2 = list_records reg))"
    proof (cases answer; cases u)
      fix found and v :: unit
      assume a: "answer = Inr found" and u: "u = Inr v"
      then have x: "x = Inr found" "s2 = s3" using body R F by (auto simp: act_defs on_migration_def)
      show ?thesis using F' unfolding x u a by simp
    qed (use body R F F' S(2) in \<open>auto simp: act_defs on_migration_def\<close>)
    then have "lv_migration s1 = lv_migration s \<and> authorize (lv_gate s1) lease = Inr () \<and> active_mutations (lv_gate s1) = 0
        \<and> lv_gate s' = drain_end (lv_gate s1) lease \<and> resolve_conflict h rz (lv_migration s1) = (answer, m)
        \<and> (case r of
             Inl _ \<Rightarrow> lv_records s' = lv_records s
           | Inr found \<Rightarrow> answer = Inr (the found) \<and> found \<noteq> None \<and> (\<exists>reg private.
               read_existing (lh_env (mh_legacy h)) (mh_registry_path h) (md_registry (mg_disk (lv_migration s'))) private = Inr reg
               \<and> lv_records s' = list_records reg))"
      using S R by (cases x) (simp_all add: s' r)
    then show ?thesis by blast
  qed auto
qed

end
