(* ===== verification/MigrationWitness.thy ===== *)
theory MigrationWitness
  imports StateWitness MigrationLive
begin

text \<open>
  The properties of the migration at concrete inputs: two installations of which one shares a name
  with the other, and a host with one installation whose record is a conflict of the ledger.
\<close>

section \<open>Planning\<close>

definition mig_uuid :: "char \<Rightarrow> string" where
  "mig_uuid c = ''0000000000000000000000000000000'' @ [c]"

definition mig_record :: "string \<Rightarrow> char \<Rightarrow> string \<Rightarrow> session_record" where
  "mig_record name c thread = demo_record\<lparr>sr_session_id := mig_uuid c, sr_thread_id := thread, sr_name := Some name\<rparr>"

definition mig_binding :: binding where
  "mig_binding = \<lparr>cb_session_id = mig_uuid CHR ''2'', cb_state = Disabled, cb_target_socket = JNull, cb_child_token = JNull,
     cb_claude_session_id = JNull, cb_claude_pid = JNull, cb_claude_proc_start = JNull, cb_claude_config_dir = JNull,
     cb_captured_at = ''now'', cb_last_attempt = JNull\<rparr>"

definition mig_sources :: "legacy_source list" where
  "mig_sources =
     [\<lparr>ls_registry_path = ''/p/registry.json'', ls_callback_path = ''/p/callbacks.json'', ls_artifact_dir = ''/p/callback-artifacts'',
       ls_digest = demo_digest, ls_records = [mig_record ''n'' CHR ''1'' ''t1'', mig_record ''x'' CHR ''2'' ''t2''],
       ls_callbacks = \<lparr>sn_bindings = [mig_binding], sn_outbox = []\<rparr>\<rparr>,
      \<lparr>ls_registry_path = ''/q/registry.json'', ls_callback_path = ''/q/callbacks.json'', ls_artifact_dir = ''/q/callback-artifacts'',
       ls_digest = demo_digest, ls_records = [mig_record ''n'' CHR ''3'' ''t3''], ls_callbacks = empty_snapshot\<rparr>]"

definition mig_legacy :: legacy_host where
  "mig_legacy = \<lparr>lh_env = demo_model_env, lh_uid = 1, lh_root = ''/l'', lh_root_look = Missing, lh_root_link = False, lh_children = [],
     lh_look = \<lambda>_. Missing, lh_inside = \<lambda>_ _. True, lh_read = \<lambda>_. Inr [], lh_loads = \<lambda>_. Inr JNull, lh_render = \<lambda>_. ''r'',
     lh_sha256 = \<lambda>_. demo_digest, lh_artifact_dir = ''/a''\<rparr>"

definition mig_target :: target_state where
  "mig_target = \<lparr>tp_records = Inr [], tp_callbacks = Inr empty_snapshot, tp_look = \<lambda>_. Missing, tp_artifacts = []\<rparr>"

definition mig_planned :: "(migration_plan \<Rightarrow> bool) \<Rightarrow> bool" where
  "mig_planned P = (case plan_migration mig_legacy mig_target mig_sources of Inl _ \<Rightarrow> False | Inr p \<Rightarrow> P p)"

lemma mig_plan_facts:
  "mig_planned (\<lambda>p. pl_records p = [mig_record ''x'' CHR ''2'' ''t2''] \<and> sn_bindings (pl_callbacks p) = [mig_binding]
     \<and> sn_outbox (pl_callbacks p) = [] \<and> pl_artifacts p = [] \<and> jget (pl_status p) ''conflict_count'' = JInt 1)"
  by code_simp


lemma mig_plan:
  obtains p where "plan_migration mig_legacy mig_target mig_sources = Inr p" "pl_records p = [mig_record ''x'' CHR ''2'' ''t2'']"
    "sn_bindings (pl_callbacks p) = [mig_binding]" "sn_outbox (pl_callbacks p) = []" "pl_artifacts p = []"
  using mig_plan_facts by (auto simp: mig_planned_def split: sum.splits)

lemma mig_targets: "tp_records mig_target = Inr []" "tp_callbacks mig_target = Inr empty_snapshot"
  by (simp_all add: mig_target_def)

lemma plan_loses_no_record_witness:
  "\<exists>p. plan_migration mig_legacy mig_target mig_sources = Inr p \<and> pl_records p = [mig_record ''x'' CHR ''2'' ''t2'']
     \<and> listed_as_candidate (pl_status p) (mig_sources ! 1) (mig_record ''n'' CHR ''3'' ''t3'')"
proof (rule mig_plan)
  fix p
  assume p: "plan_migration mig_legacy mig_target mig_sources = Inr p" and r: "pl_records p = [mig_record ''x'' CHR ''2'' ''t2'']"
  have s: "mig_sources ! 1 \<in> set mig_sources" "mig_record ''n'' CHR ''3'' ''t3'' \<in> set (ls_records (mig_sources ! 1))"
    by (simp_all add: mig_sources_def)
  have "record_bytes (mig_record ''x'' CHR ''2'' ''t2'') \<noteq> record_bytes (mig_record ''n'' CHR ''3'' ''t3'')" by code_simp
  then show ?thesis using plan_loses_no_record [OF p mig_targets(1)] s p r by fastforce
qed

lemma planned_identifiers_unique_witness:
  "\<exists>p. plan_migration mig_legacy mig_target mig_sources = Inr p \<and> pl_records p \<noteq> [] \<and> identifiers_unique (pl_records p)"
proof (rule mig_plan)
  fix p
  assume p: "plan_migration mig_legacy mig_target mig_sources = Inr p" and r: "pl_records p = [mig_record ''x'' CHR ''2'' ''t2'']"
  have "identifiers_unique (pl_records p)"
    by (rule planned_identifiers_unique [OF p mig_targets(1)]) (simp add: identifiers_unique_def)
  then show ?thesis using p r by auto
qed


section \<open>A host\<close>

text \<open>One installation with the record \<open>n\<close>; the write of moment \<open>fails\<close> fails after replacing its file.\<close>

definition mig_child :: legacy_child where
  "mig_child = \<lparr>lc_path = ''/p'', lc_link = False, lc_look = Seen \<lparr>fm_kind = DirectoryKind, fm_mode = 0x1C0, fm_uid = 1, fm_id = (0, 0)\<rparr>,
     lc_managed = True, lc_registry_look = Seen \<lparr>fm_kind = RegularKind, fm_mode = 0x180, fm_uid = 1, fm_id = (0, 1)\<rparr>, lc_raw = ''r'',
     lc_registry = Regular (Some (Some (encode_registry [mig_record ''n'' CHR ''1'' ''t1'']))), lc_callbacks = None\<rparr>"

definition mig_demo_host :: "nat \<Rightarrow> mig_host" where
  "mig_demo_host fails = \<lparr>mh_legacy = mig_legacy\<lparr>lh_root_look := Seen \<lparr>fm_kind = DirectoryKind, fm_mode = 0x1C0, fm_uid = 1, fm_id = (0, 2)\<rparr>,
       lh_children := [mig_child]\<rparr>,
     mh_registry_path = ''/g/registry.json'', mh_callback_path = ''/g/callbacks.json'', mh_ledger_path = ''/g/migration.json'',
     mh_intent_path = ''/g/migration-resolution.json'', mh_private = \<lambda>_ _. True, mh_hardened = \<lambda>_. True, mh_dangling = \<lambda>_ _. False,
     mh_artifact_look = \<lambda>_ _. Missing, mh_appeared = \<lambda>_. None,
     mh_write = (\<lambda>t. if t = fails then FailsAfter (OSError ''full'') else Written), mh_sync = \<lambda>_. Inr (),
     mh_unlink = \<lambda>_. Inr (), mh_after = \<lambda>_ _. Inr ()\<rparr>"

definition mig_candidate :: json_object where
  "mig_candidate = dset (dset (dset demo_candidate ''source_path'' (JStr ''/p/registry.json'')) ''session_id'' (JStr (mig_uuid CHR ''1'')))
     ''thread_id'' (JStr ''t1'')"

definition mig_status :: json_object where
  "mig_status = [(''status'', JStr ''complete''), (''ready'', JBool True), (''imported_count'', JInt 0),
     (''deduplicated_count'', JInt 0), (''conflict_count'', JInt 1),
     (''sources'', JList [JObj [(''source_path'', JStr ''/p/registry.json''), (''source_digest'', JStr demo_digest), (''name'', JStr ''n''),
        (''session_id'', JStr (mig_uuid CHR ''1'')), (''thread_id'', JStr ''t1''), (''outcome'', JStr ''conflicted'')]]),
     (''conflicts'', JList [JObj [(''name'', JStr ''n''), (''candidates'', JList [JObj mig_candidate]),
        (''source_digests'', JList [JStr demo_digest])]])]"

definition mig_store :: mig_state where
  "mig_store = \<lparr>mg_disk = \<lparr>md_registry = Regular (Some (Some (encode_registry []))), md_callbacks = Some (Content (state_json empty_state)),
     md_artifacts = [], md_ledger = JsonFile (ledger_payload mig_status []), md_intent = NoFile\<rparr>, mg_clock = 0\<rparr>"

definition mig_choice :: resolution where
  "mig_choice = \<lparr>rz_name = ''n'', rz_thread = ''t1'', rz_as = None\<rparr>"

text \<open>
  The resolution imports the record; when the write of the callbacks fails, the registry is put back
  and the intent removed.
\<close>

lemma choice_resolved:
  "case resolve_conflict (mig_demo_host 1000) mig_choice mig_store of
     (Inr r, s) \<Rightarrow> sr_session_id r = mig_uuid CHR ''1'' \<and> md_intent (mg_disk s) = NoFile
   | _ \<Rightarrow> False"
  by code_simp

lemma choice_rolled_back:
  "case resolve_conflict (mig_demo_host 14) mig_choice mig_store of
     (Inl _, s) \<Rightarrow> md_intent (mg_disk s) = NoFile \<and> md_registry (mg_disk s) = md_registry (mg_disk mig_store)
   | _ \<Rightarrow> False"
  by code_simp

lemma mig_intent: "md_intent (mg_disk mig_store) = NoFile"
  by (simp add: mig_store_def)


definition mig_commit_plan :: migration_plan where
  "mig_commit_plan = \<lparr>pl_status = mig_status, pl_records = [mig_record ''n'' CHR ''1'' ''t1''], pl_callbacks = empty_snapshot,
     pl_artifacts = []\<rparr>"

text \<open>The write of the registry is followed by a failure: the ledger still is what it was.\<close>

lemma commit_stopped:
  "case commit (mig_demo_host 3) mig_commit_plan [] True mig_store of
     (Inl _, s) \<Rightarrow> md_registry (mg_disk s) \<noteq> md_registry (mg_disk mig_store) \<and> md_ledger (mg_disk s) = md_ledger (mg_disk mig_store)
   | _ \<Rightarrow> False"
  by code_simp

lemma commit_in_order_witness:
  "\<exists>e s. commit (mig_demo_host 3) mig_commit_plan [] True mig_store = (Inl e, s)
     \<and> registry_written (mig_demo_host 3) mig_commit_plan (mg_disk s)"
proof -
  obtain e s where c: "commit (mig_demo_host 3) mig_commit_plan [] True mig_store = (Inl e, s)"
    "md_registry (mg_disk s) \<noteq> md_registry (mg_disk mig_store)"
    using commit_stopped by (auto split: prod.splits sum.splits)
  then show ?thesis using commit_in_order [OF c(1)] by (auto simp: in_order_def)
qed

text \<open>Nothing was migrated yet.\<close>

definition mig_fresh :: mig_state where
  "mig_fresh = mig_store\<lparr>mg_disk := (mg_disk mig_store)\<lparr>md_ledger := NoFile\<rparr>\<rparr>"

lemma fresh_scanned:
  "case scan_and_apply (mig_demo_host 1000) mig_fresh of
     (Inr st, s) \<Rightarrow> jget st ''imported_count'' = JInt 1 \<and> md_registry (mg_disk s) \<noteq> md_registry (mg_disk mig_fresh)
   | _ \<Rightarrow> False"
  by code_simp

lemma scan_is_stable_witness:
  "\<exists>st s s1. scan_and_apply (mig_demo_host 1000) mig_fresh = (Inr st, s) \<and> jget st ''imported_count'' = JInt 1
     \<and> status_if_stable (mig_demo_host 1000) s = (Inr (Some st), s1) \<and> mg_disk s1 = mg_disk s"
proof -
  obtain st s where c: "scan_and_apply (mig_demo_host 1000) mig_fresh = (Inr st, s)" "jget st ''imported_count'' = JInt 1"
    using fresh_scanned by (auto split: prod.splits sum.splits)
  have "\<forall>t \<ge> mg_clock s. mh_private (mig_demo_host 1000) t LedgerFile \<and> \<not> mh_dangling (mig_demo_host 1000) t IntentFile"
    by (simp add: mig_demo_host_def)
  from scan_is_stable [OF c(1) this] c show ?thesis by blast
qed

section \<open>The live coordinator\<close>

definition mig_live :: live_state where
  "mig_live = \<lparr>lv_gate = new_gate 0, lv_records = [], lv_migration = mig_store\<rparr>"

lemma live_resolved:
  "case live_resolve (mig_demo_host 1000) (\<lambda>_ g. g) 3 mig_choice mig_live of
     (Inr (Some r), s) \<Rightarrow> sr_session_id r = mig_uuid CHR ''1''
   | _ \<Rightarrow> False"
  by code_simp

lemma live_resolution_is_serialized_witness:
  "\<exists>r s reg private. live_resolve (mig_demo_host 1000) (\<lambda>_ g. g) 3 mig_choice mig_live = (Inr (Some r), s)
     \<and> read_existing (lh_env (mh_legacy (mig_demo_host 1000))) (mh_registry_path (mig_demo_host 1000))
         (md_registry (mg_disk (lv_migration s))) private = Inr reg
     \<and> lv_records s = list_records reg"
proof -
  obtain r s where c: "live_resolve (mig_demo_host 1000) (\<lambda>_ g. g) 3 mig_choice mig_live = (Inr (Some r), s)"
    using live_resolved by (auto split: prod.splits sum.splits option.splits)
  have "\<forall>(t :: nat) g. draining g \<longrightarrow> draining g" by simp
  from live_resolution_is_serialized [OF c this] c show ?thesis by auto
qed

end
