(* ===== verification/Instance.thy ===== *)
theory Instance
  imports MigrationSources
begin

text \<open>
  \<open>instance.py\<close> and \<open>service_domain.py\<close>: the identity of an instance, the layout of the paths, the
  directories and files only the owner may use, and the lock under which a daemon is started.
  The client's state keeps what it wrote and the calls that matter, newest first; the host
  answers every system call, every request to the daemon and every process by the moment.
\<close>

section \<open>Identities\<close>

text \<open>\<open>validate_instance_id\<close>.\<close>

definition validate_instance_id :: "json \<Rightarrow> (exn, string) res" where
  "validate_instance_id v = (case as_nonempty v of
     None \<Rightarrow> Inl (ValueError ''instance must be a non-empty string of at most 512 characters'')
   | Some s \<Rightarrow>
     if 512 < length s then Inl (ValueError ''instance must be a non-empty string of at most 512 characters'')
     else if list_ex is_control s then Inl (ValueError ''instance must not contain control characters'')
     else Inr s)"

datatype instance_source = FLAG | ENVIRONMENT | CLAUDE_SESSION | DEFAULT

fun source_value :: "instance_source \<Rightarrow> string" where
  "source_value FLAG = ''flag''"
| "source_value ENVIRONMENT = ''environment''"
| "source_value CLAUDE_SESSION = ''claude_session''"
| "source_value DEFAULT = ''default''"

definition source_of_value :: "json \<Rightarrow> instance_source option" where
  "source_of_value v = find (\<lambda>s. v = JStr (source_value s)) [FLAG, ENVIRONMENT, CLAUDE_SESSION, DEFAULT]"

record identity =
  in_source :: instance_source
  in_value :: string

definition mk_identity :: "instance_source \<Rightarrow> json \<Rightarrow> (exn, identity) res" where
  "mk_identity s v = ebind (validate_instance_id v) (\<lambda>x. Inr \<lparr>in_source = s, in_value = x\<rparr>)"

text \<open>The digest of the value is a function \<open>sha\<close> of the host.\<close>

definition key_hash :: "(string \<Rightarrow> string) \<Rightarrow> identity \<Rightarrow> string" where
  "key_hash sha i = sha (in_value i)"

definition instance_candidates :: "string option \<Rightarrow> (string \<Rightarrow> string option) \<Rightarrow> (instance_source \<times> string option) list" where
  "instance_candidates explicit env = [(FLAG, explicit), (ENVIRONMENT, env ''CODEX_WORKER_INSTANCE''),
     (CLAUDE_SESSION, env ''CLAUDE_CODE_SESSION_ID''), (DEFAULT, Some ''default'')]"

text \<open>The first candidate that is not empty; the last one never is.\<close>

definition resolve_instance :: "string option \<Rightarrow> (string \<Rightarrow> string option) \<Rightarrow> (exn, identity) res" where
  "resolve_instance explicit env =
     (case find (\<lambda>c. snd c \<noteq> None \<and> snd c \<noteq> Some []) (instance_candidates explicit env) of
        Some (s, Some v) \<Rightarrow> mk_identity s (JStr v)
      | _ \<Rightarrow> Inl (RuntimeError ''StopIteration''))"

section \<open>Paths\<close>

record instance_paths =
  ip_durable_dir :: string
  ip_socket :: string
  ip_registry :: string
  ip_log :: string
  ip_metadata :: string
  ip_lock :: string
  ip_callbacks :: string
  ip_artifacts :: string

definition under :: "string \<Rightarrow> string list \<Rightarrow> string" where
  "under base names = foldl path_join base names"

definition derive_instance_paths :: "(string \<Rightarrow> string) \<Rightarrow> identity \<Rightarrow> string \<Rightarrow> string \<Rightarrow> string \<Rightarrow> int \<Rightarrow> (exn, instance_paths) res" where
  "derive_instance_paths sha i platform state_home temp_root uid =
     (if platform = [] then Inl (ValueError ''platform must be a non-empty string'')
      else if uid < 0 then Inl (ValueError ''uid must be a non-negative integer'')
      else (let key = key_hash sha i;
                durable = under state_home [''superdev'', ''codex-worker'', ''instances'', key];
                runtime = under temp_root [''scw-'' @ show_int uid @ ''-'' @ take 20 key]
        in Inr \<lparr>ip_durable_dir = durable, ip_socket = under runtime [''s''], ip_registry = under durable [''registry.json''],
          ip_log = under durable [''daemon.log''], ip_metadata = under durable [''instance.json''], ip_lock = under runtime [''l''],
          ip_callbacks = under durable [''callbacks.json''], ip_artifacts = under durable [''callback-artifacts'']\<rparr>))"

record service_paths =
  sp_durable_dir :: string
  sp_rpc_socket :: string
  sp_codex_socket :: string
  sp_start_lock :: string
  sp_registry :: string
  sp_config_path :: string
  sp_migration :: string
  sp_log :: string
  sp_callbacks :: string
  sp_artifacts :: string

definition mk_service_paths :: "service_paths \<Rightarrow> (exn, service_paths) res" where
  "mk_service_paths p = (if list_all is_absolute [sp_durable_dir p, sp_rpc_socket p, sp_codex_socket p, sp_start_lock p,
       sp_registry p, sp_config_path p, sp_migration p, sp_log p, sp_callbacks p, sp_artifacts p]
     then Inr p else Inl (ValueError ''service paths must be absolute Path values''))"

definition derive_service_paths :: "string \<Rightarrow> string \<Rightarrow> string \<Rightarrow> int \<Rightarrow> (exn, service_paths) res" where
  "derive_service_paths platform state_home temp_root uid =
     (if platform = [] then Inl (ValueError ''platform must be a non-empty string'')
      else if uid < 0 then Inl (ValueError ''uid must be a non-negative integer'')
      else if \<not> is_absolute state_home \<or> \<not> is_absolute temp_root
      then Inl (ValueError ''state and temp roots must be absolute'')
      else (let durable = under state_home [''superdev'', ''codex-worker'', ''service''];
                runtime = under temp_root [''scw-'' @ show_int uid @ ''-global'']
        in mk_service_paths \<lparr>sp_durable_dir = durable, sp_rpc_socket = under runtime [''s''],
          sp_codex_socket = under runtime [''c''], sp_start_lock = under runtime [''l''],
          sp_registry = under durable [''registry.json''], sp_config_path = under durable [''service.json''],
          sp_migration = under durable [''migration.json''], sp_log = under durable [''daemon.log''],
          sp_callbacks = under durable [''callbacks.json''], sp_artifacts = under durable [''callback-artifacts'']\<rparr>))"

section \<open>The host and the client's state\<close>

text \<open>A JSON file the client writes: absent, not JSON, or a JSON value.\<close>

datatype client_file = NoContent | NotJson | JsonContent json

text \<open>
  The start lock taken and given back, a request with its answer, what is done to the process
  that was spawned, a look at a path, a probe of the socket's peer, an unlink with what the path
  showed, a directory made in a parent, what a wait for the end of a service saw.
\<close>

datatype client_event =
    StartLocked
  | StartUnlocked
  | Asked string json_object "(exn, json) res"
  | ChildSpawned "string list"
  | ChildPolled "int option"
  | ChildStopping
  | ChildSignal "int option" int
  | PathLooked string look
  | PeerProbed "(exn, bool) res"
  | PathUnlinked string file_meta
  | DirCreated string string
  | EndpointLooked bool
  | PidsLooked "int list"

text \<open>Binding a new socket to an address; \<open>NoSocket\<close>: it could not be created.\<close>

datatype bind_result = Bound | AddressTaken | BindFails | NoSocket exn

record client_host =
  ci_uid :: int
  ci_cwd :: string
  ci_env :: model_env
  ci_sha256 :: "string \<Rightarrow> string"
  ci_fs :: "nat \<Rightarrow> fs_look"
  ci_lstat :: "nat \<Rightarrow> string \<Rightarrow> look"
  ci_exists :: "nat \<Rightarrow> string \<Rightarrow> bool"
  ci_present :: "nat \<Rightarrow> string \<Rightarrow> bool"
  ci_mkdir :: "nat \<Rightarrow> (exn, unit) res"
  ci_open :: "nat \<Rightarrow> (exn, unit) res"
  ci_fchmod :: "nat \<Rightarrow> (exn, unit) res"
  ci_fstat :: "nat \<Rightarrow> (exn, file_meta) res"
  ci_flock :: "nat \<Rightarrow> flock"
  ci_unlink :: "nat \<Rightarrow> (exn, unit) res"
  ci_monotonic :: "nat \<Rightarrow> rat"
  ci_write :: "nat \<Rightarrow> write_outcome"
  ci_private :: "nat \<Rightarrow> (exn, bool) res"
  ci_live_socket :: "nat \<Rightarrow> (exn, bool) res"
  ci_rpc :: "nat \<Rightarrow> string \<Rightarrow> json_object \<Rightarrow> (exn, json) res"
  ci_which :: "nat \<Rightarrow> bool"
  ci_spawn :: "nat \<Rightarrow> (exn, int) res"
  ci_poll :: "nat \<Rightarrow> int option"
  ci_pgid :: "nat \<Rightarrow> int \<Rightarrow> (exn, int) res"
  ci_signal :: "nat \<Rightarrow> (exn, unit) res"
  ci_wait :: "nat \<Rightarrow> (exn, unit) res"
  ci_kill0 :: "nat \<Rightarrow> int \<Rightarrow> (exn, unit) res"
  ci_addresses :: "nat \<Rightarrow> string \<Rightarrow> (exn, string list) res"
  ci_bind :: "nat \<Rightarrow> string \<Rightarrow> bind_result"
  ci_read :: "nat \<Rightarrow> (exn, json) res"
  ci_registry :: "nat \<Rightarrow> path_state \<times> bool"
  ci_ledger :: "nat \<Rightarrow> (exn, json) res"
  ci_uuid :: "nat \<Rightarrow> string"
  ci_loopback :: "string \<Rightarrow> bool option"
  ci_filename :: "exn \<Rightarrow> string option"

record client_state =
  cs_clock :: nat
  cs_log :: "client_event list"
  cs_config :: client_file
  cs_metadata :: client_file

type_synonym 'a client_act = "(client_state, 'a) act"

definition ask_host :: "(nat \<Rightarrow> 'a) \<Rightarrow> 'a client_act" where
  "ask_host f s = (Inr (f (cs_clock s)), s\<lparr>cs_clock := Suc (cs_clock s)\<rparr>)"

definition try_host :: "(nat \<Rightarrow> (exn, 'a) res) \<Rightarrow> 'a client_act" where
  "try_host f = andthen (ask_host f) lift"

definition log_event :: "client_event \<Rightarrow> unit client_act" where
  "log_event e = modify (\<lambda>s. s\<lparr>cs_log := e # cs_log s\<rparr>)"

definition look_path :: "client_host \<Rightarrow> string \<Rightarrow> look client_act" where
  "look_path h path = andthen (ask_host (\<lambda>t. ci_lstat h t path)) (\<lambda>l.
     andthen (log_event (PathLooked path l)) (\<lambda>_. ret l))"

definition exists_path :: "client_host \<Rightarrow> string \<Rightarrow> bool client_act" where
  "exists_path h path = ask_host (\<lambda>t. ci_exists h t path)"

text \<open>\<open>path.exists() or path.is_symlink()\<close>.\<close>

definition is_present :: "client_host \<Rightarrow> string \<Rightarrow> bool client_act" where
  "is_present h path = ask_host (\<lambda>t. ci_present h t path)"

definition unsafe_above :: "client_host \<Rightarrow> string \<Rightarrow> string option client_act" where
  "unsafe_above h path = ask_host (\<lambda>t. unsafe_ancestor (ci_fs h t) (ci_uid h) (ci_cwd h) path)"

section \<open>Owner-only files and directories\<close>

definition is_owned :: "client_host \<Rightarrow> file_kind \<Rightarrow> file_mode \<Rightarrow> look \<Rightarrow> bool" where
  "is_owned h kind mode l = (case l of
     Seen m \<Rightarrow> fm_kind m = kind \<and> fm_uid m = ci_uid h \<and> fm_mode m = mode | _ \<Rightarrow> False)"

definition owner_file :: "client_host \<Rightarrow> string \<Rightarrow> bool client_act" where
  "owner_file h path = andthen (look_path h path) (\<lambda>l. ret (is_owned h RegularKind private_mode l))"

definition is_safe_directory :: "client_host \<Rightarrow> string \<Rightarrow> bool client_act" where
  "is_safe_directory h path = andthen (look_path h path) (\<lambda>l. ret (is_owned h DirectoryKind private_dir_mode l))"

text \<open>
  \<open>_safe_nearest_ancestor\<close>: up to the first ancestor that exists, which must be accepted; the
  parts of the path are given last first.
\<close>

definition accepted_above :: "client_host \<Rightarrow> string \<Rightarrow> look \<Rightarrow> bool client_act \<Rightarrow> bool client_act" where
  "accepted_above h path l above_it = (case l of
     Missing \<Rightarrow> above_it
   | LookFailed _ \<Rightarrow> ret False
   | Seen _ \<Rightarrow> andthen (unsafe_above h path) (\<lambda>u. ret (u = None)))"

fun nearest_ancestor :: "client_host \<Rightarrow> string \<Rightarrow> string list \<Rightarrow> bool client_act" where
  "nearest_ancestor h anchor [] = (let path = of_parts anchor [] in
     andthen (look_path h path) (\<lambda>l. accepted_above h path l (ret False)))"
| "nearest_ancestor h anchor (c # higher) = (let path = of_parts anchor (rev (c # higher)) in
     andthen (look_path h path) (\<lambda>l. accepted_above h path l (nearest_ancestor h anchor higher)))"

definition safe_nearest_ancestor :: "client_host \<Rightarrow> string \<Rightarrow> bool client_act" where
  "safe_nearest_ancestor h path = nearest_ancestor h (path_anchor path) (rev (path_parts path))"

definition refuse_unsafe :: "client_host \<Rightarrow> string \<Rightarrow> string \<Rightarrow> unit client_act" where
  "refuse_unsafe h reason path = andthen (unsafe_above h path) (\<lambda>u. case u of
     None \<Rightarrow> ret () | Some p \<Rightarrow> raise (UnsafePathError reason p))"

definition need_directory :: "client_host \<Rightarrow> string \<Rightarrow> unit client_act" where
  "need_directory h path = andthen (is_safe_directory h path) (\<lambda>ok. guard ok (UnsafePathError ''unsafe_directory'' path))"

text \<open>\<open>path.mkdir(mode=0o700)\<close>, an existing path being as good as a new one.\<close>

definition make_directory :: "client_host \<Rightarrow> string \<Rightarrow> string \<Rightarrow> unit client_act" where
  "make_directory h parent path = attempt
     (andthen (try_host (ci_mkdir h)) (\<lambda>_. log_event (DirCreated parent path)))
     (\<lambda>x. case x of FileExistsError _ \<Rightarrow> ret () | _ \<Rightarrow> raise x)"

text \<open>
  \<open>_mkdir_owner_only\<close>, with the parts of the path last first; a root that does not exist makes
  the recursion endless.
\<close>

definition use_directory :: "client_host \<Rightarrow> string \<Rightarrow> unit client_act \<Rightarrow> unit client_act" where
  "use_directory h path otherwise = andthen (is_present h path) (\<lambda>present.
     if present then andthen (refuse_unsafe h ''unsafe_ancestor'' path) (\<lambda>_. need_directory h path) else otherwise)"

fun mkdir_parts :: "client_host \<Rightarrow> string \<Rightarrow> string list \<Rightarrow> unit client_act" where
  "mkdir_parts h anchor [] = use_directory h (of_parts anchor [])
     (raise (RecursionError ''maximum recursion depth exceeded''))"
| "mkdir_parts h anchor (c # higher) =
     (let path = of_parts anchor (rev (c # higher)); parent = of_parts anchor (rev higher) in
      use_directory h path
        (andthen (exists_path h parent) (\<lambda>there.
         andthen (if there then refuse_unsafe h ''unsafe_parent'' parent else mkdir_parts h anchor higher) (\<lambda>_.
         andthen (make_directory h parent path) (\<lambda>_. need_directory h path)))))"

definition mkdir_owner_only :: "client_host \<Rightarrow> string \<Rightarrow> unit client_act" where
  "mkdir_owner_only h path = mkdir_parts h (path_anchor path) (rev (path_parts path))"

section \<open>The identity's file\<close>

definition metadata_payload :: "client_host \<Rightarrow> identity \<Rightarrow> json_object" where
  "metadata_payload h i = [(''source'', JStr (source_value (in_source i))), (''value'', JStr (in_value i)),
     (''key_hash'', JStr (key_hash (ci_sha256 h) i))]"

text \<open>Writing beside a file and replacing it.\<close>

definition write_file :: "client_host \<Rightarrow> (client_file \<Rightarrow> client_state \<Rightarrow> client_state) \<Rightarrow> json \<Rightarrow> unit client_act" where
  "write_file h put v = andthen (ask_host (ci_write h)) (\<lambda>w. case w of
     Written \<Rightarrow> modify (put (JsonContent v))
   | FailsBefore e \<Rightarrow> raise e
   | FailsAfter e \<Rightarrow> andthen (modify (put (JsonContent v))) (\<lambda>_. raise e))"

definition check_owner_file :: "client_host \<Rightarrow> string \<Rightarrow> string \<Rightarrow> unit client_act" where
  "check_owner_file h reason path = andthen (owner_file h path) (\<lambda>ok. guard ok (UnsafePathError reason path))"

definition write_metadata :: "client_host \<Rightarrow> instance_paths \<Rightarrow> identity \<Rightarrow> unit client_act" where
  "write_metadata h p i =
     andthen (mkdir_owner_only h (ip_durable_dir p)) (\<lambda>_.
     andthen (is_present h (ip_metadata p)) (\<lambda>present.
     andthen (if present then check_owner_file h ''unsafe_instance_metadata'' (ip_metadata p) else ret ()) (\<lambda>_.
     andthen (write_file h (\<lambda>f s. s\<lparr>cs_metadata := f\<rparr>) (JObj (metadata_payload h i))) (\<lambda>_.
       check_owner_file h ''unsafe_instance_metadata'' (ip_metadata p)))))"

text \<open>\<open>InstanceIdentity(InstanceSource(..), ..)\<close> from the file's object, \<open>None\<close> when anything does not fit.\<close>

definition identity_of :: "(string \<Rightarrow> string) \<Rightarrow> string \<Rightarrow> json \<Rightarrow> identity option" where
  "identity_of sha dir v = (case as_obj v of
     None \<Rightarrow> None
   | Some d \<Rightarrow> if \<not> has_fields d [''source'', ''value'', ''key_hash''] then None
       else (case source_of_value (jget d ''source'') of
         None \<Rightarrow> None
       | Some s \<Rightarrow> (case mk_identity s (jget d ''value'') of
           Inl _ \<Rightarrow> None
         | Inr i \<Rightarrow> if jget d ''key_hash'' \<noteq> JStr (key_hash sha i) \<or> path_name dir \<noteq> key_hash sha i
             then None else Some i)))"

text \<open>\<open>load_managed_identity\<close> for the registry \<open>path\<close>.\<close>

definition load_managed_identity :: "client_host \<Rightarrow> string \<Rightarrow> identity option client_act" where
  "load_managed_identity h path =
     (let dir = path_parent path in
      andthen (unsafe_above h dir) (\<lambda>u. if u \<noteq> None then ret None
      else andthen (is_safe_directory h dir) (\<lambda>ok. if \<not> ok then ret None
      else andthen (owner_file h (under dir [''instance.json''])) (\<lambda>own. if \<not> own then ret None
      else andthen (observe cs_metadata) (\<lambda>f. ret (case f of
        JsonContent v \<Rightarrow> identity_of (ci_sha256 h) dir v | _ \<Rightarrow> None))))))"

section \<open>The start lock\<close>

definition is_own_regular :: "client_host \<Rightarrow> file_meta \<Rightarrow> bool" where
  "is_own_regular h m \<longleftrightarrow> fm_kind m = RegularKind \<and> fm_uid m = ci_uid h"

text \<open>Trying until the lock is taken or the deadline has passed; \<open>None\<close>: not over after \<open>n\<close> attempts.\<close>

fun flock_until :: "client_host \<Rightarrow> string \<Rightarrow> rat \<Rightarrow> nat \<Rightarrow> unit option client_act" where
  "flock_until h path deadline 0 = ret None"
| "flock_until h path deadline (Suc n) = andthen (ask_host (ci_flock h)) (\<lambda>r. case r of
     LockTaken \<Rightarrow> ret (Some ())
   | LockFailed \<Rightarrow> raise (OSError ''flock'')
   | LockHeld \<Rightarrow> andthen (ask_host (ci_monotonic h)) (\<lambda>now.
       if deadline \<le> now then raise (UnsafePathError ''start_lock_timeout'' path) else flock_until h path deadline n))"

definition START_LOCK_SECONDS :: rat where
  "START_LOCK_SECONDS = 2"

definition prepare_lock :: "client_host \<Rightarrow> string \<Rightarrow> unit client_act" where
  "prepare_lock h path =
     andthen (mkdir_owner_only h (path_parent path)) (\<lambda>_.
     andthen (is_present h path) (\<lambda>present.
     andthen (if present then check_owner_file h ''unsafe_start_lock'' path else ret ()) (\<lambda>_.
       try_host (ci_open h))))"

definition take_lock :: "client_host \<Rightarrow> nat \<Rightarrow> string \<Rightarrow> unit option client_act" where
  "take_lock h n path =
     andthen (owner_file h path) (\<lambda>own.
     andthen (if own then ret () else try_host (ci_fchmod h)) (\<lambda>_.
     andthen (try_host (ci_fstat h)) (\<lambda>m0.
     andthen (guard (is_own_regular h m0) (UnsafePathError ''unsafe_start_lock'' path)) (\<lambda>_.
     andthen (ask_host (ci_monotonic h)) (\<lambda>now.
     andthen (flock_until h path (now + START_LOCK_SECONDS) n) (\<lambda>r. case r of
       None \<Rightarrow> ret None
     | Some _ \<Rightarrow> andthen (look_path h path) (\<lambda>l. case l of
         Missing \<Rightarrow> raise (FileNotFoundError path)
       | LookFailed e \<Rightarrow> raise (OSError e)
       | Seen m \<Rightarrow> andthen (guard (fm_id m = fm_id m0) (UnsafePathError ''start_lock_changed'' path)) (\<lambda>_.
           andthen (log_event StartLocked) (\<lambda>_. ret (Some ()))))))))))"

text \<open>
  \<open>with acquire_start_lock(path):\<close> the lock is given back and the descriptor closed however the
  body ends; \<open>None\<close>: the lock was not decided within \<open>n\<close> attempts.
\<close>

definition with_start_lock :: "client_host \<Rightarrow> nat \<Rightarrow> string \<Rightarrow> 'a option client_act \<Rightarrow> 'a option client_act" where
  "with_start_lock h n path body =
     andthen (prepare_lock h path) (\<lambda>_.
       always (andthen (take_lock h n path) (\<lambda>r. case r of None \<Rightarrow> ret None | Some _ \<Rightarrow> body))
         (\<lambda>s. s\<lparr>cs_log := StartUnlocked # cs_log s\<rparr>))"

end
