(* ===== verification/InstanceManager.thy ===== *)
theory InstanceManager
  imports Instance Facade
begin

text \<open>
  \<open>instance.py\<close>, \<open>InstanceManager\<close>: status, start and stop of the daemon of one instance, over the
  host and the state of Instance. Requests to the daemon are the host's answers.
\<close>

section \<open>Requests\<close>

definition ask_daemon :: "client_host \<Rightarrow> string \<Rightarrow> json_object \<Rightarrow> json client_act" where
  "ask_daemon h method params = andthen (ask_host (\<lambda>t. ci_rpc h t method params)) (\<lambda>r.
     andthen (log_event (Asked method params r)) (\<lambda>_. lift r))"

text \<open>The \<open>kind\<close> of an exception that is an \<open>RpcFault\<close>.\<close>

definition rpc_fault_kind :: "exn \<Rightarrow> string option" where
  "rpc_fault_kind x = (case x of
     RpcFault _ _ kind _ _ \<Rightarrow> Some kind
   | ModelSelectionError _ _ \<Rightarrow> Some ''invalid_model_selection''
   | FacadeRpcFault f \<Rightarrow> Some (ff_kind f)
   | _ \<Rightarrow> None)"

record instance_deps =
  id_paths :: instance_paths
  id_identity :: identity
  id_launcher :: string
  id_codex_bin :: string
  id_expected_version :: "string option"

text \<open>The constructor: without an identity, the one of the registry's file, which must be verified.\<close>

definition mk_instance_manager :: "client_host \<Rightarrow> instance_deps \<Rightarrow> identity option \<Rightarrow> instance_deps client_act" where
  "mk_instance_manager h d given =
     andthen (case given of Some i \<Rightarrow> ret (Some i) | None \<Rightarrow> load_managed_identity h (ip_registry (id_paths d))) (\<lambda>found.
     case found of
       None \<Rightarrow> raise (ValueError ''a verified instance identity is required'')
     | Some i \<Rightarrow> ret (d\<lparr>id_identity := i\<rparr>))"

definition instance_view :: "instance_deps \<Rightarrow> (exn, json) res" where
  "instance_view d = build InstanceView [(''instance'', JStr (in_value (id_identity d))),
     (''source'', JStr (source_value (in_source (id_identity d)))), (''durable_dir'', JStr (ip_durable_dir (id_paths d))),
     (''socket_path'', JStr (ip_socket (id_paths d))), (''log_path'', JStr (ip_log (id_paths d)))]"

text \<open>\<open>response.get("result", response)\<close> of a response that is an object.\<close>

definition result_or_self :: "json_object \<Rightarrow> json" where
  "result_or_self d = (case dget d ''result'' of None \<Rightarrow> JObj d | Some v \<Rightarrow> v)"

text \<open>\<open>_probe\<close>: a value that has no \<open>get\<close> raises AttributeError.\<close>

definition ready_result :: "json \<Rightarrow> (exn, json_object option) res" where
  "ready_result v = (case as_obj v of
     None \<Rightarrow> Inl (AttributeError ''get'')
   | Some d \<Rightarrow> (case as_obj (result_or_self d) of
       None \<Rightarrow> Inl (AttributeError ''get'')
     | Some r \<Rightarrow> Inr (if jget r ''ready'' = JBool True then Some r else None)))"

definition probe_instance :: "client_host \<Rightarrow> json_object option client_act" where
  "probe_instance h = attempt
     (andthen (ask_daemon h ''daemon/status'' []) (\<lambda>v. lift (ready_result v)))
     (\<lambda>x. if is_os_error x \<or> rpc_fault_kind x = Some ''daemon_unavailable'' then ret None else raise x)"

definition instance_response :: "instance_deps \<Rightarrow> string \<Rightarrow> json_object \<Rightarrow> json \<Rightarrow> (exn, json) res" where
  "instance_response d st result last_error = ebind (instance_view d) (\<lambda>view.
     build DaemonStatusResponse [(''instance'', view), (''status'', JStr st), (''daemon_pid'', jget result ''daemon_pid''),
       (''codex_pid'', jget result ''codex_pid''), (''worker_count'', get_or result ''session_count'' (JInt 0)),
       (''readiness'', if st = ''ready'' then JObj result else JNull), (''last_error'', last_error)])"

definition is_compatible :: "instance_deps \<Rightarrow> json_object \<Rightarrow> bool" where
  "is_compatible d result \<longleftrightarrow> (case id_expected_version d of None \<Rightarrow> True | Some v \<Rightarrow> jget result ''worker_version'' = JStr v)"

definition instance_status :: "client_host \<Rightarrow> instance_deps \<Rightarrow> json client_act" where
  "instance_status h d =
     andthen (attempt (andthen (probe_instance h) (\<lambda>r. ret (Inr r))) (\<lambda>x. ret (Inl x))) (\<lambda>probed. lift (case probed of
       Inl x \<Rightarrow> instance_response d ''failed'' [] (JObj [(''reason'', JStr (exn_name x))])
     | Inr None \<Rightarrow> instance_response d ''stopped'' [] JNull
     | Inr (Some result) \<Rightarrow>
         if \<not> is_compatible d result then instance_response d ''failed'' [] (JObj [(''reason'', JStr ''worker_version_mismatch''),
             (''expected_version'', jopt (id_expected_version d)), (''actual_version'', jget result ''worker_version'')])
         else instance_response d ''ready'' result JNull))"

section \<open>Faults\<close>

definition lifecycle_fault :: "facade_code \<Rightarrow> string \<Rightarrow> string \<Rightarrow> exn" where
  "lifecycle_fault code reason path = facade_exn code
     (if code = DAEMON_STOP_FAILED then ''Codex worker daemon could not be stopped safely''
      else ''Codex worker daemon could not be started safely'') False ''codex-worker''
     (JObj [(''reason'', JStr reason), (''socket_path'', JStr path), (''durable_state'', JStr ''preserved'')]) JNull JNull"

definition start_fault :: "instance_deps \<Rightarrow> json \<Rightarrow> string \<Rightarrow> json \<Rightarrow> bool \<Rightarrow> exn" where
  "start_fault d reason path cause retryable = (let p = id_paths d in
     facade_exn DAEMON_START_FAILED ''Codex worker daemon could not be started safely'' retryable ''codex-worker''
       (JObj [(''reason'', reason), (''cause'', cause), (''socket_path'', JStr (ip_socket p)), (''offending_path'', JStr path),
          (''log_path'', JStr (ip_log p)), (''durable_state'', JStr ''preserved'')])
       (JObj no_known_ids)
       (JList [next_action (''/bin/ls -ld '' @ shlex_quote path) ''Inspect the runtime path without changing it'',
          next_action (''/usr/bin/tail -n 100 '' @ shlex_quote (ip_log p)) ''Inspect the daemon log without changing it'']))"

definition cause_of :: "exn \<Rightarrow> json" where
  "cause_of x = JObj [(''type'', JStr (exn_name x)), (''message'', JStr (exn_str x))]"

section \<open>The socket\<close>

definition is_private_socket :: "client_host \<Rightarrow> file_meta \<Rightarrow> bool" where
  "is_private_socket h m \<longleftrightarrow> fm_kind m = SocketKind \<and> fm_uid m = ci_uid h \<and> fm_mode m = private_mode"

definition verified_socket :: "client_host \<Rightarrow> string \<Rightarrow> facade_code \<Rightarrow> file_meta option client_act" where
  "verified_socket h path code = andthen (look_path h path) (\<lambda>l. case l of
     Missing \<Rightarrow> ret None
   | LookFailed _ \<Rightarrow> raise (lifecycle_fault code ''unsafe_socket'' path)
   | Seen m \<Rightarrow> andthen (guard (is_private_socket h m) (lifecycle_fault code ''unsafe_socket'' path)) (\<lambda>_. ret (Some m)))"

text \<open>\<open>_socket_accepts_connections\<close> is the probe of RpcSocket; here it is the host's answer.\<close>

definition refuse_live_peer :: "client_host \<Rightarrow> string \<Rightarrow> facade_code \<Rightarrow> unit client_act" where
  "refuse_live_peer h path code = andthen (ask_host (ci_live_socket h)) (\<lambda>r.
     andthen (log_event (PeerProbed r)) (\<lambda>_. andthen (lift r) (\<lambda>live.
       guard (\<not> live) (lifecycle_fault code ''socket_peer_active'' path))))"

definition unlink_verified_socket :: "client_host \<Rightarrow> string \<Rightarrow> file_meta \<Rightarrow> facade_code \<Rightarrow> unit client_act" where
  "unlink_verified_socket h path expected code =
     andthen (refuse_live_peer h path code) (\<lambda>_.
     andthen (look_path h path) (\<lambda>l. case l of
       Missing \<Rightarrow> ret ()
     | LookFailed _ \<Rightarrow> raise (lifecycle_fault code ''unsafe_socket'' path)
     | Seen m \<Rightarrow> andthen (guard (fm_id m = fm_id expected \<and> is_private_socket h m) (lifecycle_fault code ''socket_changed'' path)) (\<lambda>_.
         andthen (log_event (PathUnlinked path m)) (\<lambda>_. try_host (ci_unlink h)))))"

section \<open>Stopping\<close>

text \<open>\<open>_pid_alive\<close>.\<close>

definition pid_alive :: "client_host \<Rightarrow> json \<Rightarrow> bool client_act" where
  "pid_alive h v = (case as_int v of
     None \<Rightarrow> ret False
   | Some pid \<Rightarrow> if pid \<le> 0 then ret False else andthen (ask_host (\<lambda>t. ci_kill0 h t pid)) (\<lambda>r. case r of
       Inr _ \<Rightarrow> ret True
     | Inl (ProcessLookupError _) \<Rightarrow> ret False
     | Inl (PermissionError _) \<Rightarrow> ret True
     | Inl x \<Rightarrow> raise x))"

fun first_alive :: "client_host \<Rightarrow> json list \<Rightarrow> json option client_act" where
  "first_alive h [] = ret None"
| "first_alive h (v # vs) = andthen (pid_alive h v) (\<lambda>alive. if alive then ret (Some v) else first_alive h vs)"

definition pids_of :: "json_object \<Rightarrow> json list" where
  "pids_of d = [jget d ''daemon_pid'', jget d ''codex_pid'']"

definition stop_timeout_fault :: "instance_deps \<Rightarrow> json_object \<Rightarrow> json option \<Rightarrow> exn" where
  "stop_timeout_fault d result remaining = (case (case remaining of None \<Rightarrow> None | Some v \<Rightarrow> as_int v) of
     None \<Rightarrow> RuntimeError ''StopIteration''
   | Some pid \<Rightarrow> facade_exn DAEMON_STOP_FAILED ''Codex worker daemon did not stop'' True ''codex-worker''
       (JObj [(''reason'', JStr ''stop_timeout''), (''deadline_seconds'', JFloat (Fin 2)), (''daemon_pid'', jget result ''daemon_pid''),
          (''codex_pid'', jget result ''codex_pid''), (''durable_state'', JStr ''preserved''),
          (''socket_path'', JStr (ip_socket (id_paths d)))])
       (JObj no_known_ids)
       (JList [next_action (''/bin/ps -p '' @ show_int pid) ''Inspect the exact remaining owned process'',
          next_action (''/usr/bin/tail -n 100 '' @ shlex_quote (ip_log (id_paths d))) ''Inspect the exact daemon log before retrying'']))"

text \<open>Waiting until neither process is alive; \<open>None\<close>: not over after \<open>n\<close> looks.\<close>

fun await_pids :: "client_host \<Rightarrow> instance_deps \<Rightarrow> json_object \<Rightarrow> rat \<Rightarrow> nat \<Rightarrow> unit option client_act" where
  "await_pids h d result deadline 0 = ret None"
| "await_pids h d result deadline (Suc n) =
     andthen (first_alive h (pids_of result)) (\<lambda>alive.
       if alive = None then ret (Some ())
       else andthen (ask_host (ci_monotonic h)) (\<lambda>now.
         if deadline \<le> now
         then andthen (first_alive h (pids_of result)) (\<lambda>remaining. raise (stop_timeout_fault d result remaining))
         else await_pids h d result deadline n))"

definition stop_response :: "instance_deps \<Rightarrow> string \<Rightarrow> json_object \<Rightarrow> (exn, json) res" where
  "stop_response d st result = ebind (instance_view d) (\<lambda>view.
     build DaemonStopResponse [(''instance'', view), (''status_before'', JStr st), (''status_after'', JStr ''stopped''),
       (''daemon_pid'', jget result ''daemon_pid''), (''codex_pid'', jget result ''codex_pid''),
       (''durable_state'', JStr ''preserved''), (''worker_count'', get_or result ''session_count'' (JInt 0))])"

text \<open>The request to shut down; any exception of it is dropped.\<close>

definition request_shutdown_of :: "client_host \<Rightarrow> unit client_act" where
  "request_shutdown_of h = attempt (andthen (ask_daemon h ''daemon/shutdown'' []) (\<lambda>_. ret ())) (\<lambda>_. ret ())"

definition stop_instance :: "client_host \<Rightarrow> nat \<Rightarrow> instance_deps \<Rightarrow> json option client_act" where
  "stop_instance h n d =
     (let p = id_paths d; path = ip_socket p in
      andthen (safe_nearest_ancestor h (ip_durable_dir p)) (\<lambda>a.
      andthen (if a then safe_nearest_ancestor h (path_parent path) else ret False) (\<lambda>b.
      andthen (guard b (lifecycle_fault DAEMON_STOP_FAILED ''unsafe_parent'' path)) (\<lambda>_.
      andthen (probe_instance h) (\<lambda>probed. case probed of
        None \<Rightarrow> andthen (lift (stop_response d ''stopped'' [])) (\<lambda>r. ret (Some r))
      | Some result \<Rightarrow>
          andthen (verified_socket h path DAEMON_STOP_FAILED) (\<lambda>observed.
          andthen (request_shutdown_of h) (\<lambda>_.
          andthen (ask_host (ci_monotonic h)) (\<lambda>now.
          andthen (await_pids h d result (now + 2) n) (\<lambda>w. case w of
            None \<Rightarrow> ret None
          | Some _ \<Rightarrow>
              andthen (case observed of None \<Rightarrow> ret () | Some m \<Rightarrow> unlink_verified_socket h path m DAEMON_STOP_FAILED) (\<lambda>_.
              andthen (lift (stop_response d ''ready'' result)) (\<lambda>r. ret (Some r))))))))))))"

section \<open>Starting\<close>

definition serve_argv :: "instance_deps \<Rightarrow> string list" where
  "serve_argv d = [id_launcher d, ''--socket'', ip_socket (id_paths d), ''daemon'', ''serve'', ''--state'', ip_registry (id_paths d),
     ''--codex-bin'', id_codex_bin d]"

definition need_codex :: "client_host \<Rightarrow> instance_deps \<Rightarrow> unit client_act" where
  "need_codex h d = andthen (ask_host (ci_which h)) (\<lambda>found. guard found (start_fault d (JStr ''codex_not_found'') (ip_socket (id_paths d))
     (JObj [(''type'', JStr ''FileNotFoundError''), (''message'', JStr (''external '' @ [CHR 0x27] @ id_codex_bin d @ [CHR 0x27]
        @ '' executable was not found on PATH; install the Codex CLI and verify it with '' @ [CHR 0x27] @ id_codex_bin d
        @ '' --version'' @ [CHR 0x27]))]) False))"

definition spawn_child :: "client_host \<Rightarrow> string list \<Rightarrow> int client_act" where
  "spawn_child h argv = andthen (try_host (ci_spawn h)) (\<lambda>pid. andthen (log_event (ChildSpawned argv)) (\<lambda>_. ret pid))"

definition poll_child :: "client_host \<Rightarrow> int option client_act" where
  "poll_child h = andthen (ask_host (ci_poll h)) (\<lambda>r. andthen (log_event (ChildPolled r)) (\<lambda>_. ret r))"

text \<open>Waiting for the daemon to be ready; \<open>None\<close>: not over after \<open>n\<close> probes.\<close>

fun await_ready :: "client_host \<Rightarrow> instance_deps \<Rightarrow> rat \<Rightarrow> nat \<Rightarrow> json option client_act" where
  "await_ready h d deadline 0 = ret None"
| "await_ready h d deadline (Suc n) =
     andthen (probe_instance h) (\<lambda>probed. case (case probed of None \<Rightarrow> None | Some r \<Rightarrow> if is_compatible d r then Some r else None) of
       Some r \<Rightarrow> andthen (lift (instance_response d ''ready'' r JNull)) (\<lambda>x. ret (Some x))
     | None \<Rightarrow> andthen (poll_child h) (\<lambda>exited.
         if exited \<noteq> None then raise (start_fault d (JStr ''child_exited'') (ip_socket (id_paths d)) JNull True)
         else andthen (ask_host (ci_monotonic h)) (\<lambda>now.
           if deadline \<le> now then raise (start_fault d (JStr ''readiness_timeout'') (ip_socket (id_paths d)) JNull True)
           else await_ready h d deadline n)))"

definition remove_stale_socket :: "client_host \<Rightarrow> instance_deps \<Rightarrow> unit client_act" where
  "remove_stale_socket h d = (let path = ip_socket (id_paths d) in
     andthen (verified_socket h path DAEMON_START_FAILED) (\<lambda>stale. case stale of
       None \<Rightarrow> ret ()
     | Some m \<Rightarrow> andthen (refuse_live_peer h path DAEMON_START_FAILED) (\<lambda>_.
         unlink_verified_socket h path m DAEMON_START_FAILED)))"

definition launch_instance :: "client_host \<Rightarrow> nat \<Rightarrow> instance_deps \<Rightarrow> json option client_act" where
  "launch_instance h n d =
     andthen (write_metadata h (id_paths d) (id_identity d)) (\<lambda>_.
     andthen (remove_stale_socket h d) (\<lambda>_.
     andthen (need_codex h d) (\<lambda>_.
     andthen (attempt (spawn_child h (serve_argv d))
       (\<lambda>x. raise (start_fault d (JStr ''spawn_failed'') (ip_socket (id_paths d)) (cause_of x) False))) (\<lambda>_.
     andthen (ask_host (ci_monotonic h)) (\<lambda>now. await_ready h d (now + 2) n)))))"

definition ensure_locked :: "client_host \<Rightarrow> nat \<Rightarrow> instance_deps \<Rightarrow> json option client_act" where
  "ensure_locked h n d =
     andthen (probe_instance h) (\<lambda>ready. case ready of
       None \<Rightarrow> launch_instance h n d
     | Some r \<Rightarrow> if is_compatible d r then andthen (lift (instance_response d ''ready'' r JNull)) (\<lambda>x. ret (Some x))
         else andthen (stop_instance h n d) (\<lambda>stopped. case stopped of None \<Rightarrow> ret None | Some _ \<Rightarrow> launch_instance h n d))"

text \<open>What \<open>ensure_running\<close> makes of an exception.\<close>

definition start_failure :: "client_host \<Rightarrow> instance_deps \<Rightarrow> exn \<Rightarrow> exn" where
  "start_failure h d x = (let p = id_paths d in case x of
     FacadeFault f \<Rightarrow> if ff_code f \<noteq> DAEMON_START_FAILED then x
       else (let details = ff_details f; path = get_or details ''offending_path'' (jget details ''socket_path'') in
         start_fault d (get_or details ''reason'' (JStr ''startup_failed''))
           (case as_str path of None \<Rightarrow> ip_socket p | Some q \<Rightarrow> posix_path q)
           (case as_obj (jget details ''cause'') of None \<Rightarrow> JNull | Some c \<Rightarrow> JObj c) (ff_retryable f))
   | UnsafePathError reason path \<Rightarrow> start_fault d (JStr reason) path JNull False
   | _ \<Rightarrow> if is_os_error x
       then start_fault d (JStr (exn_name x)) (case ci_filename h x of None \<Rightarrow> ip_lock p | Some q \<Rightarrow> posix_path q) (cause_of x) False
       else x)"

definition ensure_instance :: "client_host \<Rightarrow> nat \<Rightarrow> instance_deps \<Rightarrow> json option client_act" where
  "ensure_instance h n d = attempt (with_start_lock h n (ip_lock (id_paths d)) (ensure_locked h n d))
     (\<lambda>x. raise (start_failure h d x))"

end
