(* ===== verification/ServiceClient.thy ===== *)
theory ServiceClient
  imports InstanceManager MigrationResolve ServiceFacade
begin

text \<open>
  \<open>instance.py\<close>, \<open>ServiceManager\<close>: the client that supervises the one service of the machine:
  its durable configuration, the probes, the launch of the process, the guarded stop and
  restart. It writes the configuration only under the start lock.
\<close>

section \<open>Configuration\<close>

record managed_config =
  mc_listener :: string
  mc_version :: string
  mc_generation :: string

definition config_dict :: "managed_config \<Rightarrow> json_object" where
  "config_dict c = [(''listener'', JStr (mc_listener c)), (''worker_version'', JStr (mc_version c)),
     (''generation_id'', JStr (mc_generation c))]"

definition config_of :: "model_env \<Rightarrow> json \<Rightarrow> (exn, managed_config) res" where
  "config_of env v = ebind (object_of (from_dict (ServiceConfig env) v)) (\<lambda>d.
     Inr \<lparr>mc_listener = field_str d ''listener'', mc_version = field_str d ''worker_version'',
       mc_generation = field_str d ''generation_id''\<rparr>)"

definition mk_config :: "model_env \<Rightarrow> string \<Rightarrow> string \<Rightarrow> string \<Rightarrow> (exn, managed_config) res" where
  "mk_config env listener version generation = config_of env
     (JObj (config_dict \<lparr>mc_listener = listener, mc_version = version, mc_generation = generation\<rparr>))"

record manager_deps =
  sm_paths :: service_paths
  sm_launcher :: string
  sm_codex_bin :: string
  sm_expected_version :: "string option"

definition expected_version :: "manager_deps \<Rightarrow> (exn, string) res" where
  "expected_version d = (case sm_expected_version d of
     None \<Rightarrow> Inl (ValueError ''expected service version must be configured'')
   | Some v \<Rightarrow> if v = [] then Inl (ValueError ''expected service version must be configured'') else Inr v)"

definition manager_fault :: "facade_code \<Rightarrow> string \<Rightarrow> bool \<Rightarrow> json_object \<Rightarrow> json list \<Rightarrow> exn" where
  "manager_fault code message retryable details actions =
     facade_exn code message retryable ''codex-worker'' (JObj details) JNull (JList actions)"

definition preserved :: "string \<times> json" where
  "preserved = (''durable_state'', JStr ''preserved'')"

definition config_fault :: "manager_deps \<Rightarrow> string \<Rightarrow> string \<Rightarrow> exn" where
  "config_fault d message reason = manager_fault DAEMON_START_FAILED message False
     [(''reason'', JStr reason), (''path'', JStr (sp_config_path (sm_paths d))), preserved] []"

definition invalid_config :: "manager_deps \<Rightarrow> exn" where
  "invalid_config d = config_fault d ''Global service configuration is invalid'' ''invalid_service_config''"

text \<open>
  \<open>_read_config\<close>; \<open>ci_private\<close> tells whether the path shows the user's own private regular file
  below accepted ancestors.
\<close>

definition config_in :: "client_host \<Rightarrow> manager_deps \<Rightarrow> client_file \<Rightarrow> (exn, managed_config) res" where
  "config_in h d f = (case f of
     JsonContent v \<Rightarrow> (case config_of (ci_env h) v of
       Inl x \<Rightarrow> Inl (if is_os_error x \<or> is_value_or_type x then invalid_config d else x) | Inr c \<Rightarrow> Inr c)
   | _ \<Rightarrow> Inl (invalid_config d))"

definition read_config :: "client_host \<Rightarrow> manager_deps \<Rightarrow> managed_config option client_act" where
  "read_config h d = andthen (observe cs_config) (\<lambda>f. if f = NoContent then ret None
     else andthen (try_host (ci_private h)) (\<lambda>safe.
       andthen (guard safe (config_fault d ''Global service configuration is unsafe'' ''unsafe_service_config'')) (\<lambda>_.
       andthen (lift (config_in h d f)) (\<lambda>c. ret (Some c)))))"

definition put_config :: "client_file \<Rightarrow> client_state \<Rightarrow> client_state" where
  "put_config f s = s\<lparr>cs_config := f\<rparr>"

text \<open>\<open>_replace_config\<close>: the file beside it, the replacement and the sync are the write's outcome.\<close>

definition replace_config :: "client_host \<Rightarrow> managed_config \<Rightarrow> unit client_act" where
  "replace_config h c = write_file h put_config (JObj (config_dict c))"

definition status_action :: "string \<Rightarrow> json" where
  "status_action reason = next_action ''codex-worker daemon status'' reason"

definition configured_already :: "managed_config option \<Rightarrow> string \<Rightarrow> exn" where
  "configured_already existing requested = manager_fault SERVICE_CONFIG_CONFLICT ''Global service listener is already configured'' False
     [(''configured_listener'', jopt (map_option mc_listener existing)), (''requested_listener'', JStr requested), preserved]
     [status_action ''Inspect the fixed global listener'']"

definition write_config_once :: "client_host \<Rightarrow> manager_deps \<Rightarrow> managed_config \<Rightarrow> unit client_act" where
  "write_config_once h d c = andthen (observe cs_config) (\<lambda>f.
     if f \<noteq> NoContent then andthen (read_config h d) (\<lambda>existing.
       guard (existing = Some c) (configured_already existing (mc_listener c)))
     else andthen (mkdir_owner_only h (sp_durable_dir (sm_paths d))) (\<lambda>_.
       write_file h put_config (JObj (config_dict c))))"

section \<open>Probes\<close>

text \<open>\<open>_result\<close>.\<close>

definition service_result :: "json \<Rightarrow> (exn, json_object) res" where
  "service_result v = (case as_obj v of
     None \<Rightarrow> Inl (ValueError ''service returned a non-object response'')
   | Some d \<Rightarrow> if dhas d ''error'' then (case facade_fault_from_dict (jget d ''error'') of
         Inr f \<Rightarrow> Inl (FacadeFault f)
       | Inl x \<Rightarrow> Inl (if is_value_error x then ValueError ''service returned a malformed fault'' else x))
     else (case as_obj (result_or_self d) of
         None \<Rightarrow> Inl (ValueError ''service returned a non-object result'') | Some r \<Rightarrow> Inr r))"

definition not_running :: "exn \<Rightarrow> bool" where
  "not_running x \<longleftrightarrow> is_os_error x \<or> rpc_fault_kind x = Some ''daemon_unavailable'' \<or> rpc_fault_kind x = Some ''daemon_stopped''"

text \<open>A request that no service answers gives \<open>None\<close>.\<close>

definition ask_service :: "client_host \<Rightarrow> string \<Rightarrow> json option client_act" where
  "ask_service h method = attempt (andthen (ask_daemon h method []) (\<lambda>v. ret (Some v)))
     (\<lambda>x. if not_running x then ret None else raise x)"

definition malformed :: "manager_deps \<Rightarrow> string \<Rightarrow> exn \<Rightarrow> exn" where
  "malformed d message x = manager_fault CODEX_PROTOCOL_ERROR message False
     [(''reason'', JStr (exn_name x)), (''socket_path'', JStr (sp_rpc_socket (sm_paths d)))] []"

definition read_status :: "client_host \<Rightarrow> manager_deps \<Rightarrow> json \<Rightarrow> (exn, json_object) res" where
  "read_status h d v = (case ebind (service_result v) (\<lambda>r. object_of (from_dict (ServiceStatusResponse (ci_env h)) (JObj r))) of
     Inr w \<Rightarrow> Inr w
   | Inl x \<Rightarrow> Inl (if is_value_or_type x then malformed d ''Global service returned malformed status'' x else x))"

definition probe_status :: "client_host \<Rightarrow> manager_deps \<Rightarrow> json_object option client_act" where
  "probe_status h d = andthen (ask_service h ''service/status'') (\<lambda>v. case v of
     None \<Rightarrow> ret None | Some r \<Rightarrow> andthen (lift (read_status h d r)) (\<lambda>w. ret (Some w)))"

definition read_readiness :: "client_host \<Rightarrow> manager_deps \<Rightarrow> json \<Rightarrow> (exn, json_object option) res" where
  "read_readiness h d v = (case ebind (service_result v) (\<lambda>r. object_of (from_dict (ServiceReadinessResponse (ci_env h)) (JObj r))) of
     Inr w \<Rightarrow> Inr (Some w)
   | Inl (FacadeFault f) \<Rightarrow> if ff_kind f = ''daemon_unavailable'' \<or> ff_kind f = ''daemon_stopped'' then Inr None else Inl (FacadeFault f)
   | Inl x \<Rightarrow> Inl (if is_value_or_type x then malformed d ''Global service returned malformed readiness'' x else x))"

definition probe_readiness :: "client_host \<Rightarrow> manager_deps \<Rightarrow> json_object option client_act" where
  "probe_readiness h d = andthen (ask_service h ''service/readiness'') (\<lambda>v. case v of
     None \<Rightarrow> ret None | Some r \<Rightarrow> lift (read_readiness h d r))"

text \<open>\<open>readiness\<close>.\<close>

definition manager_readiness :: "client_host \<Rightarrow> manager_deps \<Rightarrow> json_object option client_act" where
  "manager_readiness h d = probe_readiness h d"

text \<open>What a maintenance knows of the service it takes down.\<close>

record stop_basis =
  sb_pid :: "int option"
  sb_app_server_pid :: "int option"
  sb_listener :: "string option"

definition unknown_basis :: stop_basis where
  "unknown_basis = \<lparr>sb_pid = None, sb_app_server_pid = None, sb_listener = None\<rparr>"

definition basis_of :: "json_object \<Rightarrow> stop_basis" where
  "basis_of d = \<lparr>sb_pid = as_int (jget d ''pid''), sb_app_server_pid = as_int (jget d ''app_server_pid''),
     sb_listener = as_str (jget d ''listener'')\<rparr>"

definition force_maintenance_basis :: "client_host \<Rightarrow> manager_deps \<Rightarrow> stop_basis option client_act" where
  "force_maintenance_basis h d =
     andthen (attempt (andthen (probe_readiness h d) (\<lambda>r. ret (Some r)))
       (\<lambda>x. case x of FacadeFault f \<Rightarrow> if ff_code f = CODEX_FAILURE then ret None else raise x | _ \<Rightarrow> raise x)) (\<lambda>probed.
     case probed of
       None \<Rightarrow> ret (Some unknown_basis)
     | Some (Some r) \<Rightarrow> ret (Some (basis_of r))
     | Some None \<Rightarrow> andthen (is_present h (sp_rpc_socket (sm_paths d))) (\<lambda>present.
         ret (if present then Some unknown_basis else None)))"

section \<open>The durable state of a stopped service\<close>

definition durable_fault :: "facade_code \<Rightarrow> string \<Rightarrow> string \<Rightarrow> string \<Rightarrow> exn" where
  "durable_fault code message reason path = manager_fault code message False
     [(''reason'', JStr reason), (''path'', JStr path), preserved] []"

definition impact_of_records :: "session_record list \<Rightarrow> (exn, worker_impact) res" where
  "impact_of_records rs = mk_impact [] (sort (List.map_filter sr_name rs))"

definition durable_workers :: "client_host \<Rightarrow> manager_deps \<Rightarrow> worker_impact client_act" where
  "durable_workers h d = (let path = sp_registry (sm_paths d) in
     andthen (is_present h path) (\<lambda>present. if \<not> present then ret empty_impact
       else andthen (ask_host (ci_registry h)) (\<lambda>(found, private). lift
         (case ebind (read_existing (ci_env h) path found private) (\<lambda>reg. impact_of_records (list_records reg)) of
            Inr w \<Rightarrow> Inr w
          | Inl x \<Rightarrow> Inl (if is_os_error x \<or> is_value_or_type x
              then durable_fault REGISTRY_ERROR ''Durable worker registry is invalid'' ''invalid_registry'' path else x)))))"

definition empty_migration :: json_object where
  "empty_migration = [(''status'', JStr ''incomplete''), (''ready'', JBool False), (''imported_count'', JInt 0),
     (''deduplicated_count'', JInt 0), (''conflict_count'', JInt 0), (''sources'', JList []), (''conflicts'', JList [])]"

definition is_runtime_error :: "exn \<Rightarrow> bool" where
  "is_runtime_error x \<longleftrightarrow> (case x of RuntimeError _ \<Rightarrow> True | LegacyMigrationError _ \<Rightarrow> True | RecursionError _ \<Rightarrow> True | _ \<Rightarrow> False)"

text \<open>\<open>ci_ledger\<close>: the ledger's file as the migrator reads it, checks and text included.\<close>

definition durable_migration :: "client_host \<Rightarrow> manager_deps \<Rightarrow> json_object client_act" where
  "durable_migration h d = (let path = sp_migration (sm_paths d) in
     andthen (is_present h path) (\<lambda>present. if \<not> present then ret empty_migration
       else andthen (ask_host (ci_ledger h)) (\<lambda>found. lift
         (case ebind found ledger_content of
            Inr (st, _) \<Rightarrow> Inr st
          | Inl x \<Rightarrow> Inl (if is_os_error x \<or> is_value_or_type x \<or> is_runtime_error x
              then durable_fault CODEX_PROTOCOL_ERROR ''Durable migration status is invalid'' ''invalid_migration_ledger'' path else x)))))"

definition service_exposure :: "client_host \<Rightarrow> string \<Rightarrow> string" where
  "service_exposure h listener = (let host = listener_host listener in
     if host = ''localhost'' then ''loopback''
     else if ci_loopback h host = Some True then ''loopback'' else ''non_loopback'')"

definition stopped_status :: "client_host \<Rightarrow> string \<Rightarrow> string \<Rightarrow> worker_impact \<Rightarrow> json_object \<Rightarrow> (exn, json_object) res" where
  "stopped_status h listener version workers migration =
     ebind (count_evidence (int (length (wi_active workers)) + int (length (wi_idle workers))) ''codex-worker registry''
       (impact_to_dict workers)) (\<lambda>count.
     ebind (count_evidence 0 ''codex app-server inventory'' (inventory_to_dict [])) (\<lambda>turns.
     object_of (build (ServiceStatusResponse (ci_env h)) [(''status'', JStr ''stopped''), (''service_version'', JStr version),
       (''pid'', JNull), (''app_server_pid'', JNull), (''listener'', JStr listener),
       (''exposure'', JStr (service_exposure h listener)), (''auth'', JStr ''none''),
       (''attach_command'', JStr (''codex --remote '' @ shlex_quote listener)), (''worker_count'', count),
       (''active_turn_count'', turns), (''migration'', JObj migration), (''durable_state'', JStr ''preserved'')])))"

definition manager_status :: "client_host \<Rightarrow> manager_deps \<Rightarrow> json_object client_act" where
  "manager_status h d = andthen (probe_status h d) (\<lambda>st. case st of
     Some w \<Rightarrow> ret w
   | None \<Rightarrow>
       andthen (read_config h d) (\<lambda>config.
       andthen (durable_workers h d) (\<lambda>workers.
       andthen (durable_migration h d) (\<lambda>migration.
       andthen (lift (case config of Some c \<Rightarrow> Inr (mc_version c) | None \<Rightarrow> expected_version d)) (\<lambda>version.
         lift (stopped_status h (case config of Some c \<Rightarrow> mc_listener c | None \<Rightarrow> DEFAULT_PUBLIC_LISTENER) version workers migration))))))"

section \<open>Faults of a launch\<close>

definition listener_conflict :: "string \<Rightarrow> string \<Rightarrow> exn" where
  "listener_conflict configured requested = manager_fault SERVICE_CONFIG_CONFLICT
     ''Requested listener differs from the live global service'' False
     [(''configured_listener'', JStr configured), (''requested_listener'', JStr requested), preserved]
     [status_action ''Inspect the fixed global listener'',
      next_action (''codex-worker daemon restart --app-server-listen '' @ shlex_quote requested)
        ''Change the listener only through supervised maintenance'']"

definition launch_fault :: "string \<Rightarrow> bool \<Rightarrow> json_object \<Rightarrow> exn" where
  "launch_fault message retryable details = manager_fault DAEMON_START_FAILED message retryable (details @ [preserved]) []"

text \<open>The alternate that is proposed: the next port, or the default's neighbour.\<close>

definition alternate_listener :: "string \<Rightarrow> (exn, string) res" where
  "alternate_listener listener = (let hp = host_port (url_netloc listener); host = url_hostname (fst hp) in
     ebind (url_port (snd hp)) (\<lambda>port.
       let next_port = (case port of None \<Rightarrow> 4501 | Some p \<Rightarrow> if p < 65535 then p + 1 else 4501) in
       Inr (''ws://'' @ (if CHR '':'' \<in> set host then ''['' @ host @ '']'' else host) @ '':'' @ show_int next_port)))"

definition address_in_use :: "string \<Rightarrow> exn" where
  "address_in_use listener = (case alternate_listener listener of
     Inl x \<Rightarrow> x
   | Inr alternate \<Rightarrow> manager_fault ADDRESS_IN_USE ''Configured app-server listener is already in use'' False
       [(''listener'', JStr listener), preserved]
       [next_action (''codex-worker daemon start --app-server-listen '' @ shlex_quote alternate)
          ''Retry explicitly on the deterministic alternate listener''])"

definition version_mismatch :: "string \<Rightarrow> json \<Rightarrow> exn" where
  "version_mismatch expected actual = manager_fault TOOL_VERSION_MISMATCH
     ''Global service version did not match the installed command'' False
     [(''expected_version'', JStr expected), (''actual_version'', actual)] []"

definition not_ready :: "json \<Rightarrow> exn" where
  "not_ready st = launch_fault ''Global service is not exactly ready'' False [(''reason'', JStr ''service_not_ready''), (''status'', st)]"

section \<open>The process\<close>

definition signal_child :: "client_host \<Rightarrow> int \<Rightarrow> int \<Rightarrow> unit client_act" where
  "signal_child h pid sig = andthen (try_host (\<lambda>t. ci_pgid h t pid)) (\<lambda>g.
     andthen (log_event (ChildSignal (if g = pid then Some g else None) sig)) (\<lambda>_. try_host (ci_signal h)))"

text \<open>\<open>_terminate_spawned_generation\<close>: the group of the child when it leads one, else the child.\<close>

definition terminate_spawned_generation :: "client_host \<Rightarrow> int \<Rightarrow> unit client_act" where
  "terminate_spawned_generation h pid =
     andthen (log_event ChildStopping) (\<lambda>_.
     andthen (poll_child h) (\<lambda>exited. if exited \<noteq> None then ret ()
     else attempt
       (andthen (signal_child h pid SIGTERM) (\<lambda>_.
         attempt (try_host (ci_wait h)) (\<lambda>x. if is_timeout_expired x
           then andthen (signal_child h pid SIGKILL) (\<lambda>_. try_host (ci_wait h)) else raise x)))
       (\<lambda>x. case x of ProcessLookupError _ \<Rightarrow> ret () | _ \<Rightarrow> raise x)))"

text \<open>Terminating the child before an exception leaves.\<close>

definition terminating :: "client_host \<Rightarrow> int \<Rightarrow> exn \<Rightarrow> 'a client_act" where
  "terminating h pid x = andthen (terminate_spawned_generation h pid) (\<lambda>_. raise x)"

section \<open>The startup receipt\<close>

definition receipt_path :: "manager_deps \<Rightarrow> managed_config \<Rightarrow> string" where
  "receipt_path d c = under (path_parent (sp_rpc_socket (sm_paths d))) [''start-'' @ mc_generation c @ ''.json'']"

definition receipt_says :: "string \<Rightarrow> (exn, json) res \<Rightarrow> (exn, bool) res" where
  "receipt_says listener r = (case r of
     Inr v \<Rightarrow> Inr (py_eq v (JObj [(''kind'', JStr ''address_in_use''), (''listener'', JStr listener)]))
   | Inl x \<Rightarrow> if is_os_error x \<or> is_value_or_type x then Inr False else Inl x)"

text \<open>The \<open>finally\<close> clause: the receipt is removed when it still is the file that was verified.\<close>

definition remove_receipt :: "client_host \<Rightarrow> string \<Rightarrow> file_meta option \<Rightarrow> unit client_act" where
  "remove_receipt h path verified = andthen (look_path h path) (\<lambda>l. case l of
     Missing \<Rightarrow> ret ()
   | LookFailed n \<Rightarrow> raise (OSError n)
   | Seen m \<Rightarrow> (case verified of
       None \<Rightarrow> ret ()
     | Some v \<Rightarrow> if fm_id m \<noteq> fm_id v then ret ()
         else andthen (log_event (PathUnlinked path m)) (\<lambda>_. attempt (try_host (ci_unlink h))
           (\<lambda>x. case x of FileNotFoundError _ \<Rightarrow> ret () | _ \<Rightarrow> raise x))))"

definition startup_collision :: "client_host \<Rightarrow> string \<Rightarrow> string \<Rightarrow> bool client_act" where
  "startup_collision h path listener = andthen (is_present h path) (\<lambda>present. if \<not> present then ret False
     else andthen (look_path h path) (\<lambda>l.
       case (if is_owned h RegularKind private_mode l then (case l of Seen m \<Rightarrow> Some m | _ \<Rightarrow> None) else None) of
         None \<Rightarrow> andthen (remove_receipt h path None) (\<lambda>_. ret False)
       | Some m \<Rightarrow> andthen (ask_host (ci_read h)) (\<lambda>content.
           andthen (remove_receipt h path (Some m)) (\<lambda>_. lift (receipt_says listener content)))))"

section \<open>Launching\<close>

definition manager_argv :: "manager_deps \<Rightarrow> managed_config \<Rightarrow> string list" where
  "manager_argv d c = [sm_launcher d, ''--socket'', sp_rpc_socket (sm_paths d), ''daemon'', ''serve'',
     ''--state'', sp_registry (sm_paths d), ''--codex-bin'', sm_codex_bin d, ''--app-server-listen'', mc_listener c,
     ''--generation'', mc_generation c, ''--startup-receipt'', receipt_path d c]"

text \<open>
  \<open>_listener_available\<close>: every different address of the listener is bound in turn; the first that is
  taken or fails decides.
\<close>

fun bindable :: "(string \<Rightarrow> bind_result) \<Rightarrow> string list \<Rightarrow> string list \<Rightarrow> (exn, bool) res" where
  "bindable try_bind tried [] = Inr True"
| "bindable try_bind tried (a # rows) = (if a \<in> set tried then bindable try_bind tried rows else case try_bind a of
     Bound \<Rightarrow> bindable try_bind (a # tried) rows
   | AddressTaken \<Rightarrow> Inr False
   | BindFails \<Rightarrow> Inr True
   | NoSocket x \<Rightarrow> Inl x)"

definition listener_available :: "client_host \<Rightarrow> nat \<Rightarrow> string \<Rightarrow> (exn, bool) res" where
  "listener_available h t listener = ebind (ci_addresses h t listener) (bindable (ci_bind h t) [])"

definition probe_listener :: "client_host \<Rightarrow> string \<Rightarrow> string \<Rightarrow> unit client_act" where
  "probe_listener h listener message =
     andthen (attempt (try_host (\<lambda>t. listener_available h t listener)) (\<lambda>x. if is_os_error x
       then raise (launch_fault message False [(''reason'', JStr ''listener_probe_failed''), (''listener'', JStr listener),
         (''cause'', JStr (exn_name x))])
       else raise x)) (\<lambda>free. guard free (address_in_use listener))"

definition prepare_launch :: "client_host \<Rightarrow> manager_deps \<Rightarrow> managed_config \<Rightarrow> unit client_act" where
  "prepare_launch h d c =
     andthen (ask_host (ci_which h)) (\<lambda>found.
     andthen (guard found (launch_fault ''Codex executable was not found'' False [(''reason'', JStr ''codex_not_found'')])) (\<lambda>_.
     andthen (probe_listener h (mc_listener c) ''Configured listener could not be resolved or probed'') (\<lambda>_.
     andthen (is_present h (receipt_path d c)) (\<lambda>occupied.
       guard (\<not> occupied) (launch_fault ''Global service startup receipt path is occupied'' False
         [(''reason'', JStr ''unsafe_startup_receipt''), (''path'', JStr (receipt_path d c))])))))"

definition spawn_service :: "client_host \<Rightarrow> manager_deps \<Rightarrow> managed_config \<Rightarrow> int client_act" where
  "spawn_service h d c = attempt (spawn_child h (manager_argv d c)) (\<lambda>x. if is_os_error x
     then raise (launch_fault ''Global service process could not be spawned'' False
       [(''reason'', JStr ''spawn_failed''), (''cause'', JStr (exn_name x)), (''log_path'', JStr (sp_log (sm_paths d)))])
     else raise x)"

definition record_config :: "client_host \<Rightarrow> manager_deps \<Rightarrow> managed_config \<Rightarrow> managed_config option \<Rightarrow> managed_config option \<Rightarrow>
    unit client_act" where
  "record_config h d c previous current =
     (if current = Some c then ret ()
      else if previous = None then write_config_once h d c
      else if current = previous then replace_config h c
      else (case current of None \<Rightarrow> raise (AttributeError ''listener'')
        | Some x \<Rightarrow> raise (listener_conflict (mc_listener x) (mc_listener c))))"

text \<open>A service that answers: it must be the one that was launched.\<close>

definition accept_ready :: "client_host \<Rightarrow> manager_deps \<Rightarrow> int \<Rightarrow> managed_config \<Rightarrow> managed_config option \<Rightarrow> json_object \<Rightarrow>
    json_object client_act" where
  "accept_ready h d pid c previous st =
     (if jget st ''listener'' \<noteq> JStr (mc_listener c)
      then terminating h pid (listener_conflict (field_str st ''listener'') (mc_listener c))
      else andthen (lift (expected_version d)) (\<lambda>expected.
        if jget st ''service_version'' \<noteq> JStr expected
        then terminating h pid (version_mismatch expected (jget st ''service_version''))
        else andthen (read_config h d) (\<lambda>current.
          andthen (attempt (record_config h d c previous current) (terminating h pid)) (\<lambda>_.
          andthen (guard (jget st ''status'' = JStr ''ready'') (not_ready (jget st ''status''))) (\<lambda>_. ret st)))))"

text \<open>A service that did not answer before its process ended or the deadline passed.\<close>

definition launch_failed :: "client_host \<Rightarrow> manager_deps \<Rightarrow> int \<Rightarrow> managed_config \<Rightarrow> int option \<Rightarrow> 'a client_act" where
  "launch_failed h d pid c exited =
     andthen (if exited = None then terminate_spawned_generation h pid else ret ()) (\<lambda>_.
     andthen (startup_collision h (receipt_path d c) (mc_listener c)) (\<lambda>collided.
     andthen (guard (\<not> collided) (address_in_use (mc_listener c))) (\<lambda>_.
     andthen (probe_listener h (mc_listener c) ''Configured listener could not be reprobed'') (\<lambda>_.
     andthen (if exited = None then ret None else poll_child h) (\<lambda>code.
       raise (launch_fault (if exited \<noteq> None then ''Global service process exited before readiness''
           else ''Global service did not become ready'') (exited = None)
         [(''reason'', JStr (if exited \<noteq> None then ''child_exited'' else ''readiness_timeout'')),
          (''exit_code'', case code of None \<Rightarrow> JNull | Some n \<Rightarrow> JInt n)]))))))"

text \<open>The loop of \<open>_launch_locked\<close>; \<open>None\<close>: not over after \<open>n\<close> probes.\<close>

fun await_launch :: "client_host \<Rightarrow> manager_deps \<Rightarrow> int \<Rightarrow> managed_config \<Rightarrow> managed_config option \<Rightarrow> rat \<Rightarrow> nat \<Rightarrow>
    json_object option client_act" where
  "await_launch h d pid c previous deadline 0 = ret None"
| "await_launch h d pid c previous deadline (Suc n) =
     andthen (attempt (probe_readiness h d) (terminating h pid)) (\<lambda>probed. case probed of
       Some st \<Rightarrow> andthen (accept_ready h d pid c previous st) (\<lambda>r. ret (Some r))
     | None \<Rightarrow> andthen (poll_child h) (\<lambda>exited.
         andthen (ask_host (ci_monotonic h)) (\<lambda>now.
           if exited \<noteq> None \<or> deadline \<le> now then launch_failed h d pid c exited
           else await_launch h d pid c previous deadline n)))"

definition launch_locked :: "client_host \<Rightarrow> nat \<Rightarrow> manager_deps \<Rightarrow> managed_config \<Rightarrow> managed_config option \<Rightarrow>
    json_object option client_act" where
  "launch_locked h n d c previous =
     andthen (prepare_launch h d c) (\<lambda>_.
     andthen (spawn_service h d c) (\<lambda>pid.
     andthen (ask_host (ci_monotonic h)) (\<lambda>now. await_launch h d pid c previous (now + 2) n)))"

section \<open>Maintenance\<close>

definition parse_maintenance :: "client_host \<Rightarrow> json_object \<Rightarrow> string \<Rightarrow> (exn, maintenance_result) res" where
  "parse_maintenance h v action = (let bad = (\<lambda>x. manager_fault CODEX_PROTOCOL_ERROR
         ''Global service returned malformed maintenance impact'' False [(''reason'', JStr (exn_name x))] []) in
     case maintenance_from_dict (host_lookup (ci_env h)) (JObj v) of
       Inl x \<Rightarrow> Inl (if is_value_or_type x then bad x else x)
     | Inr m \<Rightarrow> if mr_action m \<noteq> action then Inl (bad (ValueError ''maintenance action did not match request'')) else Inr m)"

definition busy_fault :: "maintenance_result \<Rightarrow> exn" where
  "busy_fault m = (case mr_impact m of
     None \<Rightarrow> manager_fault SERVICE_BUSY ''Global service impact is unavailable'' False
       [(''impact'', JObj unavailable_impact)]
       [status_action ''Inspect the global service before retrying maintenance'']
   | Some (items, workers) \<Rightarrow> manager_fault SERVICE_BUSY ''Global service has active work'' False
       [(''active'', JList (map (\<lambda>i. JObj (active_item_to_dict i)) items)), (''workers'', JObj (impact_to_dict workers))]
       [status_action ''Inspect active global work''])"

text \<open>A request for maintenance that the service did not refuse.\<close>

definition request_maintenance :: "client_host \<Rightarrow> string \<Rightarrow> json_object \<Rightarrow> maintenance_result client_act" where
  "request_maintenance h action params =
     andthen (ask_daemon h (''service/'' @ action) params) (\<lambda>v.
     andthen (lift (ebind (service_result v) (\<lambda>r. parse_maintenance h r action))) (\<lambda>m.
     andthen (guard (mr_status m \<noteq> ''refused'') (busy_fault m)) (\<lambda>_. ret m)))"

fun live_pids :: "client_host \<Rightarrow> int list \<Rightarrow> int list client_act" where
  "live_pids h [] = ret []"
| "live_pids h (p # ps) = andthen (pid_alive h (JInt p)) (\<lambda>alive. andthen (live_pids h ps) (\<lambda>rest.
     ret (if alive then p # rest else rest)))"

definition basis_pids :: "stop_basis \<Rightarrow> int list" where
  "basis_pids b = List.map_filter id [sb_pid b, sb_app_server_pid b]"

definition stop_timeout :: "bool \<Rightarrow> int list \<Rightarrow> exn" where
  "stop_timeout endpoint pids = manager_fault DAEMON_STOP_FAILED ''Global service did not stop after guarded maintenance'' True
     [(''reason'', JStr ''stop_timeout''), preserved, (''rpc_endpoint_present'', JBool endpoint), (''live_pids'', JList (map JInt pids))]
     [status_action ''Inspect the exact residual global service state'',
      next_action ''codex-worker daemon stop'' ''Retry the idempotent guarded stop'']"

text \<open>\<open>_await_stopped\<close>; \<open>None\<close>: not over after \<open>n\<close> looks.\<close>

fun await_stopped :: "client_host \<Rightarrow> manager_deps \<Rightarrow> stop_basis \<Rightarrow> rat \<Rightarrow> nat \<Rightarrow> unit option client_act" where
  "await_stopped h d b deadline 0 = ret None"
| "await_stopped h d b deadline (Suc n) =
     andthen (is_present h (sp_rpc_socket (sm_paths d))) (\<lambda>endpoint.
     andthen (log_event (EndpointLooked endpoint)) (\<lambda>_.
     andthen (live_pids h (basis_pids b)) (\<lambda>pids.
     andthen (log_event (PidsLooked pids)) (\<lambda>_.
     andthen (probe_readiness h d) (\<lambda>ready.
       if ready = None \<and> \<not> endpoint \<and> pids = [] then ret (Some ())
       else andthen (ask_host (ci_monotonic h)) (\<lambda>now.
         if deadline \<le> now then raise (stop_timeout endpoint pids) else await_stopped h d b deadline n))))))"

definition await_stop :: "client_host \<Rightarrow> nat \<Rightarrow> manager_deps \<Rightarrow> stop_basis \<Rightarrow> unit option client_act" where
  "await_stop h n d b = andthen (ask_host (ci_monotonic h)) (\<lambda>now. await_stopped h d b (now + 2) n)"

section \<open>Starting\<close>

text \<open>The configuration a launch will use.\<close>

definition choose_config :: "client_host \<Rightarrow> manager_deps \<Rightarrow> string option \<Rightarrow> bool \<Rightarrow> managed_config option \<Rightarrow> managed_config client_act" where
  "choose_config h d requested replacement previous =
     (let fresh = (\<lambda>listener. andthen (lift (expected_version d)) (\<lambda>v.
        andthen (ask_host (ci_uuid h)) (\<lambda>g. lift (mk_config (ci_env h) listener v g)))) in
      case previous of
        None \<Rightarrow> fresh (case requested of None \<Rightarrow> DEFAULT_PUBLIC_LISTENER | Some l \<Rightarrow> l)
      | Some p \<Rightarrow>
          if replacement then fresh (case requested of None \<Rightarrow> mc_listener p | Some l \<Rightarrow> l)
          else if requested \<noteq> None \<and> requested \<noteq> Some (mc_listener p)
          then raise (listener_conflict (mc_listener p) (the requested))
          else andthen (lift (expected_version d)) (\<lambda>v. if mc_version p \<noteq> v then fresh (mc_listener p) else ret p))"

definition start_fresh :: "client_host \<Rightarrow> nat \<Rightarrow> manager_deps \<Rightarrow> string option \<Rightarrow> bool \<Rightarrow> json_object option client_act" where
  "start_fresh h n d requested replacement =
     andthen (read_config h d) (\<lambda>previous.
     andthen (choose_config h d requested replacement previous) (\<lambda>c. launch_locked h n d c previous))"

text \<open>A live service of another version, or one to be replaced, is restarted away first.\<close>

definition ensure_running_locked :: "client_host \<Rightarrow> nat \<Rightarrow> manager_deps \<Rightarrow> string option \<Rightarrow> bool \<Rightarrow> json_object option client_act" where
  "ensure_running_locked h n d requested replacement =
     andthen (probe_readiness h d) (\<lambda>ready. case ready of
       None \<Rightarrow> start_fresh h n d requested replacement
     | Some r \<Rightarrow>
         andthen (guard (jget r ''status'' = JStr ''ready'') (not_ready (jget r ''status''))) (\<lambda>_.
         andthen (guard (requested = None \<or> requested = Some (field_str r ''listener''))
             (listener_conflict (field_str r ''listener'') (the requested))) (\<lambda>_.
         andthen (lift (expected_version d)) (\<lambda>v.
           if jget r ''service_version'' = JStr v \<and> \<not> replacement then ret (Some r)
           else andthen (request_maintenance h ''restart'' [(''listener'', jget r ''listener''), (''force'', JBool False)]) (\<lambda>_.
             andthen (await_stop h n d (basis_of r)) (\<lambda>w. case w of
               None \<Rightarrow> ret None | Some _ \<Rightarrow> start_fresh h n d requested replacement))))))"

definition unsafe_service_path :: "exn \<Rightarrow> exn" where
  "unsafe_service_path x = (case x of
     UnsafePathError reason path \<Rightarrow> launch_fault ''Global service path is unsafe'' False
       [(''reason'', JStr reason), (''path'', JStr path)]
   | _ \<Rightarrow> x)"

definition ensure_managed :: "client_host \<Rightarrow> nat \<Rightarrow> manager_deps \<Rightarrow> string option \<Rightarrow> json_object option client_act" where
  "ensure_managed h n d listener =
     andthen (lift (case listener of None \<Rightarrow> Inr None
       | Some l \<Rightarrow> ebind (validate_public_listener (host_lookup (ci_env h)) (JStr l)) (\<lambda>v. Inr (Some v)))) (\<lambda>requested.
     attempt (with_start_lock h n (sp_start_lock (sm_paths d)) (ensure_running_locked h n d requested False))
       (\<lambda>x. raise (unsafe_service_path x)))"

section \<open>Stop and restart\<close>

definition probe_basis :: "client_host \<Rightarrow> manager_deps \<Rightarrow> bool \<Rightarrow> stop_basis option client_act" where
  "probe_basis h d force = (if force then force_maintenance_basis h d
     else andthen (probe_status h d) (\<lambda>st. ret (map_option basis_of st)))"

definition nothing_running :: "client_host \<Rightarrow> manager_deps \<Rightarrow> string \<Rightarrow> bool \<Rightarrow> string option \<Rightarrow> maintenance_result client_act" where
  "nothing_running h d action force listener = andthen (durable_workers h d) (\<lambda>workers.
     lift (mk_maintenance (host_lookup (ci_env h)) action ''completed'' force listener (Some ([], workers))))"

definition stop_managed :: "client_host \<Rightarrow> nat \<Rightarrow> manager_deps \<Rightarrow> bool \<Rightarrow> json_object option client_act" where
  "stop_managed h n d force = with_start_lock h n (sp_start_lock (sm_paths d))
     (andthen (probe_basis h d force) (\<lambda>found. case found of
        None \<Rightarrow> andthen (nothing_running h d ''stop'' force None) (\<lambda>m. ret (Some (maintenance_to_dict m)))
      | Some b \<Rightarrow>
          andthen (request_maintenance h ''stop'' [(''force'', JBool force)]) (\<lambda>m.
          andthen (await_stop h n d b) (\<lambda>w. ret (map_option (\<lambda>_. maintenance_to_dict m) w)))))"

definition restart_listener :: "string option \<Rightarrow> stop_basis option \<Rightarrow> managed_config option \<Rightarrow> string" where
  "restart_listener listener current configured = (case listener of
     Some (c # cs) \<Rightarrow> c # cs
   | _ \<Rightarrow> (case (case current of None \<Rightarrow> None | Some b \<Rightarrow> sb_listener b) of
       Some l \<Rightarrow> l
     | None \<Rightarrow> (case configured of Some c \<Rightarrow> mc_listener c | None \<Rightarrow> DEFAULT_PUBLIC_LISTENER)))"

definition restart_away :: "client_host \<Rightarrow> nat \<Rightarrow> manager_deps \<Rightarrow> bool \<Rightarrow> string \<Rightarrow> stop_basis option \<Rightarrow> maintenance_result \<Rightarrow>
    maintenance_result option client_act" where
  "restart_away h n d force requested current impact = (case current of
     None \<Rightarrow> ret (Some impact)
   | Some b \<Rightarrow>
       andthen (request_maintenance h ''restart'' [(''listener'', JStr requested), (''force'', JBool force)]) (\<lambda>m.
       andthen (await_stop h n d b) (\<lambda>w. ret (map_option (\<lambda>_. m) w))))"

definition restart_response :: "client_host \<Rightarrow> maintenance_result \<Rightarrow> json_object option \<Rightarrow> (exn, json_object) res" where
  "restart_response h impact st = (case st of
     None \<Rightarrow> Inl (launch_fault ''Global service stopped before public status projection'' False [(''reason'', JStr ''status_unavailable'')])
   | Some w \<Rightarrow> object_of (build (RestartServiceResponse (ci_env h))
       [(''maintenance'', JObj (maintenance_to_dict impact)), (''service'', JObj w)]))"

definition restart_managed :: "client_host \<Rightarrow> nat \<Rightarrow> manager_deps \<Rightarrow> string option \<Rightarrow> bool \<Rightarrow> json_object option client_act" where
  "restart_managed h n d listener force = with_start_lock h n (sp_start_lock (sm_paths d))
     (andthen (probe_basis h d force) (\<lambda>current.
      andthen (read_config h d) (\<lambda>configured.
      andthen (lift (validate_public_listener (host_lookup (ci_env h)) (JStr (restart_listener listener current configured)))) (\<lambda>requested.
      andthen (nothing_running h d ''restart'' force (Some requested)) (\<lambda>empty.
      andthen (restart_away h n d force requested current empty) (\<lambda>impact. case impact of
        None \<Rightarrow> ret None
      | Some m \<Rightarrow>
          andthen (ensure_running_locked h n d (Some requested) True) (\<lambda>r. case r of
            None \<Rightarrow> ret None
          | Some _ \<Rightarrow> andthen (probe_status h d) (\<lambda>st. andthen (lift (restart_response h m st)) (\<lambda>w. ret (Some w))))))))))"

end
