(* ===== verification/ServiceClientProps.thy ===== *)
theory ServiceClientProps
  imports ServiceClient Typing
begin

text \<open>
  What the client of the service promises: a start returns the service that was asked for, the
  configuration names a service that answered, a launch that fails leaves no process behind, a
  stop returns when the service is gone.
\<close>

section \<open>Steps that leave the configuration\<close>

text \<open>The configuration is as before and the log grew by events that satisfy \<open>P\<close>.\<close>

definition quiet_client :: "(client_event \<Rightarrow> bool) \<Rightarrow> client_state \<Rightarrow> client_state \<Rightarrow> bool" where
  "quiet_client P s s' \<longleftrightarrow> cs_config s' = cs_config s \<and> (\<exists>new. cs_log s' = new @ cs_log s \<and> list_all P new)"

interpretation quiet: frame_relation "quiet_client P" for P
proof
  fix s t u
  show "quiet_client P s s" by (simp add: quiet_client_def)
  assume "quiet_client P s t" "quiet_client P t u"
  then obtain a b where "cs_config t = cs_config s" "cs_config u = cs_config t" "cs_log t = a @ cs_log s" "cs_log u = b @ cs_log t"
    "list_all P a" "list_all P b" by (auto simp: quiet_client_def)
  then show "quiet_client P s u" unfolding quiet_client_def by (intro conjI exI [of _ "b @ a"]) simp_all
qed

text \<open>Events that neither start nor end anything.\<close>

fun routine :: "client_event \<Rightarrow> bool" where
  "routine (Asked _ _ _) \<longleftrightarrow> True"
| "routine (ChildPolled _) \<longleftrightarrow> True"
| "routine (PathLooked _ _) \<longleftrightarrow> True"
| "routine (PeerProbed _) \<longleftrightarrow> True"
| "routine (DirCreated _ _) \<longleftrightarrow> True"
| "routine (EndpointLooked _) \<longleftrightarrow> True"
| "routine (PidsLooked _) \<longleftrightarrow> True"
| "routine _ \<longleftrightarrow> False"

abbreviation calm :: "'a client_act \<Rightarrow> bool" where
  "calm m \<equiv> keeps (quiet_client routine) m"

lemma quiet_client_basic: "keeps (quiet_client P) (ask_host f)" "keeps (quiet_client P) (try_host g)" "P e \<Longrightarrow> keeps (quiet_client P) (log_event e)"
  by (auto simp: keeps_def ask_host_def try_host_def log_event_def act_defs quiet_client_def)

lemma calm_looks: "calm (look_path h p)" "calm (exists_path h p)" "calm (is_present h p)" "calm (unsafe_above h p)"
  unfolding look_path_def exists_path_def is_present_def unsafe_above_def by (intro quiet.rules quiet_client_basic; simp)+

lemmas calm_rules = quiet.sequence quiet.basic quiet.branch quiet.handler quiet.option_cases quiet.pair_cases quiet_client_basic calm_looks

lemma calm_files: "calm (owner_file h p)" "calm (is_safe_directory h p)" "calm (refuse_unsafe h r p)" "calm (check_owner_file h r p)"
  unfolding owner_file_def is_safe_directory_def refuse_unsafe_def check_owner_file_def by (intro calm_rules)+

lemma calm_need: "calm (need_directory h p)" "calm (make_directory h q p)"
  unfolding need_directory_def make_directory_def
  by (intro calm_rules calm_files; auto intro!: calm_rules split: exn.splits)+

lemma calm_use: "calm m \<Longrightarrow> calm (use_directory h p m)"
  unfolding use_directory_def by (intro calm_rules calm_files calm_need)

lemma calm_mkdir_parts: "calm (mkdir_parts h anchor parts)"
  by (induction parts) (auto simp: Let_def intro!: calm_rules calm_files calm_need calm_use)

lemma calm_mkdir: "calm (mkdir_owner_only h p)"
  unfolding mkdir_owner_only_def by (rule calm_mkdir_parts)

lemma calm_ask: "calm (ask_daemon h m ps)"
  unfolding ask_daemon_def by (intro calm_rules; simp)

lemma calm_probes: "calm (ask_service h m)" "calm (probe_status h d)" "calm (probe_readiness h d)"
  unfolding ask_service_def probe_status_def probe_readiness_def by (intro calm_rules calm_ask)+

lemma calm_poll: "calm (poll_child h)"
  unfolding poll_child_def by (intro calm_rules; simp)

lemma calm_config: "calm (read_config h d)"
  unfolding read_config_def by (intro calm_rules)

lemma calm_pids: "keeps (quiet_client P) (pid_alive h v)" "keeps (quiet_client P) (live_pids h ps)"
proof -
  show a: "keeps (quiet_client P) (pid_alive h v)" for v
    unfolding pid_alive_def by (intro quiet.rules quiet_client_basic; auto intro!: quiet.rules split: sum.splits exn.splits)
  show "keeps (quiet_client P) (live_pids h ps)" by (induction ps) (auto intro!: quiet.rules a)
qed

lemma calm_stopped: "calm (await_stopped h d b deadline n)" "calm (await_stop h n d b)"
proof -
  show a: "calm (await_stopped h d b deadline n)" for deadline n
  proof (induction n)
    case (Suc n)
    show ?case unfolding await_stopped.simps by (intro calm_rules calm_pids calm_probes Suc.IH; simp)
  qed (simp add: quiet.basic)
  show "calm (await_stop h n d b)" unfolding await_stop_def by (intro calm_rules a)
qed

lemma calm_maintenance: "calm (request_maintenance h action ps)"
  unfolding request_maintenance_def by (intro calm_rules calm_ask)

lemma calm_durable: "calm (durable_workers h d)" "calm (nothing_running h d a force l)"
  unfolding nothing_running_def durable_workers_def Let_def by (intro calm_rules)+

lemma calm_basis: "calm (force_maintenance_basis h d)" "calm (probe_basis h d force)"
proof -
  show a: "calm (force_maintenance_basis h d)"
    unfolding force_maintenance_basis_def by (intro calm_rules calm_probes; auto intro!: calm_rules split: exn.splits)
  show "calm (probe_basis h d force)" unfolding probe_basis_def by (intro calm_rules a calm_probes)
qed

lemma calm_choose: "calm (choose_config h d requested replacement previous)"
  unfolding choose_config_def Let_def by (intro calm_rules)

lemma calm_listener: "calm (probe_listener h l m)"
  unfolding probe_listener_def by (intro calm_rules)

lemma calm_prepare: "calm (prepare_launch h d c)"
  unfolding prepare_launch_def by (intro calm_rules calm_listener)

lemmas calm = calm_rules calm_files calm_need calm_mkdir calm_ask calm_probes calm_poll calm_config calm_pids calm_stopped
  calm_maintenance calm_durable calm_basis calm_choose calm_listener calm_prepare

section \<open>The service that a start returns\<close>

text \<open>Every normal result of \<open>m\<close> satisfies \<open>Q\<close>.\<close>

definition yields :: "('s, 'a) act \<Rightarrow> ('a \<Rightarrow> bool) \<Rightarrow> bool" where
  "yields m Q \<longleftrightarrow> (\<forall>s x s'. m s = (Inr x, s') \<longrightarrow> Q x)"

lemma yieldsD: "yields m Q \<Longrightarrow> m s = (Inr x, s') \<Longrightarrow> Q x"
  by (auto simp: yields_def)

lemma yields_then: "yields m R \<Longrightarrow> (\<And>x. R x \<Longrightarrow> yields (f x) Q) \<Longrightarrow> yields (andthen m f) Q"
  by (fastforce simp: yields_def andthen_def split: prod.splits sum.splits)

lemma yields_seq: "(\<And>x. yields (f x) Q) \<Longrightarrow> yields (andthen m f) Q"
  by (rule yields_then [where R = "\<lambda>_. True"]) (auto simp: yields_def)

lemma yields_basic: "Q x \<Longrightarrow> yields (ret x) Q" "yields (raise e) Q" "(b \<Longrightarrow> R ()) \<Longrightarrow> yields (guard b e) R"
  by (auto simp: yields_def act_defs)

lemma yields_lift: "(\<And>x. r = Inr x \<Longrightarrow> Q x) \<Longrightarrow> yields (lift r) Q"
  by (auto simp: yields_def act_defs)

lemma yields_attempt: "yields m Q \<Longrightarrow> (\<And>e. yields (h e) Q) \<Longrightarrow> yields (attempt m h) Q"
  by (fastforce simp: yields_def attempt_def split: prod.splits sum.splits)

lemma yields_always: "yields m Q \<Longrightarrow> yields (always m f) Q"
  by (fastforce simp: yields_def always_def split: prod.splits)

lemma loaded_contract: "from_dict (AModel name prep fs contract) v = Inr w \<Longrightarrow> \<exists>d. w = JObj d \<and> typed_fields fs d \<and> contract d = Inr ()"
proof -
  assume "from_dict (AModel name prep fs contract) v = Inr w"
  then have "typed (AModel name prep fs contract) w" unfolding from_dict_def by (rule loaded_typed(1))
  then show ?thesis by (cases w) simp_all
qed

definition well_read :: "json_object \<Rightarrow> bool" where
  "well_read r \<longleftrightarrow> jget r ''status'' = JStr ''ready'' \<and> jget r ''listener'' = JStr (field_str r ''listener'')"

lemma typed_str: "typed AStr v \<Longrightarrow> \<exists>s. v = JStr s"
  by (cases v) simp_all

lemma readiness_well_read:
  assumes "from_dict (ServiceReadinessResponse env) v = Inr w" shows "\<exists>d. w = JObj d \<and> well_read d"
proof -
  obtain d where d: "w = JObj d" "typed_fields [(''status'', AStr), (''service_version'', AStr), (''pid'', AInt), (''app_server_pid'', AInt),
      (''listener'', AStr), (''migration_ready'', ABool)] d" "jget d ''status'' = JStr ''ready''"
    using loaded_contract [OF assms [unfolded ServiceReadinessResponse_def]] by (auto simp: res_simps)
  then obtain s where "jget d ''listener'' = JStr s" by (auto dest!: typed_str split: list.splits simp: jget_Cons)
  then show ?thesis using d by (simp add: well_read_def field_str_def)
qed

lemma loaded_readiness: "read_readiness h d v = Inr (Some r) \<Longrightarrow> well_read r"
  by (auto simp: read_readiness_def object_of_def res_simps dest!: readiness_well_read
      split: sum.splits exn.splits if_splits option.splits)

lemma ready_when_read: "yields (probe_readiness h d) (\<lambda>r. \<forall>w. r = Some w \<longrightarrow> well_read w)"
  unfolding probe_readiness_def
  by (rule yields_seq) (auto split: option.splits intro!: yields_basic yields_lift dest: loaded_readiness)

lemma config_loads:
  "from_dict (AModel name plain [(''listener'', AStr), (''worker_version'', AStr), (''generation_id'', AStr)] contract) (JObj (config_dict c))
     = Inr w \<Longrightarrow> w = JObj (config_dict c)"
  by (auto simp: from_dict_def config_dict_def plain_def Let_def res_simps split: if_splits)

lemma config_of_dict:
  assumes "config_of env (JObj (config_dict c)) = Inr c'" shows "c' = c"
proof (cases "from_dict (ServiceConfig env) (JObj (config_dict c))")
  case (Inl x)
  then show ?thesis using assms by (simp add: config_of_def object_of_def)
next
  case (Inr w)
  have "w = JObj (config_dict c)" by (rule config_loads [OF Inr [unfolded ServiceConfig_def]])
  then show ?thesis using assms Inr by (simp add: config_of_def object_of_def) (auto simp: config_dict_def field_str_def)
qed

lemma configured: "mk_config env l v g = Inr c \<Longrightarrow> mc_listener c = l \<and> mc_version c = v"
  unfolding mk_config_def by (drule config_of_dict) simp

text \<open>A ready service of the expected version, on the listener that was asked for.\<close>

definition as_asked :: "manager_deps \<Rightarrow> string option \<Rightarrow> json_object \<Rightarrow> bool" where
  "as_asked d requested r \<longleftrightarrow> jget r ''status'' = JStr ''ready''
     \<and> (\<exists>v. expected_version d = Inr v \<and> jget r ''service_version'' = JStr v)
     \<and> (\<forall>l. requested = Some l \<longrightarrow> jget r ''listener'' = JStr l)"

lemma terminating_yields: "yields (terminating h pid x) Q"
  unfolding terminating_def by (rule yields_seq) (rule yields_basic)

lemma accepted_as_asked: "yields (accept_ready h d pid c previous st) (as_asked d (Some (mc_listener c)))"
  unfolding accept_ready_def
  by (cases "expected_version d")
    (auto simp: as_asked_def yields_def act_defs terminating_def split: prod.splits sum.splits if_splits)

lemma launched_as_asked:
  "yields (await_launch h d pid c previous deadline n) (\<lambda>r. \<forall>w. r = Some w \<longrightarrow> as_asked d (Some (mc_listener c)) w)"
proof (induction n)
  case (Suc n)
  have "yields (andthen (accept_ready h d pid c previous st) (\<lambda>r. ret (Some r)))
      (\<lambda>r. \<forall>w. r = Some w \<longrightarrow> as_asked d (Some (mc_listener c)) w)" for st
    by (rule yields_then [OF accepted_as_asked]) (simp add: yields_basic)
  moreover have "yields (launch_failed h d pid c e :: json_object option client_act) Q" for e Q
    unfolding launch_failed_def by (intro yields_seq yields_basic)
  ultimately show ?case using Suc unfolding await_launch.simps
    by (intro yields_seq) (auto split: option.splits intro!: yields_seq)
qed (simp add: yields_basic)

lemma chosen: "yields (choose_config h d requested replacement previous) (\<lambda>c. \<forall>l. requested = Some l \<longrightarrow> mc_listener c = l)"
  unfolding choose_config_def Let_def
  by (auto intro!: yields_seq yields_basic yields_lift dest!: configured split: option.splits)

lemma fresh_as_asked: "yields (start_fresh h n d requested replacement) (\<lambda>r. \<forall>w. r = Some w \<longrightarrow> as_asked d requested w)"
proof -
  have "yields (launch_locked h n d c previous) (\<lambda>r. \<forall>w. r = Some w \<longrightarrow> as_asked d requested w)"
    if "\<forall>l. requested = Some l \<longrightarrow> mc_listener c = l" for c previous
  proof -
    have "yields (await_launch h d pid c previous t n) (\<lambda>r. \<forall>w. r = Some w \<longrightarrow> as_asked d requested w)" for pid t
      using launched_as_asked [of h d pid c previous t n] that by (auto simp: yields_def as_asked_def)
    then show ?thesis unfolding launch_locked_def by (intro yields_seq)
  qed
  then show ?thesis unfolding start_fresh_def by (intro yields_seq yields_then [OF chosen])
qed

lemma locked_as_asked:
  "yields (ensure_running_locked h n d requested replacement) (\<lambda>r. \<forall>w. r = Some w \<longrightarrow> as_asked d requested w)"
  unfolding ensure_running_locked_def
proof (rule yields_then [OF ready_when_read])
  fix r
  assume r: "\<forall>w. r = Some w \<longrightarrow> well_read w"
  show "yields (case r of None \<Rightarrow> start_fresh h n d requested replacement
     | Some r \<Rightarrow>
         andthen (guard (jget r ''status'' = JStr ''ready'') (not_ready (jget r ''status''))) (\<lambda>_.
         andthen (guard (requested = None \<or> requested = Some (field_str r ''listener''))
             (listener_conflict (field_str r ''listener'') (the requested))) (\<lambda>_.
         andthen (lift (expected_version d)) (\<lambda>v.
           if jget r ''service_version'' = JStr v \<and> \<not> replacement then ret (Some r)
           else andthen (request_maintenance h ''restart'' [(''listener'', jget r ''listener''), (''force'', JBool False)]) (\<lambda>_.
             andthen (await_stop h n d (basis_of r)) (\<lambda>w. case w of
               None \<Rightarrow> ret None | Some _ \<Rightarrow> start_fresh h n d requested replacement))))))
     (\<lambda>r. \<forall>w. r = Some w \<longrightarrow> as_asked d requested w)"
  proof (cases r)
    case None
    then show ?thesis by (simp add: fresh_as_asked)
  next
    case (Some w)
    let ?Q = "\<lambda>r. \<forall>w. r = Some w \<longrightarrow> as_asked d requested w"
    have rest: "yields (andthen (request_maintenance h ''restart'' ps) (\<lambda>_.
             andthen (await_stop h n d b) (\<lambda>w. case w of None \<Rightarrow> ret None | Some _ \<Rightarrow> start_fresh h n d requested replacement))) ?Q" for ps b
      by (intro yields_seq) (auto intro: yields_basic fresh_as_asked split: option.splits)
    have fit: "yields (guard (requested = None \<or> requested = Some (field_str w ''listener'')) e)
        (\<lambda>_. requested = None \<or> requested = Some (field_str w ''listener''))" for e by (rule yields_basic)
    have version: "yields (lift (expected_version d)) (\<lambda>v. expected_version d = Inr v)" by (rule yields_lift)
    have "well_read w" using r Some by simp
    then have "as_asked d requested w"
      if "requested = None \<or> requested = Some (field_str w ''listener'')" "expected_version d = Inr v" "jget w ''service_version'' = JStr v" for v
      using that by (auto simp: as_asked_def well_read_def)
    then have "yields (if jget w ''service_version'' = JStr v \<and> \<not> replacement then ret (Some w)
           else andthen (request_maintenance h ''restart'' [(''listener'', jget w ''listener''), (''force'', JBool False)]) (\<lambda>_.
             andthen (await_stop h n d (basis_of w)) (\<lambda>x. case x of
               None \<Rightarrow> ret None | Some _ \<Rightarrow> start_fresh h n d requested replacement))) ?Q"
      if "requested = None \<or> requested = Some (field_str w ''listener'')" "expected_version d = Inr v" for v
      using that rest by (auto intro!: yields_basic(1))
    then show ?thesis unfolding Some option.case
      by (intro yields_seq yields_then [OF fit] yields_then [OF version])
  qed
qed

text \<open>
  C31. Whatever is running before and whatever it takes, a start that returns has seen a ready service
  of the version the command has, on the listener that was asked for.
\<close>

theorem started_service_is_as_asked:
  assumes "ensure_managed h n d listener s = (Inr (Some r), s')"
  shows "jget r ''status'' = JStr ''ready'' \<and> (\<exists>v. expected_version d = Inr v \<and> jget r ''service_version'' = JStr v)
    \<and> (\<forall>l. listener = Some l \<longrightarrow> jget r ''listener'' = JStr l)"
proof -
  have "yields (ensure_managed h n d listener) (\<lambda>r. \<forall>w. r = Some w \<longrightarrow> as_asked d listener w)"
    unfolding ensure_managed_def
  proof (rule yields_then)
    show "yields (lift (case listener of None \<Rightarrow> Inr None
        | Some l \<Rightarrow> ebind (validate_public_listener (host_lookup (ci_env h)) (JStr l)) (\<lambda>v. Inr (Some v)))) (\<lambda>x. x = listener)"
      by (rule yields_lift) (auto simp: res_simps dest!: validate_public_listener_value split: option.splits)
  next
    fix x
    assume x: "x = listener"
    have "yields (with_start_lock h n (sp_start_lock (sm_paths d)) (ensure_running_locked h n d listener False))
        (\<lambda>r. \<forall>w. r = Some w \<longrightarrow> as_asked d listener w)"
      unfolding with_start_lock_def
      by (intro yields_seq yields_always) (auto intro: yields_basic locked_as_asked split: option.splits)
    then show "yields (attempt (with_start_lock h n (sp_start_lock (sm_paths d)) (ensure_running_locked h n d x False))
        (\<lambda>x. raise (unsafe_service_path x))) (\<lambda>r. \<forall>w. r = Some w \<longrightarrow> as_asked d listener w)"
      unfolding x by (rule yields_attempt) (rule yields_basic)
  qed
  then have "as_asked d listener r" using yieldsD assms by fastforce
  then show ?thesis by (auto simp: as_asked_def)
qed

section \<open>The configuration\<close>

text \<open>The part of the log that came after \<open>past\<close> has the launch of \<open>c\<close>.\<close>

definition launched :: "manager_deps \<Rightarrow> client_event list \<Rightarrow> managed_config \<Rightarrow> client_event list \<Rightarrow> bool" where
  "launched d past c tr \<longleftrightarrow> (\<exists>ys zs. tr = ys @ ChildSpawned (manager_argv d c) # zs @ past)"

text \<open>After the launch of \<open>c\<close> a service answered \<open>st\<close> when asked for its readiness.\<close>

definition answered :: "client_host \<Rightarrow> manager_deps \<Rightarrow> client_event list \<Rightarrow> managed_config \<Rightarrow> json_object \<Rightarrow> client_event list \<Rightarrow> bool" where
  "answered h d past c st tr \<longleftrightarrow> (\<exists>xs v rest. tr = xs @ Asked ''service/readiness'' [] (Inr v) # rest
     \<and> read_readiness h d v = Inr (Some st) \<and> launched d past c rest)"

text \<open>The configuration is the one of before, or one whose service was launched and answered for it.\<close>

definition justified :: "client_host \<Rightarrow> manager_deps \<Rightarrow> client_state \<Rightarrow> client_state \<Rightarrow> bool" where
  "justified h d s s' \<longleftrightarrow> cs_config s' = cs_config s
     \<or> (\<exists>c st. cs_config s' = JsonContent (JObj (config_dict c)) \<and> answered h d (cs_log s) c st (cs_log s')
          \<and> as_asked d (Some (mc_listener c)) st)"

lemma launched_grows: "launched d past c tr \<Longrightarrow> launched d past c (new @ tr)"
  unfolding launched_def by (metis append.assoc)

lemma answered_grows: "answered h d past c st tr \<Longrightarrow> answered h d past c st (new @ tr)"
  unfolding answered_def by (metis append.assoc)

text \<open>What holds of the configuration and of a log that only grows.\<close>

definition grows_with :: "(client_event \<Rightarrow> bool) \<Rightarrow> (client_state \<Rightarrow> bool) \<Rightarrow> bool" where
  "grows_with P I \<longleftrightarrow> (\<forall>s s'. quiet_client P s s' \<longrightarrow> I s \<longrightarrow> I s')"

lemma hoare_client_quiet: "keeps (quiet_client P) m \<Longrightarrow> grows_with P I \<Longrightarrow> hoare I m (\<lambda>_. I) (\<lambda>_. I)"
  unfolding grows_with_def by (intro hoareI) (blast dest: keepsD)+

lemma after_quiet:
  assumes "keeps (quiet_client P) m" "grows_with P I" "\<And>e s. I s \<Longrightarrow> E e s" "\<And>x. hoare I (f x) Q E"
  shows "hoare I (andthen m f) Q E"
proof (rule hoare_andthen)
  show "hoare I m (\<lambda>_. I) E" by (rule hoare_weaken [OF hoare_client_quiet [OF assms(1, 2)]]) (auto intro: assms(3))
qed (rule assms(4))

lemma hoare_option: "hoare P m Q E \<Longrightarrow> (\<And>y. hoare P (f y) Q E) \<Longrightarrow> hoare P (case x of None \<Rightarrow> m | Some y \<Rightarrow> f y) Q E"
  by (cases x) auto

lemma grows_justified: "grows_with P (justified h d s0)"
  unfolding grows_with_def justified_def quiet_client_def by (metis answered_grows)

lemma grows_launched: "grows_with P (\<lambda>s. launched d past c (cs_log s))" "grows_with P (\<lambda>s. answered h d past c st (cs_log s))"
  by (auto simp: grows_with_def quiet_client_def launched_grows answered_grows)

lemma client_grows_conj: "grows_with P I \<Longrightarrow> grows_with P J \<Longrightarrow> grows_with P (\<lambda>s. I s \<and> J s)"
  by (auto simp: grows_with_def)

lemma grows_log: "grows_with P (\<lambda>s. \<exists>new. cs_log s = new @ past)"
  by (auto simp: grows_with_def quiet_client_def)

lemmas grown = client_grows_conj grows_justified grows_launched grows_log

lemma quiet_weaken: "keeps (quiet_client P) m \<Longrightarrow> (\<And>e. P e \<Longrightarrow> Q e) \<Longrightarrow> keeps (quiet_client Q) m"
  unfolding keeps_def quiet_client_def by (metis list.pred_mono_strong)

abbreviation any :: "client_event \<Rightarrow> bool" where
  "any \<equiv> \<lambda>_. True"

lemma any_calm: "calm m \<Longrightarrow> keeps (quiet_client any) m"
  by (erule quiet_weaken) (rule TrueI)

lemma any_terminate: "keeps (quiet_client any) (terminate_spawned_generation h pid)" "keeps (quiet_client any) (terminating h pid x)"
proof -
  have s: "keeps (quiet_client any) (signal_child h pid sig)" for sig
    unfolding signal_child_def by (intro quiet.rules quiet_client_basic TrueI)
  show a: "keeps (quiet_client any) (terminate_spawned_generation h pid)"
    unfolding terminate_spawned_generation_def
    by (intro quiet.rules quiet_client_basic TrueI s any_calm [OF calm_poll]; auto intro!: quiet.rules split: exn.splits)
  show "keeps (quiet_client any) (terminating h pid x)" unfolding terminating_def by (intro quiet.rules a)
qed

lemma any_receipt: "keeps (quiet_client any) (startup_collision h p l)"
proof -
  have "keeps (quiet_client any) (remove_receipt h p v)" for v
    unfolding remove_receipt_def
    by (intro quiet.rules any_calm [OF calm_looks(1)]; auto intro!: quiet.rules quiet_client_basic split: look.splits exn.splits)
  then show ?thesis unfolding startup_collision_def
    by (intro quiet.rules any_calm [OF calm_looks(1)] any_calm [OF calm_looks(3)] quiet_client_basic)
qed

lemma any_failed: "keeps (quiet_client any) (launch_failed h d pid c e)"
  unfolding launch_failed_def
  by (intro quiet.rules any_terminate any_receipt any_calm [OF calm_listener] any_calm [OF calm_poll])

lemmas any = any_terminate any_receipt any_failed

lemma writing_config:
  assumes "\<And>s s'. J s \<Longrightarrow> cs_log s' = cs_log s \<Longrightarrow> cs_config s' = JsonContent v \<Longrightarrow> J s'"
    and "\<And>s s'. J s \<Longrightarrow> cs_log s' = cs_log s \<Longrightarrow> cs_config s' = cs_config s \<Longrightarrow> J s'"
  shows "hoare J (write_file h put_config v) (\<lambda>_. J) (\<lambda>_. J)"
  by (rule hoareI) (auto simp: write_file_def ask_host_def put_config_def act_defs
      split: write_outcome.splits intro: assms(1) assms(2))

lemma recording:
  assumes st: "as_asked d (Some (mc_listener c)) st"
  shows "hoare (\<lambda>s. justified h d s0 s \<and> answered h d (cs_log s0) c st (cs_log s)) (record_config h d c previous current)
     (\<lambda>_. justified h d s0) (\<lambda>_. justified h d s0)"
proof -
  let ?J = "\<lambda>s. justified h d s0 s \<and> answered h d (cs_log s0) c st (cs_log s)"
  have g: "grows_with routine ?J" by (intro grown)
  have w: "hoare ?J (write_file h put_config (JObj (config_dict c))) (\<lambda>_. ?J) (\<lambda>_. ?J)"
    by (rule writing_config) (use st in \<open>auto simp: justified_def\<close>)
  have dir: "hoare ?J (mkdir_owner_only h p) (\<lambda>_. ?J) (\<lambda>_. ?J)" for p by (rule hoare_client_quiet [OF calm_mkdir g])
  have reads: "hoare ?J (read_config h d) (\<lambda>_. ?J) (\<lambda>_. ?J)" by (rule hoare_client_quiet [OF calm_config g])
  have once: "hoare ?J (write_config_once h d c) (\<lambda>_. ?J) (\<lambda>_. ?J)"
    unfolding write_config_once_def
  proof (rule hoare_andthen)
    show "hoare ?J (observe cs_config) (\<lambda>_. ?J) (\<lambda>_. ?J)" by (simp add: hoare_def observe_def)
  next
    fix f
    have "hoare ?J (andthen (read_config h d) (\<lambda>existing. guard (existing = Some c) (configured_already existing (mc_listener c)))) (\<lambda>_. ?J) (\<lambda>_. ?J)"
      by (rule hoare_andthen [OF reads]) (rule hoare_basic)
    moreover have "hoare ?J (andthen (mkdir_owner_only h p) (\<lambda>_. write_file h put_config (JObj (config_dict c)))) (\<lambda>_. ?J) (\<lambda>_. ?J)" for p
      by (rule hoare_andthen [OF dir w])
    ultimately show "hoare ?J (if f \<noteq> NoContent then andthen (read_config h d) (\<lambda>existing. guard (existing = Some c) (configured_already existing (mc_listener c)))
       else andthen (mkdir_owner_only h (sp_durable_dir (sm_paths d))) (\<lambda>_. write_file h put_config (JObj (config_dict c)))) (\<lambda>_. ?J) (\<lambda>_. ?J)"
      by simp
  qed
  have "hoare ?J (record_config h d c previous current) (\<lambda>_. ?J) (\<lambda>_. ?J)"
    unfolding record_config_def replace_config_def using once w by (auto split: option.splits intro!: hoare_basic)
  then show ?thesis by (rule hoare_weaken) auto
qed

lemma probed:
  assumes "probe_readiness h d s = (Inr (Some st), s')"
  shows "\<exists>v. cs_log s' = Asked ''service/readiness'' [] (Inr v) # cs_log s \<and> read_readiness h d v = Inr (Some st)"
  using assms by (auto simp: probe_readiness_def ask_service_def ask_daemon_def ask_host_def log_event_def act_defs
      split: sum.splits if_splits prod.splits)

lemma probing:
  assumes "grows_with routine I"
  shows "hoare (\<lambda>s. I s \<and> launched d past c (cs_log s)) (probe_readiness h d)
     (\<lambda>r s. I s \<and> launched d past c (cs_log s) \<and> (\<forall>st. r = Some st \<longrightarrow> answered h d past c st (cs_log s)))
     (\<lambda>_ s. I s \<and> launched d past c (cs_log s))"
proof (rule hoareI)
  have g: "hoare (\<lambda>s. I s \<and> launched d past c (cs_log s)) (probe_readiness h d)
     (\<lambda>_ s. I s \<and> launched d past c (cs_log s)) (\<lambda>_ s. I s \<and> launched d past c (cs_log s))"
    by (rule hoare_client_quiet [OF calm_probes(3)]) (intro grown assms)
  fix s r s'
  assume I: "I s \<and> launched d past c (cs_log s)"
  {
    assume run: "probe_readiness h d s = (Inr r, s')"
    have "\<forall>st. r = Some st \<longrightarrow> answered h d past c st (cs_log s')"
    proof (intro allI impI)
      fix st
      assume "r = Some st"
      with run probed [of h d s st s'] obtain v where "cs_log s' = Asked ''service/readiness'' [] (Inr v) # cs_log s"
        "read_readiness h d v = Inr (Some st)" by auto
      then show "answered h d past c st (cs_log s')" unfolding answered_def using I
        by (intro exI [of _ "[]"] exI [of _ v] exI [of _ "cs_log s"]) simp
    qed
    then show "I s' \<and> launched d past c (cs_log s') \<and> (\<forall>st. r = Some st \<longrightarrow> answered h d past c st (cs_log s'))"
      using hoareD(1) [OF g I run] by simp
  }
  fix e
  assume "probe_readiness h d s = (Inl e, s')"
  then show "I s' \<and> launched d past c (cs_log s')" using hoareD(2) [OF g I] by blast
qed

lemma answered_well_read: "answered h d past c st tr \<Longrightarrow> well_read st"
  by (auto simp: answered_def dest: loaded_readiness)

lemma accepting:
  fixes h d s0 c st
  defines "J \<equiv> \<lambda>s. justified h d s0 s \<and> answered h d (cs_log s0) c st (cs_log s)"
  shows "hoare J (accept_ready h d pid c previous st) (\<lambda>_. justified h d s0) (\<lambda>_. justified h d s0)"
proof (cases "well_read st")
  case False
  then show ?thesis using answered_well_read by (auto simp: hoare_def J_def)
next
  case read: True
  have gr: "grows_with P J" for P unfolding J_def by (intro grown)
  note stopping = hoare_client_quiet [OF any_terminate(2) grows_justified [where h = h and d = d and ?s0.0 = s0]]
  show ?thesis
  proof (cases "jget st ''listener'' = JStr (mc_listener c)")
    case False
    have "hoare J (terminating h pid x :: json_object client_act) (\<lambda>_. justified h d s0) (\<lambda>_. justified h d s0)" for x
      by (rule hoare_weaken [OF stopping]) (simp_all add: J_def)
    with False show ?thesis by (simp add: accept_ready_def)
  next
    case listener: True
    show ?thesis
    proof (cases "expected_version d")
      case (Inl x)
      then show ?thesis using listener by (auto simp: accept_ready_def hoare_def act_defs J_def)
    next
      case (Inr v)
      have T: "hoare J (terminating h pid x :: json_object client_act) (\<lambda>_. justified h d s0) (\<lambda>_. justified h d s0)" for x
        by (rule hoare_weaken [OF stopping]) (simp_all add: J_def)
      have "hoare J (andthen (read_config h d) (\<lambda>current.
          andthen (attempt (record_config h d c previous current) (terminating h pid)) (\<lambda>_.
          andthen (guard (jget st ''status'' = JStr ''ready'') (not_ready (jget st ''status''))) (\<lambda>_. ret st))))
          (\<lambda>_. justified h d s0) (\<lambda>_. justified h d s0)" if "jget st ''service_version'' = JStr v"
      proof (rule hoare_andthen)
        show "hoare J (read_config h d) (\<lambda>_. J) (\<lambda>_. justified h d s0)"
          by (rule hoare_weaken [OF hoare_client_quiet [OF calm_config gr]]) (simp_all add: J_def)
      next
        fix current
        have "as_asked d (Some (mc_listener c)) st" using read listener Inr that by (simp add: as_asked_def well_read_def)
        then have "hoare J (attempt (record_config h d c previous current) (terminating h pid)) (\<lambda>_. justified h d s0) (\<lambda>_. justified h d s0)"
          unfolding J_def by (intro hoare_attempt [OF recording stopping])
        then show "hoare J (andthen (attempt (record_config h d c previous current) (terminating h pid)) (\<lambda>_.
          andthen (guard (jget st ''status'' = JStr ''ready'') (not_ready (jget st ''status''))) (\<lambda>_. ret st)))
          (\<lambda>_. justified h d s0) (\<lambda>_. justified h d s0)"
          by (rule hoare_andthen) (auto simp: hoare_def act_defs)
      qed
      then show ?thesis using listener Inr T by (auto simp: accept_ready_def hoare_def act_defs)
    qed
  qed
qed

lemma awaiting_launch:
  "hoare (\<lambda>s. justified h d s0 s \<and> launched d (cs_log s0) c (cs_log s)) (await_launch h d pid c previous deadline n)
     (\<lambda>_. justified h d s0) (\<lambda>_. justified h d s0)"
proof (induction n)
  case (Suc n)
  let ?K = "\<lambda>s. justified h d s0 s \<and> launched d (cs_log s0) c (cs_log s)"
  let ?J = "justified h d s0"
  have weak: "hoare ?K m (\<lambda>_. ?J) (\<lambda>_. ?J)" if "keeps (quiet_client any) m" for m :: "'b client_act"
    by (rule hoare_weaken [OF hoare_client_quiet [OF that grows_justified [where h = h and d = d and ?s0.0 = s0]]]) simp_all
  have gK: "grows_with routine ?K" by (intro grown)
  have poll: "hoare ?K (poll_child h) (\<lambda>_. ?K) (\<lambda>_. ?J)"
    by (rule hoare_weaken [OF hoare_client_quiet [OF calm_poll gK]]) simp_all
  have clock: "hoare ?K (ask_host (ci_monotonic h)) (\<lambda>_. ?K) (\<lambda>_. ?J)"
    by (rule hoare_weaken [OF hoare_client_quiet [OF quiet_client_basic(1) gK]]) simp_all
  have go: "hoare ?K (andthen (poll_child h) (\<lambda>exited. andthen (ask_host (ci_monotonic h)) (\<lambda>now.
      if exited \<noteq> None \<or> deadline \<le> now then launch_failed h d pid c exited else await_launch h d pid c previous deadline n)))
      (\<lambda>_. ?J) (\<lambda>_. ?J)"
  proof (rule hoare_andthen [OF poll], rule hoare_andthen [OF clock])
    fix exited now
    have "hoare ?K (launch_failed h d pid c exited :: json_object option client_act) (\<lambda>_. ?J) (\<lambda>_. ?J)"
      by (rule hoare_weaken [OF hoare_client_quiet [OF any_failed grows_justified [where h = h and d = d and ?s0.0 = s0]]]) simp_all
    then show "hoare ?K (if exited \<noteq> None \<or> deadline \<le> now then launch_failed h d pid c exited
        else await_launch h d pid c previous deadline n) (\<lambda>_. ?J) (\<lambda>_. ?J)" using Suc.IH by simp
  qed
  have first: "hoare ?K (attempt (probe_readiness h d) (terminating h pid))
      (\<lambda>r s. ?K s \<and> (\<forall>st. r = Some st \<longrightarrow> answered h d (cs_log s0) c st (cs_log s))) (\<lambda>_. ?J)"
  proof (rule hoare_attempt)
    show "hoare ?K (probe_readiness h d) (\<lambda>r s. ?K s \<and> (\<forall>st. r = Some st \<longrightarrow> answered h d (cs_log s0) c st (cs_log s))) (\<lambda>_. ?K)"
      by (rule hoare_weaken [OF probing [OF grows_justified [where h = h and d = d and ?s0.0 = s0]]]) auto
  next
    fix e
    have "hoare ?K (terminating h pid e :: json_object option client_act) (\<lambda>_. ?J) (\<lambda>_. ?J)"
      by (rule hoare_weaken [OF hoare_client_quiet [OF any_terminate(2) grows_justified [where h = h and d = d and ?s0.0 = s0]]]) simp_all
    moreover have "\<And>s y s'. terminating h pid e s \<noteq> (Inr y, s')"
      by (auto simp: terminating_def act_defs split: sum.splits prod.splits)
    ultimately show "hoare ?K (terminating h pid e)
      (\<lambda>r s. ?K s \<and> (\<forall>st. r = Some st \<longrightarrow> answered h d (cs_log s0) c st (cs_log s))) (\<lambda>_. ?J)"
      by (fastforce simp: hoare_def split: prod.splits sum.splits)
  qed
  show ?case unfolding await_launch.simps
  proof (rule hoare_andthen [OF first])
    fix r
    show "hoare (\<lambda>s. ?K s \<and> (\<forall>st. r = Some st \<longrightarrow> answered h d (cs_log s0) c st (cs_log s)))
      (case r of Some st \<Rightarrow> andthen (accept_ready h d pid c previous st) (\<lambda>r. ret (Some r))
       | None \<Rightarrow> andthen (poll_child h) (\<lambda>exited. andthen (ask_host (ci_monotonic h)) (\<lambda>now.
           if exited \<noteq> None \<or> deadline \<le> now then launch_failed h d pid c exited
           else await_launch h d pid c previous deadline n))) (\<lambda>_. ?J) (\<lambda>_. ?J)"
    proof (cases r)
      case None
      then show ?thesis using go by simp
    next
      case (Some st)
      have "hoare (\<lambda>s. ?K s \<and> answered h d (cs_log s0) c st (cs_log s)) (andthen (accept_ready h d pid c previous st) (\<lambda>r. ret (Some r)))
          (\<lambda>_. ?J) (\<lambda>_. ?J)"
      proof (rule hoare_andthen)
        show "hoare (\<lambda>s. ?K s \<and> answered h d (cs_log s0) c st (cs_log s)) (accept_ready h d pid c previous st) (\<lambda>_. ?J) (\<lambda>_. ?J)"
          by (rule hoare_weaken [OF accepting]) auto
      qed (simp add: hoare_def ret_def)
      with Some show ?thesis by simp
    qed
  qed
qed (auto simp: hoare_def ret_def)

lemma launching:
  "hoare (\<lambda>s. justified h d s0 s \<and> (\<exists>new. cs_log s = new @ cs_log s0)) (launch_locked h n d c previous)
     (\<lambda>_. justified h d s0) (\<lambda>_. justified h d s0)"
proof -
  let ?J = "justified h d s0" and ?G = "\<lambda>s. justified h d s0 s \<and> (\<exists>new. cs_log s = new @ cs_log s0)"
  let ?K = "\<lambda>s. justified h d s0 s \<and> launched d (cs_log s0) c (cs_log s)"
  have gG: "grows_with routine ?G" and gK: "grows_with routine ?K" by (intro grown)+
  have prep: "hoare ?G (prepare_launch h d c) (\<lambda>_. ?G) (\<lambda>_. ?J)"
    by (rule hoare_weaken [OF hoare_client_quiet [OF calm_prepare gG]]) simp_all
  have clock: "hoare ?K (ask_host (ci_monotonic h)) (\<lambda>_. ?K) (\<lambda>_. ?J)"
    by (rule hoare_weaken [OF hoare_client_quiet [OF quiet_client_basic(1) gK]]) simp_all
  have spawn: "hoare ?G (spawn_service h d c) (\<lambda>_. ?K) (\<lambda>_. ?J)"
  proof (rule hoareI)
    fix s pid s'
    assume G: "?G s" and "spawn_service h d c s = (Inr pid, s')"
    then have "cs_log s' = ChildSpawned (manager_argv d c) # cs_log s \<and> cs_config s' = cs_config s"
      by (auto simp: spawn_service_def spawn_child_def try_host_def ask_host_def log_event_def act_defs split: sum.splits if_splits prod.splits)
    moreover then have "justified h d s0 s'"
      using G answered_grows [of h d "cs_log s0" _ _ "cs_log s" "[ChildSpawned (manager_argv d c)]"] by (auto simp: justified_def)
    ultimately show "?K s'" using G unfolding launched_def by (metis append_Nil)
  next
    fix s e s'
    assume G: "?G s" and "spawn_service h d c s = (Inl e, s')"
    then have "cs_log s' = cs_log s \<and> cs_config s' = cs_config s"
      by (auto simp: spawn_service_def spawn_child_def try_host_def ask_host_def log_event_def act_defs split: sum.splits if_splits prod.splits)
    then show "?J s'" using G by (simp add: justified_def)
  qed
  show ?thesis unfolding launch_locked_def
    by (rule hoare_andthen [OF prep], rule hoare_andthen [OF spawn], rule hoare_andthen [OF clock], rule awaiting_launch)
qed

lemma ensuring:
  "hoare (\<lambda>s. justified h d s0 s \<and> (\<exists>new. cs_log s = new @ cs_log s0)) (ensure_running_locked h n d requested replacement)
     (\<lambda>_. justified h d s0) (\<lambda>_. justified h d s0)"
proof -
  let ?J = "justified h d s0" and ?G = "\<lambda>s. justified h d s0 s \<and> (\<exists>new. cs_log s = new @ cs_log s0)"
  have gG: "grows_with routine ?G" by (intro grown)
  have fresh: "hoare ?G (start_fresh h n d requested replacement) (\<lambda>_. ?J) (\<lambda>_. ?J)"
    unfolding start_fresh_def
    by (rule after_quiet [OF calm_config gG], blast, rule after_quiet [OF calm_choose gG], blast, rule launching)
  have stop: "hoare ?G (ret x) (\<lambda>_. ?J) (\<lambda>_. ?J)" for x :: "'b" by (auto simp: hoare_def ret_def)
  show ?thesis unfolding ensure_running_locked_def
  proof (rule after_quiet [OF calm_probes(3) gG], blast)
    fix r
    show "hoare ?G (case r of None \<Rightarrow> start_fresh h n d requested replacement
     | Some r \<Rightarrow>
         andthen (guard (jget r ''status'' = JStr ''ready'') (not_ready (jget r ''status''))) (\<lambda>_.
         andthen (guard (requested = None \<or> requested = Some (field_str r ''listener''))
             (listener_conflict (field_str r ''listener'') (the requested))) (\<lambda>_.
         andthen (lift (expected_version d)) (\<lambda>v.
           if jget r ''service_version'' = JStr v \<and> \<not> replacement then ret (Some r)
           else andthen (request_maintenance h ''restart'' [(''listener'', jget r ''listener''), (''force'', JBool False)]) (\<lambda>_.
             andthen (await_stop h n d (basis_of r)) (\<lambda>w. case w of
               None \<Rightarrow> ret None | Some _ \<Rightarrow> start_fresh h n d requested replacement)))))) (\<lambda>_. ?J) (\<lambda>_. ?J)"
    proof (cases r)
      case None
      then show ?thesis using fresh by simp
    next
      case (Some w)
      have rest: "hoare ?G (andthen (request_maintenance h ''restart'' ps) (\<lambda>_. andthen (await_stop h n d b) (\<lambda>w. case w of
               None \<Rightarrow> ret None | Some _ \<Rightarrow> start_fresh h n d requested replacement))) (\<lambda>_. ?J) (\<lambda>_. ?J)" for ps b
        by (rule after_quiet [OF calm_maintenance gG], blast, rule after_quiet [OF calm_stopped(2) gG], blast)
          (rule hoare_option [OF stop fresh])
      show ?thesis unfolding Some option.case
        by (rule after_quiet [OF quiet.basic(3) gG], blast, rule after_quiet [OF quiet.basic(3) gG], blast,
            rule after_quiet [OF quiet.basic(4) gG], blast) (use rest in \<open>auto simp: hoare_def ret_def\<close>)
    qed
  qed
qed

lemma lock_quiet: "calm (prepare_lock h p)" "keeps (quiet_client any) (take_lock h n p)"
proof -
  show "calm (prepare_lock h p)" unfolding prepare_lock_def by (intro calm)
  have f: "calm (flock_until h p t k)" for t k
    by (induction k) (auto intro!: calm split: flock.splits)
  show "keeps (quiet_client any) (take_lock h n p)" unfolding take_lock_def
    by (intro quiet.rules any_calm [OF f] any_calm [OF calm_files(1)] quiet_client_basic TrueI any_calm [OF calm_looks(1)];
        auto intro!: quiet.rules quiet_client_basic split: look.splits)
qed

lemma locked_section:
  assumes body: "hoare (\<lambda>s. justified h d s0 s \<and> (\<exists>new. cs_log s = new @ cs_log s0)) body (\<lambda>_. justified h d s0) (\<lambda>_. justified h d s0)"
  shows "hoare (\<lambda>s. s = s0) (with_start_lock h n p body) (\<lambda>_. justified h d s0) (\<lambda>_. justified h d s0)"
proof -
  let ?J = "justified h d s0" and ?G = "\<lambda>s. justified h d s0 s \<and> (\<exists>new. cs_log s = new @ cs_log s0)"
  have gG: "grows_with P ?G" for P by (intro grown)
  have "hoare ?G (andthen (take_lock h n p) (\<lambda>r. case r of None \<Rightarrow> ret None | Some _ \<Rightarrow> body)) (\<lambda>_. ?J) (\<lambda>_. ?J)"
    by (rule after_quiet [OF lock_quiet(2) gG], blast) (use body in \<open>auto simp: hoare_def ret_def split: option.splits\<close>)
  then have "hoare ?G (andthen (take_lock h n p) (\<lambda>r. case r of None \<Rightarrow> ret None | Some _ \<Rightarrow> body))
      (\<lambda>_ s. ?J (s\<lparr>cs_log := StartUnlocked # cs_log s\<rparr>)) (\<lambda>_ s. ?J (s\<lparr>cs_log := StartUnlocked # cs_log s\<rparr>))"
    by (rule hoare_weaken) (use answered_grows [where new = "[StartUnlocked]"] in \<open>auto simp: justified_def\<close>)
  note guarded = hoare_always [where f = "\<lambda>s. s\<lparr>cs_log := StartUnlocked # cs_log s\<rparr>" and Q = "\<lambda>_. ?J" and E = "\<lambda>_. ?J", OF this]
  have "hoare ?G (with_start_lock h n p body) (\<lambda>_. ?J) (\<lambda>_. ?J)"
    unfolding with_start_lock_def by (rule after_quiet [OF lock_quiet(1) gG], blast, rule guarded)
  then show ?thesis by (rule hoare_weaken) (auto simp: justified_def)
qed

text \<open>
  C13. The configuration file is changed only for a service that this start launched: it holds a
  configuration for whose listener and version a ready service answered after the launch. A
  start that fails before leaves the file as it was.
\<close>

theorem configuration_names_a_ready_service:
  assumes "ensure_managed h n d listener s = (r, s')"
  shows "cs_config s' = cs_config s \<or> (\<exists>c st. cs_config s' = JsonContent (JObj (config_dict c))
     \<and> answered h d (cs_log s) c st (cs_log s') \<and> as_asked d (Some (mc_listener c)) st)"
proof -
  have "hoare (\<lambda>x. x = s) (ensure_managed h n d listener) (\<lambda>_. justified h d s) (\<lambda>_. justified h d s)"
    unfolding ensure_managed_def
  proof (rule hoare_andthen [where R = "\<lambda>_ x. x = s"])
    fix requested
    show "hoare (\<lambda>x. x = s) (attempt (with_start_lock h n (sp_start_lock (sm_paths d)) (ensure_running_locked h n d requested False))
        (\<lambda>x. raise (unsafe_service_path x))) (\<lambda>_. justified h d s) (\<lambda>_. justified h d s)"
      by (rule hoare_attempt [OF locked_section [OF ensuring]]) (simp add: hoare_def raise_def)
  qed (auto simp: hoare_def lift_def justified_def split: sum.splits)
  from hoareD [OF this refl] assms have "justified h d s s'" by (cases r) simp_all
  then show ?thesis by (simp add: justified_def)
qed

section \<open>No process is left behind\<close>

text \<open>Since \<open>past\<close> the child was being stopped or had been seen to be over.\<close>

definition accounted :: "client_event list \<Rightarrow> client_state \<Rightarrow> bool" where
  "accounted past s \<longleftrightarrow> (\<exists>new. cs_log s = new @ past \<and> (ChildStopping \<in> set new \<or> (\<exists>code. ChildPolled (Some code) \<in> set new)))"

lemma grows_accounted: "grows_with P (accounted past)"
  unfolding grows_with_def accounted_def quiet_client_def by (metis Un_iff append.assoc set_append)

text \<open>The one exception after which a child may be left: the configuration could not be read.\<close>

definition unreadable :: "client_host \<Rightarrow> manager_deps \<Rightarrow> exn \<Rightarrow> bool" where
  "unreadable h d x \<longleftrightarrow> (\<exists>m m'. read_config h d m = (Inl x, m'))"

abbreviation grown_from :: "client_event list \<Rightarrow> client_state \<Rightarrow> bool" where
  "grown_from past \<equiv> \<lambda>s. \<exists>new. cs_log s = new @ past"

lemma announced: "keeps (quiet_client any) m
    \<Longrightarrow> hoare (grown_from past) (andthen (log_event ChildStopping) (\<lambda>_. m)) (\<lambda>_. accounted past) (\<lambda>_. accounted past)"
proof -
  assume m: "keeps (quiet_client any) m"
  have "hoare (grown_from past) (log_event ChildStopping) (\<lambda>_. accounted past) (\<lambda>_. accounted past)"
    by (rule hoareI) (auto simp: log_event_def act_defs accounted_def)
  then show ?thesis by (rule hoare_andthen) (rule hoare_client_quiet [OF m grows_accounted])
qed

lemma stopping_accounts:
  "hoare (grown_from past) (terminate_spawned_generation h pid) (\<lambda>_. accounted past) (\<lambda>_. accounted past)"
  unfolding terminate_spawned_generation_def
proof (rule announced)
  have s: "keeps (quiet_client any) (signal_child h pid sig)" for sig
    unfolding signal_child_def by (intro quiet.rules quiet_client_basic TrueI)
  show "keeps (quiet_client any) (andthen (poll_child h) (\<lambda>exited. if exited \<noteq> None then ret ()
     else attempt
       (andthen (signal_child h pid SIGTERM) (\<lambda>_.
         attempt (try_host (ci_wait h)) (\<lambda>x. if is_timeout_expired x
           then andthen (signal_child h pid SIGKILL) (\<lambda>_. try_host (ci_wait h)) else raise x)))
       (\<lambda>x. case x of ProcessLookupError _ \<Rightarrow> ret () | _ \<Rightarrow> raise x)))"
    by (intro quiet.rules quiet_client_basic TrueI s any_calm [OF calm_poll]; auto intro!: quiet.rules split: exn.splits)
qed

lemma terminating_accounts: "hoare (grown_from past) (terminating h pid x) Q (\<lambda>_. accounted past)"
  unfolding terminating_def by (rule hoare_andthen [OF stopping_accounts]) (simp add: hoare_def raise_def)

text \<open>What is left when a launch gives \<open>x\<close>.\<close>

definition left_over :: "client_host \<Rightarrow> manager_deps \<Rightarrow> client_event list \<Rightarrow> exn \<Rightarrow> client_state \<Rightarrow> bool" where
  "left_over h d past x s \<longleftrightarrow> accounted past s \<or> unreadable h d x"

lemma writing_grows: "hoare (grown_from past) (write_file h put_config v) (\<lambda>_. grown_from past) (\<lambda>_. grown_from past)"
  by (rule hoareI) (auto simp: write_file_def ask_host_def put_config_def act_defs split: write_outcome.splits)

lemma recording_grows: "hoare (grown_from past) (record_config h d c previous current) (\<lambda>_. grown_from past) (\<lambda>_. grown_from past)"
proof -
  have g: "grows_with P (grown_from past)" for P by (intro grown)
  have w: "hoare (grown_from past) (write_file h put_config v) (\<lambda>_. grown_from past) (\<lambda>_. grown_from past)" for v
    by (rule writing_grows)
  have once: "hoare (grown_from past) (write_config_once h d c) (\<lambda>_. grown_from past) (\<lambda>_. grown_from past)"
    unfolding write_config_once_def
  proof (rule after_quiet [OF quiet.basic(5) g], assumption)
    fix f
    show "hoare (grown_from past) (if f \<noteq> NoContent then andthen (read_config h d) (\<lambda>existing. guard (existing = Some c) (configured_already existing (mc_listener c)))
       else andthen (mkdir_owner_only h (sp_durable_dir (sm_paths d))) (\<lambda>_. write_file h put_config (JObj (config_dict c))))
       (\<lambda>_. grown_from past) (\<lambda>_. grown_from past)"
      by (cases "f = NoContent") (auto intro: after_quiet [OF calm_config g] after_quiet [OF calm_mkdir g] hoare_basic w)
  qed
  show ?thesis unfolding record_config_def replace_config_def using once w by (auto split: option.splits intro!: hoare_basic)
qed

lemma accept_leaves:
  assumes "well_read st" "expected_version d = Inr v"
  shows "hoare (grown_from past) (accept_ready h d pid c previous st) (\<lambda>_ _. True) (left_over h d past)"
proof -
  have g: "grows_with P (grown_from past)" for P by (intro grown)
  have T: "hoare (grown_from past) (terminating h pid x) Q (left_over h d past)" for x Q
    by (rule hoare_weaken [OF terminating_accounts [where Q = Q]]) (auto simp: left_over_def)
  have reads: "hoare (grown_from past) (read_config h d) (\<lambda>_. grown_from past) (left_over h d past)"
  proof (rule hoareI)
    fix s x s'
    assume "grown_from past s" "read_config h d s = (Inr x, s')"
    then show "grown_from past s'" using hoareD(1) [OF hoare_client_quiet [OF calm_config g]] by blast
  qed (auto simp: unreadable_def left_over_def)
  have "hoare (grown_from past) (attempt (record_config h d c previous current) (terminating h pid)) (\<lambda>_ _. True) (left_over h d past)" for current
    by (rule hoare_attempt [OF hoare_weaken [OF recording_grows] T]) simp_all
  then have "hoare (grown_from past) (andthen (read_config h d) (\<lambda>current.
      andthen (attempt (record_config h d c previous current) (terminating h pid)) (\<lambda>_.
      andthen (guard (jget st ''status'' = JStr ''ready'') (not_ready (jget st ''status''))) (\<lambda>_. ret st))))
      (\<lambda>_ _. True) (left_over h d past)"
    using assms(1) by - (rule hoare_andthen [OF reads], rule hoare_andthen, assumption, auto simp: hoare_def act_defs well_read_def)
  moreover have "andthen (lift (Inr v)) f = f v" for f :: "string \<Rightarrow> json_object client_act" by (rule ext) (simp add: act_defs)
  ultimately show ?thesis using assms(2) by (simp add: accept_ready_def T)
qed

lemma failing_accounts:
  "hoare (\<lambda>s. if exited = None then grown_from past s else accounted past s) (launch_failed h d pid c exited) (\<lambda>_ _. True) (\<lambda>_. accounted past)"
proof -
  have rest: "keeps (quiet_client any) (andthen (startup_collision h (receipt_path d c) (mc_listener c)) (\<lambda>collided.
     andthen (guard (\<not> collided) (address_in_use (mc_listener c))) (\<lambda>_.
     andthen (probe_listener h (mc_listener c) ''Configured listener could not be reprobed'') (\<lambda>_.
     andthen (if exited = None then ret None else poll_child h) (\<lambda>code. raise (x code))))))" for x
    by (intro quiet.rules any_receipt any_calm [OF calm_listener] any_calm [OF calm_poll])
  have first: "hoare (\<lambda>s. if exited = None then grown_from past s else accounted past s)
      (if exited = None then terminate_spawned_generation h pid else ret ()) (\<lambda>_. accounted past) (\<lambda>_. accounted past)"
    using stopping_accounts by (auto intro!: hoare_basic)
  show ?thesis unfolding launch_failed_def
    by (rule hoare_andthen [OF first]) (rule hoare_weaken [OF hoare_client_quiet [OF rest grows_accounted]], simp_all)
qed

lemma polling_accounts:
  "hoare (grown_from past) (poll_child h) (\<lambda>r s. if r = None then grown_from past s else accounted past s) E"
  by (rule hoareI) (auto simp: poll_child_def ask_host_def log_event_def act_defs accounted_def)

lemma awaiting_leaves:
  assumes "expected_version d = Inr v"
  shows "hoare (grown_from past) (await_launch h d pid c previous deadline n) (\<lambda>_ _. True) (left_over h d past)"
proof (induction n)
  case (Suc n)
  have g: "grows_with P (grown_from past)" for P by (intro grown)
  have T: "hoare (grown_from past) (terminating h pid x) Q (left_over h d past)" for x Q
    by (rule hoare_weaken [OF terminating_accounts [where Q = Q]]) (auto simp: left_over_def)
  have failing: "hoare (\<lambda>s. if e = None then grown_from past s else accounted past s) (launch_failed h d pid c e) (\<lambda>_ _. True)
      (left_over h d past)" for e
    by (rule hoare_weaken [OF failing_accounts]) (auto simp: left_over_def)
  have clock: "hoare (\<lambda>s. if e = None then grown_from past s else accounted past s) (ask_host (ci_monotonic h))
      (\<lambda>_ s. if e = None then grown_from past s else accounted past s) (left_over h d past)" for e :: "int option"
    by (rule hoareI) (auto simp: ask_host_def accounted_def)
  have again: "hoare (\<lambda>s. if e = None then grown_from past s else accounted past s)
      (if e \<noteq> None \<or> deadline \<le> now then launch_failed h d pid c e else await_launch h d pid c previous deadline n)
      (\<lambda>_ _. True) (left_over h d past)" for e now
    using failing [of e] Suc.IH by (cases e) simp_all
  have go: "hoare (grown_from past) (andthen (poll_child h) (\<lambda>exited. andthen (ask_host (ci_monotonic h)) (\<lambda>now.
      if exited \<noteq> None \<or> deadline \<le> now then launch_failed h d pid c exited else await_launch h d pid c previous deadline n)))
      (\<lambda>_ _. True) (left_over h d past)"
    by (rule hoare_andthen [OF polling_accounts], rule hoare_andthen [OF clock], rule again)
  have probe: "hoare (grown_from past) (attempt (probe_readiness h d) (terminating h pid))
      (\<lambda>r s. grown_from past s \<and> (\<forall>st. r = Some st \<longrightarrow> well_read st)) (left_over h d past)"
  proof (rule hoare_attempt [OF _ T])
    show "hoare (grown_from past) (probe_readiness h d) (\<lambda>r s. grown_from past s \<and> (\<forall>st. r = Some st \<longrightarrow> well_read st)) (\<lambda>_. grown_from past)"
      using hoare_client_quiet [OF calm_probes(3) g] ready_when_read unfolding yields_def by (fastforce intro!: hoareI dest: hoareD)
  qed
  show ?case unfolding await_launch.simps
  proof (rule hoare_andthen [OF probe])
    fix r
    show "hoare (\<lambda>s. grown_from past s \<and> (\<forall>st. r = Some st \<longrightarrow> well_read st))
      (case r of Some st \<Rightarrow> andthen (accept_ready h d pid c previous st) (\<lambda>r. ret (Some r))
       | None \<Rightarrow> andthen (poll_child h) (\<lambda>exited. andthen (ask_host (ci_monotonic h)) (\<lambda>now.
           if exited \<noteq> None \<or> deadline \<le> now then launch_failed h d pid c exited
           else await_launch h d pid c previous deadline n))) (\<lambda>_ _. True) (left_over h d past)"
    proof (cases r)
      case None
      then show ?thesis using go by simp
    next
      case (Some st)
      have "hoare (grown_from past) (andthen (accept_ready h d pid c previous st) (\<lambda>r. ret (Some r))) (\<lambda>_ _. True) (left_over h d past)"
        if "well_read st"
        by (rule hoare_andthen [OF accept_leaves [OF that assms]]) (simp add: hoare_def ret_def)
      then show ?thesis unfolding Some option.case by (cases "well_read st") (auto simp: hoare_def)
    qed
  qed
qed (auto simp: hoare_def ret_def)


section \<open>A stop that returns\<close>

text \<open>An answer that says that no service is there.\<close>

fun says_gone :: "client_host \<Rightarrow> manager_deps \<Rightarrow> (exn, json) res \<Rightarrow> bool" where
  "says_gone h d (Inl x) \<longleftrightarrow> not_running x"
| "says_gone h d (Inr v) \<longleftrightarrow> read_readiness h d v = Inr None"

text \<open>The newest events are a last look at the service: no endpoint, no process of it, no answer.\<close>

definition seen_gone :: "client_host \<Rightarrow> manager_deps \<Rightarrow> client_event list \<Rightarrow> bool" where
  "seen_gone h d tr \<longleftrightarrow> (\<exists>a rest. tr = Asked ''service/readiness'' [] a # PidsLooked [] # EndpointLooked False # rest \<and> says_gone h d a)"

lemma unanswered:
  assumes "probe_readiness h d s = (Inr None, s')"
  shows "\<exists>a. cs_log s' = Asked ''service/readiness'' [] a # cs_log s \<and> says_gone h d a"
  using assms by (auto simp: probe_readiness_def ask_service_def ask_daemon_def ask_host_def log_event_def act_defs
      split: sum.splits if_splits prod.splits)

lemma silent: "keeps (quiet_client (\<lambda>_. False)) m \<Longrightarrow> hoare (\<lambda>s. P (cs_log s)) m (\<lambda>_ s. P (cs_log s)) (\<lambda>_ s. P (cs_log s))"
  by (rule hoareI) (auto dest!: keepsD simp: quiet_client_def list_all_iff)

lemma logging: "(\<And>s. P s \<Longrightarrow> Q (e # cs_log s)) \<Longrightarrow> hoare P (log_event e) (\<lambda>_ s. Q (cs_log s)) E"
  by (auto simp: hoare_def log_event_def act_defs)

lemma stopped_gone: "hoare (\<lambda>_. True) (await_stopped h d b deadline n) (\<lambda>r s. r \<noteq> None \<longrightarrow> seen_gone h d (cs_log s)) (\<lambda>_ _. True)"
proof (induction n)
  case (Suc n)
  have T: "hoare P m (\<lambda>_ _. True) (\<lambda>_ _. True)" for P and m :: "'b client_act"
    by (simp add: hoare_def split: sum.splits prod.splits)
  have probe: "hoare (\<lambda>s. \<exists>rest. cs_log s = PidsLooked pids # EndpointLooked endpoint # rest) (probe_readiness h d)
      (\<lambda>r s. r = None \<and> \<not> endpoint \<and> pids = [] \<longrightarrow> seen_gone h d (cs_log s)) (\<lambda>_ _. True)" for pids endpoint
    by (rule hoareI) (auto simp: seen_gone_def dest!: unanswered)
  have rest: "hoare (\<lambda>s. r = None \<and> \<not> endpoint \<and> pids = [] \<longrightarrow> seen_gone h d (cs_log s))
      (if r = None \<and> \<not> endpoint \<and> pids = [] then ret (Some ())
       else andthen (ask_host (ci_monotonic h)) (\<lambda>now.
         if deadline \<le> now then raise (stop_timeout endpoint pids) else await_stopped h d b deadline n))
      (\<lambda>r s. r \<noteq> None \<longrightarrow> seen_gone h d (cs_log s)) (\<lambda>_ _. True)" for r :: "json_object option" and pids endpoint
    using Suc.IH by (auto simp: hoare_def act_defs ask_host_def split: prod.splits sum.splits)
  let ?look = "\<lambda>endpoint s. \<exists>rest. cs_log s = EndpointLooked endpoint # rest"
  let ?both = "\<lambda>endpoint pids s. \<exists>rest. cs_log s = PidsLooked pids # EndpointLooked endpoint # rest"
  have pids: "hoare (?look endpoint) (live_pids h ps) (\<lambda>_. ?look endpoint) (\<lambda>_ _. True)" for ps endpoint
    by (rule hoare_weaken [OF silent [OF calm_pids(2)]]) simp_all
  have l1: "hoare (\<lambda>_. True) (log_event (EndpointLooked e)) (\<lambda>_. ?look e) (\<lambda>_ _. True)" for e by (rule logging) simp
  have l2: "hoare (?look e) (log_event (PidsLooked p)) (\<lambda>_. ?both e p) (\<lambda>_ _. True)" for e p by (rule logging) simp
  show ?case unfolding await_stopped.simps
    by (rule hoare_andthen [OF T], rule hoare_andthen [OF l1], rule hoare_andthen [OF pids], rule hoare_andthen [OF l2],
        rule hoare_andthen [OF probe], rule rest)
qed (simp add: hoare_def ret_def)

text \<open>
  C32. A stop that returns ends in one of two ways, seen last under the lock: the service was found
  gone - no socket, none of its processes, no answer - or nothing was running in the first place.
\<close>

theorem stopped_service_is_gone:
  assumes "stop_managed h n d force s = (Inr (Some r), s')"
  shows "\<exists>rest. cs_log s' = StartUnlocked # rest
    \<and> (seen_gone h d rest \<or> (\<exists>t t'. probe_basis h d force t = (Inr None, t') \<and> cs_log t' = rest))"
proof -
  let ?over = "\<lambda>rest. seen_gone h d rest \<or> (\<exists>t t'. probe_basis h d force t = (Inr None, t') \<and> cs_log t' = rest)"
  let ?Q = "\<lambda>r s. r \<noteq> None \<longrightarrow> ?over (cs_log s)"
  have T: "hoare P m (\<lambda>_ _. True) (\<lambda>_ _. True)" for P and m :: "'b client_act"
    by (simp add: hoare_def split: sum.splits prod.splits)
  have idle: "hoare (\<lambda>s. ?over (cs_log s)) (andthen (nothing_running h d ''stop'' force None) (\<lambda>m. ret (Some (maintenance_to_dict m)))) ?Q (\<lambda>_ _. True)"
  proof -
    have "keeps (quiet_client (\<lambda>_. False)) (andthen (nothing_running h d ''stop'' force None) (\<lambda>m. ret (Some (maintenance_to_dict m))))"
      unfolding nothing_running_def durable_workers_def Let_def is_present_def by (intro quiet.rules quiet_client_basic)
    from silent [OF this, where P = ?over] show ?thesis by (rule hoare_weaken) simp_all
  qed
  have stopped: "hoare (\<lambda>_. True) (await_stop h n d b) (\<lambda>r s. r \<noteq> None \<longrightarrow> seen_gone h d (cs_log s)) (\<lambda>_ _. True)" for b
    unfolding await_stop_def by (rule hoare_andthen [OF T stopped_gone])
  have asked: "hoare P (andthen (request_maintenance h ''stop'' ps) (\<lambda>m.
      andthen (await_stop h n d b) (\<lambda>w. ret (map_option (\<lambda>_. maintenance_to_dict m) w)))) ?Q (\<lambda>_ _. True)" for P ps b
    by (rule hoare_andthen [OF T], rule hoare_andthen [OF stopped]) (auto simp: hoare_def ret_def)
  have probed: "hoare (\<lambda>_. True) (probe_basis h d force) (\<lambda>found s. found = None \<longrightarrow> ?over (cs_log s)) (\<lambda>_ _. True)"
    by (rule hoareI) auto
  have body: "hoare (\<lambda>_. True) (andthen (probe_basis h d force) (\<lambda>found. case found of
        None \<Rightarrow> andthen (nothing_running h d ''stop'' force None) (\<lambda>m. ret (Some (maintenance_to_dict m)))
      | Some b \<Rightarrow> andthen (request_maintenance h ''stop'' [(''force'', JBool force)]) (\<lambda>m.
          andthen (await_stop h n d b) (\<lambda>w. ret (map_option (\<lambda>_. maintenance_to_dict m) w))))) ?Q (\<lambda>_ _. True)"
  proof (rule hoare_andthen [OF probed])
    fix found
    show "hoare (\<lambda>s. found = None \<longrightarrow> ?over (cs_log s)) (case found of
        None \<Rightarrow> andthen (nothing_running h d ''stop'' force None) (\<lambda>m. ret (Some (maintenance_to_dict m)))
      | Some b \<Rightarrow> andthen (request_maintenance h ''stop'' [(''force'', JBool force)]) (\<lambda>m.
          andthen (await_stop h n d b) (\<lambda>w. ret (map_option (\<lambda>_. maintenance_to_dict m) w)))) ?Q (\<lambda>_ _. True)"
    proof (cases found)
      case None
      show ?thesis unfolding None option.case by (rule hoare_weaken [OF idle]) simp_all
    next
      case (Some b)
      show ?thesis unfolding Some option.case by (rule asked)
    qed
  qed
  have "hoare (\<lambda>_. True) (stop_managed h n d force) (\<lambda>r s. r \<noteq> None \<longrightarrow> (\<exists>rest. cs_log s = StartUnlocked # rest \<and> ?over rest)) (\<lambda>_ _. True)"
    unfolding stop_managed_def with_start_lock_def
  proof (rule hoare_andthen [OF T], rule hoare_always, rule hoare_andthen [OF T])
    fix lock
    show "hoare (\<lambda>_. True) (case lock of None \<Rightarrow> ret None | Some _ \<Rightarrow> andthen (probe_basis h d force) (\<lambda>found. case found of
        None \<Rightarrow> andthen (nothing_running h d ''stop'' force None) (\<lambda>m. ret (Some (maintenance_to_dict m)))
      | Some b \<Rightarrow> andthen (request_maintenance h ''stop'' [(''force'', JBool force)]) (\<lambda>m.
          andthen (await_stop h n d b) (\<lambda>w. ret (map_option (\<lambda>_. maintenance_to_dict m) w)))))
       (\<lambda>r s. r \<noteq> None \<longrightarrow> (\<exists>rest. cs_log (s\<lparr>cs_log := StartUnlocked # cs_log s\<rparr>) = StartUnlocked # rest \<and> ?over rest)) (\<lambda>_ _. True)"
      by (cases lock) (auto intro: hoare_weaken [OF body] simp: hoare_def [of _ "ret None"] ret_def)
  qed
  from hoareD(1) [OF this TrueI assms] show ?thesis by simp
qed

end
