(* ===== verification/InstanceProps.thy ===== *)
theory InstanceProps
  imports ServiceClientProps
begin

text \<open>
  Facts of one instance: the paths of its files, the file of its identity read back, the daemon a
  start returns, and the sockets that are unlinked.
\<close>

section \<open>Paths from parts\<close>

definition clean :: "string \<Rightarrow> bool" where
  "clean c \<longleftrightarrow> c \<noteq> [] \<and> c \<noteq> ''.'' \<and> slash \<notin> set c"

definition anchors :: "string set" where
  "anchors = {[], ''/'', ''//''}"

lemma split_whole: "slash \<notin> set c \<Longrightarrow> split_on slash c = [c]"
  by (induction c) auto

lemma split_step: "slash \<notin> set c \<Longrightarrow> split_on slash (c @ slash # s) = c # split_on slash s"
  by (induction c) auto

lemma split_join: "list_all clean ps \<Longrightarrow> ps \<noteq> [] \<Longrightarrow> split_on slash (join_with [slash] ps) = ps"
  by (induction "[slash]" ps rule: join_with.induct) (auto simp: clean_def split_whole split_step)

lemma slash_chars: "''/'' = [slash]" "''//'' = [slash, slash]" "''///'' = [slash, slash, slash]"
  by (simp_all add: slash_def)

lemma clean_kept: "list_all clean ps \<Longrightarrow> filter (\<lambda>c. c \<noteq> [] \<and> c \<noteq> ''.'') ps = ps"
  by (induction ps) (auto simp: clean_def)

lemma parts_of_parts: "a \<in> anchors \<Longrightarrow> list_all clean ps \<Longrightarrow> path_parts (of_parts a ps) = ps"
  using split_join [of ps] clean_kept [of ps] unfolding anchors_def slash_chars
  by (cases "ps = []") (auto simp: path_parts_def of_parts_def Let_def split_whole slash_def)

lemma clean_start: "clean c \<Longrightarrow> \<exists>x xs. c = x # xs \<and> x \<noteq> slash"
  by (cases c) (auto simp: clean_def)

lemma join_start: "list_all clean ps \<Longrightarrow> ps \<noteq> [] \<Longrightarrow> \<exists>c cs. join_with [slash] ps = c # cs \<and> c \<noteq> slash"
proof (cases ps)
  case (Cons p rest)
  moreover assume "list_all clean ps"
  ultimately have "clean p" by simp
  from clean_start [OF this] obtain x xs where "p = x # xs" "x \<noteq> slash" by blast
  with Cons show ?thesis by (cases rest) simp_all
qed simp

lemma anchor_of_parts: "a \<in> anchors \<Longrightarrow> list_all clean ps \<Longrightarrow> path_anchor (of_parts a ps) = a"
proof (cases "ps = []")
  case False
  moreover assume "list_all clean ps" "a \<in> anchors"
  moreover obtain c cs where "join_with [slash] ps = c # cs" "c \<noteq> slash" using join_start calculation by blast
  ultimately show ?thesis
    by (auto simp: anchors_def path_anchor_def is_absolute_def startswith_def of_parts_def Let_def slash_def)
qed (auto simp: anchors_def path_anchor_def is_absolute_def startswith_def of_parts_def)

lemma anchor_known: "path_anchor p \<in> anchors"
  by (simp add: path_anchor_def anchors_def)

lemma split_free: "c \<in> set (split_on slash p) \<Longrightarrow> slash \<notin> set c"
  by (induction p arbitrary: c) (auto split: if_splits list.splits)

lemma parts_clean: "list_all clean (path_parts p)"
  by (auto simp: path_parts_def list_all_iff clean_def split_free)

lemma clean_relative: "clean c \<Longrightarrow> \<not> is_absolute c" "clean c \<Longrightarrow> path_parts c = [c]"
proof -
  show "clean c \<Longrightarrow> \<not> is_absolute c" by (auto simp: is_absolute_def startswith_def slash_def dest!: clean_start)
  show "clean c \<Longrightarrow> path_parts c = [c]" by (simp add: path_parts_def split_whole clean_def)
qed

lemma joined: "clean c \<Longrightarrow> path_join p c = of_parts (path_anchor p) (path_parts p @ [c])"
  by (simp add: path_join_def clean_relative)

lemma under_parts: "list_all clean names \<Longrightarrow> path_parts (under p names) = path_parts p @ names \<and> path_anchor (under p names) = path_anchor p"
proof (induction names arbitrary: p)
  case (Cons c names)
  let ?q = "of_parts (path_anchor p) (path_parts p @ [c])"
  have q: "path_parts ?q = path_parts p @ [c]" "path_anchor ?q = path_anchor p"
    using Cons.prems parts_clean [of p] by (simp_all add: parts_of_parts anchor_of_parts anchor_known)
  have "under p (c # names) = under ?q names" using Cons.prems by (simp add: under_def joined)
  with q Cons.IH [of ?q] Cons.prems show ?case by simp
qed (simp add: under_def)

lemma under_form: "list_all clean names \<Longrightarrow> names \<noteq> [] \<Longrightarrow> under p names = of_parts (path_anchor p) (path_parts p @ names)"
proof (induction names rule: rev_induct)
  case (snoc c names)
  have "under p (names @ [c]) = path_join (under p names) c" by (simp add: under_def)
  then show ?case using snoc.prems under_parts [of names p] by (simp add: joined)
qed simp

lemma parent_under: "list_all clean names \<Longrightarrow> names \<noteq> [] \<Longrightarrow> clean c \<Longrightarrow> path_parent (under (under p names) [c]) = under p names"
  using under_parts [of "[c]" "under p names"] under_parts [of names p] by (simp add: path_parent_def under_form butlast_append)

lemma name_under: "list_all clean names \<Longrightarrow> names \<noteq> [] \<Longrightarrow> path_name (under p names) = last names"
  using under_parts [of names p] by (simp add: path_name_def) (cases names rule: rev_cases; simp)

section \<open>The paths of an instance\<close>

lemma clean_names: "clean ''superdev''" "clean ''codex-worker''" "clean ''instances''" "clean ''registry.json''" "clean ''instance.json''"
  by (simp_all add: clean_def slash_def)

lemma derived:
  assumes "derive_instance_paths sha i platform home tmp uid = Inr p"
  shows "ip_durable_dir p = under home [''superdev'', ''codex-worker'', ''instances'', key_hash sha i]"
    "ip_registry p = under (ip_durable_dir p) [''registry.json'']" "ip_metadata p = under (ip_durable_dir p) [''instance.json'']"
  using assms by (auto simp: derive_instance_paths_def Let_def split: if_splits)

lemma derived_layout:
  assumes "derive_instance_paths sha i platform home tmp uid = Inr p" "clean (key_hash sha i)"
  shows "path_parent (ip_registry p) = ip_durable_dir p" "path_name (ip_durable_dir p) = key_hash sha i"
    "path_parts (ip_durable_dir p) = path_parts home @ [''superdev'', ''codex-worker'', ''instances'', key_hash sha i]"
  using assms(2) clean_names unfolding derived(2) [OF assms(1)] unfolding derived(1) [OF assms(1)]
  by (simp_all add: parent_under name_under under_parts)

section \<open>The identity's file\<close>

lemma source_round: "source_of_value (JStr (source_value s)) = Some s"
  by (cases s) (simp_all add: source_of_value_def)

lemma payload_read:
  assumes "mk_identity src v = Inr i" "path_name dir = key_hash (ci_sha256 h) i"
  shows "identity_of (ci_sha256 h) dir (JObj (metadata_payload h i)) = Some i"
proof -
  have "mk_identity (in_source i) (JStr (in_value i)) = Inr i"
    using assms(1) by (auto simp: mk_identity_def validate_instance_id_def res_simps split: option.splits if_splits)
  then show ?thesis using assms(2) by (simp add: identity_of_def metadata_payload_def has_fields_def source_round)
qed

lemma any_outcome: "hoare P m (\<lambda>_ _. True) (\<lambda>_ _. True)"
  by (simp add: hoare_def split: sum.splits prod.splits)

lemma written_metadata:
  assumes "write_metadata h p i s = (Inr (), s')" shows "cs_metadata s' = JsonContent (JObj (metadata_payload h i))"
proof -
  let ?Q = "\<lambda>_ t. cs_metadata t = JsonContent (JObj (metadata_payload h i))"
  have stored: "hoare (\<lambda>_. True) (write_file h (\<lambda>f t. t\<lparr>cs_metadata := f\<rparr>) (JObj (metadata_payload h i))) ?Q (\<lambda>_ _. True)"
    by (rule hoareI) (auto simp: write_file_def ask_host_def act_defs split: write_outcome.splits)
  have "hoare (?Q u) (check_owner_file h r q) ?Q (\<lambda>_ _. True)" for u :: unit and r q
    by (rule hoareI) (auto simp: check_owner_file_def owner_file_def look_path_def ask_host_def log_event_def act_defs split: if_splits)
  from hoare_andthen [OF stored this] have "hoare (\<lambda>_. True) (write_metadata h p i) ?Q (\<lambda>_ _. True)"
    unfolding write_metadata_def
    by - (rule hoare_andthen [OF any_outcome], rule hoare_andthen [OF any_outcome], rule hoare_andthen [OF any_outcome], assumption)
  from hoareD(1) [OF this TrueI assms] show ?thesis .
qed

text \<open>
  The identity that a start writes is read back: as long as the directory and the file are the
  owner's own and nobody rewrites the file, the registry of that instance gives its identity.
\<close>

theorem written_identity_is_read_back:
  assumes "mk_identity src v = Inr i" "derive_instance_paths (ci_sha256 h) i platform home tmp uid = Inr p"
    and "clean (key_hash (ci_sha256 h) i)" "write_metadata h p i s = (Inr (), s1)" "cs_metadata s2 = cs_metadata s1"
    and "\<forall>t. unsafe_ancestor (ci_fs h t) (ci_uid h) (ci_cwd h) (ip_durable_dir p) = None"
    and "\<forall>t. is_owned h DirectoryKind private_dir_mode (ci_lstat h t (ip_durable_dir p))"
    and "\<forall>t. is_owned h RegularKind private_mode (ci_lstat h t (ip_metadata p))"
  shows "fst (load_managed_identity h (ip_registry p) s2) = Inr (Some i)"
proof -
  have dir: "path_parent (ip_registry p) = ip_durable_dir p" by (rule derived_layout(1) [OF assms(2, 3)])
  have meta: "under (ip_durable_dir p) [''instance.json''] = ip_metadata p" using derived(3) [OF assms(2)] by simp
  have "cs_metadata s2 = JsonContent (JObj (metadata_payload h i))" using written_metadata [OF assms(4)] assms(5) by simp
  moreover have "identity_of (ci_sha256 h) (ip_durable_dir p) (JObj (metadata_payload h i)) = Some i"
    by (rule payload_read [OF assms(1) derived_layout(2) [OF assms(2, 3)]])
  ultimately show ?thesis using assms(6-8)
    by (simp add: load_managed_identity_def Let_def dir meta unsafe_above_def is_safe_directory_def owner_file_def look_path_def
        ask_host_def log_event_def act_defs)
qed

section \<open>Instances apart\<close>

text \<open>What an instance keeps across the lives of its daemon.\<close>

definition durable_files :: "instance_paths \<Rightarrow> string set" where
  "durable_files p = {ip_registry p, ip_log p, ip_metadata p, ip_callbacks p, ip_artifacts p}"

lemma durable_parts:
  assumes "derive_instance_paths sha i platform home tmp uid = Inr p" "clean (key_hash sha i)" "f \<in> durable_files p"
  shows "\<exists>name. path_parts f = path_parts home @ [''superdev'', ''codex-worker'', ''instances'', key_hash sha i, name]"
proof -
  have "clean ''daemon.log''" "clean ''callbacks.json''" "clean ''callback-artifacts''" by (simp_all add: clean_def slash_def)
  with clean_names have "\<exists>name. clean name \<and> f = under (ip_durable_dir p) [name]"
    using assms(1, 3) by (auto simp: durable_files_def derive_instance_paths_def Let_def split: if_splits)
  then show ?thesis using derived_layout(3) [OF assms(1, 2)] under_parts [of "[name]" "ip_durable_dir p" for name] by auto
qed

text \<open>
  C33. Two instances whose keys differ share no durable file.
\<close>

theorem instances_have_their_own_files:
  assumes "derive_instance_paths sha i platform home tmp uid = Inr p" "derive_instance_paths sha j platform home tmp uid = Inr q"
    and "clean (key_hash sha i)" "clean (key_hash sha j)" "key_hash sha i \<noteq> key_hash sha j"
  shows "durable_files p \<inter> durable_files q = {}"
proof (rule ccontr)
  assume "durable_files p \<inter> durable_files q \<noteq> {}"
  then obtain f where "f \<in> durable_files p" "f \<in> durable_files q" by blast
  with durable_parts [OF assms(1, 3)] durable_parts [OF assms(2, 4)] show False using assms(5) by fastforce
qed

section \<open>The daemon a start returns\<close>

text \<open>The daemon answered \<open>result\<close>: ready, and of the version the client expects.\<close>

definition daemon_is_ready :: "instance_deps \<Rightarrow> json \<Rightarrow> bool" where
  "daemon_is_ready d r \<longleftrightarrow> (\<exists>result. instance_response d ''ready'' result JNull = Inr r
     \<and> jget result ''ready'' = JBool True \<and> is_compatible d result)"

lemma probed_ready: "yields (probe_instance h) (\<lambda>r. \<forall>w. r = Some w \<longrightarrow> jget w ''ready'' = JBool True)"
  unfolding probe_instance_def
  by (intro yields_attempt yields_seq yields_lift)
    (auto simp: ready_result_def res_simps yields_def act_defs split: option.splits if_splits)

lemma response_ready:
  "jget w ''ready'' = JBool True \<Longrightarrow> is_compatible d w \<Longrightarrow>
     yields (andthen (lift (instance_response d ''ready'' w JNull)) (\<lambda>x. ret (Some x))) (\<lambda>r. \<forall>x. r = Some x \<longrightarrow> daemon_is_ready d x)"
  by (rule yields_then [where R = "\<lambda>x. instance_response d ''ready'' w JNull = Inr x"])
    (auto intro!: yields_lift yields_basic simp: daemon_is_ready_def)

lemma awaited_ready: "yields (await_ready h d deadline n) (\<lambda>r. \<forall>x. r = Some x \<longrightarrow> daemon_is_ready d x)"
proof (induction n)
  case (Suc n)
  let ?Q = "\<lambda>r. \<forall>x. r = Some x \<longrightarrow> daemon_is_ready d x"
  have again: "yields (andthen (poll_child h) (\<lambda>exited.
         if exited \<noteq> None then raise (start_fault d (JStr ''child_exited'') (ip_socket (id_paths d)) JNull True)
         else andthen (ask_host (ci_monotonic h)) (\<lambda>now.
           if deadline \<le> now then raise (start_fault d (JStr ''readiness_timeout'') (ip_socket (id_paths d)) JNull True)
           else await_ready h d deadline n))) ?Q"
    using Suc by (intro yields_seq) (auto intro!: yields_seq yields_basic)
  show ?case unfolding await_ready.simps
    by (rule yields_then [OF probed_ready]) (use again response_ready in \<open>auto split: option.splits\<close>)
qed (simp add: yields_basic)

text \<open>
  Whatever it takes, a start that returns has seen the daemon of this instance answer that it is
  ready, with the version that is expected.
\<close>

theorem started_daemon_is_ready:
  assumes "ensure_instance h n d s = (Inr (Some r), s')"
  shows "\<exists>result. instance_response d ''ready'' result JNull = Inr r \<and> jget result ''ready'' = JBool True \<and> is_compatible d result"
proof -
  let ?Q = "\<lambda>r. \<forall>x. r = Some x \<longrightarrow> daemon_is_ready d x"
  have launch: "yields (launch_instance h n d) ?Q"
    unfolding launch_instance_def by (intro yields_seq awaited_ready)
  have "yields (ensure_locked h n d) ?Q" unfolding ensure_locked_def
  proof (rule yields_then [OF probed_ready])
    fix ready
    assume ready: "\<forall>w. ready = Some w \<longrightarrow> jget w ''ready'' = JBool True"
    show "yields (case ready of None \<Rightarrow> launch_instance h n d
     | Some r \<Rightarrow> if is_compatible d r then andthen (lift (instance_response d ''ready'' r JNull)) (\<lambda>x. ret (Some x))
         else andthen (stop_instance h n d) (\<lambda>stopped. case stopped of None \<Rightarrow> ret None | Some _ \<Rightarrow> launch_instance h n d)) ?Q"
    proof (cases ready)
      case (Some w)
      have "yields (andthen (stop_instance h n d) (\<lambda>stopped. case stopped of None \<Rightarrow> ret None | Some _ \<Rightarrow> launch_instance h n d)) ?Q"
        by (rule yields_seq) (auto intro: yields_basic launch split: option.splits)
      then show ?thesis using ready response_ready [of w d] Some by (cases "is_compatible d w") simp_all
    qed (simp add: launch)
  qed
  then have "yields (ensure_instance h n d) ?Q" unfolding ensure_instance_def with_start_lock_def
    by (intro yields_attempt yields_seq yields_always) (auto intro: yields_basic split: option.splits)
  then have "daemon_is_ready d r" using yieldsD assms by fastforce
  then show ?thesis by (simp add: daemon_is_ready_def)
qed

section \<open>Sockets that are unlinked\<close>

text \<open>
  Every unlink of a path came right after a look that showed the owner's private socket there and a
  probe of it that nobody answered, and the file is the one of an earlier look.
\<close>

fun careful :: "client_host \<Rightarrow> client_event list \<Rightarrow> bool" where
  "careful h [] \<longleftrightarrow> True"
| "careful h (PathUnlinked p m # rest) \<longleftrightarrow> careful h rest \<and> is_private_socket h m
     \<and> (\<exists>before m0. rest = PathLooked p (Seen m) # PeerProbed (Inr False) # before \<and> PathLooked p (Seen m0) \<in> set before \<and> fm_id m = fm_id m0)"
| "careful h (e # rest) \<longleftrightarrow> careful h rest"

abbreviation no_unlink :: "client_event \<Rightarrow> bool" where
  "no_unlink e \<equiv> (\<forall>p m. e \<noteq> PathUnlinked p m)"

lemma careful_more: "list_all no_unlink new \<Longrightarrow> careful h (new @ tr) = careful h tr"
proof (induction new)
  case (Cons e new)
  then show ?case by (cases e) simp_all
qed simp

lemma grows_careful: "grows_with no_unlink (\<lambda>s. careful h (cs_log s))"
  by (auto simp: grows_with_def quiet_client_def careful_more)

lemma grows_looked: "grows_with P (\<lambda>s. e \<in> set (cs_log s))"
  by (auto simp: grows_with_def quiet_client_def)

abbreviation neat :: "'a client_act \<Rightarrow> bool" where
  "neat m \<equiv> keeps (quiet_client no_unlink) m"

lemma neat_calm: "calm m \<Longrightarrow> neat m"
  by (erule quiet_weaken) auto

lemma neat_pids: "neat (first_alive h vs)" "neat (await_pids h d result deadline n)"
proof -
  show a: "neat (first_alive h vs)" for vs by (induction vs) (auto intro!: quiet.rules calm_pids)
  show "neat (await_pids h d result deadline n)" by (induction n) (auto intro!: quiet.rules quiet_client_basic a)
qed

lemma neat_asking: "neat (probe_instance h)" "neat (request_shutdown_of h)"
  unfolding probe_instance_def request_shutdown_of_def by (intro quiet.rules neat_calm [OF calm_ask])+

lemma neat_ancestor: "neat (safe_nearest_ancestor h path)"
proof -
  have a: "neat (accepted_above h path l m)" if "neat m" for path l m
    using that unfolding accepted_above_def by (auto intro!: quiet.rules neat_calm [OF calm_looks(4)] split: look.splits)
  have "neat (nearest_ancestor h anchor parts)" for anchor parts
    by (induction parts) (auto simp: Let_def intro!: quiet.rules neat_calm [OF calm_looks(1)] a)
  then show ?thesis by (simp add: safe_nearest_ancestor_def)
qed

lemma neat_files: "neat (write_metadata h p i)" "neat (need_codex h d)" "neat (spawn_child h argv)" "neat (await_ready h d deadline n)"
proof -
  have "neat (write_file h (\<lambda>f s. s\<lparr>cs_metadata := f\<rparr>) v)" for v
    by (auto simp: keeps_def write_file_def ask_host_def act_defs quiet_client_def split: write_outcome.splits)
  then show "neat (write_metadata h p i)" unfolding write_metadata_def
    by (intro quiet.rules neat_calm [OF calm_mkdir] neat_calm [OF calm_looks(3)] neat_calm [OF calm_files(4)])
  show "neat (need_codex h d)" unfolding need_codex_def by (intro quiet.rules quiet_client_basic)
  show "neat (spawn_child h argv)" unfolding spawn_child_def by (intro quiet.rules quiet_client_basic) simp
  show "neat (await_ready h d deadline n)"
    by (induction n) (auto intro!: quiet.rules quiet_client_basic neat_asking neat_calm [OF calm_poll] split: option.splits)
qed

lemma neat_lock: "neat (prepare_lock h p)" "neat (take_lock h n p)"
proof -
  show "neat (prepare_lock h p)" by (rule neat_calm [OF lock_quiet(1)])
  have f: "neat (flock_until h p t k)" for t k
    by (induction k) (auto intro!: quiet.rules quiet_client_basic split: flock.splits)
  show "neat (take_lock h n p)" unfolding take_lock_def
    by (intro quiet.rules f neat_calm [OF calm_files(1)] quiet_client_basic neat_calm [OF calm_looks(1)];
        auto intro!: quiet.rules quiet_client_basic split: look.splits)
qed

lemmas neat = neat_pids neat_asking neat_ancestor neat_files neat_lock

abbreviation carefully :: "client_host \<Rightarrow> client_state \<Rightarrow> bool" where
  "carefully h \<equiv> \<lambda>s. careful h (cs_log s)"

lemma careful_neat: "neat m \<Longrightarrow> hoare (carefully h) m (\<lambda>_. carefully h) (\<lambda>_. carefully h)"
  by (rule hoare_client_quiet [OF _ grows_careful])

lemma after_neat: "neat m \<Longrightarrow> (\<And>x. hoare (carefully h) (f x) (\<lambda>_. carefully h) (\<lambda>_. carefully h))
    \<Longrightarrow> hoare (carefully h) (andthen m f) (\<lambda>_. carefully h) (\<lambda>_. carefully h)"
  by (rule after_quiet [OF _ grows_careful])

lemma verifying: "hoare (carefully h) (verified_socket h path code)
    (\<lambda>r s. carefully h s \<and> (\<forall>m. r = Some m \<longrightarrow> PathLooked path (Seen m) \<in> set (cs_log s))) (\<lambda>_. carefully h)"
  by (rule hoareI) (auto simp: verified_socket_def look_path_def ask_host_def log_event_def act_defs split: look.splits if_splits)

lemma unlinking: "hoare (\<lambda>s. carefully h s \<and> PathLooked path (Seen m) \<in> set (cs_log s)) (unlink_verified_socket h path m code)
    (\<lambda>_. carefully h) (\<lambda>_. carefully h)"
  by (rule hoareI)
    (auto simp: unlink_verified_socket_def refuse_live_peer_def look_path_def ask_host_def try_host_def log_event_def act_defs
      split: look.splits sum.splits prod.splits if_splits)

lemma neat_peer: "neat (refuse_live_peer h path code)"
  unfolding refuse_live_peer_def by (intro quiet.rules quiet_client_basic) simp

lemma seen_socket: "neat m \<Longrightarrow> hoare (\<lambda>s. carefully h s \<and> PathLooked path l \<in> set (cs_log s)) m
    (\<lambda>_ s. carefully h s \<and> PathLooked path l \<in> set (cs_log s)) (\<lambda>_. carefully h)"
proof -
  assume m: "neat m"
  have g: "grows_with no_unlink (\<lambda>s. carefully h s \<and> PathLooked path l \<in> set (cs_log s))"
    by (intro client_grows_conj grows_careful grows_looked)
  show ?thesis by (rule hoare_weaken [OF hoare_client_quiet [OF m g]]) auto
qed

lemma careful_stop: "hoare (carefully h) (stop_instance h n d) (\<lambda>_. carefully h) (\<lambda>_. carefully h)"
proof -
  let ?I = "carefully h" and ?path = "ip_socket (id_paths d)"
  have last: "hoare ?I (andthen (lift (stop_response d st w)) (\<lambda>r. ret (Some r))) (\<lambda>_. ?I) (\<lambda>_. ?I)" for st w
    by (intro careful_neat quiet.rules)
  have unlinked: "hoare (\<lambda>s. ?I s \<and> PathLooked ?path (Seen m) \<in> set (cs_log s))
      (andthen (unlink_verified_socket h ?path m DAEMON_STOP_FAILED) (\<lambda>_. andthen (lift (stop_response d st w)) (\<lambda>r. ret (Some r))))
      (\<lambda>_. ?I) (\<lambda>_. ?I)" for m st w
    by (rule hoare_andthen [OF unlinking last])
  have observed: "hoare (\<lambda>s. ?I s \<and> (\<forall>m. observed = Some m \<longrightarrow> PathLooked ?path (Seen m) \<in> set (cs_log s)))
      (andthen (request_shutdown_of h) (\<lambda>_. andthen (ask_host (ci_monotonic h)) (\<lambda>now.
          andthen (await_pids h d w (now + 2) n) (\<lambda>x. case x of
            None \<Rightarrow> ret None
          | Some _ \<Rightarrow>
              andthen (case observed of None \<Rightarrow> ret () | Some m \<Rightarrow> unlink_verified_socket h ?path m DAEMON_STOP_FAILED) (\<lambda>_.
              andthen (lift (stop_response d ''ready'' w)) (\<lambda>r. ret (Some r)))))))
      (\<lambda>_. ?I) (\<lambda>_. ?I)" for observed w
  proof (cases observed)
    case None
    have "hoare ?I (case x of None \<Rightarrow> ret None
        | Some _ \<Rightarrow> andthen (ret ()) (\<lambda>_. andthen (lift (stop_response d ''ready'' w)) (\<lambda>r. ret (Some r)))) (\<lambda>_. ?I) (\<lambda>_. ?I)"
      for x :: "unit option"
      by (cases x) (auto intro!: careful_neat quiet.rules)
    then show ?thesis unfolding None option.case
      by - (rule hoare_weaken, rule after_neat [OF neat(4)], rule after_neat [OF quiet_client_basic(1)], rule after_neat [OF neat(2)], assumption, simp_all)
  next
    case (Some m)
    let ?S = "\<lambda>s. ?I s \<and> PathLooked ?path (Seen m) \<in> set (cs_log s)"
    have "hoare ?S (case x of None \<Rightarrow> ret None
        | Some _ \<Rightarrow> andthen (unlink_verified_socket h ?path m DAEMON_STOP_FAILED) (\<lambda>_.
            andthen (lift (stop_response d ''ready'' w)) (\<lambda>r. ret (Some r)))) (\<lambda>_. ?I) (\<lambda>_. ?I)" for x :: "unit option"
      by (cases x) (simp_all add: unlinked, simp add: hoare_def ret_def)
    then have "hoare ?S (andthen (request_shutdown_of h) (\<lambda>_. andthen (ask_host (ci_monotonic h)) (\<lambda>now.
          andthen (await_pids h d w (now + 2) n) (\<lambda>x. case x of None \<Rightarrow> ret None
        | Some _ \<Rightarrow> andthen (unlink_verified_socket h ?path m DAEMON_STOP_FAILED) (\<lambda>_.
            andthen (lift (stop_response d ''ready'' w)) (\<lambda>r. ret (Some r))))))) (\<lambda>_. ?I) (\<lambda>_. ?I)"
      by - (rule hoare_andthen [OF seen_socket [OF neat(4)]], rule hoare_andthen [OF seen_socket [OF quiet_client_basic(1)]],
          rule hoare_andthen [OF seen_socket [OF neat(2)]], assumption)
    then show ?thesis unfolding Some option.case by (rule hoare_weaken) simp_all
  qed
  have found: "hoare ?I (case probed of
        None \<Rightarrow> andthen (lift (stop_response d ''stopped'' [])) (\<lambda>r. ret (Some r))
      | Some result \<Rightarrow>
          andthen (verified_socket h ?path DAEMON_STOP_FAILED) (\<lambda>observed.
          andthen (request_shutdown_of h) (\<lambda>_.
          andthen (ask_host (ci_monotonic h)) (\<lambda>now.
          andthen (await_pids h d result (now + 2) n) (\<lambda>w. case w of
            None \<Rightarrow> ret None
          | Some _ \<Rightarrow>
              andthen (case observed of None \<Rightarrow> ret () | Some m \<Rightarrow> unlink_verified_socket h ?path m DAEMON_STOP_FAILED) (\<lambda>_.
              andthen (lift (stop_response d ''ready'' result)) (\<lambda>r. ret (Some r)))))))) (\<lambda>_. ?I) (\<lambda>_. ?I)" for probed
    using last hoare_andthen [OF verifying observed] by (cases probed) simp_all
  have "neat (if a then safe_nearest_ancestor h p else ret False)" for a p by (intro quiet.rules neat)
  then show ?thesis unfolding stop_instance_def Let_def
    by - (rule after_neat [OF neat(5)], rule after_neat, assumption, rule after_neat [OF quiet.basic(3)],
        rule after_neat [OF neat(3)], rule found)
qed

lemma careful_stale: "hoare (carefully h) (remove_stale_socket h d) (\<lambda>_. carefully h) (\<lambda>_. carefully h)"
proof -
  have "hoare (\<lambda>s. carefully h s \<and> (\<forall>m. stale = Some m \<longrightarrow> PathLooked path (Seen m) \<in> set (cs_log s)))
      (case stale of None \<Rightarrow> ret () | Some m \<Rightarrow> andthen (refuse_live_peer h path DAEMON_START_FAILED) (\<lambda>_.
         unlink_verified_socket h path m DAEMON_START_FAILED)) (\<lambda>_. carefully h) (\<lambda>_. carefully h)" for stale path
  proof (cases stale)
    case (Some m)
    show ?thesis unfolding Some option.case
      by (rule hoare_weaken [OF hoare_andthen [OF seen_socket [OF neat_peer] unlinking]]) simp_all
  qed (simp add: hoare_def ret_def)
  then show ?thesis unfolding remove_stale_socket_def Let_def by (rule hoare_andthen [OF verifying])
qed

lemma careful_launch: "hoare (carefully h) (launch_instance h n d) (\<lambda>_. carefully h) (\<lambda>_. carefully h)"
proof -
  have spawn: "neat (attempt (spawn_child h (serve_argv d)) (\<lambda>x. raise (e x)))" for e by (intro quiet.rules neat)
  show ?thesis unfolding launch_instance_def
    by (rule after_neat [OF neat(6)], rule hoare_andthen [OF careful_stale], rule after_neat [OF neat(7)], rule after_neat [OF spawn],
        rule after_neat [OF quiet_client_basic(1)], rule careful_neat [OF neat(9)])
qed

lemma careful_ensure: "hoare (carefully h) (ensure_locked h n d) (\<lambda>_. carefully h) (\<lambda>_. carefully h)"
proof -
  let ?I = "carefully h"
  have stop: "hoare ?I (ret x) (\<lambda>_. ?I) (\<lambda>_. ?I)" for x :: 'b by (simp add: hoare_def ret_def)
  have "hoare ?I (andthen (stop_instance h n d) (\<lambda>stopped. case stopped of None \<Rightarrow> ret None | Some _ \<Rightarrow> launch_instance h n d)) (\<lambda>_. ?I) (\<lambda>_. ?I)"
    by (rule hoare_andthen [OF careful_stop]) (rule hoare_option [OF stop careful_launch])
  moreover have "hoare ?I (andthen (lift (instance_response d ''ready'' w JNull)) (\<lambda>x. ret (Some x))) (\<lambda>_. ?I) (\<lambda>_. ?I)" for w
    by (intro careful_neat quiet.rules)
  ultimately have "hoare ?I (if is_compatible d w then andthen (lift (instance_response d ''ready'' w JNull)) (\<lambda>x. ret (Some x))
      else andthen (stop_instance h n d) (\<lambda>stopped. case stopped of None \<Rightarrow> ret None | Some _ \<Rightarrow> launch_instance h n d)) (\<lambda>_. ?I) (\<lambda>_. ?I)" for w
    by simp
  with careful_launch show ?thesis unfolding ensure_locked_def
    by - (rule after_neat [OF neat(3)], rule hoare_option)
qed

text \<open>
  The client removes only sockets that are dead: neither a start nor a stop unlinks a path unless
  the look just before showed the owner's private socket there, nobody answered on it, and it is the
  file that an earlier look of this operation had shown.
\<close>

theorem only_dead_sockets_are_unlinked:
  assumes "careful h (cs_log s)"
  shows "careful h (cs_log (snd (ensure_instance h n d s))) \<and> careful h (cs_log (snd (stop_instance h n d s)))"
proof
  have "hoare (carefully h) (andthen (take_lock h n p) (\<lambda>r. case r of None \<Rightarrow> ret None | Some _ \<Rightarrow> ensure_locked h n d))
      (\<lambda>_ s. carefully h (s\<lparr>cs_log := StartUnlocked # cs_log s\<rparr>)) (\<lambda>_ s. carefully h (s\<lparr>cs_log := StartUnlocked # cs_log s\<rparr>))" for p
    by (rule hoare_weaken, rule after_neat [OF neat_lock(2)], rule hoare_option [OF _ careful_ensure]) (simp_all add: hoare_def ret_def)
  from hoare_always [where f = "\<lambda>s. s\<lparr>cs_log := StartUnlocked # cs_log s\<rparr>" and Q = "\<lambda>_. carefully h" and E = "\<lambda>_. carefully h", OF this]
  have "hoare (carefully h) (with_start_lock h n p (ensure_locked h n d)) (\<lambda>_. carefully h) (\<lambda>_. carefully h)" for p
    unfolding with_start_lock_def by (rule after_neat [OF neat_lock(1)])
  then have "hoare (carefully h) (ensure_instance h n d) (\<lambda>_. carefully h) (\<lambda>_. carefully h)"
    unfolding ensure_instance_def by (rule hoare_attempt) (simp add: hoare_def raise_def)
  with assms show "careful h (cs_log (snd (ensure_instance h n d s)))"
    by (cases "ensure_instance h n d s"; cases "fst (ensure_instance h n d s)") (auto dest: hoareD)
  from careful_stop assms show "careful h (cs_log (snd (stop_instance h n d s)))"
    by (cases "stop_instance h n d s"; cases "fst (stop_instance h n d s)") (auto dest: hoareD)
qed

end
