(* ===== verification/InstanceWitness.thy ===== *)
theory InstanceWitness
  imports StateWitness InstanceProps
begin

text \<open>
  The properties of the clients at concrete inputs: a machine on which every directory and file is
  the user's own, with a service or daemon that answers from a moment on, or never.
\<close>

section \<open>A machine\<close>

definition own_meta :: "file_kind \<Rightarrow> file_mode \<Rightarrow> file_meta" where
  "own_meta kind mode = \<lparr>fm_kind = kind, fm_mode = mode, fm_uid = 7, fm_id = (1, 2)\<rparr>"

definition is_desk_dir :: "string \<Rightarrow> bool" where
  "is_desk_dir p \<longleftrightarrow> p = ''/run'' \<or> p = ''/state'' \<or> p = ''/state/superdev/codex-worker/instances/k''"

definition desk_look :: "string \<Rightarrow> look" where
  "desk_look p = (if is_desk_dir p then Seen (own_meta DirectoryKind private_dir_mode)
     else if p = ''/run/s'' then Seen (own_meta SocketKind private_mode)
     else Seen (own_meta RegularKind private_mode))"

definition desk_fs :: fs_look where
  "desk_fs = \<lparr>fs_lstat = \<lambda>_. Some (own_meta DirectoryKind private_dir_mode), fs_stat = \<lambda>_. None\<rparr>"

text \<open>\<open>reply\<close>: what a request gets at a moment; \<open>polled\<close>: the exit code of the child.\<close>

definition desk :: "(nat \<Rightarrow> string \<Rightarrow> (exn, json) res) \<Rightarrow> (nat \<Rightarrow> int option) \<Rightarrow> client_host" where
  "desk reply polled = \<lparr>ci_uid = 7, ci_cwd = ''/w'', ci_env = demo_model_env, ci_sha256 = \<lambda>_. ''k'', ci_fs = \<lambda>_. desk_fs,
     ci_lstat = \<lambda>_. desk_look, ci_exists = \<lambda>_ _. True, ci_present = \<lambda>_ p. is_desk_dir p, ci_mkdir = \<lambda>_. Inr (),
     ci_open = \<lambda>_. Inr (), ci_fchmod = \<lambda>_. Inr (), ci_fstat = \<lambda>_. Inr (own_meta RegularKind private_mode),
     ci_flock = \<lambda>_. LockTaken, ci_unlink = \<lambda>_. Inr (), ci_monotonic = of_nat, ci_write = \<lambda>_. Written,
     ci_private = \<lambda>_. Inr True, ci_live_socket = \<lambda>_. Inr False, ci_rpc = \<lambda>t m _. reply t m, ci_which = \<lambda>_. True,
     ci_spawn = \<lambda>_. Inr 5, ci_poll = polled, ci_pgid = \<lambda>_ _. Inr 5, ci_signal = \<lambda>_. Inr (), ci_wait = \<lambda>_. Inr (),
     ci_kill0 = \<lambda>_ _. Inl (ProcessLookupError ''gone''), ci_addresses = \<lambda>_ _. Inr [''127.0.0.1''], ci_bind = \<lambda>_ _. Bound, ci_read = \<lambda>_. Inr JNull,
     ci_registry = \<lambda>_. (Absent, True), ci_ledger = \<lambda>_. Inr JNull, ci_uuid = \<lambda>_. demo_uuid, ci_loopback = \<lambda>_. None,
     ci_filename = \<lambda>_. None\<rparr>"

definition desk_client :: client_state where
  "desk_client = \<lparr>cs_clock = 0, cs_log = [], cs_config = NoContent, cs_metadata = NoContent\<rparr>"

definition nobody :: "nat \<Rightarrow> string \<Rightarrow> (exn, json) res" where
  "nobody = (\<lambda>_ _. Inl (OSError ''refused''))"

section \<open>The service\<close>

definition desk_paths :: service_paths where
  "desk_paths = \<lparr>sp_durable_dir = ''/state'', sp_rpc_socket = ''/run/s'', sp_codex_socket = ''/run/c'', sp_start_lock = ''/run/l'',
     sp_registry = ''/state/registry.json'', sp_config_path = ''/state/service.json'', sp_migration = ''/state/migration.json'',
     sp_log = ''/state/daemon.log'', sp_callbacks = ''/state/callbacks.json'', sp_artifacts = ''/state/callback-artifacts''\<rparr>"

definition desk_manager :: manager_deps where
  "desk_manager = \<lparr>sm_paths = desk_paths, sm_launcher = ''codex-worker'', sm_codex_bin = ''codex'', sm_expected_version = Some ''1''\<rparr>"

definition ready_service :: json_object where
  "ready_service = [(''status'', JStr ''ready''), (''service_version'', JStr ''1''), (''pid'', JInt 5), (''app_server_pid'', JInt 6),
     (''listener'', JStr DEFAULT_PUBLIC_LISTENER), (''migration_ready'', JBool True)]"

text \<open>Nobody answers before the moment \<open>k\<close>, a ready service does after it.\<close>

definition ready_from :: "nat \<Rightarrow> json_object \<Rightarrow> nat \<Rightarrow> string \<Rightarrow> (exn, json) res" where
  "ready_from k r t m = (if t < k then Inl (OSError ''refused'') else Inr (JObj [(''result'', JObj r)]))"

definition started_desk :: "(exn, json_object option) res \<times> client_state" where
  "started_desk = ensure_managed (desk (ready_from 15 ready_service) (\<lambda>_. None)) 1 desk_manager (Some DEFAULT_PUBLIC_LISTENER) desk_client"

definition stopped_answer :: json_object where
  "stopped_answer = (case mk_maintenance (host_lookup demo_model_env) ''stop'' ''completed'' True None (Some ([], empty_impact)) of
     Inl _ \<Rightarrow> [] | Inr m \<Rightarrow> maintenance_to_dict m)"

text \<open>A service that answers once, is asked to stop, and is gone.\<close>

definition stopping_desk :: "nat \<Rightarrow> string \<Rightarrow> (exn, json) res" where
  "stopping_desk t m = (if m = ''service/stop'' then Inr (JObj [(''result'', JObj stopped_answer)])
     else if t < 12 then Inr (JObj [(''result'', JObj ready_service)]) else Inl (OSError ''refused''))"

definition stopped_desk :: "(exn, json_object option) res \<times> client_state" where
  "stopped_desk = stop_managed (desk stopping_desk (\<lambda>_. None)) 5 desk_manager True desk_client"

section \<open>Running the operations\<close>

text \<open>Each operation applied to a state, so that a run evaluates step by step.\<close>

lemmas run = act_defs Let_def ask_host_def try_host_def [THEN fun_cong] log_event_def [THEN fun_cong] look_path_def [THEN fun_cong]
   is_present_def [THEN fun_cong] unsafe_above_def [THEN fun_cong] owner_file_def [THEN fun_cong] is_safe_directory_def [THEN fun_cong]
   refuse_unsafe_def [THEN fun_cong] need_directory_def [THEN fun_cong] use_directory_def [THEN fun_cong] write_file_def [THEN fun_cong]
   check_owner_file_def [THEN fun_cong] prepare_lock_def [THEN fun_cong] take_lock_def [THEN fun_cong] with_start_lock_def [THEN fun_cong]
   ask_daemon_def [THEN fun_cong] probe_instance_def [THEN fun_cong] poll_child_def [THEN fun_cong] spawn_child_def [THEN fun_cong]
   read_config_def [THEN fun_cong] write_config_once_def [THEN fun_cong] ask_service_def [THEN fun_cong] probe_readiness_def [THEN fun_cong]
   probe_listener_def [THEN fun_cong] prepare_launch_def [THEN fun_cong] spawn_service_def [THEN fun_cong] record_config_def [THEN fun_cong]
   accept_ready_def [THEN fun_cong] launch_failed_def [THEN fun_cong] launch_locked_def [THEN fun_cong] choose_config_def [THEN fun_cong]
   start_fresh_def [THEN fun_cong] ensure_running_locked_def [THEN fun_cong] ensure_managed_def [THEN fun_cong]
   terminating_def [THEN fun_cong] terminate_spawned_generation_def [THEN fun_cong] signal_child_def [THEN fun_cong]
   startup_collision_def [THEN fun_cong]
   mkdir_owner_only_def [THEN fun_cong] mkdir_parts.simps [THEN fun_cong] flock_until.simps [THEN fun_cong] await_launch.simps [THEN fun_cong]

lemma desk_fields: "ci_uid (desk reply polled) = 7" "ci_cwd (desk reply polled) = ''/w''" "ci_env (desk reply polled) = demo_model_env"
  "ci_fs (desk reply polled) t = desk_fs" "ci_lstat (desk reply polled) t = desk_look" "ci_exists (desk reply polled) t p"
  "ci_present (desk reply polled) t p = is_desk_dir p" "ci_open (desk reply polled) t = Inr ()" "ci_fchmod (desk reply polled) t = Inr ()"
  "ci_fstat (desk reply polled) t = Inr (own_meta RegularKind private_mode)" "ci_flock (desk reply polled) t = LockTaken"
  "ci_monotonic (desk reply polled) t = of_nat t" "ci_write (desk reply polled) t = Written" "ci_private (desk reply polled) t = Inr True"
  "ci_rpc (desk reply polled) t m ps = reply t m" "ci_which (desk reply polled) t" "ci_spawn (desk reply polled) t = Inr 5"
  "ci_poll (desk reply polled) t = polled t" "ci_pgid (desk reply polled) t q = Inr 5" "ci_signal (desk reply polled) t = Inr ()"
  "ci_wait (desk reply polled) t = Inr ()" "ci_uuid (desk reply polled) t = demo_uuid" "listener_available (desk reply polled) t l = Inr True"
  "ci_live_socket (desk reply polled) t = Inr False" "ci_unlink (desk reply polled) t = Inr ()" "ci_mkdir (desk reply polled) t = Inr ()"
  by (simp_all add: desk_def listener_available_def res_simps)

definition desk_config :: managed_config where
  "desk_config = \<lparr>mc_listener = DEFAULT_PUBLIC_LISTENER, mc_version = ''1'', mc_generation = demo_uuid\<rparr>"

lemma desk_paths_facts:
  "path_anchor ''/run'' = ''/''" "path_parts ''/run'' = [''run'']" "path_anchor ''/state'' = ''/''" "path_parts ''/state'' = [''state'']"
  "of_parts ''/'' [''run''] = ''/run''" "of_parts ''/'' [''state''] = ''/state''" "path_parent ''/run/l'' = ''/run''"
  "is_desk_dir ''/run''" "is_desk_dir ''/state''" "\<not> is_desk_dir ''/run/l''"
  "unsafe_ancestor desk_fs 7 ''/w'' ''/run'' = None" "unsafe_ancestor desk_fs 7 ''/w'' ''/state'' = None"
  "is_owned (desk reply polled) DirectoryKind private_dir_mode (desk_look ''/run'')"
  "is_owned (desk reply polled) DirectoryKind private_dir_mode (desk_look ''/state'')"
  "is_owned (desk reply polled) RegularKind private_mode (desk_look ''/run/l'')"
  "desk_look ''/run/l'' = Seen (own_meta RegularKind private_mode)" "is_own_regular (desk reply polled) (own_meta RegularKind private_mode)"
  by code_simp+

lemma desk_manager_facts:
  "sp_start_lock (sm_paths desk_manager) = ''/run/l''" "sp_durable_dir (sm_paths desk_manager) = ''/state''"
  "\<not> is_desk_dir (receipt_path desk_manager desk_config)" "expected_version desk_manager = Inr ''1''"
  "mk_config demo_model_env DEFAULT_PUBLIC_LISTENER ''1'' demo_uuid = Inr desk_config" "mc_listener desk_config = DEFAULT_PUBLIC_LISTENER"
  "validate_public_listener (host_lookup demo_model_env) (JStr DEFAULT_PUBLIC_LISTENER) = Inr DEFAULT_PUBLIC_LISTENER"
  "read_readiness (desk reply polled) desk_manager (JObj [(''result'', JObj ready_service)]) = Inr (Some ready_service)"
  "jget ready_service ''status'' = JStr ''ready''" "jget ready_service ''listener'' = JStr DEFAULT_PUBLIC_LISTENER"
  "jget ready_service ''service_version'' = JStr ''1''" "not_running (OSError ''refused'')"
  by code_simp+

lemma owned_again: "is_owned (desk reply polled) k m (Seen (own_meta k m))"
  by (simp add: is_owned_def desk_def own_meta_def)

lemmas desk_run = run desk_fields owned_again desk_paths_facts desk_manager_facts desk_client_def put_config_def START_LOCK_SECONDS_def

lemma started_run: "\<exists>l. started_desk = (Inr (Some ready_service), \<lparr>cs_clock = 22, cs_log = l,
    cs_config = JsonContent (JObj (config_dict desk_config)), cs_metadata = NoContent\<rparr>)"
  by (simp add: started_desk_def desk_run ready_from_def res_simps)

lemma started_facts:
  "fst started_desk = Inr (Some ready_service)"
  "cs_config (snd started_desk) = JsonContent (JObj (config_dict desk_config))"
proof -
  obtain l where "started_desk = (Inr (Some ready_service), \<lparr>cs_clock = 22, cs_log = l,
    cs_config = JsonContent (JObj (config_dict desk_config)), cs_metadata = NoContent\<rparr>)" using started_run by (elim exE)
  note run = this
  show "fst started_desk = Inr (Some ready_service)" by (simp only: run fst_conv)
  show "cs_config (snd started_desk) = JsonContent (JObj (config_dict desk_config))" by (simp only: run snd_conv client_state.simps)
qed

lemma started_service_is_as_asked_witness:
  "\<exists>r. fst started_desk = Inr (Some r) \<and> jget r ''service_version'' = JStr ''1'' \<and> jget r ''listener'' = JStr DEFAULT_PUBLIC_LISTENER"
proof -
  have "started_desk = (Inr (Some ready_service), snd started_desk)" using started_facts(1) by (simp add: prod_eq_iff)
  from started_service_is_as_asked [OF this [unfolded started_desk_def]] started_facts(1)
  show ?thesis by (auto simp: expected_version_def desk_manager_def)
qed

lemma configuration_names_a_ready_service_witness:
  "\<exists>c st. cs_config (snd started_desk) = JsonContent (JObj (config_dict c)) \<and> as_asked desk_manager (Some (mc_listener c)) st"
proof -
  have "started_desk = (fst started_desk, snd started_desk)" by simp
  from configuration_names_a_ready_service [OF this [unfolded started_desk_def]] started_facts(2)
  show ?thesis by (auto simp: desk_client_def started_desk_def)
qed

definition failed_desk :: "(exn, json_object option) res \<times> client_state" where
  "failed_desk = launch_locked (desk nobody (\<lambda>_. None)) 1 desk_manager desk_config None desk_client"

lemma late_fault: "case launch_fault ''Global service did not become ready'' True [(''reason'', JStr ''readiness_timeout''), (''exit_code'', JNull)] of
    FacadeFault f \<Rightarrow> ff_code f = DAEMON_START_FAILED | _ \<Rightarrow> False"
  by code_simp

lemma failed_facts: "(case fst failed_desk of Inl (FacadeFault f) \<Rightarrow> ff_code f = DAEMON_START_FAILED | _ \<Rightarrow> False)"
  "list_ex (\<lambda>e. e = ChildSpawned (manager_argv desk_manager desk_config)) (cs_log (snd failed_desk))"
  by (simp_all add: failed_desk_def desk_run nobody_def res_simps late_fault)


lemma stopped_fact: "(case fst stopped_desk of Inr (Some _) \<Rightarrow> True | _ \<Rightarrow> False)"
  by code_simp

lemma stopped_service_is_gone_witness:
  "\<exists>rest. cs_log (snd stopped_desk) = StartUnlocked # rest \<and> (seen_gone (desk stopping_desk (\<lambda>_. None)) desk_manager rest
     \<or> (\<exists>t t'. probe_basis (desk stopping_desk (\<lambda>_. None)) desk_manager True t = (Inr None, t') \<and> cs_log t' = rest))"
proof -
  obtain r where "fst stopped_desk = Inr (Some r)" using stopped_fact by (auto split: sum.splits option.splits)
  then have "stopped_desk = (Inr (Some r), snd stopped_desk)" by (simp add: prod_eq_iff)
  from stopped_service_is_gone [OF this [unfolded stopped_desk_def]] show ?thesis unfolding stopped_desk_def .
qed


section \<open>The instance\<close>

definition desk_identity :: identity where
  "desk_identity = \<lparr>in_source = FLAG, in_value = ''a''\<rparr>"

definition desk_host :: client_host where
  "desk_host = desk nobody (\<lambda>_. None)"

definition desk_instance :: instance_paths where
  "desk_instance = (case derive_instance_paths (ci_sha256 desk_host) desk_identity ''darwin'' ''/state'' ''/tmp'' 7 of Inr p \<Rightarrow> p)"

lemma desk_derived: "derive_instance_paths (ci_sha256 desk_host) desk_identity ''darwin'' ''/state'' ''/tmp'' 7 = Inr desk_instance"
  by (simp add: desk_instance_def derive_instance_paths_def Let_def)

lemma desk_layout: "ip_durable_dir desk_instance = ''/state/superdev/codex-worker/instances/k''"
  "ip_metadata desk_instance = ''/state/superdev/codex-worker/instances/k/instance.json''"
  by code_simp+

lemma desk_accepts: "unsafe_ancestor desk_fs 7 ''/w'' ''/state/superdev/codex-worker/instances/k'' = None"
  "is_owned desk_host DirectoryKind private_dir_mode (desk_look ''/state/superdev/codex-worker/instances/k'')"
  "is_owned desk_host RegularKind private_mode (desk_look ''/state/superdev/codex-worker/instances/k/instance.json'')"
  "fst (write_metadata desk_host desk_instance desk_identity desk_client) = Inr ()"
  by code_simp+

lemma written_identity_is_read_back_witness:
  "fst (load_managed_identity desk_host (ip_registry desk_instance) (snd (write_metadata desk_host desk_instance desk_identity desk_client)))
     = Inr (Some desk_identity)"
proof (rule written_identity_is_read_back [OF _ desk_derived])
  show "mk_identity FLAG (JStr ''a'') = Inr desk_identity" by code_simp
  show "clean (key_hash (ci_sha256 desk_host) desk_identity)" by code_simp
  show "write_metadata desk_host desk_instance desk_identity desk_client = (Inr (), snd (write_metadata desk_host desk_instance desk_identity desk_client))"
    using desk_accepts(4) by (simp add: prod_eq_iff)
  have host: "ci_fs desk_host t = desk_fs" "ci_lstat desk_host t = desk_look" "ci_uid desk_host = 7" "ci_cwd desk_host = ''/w''" for t
    by (simp_all add: desk_host_def desk_def)
  show "\<forall>t. unsafe_ancestor (ci_fs desk_host t) (ci_uid desk_host) (ci_cwd desk_host) (ip_durable_dir desk_instance) = None"
    "\<forall>t. is_owned desk_host DirectoryKind private_dir_mode (ci_lstat desk_host t (ip_durable_dir desk_instance))"
    "\<forall>t. is_owned desk_host RegularKind private_mode (ci_lstat desk_host t (ip_metadata desk_instance))"
    using desk_accepts by (simp_all add: host desk_layout)
qed simp

lemma instances_have_their_own_files_witness:
  "\<exists>p q. derive_instance_paths id \<lparr>in_source = FLAG, in_value = ''a''\<rparr> ''darwin'' ''/h'' ''/tmp'' 7 = Inr p
     \<and> derive_instance_paths id \<lparr>in_source = FLAG, in_value = ''b''\<rparr> ''darwin'' ''/h'' ''/tmp'' 7 = Inr q \<and> durable_files p \<inter> durable_files q = {}"
proof -
  let ?i = "\<lambda>v. \<lparr>in_source = FLAG, in_value = v\<rparr>"
  obtain p where p: "derive_instance_paths id (?i ''a'') ''darwin'' ''/h'' ''/tmp'' 7 = Inr p" by (simp add: derive_instance_paths_def Let_def)
  obtain q where q: "derive_instance_paths id (?i ''b'') ''darwin'' ''/h'' ''/tmp'' 7 = Inr q" by (simp add: derive_instance_paths_def Let_def)
  have "durable_files p \<inter> durable_files q = {}"
    by (rule instances_have_their_own_files [OF p q]) (simp_all add: key_hash_def clean_def slash_def)
  with p q show ?thesis by blast
qed

definition desk_deps :: instance_deps where
  "desk_deps = \<lparr>id_paths = desk_instance\<lparr>ip_socket := ''/run/s'', ip_lock := ''/run/l''\<rparr>, id_identity = desk_identity,
     id_launcher = ''codex-worker'', id_codex_bin = ''codex'', id_expected_version = Some ''1''\<rparr>"

definition ready_daemon :: json_object where
  "ready_daemon = [(''ready'', JBool True), (''worker_version'', JStr ''1''), (''daemon_pid'', JInt 5), (''codex_pid'', JInt 6),
     (''session_count'', JInt 0)]"

definition daemon_host :: client_host where
  "daemon_host = desk (ready_from 18 ready_daemon) (\<lambda>_. None)"

definition daemon_desk :: "(exn, json option) res \<times> client_state" where
  "daemon_desk = ensure_instance daemon_host 1 desk_deps desk_client"

fun is_unlink :: "client_event \<Rightarrow> bool" where
  "is_unlink (PathUnlinked p m) \<longleftrightarrow> True"
| "is_unlink e \<longleftrightarrow> False"

text \<open>The run of the instance's daemon, evaluated like the run of the service.\<close>

lemmas instance_run = write_metadata_def [THEN fun_cong] remove_stale_socket_def [THEN fun_cong] verified_socket_def [THEN fun_cong]
   refuse_live_peer_def [THEN fun_cong] unlink_verified_socket_def [THEN fun_cong] need_codex_def [THEN fun_cong]
   launch_instance_def [THEN fun_cong] ensure_locked_def [THEN fun_cong] ensure_instance_def [THEN fun_cong] await_ready.simps [THEN fun_cong]

definition desk_response :: json where
  "desk_response = (case instance_response desk_deps ''ready'' ready_daemon JNull of Inr v \<Rightarrow> v | Inl _ \<Rightarrow> JNull)"

lemma desk_responds: "instance_response desk_deps ''ready'' ready_daemon JNull = Inr desk_response"
proof -
  have "case instance_response desk_deps ''ready'' ready_daemon JNull of Inr v \<Rightarrow> True | Inl _ \<Rightarrow> False" by code_simp
  then show ?thesis by (auto simp: desk_response_def split: sum.splits)
qed

lemma desk_deps_facts:
  "ip_lock (id_paths desk_deps) = ''/run/l''" "ip_socket (id_paths desk_deps) = ''/run/s''"
  "ip_durable_dir (id_paths desk_deps) = ''/state/superdev/codex-worker/instances/k''"
  "ip_metadata (id_paths desk_deps) = ''/state/superdev/codex-worker/instances/k/instance.json''"
  "path_anchor ''/state/superdev/codex-worker/instances/k'' = ''/''"
  "path_parts ''/state/superdev/codex-worker/instances/k'' = [''state'', ''superdev'', ''codex-worker'', ''instances'', ''k'']"
  "of_parts ''/'' [''state'', ''superdev'', ''codex-worker'', ''instances'', ''k''] = ''/state/superdev/codex-worker/instances/k''"
  "is_desk_dir ''/state/superdev/codex-worker/instances/k''" "\<not> is_desk_dir ''/state/superdev/codex-worker/instances/k/instance.json''"
  "unsafe_ancestor desk_fs 7 ''/w'' ''/state/superdev/codex-worker/instances/k'' = None"
  "is_owned (desk reply polled) DirectoryKind private_dir_mode (desk_look ''/state/superdev/codex-worker/instances/k'')"
  "is_owned (desk reply polled) RegularKind private_mode (desk_look ''/state/superdev/codex-worker/instances/k/instance.json'')"
  "desk_look ''/run/s'' = Seen (own_meta SocketKind private_mode)" "is_private_socket (desk reply polled) (own_meta SocketKind private_mode)"
  "ready_result (JObj [(''result'', JObj ready_daemon)]) = Inr (Some ready_daemon)" "is_compatible desk_deps ready_daemon"
  "is_os_error (OSError ''refused'')"
  by code_simp+

lemma daemon_facts: "case fst daemon_desk of Inr (Some _) \<Rightarrow> True | _ \<Rightarrow> False"
  "list_ex is_unlink (cs_log (snd daemon_desk))"
  by (simp_all add: daemon_desk_def daemon_host_def desk_run instance_run desk_deps_facts desk_responds ready_from_def res_simps)

lemma started_daemon_is_ready_witness:
  "\<exists>r result. fst daemon_desk = Inr (Some r) \<and> instance_response desk_deps ''ready'' result JNull = Inr r \<and> jget result ''worker_version'' = JStr ''1''"
proof -
  obtain r where r: "fst daemon_desk = Inr (Some r)" using daemon_facts(1) by (auto split: sum.splits option.splits)
  then have "daemon_desk = (Inr (Some r), snd daemon_desk)" by (simp add: prod_eq_iff)
  from started_daemon_is_ready [OF this [unfolded daemon_desk_def]] r
  show ?thesis by (auto simp: is_compatible_def desk_deps_def)
qed

lemma only_dead_sockets_are_unlinked_witness:
  "careful daemon_host (cs_log (snd daemon_desk)) \<and> (\<exists>p m. PathUnlinked p m \<in> set (cs_log (snd daemon_desk)))"
proof
  have "careful daemon_host (cs_log desk_client)" by (simp add: desk_client_def)
  from only_dead_sockets_are_unlinked [OF this] show "careful daemon_host (cs_log (snd daemon_desk))" unfolding daemon_desk_def by blast
  show "\<exists>p m. PathUnlinked p m \<in> set (cs_log (snd daemon_desk))"
    using daemon_facts(2) by (metis (no_types, lifting) list_ex_iff is_unlink.elims(2))
qed

end
