(* ===== verification/AppServer.thy ===== *)
theory AppServer
  imports Transport Service
begin

text \<open>
  \<open>app_server.py\<close>: the adapter of the Codex app-server over the pipes of a child process. As in
  Transport a waiter's queue is named by its request number; \<open>so_waiting\<close> are the calls
  that are registered and have not ended. Each statement sequence of a thread is one definition over
  \<open>stdio\<close>; \<open>stdio_step\<close> interleaves the callers, the two readers and the shutdown.

  Parameters: the JSON encoder, the pipe, the observer and the approval handler (\<open>stdio_env\<close>).
\<close>

section \<open>State\<close>

record stdio =
  so_closed :: bool
  so_close_error :: "exn option"
  so_next_id :: int
  so_pending :: "int list"
  so_mail :: "(int, reply) dict"
  so_waiting :: "int list"
  so_cleaning :: bool
  so_diagnostics :: "string list"
  so_written :: "json_object list"
  so_emitted :: "json_object list"

definition new_stdio :: stdio where
  "new_stdio = \<lparr>so_closed = False, so_close_error = None, so_next_id = 1, so_pending = [], so_mail = [], so_waiting = [],
     so_cleaning = False, so_diagnostics = [], so_written = [], so_emitted = []\<rparr>"

text \<open>\<open>se_write\<close>: what writing and flushing a message to an open pipe raises.\<close>

record stdio_env =
  se_conn :: conn_env
  se_dumps :: "json_object \<Rightarrow> exn option"
  se_stdin :: bool
  se_write :: "json_object \<Rightarrow> exn option"

definition stdio_error :: "json_object \<Rightarrow> exn" where
  "stdio_error details = transport_error_of details"

definition stdio_message :: "string \<Rightarrow> exn" where
  "stdio_message m = stdio_error [(''message'', JStr m)]"

definition stdio_cause :: "string \<Rightarrow> exn \<Rightarrow> exn" where
  "stdio_cause m x = stdio_error [(''message'', JStr m), (''error'', JStr (exn_name x))]"

definition diagnose :: "string \<Rightarrow> stdio \<Rightarrow> stdio" where
  "diagnose d c = c\<lparr>so_diagnostics := so_diagnostics c @ [d]\<rparr>"

definition stdio_require_open :: "stdio \<Rightarrow> (exn, unit) res" where
  "stdio_require_open c = (if so_closed c
     then Inl (case so_close_error c of Some e \<Rightarrow> e | None \<Rightarrow> stdio_message ''adapter is closed'') else Inr ())"

definition stdio_emit :: "stdio_env \<Rightarrow> stdio \<Rightarrow> json_object \<Rightarrow> stdio" where
  "stdio_emit env c m = (let c1 = c\<lparr>so_emitted := so_emitted c @ [m]\<rparr> in
     if observer_raises (se_conn env) m then diagnose ''notification observer raised'' c1 else c1)"

section \<open>Failure\<close>

text \<open>
  \<open>_fail_transport\<close>: once; every waiting call's queue gets the error, unless it is full. The
  cleanup of the process runs on a thread of its own.
\<close>

definition stdio_fail :: "stdio_env \<Rightarrow> stdio \<Rightarrow> exn \<Rightarrow> stdio" where
  "stdio_fail env c error = (if so_closed c then c
     else stdio_emit env (c\<lparr>so_closed := True, so_close_error := Some error, so_pending := [], so_cleaning := True,
         so_mail := fold (\<lambda>i mail. if dhas mail i then mail else dset mail i (Broken error)) (so_pending c) (so_mail c)\<rparr>)
       [(''method'', JStr ''transport/error''),
        (''params'', JObj [(''kind'', JStr ''transport_error''), (''details'', error_details error)])])"

text \<open>\<open>shutdown\<close>, up to its wait for the cleanup, which is \<open>cleanup_process\<close> below.\<close>

definition stdio_shutdown :: "stdio_env \<Rightarrow> stdio \<Rightarrow> stdio" where
  "stdio_shutdown env c = stdio_fail env c (stdio_message ''adapter shutdown'')"

section \<open>Sending\<close>

definition stdio_send :: "stdio_env \<Rightarrow> stdio \<Rightarrow> json_object \<Rightarrow> stdio \<times> (exn, unit) res" where
  "stdio_send env c m = (case se_dumps env m of
     Some x \<Rightarrow> (c, Inl x)
   | None \<Rightarrow> (case stdio_require_open c of
       Inl x \<Rightarrow> (c, Inl x)
     | Inr _ \<Rightarrow>
       if \<not> se_stdin env
       then (stdio_fail env c (stdio_message ''stdin unavailable''), Inl (stdio_message ''stdin unavailable''))
       else (let c1 = c\<lparr>so_written := so_written c @ [m]\<rparr> in case se_write env m of
           None \<Rightarrow> (c1, Inr ())
         | Some x \<Rightarrow> if is_os_error x \<or> is_value_error x
             then (let error = stdio_cause ''Codex stdin write failed'' x in (stdio_fail env c1 error, Inl error))
             else (c1, Inl x))))"

text \<open>
  \<open>call\<close>: the registration, the sending, and the end of the wait; an empty queue is the timeout. Between
  the three the other threads may run.
\<close>

definition stdio_call_register :: "stdio \<Rightarrow> stdio \<times> (exn, int) res" where
  "stdio_call_register c = (let i = so_next_id c; c1 = c\<lparr>so_next_id := i + 1\<rparr> in case stdio_require_open c1 of
     Inl x \<Rightarrow> (c1, Inl x)
   | Inr _ \<Rightarrow> (c1\<lparr>so_pending := so_pending c1 @ [i], so_waiting := so_waiting c1 @ [i]\<rparr>, Inr i))"

definition stdio_call_send :: "stdio_env \<Rightarrow> stdio \<Rightarrow> int \<Rightarrow> string \<Rightarrow> json_object \<Rightarrow> stdio \<times> (exn, unit) res" where
  "stdio_call_send env c i method params = (case stdio_send env c (request_message method i params) of
     (c1, Inl x) \<Rightarrow> (c1\<lparr>so_pending := removeAll i (so_pending c1), so_mail := ddel (so_mail c1) i,
         so_waiting := removeAll i (so_waiting c1)\<rparr>, Inl x)
   | (c1, Inr _) \<Rightarrow> (c1, Inr ()))"

definition stdio_call_finish :: "stdio_env \<Rightarrow> stdio \<Rightarrow> int \<Rightarrow> string \<Rightarrow> stdio \<times> (exn, json_object) res" where
  "stdio_call_finish env c i method = (let c1 = c\<lparr>so_waiting := removeAll i (so_waiting c)\<rparr> in case dget (so_mail c) i of
     None \<Rightarrow> (c1\<lparr>so_pending := removeAll i (so_pending c)\<rparr>, Inl (CodexCallError ''timeout'' method None))
   | Some m \<Rightarrow> (c1\<lparr>so_mail := ddel (so_mail c) i\<rparr>, case m of
       Broken e \<Rightarrow> Inl e
     | Message d \<Rightarrow>
         if dhas d ''error'' then Inl (error_from_response (repr (se_conn env)) method (jget d ''error''))
         else (case as_obj (jget d ''result'') of
           None \<Rightarrow> Inl (protocol_error method ''result must be an object'')
         | Some r \<Rightarrow> Inr r)))"

definition stdio_notify :: "stdio_env \<Rightarrow> stdio \<Rightarrow> string \<Rightarrow> json_object \<Rightarrow> stdio \<times> (exn, unit) res" where
  "stdio_notify env c method params = stdio_send env c [(''method'', JStr method), (''params'', JObj params)]"

section \<open>Messages of the child\<close>

text \<open>\<open>self._pending.pop(id, None)\<close>: a list or an object as the id cannot be looked up.\<close>

definition unhashable :: "json \<Rightarrow> bool" where
  "unhashable v \<longleftrightarrow> (case v of JList _ \<Rightarrow> True | JObj _ \<Rightarrow> True | _ \<Rightarrow> False)"

definition stdio_deliver :: "stdio \<Rightarrow> json_object \<Rightarrow> stdio \<times> (exn, unit) res" where
  "stdio_deliver c m =
     (if unhashable (jget m ''id'') then (c, Inl (TypeError ''unhashable type''))
      else case find (\<lambda>i. py_eq (JInt i) (jget m ''id'')) (so_pending c) of
        None \<Rightarrow> (c, Inr ())
      | Some i \<Rightarrow> (c\<lparr>so_pending := removeAll i (so_pending c), so_mail := dset (so_mail c) i (Message m)\<rparr>, Inr ()))"

definition stdio_handle_request :: "stdio_env \<Rightarrow> stdio \<Rightarrow> json_object \<Rightarrow> string \<Rightarrow> stdio \<times> (exn, unit) res" where
  "stdio_handle_request env c m method =
     (let (result, raised) = approval_result (se_conn env) m method;
          c1 = (if raised then diagnose ''approval handler raised; request declined'' c else c)
      in case stdio_send env c1 [(''id'', jget m ''id''), (''result'', JObj result)] of
           (c2, Inl x) \<Rightarrow> (c2, Inl x)
         | (c2, Inr _) \<Rightarrow> (if method \<in> set APPROVAL_METHODS \<and> is_decline method result
             then stdio_emit env c2 (declined_message m method) else c2, Inr ()))"

definition stdio_dispatch :: "stdio_env \<Rightarrow> stdio \<Rightarrow> json_object \<Rightarrow> stdio \<times> (exn, unit) res" where
  "stdio_dispatch env c m =
     (if dhas m ''id'' \<and> jget m ''method'' = JNull then stdio_deliver c m
      else case as_str (jget m ''method'') of
        None \<Rightarrow> (c, Inr ())
      | Some method \<Rightarrow> if dhas m ''id'' then stdio_handle_request env c m method else (stdio_emit env c m, Inr ()))"

text \<open>
  The reader of the output: it goes on, it ends after the transport failed, or an exception that it
  does not catch ends its thread.
\<close>

datatype reader = Reading | Ended | Died exn

definition stdio_line :: "stdio_env \<Rightarrow> (string \<Rightarrow> (exn, json) res) \<Rightarrow> stdio \<Rightarrow> string \<Rightarrow> stdio \<times> reader" where
  "stdio_line env loads c line =
     (if py_strip line = [] then (c, Reading)
      else case loads line of
        Inl x \<Rightarrow> if is_value_or_type x then (stdio_fail env c (stdio_cause ''invalid JSONL from Codex'' x), Ended) else (c, Died x)
      | Inr v \<Rightarrow> (case as_obj v of
          None \<Rightarrow> (stdio_fail env c (stdio_message ''non-object JSONL from Codex''), Ended)
        | Some m \<Rightarrow> (case stdio_dispatch env c m of
            (c1, Inr _) \<Rightarrow> (c1, Reading)
          | (c1, Inl x) \<Rightarrow> if is_os_error x \<or> is_value_error x
              then (stdio_fail env c1 (stdio_cause ''Codex stdout read failed'' x), Ended) else (c1, Died x))))"

text \<open>The end of the output, with the exit code of the process when there is one.\<close>

definition stdio_exited :: "stdio_env \<Rightarrow> stdio \<Rightarrow> int option \<Rightarrow> stdio" where
  "stdio_exited env c code = stdio_fail env c (stdio_error [(''message'', JStr ''Codex app-server exited''),
     (''returncode'', case code of None \<Rightarrow> JNull | Some n \<Rightarrow> JInt n)])"

definition is_line_end :: "char \<Rightarrow> bool" where
  "is_line_end c \<longleftrightarrow> c = CHR 0x0D \<or> c = CHR 0x0A"

text \<open>A line on the error pipe: only its length is kept, and at most a hundred of them.\<close>

definition stdio_stderr :: "stdio \<Rightarrow> string \<Rightarrow> stdio" where
  "stdio_stderr c line =
     (let c1 = diagnose (''codex stderr line received ('' @ show_int (int (length (rev (dropWhile is_line_end (rev line))))) @ '' chars)'') c
      in if 100 < length (so_diagnostics c1) then c1\<lparr>so_diagnostics := tl (so_diagnostics c1)\<rparr> else c1)"

section \<open>Threads\<close>

text \<open>What the threads do, one statement sequence at a time.\<close>

datatype stdio_event =
    Registers
  | Sends int string json_object
  | Finishes int string
  | Notifies string json_object
  | OutputLine string
  | OutputFails exn
  | OutputEnds "int option"
  | ErrorLine string
  | ShutsDown

fun stdio_step :: "stdio_env \<Rightarrow> (string \<Rightarrow> (exn, json) res) \<Rightarrow> stdio \<Rightarrow> stdio_event \<Rightarrow> stdio" where
  "stdio_step env loads c Registers = fst (stdio_call_register c)"
| "stdio_step env loads c (Sends i method params) = fst (stdio_call_send env c i method params)"
| "stdio_step env loads c (Finishes i method) = fst (stdio_call_finish env c i method)"
| "stdio_step env loads c (Notifies method params) = fst (stdio_notify env c method params)"
| "stdio_step env loads c (OutputLine line) = fst (stdio_line env loads c line)"
| "stdio_step env loads c (OutputFails x) = stdio_fail env c (stdio_cause ''Codex stdout read failed'' x)"
| "stdio_step env loads c (OutputEnds code) = stdio_exited env c code"
| "stdio_step env loads c (ErrorLine line) = stdio_stderr c line"
| "stdio_step env loads c ShutsDown = stdio_shutdown env c"

definition stdio_run :: "stdio_env \<Rightarrow> (string \<Rightarrow> (exn, json) res) \<Rightarrow> stdio_event list \<Rightarrow> stdio" where
  "stdio_run env loads es = foldl (stdio_step env loads) new_stdio es"

text \<open>
  The constructor with \<open>_handshake\<close>: \<open>meanwhile\<close> is what the other threads do before the call of
  \<open>initialize\<close> is sent and before its wait ends.
\<close>

definition stdio_initialize :: "stdio_env \<Rightarrow> (string \<Rightarrow> (exn, json) res) \<Rightarrow> stdio_event list \<Rightarrow> stdio_event list \<Rightarrow>
    stdio \<times> (exn, json_object) res" where
  "stdio_initialize env loads before after = (case stdio_call_register new_stdio of
     (c, Inl x) \<Rightarrow> (c, Inl x)
   | (c, Inr i) \<Rightarrow> (case stdio_call_send env (foldl (stdio_step env loads) c before) i ''initialize'' initialize_params of
       (c1, Inl x) \<Rightarrow> (c1, Inl x)
     | (c1, Inr _) \<Rightarrow> stdio_call_finish env (foldl (stdio_step env loads) c1 after) i ''initialize''))"

definition stdio_open :: "stdio_env \<Rightarrow> (string \<Rightarrow> (exn, json) res) \<Rightarrow> string list \<Rightarrow> stdio_event list \<Rightarrow> stdio_event list \<Rightarrow>
    stdio \<times> (exn, unit) res" where
  "stdio_open env loads argv before after =
     (if argv = [] then (new_stdio, Inl (ValueError ''codex_argv must not be empty'')) else case stdio_initialize env loads before after of
        (c, Inl x) \<Rightarrow> (stdio_shutdown env c, Inl x)
      | (c, Inr _) \<Rightarrow> (case stdio_notify env c ''initialized'' [] of
          (c1, Inl x) \<Rightarrow> (stdio_shutdown env c1, Inl x) | (c1, Inr _) \<Rightarrow> (c1, Inr ())))"

section \<open>The cleanup of the process\<close>

datatype process_event = StdinClosed | ExitLooked "int option" | TerminateSent | WaitedFor bool | KillSent | ReadersJoined | PipeClosed | CleanupDone

record process_host =
  ph_stdin :: "nat \<Rightarrow> bool"
  ph_close :: "nat \<Rightarrow> (exn, unit) res"
  ph_poll :: "nat \<Rightarrow> int option"
  ph_terminate :: "nat \<Rightarrow> (exn, unit) res"
  ph_wait :: "nat \<Rightarrow> (exn, unit) res"
  ph_kill :: "nat \<Rightarrow> (exn, unit) res"
  ph_pipe :: "nat \<Rightarrow> bool"

record process_state =
  ps_clock :: nat
  ps_log :: "process_event list"

type_synonym 'a process_act = "(process_state, 'a) act"

definition ask_process :: "(nat \<Rightarrow> 'a) \<Rightarrow> 'a process_act" where
  "ask_process f s = (Inr (f (ps_clock s)), s\<lparr>ps_clock := Suc (ps_clock s)\<rparr>)"

definition log_process :: "process_event \<Rightarrow> unit process_act" where
  "log_process e = modify (\<lambda>s. s\<lparr>ps_log := e # ps_log s\<rparr>)"

text \<open>A call whose exceptions of one kind are dropped.\<close>

definition dropping :: "(exn \<Rightarrow> bool) \<Rightarrow> process_event \<Rightarrow> (nat \<Rightarrow> (exn, unit) res) \<Rightarrow> unit process_act" where
  "dropping dropped e f = andthen (log_process e) (\<lambda>_. andthen (ask_process f) (\<lambda>r. case r of
     Inr _ \<Rightarrow> ret () | Inl x \<Rightarrow> if dropped x then ret () else raise x))"

definition wait_process :: "process_host \<Rightarrow> unit process_act" where
  "wait_process h = andthen (ask_process (ph_wait h)) (\<lambda>r. andthen (log_process (WaitedFor (r = Inr ()))) (\<lambda>_. lift r))"

definition close_pipe :: "process_host \<Rightarrow> unit process_act" where
  "close_pipe h = andthen (ask_process (ph_pipe h)) (\<lambda>opened. if opened
     then dropping (\<lambda>x. is_os_error x \<or> is_value_error x) PipeClosed (ph_close h) else ret ())"

definition end_process :: "process_host \<Rightarrow> unit process_act" where
  "end_process h =
     andthen (ask_process (ph_poll h)) (\<lambda>code. andthen (log_process (ExitLooked code)) (\<lambda>_.
       if code \<noteq> None then ret ()
       else andthen (dropping is_os_error TerminateSent (ph_terminate h)) (\<lambda>_.
         attempt (wait_process h) (\<lambda>x. if is_timeout_expired x
           then andthen (dropping is_os_error KillSent (ph_kill h)) (\<lambda>_. wait_process h) else raise x))))"

text \<open>\<open>_cleanup_process\<close>; that the readers are joined is one event.\<close>

definition cleanup_process :: "process_host \<Rightarrow> unit process_act" where
  "cleanup_process h = always
     (andthen (ask_process (ph_stdin h)) (\<lambda>opened.
      andthen (if opened then dropping (\<lambda>x. is_os_error x \<or> is_value_error x) StdinClosed (ph_close h) else ret ()) (\<lambda>_.
      andthen (end_process h) (\<lambda>_.
      andthen (log_process ReadersJoined) (\<lambda>_. andthen (close_pipe h) (\<lambda>_. close_pipe h))))))
     (\<lambda>s. s\<lparr>ps_log := CleanupDone # ps_log s\<rparr>)"

end
