(* ===== verification/AppServerProps.thy ===== *)
theory AppServerProps
  imports AppServer
begin

text \<open>
  The adapter over the pipes: a call in flight is pending or has its queue filled, never neither;
  the first failure is the last; the cleanup says that it is done however it ends.
\<close>

section \<open>No call is lost\<close>

text \<open>
  The calls \<open>ws\<close> are those that are pending and those whose queue is filled; a closed adapter has
  none pending, and numbers are used once.
\<close>

definition balanced :: "int set \<Rightarrow> stdio \<Rightarrow> bool" where
  "balanced ws c \<longleftrightarrow> ws = set (so_pending c) \<union> set (dkeys (so_mail c)) \<and> set (so_pending c) \<inter> set (dkeys (so_mail c)) = {}
     \<and> (\<forall>i \<in> ws. i < so_next_id c) \<and> (so_closed c \<longrightarrow> so_pending c = [] \<and> so_close_error c \<noteq> None)"

definition stdio_inv :: "stdio \<Rightarrow> bool" where
  "stdio_inv c \<longleftrightarrow> balanced (set (so_waiting c)) c"

lemma broken_keys: "set (dkeys (fold (\<lambda>i mail. if dhas mail i then mail else dset mail i (Broken e)) ps mail)) = set ps \<union> set (dkeys mail)"
  by (induction ps arbitrary: mail) (auto simp: dhas_def dict_simps)

lemma diagnose_fields [simp]: "so_waiting (diagnose d c) = so_waiting c" "so_pending (diagnose d c) = so_pending c" "so_mail (diagnose d c) = so_mail c"
  "so_next_id (diagnose d c) = so_next_id c" "so_closed (diagnose d c) = so_closed c" "so_close_error (diagnose d c) = so_close_error c"
  "so_written (diagnose d c) = so_written c"
  by (simp_all add: diagnose_def)

lemma stdio_emit_fields [simp]: "so_waiting (stdio_emit env c m) = so_waiting c" "so_pending (stdio_emit env c m) = so_pending c"
  "so_mail (stdio_emit env c m) = so_mail c" "so_next_id (stdio_emit env c m) = so_next_id c"
  "so_closed (stdio_emit env c m) = so_closed c" "so_close_error (stdio_emit env c m) = so_close_error c"
  "so_written (stdio_emit env c m) = so_written c"
  by (simp_all add: stdio_emit_def Let_def)

lemma failing: "balanced ws c \<Longrightarrow> balanced ws (stdio_fail env c e)" "so_waiting (stdio_fail env c e) = so_waiting c"
  by (auto simp: balanced_def stdio_fail_def broken_keys)

lemma emitting: "balanced ws (stdio_emit env c m) = balanced ws c" "balanced ws (diagnose d c) = balanced ws c"
  by (simp_all add: balanced_def)

lemma sending:
  assumes "stdio_send env c m = (c', r)"
  shows "balanced ws c \<Longrightarrow> balanced ws c'" "so_waiting c' = so_waiting c"
proof -
  have w: "balanced ws (c\<lparr>so_written := x\<rparr>) = balanced ws c" for c x by (simp add: balanced_def)
  show "balanced ws c \<Longrightarrow> balanced ws c'"
    using assms by (auto simp: stdio_send_def Let_def w split: option.splits sum.splits if_splits intro!: failing(1))
  show "so_waiting c' = so_waiting c"
    using assms by (auto simp: stdio_send_def Let_def failing(2) split: option.splits sum.splits if_splits)
qed

lemma closed_pending: "balanced ws c \<Longrightarrow> so_closed c \<Longrightarrow> so_pending c = [] \<and> so_close_error c \<noteq> None"
  by (simp add: balanced_def)

lemma registering: "stdio_inv c \<Longrightarrow> stdio_inv (fst (stdio_call_register c))"
proof -
  assume inv: "stdio_inv c"
  show ?thesis
  proof (cases "so_closed c")
    case True
    with inv show ?thesis by (fastforce intro: less_imp_le simp: stdio_call_register_def stdio_require_open_def stdio_inv_def balanced_def Let_def)
  next
    case False
    with inv show ?thesis by (fastforce intro: less_imp_le simp: stdio_call_register_def stdio_require_open_def stdio_inv_def balanced_def Let_def)
  qed
qed

lemma dropping_call:
  "balanced ws c \<Longrightarrow> balanced (ws - {i}) (c\<lparr>so_pending := removeAll i (so_pending c), so_mail := ddel (so_mail c) i, so_waiting := x\<rparr>)"
  unfolding balanced_def by (simp add: Un_Diff) blast

lemma call_sending: "stdio_inv c \<Longrightarrow> stdio_inv (fst (stdio_call_send env c i method params))"
proof -
  assume inv: "stdio_inv c"
  obtain c1 r where run: "stdio_send env c (request_message method i params) = (c1, r)" by fastforce
  have "balanced (set (so_waiting c1)) c1" using inv sending [OF run] by (simp add: stdio_inv_def)
  with run dropping_call [of "set (so_waiting c1)" c1 i "removeAll i (so_waiting c1)"] show ?thesis
    by (auto simp: stdio_call_send_def stdio_inv_def split: sum.splits)
qed

lemma finishing: "stdio_inv c \<Longrightarrow> stdio_inv (fst (stdio_call_finish env c i method))"
  by (auto simp: stdio_call_finish_def stdio_inv_def balanced_def Let_def dict_simps dest: dget_Some_dkeys split: option.splits)

lemma delivering: "stdio_deliver c m = (c', r) \<Longrightarrow> balanced ws c \<Longrightarrow> balanced ws c'" "stdio_deliver c m = (c', r) \<Longrightarrow> so_waiting c' = so_waiting c"
  by (auto simp: stdio_deliver_def balanced_def find_Some_iff split: option.splits if_splits)

lemma requested:
  assumes "stdio_handle_request env c m method = (c', r)"
  shows "balanced ws c \<Longrightarrow> balanced ws c'" "so_waiting c' = so_waiting c"
  using assms by (auto simp: stdio_handle_request_def Let_def emitting dest: sending split: prod.splits sum.splits if_splits)

lemma dispatching:
  assumes "stdio_dispatch env c m = (c', r)"
  shows "balanced ws c \<Longrightarrow> balanced ws c'" "so_waiting c' = so_waiting c"
  using assms by (auto simp: stdio_dispatch_def emitting dest: delivering requested split: option.splits if_splits)

lemma reading: "stdio_inv c \<Longrightarrow> stdio_inv (fst (stdio_line env loads c line))"
proof -
  assume inv: "stdio_inv c"
  have fails: "stdio_inv (stdio_fail env c' e)" if "stdio_inv c'" for c' e
    using that by (simp add: stdio_inv_def failing)
  have "stdio_inv c'" if "stdio_dispatch env c m = (c', r)" for m c' r
    using dispatching [OF that] inv by (simp add: stdio_inv_def)
  with inv fails show ?thesis by (auto simp: stdio_line_def split: sum.splits option.splits prod.splits)
qed

lemma notifying: "stdio_inv c \<Longrightarrow> stdio_inv (fst (stdio_notify env c method params))"
  using sending [of env c] by (cases "stdio_notify env c method params") (auto simp: stdio_notify_def stdio_inv_def)

lemma diagnosing: "stdio_inv c \<Longrightarrow> stdio_inv (stdio_stderr c line)"
  by (simp add: stdio_stderr_def stdio_inv_def balanced_def Let_def)

lemma stepping: "stdio_inv c \<Longrightarrow> stdio_inv (stdio_step env loads c e)"
proof -
  assume inv: "stdio_inv c"
  have "stdio_inv (stdio_fail env c x)" for x using inv by (simp add: stdio_inv_def failing)
  with inv show ?thesis
    by (cases e) (simp_all add: registering call_sending finishing notifying reading diagnosing stdio_exited_def stdio_shutdown_def)
qed

lemma running: "stdio_inv (stdio_run env loads es)"
proof (induction es rule: rev_induct)
  case Nil
  show ?case by (simp add: stdio_run_def new_stdio_def stdio_inv_def balanced_def)
next
  case (snoc e es)
  then show ?case by (simp add: stdio_run_def stepping)
qed


section \<open>The first failure is the last\<close>

lemma failed_keeps: "so_closed c \<Longrightarrow> stdio_fail env c e = c"
  by (simp add: stdio_fail_def)

lemma closed_send: "so_closed c \<Longrightarrow> stdio_send env c m = (c', r) \<Longrightarrow> c' = c"
  by (auto simp: stdio_send_def stdio_require_open_def split: option.splits)

text \<open>What an adapter that is closed with an error is left as.\<close>

definition stays_closed :: "stdio \<Rightarrow> stdio \<Rightarrow> bool" where
  "stays_closed c c' \<longleftrightarrow> (so_closed c \<longrightarrow> so_closed c' \<and> so_close_error c' = so_close_error c)"

lemma closed_fail: "stays_closed c c' \<Longrightarrow> stays_closed c (stdio_fail env c' e)"
  by (auto simp: stays_closed_def failed_keeps)

lemma closed_deliver: "stdio_deliver c m = (c', r) \<Longrightarrow> stays_closed c c'"
  by (auto simp: stdio_deliver_def stays_closed_def split: option.splits if_splits)

lemma closed_emit: "stays_closed c (stdio_emit env c' m) = stays_closed c c'" "stays_closed c (diagnose d c)"
  by (simp_all add: stays_closed_def)

lemma closed_request:
  assumes "stdio_handle_request env c m method = (c', r)"
  shows "stays_closed c c'"
proof -
  obtain result raised where a: "approval_result (se_conn env) m method = (result, raised)" by fastforce
  let ?c = "if raised then diagnose ''approval handler raised; request declined'' c else c"
  obtain c2 y where s: "stdio_send env ?c [(''id'', jget m ''id''), (''result'', JObj result)] = (c2, y)" by fastforce
  have "stays_closed c c2" using closed_send [OF _ s] by (cases raised) (auto simp: stays_closed_def)
  with assms a s show ?thesis by (auto simp: stdio_handle_request_def Let_def closed_emit split: sum.splits if_splits)
qed

lemma closed_dispatch: "stdio_dispatch env c m = (c', r) \<Longrightarrow> stays_closed c c'"
proof -
  have "stays_closed c c" by (simp add: stays_closed_def)
  then show "stdio_dispatch env c m = (c', r) \<Longrightarrow> stays_closed c c'"
    by (auto simp: stdio_dispatch_def closed_emit dest: closed_request closed_deliver split: option.splits if_splits)
qed

lemma closed_line: "stays_closed c (fst (stdio_line env loads c line))"
proof -
  have "stays_closed c c" by (simp add: stays_closed_def)
  then show ?thesis
    by (auto simp: stdio_line_def dest: closed_dispatch intro: closed_fail split: sum.splits option.splits prod.splits)
qed

lemma closed_step:
  assumes "so_closed c"
  shows "so_closed (stdio_step env loads c e) \<and> so_close_error (stdio_step env loads c e) = so_close_error c"
proof (cases e)
  case Registers
  then show ?thesis using assms by (simp add: stdio_call_register_def stdio_require_open_def Let_def)
next
  case (Sends i m ps)
  then show ?thesis using assms
    by (auto simp: stdio_call_send_def dest: closed_send [OF assms] split: prod.splits sum.splits)
next
  case (Finishes i m)
  then show ?thesis using assms by (simp add: stdio_call_finish_def Let_def split: option.splits)
next
  case (Notifies m ps)
  then show ?thesis using assms closed_send [OF assms]
    by (cases "stdio_notify env c m ps") (auto simp: stdio_notify_def)
next
  case (OutputLine line)
  then show ?thesis using closed_line [of c env loads line] assms by (simp add: stays_closed_def)
qed (use assms in \<open>simp_all add: failed_keeps stdio_exited_def stdio_shutdown_def stdio_stderr_def Let_def\<close>)

lemma closed_run: "so_closed c \<Longrightarrow> so_closed (foldl (stdio_step env loads) c es)
    \<and> so_close_error (foldl (stdio_step env loads) c es) = so_close_error c"
  by (induction es arbitrary: c) (auto simp: closed_step)

text \<open>
  Once the adapter has failed or was shut down, it stays closed with the error of that first
  failure, whatever its threads do later, and a call that begins then raises this error.
\<close>

theorem first_failure_is_the_last:
  assumes "so_closed (stdio_run env loads es)"
  shows "\<exists>x. so_close_error (stdio_run env loads es) = Some x \<and> so_close_error (stdio_run env loads (es @ later)) = Some x
    \<and> snd (stdio_call_register (stdio_run env loads (es @ later))) = Inl x"
proof -
  obtain x where x: "so_close_error (stdio_run env loads es) = Some x"
    using closed_pending [OF _ assms] running [of env loads es] by (auto simp: stdio_inv_def)
  have later: "so_closed (stdio_run env loads (es @ later)) \<and> so_close_error (stdio_run env loads (es @ later)) = Some x"
    using closed_run [OF assms, of env loads later] x by (simp add: stdio_run_def)
  then show ?thesis using x by (simp add: stdio_call_register_def stdio_require_open_def Let_def)
qed

text \<open>
  A response whose identifier is a list or an object is not one of the errors the reader catches: its
  thread ends, and the adapter stays open.
\<close>

lemma reader_dies_of_unhashable_id:
  assumes "py_strip line \<noteq> []" "loads line = Inr (JObj m)" "jget m ''id'' = JList vs \<or> jget m ''id'' = JObj d" "jget m ''method'' = JNull"
  shows "stdio_line env loads c line = (c, Died (TypeError ''unhashable type''))"
proof -
  have "dhas m ''id''" using assms(3) by (auto simp: jget_def dhas_def split: option.splits)
  with assms show ?thesis by (auto simp: stdio_line_def stdio_dispatch_def stdio_deliver_def unhashable_def is_os_error_def is_value_error_def is_registry_error_def)
qed

section \<open>The cleanup\<close>

definition orderly :: "process_event list \<Rightarrow> bool" where
  "orderly new \<longleftrightarrow> (KillSent \<in> set new \<longrightarrow> TerminateSent \<in> set new \<and> WaitedFor False \<in> set new)"

definition process_over :: "process_event list \<Rightarrow> bool" where
  "process_over new \<longleftrightarrow> WaitedFor True \<in> set new \<or> (\<exists>code. ExitLooked (Some code) \<in> set new)"

definition logged :: "process_event list \<Rightarrow> (process_event list \<Rightarrow> bool) \<Rightarrow> process_state \<Rightarrow> bool" where
  "logged old P s \<longleftrightarrow> (\<exists>new. ps_log s = new @ old \<and> P new)"

lemma logged_event: "(\<And>new. P new \<Longrightarrow> Q (e # new)) \<Longrightarrow> hoare (logged old P) (log_process e) (\<lambda>_. logged old Q) E"
  by (fastforce simp: hoare_def log_process_def modify_def logged_def)

lemma logged_ask: "hoare (logged old P) (ask_process f) (\<lambda>_. logged old P) E"
  by (auto simp: hoare_def ask_process_def logged_def)

lemma logged_dropping:
  assumes "\<And>new. P new \<Longrightarrow> Q (e # new)"
  shows "hoare (logged old P) (dropping dropped e f) (\<lambda>_. logged old Q) (\<lambda>_. logged old Q)"
  unfolding dropping_def
  by (rule hoare_andthen, rule logged_event, erule assms, rule hoare_andthen, rule logged_ask)
    (auto simp: hoare_def ret_def raise_def split: sum.splits)

lemma logged_pipe:
  assumes "\<And>new. P new \<Longrightarrow> P (PipeClosed # new)" "\<And>new. P new \<Longrightarrow> Q new"
  shows "hoare (logged old P) (close_pipe h) (\<lambda>_. logged old P) (\<lambda>_. logged old Q)"
  unfolding close_pipe_def
proof (rule hoare_andthen, rule logged_ask)
  fix opened
  let ?drop = "dropping (\<lambda>x. is_os_error x \<or> is_value_error x) PipeClosed (ph_close h)"
  have "hoare (logged old P) ?drop (\<lambda>_. logged old P) (\<lambda>_. logged old P)"
    by (rule logged_dropping) (rule assms(1))
  then have "hoare (logged old P) ?drop (\<lambda>_. logged old P) (\<lambda>_. logged old Q)"
    by (rule hoare_weaken) (auto simp: logged_def assms(2))
  moreover have "hoare (logged old P) (ret ()) (\<lambda>_. logged old P) (\<lambda>_. logged old Q)" by (rule hoare_basic(1)) simp
  ultimately show "hoare (logged old P) (if opened then ?drop else ret ()) (\<lambda>_. logged old P) (\<lambda>_. logged old Q)" by simp
qed

lemma logged_wait:
  assumes "\<And>new. P new \<Longrightarrow> Q (WaitedFor True # new)" "\<And>new. P new \<Longrightarrow> R (WaitedFor False # new)"
  shows "hoare (logged old P) (wait_process h) (\<lambda>_. logged old Q) (\<lambda>_. logged old R)"
proof (rule hoareI)
  show "logged old Q s'" if "logged old P s" "wait_process h s = (Inr x, s')" for s x s'
    using that assms by (fastforce simp: wait_process_def ask_process_def log_process_def act_defs logged_def split: sum.splits)
  show "logged old R s'" if "logged old P s" "wait_process h s = (Inl e, s')" for s e s'
    using that assms by (fastforce simp: wait_process_def ask_process_def log_process_def act_defs logged_def split: sum.splits)
qed

lemma logged_weaken: "(\<And>new. P new \<Longrightarrow> Q new) \<Longrightarrow> logged old P s \<Longrightarrow> logged old Q s"
  by (auto simp: logged_def)

lemma logged_end:
  "hoare (logged old (\<lambda>new. set new \<subseteq> {StdinClosed})) (end_process h)
     (\<lambda>_. logged old (\<lambda>new. orderly new \<and> process_over new)) (\<lambda>_. logged old orderly)"
  unfolding end_process_def
proof (rule hoare_andthen, rule logged_ask, rule hoare_andthen)
  let ?looked = "\<lambda>code new. \<exists>rest. new = ExitLooked code # rest \<and> set rest \<subseteq> {StdinClosed}"
  let ?asked = "\<lambda>new. TerminateSent \<in> set new \<and> KillSent \<notin> set new"
  let ?late = "\<lambda>new. TerminateSent \<in> set new \<and> KillSent \<notin> set new \<and> WaitedFor False \<in> set new"
  let ?Q = "\<lambda>_::unit. logged old (\<lambda>new. orderly new \<and> process_over new)"
  let ?E = "\<lambda>_::exn. logged old orderly"
  show "hoare (logged old (\<lambda>new. set new \<subseteq> {StdinClosed})) (log_process (ExitLooked code)) (\<lambda>_. logged old (?looked code)) ?E" for code
    by (rule logged_event) auto
  show "hoare (logged old (?looked code)) (if code \<noteq> None then ret () else
      andthen (dropping is_os_error TerminateSent (ph_terminate h)) (\<lambda>_. attempt (wait_process h) (\<lambda>x. if is_timeout_expired x
        then andthen (dropping is_os_error KillSent (ph_kill h)) (\<lambda>_. wait_process h) else raise x))) ?Q ?E" for code
  proof (cases code)
    case (Some c)
    have "orderly new \<and> process_over new" if "?looked code new" for new
      using that Some by (auto simp: orderly_def process_over_def)
    then show ?thesis using Some by (auto intro!: hoare_basic(1) elim: logged_weaken [rotated])
  next
    case None
    have send: "hoare (logged old (?looked None)) (dropping is_os_error TerminateSent (ph_terminate h)) (\<lambda>_. logged old ?asked) ?E"
      by (rule hoare_weaken [OF logged_dropping [where Q = ?asked]]) (auto elim!: logged_weaken [rotated] simp: orderly_def)
    have wait: "hoare (logged old ?asked) (wait_process h) ?Q (\<lambda>_. logged old ?late)"
      by (rule logged_wait) (auto simp: orderly_def process_over_def)
    have kill: "hoare (logged old ?late) (dropping is_os_error KillSent (ph_kill h)) (\<lambda>_. logged old orderly) ?E"
      by (rule logged_dropping) (auto simp: orderly_def)
    have again: "hoare (logged old orderly) (wait_process h) ?Q ?E"
      by (rule logged_wait) (auto simp: orderly_def process_over_def)
    have late: "hoare (logged old ?late) (raise x) ?Q ?E" for x :: exn
      by (rule hoare_basic(2)) (auto elim!: logged_weaken [rotated] simp: orderly_def)
    have handler: "hoare (logged old ?late) (if is_timeout_expired x
        then andthen (dropping is_os_error KillSent (ph_kill h)) (\<lambda>_. wait_process h) else raise x) ?Q ?E" for x
      using hoare_andthen [OF kill again] late by simp
    show ?thesis using None hoare_andthen [OF send hoare_attempt [OF wait handler]] by simp
  qed
qed

text \<open>
  However the cleanup goes, it says that it is done. The process is killed only after it was asked to
  terminate and a wait for it had run out; when the cleanup ends normally, the process was seen to be
  over.
\<close>

theorem cleanup_always_reports:
  assumes "cleanup_process h s = (r, s')"
  shows "\<exists>new. ps_log s' = CleanupDone # new @ ps_log s
    \<and> (KillSent \<in> set new \<longrightarrow> TerminateSent \<in> set new \<and> WaitedFor False \<in> set new)
    \<and> (r = Inr () \<longrightarrow> WaitedFor True \<in> set new \<or> (\<exists>code. ExitLooked (Some code) \<in> set new))"
proof -
  let ?old = "ps_log s" and ?over = "\<lambda>new. orderly new \<and> process_over new"
  let ?Q = "\<lambda>_::unit. logged ?old ?over" and ?E = "\<lambda>_::exn. logged ?old orderly"
  let ?close = "\<lambda>x. is_os_error x \<or> is_value_error x"
  have stdin: "hoare (logged ?old (\<lambda>new. new = [])) (if opened then dropping ?close StdinClosed (ph_close h) else ret ())
      (\<lambda>_. logged ?old (\<lambda>new. set new \<subseteq> {StdinClosed})) ?E" for opened
  proof (cases opened)
    case True
    have "hoare (logged ?old (\<lambda>new. new = [])) (dropping ?close StdinClosed (ph_close h))
        (\<lambda>_. logged ?old (\<lambda>new. set new \<subseteq> {StdinClosed})) ?E"
      by (rule hoare_weaken [OF logged_dropping [where Q = "\<lambda>new. set new \<subseteq> {StdinClosed}"]])
        (auto elim!: logged_weaken [rotated] simp: orderly_def)
    with True show ?thesis by simp
  qed (auto intro!: hoare_basic(1) elim!: logged_weaken [rotated])
  have joined: "hoare (logged ?old ?over) (log_process ReadersJoined) (\<lambda>_. logged ?old ?over) ?E"
    by (rule logged_event) (auto simp: orderly_def process_over_def)
  have pipe: "hoare (logged ?old ?over) (close_pipe h) ?Q ?E"
    by (rule logged_pipe) (auto simp: orderly_def process_over_def)
  note body = hoare_andthen [OF logged_ask hoare_andthen [OF stdin
    hoare_andthen [OF logged_end hoare_andthen [OF joined hoare_andthen [OF pipe pipe]]]]]
  obtain r0 s0 where run: "andthen (ask_process (ph_stdin h)) (\<lambda>opened.
      andthen (if opened then dropping ?close StdinClosed (ph_close h) else ret ()) (\<lambda>_.
      andthen (end_process h) (\<lambda>_. andthen (log_process ReadersJoined) (\<lambda>_. andthen (close_pipe h) (\<lambda>_. close_pipe h))))) s = (r0, s0)"
    by fastforce
  have ends: "r = r0 \<and> ps_log s' = CleanupDone # ps_log s0"
    using assms run by (auto simp: cleanup_process_def always_def)
  have before: "logged ?old (\<lambda>new. new = []) s" by (simp add: logged_def)
  show ?thesis
  proof (cases r0)
    case (Inl x)
    then show ?thesis using hoareD(2) [OF body before] run ends by (fastforce simp: logged_def orderly_def)
  next
    case (Inr u)
    then show ?thesis using hoareD(1) [OF body before] run ends by (fastforce simp: logged_def orderly_def process_over_def)
  qed
qed

section \<open>At concrete inputs\<close>

definition pipe_env :: stdio_env where
  "pipe_env = \<lparr>se_conn = \<lparr>dumps = \<lambda>_. None, send_raises = \<lambda>_. None, observer_raises = \<lambda>_. False, approval_handler = None,
     repr = \<lambda>_. ''?''\<rparr>, se_dumps = \<lambda>_. None, se_stdin = True, se_write = \<lambda>_. None\<rparr>"

definition no_text :: "string \<Rightarrow> (exn, json) res" where
  "no_text s = Inl (ValueError s)"

definition closing_run :: "stdio_event list" where
  "closing_run = [Registers, Sends 1 ''thread/list'' [], ShutsDown]"


lemma first_failure_is_the_last_witness:
  "\<exists>x. so_close_error (stdio_run pipe_env no_text closing_run) = Some x
    \<and> snd (stdio_call_register (stdio_run pipe_env no_text (closing_run @ [OutputEnds (Some 0)]))) = Inl x"
proof -
  have "so_closed (stdio_run pipe_env no_text closing_run)" by code_simp
  from first_failure_is_the_last [OF this, of "[OutputEnds (Some 0)]"] show ?thesis by blast
qed

text \<open>A process that does not exit when it is asked to.\<close>

definition stubborn :: process_host where
  "stubborn = \<lparr>ph_stdin = \<lambda>_. True, ph_close = \<lambda>_. Inr (), ph_poll = \<lambda>_. None, ph_terminate = \<lambda>_. Inr (),
     ph_wait = \<lambda>t. if t < 5 then Inl (TimeoutExpired ''wait'') else Inr (), ph_kill = \<lambda>_. Inr (), ph_pipe = \<lambda>_. False\<rparr>"

definition stubborn_end :: "(exn, unit) res \<times> process_state" where
  "stubborn_end = cleanup_process stubborn \<lparr>ps_clock = 0, ps_log = []\<rparr>"

lemma cleanup_always_reports_witness:
  "\<exists>new. ps_log (snd stubborn_end) = CleanupDone # new \<and> KillSent \<in> set new \<and> TerminateSent \<in> set new \<and> WaitedFor False \<in> set new"
proof -
  have "KillSent \<in> set (ps_log (snd stubborn_end))" by code_simp
  moreover have "cleanup_process stubborn \<lparr>ps_clock = 0, ps_log = []\<rparr> = (fst stubborn_end, snd stubborn_end)"
    by (simp add: stubborn_end_def)
  ultimately show ?thesis using cleanup_always_reports by fastforce
qed

end
