(* ===== verification/CliText.thy ===== *)
theory CliText
  imports Rpc
begin

text \<open>
  \<open>cli.py\<close>, the parts that read text: the words of a command line as \<open>shlex.split\<close> splits them, the
  shell syntax a recovery command must not have, the scans of the raw arguments, and the types of
  the options.
\<close>

section \<open>Words of a command\<close>

text \<open>\<open>shlex.split\<close>: between words, in a word, in a quote, after a backslash in a word or in a quote.\<close>

datatype lex = Blank | InWord | InQuote char | AfterEscape "char option"

definition dq :: char where "dq = CHR 0x22"
definition backslash :: char where "backslash = CHR 0x5C"

definition lex_space :: "char \<Rightarrow> bool" where
  "lex_space c \<longleftrightarrow> c = CHR 0x20 \<or> c = CHR 0x09 \<or> c = CHR 0x0D \<or> c = CHR 0x0A"

definition is_quote :: "char \<Rightarrow> bool" where
  "is_quote c \<longleftrightarrow> c = sq \<or> c = dq"

definition word_if :: "string \<Rightarrow> bool \<Rightarrow> string list" where
  "word_if tok quoted = (if tok \<noteq> [] \<or> quoted then [tok] else [])"

fun shlex_scan :: "lex \<Rightarrow> string \<Rightarrow> bool \<Rightarrow> string \<Rightarrow> (exn, string list) res" where
  "shlex_scan Blank tok quoted [] = Inr []"
| "shlex_scan Blank tok quoted (c # cs) =
     (if lex_space c then shlex_scan Blank [] False cs
      else if c = backslash then shlex_scan (AfterEscape None) [] False cs
      else if is_quote c then shlex_scan (InQuote c) [] True cs
      else shlex_scan InWord [c] False cs)"
| "shlex_scan InWord tok quoted [] = Inr (word_if tok quoted)"
| "shlex_scan InWord tok quoted (c # cs) =
     (if lex_space c then ebind (shlex_scan Blank [] False cs) (\<lambda>ws. Inr (word_if tok quoted @ ws))
      else if is_quote c then shlex_scan (InQuote c) tok True cs
      else if c = backslash then shlex_scan (AfterEscape None) tok quoted cs
      else shlex_scan InWord (tok @ [c]) quoted cs)"
| "shlex_scan (InQuote q) tok quoted [] = Inl (ValueError ''No closing quotation'')"
| "shlex_scan (InQuote q) tok quoted (c # cs) =
     (if c = q then shlex_scan InWord tok True cs
      else if c = backslash \<and> q = dq then shlex_scan (AfterEscape (Some q)) tok True cs
      else shlex_scan (InQuote q) (tok @ [c]) True cs)"
| "shlex_scan (AfterEscape st) tok quoted [] = Inl (ValueError ''No escaped character'')"
| "shlex_scan (AfterEscape None) tok quoted (c # cs) = shlex_scan InWord (tok @ [c]) quoted cs"
| "shlex_scan (AfterEscape (Some q)) tok quoted (c # cs) =
     shlex_scan (InQuote q) (if c \<noteq> backslash \<and> c \<noteq> q then tok @ [backslash, c] else tok @ [c]) quoted cs"

definition shlex_split :: "string \<Rightarrow> (exn, string list) res" where
  "shlex_split s = shlex_scan Blank [] False s"

text \<open>\<open>_has_unquoted_shell_syntax\<close>: the quote it is in, and whether a backslash came before.\<close>

definition shell_special :: "char \<Rightarrow> bool" where
  "shell_special c \<longleftrightarrow> c \<in> set '';&|`$()#*?[]{}<>''"

fun shell_syntax :: "char option \<Rightarrow> bool \<Rightarrow> string \<Rightarrow> bool" where
  "shell_syntax quote escaped [] = (escaped \<or> quote \<noteq> None)"
| "shell_syntax quote escaped (c # cs) =
     (if c = CHR 0x0D \<or> c = CHR 0x0A then True
      else if escaped then shell_syntax quote False cs
      else if c = backslash \<and> quote \<noteq> Some sq then shell_syntax quote True cs
      else case quote of
        Some q \<Rightarrow> if c = q then shell_syntax None False cs
          else if q = dq \<and> c \<in> set ''$`'' then True
          else shell_syntax quote False cs
      | None \<Rightarrow> if is_quote c then shell_syntax (Some c) False cs
          else if shell_special c then True
          else shell_syntax None False cs)"

definition has_unquoted_shell_syntax :: "string \<Rightarrow> bool" where
  "has_unquoted_shell_syntax command = shell_syntax None False command"

section \<open>The raw arguments\<close>

text \<open>The arguments that are no options, up to a request for help.\<close>

fun positionals :: "string list \<Rightarrow> string list option" where
  "positionals [] = Some []"
| "positionals (t # ts) =
     (if t = ''--socket'' then (case ts of [] \<Rightarrow> Some [] | _ # rest \<Rightarrow> positionals rest)
      else if startswith t ''--socket='' \<or> t = ''--pretty'' then positionals ts
      else if t = ''-h'' \<or> t = ''--help'' then None
      else if startswith t ''-'' then positionals ts
      else map_option ((#) t) (positionals ts))"

definition selects_daemon_serve :: "string list \<Rightarrow> bool" where
  "selects_daemon_serve argv = (case positionals argv of Some (a # b # _) \<Rightarrow> a = ''daemon'' \<and> b = ''serve'' | _ \<Rightarrow> False)"

definition wants_pretty :: "string list \<Rightarrow> bool" where
  "wants_pretty argv \<longleftrightarrow> ''--pretty'' \<in> set argv"

definition removed_instance_reason :: "string list \<Rightarrow> string option" where
  "removed_instance_reason argv = (if ''--instance'' \<in> set argv \<or> list_ex (\<lambda>t. startswith t ''--instance='') argv
     then Some (''--instance was removed because codex-worker now has one global service; use global --name values and run ''
       @ [sq] @ ''codex-worker migration status'' @ [sq] @ '' for legacy data'')
     else None)"

section \<open>Types of the options\<close>

text \<open>
  What \<open>int\<close> makes of a text is given (\<open>None\<close>: a ValueError, which argparse reports itself); an
  ArgumentTypeError is its message.
\<close>

definition positive_int :: "int option \<Rightarrow> string + int" where
  "positive_int v = (case v of None \<Rightarrow> Inl ''invalid value'' | Some i \<Rightarrow> if i \<le> 0 then Inl ''must be > 0'' else Inr i)"

definition nonnegative_int :: "int option \<Rightarrow> string + int" where
  "nonnegative_int v = (case v of None \<Rightarrow> Inl ''invalid value'' | Some i \<Rightarrow> if i < 0 then Inl ''must be >= 0'' else Inr i)"

definition event_limit :: "int option \<Rightarrow> string + int" where
  "event_limit v = (case positive_int v of Inl m \<Rightarrow> Inl m | Inr i \<Rightarrow> if 1000 < i then Inl ''must be <= 1000'' else Inr i)"

definition nonnegative_float :: "pyfloat option \<Rightarrow> string + rat" where
  "nonnegative_float v = (case v of
     None \<Rightarrow> Inl ''invalid value''
   | Some (Fin r) \<Rightarrow> if r < 0 then Inl ''must be a finite value >= 0'' else Inr r
   | Some _ \<Rightarrow> Inl ''must be a finite value >= 0'')"

text \<open>\<open>KEY=VALUE\<close>: the value is JSON when it parses as strict JSON, else the text.\<close>

definition config_override :: "(string \<Rightarrow> (exn, json) res) \<Rightarrow> string \<Rightarrow> (exn, string + string \<times> json) res" where
  "config_override loads v = (let key = py_strip (takeWhile (\<lambda>c. c \<noteq> CHR ''='') v); rest = dropWhile (\<lambda>c. c \<noteq> CHR ''='') v in
     if rest = [] \<or> key = [] then Inr (Inl ''must be KEY=VALUE with a non-empty KEY'')
     else case loads (tl rest) of
       Inr w \<Rightarrow> Inr (Inr (key, w))
     | Inl x \<Rightarrow> if is_value_error x then Inr (Inr (key, JStr (tl rest))) else Inl x)"

definition absolute_path :: "string \<Rightarrow> string + string" where
  "absolute_path v = (if v = [] \<or> \<not> is_absolute v then Inl ''must be an absolute path'' else Inr v)"

definition absolute_directory :: "model_env \<Rightarrow> string \<Rightarrow> string + string" where
  "absolute_directory env v = (if \<not> is_absolute v \<or> \<not> is_directory env v then Inl ''must be an absolute existing directory'' else Inr v)"

definition public_listener :: "model_env \<Rightarrow> string \<Rightarrow> (exn, string + string) res" where
  "public_listener env v = (case validate_public_listener (host_lookup env) (JStr v) of
     Inr l \<Rightarrow> Inr (Inr l) | Inl x \<Rightarrow> if is_value_error x then Inr (Inl (exn_str x)) else Inl x)"

definition unsupported_turn_selector :: "string \<Rightarrow> string + string" where
  "unsupported_turn_selector v = Inl ''unsupported argument --turn; use --session <session-id> or --thread <thread-id>''"

section \<open>The version of the distribution\<close>

text \<open>
  \<open>version.py\<close>, the version in the lines of a \<open>pyproject.toml\<close>: blanks and a comment may follow a
  section header and the version.
\<close>

definition blank :: "char \<Rightarrow> bool" where
  "blank c \<longleftrightarrow> c = CHR 0x20 \<or> c = CHR 0x09"

definition only_comment :: "string \<Rightarrow> bool" where
  "only_comment s \<longleftrightarrow> (let r = dropWhile blank s in r = [] \<or> hd r = CHR ''#'')"

definition is_project_header :: "string \<Rightarrow> bool" where
  "is_project_header l \<longleftrightarrow> startswith l ''[project]'' \<and> only_comment (drop 9 l)"

definition is_section_header :: "string \<Rightarrow> bool" where
  "is_section_header l \<longleftrightarrow> (case l of [] \<Rightarrow> False | c # r \<Rightarrow>
     (let name = takeWhile (\<lambda>x. x \<noteq> CHR '']'') r; after = dropWhile (\<lambda>x. x \<noteq> CHR '']'') r in
      c = CHR ''['' \<and> name \<noteq> [] \<and> after \<noteq> [] \<and> only_comment (tl after)))"

definition version_in :: "string \<Rightarrow> string option" where
  "version_in l = (if \<not> startswith l ''version'' then None
     else case dropWhile blank (drop 7 l) of
       [] \<Rightarrow> None
     | c # r \<Rightarrow> if c \<noteq> CHR ''='' then None
         else (case dropWhile blank r of
           [] \<Rightarrow> None
         | q # t \<Rightarrow> (let v = takeWhile (\<lambda>x. x \<noteq> CHR 0x22) t; after = dropWhile (\<lambda>x. x \<noteq> CHR 0x22) t in
             if q = CHR 0x22 \<and> v \<noteq> [] \<and> after \<noteq> [] \<and> only_comment (tl after) then Some v else None)))"

fun project_versions :: "bool \<Rightarrow> string list \<Rightarrow> string list" where
  "project_versions in_project [] = []"
| "project_versions in_project (line # rest) = (let l = py_strip line in
     if is_project_header l then project_versions True rest
     else if is_section_header l then project_versions False rest
     else (case (if in_project then version_in l else None) of
       None \<Rightarrow> project_versions in_project rest
     | Some v \<Rightarrow> v # project_versions in_project rest))"

definition source_version :: "string \<Rightarrow> string list \<Rightarrow> (exn, string) res" where
  "source_version path lines = (case project_versions False lines of
     [v] \<Rightarrow> Inr v | _ \<Rightarrow> Inl (RuntimeError (''expected exactly one project.version in '' @ path)))"

text \<open>The lines of the file beside the scripts, when it is there; else the metadata of the installation.\<close>

definition distribution_version :: "string \<Rightarrow> string list option \<Rightarrow> (exn, string) res \<Rightarrow> (exn, string) res" where
  "distribution_version path lines installed = (case lines of Some ls \<Rightarrow> source_version path ls | None \<Rightarrow> installed)"

section \<open>Quoted words\<close>

text \<open>A quoted word, in the middle of a command, is read back as it was.\<close>

lemma safe_plain: "sh_safe c \<Longrightarrow> \<not> lex_space c \<and> \<not> is_quote c \<and> c \<noteq> backslash \<and> \<not> shell_special c \<and> c \<noteq> CHR 0x0D \<and> c \<noteq> CHR 0x0A"
  by (auto simp: sh_safe_def is_alnum_def codept_def lex_space_def is_quote_def sq_def dq_def backslash_def shell_special_def)

lemma scan_safe: "list_all sh_safe s \<Longrightarrow> shlex_scan InWord tok quoted (s @ rest) = shlex_scan InWord (tok @ s) quoted rest"
  by (induction s arbitrary: tok) (auto dest: safe_plain)

lemma scan_escaped: "shlex_scan (InQuote sq) tok True (sh_escape s @ sq # rest) = shlex_scan InWord (tok @ s) True rest"
proof (induction s arbitrary: tok)
  case (Cons c s)
  have "CHR 0x22 = dq" "sq \<noteq> dq" "\<not> lex_space sq" "\<not> lex_space dq" "is_quote sq" "is_quote dq" "sq \<noteq> backslash" "dq \<noteq> backslash"
    by (auto simp: dq_def sq_def lex_space_def is_quote_def backslash_def)
  then show ?case using Cons [of "tok @ [c]"] by (auto simp: dq_def)
qed simp

lemma scan_quoted:
  "shlex_scan Blank [] False (shlex_quote s @ rest) = shlex_scan InWord s (s = [] \<or> \<not> list_all sh_safe s) rest"
proof -
  have q: "\<not> lex_space sq" "is_quote sq" "sq \<noteq> backslash" by (auto simp: sq_def lex_space_def is_quote_def backslash_def)
  consider "s = []" | c cs where "s = c # cs" "list_all sh_safe s" | "s \<noteq> []" "\<not> list_all sh_safe s" by (cases s) auto
  then show ?thesis
  proof cases
    case 2
    then show ?thesis using scan_safe [of cs "[c]" False rest] safe_plain [of c] by (simp add: shlex_quote_def)
  next
    case 3
    then show ?thesis using q scan_escaped [of "[]" s rest] by (simp add: shlex_quote_def)
  qed (simp add: shlex_quote_def q)
qed

lemma scan_words: "shlex_scan Blank [] False (join_with '' '' (map shlex_quote ws)) = Inr ws"
proof (induction ws)
  case (Cons w ws)
  have w: "word_if w (w = [] \<or> \<not> list_all sh_safe w) = [w]" by (simp add: word_if_def)
  show ?case
  proof (cases ws)
    case Nil
    then show ?thesis using scan_quoted [of w "[]"] w by simp
  next
    case (Cons v vs)
    then show ?thesis using scan_quoted [of w "CHR 0x20 # join_with '' '' (map shlex_quote ws)"] w Cons.IH
      by (simp add: lex_space_def res_simps)
  qed
qed simp

lemma syntax_safe: "list_all sh_safe s \<Longrightarrow> shell_syntax None False (s @ rest) = shell_syntax None False rest"
  by (induction s) (auto dest: safe_plain)

definition has_line_end :: "string \<Rightarrow> bool" where
  "has_line_end s \<longleftrightarrow> CHR 0x0D \<in> set s \<or> CHR 0x0A \<in> set s"

lemma syntax_escaped: "shell_syntax (Some sq) False (sh_escape s @ sq # rest) \<longleftrightarrow> has_line_end s \<or> shell_syntax None False rest"
proof (induction s)
  case Nil
  show ?case by (simp add: has_line_end_def sq_def)
next
  case (Cons c s)
  have "sq \<noteq> CHR 0x0D" "sq \<noteq> CHR 0x0A" "dq \<noteq> CHR 0x0D" "dq \<noteq> CHR 0x0A" "sq \<noteq> backslash" "dq \<noteq> backslash" "sq \<noteq> dq" "is_quote sq" "is_quote dq"
    "sq \<notin> set ''$`''" "CHR 0x22 = dq"
    by (auto simp: dq_def sq_def is_quote_def backslash_def)
  then show ?case using Cons by (auto simp: has_line_end_def)
qed

lemma syntax_quoted: "shell_syntax None False (shlex_quote s @ rest) \<longleftrightarrow> has_line_end s \<or> shell_syntax None False rest"
proof -
  have q: "sq \<noteq> CHR 0x0D" "sq \<noteq> CHR 0x0A" "is_quote sq" "sq \<noteq> backslash" by (auto simp: sq_def is_quote_def backslash_def)
  have "\<not> has_line_end s" if "list_all sh_safe s" using that safe_plain by (auto simp: has_line_end_def list_all_iff)
  then show ?thesis using q syntax_escaped [of s rest] syntax_safe [of s rest] by (auto simp: shlex_quote_def has_line_end_def)
qed

lemma syntax_words: "shell_syntax None False (join_with '' '' (map shlex_quote ws)) \<longleftrightarrow> list_ex has_line_end ws"
proof (induction ws)
  case (Cons w ws)
  have space: "shell_syntax None False (CHR 0x20 # rest) = shell_syntax None False rest" for rest
    by (simp add: is_quote_def shell_special_def sq_def dq_def backslash_def)
  show ?case
  proof (cases ws)
    case Nil
    then show ?thesis using syntax_quoted [of w "[]"] by simp
  next
    case (Cons v vs)
    then show ?thesis using syntax_quoted [of w "CHR 0x20 # join_with '' '' (map shlex_quote ws)"] Cons.IH space by simp
  qed
qed simp

text \<open>
  A command made of quoted words is read back as those words, and it has shell syntax for the
  client's check only when a word has a line end: what the client and the service build with
  \<open>shlex.quote\<close> is one direct command, whatever the names and paths in it are.
\<close>

text \<open>
  C34. A command made of quoted words is split back into those words, and the check for shell syntax refuses it exactly when a word has a line end.
\<close>

theorem quoted_commands_are_direct:
  "shlex_split (join_with '' '' (map shlex_quote ws)) = Inr ws
     \<and> (has_unquoted_shell_syntax (join_with '' '' (map shlex_quote ws)) \<longleftrightarrow> list_ex has_line_end ws)"
  by (simp add: shlex_split_def has_unquoted_shell_syntax_def scan_words syntax_words)

end
