(* ===== verification/Cli.thy ===== *)
theory Cli
  imports CliText ServiceClient
begin

text \<open>
  \<open>cli.py\<close>: what a command does once argparse has read it: the parameters of its request, the local
  checks, the version of the loaded plugin, the managed commands over ServiceClient, the request to
  the service, the faults as output and the exit code.

  Parameters (\<open>cli_host\<close>): the parser that \<open>build_parser\<close> declares, with what it makes of the
  arguments, the files, the environment, the capture of the caller and the request to a socket.
\<close>

section \<open>Parsed arguments and the host\<close>

record cli_args =
  ar_family :: string
  ar_action :: "string option"
  ar_method :: string
  ar_common :: bool
  ar_pretty :: bool
  ar_socket :: "string option"
  ar_force :: bool
  ar_listener :: "string option"
  ar_no_callback :: bool
  ar_search :: bool
  ar_read_only :: bool
  ar_config :: "(string \<times> json) list"
  ar_options :: json_object

text \<open>\<open>parse_args\<close>: the arguments, an exit of argparse (help and version), or a usage error.\<close>

datatype parsed = Parsed cli_args | Exits int | UsageError string

record cli_host =
  hc_client :: client_host
  hc_deps :: manager_deps
  hc_version :: string
  hc_limit :: "rat option"
  hc_parse :: "string list \<Rightarrow> parsed"
  hc_getenv :: "string \<Rightarrow> string option"
  hc_read :: "string \<Rightarrow> (exn, string) res"
  hc_loads :: "string \<Rightarrow> (exn, json) res"
  hc_resolve :: "string \<Rightarrow> (exn, string) res"
  hc_is_file :: "string \<Rightarrow> bool"
  hc_executable :: "string \<Rightarrow> bool"
  hc_capture :: "nat \<Rightarrow> (exn, json) res"
  hc_rpc :: "nat \<Rightarrow> string \<Rightarrow> string \<Rightarrow> json_object \<Rightarrow> rat option \<Rightarrow> (exn, json_object) res"
  hc_default_socket :: string
  hc_rep :: "rat \<Rightarrow> string"
  hc_serve :: "cli_args \<Rightarrow> (exn, int) res"

definition opt :: "cli_args \<Rightarrow> string \<Rightarrow> json" where
  "opt a k = jget (ar_options a) k"

section \<open>Input texts\<close>

definition need_text :: "string \<Rightarrow> json \<Rightarrow> (exn, string) res" where
  "need_text what v = (case as_nonempty v of None \<Rightarrow> Inl (ValueError (what @ '' must be a non-empty string'')) | Some s \<Rightarrow> Inr s)"

definition read_input :: "cli_host \<Rightarrow> string \<Rightarrow> string \<Rightarrow> (exn, json) res" where
  "read_input h what path = (case hc_read h path of
     Inr t \<Rightarrow> Inr (JStr t)
   | Inl x \<Rightarrow> Inl (if is_os_error x then ValueError (''could not read '' @ what @ '' file: '' @ exn_str x) else x))"

definition prompt_of :: "cli_host \<Rightarrow> cli_args \<Rightarrow> (exn, string) res" where
  "prompt_of h a = (case as_str (opt a ''prompt_file'') of
     None \<Rightarrow> need_text ''prompt'' (opt a ''prompt'')
   | Some path \<Rightarrow> if path = [] then Inl (ValueError ''prompt file path must be non-empty'')
       else ebind (read_input h ''prompt'' path) (need_text ''prompt''))"

definition message_of :: "cli_host \<Rightarrow> cli_args \<Rightarrow> (exn, string) res" where
  "message_of h a = (case as_str (opt a ''message_file'') of
     None \<Rightarrow> need_text ''message'' (opt a ''message'')
   | Some path \<Rightarrow> ebind (read_input h ''message'' path) (need_text ''message''))"

definition output_schema :: "cli_host \<Rightarrow> json \<Rightarrow> (exn, json) res" where
  "output_schema h v = (case as_str v of
     None \<Rightarrow> Inr JNull
   | Some path \<Rightarrow> (case ebind (hc_read h path) (hc_loads h) of
       Inl x \<Rightarrow> Inl (if is_os_error x \<or> is_value_error x then ValueError (''could not read output schema: '' @ exn_str x) else x)
     | Inr w \<Rightarrow> if as_obj w = None then Inl (ValueError ''output schema must be a JSON object'') else Inr w))"

fun add_overrides :: "(string \<times> json) list \<Rightarrow> json_object \<Rightarrow> (exn, json_object) res" where
  "add_overrides [] config = Inr config"
| "add_overrides ((k, v) # rest) config =
     (if dhas config k then Inl (ValueError (''--config '' @ k @ '' is given more than once''))
      else add_overrides rest (dset config k v))"

definition start_config :: "cli_args \<Rightarrow> (exn, json) res" where
  "start_config a = ebind (add_overrides (ar_config a) []) (\<lambda>config.
     if ar_search a \<and> dhas config ''web_search'' then Inl (ValueError ''--search already sets web_search; drop --config web_search'')
     else (let c = (if ar_search a then dset config ''web_search'' (JStr ''live'') else config) in
       Inr (if c = [] then JNull else JObj c)))"

section \<open>The parameters of a request\<close>

definition selector_params :: "cli_args \<Rightarrow> json_object \<Rightarrow> json_object" where
  "selector_params a extra = [(''session_id'', opt a ''session_id''), (''thread_id'', opt a ''thread_id'')] @ extra"

definition start_params :: "cli_host \<Rightarrow> cli_args \<Rightarrow> (exn, json_object) res" where
  "start_params h a =
     ebind (prompt_of h a) (\<lambda>prompt.
     ebind (hc_resolve h (field_str (ar_options a) ''cwd'')) (\<lambda>cwd.
     ebind (output_schema h (opt a ''output_schema'')) (\<lambda>schema.
     ebind (start_config a) (\<lambda>config.
     Inr [(''name'', opt a ''name''), (''prompt'', JStr prompt), (''cwd'', JStr cwd),
       (''tier'', if truthy (opt a ''model'') then JNull else if truthy (opt a ''tier'') then opt a ''tier'' else JStr ''medium''),
       (''model'', opt a ''model''), (''effort'', opt a ''effort''),
       (''access'', JStr (if ar_read_only a then ''read_only'' else ''full'')), (''goal'', opt a ''goal''),
       (''token_budget'', opt a ''token_budget''), (''output_schema'', schema), (''timeout'', opt a ''timeout''),
       (''no_callback'', JBool (ar_no_callback a)), (''callback_capture'', JNull), (''config'', config)]))))"

definition resume_params :: "cli_args \<Rightarrow> (exn, json_object) res" where
  "resume_params a = (if opt a ''session_id'' \<noteq> JNull \<and> opt a ''name'' \<noteq> JNull
     then Inl (ValueError ''--name is only valid with --thread raw recovery'')
     else Inr (selector_params a [(''name'', opt a ''name'')]))"

definition resolve_params :: "cli_args \<Rightarrow> (exn, json_object) res" where
  "resolve_params a = (let v = [(''name'', opt a ''name''), (''thread_id'', opt a ''thread_id''), (''as_name'', opt a ''as_name'')] in
     ebind (from_dict ResolveLegacyConflictRequest (JObj v)) (\<lambda>_. Inr v))"

definition no_param_methods :: "string list" where
  "no_param_methods = [''account/limits'', ''daemon/status'', ''service/status'', ''service/start'', ''model/list'', ''session/list'', ''migration/status'']"

definition params_for :: "cli_host \<Rightarrow> cli_args \<Rightarrow> (exn, json_object) res" where
  "params_for h a = (let m = ar_method a in
     if m = ''worker/start'' then start_params h a
     else if m = ''worker/run'' then ebind (prompt_of h a) (\<lambda>p. ebind (output_schema h (opt a ''output_schema'')) (\<lambda>schema.
       Inr [(''name'', opt a ''name''), (''prompt'', JStr p), (''output_schema'', schema), (''timeout'', opt a ''timeout'')]))
     else if m = ''worker/message'' then ebind (message_of h a) (\<lambda>t.
       Inr [(''name'', opt a ''name''), (''message'', JStr t), (''priority'', opt a ''priority''), (''cc_agent_name'', opt a ''cc_agent_name'')])
     else if m \<in> set [''worker/status'', ''worker/interrupt'', ''worker/goal/show''] then Inr [(''name'', opt a ''name'')]
     else if m \<in> set [''worker/messages'', ''worker/history''] then Inr [(''name'', opt a ''name''), (''tail'', opt a ''tail'')]
     else if m = ''worker/steer'' then ebind (prompt_of h a) (\<lambda>p. Inr [(''name'', opt a ''name''), (''prompt'', JStr p)])
     else if m = ''worker/goal/set'' then Inr [(''name'', opt a ''name''), (''objective'', opt a ''goal''), (''status'', opt a ''status''),
       (''token_budget'', opt a ''token_budget'')]
     else if m \<in> set no_param_methods then Inr []
     else if m = ''service/stop'' then Inr [(''force'', JBool (ar_force a))]
     else if m = ''service/restart'' then Inr [(''listener'', jopt (ar_listener a)), (''force'', JBool (ar_force a))]
     else if m = ''migration/resolve'' then resolve_params a
     else if m = ''session/start'' then ebind (hc_resolve h (field_str (ar_options a) ''cwd'')) (\<lambda>cwd.
       Inr [(''cwd'', JStr cwd), (''name'', opt a ''name''), (''model'', opt a ''model'')])
     else if m = ''session/resume'' then resume_params a
     else if m \<in> set [''session/show'', ''turn/status'', ''turn/interrupt''] then Inr (selector_params a [])
     else if m = ''turn/start'' then ebind (prompt_of h a) (\<lambda>p.
       Inr (selector_params a [(''prompt'', JStr p), (''model'', opt a ''model''), (''effort'', opt a ''effort'')]))
     else if m = ''turn/wait'' then Inr (selector_params a [(''timeout'', opt a ''timeout'')])
     else if m = ''turn/events'' then Inr (selector_params a [(''after'', opt a ''after''), (''limit'', opt a ''limit'')])
     else if m = ''turn/steer'' then ebind (prompt_of h a) (\<lambda>p. Inr (selector_params a [(''prompt'', JStr p)]))
     else Inl (ValueError (''undocumented method: '' @ m)))"

text \<open>\<open>_COMMON_REQUESTS\<close>.\<close>

definition common_requests :: "model_env \<Rightarrow> (string \<times> ann) list" where
  "common_requests env = [(''worker/start'', StartWorkerRequest env), (''worker/run'', RunWorkerRequest),
     (''worker/message'', MessageWorkerRequest), (''worker/status'', WorkerStatusRequest), (''worker/messages'', WorkerMessagesRequest),
     (''worker/history'', WorkerHistoryRequest), (''worker/steer'', SteerWorkerRequest), (''worker/interrupt'', InterruptWorkerRequest),
     (''worker/goal/set'', GoalSetRequest), (''worker/goal/show'', GoalShowRequest), (''account/limits'', LimitsRequest)]"

definition validate_common :: "model_env \<Rightarrow> string \<Rightarrow> json_object \<Rightarrow> (exn, unit) res" where
  "validate_common env m ps = (case map_of (common_requests env) m of
     None \<Rightarrow> Inl (KeyError m) | Some an \<Rightarrow> ebind (from_dict an (JObj ps)) (\<lambda>_. Inr ()))"

text \<open>\<open>float(v)\<close> of a number.\<close>

definition seconds_of :: "json \<Rightarrow> (exn, rat) res" where
  "seconds_of v = (case v of
     JInt i \<Rightarrow> (case float_of_int i of None \<Rightarrow> Inl (OverflowError ''int too large to convert to float'') | Some r \<Rightarrow> Inr r)
   | JFloat (Fin r) \<Rightarrow> Inr r
   | _ \<Rightarrow> Inl (TypeError ''float() argument''))"

definition client_timeout :: "string \<Rightarrow> json_object \<Rightarrow> (exn, rat option) res" where
  "client_timeout m ps = (let v = jget ps ''timeout''; padded = ebind (seconds_of v) (\<lambda>t. Inr (Some (max (t + 5) 5))) in
     if m = ''worker/start'' \<or> m = ''worker/run'' then (if v = JNull then Inr None else padded)
     else if m = ''turn/wait'' \<and> (case v of JInt _ \<Rightarrow> True | JFloat _ \<Rightarrow> True | _ \<Rightarrow> False) then padded
     else Inr (Some 30))"

section \<open>The loaded plugin\<close>

text \<open>The version the loaded plugin's manifest gives, when it can be read.\<close>

definition manifest_version :: "cli_host \<Rightarrow> string \<Rightarrow> (exn, string option) res" where
  "manifest_version h plugin = (case ebind (hc_read h (under plugin [''.claude-plugin'', ''plugin.json''])) (hc_loads h) of
     Inr v \<Rightarrow> Inr (case as_obj v of None \<Rightarrow> None | Some d \<Rightarrow> as_nonempty (jget d ''version''))
   | Inl x \<Rightarrow> if is_os_error x \<or> is_value_error x then Inr None else Inl x)"

definition plugin_mismatch :: "cli_host \<Rightarrow> string \<Rightarrow> string option \<Rightarrow> exn" where
  "plugin_mismatch h plugin loaded =
     (let installer = under plugin [''skills'', ''subagent-driven-development'', ''scripts'', ''install-codex-worker''] in
      facade_exn TOOL_VERSION_MISMATCH ''Installed codex-worker does not match the loaded Superdev plugin'' False ''codex-worker''
        (JObj [(''reason'', JStr (if loaded = None then ''loaded_manifest_invalid'' else ''loaded_plugin_version_differs'')),
           (''loaded_root'', JStr plugin), (''loaded_version'', jopt loaded), (''installed_version'', JStr (hc_version h)),
           (''coordination'', JStr (''One global codex-worker version is shared by all rooms. Coordinate cached ''
              @ ''plugin versions before rerunning this room'' @ [sq] @ ''s trusted installer.''))])
        (JObj no_known_ids)
        (JList (next_action ''codex-worker --version'' ''Inspect the installed command version without runtime contact''
          # (if hc_is_file h installer then [next_action (shlex_quote installer)
               ''After coordinating other rooms, repair from this loaded plugin root''] else []))))"

definition require_plugin :: "cli_host \<Rightarrow> (exn, unit) res" where
  "require_plugin h = (case hc_getenv h ''CLAUDE_PLUGIN_ROOT'' of
     None \<Rightarrow> Inr ()
   | Some v \<Rightarrow> if v = [] then Inr ()
       else (let plugin = posix_path v in ebind (manifest_version h plugin) (\<lambda>loaded.
         if loaded = Some (hc_version h) then Inr () else Inl (plugin_mismatch h plugin loaded))))"

section \<open>Endpoints\<close>

definition cli_deps :: "cli_host \<Rightarrow> manager_deps" where
  "cli_deps h = (hc_deps h)\<lparr>sm_expected_version := Some (hc_version h)\<rparr>"

definition rpc_path :: "cli_host \<Rightarrow> string" where
  "rpc_path h = sp_rpc_socket (sm_paths (cli_deps h))"

definition service_stopped :: exn where
  "service_stopped = manager_fault DAEMON_STOPPED ''Global worker service is stopped'' False []
     [next_action ''codex-worker daemon start'' ''Start the global service without starting a turn'']"

definition common_endpoint :: "cli_host \<Rightarrow> nat \<Rightarrow> string option \<Rightarrow> string option client_act" where
  "common_endpoint h n listener = andthen (ensure_managed (hc_client h) n (cli_deps h) listener) (\<lambda>st. case st of
     None \<Rightarrow> ret None
   | Some r \<Rightarrow> andthen (guard (jget r ''status'' = JStr ''ready'') service_stopped) (\<lambda>_. ret (Some (rpc_path h))))"

definition managed_version_differs :: "cli_host \<Rightarrow> json \<Rightarrow> exn" where
  "managed_version_differs h actual = manager_fault TOOL_VERSION_MISMATCH
     ''Global codex-worker service does not match the installed command'' False
     [(''reason'', JStr ''managed_service_version_differs''), (''expected_version'', JStr (hc_version h)), (''actual_version'', actual),
      (''socket_path'', JStr (rpc_path h))]
     [next_action ''codex-worker daemon status'' ''Inspect the incompatible global service without replacing it'']"

definition managed_raw_endpoint :: "cli_host \<Rightarrow> string client_act" where
  "managed_raw_endpoint h = andthen (manager_readiness (hc_client h) (cli_deps h)) (\<lambda>st. case st of
     None \<Rightarrow> raise (daemon_unavailable_fault (rpc_path h))
   | Some r \<Rightarrow>
       andthen (guard (jget r ''service_version'' = JStr (hc_version h)) (managed_version_differs h (jget r ''service_version''))) (\<lambda>_.
       andthen (guard (jget r ''status'' = JStr ''ready'') (daemon_unavailable_fault (rpc_path h))) (\<lambda>_. ret (rpc_path h))))"

section \<open>Output\<close>

definition str_values :: "json list \<Rightarrow> string list" where
  "str_values vs = List.map_filter as_str vs"

definition action_commands :: "json list \<Rightarrow> string list" where
  "action_commands vs = List.map_filter (\<lambda>v. case v of JStr s \<Rightarrow> Some s | JObj d \<Rightarrow> as_str (jget d ''command'') | _ \<Rightarrow> None) vs"

definition own_commands :: "json_object \<Rightarrow> string list" where
  "own_commands d = str_values [jget d ''attach_command'', jget d ''resume_command'']
     @ (case jget d ''recovery'' of JStr s \<Rightarrow> [s] | JObj r \<Rightarrow> str_values (map snd r) | _ \<Rightarrow> [])
     @ concat (map (\<lambda>k. case jget d k of JList vs \<Rightarrow> action_commands vs | _ \<Rightarrow> []) [''next_actions'', ''resolution_actions''])"

text \<open>\<open>walk\<close> of \<open>_validate_wire_recovery_actions\<close>.\<close>

fun wire_commands :: "json \<Rightarrow> string list" where
  "wire_commands (JObj d) = own_commands d @ concat (map (\<lambda>kv. wire_commands (snd kv)) d)"
| "wire_commands (JList vs) = concat (map wire_commands vs)"
| "wire_commands _ = []"

fun has_pair :: "string \<Rightarrow> string \<Rightarrow> string list \<Rightarrow> bool" where
  "has_pair a b (x # y # rest) = (x = a \<and> y = b \<or> has_pair a b (y # rest))"
| "has_pair a b _ = False"

definition own_command :: "cli_host \<Rightarrow> string \<Rightarrow> string list \<Rightarrow> (exn, unit) res" where
  "own_command h command words =
     (let hidden = Inl (ValueError ''hidden daemon serve is not a public recovery action'');
          unparsed = Inl (ValueError (''recovery action does not parse: '' @ command)) in
      if has_pair ''daemon'' ''serve'' words then hidden
      else case hc_parse h words of
        Parsed a \<Rightarrow> if ar_family a = ''daemon'' \<and> ar_action a = Some ''serve'' then hidden else Inr ()
      | Exits code \<Rightarrow> if code \<noteq> 0 then unparsed else Inr ()
      | UsageError _ \<Rightarrow> unparsed)"

definition codex_command :: "cli_host \<Rightarrow> string list \<Rightarrow> (exn, unit) res" where
  "codex_command h words =
     (if (length words \<noteq> 2 \<and> length words \<noteq> 4) \<or> hd words \<noteq> ''--remote'' \<or> length words = 4 \<and> words ! 2 \<noteq> ''resume''
      then Inl (ValueError ''Codex recovery action does not match the public attach grammar'')
      else ebind (validate_public_listener (host_lookup (ci_env (hc_client h))) (JStr (words ! 1))) (\<lambda>_. Inr ()))"

definition check_recovery :: "cli_host \<Rightarrow> string \<Rightarrow> (exn, unit) res" where
  "check_recovery h command =
     (if has_line_end command then Inl (ValueError ''recovery action must be one direct argv'')
      else ebind (shlex_split command) (\<lambda>tokens. case tokens of
        [] \<Rightarrow> Inl (ValueError ''recovery action is not literal'')
      | exe # words \<Rightarrow>
          if has_unquoted_shell_syntax command then Inl (ValueError ''recovery action must be one direct argv'')
          else if exe = ''codex-worker'' then own_command h command words
          else if exe = ''codex'' then codex_command h words
          else if is_absolute exe \<and> hc_is_file h exe \<and> hc_executable h exe then Inr ()
          else Inl (ValueError (''recovery action executable does not exist: '' @ exe))))"

text \<open>\<open>_print_json\<close>, up to the text: the commands are checked and the value is strict JSON.\<close>

definition print_json :: "cli_host \<Rightarrow> json_object \<Rightarrow> (exn, unit) res" where
  "print_json h payload = ebind (emap (check_recovery h) (wire_commands (JObj payload))) (\<lambda>_.
     ebind (json_dumps (hc_rep h) (JObj payload)) (\<lambda>_. Inr ()))"

definition response_error_exit :: "json_object \<Rightarrow> int" where
  "response_error_exit response =
     (let data = (case as_obj (jget response ''error'') of None \<Rightarrow> JNull | Some e \<Rightarrow> jget e ''data'');
          kind = (case as_obj data of None \<Rightarrow> JNull | Some d \<Rightarrow> jget d ''kind'')
      in if kind = JStr ''internal_error'' \<or> kind = JStr ''broker_error'' then 1 else 3)"

section \<open>The command\<close>

text \<open>The end of a command: what was printed with the exit code, or the exit code alone.\<close>

datatype cli_end = Printed json_object int | Silent int

text \<open>Inside the \<open>try\<close>: the command is over, or the response is printed after it.\<close>

datatype cli_step = Finished cli_end | Answered json_object

definition cli_id :: json where "cli_id = JStr ''cli''"

definition say :: "cli_host \<Rightarrow> json_object \<Rightarrow> int \<Rightarrow> (exn, cli_end) res" where
  "say h payload code = ebind (print_json h payload) (\<lambda>_. Inr (Printed payload code))"

definition say_fault :: "cli_host \<Rightarrow> exn \<Rightarrow> (json_object \<Rightarrow> int) \<Rightarrow> (exn, cli_end) res" where
  "say_fault h x code = ebind (rpc_response cli_id None (fault_dict x)) (\<lambda>p. say h p (code p))"

definition cli_result :: "json_object \<Rightarrow> json_object" where
  "cli_result r = [(''jsonrpc'', JStr ''2.0''), (''id'', cli_id), (''result'', JObj r)]"

definition is_managed :: "cli_args \<Rightarrow> bool" where
  "is_managed a \<longleftrightarrow> ar_family a = ''migration''
     \<or> ar_family a = ''daemon'' \<and> ar_action a \<in> Some ` set [''start'', ''status'', ''stop'', ''restart'']"

definition daemon_action :: "cli_args \<Rightarrow> string \<Rightarrow> bool" where
  "daemon_action a name \<longleftrightarrow> ar_family a = ''daemon'' \<and> ar_action a = Some name"

definition has_socket :: "cli_args \<Rightarrow> bool" where
  "has_socket a \<longleftrightarrow> (case ar_socket a of None \<Rightarrow> False | Some p \<Rightarrow> p \<noteq> [])"

definition check_request :: "cli_host \<Rightarrow> cli_args \<Rightarrow> json_object \<Rightarrow> (exn, unit) res" where
  "check_request h a ps =
     (if ar_common a then ebind (validate_common (ci_env (hc_client h)) (ar_method a) ps) (\<lambda>_.
        if has_socket a then Inl (ValueError ''--socket is not valid for common worker commands'') else Inr ())
      else if \<not> is_managed a then validate_raw_params (hc_limit h) (ar_method a) ps
      else if has_socket a \<and> \<not> daemon_action a ''status''
      then Inl (ValueError ''--socket is not valid with managed lifecycle or migration commands'')
      else Inr ())"

definition finish :: "cli_host \<Rightarrow> json_object option \<Rightarrow> cli_step option client_act" where
  "finish h r = (case r of None \<Rightarrow> ret None
     | Some v \<Rightarrow> andthen (lift (say h (cli_result v) 0)) (\<lambda>e. ret (Some (Finished e))))"

text \<open>The request to the service, over the endpoint of the command.\<close>

definition endpoint_of :: "cli_host \<Rightarrow> nat \<Rightarrow> cli_args \<Rightarrow> string option client_act" where
  "endpoint_of h n a =
     (if ar_common a then common_endpoint h n (if ar_method a = ''worker/start'' then ar_listener a else None)
      else if ar_family a = ''migration'' then common_endpoint h n None
      else if has_socket a then ret (ar_socket a)
      else andthen (managed_raw_endpoint h) (\<lambda>p. ret (Some p)))"

definition capture_params :: "cli_host \<Rightarrow> cli_args \<Rightarrow> json_object \<Rightarrow> json_object client_act" where
  "capture_params h a ps = (if ar_method a = ''worker/start'' \<and> \<not> ar_no_callback a
     then andthen (try_host (hc_capture h)) (\<lambda>c. ret (dset ps ''callback_capture'' c)) else ret ps)"

definition sent_method :: "cli_args \<Rightarrow> string" where
  "sent_method a = (if \<not> ar_common a \<and> ar_family a \<noteq> ''migration'' \<and> daemon_action a ''status'' \<and> has_socket a
     then ''daemon/status'' else ar_method a)"

definition ask_endpoint :: "cli_host \<Rightarrow> nat \<Rightarrow> cli_args \<Rightarrow> json_object \<Rightarrow> cli_step option client_act" where
  "ask_endpoint h n a ps =
     andthen (capture_params h a ps) (\<lambda>params.
     andthen (endpoint_of h n a) (\<lambda>path. case path of
       None \<Rightarrow> ret None
     | Some p \<Rightarrow>
         andthen (lift (client_timeout (sent_method a) params)) (\<lambda>t.
         andthen (try_host (\<lambda>k. hc_rpc h k p (sent_method a) params t)) (\<lambda>response. ret (Some (Answered response))))))"

definition operate :: "cli_host \<Rightarrow> nat \<Rightarrow> cli_args \<Rightarrow> json_object \<Rightarrow> cli_step option client_act" where
  "operate h n a ps = (let ch = hc_client h; d = cli_deps h in
     if daemon_action a ''start'' then andthen (ensure_managed ch n d (ar_listener a)) (\<lambda>r. case r of
         None \<Rightarrow> ret None | Some _ \<Rightarrow> andthen (manager_status ch d) (\<lambda>st. finish h (Some st)))
     else if daemon_action a ''status'' \<and> \<not> has_socket a then andthen (manager_status ch d) (\<lambda>st. finish h (Some st))
     else if daemon_action a ''stop'' then andthen (stop_managed ch n d (ar_force a)) (finish h)
     else if daemon_action a ''restart'' then andthen (restart_managed ch n d (ar_listener a) (ar_force a)) (finish h)
     else ask_endpoint h n a ps)"

text \<open>The handlers of \<open>main\<close>; the socket of an OSError is the given one or the default.\<close>

definition cli_handler :: "cli_host \<Rightarrow> cli_args \<Rightarrow> exn \<Rightarrow> cli_step option client_act" where
  "cli_handler h a x = andthen (lift
     (case x of
        FacadeFault f \<Rightarrow> say_fault h (FacadeRpcFault f) (\<lambda>_. 3)
      | _ \<Rightarrow> if is_rpc_fault x then say_fault h x response_error_exit
        else if is_os_error x
        then say_fault h (daemon_unavailable_fault (if has_socket a then the (ar_socket a) else hc_default_socket h)) (\<lambda>_. 3)
        else if is_value_error x then say_fault h (invalid_params_fault (exn_str x)) (\<lambda>_. 2)
        else Inl x)) (\<lambda>e. ret (Some (Finished e)))"

definition run_command :: "cli_host \<Rightarrow> nat \<Rightarrow> cli_args \<Rightarrow> cli_end option client_act" where
  "run_command h n a = andthen
     (attempt
       (andthen (lift (params_for h a)) (\<lambda>ps.
        andthen (lift (check_request h a ps)) (\<lambda>_.
        andthen (lift (require_plugin h)) (\<lambda>_. operate h n a ps))))
       (cli_handler h a))
     (\<lambda>step. case step of
        None \<Rightarrow> ret None
      | Some (Finished e) \<Rightarrow> ret (Some e)
      | Some (Answered response) \<Rightarrow> andthen (lift (say h response
          (if dhas response ''error'' then response_error_exit response else 0))) (\<lambda>e. ret (Some e)))"

text \<open>\<open>daemon serve\<close>: what \<open>_serve\<close> returns is CliServe.\<close>

definition serve_command :: "cli_host \<Rightarrow> cli_args \<Rightarrow> (exn, cli_end) res" where
  "serve_command h a = (if ar_pretty a then Inr (Silent 2)
     else case ebind (require_plugin h) (\<lambda>_. hc_serve h a) of
       Inr code \<Rightarrow> Inr (Silent code)
     | Inl (FacadeFault f) \<Rightarrow> say_fault h (FacadeRpcFault f) (\<lambda>_. 3)
     | Inl x \<Rightarrow> Inl x)"

definition main :: "cli_host \<Rightarrow> nat \<Rightarrow> string list \<Rightarrow> cli_end option client_act" where
  "main h n argv = (case removed_instance_reason argv of
     Some reason \<Rightarrow> andthen (lift (say_fault h (invalid_params_fault reason) (\<lambda>_. 2))) (\<lambda>e. ret (Some e))
   | None \<Rightarrow> (case hc_parse h argv of
       UsageError m \<Rightarrow> if selects_daemon_serve argv then ret (Some (Silent 2))
         else andthen (lift (say_fault h (invalid_params_fault m) (\<lambda>_. 2))) (\<lambda>e. ret (Some e))
     | Exits code \<Rightarrow> ret (Some (Silent code))
     | Parsed a \<Rightarrow> if daemon_action a ''serve'' then andthen (lift (serve_command h a)) (\<lambda>e. ret (Some e))
         else run_command h n a))"

end
