(* ===== verification/CliServe.thy ===== *)
theory CliServe
  imports Cli
begin

text \<open>
  \<open>_serve\<close> of \<open>cli.py\<close>: the daemon put together. The configuration is read and committed through
  ServiceClient; the other parts, each modelled in a theory of its own, are stages that return or
  raise. What was made before an exception is taken down by the \<open>finally\<close> clause.
\<close>

section \<open>Stages\<close>

datatype serve_stage =
    ScanLegacy | OpenRegistry | MakeService | StartService | Compose | MakeServer | StartDispatcher | SetSignals
  | ServeForever | RestoreSignals | WriteReceipt | ShutDispatcher | CloseServer | TearDown

record serve_host =
  vh_cli :: cli_host
  vh_uuid :: "nat \<Rightarrow> string"
  vh_stage :: "nat \<Rightarrow> serve_stage \<Rightarrow> (exn, unit) res"
  vh_in_use :: "exn \<Rightarrow> bool"

text \<open>
  The client's state, the stages that ran with whether they returned, newest first, and what the
  \<open>finally\<close> clause will find.
\<close>

record serve_state =
  vs_client :: client_state
  vs_log :: "(serve_stage \<times> bool) list"
  vs_service :: bool
  vs_server :: bool
  vs_dispatcher :: bool

type_synonym 'a serve_act = "(serve_state, 'a) act"

definition as_client :: "'a client_act \<Rightarrow> 'a serve_act" where
  "as_client m s = (case m (vs_client s) of (r, c) \<Rightarrow> (r, s\<lparr>vs_client := c\<rparr>))"

definition stage :: "serve_host \<Rightarrow> serve_stage \<Rightarrow> unit serve_act" where
  "stage h st = andthen (as_client (ask_host (\<lambda>t. vh_stage h t st))) (\<lambda>r.
     andthen (modify (\<lambda>s. s\<lparr>vs_log := (st, r = Inr ()) # vs_log s\<rparr>)) (\<lambda>_. lift r))"

section \<open>Paths and configuration\<close>

text \<open>\<open>with_suffix\<close>: the last suffix of the name is replaced.\<close>

definition stem_of :: "string \<Rightarrow> string" where
  "stem_of name = (let tail = takeWhile (\<lambda>c. c \<noteq> CHR ''.'') (rev name); front = drop (Suc (length tail)) (rev name) in
     if CHR ''.'' \<in> set name \<and> front \<noteq> [] \<and> tail \<noteq> [] then rev front else name)"

definition with_suffix :: "string \<Rightarrow> string \<Rightarrow> string" where
  "with_suffix path suffix = under (path_parent path) [stem_of (path_name path) @ suffix]"

text \<open>The paths of a service whose registry or socket is not the default one.\<close>

definition serve_paths :: "service_paths \<Rightarrow> string \<Rightarrow> string option \<Rightarrow> string \<Rightarrow> (exn, service_paths) res" where
  "serve_paths p state given uuid =
     (let state_path = posix_path state; durable = path_parent state_path;
          socket = (case given of None \<Rightarrow> None | Some v \<Rightarrow> if v = [] then None else Some (posix_path v)) in
      if state_path = sp_registry p \<and> (socket = None \<or> socket = Some (sp_rpc_socket p)) then Inr p
      else mk_service_paths (p\<lparr>sp_durable_dir := durable,
        sp_rpc_socket := (case socket of Some v \<Rightarrow> v | None \<Rightarrow> sp_rpc_socket p),
        sp_codex_socket := under (path_parent (sp_codex_socket p)) [''c-'' @ take 8 uuid @ ''.sock''],
        sp_start_lock := (case socket of Some v \<Rightarrow> with_suffix v ''.start.lock'' | None \<Rightarrow> sp_start_lock p),
        sp_registry := state_path, sp_config_path := under durable [''service.json''],
        sp_migration := under durable [''migration.json''], sp_log := under durable [''daemon.log''],
        sp_callbacks := under durable [''callbacks.json''], sp_artifacts := under durable [''callback-artifacts'']\<rparr>))"

text \<open>\<open>_serve_config\<close>.\<close>

definition fitting :: "cli_host \<Rightarrow> string \<Rightarrow> string option \<Rightarrow> managed_config \<Rightarrow> (exn, managed_config option) res" where
  "fitting h requested generation c =
     (if mc_listener c \<noteq> requested then Inl (listener_conflict (mc_listener c) requested)
      else Inr (if mc_version c = hc_version h \<and> (generation = None \<or> generation = Some (mc_generation c)) then Some c else None))"

definition serve_config :: "cli_host \<Rightarrow> manager_deps \<Rightarrow> string \<Rightarrow> string option \<Rightarrow> managed_config client_act" where
  "serve_config h d listener generation = (let ch = hc_client h in
     andthen (read_config ch d) (\<lambda>existing.
     andthen (lift (validate_public_listener (host_lookup (ci_env ch)) (JStr listener))) (\<lambda>requested.
     andthen (lift (case existing of None \<Rightarrow> Inr None | Some c \<Rightarrow> fitting h requested generation c)) (\<lambda>kept. case kept of
       Some c \<Rightarrow> ret c
     | None \<Rightarrow> andthen (case generation of
           Some (g # gs) \<Rightarrow> ret (g # gs) | _ \<Rightarrow> ask_host (ci_uuid ch)) (\<lambda>g.
         lift (mk_config (ci_env ch) requested (hc_version h) g))))))"

text \<open>The commit of the configuration after the service has started.\<close>

definition commit_config :: "client_host \<Rightarrow> manager_deps \<Rightarrow> managed_config \<Rightarrow> unit client_act" where
  "commit_config ch d c = andthen (read_config ch d) (\<lambda>existing.
     if existing = None then write_config_once ch d c
     else if existing \<noteq> Some c then replace_config ch c
     else ret ())"

section \<open>Serving\<close>

text \<open>\<open>Compose\<close> goes up to the facade and its dispatcher, \<open>MakeServer\<close> from there to the server.\<close>

definition made :: "(serve_state \<Rightarrow> serve_state) \<Rightarrow> unit serve_act" where
  "made f = modify f"

definition serve_body :: "serve_host \<Rightarrow> cli_args \<Rightarrow> int serve_act" where
  "serve_body h a = (let ch = hc_client (vh_cli h) in
     andthen (as_client (ask_host (vh_uuid h))) (\<lambda>uuid.
     andthen (lift (serve_paths (sm_paths (cli_deps (vh_cli h))) (field_str (ar_options a) ''state'') (ar_socket a) uuid)) (\<lambda>paths.
     let d = (cli_deps (vh_cli h))\<lparr>sm_paths := paths\<rparr> in
     andthen (as_client (serve_config (vh_cli h) d (case ar_listener a of None \<Rightarrow> DEFAULT_PUBLIC_LISTENER | Some l \<Rightarrow> l)
         (as_str (opt a ''generation'')))) (\<lambda>config.
     andthen (stage h ScanLegacy) (\<lambda>_.
     andthen (stage h OpenRegistry) (\<lambda>_.
     andthen (stage h MakeService) (\<lambda>_.
     andthen (made (\<lambda>s. s\<lparr>vs_service := True\<rparr>)) (\<lambda>_.
     andthen (stage h StartService) (\<lambda>_.
     andthen (as_client (commit_config ch d config)) (\<lambda>_.
     andthen (stage h Compose) (\<lambda>_.
     andthen (made (\<lambda>s. s\<lparr>vs_dispatcher := True\<rparr>)) (\<lambda>_.
     andthen (stage h MakeServer) (\<lambda>_.
     andthen (made (\<lambda>s. s\<lparr>vs_server := True\<rparr>)) (\<lambda>_.
     andthen (stage h StartDispatcher) (\<lambda>_.
     andthen (stage h SetSignals) (\<lambda>_.
     andthen (attempt (stage h ServeForever) (\<lambda>x. andthen (stage h RestoreSignals) (\<lambda>_. raise x))) (\<lambda>_.
     andthen (stage h RestoreSignals) (\<lambda>_. ret 0))))))))))))))))))"

definition serve_handler :: "serve_host \<Rightarrow> cli_args \<Rightarrow> exn \<Rightarrow> int serve_act" where
  "serve_handler h a x =
     (if (case x of SocketInUse _ \<Rightarrow> True | SocketPathUnsafe _ \<Rightarrow> True | _ \<Rightarrow> is_rpc_fault x \<or> is_os_error x \<or> is_value_error x)
      then andthen (if truthy (opt a ''startup_receipt'') \<and> is_os_error x \<and> vh_in_use h x then stage h WriteReceipt else ret ()) (\<lambda>_. ret 1)
      else raise x)"

text \<open>The \<open>finally\<close> clause: an exception of the first two steps keeps the rest from running.\<close>

definition serve_cleanup :: "serve_host \<Rightarrow> unit serve_act" where
  "serve_cleanup h = andthen (observe vs_dispatcher) (\<lambda>dispatcher.
     andthen (if dispatcher then stage h ShutDispatcher else ret ()) (\<lambda>_.
     andthen (observe vs_server) (\<lambda>server.
     andthen (if server then stage h CloseServer else ret ()) (\<lambda>_.
     andthen (observe vs_service) (\<lambda>service.
       if service then attempt (stage h TearDown) (\<lambda>_. ret ()) else ret ())))))"

definition serve :: "serve_host \<Rightarrow> cli_args \<Rightarrow> int serve_act" where
  "serve h a = andthen
     (attempt (andthen (attempt (serve_body h a) (serve_handler h a)) (\<lambda>code. ret (Inr code))) (\<lambda>x. ret (Inl x)))
     (\<lambda>r. andthen (serve_cleanup h) (\<lambda>_. lift r))"

end
