(* ===== verification/CliProps.thy ===== *)
theory CliProps
  imports Cli ServiceClientProps
begin

text \<open>
  What the command line promises: what it prints only tells its reader to run commands that it has
  checked, and its exit code says whether the printed response is an error; a command that is
  refused reaches no service; a raw command starts none.
\<close>

section \<open>The output\<close>

definition printed_ok :: "cli_host \<Rightarrow> json_object \<Rightarrow> int \<Rightarrow> bool" where
  "printed_ok h p c \<longleftrightarrow> print_json h p = Inr () \<and> (c = 0 \<longleftrightarrow> \<not> dhas p ''error'') \<and> c \<in> {0, 1, 2, 3}"

definition told :: "cli_host \<Rightarrow> cli_end \<Rightarrow> bool" where
  "told h e \<longleftrightarrow> (case e of Printed p c \<Rightarrow> printed_ok h p c | Silent c \<Rightarrow> True)"

lemma said: "say h p c = Inr e \<Longrightarrow> e = Printed p c \<and> print_json h p = Inr ()"
  by (auto simp: say_def res_simps split: sum.splits)

lemma all_checked: "emap f xs = Inr us \<Longrightarrow> x \<in> set xs \<Longrightarrow> f x = Inr ()"
  by (induction xs arbitrary: us) (auto simp: res_simps split: sum.splits)

lemma fault_has_error: "rpc_response cli_id None (fault_dict x) = Inr p \<Longrightarrow> dhas p ''error''"
  by (auto simp: rpc_response_def fault_dict_def dhas_def res_simps split: if_splits sum.splits)

lemma error_exit: "response_error_exit p \<in> {1, 3}"
  by (simp add: response_error_exit_def Let_def)

lemma fault_told:
  assumes "say_fault h x code = Inr e" "\<And>p. code p \<in> {1, 2, 3}"
  shows "told h e"
proof -
  obtain p where p: "rpc_response cli_id None (fault_dict x) = Inr p" "say h p (code p) = Inr e"
    using assms(1) by (auto simp: say_fault_def res_simps split: sum.splits)
  with said [OF p(2)] fault_has_error [OF p(1)] assms(2) [of p] show ?thesis by (auto simp: told_def printed_ok_def)
qed

lemma result_told: "say h (cli_result r) 0 = Inr e \<Longrightarrow> told h e"
  using said [of h "cli_result r" 0 e] by (simp add: told_def printed_ok_def cli_result_def dhas_def)

definition step_told :: "cli_host \<Rightarrow> cli_step option \<Rightarrow> bool" where
  "step_told h r \<longleftrightarrow> (\<forall>e. r = Some (Finished e) \<longrightarrow> told h e)"

lemma step_told_simps [simp]: "step_told h None" "step_told h (Some (Answered r))" "step_told h (Some (Finished e)) = told h e"
  by (simp_all add: step_told_def)

lemma finish_told: "yields (finish h r) (step_told h)"
proof (cases r)
  case (Some v)
  have "yields (lift (say h (cli_result v) 0)) (told h)" by (rule yields_lift) (rule result_told)
  then show ?thesis using Some by (auto simp: finish_def intro!: yields_then [where R = "told h"] yields_basic(1))
qed (simp add: finish_def yields_basic(1))

lemma operate_told: "yields (operate h n a ps) (step_told h)"
proof -
  have one: "yields (case path of None \<Rightarrow> ret None | Some p \<Rightarrow> andthen (lift (client_timeout m params)) (\<lambda>t.
      andthen (try_host (f p t)) (\<lambda>response. ret (Some (Answered response))))) (step_told h)" for path m params f
    by (cases path) (auto intro!: yields_basic(1) yields_seq)
  have two: "yields (case r of None \<Rightarrow> ret None | Some x \<Rightarrow> andthen (manager_status ch d) (\<lambda>st. finish h (Some st))) (step_told h)"
    for r :: "json_object option" and ch d
    by (cases r) (auto intro!: yields_basic(1) yields_seq finish_told)
  show ?thesis
    unfolding operate_def ask_endpoint_def Let_def by (auto intro!: yields_seq finish_told one two)
qed

definition handler_reply :: "cli_host \<Rightarrow> cli_args \<Rightarrow> exn \<Rightarrow> (exn, cli_end) res" where
  "handler_reply h a x = (case x of
      FacadeFault f \<Rightarrow> say_fault h (FacadeRpcFault f) (\<lambda>_. 3)
    | _ \<Rightarrow> if is_rpc_fault x then say_fault h x response_error_exit
        else if is_os_error x
        then say_fault h (daemon_unavailable_fault (if has_socket a then the (ar_socket a) else hc_default_socket h)) (\<lambda>_. 3)
        else if is_value_error x then say_fault h (invalid_params_fault (exn_str x)) (\<lambda>_. 2)
        else Inl x)"

lemma handler_replies: "cli_handler h a x = andthen (lift (handler_reply h a x)) (\<lambda>e. ret (Some (Finished e)))"
  by (simp add: cli_handler_def handler_reply_def)

lemma handler_told: "yields (cli_handler h a x) (step_told h)"
proof -
  have codes: "response_error_exit p \<in> {1, 2, 3}" for p using error_exit [of p] by auto
  have tells: "say_fault h y response_error_exit = Inr e \<Longrightarrow> told h e" "say_fault h y (\<lambda>_. 3) = Inr e \<Longrightarrow> told h e"
    "say_fault h y (\<lambda>_. 2) = Inr e \<Longrightarrow> told h e" for y e
    using codes by (auto elim!: fault_told)
  have "told h e" if "handler_reply h a x = Inr e" for e
    using that unfolding handler_reply_def by (cases x) (auto split: if_splits dest: tells)
  then show ?thesis
    unfolding handler_replies by (intro yields_then [where R = "told h"] yields_lift yields_basic(1)) auto
qed

lemma run_told: "yields (run_command h n a) (\<lambda>r. \<forall>e. r = Some e \<longrightarrow> told h e)"
  unfolding run_command_def
proof (rule yields_then [where R = "step_told h"])
  show "yields (attempt (andthen (lift (params_for h a)) (\<lambda>ps. andthen (lift (check_request h a ps)) (\<lambda>_.
      andthen (lift (require_plugin h)) (\<lambda>_. operate h n a ps)))) (cli_handler h a)) (step_told h)"
    by (intro yields_attempt yields_seq operate_told handler_told)
  fix step
  assume step: "step_told h step"
  have answered: "yields (andthen (lift (say h p (if dhas p ''error'' then response_error_exit p else 0))) (\<lambda>e. ret (Some e)))
      (\<lambda>r. \<forall>e. r = Some e \<longrightarrow> told h e)" for p
  proof (rule yields_then [where R = "told h"], rule yields_lift)
    show "told h e" if "say h p (if dhas p ''error'' then response_error_exit p else 0) = Inr e" for e
      using said [OF that] error_exit [of p] by (auto simp: told_def printed_ok_def)
  qed (auto intro!: yields_basic(1))
  show "yields (case step of None \<Rightarrow> ret None | Some (Finished e) \<Rightarrow> ret (Some e)
    | Some (Answered response) \<Rightarrow> andthen (lift (say h response
          (if dhas response ''error'' then response_error_exit response else 0))) (\<lambda>e. ret (Some e)))
    (\<lambda>r. \<forall>e. r = Some e \<longrightarrow> told h e)"
  proof (cases step)
    case (Some st)
    show ?thesis
    proof (cases st)
      case (Finished e)
      with Some step show ?thesis by (auto intro!: yields_basic(1))
    next
      case (Answered p)
      with Some answered [of p] show ?thesis by simp
    qed
  qed (auto intro!: yields_basic(1))
qed

lemma serve_told: "serve_command h a = Inr e \<Longrightarrow> told h e"
  by (auto simp: serve_command_def told_def [of h "Silent c" for c] intro: fault_told split: if_splits sum.splits exn.splits)

lemma main_told: "yields (main h n argv) (\<lambda>r. \<forall>e. r = Some e \<longrightarrow> told h e)"
proof -
  have usage: "yields (andthen (lift (say_fault h x (\<lambda>_. 2))) (\<lambda>e. ret (Some e))) (\<lambda>r. \<forall>e. r = Some e \<longrightarrow> told h e)" for x
    by (rule yields_then [where R = "told h"], rule yields_lift, erule fault_told) (auto intro!: yields_basic(1))
  have silent: "yields (ret (Some (Silent c))) (\<lambda>r. \<forall>e. r = Some e \<longrightarrow> told h e)" for c
    by (rule yields_basic) (simp add: told_def)
  have serve: "yields (andthen (lift (serve_command h a)) (\<lambda>e. ret (Some e))) (\<lambda>r. \<forall>e. r = Some e \<longrightarrow> told h e)" for a
    by (rule yields_then [where R = "told h"], rule yields_lift, erule serve_told) (auto intro!: yields_basic(1))
  show ?thesis
    unfolding main_def by (auto intro!: usage silent serve run_told split: option.splits parsed.splits)
qed

text \<open>
  C18. Whatever a command does and whatever the service answers, each command that the printed response
  tells its reader to run has passed the check of recovery actions, and the exit code is 0 exactly
  when the response is no error.
\<close>

theorem printed_commands_are_checked:
  assumes "main h n argv s = (Inr (Some (Printed p c)), s')"
  shows "(\<forall>command \<in> set (wire_commands (JObj p)). check_recovery h command = Inr ())
    \<and> (c = 0 \<longleftrightarrow> \<not> dhas p ''error'') \<and> c \<in> {0, 1, 2, 3}"
proof -
  have "printed_ok h p c" using yieldsD [OF main_told assms] by (simp add: told_def)
  moreover have "check_recovery h command = Inr ()" if "print_json h p = Inr ()" "command \<in> set (wire_commands (JObj p))" for command
    using that all_checked by (cases "emap (check_recovery h) (wire_commands (JObj p))") (simp_all add: print_json_def res_simps del: wire_commands.simps)
  ultimately show ?thesis by (auto simp: printed_ok_def)
qed

section \<open>What a command reaches\<close>

lemma lift_run: "lift r s = (r, s)"
  by (simp add: lift_def)

lemma handler_stays: "snd (cli_handler h a x s) = s"
  by (auto simp: cli_handler_def andthen_def lift_def ret_def split: sum.splits)

text \<open>The checks of a command before anything is asked of the host's services.\<close>

definition local_checks :: "cli_host \<Rightarrow> cli_args \<Rightarrow> (exn, unit) res" where
  "local_checks h a = ebind (params_for h a) (\<lambda>ps. ebind (check_request h a ps) (\<lambda>_. require_plugin h))"

lemma checks_first:
  assumes "local_checks h a = Inl x"
  shows "attempt (andthen (lift (params_for h a)) (\<lambda>ps. andthen (lift (check_request h a ps)) (\<lambda>_.
      andthen (lift (require_plugin h)) (\<lambda>_. operate h n a ps)))) (cli_handler h a) s = cli_handler h a x s"
  using assms by (auto simp: local_checks_def attempt_def andthen_def lift_def res_simps split: sum.splits)

lemma handler_run: "cli_handler h a x s = (case handler_reply h a x of Inl e \<Rightarrow> (Inl e, s) | Inr e \<Rightarrow> (Inr (Some (Finished e)), s))"
  by (simp add: handler_replies andthen_def lift_def ret_def split: sum.splits)

lemma refused_run:
  assumes "local_checks h a = Inl x"
  shows "run_command h n a s = (case handler_reply h a x of Inl e \<Rightarrow> (Inl e, s) | Inr e \<Rightarrow> (Inr (Some e), s))"
  unfolding run_command_def andthen_def [of "attempt m f" for m f] checks_first [OF assms] handler_run
  by (simp add: ret_def split: sum.splits)

lemma fault_printed: "say_fault h x code = Inr (Printed p c) \<Longrightarrow> dhas p ''error'' \<and> c = code p"
proof -
  assume "say_fault h x code = Inr (Printed p c)"
  then obtain q where q: "rpc_response cli_id None (fault_dict x) = Inr q" "say h q (code q) = Inr (Printed p c)"
    by (auto simp: say_fault_def res_simps split: sum.splits)
  with said [OF q(2)] fault_has_error [OF q(1)] show ?thesis by auto
qed

lemma reply_is_error: "handler_reply h a x = Inr (Printed p c) \<Longrightarrow> c \<noteq> 0 \<and> dhas p ''error''"
proof -
  have codes: "response_error_exit d \<noteq> 0" for d by (simp add: response_error_exit_def Let_def)
  assume "handler_reply h a x = Inr (Printed p c)"
  then show ?thesis unfolding handler_reply_def by (cases x) (auto split: if_splits dest!: fault_printed simp: codes)
qed

text \<open>
  A command whose parameters, options or plugin version are refused asks nothing of the host: no
  socket, no process and no file of the service is touched, and the command does not exit with 0.
\<close>

theorem refused_command_reaches_nothing:
  assumes "ebind (params_for h a) (\<lambda>ps. ebind (check_request h a ps) (\<lambda>_. require_plugin h)) = Inl x"
    and "run_command h n a s = (r, s')"
  shows "s' = s \<and> (\<forall>p c. r = Inr (Some (Printed p c)) \<longrightarrow> c \<noteq> 0 \<and> dhas p ''error'')"
proof -
  have "local_checks h a = Inl x" using assms(1) by (simp add: local_checks_def)
  from refused_run [OF this, of n s] assms(2) show ?thesis using reply_is_error [of h a x] by (auto split: sum.splits)
qed

definition is_raw :: "cli_args \<Rightarrow> bool" where
  "is_raw a \<longleftrightarrow> \<not> ar_common a \<and> ar_family a \<noteq> ''migration'' \<and> \<not> daemon_action a ''start'' \<and> \<not> daemon_action a ''stop''
     \<and> \<not> daemon_action a ''restart''"

lemma calm_status: "calm (manager_status h d)"
  unfolding manager_status_def durable_migration_def Let_def by (intro calm)

lemma calm_raw_endpoint: "calm (managed_raw_endpoint h)"
  unfolding managed_raw_endpoint_def manager_readiness_def by (intro calm)

lemma calm_raw_request: "\<not> ar_common a \<Longrightarrow> ar_family a \<noteq> ''migration'' \<Longrightarrow> calm (ask_endpoint h n a ps)"
  unfolding ask_endpoint_def capture_params_def endpoint_of_def
  by (intro calm calm_raw_endpoint) (auto intro!: calm calm_raw_endpoint split: option.splits)

lemma calm_finish: "calm (finish h r)"
  unfolding finish_def by (intro calm)

lemma calm_operate: "is_raw a \<Longrightarrow> calm (operate h n a ps)"
  unfolding operate_def is_raw_def Let_def by (auto intro!: calm calm_status calm_finish calm_raw_request)

lemma calm_handler: "calm (cli_handler h a x)"
  unfolding cli_handler_def by (intro calm)

lemma calm_run: "is_raw a \<Longrightarrow> calm (run_command h n a)"
  unfolding run_command_def
  by (intro calm calm_handler calm_operate) (auto intro!: calm split: option.splits cli_step.splits)

text \<open>
  A command that is neither a worker command nor a start, stop, restart or migration starts no
  process and ends none, and the configuration of the service stays as it is: it talks to the
  service that runs, or it fails.
\<close>

theorem raw_command_starts_nothing:
  assumes "\<not> ar_common a" "ar_family a \<noteq> ''migration''" "\<not> daemon_action a ''start''" "\<not> daemon_action a ''stop''"
    "\<not> daemon_action a ''restart''" "run_command h n a s = (r, s')"
  shows "cs_config s' = cs_config s \<and> (\<exists>new. cs_log s' = new @ cs_log s
    \<and> (\<forall>argv. ChildSpawned argv \<notin> set new) \<and> (\<forall>pid sig. ChildSignal pid sig \<notin> set new) \<and> ChildStopping \<notin> set new)"
proof -
  have "is_raw a" using assms by (simp add: is_raw_def)
  then have "quiet_client routine s s'" using keepsD [OF calm_run assms(6)] by blast
  then show ?thesis by (fastforce simp: quiet_client_def list_all_iff)
qed

end
