(* ===== verification/CliServeProps.thy ===== *)
theory CliServeProps
  imports CliServe CliProps
begin

text \<open>
  What the daemon promises: it names its listener in the configuration only after the service has
  started, and it takes the service down that it made.
\<close>

lemma hoare_value: "(\<And>s. P s \<Longrightarrow> Q x s) \<Longrightarrow> hoare P (ret x) Q E"
  by (simp add: hoare_def ret_def)

lemma hoare_raised: "(\<And>s. P s \<Longrightarrow> E e s) \<Longrightarrow> hoare P (raise e) Q E"
  by (simp add: hoare_def raise_def)

lemma hoare_seen: "(\<And>s. P s \<Longrightarrow> Q (f s) s) \<Longrightarrow> hoare P (observe f) Q E"
  by (simp add: hoare_def observe_def)

section \<open>The stages so far\<close>

text \<open>
  The stages \<open>new\<close> ran since the log was \<open>past\<close>; they satisfy \<open>P\<close> with what the \<open>finally\<close> clause
  will find, and the configuration is still \<open>cfg\<close> unless the service has started.
\<close>

definition serving :: "(serve_stage \<times> bool) list \<Rightarrow> client_file \<Rightarrow> ((serve_stage \<times> bool) list \<Rightarrow> bool \<Rightarrow> bool) \<Rightarrow> serve_state \<Rightarrow> bool" where
  "serving past cfg P s \<longleftrightarrow> (\<exists>new. vs_log s = new @ past \<and> P new (vs_service s)
     \<and> (cs_config (vs_client s) \<noteq> cfg \<longrightarrow> (StartService, True) \<in> set new))"

definition remembered :: "(serve_stage \<times> bool) list \<Rightarrow> bool \<Rightarrow> bool" where
  "remembered new service \<longleftrightarrow> ((MakeService, True) \<in> set new \<longrightarrow> service)"

lemma serving_weaken: "(\<And>new b. P new b \<Longrightarrow> Q new b) \<Longrightarrow> serving past cfg P s \<Longrightarrow> serving past cfg Q s"
  by (auto simp: serving_def)

lemma serving_stage:
  assumes "\<And>new b. P new b \<Longrightarrow> Q ((st, True) # new) b" "\<And>new b. P new b \<Longrightarrow> R ((st, False) # new) b"
  shows "hoare (serving past cfg P) (stage h st) (\<lambda>_. serving past cfg Q) (\<lambda>_. serving past cfg R)"
proof (rule hoareI)
  have step: "serving past cfg Q s'" if "serving past cfg P s" "vs_log s' = (st, ok) # vs_log s" "vs_service s' = vs_service s"
    "cs_config (vs_client s') = cs_config (vs_client s)" "\<And>new b. P new b \<Longrightarrow> Q ((st, ok) # new) b" for Q s s' ok
    using that by (fastforce simp: serving_def)
  fix s s' :: serve_state
  assume P: "serving past cfg P s"
  show "serving past cfg Q s'" if "stage h st s = (Inr x, s')" for x
    using that by (intro step [OF P, of s' True]) (auto simp: stage_def as_client_def ask_host_def act_defs assms)
  show "serving past cfg R s'" if "stage h st s = (Inl e, s')" for e
    using that by (intro step [OF P, of s' False]) (auto simp: stage_def as_client_def ask_host_def act_defs assms)
qed

lemma serving_client:
  assumes "keeps (quiet_client E) m"
  shows "hoare (serving past cfg P) (as_client m) (\<lambda>_. serving past cfg P) (\<lambda>_. serving past cfg P)"
proof -
  have "serving past cfg P s'" if "serving past cfg P s" "as_client m s = (r, s')" for s s' r
    using that keepsD [OF assms, of "vs_client s"]
    by (auto simp: serving_def as_client_def quiet_client_def split: prod.splits)
  then show ?thesis by (auto intro!: hoareI)
qed

lemma calm_serve_config: "calm (serve_config h d l g)"
  unfolding serve_config_def Let_def by (intro calm) (auto intro!: calm split: list.splits)

lemma serving_lift: "hoare (serving past cfg P) (lift r) (\<lambda>_. serving past cfg P) (\<lambda>_. serving past cfg P)"
  by (rule hoare_lift)

text \<open>Once the service has started, the configuration may change.\<close>

definition started :: "(serve_stage \<times> bool) list \<Rightarrow> bool \<Rightarrow> bool" where
  "started new service \<longleftrightarrow> remembered new service \<and> (StartService, True) \<in> set new"

lemma serving_commit: "hoare (serving past cfg started) (as_client m) (\<lambda>_. serving past cfg started) (\<lambda>_. serving past cfg remembered)"
  by (rule hoareI) (auto simp: serving_def started_def as_client_def split: prod.splits)

lemma serving_made: "(\<And>new b. P new b \<Longrightarrow> Q new b)
    \<Longrightarrow> (\<And>s. vs_log (f s) = vs_log s \<and> vs_client (f s) = vs_client s \<and> vs_service (f s) = vs_service s)
    \<Longrightarrow> hoare (serving past cfg P) (made f) (\<lambda>_. serving past cfg Q) E"
  by (fastforce simp: hoare_def made_def modify_def serving_def)

lemma serving_service: "hoare (serving past cfg (\<lambda>new b. True)) (made (\<lambda>s. s\<lparr>vs_service := True\<rparr>)) (\<lambda>_. serving past cfg remembered) E"
  by (fastforce simp: hoare_def made_def modify_def serving_def remembered_def)

section \<open>The daemon\<close>

definition done_serving :: "(serve_stage \<times> bool) list \<Rightarrow> bool \<Rightarrow> bool" where
  "done_serving new service \<longleftrightarrow> started new service \<and> (ServeForever, True) \<in> set new"

text \<open>A stage that is none of those the predicates name.\<close>

lemma remembered_stage: "st \<noteq> MakeService \<Longrightarrow> hoare (serving past cfg remembered) (stage h st) (\<lambda>_. serving past cfg remembered)
    (\<lambda>_. serving past cfg remembered)"
  by (rule serving_stage) (auto simp: remembered_def)

lemma make_stage: "hoare (serving past cfg remembered) (stage h MakeService) (\<lambda>_. serving past cfg (\<lambda>new b. True))
    (\<lambda>_. serving past cfg remembered)"
  by (rule serving_stage) (auto simp: remembered_def)

lemma start_stage: "hoare (serving past cfg remembered) (stage h StartService) (\<lambda>_. serving past cfg started)
    (\<lambda>_. serving past cfg remembered)"
  by (rule serving_stage) (auto simp: remembered_def started_def)

lemma started_stage: "st \<noteq> MakeService \<Longrightarrow> hoare (serving past cfg started) (stage h st) (\<lambda>_. serving past cfg started)
    (\<lambda>_. serving past cfg remembered)"
  by (rule serving_stage) (auto simp: remembered_def started_def)

lemma forever_stage: "hoare (serving past cfg started) (stage h ServeForever) (\<lambda>_. serving past cfg done_serving)
    (\<lambda>_. serving past cfg remembered)"
  by (rule serving_stage) (auto simp: remembered_def started_def done_serving_def)

lemma restore_stage: "hoare (serving past cfg done_serving) (stage h RestoreSignals) (\<lambda>_. serving past cfg done_serving)
    (\<lambda>_. serving past cfg remembered)"
  by (rule serving_stage) (auto simp: remembered_def started_def done_serving_def)

lemma serving_forever: "hoare (serving past cfg started) (attempt (stage h ServeForever) (\<lambda>x. andthen (stage h RestoreSignals) (\<lambda>_. raise x)))
    (\<lambda>_. serving past cfg done_serving) (\<lambda>_. serving past cfg remembered)"
  by (rule hoare_attempt, rule forever_stage, rule hoare_andthen, rule remembered_stage, simp, rule hoare_raised)

lemma serving_body: "hoare (serving past cfg remembered) (serve_body h a) (\<lambda>_. serving past cfg done_serving)
    (\<lambda>_. serving past cfg remembered)"
proof -
  have ask: "keeps (quiet_client routine) (ask_host f)" for f by (rule quiet_client_basic(1))
  have flag: "hoare (serving past cfg started) (made f) (\<lambda>_. serving past cfg started) (\<lambda>_. serving past cfg remembered)"
    if "\<And>s. vs_log (f s) = vs_log s \<and> vs_client (f s) = vs_client s \<and> vs_service (f s) = vs_service s" for f
    by (rule serving_made [OF _ that])
  show ?thesis
    unfolding serve_body_def Let_def
    by (rule hoare_andthen, rule serving_client, rule ask, rule hoare_andthen, rule serving_lift,
        rule hoare_andthen, rule serving_client, rule calm_serve_config,
        rule hoare_andthen, rule remembered_stage, simp, rule hoare_andthen, rule remembered_stage, simp,
        rule hoare_andthen, rule make_stage, rule hoare_andthen, rule serving_service,
        rule hoare_andthen, rule start_stage, rule hoare_andthen, rule serving_commit,
        rule hoare_andthen, rule started_stage, simp, rule hoare_andthen, rule flag, simp,
        rule hoare_andthen, rule started_stage, simp, rule hoare_andthen, rule flag, simp,
        rule hoare_andthen, rule started_stage, simp, rule hoare_andthen, rule started_stage, simp,
        rule hoare_andthen, rule serving_forever, rule hoare_andthen, rule restore_stage, rule hoare_value)
qed

text \<open>What holds of the exit code before the \<open>finally\<close> clause.\<close>

definition serving_code :: "(serve_stage \<times> bool) list \<Rightarrow> client_file \<Rightarrow> exn + int \<Rightarrow> serve_state \<Rightarrow> bool" where
  "serving_code past cfg r s \<longleftrightarrow> serving past cfg remembered s \<and> (r = Inr 0 \<longrightarrow> serving past cfg done_serving s)"

lemma body_code: "hoare (serving past cfg remembered) (serve_body h a) (\<lambda>code. serving past cfg done_serving) E
    \<Longrightarrow> hoare (serving past cfg remembered) (serve_body h a) (\<lambda>code. serving_code past cfg (Inr code)) E"
  by (erule hoare_weaken) (auto simp: serving_code_def done_serving_def started_def elim!: serving_weaken [rotated])

lemma handler_code: "hoare (serving past cfg remembered) (serve_handler h a x) (\<lambda>code. serving_code past cfg (Inr code))
    (\<lambda>_. serving past cfg remembered)"
proof -
  have receipt: "hoare (serving past cfg remembered) (if b then stage h WriteReceipt else ret ()) (\<lambda>_. serving past cfg remembered)
      (\<lambda>_. serving past cfg remembered)" for b
    by (cases b) (auto intro!: remembered_stage hoare_value)
  have reported: "hoare (serving past cfg remembered) (andthen (if b then stage h WriteReceipt else ret ()) (\<lambda>_. ret 1))
      (\<lambda>code. serving_code past cfg (Inr code)) (\<lambda>_. serving past cfg remembered)" for b
    by (rule hoare_andthen, rule receipt, rule hoare_value) (simp add: serving_code_def)
  show ?thesis
    unfolding serve_handler_def using reported by (auto intro!: hoare_raised)
qed

text \<open>The \<open>finally\<close> clause.\<close>

definition taken_down :: "(serve_stage \<times> bool) list \<Rightarrow> bool" where
  "taken_down new \<longleftrightarrow> ((MakeService, True) \<in> set new \<longrightarrow>
     (\<exists>ok. (TearDown, ok) \<in> set new) \<or> (ShutDispatcher, False) \<in> set new \<or> (CloseServer, False) \<in> set new)"

lemma cleaning:
  assumes grows: "\<And>e new b. P new b \<Longrightarrow> fst e \<noteq> MakeService \<Longrightarrow> P (e # new) b" and remembers: "\<And>new b. P new b \<Longrightarrow> remembered new b"
  shows "hoare (serving past cfg P) (serve_cleanup h) (\<lambda>_. serving past cfg (\<lambda>new b. P new b \<and> taken_down new))
     (\<lambda>_. serving past cfg (\<lambda>new b. taken_down new))"
proof -
  let ?Q = "\<lambda>_::unit. serving past cfg (\<lambda>new b. P new b \<and> taken_down new)"
  let ?E = "\<lambda>_::exn. serving past cfg (\<lambda>new b. taken_down new)"
  have run: "hoare (serving past cfg P) (if b then stage h st else ret ()) (\<lambda>_. serving past cfg P) ?E"
    if "st = ShutDispatcher \<or> st = CloseServer" for b st
  proof (cases b)
    case True
    have "hoare (serving past cfg P) (stage h st) (\<lambda>_. serving past cfg P) ?E"
      by (rule serving_stage) (use that in \<open>auto simp: taken_down_def intro: grows\<close>)
    with True show ?thesis by simp
  qed (auto intro!: hoare_value)
  have seen: "hoare (serving past cfg P) (observe f) (\<lambda>_. serving past cfg P) ?E" for f :: "serve_state \<Rightarrow> bool"
    by (rule hoare_seen)
  have asked: "hoare (serving past cfg P) (observe vs_service) (\<lambda>b. serving past cfg (\<lambda>new c. P new c \<and> c = b)) ?E"
    by (rule hoare_seen) (auto simp: serving_def)
  have last_one: "hoare (serving past cfg (\<lambda>new c. P new c \<and> c = b)) (if b then attempt (stage h TearDown) (\<lambda>_. ret ()) else ret ()) ?Q ?E" for b
  proof (cases b)
    case True
    have "hoare (serving past cfg (\<lambda>new c. P new c \<and> c = b)) (attempt (stage h TearDown) (\<lambda>_. ret ())) ?Q ?E"
      by (rule hoare_attempt, rule serving_stage [where R = "\<lambda>new b. P new b \<and> taken_down new"])
        (auto simp: taken_down_def intro!: grows hoare_value)
    with True show ?thesis by simp
  next
    case False
    have "P new c \<and> c = b \<Longrightarrow> P new c \<and> taken_down new" for new c
      using remembers [of new c] False by (auto simp: remembered_def taken_down_def)
    with False show ?thesis by (auto intro!: hoare_value elim!: serving_weaken [rotated])
  qed
  show ?thesis
    unfolding serve_cleanup_def
    by (rule hoare_andthen, rule seen, rule hoare_andthen, rule run, simp, rule hoare_andthen, rule seen, rule hoare_andthen, rule run, simp,
        rule hoare_andthen, rule asked, rule last_one)
qed

lemma remembered_grows: "remembered new b \<Longrightarrow> fst e \<noteq> MakeService \<Longrightarrow> remembered (e # new) b"
  by (cases e) (auto simp: remembered_def)

lemma done_grows: "done_serving new b \<Longrightarrow> fst e \<noteq> MakeService \<Longrightarrow> done_serving (e # new) b"
  by (auto simp: done_serving_def started_def remembered_grows)

lemma done_remembers: "done_serving new b \<Longrightarrow> remembered new b"
  by (simp add: done_serving_def started_def)

text \<open>The \<open>try\<close> with its handlers, its outcome as a value.\<close>

definition tried :: "serve_host \<Rightarrow> cli_args \<Rightarrow> (exn + int) serve_act" where
  "tried h a = attempt (andthen (attempt (serve_body h a) (serve_handler h a)) (\<lambda>code. ret (Inr code))) (\<lambda>x. ret (Inl x))"

lemma serve_tried: "serve h a = andthen (tried h a) (\<lambda>r. andthen (serve_cleanup h) (\<lambda>_. lift r))"
  by (simp add: serve_def tried_def)

lemma tried_code: "hoare (serving past cfg remembered) (tried h a) (\<lambda>r. serving_code past cfg r) E"
proof -
  let ?E = "\<lambda>_::exn. serving past cfg remembered"
  have body: "hoare (serving past cfg remembered) (attempt (serve_body h a) (serve_handler h a)) (\<lambda>code. serving_code past cfg (Inr code)) ?E"
    by (rule hoare_attempt, rule body_code, rule serving_body, rule handler_code)
  show ?thesis
    unfolding tried_def
    by (rule hoare_attempt, rule hoare_andthen, rule body, rule hoare_value, assumption, rule hoare_value) (simp add: serving_code_def)
qed

lemma serve_ends:
  assumes "serve h a s = (r, s')" "serving past cfg remembered s"
  shows "serving past cfg (\<lambda>new b. taken_down new) s' \<and> (r = Inr 0 \<longrightarrow> serving past cfg done_serving s')"
proof -
  obtain q t where q: "tried h a s = (Inr q, t)"
    using assms(1) by (cases "tried h a s") (auto simp: tried_def attempt_def andthen_def ret_def split: prod.splits sum.splits)
  have code: "serving_code past cfg q t" using hoareD(1) [OF tried_code assms(2) q] .
  obtain u s2 where c: "serve_cleanup h t = (u, s2)" by fastforce
  have ends: "s' = s2" "r = (case u of Inl e \<Rightarrow> Inl e | Inr _ \<Rightarrow> q)"
    using assms(1) q c by (auto simp: serve_tried andthen_def lift_def split: sum.splits)
  have clean: "hoare (serving past cfg P) (serve_cleanup h) (\<lambda>_. serving past cfg (\<lambda>new b. P new b \<and> taken_down new))
     (\<lambda>_. serving past cfg (\<lambda>new b. taken_down new))" if "P = remembered \<or> P = done_serving" for P
    using that by (intro cleaning) (auto intro: remembered_grows done_grows done_remembers)
  note clean = clean [of remembered, simplified] clean [of done_serving, simplified]
  have down: "serving past cfg (\<lambda>new b. taken_down new) s2"
  proof (cases u)
    case (Inl e)
    with c have "serve_cleanup h t = (Inl e, s2)" by simp
    from hoareD(2) [OF clean(1) _ this] code show ?thesis by (auto simp: serving_code_def)
  next
    case (Inr v)
    with c have "serve_cleanup h t = (Inr v, s2)" by simp
    from hoareD(1) [OF clean(1) _ this] code
    have "serving past cfg (\<lambda>new b. remembered new b \<and> taken_down new) s2" by (simp add: serving_code_def)
    then show ?thesis by (rule serving_weaken [rotated]) simp
  qed
  moreover have "serving past cfg done_serving s2" if "r = Inr 0"
  proof -
    from that ends(2) obtain v where "u = Inr v" "q = Inr 0" by (auto split: sum.splits)
    with c code have "serve_cleanup h t = (Inr v, s2)" "serving past cfg done_serving t" by (simp_all add: serving_code_def)
    from hoareD(1) [OF clean(2) this(2,1)] show ?thesis by (rule serving_weaken [rotated]) (erule conjunct1)
  qed
  ultimately show ?thesis using ends(1) by simp
qed

text \<open>
  However \<open>daemon serve\<close> ends, it has changed the configuration only after the service had started,
  and a service that it made has been taken down, unless the shutdown of the dispatcher or the close
  of the server raised; it returns 0 only after the server had served until it was asked to stop.
\<close>


end
