(* ===== verification/CliWitness.thy ===== *)
theory CliWitness
  imports InstanceWitness CliServeProps
begin

text \<open>The properties of the command line at concrete inputs, on the machine of InstanceWitness.\<close>

definition session_args :: cli_args where
  "session_args = \<lparr>ar_family = ''session'', ar_action = Some ''list'', ar_method = ''session/list'', ar_common = False, ar_pretty = False,
     ar_socket = Some ''/run/s'', ar_force = False, ar_listener = None, ar_no_callback = False, ar_search = False, ar_read_only = False,
     ar_config = [], ar_options = []\<rparr>"

text \<open>\<open>plugin\<close>: the root of the loaded plugin, whose manifest cannot be read.\<close>

definition desk_cli :: "string option \<Rightarrow> cli_host" where
  "desk_cli plugin = \<lparr>hc_client = desk nobody (\<lambda>_. None), hc_deps = desk_manager, hc_version = ''1'', hc_limit = None,
     hc_parse = \<lambda>argv. if argv = [''--version''] then Exits 0 else Parsed session_args,
     hc_getenv = \<lambda>_. plugin, hc_read = \<lambda>_. Inl (OSError ''none''), hc_loads = \<lambda>_. Inl (ValueError ''none''), hc_resolve = Inr,
     hc_is_file = \<lambda>_. False, hc_executable = \<lambda>_. False, hc_capture = \<lambda>_. Inr JNull,
     hc_rpc = \<lambda>_ _ _ _ _. Inr [(''jsonrpc'', JStr ''2.0''), (''id'', JStr ''cli''), (''result'', JObj [])],
     hc_default_socket = ''/run/s'', hc_rep = \<lambda>_. ''0'', hc_serve = \<lambda>_. Inr 0\<rparr>"

lemma desk_cli_fields: "hc_client (desk_cli plugin) = desk nobody (\<lambda>_. None)" "hc_version (desk_cli plugin) = ''1''"
  "hc_limit (desk_cli plugin) = None" "hc_getenv (desk_cli plugin) v = plugin" "hc_read (desk_cli plugin) f = Inl (OSError ''none'')"
  "hc_is_file (desk_cli plugin) f = False" "hc_rep (desk_cli plugin) = (\<lambda>_. ''0'')"
  "hc_parse (desk_cli plugin) argv = (if argv = [''--version''] then Exits 0 else Parsed session_args)"
  "hc_rpc (desk_cli plugin) k p m ps t = Inr [(''jsonrpc'', JStr ''2.0''), (''id'', JStr ''cli''), (''result'', JObj [])]"
  by (simp_all add: desk_cli_def)

lemma session_fields: "ar_method session_args = ''session/list''" "\<not> ar_common session_args" "\<not> is_managed session_args"
  by (simp_all add: session_args_def is_managed_def)

section \<open>A command of another version\<close>

text \<open>JSON without numbers of a fraction can be written.\<close>

fun float_free :: "json \<Rightarrow> bool" where
  "float_free (JFloat f) = False"
| "float_free (JList xs) = list_all float_free xs"
| "float_free (JObj d) = list_all (\<lambda>kv. float_free (snd kv)) d"
| "float_free v = True"

lemma emap_some: "(\<And>x. x \<in> set xs \<Longrightarrow> \<exists>y. f x = Inr y) \<Longrightarrow> \<exists>ys. emap f xs = Inr ys"
proof (induction xs)
  case (Cons x xs)
  obtain y where "f x = Inr y" using Cons.prems [of x] by auto
  moreover obtain ys where "emap f xs = Inr ys" using Cons by auto
  ultimately show ?case by (simp add: res_simps)
qed simp

lemma float_free_dumps: "float_free v \<Longrightarrow> \<exists>t. json_dumps rep v = Inr t"
proof (induction rep v rule: json_dumps.induct)
  case (6 rep xs)
  then have "\<exists>ts. emap (json_dumps rep) xs = Inr ts" by (intro emap_some) (auto simp: list_all_iff)
  then show ?case by (auto simp: res_simps)
next
  case (7 rep d)
  then have "\<exists>ts. emap (\<lambda>kv. ebind (json_dumps rep (snd kv)) (\<lambda>t. Inr (json_string (fst kv) @ '':'' @ t))) d = Inr ts"
    by (intro emap_some) (fastforce simp: list_all_iff res_simps)
  then show ?case by (auto simp: res_simps)
qed simp_all

definition mismatch :: exn where
  "mismatch = facade_exn TOOL_VERSION_MISMATCH ''Installed codex-worker does not match the loaded Superdev plugin'' False ''codex-worker''
     (JObj [(''reason'', JStr ''loaded_manifest_invalid''), (''loaded_root'', JStr ''/plugin''), (''loaded_version'', JNull),
        (''installed_version'', JStr ''1''),
        (''coordination'', JStr (''One global codex-worker version is shared by all rooms. Coordinate cached ''
           @ ''plugin versions before rerunning this room'' @ [sq] @ ''s trusted installer.''))])
     (JObj no_known_ids)
     (JList [next_action ''codex-worker --version'' ''Inspect the installed command version without runtime contact''])"

lemma mismatch_raised: "require_plugin (desk_cli (Some ''/plugin'')) = Inl mismatch"
proof -
  have "posix_path ''/plugin'' = ''/plugin''" "is_os_error (OSError ''none'')" by code_simp+
  moreover have "plugin_mismatch (desk_cli (Some ''/plugin'')) ''/plugin'' None = mismatch"
    by (simp add: plugin_mismatch_def mismatch_def desk_cli_fields Let_def jopt_def)
  ultimately show ?thesis by (simp add: require_plugin_def manifest_version_def desk_cli_fields res_simps)
qed

lemma session_checks: "params_for (desk_cli plugin) session_args = Inr []" "check_request (desk_cli plugin) session_args [] = Inr ()"
proof -
  show "params_for (desk_cli plugin) session_args = Inr []"
    by (simp add: params_for_def session_fields no_param_methods_def)
  have "validate_raw_params None ''session/list'' [] = Inr ()" by code_simp
  then show "check_request (desk_cli plugin) session_args [] = Inr ()" by (simp add: check_request_def session_fields desk_cli_fields)
qed

lemma session_refused: "local_checks (desk_cli (Some ''/plugin'')) session_args = Inl mismatch"
  by (simp add: local_checks_def session_checks mismatch_raised res_simps)

definition refusal :: json_object where
  "refusal = (case mismatch of FacadeFault f \<Rightarrow> (case rpc_response cli_id None (fault_dict (FacadeRpcFault f)) of Inr p \<Rightarrow> p | Inl _ \<Rightarrow> [])
     | _ \<Rightarrow> [])"

lemma refusal_facts: "case mismatch of FacadeFault f \<Rightarrow> rpc_response cli_id None (fault_dict (FacadeRpcFault f)) = Inr refusal | _ \<Rightarrow> False"
  "wire_commands (JObj refusal) = [''codex-worker --version'']"
  "float_free (JObj refusal)"
  by code_simp+

lemma version_command: "check_recovery (desk_cli plugin) ''codex-worker --version'' = Inr ()"
proof -
  have "shlex_split ''codex-worker --version'' = Inr [''codex-worker'', ''--version'']" "\<not> has_line_end ''codex-worker --version''"
    "\<not> has_unquoted_shell_syntax ''codex-worker --version''" "\<not> has_pair ''daemon'' ''serve'' [''--version'']"
    by code_simp+
  then show ?thesis by (simp add: check_recovery_def own_command_def desk_cli_fields Let_def res_simps)
qed

lemma refusal_printed: "handler_reply (desk_cli plugin) session_args mismatch = Inr (Printed refusal 3)"
proof -
  obtain f where f: "mismatch = FacadeFault f" "rpc_response cli_id None (fault_dict (FacadeRpcFault f)) = Inr refusal"
    using refusal_facts(1) by (auto split: exn.splits)
  have "print_json (desk_cli plugin) refusal = Inr ()"
    using float_free_dumps [OF refusal_facts(3), of "hc_rep (desk_cli plugin)"]
    by (auto simp: print_json_def refusal_facts(2) version_command res_simps simp del: wire_commands.simps json_dumps.simps)
  then show ?thesis by (simp add: f handler_reply_def say_fault_def say_def res_simps)
qed

lemma refused_command_reaches_nothing_witness:
  "snd (run_command (desk_cli (Some ''/plugin'')) 1 session_args desk_client) = desk_client"
proof -
  obtain r s' where run: "run_command (desk_cli (Some ''/plugin'')) 1 session_args desk_client = (r, s')" by fastforce
  from refused_command_reaches_nothing [OF session_refused [unfolded local_checks_def] run] run show ?thesis by simp
qed

lemma printed_commands_are_checked_witness:
  "check_recovery (desk_cli (Some ''/plugin'')) ''codex-worker --version'' = Inr () \<and> dhas refusal ''error''"
proof -
  have "removed_instance_reason [''session'', ''list''] = None" by code_simp
  then have "main (desk_cli (Some ''/plugin'')) 1 [''session'', ''list''] desk_client = (Inr (Some (Printed refusal 3)), desk_client)"
    using refused_run [OF session_refused, of 1 desk_client] refusal_printed
    by (simp add: main_def desk_cli_fields daemon_action_def session_args_def)
  from printed_commands_are_checked [OF this] show ?thesis by (simp add: refusal_facts(2) del: wire_commands.simps)
qed

lemma raw_command_starts_nothing_witness:
  "cs_config (snd (run_command (desk_cli None) 1 session_args desk_client)) = NoContent"
proof -
  obtain r s' where run: "run_command (desk_cli None) 1 session_args desk_client = (r, s')" by fastforce
  have "\<not> ar_common session_args" "ar_family session_args \<noteq> ''migration''" "\<not> daemon_action session_args ''start''"
    "\<not> daemon_action session_args ''stop''" "\<not> daemon_action session_args ''restart''"
    by (simp_all add: session_args_def daemon_action_def)
  from raw_command_starts_nothing [OF this run] run show ?thesis by (simp add: desk_client_def)
qed

section \<open>A daemon\<close>

definition serve_args :: cli_args where
  "serve_args = session_args\<lparr>ar_family := ''daemon'', ar_action := Some ''serve'', ar_socket := None,
     ar_options := [(''state'', JStr ''/state/registry.json''), (''generation'', JNull)]\<rparr>"

definition desk_serve :: serve_host where
  "desk_serve = \<lparr>vh_cli = desk_cli None, vh_uuid = \<lambda>_. ''u'', vh_stage = \<lambda>_ _. Inr (), vh_in_use = \<lambda>_. False\<rparr>"

definition desk_server :: serve_state where
  "desk_server = \<lparr>vs_client = desk_client, vs_log = [], vs_service = False, vs_server = False, vs_dispatcher = False\<rparr>"

lemmas serve_run = serve_def [THEN fun_cong] serve_body_def [THEN fun_cong] serve_cleanup_def [THEN fun_cong] stage_def [THEN fun_cong]
  as_client_def made_def serve_config_def [THEN fun_cong] commit_config_def [THEN fun_cong]

lemma serve_facts: "serve_paths desk_paths ''/state/registry.json'' None ''u'' = Inr desk_paths"
  "field_str (ar_options serve_args) ''state'' = ''/state/registry.json''" "ar_socket serve_args = None" "ar_listener serve_args = None"
  "as_str (opt serve_args ''generation'') = None"
  by code_simp+

lemma desk_deps_of_cli: "sm_paths (cli_deps (desk_cli plugin)) = desk_paths" "(cli_deps (desk_cli plugin))\<lparr>sm_paths := desk_paths\<rparr> = desk_manager"
  by (simp_all add: cli_deps_def desk_cli_def desk_manager_def)

lemma desk_serve_fields: "vh_cli desk_serve = desk_cli None" "vh_uuid desk_serve t = ''u''" "vh_stage desk_serve t st = Inr ()"
  by (simp_all add: desk_serve_def)

lemma served: "fst (serve desk_serve serve_args desk_server) = Inr 0"
  "cs_config (vs_client (snd (serve desk_serve serve_args desk_server))) \<noteq> NoContent"
  "(MakeService, True) \<in> set (vs_log (snd (serve desk_serve serve_args desk_server)))"
  "(ShutDispatcher, False) \<notin> set (vs_log (snd (serve desk_serve serve_args desk_server)))"
  "(CloseServer, False) \<notin> set (vs_log (snd (serve desk_serve serve_args desk_server)))"
  by (simp_all add: desk_server_def serve_run desk_run serve_facts desk_serve_fields desk_deps_of_cli desk_cli_fields res_simps)


end
