(* ===== verification/Spec2Isabelle.thy ===== *)
theory Spec2Isabelle
  imports RuntimeWitness ServiceWitness BrokerWitness RpcWitness HostWitness MigrationWitness
    InstanceWitness AppServerProps CliWitness
begin

text \<open>
  A model of \<open>codex_worker\<close>, the Python daemon under
  \<open>skills/subagent-driven-development/scripts/codex_worker/\<close> that runs Codex threads as named
  workers for other agents. The daemon owns one WebSocket connection to the Codex app server,
  keeps a registry of workers, follows the live state of their turns from notifications,
  answers clients through a facade, forwards interactive frontends to the app server, and
  reports finished turns back to the Claude session that started them.

  \<^bold>\<open>Theories and the code they model\<close>

  Prelude has the result type \<open>'e + 'a\<close> with its binds, dictionaries as association lists in
  insertion order (\<open>dget\<close>, \<open>dset\<close>, \<open>ddel\<close> are \<open>get\<close>, assignment and \<open>pop\<close>) and the lemma
  collections. Values has JSON values as \<open>json.loads\<close> builds them (floats are a rational, an
  infinity or NaN; booleans compare equal to integers as in Python), exceptions as the
  datatype \<open>exn\<close>, and the string functions the code uses. Characters are bytes.

  Models, Records and Inventory are \<open>models.py\<close>; Listener and parts of Commands are
  \<open>service_domain.py\<close>; Strict is the annotation-driven loader of \<open>commands.py\<close> and Commands the
  classes it loads, a class being an annotation with its field list, its adjustment of old
  dictionaries and the checks of its \<open>__post_init__\<close>; Faults is \<open>FacadeFault\<close>.

  Runtime, RuntimeOps, RuntimeInv and RuntimeProps are \<open>runtime.py\<close>: each statement block under
  one acquisition of a session's condition is a definition over the store, all threads
  together a list of actions run one after the other (\<open>run\<close>), the relation \<open>sess_step\<close> what one
  session can do, with the invariant \<open>store_inv\<close> kept by every action.

  Gate and Gateway are \<open>websocket_gateway.py\<close>: the maintenance gate as sections and a step
  relation, and the two pumps of a frontend's bridge. The locale \<open>mutation_gate\<close> is what a user
  of the gate relies on; Gate interprets it and Gateway's accounting rests on it.

  Transport is \<open>websocket_transport.py\<close>: the connection with its pending calls, its mail and its
  approvals queue; sockets are numbers, and what arrives and what a send does are arguments.

  Registry is \<open>registry.py\<close>, CallbackStore \<open>callback_store.py\<close> and \<open>callback_domain.py\<close>; a write
  is one of three outcomes: done, failed before the file was replaced, failed after.
  CallbackStore ends in a refinement: \<open>store_move\<close> is the abstract store over maps of typed
  bindings and entries. The locale \<open>durable_outbox\<close> in CallbackProps has the laws of an outbox
  that survives restarts; it is interpreted on \<open>store_move\<close> and carries the delivery properties.

  Projection is \<open>projection.py\<close>; Dispatcher and DispatchProps are \<open>callback_dispatcher.py\<close>: the
  sections under its condition, the worker thread's iteration and the callers' compound
  operations over a world of dispatcher, store file and artifact directory.

  Acts has statements that may raise and change a state (\<open>andthen\<close>, \<open>attempt\<close>, \<open>always\<close>, \<open>each\<close>),
  postconditions for both ways to end (\<open>hoare\<close>) and frames: \<open>keeps R m\<close>, with the locale
  \<open>frame_relation\<close> of its rules for a reflexive and transitive relation. Paths is POSIX path text
  and \<open>path_security.py\<close>; ClaudeTransport is \<open>claude_transport.py\<close>, its state the count of system
  calls, the open sockets and what was written, the host answering by the moment.

  Broker, BrokerOps, BrokerTurns and Maintenance are \<open>broker.py\<close>: an operation is an act over the
  gate, the registry, the runtime store and the requests made of Codex, cut into the sections
  it takes their locks in; before every section the other threads may change all of them.
  BrokerProps, SessionProps and MaintenanceProps prove what holds under conditions on those
  changes (\<open>alone_on\<close>: no other thread reserves the session, which every section of another
  thread satisfies by \<open>other_sections_leave\<close>; \<open>sound_surroundings\<close>: other threads drop no record,
  a failed write is an OSError, the listener is valid).

  RpcWire has JSON text and the envelopes of \<open>rpc.py\<close>, Rpc the validation of parameters, the
  dispatch tables and the handler of a connection, RpcSocket the server's socket path and start
  lock and the client call; a connection's bytes and every system call are answers of the host.
  RpcProps: one response per request, shutdown after an accepted stop, raw validation is the
  server's; RpcSocketProps: only verified endpoints get a request, only dead or own sockets are
  removed, a call returns the operation's result.

  Facade, FacadeOps and FacadeQueries are \<open>WorkerFacade\<close> of \<open>facade.py\<close>, ServiceFacade the class
  of that name: each operation is an act over the broker's state and the ports of its
  dependencies, and answers a reply or a fault. FacadeCalls shows which requests an operation
  makes, FacadeHistory what a history page promises, FacadeProps how a stop reaches the server.

  Service is \<open>service.py\<close>: start, roll-back and teardown of the private process, with a log of
  the calls; ServiceProps shows that a teardown touches only what the service owns.

  MigrationSources and MigrationPlan are the discovery and the planning of \<open>migration.py\<close>,
  Migration its disk, ledger, intent and commit, MigrationResolve the resolution of a conflict,
  the scan and the live coordinator. \<open>_canonical\<close> text is the value with its keys sorted.
  MigrationProps shows that a plan loses no record and keeps identifiers apart, MigrationCommit
  the order of a commit and that a resolution can be taken up again whatever fails,
  MigrationRepair that an interrupted commit is planned again as it was, MigrationLive that a
  scan is stable and that a live resolution is serialized by the gate. The properties name their
  own predicates over the disk (\<open>in_order\<close>, \<open>committed\<close>, \<open>recoverable\<close>).

  Instance has the identities, the derived paths, the owner-only files and the start lock of
  \<open>instance.py\<close>, InstanceManager and ServiceClient its two managers: an operation is an act over a
  clock, a log of what was asked of the host and the two files a manager writes (\<open>client_state\<close>).
  ServiceClientProps shows that a start gives the service that was asked for, that the
  configuration names a service that answered, that a failed launch leaves no process and that a
  stop ends when the service is gone; its collection \<open>calm\<close> has the frames of the operations that
  neither start nor end anything. InstanceProps has the paths of different instances apart, the
  identity's file read back, and that only dead sockets are unlinked.

  AppServer is \<open>app_server.py\<close>: the adapter over the pipes of a child as a list of events of its
  threads, and the cleanup of the process. AppServerProps: no call is stranded, the first failure
  is the last, the cleanup reports and kills only after it asked.

  CliText, Cli and CliServe are \<open>cli.py\<close>: the words of a command and the scans of raw arguments (with
  \<open>version.py\<close>), what a command does once its arguments are parsed, and \<open>daemon serve\<close> as the stages
  that put the parts above together. CliProps: printed commands are checked, a refused command
  reaches nothing, a raw command starts nothing; CliServeProps: the daemon takes down what it made.

  Typing characterizes the values the loader returns.

  The theories named \<open>...Witness\<close> apply the properties at concrete inputs; AppServerProps has its own.

  \<^bold>\<open>Parameters\<close>

  Path resolution and host lookup (\<open>model_env\<close>), JSON text (\<open>loads\<close>, \<open>dumps\<close>), digests, clocks,
  fresh identifiers, the outcomes of writes and sends, and the handlers clients install are
  arguments of the definitions, and so is the parser that \<open>build_parser\<close> of \<open>cli.py\<close> declares
  (\<open>hc_parse\<close>). Hypotheses about them are named: \<open>resolution_canonical\<close> states
  that strict path resolution yields an absolute path that resolves to itself.

  \<^bold>\<open>Termination and bounds\<close>

  Loops are structural recursions over what they consume, except \<open>trim_dict\<close> (by the size of
  the dictionary). A loop that waits consumes a list of observations. \<open>drain_ready\<close> has fuel,
  and \<open>None\<close> is a drain that is not over. Paging needs as many pages as events are retained. The
  broker's waits and the paging of its inventory take a number of rounds and give \<open>None\<close> when
  they have not ended within them; the inventory ends within the moments until its deadline.
  A history ends within as many rounds as turns are asked for while its pages make progress.
  Waits of the service, of its clients and of the live coordinator for other threads or processes
  take a number of looks, the locks a number of attempts; \<open>None\<close> is a wait that is not over.

  \<^bold>\<open>Not modelled\<close>

  Threads, sockets, processes and file modes as such: they appear as actions of a run, as answers
  of a host by the moment and as outcomes of writes. The listening sockets and pump threads of the
  gateway, the grammar of the command line (\<open>build_parser\<close>, which argparse interprets), the text that
  is printed for a response, the prompts, hooks and installers beside the program.
\<close>

end
